(* ===== verification/Prelude.thy ===== *)
theory Prelude
  imports Main "HOL-Library.Word" "HOL-Library.Char_ord" "HOL-Library.List_Lexorder"
    "HOL-Library.Option_ord" "HOL-Library.Product_Lexorder" "HOL-Library.Multiset"
begin

text \<open>
  Shared vocabulary of the development: machine integers, \<open>Result\<close> values, the parts of
  Rust's \<open>str\<close>, \<open>Vec\<close>, \<open>Option\<close> and integer interfaces that the program uses, and the
  lemma collections the component theories rest on.

  A Rust \<open>String\<close> is the list of its UTF-8 bytes, so \<^term>\<open>length\<close> is \<open>str::len\<close> and
  equality and order are Rust's. A \<open>Result\<close> is a sum with the error on the left.
\<close>

named_theorems res_simps \<open>inversion of successful results\<close>
named_theorems vec_simps \<open>facts on the vector operations\<close>

section \<open>Machine integers\<close>

type_synonym u8 = "8 word"
type_synonym u32 = "32 word"
type_synonym u64 = "64 word"
type_synonym u128 = "128 word"
type_synonym i64 = "64 word"
type_synonym f32_bits = "32 word"
type_synonym usize = "64 word"

definition saturating_add :: "'a::len word \<Rightarrow> 'a word \<Rightarrow> 'a word" where
  "saturating_add a b = (if unat a + unat b < 2 ^ LENGTH('a) then a + b else - 1)"

definition checked_add :: "'a::len word \<Rightarrow> 'a word \<Rightarrow> 'a word option" where
  "checked_add a b = (if unat a + unat b < 2 ^ LENGTH('a) then Some (a + b) else None)"

definition len_u64 :: "'a list \<Rightarrow> u64" where
  "len_u64 xs = of_nat (length xs)"

lemma unat_plus_no_overflow:
  "unat a + unat b < 2 ^ LENGTH('a) \<Longrightarrow> unat (a + b :: 'a::len word) = unat a + unat b"
  by (simp add: unat_word_ariths)

lemma checked_add_Some:
  "checked_add a b = Some c \<Longrightarrow> unat (c :: 'a::len word) = unat a + unat b"
  by (auto simp: checked_add_def unat_plus_no_overflow split: if_splits)

lemma checked_add_saturating:
  "checked_add a b = Some c \<Longrightarrow> saturating_add a b = c"
  by (auto simp: checked_add_def saturating_add_def split: if_splits)

lemma saturating_add_ge:
  "unat (saturating_add a b) \<ge> unat (a :: 'a::len word)"
proof (cases "unat a + unat b < 2 ^ LENGTH('a)")
  case True
  then show ?thesis by (simp add: saturating_add_def unat_plus_no_overflow)
next
  case False
  have "a \<le> - 1" by simp
  with False show ?thesis by (simp add: saturating_add_def word_le_nat_alt)
qed

lemma of_nat_le_u64:
  "m \<le> n \<Longrightarrow> n < 2 ^ 64 \<Longrightarrow> (of_nat m :: u64) \<le> of_nat n"
  by (simp add: word_le_nat_alt unat_of_nat)

lemma of_nat_u64_le_iff:
  "m < 2 ^ 64 \<Longrightarrow> n < 2 ^ 64 \<Longrightarrow> ((of_nat m :: u64) \<le> of_nat n) = (m \<le> n)"
  by (simp add: word_le_nat_alt unat_of_nat)

lemma unat_of_nat_u64: "n < 2 ^ 64 \<Longrightarrow> unat (of_nat n :: u64) = n"
  by (simp add: unat_of_nat)

section \<open>Results and options\<close>

fun res_bind :: "'e + 'a \<Rightarrow> ('a \<Rightarrow> 'e + 'b) \<Rightarrow> 'e + 'b" where
  "res_bind (Inl e) f = Inl e"
| "res_bind (Inr a) f = f a"

fun map_err :: "('d \<Rightarrow> 'e) \<Rightarrow> 'd + 'a \<Rightarrow> 'e + 'a" where
  "map_err f (Inl e) = Inl (f e)"
| "map_err f (Inr a) = Inr a"

fun is_ok :: "'e + 'a \<Rightarrow> bool" where
  "is_ok (Inl e) = False"
| "is_ok (Inr a) = True"

fun ok_or :: "'e \<Rightarrow> 'a option \<Rightarrow> 'e + 'a" where
  "ok_or e None = Inl e"
| "ok_or e (Some a) = Inr a"

fun is_some_and :: "'a option \<Rightarrow> ('a \<Rightarrow> bool) \<Rightarrow> bool" where
  "is_some_and None P = False"
| "is_some_and (Some a) P = P a"

fun unwrap_or :: "'a \<Rightarrow> 'a option \<Rightarrow> 'a" where
  "unwrap_or d None = d"
| "unwrap_or d (Some a) = a"

lemma res_bind_Inr_iff [res_simps]:
  "res_bind r f = Inr b \<longleftrightarrow> (\<exists>a. r = Inr a \<and> f a = Inr b)"
  by (cases r) auto

lemma res_bind_Inl_iff:
  "res_bind r f = Inl e \<longleftrightarrow> r = Inl e \<or> (\<exists>a. r = Inr a \<and> f a = Inl e)"
  by (cases r) auto

lemma res_bind_assoc:
  "res_bind (res_bind r f) g = res_bind r (\<lambda>a. res_bind (f a) g)"
  by (cases r) auto

lemma res_bind_cong [fundef_cong]:
  "r = r' \<Longrightarrow> (\<And>a. r' = Inr a \<Longrightarrow> f a = g a) \<Longrightarrow> res_bind r f = res_bind r' g"
  by (cases r') auto

lemma map_err_Inr_iff [res_simps]: "map_err f r = Inr a \<longleftrightarrow> r = Inr a"
  by (cases r) auto

lemma map_err_Inl_iff: "map_err f r = Inl e \<longleftrightarrow> (\<exists>d. r = Inl d \<and> e = f d)"
  by (cases r) auto

lemma ok_or_Inr_iff [res_simps]: "ok_or e r = Inr a \<longleftrightarrow> r = Some a"
  by (cases r) auto

lemma is_ok_iff: "is_ok r \<longleftrightarrow> (\<exists>a. r = Inr a)"
  by (cases r) auto

lemma if_Inl_Inr_iff [res_simps]:
  "(if c then Inl e else r) = Inr a \<longleftrightarrow> \<not> c \<and> r = Inr a"
  by simp

lemma is_some_and_iff: "is_some_and r P \<longleftrightarrow> (\<exists>a. r = Some a \<and> P a)"
  by (cases r) auto

section \<open>Vectors\<close>

fun position_index :: "('a \<Rightarrow> bool) \<Rightarrow> 'a list \<Rightarrow> nat option" where
  "position_index P [] = None"
| "position_index P (x # xs) = (if P x then Some 0 else map_option Suc (position_index P xs))"

definition push_unique :: "'a list \<Rightarrow> 'a \<Rightarrow> 'a list" where
  "push_unique xs x = (if x \<in> set xs then xs else xs @ [x])"

fun dedup_by :: "('a \<Rightarrow> 'a \<Rightarrow> bool) \<Rightarrow> 'a list \<Rightarrow> 'a list" where
  "dedup_by same [] = []"
| "dedup_by same [x] = [x]"
| "dedup_by same (x # y # ys) =
     (if same y x then dedup_by same (x # ys) else x # dedup_by same (y # ys))"

fun find_map :: "('a \<Rightarrow> 'b option) \<Rightarrow> 'a list \<Rightarrow> 'b option" where
  "find_map f [] = None"
| "find_map f (x # xs) = (case f x of None \<Rightarrow> find_map f xs | Some y \<Rightarrow> Some y)"

fun filter_map :: "('a \<Rightarrow> 'b option) \<Rightarrow> 'a list \<Rightarrow> 'b list" where
  "filter_map f [] = []"
| "filter_map f (x # xs) =
     (case f x of None \<Rightarrow> filter_map f xs | Some y \<Rightarrow> y # filter_map f xs)"

lemma set_filter_map [vec_simps]: "set (filter_map f xs) = {y. \<exists>x \<in> set xs. f x = Some y}"
  by (induction xs) (auto split: option.splits)

lemma position_index_Some:
  "position_index P xs = Some i \<Longrightarrow>
     i < length xs \<and> P (xs ! i) \<and> (\<forall>j < i. \<not> P (xs ! j))"
proof (induction xs arbitrary: i)
  case Nil
  then show ?case by simp
next
  case (Cons x xs)
  show ?case
  proof (cases "P x")
    case True
    with Cons.prems show ?thesis by simp
  next
    case False
    with Cons.prems obtain k where k: "position_index P xs = Some k" and i: "i = Suc k"
      by auto
    from Cons.IH [OF k] False i show ?thesis
      by (auto simp: less_Suc_eq_0_disj)
  qed
qed

lemma position_index_None: "position_index P xs = None \<longleftrightarrow> (\<forall>x \<in> set xs. \<not> P x)"
  by (induction xs) auto

lemma position_index_append:
  "position_index P xs = Some i \<Longrightarrow> position_index P (xs @ ys) = Some i"
  by (induction xs arbitrary: i) (auto split: if_splits)

lemma position_index_take:
  "position_index P xs = Some i \<Longrightarrow> i < n \<Longrightarrow> position_index P (take n xs) = Some i"
proof (induction xs arbitrary: i n)
  case Nil
  then show ?case by simp
next
  case (Cons x xs)
  then show ?case by (cases n) (auto split: if_splits)
qed

lemma push_unique_set [vec_simps]: "set (push_unique xs x) = insert x (set xs)"
  by (auto simp: push_unique_def)

lemma push_unique_distinct [vec_simps]: "distinct (push_unique xs x) = distinct xs"
  by (simp add: push_unique_def)

lemma dedup_by_hd: "xs \<noteq> [] \<Longrightarrow> dedup_by same xs \<noteq> [] \<and> hd (dedup_by same xs) = hd xs"
  by (induction same xs rule: dedup_by.induct) auto

lemma set_dedup_by: "set (dedup_by same xs) \<subseteq> set xs"
  by (induction same xs rule: dedup_by.induct) auto

text \<open>
  Consecutive de-duplication by a key of a list sorted by that key leaves exactly one
  element for each key.
\<close>

lemma dedup_by_key_keys:
  "(\<lambda>x. f x) ` set (dedup_by (\<lambda>a b. f a = f b) xs) = f ` set xs"
  by (induction "\<lambda>a b. f a = f b" xs rule: dedup_by.induct) auto

lemma dedup_by_key_strict:
  "sorted (map f xs) \<Longrightarrow> sorted_wrt (<) (map f (dedup_by (\<lambda>a b. f a = f b) xs))"
  for f :: "'a \<Rightarrow> 'b::linorder"
proof (induction "\<lambda>a b. f a = f b" xs rule: dedup_by.induct)
  case (3 x y ys)
  show ?case
  proof (cases "f y = f x")
    case True
    with 3 show ?thesis by simp
  next
    case False
    have le: "f x < f z" if "z \<in> set (y # ys)" for z
      using 3(3) False that by (auto simp: less_le)
    have "\<forall>z \<in> set (dedup_by (\<lambda>a b. f a = f b) (y # ys)). f x < f z"
      using le set_dedup_by by fastforce
    with False 3 show ?thesis by simp
  qed
qed simp_all

lemma sorted_strict_dedup_id:
  "sorted_wrt (<) (map f xs) \<Longrightarrow> dedup_by (\<lambda>a b. f a = f b) xs = xs"
  for f :: "'a \<Rightarrow> 'b::linorder"
  by (induction "\<lambda>a b. f a = f b" xs rule: dedup_by.induct) auto

text \<open>Sorting by an injective key depends on the multiset of the elements only.\<close>

lemma sort_key_mset_cong:
  assumes "mset xs = mset ys" and "inj_on f (set xs)"
  shows "sort_key f xs = sort_key f ys"
proof -
  have "map f (sort_key f xs) = sort (map f xs)" for xs
    by (rule properties_for_sort [symmetric]) (simp_all add: mset_map [symmetric] del: mset_map, simp)
  then have m: "map f (sort_key f xs) = map f (sort_key f ys)"
    using assms(1) by (metis mset_map sorted_list_of_multiset_mset)
  have s: "set (sort_key f xs) = set xs" "set (sort_key f ys) = set xs"
    using mset_eq_setD [OF assms(1)] by simp_all
  show ?thesis
    by (rule map_inj_on [OF m]) (use s assms(2) in simp)
qed

end
