(* ===== verification/RustStr.thy ===== *)
theory RustStr
  imports Prelude
begin

text \<open>
  The operations of Rust's \<open>str\<close> the program uses, on UTF-8 byte strings. White space is
  Unicode's \<open>White_Space\<close> property, as for \<open>str::trim\<close> and \<open>str::split_whitespace\<close>:
  the 25 code points are listed by their UTF-8 encodings. Lower-casing needs Unicode's case
  tables, so it is an argument of the definitions that use it.
\<close>

definition starts_with :: "string \<Rightarrow> string \<Rightarrow> bool" where
  "starts_with s p \<longleftrightarrow> take (length p) s = p"

definition white_space :: "string list" where
  "white_space =
     [[CHR 0x09], [CHR 0x0A], [CHR 0x0B], [CHR 0x0C], [CHR 0x0D], [CHR 0x20],
      [CHR 0xC2, CHR 0x85], [CHR 0xC2, CHR 0xA0], [CHR 0xE1, CHR 0x9A, CHR 0x80],
      [CHR 0xE2, CHR 0x80, CHR 0x80], [CHR 0xE2, CHR 0x80, CHR 0x81],
      [CHR 0xE2, CHR 0x80, CHR 0x82], [CHR 0xE2, CHR 0x80, CHR 0x83],
      [CHR 0xE2, CHR 0x80, CHR 0x84], [CHR 0xE2, CHR 0x80, CHR 0x85],
      [CHR 0xE2, CHR 0x80, CHR 0x86], [CHR 0xE2, CHR 0x80, CHR 0x87],
      [CHR 0xE2, CHR 0x80, CHR 0x88], [CHR 0xE2, CHR 0x80, CHR 0x89],
      [CHR 0xE2, CHR 0x80, CHR 0x8A], [CHR 0xE2, CHR 0x80, CHR 0xA8],
      [CHR 0xE2, CHR 0x80, CHR 0xA9], [CHR 0xE2, CHR 0x80, CHR 0xAF],
      [CHR 0xE2, CHR 0x81, CHR 0x9F], [CHR 0xE3, CHR 0x80, CHR 0x80]]"

text \<open>The first of the encodings that a string starts with.\<close>

definition leading :: "string list \<Rightarrow> string \<Rightarrow> string option" where
  "leading seqs s = find (\<lambda>w. w \<noteq> [] \<and> starts_with s w) seqs"

lemma leading_Some: "leading seqs s = Some w \<Longrightarrow> w \<noteq> [] \<and> s \<noteq> [] \<and> take (length w) s = w"
  by (auto simp: leading_def find_Some_iff starts_with_def)

lemma leading_shorter: "leading seqs s = Some w \<Longrightarrow> length (drop (length w) s) < length s"
  by (auto dest!: leading_Some)

function strip_front :: "string list \<Rightarrow> string \<Rightarrow> string" where
  "strip_front seqs s =
     (case leading seqs s of None \<Rightarrow> s | Some w \<Rightarrow> strip_front seqs (drop (length w) s))"
  by pat_completeness auto
termination
  by (relation "measure (\<lambda>(seqs, s). length s)") (simp_all add: leading_shorter del: length_drop)

declare strip_front.simps [simp del]

definition trim_start :: "string \<Rightarrow> string" where
  "trim_start s = strip_front white_space s"

definition trim_end :: "string \<Rightarrow> string" where
  "trim_end s = rev (strip_front (map rev white_space) (rev s))"

definition trim :: "string \<Rightarrow> string" where
  "trim s = trim_end (trim_start s)"

text \<open>\<open>value.trim().is_empty()\<close>, the program's test for a missing text.\<close>

definition blank :: "string \<Rightarrow> bool" where
  "blank s \<longleftrightarrow> trim s = []"

function split_ws_from :: "string \<Rightarrow> string \<Rightarrow> string list" where
  "split_ws_from acc s =
     (case s of
        [] \<Rightarrow> (if acc = [] then [] else [acc])
      | c # cs \<Rightarrow>
          (case leading white_space s of
             Some w \<Rightarrow> (if acc = [] then [] else [acc]) @ split_ws_from [] (drop (length w) s)
           | None \<Rightarrow> split_ws_from (acc @ [c]) cs))"
  by pat_completeness auto
termination
  by (relation "measure (\<lambda>(acc, s). length s)") (auto dest!: leading_Some)

declare split_ws_from.simps [simp del]

definition split_whitespace :: "string \<Rightarrow> string list" where
  "split_whitespace s = split_ws_from [] s"

fun join :: "string \<Rightarrow> string list \<Rightarrow> string" where
  "join sep [] = []"
| "join sep [s] = s"
| "join sep (s # t # ts) = s @ sep @ join sep (t # ts)"

section \<open>Trimming\<close>

lemma leading_strip_front: "leading seqs (strip_front seqs s) = None"
proof (induction seqs s rule: strip_front.induct)
  case (1 seqs s)
  then show ?case
    by (cases "leading seqs s") (simp_all add: strip_front.simps [of seqs s])
qed

lemma strip_front_id: "leading seqs s = None \<Longrightarrow> strip_front seqs s = s"
  by (simp add: strip_front.simps [of seqs s])

lemma strip_front_idem: "strip_front seqs (strip_front seqs s) = strip_front seqs s"
  by (rule strip_front_id) (rule leading_strip_front)

lemma strip_front_suffix: "\<exists>p. s = p @ strip_front seqs s"
proof (induction seqs s rule: strip_front.induct)
  case (1 seqs s)
  show ?case
  proof (cases "leading seqs s")
    case None
    then show ?thesis by (simp add: strip_front_id)
  next
    case (Some w)
    from "1" [OF Some] obtain p where "drop (length w) s = p @ strip_front seqs s"
      using Some by (auto simp: strip_front.simps [of seqs s])
    then have "s = (take (length w) s @ p) @ strip_front seqs s"
      by (metis append_assoc append_take_drop_id)
    then show ?thesis by blast
  qed
qed

lemma length_strip_front: "length (strip_front seqs s) \<le> length s"
  using strip_front_suffix [of s seqs] by (metis length_append le_add2)

lemma leading_prefix_None:
  "leading seqs (s @ t) = None \<Longrightarrow> leading seqs s = None"
  by (force simp: leading_def find_None_iff starts_with_def)

lemma trim_end_prefix: "\<exists>t. s = trim_end s @ t"
  using strip_front_suffix [of "rev s" "map rev white_space"]
  by (metis rev_append rev_rev_ident trim_end_def)

lemma trim_end_idem: "trim_end (trim_end s) = trim_end s"
  by (simp add: trim_end_def strip_front_idem)

lemma trim_idem [simp]: "trim (trim s) = trim s"
proof -
  obtain t where t: "trim_start s = trim s @ t"
    using trim_end_prefix [of "trim_start s"] by (auto simp: trim_def)
  have "leading white_space (trim_start s) = None"
    by (simp add: trim_start_def leading_strip_front)
  then have "leading white_space (trim s) = None"
    unfolding t by (rule leading_prefix_None)
  then have "trim_start (trim s) = trim s"
    by (simp add: trim_start_def strip_front_id)
  then show ?thesis
    by (simp add: trim_def trim_end_idem)
qed

lemma length_trim: "length (trim s) \<le> length s"
proof -
  have "length (trim_end u) \<le> length u" for u
    using trim_end_prefix [of u] by (metis le_add1 length_append)
  then show ?thesis
    using length_strip_front [of white_space s]
    by (metis le_trans trim_def trim_start_def)
qed

lemma blank_trim [simp]: "blank (trim s) = blank s"
  by (simp add: blank_def)

section \<open>Splitting\<close>

text \<open>
  No encoding of a white space starts with a continuation byte, so a scan from the front never
  matches across the border to a trailing white space.
\<close>

definition continuation :: "char \<Rightarrow> bool" where
  "continuation c \<longleftrightarrow> CHR 0x80 \<le> c \<and> c < CHR 0xC0"

lemma white_space_shape:
  "list_all (\<lambda>w. w \<noteq> [] \<and> \<not> continuation (hd w) \<and> list_all continuation (tl w) \<and>
     leading white_space w = Some w) white_space"
  by code_simp

lemma starts_with_append_white:
  assumes w: "w \<in> set white_space" and v: "v \<in> set white_space" and u: "u \<noteq> []"
  shows "starts_with (u @ w) v \<longleftrightarrow> starts_with u v"
proof (cases "length v \<le> length u")
  case True
  then show ?thesis by (simp add: starts_with_def)
next
  case False
  have w_lead: "w \<noteq> []" "\<not> continuation (hd w)" and v_cont: "\<forall>c \<in> set (tl v). continuation c"
    using white_space_shape w v by (auto simp: list_all_iff)
  have "v ! length u \<in> set (tl v)"
    using False u by (cases v; cases u) (auto simp: nth_Cons')
  with v_cont w_lead have "v ! length u \<noteq> hd w" by auto
  moreover have "v ! length u = hd w" if "take (length v) (u @ w) = v"
  proof -
    have "v ! length u = take (length v) (u @ w) ! length u" using that by simp
    also have "\<dots> = hd w" using False w_lead(1) by (simp add: nth_append hd_conv_nth)
    finally show ?thesis .
  qed
  moreover have "\<not> starts_with u v" using False by (auto simp: starts_with_def)
  ultimately show ?thesis by (auto simp: starts_with_def)
qed

lemma leading_append_white:
  "w \<in> set white_space \<Longrightarrow> u \<noteq> [] \<Longrightarrow> leading white_space (u @ w) = leading white_space u"
  unfolding leading_def by (rule find_cong) (auto simp: starts_with_append_white)

lemma split_ws_append_white:
  assumes w: "w \<in> set white_space"
  shows "split_ws_from acc (u @ w) = split_ws_from acc u"
proof (induction acc u rule: split_ws_from.induct)
  case (1 acc u)
  show ?case
  proof (cases u)
    case Nil
    have "w \<noteq> []" "leading white_space w = Some w"
      using white_space_shape w by (auto simp: list_all_iff)
    then show ?thesis
      by (cases w) (simp_all add: Nil split_ws_from.simps [of acc "[]"]
          split_ws_from.simps [of acc "_ # _"] split_ws_from.simps [of "[]" "[]"])
  next
    case (Cons c cs)
    then have lead: "leading white_space (u @ w) = leading white_space u"
      using leading_append_white [OF w, of u] by simp
    show ?thesis
    proof (cases "leading white_space u")
      case None
      with lead Cons "1.IH"(1) [OF Cons None] show ?thesis
        by (simp add: split_ws_from.simps [of acc "_ # _"])
    next
      case (Some v)
      have "length v \<le> length u"
        using leading_Some [OF Some] by (metis length_take min.cobounded1)
      then have "drop (length v) (u @ w) = drop (length v) u @ w" by simp
      with lead Some Cons "1.IH"(2) [OF Cons Some] show ?thesis
        by (simp add: split_ws_from.simps [of acc "_ # _"])
    qed
  qed
qed

lemma strip_front_pieces: "\<exists>ws. set ws \<subseteq> set seqs \<and> s = concat ws @ strip_front seqs s"
proof (induction seqs s rule: strip_front.induct)
  case (1 seqs s)
  show ?case
  proof (cases "leading seqs s")
    case None
    then show ?thesis by (intro exI [of _ "[]"]) (simp add: strip_front_id)
  next
    case (Some w)
    from "1" [OF Some] obtain ws where ws: "set ws \<subseteq> set seqs"
      "drop (length w) s = concat ws @ strip_front seqs s"
      using Some by (auto simp: strip_front.simps [of seqs s])
    have "w \<in> set seqs" using Some by (auto simp: leading_def find_Some_iff)
    moreover have "s = w @ drop (length w) s"
      using leading_Some [OF Some] by (metis append_take_drop_id)
    ultimately show ?thesis using ws by (intro exI [of _ "w # ws"]) simp
  qed
qed

lemma split_ws_trim_start: "split_ws_from [] (strip_front white_space s) = split_ws_from [] s"
proof (induction white_space s rule: strip_front.induct)
  case (1 s)
  show ?case
  proof (cases "leading white_space s")
    case None
    then show ?thesis by (simp add: strip_front_id)
  next
    case (Some w)
    then have "s \<noteq> []" using leading_Some by blast
    with Some "1" [OF Some] show ?thesis
      by (cases s) (simp_all add: strip_front.simps [of white_space "_ # _"]
          split_ws_from.simps [of "[]" "_ # _"])
  qed
qed

lemma split_ws_concat_white:
  "set ws \<subseteq> set white_space \<Longrightarrow> split_ws_from acc (u @ concat ws) = split_ws_from acc u"
  by (induction ws rule: rev_induct)
    (simp_all add: split_ws_append_white flip: append_assoc)

lemma split_whitespace_trim [simp]: "split_whitespace (trim s) = split_whitespace s"
proof -
  have "split_ws_from [] (trim_end u) = split_ws_from [] u" for u
  proof -
    obtain ws where ws: "set ws \<subseteq> set (map rev white_space)"
      and u: "rev u = concat ws @ strip_front (map rev white_space) (rev u)"
      using strip_front_pieces by blast
    have "u = trim_end u @ concat (map rev (rev ws))"
      using arg_cong [OF u, of rev] by (simp add: trim_end_def rev_concat rev_map)
    moreover have "set (map rev (rev ws)) \<subseteq> set white_space"
      using ws by auto
    ultimately show ?thesis by (metis split_ws_concat_white)
  qed
  then show ?thesis
    by (simp add: split_whitespace_def trim_def trim_start_def split_ws_trim_start)
qed

lemma trim_abc: "trim '' ab c '' = ''ab c''" by code_simp

end
