(* ===== verification/BTreeMap.thy ===== *)
theory BTreeMap
  imports Prelude
begin

text \<open>
  \<open>BTreeMap\<close>: the list of its entries in key order, so that \<open>values()\<close>, \<open>keys()\<close> and
  \<open>iter()\<close> are the list's own traversals. Lookup and insertion are what the map laws below
  say; \<open>bt_modify\<close> is an update through \<open>get_mut\<close> and \<open>bt_map_values\<close> one through
  \<open>values_mut\<close>. The laws are the interface \<open>ordered_map\<close>, whose clients are the facts on
  checks that scan all values before an insertion.
\<close>

type_synonym ('k, 'v) btree = "('k \<times> 'v) list"

abbreviation bt_empty :: "('k, 'v) btree" where
  "bt_empty \<equiv> []"

abbreviation bt_get :: "('k, 'v) btree \<Rightarrow> 'k \<Rightarrow> 'v option" where
  "bt_get \<equiv> map_of"

fun bt_insert :: "'k::linorder \<Rightarrow> 'v \<Rightarrow> ('k, 'v) btree \<Rightarrow> ('k, 'v) btree" where
  "bt_insert k v [] = [(k, v)]"
| "bt_insert k v ((k', v') # m) =
     (if k < k' then (k, v) # (k', v') # m
      else if k = k' then (k, v) # m
      else (k', v') # bt_insert k v m)"

definition bt_contains :: "('k, 'v) btree \<Rightarrow> 'k \<Rightarrow> bool" where
  "bt_contains m k \<longleftrightarrow> map_of m k \<noteq> None"

definition bt_values :: "('k, 'v) btree \<Rightarrow> 'v list" where
  "bt_values m = map snd m"

definition bt_keys :: "('k, 'v) btree \<Rightarrow> 'k list" where
  "bt_keys m = map fst m"

definition bt_modify :: "'k \<Rightarrow> ('v \<Rightarrow> 'v) \<Rightarrow> ('k, 'v) btree \<Rightarrow> ('k, 'v) btree" where
  "bt_modify k f m = map (\<lambda>(k', v). (k', if k' = k then f v else v)) m"

definition bt_map_values :: "('v \<Rightarrow> 'v) \<Rightarrow> ('k, 'v) btree \<Rightarrow> ('k, 'v) btree" where
  "bt_map_values f m = map (\<lambda>(k, v). (k, f v)) m"

definition bt_wf :: "('k::linorder, 'v) btree \<Rightarrow> bool" where
  "bt_wf m \<longleftrightarrow> sorted_wrt (<) (map fst m)"

section \<open>The laws\<close>

lemma bt_get_insert [simp]: "map_of (bt_insert k v m) = (map_of m)(k \<mapsto> v)"
  by (induction k v m rule: bt_insert.induct) auto

lemma bt_get_modify [simp]:
  "map_of (bt_modify k f m) = (\<lambda>k'. if k' = k then map_option f (map_of m k) else map_of m k')"
  by (induction m) (auto simp: bt_modify_def)

lemma bt_get_map_values [simp]:
  "map_of (bt_map_values f m) = (\<lambda>k. map_option f (map_of m k))"
  by (induction m) (auto simp: bt_map_values_def)

lemma bt_map_values_id:
  assumes "\<And>k v. (k, v) \<in> set m \<Longrightarrow> f v = v"
  shows "bt_map_values f m = m"
  using assms by (induction m) (auto simp: bt_map_values_def)

lemma set_bt_insert_keys: "fst ` set (bt_insert k v m) = insert k (fst ` set m)"
  by (induction k v m rule: bt_insert.induct) auto

lemma bt_wf_empty [simp]: "bt_wf []"
  by (simp add: bt_wf_def)

lemma bt_wf_insert [simp]: "bt_wf m \<Longrightarrow> bt_wf (bt_insert k v m)"
proof (induction k v m rule: bt_insert.induct)
  case (2 k v k' v' m)
  have *: "\<forall>x \<in> fst ` set (bt_insert k v m). k' < x" if "k' < k"
    using 2(2) that by (auto simp: set_bt_insert_keys bt_wf_def)
  show ?case
  proof (cases "k < k' \<or> k = k'")
    case True
    with 2(2) show ?thesis by (auto simp: bt_wf_def)
  next
    case False
    then have lt: "k' < k" by auto
    with 2 have "bt_wf (bt_insert k v m)" by (auto simp: bt_wf_def)
    with lt * [OF lt] False show ?thesis by (auto simp: bt_wf_def)
  qed
qed (simp add: bt_wf_def)

lemma bt_wf_modify [simp]: "bt_wf (bt_modify k f m) = bt_wf m"
  by (simp add: bt_wf_def bt_modify_def comp_def case_prod_beta)

lemma bt_wf_map_values [simp]: "bt_wf (bt_map_values f m) = bt_wf m"
  by (simp add: bt_wf_def bt_map_values_def comp_def case_prod_beta)

lemma bt_wf_distinct: "bt_wf m \<Longrightarrow> distinct (map fst m)"
  by (simp add: bt_wf_def strict_sorted_iff)

lemma bt_wf_get: "bt_wf m \<Longrightarrow> map_of m k = Some v \<longleftrightarrow> (k, v) \<in> set m"
  by (simp add: bt_wf_distinct)

lemma bt_values_get: "bt_wf m \<Longrightarrow> v \<in> set (bt_values m) \<longleftrightarrow> (\<exists>k. map_of m k = Some v)"
  by (force simp: bt_values_def bt_wf_get)

lemma bt_get_values: "map_of m k = Some v \<Longrightarrow> v \<in> set (bt_values m)"
  by (force simp: bt_values_def dest: map_of_SomeD)

lemma bt_values_insert:
  assumes "v \<in> set (bt_values (bt_insert i w m))"
  shows "v = w \<or> v \<in> set (bt_values m)"
  using assms by (induction i w m rule: bt_insert.induct) (auto simp: bt_values_def split: if_splits)

lemma bt_contains_insert [simp]: "bt_contains (bt_insert k v m) k' \<longleftrightarrow> k' = k \<or> bt_contains m k'"
  by (auto simp: bt_contains_def)

lemma bt_contains_iff: "bt_contains m k \<longleftrightarrow> (\<exists>v. map_of m k = Some v)"
  by (auto simp: bt_contains_def)

text \<open>A well-formed map is determined by its lookups: equality of maps is extensional.\<close>

lemma bt_ext:
  assumes "bt_wf m" and "bt_wf n" and "map_of m = map_of n"
  shows "m = n"
proof (rule map_sorted_distinct_set_unique [of fst])
  show "inj_on fst (set m \<union> set n)"
  proof (rule inj_onI)
    fix x y
    assume x: "x \<in> set m \<union> set n" and y: "y \<in> set m \<union> set n" and eq: "fst x = fst y"
    have "map_of m (fst z) = Some (snd z)" if "z \<in> set m \<union> set n" for z
      using that assms by (cases z) (auto simp flip: bt_wf_get)
    with x y eq show "x = y" by (metis option.inject prod_eqI)
  qed
  show "set m = set n"
    using assms by (auto simp flip: bt_wf_get)
qed (use assms in \<open>auto simp: bt_wf_def strict_sorted_iff\<close>)

section \<open>Growth\<close>

text \<open>
  How a map may develop: every entry stays, and its value changes along \<open>R\<close>. With equality
  for \<open>R\<close> entries never change.
\<close>

definition bt_rel :: "('v \<Rightarrow> 'v \<Rightarrow> bool) \<Rightarrow> ('k, 'v) btree \<Rightarrow> ('k, 'v) btree \<Rightarrow> bool" where
  "bt_rel R m n \<longleftrightarrow> (\<forall>k v. map_of m k = Some v \<longrightarrow> (\<exists>w. map_of n k = Some w \<and> R v w))"

lemma bt_relD: "bt_rel R m n \<Longrightarrow> map_of m k = Some v \<Longrightarrow> \<exists>w. map_of n k = Some w \<and> R v w"
  by (simp add: bt_rel_def)

lemma bt_rel_refl: "reflp R \<Longrightarrow> bt_rel R m m"
  by (simp add: bt_rel_def reflp_def)

lemma bt_rel_trans: "transp R \<Longrightarrow> bt_rel R m n \<Longrightarrow> bt_rel R n p \<Longrightarrow> bt_rel R m p"
  unfolding bt_rel_def transp_def by meson

lemma bt_rel_insert:
  "reflp R \<Longrightarrow> (\<And>w. map_of m k = Some w \<Longrightarrow> R w v) \<Longrightarrow> bt_rel R m (bt_insert k v m)"
  by (auto simp: bt_rel_def reflp_def)

lemma bt_rel_insert_fresh: "reflp R \<Longrightarrow> \<not> bt_contains m k \<Longrightarrow> bt_rel R m (bt_insert k v m)"
  by (rule bt_rel_insert) (simp_all add: bt_contains_def)

lemma bt_rel_modify:
  "reflp R \<Longrightarrow> (\<And>w. map_of m k = Some w \<Longrightarrow> R w (f w)) \<Longrightarrow> bt_rel R m (bt_modify k f m)"
  by (auto simp: bt_rel_def reflp_def)

section \<open>The interface\<close>

locale ordered_map =
  fixes get :: "'m \<Rightarrow> 'k \<Rightarrow> 'v option"
    and insert :: "'k \<Rightarrow> 'v \<Rightarrow> 'm \<Rightarrow> 'm"
    and entries :: "'m \<Rightarrow> 'v list"
    and wf :: "'m \<Rightarrow> bool"
  assumes get_insert: "get (insert k v m) = (get m)(k \<mapsto> v)"
    and wf_insert: "wf m \<Longrightarrow> wf (insert k v m)"
    and entries_get: "wf m \<Longrightarrow> v \<in> set (entries m) \<longleftrightarrow> (\<exists>k. get m k = Some v)"
begin

lemma all_entries:
  "wf m \<Longrightarrow> (\<forall>v \<in> set (entries m). P v) \<longleftrightarrow> (\<forall>k v. get m k = Some v \<longrightarrow> P v)"
  by (auto simp: entries_get)

lemma insert_all:
  assumes "\<forall>k v. get m k = Some v \<longrightarrow> P k v" and "P k v"
  shows "\<forall>k' v'. get (insert k v m) k' = Some v' \<longrightarrow> P k' v'"
  using assms by (simp add: get_insert)

text \<open>
  The scan-then-insert pattern: an insertion guarded by "no present value has this mark"
  keeps the marks of distinct keys distinct.
\<close>

lemma insert_fresh_inj:
  assumes wf: "wf m"
    and inj: "\<forall>k k' v v'. get m k = Some v \<longrightarrow> get m k' = Some v' \<longrightarrow> f v = f v' \<longrightarrow> k = k'"
    and fresh: "\<not> (\<exists>v \<in> set (entries m). f v = f w)"
  shows "\<forall>k k' v v'. get (insert j w m) k = Some v \<longrightarrow> get (insert j w m) k' = Some v'
           \<longrightarrow> f v = f v' \<longrightarrow> k = k'"
proof (intro allI impI)
  fix k k' v v'
  assume k: "get (insert j w m) k = Some v" and k': "get (insert j w m) k' = Some v'"
    and eq: "f v = f v'"
  have other: "f u \<noteq> f w" if "get m i = Some u" for i u
    using fresh that entries_get [OF wf] by blast
  show "k = k'"
  proof (cases "k = j \<or> k' = j")
    case True
    with k k' eq other show ?thesis
      by (auto simp: get_insert split: if_splits)
  next
    case False
    with k k' have "get m k = Some v" "get m k' = Some v'"
      by (simp_all add: get_insert)
    with eq inj show ?thesis by blast
  qed
qed

end

interpretation bt: ordered_map bt_get bt_insert bt_values bt_wf
  by unfold_locales (simp_all add: bt_values_get)

end
