(* ===== verification/Entities.thy ===== *)
theory Entities
  imports RustStr BTreeMap
begin

text \<open>
  The data of \<open>src/core/model.rs\<close>: identifiers and the entities of the projection, each a
  record with the fields of its struct, each enumeration a datatype with the source's
  variants. A field is written \<open>Task.status\<close>, a variant \<open>TaskStatus.InProgress\<close>.

  The macro \<open>id_type!\<close> makes one newtype of \<open>Uuid\<close> per entity; here it is one type
  \<open>'e Id\<close> whose parameter is a tag of the entity, so identifiers of different entities do not
  mix. The derived order is the order of the 128-bit value. Time stamps are RFC 3339 texts,
  which the modelled code compares for equality only. JSON values are serde's tree; nothing is
  assumed on how payloads are decoded from them.
\<close>

type_synonym Uuid = u128

datatype 'e Id = from_uuid (uuid: Uuid)

instantiation Id :: (type) linorder
begin
definition less_eq_Id :: "'a Id \<Rightarrow> 'a Id \<Rightarrow> bool" where
  "a \<le> b \<longleftrightarrow> uuid a \<le> uuid b"
definition less_Id :: "'a Id \<Rightarrow> 'a Id \<Rightarrow> bool" where
  "a < b \<longleftrightarrow> uuid a < uuid b"
instance
  by standard (auto simp: less_eq_Id_def less_Id_def intro: Id.expand)
end

lemma uuid_eq_iff [simp]: "uuid a = uuid b \<longleftrightarrow> a = b"
  by (cases a; cases b) simp

typedecl PrincipalTag
typedecl IdentityVersionTag
typedecl RelationshipTag
typedecl GoalTag
typedecl TaskTag
typedecl RunTag
typedecl AttemptTag
typedecl WorkingStateTag
typedecl PositionTag
typedecl ConflictTag
typedecl CommitmentTag
typedecl ObservationTag
typedecl DecisionTag
typedecl ActionIntentTag
typedecl OperationTag
typedecl ArtifactTag
typedecl EventTag
typedecl MemoryCandidateTag
typedecl MemoryTag
typedecl ApprovalTag
typedecl ReceiptTag
typedecl VerificationTag
typedecl SleepRunTag
typedecl IntegrationCandidateTag
typedecl CompletionCriterionTag
typedecl CompletionClaimTag

type_synonym PrincipalId = "PrincipalTag Id"
type_synonym IdentityVersionId = "IdentityVersionTag Id"
type_synonym RelationshipId = "RelationshipTag Id"
type_synonym GoalId = "GoalTag Id"
type_synonym TaskId = "TaskTag Id"
type_synonym RunId = "RunTag Id"
type_synonym AttemptId = "AttemptTag Id"
type_synonym WorkingStateId = "WorkingStateTag Id"
type_synonym PositionId = "PositionTag Id"
type_synonym ConflictId = "ConflictTag Id"
type_synonym CommitmentId = "CommitmentTag Id"
type_synonym ObservationId = "ObservationTag Id"
type_synonym DecisionId = "DecisionTag Id"
type_synonym ActionIntentId = "ActionIntentTag Id"
type_synonym OperationId = "OperationTag Id"
type_synonym ArtifactId = "ArtifactTag Id"
type_synonym EventId = "EventTag Id"
type_synonym MemoryCandidateId = "MemoryCandidateTag Id"
type_synonym MemoryId = "MemoryTag Id"
type_synonym ApprovalId = "ApprovalTag Id"
type_synonym ReceiptId = "ReceiptTag Id"
type_synonym VerificationId = "VerificationTag Id"
type_synonym SleepRunId = "SleepRunTag Id"
type_synonym IntegrationCandidateId = "IntegrationCandidateTag Id"
type_synonym CompletionCriterionId = "CompletionCriterionTag Id"
type_synonym CompletionClaimId = "CompletionClaimTag Id"

datatype json =
    JNull
  | JBool bool
  | JNumber string
  | JString string
  | JArray "json list"
  | JObject "(string \<times> json) list"

section \<open>Principals and relationships\<close>

datatype PrincipalKind = User | Hekate | Unit

record Principal =
  id :: PrincipalId
  kind :: PrincipalKind
  name :: string
  identity_version_id :: "IdentityVersionId option"

record IdentityVersion =
  id :: IdentityVersionId
  principal_id :: PrincipalId
  version :: u32
  name :: string
  "values" :: "string list"
  boundaries :: "string list"
  created_at :: string
  supersedes :: "IdentityVersionId option"

record Relationship =
  id :: RelationshipId
  participants :: "PrincipalId list"
  shared_commitments :: "CommitmentId list"
  unresolved_conflicts :: "ConflictId list"
  trust_by_domain :: "(string, u8) btree"
  interaction_norms :: "string list"

section \<open>Goals, tasks, runs\<close>

datatype GoalStatus = Active | Paused | Completed | Abandoned

record Goal =
  id :: GoalId
  owner_principal_id :: PrincipalId
  participants :: "PrincipalId list"
  title :: string
  description :: string
  status :: GoalStatus
  created_at :: string

datatype TaskStatus = Planned | InProgress | Blocked | Completed | Cancelled

record Task =
  id :: TaskId
  goal_id :: "GoalId option"
  title :: string
  status :: TaskStatus
  created_at :: string

datatype RunStatus =
  Pending | Running | Suspended | Completed | Failed | Cancelled | NeedsAttention

record Run =
  id :: RunId
  task_id :: "TaskId option"
  status :: RunStatus
  started_at :: string
  completed_at :: "string option"

datatype AttemptStatus = Started | Succeeded | Failed | Unknown

record Attempt =
  id :: AttemptId
  run_id :: RunId
  status :: AttemptStatus
  started_at :: string
  finished_at :: "string option"

record WorkingState =
  id :: WorkingStateId
  run_id :: RunId
  revision :: u64
  completed_observations :: "ObservationId list"
  "notes" :: "string list"
  next_action :: "string option"

section \<open>Positions, conflicts, commitments\<close>

datatype Stance = Support | Oppose | Uncertain | Neutral

datatype PositionStatus = Active | Superseded | Retracted

record Position =
  id :: PositionId
  principal_id :: PrincipalId
  subject :: string
  stance :: Stance
  version :: u32
  status :: PositionStatus
  confidence :: u8
  supersedes :: "PositionId option"
  reasons :: "string list"
  evidence_refs :: "EventId list"
  reconsideration_conditions :: "string list"
  created_at :: string

datatype ConflictStatus = Open | Negotiating | Resolved | AcceptedDisagreement

record Conflict =
  id :: ConflictId
  subject :: string
  participant_positions :: "PositionId list"
  status :: ConflictStatus
  revision :: u32
  reasons :: "string list"
  evidence_refs :: "EventId list"
  alternatives :: "string list"
  reconsideration_conditions :: "string list"
  unresolved_questions :: "string list"
  resolution :: "string option"
  resolved_at :: "string option"
  created_at :: string

datatype CommitmentStatus = Open | Fulfilled | Broken | Cancelled

record Commitment =
  id :: CommitmentId
  debtor_principal_id :: PrincipalId
  creditor_principal_id :: PrincipalId
  promise :: string
  status :: CommitmentStatus
  source_event_id :: "EventId option"
  created_at :: string

section \<open>Memories and observations\<close>

datatype MemoryKind = ExplicitPreference | InferredPreference | VerifiedFact | Episode | Lesson

datatype MemoryCandidateStatus = Candidate | Promoted | Rejected | Superseded | Expired

record MemoryCandidate =
  id :: MemoryCandidateId
  kind :: MemoryKind
  content :: string
  subject_principal_id :: "PrincipalId option"
  status :: MemoryCandidateStatus
  confidence :: u8
  source_event_ids :: "EventId list"
  valid_from :: "string option"
  valid_until :: "string option"
  supersedes :: "MemoryCandidateId option"
  created_at :: string

datatype ActiveMemoryStatus = Active | Superseded | Expired

record ActiveMemory =
  id :: MemoryId
  candidate_id :: MemoryCandidateId
  kind :: MemoryKind
  content :: string
  subject_principal_id :: "PrincipalId option"
  status :: ActiveMemoryStatus
  confidence :: u8
  source_event_ids :: "EventId list"
  valid_from :: "string option"
  valid_until :: "string option"
  supersedes :: "MemoryId option"
  last_verified_at :: "string option"
  created_at :: string

record Observation =
  id :: ObservationId
  actor_id :: PrincipalId
  content :: string
  source_type :: string
  source_ref :: "string option"
  thread_id :: "string option"
  message_id :: "string option"
  received_at :: string

section \<open>Decisions, actions, operations\<close>

datatype DecisionKind =
    Respond | Agree | AskWhy | Challenge | CounterPropose | Negotiate | Refuse | ObserveMore
  | ProposeAction | CreateOrUpdateGoal | CreateOrUpdateTask | RequestClarification
  | RequestApproval | Suspend | Complete

record ActionIntent =
  id :: ActionIntentId
  capability :: string
  operation :: string
  target :: string
  arguments :: json
  expected_effect :: string
  preconditions :: "string list"
  proposed_by_event :: "EventId option"

record ActionProposal =
  capability :: string
  operation :: string
  target :: string
  arguments :: json
  expected_effect :: string
  preconditions :: "string list"

datatype OperationStatus =
  Planned | Authorized | Started | Succeeded | Failed | Unknown | Verified | Disputed

record Operation =
  id :: OperationId
  intent_id :: ActionIntentId
  status :: OperationStatus
  idempotency_key :: string
  approval_id :: "ApprovalId option"
  started_at :: "string option"
  finished_at :: "string option"

datatype ApprovalStatus = Pending | Approved | Denied | Expired

record Approval =
  id :: ApprovalId
  intent_id :: ActionIntentId
  operation_id :: OperationId
  requested_by :: PrincipalId
  status :: ApprovalStatus
  reason :: string
  resolved_by :: "PrincipalId option"
  resolved_at :: "string option"
  created_at :: string

record Receipt =
  id :: ReceiptId
  operation_id :: OperationId
  status :: OperationStatus
  external_reference :: "string option"
  "output" :: json
  recorded_at :: string

datatype VerificationStatus = Verified | Failed | Disputed

record Verification =
  id :: VerificationId
  operation_id :: OperationId
  status :: VerificationStatus
  evidence :: "string list"
  checked_at :: string

record Artifact =
  id :: ArtifactId
  path :: string
  content_hash :: string
  byte_size :: u64
  media_type :: string
  provenance_event_id :: EventId
  created_at :: string

record Decision =
  id :: DecisionId
  kind :: DecisionKind
  message :: string
  target_principal_id :: "PrincipalId option"
  request :: string
  context_hash :: string
  confidence :: u8
  reasons :: "string list"
  evidence_refs :: "EventId list"
  alternatives :: "string list"
  reconsideration_conditions :: "string list"
  unresolved_questions :: "string list"
  related_position_ids :: "PositionId list"
  user_position :: "Position option"
  cognitive_trace_id :: "string option"
  position :: "Position option"
  conflict :: "Conflict option"
  action :: "ActionIntent option"
  created_at :: string

definition default_confidence :: u8 where
  "default_confidence = 50"

text \<open>\<open>Decision::respond\<close>; the fresh identifier and the clock are arguments.\<close>

definition respond :: "DecisionId \<Rightarrow> string \<Rightarrow> string \<Rightarrow> Decision" where
  "respond new_id now_text msg =
     \<lparr>Decision.id = new_id, kind = Respond, message = msg, target_principal_id = None,
      request = [], context_hash = [], confidence = default_confidence, reasons = [],
      evidence_refs = [], alternatives = [], reconsideration_conditions = [],
      unresolved_questions = [], related_position_ids = [], user_position = None,
      cognitive_trace_id = None, position = None, conflict = None, action = None,
      created_at = now_text\<rparr>"

record Focus =
  goal_id :: "GoalId option"
  task_id :: "TaskId option"
  run_id :: "RunId option"

definition unattached :: Focus where
  "unattached = \<lparr>Focus.goal_id = None, task_id = None, run_id = None\<rparr>"

end
