(* ===== verification/Records.thy ===== *)
theory Records
  imports Entities
begin

text \<open>
  The data of the other modules of \<open>src/core\<close>: events (\<open>event.rs\<close>), evidence and completion
  claims (\<open>evidence.rs\<close>), focus resolutions (\<open>continuity.rs\<close>), initiatives
  (\<open>initiative.rs\<close>), recall results (\<open>recall.rs\<close>), sleep runs and integration candidates
  (\<open>sleep.rs\<close>, \<open>integration.rs\<close>), model diagnostics (\<open>model_io.rs\<close>) and the thought cycle
  (\<open>model.rs\<close>).
\<close>

section \<open>Events\<close>

datatype EventKind =
    PrincipalCreated | IdentityVersionCreated | RelationshipCreated | UserMessageReceived
  | ObservationRecorded | FocusResolved | GoalCreated | TaskCreated | TaskCompleted
  | RunStarted | RunSuspended | RunCompleted | WorkingStateUpdated | DecisionCreated
  | ResponseProduced | PositionEstablished | PositionMaintained | PositionRevised
  | PositionRetracted | PositionRecorded | ConflictOpened | ConflictUpdated | ConflictResolved
  | ConflictRecorded | CommitmentCreated | CommitmentFulfilled | ActionIntentCreated
  | OperationPlanned | OperationAuthorized | ApprovalRequested | ApprovalResolved
  | OperationStarted | OperationSucceeded | OperationFailed | OperationStateUnknown
  | ReceiptRecorded | VerificationRecorded | MemoryCandidateCreated | MemoryPromoted
  | MemoryRejected | MemorySuperseded | MemoryExpired | AttemptStarted | AttemptCompleted
  | ArtifactCreated | SleepRunStarted | IntegrationCandidateCreated | SleepRunCompleted
  | SleepRunInterrupted | SleepRunFailed | IntegrationCandidateVerified
  | IntegrationCandidateRejected | IntegrationCandidateMaterialized
  | MemoryRevisionMaterialized | CompletionCriterionDefined | CompletionClaimCreated
  | CompletionClaimVerified | CompletionClaimRejected | InitiativeProposed | InitiativeReadied
  | InitiativeDismissed | StateChanged

datatype EntityKind =
    Principal | IdentityVersion | Relationship | Observation | Goal | Task | Run | WorkingState
  | Decision | Position | Conflict | Commitment | ActionIntent | Operation | Approval | Receipt
  | Verification | MemoryCandidate | Memory | Attempt | Artifact | SleepRun
  | IntegrationCandidate | CompletionCriterion | CompletionClaim | Initiative

record EntityRef =
  kind :: EntityKind
  id :: Uuid

record EventSource =
  source_type :: string
  source_ref :: "string option"

record ExperienceEvent =
  event_id :: EventId
  occurred_at :: string
  recorded_at :: string
  actor_id :: PrincipalId
  event_kind :: EventKind
  subject :: "EntityRef option"
  payload :: json
  source :: EventSource
  causation_id :: "EventId option"
  correlation_id :: "string option"
  confidence :: "f32_bits option"
  integrity_hash :: string

section \<open>Evidence and completion claims\<close>

record EvidenceRef =
  event_id :: EventId
  artifact_id :: "ArtifactId option"
  source_hash :: string
  as_of_sequence :: u64

datatype VerificationDisposition = NeedsValidation | Verified | Rejected

record CompletionCriterion =
  id :: CompletionCriterionId
  task_id :: TaskId
  description :: string
  required :: bool
  created_at :: string

record CompletionClaim =
  id :: CompletionClaimId
  task_id :: TaskId
  criterion_id :: CompletionCriterionId
  disposition :: VerificationDisposition
  confidence :: u8
  evidence_refs :: "EvidenceRef list"
  blocker :: "string option"
  fingerprint :: string
  as_of_sequence :: u64
  supersedes :: "CompletionClaimId option"
  created_at :: string

record CompletionClaimTransition =
  claim_id :: CompletionClaimId
  task_id :: TaskId
  criterion_id :: CompletionCriterionId
  previous_disposition :: VerificationDisposition
  disposition :: VerificationDisposition
  reason :: string
  evidence_refs :: "EvidenceRef list"
  transitioned_at :: string

section \<open>Focus resolutions\<close>

datatype FocusOutcome = Continue | NewWork | Conversation | Clarification

datatype FocusBasis =
    ExplicitNewWork | ExplicitTask | ExplicitGoal | ExplicitRun | ExplicitContinuation
  | SameThreadContinuation | StrongTextMatch | GeneralConversation | AmbiguousCandidates
  | ClosedWorkReference | InvalidReference

record FocusCandidate =
  goal_id :: GoalId
  goal_title :: string
  task_id :: TaskId
  task_title :: string
  task_status :: TaskStatus
  run_id :: "RunId option"
  evidence_event_ids :: "EventId list"

record FocusResolution =
  observation_id :: ObservationId
  outcome :: FocusOutcome
  focus :: Focus
  as_of_revision :: u64
  basis :: FocusBasis
  candidates :: "FocusCandidate list"
  clarification :: "string option"

section \<open>Initiatives\<close>

datatype InitiativeKind = Question | Challenge | FollowUp

datatype InitiativeStatus = Proposed | AwaitingApproval | Ready | Delivered | Dismissed

record InitiativeProposal =
  id :: Uuid
  kind :: InitiativeKind
  content :: string
  rationale :: string
  source_entity :: EntityRef
  source_version :: u64
  source_event_ids :: "EventId list"
  target_principal_id :: PrincipalId
  as_of_revision :: u64
  fingerprint :: string
  status :: InitiativeStatus
  created_at :: string

section \<open>Model diagnostics, sleep runs, integration candidates\<close>

record BudgetReport =
  context_tokens :: u32
  context_source :: string
  estimated_input_tokens :: u64
  estimation_method :: string
  reserved_output_tokens :: u32
  safety_margin :: u32
  excluded_items :: usize

datatype SleepRunStatus = Running | Completed | Interrupted | Failed

record ContextBudgetReport =
  anchor_bytes :: usize
  seed_bytes :: usize
  recalled_bytes :: usize
  total_bytes :: usize
  included_seed_count :: usize
  deferred_seed_count :: usize
  included_recall_count :: usize
  dropped_recall_count :: usize
  hard_limit_bytes :: usize
  model_budget :: "BudgetReport option"

record SleepRun =
  id :: SleepRunId
  status :: SleepRunStatus
  high_water_revision :: u64
  cursor_before :: u64
  cursor_after :: "u64 option"
  seed_event_ids :: "EventId list"
  processed_observation_count :: u32
  created_candidate_count :: u32
  started_at :: string
  finished_at :: "string option"
  error_kind :: "string option"
  context_budget_report :: "ContextBudgetReport option"

datatype IntegrationCandidateKind =
    Memory | MemoryRevision | Position | Conflict | Relationship | Identity | Goal | Association

record IntegrationCandidate =
  id :: IntegrationCandidateId
  sleep_run_id :: SleepRunId
  kind :: IntegrationCandidateKind
  disposition :: VerificationDisposition
  as_of_revision :: u64
  content :: string
  rationale :: string
  source_event_ids :: "EventId list"
  counterevidence_event_ids :: "EventId list"
  confidence :: u8
  fingerprint :: string
  created_at :: string

datatype PositionIntegrationOperation =
    Establish string Stance "string list" "string list"
  | Revise PositionId u32 Stance "string list" "string list"
  | Withdraw PositionId u32 string

record PositionIntegrationProposal =
  schema :: string
  operation :: PositionIntegrationOperation

datatype MemoryRevisionOperation =
    Replace MemoryId EventId string string
  | Expire MemoryId EventId string

record MemoryRevisionProposal =
  schema :: string
  operation :: MemoryRevisionOperation

datatype MemoryRevisionActionKind = Replace | Expire

record MemoryRevisionMaterialization =
  candidate_id :: IntegrationCandidateId
  verification_event_id :: EventId
  target_memory_id :: MemoryId
  replacement_memory_id :: "MemoryId option"
  expected_event_id :: EventId
  expected_event_hash :: string
  action :: MemoryRevisionActionKind
  source_event_ids :: "EventId list"
  counterevidence_event_ids :: "EventId list"
  evidence_refs :: "EvidenceRef list"
  fingerprint :: string
  as_of_revision :: u64
  created_at :: string

datatype PositionIntegrationActionKind = Establish | Revise | Withdraw

record IntegrationVerification =
  candidate_id :: IntegrationCandidateId
  verification_event_id :: "EventId option"
  previous_disposition :: VerificationDisposition
  new_disposition :: VerificationDisposition
  actor_id :: PrincipalId
  reason :: string
  evidence_refs :: "EvidenceRef list"
  as_of_revision :: u64
  created_at :: string

record IntegrationMaterialization =
  candidate_id :: IntegrationCandidateId
  memory_candidate_id :: MemoryCandidateId
  memory_id :: MemoryId
  source_event_ids :: "EventId list"
  counterevidence_event_ids :: "EventId list"
  evidence_refs :: "EvidenceRef list"
  fingerprint :: string
  as_of_revision :: u64
  created_at :: string

record PositionIntegrationMaterialization =
  candidate_id :: IntegrationCandidateId
  position_id :: PositionId
  position_event_id :: EventId
  verification_event_id :: EventId
  action :: PositionIntegrationActionKind
  prior_position :: "Position option"
  source_event_ids :: "EventId list"
  counterevidence_event_ids :: "EventId list"
  evidence_refs :: "EvidenceRef list"
  fingerprint :: string
  as_of_revision :: u64
  created_at :: string

record PositionIntegrationEventPayload =
  position :: Position
  position_integration :: PositionIntegrationMaterialization

definition MAX_CANDIDATE_SOURCES :: nat where "MAX_CANDIDATE_SOURCES = 16"
definition MAX_SLEEP_TEXT :: nat where "MAX_SLEEP_TEXT = 2000"

end
