(* ===== verification/State.thy ===== *)
theory State
  imports Records
begin

text \<open>
  The projection (\<open>CurrentState\<close> of \<open>src/core/model.rs\<close>), its queries, and the code outside
  the repository as one record of functions, \<open>ext\<close>, that the definitions using it take as an
  argument: the SHA-256 digest (crate \<open>sha2\<close>), the text of a \<open>Uuid\<close> (crate \<open>uuid\<close>),
  serde's encoders and decoders (crates \<open>serde\<close>, \<open>serde_json\<close>) and Unicode lower-casing (the
  case tables of \<open>std\<close>). A decoder returns serde's error message or the decoded value; no
  theorem assumes anything of them unless its statement says so.
\<close>

record CurrentState =
  revision :: u64
  principals :: "(PrincipalId, Principal) btree"
  identity_versions :: "(IdentityVersionId, IdentityVersion) btree"
  relationships :: "(RelationshipId, Relationship) btree"
  goals :: "(GoalId, Goal) btree"
  tasks :: "(TaskId, Task) btree"
  runs :: "(RunId, Run) btree"
  attempts :: "(AttemptId, Attempt) btree"
  working_states :: "(RunId, WorkingState) btree"
  positions :: "(PositionId, Position) btree"
  conflicts :: "(ConflictId, Conflict) btree"
  commitments :: "(CommitmentId, Commitment) btree"
  observations :: "(ObservationId, Observation) btree"
  focus_resolutions :: "(ObservationId, FocusResolution) btree"
  decisions :: "(DecisionId, Decision) btree"
  action_intents :: "(ActionIntentId, ActionIntent) btree"
  operations :: "(OperationId, Operation) btree"
  artifacts :: "(ArtifactId, Artifact) btree"
  memory_candidates :: "(MemoryCandidateId, MemoryCandidate) btree"
  active_memories :: "(MemoryId, ActiveMemory) btree"
  approvals :: "(ApprovalId, Approval) btree"
  receipts :: "(ReceiptId, Receipt) btree"
  verifications :: "(VerificationId, Verification) btree"
  sleep_runs :: "(SleepRunId, SleepRun) btree"
  integration_candidates :: "(IntegrationCandidateId, IntegrationCandidate) btree"
  integration_verifications :: "(IntegrationCandidateId, IntegrationVerification) btree"
  integration_materializations :: "(IntegrationCandidateId, IntegrationMaterialization) btree"
  position_integration_materializations ::
    "(IntegrationCandidateId, PositionIntegrationMaterialization) btree"
  memory_revision_materializations ::
    "(IntegrationCandidateId, MemoryRevisionMaterialization) btree"
  sleep_cursor :: u64
  completion_criteria :: "(CompletionCriterionId, CompletionCriterion) btree"
  completion_claims :: "(CompletionClaimId, CompletionClaim) btree"
  initiatives :: "(Uuid, InitiativeProposal) btree"
  applied_events :: "EventId list"

text \<open>\<open>CurrentState::default()\<close>.\<close>

definition default_state :: CurrentState where
  "default_state =
     \<lparr>CurrentState.revision = 0, principals = [], identity_versions = [], relationships = [],
      goals = [], tasks = [], runs = [], attempts = [], working_states = [], positions = [],
      conflicts = [], commitments = [], observations = [], focus_resolutions = [],
      decisions = [], action_intents = [], operations = [], artifacts = [],
      memory_candidates = [], active_memories = [], approvals = [], receipts = [],
      verifications = [], sleep_runs = [], integration_candidates = [],
      integration_verifications = [], integration_materializations = [],
      position_integration_materializations = [], memory_revision_materializations = [],
      sleep_cursor = 0, completion_criteria = [], completion_claims = [], initiatives = [],
      applied_events = []\<rparr>"

section \<open>Queries\<close>

definition active_run :: "CurrentState \<Rightarrow> Run option" where
  "active_run s =
     find (\<lambda>r. Run.status r \<in> {RunStatus.Pending, RunStatus.Running, RunStatus.Suspended})
       (bt_values (runs s))"

definition hekate_identity :: "CurrentState \<Rightarrow> IdentityVersion option" where
  "hekate_identity s =
     Option.bind (find (\<lambda>p. Principal.kind p = Hekate) (bt_values (principals s))) (\<lambda>p.
     Option.bind (Principal.identity_version_id p) (\<lambda>i.
     bt_get (identity_versions s) i))"

definition active_positions :: "CurrentState \<Rightarrow> PrincipalId \<Rightarrow> Position list" where
  "active_positions s pid =
     filter (\<lambda>p. Position.principal_id p = pid \<and> Position.status p = PositionStatus.Active)
       (bt_values (positions s))"

section \<open>Code outside the repository\<close>

record ext =
  sha256_digest :: "string \<Rightarrow> string"
  uuid_text :: "Uuid \<Rightarrow> string"
  to_lowercase :: "string \<Rightarrow> string"
  event_json :: "ExperienceEvent \<Rightarrow> string + string"
  candidate_kind_json :: "IntegrationCandidateKind \<Rightarrow> string + string"
  initiative_json ::
    "string \<times> InitiativeKind \<times> EntityRef \<times> u64 \<times> PrincipalId \<times> EventId list \<Rightarrow> string"
  has_field :: "json \<Rightarrow> string \<Rightarrow> bool"
  de_principal :: "json \<Rightarrow> string + Principal"
  de_identity_version :: "json \<Rightarrow> string + IdentityVersion"
  de_relationship :: "json \<Rightarrow> string + Relationship"
  de_observation :: "json \<Rightarrow> string + Observation"
  de_focus_resolution :: "json \<Rightarrow> string + FocusResolution"
  de_goal :: "json \<Rightarrow> string + Goal"
  de_task :: "json \<Rightarrow> string + Task"
  de_run :: "json \<Rightarrow> string + Run"
  de_attempt :: "json \<Rightarrow> string + Attempt"
  de_working_state :: "json \<Rightarrow> string + WorkingState"
  de_decision :: "json \<Rightarrow> string + Decision"
  de_position :: "json \<Rightarrow> string + Position"
  de_position_integration_event :: "json \<Rightarrow> string + PositionIntegrationEventPayload"
  de_conflict :: "json \<Rightarrow> string + Conflict"
  de_commitment :: "json \<Rightarrow> string + Commitment"
  de_action_intent :: "json \<Rightarrow> string + ActionIntent"
  de_operation :: "json \<Rightarrow> string + Operation"
  de_artifact :: "json \<Rightarrow> string + Artifact"
  de_criterion :: "json \<Rightarrow> string + CompletionCriterion"
  de_claim :: "json \<Rightarrow> string + CompletionClaim"
  de_claim_transition :: "json \<Rightarrow> string + CompletionClaimTransition"
  de_initiative :: "json \<Rightarrow> string + InitiativeProposal"
  de_approval :: "json \<Rightarrow> string + Approval"
  de_receipt :: "json \<Rightarrow> string + Receipt"
  de_verification :: "json \<Rightarrow> string + Verification"
  de_memory_candidate :: "json \<Rightarrow> string + MemoryCandidate"
  de_active_memory :: "json \<Rightarrow> string + ActiveMemory"
  de_sleep_run :: "json \<Rightarrow> string + SleepRun"
  de_integration_candidate :: "json \<Rightarrow> string + IntegrationCandidate"
  de_integration_verification :: "json \<Rightarrow> string + IntegrationVerification"
  de_integration_materialization :: "json \<Rightarrow> string + IntegrationMaterialization"
  de_memory_revision_materialization :: "json \<Rightarrow> string + MemoryRevisionMaterialization"
  position_proposal_from_str :: "string \<Rightarrow> string + PositionIntegrationProposal"
  memory_revision_from_str :: "string \<Rightarrow> string + MemoryRevisionProposal"
  criterion_to_value :: "CompletionCriterion \<Rightarrow> string + json"
  claim_to_value :: "CompletionClaim \<Rightarrow> string + json"
  claim_transition_to_value :: "CompletionClaimTransition \<Rightarrow> string + json"
  task_to_value :: "Task \<Rightarrow> string + json"

text \<open>\<open>id.to_string()\<close> of an identifier newtype: \<open>Display\<close> is the \<open>Uuid\<close>'s.\<close>

definition id_text :: "ext \<Rightarrow> 'e Id \<Rightarrow> string" where
  "id_text x i = uuid_text x (uuid i)"

section \<open>Events and their integrity hash\<close>

text \<open>\<open>sha256_hex\<close>: two lower-case hexadecimal digits for each byte of the digest.\<close>

definition hex_digit :: "nat \<Rightarrow> char" where
  "hex_digit n = (if n < 10 then char_of (48 + n) else char_of (87 + n))"

definition hex_byte :: "char \<Rightarrow> string" where
  "hex_byte c = (let n = of_char c :: nat in [hex_digit (n div 16), hex_digit (n mod 16)])"

definition sha256_hex :: "ext \<Rightarrow> string \<Rightarrow> string" where
  "sha256_hex x bytes = concat (map hex_byte (sha256_digest x bytes))"

definition valid_sha256_hex :: "string \<Rightarrow> bool" where
  "valid_sha256_hex s \<longleftrightarrow> length s = 64 \<and>
     (\<forall>c \<in> set s. (CHR ''0'' \<le> c \<and> c \<le> CHR ''9'') \<or> (CHR ''a'' \<le> c \<and> c \<le> CHR ''f''))"

definition calculate_hash :: "ext \<Rightarrow> ExperienceEvent \<Rightarrow> string + string" where
  "calculate_hash x e =
     res_bind (event_json x (e\<lparr>integrity_hash := []\<rparr>)) (\<lambda>bytes. Inr (sha256_hex x bytes))"

definition canonical_hash :: "ext \<Rightarrow> ExperienceEvent \<Rightarrow> string + string" where
  "canonical_hash x e = calculate_hash x e"

definition verify_integrity :: "ext \<Rightarrow> ExperienceEvent \<Rightarrow> string + bool" where
  "verify_integrity x e = res_bind (calculate_hash x e) (\<lambda>h. Inr (integrity_hash e = h))"

text \<open>
  \<open>ExperienceEvent::new_with_id\<close>; the two readings of the clock are arguments, and
  \<open>ExperienceEvent::new\<close> passes a fresh identifier.
\<close>

definition new_with_id ::
  "ext \<Rightarrow> string \<Rightarrow> string \<Rightarrow> EventId \<Rightarrow> PrincipalId \<Rightarrow> EventKind \<Rightarrow> EntityRef option \<Rightarrow> json \<Rightarrow>
   EventSource \<Rightarrow> EventId option \<Rightarrow> string option \<Rightarrow> f32_bits option \<Rightarrow> string + ExperienceEvent"
where
  "new_with_id x t1 t2 eid actor k subj pl src caus corr conf =
     (let e = \<lparr>ExperienceEvent.event_id = eid, occurred_at = t1, recorded_at = t2,
               actor_id = actor, event_kind = k, subject = subj, payload = pl, source = src,
               causation_id = caus, correlation_id = corr, confidence = conf,
               integrity_hash = []\<rparr>
      in res_bind (calculate_hash x e) (\<lambda>h. Inr (e\<lparr>integrity_hash := h\<rparr>)))"

lemma calculate_hash_ignores_hash [simp]:
  "calculate_hash x (e\<lparr>integrity_hash := h\<rparr>) = calculate_hash x e"
  by (simp add: calculate_hash_def)

text \<open>An event built by the constructor verifies, and every altered copy needs a collision.\<close>

lemma new_with_id_Inr:
  assumes "new_with_id x t1 t2 eid actor k subj pl src caus corr conf = Inr e"
  shows "ExperienceEvent.event_id e = eid" and "ExperienceEvent.actor_id e = actor" and "event_kind e = k"
    and "ExperienceEvent.subject e = subj" and "payload e = pl" and "source e = src"
    and "causation_id e = caus" and "correlation_id e = corr"
    and "verify_integrity x e = Inr True"
  using assms
  by (auto simp: new_with_id_def verify_integrity_def calculate_hash_def Let_def res_simps)

lemma length_hex [simp]: "length (hex_byte c) = 2"
  by (simp add: hex_byte_def Let_def)

lemma length_sha256_hex: "length (sha256_hex x b) = 2 * length (sha256_digest x b)"
  by (simp add: sha256_hex_def length_concat comp_def sum_list_triv)

lemma hex_digit_range:
  "n < 16 \<Longrightarrow>
     (CHR ''0'' \<le> hex_digit n \<and> hex_digit n \<le> CHR ''9'') \<or>
     (CHR ''a'' \<le> hex_digit n \<and> hex_digit n \<le> CHR ''f'')"
  by (auto simp: hex_digit_def less_eq_char_def)

lemma hex_byte_range:
  assumes "d \<in> set (hex_byte c)"
  shows "(CHR ''0'' \<le> d \<and> d \<le> CHR ''9'') \<or> (CHR ''a'' \<le> d \<and> d \<le> CHR ''f'')"
proof -
  have "(of_char c :: nat) < 256"
    using range_nat_of_char by (metis atLeastLessThan_iff rangeI)
  then have "(of_char c :: nat) div 16 < 16" and "(of_char c :: nat) mod 16 < 16" by arith+
  moreover have "d = hex_digit (of_char c div 16) \<or> d = hex_digit (of_char c mod 16)"
    using assms by (simp add: hex_byte_def Let_def)
  ultimately have "\<exists>n < 16. d = hex_digit n" by metis
  then show ?thesis using hex_digit_range by blast
qed

lemma sha256_hex_valid:
  assumes "length (sha256_digest x b) = 32"
  shows "valid_sha256_hex (sha256_hex x b)"
proof -
  have "length (sha256_hex x b) = 64"
    using assms by (simp add: length_sha256_hex)
  moreover have "(CHR ''0'' \<le> d \<and> d \<le> CHR ''9'') \<or> (CHR ''a'' \<le> d \<and> d \<le> CHR ''f'')"
    if "d \<in> set (sha256_hex x b)" for d
    using that hex_byte_range by (auto simp: sha256_hex_def)
  ultimately show ?thesis by (simp add: valid_sha256_hex_def)
qed

end
