(* ===== verification/Evidence.thy ===== *)
theory Evidence
  imports State
begin

text \<open>
  Evidence normalisation and the fingerprints the ledger de-duplicates by:
  \<open>normalize_description\<close>, \<open>normalize_evidence_refs\<close> and \<open>completion_fingerprint\<close>
  (\<open>src/core/evidence.rs\<close>), \<open>integration_candidate_fingerprint\<close> (\<open>src/core/sleep.rs\<close>) and
  \<open>initiative_fingerprint\<close> (\<open>src/core/initiative.rs\<close>). The lemmas say what each of them
  forgets of its input: order, repetition, surrounding white space.
\<close>

definition normalize_description :: "ext \<Rightarrow> string \<Rightarrow> string" where
  "normalize_description x v = to_lowercase x (join '' '' (split_whitespace v))"

text \<open>The order of \<open>sort_by\<close> compares all four fields; \<open>dedup_by\<close> ignores the last.\<close>

definition evidence_order :: "EvidenceRef \<Rightarrow> EventId \<times> ArtifactId option \<times> string \<times> u64" where
  "evidence_order r =
     (EvidenceRef.event_id r, artifact_id r, source_hash r, EvidenceRef.as_of_sequence r)"

definition same_evidence :: "EvidenceRef \<Rightarrow> EvidenceRef \<Rightarrow> bool" where
  "same_evidence l r \<longleftrightarrow>
     EvidenceRef.event_id l = EvidenceRef.event_id r \<and> artifact_id l = artifact_id r \<and>
     source_hash l = source_hash r"

definition normalize_evidence_refs :: "EvidenceRef list \<Rightarrow> EvidenceRef list" where
  "normalize_evidence_refs refs = dedup_by same_evidence (sort_key evidence_order refs)"

definition completion_fingerprint ::
  "ext \<Rightarrow> TaskId \<Rightarrow> CompletionCriterionId \<Rightarrow> EvidenceRef list \<Rightarrow> string"
where
  "completion_fingerprint x tid cid refs =
     (let event_ids = sort (map (\<lambda>r. id_text x (EvidenceRef.event_id r)) refs);
          artifact_ids = sort (filter_map (\<lambda>r. map_option (id_text x) (artifact_id r)) refs);
          source_hashes = sort (map source_hash refs);
          nl = [CHR 0x0A]
      in sha256_hex x
           (''completion'' @ nl @ id_text x tid @ nl @ id_text x cid @ nl @
            join '','' event_ids @ nl @ join '','' artifact_ids @ nl @ join '','' source_hashes))"

definition integration_candidate_fingerprint ::
  "ext \<Rightarrow> IntegrationCandidateKind \<Rightarrow> string \<Rightarrow> EventId list \<Rightarrow> EventId list \<Rightarrow> string"
where
  "integration_candidate_fingerprint x k cont src counter =
     (let kind_text = (case candidate_kind_json x k of Inl _ \<Rightarrow> [] | Inr t \<Rightarrow> t);
          nul = [CHR 0x00]
      in sha256_hex x
           (kind_text @ nul @ trim cont @ nul @
            concat (map (\<lambda>e. id_text x e @ nul) (sort src)) @ [CHR 0x01] @
            concat (map (\<lambda>e. id_text x e @ nul) (sort counter))))"

definition initiative_fingerprint ::
  "ext \<Rightarrow> InitiativeKind \<Rightarrow> EntityRef \<Rightarrow> u64 \<Rightarrow> PrincipalId \<Rightarrow> EventId list \<Rightarrow> string"
where
  "initiative_fingerprint x k ent ver tgt ids =
     sha256_hex x
       (initiative_json x
         (''initiative-v1'', k, ent, ver, tgt, dedup_by (\<lambda>a b. a = b) (sort ids)))"

section \<open>Evidence lists in normal form\<close>

definition evidence_key :: "EvidenceRef \<Rightarrow> EventId \<times> ArtifactId option \<times> string" where
  "evidence_key r = (EvidenceRef.event_id r, artifact_id r, source_hash r)"

lemma normalize_description_trim [simp]:
  "normalize_description x (trim v) = normalize_description x v"
  by (simp add: normalize_description_def)

lemma same_evidence_key: "same_evidence = (\<lambda>a b. evidence_key a = evidence_key b)"
  by (auto simp: fun_eq_iff same_evidence_def evidence_key_def)

lemma inj_evidence_order: "inj evidence_order"
  by (rule injI) (simp add: evidence_order_def)

lemma evidence_order_key:
  "evidence_order a \<le> evidence_order b \<Longrightarrow> evidence_key a \<le> evidence_key b"
  by (auto simp: evidence_order_def evidence_key_def)

lemma evidence_key_less_order:
  "evidence_key a < evidence_key b \<Longrightarrow> evidence_order a \<le> evidence_order b"
  by (auto simp: evidence_order_def evidence_key_def)

lemma sorted_map_evidence_key:
  "sorted (map evidence_order refs) \<Longrightarrow> sorted (map evidence_key refs)"
  by (induction refs) (auto dest: evidence_order_key)

lemma normalize_strict:
  "sorted_wrt (<) (map evidence_key (normalize_evidence_refs refs))"
  unfolding normalize_evidence_refs_def same_evidence_key
  by (rule dedup_by_key_strict) (simp add: sorted_map_evidence_key)

lemma normalize_of_strict:
  assumes "sorted_wrt (<) (map evidence_key refs)"
  shows "normalize_evidence_refs refs = refs"
proof -
  have "sorted (map evidence_order refs)"
    using assms by (induction refs) (auto intro: evidence_key_less_order)
  then show ?thesis
    using assms
    by (simp add: normalize_evidence_refs_def same_evidence_key sort_key_id_if_sorted
        sorted_strict_dedup_id)
qed

lemma normalize_idem [simp]:
  "normalize_evidence_refs (normalize_evidence_refs refs) = normalize_evidence_refs refs"
  by (rule normalize_of_strict) (rule normalize_strict)

lemma normalize_keys:
  "evidence_key ` set (normalize_evidence_refs refs) = evidence_key ` set refs"
  using dedup_by_key_keys [of evidence_key "sort_key evidence_order refs"]
  by (simp add: normalize_evidence_refs_def same_evidence_key)

lemma set_normalize: "set (normalize_evidence_refs refs) \<subseteq> set refs"
  using set_dedup_by [of same_evidence "sort_key evidence_order refs"]
  by (simp add: normalize_evidence_refs_def)

lemma normalize_Nil_iff: "normalize_evidence_refs refs = [] \<longleftrightarrow> refs = []"
proof
  show "refs = []" if "normalize_evidence_refs refs = []"
    using normalize_keys [of refs] that by simp
qed (simp add: normalize_evidence_refs_def)

text \<open>Consecutive de-duplication keeps the first, hence the least, of each run.\<close>

lemma dedup_by_least:
  fixes g :: "'a \<Rightarrow> 'c::linorder"
  assumes "sorted (map g xs)" and "r \<in> set xs"
  shows "\<exists>r' \<in> set (dedup_by (\<lambda>a b. f a = f b) xs). f r' = f r \<and> g r' \<le> g r"
  using assms
proof (induction "\<lambda>a b. f a = f b" xs arbitrary: r rule: dedup_by.induct)
  case (3 x y ys)
  show ?case
  proof (cases "f y = f x")
    case True
    have "\<exists>q \<in> set (x # ys). f q = f r \<and> g q \<le> g r"
      using 3(3,4) True by (cases "r = y") auto
    then obtain q where q: "q \<in> set (x # ys)" "f q = f r" "g q \<le> g r" by blast
    have "sorted (map g (x # ys))" using 3(3) by auto
    from 3(1) [OF True this q(1)] q True show ?thesis by (auto intro: order_trans)
  next
    case False
    then show ?thesis using 3 by (cases "r = x") auto
  qed
qed auto

lemma normalize_least:
  assumes "r \<in> set refs"
  shows "\<exists>r' \<in> set (normalize_evidence_refs refs).
           evidence_key r' = evidence_key r \<and>
           EvidenceRef.as_of_sequence r' \<le> EvidenceRef.as_of_sequence r"
proof -
  obtain r' where r': "r' \<in> set (normalize_evidence_refs refs)"
    "evidence_key r' = evidence_key r" "evidence_order r' \<le> evidence_order r"
    using dedup_by_least [of evidence_order "sort_key evidence_order refs" r evidence_key] assms
    by (auto simp: normalize_evidence_refs_def same_evidence_key)
  then have "EvidenceRef.as_of_sequence r' \<le> EvidenceRef.as_of_sequence r"
    by (auto simp: evidence_order_def evidence_key_def)
  with r' show ?thesis by blast
qed

lemma normalize_mset:
  "mset refs = mset refs' \<Longrightarrow> normalize_evidence_refs refs = normalize_evidence_refs refs'"
  unfolding normalize_evidence_refs_def
  by (metis inj_evidence_order inj_on_subset sort_key_mset_cong subset_UNIV)

section \<open>What the fingerprints ignore\<close>

lemma mset_filter_map: "mset xs = mset ys \<Longrightarrow> mset (filter_map f xs) = mset (filter_map f ys)"
proof -
  have "mset (filter_map f zs) = image_mset (\<lambda>z. the (f z)) (filter_mset (\<lambda>z. f z \<noteq> None) (mset zs))"
    for zs by (induction zs) (auto split: option.splits)
  then show "mset xs = mset ys \<Longrightarrow> ?thesis" by simp
qed

lemma sort_mset_cong: "mset xs = mset ys \<Longrightarrow> sort xs = sort ys"
  by (metis sorted_list_of_multiset_mset)

lemma completion_fingerprint_mset:
  assumes "mset refs = mset refs'"
  shows "completion_fingerprint x tid cid refs = completion_fingerprint x tid cid refs'"
proof -
  have "sort (map f refs) = sort (map f refs')" for f :: "EvidenceRef \<Rightarrow> string"
    by (rule sort_mset_cong) (simp add: assms)
  moreover have "sort (filter_map g refs) = sort (filter_map g refs')"
    for g :: "EvidenceRef \<Rightarrow> string option"
    by (rule sort_mset_cong) (rule mset_filter_map [OF assms])
  ultimately show ?thesis by (simp add: completion_fingerprint_def)
qed

lemma integration_fingerprint_mset:
  assumes "mset src = mset src'" and "mset counter = mset counter'"
  shows "integration_candidate_fingerprint x k (trim cont) src' counter' =
         integration_candidate_fingerprint x k cont src counter"
  using sort_mset_cong [OF assms(1)] sort_mset_cong [OF assms(2)]
  by (simp add: integration_candidate_fingerprint_def)

lemma dedup_sort_set:
  assumes "set xs = set ys"
  shows "dedup_by (\<lambda>a b. a = b) (sort xs) = dedup_by (\<lambda>a b. a = b) (sort ys)"
proof -
  have strict: "sorted_wrt (<) (dedup_by (\<lambda>a b. a = b) (sort zs))" for zs :: "'a::linorder list"
    using dedup_by_key_strict [of "\<lambda>a. a" "sort zs"] by simp
  have "set (dedup_by (\<lambda>a b. a = b) (sort zs)) = set zs" for zs :: "'a::linorder list"
    using dedup_by_key_keys [of "\<lambda>a. a" "sort zs"] by simp
  with assms strict show ?thesis
    by (metis sorted_distinct_set_unique strict_sorted_iff)
qed

lemma initiative_fingerprint_set:
  "set ids = set ids' \<Longrightarrow>
     initiative_fingerprint x k ent ver tgt ids = initiative_fingerprint x k ent ver tgt ids'"
  by (simp add: initiative_fingerprint_def dedup_sort_set [of ids ids'])

section \<open>Typed proposals\<close>

text \<open>
  The typed proposals a sleep candidate may carry and the two checks that block their
  integration (\<open>src/core/integration.rs\<close>). Parsing is serde's decoding followed by the
  validation written in the source; the lemmas give its exact acceptance condition.
\<close>

definition MEMORY_REVISION_SCHEMA :: string where
  "MEMORY_REVISION_SCHEMA = ''hekate.memory_revision.v1''"

definition POSITION_INTEGRATION_SCHEMA :: string where
  "POSITION_INTEGRATION_SCHEMA = ''hekate.position_integration.v1''"

definition text_out_of_bounds :: "string \<Rightarrow> bool" where
  "text_out_of_bounds v \<longleftrightarrow> blank v \<or> length (trim v) > MAX_SLEEP_TEXT"

definition memory_revision_parse :: "ext \<Rightarrow> string \<Rightarrow> string + MemoryRevisionProposal" where
  "memory_revision_parse x cont =
     res_bind (memory_revision_from_str x cont) (\<lambda>p.
       if MemoryRevisionProposal.schema p \<noteq> MEMORY_REVISION_SCHEMA
       then Inl ''schema must be hekate.memory_revision.v1''
       else
         let (event_hash, replacement) =
               (case MemoryRevisionProposal.operation p of
                  MemoryRevisionOperation.Replace _ _ h r \<Rightarrow> (h, Some r)
                | MemoryRevisionOperation.Expire _ _ h \<Rightarrow> (h, None))
         in if \<not> valid_sha256_hex event_hash
            then Inl ''expected_event_hash must be a SHA-256 hash''
            else if is_some_and replacement text_out_of_bounds
            then Inl ''replacement_content must be non-empty and at most 2000 bytes''
            else Inr p)"

definition validate_text :: "string \<Rightarrow> string \<Rightarrow> string + unit" where
  "validate_text v field =
     (if text_out_of_bounds v
      then Inl (field @ '' must be non-empty and at most 2000 bytes'')
      else Inr ())"

fun validate_each_text :: "string list \<Rightarrow> string \<Rightarrow> string + unit" where
  "validate_each_text [] field = Inr ()"
| "validate_each_text (v # vs) field =
     res_bind (validate_text v field) (\<lambda>_. validate_each_text vs field)"

definition validate_texts :: "string list \<Rightarrow> string \<Rightarrow> string + unit" where
  "validate_texts vs field =
     (if vs = [] \<or> length vs > MAX_CANDIDATE_SOURCES
      then Inl (field @ '' must contain between 1 and 16 entries'')
      else validate_each_text vs field)"

definition validate_position_operation :: "PositionIntegrationOperation \<Rightarrow> string + unit" where
  "validate_position_operation op =
     (case op of
        PositionIntegrationOperation.Establish sub st rs cs \<Rightarrow>
          res_bind (validate_text sub ''subject'') (\<lambda>_.
          res_bind (validate_texts rs ''reasons'') (\<lambda>_.
          validate_texts cs ''reconsideration_conditions''))
      | PositionIntegrationOperation.Revise pid ver st rs cs \<Rightarrow>
          if ver = 0 then Inl ''expected_version must be positive''
          else
            res_bind (validate_texts rs ''reasons'') (\<lambda>_.
            validate_texts cs ''reconsideration_conditions'')
      | PositionIntegrationOperation.Withdraw pid ver r \<Rightarrow>
          if ver = 0 then Inl ''expected_version must be positive''
          else validate_text r ''reason'')"

definition position_proposal_parse :: "ext \<Rightarrow> string \<Rightarrow> string + PositionIntegrationProposal" where
  "position_proposal_parse x cont =
     res_bind (position_proposal_from_str x cont) (\<lambda>p.
       if PositionIntegrationProposal.schema p \<noteq> POSITION_INTEGRATION_SCHEMA
       then Inl ''schema must be hekate.position_integration.v1''
       else
         res_bind (validate_position_operation (PositionIntegrationProposal.operation p))
           (\<lambda>_. Inr p))"

definition memory_revision_blocked :: "CurrentState \<Rightarrow> MemoryId \<Rightarrow> bool" where
  "memory_revision_blocked s mid =
     is_some_and (bt_get (active_memories s) mid) (\<lambda>m.
       ActiveMemory.status m = ActiveMemoryStatus.Active \<and>
       ActiveMemory.kind m = ExplicitPreference)"

definition position_integration_blocked ::
  "ext \<Rightarrow> CurrentState \<Rightarrow> PrincipalId \<Rightarrow> string \<Rightarrow> PositionId option \<Rightarrow> bool"
where
  "position_integration_blocked x s pid sub tgt =
     (let norm = normalize_description x sub
      in (\<exists>p \<in> set (bt_values (positions s)).
            Position.principal_id p = pid \<and>
            Position.status p = PositionStatus.Active \<and>
            Some (Position.id p) \<noteq> tgt \<and>
            normalize_description x (Position.subject p) = norm) \<or>
         (\<exists>c \<in> set (bt_values (conflicts s)).
            Conflict.status c \<in> {ConflictStatus.Open, ConflictStatus.Negotiating} \<and>
            (normalize_description x (Conflict.subject c) = norm \<or>
             is_some_and tgt (\<lambda>i. i \<in> set (participant_positions c)))))"

subsection \<open>Acceptance\<close>

definition text_ok :: "string \<Rightarrow> bool" where
  "text_ok v \<longleftrightarrow> trim v \<noteq> [] \<and> length (trim v) \<le> 2000"

definition texts_ok :: "string list \<Rightarrow> bool" where
  "texts_ok vs \<longleftrightarrow> 1 \<le> length vs \<and> length vs \<le> 16 \<and> (\<forall>v \<in> set vs. text_ok v)"

fun position_operation_ok :: "PositionIntegrationOperation \<Rightarrow> bool" where
  "position_operation_ok (PositionIntegrationOperation.Establish sub st rs cs) =
     (text_ok sub \<and> texts_ok rs \<and> texts_ok cs)"
| "position_operation_ok (PositionIntegrationOperation.Revise pid ver st rs cs) =
     (0 < ver \<and> texts_ok rs \<and> texts_ok cs)"
| "position_operation_ok (PositionIntegrationOperation.Withdraw pid ver r) =
     (0 < ver \<and> text_ok r)"

lemma text_out_of_bounds_iff: "text_out_of_bounds v \<longleftrightarrow> \<not> text_ok v"
  by (auto simp: text_out_of_bounds_def text_ok_def blank_def MAX_SLEEP_TEXT_def)

lemma validate_text_Inr: "validate_text v f = Inr u \<longleftrightarrow> text_ok v"
  by (simp add: validate_text_def text_out_of_bounds_iff)

lemma validate_each_text_Inr: "validate_each_text vs f = Inr u \<longleftrightarrow> (\<forall>v \<in> set vs. text_ok v)"
  by (induction vs) (auto simp: res_simps validate_text_Inr)

lemma validate_texts_Inr: "validate_texts vs f = Inr u \<longleftrightarrow> texts_ok vs"
  by (auto simp: validate_texts_def texts_ok_def validate_each_text_Inr
      MAX_CANDIDATE_SOURCES_def Suc_le_eq)

lemma validate_position_operation_Inr:
  "validate_position_operation op = Inr u \<longleftrightarrow> position_operation_ok op"
  by (cases op)
    (auto simp: validate_position_operation_def res_simps validate_text_Inr validate_texts_Inr
      word_greater_zero_iff)

lemma position_proposal_parse_Inr_iff:
  "position_proposal_parse x cont = Inr p \<longleftrightarrow>
     position_proposal_from_str x cont = Inr p \<and>
     PositionIntegrationProposal.schema p = POSITION_INTEGRATION_SCHEMA \<and>
     position_operation_ok (PositionIntegrationProposal.operation p)"
  by (auto simp: position_proposal_parse_def res_simps validate_position_operation_Inr
      split: if_splits)

fun memory_operation_ok :: "MemoryRevisionOperation \<Rightarrow> bool" where
  "memory_operation_ok (MemoryRevisionOperation.Replace mid eid h r) =
     (valid_sha256_hex h \<and> text_ok r)"
| "memory_operation_ok (MemoryRevisionOperation.Expire mid eid h) = valid_sha256_hex h"

lemma memory_revision_parse_Inr_iff:
  "memory_revision_parse x cont = Inr p \<longleftrightarrow>
     memory_revision_from_str x cont = Inr p \<and>
     MemoryRevisionProposal.schema p = MEMORY_REVISION_SCHEMA \<and>
     memory_operation_ok (MemoryRevisionProposal.operation p)"
proof (cases "memory_revision_from_str x cont")
  case (Inl e)
  then show ?thesis by (simp add: memory_revision_parse_def)
next
  case (Inr q)
  then show ?thesis
    by (cases "MemoryRevisionProposal.operation q")
      (auto simp: memory_revision_parse_def text_out_of_bounds_iff)
qed

end
