(* ===== verification/Thought.thy ===== *)
theory Thought
  imports State
begin

text \<open>
  The model's side of an interaction as data: recall results (\<open>src/core/recall.rs\<close>), the
  diagnostics of a model call (\<open>src/core/model_io.rs\<close>) and the thought cycle
  (\<open>src/core/model.rs\<close>).
\<close>

record RecalledItem =
  entity :: EntityRef
  source_event_id :: EventId
  source_hash :: string
  as_of_sequence :: u64
  "text" :: string
  score :: f32_bits
  created_at :: string

record RecallBundle =
  query_hash :: string
  embedding_space_id :: string
  items :: "RecalledItem list"

datatype TransportKind = OpenaiCompatible | Ollama

datatype RequestPurpose = Foreground | Sleep

record ModelIoDiagnostic =
  transport :: TransportKind
  purpose :: RequestPurpose
  budget :: BudgetReport
  evidence_ids :: "EventId list"
  position_ids :: "PositionId list"
  conflict_ids :: "ConflictId list"
  observed_context_tokens :: "u32 option"
  prompt_tokens :: "u64 option"
  completion_tokens :: "u64 option"
  finish_reason :: "string option"
  content_type :: string
  content_bytes :: "usize option"
  request_hash :: string
  response_hash :: "string option"
  elapsed_ms :: u64
  error_kind :: "string option"

record ThoughtDraft =
  "interpretation" :: string
  initial_judgment :: DecisionKind
  reasons :: "string list"
  uncertainties :: "string list"
  initial_intent :: string

record SelfReview =
  strongest_counterargument :: string
  value_conflicts :: "string list"
  unsupported_claims :: "string list"
  revision_direction :: "string option"

record CommittedJudgment =
  final_act :: DecisionKind
  reasons :: "string list"
  response :: string
  confidence :: u8
  unresolved_questions :: "string list"
  alternatives :: "string list"
  reconsideration_conditions :: "string list"
  evidence_refs :: "EventId list"
  related_position_ids :: "PositionId list"
  position :: "Position option"
  user_position :: "Position option"
  conflict :: "Conflict option"
  action :: "ActionProposal option"

record CognitiveTrace =
  model_io :: "ModelIoDiagnostic list"
  trace_id :: string
  outcome :: string
  provider :: string
  model :: string
  schema_version :: string
  context_sequence :: u64
  context_hash :: string
  referenced_event_ids :: "EventId list"
  draft :: "ThoughtDraft option"
  review :: "SelfReview option"
  commitment :: "CommittedJudgment option"
  parse_errors :: "string list"
  retries :: u8
  elapsed_ms :: u64
  raw_response_hash :: "string option"
  error_kind :: "string option"
  created_at :: string

record ThoughtCycle =
  draft :: ThoughtDraft
  review :: SelfReview
  commitment :: CommittedJudgment
  trace :: CognitiveTrace

record ThoughtContext =
  event_sequence :: u64
  observation :: Observation
  current_observation_event_id :: "EventId option"
  focus :: Focus
  identity :: "IdentityVersion option"
  relationship :: "Relationship option"
  goal :: "Goal option"
  task :: "Task option"
  run :: "Run option"
  working_state :: "WorkingState option"
  positions :: "Position list"
  user_positions :: "Position list"
  conflicts :: "Conflict list"
  commitments :: "Commitment list"
  memories :: "ActiveMemory list"
  memory_candidates :: "MemoryCandidate list"
  pending_approvals :: "Approval list"
  artifacts :: "Artifact list"
  recall :: RecallBundle
  context_snapshot :: "json option"
  recent_event_ids :: "EventId list"
  relevant_events :: "ExperienceEvent list"
  available_capabilities :: "string list"
  output_schema :: string
  snapshot_hash :: string

end
