(* ===== verification/Deliberation.thy ===== *)
theory Deliberation
  imports Evidence Thought
begin

text \<open>
  From a thought cycle to a decision and the validation of a judgment before it is recorded
  (\<open>src/runtime/deliberation.rs\<close>). Fresh identifiers and the clock are arguments. The lemmas
  give the exact conditions under which a position, a conflict and a judgment are accepted.
\<close>

datatype JudgmentValidationError =
    InvalidTarget
  | ContextHashMismatch
  | UnknownEvent EventId
  | UnknownPosition PositionId
  | WrongPositionPrincipal
  | InvalidPositionRevision
  | ConflictUnknownPosition PositionId
  | ConflictParticipants
  | InvalidConflictRevision
  | InvalidConflictTransition
  | IncompleteConflict
  | IncompleteResolution
  | IncompleteAction
  | ConfidenceOutOfRange
  | EmptyResponse

definition action_from_proposal :: "ActionIntentId \<Rightarrow> ActionProposal \<Rightarrow> ActionIntent" where
  "action_from_proposal new_id a =
     \<lparr>ActionIntent.id = new_id, capability = ActionProposal.capability a,
      operation = ActionProposal.operation a, target = ActionProposal.target a,
      arguments = ActionProposal.arguments a,
      expected_effect = ActionProposal.expected_effect a,
      preconditions = ActionProposal.preconditions a, proposed_by_event = None\<rparr>"

definition decision_from_cycle ::
  "DecisionId \<Rightarrow> string \<Rightarrow> ActionIntentId \<Rightarrow> ThoughtContext \<Rightarrow> ThoughtCycle \<Rightarrow> Decision"
where
  "decision_from_cycle new_id now_text new_intent ctx cycle =
     (let c = ThoughtCycle.commitment cycle
      in (respond new_id now_text (response c))
           \<lparr>Decision.kind := final_act c,
            Decision.target_principal_id := Some (Observation.actor_id (observation ctx)),
            request := Observation.content (observation ctx),
            Decision.context_hash := ThoughtContext.snapshot_hash ctx,
            Decision.confidence := CommittedJudgment.confidence c,
            Decision.reasons := CommittedJudgment.reasons c,
            Decision.evidence_refs := CommittedJudgment.evidence_refs c,
            Decision.alternatives := CommittedJudgment.alternatives c,
            Decision.reconsideration_conditions :=
              CommittedJudgment.reconsideration_conditions c,
            Decision.unresolved_questions := CommittedJudgment.unresolved_questions c,
            Decision.related_position_ids := CommittedJudgment.related_position_ids c,
            Decision.user_position := CommittedJudgment.user_position c,
            cognitive_trace_id := Some (trace_id (trace cycle)),
            Decision.position := CommittedJudgment.position c,
            Decision.conflict := CommittedJudgment.conflict c,
            Decision.action :=
              map_option (action_from_proposal new_intent) (CommittedJudgment.action c)\<rparr>)"

fun validate_evidence :: "EventId list \<Rightarrow> EventId list \<Rightarrow> JudgmentValidationError + unit" where
  "validate_evidence [] event_ids = Inr ()"
| "validate_evidence (e # es) event_ids =
     (if e \<notin> set event_ids then Inl (UnknownEvent e) else validate_evidence es event_ids)"

definition validate_position_revision ::
  "CurrentState \<Rightarrow> Position \<Rightarrow> JudgmentValidationError + unit"
where
  "validate_position_revision s p =
     (case (bt_get (CurrentState.positions s) (Position.id p), Position.supersedes p) of
        (Some previous, None) \<Rightarrow>
          if Position.version p = Position.version previous \<and>
             Position.principal_id p = Position.principal_id previous \<and>
             Position.subject p = Position.subject previous \<and>
             stance p = stance previous \<and>
             Position.status p \<in> {PositionStatus.Active, PositionStatus.Retracted}
          then Inr () else Inl InvalidPositionRevision
      | (None, None) \<Rightarrow>
          if Position.version p = 1 \<and> Position.status p = PositionStatus.Active
          then Inr () else Inl InvalidPositionRevision
      | (None, Some previous_id) \<Rightarrow>
          (case bt_get (CurrentState.positions s) previous_id of
             None \<Rightarrow> Inl InvalidPositionRevision
           | Some previous \<Rightarrow>
               if Position.status previous \<noteq> PositionStatus.Active \<or>
                  Position.principal_id previous \<noteq> Position.principal_id p \<or>
                  Position.subject previous \<noteq> Position.subject p \<or>
                  Position.version p \<noteq> saturating_add (Position.version previous) 1 \<or>
                  Position.status p \<noteq> PositionStatus.Active
               then Inl InvalidPositionRevision else Inr ())
      | _ \<Rightarrow> Inl InvalidPositionRevision)"

definition validate_position ::
  "CurrentState \<Rightarrow> Position \<Rightarrow> PrincipalId \<Rightarrow> JudgmentValidationError + unit"
where
  "validate_position s p hekate_id =
     (if Position.principal_id p \<noteq> hekate_id then Inl WrongPositionPrincipal
      else validate_position_revision s p)"

definition valid_conflict_transition :: "ConflictStatus \<Rightarrow> ConflictStatus \<Rightarrow> bool" where
  "valid_conflict_transition prev next \<longleftrightarrow>
     (prev, next) \<in>
       {(ConflictStatus.Open, ConflictStatus.Open),
        (ConflictStatus.Open, ConflictStatus.Negotiating),
        (ConflictStatus.Open, ConflictStatus.Resolved),
        (ConflictStatus.Open, ConflictStatus.AcceptedDisagreement),
        (ConflictStatus.Negotiating, ConflictStatus.Negotiating),
        (ConflictStatus.Negotiating, ConflictStatus.Resolved),
        (ConflictStatus.Negotiating, ConflictStatus.AcceptedDisagreement)}"

text \<open>The position a participant identifier denotes: recorded, or proposed by the decision.\<close>

definition denoted_position :: "CurrentState \<Rightarrow> Decision \<Rightarrow> PositionId \<Rightarrow> Position option" where
  "denoted_position s d i =
     (case bt_get (CurrentState.positions s) i of
        Some p \<Rightarrow> Some p
      | None \<Rightarrow>
          (case Decision.position d of
             Some p \<Rightarrow>
               if Position.id p = i then Some p
               else (case Decision.user_position d of
                       Some q \<Rightarrow> if Position.id q = i then Some q else None | None \<Rightarrow> None)
           | None \<Rightarrow>
               (case Decision.user_position d of
                  Some q \<Rightarrow> if Position.id q = i then Some q else None | None \<Rightarrow> None)))"

fun conflict_participants ::
  "CurrentState \<Rightarrow> Decision \<Rightarrow> PositionId list \<Rightarrow> JudgmentValidationError + PrincipalId list"
where
  "conflict_participants s d [] = Inr []"
| "conflict_participants s d (i # is) =
     res_bind (ok_or (ConflictUnknownPosition i) (denoted_position s d i)) (\<lambda>p.
     res_bind (conflict_participants s d is) (\<lambda>ps.
     Inr (Position.principal_id p # ps)))"

definition validate_conflict ::
  "ThoughtContext \<Rightarrow> CurrentState \<Rightarrow> EventId list \<Rightarrow> Decision \<Rightarrow> Conflict \<Rightarrow> PrincipalId \<Rightarrow>
   JudgmentValidationError + unit"
where
  "validate_conflict ctx s event_ids d c hekate_id =
     res_bind (conflict_participants s d (participant_positions c)) (\<lambda>ps.
       if hekate_id \<notin> set ps \<or> Observation.actor_id (observation ctx) \<notin> set ps
       then Inl ConflictParticipants
       else
         res_bind (validate_evidence (Conflict.evidence_refs c) event_ids) (\<lambda>_.
         res_bind
           (case bt_get (CurrentState.conflicts s) (Conflict.id c) of
              Some previous \<Rightarrow>
                if Conflict.subject previous \<noteq> Conflict.subject c \<or>
                   Conflict.revision c \<noteq> saturating_add (Conflict.revision previous) 1
                then Inl InvalidConflictRevision
                else if \<not> valid_conflict_transition (Conflict.status previous) (Conflict.status c)
                then Inl InvalidConflictTransition
                else Inr ()
            | None \<Rightarrow>
                if Conflict.revision c \<noteq> 1 \<or> Conflict.status c = ConflictStatus.Resolved
                then Inl InvalidConflictRevision else Inr ()) (\<lambda>_.
         if Conflict.status c \<in> {ConflictStatus.Open, ConflictStatus.Negotiating} \<and>
            (Conflict.reasons c = [] \<or> Conflict.reconsideration_conditions c = [] \<or>
             Conflict.unresolved_questions c = [])
         then Inl IncompleteConflict
         else if Conflict.status c \<in> {ConflictStatus.Resolved, ConflictStatus.AcceptedDisagreement}
                 \<and> resolution c = None
         then Inl IncompleteResolution
         else Inr ())))"

fun validate_related ::
  "CurrentState \<Rightarrow> PositionId list \<Rightarrow> PositionId list \<Rightarrow> JudgmentValidationError + unit"
where
  "validate_related s proposed [] = Inr ()"
| "validate_related s proposed (i # is) =
     (if \<not> bt_contains (CurrentState.positions s) i \<and> i \<notin> set proposed then Inl (UnknownPosition i)
      else validate_related s proposed is)"

definition validate_judgment ::
  "ThoughtContext \<Rightarrow> CurrentState \<Rightarrow> EventId list \<Rightarrow> Decision \<Rightarrow> PrincipalId \<Rightarrow>
   JudgmentValidationError + unit"
where
  "validate_judgment ctx s event_ids d hekate_id =
     (if Decision.target_principal_id d \<noteq> Some (Observation.actor_id (observation ctx))
      then Inl InvalidTarget
      else if Decision.context_hash d \<noteq> ThoughtContext.snapshot_hash ctx
      then Inl ContextHashMismatch
      else if blank (message d) then Inl EmptyResponse
      else if Decision.confidence d > 100 then Inl ConfidenceOutOfRange
      else
        res_bind (validate_evidence (Decision.evidence_refs d) event_ids) (\<lambda>_.
        let proposed = filter_map (map_option Position.id)
                         [Decision.position d, Decision.user_position d]
        in
        res_bind (validate_related s proposed (Decision.related_position_ids d)) (\<lambda>_.
        res_bind
          (case Decision.position d of
             None \<Rightarrow> Inr ()
           | Some p \<Rightarrow>
               res_bind (validate_position s p hekate_id) (\<lambda>_.
               if Position.confidence p > 100 then Inl ConfidenceOutOfRange
               else validate_evidence (Position.evidence_refs p) event_ids)) (\<lambda>_.
        res_bind
          (case Decision.user_position d of
             None \<Rightarrow> Inr ()
           | Some p \<Rightarrow>
               if Position.principal_id p \<noteq> Observation.actor_id (observation ctx)
               then Inl WrongPositionPrincipal
               else if Position.confidence p > 100 then Inl ConfidenceOutOfRange
               else
                 res_bind (validate_position_revision s p) (\<lambda>_.
                 validate_evidence (Position.evidence_refs p) event_ids)) (\<lambda>_.
        res_bind
          (case Decision.conflict d of
             None \<Rightarrow> Inr ()
           | Some c \<Rightarrow> validate_conflict ctx s event_ids d c hekate_id) (\<lambda>_.
        case Decision.action d of
          None \<Rightarrow> Inr ()
        | Some a \<Rightarrow>
            if blank (ActionIntent.capability a) \<or> blank (ActionIntent.operation a) \<or>
               blank (ActionIntent.target a)
            then Inl IncompleteAction else Inr ()))))))"

section \<open>Acceptance of positions\<close>

text \<open>What a recorded history of positions allows next; the versions are the source's.\<close>

definition position_step :: "Position option \<Rightarrow> Position option \<Rightarrow> Position \<Rightarrow> bool" where
  "position_step same prior p \<longleftrightarrow>
     (case (same, Position.supersedes p) of
        (None, None) \<Rightarrow> Position.version p = 1 \<and> Position.status p = PositionStatus.Active
      | (Some q, None) \<Rightarrow>
          Position.version p = Position.version q \<and>
          Position.principal_id p = Position.principal_id q \<and>
          Position.subject p = Position.subject q \<and> stance p = stance q \<and>
          Position.status p \<noteq> PositionStatus.Superseded
      | (None, Some _) \<Rightarrow>
          (\<exists>q. prior = Some q \<and> Position.status q = PositionStatus.Active \<and>
             Position.principal_id p = Position.principal_id q \<and>
             Position.subject p = Position.subject q \<and>
             Position.version p = saturating_add (Position.version q) 1 \<and>
             Position.status p = PositionStatus.Active)
      | (Some _, Some _) \<Rightarrow> False)"

lemma not_superseded_iff:
  "st \<in> {PositionStatus.Active, PositionStatus.Retracted} \<longleftrightarrow> st \<noteq> PositionStatus.Superseded"
  by (cases st) auto

lemma validate_position_revision_iff:
  "validate_position_revision s p = Inr u \<longleftrightarrow>
     position_step (bt_get (CurrentState.positions s) (Position.id p))
       (Option.bind (Position.supersedes p) (bt_get (CurrentState.positions s))) p"
  by (auto simp: validate_position_revision_def position_step_def not_superseded_iff
      simp del: insert_iff split: option.splits)

lemma validate_position_revision_error:
  "validate_position_revision s p = Inl e \<Longrightarrow> e = InvalidPositionRevision"
  by (auto simp: validate_position_revision_def split: option.splits if_splits)

lemma validate_evidence_iff: "validate_evidence es ids = Inr u \<longleftrightarrow> set es \<subseteq> set ids"
  by (induction es) auto

lemma validate_related_iff:
  "validate_related s proposed is = Inr u \<longleftrightarrow>
     (\<forall>i \<in> set is. bt_contains (CurrentState.positions s) i \<or> i \<in> set proposed)"
  by (induction "is") auto

lemma conflict_participants_iff:
  "conflict_participants s d is = Inr ps \<longleftrightarrow>
     list_all2 (\<lambda>i q. \<exists>p. denoted_position s d i = Some p \<and> q = Position.principal_id p) is ps"
proof (induction "is" arbitrary: ps)
  case Nil
  then show ?case by auto
next
  case (Cons i "is")
  then show ?case by (cases ps) (auto simp: res_simps)
qed

section \<open>Acceptance of conflicts and judgments\<close>

text \<open>A settled conflict admits no further change, and no change leads back from negotiation.\<close>

lemma conflict_settled:
  "prev \<in> {ConflictStatus.Resolved, ConflictStatus.AcceptedDisagreement} \<Longrightarrow>
     \<not> valid_conflict_transition prev next"
  by (auto simp: valid_conflict_transition_def)

lemma validate_conflict_Inr:
  assumes "validate_conflict ctx s event_ids d c hekate_id = Inr u"
  shows "\<exists>ps. conflict_participants s d (participant_positions c) = Inr ps \<and>
           hekate_id \<in> set ps \<and> Observation.actor_id (observation ctx) \<in> set ps"
    and "set (Conflict.evidence_refs c) \<subseteq> set event_ids"
    and "bt_get (CurrentState.conflicts s) (Conflict.id c) = Some previous \<Longrightarrow>
           Conflict.subject c = Conflict.subject previous \<and>
           Conflict.revision c = saturating_add (Conflict.revision previous) 1 \<and>
           valid_conflict_transition (Conflict.status previous) (Conflict.status c)"
    and "bt_get (CurrentState.conflicts s) (Conflict.id c) = None \<Longrightarrow>
           Conflict.revision c = 1 \<and> Conflict.status c \<noteq> ConflictStatus.Resolved"
    and "Conflict.status c \<in> {ConflictStatus.Open, ConflictStatus.Negotiating} \<Longrightarrow>
           Conflict.reasons c \<noteq> [] \<and> Conflict.reconsideration_conditions c \<noteq> [] \<and>
           Conflict.unresolved_questions c \<noteq> []"
    and "Conflict.status c \<notin> {ConflictStatus.Open, ConflictStatus.Negotiating} \<Longrightarrow>
           resolution c \<noteq> None"
  using assms
  by (auto simp: validate_conflict_def res_simps validate_evidence_iff split: option.splits
      if_splits) (cases "Conflict.status c"; auto)+

lemma validate_judgment_Inr:
  assumes "validate_judgment ctx s event_ids d hekate_id = Inr u"
  shows "Decision.target_principal_id d = Some (Observation.actor_id (observation ctx))"
    and "Decision.context_hash d = ThoughtContext.snapshot_hash ctx"
    and "\<not> blank (message d)"
    and "Decision.confidence d \<le> 100"
    and "set (Decision.evidence_refs d) \<subseteq> set event_ids"
    and "Decision.position d = Some p \<Longrightarrow>
           Position.principal_id p = hekate_id \<and> Position.confidence p \<le> 100 \<and>
           set (Position.evidence_refs p) \<subseteq> set event_ids \<and>
           validate_position_revision s p = Inr ()"
    and "Decision.user_position d = Some q \<Longrightarrow>
           Position.principal_id q = Observation.actor_id (observation ctx) \<and>
           Position.confidence q \<le> 100 \<and> set (Position.evidence_refs q) \<subseteq> set event_ids \<and>
           validate_position_revision s q = Inr ()"
    and "Decision.conflict d = Some c \<Longrightarrow>
           validate_conflict ctx s event_ids d c hekate_id = Inr ()"
    and "Decision.action d = Some a \<Longrightarrow>
           \<not> blank (ActionIntent.capability a) \<and> \<not> blank (ActionIntent.operation a) \<and>
           \<not> blank (ActionIntent.target a)"
  using assms
  by (auto simp: validate_judgment_def Let_def res_simps validate_evidence_iff
      validate_position_def split: if_splits option.splits)

end
