(* ===== verification/Transition.thy ===== *)
theory Transition
  imports State
begin

text \<open>
  The guarded status changes of \<open>src/core/transition.rs\<close> for tasks, runs and operations. Each
  is an instance of the interface \<open>lifecycle\<close> (a table of allowed changes, a transition that
  either applies an allowed change or fails and changes nothing), whose clients are facts on
  sequences of transitions.
\<close>

text \<open>The entity's name and the \<open>Debug\<close> texts of the two statuses.\<close>

datatype TransitionError = Invalid string string string

fun task_status_debug :: "TaskStatus \<Rightarrow> string" where
  "task_status_debug TaskStatus.Planned = ''Planned''"
| "task_status_debug TaskStatus.InProgress = ''InProgress''"
| "task_status_debug TaskStatus.Blocked = ''Blocked''"
| "task_status_debug TaskStatus.Completed = ''Completed''"
| "task_status_debug TaskStatus.Cancelled = ''Cancelled''"

fun run_status_debug :: "RunStatus \<Rightarrow> string" where
  "run_status_debug RunStatus.Pending = ''Pending''"
| "run_status_debug RunStatus.Running = ''Running''"
| "run_status_debug RunStatus.Suspended = ''Suspended''"
| "run_status_debug RunStatus.Completed = ''Completed''"
| "run_status_debug RunStatus.Failed = ''Failed''"
| "run_status_debug RunStatus.Cancelled = ''Cancelled''"
| "run_status_debug RunStatus.NeedsAttention = ''NeedsAttention''"

fun operation_status_debug :: "OperationStatus \<Rightarrow> string" where
  "operation_status_debug OperationStatus.Planned = ''Planned''"
| "operation_status_debug OperationStatus.Authorized = ''Authorized''"
| "operation_status_debug OperationStatus.Started = ''Started''"
| "operation_status_debug OperationStatus.Succeeded = ''Succeeded''"
| "operation_status_debug OperationStatus.Failed = ''Failed''"
| "operation_status_debug OperationStatus.Unknown = ''Unknown''"
| "operation_status_debug OperationStatus.Verified = ''Verified''"
| "operation_status_debug OperationStatus.Disputed = ''Disputed''"

definition task_allowed :: "TaskStatus \<Rightarrow> TaskStatus \<Rightarrow> bool" where
  "task_allowed from to =
     (case from of
        TaskStatus.Planned \<Rightarrow> to \<in> {TaskStatus.InProgress, TaskStatus.Cancelled}
      | TaskStatus.InProgress \<Rightarrow>
          to \<in> {TaskStatus.Blocked, TaskStatus.Completed, TaskStatus.Cancelled}
      | TaskStatus.Blocked \<Rightarrow> to \<in> {TaskStatus.InProgress, TaskStatus.Cancelled}
      | _ \<Rightarrow> False)"

definition transition_task :: "Task \<Rightarrow> TaskStatus \<Rightarrow> TransitionError + Task" where
  "transition_task t next =
     (if \<not> task_allowed (Task.status t) next
      then Inl (Invalid ''task'' (task_status_debug (Task.status t)) (task_status_debug next))
      else Inr (t\<lparr>Task.status := next\<rparr>))"

definition run_allowed :: "RunStatus \<Rightarrow> RunStatus \<Rightarrow> bool" where
  "run_allowed from to =
     (case from of
        RunStatus.Pending \<Rightarrow>
          to \<in> {RunStatus.Running, RunStatus.Cancelled, RunStatus.NeedsAttention}
      | RunStatus.Running \<Rightarrow>
          to \<in> {RunStatus.Suspended, RunStatus.Completed, RunStatus.Failed,
                RunStatus.NeedsAttention}
      | RunStatus.Suspended \<Rightarrow>
          to \<in> {RunStatus.Running, RunStatus.Completed, RunStatus.Cancelled,
                RunStatus.NeedsAttention}
      | RunStatus.NeedsAttention \<Rightarrow> to \<in> {RunStatus.Running, RunStatus.Cancelled}
      | _ \<Rightarrow> False)"

definition transition_run :: "Run \<Rightarrow> RunStatus \<Rightarrow> TransitionError + Run" where
  "transition_run r next =
     (if \<not> run_allowed (Run.status r) next
      then Inl (Invalid ''run'' (run_status_debug (Run.status r)) (run_status_debug next))
      else Inr (r\<lparr>Run.status := next\<rparr>))"

definition operation_allowed :: "OperationStatus \<Rightarrow> OperationStatus \<Rightarrow> bool" where
  "operation_allowed from to =
     (case from of
        OperationStatus.Planned \<Rightarrow> to \<in> {OperationStatus.Authorized, OperationStatus.Failed}
      | OperationStatus.Authorized \<Rightarrow> to \<in> {OperationStatus.Started, OperationStatus.Failed}
      | OperationStatus.Started \<Rightarrow>
          to \<in> {OperationStatus.Succeeded, OperationStatus.Failed, OperationStatus.Unknown}
      | OperationStatus.Unknown \<Rightarrow>
          to \<in> {OperationStatus.Succeeded, OperationStatus.Failed, OperationStatus.Disputed}
      | OperationStatus.Succeeded \<Rightarrow> to \<in> {OperationStatus.Verified, OperationStatus.Disputed}
      | OperationStatus.Failed \<Rightarrow> to \<in> {OperationStatus.Disputed}
      | _ \<Rightarrow> False)"

definition transition_operation :: "Operation \<Rightarrow> OperationStatus \<Rightarrow> TransitionError + Operation" where
  "transition_operation op next =
     (if \<not> operation_allowed (Operation.status op) next
      then Inl (Invalid ''operation'' (operation_status_debug (Operation.status op))
             (operation_status_debug next))
      else Inr (op\<lparr>Operation.status := next\<rparr>))"

section \<open>Sequences of transitions\<close>

fun drive :: "('r \<Rightarrow> 's \<Rightarrow> 'e + 'r) \<Rightarrow> 'r \<Rightarrow> 's list \<Rightarrow> 'e + 'r" where
  "drive tr r [] = Inr r"
| "drive tr r (n # ns) = res_bind (tr r n) (\<lambda>r'. drive tr r' ns)"

fun allowed_path :: "('s \<Rightarrow> 's \<Rightarrow> bool) \<Rightarrow> 's \<Rightarrow> 's list \<Rightarrow> bool" where
  "allowed_path al a [] = True"
| "allowed_path al a (n # ns) = (al a n \<and> allowed_path al n ns)"

locale lifecycle =
  fixes allowed :: "'s \<Rightarrow> 's \<Rightarrow> bool"
    and get_status :: "'r \<Rightarrow> 's"
    and set_status :: "'s \<Rightarrow> 'r \<Rightarrow> 'r"
    and tr :: "'r \<Rightarrow> 's \<Rightarrow> 'e + 'r"
  assumes tr_allowed: "allowed (get_status r) n \<Longrightarrow> tr r n = Inr (set_status n r)"
    and tr_refused: "\<not> allowed (get_status r) n \<Longrightarrow> \<exists>e. tr r n = Inl e"
    and get_set: "get_status (set_status n r) = n"
    and set_get: "set_status (get_status r) r = r"
    and set_set: "set_status n (set_status m r) = set_status n r"
begin

lemma tr_Inr_iff: "tr r n = Inr r' \<longleftrightarrow> allowed (get_status r) n \<and> r' = set_status n r"
  using tr_allowed tr_refused by (metis Inl_Inr_False sum.inject(2))

text \<open>
  A sequence of transitions succeeds exactly when the status changes form a path of allowed
  changes, and then nothing but the status has changed.
\<close>

lemma drive_Inr_iff:
  "drive tr r ns = Inr r' \<longleftrightarrow>
     allowed_path allowed (get_status r) ns \<and> r' = set_status (last (get_status r # ns)) r"
proof (induction ns arbitrary: r)
  case Nil
  then show ?case by (auto simp: set_get)
next
  case (Cons n ns)
  show ?case
    by (auto simp: res_simps tr_Inr_iff Cons.IH get_set set_set)
qed

lemma drive_terminal:
  assumes "\<forall>n. \<not> allowed (get_status r) n" and "drive tr r ns = Inr r'"
  shows "ns = [] \<and> r' = r"
  using assms unfolding drive_Inr_iff by (cases ns) (auto simp: set_get)

text \<open>A table with a measure that every change lowers bounds the number of transitions.\<close>

lemma drive_bounded:
  assumes "\<And>a b. allowed a b \<Longrightarrow> m b < (m a :: nat)" and "drive tr r ns = Inr r'"
  shows "length ns \<le> m (get_status r)"
proof -
  have "allowed_path allowed a ns \<Longrightarrow> length ns \<le> m a" for a
    using assms(1) by (induction ns arbitrary: a) (auto, fastforce)
  with assms(2) show ?thesis by (simp add: drive_Inr_iff)
qed

end

interpretation task: lifecycle task_allowed Task.status "\<lambda>n t. t\<lparr>Task.status := n\<rparr>" transition_task
  by unfold_locales (simp_all add: transition_task_def)

interpretation run: lifecycle run_allowed Run.status "\<lambda>n r. r\<lparr>Run.status := n\<rparr>" transition_run
  by unfold_locales (simp_all add: transition_run_def)

interpretation oper: lifecycle operation_allowed Operation.status
    "\<lambda>n op. op\<lparr>Operation.status := n\<rparr>" transition_operation
  by unfold_locales (simp_all add: transition_operation_def)

section \<open>The three machines\<close>

lemma task_final: "TaskStatus.Completed = a \<or> TaskStatus.Cancelled = a \<Longrightarrow> \<not> task_allowed a n"
  by (auto simp: task_allowed_def)

lemma task_allowed_Completed: "task_allowed a TaskStatus.Completed \<longleftrightarrow> a = TaskStatus.InProgress"
  by (cases a) (simp_all add: task_allowed_def)

lemma run_final:
  "a \<in> {RunStatus.Completed, RunStatus.Failed, RunStatus.Cancelled} \<Longrightarrow> \<not> run_allowed a n"
  by (auto simp: run_allowed_def)

fun operation_rank :: "OperationStatus \<Rightarrow> nat" where
  "operation_rank OperationStatus.Planned = 5"
| "operation_rank OperationStatus.Authorized = 4"
| "operation_rank OperationStatus.Started = 3"
| "operation_rank OperationStatus.Unknown = 2"
| "operation_rank OperationStatus.Succeeded = 1"
| "operation_rank OperationStatus.Failed = 1"
| "operation_rank OperationStatus.Verified = 0"
| "operation_rank OperationStatus.Disputed = 0"

lemma operation_rank_decreases: "operation_allowed a b \<Longrightarrow> operation_rank b < operation_rank a"
  by (cases a) (auto simp: operation_allowed_def)

text \<open>
  The paths of allowed changes that end in \<open>Verified\<close>, from each status on the way back to
  \<open>Planned\<close>.
\<close>

lemma op_path_final:
  "a \<in> {OperationStatus.Verified, OperationStatus.Disputed} \<Longrightarrow>
     allowed_path operation_allowed a ns \<longleftrightarrow> ns = []"
  by (cases ns) (auto simp: operation_allowed_def)

lemma op_path_Failed:
  "allowed_path operation_allowed OperationStatus.Failed ns \<Longrightarrow>
     last (OperationStatus.Failed # ns) \<noteq> OperationStatus.Verified"
  by (cases ns) (auto simp: operation_allowed_def op_path_final)

lemma op_path_Succeeded:
  "allowed_path operation_allowed OperationStatus.Succeeded ns \<Longrightarrow>
     last (OperationStatus.Succeeded # ns) = OperationStatus.Verified \<Longrightarrow>
     ns = [OperationStatus.Verified]"
  by (cases ns) (auto simp: operation_allowed_def op_path_final)

lemma op_path_Unknown:
  "allowed_path operation_allowed OperationStatus.Unknown ns \<Longrightarrow>
     last (OperationStatus.Unknown # ns) = OperationStatus.Verified \<Longrightarrow>
     ns = [OperationStatus.Succeeded, OperationStatus.Verified]"
  by (cases ns)
    (auto simp: operation_allowed_def op_path_final dest: op_path_Succeeded op_path_Failed
      split: if_splits)

lemma op_path_Started:
  "allowed_path operation_allowed OperationStatus.Started ns \<Longrightarrow>
     last (OperationStatus.Started # ns) = OperationStatus.Verified \<Longrightarrow>
     ns = [OperationStatus.Succeeded, OperationStatus.Verified] \<or>
     ns = [OperationStatus.Unknown, OperationStatus.Succeeded, OperationStatus.Verified]"
  by (cases ns)
    (auto simp: operation_allowed_def dest: op_path_Succeeded op_path_Failed op_path_Unknown
      split: if_splits)

lemma op_path_Authorized:
  "allowed_path operation_allowed OperationStatus.Authorized ns \<Longrightarrow>
     last (OperationStatus.Authorized # ns) = OperationStatus.Verified \<Longrightarrow>
     \<exists>ms. ns = OperationStatus.Started # ms \<and>
       allowed_path operation_allowed OperationStatus.Started ms \<and>
       last (OperationStatus.Started # ms) = OperationStatus.Verified"
  by (cases ns)
    (auto simp: operation_allowed_def dest: op_path_Failed split: if_splits)

lemma op_path_Planned:
  "allowed_path operation_allowed OperationStatus.Planned ns \<Longrightarrow>
     last (OperationStatus.Planned # ns) = OperationStatus.Verified \<Longrightarrow>
     \<exists>ms. ns = OperationStatus.Authorized # ms \<and>
       allowed_path operation_allowed OperationStatus.Authorized ms \<and>
       last (OperationStatus.Authorized # ms) = OperationStatus.Verified"
  by (cases ns)
    (auto simp: operation_allowed_def dest: op_path_Failed split: if_splits)

lemma operation_path_to_Verified:
  assumes "drive transition_operation op ns = Inr op'"
    and "Operation.status op = OperationStatus.Planned"
    and "Operation.status op' = OperationStatus.Verified"
  shows "ns = [OperationStatus.Authorized, OperationStatus.Started, OperationStatus.Succeeded,
               OperationStatus.Verified] \<or>
         ns = [OperationStatus.Authorized, OperationStatus.Started, OperationStatus.Unknown,
               OperationStatus.Succeeded, OperationStatus.Verified]"
proof -
  have path: "allowed_path operation_allowed OperationStatus.Planned ns"
    and last: "last (OperationStatus.Planned # ns) = OperationStatus.Verified"
    using assms by (auto simp: oper.drive_Inr_iff)
  from op_path_Planned [OF path last] obtain ms where ns: "ns = OperationStatus.Authorized # ms"
    and path: "allowed_path operation_allowed OperationStatus.Authorized ms"
    and last: "last (OperationStatus.Authorized # ms) = OperationStatus.Verified" by blast
  from op_path_Authorized [OF path last] op_path_Started ns show ?thesis by blast
qed

end
