(* ===== verification/ProjectorOps.thy ===== *)
theory ProjectorOps
  imports Deliberation Transition
begin

text \<open>
  The projector's event handlers (\<open>src/runtime/projector.rs\<close>): each takes the projection and
  an event and returns the new projection or the error the source returns. The source's
  handlers write to \<open>&mut CurrentState\<close> only after their last check, and a failed batch drops
  the state, so a handler here is a function to \<open>ProjectionError + CurrentState\<close>.
\<close>

section \<open>Errors and payloads\<close>

datatype StorageError =
    Backend string
  | Integrity string
  | RevisionConflict u64 u64
  | StaleContext u64 u64
  | InvalidState string

datatype ProjectionError =
    Storage StorageError
  | InvalidPayload EventKind string
  | Duplicate string
  | StaleContext u64 u64

definition invalid :: "EventKind \<Rightarrow> string \<Rightarrow> ProjectionError + 'a" where
  "invalid k msg = Inl (InvalidPayload k msg)"

definition decode :: "(json \<Rightarrow> string + 't) \<Rightarrow> ExperienceEvent \<Rightarrow> ProjectionError + 't" where
  "decode de e = map_err (InvalidPayload (event_kind e)) (de (payload e))"

definition insert_payload ::
  "(json \<Rightarrow> string + 't) \<Rightarrow> ('t \<Rightarrow> 'k::linorder) \<Rightarrow> EventKind \<Rightarrow> json \<Rightarrow> ('k, 't) btree \<Rightarrow>
   ProjectionError + ('k, 't) btree"
where
  "insert_payload de key k v m =
     res_bind (map_err (InvalidPayload k) (de v)) (\<lambda>item. Inr (bt_insert (key item) item m))"

definition subject_is :: "ExperienceEvent \<Rightarrow> EntityKind \<Rightarrow> Uuid \<Rightarrow> bool" where
  "subject_is e k u \<longleftrightarrow>
     is_some_and (ExperienceEvent.subject e) (\<lambda>r. EntityRef.kind r = k \<and> EntityRef.id r = u)"

definition is_model_actor :: "CurrentState \<Rightarrow> PrincipalId \<Rightarrow> bool" where
  "is_model_actor s actor \<longleftrightarrow>
     is_some_and (bt_get (principals s) actor) (\<lambda>p. Principal.kind p = Hekate)"

text \<open>The one-based position of an event in the ledger, as a \<open>u64\<close>.\<close>

definition event_sequence_of :: "CurrentState \<Rightarrow> EventId \<Rightarrow> u64 option" where
  "event_sequence_of s eid =
     map_option (\<lambda>i. of_nat i + 1) (position_index (\<lambda>i. i = eid) (applied_events s))"

section \<open>Identity, conflicts, verification and memory events\<close>

definition apply_identity_version :: "ext \<Rightarrow> CurrentState \<Rightarrow> ExperienceEvent \<Rightarrow> ProjectionError + CurrentState"
where
  "apply_identity_version x s e =
     res_bind (decode (de_identity_version x) e) (\<lambda>v.
       Inr (s\<lparr>principals := bt_modify (IdentityVersion.principal_id v)
                (\<lambda>p. p\<lparr>Principal.identity_version_id := Some (IdentityVersion.id v)\<rparr>) (principals s),
              identity_versions := bt_insert (IdentityVersion.id v) v (identity_versions s)\<rparr>))"

definition apply_working_state :: "ext \<Rightarrow> CurrentState \<Rightarrow> ExperienceEvent \<Rightarrow> ProjectionError + CurrentState"
where
  "apply_working_state x s e =
     res_bind (decode (de_working_state x) e) (\<lambda>w.
       Inr (s\<lparr>working_states := bt_insert (WorkingState.run_id w) w (working_states s)\<rparr>))"

definition store_conflict :: "CurrentState \<Rightarrow> Conflict \<Rightarrow> CurrentState" where
  "store_conflict s c =
     (let participant_ids =
            map Position.principal_id
              (filter_map (bt_get (CurrentState.positions s)) (participant_positions c));
          unresolved = (Conflict.status c \<in> {ConflictStatus.Open, ConflictStatus.Negotiating});
          update = (\<lambda>r.
            if \<not> (\<exists>p \<in> set participant_ids. p \<in> set (Relationship.participants r)) then r
            else if unresolved
            then r\<lparr>unresolved_conflicts := push_unique (unresolved_conflicts r) (Conflict.id c)\<rparr>
            else r\<lparr>unresolved_conflicts :=
                     filter (\<lambda>i. i \<noteq> Conflict.id c) (unresolved_conflicts r)\<rparr>)
      in s\<lparr>relationships := bt_map_values update (relationships s),
           CurrentState.conflicts := bt_insert (Conflict.id c) c (CurrentState.conflicts s)\<rparr>)"

definition apply_conflict :: "ext \<Rightarrow> CurrentState \<Rightarrow> ExperienceEvent \<Rightarrow> ProjectionError + CurrentState"
where
  "apply_conflict x s e =
     res_bind (decode (de_conflict x) e) (\<lambda>c. Inr (store_conflict s c))"

fun verified_operation_status :: "VerificationStatus \<Rightarrow> OperationStatus" where
  "verified_operation_status VerificationStatus.Verified = OperationStatus.Verified"
| "verified_operation_status VerificationStatus.Disputed = OperationStatus.Disputed"
| "verified_operation_status VerificationStatus.Failed = OperationStatus.Failed"

definition apply_verification :: "ext \<Rightarrow> CurrentState \<Rightarrow> ExperienceEvent \<Rightarrow> ProjectionError + CurrentState"
where
  "apply_verification x s e =
     res_bind (decode (de_verification x) e) (\<lambda>v.
       Inr (s\<lparr>operations := bt_modify (Verification.operation_id v)
                (\<lambda>p. p\<lparr>Operation.status := verified_operation_status (Verification.status v)\<rparr>)
                (operations s),
              verifications := bt_insert (Verification.id v) v (verifications s)\<rparr>))"

fun memory_candidate_status :: "ActiveMemoryStatus \<Rightarrow> MemoryCandidateStatus" where
  "memory_candidate_status ActiveMemoryStatus.Active = MemoryCandidateStatus.Promoted"
| "memory_candidate_status ActiveMemoryStatus.Superseded = MemoryCandidateStatus.Superseded"
| "memory_candidate_status ActiveMemoryStatus.Expired = MemoryCandidateStatus.Expired"

definition apply_active_memory :: "ext \<Rightarrow> CurrentState \<Rightarrow> ExperienceEvent \<Rightarrow> ProjectionError + CurrentState"
where
  "apply_active_memory x s e =
     res_bind (decode (de_active_memory x) e) (\<lambda>m.
       Inr (s\<lparr>CurrentState.memory_candidates := bt_modify (ActiveMemory.candidate_id m)
                (\<lambda>c. c\<lparr>MemoryCandidate.status := memory_candidate_status (ActiveMemory.status m)\<rparr>)
                (CurrentState.memory_candidates s),
              active_memories := bt_insert (ActiveMemory.id m) m (active_memories s)\<rparr>))"

section \<open>Focus resolutions\<close>

definition goal_open_to :: "Goal \<Rightarrow> PrincipalId \<Rightarrow> bool" where
  "goal_open_to g actor \<longleftrightarrow>
     owner_principal_id g = actor \<or> actor \<in> set (Goal.participants g)"

fun check_focus_candidates ::
  "CurrentState \<Rightarrow> EventKind \<Rightarrow> PrincipalId \<Rightarrow> FocusCandidate list \<Rightarrow> ProjectionError + unit"
where
  "check_focus_candidates s k actor [] = Inr ()"
| "check_focus_candidates s k actor (c # cs) =
     (case bt_get (tasks s) (FocusCandidate.task_id c) of
        None \<Rightarrow> invalid k ''focus candidate references an unknown task''
      | Some t \<Rightarrow>
          (case bt_get (goals s) (FocusCandidate.goal_id c) of
             None \<Rightarrow> invalid k ''focus candidate references an unknown goal''
           | Some g \<Rightarrow>
               if Task.goal_id t \<noteq> Some (FocusCandidate.goal_id c) \<or>
                  Task.title t \<noteq> task_title c \<or>
                  Task.status t \<noteq> task_status c \<or>
                  Goal.title g \<noteq> goal_title c \<or>
                  \<not> goal_open_to g actor \<or>
                  (\<exists>i \<in> set (evidence_event_ids c). i \<notin> set (applied_events s))
               then invalid k ''focus candidate evidence does not match state''
               else
                 (case FocusCandidate.run_id c of
                    Some r \<Rightarrow>
                      (case bt_get (runs s) r of
                         None \<Rightarrow> invalid k ''focus candidate run does not match task''
                       | Some rn \<Rightarrow>
                           if Run.task_id rn \<noteq> Some (FocusCandidate.task_id c)
                           then invalid k ''focus candidate run does not match task''
                           else check_focus_candidates s k actor cs)
                  | None \<Rightarrow> check_focus_candidates s k actor cs)))"

definition focus_is_valid ::
  "CurrentState \<Rightarrow> EventKind \<Rightarrow> PrincipalId \<Rightarrow> FocusResolution \<Rightarrow> ProjectionError + bool"
where
  "focus_is_valid s k actor r =
     (let f = FocusResolution.focus r in
      case FocusResolution.outcome r of
        Conversation \<Rightarrow>
          Inr (Focus.goal_id f = None \<and> Focus.task_id f = None \<and>
               is_some_and (Option.bind (Focus.run_id f) (bt_get (runs s)))
                 (\<lambda>rn. Run.task_id rn = None))
      | Clarification \<Rightarrow>
          Inr (Focus.goal_id f = None \<and> Focus.task_id f = None \<and> Focus.run_id f = None \<and>
               is_some_and (clarification r) (\<lambda>q. \<not> blank q))
      | _ \<Rightarrow>
          (case (Focus.task_id f, Focus.run_id f) of
             (Some tid, Some rid) \<Rightarrow>
               (case bt_get (tasks s) tid of
                  None \<Rightarrow> invalid k ''work focus references an unknown task''
                | Some t \<Rightarrow>
                    (case bt_get (runs s) rid of
                       None \<Rightarrow> invalid k ''work focus references an unknown run''
                     | Some rn \<Rightarrow>
                         let owned_active_goal =
                               is_some_and (Option.bind (Task.goal_id t) (bt_get (goals s)))
                                 (\<lambda>g. Goal.status g = GoalStatus.Active \<and> goal_open_to g actor);
                             goal_matches =
                               (Task.goal_id t = Focus.goal_id f \<and> owned_active_goal);
                             run_matches =
                               (Run.task_id rn = Some tid \<and>
                                Run.status rn \<in> {RunStatus.Pending, RunStatus.Running})
                         in Inr (goal_matches \<and> run_matches \<and>
                                 Task.status t = TaskStatus.InProgress \<and>
                                 (FocusResolution.outcome r \<noteq> NewWork \<or> Focus.goal_id f \<noteq> None))))
           | _ \<Rightarrow> invalid k ''work focus requires a task and run''))"

definition apply_focus_resolution ::
  "ext \<Rightarrow> CurrentState \<Rightarrow> ExperienceEvent \<Rightarrow> ProjectionError + CurrentState"
where
  "apply_focus_resolution x s e =
     (let k = event_kind e in
      res_bind (decode (de_focus_resolution x) e) (\<lambda>r.
      case bt_get (observations s) (observation_id r) of
        None \<Rightarrow> invalid k ''focus resolution references an unknown observation''
      | Some obs \<Rightarrow>
          if \<not> subject_is e EntityKind.Observation (uuid (observation_id r)) \<or>
             correlation_id e \<noteq> Some (id_text x (observation_id r)) \<or>
             ExperienceEvent.actor_id e \<noteq> Observation.actor_id obs
          then invalid k ''focus resolution event identity does not match''
          else if FocusResolution.as_of_revision r > CurrentState.revision s \<or>
                  bt_contains (focus_resolutions s) (observation_id r)
          then invalid k ''focus resolution revision or identity is invalid''
          else
            res_bind (check_focus_candidates s k (Observation.actor_id obs) (candidates r)) (\<lambda>_.
            res_bind (focus_is_valid s k (Observation.actor_id obs) r) (\<lambda>ok.
            if \<not> ok then invalid k ''focus outcome does not match its selected entities''
            else Inr (s\<lparr>focus_resolutions :=
                          bt_insert (observation_id r) r (focus_resolutions s)\<rparr>)))))"

section \<open>Task completion\<close>

definition apply_task_completion ::
  "ext \<Rightarrow> CurrentState \<Rightarrow> ExperienceEvent \<Rightarrow> ProjectionError + CurrentState"
where
  "apply_task_completion x s e =
     (let k = event_kind e in
      res_bind (decode (de_task x) e) (\<lambda>completed.
      if \<not> subject_is e EntityKind.Task (uuid (Task.id completed))
      then invalid k ''task completion subject does not match payload''
      else
        (case bt_get (tasks s) (Task.id completed) of
           None \<Rightarrow> invalid k ''completion references an unknown task''
         | Some current \<Rightarrow>
             (case transition_task current TaskStatus.Completed of
                Inl _ \<Rightarrow> invalid k ''invalid task completion transition''
              | Inr expected \<Rightarrow>
                  if expected \<noteq> completed
                  then invalid k ''invalid task completion transition''
                  else Inr (s\<lparr>tasks := bt_insert (Task.id completed) completed (tasks s)\<rparr>)))))"

section \<open>Initiatives\<close>

definition initiative_subject_matches :: "ext \<Rightarrow> ExperienceEvent \<Rightarrow> Uuid \<Rightarrow> bool" where
  "initiative_subject_matches x e i \<longleftrightarrow>
     subject_is e EntityKind.Initiative i \<and>
     EventSource.source_type (source e) = ''initiative'' \<and>
     EventSource.source_ref (source e) = Some (uuid_text x i) \<and>
     correlation_id e = Some (uuid_text x i)"

definition has_key :: "('e Id, 'v) btree \<Rightarrow> Uuid \<Rightarrow> bool" where
  "has_key m u \<longleftrightarrow> (\<exists>k \<in> set (bt_keys m). uuid k = u)"

definition initiative_source_exists :: "CurrentState \<Rightarrow> EntityRef \<Rightarrow> bool" where
  "initiative_source_exists s r =
     (let u = EntityRef.id r in
      case EntityRef.kind r of
        EntityKind.Principal \<Rightarrow> has_key (principals s) u
      | EntityKind.IdentityVersion \<Rightarrow> has_key (identity_versions s) u
      | EntityKind.Relationship \<Rightarrow> has_key (relationships s) u
      | EntityKind.Observation \<Rightarrow> has_key (observations s) u
      | EntityKind.Goal \<Rightarrow> has_key (goals s) u
      | EntityKind.Task \<Rightarrow> has_key (tasks s) u
      | EntityKind.Run \<Rightarrow> has_key (runs s) u
      | EntityKind.WorkingState \<Rightarrow>
          (\<exists>w \<in> set (bt_values (working_states s)). uuid (WorkingState.id w) = u)
      | EntityKind.Decision \<Rightarrow> has_key (decisions s) u
      | EntityKind.Position \<Rightarrow> has_key (CurrentState.positions s) u
      | EntityKind.Conflict \<Rightarrow> has_key (CurrentState.conflicts s) u
      | EntityKind.Commitment \<Rightarrow> has_key (CurrentState.commitments s) u
      | EntityKind.ActionIntent \<Rightarrow> has_key (action_intents s) u
      | EntityKind.Operation \<Rightarrow> has_key (operations s) u
      | EntityKind.Approval \<Rightarrow> has_key (approvals s) u
      | EntityKind.Receipt \<Rightarrow> has_key (receipts s) u
      | EntityKind.Verification \<Rightarrow> has_key (verifications s) u
      | EntityKind.MemoryCandidate \<Rightarrow> has_key (CurrentState.memory_candidates s) u
      | EntityKind.Memory \<Rightarrow> has_key (active_memories s) u
      | EntityKind.Attempt \<Rightarrow> has_key (attempts s) u
      | EntityKind.Artifact \<Rightarrow> has_key (CurrentState.artifacts s) u
      | EntityKind.SleepRun \<Rightarrow> has_key (sleep_runs s) u
      | EntityKind.IntegrationCandidate \<Rightarrow> has_key (integration_candidates s) u
      | EntityKind.CompletionCriterion \<Rightarrow> has_key (completion_criteria s) u
      | EntityKind.CompletionClaim \<Rightarrow> has_key (completion_claims s) u
      | EntityKind.Initiative \<Rightarrow> False)"

definition apply_initiative_proposed ::
  "ext \<Rightarrow> CurrentState \<Rightarrow> ExperienceEvent \<Rightarrow> ProjectionError + CurrentState"
where
  "apply_initiative_proposed x s e =
     (let k = event_kind e in
      res_bind (decode (de_initiative x) e) (\<lambda>p.
      if InitiativeProposal.status p \<noteq> Proposed \<or>
         blank (InitiativeProposal.content p) \<or>
         blank (InitiativeProposal.rationale p) \<or>
         InitiativeProposal.as_of_revision p \<noteq> CurrentState.revision s \<or>
         InitiativeProposal.source_event_ids p = [] \<or>
         (\<exists>i \<in> set (InitiativeProposal.source_event_ids p). i \<notin> set (applied_events s)) \<or>
         \<not> is_some_and (bt_get (principals s) (InitiativeProposal.target_principal_id p))
             (\<lambda>q. Principal.kind q = User) \<or>
         \<not> is_model_actor s (ExperienceEvent.actor_id e) \<or>
         \<not> initiative_subject_matches x e (InitiativeProposal.id p) \<or>
         \<not> initiative_source_exists s (source_entity p) \<or>
         initiative_fingerprint x (InitiativeProposal.kind p) (source_entity p)
           (source_version p) (InitiativeProposal.target_principal_id p)
           (InitiativeProposal.source_event_ids p) \<noteq> InitiativeProposal.fingerprint p
      then invalid k ''invalid initiative proposal''
      else if bt_contains (initiatives s) (InitiativeProposal.id p) \<or>
              (\<exists>q \<in> set (bt_values (initiatives s)).
                 InitiativeProposal.fingerprint q = InitiativeProposal.fingerprint p)
      then invalid k ''duplicate initiative ID or fingerprint''
      else Inr (s\<lparr>initiatives := bt_insert (InitiativeProposal.id p) p (initiatives s)\<rparr>)))"

definition apply_initiative_status ::
  "ext \<Rightarrow> CurrentState \<Rightarrow> ExperienceEvent \<Rightarrow> InitiativeProposal \<Rightarrow> InitiativeStatus \<Rightarrow>
   InitiativeStatus \<Rightarrow> ProjectionError + CurrentState"
where
  "apply_initiative_status x s e p from to =
     (let k = event_kind e in
      case bt_get (initiatives s) (InitiativeProposal.id p) of
        None \<Rightarrow> invalid k ''initiative transition references an unknown proposal''
      | Some current \<Rightarrow>
          if InitiativeProposal.status current \<noteq> from
          then invalid k ''invalid initiative lifecycle transition''
          else if current\<lparr>InitiativeProposal.status := to\<rparr> \<noteq> p \<or>
                  \<not> initiative_subject_matches x e (InitiativeProposal.id p)
          then invalid k ''initiative transition changed proposal data''
          else Inr (s\<lparr>initiatives := bt_insert (InitiativeProposal.id p) p (initiatives s)\<rparr>))"

definition apply_initiative_transition ::
  "ext \<Rightarrow> CurrentState \<Rightarrow> ExperienceEvent \<Rightarrow> InitiativeStatus \<Rightarrow> InitiativeStatus \<Rightarrow>
   ProjectionError + CurrentState"
where
  "apply_initiative_transition x s e from to =
     res_bind (decode (de_initiative x) e) (\<lambda>p.
     if InitiativeProposal.status p \<noteq> Ready \<or> \<not> is_model_actor s (ExperienceEvent.actor_id e)
     then invalid (event_kind e) ''invalid initiative readiness transition''
     else apply_initiative_status x s e p from to)"

definition apply_initiative_dismissed ::
  "ext \<Rightarrow> CurrentState \<Rightarrow> ExperienceEvent \<Rightarrow> ProjectionError + CurrentState"
where
  "apply_initiative_dismissed x s e =
     (let k = event_kind e in
      res_bind (decode (de_initiative x) e) (\<lambda>p.
      if InitiativeProposal.status p \<noteq> Dismissed \<or>
         ExperienceEvent.actor_id e \<noteq> InitiativeProposal.target_principal_id p
      then invalid k ''only the target principal can dismiss an initiative''
      else
        (case bt_get (initiatives s) (InitiativeProposal.id p) of
           None \<Rightarrow> invalid k ''dismissal references an unknown initiative''
         | Some current \<Rightarrow>
             if InitiativeProposal.status current \<noteq> Proposed \<and>
                InitiativeProposal.status current \<noteq> Ready
             then invalid k ''initiative is already dismissed or terminal''
             else apply_initiative_status x s e p (InitiativeProposal.status current) Dismissed)))"

section \<open>Sleep runs\<close>

definition sleep_run_start_ok :: "CurrentState \<Rightarrow> SleepRun \<Rightarrow> bool" where
  "sleep_run_start_ok s r \<longleftrightarrow>
     \<not> (bt_contains (sleep_runs s) (SleepRun.id r) \<or>
        SleepRun.status r \<noteq> SleepRunStatus.Running \<or>
        cursor_before r \<noteq> sleep_cursor s \<or>
        high_water_revision r > CurrentState.revision s \<or>
        cursor_after r \<noteq> None)"

definition apply_sleep_run :: "ext \<Rightarrow> CurrentState \<Rightarrow> ExperienceEvent \<Rightarrow> ProjectionError + CurrentState"
where
  "apply_sleep_run x s e =
     (let k = event_kind e in
      res_bind (decode (de_sleep_run x) e) (\<lambda>r.
      if k = SleepRunStarted then
        (if \<not> sleep_run_start_ok s r then invalid k ''invalid sleep run start''
         else Inr (s\<lparr>sleep_runs := bt_insert (SleepRun.id r) r (sleep_runs s)\<rparr>))
      else
        (case bt_get (sleep_runs s) (SleepRun.id r) of
           None \<Rightarrow> invalid k ''sleep run terminal event has no start''
         | Some previous \<Rightarrow>
             if SleepRun.status previous \<noteq> SleepRunStatus.Running \<or>
                cursor_before r \<noteq> cursor_before previous \<or>
                high_water_revision r \<noteq> high_water_revision previous \<or>
                seed_event_ids r \<noteq> seed_event_ids previous
             then invalid k ''invalid sleep run transition''
             else if k = SleepRunCompleted then
               (case cursor_after r of
                  None \<Rightarrow> invalid k ''completed sleep run has no cursor''
                | Some after \<Rightarrow>
                    if SleepRun.status r \<noteq> SleepRunStatus.Completed \<or>
                       after < cursor_before r \<or> after > high_water_revision r
                    then invalid k ''invalid completed sleep cursor''
                    else Inr (s\<lparr>sleep_cursor := after,
                                sleep_runs := bt_insert (SleepRun.id r) r (sleep_runs s)\<rparr>))
             else if k = SleepRunInterrupted then
               (if SleepRun.status r \<noteq> SleepRunStatus.Interrupted \<or> cursor_after r \<noteq> None
                then invalid k ''invalid interrupted sleep run''
                else Inr (s\<lparr>sleep_runs := bt_insert (SleepRun.id r) r (sleep_runs s)\<rparr>))
             else
               (if SleepRun.status r \<noteq> SleepRunStatus.Failed \<or> cursor_after r \<noteq> None
                then invalid k ''invalid failed sleep run''
                else Inr (s\<lparr>sleep_runs := bt_insert (SleepRun.id r) r (sleep_runs s)\<rparr>)))))"

section \<open>Completion criteria and claims\<close>

definition apply_criterion_defined ::
  "ext \<Rightarrow> CurrentState \<Rightarrow> ExperienceEvent \<Rightarrow> ProjectionError + CurrentState"
where
  "apply_criterion_defined x s e =
     (let k = event_kind e in
      res_bind (decode (de_criterion x) e) (\<lambda>c.
      if blank (CompletionCriterion.description c)
      then invalid k ''criterion description cannot be empty''
      else if \<not> bt_contains (tasks s) (CompletionCriterion.task_id c)
      then invalid k ''criterion references an unknown task''
      else if bt_contains (completion_criteria s) (CompletionCriterion.id c)
      then invalid k ''criterion ID already exists''
      else
        (let normalized = normalize_description x (CompletionCriterion.description c) in
         if \<exists>d \<in> set (bt_values (completion_criteria s)).
              CompletionCriterion.task_id d = CompletionCriterion.task_id c \<and>
              normalize_description x (CompletionCriterion.description d) = normalized
         then invalid k ''criterion description already exists for task''
         else
           (let c' = c\<lparr>CompletionCriterion.description :=
                        trim (CompletionCriterion.description c)\<rparr>
            in Inr (s\<lparr>completion_criteria :=
                       bt_insert (CompletionCriterion.id c') c' (completion_criteria s)\<rparr>)))))"

definition validate_evidence_ref ::
  "CurrentState \<Rightarrow> EvidenceRef \<Rightarrow> u64 \<Rightarrow> EventKind \<Rightarrow> ProjectionError + unit"
where
  "validate_evidence_ref s ev as_of k =
     (if \<not> valid_sha256_hex (EvidenceRef.source_hash ev)
      then invalid k ''evidence source hash is not lowercase SHA-256 hex''
      else if EvidenceRef.as_of_sequence ev > as_of
      then invalid k ''evidence is newer than the claim as-of sequence''
      else
        (case event_sequence_of s (EvidenceRef.event_id ev) of
           None \<Rightarrow> invalid k ''evidence references an unknown event''
         | Some sq \<Rightarrow>
             if sq > as_of
             then invalid k ''evidence event is newer than the claim as-of sequence''
             else
               (case artifact_id ev of
                  None \<Rightarrow> Inr ()
                | Some aid \<Rightarrow>
                    (case bt_get (CurrentState.artifacts s) aid of
                       None \<Rightarrow> invalid k ''evidence references an unknown artifact''
                     | Some a \<Rightarrow>
                         if provenance_event_id a \<noteq> EvidenceRef.event_id ev
                         then invalid k ''artifact provenance event does not match evidence''
                         else if content_hash a \<noteq> EvidenceRef.source_hash ev
                         then invalid k ''artifact source hash does not match evidence''
                         else Inr ()))))"

fun validate_claim_evidence ::
  "CurrentState \<Rightarrow> EvidenceRef list \<Rightarrow> u64 \<Rightarrow> EventKind \<Rightarrow> ProjectionError + unit"
where
  "validate_claim_evidence s [] as_of k = Inr ()"
| "validate_claim_evidence s (ev # evs) as_of k =
     res_bind (validate_evidence_ref s ev as_of k) (\<lambda>_. validate_claim_evidence s evs as_of k)"

definition apply_claim_created ::
  "ext \<Rightarrow> CurrentState \<Rightarrow> CompletionClaim \<Rightarrow> EventKind \<Rightarrow> ProjectionError + CurrentState"
where
  "apply_claim_created x s claim0 k =
     (if \<not> bt_contains (tasks s) (CompletionClaim.task_id claim0)
      then invalid k ''claim references an unknown task''
      else
        (case bt_get (completion_criteria s) (CompletionClaim.criterion_id claim0) of
           None \<Rightarrow> invalid k ''claim references an unknown criterion''
         | Some criterion \<Rightarrow>
      if CompletionCriterion.task_id criterion \<noteq> CompletionClaim.task_id claim0
      then invalid k ''criterion does not belong to claim task''
      else if CompletionClaim.disposition claim0 \<noteq> NeedsValidation
      then invalid k ''new claims must require validation''
      else if CompletionClaim.confidence claim0 > 100
      then invalid k ''claim confidence must be between 0 and 100''
      else if CompletionClaim.as_of_sequence claim0 > CurrentState.revision s
      then invalid k ''claim as-of sequence is in the future''
      else
        (let claim = claim0\<lparr>CompletionClaim.evidence_refs :=
                       normalize_evidence_refs (CompletionClaim.evidence_refs claim0)\<rparr> in
         if CompletionClaim.fingerprint claim \<noteq>
            completion_fingerprint x (CompletionClaim.task_id claim)
              (CompletionClaim.criterion_id claim) (CompletionClaim.evidence_refs claim)
         then invalid k ''claim fingerprint does not match its evidence''
         else
           res_bind (validate_claim_evidence s (CompletionClaim.evidence_refs claim)
             (CompletionClaim.as_of_sequence claim) k) (\<lambda>_.
           if bt_contains (completion_claims s) (CompletionClaim.id claim)
           then invalid k ''claim ID already exists''
           else if \<exists>c \<in> set (bt_values (completion_claims s)).
                     CompletionClaim.fingerprint c = CompletionClaim.fingerprint claim
           then invalid k ''claim fingerprint already exists''
           else
             (let inserted = Inr (s\<lparr>completion_claims :=
                    bt_insert (CompletionClaim.id claim) claim (completion_claims s)\<rparr>) in
              case CompletionClaim.supersedes claim of
                None \<Rightarrow> inserted
              | Some previous_id \<Rightarrow>
                  (case bt_get (completion_claims s) previous_id of
                     None \<Rightarrow> invalid k ''claim supersedes an unknown claim''
                   | Some previous \<Rightarrow>
                       if CompletionClaim.task_id previous \<noteq> CompletionClaim.task_id claim \<or>
                          CompletionClaim.criterion_id previous \<noteq> CompletionClaim.criterion_id claim
                       then invalid k ''claim supersedes a different task criterion''
                       else inserted))))))"

definition apply_claim_transition ::
  "CurrentState \<Rightarrow> CompletionClaimTransition \<Rightarrow> VerificationDisposition \<Rightarrow> EventKind \<Rightarrow>
   ProjectionError + CurrentState"
where
  "apply_claim_transition s t expected k =
     (case bt_get (completion_claims s) (claim_id t) of
        None \<Rightarrow> invalid k ''transition references an unknown claim''
      | Some claim \<Rightarrow>
          if CompletionClaim.task_id claim \<noteq> CompletionClaimTransition.task_id t \<or>
             CompletionClaim.criterion_id claim \<noteq> CompletionClaimTransition.criterion_id t
          then invalid k ''claim transition identity does not match claim''
          else if CompletionClaim.disposition claim \<noteq>
                    CompletionClaimTransition.previous_disposition t \<or>
                  CompletionClaimTransition.previous_disposition t \<noteq> NeedsValidation \<or>
                  CompletionClaimTransition.disposition t \<noteq> expected
          then invalid k ''invalid claim disposition transition''
          else if blank (CompletionClaimTransition.reason t)
          then invalid k ''claim transition reason cannot be empty''
          else if normalize_evidence_refs (CompletionClaimTransition.evidence_refs t) \<noteq>
                  CompletionClaim.evidence_refs claim
          then invalid k ''claim transition evidence does not match claim''
          else if expected = VerificationDisposition.Verified \<and>
                  CompletionClaim.evidence_refs claim = []
          then invalid k ''a claim needs evidence before verification''
          else if expected = VerificationDisposition.Verified \<and>
                  is_some_and (blocker claim) (\<lambda>b. \<not> blank b)
          then invalid k ''a blocked claim cannot be verified''
          else Inr (s\<lparr>completion_claims := bt_modify (claim_id t)
                       (\<lambda>c. c\<lparr>CompletionClaim.disposition := expected\<rparr>)
                       (completion_claims s)\<rparr>))"

definition apply_claim_created_event ::
  "ext \<Rightarrow> CurrentState \<Rightarrow> ExperienceEvent \<Rightarrow> ProjectionError + CurrentState"
where
  "apply_claim_created_event x s e =
     (if is_model_actor s (ExperienceEvent.actor_id e)
      then invalid (event_kind e) ''model cannot create completion claims''
      else res_bind (decode (de_claim x) e) (\<lambda>c. apply_claim_created x s c (event_kind e)))"

definition apply_claim_verified_event ::
  "ext \<Rightarrow> CurrentState \<Rightarrow> ExperienceEvent \<Rightarrow> ProjectionError + CurrentState"
where
  "apply_claim_verified_event x s e =
     (if is_model_actor s (ExperienceEvent.actor_id e)
      then invalid (event_kind e) ''model cannot verify completion claims''
      else res_bind (decode (de_claim_transition x) e) (\<lambda>t.
             apply_claim_transition s t VerificationDisposition.Verified (event_kind e)))"

definition apply_claim_rejected_event ::
  "ext \<Rightarrow> CurrentState \<Rightarrow> ExperienceEvent \<Rightarrow> ProjectionError + CurrentState"
where
  "apply_claim_rejected_event x s e =
     (if is_model_actor s (ExperienceEvent.actor_id e)
      then invalid (event_kind e) ''model cannot reject completion claims''
      else res_bind (decode (de_claim_transition x) e) (\<lambda>t.
             apply_claim_transition s t VerificationDisposition.Rejected (event_kind e)))"

end
