(* ===== verification/ProjectorIntegration.thy ===== *)
theory ProjectorIntegration
  imports ProjectorOps
begin

text \<open>
  The projector's handlers for integration candidates: creation by a sleep run, verification
  or rejection by a person, and materialisation as a Memory, as a Memory revision or as a
  change of one of HEKATE's positions (\<open>src/runtime/projector.rs\<close>).
\<close>

section \<open>Candidates\<close>

definition candidate_provenance_bad :: "CurrentState \<Rightarrow> IntegrationCandidate \<Rightarrow> bool" where
  "candidate_provenance_bad s c \<longleftrightarrow>
     (\<exists>i \<in> set (IntegrationCandidate.source_event_ids c). i \<notin> set (applied_events s)) \<or>
     (\<exists>i \<in> set (IntegrationCandidate.counterevidence_event_ids c). i \<notin> set (applied_events s)) \<or>
     (\<exists>i \<in> set (IntegrationCandidate.source_event_ids c).
        i \<in> set (IntegrationCandidate.counterevidence_event_ids c))"

definition fingerprint_of_candidate :: "ext \<Rightarrow> IntegrationCandidate \<Rightarrow> string" where
  "fingerprint_of_candidate x c =
     integration_candidate_fingerprint x (IntegrationCandidate.kind c)
       (IntegrationCandidate.content c) (IntegrationCandidate.source_event_ids c)
       (IntegrationCandidate.counterevidence_event_ids c)"

definition apply_candidate_created ::
  "ext \<Rightarrow> CurrentState \<Rightarrow> ExperienceEvent \<Rightarrow> ProjectionError + CurrentState"
where
  "apply_candidate_created x s e =
     (let k = event_kind e in
      res_bind (decode (de_integration_candidate x) e) (\<lambda>c0.
      if IntegrationCandidate.disposition c0 \<noteq> NeedsValidation \<or>
         blank (IntegrationCandidate.content c0) \<or>
         blank (IntegrationCandidate.rationale c0) \<or>
         IntegrationCandidate.source_event_ids c0 = [] \<or>
         length (IntegrationCandidate.source_event_ids c0) > MAX_CANDIDATE_SOURCES \<or>
         length (IntegrationCandidate.counterevidence_event_ids c0) > MAX_CANDIDATE_SOURCES \<or>
         IntegrationCandidate.confidence c0 > 100
      then invalid k ''invalid integration candidate''
      else if candidate_provenance_bad s c0
      then invalid k ''candidate provenance is not in the applied event ledger''
      else
        (case bt_get (sleep_runs s) (sleep_run_id c0) of
           None \<Rightarrow> invalid k ''candidate does not belong to a sleep run''
         | Some r \<Rightarrow>
             if SleepRun.status r \<noteq> SleepRunStatus.Running
             then invalid k ''candidate does not belong to a running sleep run''
             else
               (let c = (if IntegrationCandidate.as_of_revision c0 = 0 \<and>
                            \<not> has_field x (payload e) ''as_of_revision''
                         then c0\<lparr>IntegrationCandidate.as_of_revision := high_water_revision r\<rparr>
                         else c0)
                in if IntegrationCandidate.as_of_revision c \<noteq> high_water_revision r
                   then invalid k ''candidate revision does not match its sleep run''
                   else if fingerprint_of_candidate x c \<noteq> IntegrationCandidate.fingerprint c \<or>
                           (\<exists>d \<in> set (bt_values (integration_candidates s)).
                              IntegrationCandidate.fingerprint d =
                              IntegrationCandidate.fingerprint c)
                   then invalid k ''duplicate or invalid candidate fingerprint''
                   else Inr (s\<lparr>integration_candidates :=
                          bt_insert (IntegrationCandidate.id c) c
                            (integration_candidates s)\<rparr>)))))"

fun validate_integration_evidence ::
  "CurrentState \<Rightarrow> IntegrationCandidate \<Rightarrow> EvidenceRef list \<Rightarrow> u64 \<Rightarrow> EventKind \<Rightarrow>
   ProjectionError + unit"
where
  "validate_integration_evidence s c [] as_of k = Inr ()"
| "validate_integration_evidence s c (ev # evs) as_of k =
     (if \<not> valid_sha256_hex (EvidenceRef.source_hash ev)
      then invalid k ''evidence source hash is invalid''
      else if EvidenceRef.as_of_sequence ev > as_of
      then invalid k ''evidence is newer than candidate as-of revision''
      else if EvidenceRef.event_id ev \<notin>
                set (IntegrationCandidate.source_event_ids c @
                     IntegrationCandidate.counterevidence_event_ids c)
      then invalid k ''evidence is outside candidate provenance''
      else
        (case event_sequence_of s (EvidenceRef.event_id ev) of
           None \<Rightarrow> invalid k ''evidence references an unknown event''
         | Some sq \<Rightarrow>
             if sq > EvidenceRef.as_of_sequence ev \<or> sq > as_of
             then invalid k ''evidence event is newer than its as-of revision''
             else
               (case artifact_id ev of
                  None \<Rightarrow> validate_integration_evidence s c evs as_of k
                | Some aid \<Rightarrow>
                    (case bt_get (CurrentState.artifacts s) aid of
                       None \<Rightarrow> invalid k ''evidence references an unknown artifact''
                     | Some a \<Rightarrow>
                         if provenance_event_id a \<noteq> EvidenceRef.event_id ev \<or>
                            content_hash a \<noteq> EvidenceRef.source_hash ev
                         then invalid k ''artifact evidence provenance does not match''
                         else validate_integration_evidence s c evs as_of k))))"

definition typed_proposal_ok ::
  "ext \<Rightarrow> IntegrationCandidate \<Rightarrow> VerificationDisposition \<Rightarrow> EventKind \<Rightarrow> ProjectionError + unit"
where
  "typed_proposal_ok x c expected k =
     (if expected = VerificationDisposition.Verified \<and>
         IntegrationCandidate.kind c = IntegrationCandidateKind.Position \<and>
         \<not> is_ok (position_proposal_parse x (IntegrationCandidate.content c))
      then invalid k ''Position candidate has an invalid typed proposal''
      else if expected = VerificationDisposition.Verified \<and>
         IntegrationCandidate.kind c = IntegrationCandidateKind.MemoryRevision \<and>
         \<not> is_ok (memory_revision_parse x (IntegrationCandidate.content c))
      then invalid k ''Memory revision candidate has an invalid typed proposal''
      else Inr ())"

definition apply_integration_transition ::
  "ext \<Rightarrow> CurrentState \<Rightarrow> ExperienceEvent \<Rightarrow> VerificationDisposition \<Rightarrow>
   ProjectionError + CurrentState"
where
  "apply_integration_transition x s e expected =
     (let k = event_kind e in
      res_bind (decode (de_integration_verification x) e) (\<lambda>v.
      if \<not> subject_is e EntityKind.IntegrationCandidate
             (uuid (IntegrationVerification.candidate_id v))
      then invalid k ''integration verification subject does not match candidate''
      else if ExperienceEvent.actor_id e \<noteq> IntegrationVerification.actor_id v
      then invalid k ''integration verification actor does not match event actor''
      else if is_some_and (IntegrationVerification.verification_event_id v)
                (\<lambda>i. i \<noteq> ExperienceEvent.event_id e)
      then invalid k ''integration verification event ID does not match''
      else if (case bt_get (principals s) (IntegrationVerification.actor_id v) of
                 None \<Rightarrow> True | Some p \<Rightarrow> Principal.kind p = Hekate)
      then invalid k ''integration verification actor is not an eligible principal''
      else
        (case bt_get (integration_candidates s) (IntegrationVerification.candidate_id v) of
           None \<Rightarrow> invalid k ''integration verification references an unknown candidate''
         | Some c \<Rightarrow>
      if IntegrationCandidate.disposition c \<noteq>
           IntegrationVerification.previous_disposition v \<or>
         IntegrationVerification.previous_disposition v \<noteq> NeedsValidation \<or>
         new_disposition v \<noteq> expected
      then invalid k ''invalid integration candidate disposition transition''
      else if blank (IntegrationVerification.reason v)
      then invalid k ''integration verification reason cannot be empty''
      else if IntegrationVerification.as_of_revision v \<noteq>
                IntegrationCandidate.as_of_revision c \<or>
              IntegrationVerification.as_of_revision v > CurrentState.revision s
      then invalid k ''integration verification has an invalid as-of revision''
      else if fingerprint_of_candidate x c \<noteq> IntegrationCandidate.fingerprint c
      then invalid k ''candidate fingerprint does not match its projection''
      else
        res_bind (typed_proposal_ok x c expected k) (\<lambda>_.
        (let refs = normalize_evidence_refs (IntegrationVerification.evidence_refs v) in
         if refs = [] then invalid k ''integration verification needs evidence''
         else
           res_bind (validate_integration_evidence s c refs
             (IntegrationVerification.as_of_revision v) k) (\<lambda>_.
           if \<not> bt_contains (integration_candidates s) (IntegrationCandidate.id c)
           then invalid k ''integration candidate disappeared during transition''
           else Inr (s\<lparr>integration_candidates :=
                    bt_modify (IntegrationCandidate.id c)
                      (\<lambda>d. d\<lparr>IntegrationCandidate.disposition := expected\<rparr>)
                      (integration_candidates s),
                  integration_verifications :=
                    bt_insert (IntegrationVerification.candidate_id v)
                      (v\<lparr>IntegrationVerification.verification_event_id :=
                           Some (ExperienceEvent.event_id e),
                         IntegrationVerification.reason :=
                           trim (IntegrationVerification.reason v),
                         IntegrationVerification.evidence_refs := refs\<rparr>)
                      (integration_verifications s)\<rparr>)))))))"

section \<open>Materialisation as a Memory\<close>

definition apply_integration_materialization ::
  "ext \<Rightarrow> CurrentState \<Rightarrow> ExperienceEvent \<Rightarrow> ProjectionError + CurrentState"
where
  "apply_integration_materialization x s e =
     (let k = event_kind e in
      res_bind (decode (de_integration_materialization x) e) (\<lambda>m.
      let cid = IntegrationMaterialization.candidate_id m;
          refs = normalize_evidence_refs (IntegrationMaterialization.evidence_refs m) in
      if \<not> subject_is e EntityKind.IntegrationCandidate (uuid cid)
      then invalid k ''materialization subject does not match candidate''
      else
        (case bt_get (integration_candidates s) cid of
           None \<Rightarrow> invalid k ''materialization references an unknown candidate''
         | Some c \<Rightarrow>
      if IntegrationCandidate.disposition c \<noteq> VerificationDisposition.Verified
      then invalid k ''only verified candidates can be materialized''
      else if bt_contains (integration_materializations s) cid
      then invalid k ''candidate has already been materialized''
      else if fingerprint_of_candidate x c \<noteq> IntegrationMaterialization.fingerprint m
      then invalid k ''materialization fingerprint does not match candidate''
      else if IntegrationCandidate.kind c \<noteq> IntegrationCandidateKind.Memory
      then invalid k ''candidate kind cannot be materialized as Memory''
      else if IntegrationMaterialization.source_event_ids m \<noteq>
                IntegrationCandidate.source_event_ids c \<or>
              IntegrationMaterialization.counterevidence_event_ids m \<noteq>
                IntegrationCandidate.counterevidence_event_ids c \<or>
              IntegrationMaterialization.as_of_revision m \<noteq>
                IntegrationCandidate.as_of_revision c
      then invalid k ''materialization provenance does not match candidate''
      else
        (case bt_get (integration_verifications s) cid of
           None \<Rightarrow> invalid k ''materialization has no verification record''
         | Some v \<Rightarrow>
      if new_disposition v \<noteq> VerificationDisposition.Verified \<or>
         refs \<noteq> IntegrationVerification.evidence_refs v
      then invalid k ''materialization evidence does not match verification''
      else
        (case bt_get (CurrentState.memory_candidates s) (memory_candidate_id m) of
           None \<Rightarrow> invalid k ''materialization references an unknown Memory candidate''
         | Some mc \<Rightarrow>
      if MemoryCandidate.status mc \<noteq> MemoryCandidateStatus.Promoted \<or>
         MemoryCandidate.kind mc \<noteq> Lesson \<or>
         MemoryCandidate.content mc \<noteq> IntegrationCandidate.content c \<or>
         MemoryCandidate.source_event_ids mc \<noteq> IntegrationCandidate.source_event_ids c
      then invalid k ''Memory candidate does not match materialization''
      else
        (case bt_get (active_memories s) (memory_id m) of
           None \<Rightarrow> invalid k ''materialization references an unknown Memory''
         | Some mem \<Rightarrow>
      if ActiveMemory.status mem \<noteq> ActiveMemoryStatus.Active \<or>
         ActiveMemory.candidate_id mem \<noteq> memory_candidate_id m
      then invalid k ''Memory does not match materialization''
      else
        res_bind (validate_integration_evidence s c refs
          (IntegrationMaterialization.as_of_revision m) k) (\<lambda>_.
        Inr (s\<lparr>integration_materializations :=
                 bt_insert cid (m\<lparr>IntegrationMaterialization.evidence_refs := refs\<rparr>)
                   (integration_materializations s)\<rparr>))))))))"

section \<open>Materialisation as a Memory revision\<close>

fun memory_operation_target :: "MemoryRevisionOperation \<Rightarrow> MemoryId \<times> EventId \<times> string" where
  "memory_operation_target (MemoryRevisionOperation.Replace mid eid h r) = (mid, eid, h)"
| "memory_operation_target (MemoryRevisionOperation.Expire mid eid h) = (mid, eid, h)"

definition memory_revision_provenance_ok ::
  "ext \<Rightarrow> CurrentState \<Rightarrow> ExperienceEvent \<Rightarrow> MemoryRevisionMaterialization \<Rightarrow> bool"
where
  "memory_revision_provenance_ok x s e m \<longleftrightarrow>
     (let cid = MemoryRevisionMaterialization.candidate_id m in
      subject_is e EntityKind.IntegrationCandidate (uuid cid) \<and>
      EventSource.source_type (source e) = ''memory_integration'' \<and>
      EventSource.source_ref (source e) = Some (id_text x cid) \<and>
      correlation_id e = Some (id_text x cid) \<and>
      causation_id e = Some (MemoryRevisionMaterialization.verification_event_id m) \<and>
      MemoryRevisionMaterialization.verification_event_id m \<in> set (applied_events s) \<and>
      MemoryRevisionMaterialization.expected_event_id m \<in> set (applied_events s))"

definition memory_revision_matches_candidate ::
  "ext \<Rightarrow> CurrentState \<Rightarrow> IntegrationCandidate \<Rightarrow> MemoryRevisionMaterialization \<Rightarrow> bool"
where
  "memory_revision_matches_candidate x s c m \<longleftrightarrow>
     IntegrationCandidate.kind c = IntegrationCandidateKind.MemoryRevision \<and>
     IntegrationCandidate.disposition c = VerificationDisposition.Verified \<and>
     \<not> bt_contains (memory_revision_materializations s)
         (MemoryRevisionMaterialization.candidate_id m) \<and>
     fingerprint_of_candidate x c = IntegrationCandidate.fingerprint c \<and>
     MemoryRevisionMaterialization.fingerprint m = IntegrationCandidate.fingerprint c \<and>
     MemoryRevisionMaterialization.source_event_ids m =
       IntegrationCandidate.source_event_ids c \<and>
     MemoryRevisionMaterialization.counterevidence_event_ids m =
       IntegrationCandidate.counterevidence_event_ids c \<and>
     MemoryRevisionMaterialization.as_of_revision m = IntegrationCandidate.as_of_revision c \<and>
     MemoryRevisionMaterialization.expected_event_id m \<in>
       set (IntegrationCandidate.counterevidence_event_ids c) \<and>
     valid_sha256_hex (MemoryRevisionMaterialization.expected_event_hash m)"

text \<open>The state change the revision records must already have been made.\<close>

definition memory_revision_done ::
  "CurrentState \<Rightarrow> MemoryRevisionMaterialization \<Rightarrow> MemoryRevisionOperation \<Rightarrow> ActiveMemory \<Rightarrow>
   EventKind \<Rightarrow> ProjectionError + unit"
where
  "memory_revision_done s m op tgt k =
     (let tid = MemoryRevisionMaterialization.target_memory_id m in
      case MemoryRevisionMaterialization.action m of
        MemoryRevisionActionKind.Replace \<Rightarrow>
          (case replacement_memory_id m of
             None \<Rightarrow> invalid k ''replacement Memory ID is missing''
           | Some rid \<Rightarrow>
               (case bt_get (active_memories s) rid of
                  None \<Rightarrow> invalid k ''replacement Memory is missing''
                | Some r \<Rightarrow>
                    (case bt_get (CurrentState.memory_candidates s)
                            (ActiveMemory.candidate_id r) of
                       None \<Rightarrow> invalid k ''replacement Memory candidate is missing''
                     | Some rc \<Rightarrow>
                         (case op of
                            MemoryRevisionOperation.Replace _ _ _ content' \<Rightarrow>
                              if ActiveMemory.status tgt \<noteq> ActiveMemoryStatus.Superseded \<or>
                                 ActiveMemory.status r \<noteq> ActiveMemoryStatus.Active \<or>
                                 ActiveMemory.supersedes r \<noteq> Some tid \<or>
                                 ActiveMemory.kind r \<noteq> ActiveMemory.kind tgt \<or>
                                 ActiveMemory.subject_principal_id r \<noteq>
                                   ActiveMemory.subject_principal_id tgt \<or>
                                 MemoryCandidate.supersedes rc \<noteq>
                                   Some (ActiveMemory.candidate_id tgt) \<or>
                                 MemoryCandidate.content rc \<noteq> trim content'
                              then invalid k ''replacement Memory transition is invalid''
                              else Inr ()
                          | _ \<Rightarrow> invalid k ''replacement Memory transition is invalid''))))
      | MemoryRevisionActionKind.Expire \<Rightarrow>
          (case op of
             MemoryRevisionOperation.Expire _ _ _ \<Rightarrow>
               if replacement_memory_id m \<noteq> None \<or>
                  ActiveMemory.status tgt \<noteq> ActiveMemoryStatus.Expired
               then invalid k ''Memory expiry transition is invalid''
               else Inr ()
           | _ \<Rightarrow> invalid k ''Memory expiry transition is invalid''))"

definition apply_memory_revision_materialization ::
  "ext \<Rightarrow> CurrentState \<Rightarrow> ExperienceEvent \<Rightarrow> ProjectionError + CurrentState"
where
  "apply_memory_revision_materialization x s e =
     (let k = event_kind e in
      res_bind (decode (de_memory_revision_materialization x) e) (\<lambda>m.
      let cid = MemoryRevisionMaterialization.candidate_id m;
          refs = normalize_evidence_refs (MemoryRevisionMaterialization.evidence_refs m) in
      if \<not> memory_revision_provenance_ok x s e m
      then invalid k ''Memory revision event provenance does not match''
      else if \<not> bt_contains (principals s) (ExperienceEvent.actor_id e) \<or>
              is_model_actor s (ExperienceEvent.actor_id e)
      then invalid k ''model or unknown actor cannot materialize a Memory revision''
      else
        (case bt_get (integration_candidates s) cid of
           None \<Rightarrow> invalid k ''Memory revision references an unknown candidate''
         | Some c \<Rightarrow>
      if \<not> memory_revision_matches_candidate x s c m
      then invalid k ''Memory revision materialization does not match candidate''
      else
        (case bt_get (integration_verifications s) cid of
           None \<Rightarrow> invalid k ''Memory revision has no verification record''
         | Some v \<Rightarrow>
      if new_disposition v \<noteq> VerificationDisposition.Verified \<or>
         IntegrationVerification.verification_event_id v \<noteq>
           Some (MemoryRevisionMaterialization.verification_event_id m) \<or>
         refs \<noteq> IntegrationVerification.evidence_refs v
      then invalid k ''Memory revision evidence does not match verification''
      else
        (case memory_revision_parse x (IntegrationCandidate.content c) of
           Inl _ \<Rightarrow> invalid k ''Memory revision proposal is invalid''
         | Inr proposal \<Rightarrow>
      (let op = MemoryRevisionProposal.operation proposal;
           (target_id, expected_id, expected_hash) = memory_operation_target op in
       if MemoryRevisionMaterialization.target_memory_id m \<noteq> target_id \<or>
          MemoryRevisionMaterialization.expected_event_id m \<noteq> expected_id \<or>
          MemoryRevisionMaterialization.expected_event_hash m \<noteq> expected_hash
       then invalid k ''Memory revision target does not match proposal''
       else
         (case bt_get (active_memories s) target_id of
            None \<Rightarrow> invalid k ''Memory revision target is missing''
          | Some tgt \<Rightarrow>
       if ActiveMemory.kind tgt = ExplicitPreference
       then invalid k ''explicit user preference cannot be revised''
       else
         res_bind (memory_revision_done s m op tgt k) (\<lambda>_.
         res_bind (validate_integration_evidence s c refs
           (MemoryRevisionMaterialization.as_of_revision m) k) (\<lambda>_.
         Inr (s\<lparr>memory_revision_materializations :=
                  bt_insert cid (m\<lparr>MemoryRevisionMaterialization.evidence_refs := refs\<rparr>)
                    (memory_revision_materializations s)\<rparr>))))))))))"

section \<open>Materialisation as a Position\<close>

definition position_matches_proposal ::
  "ext \<Rightarrow> IntegrationCandidate \<Rightarrow> Position \<Rightarrow> PositionIntegrationMaterialization \<Rightarrow> bool"
where
  "position_matches_proposal x c p m =
     (case position_proposal_parse x (IntegrationCandidate.content c) of
        Inl _ \<Rightarrow> False
      | Inr proposal \<Rightarrow>
          (case (PositionIntegrationProposal.operation proposal,
                 PositionIntegrationMaterialization.action m, prior_position m) of
             (PositionIntegrationOperation.Establish sub st rs cs,
              PositionIntegrationActionKind.Establish, None) \<Rightarrow>
               Position.subject p = trim sub \<and> stance p = st \<and>
               Position.reasons p = map trim rs \<and>
               Position.reconsideration_conditions p = map trim cs
           | (PositionIntegrationOperation.Revise pid ver st rs cs,
              PositionIntegrationActionKind.Revise, Some prior) \<Rightarrow>
               pid = Position.id prior \<and> ver = Position.version prior \<and>
               Position.subject p = Position.subject prior \<and> stance p = st \<and>
               Position.reasons p = map trim rs \<and>
               Position.reconsideration_conditions p = map trim cs
           | (PositionIntegrationOperation.Withdraw pid ver r,
              PositionIntegrationActionKind.Withdraw, Some prior) \<Rightarrow>
               pid = Position.id prior \<and> ver = Position.version prior \<and>
               p = prior\<lparr>Position.status := PositionStatus.Retracted,
                         Position.reasons := Position.reasons prior @ [trim r],
                         Position.evidence_refs :=
                           dedup_by (\<lambda>a b. a = b)
                             (sort (Position.evidence_refs prior @
                                    PositionIntegrationMaterialization.source_event_ids m))\<rparr>
           | _ \<Rightarrow> False))"

definition position_event_identity_ok ::
  "ext \<Rightarrow> ExperienceEvent \<Rightarrow> Position \<Rightarrow> PositionIntegrationMaterialization \<Rightarrow> EventKind \<Rightarrow>
   ProjectionError + unit"
where
  "position_event_identity_ok x e p m k =
     (let cid_text = id_text x (PositionIntegrationMaterialization.candidate_id m) in
      if \<not> subject_is e EntityKind.Position (uuid (Position.id p)) \<or>
         PositionIntegrationMaterialization.position_id m \<noteq> Position.id p \<or>
         position_event_id m \<noteq> ExperienceEvent.event_id e
      then invalid k ''Position integration event subject does not match payload''
      else if EventSource.source_type (source e) \<noteq> ''position_integration'' \<or>
         EventSource.source_ref (source e) \<noteq> Some cid_text \<or>
         correlation_id e \<noteq> Some cid_text \<or>
         causation_id e \<noteq> Some (PositionIntegrationMaterialization.verification_event_id m)
      then invalid k ''Position integration event provenance does not match candidate''
      else Inr ())"

definition position_materialization_provenance ::
  "ext \<Rightarrow> CurrentState \<Rightarrow> ExperienceEvent \<Rightarrow> Position \<Rightarrow> PositionIntegrationMaterialization \<Rightarrow>
   EventKind \<Rightarrow> ProjectionError + IntegrationCandidate"
where
  "position_materialization_provenance x s e p m k =
     (let cid = PositionIntegrationMaterialization.candidate_id m;
          refs = normalize_evidence_refs (PositionIntegrationMaterialization.evidence_refs m);
          veid = PositionIntegrationMaterialization.verification_event_id m in
      if \<not> bt_contains (principals s) (ExperienceEvent.actor_id e) \<or>
         is_model_actor s (ExperienceEvent.actor_id e)
      then invalid k ''model or unknown actor cannot materialize a Position''
      else
        (case bt_get (principals s) (Position.principal_id p) of
           None \<Rightarrow> invalid k ''Position references an unknown principal''
         | Some pr \<Rightarrow>
      if Principal.kind pr \<noteq> Hekate
      then invalid k (''Position integration can only change HEKATE'' @ [CHR 0x27] @ ''s Position'')
      else
        (case bt_get (integration_candidates s) cid of
           None \<Rightarrow> invalid k ''Position materialization references an unknown candidate''
         | Some c \<Rightarrow>
      if IntegrationCandidate.kind c \<noteq> IntegrationCandidateKind.Position \<or>
         IntegrationCandidate.disposition c \<noteq> VerificationDisposition.Verified
      then invalid k ''only a verified Position candidate can be materialized''
      else if bt_contains (position_integration_materializations s) cid
      then invalid k ''Position candidate has already been materialized''
      else
        (case bt_get (integration_verifications s) cid of
           None \<Rightarrow> invalid k ''Position materialization has no verification record''
         | Some v \<Rightarrow>
      if new_disposition v \<noteq> VerificationDisposition.Verified \<or>
         IntegrationVerification.verification_event_id v \<noteq> Some veid \<or>
         refs \<noteq> IntegrationVerification.evidence_refs v \<or>
         veid \<notin> set (applied_events s)
      then invalid k ''Position materialization does not match verification''
      else if PositionIntegrationMaterialization.fingerprint m \<noteq>
                IntegrationCandidate.fingerprint c \<or>
              fingerprint_of_candidate x c \<noteq> IntegrationCandidate.fingerprint c \<or>
              PositionIntegrationMaterialization.source_event_ids m \<noteq>
                IntegrationCandidate.source_event_ids c \<or>
              PositionIntegrationMaterialization.counterevidence_event_ids m \<noteq>
                IntegrationCandidate.counterevidence_event_ids c \<or>
              PositionIntegrationMaterialization.as_of_revision m \<noteq>
                IntegrationCandidate.as_of_revision c \<or>
              IntegrationCandidate.as_of_revision c > CurrentState.revision s \<or>
              (\<exists>i \<in> set (IntegrationCandidate.source_event_ids c @
                         IntegrationCandidate.counterevidence_event_ids c).
                 i \<notin> set (applied_events s))
      then invalid k ''Position materialization provenance does not match candidate''
      else
        res_bind (validate_integration_evidence s c refs
          (PositionIntegrationMaterialization.as_of_revision m) k) (\<lambda>_. Inr c)))))"

definition position_action_ok ::
  "CurrentState \<Rightarrow> Position \<Rightarrow> PositionIntegrationMaterialization \<Rightarrow> EventKind \<Rightarrow>
   ProjectionError + unit"
where
  "position_action_ok s p m k =
     (case PositionIntegrationMaterialization.action m of
        PositionIntegrationActionKind.Establish \<Rightarrow>
          if prior_position m \<noteq> None \<or> Position.status p \<noteq> PositionStatus.Active \<or>
             Position.version p \<noteq> 1 \<or> Position.supersedes p \<noteq> None
          then invalid k ''invalid Position establishment'' else Inr ()
      | PositionIntegrationActionKind.Revise \<Rightarrow>
          (case prior_position m of
             None \<Rightarrow> invalid k ''Position revision has no prior Position''
           | Some prior \<Rightarrow>
               if bt_get (CurrentState.positions s) (Position.id prior) \<noteq> Some prior \<or>
                  Position.status prior \<noteq> PositionStatus.Active \<or>
                  Position.id p = Position.id prior \<or>
                  Position.supersedes p \<noteq> Some (Position.id prior) \<or>
                  Position.principal_id p \<noteq> Position.principal_id prior \<or>
                  Position.subject p \<noteq> Position.subject prior \<or>
                  checked_add (Position.version prior) 1 \<noteq> Some (Position.version p) \<or>
                  Position.status p \<noteq> PositionStatus.Active
               then invalid k ''Position changed or revision is invalid'' else Inr ())
      | PositionIntegrationActionKind.Withdraw \<Rightarrow>
          (case prior_position m of
             None \<Rightarrow> invalid k ''Position withdrawal has no prior Position''
           | Some prior \<Rightarrow>
               if bt_get (CurrentState.positions s) (Position.id prior) \<noteq> Some prior \<or>
                  Position.status prior \<noteq> PositionStatus.Active \<or>
                  Position.id p \<noteq> Position.id prior \<or>
                  Position.supersedes p \<noteq> None \<or>
                  Position.status p \<noteq> PositionStatus.Retracted \<or>
                  Position.version p \<noteq> Position.version prior \<or>
                  Position.principal_id p \<noteq> Position.principal_id prior \<or>
                  Position.subject p \<noteq> Position.subject prior \<or>
                  stance p \<noteq> stance prior
               then invalid k ''Position changed or withdrawal is invalid'' else Inr ()))"

fun position_action_event_kind :: "PositionIntegrationActionKind \<Rightarrow> EventKind" where
  "position_action_event_kind PositionIntegrationActionKind.Establish = PositionEstablished"
| "position_action_event_kind PositionIntegrationActionKind.Revise = PositionRevised"
| "position_action_event_kind PositionIntegrationActionKind.Withdraw = PositionRetracted"

definition supersede_position :: "PositionId option \<Rightarrow> (PositionId, Position) btree \<Rightarrow>
    (PositionId, Position) btree" where
  "supersede_position previous m =
     (case previous of
        None \<Rightarrow> m
      | Some i \<Rightarrow> bt_modify i (\<lambda>p. p\<lparr>Position.status := PositionStatus.Superseded\<rparr>) m)"

definition apply_position_integration ::
  "ext \<Rightarrow> CurrentState \<Rightarrow> ExperienceEvent \<Rightarrow> PositionIntegrationEventPayload \<Rightarrow>
   ProjectionError + CurrentState"
where
  "apply_position_integration x s e ie =
     (let k = event_kind e;
          p = PositionIntegrationEventPayload.position ie;
          m = position_integration ie;
          act = PositionIntegrationMaterialization.action m in
      res_bind (position_event_identity_ok x e p m k) (\<lambda>_.
      res_bind (position_materialization_provenance x s e p m k) (\<lambda>c.
      if \<not> position_matches_proposal x c p m
      then invalid k ''Position does not match its typed proposal''
      else if Position.confidence p \<noteq> IntegrationCandidate.confidence c
      then invalid k ''Position confidence does not match candidate''
      else
        res_bind (position_action_ok s p m k) (\<lambda>_.
        if k \<noteq> position_action_event_kind act
        then invalid k ''Position event kind does not match integration operation''
        else if position_integration_blocked x s (Position.principal_id p) (Position.subject p)
                  (map_option Position.id (prior_position m))
        then invalid k ''an active Position conflict blocks materialization''
        else if \<not> is_ok (validate_position_revision s p)
        then invalid k ''Position transition violates its lifecycle''
        else if act \<noteq> PositionIntegrationActionKind.Withdraw \<and>
                Position.evidence_refs p \<noteq> IntegrationCandidate.source_event_ids c
        then invalid k ''Position evidence does not match candidate sources''
        else if act = PositionIntegrationActionKind.Withdraw \<and>
                (\<exists>i \<in> set (IntegrationCandidate.source_event_ids c).
                   i \<notin> set (Position.evidence_refs p))
        then invalid k ''Position evidence omits candidate sources''
        else
          (let ps = (if act = PositionIntegrationActionKind.Revise
                     then supersede_position (Position.supersedes p) (CurrentState.positions s)
                     else CurrentState.positions s)
           in Inr (s\<lparr>CurrentState.positions := bt_insert (Position.id p) p ps,
                     position_integration_materializations :=
                       bt_insert (PositionIntegrationMaterialization.candidate_id m) m
                         (position_integration_materializations s)\<rparr>))))))"

definition apply_position_event ::
  "ext \<Rightarrow> CurrentState \<Rightarrow> ExperienceEvent \<Rightarrow> ProjectionError + CurrentState"
where
  "apply_position_event x s e =
     (if has_field x (payload e) ''position_integration''
      then res_bind (decode (de_position_integration_event x) e) (apply_position_integration x s e)
      else
        res_bind (decode (de_position x) e) (\<lambda>p.
        case event_kind e of
          PositionRevised \<Rightarrow>
            Inr (s\<lparr>CurrentState.positions :=
                     bt_insert (Position.id p) p
                       (supersede_position (Position.supersedes p) (CurrentState.positions s))\<rparr>)
        | k \<Rightarrow>
            if k \<in> {PositionEstablished, PositionMaintained, PositionRecorded, PositionRetracted}
            then Inr (s\<lparr>CurrentState.positions :=
                          bt_insert (Position.id p) p (CurrentState.positions s)\<rparr>)
            else invalid k ''event is not a Position lifecycle event''))"

end
