(* ===== verification/EventSourced.thy ===== *)
theory EventSourced
  imports Prelude
begin

text \<open>
  The interface of an event-sourced state: a fallible step that records the identifier of the
  event it applies and refuses one it has recorded, and the run that folds it over a ledger.
  Its clients are the facts every such projection has: a run splits at any point of its
  ledger, the recorded identifiers are the ledger's, no event counts twice, and invariants
  and monotone relations of single steps lift to runs.
\<close>

text \<open>Every step that the run takes satisfies the guard in the state it is taken in.\<close>

fun guarded :: "('s \<Rightarrow> 'e \<Rightarrow> 'x + 's) \<Rightarrow> ('s \<Rightarrow> 'e \<Rightarrow> bool) \<Rightarrow> 's \<Rightarrow> 'e list \<Rightarrow> bool" where
  "guarded step G s [] = True"
| "guarded step G s (e # es) =
     (G s e \<and> (case step s e of Inl _ \<Rightarrow> True | Inr s' \<Rightarrow> guarded step G s' es))"

lemma guarded_all: "(\<And>s e. e \<in> set es \<Longrightarrow> G s e) \<Longrightarrow> guarded step G s es"
  by (induction es arbitrary: s) (auto split: sum.split)

locale event_sourced =
  fixes step :: "'s \<Rightarrow> 'e \<Rightarrow> 'x + 's"
    and run :: "'s \<Rightarrow> 'e list \<Rightarrow> 'x + 's"
    and ids :: "'s \<Rightarrow> 'i list"
    and eid :: "'e \<Rightarrow> 'i"
  assumes run_Nil: "run s [] = Inr s"
    and run_Cons: "run s (e # es) = res_bind (step s e) (\<lambda>s'. run s' es)"
    and step_fresh: "step s e = Inr s' \<Longrightarrow> eid e \<notin> set (ids s)"
    and step_ids: "step s e = Inr s' \<Longrightarrow> ids s' = ids s @ [eid e]"
begin

lemma run_append: "run s (es @ fs) = res_bind (run s es) (\<lambda>s'. run s' fs)"
  by (induction es arbitrary: s) (simp_all add: run_Nil run_Cons res_bind_assoc)

lemma run_snoc: "run s (es @ [e]) = res_bind (run s es) (\<lambda>s'. step s' e)"
proof -
  have "run s' [e] = step s' e" for s'
    by (cases "step s' e") (simp_all add: run_Nil run_Cons)
  then show ?thesis by (simp add: run_append)
qed

lemma run_prefix:
  "run s (es @ fs) = Inr s' \<Longrightarrow> \<exists>m. run s es = Inr m \<and> run m fs = Inr s'"
  by (simp add: run_append res_simps)

lemma run_error_absorbs: "run s es = Inl err \<Longrightarrow> run s (es @ fs) = Inl err"
  by (simp add: run_append)

lemma run_ids: "run s es = Inr s' \<Longrightarrow> ids s' = ids s @ map eid es"
proof (induction es arbitrary: s)
  case (Cons e es)
  from Cons.prems obtain m where m: "step s e = Inr m" and r: "run m es = Inr s'"
    by (auto simp: run_Cons res_simps)
  from Cons.IH [OF r] step_ids [OF m] show ?case by simp
qed (simp add: run_Nil)

lemma run_distinct:
  "run s es = Inr s' \<Longrightarrow> distinct (map eid es) \<and> set (map eid es) \<inter> set (ids s) = {}"
proof (induction es arbitrary: s)
  case (Cons e es)
  from Cons.prems obtain m where m: "step s e = Inr m" and r: "run m es = Inr s'"
    by (auto simp: run_Cons res_simps)
  from Cons.IH [OF r] step_ids [OF m] step_fresh [OF m] show ?case by auto
qed simp

lemma step_again: "step s e = Inr s' \<Longrightarrow> \<exists>err. step s' e = Inl err"
  using step_fresh step_ids by (metis in_set_conv_decomp sum.exhaust)

text \<open>
  An invariant, and a reflexive and transitive relation of single steps under it, lift to
  runs; the guard is for facts that hold of disciplined ledgers only.
\<close>

lemma run_guarded:
  assumes inv: "\<And>s e s'. I s \<Longrightarrow> G s e \<Longrightarrow> step s e = Inr s' \<Longrightarrow> I s'"
    and rel: "\<And>s e s'. I s \<Longrightarrow> G s e \<Longrightarrow> step s e = Inr s' \<Longrightarrow> R s s'"
    and "reflp R" and "transp R"
    and "I s" and "guarded step G s es" and "run s es = Inr s'"
  shows "I s' \<and> R s s'"
  using assms(5-)
proof (induction es arbitrary: s)
  case Nil
  with assms(3) show ?case by (simp add: run_Nil reflp_def)
next
  case (Cons e es)
  from Cons.prems(3) obtain m where m: "step s e = Inr m" and r: "run m es = Inr s'"
    by (auto simp: run_Cons res_simps)
  from Cons.prems(2) m have g: "G s e" "guarded step G m es" by simp_all
  from Cons.IH [OF inv [OF Cons.prems(1) g(1) m] g(2) r] rel [OF Cons.prems(1) g(1) m] assms(4)
  show ?case unfolding transp_def by blast
qed

lemma guarded_append:
  "run s es = Inr m \<Longrightarrow>
     guarded step G s (es @ fs) \<longleftrightarrow> guarded step G s es \<and> guarded step G m fs"
proof (induction es arbitrary: s)
  case (Cons e es)
  from Cons.prems obtain k where k: "step s e = Inr k" and r: "run k es = Inr m"
    by (auto simp: run_Cons res_simps)
  from Cons.IH [OF r] k show ?case by simp
qed (simp add: run_Nil)

lemma guarded_True: "guarded step (\<lambda>_ _. True) s es"
  by (induction es arbitrary: s) (auto split: sum.split)

lemma run_monotone:
  assumes "\<And>s e s'. I s \<Longrightarrow> step s e = Inr s' \<Longrightarrow> I s'"
    and "\<And>s e s'. I s \<Longrightarrow> step s e = Inr s' \<Longrightarrow> R s s'"
    and "reflp R" and "transp R" and "I s" and "run s es = Inr s'"
  shows "R s s'"
proof -
  have "I s' \<and> R s s'"
    by (rule run_guarded [where G = "\<lambda>_ _. True" and I = I and es = es])
      (use assms guarded_True in blast)+
  then show ?thesis ..
qed

lemma run_invariant:
  assumes "\<And>s e s'. I s \<Longrightarrow> step s e = Inr s' \<Longrightarrow> I s'" and "I s" and "run s es = Inr s'"
  shows "I s'"
proof -
  have "I s' \<and> True"
    by (rule run_guarded [where G = "\<lambda>_ _. True" and R = "\<lambda>_ _. True" and I = I and es = es])
      (use assms guarded_True in \<open>simp_all add: reflp_def transp_def\<close>)
  then show ?thesis ..
qed

end

end
