(* ===== verification/Projector.thy ===== *)
theory Projector
  imports ProjectorIntegration EventSourced
begin

text \<open>
  The projector itself (\<open>src/runtime/projector.rs\<close>): the dispatch on the event kind, the step
  that applies one event, and the replay of a ledger. A projection is a fold of the step over
  the ledger; the interface \<open>event_sourced\<close> states what every fold of this shape guarantees
  and the projector is its instance.
\<close>

section \<open>Dispatch\<close>

definition apply_kind :: "ext \<Rightarrow> CurrentState \<Rightarrow> ExperienceEvent \<Rightarrow> ProjectionError + CurrentState" where
  "apply_kind x s e =
     (let k = event_kind e; v = payload e in
      case k of
        PrincipalCreated \<Rightarrow>
          res_bind (insert_payload (de_principal x) Principal.id k v (principals s))
            (\<lambda>m. Inr (s\<lparr>principals := m\<rparr>))
      | IdentityVersionCreated \<Rightarrow> apply_identity_version x s e
      | RelationshipCreated \<Rightarrow>
          res_bind (insert_payload (de_relationship x) Relationship.id k v (relationships s))
            (\<lambda>m. Inr (s\<lparr>relationships := m\<rparr>))
      | ObservationRecorded \<Rightarrow>
          res_bind (insert_payload (de_observation x) Observation.id k v (observations s))
            (\<lambda>m. Inr (s\<lparr>observations := m\<rparr>))
      | UserMessageReceived \<Rightarrow>
          res_bind (insert_payload (de_observation x) Observation.id k v (observations s))
            (\<lambda>m. Inr (s\<lparr>observations := m\<rparr>))
      | FocusResolved \<Rightarrow> apply_focus_resolution x s e
      | GoalCreated \<Rightarrow>
          res_bind (insert_payload (de_goal x) Goal.id k v (goals s))
            (\<lambda>m. Inr (s\<lparr>goals := m\<rparr>))
      | TaskCreated \<Rightarrow>
          res_bind (insert_payload (de_task x) Task.id k v (tasks s))
            (\<lambda>m. Inr (s\<lparr>tasks := m\<rparr>))
      | TaskCompleted \<Rightarrow> apply_task_completion x s e
      | RunStarted \<Rightarrow>
          res_bind (insert_payload (de_run x) Run.id k v (runs s)) (\<lambda>m. Inr (s\<lparr>runs := m\<rparr>))
      | RunSuspended \<Rightarrow>
          res_bind (insert_payload (de_run x) Run.id k v (runs s)) (\<lambda>m. Inr (s\<lparr>runs := m\<rparr>))
      | RunCompleted \<Rightarrow>
          res_bind (insert_payload (de_run x) Run.id k v (runs s)) (\<lambda>m. Inr (s\<lparr>runs := m\<rparr>))
      | AttemptStarted \<Rightarrow>
          res_bind (insert_payload (de_attempt x) Attempt.id k v (attempts s))
            (\<lambda>m. Inr (s\<lparr>attempts := m\<rparr>))
      | AttemptCompleted \<Rightarrow>
          res_bind (insert_payload (de_attempt x) Attempt.id k v (attempts s))
            (\<lambda>m. Inr (s\<lparr>attempts := m\<rparr>))
      | WorkingStateUpdated \<Rightarrow> apply_working_state x s e
      | DecisionCreated \<Rightarrow>
          res_bind (insert_payload (de_decision x) Decision.id k v (decisions s))
            (\<lambda>m. Inr (s\<lparr>decisions := m\<rparr>))
      | PositionEstablished \<Rightarrow> apply_position_event x s e
      | PositionMaintained \<Rightarrow> apply_position_event x s e
      | PositionRecorded \<Rightarrow> apply_position_event x s e
      | PositionRevised \<Rightarrow> apply_position_event x s e
      | PositionRetracted \<Rightarrow> apply_position_event x s e
      | ConflictOpened \<Rightarrow> apply_conflict x s e
      | ConflictRecorded \<Rightarrow> apply_conflict x s e
      | ConflictUpdated \<Rightarrow> apply_conflict x s e
      | ConflictResolved \<Rightarrow> apply_conflict x s e
      | CommitmentCreated \<Rightarrow>
          res_bind (insert_payload (de_commitment x) Commitment.id k v (CurrentState.commitments s))
            (\<lambda>m. Inr (s\<lparr>CurrentState.commitments := m\<rparr>))
      | CommitmentFulfilled \<Rightarrow>
          res_bind (insert_payload (de_commitment x) Commitment.id k v (CurrentState.commitments s))
            (\<lambda>m. Inr (s\<lparr>CurrentState.commitments := m\<rparr>))
      | ActionIntentCreated \<Rightarrow>
          res_bind (insert_payload (de_action_intent x) ActionIntent.id k v (action_intents s))
            (\<lambda>m. Inr (s\<lparr>action_intents := m\<rparr>))
      | OperationPlanned \<Rightarrow>
          res_bind (insert_payload (de_operation x) Operation.id k v (operations s))
            (\<lambda>m. Inr (s\<lparr>operations := m\<rparr>))
      | OperationAuthorized \<Rightarrow>
          res_bind (insert_payload (de_operation x) Operation.id k v (operations s))
            (\<lambda>m. Inr (s\<lparr>operations := m\<rparr>))
      | OperationStarted \<Rightarrow>
          res_bind (insert_payload (de_operation x) Operation.id k v (operations s))
            (\<lambda>m. Inr (s\<lparr>operations := m\<rparr>))
      | OperationSucceeded \<Rightarrow>
          res_bind (insert_payload (de_operation x) Operation.id k v (operations s))
            (\<lambda>m. Inr (s\<lparr>operations := m\<rparr>))
      | OperationFailed \<Rightarrow>
          res_bind (insert_payload (de_operation x) Operation.id k v (operations s))
            (\<lambda>m. Inr (s\<lparr>operations := m\<rparr>))
      | OperationStateUnknown \<Rightarrow>
          res_bind (insert_payload (de_operation x) Operation.id k v (operations s))
            (\<lambda>m. Inr (s\<lparr>operations := m\<rparr>))
      | ArtifactCreated \<Rightarrow>
          res_bind (insert_payload (de_artifact x) Artifact.id k v (CurrentState.artifacts s))
            (\<lambda>m. Inr (s\<lparr>CurrentState.artifacts := m\<rparr>))
      | CompletionCriterionDefined \<Rightarrow> apply_criterion_defined x s e
      | CompletionClaimCreated \<Rightarrow> apply_claim_created_event x s e
      | CompletionClaimVerified \<Rightarrow> apply_claim_verified_event x s e
      | CompletionClaimRejected \<Rightarrow> apply_claim_rejected_event x s e
      | InitiativeProposed \<Rightarrow> apply_initiative_proposed x s e
      | InitiativeReadied \<Rightarrow> apply_initiative_transition x s e Proposed Ready
      | InitiativeDismissed \<Rightarrow> apply_initiative_dismissed x s e
      | ApprovalRequested \<Rightarrow>
          res_bind (insert_payload (de_approval x) Approval.id k v (approvals s))
            (\<lambda>m. Inr (s\<lparr>approvals := m\<rparr>))
      | ApprovalResolved \<Rightarrow>
          res_bind (insert_payload (de_approval x) Approval.id k v (approvals s))
            (\<lambda>m. Inr (s\<lparr>approvals := m\<rparr>))
      | ReceiptRecorded \<Rightarrow>
          res_bind (insert_payload (de_receipt x) Receipt.id k v (receipts s))
            (\<lambda>m. Inr (s\<lparr>receipts := m\<rparr>))
      | VerificationRecorded \<Rightarrow> apply_verification x s e
      | MemoryCandidateCreated \<Rightarrow>
          res_bind (insert_payload (de_memory_candidate x) MemoryCandidate.id k v
              (CurrentState.memory_candidates s))
            (\<lambda>m. Inr (s\<lparr>CurrentState.memory_candidates := m\<rparr>))
      | MemoryRejected \<Rightarrow>
          res_bind (insert_payload (de_memory_candidate x) MemoryCandidate.id k v
              (CurrentState.memory_candidates s))
            (\<lambda>m. Inr (s\<lparr>CurrentState.memory_candidates := m\<rparr>))
      | MemoryPromoted \<Rightarrow> apply_active_memory x s e
      | MemorySuperseded \<Rightarrow> apply_active_memory x s e
      | MemoryExpired \<Rightarrow> apply_active_memory x s e
      | SleepRunStarted \<Rightarrow> apply_sleep_run x s e
      | SleepRunCompleted \<Rightarrow> apply_sleep_run x s e
      | SleepRunInterrupted \<Rightarrow> apply_sleep_run x s e
      | SleepRunFailed \<Rightarrow> apply_sleep_run x s e
      | IntegrationCandidateCreated \<Rightarrow> apply_candidate_created x s e
      | IntegrationCandidateVerified \<Rightarrow>
          apply_integration_transition x s e VerificationDisposition.Verified
      | IntegrationCandidateRejected \<Rightarrow>
          apply_integration_transition x s e VerificationDisposition.Rejected
      | IntegrationCandidateMaterialized \<Rightarrow> apply_integration_materialization x s e
      | MemoryRevisionMaterialized \<Rightarrow> apply_memory_revision_materialization x s e
      | ResponseProduced \<Rightarrow> Inr s
      | StateChanged \<Rightarrow> Inr s)"

definition apply_event :: "ext \<Rightarrow> CurrentState \<Rightarrow> ExperienceEvent \<Rightarrow> ProjectionError + CurrentState" where
  "apply_event x s e =
     (if ExperienceEvent.event_id e \<in> set (applied_events s)
      then Inl (Duplicate (id_text x (ExperienceEvent.event_id e)))
      else
        res_bind (apply_kind x s e) (\<lambda>s'.
        Inr (s'\<lparr>CurrentState.revision := CurrentState.revision s' + 1,
                applied_events := applied_events s' @ [ExperienceEvent.event_id e]\<rparr>)))"

text \<open>The loop of \<open>replay\<close> and of \<open>record_batch\<close>: it stops at the first error.\<close>

fun apply_all :: "ext \<Rightarrow> CurrentState \<Rightarrow> ExperienceEvent list \<Rightarrow> ProjectionError + CurrentState" where
  "apply_all x s [] = Inr s"
| "apply_all x s (e # es) = res_bind (apply_event x s e) (\<lambda>s'. apply_all x s' es)"

definition replay :: "ext \<Rightarrow> ExperienceEvent list \<Rightarrow> ProjectionError + CurrentState" where
  "replay x es = apply_all x default_state es"

section \<open>Footprints\<close>

text \<open>
  What each handler may write. Every later fact about a field that a handler does not write
  follows from these equations.
\<close>

named_theorems footprint \<open>the fields a successful handler may have changed\<close>

lemma insert_payload_Inr:
  "insert_payload de key k v m = Inr m' \<longleftrightarrow> (\<exists>t. de v = Inr t \<and> m' = bt_insert (key t) t m)"
  by (auto simp: insert_payload_def res_simps)

lemma decode_Inr: "decode de e = Inr t \<longleftrightarrow> de (payload e) = Inr t"
  by (simp add: decode_def res_simps)

lemma invalid_Inr [simp]: "invalid k msg \<noteq> Inr s"
  by (simp add: invalid_def)

lemma early_return_Inr [res_simps]:
  "(if c then invalid k msg else r) = Inr a \<longleftrightarrow> \<not> c \<and> r = Inr a"
  "(if c then r else invalid k msg) = Inr a \<longleftrightarrow> c \<and> r = Inr a"
  "(case q of None \<Rightarrow> invalid k msg | Some y \<Rightarrow> f y) = Inr a \<longleftrightarrow> (\<exists>y. q = Some y \<and> f y = Inr a)"
  "(case z of Inl w \<Rightarrow> invalid k msg | Inr y \<Rightarrow> g y) = Inr a \<longleftrightarrow> (\<exists>y. z = Inr y \<and> g y = Inr a)"
  by (auto split: option.splits sum.splits)

lemma identity_version_footprint [footprint]:
  "apply_identity_version x s e = Inr s' \<Longrightarrow>
     \<exists>v. s' = s\<lparr>principals := bt_modify (IdentityVersion.principal_id v)
                (\<lambda>p. p\<lparr>Principal.identity_version_id := Some (IdentityVersion.id v)\<rparr>) (principals s),
              identity_versions := bt_insert (IdentityVersion.id v) v (identity_versions s)\<rparr>"
  by (auto simp: apply_identity_version_def res_simps)

lemma working_state_footprint [footprint]:
  "apply_working_state x s e = Inr s' \<Longrightarrow>
     \<exists>w. s' = s\<lparr>working_states := bt_insert (WorkingState.run_id w) w (working_states s)\<rparr>"
  by (auto simp: apply_working_state_def res_simps)

lemma conflict_footprint [footprint]:
  "apply_conflict x s e = Inr s' \<Longrightarrow>
     \<exists>c f. s' = s\<lparr>relationships := bt_map_values f (relationships s),
           CurrentState.conflicts := bt_insert (Conflict.id c) c (CurrentState.conflicts s)\<rparr>"
  by (auto simp: apply_conflict_def store_conflict_def Let_def res_simps)

lemma verification_footprint [footprint]:
  "apply_verification x s e = Inr s' \<Longrightarrow>
     \<exists>v f. s' = s\<lparr>operations := bt_modify (Verification.operation_id v) f (operations s),
              verifications := bt_insert (Verification.id v) v (verifications s)\<rparr>"
  by (auto simp: apply_verification_def res_simps)

lemma active_memory_footprint [footprint]:
  "apply_active_memory x s e = Inr s' \<Longrightarrow>
     \<exists>m f. s' = s\<lparr>CurrentState.memory_candidates :=
                bt_modify (ActiveMemory.candidate_id m) f (CurrentState.memory_candidates s),
              active_memories := bt_insert (ActiveMemory.id m) m (active_memories s)\<rparr>"
  by (auto simp: apply_active_memory_def res_simps)

lemma focus_footprint [footprint]:
  "apply_focus_resolution x s e = Inr s' \<Longrightarrow>
     \<exists>r. s' = s\<lparr>focus_resolutions := bt_insert (observation_id r) r (focus_resolutions s)\<rparr>"
  by (auto simp: apply_focus_resolution_def Let_def res_simps)

lemma task_completion_footprint [footprint]:
  "apply_task_completion x s e = Inr s' \<Longrightarrow>
     \<exists>t. s' = s\<lparr>tasks := bt_insert (Task.id t) t (tasks s)\<rparr>"
  by (auto simp: apply_task_completion_def Let_def res_simps)

lemma initiative_proposed_footprint [footprint]:
  "apply_initiative_proposed x s e = Inr s' \<Longrightarrow>
     \<exists>p. s' = s\<lparr>initiatives := bt_insert (InitiativeProposal.id p) p (initiatives s)\<rparr>"
  by (auto simp: apply_initiative_proposed_def Let_def res_simps)

lemma initiative_status_footprint [footprint]:
  "apply_initiative_status x s e p from to = Inr s' \<Longrightarrow>
     s' = s\<lparr>initiatives := bt_insert (InitiativeProposal.id p) p (initiatives s)\<rparr>"
  by (auto simp: apply_initiative_status_def Let_def res_simps)

lemma initiative_transition_footprint [footprint]:
  "apply_initiative_transition x s e from to = Inr s' \<Longrightarrow>
     \<exists>p. s' = s\<lparr>initiatives := bt_insert (InitiativeProposal.id p) p (initiatives s)\<rparr>"
  by (auto simp: apply_initiative_transition_def res_simps
      dest: initiative_status_footprint)

lemma initiative_dismissed_footprint [footprint]:
  "apply_initiative_dismissed x s e = Inr s' \<Longrightarrow>
     \<exists>p. s' = s\<lparr>initiatives := bt_insert (InitiativeProposal.id p) p (initiatives s)\<rparr>"
  by (auto simp: apply_initiative_dismissed_def Let_def res_simps
      dest: initiative_status_footprint)

lemma sleep_run_start_Inr:
  assumes "event_kind e = SleepRunStarted"
  shows "apply_sleep_run x s e = Inr s' \<longleftrightarrow>
     (\<exists>r. decode (de_sleep_run x) e = Inr r \<and> sleep_run_start_ok s r \<and>
        s' = s\<lparr>sleep_runs := bt_insert (SleepRun.id r) r (sleep_runs s)\<rparr>)"
  using assms by (auto simp: apply_sleep_run_def Let_def res_simps)

text \<open>The three terminal events: what they have in common, then what the kind adds.\<close>

definition sleep_run_end_ok :: "CurrentState \<Rightarrow> EventKind \<Rightarrow> SleepRun \<Rightarrow> SleepRun \<Rightarrow> bool" where
  "sleep_run_end_ok s k previous r \<longleftrightarrow>
     SleepRun.status previous = SleepRunStatus.Running \<and>
     cursor_before r = cursor_before previous \<and>
     high_water_revision r = high_water_revision previous \<and>
     seed_event_ids r = seed_event_ids previous \<and>
     (if k = SleepRunCompleted
      then SleepRun.status r = SleepRunStatus.Completed \<and>
           is_some_and (cursor_after r) (\<lambda>c. cursor_before r \<le> c \<and> c \<le> high_water_revision r)
      else if k = SleepRunInterrupted
      then SleepRun.status r = SleepRunStatus.Interrupted \<and> cursor_after r = None
      else SleepRun.status r = SleepRunStatus.Failed \<and> cursor_after r = None)"

lemma sleep_run_end_Inr:
  assumes "event_kind e \<noteq> SleepRunStarted"
  shows "apply_sleep_run x s e = Inr s' \<longleftrightarrow>
     (\<exists>r previous. decode (de_sleep_run x) e = Inr r \<and>
        bt_get (sleep_runs s) (SleepRun.id r) = Some previous \<and>
        sleep_run_end_ok s (event_kind e) previous r \<and>
        s' = s\<lparr>sleep_cursor :=
                (case cursor_after r of None \<Rightarrow> sleep_cursor s | Some c \<Rightarrow> c),
               sleep_runs := bt_insert (SleepRun.id r) r (sleep_runs s)\<rparr>)"
proof (cases "decode (de_sleep_run x) e")
  case (Inl er)
  then show ?thesis by (simp add: apply_sleep_run_def Let_def)
next
  case (Inr r)
  show ?thesis
  proof (cases "bt_get (sleep_runs s) (SleepRun.id r)")
    case None
    with Inr assms show ?thesis by (simp add: apply_sleep_run_def Let_def)
  next
    case (Some previous)
    with Inr assms show ?thesis
      by (cases "cursor_after r")
        (auto simp: apply_sleep_run_def Let_def sleep_run_end_ok_def res_simps not_less)
  qed
qed

lemma sleep_run_footprint [footprint]:
  "apply_sleep_run x s e = Inr s' \<Longrightarrow>
     \<exists>r c. s' = s\<lparr>sleep_cursor := c, sleep_runs := bt_insert (SleepRun.id r) r (sleep_runs s)\<rparr>"
proof (cases "event_kind e = SleepRunStarted")
  case True
  assume "apply_sleep_run x s e = Inr s'"
  then obtain r where "s' = s\<lparr>sleep_runs := bt_insert (SleepRun.id r) r (sleep_runs s)\<rparr>"
    using True by (auto simp: sleep_run_start_Inr)
  then have "s' = s\<lparr>sleep_cursor := sleep_cursor s,
      sleep_runs := bt_insert (SleepRun.id r) r (sleep_runs s)\<rparr>" by simp
  then show ?thesis by blast
next
  case False
  assume "apply_sleep_run x s e = Inr s'"
  then show ?thesis unfolding sleep_run_end_Inr [OF False] by blast
qed

lemma criterion_footprint [footprint]:
  "apply_criterion_defined x s e = Inr s' \<Longrightarrow>
     \<exists>i c. s' = s\<lparr>completion_criteria := bt_insert i c (completion_criteria s)\<rparr>"
  by (auto simp: apply_criterion_defined_def Let_def res_simps)

lemma claim_created_footprint:
  "apply_claim_created x s c0 k = Inr s' \<Longrightarrow>
     \<exists>i c. s' = s\<lparr>completion_claims := bt_insert i c (completion_claims s)\<rparr>"
  by (cases "CompletionClaim.supersedes c0")
    (auto simp: apply_claim_created_def Let_def res_simps)

lemma claim_transition_footprint:
  "apply_claim_transition s t expected k = Inr s' \<Longrightarrow>
     s' = s\<lparr>completion_claims := bt_modify (claim_id t)
              (\<lambda>c. c\<lparr>CompletionClaim.disposition := expected\<rparr>) (completion_claims s)\<rparr>"
  by (auto simp: apply_claim_transition_def res_simps)

lemma claim_event_footprint [footprint]:
  "apply_claim_created_event x s e = Inr s' \<Longrightarrow>
     \<exists>i c. s' = s\<lparr>completion_claims := bt_insert i c (completion_claims s)\<rparr>"
  "apply_claim_verified_event x s e = Inr s' \<Longrightarrow>
     \<exists>i f. s' = s\<lparr>completion_claims := bt_modify i f (completion_claims s)\<rparr>"
  "apply_claim_rejected_event x s e = Inr s' \<Longrightarrow>
     \<exists>i f. s' = s\<lparr>completion_claims := bt_modify i f (completion_claims s)\<rparr>"
  by (auto simp: apply_claim_created_event_def apply_claim_verified_event_def
      apply_claim_rejected_event_def res_simps
      dest: claim_created_footprint claim_transition_footprint)

lemma candidate_created_footprint [footprint]:
  "apply_candidate_created x s e = Inr s' \<Longrightarrow>
     \<exists>i c. s' = s\<lparr>integration_candidates := bt_insert i c (integration_candidates s)\<rparr>"
  by (auto simp: apply_candidate_created_def Let_def res_simps)

lemma integration_transition_footprint [footprint]:
  "apply_integration_transition x s e expected = Inr s' \<Longrightarrow>
     \<exists>i f j v. s' = s\<lparr>integration_candidates := bt_modify i f (integration_candidates s),
                  integration_verifications := bt_insert j v (integration_verifications s)\<rparr>"
  by (auto simp: apply_integration_transition_def Let_def res_simps)

lemma integration_materialization_footprint [footprint]:
  "apply_integration_materialization x s e = Inr s' \<Longrightarrow>
     \<exists>i m. s' = s\<lparr>integration_materializations :=
                    bt_insert i m (integration_materializations s)\<rparr>"
  by (auto simp: apply_integration_materialization_def Let_def res_simps)

lemma case_triple_Inr [res_simps]:
  "(case p of (a, b, c) \<Rightarrow> f a b c) = Inr y \<longleftrightarrow> (\<exists>a b c. p = (a, b, c) \<and> f a b c = Inr y)"
  by (cases p) auto

lemma memory_revision_footprint [footprint]:
  "apply_memory_revision_materialization x s e = Inr s' \<Longrightarrow>
     \<exists>i m. s' = s\<lparr>memory_revision_materializations :=
                    bt_insert i m (memory_revision_materializations s)\<rparr>"
  by (auto simp: apply_memory_revision_materialization_def Let_def res_simps)

lemma position_integration_Inr:
  "apply_position_integration x s e ie = Inr s' \<Longrightarrow>
     \<exists>ps. s' = s\<lparr>CurrentState.positions := ps,
              position_integration_materializations :=
                bt_insert (PositionIntegrationMaterialization.candidate_id (position_integration ie))
                  (position_integration ie) (position_integration_materializations s)\<rparr>"
  by (auto simp: apply_position_integration_def Let_def res_simps)

lemma position_event_footprint [footprint]:
  assumes "apply_position_event x s e = Inr s'"
  shows "\<exists>ps ms. s' = s\<lparr>CurrentState.positions := ps,
                        position_integration_materializations := ms\<rparr>"
proof (cases "has_field x (payload e) ''position_integration''")
  case True
  with assms obtain ie where "apply_position_integration x s e ie = Inr s'"
    by (auto simp: apply_position_event_def res_simps)
  from position_integration_Inr [OF this] show ?thesis by blast
next
  case False
  with assms have "\<exists>ps. s' = s\<lparr>CurrentState.positions := ps\<rparr>"
    by (cases "event_kind e") (auto simp: apply_position_event_def res_simps)
  then obtain ps where "s' = s\<lparr>CurrentState.positions := ps,
      position_integration_materializations := position_integration_materializations s\<rparr>"
    by auto
  then show ?thesis by blast
qed

section \<open>Frames\<close>

text \<open>Which fields an event of a kind leaves alone.\<close>

lemma ledger_frame:
  assumes "apply_kind x s e = Inr s'"
  shows "CurrentState.revision s' = CurrentState.revision s \<and> applied_events s' = applied_events s"
  using assms by (cases "event_kind e") (auto simp: apply_kind_def Let_def res_simps dest!: footprint)

lemma claims_frame:
  assumes "apply_kind x s e = Inr s'"
    and "event_kind e \<notin> {CompletionClaimCreated, CompletionClaimVerified, CompletionClaimRejected}"
  shows "completion_claims s' = completion_claims s"
  using assms by (cases "event_kind e") (auto simp: apply_kind_def Let_def res_simps dest!: footprint)

lemma criteria_frame:
  assumes "apply_kind x s e = Inr s'"
    and "event_kind e \<notin> {CompletionCriterionDefined}"
  shows "completion_criteria s' = completion_criteria s"
  using assms by (cases "event_kind e") (auto simp: apply_kind_def Let_def res_simps dest!: footprint)

lemma initiatives_frame:
  assumes "apply_kind x s e = Inr s'"
    and "event_kind e \<notin> {InitiativeProposed, InitiativeReadied, InitiativeDismissed}"
  shows "initiatives s' = initiatives s"
  using assms by (cases "event_kind e") (auto simp: apply_kind_def Let_def res_simps dest!: footprint)

lemma sleep_frame:
  assumes "apply_kind x s e = Inr s'"
    and "event_kind e \<notin> {SleepRunStarted, SleepRunCompleted, SleepRunInterrupted, SleepRunFailed}"
  shows "sleep_runs s' = sleep_runs s \<and> sleep_cursor s' = sleep_cursor s"
  using assms by (cases "event_kind e") (auto simp: apply_kind_def Let_def res_simps dest!: footprint)

lemma candidates_frame:
  assumes "apply_kind x s e = Inr s'"
    and "event_kind e \<notin> {IntegrationCandidateCreated, IntegrationCandidateVerified, IntegrationCandidateRejected}"
  shows "integration_candidates s' = integration_candidates s"
  using assms by (cases "event_kind e") (auto simp: apply_kind_def Let_def res_simps dest!: footprint)

lemma integration_verifications_frame:
  assumes "apply_kind x s e = Inr s'"
    and "event_kind e \<notin> {IntegrationCandidateVerified, IntegrationCandidateRejected}"
  shows "integration_verifications s' = integration_verifications s"
  using assms by (cases "event_kind e") (auto simp: apply_kind_def Let_def res_simps dest!: footprint)

lemma materializations_frame:
  assumes "apply_kind x s e = Inr s'"
    and "event_kind e \<notin> {IntegrationCandidateMaterialized}"
  shows "integration_materializations s' = integration_materializations s"
  using assms by (cases "event_kind e") (auto simp: apply_kind_def Let_def res_simps dest!: footprint)

lemma memory_revisions_frame:
  assumes "apply_kind x s e = Inr s'"
    and "event_kind e \<notin> {MemoryRevisionMaterialized}"
  shows "memory_revision_materializations s' = memory_revision_materializations s"
  using assms by (cases "event_kind e") (auto simp: apply_kind_def Let_def res_simps dest!: footprint)

lemma positions_frame:
  assumes "apply_kind x s e = Inr s'"
    and "event_kind e \<notin> {PositionEstablished, PositionMaintained, PositionRecorded, PositionRevised, PositionRetracted}"
  shows "CurrentState.positions s' = CurrentState.positions s \<and> position_integration_materializations s' = position_integration_materializations s"
  using assms by (cases "event_kind e") (auto simp: apply_kind_def Let_def res_simps dest!: footprint)

lemma focus_frame:
  assumes "apply_kind x s e = Inr s'"
    and "event_kind e \<notin> {FocusResolved}"
  shows "focus_resolutions s' = focus_resolutions s"
  using assms by (cases "event_kind e") (auto simp: apply_kind_def Let_def res_simps dest!: footprint)

lemma tasks_frame:
  assumes "apply_kind x s e = Inr s'"
    and "event_kind e \<notin> {TaskCreated, TaskCompleted}"
  shows "tasks s' = tasks s"
  using assms by (cases "event_kind e") (auto simp: apply_kind_def Let_def res_simps dest!: footprint)

lemma conflicts_frame:
  assumes "apply_kind x s e = Inr s'"
    and "event_kind e \<notin> {ConflictOpened, ConflictRecorded, ConflictUpdated, ConflictResolved}"
  shows "CurrentState.conflicts s' = CurrentState.conflicts s"
  using assms by (cases "event_kind e") (auto simp: apply_kind_def Let_def res_simps dest!: footprint)

lemma principals_frame:
  assumes "apply_kind x s e = Inr s'"
    and "event_kind e \<notin> {PrincipalCreated, IdentityVersionCreated}"
  shows "principals s' = principals s"
  using assms by (cases "event_kind e") (auto simp: apply_kind_def Let_def res_simps dest!: footprint)

section \<open>Steps and replay\<close>

lemma apply_event_Inr:
  "apply_event x s e = Inr s' \<longleftrightarrow>
     ExperienceEvent.event_id e \<notin> set (applied_events s) \<and>
     (\<exists>t. apply_kind x s e = Inr t \<and>
        s' = t\<lparr>CurrentState.revision := CurrentState.revision s + 1,
               applied_events := applied_events s @ [ExperienceEvent.event_id e]\<rparr>)"
  using ledger_frame by (fastforce simp: apply_event_def res_simps)

lemma apply_event_cases:
  assumes "apply_event x s e = Inr s'"
  obtains t where "apply_kind x s e = Inr t"
    and "s' = t\<lparr>CurrentState.revision := CurrentState.revision s + 1,
                applied_events := applied_events s @ [ExperienceEvent.event_id e]\<rparr>"
    and "ExperienceEvent.event_id e \<notin> set (applied_events s)"
  using assms by (auto simp: apply_event_Inr)

interpretation ledger: event_sourced "apply_event x" "apply_all x" applied_events
  ExperienceEvent.event_id for x
  by unfold_locales (auto simp: apply_event_Inr)

end
