(* ===== verification/Store.thy ===== *)
theory Store
  imports Projector Thought
begin

text \<open>
  The SQLite store behind the projector (\<open>src/adapters/sqlite/store.rs\<close>) and the commit path
  of \<open>src/runtime/projector.rs\<close>. The database is the list of event rows, the one snapshot
  row, the rows of cognitive traces, the lease slot and the state the derived tables were last
  written from. A transaction that fails is rolled back, so an operation is a function to
  \<open>StorageError + Db\<close>; what SQLite itself may report at a statement is the argument \<open>flt\<close>.
  Text formats of third-party crates are the record \<open>codec\<close>.
\<close>

record codec =
  uuid_parse :: "string \<Rightarrow> string + Uuid"
  value_to_string :: "json \<Rightarrow> string + string"
  value_from_str :: "string \<Rightarrow> string + json"
  kind_to_string :: "EventKind \<Rightarrow> string + string"
  kind_from_str :: "string \<Rightarrow> string + EventKind"
  entity_to_string :: "EntityKind \<Rightarrow> string + string"
  entity_from_str :: "string \<Rightarrow> string + EntityKind"
  sql_real :: "f32_bits \<Rightarrow> f32_bits option"
  state_to_string :: "CurrentState \<Rightarrow> string + string"
  state_from_str :: "string \<Rightarrow> string + CurrentState"
  trace_to_string :: "CognitiveTrace \<Rightarrow> string + string"

section \<open>Rows\<close>

text \<open>
  The columns of \<open>events\<close>; the \<open>sequence\<close> of a row is its position. The \<open>REAL\<close> column holds
  what reading back the widened \<open>f32\<close> gives.
\<close>

record EventRow =
  col_event_id :: string
  col_occurred_at :: string
  col_recorded_at :: string
  col_kind :: string
  col_actor_id :: string
  col_subject_kind :: "string option"
  col_subject_id :: "string option"
  col_payload :: string
  col_source_type :: string
  col_source_ref :: "string option"
  col_causation_id :: "string option"
  col_correlation_id :: "string option"
  col_confidence :: "f32_bits option"
  col_integrity_hash :: string

definition trim_quotes :: "string \<Rightarrow> string" where
  "trim_quotes s = (let q = (\<lambda>c. c = CHR 0x22) in rev (dropWhile q (rev (dropWhile q s))))"

definition enum_text :: "string + string \<Rightarrow> string" where
  "enum_text r = trim_quotes (case r of Inl _ \<Rightarrow> [] | Inr t \<Rightarrow> t)"

definition event_kind_text :: "codec \<Rightarrow> EventKind \<Rightarrow> string" where
  "event_kind_text c k = enum_text (kind_to_string c k)"

definition entity_kind_text :: "codec \<Rightarrow> EntityKind \<Rightarrow> string" where
  "entity_kind_text c k = enum_text (entity_to_string c k)"

definition parse_event_kind :: "codec \<Rightarrow> string \<Rightarrow> StorageError + EventKind" where
  "parse_event_kind c v = map_err Backend (kind_from_str c ([CHR 0x22] @ v @ [CHR 0x22]))"

definition parse_entity_kind :: "codec \<Rightarrow> string \<Rightarrow> StorageError + EntityKind" where
  "parse_entity_kind c v = map_err Backend (entity_from_str c ([CHR 0x22] @ v @ [CHR 0x22]))"

definition parse_id :: "codec \<Rightarrow> string \<Rightarrow> StorageError + 'e Id" where
  "parse_id c v = res_bind (map_err Backend (uuid_parse c v)) (\<lambda>u. Inr (from_uuid u))"

definition parse_optional_id :: "codec \<Rightarrow> string option \<Rightarrow> StorageError + 'e Id option" where
  "parse_optional_id c v =
     (case v of None \<Rightarrow> Inr None | Some t \<Rightarrow> res_bind (parse_id c t) (\<lambda>i. Inr (Some i)))"

text \<open>What the \<open>INSERT\<close> of \<open>commit_batch\<close> binds.\<close>

definition row_of_event :: "ext \<Rightarrow> codec \<Rightarrow> ExperienceEvent \<Rightarrow> StorageError + EventRow" where
  "row_of_event x c e =
     res_bind (map_err Backend (value_to_string c (payload e))) (\<lambda>pl.
     Inr \<lparr>col_event_id = id_text x (ExperienceEvent.event_id e),
          col_occurred_at = occurred_at e,
          col_recorded_at = ExperienceEvent.recorded_at e,
          col_kind = event_kind_text c (event_kind e),
          col_actor_id = id_text x (ExperienceEvent.actor_id e),
          col_subject_kind =
            map_option (\<lambda>r. entity_kind_text c (EntityRef.kind r)) (ExperienceEvent.subject e),
          col_subject_id =
            map_option (\<lambda>r. uuid_text x (EntityRef.id r)) (ExperienceEvent.subject e),
          col_payload = pl,
          col_source_type = EventSource.source_type (source e),
          col_source_ref = EventSource.source_ref (source e),
          col_causation_id = map_option (id_text x) (causation_id e),
          col_correlation_id = correlation_id e,
          col_confidence = Option.bind (ExperienceEvent.confidence e) (sql_real c),
          col_integrity_hash = integrity_hash e\<rparr>)"

definition event_from_row :: "codec \<Rightarrow> EventRow \<Rightarrow> StorageError + ExperienceEvent" where
  "event_from_row c r =
     res_bind (parse_id c (col_event_id r)) (\<lambda>eid.
     res_bind (parse_id c (col_actor_id r)) (\<lambda>actor.
     res_bind (parse_event_kind c (col_kind r)) (\<lambda>k.
     res_bind (map_err Backend (value_from_str c (col_payload r))) (\<lambda>pl.
     res_bind
       (case (col_subject_kind r, col_subject_id r) of
          (Some sk, Some si) \<Rightarrow>
            res_bind (parse_entity_kind c sk) (\<lambda>ek.
            res_bind (map_err Backend (uuid_parse c si)) (\<lambda>u.
            Inr (Some \<lparr>EntityRef.kind = ek, id = u\<rparr>)))
        | (None, None) \<Rightarrow> Inr None
        | _ \<Rightarrow> Inl (Backend ''event subject is incomplete'')) (\<lambda>subj.
     res_bind (parse_optional_id c (col_causation_id r)) (\<lambda>caus.
     Inr \<lparr>ExperienceEvent.event_id = eid, occurred_at = col_occurred_at r,
          recorded_at = col_recorded_at r, actor_id = actor, event_kind = k, subject = subj,
          payload = pl,
          source = \<lparr>EventSource.source_type = col_source_type r, source_ref = col_source_ref r\<rparr>,
          causation_id = caus, correlation_id = col_correlation_id r,
          confidence = col_confidence r, integrity_hash = col_integrity_hash r\<rparr>))))))"

section \<open>The database\<close>

record Snapshot =
  snap_revision :: i64
  snap_json :: string
  snap_hash :: string

record Db =
  event_rows :: "EventRow list"
  snapshot :: "Snapshot option"
  trace_rows :: "(string \<times> CognitiveTrace) list"
  lease_row :: "(string \<times> i64) option"
  derived_from :: "CurrentState option"

text \<open>The migrations leave one snapshot row with an empty object and no hash.\<close>

definition fresh_db :: Db where
  "fresh_db = \<lparr>event_rows = [], snapshot = Some \<lparr>snap_revision = 0, snap_json = ''{}'', snap_hash = []\<rparr>,
               trace_rows = [], lease_row = None, derived_from = None\<rparr>"

definition snapshot_hash :: "ext \<Rightarrow> string \<Rightarrow> string" where
  "snapshot_hash x v = sha256_hex x v"

text \<open>\<open>revision.max(0) as u64\<close>.\<close>

definition revision_of_i64 :: "i64 \<Rightarrow> u64" where
  "revision_of_i64 r = (if sint r < 0 then 0 else r)"

definition repair_candidates :: "CurrentState \<Rightarrow> CurrentState" where
  "repair_candidates s =
     s\<lparr>integration_candidates := bt_map_values (\<lambda>c.
         if IntegrationCandidate.as_of_revision c = 0
         then (case bt_get (sleep_runs s) (sleep_run_id c) of
                 None \<Rightarrow> c
               | Some r \<Rightarrow> c\<lparr>IntegrationCandidate.as_of_revision := high_water_revision r\<rparr>)
         else c) (integration_candidates s)\<rparr>"

definition load_state :: "ext \<Rightarrow> codec \<Rightarrow> Db \<Rightarrow> StorageError + CurrentState" where
  "load_state x c db =
     (case snapshot db of
        None \<Rightarrow> Inr default_state
      | Some row \<Rightarrow>
          if snap_hash row \<noteq> [] \<and> snapshot_hash x (snap_json row) \<noteq> snap_hash row
          then Inl (Integrity ''current_state'')
          else if trim (snap_json row) = [] \<or> trim (snap_json row) = ''{}''
          then Inr (default_state\<lparr>CurrentState.revision := revision_of_i64 (snap_revision row)\<rparr>)
          else
            res_bind (map_err InvalidState (state_from_str c (snap_json row))) (\<lambda>s.
            Inr (repair_candidates
                   (s\<lparr>CurrentState.revision := revision_of_i64 (snap_revision row)\<rparr>))))"

fun load_rows :: "ext \<Rightarrow> codec \<Rightarrow> EventRow list \<Rightarrow> StorageError + ExperienceEvent list" where
  "load_rows x c [] = Inr []"
| "load_rows x c (r # rs) =
     res_bind (event_from_row c r) (\<lambda>e.
     res_bind (map_err Backend (verify_integrity x e)) (\<lambda>ok.
     if \<not> ok then Inl (Integrity (id_text x (ExperienceEvent.event_id e)))
     else res_bind (load_rows x c rs) (\<lambda>es. Inr (e # es))))"

definition load_events :: "ext \<Rightarrow> codec \<Rightarrow> Db \<Rightarrow> StorageError + ExperienceEvent list" where
  "load_events x c db = load_rows x c (event_rows db)"

section \<open>Committing\<close>

datatype stage =
    BeginTx | SelectRevision | InsertEvent nat | UpdateSnapshot | WriteProjection | InsertTrace
  | CommitTx

definition sql :: "(stage \<Rightarrow> string option) \<Rightarrow> stage \<Rightarrow> StorageError + unit" where
  "sql flt st = (case flt st of None \<Rightarrow> Inr () | Some msg \<Rightarrow> Inl (Backend msg))"

fun verify_events :: "ext \<Rightarrow> ExperienceEvent list \<Rightarrow> StorageError + unit" where
  "verify_events x [] = Inr ()"
| "verify_events x (e # es) =
     res_bind (map_err Backend (verify_integrity x e)) (\<lambda>valid.
     if \<not> valid then Inl (Integrity (id_text x (ExperienceEvent.event_id e)))
     else verify_events x es)"

definition get :: "'a list \<Rightarrow> nat \<Rightarrow> 'a option" where
  "get xs i = (if i < length xs then Some (xs ! i) else None)"

fun ends_with_batch :: "EventId list \<Rightarrow> nat \<Rightarrow> ExperienceEvent list \<Rightarrow> bool" where
  "ends_with_batch applied start [] = True"
| "ends_with_batch applied start (e # es) =
     (get applied start = Some (ExperienceEvent.event_id e) \<and>
      ends_with_batch applied (Suc start) es)"

fun insert_events ::
  "ext \<Rightarrow> codec \<Rightarrow> (stage \<Rightarrow> string option) \<Rightarrow> nat \<Rightarrow> EventRow list \<Rightarrow> ExperienceEvent list \<Rightarrow>
   StorageError + EventRow list"
where
  "insert_events x c flt i rows [] = Inr rows"
| "insert_events x c flt i rows (e # es) =
     res_bind (row_of_event x c e) (\<lambda>r.
     res_bind (sql flt (InsertEvent i)) (\<lambda>_.
     if col_event_id r \<in> set (map col_event_id rows)
     then Inl (Backend ''UNIQUE constraint failed: events.event_id'')
     else insert_events x c flt (Suc i) (rows @ [r]) es))"

definition write_cognitive_trace ::
  "codec \<Rightarrow> (stage \<Rightarrow> string option) \<Rightarrow> CognitiveTrace \<Rightarrow> Db \<Rightarrow> StorageError + Db"
where
  "write_cognitive_trace c flt t db =
     res_bind (map_err Backend (trace_to_string c t)) (\<lambda>txt.
     res_bind (sql flt InsertTrace) (\<lambda>_.
     if trace_id t \<in> set (map (trace_id \<circ> snd) (trace_rows db))
     then Inl (Backend ''UNIQUE constraint failed: cognitive_traces.trace_id'')
     else Inr (db\<lparr>trace_rows := trace_rows db @ [(txt, t)]\<rparr>)))"

definition commit_batch ::
  "ext \<Rightarrow> codec \<Rightarrow> (stage \<Rightarrow> string option) \<Rightarrow> Db \<Rightarrow> ExperienceEvent list \<Rightarrow> CurrentState \<Rightarrow>
   u64 option \<Rightarrow> CognitiveTrace option \<Rightarrow> StorageError + Db"
where
  "commit_batch x c flt db es s expected_base tr =
     (if es = [] then Inl (InvalidState ''cannot commit an empty event batch'')
      else
        res_bind (verify_events x es) (\<lambda>_.
        res_bind (sql flt BeginTx) (\<lambda>_.
        res_bind (sql flt SelectRevision) (\<lambda>_.
        let actual = revision_of_i64 (len_u64 (event_rows db));
            expected = actual + len_u64 es;
            start = length (applied_events s) - length es in
        if is_some_and expected_base (\<lambda>b. actual \<noteq> b)
        then Inl (StorageError.StaleContext (the expected_base) actual)
        else if CurrentState.revision s \<noteq> expected
        then Inl (RevisionConflict expected (CurrentState.revision s))
        else if \<not> ends_with_batch (applied_events s) start es
        then Inl (InvalidState ''projected state does not end with the committed event batch'')
        else
          res_bind (insert_events x c flt 0 (event_rows db) es) (\<lambda>rows.
          res_bind (map_err Backend (state_to_string c s)) (\<lambda>txt.
          res_bind (sql flt UpdateSnapshot) (\<lambda>_.
          res_bind (sql flt WriteProjection) (\<lambda>_.
          let db1 = db\<lparr>event_rows := rows,
                      snapshot := map_option (\<lambda>_. \<lparr>snap_revision = CurrentState.revision s,
                        snap_json = txt, snap_hash = snapshot_hash x txt\<rparr>) (snapshot db),
                      derived_from := Some s\<rparr> in
          res_bind (case tr of None \<Rightarrow> Inr db1 | Some t \<Rightarrow> write_cognitive_trace c flt t db1)
            (\<lambda>db2.
          res_bind (sql flt CommitTx) (\<lambda>_. Inr db2)))))))))) "

text \<open>\<open>Projector::record_batch\<close>: load, check, apply, commit.\<close>

definition record_batch ::
  "ext \<Rightarrow> codec \<Rightarrow> (stage \<Rightarrow> string option) \<Rightarrow> Db \<Rightarrow> ExperienceEvent list \<Rightarrow> u64 option \<Rightarrow>
   CognitiveTrace option \<Rightarrow> ProjectionError + CurrentState \<times> Db"
where
  "record_batch x c flt db es expected_base tr =
     res_bind (map_err Storage (load_state x c db)) (\<lambda>s.
     if is_some_and expected_base (\<lambda>b. CurrentState.revision s \<noteq> b)
     then Inl (ProjectionError.StaleContext (the expected_base) (CurrentState.revision s))
     else
       res_bind (apply_all x s es) (\<lambda>s'.
       res_bind (map_err Storage (commit_batch x c flt db es s' expected_base tr)) (\<lambda>db'.
       Inr (s', db'))))"

definition record_one ::
  "ext \<Rightarrow> codec \<Rightarrow> (stage \<Rightarrow> string option) \<Rightarrow> Db \<Rightarrow> ExperienceEvent \<Rightarrow>
   ProjectionError + CurrentState \<times> Db"
where
  "record_one x c flt db e = record_batch x c flt db [e] None None"

end
