(* ===== verification/SleepHistory.thy ===== *)
theory SleepHistory
  imports Projector
begin

text \<open>
  What the projector guarantees about sleep runs and the sleep cursor over any ledger: a run
  ends at most once, keeps its window, and its cursor stays inside the window; the global
  cursor never passes the end of the ledger.
\<close>

section \<open>One run\<close>

definition sleep_run_ok :: "nat \<Rightarrow> SleepRun \<Rightarrow> bool" where
  "sleep_run_ok n r \<longleftrightarrow>
     unat (high_water_revision r) \<le> n \<and>
     (case SleepRun.status r of
        SleepRunStatus.Completed \<Rightarrow>
          is_some_and (cursor_after r) (\<lambda>c. cursor_before r \<le> c \<and> c \<le> high_water_revision r)
      | _ \<Rightarrow> cursor_after r = None)"

definition sleep_inv :: "CurrentState \<Rightarrow> bool" where
  "sleep_inv s \<longleftrightarrow>
     bt_wf (sleep_runs s) \<and>
     CurrentState.revision s = of_nat (length (applied_events s)) \<and>
     unat (sleep_cursor s) \<le> length (applied_events s) \<and>
     (\<forall>i r. bt_get (sleep_runs s) i = Some r \<longrightarrow>
        SleepRun.id r = i \<and> sleep_run_ok (length (applied_events s)) r)"

text \<open>What becomes of a recorded run: nothing once it has ended, and never its window.\<close>

definition run_ends_to :: "SleepRun \<Rightarrow> SleepRun \<Rightarrow> bool" where
  "run_ends_to r r' \<longleftrightarrow>
     SleepRun.id r' = SleepRun.id r \<and> cursor_before r' = cursor_before r \<and>
     high_water_revision r' = high_water_revision r \<and> seed_event_ids r' = seed_event_ids r \<and>
     (SleepRun.status r \<noteq> SleepRunStatus.Running \<longrightarrow> r' = r)"

abbreviation sleep_extend :: "CurrentState \<Rightarrow> CurrentState \<Rightarrow> bool" where
  "sleep_extend s s' \<equiv> bt_rel run_ends_to (sleep_runs s) (sleep_runs s')"

lemma run_ends_to_order: "reflp run_ends_to" "transp run_ends_to"
  by (auto simp: reflp_def transp_def run_ends_to_def)

section \<open>Steps\<close>

lemma unat_revision_le:
  "r \<le> CurrentState.revision s \<Longrightarrow> CurrentState.revision s = of_nat (length (applied_events s)) \<Longrightarrow>
     unat r \<le> length (applied_events s)"
  by (metis le_trans unat_of_nat mod_less_eq_dividend word_le_nat_alt)

lemma sleep_step:
  assumes "apply_kind x s e = Inr s'"
  obtains (same) "sleep_runs s' = sleep_runs s" and "sleep_cursor s' = sleep_cursor s"
  | (started) r where "event_kind e = SleepRunStarted" and "sleep_run_start_ok s r"
      and "sleep_runs s' = bt_insert (SleepRun.id r) r (sleep_runs s)"
      and "sleep_cursor s' = sleep_cursor s"
  | (ended) r previous where "event_kind e \<in> {SleepRunCompleted, SleepRunInterrupted, SleepRunFailed}"
      and "bt_get (sleep_runs s) (SleepRun.id r) = Some previous"
      and "sleep_run_end_ok s (event_kind e) previous r"
      and "sleep_runs s' = bt_insert (SleepRun.id r) r (sleep_runs s)"
      and "sleep_cursor s' = (case cursor_after r of None \<Rightarrow> sleep_cursor s | Some c \<Rightarrow> c)"
proof (cases "event_kind e \<in> {SleepRunStarted, SleepRunCompleted, SleepRunInterrupted, SleepRunFailed}")
  case False
  with sleep_frame [OF assms] show ?thesis using same by simp
next
  case True
  with assms have ap: "apply_sleep_run x s e = Inr s'" by (auto simp: apply_kind_def)
  show ?thesis
  proof (cases "event_kind e = SleepRunStarted")
    case start: True
    then obtain r where "sleep_run_start_ok s r"
      and "s' = s\<lparr>sleep_runs := bt_insert (SleepRun.id r) r (sleep_runs s)\<rparr>"
      using ap by (auto simp: sleep_run_start_Inr)
    with start show ?thesis using started by simp
  next
    case False
    from ap [unfolded sleep_run_end_Inr [OF False]] True False show ?thesis
      using ended by auto
  qed
qed

lemma sleep_run_ok_mono: "sleep_run_ok n r \<Longrightarrow> n \<le> m \<Longrightarrow> sleep_run_ok m r"
  by (auto simp: sleep_run_ok_def)

lemma sleep_run_end_status:
  assumes "sleep_run_end_ok s k previous r"
    and "k \<in> {SleepRunCompleted, SleepRunInterrupted, SleepRunFailed}"
  shows "SleepRun.status r \<noteq> SleepRunStatus.Running"
    and "sleep_run_ok n previous \<Longrightarrow> sleep_run_ok n r"
    and "cursor_after r = Some c \<Longrightarrow> cursor_before r \<le> c \<and> c \<le> high_water_revision previous"
  using assms by (auto simp: sleep_run_end_ok_def sleep_run_ok_def split: if_splits)

lemma sleep_inv_step:
  assumes inv: "sleep_inv s" and step: "apply_event x s e = Inr s'"
  shows "sleep_inv s'"
  using step
proof (cases rule: apply_event_cases)
  case (1 t)
  have runs: "SleepRun.id r = i \<and> sleep_run_ok (length (applied_events s)) r"
    if "bt_get (sleep_runs s) i = Some r" for i r
    using inv that by (simp add: sleep_inv_def)
  have new: "bt_wf (sleep_runs t) \<and> unat (sleep_cursor t) \<le> length (applied_events s) \<and>
      (\<forall>i r. bt_get (sleep_runs t) i = Some r \<longrightarrow>
         SleepRun.id r = i \<and> sleep_run_ok (length (applied_events s)) r)"
    using 1(1)
  proof (cases rule: sleep_step)
    case same
    with inv show ?thesis by (simp add: sleep_inv_def)
  next
    case (started r)
    have "sleep_run_ok (length (applied_events s)) r"
      using started(2) inv
      by (auto simp: sleep_run_start_ok_def sleep_run_ok_def sleep_inv_def not_less
          intro: unat_revision_le)
    with started inv runs show ?thesis by (simp add: sleep_inv_def)
  next
    case (ended r previous)
    have ok: "sleep_run_ok (length (applied_events s)) r"
      using sleep_run_end_status(2) [OF ended(3,1)] runs [OF ended(2)] by blast
    have "unat c \<le> length (applied_events s)" if "cursor_after r = Some c" for c
      using sleep_run_end_status(3) [OF ended(3,1) that] runs [OF ended(2)]
      by (auto simp: sleep_run_ok_def word_le_nat_alt)
    with ended ok inv runs show ?thesis
      by (auto simp: sleep_inv_def split: option.splits)
  qed
  have "sleep_run_ok (length (applied_events s')) r" if "sleep_run_ok (length (applied_events s)) r" for r
    using sleep_run_ok_mono [OF that] 1(2) by simp
  with new inv 1(2) show ?thesis by (auto simp: sleep_inv_def)
qed

lemma sleep_inv_default: "sleep_inv default_state"
  by (simp add: sleep_inv_def default_state_def)

lemma sleep_inv_replay: "replay x es = Inr s \<Longrightarrow> sleep_inv s"
  unfolding replay_def
  by (rule ledger.run_invariant [where I = sleep_inv])
    (auto intro: sleep_inv_step sleep_inv_default)

lemma sleep_extend_step:
  assumes "sleep_inv s" and "apply_event x s e = Inr s'"
  shows "sleep_extend s s'"
  using assms(2)
proof (cases rule: apply_event_cases)
  case (1 t)
  from 1(1) have "sleep_extend s t"
  proof (cases rule: sleep_step)
    case same
    then show ?thesis by (simp add: bt_rel_refl run_ends_to_order)
  next
    case (started r)
    then show ?thesis
      by (simp add: bt_rel_insert_fresh run_ends_to_order sleep_run_start_ok_def)
  next
    case (ended r previous)
    have "SleepRun.id previous = SleepRun.id r"
      using assms(1) ended(2) by (simp add: sleep_inv_def)
    then have "run_ends_to previous r"
      using ended(3) by (simp add: sleep_run_end_ok_def run_ends_to_def)
    with ended(2,4) show ?thesis by (auto intro!: bt_rel_insert run_ends_to_order)
  qed
  with 1(2) show ?thesis by simp
qed

lemma sleep_extend_run:
  assumes "sleep_inv s" and "apply_all x s es = Inr s'"
  shows "sleep_extend s s'"
proof (rule ledger.run_monotone [where I = sleep_inv and R = sleep_extend, OF _ _ _ _ assms])
  show "reflp sleep_extend" by (blast intro: reflpI bt_rel_refl run_ends_to_order)
  show "transp sleep_extend" by (blast intro: transpI bt_rel_trans run_ends_to_order)
qed (auto intro: sleep_inv_step sleep_extend_step)

section \<open>The cursor\<close>

text \<open>
  The cursor moves only when a run completes, to a value of that run's window. It never moves
  back as long as the open runs all start at it, which single-run operation maintains.
\<close>

definition open_runs_at_cursor :: "CurrentState \<Rightarrow> bool" where
  "open_runs_at_cursor s \<longleftrightarrow>
     (\<forall>i r. bt_get (sleep_runs s) i = Some r \<longrightarrow> SleepRun.status r = SleepRunStatus.Running \<longrightarrow>
        cursor_before r = sleep_cursor s)"

lemma cursor_step:
  assumes "apply_event x s e = Inr s'"
  shows "sleep_cursor s' = sleep_cursor s \<or>
     event_kind e = SleepRunCompleted \<and>
     (\<exists>i r r'. bt_get (sleep_runs s) i = Some r \<and> SleepRun.status r = SleepRunStatus.Running \<and>
        bt_get (sleep_runs s') i = Some r' \<and> SleepRun.status r' = SleepRunStatus.Completed \<and>
        cursor_before r \<le> sleep_cursor s' \<and> sleep_cursor s' \<le> high_water_revision r)"
  using assms
proof (cases rule: apply_event_cases)
  case (1 t)
  from 1(1) show ?thesis
  proof (cases rule: sleep_step)
    case (ended r previous)
    then show ?thesis
      using 1(2) by (auto simp: sleep_run_end_ok_def split: if_splits option.splits)
  qed (use 1(2) in simp_all)
qed

lemma cursor_forward:
  assumes "open_runs_at_cursor s" and "apply_event x s e = Inr s'"
  shows "sleep_cursor s \<le> sleep_cursor s'"
  using cursor_step [OF assms(2)] assms(1) by (auto simp: open_runs_at_cursor_def)

text \<open>Single-run operation: a run starts only when none is open.\<close>

definition no_open_run :: "CurrentState \<Rightarrow> bool" where
  "no_open_run s \<longleftrightarrow>
     list_all (\<lambda>r. SleepRun.status r \<noteq> SleepRunStatus.Running) (bt_values (sleep_runs s))"

definition serial_sleep :: "CurrentState \<Rightarrow> ExperienceEvent \<Rightarrow> bool" where
  "serial_sleep s e \<longleftrightarrow> (event_kind e = SleepRunStarted \<longrightarrow> no_open_run s)"

definition serial_inv :: "CurrentState \<Rightarrow> bool" where
  "serial_inv s \<longleftrightarrow> open_runs_at_cursor s \<and>
     (\<forall>i j r q. bt_get (sleep_runs s) i = Some r \<longrightarrow> SleepRun.status r = SleepRunStatus.Running \<longrightarrow>
        bt_get (sleep_runs s) j = Some q \<longrightarrow> SleepRun.status q = SleepRunStatus.Running \<longrightarrow> i = j)"

lemma serial_inv_kind:
  assumes inv: "serial_inv s" and step: "apply_kind x s e = Inr t"
    and one: "event_kind e = SleepRunStarted \<Longrightarrow> no_open_run s"
  shows "serial_inv t"
  using step
proof (cases rule: sleep_step)
  case same
  with inv show ?thesis by (simp add: serial_inv_def open_runs_at_cursor_def)
next
  case (started r)
  have "SleepRun.status q \<noteq> SleepRunStatus.Running" if "bt_get (sleep_runs s) i = Some q" for i q
    using one [OF started(1)] bt_get_values [OF that] by (auto simp: no_open_run_def list_all_iff)
  with started show ?thesis
    by (auto simp: serial_inv_def open_runs_at_cursor_def sleep_run_start_ok_def)
next
  case (ended r previous)
  have prev: "SleepRun.status previous = SleepRunStatus.Running"
    using ended(3) by (simp add: sleep_run_end_ok_def)
  have none: "SleepRun.status q \<noteq> SleepRunStatus.Running"
    if "bt_get (sleep_runs t) i = Some q" for i q
  proof (cases "i = SleepRun.id r")
    case True
    with that ended(4) sleep_run_end_status(1) [OF ended(3,1)] show ?thesis by simp
  next
    case False
    with that ended(4) have "bt_get (sleep_runs s) i = Some q" by simp
    with False inv ended(2) prev show ?thesis unfolding serial_inv_def by blast
  qed
  then show ?thesis unfolding serial_inv_def open_runs_at_cursor_def by blast
qed

lemma serial_inv_step:
  assumes "serial_inv s" and "serial_sleep s e" and "apply_event x s e = Inr s'"
  shows "serial_inv s'"
  using assms(3)
proof (cases rule: apply_event_cases)
  case (1 t)
  with serial_inv_kind [OF assms(1) 1(1)] assms(2) show ?thesis
    by (simp add: serial_sleep_def serial_inv_def open_runs_at_cursor_def)
qed

lemma serial_inv_default: "serial_inv default_state"
  by (simp add: serial_inv_def open_runs_at_cursor_def default_state_def)

lemma serial_cursor_forward:
  assumes "serial_inv s" and "guarded (apply_event x) serial_sleep s es"
    and "apply_all x s es = Inr s'"
  shows "serial_inv s' \<and> sleep_cursor s \<le> sleep_cursor s'"
proof (rule ledger.run_guarded [where I = serial_inv and G = serial_sleep
      and R = "\<lambda>s s'. sleep_cursor s \<le> sleep_cursor s'", OF _ _ _ _ assms])
  show "sleep_cursor s \<le> sleep_cursor s'" if "serial_inv s" "apply_event x s e = Inr s'" for s e s'
    using cursor_forward that by (simp add: serial_inv_def)
qed (auto intro: serial_inv_step simp: reflp_def transp_def)

end
