(* ===== verification/CandidateHistory.thy ===== *)
theory CandidateHistory
  imports SleepHistory
begin

text \<open>
  What the projector guarantees about integration candidates: where they come from, that a
  disposition is decided once, with evidence and a verification record, and that only a
  verified candidate is materialised, once.
\<close>

section \<open>Evidence of a verification\<close>

definition integration_evidence_ok ::
  "CurrentState \<Rightarrow> IntegrationCandidate \<Rightarrow> u64 \<Rightarrow> EvidenceRef \<Rightarrow> bool"
where
  "integration_evidence_ok s c as_of ev \<longleftrightarrow>
     valid_sha256_hex (EvidenceRef.source_hash ev) \<and>
     EvidenceRef.as_of_sequence ev \<le> as_of \<and>
     EvidenceRef.event_id ev \<in> set (IntegrationCandidate.source_event_ids c @
       IntegrationCandidate.counterevidence_event_ids c) \<and>
     is_some_and (event_sequence_of s (EvidenceRef.event_id ev))
       (\<lambda>sq. sq \<le> EvidenceRef.as_of_sequence ev \<and> sq \<le> as_of) \<and>
     (case artifact_id ev of
        None \<Rightarrow> True
      | Some aid \<Rightarrow> is_some_and (bt_get (CurrentState.artifacts s) aid)
          (\<lambda>a. provenance_event_id a = EvidenceRef.event_id ev \<and>
               content_hash a = EvidenceRef.source_hash ev))"

lemma validate_integration_evidence_Inr:
  "validate_integration_evidence s c evs as_of k = Inr u \<longleftrightarrow>
     (\<forall>ev \<in> set evs. integration_evidence_ok s c as_of ev)"
proof (induction s c evs as_of k rule: validate_integration_evidence.induct)
  case (2 s c ev evs as_of k)
  then show ?case
    by (cases "artifact_id ev"; cases "event_sequence_of s (EvidenceRef.event_id ev)")
      (auto simp: integration_evidence_ok_def is_some_and_iff res_simps not_less)
qed simp

section \<open>Inversions\<close>

definition candidate_admissible :: "ext \<Rightarrow> CurrentState \<Rightarrow> IntegrationCandidate \<Rightarrow> bool" where
  "candidate_admissible x s c \<longleftrightarrow>
     IntegrationCandidate.disposition c = NeedsValidation \<and>
     \<not> blank (IntegrationCandidate.content c) \<and> \<not> blank (IntegrationCandidate.rationale c) \<and>
     IntegrationCandidate.source_event_ids c \<noteq> [] \<and>
     length (IntegrationCandidate.source_event_ids c) \<le> MAX_CANDIDATE_SOURCES \<and>
     length (IntegrationCandidate.counterevidence_event_ids c) \<le> MAX_CANDIDATE_SOURCES \<and>
     IntegrationCandidate.confidence c \<le> 100 \<and>
     set (IntegrationCandidate.source_event_ids c) \<subseteq> set (applied_events s) \<and>
     set (IntegrationCandidate.counterevidence_event_ids c) \<subseteq> set (applied_events s) \<and>
     set (IntegrationCandidate.source_event_ids c) \<inter>
       set (IntegrationCandidate.counterevidence_event_ids c) = {} \<and>
     is_some_and (bt_get (sleep_runs s) (sleep_run_id c))
       (\<lambda>r. SleepRun.status r = SleepRunStatus.Running \<and>
            IntegrationCandidate.as_of_revision c = high_water_revision r) \<and>
     fingerprint_of_candidate x c = IntegrationCandidate.fingerprint c \<and>
     \<not> (\<exists>d \<in> set (bt_values (integration_candidates s)).
          IntegrationCandidate.fingerprint d = IntegrationCandidate.fingerprint c)"

text \<open>The identifier a creation event carries is not on record yet.\<close>

definition new_candidate_id :: "ext \<Rightarrow> CurrentState \<Rightarrow> ExperienceEvent \<Rightarrow> bool" where
  "new_candidate_id x s e \<longleftrightarrow>
     (event_kind e = IntegrationCandidateCreated \<longrightarrow>
        (case de_integration_candidate x (payload e) of
           Inl _ \<Rightarrow> True
         | Inr c \<Rightarrow> \<not> bt_contains (integration_candidates s) (IntegrationCandidate.id c)))"

lemma candidate_created_Inr:
  assumes "apply_candidate_created x s e = Inr s'"
    and kind: "event_kind e = IntegrationCandidateCreated"
  shows "\<exists>c. candidate_admissible x s c \<and>
     (new_candidate_id x s e \<longrightarrow>
        \<not> bt_contains (integration_candidates s) (IntegrationCandidate.id c)) \<and>
     s' = s\<lparr>integration_candidates :=
             bt_insert (IntegrationCandidate.id c) c (integration_candidates s)\<rparr>"
proof -
  from assms obtain c0 where d: "de_integration_candidate x (payload e) = Inr c0"
    by (auto simp: apply_candidate_created_def Let_def res_simps decode_Inr)
  then obtain r where r: "bt_get (sleep_runs s) (sleep_run_id c0) = Some r"
    using assms by (auto simp: apply_candidate_created_def Let_def res_simps decode_Inr)
  define c where "c = (if IntegrationCandidate.as_of_revision c0 = 0 \<and>
      \<not> has_field x (payload e) ''as_of_revision''
    then c0\<lparr>IntegrationCandidate.as_of_revision := high_water_revision r\<rparr> else c0)"
  have same: "IntegrationCandidate.disposition c = IntegrationCandidate.disposition c0"
    "IntegrationCandidate.content c = IntegrationCandidate.content c0"
    "IntegrationCandidate.rationale c = IntegrationCandidate.rationale c0"
    "IntegrationCandidate.source_event_ids c = IntegrationCandidate.source_event_ids c0"
    "IntegrationCandidate.counterevidence_event_ids c =
       IntegrationCandidate.counterevidence_event_ids c0"
    "IntegrationCandidate.confidence c = IntegrationCandidate.confidence c0"
    "sleep_run_id c = sleep_run_id c0"
    by (simp_all add: c_def)
  have "new_candidate_id x s e \<longrightarrow>
      \<not> bt_contains (integration_candidates s) (IntegrationCandidate.id c)"
    using d kind by (simp add: new_candidate_id_def c_def)
  moreover have "candidate_admissible x s c \<and>
     s' = s\<lparr>integration_candidates :=
             bt_insert (IntegrationCandidate.id c) c (integration_candidates s)\<rparr>"
    using assms(1)
    unfolding apply_candidate_created_def Let_def decode_def d map_err.simps res_bind.simps r
      option.case c_def [symmetric] candidate_admissible_def same
    by (auto simp: res_simps candidate_provenance_bad_def not_less)
  ultimately show ?thesis by blast
qed

definition verification_ok ::
  "ext \<Rightarrow> CurrentState \<Rightarrow> ExperienceEvent \<Rightarrow> IntegrationCandidate \<Rightarrow> VerificationDisposition \<Rightarrow>
   IntegrationVerification \<Rightarrow> bool"
where
  "verification_ok x s e c d v \<longleftrightarrow>
     new_disposition v = d \<and> IntegrationVerification.previous_disposition v = NeedsValidation \<and>
     IntegrationVerification.verification_event_id v = Some (ExperienceEvent.event_id e) \<and>
     IntegrationVerification.actor_id v = ExperienceEvent.actor_id e \<and>
     is_some_and (bt_get (principals s) (ExperienceEvent.actor_id e))
       (\<lambda>p. Principal.kind p \<noteq> Hekate) \<and>
     \<not> blank (IntegrationVerification.reason v) \<and>
     IntegrationVerification.as_of_revision v = IntegrationCandidate.as_of_revision c \<and>
     IntegrationVerification.evidence_refs v \<noteq> [] \<and>
     normalize_evidence_refs (IntegrationVerification.evidence_refs v) =
       IntegrationVerification.evidence_refs v \<and>
     (\<forall>ev \<in> set (IntegrationVerification.evidence_refs v).
        integration_evidence_ok s c (IntegrationVerification.as_of_revision v) ev) \<and>
     is_ok (typed_proposal_ok x c d (event_kind e)) \<and>
     subject_is e EntityKind.IntegrationCandidate (uuid (IntegrationVerification.candidate_id v))"

lemma integration_transition_Inr:
  assumes "apply_integration_transition x s e d = Inr s'"
  shows "\<exists>c v. bt_get (integration_candidates s) (IntegrationVerification.candidate_id v) = Some c \<and>
     IntegrationCandidate.disposition c = NeedsValidation \<and>
     fingerprint_of_candidate x c = IntegrationCandidate.fingerprint c \<and>
     verification_ok x s e c d v \<and>
     s' = s\<lparr>integration_candidates := bt_modify (IntegrationCandidate.id c)
              (\<lambda>b. b\<lparr>IntegrationCandidate.disposition := d\<rparr>) (integration_candidates s),
            integration_verifications := bt_insert (IntegrationVerification.candidate_id v) v
              (integration_verifications s)\<rparr>"
proof -
  from assms obtain w where w: "de_integration_verification x (payload e) = Inr w"
    by (auto simp: apply_integration_transition_def Let_def res_simps decode_Inr)
  then obtain c where c: "bt_get (integration_candidates s) (IntegrationVerification.candidate_id w) = Some c"
    using assms by (auto simp: apply_integration_transition_def Let_def res_simps decode_Inr)
  obtain p where p: "bt_get (principals s) (IntegrationVerification.actor_id w) = Some p"
    using assms w by (cases "bt_get (principals s) (IntegrationVerification.actor_id w)")
      (auto simp: apply_integration_transition_def Let_def res_simps decode_Inr)
  define v where "v = w\<lparr>IntegrationVerification.verification_event_id := Some (ExperienceEvent.event_id e),
      IntegrationVerification.reason := trim (IntegrationVerification.reason w),
      IntegrationVerification.evidence_refs :=
        normalize_evidence_refs (IntegrationVerification.evidence_refs w)\<rparr>"
  have id: "IntegrationVerification.candidate_id v = IntegrationVerification.candidate_id w"
    by (simp add: v_def)
  have "IntegrationCandidate.disposition c = NeedsValidation \<and>
     fingerprint_of_candidate x c = IntegrationCandidate.fingerprint c \<and>
     verification_ok x s e c d v \<and>
     s' = s\<lparr>integration_candidates := bt_modify (IntegrationCandidate.id c)
              (\<lambda>b. b\<lparr>IntegrationCandidate.disposition := d\<rparr>) (integration_candidates s),
            integration_verifications := bt_insert (IntegrationVerification.candidate_id v) v
              (integration_verifications s)\<rparr>"
    using assms
    unfolding apply_integration_transition_def Let_def decode_def w map_err.simps res_bind.simps
      c p option.case
    by (auto simp: res_simps v_def verification_ok_def validate_integration_evidence_Inr
        is_ok_iff p)
  with c id show ?thesis by metis
qed

section \<open>The invariant of candidates and verification records\<close>

definition candidate_ok :: "ext \<Rightarrow> CurrentState \<Rightarrow> IntegrationCandidate \<Rightarrow> bool" where
  "candidate_ok x s c \<longleftrightarrow>
     \<not> blank (IntegrationCandidate.content c) \<and> \<not> blank (IntegrationCandidate.rationale c) \<and>
     IntegrationCandidate.source_event_ids c \<noteq> [] \<and>
     length (IntegrationCandidate.source_event_ids c) \<le> MAX_CANDIDATE_SOURCES \<and>
     length (IntegrationCandidate.counterevidence_event_ids c) \<le> MAX_CANDIDATE_SOURCES \<and>
     IntegrationCandidate.confidence c \<le> 100 \<and>
     set (IntegrationCandidate.source_event_ids c) \<subseteq> set (applied_events s) \<and>
     set (IntegrationCandidate.counterevidence_event_ids c) \<subseteq> set (applied_events s) \<and>
     set (IntegrationCandidate.source_event_ids c) \<inter>
       set (IntegrationCandidate.counterevidence_event_ids c) = {} \<and>
     unat (IntegrationCandidate.as_of_revision c) \<le> length (applied_events s) \<and>
     fingerprint_of_candidate x c = IntegrationCandidate.fingerprint c \<and>
     (IntegrationCandidate.disposition c = VerificationDisposition.Verified \<longrightarrow>
        (IntegrationCandidate.kind c = IntegrationCandidateKind.Position \<longrightarrow>
           is_ok (position_proposal_parse x (IntegrationCandidate.content c))) \<and>
        (IntegrationCandidate.kind c = IntegrationCandidateKind.MemoryRevision \<longrightarrow>
           is_ok (memory_revision_parse x (IntegrationCandidate.content c))))"

definition record_ok :: "EventId list \<Rightarrow> IntegrationCandidate \<Rightarrow> IntegrationVerification \<Rightarrow> bool" where
  "record_ok ledger c v \<longleftrightarrow>
     new_disposition v = IntegrationCandidate.disposition c \<and>
     is_some_and (IntegrationVerification.verification_event_id v) (\<lambda>j. j \<in> set ledger) \<and>
     \<not> blank (IntegrationVerification.reason v) \<and>
     IntegrationVerification.evidence_refs v \<noteq> [] \<and>
     (\<forall>ev \<in> set (IntegrationVerification.evidence_refs v).
        valid_sha256_hex (EvidenceRef.source_hash ev) \<and>
        EvidenceRef.as_of_sequence ev \<le> IntegrationCandidate.as_of_revision c \<and>
        EvidenceRef.event_id ev \<in> set (IntegrationCandidate.source_event_ids c @
          IntegrationCandidate.counterevidence_event_ids c))"

text \<open>A decided candidate has a record of the same decision.\<close>

definition decided_ok :: "CurrentState \<Rightarrow> IntegrationCandidateId \<Rightarrow> IntegrationCandidate \<Rightarrow> bool" where
  "decided_ok s i c \<longleftrightarrow>
     (IntegrationCandidate.disposition c \<noteq> NeedsValidation \<longrightarrow>
        is_some_and (bt_get (integration_verifications s) i) (record_ok (applied_events s) c))"

definition candidates_inv :: "ext \<Rightarrow> CurrentState \<Rightarrow> bool" where
  "candidates_inv x s \<longleftrightarrow>
     bt_wf (integration_candidates s) \<and>
     (\<forall>i c. bt_get (integration_candidates s) i = Some c \<longrightarrow>
        IntegrationCandidate.id c = i \<and> candidate_ok x s c \<and> decided_ok s i c) \<and>
     (\<forall>i j c d. bt_get (integration_candidates s) i = Some c \<longrightarrow>
        bt_get (integration_candidates s) j = Some d \<longrightarrow>
        IntegrationCandidate.fingerprint c = IntegrationCandidate.fingerprint d \<longrightarrow> i = j)"

lemma candidates_step:
  assumes "apply_kind x s e = Inr s'"
  obtains (same) "integration_candidates s' = integration_candidates s"
      and "integration_verifications s' = integration_verifications s"
  | (created) c where "event_kind e = IntegrationCandidateCreated" and "candidate_admissible x s c"
      and "new_candidate_id x s e \<Longrightarrow>
             \<not> bt_contains (integration_candidates s) (IntegrationCandidate.id c)"
      and "s' = s\<lparr>integration_candidates :=
             bt_insert (IntegrationCandidate.id c) c (integration_candidates s)\<rparr>"
  | (decided) c v d where "d \<noteq> NeedsValidation"
      and "bt_get (integration_candidates s) (IntegrationVerification.candidate_id v) = Some c"
      and "IntegrationCandidate.disposition c = NeedsValidation"
      and "fingerprint_of_candidate x c = IntegrationCandidate.fingerprint c"
      and "verification_ok x s e c d v"
      and "s' = s\<lparr>integration_candidates := bt_modify (IntegrationCandidate.id c)
              (\<lambda>b. b\<lparr>IntegrationCandidate.disposition := d\<rparr>) (integration_candidates s),
            integration_verifications := bt_insert (IntegrationVerification.candidate_id v) v
              (integration_verifications s)\<rparr>"
proof (cases "event_kind e \<in>
    {IntegrationCandidateCreated, IntegrationCandidateVerified, IntegrationCandidateRejected}")
  case False
  with candidates_frame [OF assms] integration_verifications_frame [OF assms]
  show ?thesis using same by simp
next
  case True
  then consider "event_kind e = IntegrationCandidateCreated"
    | "apply_integration_transition x s e VerificationDisposition.Verified = Inr s'"
    | "apply_integration_transition x s e VerificationDisposition.Rejected = Inr s'"
    using assms by (auto simp: apply_kind_def)
  then show ?thesis
  proof cases
    case 1
    with assms have "apply_candidate_created x s e = Inr s'" by (simp add: apply_kind_def)
    from candidate_created_Inr [OF this 1] show ?thesis using created [OF 1] by blast
  next
    case 2
    from integration_transition_Inr [OF 2] show ?thesis
      using decided [of VerificationDisposition.Verified] by blast
  next
    case 3
    from integration_transition_Inr [OF 3] show ?thesis
      using decided [of VerificationDisposition.Rejected] by blast
  qed
qed

lemma candidate_ok_mono:
  "candidate_ok x s c \<Longrightarrow> applied_events s' = applied_events s @ later \<Longrightarrow> candidate_ok x s' c"
  by (auto simp: candidate_ok_def)

lemma candidate_admissible_ok:
  assumes adm: "candidate_admissible x s c" and inv: "sleep_inv s"
  shows "candidate_ok x s c"
proof -
  from adm obtain r where r: "bt_get (sleep_runs s) (sleep_run_id c) = Some r"
    and as_of: "IntegrationCandidate.as_of_revision c = high_water_revision r"
    by (auto simp: candidate_admissible_def is_some_and_iff)
  with inv have "unat (IntegrationCandidate.as_of_revision c) \<le> length (applied_events s)"
    by (simp add: sleep_inv_def sleep_run_ok_def)
  with adm show ?thesis
    unfolding candidate_admissible_def candidate_ok_def by simp
qed

lemma decided_candidate_ok:
  assumes "candidate_ok x s c" and "verification_ok x s e c d v"
  shows "candidate_ok x s (c\<lparr>IntegrationCandidate.disposition := d\<rparr>)"
proof -
  have "typed_proposal_ok x c d (event_kind e) = Inr ()"
    using assms(2) by (auto simp: verification_ok_def is_ok_iff)
  then show ?thesis
    using assms(1)
    by (auto simp: candidate_ok_def typed_proposal_ok_def fingerprint_of_candidate_def invalid_def
        split: if_splits)
qed

lemma decided_record_ok:
  "verification_ok x s e c d v \<Longrightarrow>
     record_ok (applied_events s @ [ExperienceEvent.event_id e])
       (c\<lparr>IntegrationCandidate.disposition := d\<rparr>) v"
  by (auto simp: verification_ok_def record_ok_def integration_evidence_ok_def)

lemma record_ok_mono: "record_ok ledger c v \<Longrightarrow> record_ok (ledger @ later) c v"
  by (auto simp: record_ok_def is_some_and_iff)

lemma candidates_inv_step:
  assumes sleep: "sleep_inv s" and inv: "candidates_inv x s" and step: "apply_event x s e = Inr s'"
  shows "candidates_inv x s'"
  using step
proof (cases rule: apply_event_cases)
  case (1 t)
  have led: "applied_events s' = applied_events s @ [ExperienceEvent.event_id e]"
    and eq: "integration_candidates s' = integration_candidates t"
      "integration_verifications s' = integration_verifications t"
    using 1(2) by simp_all
  have old: "IntegrationCandidate.id c = i \<and> candidate_ok x s c \<and> decided_ok s i c"
    if "bt_get (integration_candidates s) i = Some c" for i c
    using that inv unfolding candidates_inv_def by blast
  have fps: "\<forall>i j c d. bt_get (integration_candidates s) i = Some c \<longrightarrow>
        bt_get (integration_candidates s) j = Some d \<longrightarrow>
        IntegrationCandidate.fingerprint c = IntegrationCandidate.fingerprint d \<longrightarrow> i = j"
    and wf: "bt_wf (integration_candidates s)"
    using inv unfolding candidates_inv_def by blast+
  have kept: "IntegrationCandidate.id c = i \<and> candidate_ok x s' c \<and> decided_ok s' i c"
    if "bt_get (integration_candidates s) i = Some c"
      and "bt_get (integration_verifications s') i = bt_get (integration_verifications s) i" for i c
    using old [OF that(1)] candidate_ok_mono [OF _ led] that(2) record_ok_mono
    by (auto simp: decided_ok_def led is_some_and_iff)
  from 1(1) show ?thesis
  proof (cases rule: candidates_step)
    case same
    with eq have eq': "integration_candidates s' = integration_candidates s"
      "integration_verifications s' = integration_verifications s" by simp_all
    have "IntegrationCandidate.id c = i \<and> candidate_ok x s' c \<and> decided_ok s' i c"
      if "bt_get (integration_candidates s) i = Some c" for i c
      using kept [OF that] by (simp add: eq'(2))
    with wf fps show ?thesis
      unfolding candidates_inv_def eq'(1) by blast
  next
    case (created c)
    then have eq': "integration_candidates s' =
        bt_insert (IntegrationCandidate.id c) c (integration_candidates s)"
      "integration_verifications s' = integration_verifications s"
      using eq by simp_all
    have new: "candidate_ok x s' c \<and> decided_ok s' i c" for i
      using candidate_ok_mono [OF candidate_admissible_ok [OF created(2) sleep] led] created(2)
      by (simp add: decided_ok_def candidate_admissible_def)
    have all: "IntegrationCandidate.id b = i \<and> candidate_ok x s' b \<and> decided_ok s' i b"
      if "bt_get (integration_candidates s') i = Some b" for i b
      using that new kept [of i b] by (cases "i = IntegrationCandidate.id c") (simp_all add: eq')
    have "\<not> (\<exists>d \<in> set (bt_values (integration_candidates s)).
        IntegrationCandidate.fingerprint d = IntegrationCandidate.fingerprint c)"
      using created(2) unfolding candidate_admissible_def by (elim conjE)
    note inj = bt.insert_fresh_inj [OF wf fps this, of "IntegrationCandidate.id c", folded eq'(1)]
    have "bt_wf (integration_candidates s')" by (simp add: eq' wf)
    with all inj show ?thesis unfolding candidates_inv_def by blast
  next
    case (decided c v d)
    let ?i = "IntegrationVerification.candidate_id v"
    let ?set = "\<lambda>b. b\<lparr>IntegrationCandidate.disposition := d\<rparr>"
    have id: "IntegrationCandidate.id c = ?i" using old [OF decided(2)] by simp
    then have eq': "integration_candidates s' = bt_modify ?i ?set (integration_candidates s)"
      "integration_verifications s' = bt_insert ?i v (integration_verifications s)"
      using eq decided(6) by simp_all
    have "candidate_ok x s' (?set c)"
      using candidate_ok_mono [OF decided_candidate_ok led] old [OF decided(2)] decided(5) by blast
    moreover have "decided_ok s' ?i (?set c)"
      using decided_record_ok [OF decided(5)] by (simp add: decided_ok_def eq' led)
    ultimately have all: "IntegrationCandidate.id b = i \<and> candidate_ok x s' b \<and> decided_ok s' i b"
      if "bt_get (integration_candidates s') i = Some b" for i b
      using that decided(2) id kept [of i b] by (cases "i = ?i") (auto simp: eq')
    have pre: "\<exists>a. bt_get (integration_candidates s) i = Some a \<and>
        IntegrationCandidate.fingerprint a = IntegrationCandidate.fingerprint b"
      if "bt_get (integration_candidates s') i = Some b" for i b
      using that by (auto simp: eq' split: if_splits)
    have "i = j" if "bt_get (integration_candidates s') i = Some a"
      and "bt_get (integration_candidates s') j = Some b"
      and "IntegrationCandidate.fingerprint a = IntegrationCandidate.fingerprint b" for i j a b
      using pre [OF that(1)] pre [OF that(2)] that(3) fps by metis
    moreover have "bt_wf (integration_candidates s')" by (simp add: eq' wf)
    ultimately show ?thesis
      unfolding candidates_inv_def using all by blast
  qed
qed

lemma candidates_inv_default: "candidates_inv x default_state"
  by (simp add: candidates_inv_def default_state_def)

lemma candidates_inv_replay: "replay x es = Inr s \<Longrightarrow> sleep_inv s \<and> candidates_inv x s"
  unfolding replay_def
  by (rule ledger.run_invariant [where I = "\<lambda>s. sleep_inv s \<and> candidates_inv x s"])
    (auto intro: candidates_inv_step candidates_inv_default sleep_inv_step sleep_inv_default)

end
