(* ===== verification/MaterializationHistory.thy ===== *)
theory MaterializationHistory
  imports CandidateHistory
begin

text \<open>
  Decisions on integration candidates are final and materialisation happens at most once, in
  one of its three forms, as long as creation events do not reuse the identifier of a recorded
  candidate. The projector does not check that itself: it is the guard \<open>new_candidate_id\<close>.
\<close>

section \<open>Inversions\<close>

text \<open>The record a materialisation adds, and the candidate that entitles it.\<close>

definition entitled ::
  "CurrentState \<Rightarrow> IntegrationCandidateKind \<Rightarrow> IntegrationCandidateId \<Rightarrow> bool"
where
  "entitled s k i \<longleftrightarrow> is_some_and (bt_get (integration_candidates s) i)
     (\<lambda>c. IntegrationCandidate.disposition c = VerificationDisposition.Verified \<and>
          IntegrationCandidate.kind c = k)"

lemma memory_materialized_Inr:
  assumes "apply_integration_materialization x s e = Inr s'"
  shows "\<exists>i m. entitled s IntegrationCandidateKind.Memory i \<and>
     \<not> bt_contains (integration_materializations s) i \<and>
     IntegrationMaterialization.candidate_id m = i \<and>
     is_some_and (bt_get (active_memories s) (memory_id m))
       (\<lambda>a. ActiveMemory.status a = ActiveMemoryStatus.Active) \<and>
     s' = s\<lparr>integration_materializations := bt_insert i m (integration_materializations s)\<rparr>"
proof -
  from assms obtain w where w: "de_integration_materialization x (payload e) = Inr w"
    by (auto simp: apply_integration_materialization_def Let_def res_simps decode_Inr)
  let ?m = "w\<lparr>IntegrationMaterialization.evidence_refs :=
      normalize_evidence_refs (IntegrationMaterialization.evidence_refs w)\<rparr>"
  have "entitled s IntegrationCandidateKind.Memory (IntegrationMaterialization.candidate_id w) \<and>
     \<not> bt_contains (integration_materializations s) (IntegrationMaterialization.candidate_id w) \<and>
     is_some_and (bt_get (active_memories s) (memory_id w))
       (\<lambda>a. ActiveMemory.status a = ActiveMemoryStatus.Active) \<and>
     s' = s\<lparr>integration_materializations := bt_insert (IntegrationMaterialization.candidate_id w) ?m
       (integration_materializations s)\<rparr>"
    using assms unfolding apply_integration_materialization_def Let_def decode_def w
      map_err.simps res_bind.simps
    by (auto simp: res_simps entitled_def)
  then show ?thesis
    by (intro exI [of _ "IntegrationMaterialization.candidate_id w"] exI [of _ ?m]) simp
qed

lemma memory_revision_Inr:
  assumes "apply_memory_revision_materialization x s e = Inr s'"
  shows "\<exists>i m. entitled s IntegrationCandidateKind.MemoryRevision i \<and>
     \<not> bt_contains (memory_revision_materializations s) i \<and>
     MemoryRevisionMaterialization.candidate_id m = i \<and>
     (\<forall>w. de_memory_revision_materialization x (payload e) = Inr w \<longrightarrow>
        MemoryRevisionMaterialization.target_memory_id w =
        MemoryRevisionMaterialization.target_memory_id m) \<and>
     bt_contains (principals s) (ExperienceEvent.actor_id e) \<and>
     \<not> is_model_actor s (ExperienceEvent.actor_id e) \<and>
     is_some_and (bt_get (active_memories s) (MemoryRevisionMaterialization.target_memory_id m))
       (\<lambda>a. ActiveMemory.kind a \<noteq> ExplicitPreference \<and>
            ActiveMemory.status a \<noteq> ActiveMemoryStatus.Active) \<and>
     s' = s\<lparr>memory_revision_materializations :=
             bt_insert i m (memory_revision_materializations s)\<rparr>"
proof -
  from assms obtain w where w: "de_memory_revision_materialization x (payload e) = Inr w"
    by (auto simp: apply_memory_revision_materialization_def Let_def res_simps decode_Inr)
  let ?m = "w\<lparr>MemoryRevisionMaterialization.evidence_refs :=
      normalize_evidence_refs (MemoryRevisionMaterialization.evidence_refs w)\<rparr>"
  have gone: "ActiveMemory.status tgt \<noteq> ActiveMemoryStatus.Active"
    if "memory_revision_done s w op tgt k = Inr u" for op tgt k u
    using that by (cases "MemoryRevisionMaterialization.action w"; cases op)
      (auto simp: memory_revision_done_def Let_def res_simps)
  have "entitled s IntegrationCandidateKind.MemoryRevision (MemoryRevisionMaterialization.candidate_id w) \<and>
     \<not> bt_contains (memory_revision_materializations s) (MemoryRevisionMaterialization.candidate_id w) \<and>
     bt_contains (principals s) (ExperienceEvent.actor_id e) \<and>
     \<not> is_model_actor s (ExperienceEvent.actor_id e) \<and>
     is_some_and (bt_get (active_memories s) (MemoryRevisionMaterialization.target_memory_id w))
       (\<lambda>a. ActiveMemory.kind a \<noteq> ExplicitPreference \<and>
            ActiveMemory.status a \<noteq> ActiveMemoryStatus.Active) \<and>
     s' = s\<lparr>memory_revision_materializations :=
       bt_insert (MemoryRevisionMaterialization.candidate_id w) ?m (memory_revision_materializations s)\<rparr>"
    using assms unfolding apply_memory_revision_materialization_def Let_def decode_def w
      map_err.simps res_bind.simps
    by (auto simp: res_simps entitled_def memory_revision_matches_candidate_def dest: gone)
  then show ?thesis
    by (intro exI [of _ "MemoryRevisionMaterialization.candidate_id w"] exI [of _ ?m]) (simp add: w)
qed

lemma position_provenance_Inr:
  "position_materialization_provenance x s e p m k = Inr c \<Longrightarrow>
     bt_get (integration_candidates s) (PositionIntegrationMaterialization.candidate_id m) = Some c \<and>
     entitled s IntegrationCandidateKind.Position (PositionIntegrationMaterialization.candidate_id m) \<and>
     \<not> bt_contains (position_integration_materializations s)
         (PositionIntegrationMaterialization.candidate_id m) \<and>
     bt_contains (principals s) (ExperienceEvent.actor_id e) \<and>
     \<not> is_model_actor s (ExperienceEvent.actor_id e) \<and>
     is_some_and (bt_get (principals s) (Position.principal_id p)) (\<lambda>q. Principal.kind q = Hekate)"
  by (auto simp: position_materialization_provenance_def Let_def res_simps entitled_def)

section \<open>Materialisation steps\<close>

text \<open>A map that a step leaves alone or extends by one new, entitled record.\<close>

definition adds_entitled ::
  "CurrentState \<Rightarrow> IntegrationCandidateKind \<Rightarrow> (IntegrationCandidateId, 'v) btree \<Rightarrow>
   (IntegrationCandidateId, 'v) btree \<Rightarrow> bool"
where
  "adds_entitled s k m n \<longleftrightarrow>
     n = m \<or> (\<exists>i v. n = bt_insert i v m \<and> \<not> bt_contains m i \<and> entitled s k i)"

lemma adds_entitledI:
  "entitled s k i \<Longrightarrow> \<not> bt_contains m i \<Longrightarrow> adds_entitled s k m (bt_insert i v m)"
  by (auto simp: adds_entitled_def)

lemma memory_step:
  assumes "apply_kind x s e = Inr t"
  shows "adds_entitled s IntegrationCandidateKind.Memory (integration_materializations s)
    (integration_materializations t)"
proof (cases "event_kind e = IntegrationCandidateMaterialized")
  case True
  with assms have "apply_integration_materialization x s e = Inr t" by (simp add: apply_kind_def)
  from memory_materialized_Inr [OF this] show ?thesis by (auto intro: adds_entitledI)
next
  case False
  with materializations_frame [OF assms] show ?thesis by (simp add: adds_entitled_def)
qed

lemma revision_step:
  assumes "apply_kind x s e = Inr t"
  shows "adds_entitled s IntegrationCandidateKind.MemoryRevision
    (memory_revision_materializations s) (memory_revision_materializations t)"
proof (cases "event_kind e = MemoryRevisionMaterialized")
  case True
  with assms have "apply_memory_revision_materialization x s e = Inr t" by (simp add: apply_kind_def)
  from memory_revision_Inr [OF this] show ?thesis by (auto intro: adds_entitledI)
next
  case False
  with memory_revisions_frame [OF assms] show ?thesis by (simp add: adds_entitled_def)
qed

lemma legacy_position_event:
  assumes "apply_position_event x s e = Inr t"
    and "\<not> has_field x (payload e) ''position_integration''"
  shows "\<exists>ps. t = s\<lparr>CurrentState.positions := ps\<rparr>"
  using assms by (cases "event_kind e") (auto simp: apply_position_event_def res_simps)

lemma position_step:
  assumes "apply_kind x s e = Inr t"
  shows "adds_entitled s IntegrationCandidateKind.Position
    (position_integration_materializations s) (position_integration_materializations t)"
proof (cases "event_kind e \<in> {PositionEstablished, PositionMaintained, PositionRecorded,
    PositionRevised, PositionRetracted}")
  case False
  with positions_frame [OF assms] show ?thesis by (simp add: adds_entitled_def)
next
  case True
  with assms have ev: "apply_position_event x s e = Inr t" by (auto simp: apply_kind_def)
  show ?thesis
  proof (cases "has_field x (payload e) ''position_integration''")
    case False
    from legacy_position_event [OF ev False] show ?thesis by (auto simp: adds_entitled_def)
  next
    case True
    with ev obtain ie where ie: "apply_position_integration x s e ie = Inr t"
      by (auto simp: apply_position_event_def res_simps)
    obtain c where "position_materialization_provenance x s e (PositionIntegrationEventPayload.position ie)
        (position_integration ie) (event_kind e) = Inr c"
      using ie by (auto simp: apply_position_integration_def Let_def res_simps)
    from position_provenance_Inr [OF this] position_integration_Inr [OF ie] show ?thesis
      by (auto intro: adds_entitledI)
  qed
qed

lemma adds_entitled_grows: "adds_entitled s k m n \<Longrightarrow> bt_rel (=) m n"
  by (auto simp: adds_entitled_def bt_rel_def bt_contains_def)

section \<open>Once decided, once materialised\<close>

definition decides_to :: "IntegrationCandidate \<Rightarrow> IntegrationCandidate \<Rightarrow> bool" where
  "decides_to c c' \<longleftrightarrow>
     c' = c\<lparr>IntegrationCandidate.disposition := IntegrationCandidate.disposition c'\<rparr> \<and>
     (IntegrationCandidate.disposition c \<noteq> NeedsValidation \<longrightarrow>
        IntegrationCandidate.disposition c' = IntegrationCandidate.disposition c)"

lemma decides_to_order: "reflp decides_to" "transp decides_to"
proof -
  show "reflp decides_to" by (simp add: reflp_def decides_to_def)
  have "decides_to a c" if "decides_to a b" "decides_to b c" for a b c
    using that unfolding decides_to_def by (cases a; cases b; cases c) simp
  then show "transp decides_to" by (blast intro: transpI)
qed

lemma decides_to_decided:
  "decides_to c c' \<Longrightarrow> IntegrationCandidate.disposition c \<noteq> NeedsValidation \<Longrightarrow> c' = c"
  unfolding decides_to_def by (cases c; cases c') simp

abbreviation decided_at :: "CurrentState \<Rightarrow> IntegrationCandidateId \<Rightarrow> bool" where
  "decided_at s i \<equiv> is_some_and (bt_get (integration_candidates s) i)
     (\<lambda>c. IntegrationCandidate.disposition c \<noteq> NeedsValidation)"

definition once_inv :: "ext \<Rightarrow> CurrentState \<Rightarrow> bool" where
  "once_inv x s \<longleftrightarrow>
     sleep_inv s \<and> candidates_inv x s \<and>
     (\<forall>i. bt_contains (integration_verifications s) i \<longrightarrow> decided_at s i) \<and>
     (\<forall>i. bt_contains (integration_materializations s) i \<longrightarrow>
        entitled s IntegrationCandidateKind.Memory i) \<and>
     (\<forall>i. bt_contains (memory_revision_materializations s) i \<longrightarrow>
        entitled s IntegrationCandidateKind.MemoryRevision i) \<and>
     (\<forall>i. bt_contains (position_integration_materializations s) i \<longrightarrow>
        entitled s IntegrationCandidateKind.Position i)"

text \<open>Everything the integration part of the projection may do to its records.\<close>

definition integration_extend :: "CurrentState \<Rightarrow> CurrentState \<Rightarrow> bool" where
  "integration_extend s s' \<longleftrightarrow>
     bt_rel decides_to (integration_candidates s) (integration_candidates s') \<and>
     bt_rel (=) (integration_verifications s) (integration_verifications s') \<and>
     bt_rel (=) (integration_materializations s) (integration_materializations s') \<and>
     bt_rel (=) (memory_revision_materializations s) (memory_revision_materializations s') \<and>
     bt_rel (=) (position_integration_materializations s) (position_integration_materializations s')"

lemma eq_order: "reflp (=)" "transp (=)"
  by (simp_all add: reflp_def transp_def)

lemma integration_extend_order: "reflp integration_extend" "transp integration_extend"
proof -
  show "reflp integration_extend"
    unfolding integration_extend_def
    by (intro reflpI conjI bt_rel_refl decides_to_order eq_order)
  show "transp integration_extend"
    unfolding integration_extend_def
    by (rule transpI) (blast intro: bt_rel_trans decides_to_order eq_order)
qed

lemma integration_step:
  assumes inv: "candidates_inv x s" and new: "new_candidate_id x s e"
    and step: "apply_kind x s e = Inr t"
    and rec: "\<And>i. bt_contains (integration_verifications s) i \<Longrightarrow> decided_at s i"
  shows "bt_rel decides_to (integration_candidates s) (integration_candidates t) \<and>
    bt_rel (=) (integration_verifications s) (integration_verifications t) \<and>
    (\<forall>i. bt_contains (integration_verifications t) i \<longrightarrow> decided_at t i)"
  using step
proof (cases rule: candidates_step)
  case same
  then show ?thesis using rec by (simp add: bt_rel_refl decides_to_order eq_order)
next
  case (created c)
  note fresh = created(3) [OF new]
  have "decided_at t i" if "bt_contains (integration_verifications t) i" for i
    using rec [of i] that fresh created(4) by (auto simp: bt_contains_def)
  with created(4) fresh show ?thesis
    by (auto intro!: bt_rel_insert_fresh bt_rel_refl decides_to_order eq_order)
next
  case (decided c v d)
  have id: "IntegrationCandidate.id c = IntegrationVerification.candidate_id v"
    using inv decided(2) unfolding candidates_inv_def by blast
  have "\<not> bt_contains (integration_verifications s) (IntegrationVerification.candidate_id v)"
    using rec decided(2,3) by fastforce
  moreover have "decided_at t i" if "bt_contains (integration_verifications t) i" for i
    using rec [of i] that decided(1,2,6) id by (auto simp: is_some_and_iff)
  moreover have "bt_rel decides_to (integration_candidates s) (integration_candidates t)"
    using decided(2,3,6) id by (auto intro!: bt_rel_modify decides_to_order simp: decides_to_def)
  ultimately show ?thesis
    using decided(6) by (auto intro!: bt_rel_insert_fresh eq_order)
qed

lemma entitled_stays:
  assumes "bt_rel decides_to (integration_candidates s) (integration_candidates t)"
    and "entitled s k i"
  shows "entitled t k i"
proof -
  from assms(2) obtain c where c: "bt_get (integration_candidates s) i = Some c"
    "IntegrationCandidate.disposition c = VerificationDisposition.Verified"
    by (auto simp: entitled_def is_some_and_iff)
  from bt_relD [OF assms(1) c(1)] obtain c' where "bt_get (integration_candidates t) i = Some c'"
    and "decides_to c c'" by blast
  with decides_to_decided [of c c'] c assms(2) show ?thesis by (simp add: entitled_def)
qed

lemma adds_entitled_all:
  assumes "adds_entitled s k m n" and "\<forall>i. bt_contains m i \<longrightarrow> entitled s k i"
    and "bt_rel decides_to (integration_candidates s) (integration_candidates t)"
  shows "\<forall>i. bt_contains n i \<longrightarrow> entitled t k i"
  using assms entitled_stays [OF assms(3)] by (auto simp: adds_entitled_def)

lemma once_step:
  assumes inv: "once_inv x s" and new: "new_candidate_id x s e" and step: "apply_event x s e = Inr s'"
  shows "once_inv x s' \<and> integration_extend s s'"
  using step
proof (cases rule: apply_event_cases)
  case (1 t)
  have eq: "integration_candidates s' = integration_candidates t"
    "integration_verifications s' = integration_verifications t"
    "integration_materializations s' = integration_materializations t"
    "memory_revision_materializations s' = memory_revision_materializations t"
    "position_integration_materializations s' = position_integration_materializations t"
    using 1(2) by simp_all
  have upd: "bt_rel decides_to (integration_candidates s) (integration_candidates t) \<and>
    bt_rel (=) (integration_verifications s) (integration_verifications t) \<and>
    (\<forall>i. bt_contains (integration_verifications t) i \<longrightarrow> decided_at t i)"
    by (rule integration_step [OF _ new 1(1)]) (use inv in \<open>auto simp: once_inv_def\<close>)
  note steps = memory_step [OF 1(1)] revision_step [OF 1(1)] position_step [OF 1(1)]
  have "integration_extend s s'"
    using upd adds_entitled_grows [OF steps(1)] adds_entitled_grows [OF steps(2)]
      adds_entitled_grows [OF steps(3)] by (simp add: integration_extend_def eq)
  moreover have "entitled s' = entitled t"
    by (intro ext) (simp add: entitled_def eq)
  then have "once_inv x s'"
    using inv upd adds_entitled_all [OF steps(1), of t] adds_entitled_all [OF steps(2), of t]
      adds_entitled_all [OF steps(3), of t] candidates_inv_step [OF _ _ step]
      sleep_inv_step [OF _ step]
    by (simp add: once_inv_def eq)
  ultimately show ?thesis by blast
qed

lemma once_inv_default: "once_inv x default_state"
  by (simp add: once_inv_def sleep_inv_default candidates_inv_default)
    (simp add: default_state_def bt_contains_def)

lemma once_run:
  assumes "once_inv x s" and "guarded (apply_event x) (new_candidate_id x) s es"
    and "apply_all x s es = Inr s'"
  shows "once_inv x s' \<and> integration_extend s s'"
  by (rule ledger.run_guarded [where I = "once_inv x" and G = "new_candidate_id x",
        OF _ _ integration_extend_order assms])
    (auto dest: once_step)

end
