(* ===== verification/Recovery.thy ===== *)
theory Recovery
  imports Store MaterializationHistory
begin

text \<open>
  Start-up recovery (\<open>src/runtime/recovery.rs\<close>) and what the commit path keeps true of the
  database: its rows decode to a ledger whose replay is the stored projection, so recovery
  accepts every database that commits have produced.
\<close>

section \<open>Recovery\<close>

record RecoveryReport =
  revision :: u64
  active_runs :: "RunId list"
  pending_approvals :: "ApprovalId list"
  incomplete_attempts :: "AttemptId list"
  unknown_operations :: "OperationId list"
  projection_verified :: bool

datatype RecoveryError =
    Storage StorageError
  | Projection ProjectionError
  | RevisionMismatch u64 u64
  | ProjectionMismatch

definition recovery_report :: "CurrentState \<Rightarrow> RecoveryReport" where
  "recovery_report s =
     \<lparr>RecoveryReport.revision = CurrentState.revision s,
      active_runs = map Run.id (filter (\<lambda>r. Run.status r \<in> {RunStatus.Pending, RunStatus.Running,
          RunStatus.Suspended, RunStatus.NeedsAttention}) (bt_values (runs s))),
      pending_approvals = map Approval.id
        (filter (\<lambda>a. Approval.status a = ApprovalStatus.Pending) (bt_values (approvals s))),
      incomplete_attempts = map Attempt.id
        (filter (\<lambda>a. Attempt.status a = AttemptStatus.Started) (bt_values (attempts s))),
      unknown_operations = map Operation.id
        (filter (\<lambda>p. Operation.status p \<in> {OperationStatus.Started, OperationStatus.Unknown})
          (bt_values (operations s))),
      projection_verified = True\<rparr>"

definition recover :: "ext \<Rightarrow> codec \<Rightarrow> Db \<Rightarrow> RecoveryError + RecoveryReport" where
  "recover x c db =
     res_bind (map_err RecoveryError.Storage (load_state x c db)) (\<lambda>s.
     res_bind (map_err RecoveryError.Storage (load_events x c db)) (\<lambda>es.
     res_bind (map_err Projection (replay x es)) (\<lambda>replayed.
     if CurrentState.revision replayed \<noteq> CurrentState.revision s
     then Inl (RevisionMismatch (CurrentState.revision s) (CurrentState.revision replayed))
     else if s \<noteq> replayed then Inl ProjectionMismatch
     else Inr (recovery_report s))))"

section \<open>Rows and snapshots read back\<close>

text \<open>
  What the third-party codecs must do at one event: the text of each identifier parses to it,
  an enumeration's text in quotes parses to it, the payload's text parses to it and the
  \<open>REAL\<close> column gives the confidence back.
\<close>

definition codec_reads_event :: "ext \<Rightarrow> codec \<Rightarrow> ExperienceEvent \<Rightarrow> bool" where
  "codec_reads_event x c e \<longleftrightarrow>
     uuid_parse c (id_text x (ExperienceEvent.event_id e)) = Inr (uuid (ExperienceEvent.event_id e)) \<and>
     uuid_parse c (id_text x (ExperienceEvent.actor_id e)) = Inr (uuid (ExperienceEvent.actor_id e)) \<and>
     (case ExperienceEvent.subject e of
        None \<Rightarrow> True
      | Some r \<Rightarrow> uuid_parse c (uuid_text x (EntityRef.id r)) = Inr (EntityRef.id r) \<and>
          entity_from_str c ([CHR 0x22] @ entity_kind_text c (EntityRef.kind r) @ [CHR 0x22]) =
            Inr (EntityRef.kind r)) \<and>
     (case causation_id e of None \<Rightarrow> True | Some i \<Rightarrow> uuid_parse c (id_text x i) = Inr (uuid i)) \<and>
     kind_from_str c ([CHR 0x22] @ event_kind_text c (event_kind e) @ [CHR 0x22]) =
       Inr (event_kind e) \<and>
     (case value_to_string c (payload e) of
        Inl _ \<Rightarrow> True | Inr t \<Rightarrow> value_from_str c t = Inr (payload e)) \<and>
     (case ExperienceEvent.confidence e of None \<Rightarrow> True | Some f \<Rightarrow> sql_real c f = Some f)"

text \<open>A projection's text is a JSON object that is not empty and parses to it.\<close>

definition codec_reads_state :: "codec \<Rightarrow> CurrentState \<Rightarrow> bool" where
  "codec_reads_state c s \<longleftrightarrow>
     (case state_to_string c s of
        Inl _ \<Rightarrow> True
      | Inr t \<Rightarrow> state_from_str c t = Inr s \<and> trim t \<noteq> [] \<and> trim t \<noteq> ''{}'')"

lemma id_collapse [simp]: "from_uuid (uuid i) = i"
  by (cases i) simp

lemma row_roundtrip:
  assumes "codec_reads_event x c e" and "row_of_event x c e = Inr r"
  shows "event_from_row c r = Inr e"
proof -
  from assms(2) obtain pl where pl: "value_to_string c (payload e) = Inr pl"
    by (auto simp: row_of_event_def res_simps)
  have subj: "(case (map_option (\<lambda>r. entity_kind_text c (EntityRef.kind r)) (ExperienceEvent.subject e),
         map_option (\<lambda>r. uuid_text x (EntityRef.id r)) (ExperienceEvent.subject e)) of
          (Some sk, Some si) \<Rightarrow>
            res_bind (parse_entity_kind c sk) (\<lambda>ek.
            res_bind (map_err Backend (uuid_parse c si)) (\<lambda>u.
            Inr (Some \<lparr>EntityRef.kind = ek, id = u\<rparr>)))
        | (None, None) \<Rightarrow> Inr None
        | _ \<Rightarrow> Inl (Backend ''event subject is incomplete'')) = Inr (ExperienceEvent.subject e)"
    using assms(1) by (cases "ExperienceEvent.subject e")
      (simp_all add: codec_reads_event_def parse_entity_kind_def)
  have caus: "parse_optional_id c (map_option (id_text x) (causation_id e)) = Inr (causation_id e)"
    using assms(1) by (cases "causation_id e")
      (simp_all add: codec_reads_event_def parse_optional_id_def parse_id_def)
  have conf: "Option.bind (ExperienceEvent.confidence e) (sql_real c) = ExperienceEvent.confidence e"
    using assms(1) by (cases "ExperienceEvent.confidence e") (simp_all add: codec_reads_event_def)
  have ids: "parse_id c (id_text x (ExperienceEvent.event_id e)) = Inr (ExperienceEvent.event_id e)"
    "parse_id c (id_text x (ExperienceEvent.actor_id e)) = Inr (ExperienceEvent.actor_id e)"
    "parse_event_kind c (event_kind_text c (event_kind e)) = Inr (event_kind e)"
    "value_from_str c pl = Inr (payload e)"
    using assms(1) pl by (simp_all add: codec_reads_event_def parse_id_def parse_event_kind_def)
  have r: "r = \<lparr>col_event_id = id_text x (ExperienceEvent.event_id e),
          col_occurred_at = occurred_at e,
          col_recorded_at = ExperienceEvent.recorded_at e,
          col_kind = event_kind_text c (event_kind e),
          col_actor_id = id_text x (ExperienceEvent.actor_id e),
          col_subject_kind =
            map_option (\<lambda>r. entity_kind_text c (EntityRef.kind r)) (ExperienceEvent.subject e),
          col_subject_id =
            map_option (\<lambda>r. uuid_text x (EntityRef.id r)) (ExperienceEvent.subject e),
          col_payload = pl,
          col_source_type = EventSource.source_type (source e),
          col_source_ref = EventSource.source_ref (source e),
          col_causation_id = map_option (id_text x) (causation_id e),
          col_correlation_id = correlation_id e,
          col_confidence = Option.bind (ExperienceEvent.confidence e) (sql_real c),
          col_integrity_hash = integrity_hash e\<rparr>"
    using assms(2) pl by (simp add: row_of_event_def)
  show ?thesis
    unfolding event_from_row_def r EventRow.simps subj caus conf
    by (simp add: ids)
qed

lemma revision_of_small:
  assumes "n < 2 ^ 63"
  shows "revision_of_i64 (of_nat n) = of_nat n"
proof -
  have "sint (of_nat n :: 64 word) = signed_take_bit 63 (int n)"
    using sint_sbintrunc' [where ?'a = 64, of "int n"] by simp
  also have "\<dots> = int n"
    using assms by (intro signed_take_bit_int_eq_self) auto
  finally show ?thesis by (simp add: revision_of_i64_def)
qed

section \<open>Candidates stay anchored to their run's window\<close>

definition anchored :: "CurrentState \<Rightarrow> bool" where
  "anchored s \<longleftrightarrow> bt_wf (integration_candidates s) \<and>
     (\<forall>i c. bt_get (integration_candidates s) i = Some c \<longrightarrow>
        is_some_and (bt_get (sleep_runs s) (sleep_run_id c))
          (\<lambda>r. high_water_revision r = IntegrationCandidate.as_of_revision c))"

lemma anchored_step:
  assumes sleep: "sleep_inv s" and inv: "anchored s" and step: "apply_event x s e = Inr s'"
  shows "anchored s'"
proof -
  have ext: "sleep_extend s s'" by (rule sleep_extend_step [OF sleep step])
  have keep: "is_some_and (bt_get (sleep_runs s') j) (\<lambda>r. high_water_revision r = a)"
    if "is_some_and (bt_get (sleep_runs s) j) (\<lambda>r. high_water_revision r = a)" for j a
    using that bt_relD [OF ext] by (fastforce simp: is_some_and_iff run_ends_to_def)
  have old: "is_some_and (bt_get (sleep_runs s) (sleep_run_id c))
      (\<lambda>r. high_water_revision r = IntegrationCandidate.as_of_revision c)"
    if "bt_get (integration_candidates s) i = Some c" for i c
    using that inv unfolding anchored_def by blast
  from step obtain t where t: "apply_kind x s e = Inr t"
    "integration_candidates s' = integration_candidates t" "sleep_runs s' = sleep_runs t"
    by (auto simp: apply_event_Inr)
  have "bt_wf (integration_candidates t) \<and>
     (\<forall>i c. bt_get (integration_candidates t) i = Some c \<longrightarrow>
        is_some_and (bt_get (sleep_runs s) (sleep_run_id c))
          (\<lambda>r. high_water_revision r = IntegrationCandidate.as_of_revision c))"
    using t(1)
  proof (cases rule: candidates_step)
    case same
    with inv show ?thesis by (simp add: anchored_def)
  next
    case (created c)
    then show ?thesis
      using inv old by (auto simp: anchored_def candidate_admissible_def is_some_and_iff)
  next
    case (decided c v d)
    then show ?thesis
      using inv old by (auto simp: anchored_def split: if_splits)
  qed
  with t keep show ?thesis by (simp add: anchored_def)
qed

lemma anchored_default: "anchored default_state"
  by (simp add: anchored_def default_state_def)

lemma anchored_replay: "replay x es = Inr s \<Longrightarrow> sleep_inv s \<and> anchored s"
  unfolding replay_def
  by (rule ledger.run_invariant [where I = "\<lambda>s. sleep_inv s \<and> anchored s"])
    (auto intro: sleep_inv_step anchored_step sleep_inv_default anchored_default)

lemma repair_anchored: "anchored s \<Longrightarrow> repair_candidates s = s"
proof -
  assume a: "anchored s"
  have "bt_map_values (\<lambda>c. if IntegrationCandidate.as_of_revision c = 0
         then (case bt_get (sleep_runs s) (sleep_run_id c) of
                 None \<Rightarrow> c
               | Some r \<Rightarrow> c\<lparr>IntegrationCandidate.as_of_revision := high_water_revision r\<rparr>)
         else c) (integration_candidates s) = integration_candidates s"
  proof (rule bt_map_values_id)
    fix k c
    assume "(k, c) \<in> set (integration_candidates s)"
    with a have "bt_get (integration_candidates s) k = Some c"
      by (simp add: anchored_def bt_wf_get)
    with a have "is_some_and (bt_get (sleep_runs s) (sleep_run_id c))
        (\<lambda>r. high_water_revision r = IntegrationCandidate.as_of_revision c)"
      unfolding anchored_def by blast
    then show "(if IntegrationCandidate.as_of_revision c = 0
         then (case bt_get (sleep_runs s) (sleep_run_id c) of
                 None \<Rightarrow> c
               | Some r \<Rightarrow> c\<lparr>IntegrationCandidate.as_of_revision := high_water_revision r\<rparr>)
         else c) = c"
      by (cases c) (auto simp: is_some_and_iff)
  qed
  then show ?thesis by (simp add: repair_candidates_def)
qed

section \<open>The database is its ledger\<close>

text \<open>
  The rows decode to a ledger whose replay is the projection the snapshot reads back as. The
  bound is that of SQLite's row identifiers.
\<close>

definition db_holds :: "ext \<Rightarrow> codec \<Rightarrow> Db \<Rightarrow> ExperienceEvent list \<Rightarrow> CurrentState \<Rightarrow> bool" where
  "db_holds x c db es s \<longleftrightarrow>
     snapshot db \<noteq> None \<and> length es < 2 ^ 63 \<and> load_events x c db = Inr es \<and>
     replay x es = Inr s \<and> load_state x c db = Inr s"

lemma load_rows_append:
  "load_rows x c (rs @ qs) =
     res_bind (load_rows x c rs) (\<lambda>es. res_bind (load_rows x c qs) (\<lambda>fs. Inr (es @ fs)))"
proof (induction rs)
  case Nil
  then show ?case by (cases "load_rows x c qs") simp_all
next
  case (Cons r rs)
  then show ?case by (simp add: res_bind_assoc if_distrib [of "\<lambda>r. res_bind r _"] cong: if_cong)
qed

lemma load_rows_length: "load_rows x c rs = Inr es \<Longrightarrow> length es = length rs"
  by (induction rs arbitrary: es) (auto simp: res_simps)

lemma insert_events_rows:
  assumes "insert_events x c flt i rows es = Inr rows'" and "verify_events x es = Inr ()"
    and "\<forall>e \<in> set es. codec_reads_event x c e"
  shows "\<exists>rs. rows' = rows @ rs \<and> load_rows x c rs = Inr es"
  using assms
proof (induction es arbitrary: i rows)
  case (Cons e es)
  from Cons.prems(1) obtain r where r: "row_of_event x c e = Inr r"
    and rest: "insert_events x c flt (Suc i) (rows @ [r]) es = Inr rows'"
    by (auto simp: res_simps split: if_splits)
  from Cons.prems(2) have v: "verify_integrity x e = Inr True" "verify_events x es = Inr ()"
    by (auto simp: res_simps split: if_splits)
  from Cons.IH [OF rest v(2)] Cons.prems(3) obtain rs
    where rs: "rows' = (rows @ [r]) @ rs" "load_rows x c rs = Inr es" by auto
  have "event_from_row c r = Inr e"
    using row_roundtrip [OF _ r] Cons.prems(3) by simp
  with rs v(1) show ?case by (intro exI [of _ "r # rs"]) simp
qed simp

lemma replay_revision: "replay x es = Inr s \<Longrightarrow> CurrentState.revision s = of_nat (length es)"
proof -
  assume r: "replay x es = Inr s"
  then have "applied_events s = map ExperienceEvent.event_id es"
    using ledger.run_ids [of x default_state es s] by (simp add: replay_def default_state_def)
  with sleep_inv_replay [OF r] show ?thesis by (simp add: sleep_inv_def)
qed

lemma record_batch_Inr:
  assumes "record_batch x c flt db evs eb tr = Inr (s', db')"
  shows "\<exists>s. load_state x c db = Inr s \<and> apply_all x s evs = Inr s' \<and>
    commit_batch x c flt db evs s' eb tr = Inr db' \<and>
    (\<forall>b. eb = Some b \<longrightarrow> CurrentState.revision s = b)"
  using assms by (cases eb) (auto simp: record_batch_def res_simps split: if_splits)

lemma commit_batch_Inr:
  assumes "commit_batch x c flt db evs s' eb tr = Inr db'"
  shows "\<exists>rows json_text. evs \<noteq> [] \<and> verify_events x evs = Inr () \<and>
    insert_events x c flt 0 (event_rows db) evs = Inr rows \<and>
    state_to_string c s' = Inr json_text \<and>
    CurrentState.revision s' = revision_of_i64 (len_u64 (event_rows db)) + len_u64 evs \<and>
    (\<forall>b. eb = Some b \<longrightarrow> revision_of_i64 (len_u64 (event_rows db)) = b) \<and>
    event_rows db' = rows \<and> lease_row db' = lease_row db \<and> derived_from db' = Some s' \<and>
    snapshot db' = map_option (\<lambda>_. \<lparr>snap_revision = CurrentState.revision s', snap_json = json_text,
      snap_hash = snapshot_hash x json_text\<rparr>) (snapshot db)"
  using assms
  by (cases eb; cases tr)
    (auto simp: commit_batch_def Let_def res_simps write_cognitive_trace_def split: if_splits)

lemma record_batch_holds:
  assumes db: "db_holds x c db es s" and rec: "record_batch x c flt db evs eb tr = Inr (s', db')"
    and events: "\<forall>e \<in> set evs. codec_reads_event x c e" and state: "codec_reads_state c s'"
    and small: "length es + length evs < 2 ^ 63"
  shows "db_holds x c db' (es @ evs) s'"
proof -
  from db have load: "load_events x c db = Inr es" "load_state x c db = Inr s" "replay x es = Inr s"
    by (simp_all add: db_holds_def)
  from record_batch_Inr [OF rec] load(2) have run: "apply_all x s evs = Inr s'"
    and com: "commit_batch x c flt db evs s' eb tr = Inr db'" by auto
  from commit_batch_Inr [OF com] obtain rows json_text where
    rows: "insert_events x c flt 0 (event_rows db) evs = Inr rows" "event_rows db' = rows"
    and json_text: "state_to_string c s' = Inr json_text" and ver: "verify_events x evs = Inr ()"
    and snap: "snapshot db' = map_option (\<lambda>_. \<lparr>snap_revision = CurrentState.revision s',
      snap_json = json_text, snap_hash = snapshot_hash x json_text\<rparr>) (snapshot db)"
    by blast
  from insert_events_rows [OF rows(1) ver events] load(1) rows(2)
  have ev: "load_events x c db' = Inr (es @ evs)"
    by (auto simp: load_events_def load_rows_append)
  have rep: "replay x (es @ evs) = Inr s'"
    using load(3) run by (simp add: replay_def ledger.run_append)
  have rev: "revision_of_i64 (CurrentState.revision s') = CurrentState.revision s'"
    using replay_revision [OF rep] revision_of_small [of "length (es @ evs)"] small by simp
  obtain row where "snapshot db' = Some \<lparr>snap_revision = CurrentState.revision s', snap_json = json_text,
      snap_hash = snapshot_hash x json_text\<rparr>"
    using snap db by (auto simp: db_holds_def)
  moreover have "s'\<lparr>CurrentState.revision := CurrentState.revision s'\<rparr> = s'" by simp
  ultimately have "load_state x c db' = Inr s'"
    using state json_text repair_anchored anchored_replay [OF rep]
    by (simp add: load_state_def codec_reads_state_def rev)
  with ev rep small snap db show ?thesis by (simp add: db_holds_def)
qed

lemma fresh_db_holds: "db_holds x c fresh_db [] default_state"
proof -
  have "trim ''{}'' = ''{}''" by code_simp
  then show ?thesis
    by (simp add: db_holds_def fresh_db_def load_events_def replay_def load_state_def
        revision_of_i64_def default_state_def)
qed

lemma recover_holds:
  "db_holds x c db es s \<Longrightarrow> recover x c db = Inr (recovery_report s)"
  by (simp add: db_holds_def recover_def)

text \<open>
  A writer that computed its projection from an older ledger cannot commit: the revision it
  carries no longer fits the number of rows.
\<close>

lemma commit_needs_head:
  assumes old: "db_holds x c db0 es s" and run: "apply_all x s evs = Inr s'"
    and rows: "event_rows db = event_rows db0 @ later"
    and small: "length (event_rows db) < 2 ^ 63"
    and com: "commit_batch x c flt db evs s' eb tr = Inr db'"
  shows "later = []"
proof -
  from old have rep: "replay x (es @ evs) = Inr s'" and len: "length es = length (event_rows db0)"
    using run by (auto simp: db_holds_def replay_def ledger.run_append load_events_def load_rows_length)
  have "(of_nat (length es) + of_nat (length evs) :: u64) =
      of_nat (length (event_rows db)) + of_nat (length evs)"
    using commit_batch_Inr [OF com] replay_revision [OF rep] revision_of_small [OF small]
    by (auto simp: len_u64_def)
  then have "(of_nat (length es) :: u64) = of_nat (length (event_rows db))" by simp
  then have "unat (of_nat (length es) :: u64) = unat (of_nat (length (event_rows db)) :: u64)" by simp
  moreover have "unat (of_nat (length es) :: u64) = length es"
    using small rows len by (intro unat_of_nat_u64) simp
  moreover have "unat (of_nat (length (event_rows db)) :: u64) = length (event_rows db)"
    using small by (intro unat_of_nat_u64) simp
  ultimately have "length es = length (event_rows db)" by simp
  then show ?thesis using rows len by simp
qed

end
