(* ===== verification/Lease.thy ===== *)
theory Lease
  imports Store
begin

text \<open>
  The foreground lease of \<open>src/adapters/sqlite/store.rs\<close>: one slot in the database, taken,
  renewed and released by SQL statements that compare millisecond clocks. The interface
  \<open>exclusive_slot\<close> states what the statements promise; its client is the step relation of
  several processes sharing the slot, under which at most one of them may believe to hold it.
\<close>

section \<open>The statements\<close>

definition I64_MAX :: int where "I64_MAX = 9223372036854775807"

definition saturating_add_i64 :: "i64 \<Rightarrow> i64 \<Rightarrow> i64" where
  "saturating_add_i64 a b =
     (let s = sint a + sint b in
      word_of_int (if s > I64_MAX then I64_MAX else if s < - I64_MAX - 1 then - I64_MAX - 1 else s))"

text \<open>\<open>ttl.as_millis()\<close> is a \<open>u128\<close>.\<close>

definition lease_deadline :: "i64 \<Rightarrow> u128 \<Rightarrow> i64" where
  "lease_deadline now ttl = saturating_add_i64 now (word_of_int (min (uint ttl) I64_MAX))"

text \<open>Each returns the affected slot and whether a row was affected.\<close>

definition acquire_foreground_lease :: "i64 \<Rightarrow> Db \<Rightarrow> string \<Rightarrow> u128 \<Rightarrow> Db \<times> bool" where
  "acquire_foreground_lease now db owner ttl =
     (case lease_row db of
        None \<Rightarrow> (db\<lparr>lease_row := Some (owner, lease_deadline now ttl)\<rparr>, True)
      | Some (held, expires) \<Rightarrow>
          if sint expires \<le> sint now
          then (db\<lparr>lease_row := Some (owner, lease_deadline now ttl)\<rparr>, True)
          else (db, False))"

definition renew_foreground_lease :: "i64 \<Rightarrow> Db \<Rightarrow> string \<Rightarrow> u128 \<Rightarrow> Db \<times> bool" where
  "renew_foreground_lease now db owner ttl =
     (case lease_row db of
        None \<Rightarrow> (db, False)
      | Some (held, expires) \<Rightarrow>
          if held = owner \<and> sint expires > sint now
          then (db\<lparr>lease_row := Some (held, lease_deadline now ttl)\<rparr>, True)
          else (db, False))"

definition release_foreground_lease :: "Db \<Rightarrow> string \<Rightarrow> Db" where
  "release_foreground_lease db owner =
     (case lease_row db of
        None \<Rightarrow> db
      | Some (held, expires) \<Rightarrow> if held = owner then db\<lparr>lease_row := None\<rparr> else db)"

definition has_active_foreground_lease :: "i64 \<Rightarrow> Db \<Rightarrow> bool" where
  "has_active_foreground_lease now db =
     is_some_and (lease_row db) (\<lambda>(held, expires). sint expires > sint now)"

section \<open>The interface\<close>

text \<open>
  \<open>holder now m o d\<close>: at \<open>now\<close> the slot of \<open>m\<close> is \<open>o\<close>'s until \<open>d\<close>.
\<close>

locale exclusive_slot =
  fixes acquire :: "'t \<Rightarrow> 'm \<Rightarrow> 'o \<Rightarrow> 'l \<Rightarrow> 'm \<times> bool"
    and renew :: "'t \<Rightarrow> 'm \<Rightarrow> 'o \<Rightarrow> 'l \<Rightarrow> 'm \<times> bool"
    and release :: "'m \<Rightarrow> 'o \<Rightarrow> 'm"
    and held :: "'m \<Rightarrow> ('o \<times> int) option"
    and ms :: "'t \<Rightarrow> int"
    and deadline :: "'t \<Rightarrow> 'l \<Rightarrow> int"
  assumes acquire_granted:
      "acquire t m a l = (m', True) \<Longrightarrow>
         held m' = Some (a, deadline t l) \<and> (\<forall>b d. held m = Some (b, d) \<longrightarrow> d \<le> ms t)"
    and acquire_refused: "acquire t m a l = (m', False) \<Longrightarrow> held m' = held m"
    and renew_granted:
      "renew t m a l = (m', True) \<Longrightarrow>
         held m' = Some (a, deadline t l) \<and> (\<exists>d. held m = Some (a, d) \<and> ms t < d)"
    and renew_refused: "renew t m a l = (m', False) \<Longrightarrow> held m' = held m"
    and release_held:
      "held (release m a) = (case held m of None \<Rightarrow> None | Some (b, d) \<Rightarrow> if b = a then None else held m)"
begin

text \<open>
  A process believes to hold the slot until the deadline of its last granted request, unless it
  gave the slot back. Exclusion: nobody else's belief is current while the slot is held.
\<close>

definition exclusion :: "'t \<Rightarrow> 'm \<Rightarrow> ('o \<Rightarrow> int option) \<Rightarrow> bool" where
  "exclusion t m belief \<longleftrightarrow> (\<forall>a d. belief a = Some d \<longrightarrow> ms t < d \<longrightarrow> held m = Some (a, d))"

lemma exclusion_unique:
  "exclusion t m belief \<Longrightarrow> belief a = Some d \<Longrightarrow> ms t < d \<Longrightarrow> belief b = Some d' \<Longrightarrow> ms t < d' \<Longrightarrow>
     a = b"
  unfolding exclusion_def by (metis option.inject prod.inject)

lemma exclusion_later:
  "exclusion t m belief \<Longrightarrow> ms t \<le> ms t' \<Longrightarrow> held m' = held m \<Longrightarrow> exclusion t' m' belief"
  by (auto simp: exclusion_def)

lemma exclusion_acquire:
  assumes "exclusion t m belief" and "acquire t m a l = (m', True)"
  shows "exclusion t m' (belief(a := Some (deadline t l)))"
proof (unfold exclusion_def, intro allI impI)
  fix b d
  assume b: "(belief(a := Some (deadline t l))) b = Some d" and d: "ms t < d"
  show "held m' = Some (b, d)"
  proof (cases "b = a")
    case True
    with b acquire_granted [OF assms(2)] show ?thesis by simp
  next
    case False
    with b d assms(1) have "held m = Some (b, d)" by (simp add: exclusion_def)
    with False d acquire_granted [OF assms(2)] show ?thesis by auto
  qed
qed

lemma exclusion_refused:
  "exclusion t m belief \<Longrightarrow> acquire t m a l = (m', False) \<or> renew t m a l = (m', False) \<Longrightarrow>
     exclusion t m' belief"
  by (auto simp: exclusion_def acquire_refused renew_refused)

lemma exclusion_renew:
  assumes "exclusion t m belief" and "renew t m a l = (m', True)"
  shows "exclusion t m' (belief(a := Some (deadline t l)))"
proof (unfold exclusion_def, intro allI impI)
  fix b d
  assume b: "(belief(a := Some (deadline t l))) b = Some d" and d: "ms t < d"
  show "held m' = Some (b, d)"
  proof (cases "b = a")
    case True
    with b renew_granted [OF assms(2)] show ?thesis by simp
  next
    case False
    with b d assms(1) have "held m = Some (b, d)" by (simp add: exclusion_def)
    with False d renew_granted [OF assms(2)] show ?thesis by auto
  qed
qed

lemma exclusion_release:
  "exclusion t m belief \<Longrightarrow> exclusion t (release m a) (belief(a := None))"
  unfolding exclusion_def release_held by (auto split: option.splits)

end

definition lease_held :: "Db \<Rightarrow> (string \<times> int) option" where
  "lease_held db = map_option (\<lambda>(o', d). (o', sint d)) (lease_row db)"

interpretation lease: exclusive_slot acquire_foreground_lease renew_foreground_lease
  release_foreground_lease lease_held sint "\<lambda>t l. sint (lease_deadline t l)"
  by unfold_locales
    (auto simp: acquire_foreground_lease_def renew_foreground_lease_def
      release_foreground_lease_def lease_held_def split: option.splits prod.splits if_splits)

section \<open>Processes sharing the slot\<close>

text \<open>
  The clock, the database and what each process believes. The clock does not go back; a commit
  of any process leaves the slot alone.
\<close>

record world =
  clock :: i64
  store :: Db
  belief :: "string \<Rightarrow> int option"

inductive lease_step :: "world \<Rightarrow> world \<Rightarrow> bool" where
  tick: "sint (clock w) \<le> sint t \<Longrightarrow> lease_step w (w\<lparr>clock := t\<rparr>)"
| acquired: "acquire_foreground_lease (clock w) (store w) a ttl = (db, True) \<Longrightarrow>
     lease_step w (w\<lparr>store := db,
       belief := (belief w)(a := Some (sint (lease_deadline (clock w) ttl)))\<rparr>)"
| renewed: "renew_foreground_lease (clock w) (store w) a ttl = (db, True) \<Longrightarrow>
     lease_step w (w\<lparr>store := db,
       belief := (belief w)(a := Some (sint (lease_deadline (clock w) ttl)))\<rparr>)"
| refused: "acquire_foreground_lease (clock w) (store w) a ttl = (db, False) \<or>
     renew_foreground_lease (clock w) (store w) a ttl = (db, False) \<Longrightarrow>
     lease_step w (w\<lparr>store := db\<rparr>)"
| released: "lease_step w (w\<lparr>store := release_foreground_lease (store w) a,
     belief := (belief w)(a := None)\<rparr>)"
| committed: "commit_batch x c flt (store w) evs s eb tr = Inr db \<Longrightarrow>
     lease_step w (w\<lparr>store := db\<rparr>)"

inductive_cases lease_stepE: "lease_step w w'"

inductive reachable_world :: "world \<Rightarrow> bool" where
  start: "belief w = (\<lambda>_. None) \<Longrightarrow> reachable_world w"
| step: "reachable_world w \<Longrightarrow> lease_step w w' \<Longrightarrow> reachable_world w'"

lemma commit_keeps_lease:
  "commit_batch x c flt db evs s eb tr = Inr db' \<Longrightarrow> lease_row db' = lease_row db"
  by (cases eb; cases tr)
    (auto simp: commit_batch_def Let_def res_simps write_cognitive_trace_def split: if_splits)

lemma reachable_exclusion: "reachable_world w \<Longrightarrow> lease.exclusion (clock w) (store w) (belief w)"
proof (induction rule: reachable_world.induct)
  case (start w)
  then show ?case by (simp add: lease.exclusion_def)
next
  case (step w w')
  from step(2) show ?case
  proof (cases rule: lease_step.cases)
    case (tick t)
    then show ?thesis using lease.exclusion_later [OF step.IH] by simp
  next
    case (acquired a ttl db)
    with lease.exclusion_acquire [OF step.IH acquired(2)] show ?thesis
      by (simp del: fun_upd_apply)
  next
    case (renewed a ttl db)
    with lease.exclusion_renew [OF step.IH renewed(2)] show ?thesis
      by (simp del: fun_upd_apply)
  next
    case (refused a ttl db)
    then show ?thesis using lease.exclusion_refused [OF step.IH] by auto
  next
    case (released a)
    with lease.exclusion_release [OF step.IH, of a] show ?thesis
      by (simp del: fun_upd_apply)
  next
    case (committed x c flt evs s eb tr db)
    have "lease_held db = lease_held (store w)"
      using commit_keeps_lease [OF committed(2)] by (simp add: lease_held_def)
    with lease.exclusion_later [OF step.IH] committed(1) show ?thesis by simp
  qed
qed

end
