(* ===== verification/StoredLedger.thy ===== *)
theory StoredLedger
  imports Recovery Lease
begin

text \<open>
  When a commit succeeds: on a database whose rows are the rows of its ledger, a batch that the
  projector applies and whose hashes verify is committed, unless SQLite or serde fails or the
  ledger has moved. The lemmas build databases for concrete ledgers.
\<close>

section \<open>Rows of a ledger\<close>

definition rows_of :: "ext \<Rightarrow> codec \<Rightarrow> Db \<Rightarrow> ExperienceEvent list \<Rightarrow> bool" where
  "rows_of x c db es \<longleftrightarrow> map (row_of_event x c) es = map Inr (event_rows db)"

definition writable :: "ext \<Rightarrow> codec \<Rightarrow> ExperienceEvent \<Rightarrow> bool" where
  "writable x c e \<longleftrightarrow> verify_integrity x e = Inr True \<and> is_ok (value_to_string c (payload e))"

lemma row_id: "row_of_event x c e = Inr r \<Longrightarrow> col_event_id r = id_text x (ExperienceEvent.event_id e)"
  by (auto simp: row_of_event_def res_simps)

lemma row_ids:
  "map (row_of_event x c) es = map Inr rows \<Longrightarrow>
     map col_event_id rows = map (\<lambda>e. id_text x (ExperienceEvent.event_id e)) es"
  by (induction es arbitrary: rows) (auto simp: row_id)

lemma id_text_inj:
  "inj (uuid_text x) \<Longrightarrow> id_text x i = id_text x j \<longleftrightarrow> i = (j :: 'a Id)"
  by (auto simp: id_text_def inj_def intro: Id.expand)

lemma verify_events_writable: "\<forall>e \<in> set es. writable x c e \<Longrightarrow> verify_events x es = Inr ()"
  by (induction es) (auto simp: writable_def)

lemma insert_events_possible:
  assumes "map (row_of_event x c) es0 = map Inr rows" and "distinct (map ExperienceEvent.event_id (es0 @ es))"
    and "\<forall>e \<in> set es. writable x c e" and "flt = (\<lambda>_. None)" and "inj (uuid_text x)"
  shows "\<exists>rs. insert_events x c flt i rows es = Inr (rows @ rs) \<and>
    map (row_of_event x c) es = map Inr rs"
  using assms(1-3)
proof (induction es arbitrary: es0 rows i)
  case (Cons e es)
  obtain r where r: "row_of_event x c e = Inr r"
    using Cons.prems(3) by (auto simp: writable_def row_of_event_def is_ok_iff)
  have fresh: "col_event_id r \<notin> set (map col_event_id rows)"
  proof
    assume "col_event_id r \<in> set (map col_event_id rows)"
    then obtain d where "d \<in> set es0" "id_text x (ExperienceEvent.event_id e) = id_text x (ExperienceEvent.event_id d)"
      unfolding row_ids [OF Cons.prems(1)] row_id [OF r] by auto
    with Cons.prems(2) show False by (auto simp: id_text_inj [OF assms(5)])
  qed
  have "map (row_of_event x c) (es0 @ [e]) = map Inr (rows @ [r])" using Cons.prems(1) r by simp
  from Cons.IH [OF this, of "Suc i"] Cons.prems(2,3) obtain rs where
    "insert_events x c flt (Suc i) (rows @ [r]) es = Inr ((rows @ [r]) @ rs)"
    "map (row_of_event x c) es = map Inr rs" by auto
  with r fresh assms(4) show ?case by (intro exI [of _ "r # rs"]) (simp add: sql_def)
qed simp

lemma ends_with_batch_append:
  "ends_with_batch (xs @ map ExperienceEvent.event_id es) (length xs) es"
proof (induction es arbitrary: xs)
  case (Cons e es)
  from Cons.IH [of "xs @ [ExperienceEvent.event_id e]"] show ?case by (simp add: get_def)
qed simp

section \<open>Commits that succeed\<close>

lemma commit_possible:
  assumes db: "db_holds x c db es s" and rows: "rows_of x c db es"
    and run: "apply_all x s evs = Inr s'" and "evs \<noteq> []"
    and ok: "\<forall>e \<in> set evs. writable x c e" and text_ok: "is_ok (state_to_string c s')"
    and small: "length es + length evs < 2 ^ 63"
    and base: "eb = None \<or> eb = Some (CurrentState.revision s)"
    and flt: "flt = (\<lambda>_. None)" and inj: "inj (uuid_text x)"
  shows "\<exists>db'. commit_batch x c flt db evs s' eb None = Inr db' \<and> rows_of x c db' (es @ evs)"
proof -
  have rep: "replay x es = Inr s" using db by (simp add: db_holds_def)
  then have rep': "replay x (es @ evs) = Inr s'" using run by (simp add: replay_def ledger.run_append)
  have dist: "distinct (map ExperienceEvent.event_id (es @ evs))"
    using ledger.run_distinct [of x default_state "es @ evs" s'] rep' by (simp add: replay_def)
  from insert_events_possible [where flt = flt and i = 0, OF rows [unfolded rows_of_def] dist ok flt inj]
  obtain rs where rs: "insert_events x c flt 0 (event_rows db) evs = Inr (event_rows db @ rs)"
    "map (row_of_event x c) evs = map Inr rs" by blast
  have len: "length (event_rows db) = length es"
    using rows unfolding rows_of_def by (metis length_map)
  have rev: "revision_of_i64 (len_u64 (event_rows db)) = CurrentState.revision s"
    using revision_of_small [of "length es"] small len replay_revision [OF rep]
    by (simp add: len_u64_def)
  have rev': "CurrentState.revision s' = CurrentState.revision s + len_u64 evs"
    using replay_revision [OF rep'] replay_revision [OF rep] by (simp add: len_u64_def)
  have ids: "applied_events s' = applied_events s @ map ExperienceEvent.event_id evs"
    by (rule ledger.run_ids [OF run])
  have "ends_with_batch (applied_events s') (length (applied_events s') - length evs) evs"
    using ends_with_batch_append [of "applied_events s" evs] by (simp add: ids)
  then show ?thesis
    using rs verify_events_writable [OF ok] rev rev' text_ok base flt \<open>evs \<noteq> []\<close> rows
    by (auto simp: commit_batch_def sql_def Let_def is_ok_iff rows_of_def)
qed

lemma record_possible:
  assumes "db_holds x c db es s" and "rows_of x c db es" and "apply_all x s evs = Inr s'"
    and "evs \<noteq> []" and "\<forall>e \<in> set evs. writable x c e" and "is_ok (state_to_string c s')"
    and "length es + length evs < 2 ^ 63"
    and "eb = None \<or> eb = Some (CurrentState.revision s)"
    and "flt = (\<lambda>_. None)" and "inj (uuid_text x)"
  shows "\<exists>db'. record_batch x c flt db evs eb None = Inr (s', db') \<and> rows_of x c db' (es @ evs)"
proof -
  from commit_possible [OF assms] obtain db' where
    "commit_batch x c flt db evs s' eb None = Inr db'" "rows_of x c db' (es @ evs)" by blast
  moreover have "load_state x c db = Inr s" using assms(1) by (simp add: db_holds_def)
  ultimately show ?thesis using assms(3,8) by (auto simp: record_batch_def)
qed

text \<open>The database a ledger leads to when it is recorded in one batch.\<close>

definition stored :: "ext \<Rightarrow> codec \<Rightarrow> ExperienceEvent list \<Rightarrow> Db" where
  "stored x c es =
     (case record_batch x c (\<lambda>_. None) fresh_db es None None of
        Inl _ \<Rightarrow> fresh_db | Inr r \<Rightarrow> snd r)"

lemma stored_holds:
  assumes run: "replay x es = Inr s" and "es \<noteq> []" and "\<forall>e \<in> set es. writable x c e"
    and events: "\<forall>e \<in> set es. codec_reads_event x c e"
    and state: "is_ok (state_to_string c s)" "codec_reads_state c s"
    and small: "length es < 2 ^ 63" and "inj (uuid_text x)"
  shows "db_holds x c (stored x c es) es s" and "rows_of x c (stored x c es) es"
proof -
  have "rows_of x c fresh_db []" by (simp add: rows_of_def fresh_db_def)
  from record_possible [OF fresh_db_holds this, of es s None "\<lambda>_. None"] assms obtain db' where
    rec: "record_batch x c (\<lambda>_. None) fresh_db es None None = Inr (s, db')"
    and rows: "rows_of x c db' ([] @ es)"
    by (auto simp: replay_def)
  have st: "stored x c es = db'" by (simp add: stored_def rec)
  have "db_holds x c db' ([] @ es) s"
    by (rule record_batch_holds [OF fresh_db_holds rec events state(2)]) (use small in simp)
  with rows st show "db_holds x c (stored x c es) es s" "rows_of x c (stored x c es) es"
    by simp_all
qed

section \<open>Databases through commits and leases\<close>

text \<open>
  The life of a database: it starts as the migrations leave it, takes batches through
  \<open>Projector::record_batch\<close> and serves the lease operations; an operation that fails or a
  process that stops between two of them leaves it as it was. Whatever the sequence, the
  snapshot is the replay of the ledger and recovery accepts it.
\<close>

inductive durable :: "ext \<Rightarrow> codec \<Rightarrow> Db \<Rightarrow> ExperienceEvent list \<Rightarrow> bool" for x c where
  fresh: "durable x c fresh_db []"
| recorded: "durable x c db es \<Longrightarrow> record_batch x c flt db evs eb tr = Inr (s', db') \<Longrightarrow>
     \<forall>e \<in> set evs. codec_reads_event x c e \<Longrightarrow> codec_reads_state c s' \<Longrightarrow>
     length es + length evs < 2 ^ 63 \<Longrightarrow> durable x c db' (es @ evs)"
| acquired: "durable x c db es \<Longrightarrow> acquire_foreground_lease now db a ttl = (db', granted) \<Longrightarrow>
     durable x c db' es"
| renewed: "durable x c db es \<Longrightarrow> renew_foreground_lease now db a ttl = (db', granted) \<Longrightarrow>
     durable x c db' es"
| released: "durable x c db es \<Longrightarrow> durable x c (release_foreground_lease db a) es"

lemma lease_keeps_store:
  "acquire_foreground_lease now db a ttl = (db', g) \<Longrightarrow>
     event_rows db' = event_rows db \<and> snapshot db' = snapshot db"
  "renew_foreground_lease now db a ttl = (db', g) \<Longrightarrow>
     event_rows db' = event_rows db \<and> snapshot db' = snapshot db"
  "event_rows (release_foreground_lease db a) = event_rows db"
  "snapshot (release_foreground_lease db a) = snapshot db"
  by (auto simp: acquire_foreground_lease_def renew_foreground_lease_def
      release_foreground_lease_def split: option.splits if_splits)

lemma db_holds_cong:
  "event_rows db' = event_rows db \<Longrightarrow> snapshot db' = snapshot db \<Longrightarrow>
     db_holds x c db' es s = db_holds x c db es s"
  by (simp add: db_holds_def load_events_def load_state_def)

lemma durable_holds: "durable x c db es \<Longrightarrow> \<exists>s. db_holds x c db es s"
proof (induction rule: durable.induct)
  case fresh
  show ?case using fresh_db_holds by blast
next
  case (recorded db es flt evs eb tr s' db')
  then show ?case using record_batch_holds by blast
next
  case (acquired db es now a ttl db' granted)
  then show ?case using db_holds_cong lease_keeps_store(1) by metis
next
  case (renewed db es now a ttl db' granted)
  then show ?case using db_holds_cong lease_keeps_store(2) by metis
next
  case (released db es a)
  then show ?case using db_holds_cong lease_keeps_store(3,4) by metis
qed

end
