(* ===== verification/ClaimHistory.thy ===== *)
theory ClaimHistory
  imports Projector
begin

text \<open>
  What the projector guarantees about completion criteria and claims over any ledger: a claim
  on record is grounded in the ledger, carries its own fingerprint, which no other claim has,
  is verified only with evidence and without a blocker, and once settled never changes; a
  model never writes one.
\<close>

section \<open>Evidence\<close>

definition evidence_ref_ok :: "CurrentState \<Rightarrow> u64 \<Rightarrow> EvidenceRef \<Rightarrow> bool" where
  "evidence_ref_ok s as_of ev \<longleftrightarrow>
     valid_sha256_hex (EvidenceRef.source_hash ev) \<and>
     EvidenceRef.as_of_sequence ev \<le> as_of \<and>
     is_some_and (event_sequence_of s (EvidenceRef.event_id ev)) (\<lambda>sq. sq \<le> as_of) \<and>
     (case artifact_id ev of
        None \<Rightarrow> True
      | Some aid \<Rightarrow> is_some_and (bt_get (CurrentState.artifacts s) aid)
          (\<lambda>a. provenance_event_id a = EvidenceRef.event_id ev \<and>
               content_hash a = EvidenceRef.source_hash ev))"

lemma validate_evidence_ref_Inr:
  "validate_evidence_ref s ev as_of k = Inr u \<longleftrightarrow> evidence_ref_ok s as_of ev"
  by (cases "artifact_id ev")
    (auto simp: validate_evidence_ref_def evidence_ref_ok_def is_some_and_iff res_simps not_less)

lemma validate_claim_evidence_Inr:
  "validate_claim_evidence s evs as_of k = Inr u \<longleftrightarrow> (\<forall>ev \<in> set evs. evidence_ref_ok s as_of ev)"
  by (induction s evs as_of k rule: validate_claim_evidence.induct)
    (auto simp: res_simps validate_evidence_ref_Inr)

text \<open>The part of it that later events cannot undo: the event is in the ledger, early enough.\<close>

definition grounded :: "EventId list \<Rightarrow> u64 \<Rightarrow> EvidenceRef \<Rightarrow> bool" where
  "grounded ledger as_of ev \<longleftrightarrow>
     valid_sha256_hex (EvidenceRef.source_hash ev) \<and>
     EvidenceRef.as_of_sequence ev \<le> as_of \<and>
     (\<exists>i. position_index (\<lambda>j. j = EvidenceRef.event_id ev) ledger = Some i \<and> of_nat i + 1 \<le> as_of)"

lemma grounded_ok: "evidence_ref_ok s as_of ev \<Longrightarrow> grounded (applied_events s) as_of ev"
  by (auto simp: evidence_ref_ok_def grounded_def event_sequence_of_def is_some_and_iff)

lemma grounded_append: "grounded ledger as_of ev \<Longrightarrow> grounded (ledger @ later) as_of ev"
  by (auto simp: grounded_def dest: position_index_append)

lemma grounded_in: "grounded ledger as_of ev \<Longrightarrow> EvidenceRef.event_id ev \<in> set ledger"
  unfolding grounded_def by (elim conjE exE, drule position_index_Some) (metis nth_mem)

section \<open>One claim\<close>

definition claim_ok :: "ext \<Rightarrow> CurrentState \<Rightarrow> CompletionClaim \<Rightarrow> bool" where
  "claim_ok x s c \<longleftrightarrow>
     bt_contains (tasks s) (CompletionClaim.task_id c) \<and>
     is_some_and (bt_get (completion_criteria s) (CompletionClaim.criterion_id c))
       (\<lambda>k. CompletionCriterion.task_id k = CompletionClaim.task_id c) \<and>
     CompletionClaim.confidence c \<le> 100 \<and>
     unat (CompletionClaim.as_of_sequence c) \<le> length (applied_events s) \<and>
     normalize_evidence_refs (CompletionClaim.evidence_refs c) = CompletionClaim.evidence_refs c \<and>
     CompletionClaim.fingerprint c =
       completion_fingerprint x (CompletionClaim.task_id c) (CompletionClaim.criterion_id c)
         (CompletionClaim.evidence_refs c) \<and>
     (\<forall>ev \<in> set (CompletionClaim.evidence_refs c).
        grounded (applied_events s) (CompletionClaim.as_of_sequence c) ev) \<and>
     (CompletionClaim.disposition c = VerificationDisposition.Verified \<longrightarrow>
        CompletionClaim.evidence_refs c \<noteq> [] \<and>
        \<not> is_some_and (blocker c) (\<lambda>b. \<not> blank b))"

definition claims_inv :: "ext \<Rightarrow> CurrentState \<Rightarrow> bool" where
  "claims_inv x s \<longleftrightarrow>
     bt_wf (completion_claims s) \<and>
     CurrentState.revision s = of_nat (length (applied_events s)) \<and>
     (\<forall>i c. bt_get (completion_claims s) i = Some c \<longrightarrow> CompletionClaim.id c = i \<and> claim_ok x s c) \<and>
     (\<forall>i j c d. bt_get (completion_claims s) i = Some c \<longrightarrow>
        bt_get (completion_claims s) j = Some d \<longrightarrow>
        CompletionClaim.fingerprint c = CompletionClaim.fingerprint d \<longrightarrow> i = j)"

lemma claim_ok_mono:
  assumes "claim_ok x s c"
    and "\<And>i. bt_contains (tasks s) i \<Longrightarrow> bt_contains (tasks s') i"
    and "\<And>i k. bt_get (completion_criteria s) i = Some k \<Longrightarrow>
           bt_get (completion_criteria s') i = Some k"
    and "applied_events s' = applied_events s @ later"
  shows "claim_ok x s' c"
proof -
  have "is_some_and (bt_get (completion_criteria s') (CompletionClaim.criterion_id c))
          (\<lambda>k. CompletionCriterion.task_id k = CompletionClaim.task_id c)"
    using assms(1,3) by (auto simp: claim_ok_def is_some_and_iff)
  then show ?thesis
    using assms(1,2,4) by (simp add: claim_ok_def grounded_append)
qed

section \<open>Criteria and tasks only grow\<close>

lemma tasks_grow:
  assumes "apply_kind x s e = Inr s'" and "bt_contains (tasks s) i"
  shows "bt_contains (tasks s') i"
proof (cases "event_kind e \<in> {TaskCreated, TaskCompleted}")
  case True
  with assms show ?thesis
    by (auto simp: apply_kind_def Let_def res_simps insert_payload_Inr
        dest!: task_completion_footprint)
next
  case False
  with assms tasks_frame [OF assms(1)] show ?thesis by simp
qed

lemma criterion_defined_Inr:
  "apply_criterion_defined x s e = Inr s' \<Longrightarrow>
     \<exists>c. de_criterion x (payload e) = Inr c \<and>
        \<not> blank (CompletionCriterion.description c) \<and>
        bt_contains (tasks s) (CompletionCriterion.task_id c) \<and>
        \<not> bt_contains (completion_criteria s) (CompletionCriterion.id c) \<and>
        (\<forall>d \<in> set (bt_values (completion_criteria s)).
           CompletionCriterion.task_id d = CompletionCriterion.task_id c \<longrightarrow>
           normalize_description x (CompletionCriterion.description d) \<noteq>
           normalize_description x (CompletionCriterion.description c)) \<and>
        s' = s\<lparr>completion_criteria := bt_insert (CompletionCriterion.id c)
                (c\<lparr>CompletionCriterion.description := trim (CompletionCriterion.description c)\<rparr>)
                (completion_criteria s)\<rparr>"
  by (auto simp: apply_criterion_defined_def Let_def decode_Inr res_simps)

lemma criteria_grow:
  assumes "apply_kind x s e = Inr s'" and "bt_get (completion_criteria s) i = Some k"
  shows "bt_get (completion_criteria s') i = Some k"
proof (cases "event_kind e = CompletionCriterionDefined")
  case True
  with assms(1) have "apply_criterion_defined x s e = Inr s'"
    by (simp add: apply_kind_def)
  from criterion_defined_Inr [OF this] assms(2) show ?thesis
    by (auto simp: bt_contains_def)
next
  case False
  with assms criteria_frame [OF assms(1)] show ?thesis by simp
qed

section \<open>Criteria\<close>

text \<open>
  Descriptions on record are trimmed and not blank, and no two criteria of a task have the
  same description up to white space and case.
\<close>

definition criteria_inv :: "ext \<Rightarrow> CurrentState \<Rightarrow> bool" where
  "criteria_inv x s \<longleftrightarrow>
     bt_wf (completion_criteria s) \<and>
     (\<forall>i c. bt_get (completion_criteria s) i = Some c \<longrightarrow>
        CompletionCriterion.id c = i \<and> bt_contains (tasks s) (CompletionCriterion.task_id c) \<and>
        \<not> blank (CompletionCriterion.description c) \<and>
        trim (CompletionCriterion.description c) = CompletionCriterion.description c) \<and>
     (\<forall>i j c d. bt_get (completion_criteria s) i = Some c \<longrightarrow>
        bt_get (completion_criteria s) j = Some d \<longrightarrow>
        (CompletionCriterion.task_id c,
           normalize_description x (CompletionCriterion.description c)) =
        (CompletionCriterion.task_id d,
           normalize_description x (CompletionCriterion.description d)) \<longrightarrow> i = j)"

lemma criteria_inv_kind:
  assumes inv: "criteria_inv x s" and step: "apply_kind x s e = Inr s'"
  shows "criteria_inv x s'"
proof (cases "event_kind e = CompletionCriterionDefined")
  case False
  with criteria_frame [OF step] inv tasks_grow [OF step] show ?thesis
    by (simp add: criteria_inv_def)
next
  case True
  with step have "apply_criterion_defined x s e = Inr s'" by (simp add: apply_kind_def)
  from criterion_defined_Inr [OF this] obtain c where c:
    "\<not> blank (CompletionCriterion.description c)"
    "bt_contains (tasks s) (CompletionCriterion.task_id c)"
    "\<forall>d \<in> set (bt_values (completion_criteria s)).
       CompletionCriterion.task_id d = CompletionCriterion.task_id c \<longrightarrow>
       normalize_description x (CompletionCriterion.description d) \<noteq>
       normalize_description x (CompletionCriterion.description c)"
    and s': "s' = s\<lparr>completion_criteria := bt_insert (CompletionCriterion.id c)
                (c\<lparr>CompletionCriterion.description := trim (CompletionCriterion.description c)\<rparr>)
                (completion_criteria s)\<rparr>"
    by blast
  let ?new = "c\<lparr>CompletionCriterion.description := trim (CompletionCriterion.description c)\<rparr>"
  let ?key = "\<lambda>d. (CompletionCriterion.task_id d,
      normalize_description x (CompletionCriterion.description d))"
  have eq: "tasks s' = tasks s" "completion_criteria s' =
      bt_insert (CompletionCriterion.id c) ?new (completion_criteria s)"
    by (simp_all add: s')
  have "\<forall>i j a d. bt_get (completion_criteria s') i = Some a \<longrightarrow>
      bt_get (completion_criteria s') j = Some d \<longrightarrow> ?key a = ?key d \<longrightarrow> i = j"
    unfolding eq
  proof (rule bt.insert_fresh_inj)
    show "bt_wf (completion_criteria s)" using inv by (simp add: criteria_inv_def)
    show "\<forall>i j a d. bt_get (completion_criteria s) i = Some a \<longrightarrow>
        bt_get (completion_criteria s) j = Some d \<longrightarrow> ?key a = ?key d \<longrightarrow> i = j"
      using inv unfolding criteria_inv_def by (elim conjE)
    show "\<not> (\<exists>d \<in> set (bt_values (completion_criteria s)). ?key d = ?key ?new)"
      using c(3) by auto
  qed
  moreover have "CompletionCriterion.id a = i \<and>
      bt_contains (tasks s) (CompletionCriterion.task_id a) \<and>
      \<not> blank (CompletionCriterion.description a) \<and>
      trim (CompletionCriterion.description a) = CompletionCriterion.description a"
    if "bt_get (completion_criteria s') i = Some a" for i a
  proof (cases "i = CompletionCriterion.id c")
    case True
    with that c show ?thesis by (auto simp: s')
  next
    case False
    with that inv show ?thesis unfolding criteria_inv_def by (simp add: s')
  qed
  moreover have "bt_wf (completion_criteria s')"
    using inv by (simp add: criteria_inv_def s')
  ultimately show ?thesis
    unfolding criteria_inv_def eq(1) by blast
qed

lemma criteria_inv_step:
  assumes "criteria_inv x s" and "apply_event x s e = Inr s'"
  shows "criteria_inv x s'"
  using assms(2)
proof (cases rule: apply_event_cases)
  case (1 t)
  then have eq: "completion_criteria s' = completion_criteria t" "tasks s' = tasks t" by simp_all
  from criteria_inv_kind [OF assms(1) 1(1)] show ?thesis unfolding criteria_inv_def eq .
qed

lemma criteria_inv_default: "criteria_inv x default_state"
  by (simp add: criteria_inv_def default_state_def)

lemma criteria_inv_replay: "replay x es = Inr s \<Longrightarrow> criteria_inv x s"
  unfolding replay_def
  by (rule ledger.run_invariant [where I = "criteria_inv x"])
    (auto intro: criteria_inv_step criteria_inv_default)

section \<open>The three claim events\<close>

text \<open>What a claim must satisfy to enter the record.\<close>

definition claim_admissible :: "ext \<Rightarrow> CurrentState \<Rightarrow> CompletionClaim \<Rightarrow> bool" where
  "claim_admissible x s c \<longleftrightarrow>
     bt_contains (tasks s) (CompletionClaim.task_id c) \<and>
     is_some_and (bt_get (completion_criteria s) (CompletionClaim.criterion_id c))
       (\<lambda>k. CompletionCriterion.task_id k = CompletionClaim.task_id c) \<and>
     CompletionClaim.disposition c = NeedsValidation \<and>
     CompletionClaim.confidence c \<le> 100 \<and>
     CompletionClaim.as_of_sequence c \<le> CurrentState.revision s \<and>
     normalize_evidence_refs (CompletionClaim.evidence_refs c) = CompletionClaim.evidence_refs c \<and>
     CompletionClaim.fingerprint c =
       completion_fingerprint x (CompletionClaim.task_id c) (CompletionClaim.criterion_id c)
         (CompletionClaim.evidence_refs c) \<and>
     (\<forall>ev \<in> set (CompletionClaim.evidence_refs c).
        evidence_ref_ok s (CompletionClaim.as_of_sequence c) ev) \<and>
     \<not> bt_contains (completion_claims s) (CompletionClaim.id c) \<and>
     \<not> (\<exists>d \<in> set (bt_values (completion_claims s)).
          CompletionClaim.fingerprint d = CompletionClaim.fingerprint c) \<and>
     (\<forall>p. CompletionClaim.supersedes c = Some p \<longrightarrow>
        is_some_and (bt_get (completion_claims s) p)
          (\<lambda>d. CompletionClaim.task_id d = CompletionClaim.task_id c \<and>
               CompletionClaim.criterion_id d = CompletionClaim.criterion_id c))"

definition with_normal_evidence :: "CompletionClaim \<Rightarrow> CompletionClaim" where
  "with_normal_evidence c =
     c\<lparr>CompletionClaim.evidence_refs := normalize_evidence_refs (CompletionClaim.evidence_refs c)\<rparr>"

lemma claim_created_Inr:
  "apply_claim_created x s c0 k = Inr s' \<longleftrightarrow>
     claim_admissible x s (with_normal_evidence c0) \<and>
     s' = s\<lparr>completion_claims := bt_insert (CompletionClaim.id c0) (with_normal_evidence c0)
             (completion_claims s)\<rparr>"
  by (cases "CompletionClaim.supersedes c0")
    (auto simp: apply_claim_created_def claim_admissible_def with_normal_evidence_def Let_def
      res_simps validate_claim_evidence_Inr is_some_and_iff not_less)

lemma claim_transition_Inr:
  "apply_claim_transition s t expected k = Inr s' \<Longrightarrow>
     \<exists>c. bt_get (completion_claims s) (claim_id t) = Some c \<and>
        CompletionClaim.disposition c = NeedsValidation \<and>
        CompletionClaimTransition.disposition t = expected \<and>
        \<not> blank (CompletionClaimTransition.reason t) \<and>
        normalize_evidence_refs (CompletionClaimTransition.evidence_refs t) =
          CompletionClaim.evidence_refs c \<and>
        (expected = VerificationDisposition.Verified \<longrightarrow>
           CompletionClaim.evidence_refs c \<noteq> [] \<and>
           \<not> is_some_and (blocker c) (\<lambda>b. \<not> blank b)) \<and>
        s' = s\<lparr>completion_claims := bt_modify (claim_id t)
                (\<lambda>c. c\<lparr>CompletionClaim.disposition := expected\<rparr>) (completion_claims s)\<rparr>"
  by (auto simp: apply_claim_transition_def res_simps)

text \<open>Every write to the claims is one of two: an admissible new claim, or a settlement.\<close>

lemma claims_step:
  assumes "apply_kind x s e = Inr s'"
  obtains (same) "completion_claims s' = completion_claims s"
  | (created) c where "claim_admissible x s c"
      and "completion_claims s' = bt_insert (CompletionClaim.id c) c (completion_claims s)"
      and "\<not> is_model_actor s (ExperienceEvent.actor_id e)"
  | (settled) i c d where "bt_get (completion_claims s) i = Some c"
      and "CompletionClaim.disposition c = NeedsValidation" and "d \<noteq> NeedsValidation"
      and "d = VerificationDisposition.Verified \<Longrightarrow>
             CompletionClaim.evidence_refs c \<noteq> [] \<and> \<not> is_some_and (blocker c) (\<lambda>b. \<not> blank b)"
      and "completion_claims s' =
             bt_modify i (\<lambda>c. c\<lparr>CompletionClaim.disposition := d\<rparr>) (completion_claims s)"
      and "\<not> is_model_actor s (ExperienceEvent.actor_id e)"
proof (cases "event_kind e \<in> {CompletionClaimCreated, CompletionClaimVerified, CompletionClaimRejected}")
  case False
  with claims_frame [OF assms] show ?thesis using same by simp
next
  case True
  then consider "event_kind e = CompletionClaimCreated" | "event_kind e = CompletionClaimVerified"
    | "event_kind e = CompletionClaimRejected" by auto
  then show ?thesis
  proof cases
    case 1
    with assms obtain c0 where "\<not> is_model_actor s (ExperienceEvent.actor_id e)"
      and "apply_claim_created x s c0 CompletionClaimCreated = Inr s'"
      by (auto simp: apply_kind_def apply_claim_created_event_def res_simps)
    then show ?thesis
      using created [of "with_normal_evidence c0"]
      by (simp add: claim_created_Inr with_normal_evidence_def)
  next
    case 2
    with assms obtain t where m: "\<not> is_model_actor s (ExperienceEvent.actor_id e)"
      and t: "apply_claim_transition s t VerificationDisposition.Verified CompletionClaimVerified = Inr s'"
      by (auto simp: apply_kind_def apply_claim_verified_event_def res_simps)
    from claim_transition_Inr [OF t] m show ?thesis
      using settled [of _ _ VerificationDisposition.Verified] by auto
  next
    case 3
    with assms obtain t where m: "\<not> is_model_actor s (ExperienceEvent.actor_id e)"
      and t: "apply_claim_transition s t VerificationDisposition.Rejected CompletionClaimRejected = Inr s'"
      by (auto simp: apply_kind_def apply_claim_rejected_event_def res_simps)
    from claim_transition_Inr [OF t] m show ?thesis
      using settled [of _ _ VerificationDisposition.Rejected] by auto
  qed
qed

section \<open>The invariant\<close>

lemma claim_admissible_ok:
  assumes "claim_admissible x s c" and "CurrentState.revision s = of_nat (length (applied_events s))"
  shows "claim_ok x s c"
proof -
  have "unat (CompletionClaim.as_of_sequence c) \<le> unat (of_nat (length (applied_events s)) :: u64)"
    using assms by (simp add: claim_admissible_def word_le_nat_alt)
  also have "\<dots> \<le> length (applied_events s)" by (simp add: unat_of_nat)
  finally have "unat (CompletionClaim.as_of_sequence c) \<le> length (applied_events s)" .
  with assms(1) show ?thesis
    by (auto simp: claim_admissible_def claim_ok_def intro: grounded_ok)
qed

lemma claims_inv_kind:
  assumes inv: "claims_inv x s" and step: "apply_kind x s e = Inr s'"
  shows "bt_wf (completion_claims s') \<and>
     (\<forall>i c. bt_get (completion_claims s') i = Some c \<longrightarrow> CompletionClaim.id c = i \<and> claim_ok x s c) \<and>
     (\<forall>i j c d. bt_get (completion_claims s') i = Some c \<longrightarrow>
        bt_get (completion_claims s') j = Some d \<longrightarrow>
        CompletionClaim.fingerprint c = CompletionClaim.fingerprint d \<longrightarrow> i = j)"
  using step
proof (cases rule: claims_step)
  case same
  with inv show ?thesis by (simp add: claims_inv_def)
next
  case (created c)
  have ok: "claim_ok x s c"
    using claim_admissible_ok created(1) inv by (simp add: claims_inv_def)
  have "\<forall>i j c' d. bt_get (completion_claims s') i = Some c' \<longrightarrow>
        bt_get (completion_claims s') j = Some d \<longrightarrow>
        CompletionClaim.fingerprint c' = CompletionClaim.fingerprint d \<longrightarrow> i = j"
    unfolding created(2)
  proof (rule bt.insert_fresh_inj)
    show "bt_wf (completion_claims s)" using inv by (simp add: claims_inv_def)
    show "\<forall>i j c' d. bt_get (completion_claims s) i = Some c' \<longrightarrow>
        bt_get (completion_claims s) j = Some d \<longrightarrow>
        CompletionClaim.fingerprint c' = CompletionClaim.fingerprint d \<longrightarrow> i = j"
      using inv unfolding claims_inv_def by (elim conjE)
    show "\<not> (\<exists>d \<in> set (bt_values (completion_claims s)).
        CompletionClaim.fingerprint d = CompletionClaim.fingerprint c)"
      using created(1) unfolding claim_admissible_def by (elim conjE)
  qed
  moreover have "CompletionClaim.id c' = j \<and> claim_ok x s c'"
    if "bt_get (completion_claims s') j = Some c'" for j c'
  proof (cases "j = CompletionClaim.id c")
    case True
    with that ok show ?thesis by (simp add: created(2))
  next
    case False
    with that inv show ?thesis unfolding claims_inv_def by (simp add: created(2))
  qed
  moreover have "bt_wf (completion_claims s')"
    using inv by (simp add: claims_inv_def created(2))
  ultimately show ?thesis by blast
next
  case (settled i c d)
  have ok: "CompletionClaim.id c' = j \<and> claim_ok x s c'"
    and same: "\<exists>b. bt_get (completion_claims s) j = Some b \<and>
          CompletionClaim.fingerprint b = CompletionClaim.fingerprint c'"
    if "bt_get (completion_claims s') j = Some c'" for j c'
    using that inv settled by (auto simp: claims_inv_def claim_ok_def split: if_splits)
  have wf: "bt_wf (completion_claims s')"
    using inv settled(5) by (simp add: claims_inv_def)
  have "i = j" if "bt_get (completion_claims s') i = Some c"
    and "bt_get (completion_claims s') j = Some d"
    and "CompletionClaim.fingerprint c = CompletionClaim.fingerprint d" for i j c d
    using same [OF that(1)] same [OF that(2)] that(3) inv unfolding claims_inv_def by metis
  with ok wf show ?thesis by blast
qed

lemma claims_inv_step:
  assumes inv: "claims_inv x s" and step: "apply_event x s e = Inr s'"
  shows "claims_inv x s'"
  using step
proof (cases rule: apply_event_cases)
  case (1 t)
  have mono: "claim_ok x s' c" if "claim_ok x s c" for c
    by (rule claim_ok_mono [OF that])
      (use 1 tasks_grow [OF 1(1)] criteria_grow [OF 1(1)] in auto)
  from claims_inv_kind [OF inv 1(1)] mono inv 1(2) show ?thesis
    by (auto simp: claims_inv_def)
qed

lemma claims_inv_default: "claims_inv x default_state"
  by (simp add: claims_inv_def default_state_def)

lemma claims_inv_replay: "replay x es = Inr s \<Longrightarrow> claims_inv x s"
  unfolding replay_def
  by (rule ledger.run_invariant [where I = "claims_inv x"])
    (auto intro: claims_inv_step claims_inv_default)

section \<open>Settled claims are final\<close>

definition settles_to :: "CompletionClaim \<Rightarrow> CompletionClaim \<Rightarrow> bool" where
  "settles_to c c' \<longleftrightarrow>
     c' = c\<lparr>CompletionClaim.disposition := CompletionClaim.disposition c'\<rparr> \<and>
     (CompletionClaim.disposition c \<noteq> NeedsValidation \<longrightarrow>
        CompletionClaim.disposition c' = CompletionClaim.disposition c)"

abbreviation claims_extend :: "CurrentState \<Rightarrow> CurrentState \<Rightarrow> bool" where
  "claims_extend s s' \<equiv> bt_rel settles_to (completion_claims s) (completion_claims s')"

lemma settles_to_order: "reflp settles_to" "transp settles_to"
proof -
  show "reflp settles_to" by (simp add: reflp_def settles_to_def)
  have "settles_to a c" if "settles_to a b" "settles_to b c" for a b c
    using that unfolding settles_to_def by (cases a; cases b; cases c) simp
  then show "transp settles_to" by (blast intro: transpI)
qed

lemma claims_extend_kind:
  assumes "apply_kind x s e = Inr s'"
  shows "claims_extend s s'"
  using assms
proof (cases rule: claims_step)
  case same
  then show ?thesis by (simp add: bt_rel_refl settles_to_order)
next
  case (created c)
  then show ?thesis
    by (simp add: bt_rel_insert_fresh settles_to_order claim_admissible_def)
next
  case (settled i c d)
  then show ?thesis
    by (auto intro!: bt_rel_modify simp: settles_to_order settles_to_def)
qed

lemma claims_extend_step: "apply_event x s e = Inr s' \<Longrightarrow> claims_extend s s'"
  by (auto simp: apply_event_Inr dest: claims_extend_kind)

lemma claims_extend_run:
  assumes "apply_all x s es = Inr s'"
  shows "claims_extend s s'"
proof (rule ledger.run_monotone [where I = "\<lambda>_. True" and R = claims_extend, OF _ _ _ _ _ assms])
  show "reflp claims_extend" by (blast intro: reflpI bt_rel_refl settles_to_order)
  show "transp claims_extend" by (blast intro: transpI bt_rel_trans settles_to_order)
qed (auto intro: claims_extend_step)

end
