(* ===== verification/Completion.thy ===== *)
theory Completion
  imports Recovery ClaimHistory
begin

text \<open>
  The completion gate of \<open>src/runtime/completion.rs\<close>: criteria, claims, their settlement and
  the completion of a task. Every operation reads the database, checks, and commits one event
  with the revision it read; the database may have changed in between, so the readings and the
  database at the commit are separate arguments. Fresh identifiers and clock readings are
  arguments too.
\<close>

section \<open>Errors and results\<close>

datatype CompletionGateResult =
    Ready "CompletionClaimId list"
  | Blocked "CompletionCriterionId list" "CompletionClaimId list" "CompletionClaimId list"
      "string list" "ApprovalId list" "OperationId list"

datatype CompletionError =
    UnknownTask TaskId
  | UnknownCriterion CompletionCriterionId
  | CriterionTaskMismatch CompletionCriterionId TaskId
  | UnknownClaim CompletionClaimId
  | EmptyCriterionDescription
  | DuplicateCriterion
  | InvalidConfidence u8
  | InvalidSourceHash string
  | UnknownEventEvidence EventId
  | UnknownArtifactEvidence ArtifactId
  | ArtifactProvenanceMismatch ArtifactId EventId
  | ArtifactHashMismatch ArtifactId
  | EventHashMismatch EventId
  | FutureEvidenceSequence u64 u64
  | DuplicateFingerprint string
  | UnknownSupersededClaim CompletionClaimId
  | SupersededClaimMismatch
  | InvalidDispositionTransition VerificationDisposition VerificationDisposition
  | EvidenceRequired
  | BlockerPresent
  | InvalidReason
  | ModelCannotVerify
  | StaleRevision u64 u64
  | GateBlocked CompletionGateResult
  | Transition TransitionError
  | Storage StorageError
  | Projection ProjectionError
  | Serialization string
  | Event string

record CompletionCriterionStatus =
  criterion_id :: CompletionCriterionId
  description :: string
  required :: bool
  latest_claim :: "CompletionClaim option"

record CompletionStatusReport =
  task_id :: TaskId
  as_of_sequence :: u64
  criteria :: "CompletionCriterionStatus list"
  gate :: CompletionGateResult

definition non_empty :: "string \<Rightarrow> string option" where
  "non_empty v = (let t = trim v in if t \<noteq> [] then Some t else None)"

section \<open>Checks\<close>

definition ensure_task :: "CurrentState \<Rightarrow> TaskId \<Rightarrow> CompletionError + unit" where
  "ensure_task s tid = (if bt_contains (tasks s) tid then Inr () else Inl (UnknownTask tid))"

definition ensure_non_model_actor :: "CurrentState \<Rightarrow> PrincipalId \<Rightarrow> CompletionError + unit" where
  "ensure_non_model_actor s actor =
     (if is_some_and (bt_get (principals s) actor) (\<lambda>p. Principal.kind p = Hekate)
      then Inl ModelCannotVerify else Inr ())"

definition ensure_criterion ::
  "CurrentState \<Rightarrow> TaskId \<Rightarrow> CompletionCriterionId \<Rightarrow> CompletionError + unit"
where
  "ensure_criterion s tid cid =
     (case bt_get (completion_criteria s) cid of
        None \<Rightarrow> Inl (UnknownCriterion cid)
      | Some k \<Rightarrow>
          if CompletionCriterion.task_id k \<noteq> tid then Inl (CriterionTaskMismatch cid tid)
          else Inr ())"

definition validate_supersedes ::
  "CurrentState \<Rightarrow> TaskId \<Rightarrow> CompletionCriterionId \<Rightarrow> CompletionClaimId option \<Rightarrow>
   CompletionError + unit"
where
  "validate_supersedes s tid cid previous =
     (case previous of
        None \<Rightarrow> Inr ()
      | Some pid \<Rightarrow>
          (case bt_get (completion_claims s) pid of
             None \<Rightarrow> Inl (UnknownSupersededClaim pid)
           | Some p \<Rightarrow>
               if CompletionClaim.task_id p \<noteq> tid \<or> CompletionClaim.criterion_id p \<noteq> cid
               then Inl SupersededClaimMismatch else Inr ()))"

definition is_artifact_event :: "ArtifactId \<Rightarrow> ExperienceEvent \<Rightarrow> bool" where
  "is_artifact_event aid e \<longleftrightarrow>
     event_kind e = ArtifactCreated \<and> subject_is e EntityKind.Artifact (uuid aid)"

definition validate_one_evidence ::
  "ext \<Rightarrow> CurrentState \<Rightarrow> ExperienceEvent list \<Rightarrow> u64 \<Rightarrow> EvidenceRef \<Rightarrow> CompletionError + unit"
where
  "validate_one_evidence x s events as_of ev =
     (if \<not> valid_sha256_hex (EvidenceRef.source_hash ev)
      then Inl (InvalidSourceHash (EvidenceRef.source_hash ev))
      else if EvidenceRef.as_of_sequence ev > as_of
      then Inl (FutureEvidenceSequence (EvidenceRef.as_of_sequence ev) as_of)
      else
        (case position_index (\<lambda>e. ExperienceEvent.event_id e = EvidenceRef.event_id ev) events of
           None \<Rightarrow> Inl (UnknownEventEvidence (EvidenceRef.event_id ev))
         | Some i \<Rightarrow>
             (let sq = of_nat i + 1 in
              if sq > EvidenceRef.as_of_sequence ev \<or> sq > as_of
              then Inl (FutureEvidenceSequence sq (min (EvidenceRef.as_of_sequence ev) as_of))
              else
                (case artifact_id ev of
                   Some aid \<Rightarrow>
                     (case bt_get (CurrentState.artifacts s) aid of
                        None \<Rightarrow> Inl (UnknownArtifactEvidence aid)
                      | Some a \<Rightarrow>
                          (case position_index (is_artifact_event aid) events of
                             None \<Rightarrow> Inl (UnknownArtifactEvidence aid)
                           | Some j \<Rightarrow>
                               (let asq = of_nat j + 1 in
                                if asq > EvidenceRef.as_of_sequence ev
                                then Inl (FutureEvidenceSequence asq (EvidenceRef.as_of_sequence ev))
                                else if provenance_event_id a \<noteq> EvidenceRef.event_id ev
                                then Inl (ArtifactProvenanceMismatch aid (EvidenceRef.event_id ev))
                                else if content_hash a \<noteq> EvidenceRef.source_hash ev
                                then Inl (ArtifactHashMismatch aid)
                                else Inr ())))
                 | None \<Rightarrow>
                     (let e = events ! i in
                      res_bind
                        (if integrity_hash e = [] then map_err Event (canonical_hash x e)
                         else Inr (integrity_hash e)) (\<lambda>h.
                      if h \<noteq> EvidenceRef.source_hash ev
                      then Inl (EventHashMismatch (EvidenceRef.event_id ev)) else Inr ()))))))"

fun validate_evidence_refs ::
  "ext \<Rightarrow> CurrentState \<Rightarrow> ExperienceEvent list \<Rightarrow> EvidenceRef list \<Rightarrow> u64 \<Rightarrow> CompletionError + unit"
where
  "validate_evidence_refs x s events [] as_of = Inr ()"
| "validate_evidence_refs x s events (ev # evs) as_of =
     res_bind (validate_one_evidence x s events as_of ev) (\<lambda>_.
     validate_evidence_refs x s events evs as_of)"

definition state_as_of ::
  "ext \<Rightarrow> ExperienceEvent list \<Rightarrow> u64 \<Rightarrow> CompletionError + CurrentState"
where
  "state_as_of x events as_of =
     (if as_of > len_u64 events then Inl (FutureEvidenceSequence as_of (len_u64 events))
      else map_err Projection (replay x (take (unat as_of) events)))"

fun latest_claims_from ::
  "ext \<Rightarrow> (CompletionCriterionId, CompletionClaimId) btree \<Rightarrow> ExperienceEvent list \<Rightarrow>
   CompletionError + (CompletionCriterionId, CompletionClaimId) btree"
where
  "latest_claims_from x latest [] = Inr latest"
| "latest_claims_from x latest (e # es) =
     (if event_kind e \<noteq> CompletionClaimCreated then latest_claims_from x latest es
      else
        res_bind (map_err Serialization (de_claim x (payload e))) (\<lambda>claim.
        latest_claims_from x
          (bt_insert (CompletionClaim.criterion_id claim) (CompletionClaim.id claim) latest) es))"

definition latest_claims ::
  "ext \<Rightarrow> ExperienceEvent list \<Rightarrow> CompletionError + (CompletionCriterionId, CompletionClaimId) btree"
where
  "latest_claims x events = latest_claims_from x [] events"

definition claim_event_id :: "ExperienceEvent list \<Rightarrow> CompletionClaimId \<Rightarrow> EventId option" where
  "claim_event_id events cid =
     find_map (\<lambda>e.
       if event_kind e = CompletionClaimCreated \<and> subject_is e EntityKind.CompletionClaim (uuid cid)
       then Some (ExperienceEvent.event_id e) else None) (rev events)"

section \<open>The gate\<close>

text \<open>The five vectors the loop over the required criteria fills.\<close>

record verdict =
  missing :: "CompletionCriterionId list"
  needs_validation :: "CompletionClaimId list"
  rejected :: "CompletionClaimId list"
  blockers :: "string list"
  verified :: "CompletionClaimId list"

definition no_verdict :: verdict where
  "no_verdict = \<lparr>missing = [], needs_validation = [], rejected = [], blockers = [], verified = []\<rparr>"

abbreviation block :: "string \<Rightarrow> verdict \<Rightarrow> verdict" where
  "block msg a \<equiv> a\<lparr>blockers := blockers a @ [msg]\<rparr>"

definition judge_claim ::
  "ext \<Rightarrow> (CompletionError \<Rightarrow> string) \<Rightarrow> CurrentState \<Rightarrow> ExperienceEvent list \<Rightarrow>
   CompletionClaim \<Rightarrow> verdict \<Rightarrow> verdict"
where
  "judge_claim x display s events c a =
     (let i = CompletionClaim.id c; name = ''claim '' @ id_text x i in
      case CompletionClaim.disposition c of
        NeedsValidation \<Rightarrow>
          block (name @ '' needs validation'')
            (a\<lparr>needs_validation := needs_validation a @ [i]\<rparr>)
      | VerificationDisposition.Rejected \<Rightarrow>
          block (name @ '' was rejected'') (a\<lparr>rejected := rejected a @ [i]\<rparr>)
      | VerificationDisposition.Verified \<Rightarrow>
          (case Option.bind (blocker c) non_empty of
             Some b \<Rightarrow> block b a
           | None \<Rightarrow>
               if CompletionClaim.evidence_refs c = [] then block (name @ '' has no evidence'') a
               else if CompletionClaim.fingerprint c \<noteq>
                       completion_fingerprint x (CompletionClaim.task_id c)
                         (CompletionClaim.criterion_id c) (CompletionClaim.evidence_refs c)
               then block (name @ '' fingerprint does not match its evidence'') a
               else
                 (case validate_evidence_refs x s events (CompletionClaim.evidence_refs c)
                         (CompletionClaim.as_of_sequence c) of
                    Inl err \<Rightarrow> block (display err) a
                  | Inr _ \<Rightarrow> a\<lparr>verified := verified a @ [i]\<rparr>)))"

definition judge_criterion ::
  "ext \<Rightarrow> (CompletionError \<Rightarrow> string) \<Rightarrow> CurrentState \<Rightarrow> ExperienceEvent list \<Rightarrow>
   (CompletionCriterionId, CompletionClaimId) btree \<Rightarrow> CompletionCriterion \<Rightarrow> verdict \<Rightarrow> verdict"
where
  "judge_criterion x display s events latest k a =
     (let i = CompletionCriterion.id k in
      case Option.bind (bt_get latest i) (bt_get (completion_claims s)) of
        None \<Rightarrow>
          block (''criterion '' @ id_text x i @ '' has no active claim'')
            (a\<lparr>missing := missing a @ [i]\<rparr>)
      | Some c \<Rightarrow> judge_claim x display s events c a)"

definition evaluate_task_completion_in ::
  "ext \<Rightarrow> (CompletionError \<Rightarrow> string) \<Rightarrow> CurrentState \<Rightarrow> ExperienceEvent list \<Rightarrow> TaskId \<Rightarrow>
   CompletionError + CompletionGateResult"
where
  "evaluate_task_completion_in x display s events tid =
     res_bind (ensure_task s tid) (\<lambda>_.
     res_bind (latest_claims x events) (\<lambda>latest.
     let a = fold (judge_criterion x display s events latest)
               (filter (\<lambda>k. CompletionCriterion.task_id k = tid \<and> CompletionCriterion.required k)
                 (bt_values (completion_criteria s))) no_verdict;
         pending = map Approval.id
           (filter (\<lambda>p. Approval.status p = ApprovalStatus.Pending) (bt_values (approvals s)));
         unknown = map Operation.id
           (filter (\<lambda>p. Operation.status p \<in> {OperationStatus.Started, OperationStatus.Unknown})
             (bt_values (operations s)));
         blocked = blockers a @
           map (\<lambda>i. ''approval '' @ id_text x i @ '' is pending'') pending @
           map (\<lambda>i. ''operation '' @ id_text x i @ '' has unknown effect state'') unknown in
     if missing a = [] \<and> needs_validation a = [] \<and> rejected a = [] \<and> blocked = [] \<and>
        pending = [] \<and> unknown = []
     then Inr (Ready (verified a))
     else Inr (Blocked (missing a) (needs_validation a) (rejected a) blocked pending unknown)))"

section \<open>Operations\<close>

definition completion_event ::
  "ext \<Rightarrow> EventId \<Rightarrow> string \<Rightarrow> string \<Rightarrow> PrincipalId \<Rightarrow> EventKind \<Rightarrow> EntityKind \<Rightarrow> Uuid \<Rightarrow>
   (string + json) \<Rightarrow> string option \<Rightarrow> EventId option \<Rightarrow> string option \<Rightarrow>
   CompletionError + ExperienceEvent"
where
  "completion_event x eid t1 t2 actor k ek u value corr caus sref =
     res_bind (map_err Serialization value) (\<lambda>v.
     map_err Event
       (new_with_id x t1 t2 eid actor k (Some \<lparr>EntityRef.kind = ek, id = u\<rparr>) v
         \<lparr>EventSource.source_type = ''completion'', source_ref = sref\<rparr> caus corr None))"

definition commit ::
  "ext \<Rightarrow> codec \<Rightarrow> (stage \<Rightarrow> string option) \<Rightarrow> Db \<Rightarrow> u64 \<Rightarrow> ExperienceEvent \<Rightarrow>
   CompletionError + CurrentState \<times> Db"
where
  "commit x c flt db expected e =
     (case record_batch x c flt db [e] (Some expected) None of
        Inr r \<Rightarrow> Inr r
      | Inl (ProjectionError.StaleContext ex ac) \<Rightarrow> Inl (StaleRevision ex ac)
      | Inl (ProjectionError.Storage (StorageError.StaleContext ex ac)) \<Rightarrow> Inl (StaleRevision ex ac)
      | Inl err \<Rightarrow> Inl (Projection err))"

text \<open>\<open>read\<close> is the database at the first reading, \<open>db\<close> the one the commit finds.\<close>

definition define_criterion ::
  "ext \<Rightarrow> codec \<Rightarrow> (stage \<Rightarrow> string option) \<Rightarrow> CompletionCriterionId \<Rightarrow> EventId \<Rightarrow> string \<Rightarrow> string \<Rightarrow>
   string \<Rightarrow> Db \<Rightarrow> Db \<Rightarrow> PrincipalId \<Rightarrow> TaskId \<Rightarrow> string \<Rightarrow> bool \<Rightarrow>
   CompletionError + CompletionCriterion \<times> Db"
where
  "define_criterion x c flt new_id eid t0 t1 t2 read db actor tid desc req =
     res_bind (map_err CompletionError.Storage (load_state x c read)) (\<lambda>s.
     res_bind (ensure_task s tid) (\<lambda>_.
     res_bind (ensure_non_model_actor s actor) (\<lambda>_.
     let d = trim desc; normalized = normalize_description x d in
     if d = [] then Inl EmptyCriterionDescription
     else if \<exists>k \<in> set (bt_values (completion_criteria s)).
               CompletionCriterion.task_id k = tid \<and>
               normalize_description x (CompletionCriterion.description k) = normalized
     then Inl DuplicateCriterion
     else
       (let k = \<lparr>CompletionCriterion.id = new_id, task_id = tid, description = d,
                 required = req, created_at = t0\<rparr> in
        res_bind (completion_event x eid t1 t2 actor CompletionCriterionDefined
            EntityKind.CompletionCriterion (uuid new_id) (criterion_to_value x k)
            (Some (id_text x tid)) None None) (\<lambda>e.
        res_bind (commit x c flt db (CurrentState.revision s) e) (\<lambda>r.
        Inr (k, snd r)))))))"

definition create_claim ::
  "ext \<Rightarrow> codec \<Rightarrow> (stage \<Rightarrow> string option) \<Rightarrow> CompletionClaimId \<Rightarrow> EventId \<Rightarrow> string \<Rightarrow> string \<Rightarrow>
   string \<Rightarrow> Db \<Rightarrow> Db \<Rightarrow> Db \<Rightarrow> PrincipalId \<Rightarrow> TaskId \<Rightarrow> CompletionCriterionId \<Rightarrow> u8 \<Rightarrow>
   EvidenceRef list \<Rightarrow> string option \<Rightarrow> CompletionClaimId option \<Rightarrow>
   CompletionError + CompletionClaim \<times> Db"
where
  "create_claim x c flt new_id eid t0 t1 t2 read1 read2 db actor tid kid conf refs0 blk prev =
     res_bind (map_err CompletionError.Storage (load_state x c read1)) (\<lambda>s.
     res_bind (ensure_task s tid) (\<lambda>_.
     res_bind (ensure_non_model_actor s actor) (\<lambda>_.
     res_bind (ensure_criterion s tid kid) (\<lambda>_.
     if conf > 100 then Inl (InvalidConfidence conf)
     else
       res_bind (map_err CompletionError.Storage (load_events x c read2)) (\<lambda>events.
       let refs = normalize_evidence_refs refs0; fp = completion_fingerprint x tid kid refs in
       res_bind (validate_evidence_refs x s events refs (CurrentState.revision s)) (\<lambda>_.
       if \<exists>d \<in> set (bt_values (completion_claims s)). CompletionClaim.fingerprint d = fp
       then Inl (DuplicateFingerprint fp)
       else
         res_bind (validate_supersedes s tid kid prev) (\<lambda>_.
         let claim = \<lparr>CompletionClaim.id = new_id, task_id = tid, criterion_id = kid,
               disposition = NeedsValidation, confidence = conf, evidence_refs = refs,
               blocker = Option.bind blk non_empty, fingerprint = fp,
               as_of_sequence = CurrentState.revision s, supersedes = prev, created_at = t0\<rparr> in
         if \<exists>d \<in> set (bt_values (completion_claims s)).
              CompletionClaim.fingerprint d = CompletionClaim.fingerprint claim
         then Inl (DuplicateFingerprint (CompletionClaim.fingerprint claim))
         else res_bind (completion_event x eid t1 t2 actor CompletionClaimCreated
             EntityKind.CompletionClaim (uuid new_id) (claim_to_value x claim)
             (Some (id_text x tid)) None None) (\<lambda>e.
         res_bind (commit x c flt db (CurrentState.revision s) e) (\<lambda>r.
         Inr (claim, snd r)))))))))) "

definition transition_claim ::
  "ext \<Rightarrow> codec \<Rightarrow> (stage \<Rightarrow> string option) \<Rightarrow> EventId \<Rightarrow> string \<Rightarrow> string \<Rightarrow> string \<Rightarrow>
   Db \<Rightarrow> Db \<Rightarrow> Db \<Rightarrow> PrincipalId \<Rightarrow> CompletionClaimId \<Rightarrow> VerificationDisposition \<Rightarrow> string \<Rightarrow>
   CompletionError + CompletionClaim \<times> Db"
where
  "transition_claim x c flt eid t0 t1 t2 read1 read2 db actor cid d reason0 =
     res_bind (map_err CompletionError.Storage (load_state x c read1)) (\<lambda>s.
     case bt_get (completion_claims s) cid of
       None \<Rightarrow> Inl (UnknownClaim cid)
     | Some claim \<Rightarrow>
         res_bind (ensure_non_model_actor s actor) (\<lambda>_.
         if CompletionClaim.disposition claim \<noteq> NeedsValidation \<or>
            d \<notin> {VerificationDisposition.Verified, VerificationDisposition.Rejected}
         then Inl (InvalidDispositionTransition (CompletionClaim.disposition claim) d)
         else
           (case non_empty reason0 of
              None \<Rightarrow> Inl InvalidReason
            | Some rsn \<Rightarrow>
           res_bind (map_err CompletionError.Storage (load_events x c read2)) (\<lambda>events.
           if d = VerificationDisposition.Verified \<and> CompletionClaim.evidence_refs claim = []
           then Inl EvidenceRequired
           else if d = VerificationDisposition.Verified \<and>
                   Option.bind (blocker claim) non_empty \<noteq> None
           then Inl BlockerPresent
           else
             res_bind (validate_evidence_refs x s events (CompletionClaim.evidence_refs claim)
               (CompletionClaim.as_of_sequence claim)) (\<lambda>_.
             let t = \<lparr>claim_id = CompletionClaim.id claim,
                   CompletionClaimTransition.task_id = CompletionClaim.task_id claim,
                   criterion_id = CompletionClaim.criterion_id claim,
                   previous_disposition = CompletionClaim.disposition claim,
                   disposition = d, reason = rsn,
                   evidence_refs = CompletionClaim.evidence_refs claim, transitioned_at = t0\<rparr> in
             res_bind (completion_event x eid t1 t2 actor
                 (if d = VerificationDisposition.Verified then CompletionClaimVerified
                  else CompletionClaimRejected)
                 EntityKind.CompletionClaim (uuid (CompletionClaim.id claim))
                 (claim_transition_to_value x t)
                 (Some (id_text x (CompletionClaim.task_id claim)))
                 (claim_event_id events (CompletionClaim.id claim))
                 (Some (id_text x actor))) (\<lambda>e.
             res_bind (commit x c flt db (CurrentState.revision s) e) (\<lambda>r.
             case bt_get (completion_claims (fst r)) cid of
               None \<Rightarrow> Inl (UnknownClaim cid)
             | Some claim' \<Rightarrow> Inr (claim', snd r))))))))"

definition verify_claim where
  "verify_claim x c flt eid t0 t1 t2 read1 read2 db actor cid reason0 =
     transition_claim x c flt eid t0 t1 t2 read1 read2 db actor cid
       VerificationDisposition.Verified reason0"

definition reject_claim where
  "reject_claim x c flt eid t0 t1 t2 read1 read2 db actor cid reason0 =
     transition_claim x c flt eid t0 t1 t2 read1 read2 db actor cid
       VerificationDisposition.Rejected reason0"

definition evaluate_task_completion ::
  "ext \<Rightarrow> (CompletionError \<Rightarrow> string) \<Rightarrow> codec \<Rightarrow> Db \<Rightarrow> TaskId \<Rightarrow> u64 \<Rightarrow>
   CompletionError + CompletionGateResult"
where
  "evaluate_task_completion x display c read tid as_of =
     res_bind (map_err CompletionError.Storage (load_events x c read)) (\<lambda>events.
     res_bind (state_as_of x events as_of) (\<lambda>s.
     evaluate_task_completion_in x display s (take (unat as_of) events) tid))"

definition complete_task ::
  "ext \<Rightarrow> (CompletionError \<Rightarrow> string) \<Rightarrow> codec \<Rightarrow> (stage \<Rightarrow> string option) \<Rightarrow> EventId \<Rightarrow> string \<Rightarrow>
   string \<Rightarrow> Db \<Rightarrow> Db \<Rightarrow> PrincipalId \<Rightarrow> TaskId \<Rightarrow> u64 \<Rightarrow> CompletionError + Task \<times> Db"
where
  "complete_task x display c flt eid t1 t2 read db actor tid expected =
     res_bind (map_err CompletionError.Storage (load_events x c read)) (\<lambda>events.
     res_bind (map_err Projection (replay x events)) (\<lambda>s.
     res_bind (ensure_task s tid) (\<lambda>_.
     res_bind (ensure_non_model_actor s actor) (\<lambda>_.
     case bt_get (tasks s) tid of
       None \<Rightarrow> Inl (UnknownTask tid)
     | Some current \<Rightarrow>
         if Task.status current = TaskStatus.Completed then Inr (current, db)
         else if expected \<noteq> CurrentState.revision s
         then Inl (StaleRevision expected (CurrentState.revision s))
         else
           res_bind (evaluate_task_completion_in x display s events tid) (\<lambda>g.
           case g of
             CompletionGateResult.Blocked ms ns rs bs ps us \<Rightarrow> Inl (GateBlocked g)
           | CompletionGateResult.Ready vs \<Rightarrow>
               res_bind (map_err Transition (transition_task current TaskStatus.Completed)) (\<lambda>done.
               res_bind (completion_event x eid t1 t2 actor TaskCompleted EntityKind.Task (uuid tid)
                   (task_to_value x done) (Some (id_text x tid)) None None) (\<lambda>e.
               res_bind (commit x c flt db (CurrentState.revision s) e) (\<lambda>r.
               Inr (done, snd r))))))))) "

definition completion_status ::
  "ext \<Rightarrow> (CompletionError \<Rightarrow> string) \<Rightarrow> codec \<Rightarrow> Db \<Rightarrow> TaskId \<Rightarrow> u64 \<Rightarrow>
   CompletionError + CompletionStatusReport"
where
  "completion_status x display c read tid as_of =
     res_bind (map_err CompletionError.Storage (load_events x c read)) (\<lambda>events.
     res_bind (state_as_of x events as_of) (\<lambda>s.
     res_bind (ensure_task s tid) (\<lambda>_.
     res_bind (latest_claims x (take (unat as_of) events)) (\<lambda>latest.
     let ks = map (\<lambda>k.
           \<lparr>CompletionCriterionStatus.criterion_id = CompletionCriterion.id k,
            description = CompletionCriterion.description k,
            required = CompletionCriterion.required k,
            latest_claim = Option.bind (bt_get latest (CompletionCriterion.id k))
              (bt_get (completion_claims s))\<rparr>)
         (filter (\<lambda>k. CompletionCriterion.task_id k = tid) (bt_values (completion_criteria s))) in
     res_bind (evaluate_task_completion_in x display s (take (unat as_of) events) tid) (\<lambda>g.
     Inr \<lparr>CompletionStatusReport.task_id = tid, as_of_sequence = as_of, criteria = ks,
          gate = g\<rparr>)))))"

end
