(* ===== verification/InitiativeHistory.thy ===== *)
theory InitiativeHistory
  imports Projector
begin

text \<open>
  What the projector guarantees about initiatives, focus resolutions and task completion over
  any ledger: an initiative is proposed and readied by HEKATE for a user and dismissed by that
  user, its status only advances; an observation is resolved once, to work that is open to its
  author.
\<close>

section \<open>Initiatives\<close>

definition initiative_ok :: "ext \<Rightarrow> CurrentState \<Rightarrow> InitiativeProposal \<Rightarrow> bool" where
  "initiative_ok x s p \<longleftrightarrow>
     InitiativeProposal.status p \<in> {Proposed, Ready, Dismissed} \<and>
     \<not> blank (InitiativeProposal.content p) \<and> \<not> blank (InitiativeProposal.rationale p) \<and>
     InitiativeProposal.source_event_ids p \<noteq> [] \<and>
     set (InitiativeProposal.source_event_ids p) \<subseteq> set (applied_events s) \<and>
     initiative_fingerprint x (InitiativeProposal.kind p) (source_entity p) (source_version p)
       (InitiativeProposal.target_principal_id p) (InitiativeProposal.source_event_ids p) =
       InitiativeProposal.fingerprint p"

definition initiatives_inv :: "ext \<Rightarrow> CurrentState \<Rightarrow> bool" where
  "initiatives_inv x s \<longleftrightarrow>
     bt_wf (initiatives s) \<and>
     (\<forall>i p. bt_get (initiatives s) i = Some p \<longrightarrow> InitiativeProposal.id p = i \<and> initiative_ok x s p) \<and>
     (\<forall>i j p q. bt_get (initiatives s) i = Some p \<longrightarrow> bt_get (initiatives s) j = Some q \<longrightarrow>
        InitiativeProposal.fingerprint p = InitiativeProposal.fingerprint q \<longrightarrow> i = j)"

text \<open>The moves of an initiative and who makes them.\<close>

definition initiative_move ::
  "CurrentState \<Rightarrow> PrincipalId \<Rightarrow> InitiativeProposal \<Rightarrow> InitiativeProposal \<Rightarrow> bool"
where
  "initiative_move s actor p q \<longleftrightarrow>
     q = p\<lparr>InitiativeProposal.status := InitiativeProposal.status q\<rparr> \<and>
     (InitiativeProposal.status p = Proposed \<and> InitiativeProposal.status q = Ready \<and>
        is_model_actor s actor \<or>
      InitiativeProposal.status p \<in> {Proposed, Ready} \<and>
        InitiativeProposal.status q = Dismissed \<and>
        actor = InitiativeProposal.target_principal_id p)"

lemma initiative_status_Inr:
  "apply_initiative_status x s e p from to = Inr s' \<Longrightarrow>
     (\<exists>current. bt_get (initiatives s) (InitiativeProposal.id p) = Some current \<and>
        InitiativeProposal.status current = from \<and>
        p = current\<lparr>InitiativeProposal.status := to\<rparr>) \<and>
     s' = s\<lparr>initiatives := bt_insert (InitiativeProposal.id p) p (initiatives s)\<rparr>"
  by (auto simp: apply_initiative_status_def Let_def res_simps)

lemma initiative_step:
  assumes "apply_kind x s e = Inr t"
  obtains (same) "initiatives t = initiatives s"
  | (proposed) p where "event_kind e = InitiativeProposed" and "initiative_ok x s p"
      and "InitiativeProposal.status p = Proposed"
      and "is_model_actor s (ExperienceEvent.actor_id e)"
      and "is_some_and (bt_get (principals s) (InitiativeProposal.target_principal_id p))
             (\<lambda>q. Principal.kind q = User)"
      and "\<not> bt_contains (initiatives s) (InitiativeProposal.id p)"
      and "\<not> (\<exists>q \<in> set (bt_values (initiatives s)).
             InitiativeProposal.fingerprint q = InitiativeProposal.fingerprint p)"
      and "initiatives t = bt_insert (InitiativeProposal.id p) p (initiatives s)"
  | (moved) p q where "bt_get (initiatives s) (InitiativeProposal.id q) = Some p"
      and "initiative_move s (ExperienceEvent.actor_id e) p q"
      and "initiatives t = bt_insert (InitiativeProposal.id q) q (initiatives s)"
proof (cases "event_kind e \<in> {InitiativeProposed, InitiativeReadied, InitiativeDismissed}")
  case False
  with initiatives_frame [OF assms] show ?thesis using same by simp
next
  case True
  then consider "event_kind e = InitiativeProposed" | "event_kind e = InitiativeReadied"
    | "event_kind e = InitiativeDismissed" by auto
  then show ?thesis
  proof cases
    case 1
    with assms have "apply_initiative_proposed x s e = Inr t" by (simp add: apply_kind_def)
    then show ?thesis
      using 1 by (auto simp: apply_initiative_proposed_def Let_def res_simps decode_Inr
          initiative_ok_def intro!: proposed)
  next
    case 2
    with assms obtain q where q: "InitiativeProposal.status q = Ready"
      "is_model_actor s (ExperienceEvent.actor_id e)"
      "apply_initiative_status x s e q Proposed Ready = Inr t"
      by (auto simp: apply_kind_def apply_initiative_transition_def res_simps)
    from initiative_status_Inr [OF q(3)] q(1,2) show ?thesis
      by (auto simp: initiative_move_def intro!: moved [of q])
  next
    case 3
    with assms obtain q where q: "InitiativeProposal.status q = Dismissed"
      "ExperienceEvent.actor_id e = InitiativeProposal.target_principal_id q"
      "\<exists>st \<in> {Proposed, Ready}. apply_initiative_status x s e q st Dismissed = Inr t"
      by (auto simp: apply_kind_def apply_initiative_dismissed_def Let_def res_simps)
    from q(3) obtain st where st: "st = Proposed \<or> st = Ready"
      and ap: "apply_initiative_status x s e q st Dismissed = Inr t" by blast
    from initiative_status_Inr [OF ap] q(1,2) st show ?thesis
      by (auto simp: initiative_move_def intro!: moved [of q])
  qed
qed

lemma initiative_move_ok:
  "initiative_move s actor p q \<Longrightarrow> initiative_ok x s p \<Longrightarrow>
     initiative_ok x s q \<and> InitiativeProposal.id q = InitiativeProposal.id p \<and>
     InitiativeProposal.fingerprint q = InitiativeProposal.fingerprint p"
  by (cases p; cases q) (auto simp: initiative_move_def initiative_ok_def)

lemma initiatives_inv_kind:
  assumes inv: "initiatives_inv x s" and step: "apply_kind x s e = Inr t"
  shows "bt_wf (initiatives t) \<and>
     (\<forall>i p. bt_get (initiatives t) i = Some p \<longrightarrow> InitiativeProposal.id p = i \<and> initiative_ok x s p) \<and>
     (\<forall>i j p q. bt_get (initiatives t) i = Some p \<longrightarrow> bt_get (initiatives t) j = Some q \<longrightarrow>
        InitiativeProposal.fingerprint p = InitiativeProposal.fingerprint q \<longrightarrow> i = j)"
proof -
  have old: "InitiativeProposal.id p = i \<and> initiative_ok x s p"
    if "bt_get (initiatives s) i = Some p" for i p
    using that inv unfolding initiatives_inv_def by blast
  have wf: "bt_wf (initiatives s)"
    and fps: "\<forall>i j p q. bt_get (initiatives s) i = Some p \<longrightarrow> bt_get (initiatives s) j = Some q \<longrightarrow>
        InitiativeProposal.fingerprint p = InitiativeProposal.fingerprint q \<longrightarrow> i = j"
    using inv unfolding initiatives_inv_def by blast+
  from step show ?thesis
  proof (cases rule: initiative_step)
    case same
    show ?thesis unfolding same using wf old fps by blast
  next
    case (proposed p)
    have "InitiativeProposal.id q = i \<and> initiative_ok x s q"
      if "bt_get (initiatives t) i = Some q" for i q
      using that old [of i q] proposed(2,8) by (cases "i = InitiativeProposal.id p") simp_all
    moreover note inj = bt.insert_fresh_inj [OF wf fps proposed(7), of "InitiativeProposal.id p",
        folded proposed(8)]
    moreover have "bt_wf (initiatives t)" by (simp add: proposed(8) wf)
    ultimately show ?thesis by blast
  next
    case (moved p q)
    have p: "initiative_ok x s p" using old [OF moved(1)] ..
    have q: "initiative_ok x s q" "InitiativeProposal.fingerprint p = InitiativeProposal.fingerprint q"
      using initiative_move_ok [OF moved(2) p] by simp_all
    have all: "InitiativeProposal.id r = i \<and> initiative_ok x s r"
      if "bt_get (initiatives t) i = Some r" for i r
      using that old [of i r] q(1) moved(3) by (cases "i = InitiativeProposal.id q") simp_all
    have pre: "\<exists>r'. bt_get (initiatives s) i = Some r' \<and>
        InitiativeProposal.fingerprint r' = InitiativeProposal.fingerprint r"
      if "bt_get (initiatives t) i = Some r" for i r
    proof (cases "i = InitiativeProposal.id q")
      case True
      with that have "r = q" by (simp add: moved(3))
      with True moved(1) q(2) show ?thesis by simp
    next
      case False
      with that show ?thesis by (simp add: moved(3))
    qed
    have "i = j" if "bt_get (initiatives t) i = Some a" and "bt_get (initiatives t) j = Some b"
      and "InitiativeProposal.fingerprint a = InitiativeProposal.fingerprint b" for i j a b
      using pre [OF that(1)] pre [OF that(2)] that(3) fps by metis
    moreover have "bt_wf (initiatives t)" by (simp add: moved(3) wf)
    ultimately show ?thesis using all by blast
  qed
qed

lemma initiatives_inv_step:
  assumes inv: "initiatives_inv x s" and step: "apply_event x s e = Inr s'"
  shows "initiatives_inv x s'"
  using step
proof (cases rule: apply_event_cases)
  case (1 t)
  then have eq: "initiatives s' = initiatives t" by simp
  have "initiative_ok x s' p" if "initiative_ok x s p" for p
    using that 1(2) by (auto simp: initiative_ok_def)
  with initiatives_inv_kind [OF inv 1(1)] show ?thesis
    unfolding initiatives_inv_def eq by blast
qed

lemma initiatives_inv_default: "initiatives_inv x default_state"
  by (simp add: initiatives_inv_def default_state_def)

lemma initiatives_inv_replay: "replay x es = Inr s \<Longrightarrow> initiatives_inv x s"
  unfolding replay_def
  by (rule ledger.run_invariant [where I = "initiatives_inv x"])
    (auto intro: initiatives_inv_step initiatives_inv_default)

text \<open>Proposed, then ready, then dismissed: the rank of a status only grows.\<close>

fun initiative_rank :: "InitiativeStatus \<Rightarrow> nat" where
  "initiative_rank Proposed = 0"
| "initiative_rank AwaitingApproval = 1"
| "initiative_rank Ready = 2"
| "initiative_rank Delivered = 3"
| "initiative_rank Dismissed = 4"

definition initiative_advances :: "InitiativeProposal \<Rightarrow> InitiativeProposal \<Rightarrow> bool" where
  "initiative_advances p q \<longleftrightarrow>
     q = p\<lparr>InitiativeProposal.status := InitiativeProposal.status q\<rparr> \<and>
     initiative_rank (InitiativeProposal.status p) \<le> initiative_rank (InitiativeProposal.status q)"

lemma initiative_advances_order: "reflp initiative_advances" "transp initiative_advances"
proof -
  show "reflp initiative_advances" by (simp add: reflp_def initiative_advances_def)
  have "initiative_advances a c" if "initiative_advances a b" "initiative_advances b c" for a b c
    using that unfolding initiative_advances_def by (cases a; cases b; cases c) simp
  then show "transp initiative_advances" by (blast intro: transpI)
qed

lemma initiatives_extend_step:
  assumes "apply_event x s e = Inr s'"
  shows "bt_rel initiative_advances (initiatives s) (initiatives s')"
  using assms
proof (cases rule: apply_event_cases)
  case (1 t)
  from 1(1) have "bt_rel initiative_advances (initiatives s) (initiatives t)"
  proof (cases rule: initiative_step)
    case same
    then show ?thesis by (auto intro: bt_rel_refl initiative_advances_order)
  next
    case (proposed p)
    then show ?thesis by (auto intro: bt_rel_insert_fresh initiative_advances_order)
  next
    case (moved p q)
    then have "initiative_advances p q"
      by (auto simp: initiative_move_def initiative_advances_def)
    with moved(1,3) show ?thesis
      by (auto intro!: bt_rel_insert initiative_advances_order)
  qed
  with 1(2) show ?thesis by simp
qed

lemma initiatives_extend_run:
  assumes "apply_all x s es = Inr s'"
  shows "bt_rel initiative_advances (initiatives s) (initiatives s')"
proof (rule ledger.run_monotone [where I = "\<lambda>_. True"
      and R = "\<lambda>s s'. bt_rel initiative_advances (initiatives s) (initiatives s')", OF _ _ _ _ _ assms])
  show "reflp (\<lambda>s s'. bt_rel initiative_advances (initiatives s) (initiatives s'))"
    by (blast intro: reflpI bt_rel_refl initiative_advances_order)
  show "transp (\<lambda>s s'. bt_rel initiative_advances (initiatives s) (initiatives s'))"
    by (blast intro: transpI bt_rel_trans initiative_advances_order)
qed (auto intro: initiatives_extend_step)

section \<open>Focus resolutions\<close>

text \<open>Work the author of an observation may be directed to.\<close>

definition open_work :: "CurrentState \<Rightarrow> PrincipalId \<Rightarrow> Focus \<Rightarrow> bool" where
  "open_work s actor f \<longleftrightarrow>
     is_some_and (Option.bind (Focus.task_id f) (bt_get (tasks s))) (\<lambda>t.
       Task.status t = TaskStatus.InProgress \<and> Task.goal_id t = Focus.goal_id f \<and>
       is_some_and (Option.bind (Task.goal_id t) (bt_get (goals s)))
         (\<lambda>g. Goal.status g = GoalStatus.Active \<and> goal_open_to g actor)) \<and>
     is_some_and (Option.bind (Focus.run_id f) (bt_get (runs s))) (\<lambda>r.
       Run.task_id r = Focus.task_id f \<and> Run.status r \<in> {RunStatus.Pending, RunStatus.Running})"

definition resolution_ok :: "CurrentState \<Rightarrow> PrincipalId \<Rightarrow> FocusResolution \<Rightarrow> bool" where
  "resolution_ok s actor r \<longleftrightarrow>
     (let f = FocusResolution.focus r in
      case FocusResolution.outcome r of
        Conversation \<Rightarrow>
          Focus.goal_id f = None \<and> Focus.task_id f = None \<and>
          is_some_and (Option.bind (Focus.run_id f) (bt_get (runs s))) (\<lambda>rn. Run.task_id rn = None)
      | Clarification \<Rightarrow>
          f = unattached \<and> is_some_and (clarification r) (\<lambda>q. \<not> blank q)
      | _ \<Rightarrow> open_work s actor f)"

lemma focus_is_valid_ok:
  "focus_is_valid s k actor r = Inr True \<Longrightarrow> resolution_ok s actor r"
  by (cases "FocusResolution.outcome r"; cases "FocusResolution.focus r")
    (auto simp: focus_is_valid_def resolution_ok_def open_work_def unattached_def Let_def
      res_simps split: option.splits)

lemma focus_resolution_Inr:
  "apply_focus_resolution x s e = Inr t \<Longrightarrow>
     \<exists>r obs. bt_get (observations s) (observation_id r) = Some obs \<and>
       ExperienceEvent.actor_id e = Observation.actor_id obs \<and>
       FocusResolution.as_of_revision r \<le> CurrentState.revision s \<and>
       \<not> bt_contains (focus_resolutions s) (observation_id r) \<and>
       resolution_ok s (Observation.actor_id obs) r \<and>
       t = s\<lparr>focus_resolutions := bt_insert (observation_id r) r (focus_resolutions s)\<rparr>"
  by (auto simp: apply_focus_resolution_def Let_def res_simps not_less)
    (blast dest: focus_is_valid_ok)

lemma focus_extend_step:
  assumes "apply_event x s e = Inr s'"
  shows "bt_rel (=) (focus_resolutions s) (focus_resolutions s')"
  using assms
proof (cases rule: apply_event_cases)
  case (1 t)
  show ?thesis
  proof (cases "event_kind e = FocusResolved")
    case True
    with 1(1) have "apply_focus_resolution x s e = Inr t" by (simp add: apply_kind_def)
    from focus_resolution_Inr [OF this] 1(2) show ?thesis
      by (auto intro!: bt_rel_insert_fresh simp: reflp_def)
  next
    case False
    with focus_frame [OF 1(1)] 1(2) show ?thesis by (auto intro: bt_rel_refl simp: reflp_def)
  qed
qed

section \<open>Task completion\<close>

lemma task_completion_Inr:
  "apply_task_completion x s e = Inr t \<Longrightarrow>
     \<exists>current. bt_get (tasks s) (Task.id current) = Some current \<and>
       Task.status current = TaskStatus.InProgress \<and>
       subject_is e EntityKind.Task (uuid (Task.id current)) \<and>
       t = s\<lparr>tasks := bt_insert (Task.id current)
               (current\<lparr>Task.status := TaskStatus.Completed\<rparr>) (tasks s)\<rparr>"
  by (auto simp: apply_task_completion_def Let_def res_simps transition_task_def
      task_allowed_Completed)

end
