(* ===== verification/CompletionHistory.thy ===== *)
theory CompletionHistory
  imports Completion InitiativeHistory
begin

text \<open>
  What the completion gate promises: its verdict in terms of claims and criteria, that its
  evidence checks imply the projector's, and what a successful operation leaves in the
  database.
\<close>

section \<open>Evidence\<close>

lemma position_index_map:
  "position_index (\<lambda>j. j = i) (map f xs) = position_index (\<lambda>y. f y = i) xs"
  by (induction xs) auto

lemma validate_one_evidence_ok:
  assumes "validate_one_evidence x s events as_of ev = Inr u"
    and "applied_events s = map ExperienceEvent.event_id events"
  shows "evidence_ref_ok s as_of ev"
proof -
  obtain i where i: "position_index (\<lambda>e. ExperienceEvent.event_id e = EvidenceRef.event_id ev) events = Some i"
    using assms(1)
    by (cases "position_index (\<lambda>e. ExperienceEvent.event_id e = EvidenceRef.event_id ev) events")
      (auto simp: validate_one_evidence_def split: if_splits)
  then have "event_sequence_of s (EvidenceRef.event_id ev) = Some (of_nat i + 1)"
    using assms(2) by (simp add: event_sequence_of_def position_index_map)
  then show ?thesis
    using assms(1) i by (cases "artifact_id ev")
      (auto simp: validate_one_evidence_def evidence_ref_ok_def Let_def res_simps is_some_and_iff
        not_less split: if_splits option.splits)
qed

lemma validate_evidence_refs_Inr:
  "validate_evidence_refs x s events evs as_of = Inr u \<longleftrightarrow>
     (\<forall>ev \<in> set evs. validate_one_evidence x s events as_of ev = Inr ())"
  by (induction x s events evs as_of rule: validate_evidence_refs.induct) (auto simp: res_simps)

lemma validate_evidence_refs_ok:
  "validate_evidence_refs x s events evs as_of = Inr u \<Longrightarrow>
     applied_events s = map ExperienceEvent.event_id events \<Longrightarrow>
     \<forall>ev \<in> set evs. evidence_ref_ok s as_of ev"
  unfolding validate_evidence_refs_Inr by (blast intro: validate_one_evidence_ok)

section \<open>The verdict\<close>

text \<open>A claim that discharges its criterion.\<close>

definition claim_counts :: "ext \<Rightarrow> CurrentState \<Rightarrow> ExperienceEvent list \<Rightarrow> CompletionClaim \<Rightarrow> bool" where
  "claim_counts x s events c \<longleftrightarrow>
     CompletionClaim.disposition c = VerificationDisposition.Verified \<and>
     \<not> is_some_and (blocker c) (\<lambda>b. \<not> blank b) \<and>
     CompletionClaim.evidence_refs c \<noteq> [] \<and>
     CompletionClaim.fingerprint c =
       completion_fingerprint x (CompletionClaim.task_id c) (CompletionClaim.criterion_id c)
         (CompletionClaim.evidence_refs c) \<and>
     is_ok (validate_evidence_refs x s events (CompletionClaim.evidence_refs c)
       (CompletionClaim.as_of_sequence c))"

definition criterion_met ::
  "ext \<Rightarrow> CurrentState \<Rightarrow> ExperienceEvent list \<Rightarrow>
   (CompletionCriterionId, CompletionClaimId) btree \<Rightarrow> CompletionCriterion \<Rightarrow> bool"
where
  "criterion_met x s events latest k \<longleftrightarrow>
     is_some_and (Option.bind (bt_get latest (CompletionCriterion.id k))
       (bt_get (completion_claims s))) (claim_counts x s events)"

definition required_criteria :: "CurrentState \<Rightarrow> TaskId \<Rightarrow> CompletionCriterion list" where
  "required_criteria s tid =
     filter (\<lambda>k. CompletionCriterion.task_id k = tid \<and> CompletionCriterion.required k)
       (bt_values (completion_criteria s))"

lemma non_empty_blank: "Option.bind b non_empty = None \<longleftrightarrow> \<not> is_some_and b (\<lambda>t. \<not> blank t)"
  by (cases b) (auto simp: non_empty_def blank_def Let_def)

lemma judge_blockers:
  "blockers (judge_criterion x display s events latest k a) = blockers a \<longleftrightarrow>
     criterion_met x s events latest k"
  (is "?same \<longleftrightarrow> ?met")
  and judge_met:
  "criterion_met x s events latest k \<Longrightarrow>
     judge_criterion x display s events latest k a =
       a\<lparr>verified := verified a @ [the (Option.bind (bt_get latest (CompletionCriterion.id k))
           (\<lambda>i. map_option CompletionClaim.id (bt_get (completion_claims s) i)))]\<rparr>"
proof -
  show "?same \<longleftrightarrow> ?met"
  proof (cases "Option.bind (bt_get latest (CompletionCriterion.id k)) (bt_get (completion_claims s))")
    case None
    then show ?thesis by (simp add: judge_criterion_def criterion_met_def Let_def)
  next
    case (Some c)
    then show ?thesis
      by (cases "CompletionClaim.disposition c"; cases "Option.bind (blocker c) non_empty")
        (auto simp: judge_criterion_def criterion_met_def judge_claim_def claim_counts_def Let_def
          non_empty_blank [symmetric] split: sum.splits)
  qed
  assume ?met
  then obtain c i where "bt_get latest (CompletionCriterion.id k) = Some i"
    and "bt_get (completion_claims s) i = Some c" and "claim_counts x s events c"
    by (auto simp: criterion_met_def is_some_and_iff bind_eq_Some_conv)
  then show "judge_criterion x display s events latest k a =
       a\<lparr>verified := verified a @ [the (Option.bind (bt_get latest (CompletionCriterion.id k))
           (\<lambda>i. map_option CompletionClaim.id (bt_get (completion_claims s) i)))]\<rparr>"
    by (auto simp: judge_criterion_def judge_claim_def claim_counts_def Let_def
        non_empty_blank [symmetric] is_ok_iff)
qed

lemma judge_blockers_grow:
  "\<exists>bs. blockers (judge_criterion x display s events latest k a) = blockers a @ bs"
  by (auto simp: judge_criterion_def judge_claim_def Let_def
      split: option.splits VerificationDisposition.splits sum.splits)

lemma fold_blockers_grow:
  "\<exists>bs. blockers (fold (judge_criterion x display s events latest) ks a) = blockers a @ bs"
proof (induction ks arbitrary: a)
  case (Cons k ks)
  from Cons.IH [of "judge_criterion x display s events latest k a"]
    judge_blockers_grow [of x display s events latest k a] show ?case by auto
qed simp

lemma fold_blockers:
  "blockers (fold (judge_criterion x display s events latest) ks a) = blockers a \<longleftrightarrow>
     (\<forall>k \<in> set ks. criterion_met x s events latest k)"
proof (induction ks arbitrary: a)
  case (Cons k ks)
  let ?b = "judge_criterion x display s events latest k a"
  obtain bs where bs: "blockers ?b = blockers a @ bs" using judge_blockers_grow by blast
  obtain cs where cs: "blockers (fold (judge_criterion x display s events latest) ks ?b) = blockers ?b @ cs"
    using fold_blockers_grow by blast
  have "blockers (fold (judge_criterion x display s events latest) (k # ks) a) = blockers a \<longleftrightarrow>
      bs = [] \<and> cs = []"
    using bs cs by simp
  moreover have "bs = [] \<longleftrightarrow> criterion_met x s events latest k"
    using judge_blockers [of x display s events latest k a] bs by simp
  moreover have "cs = [] \<longleftrightarrow> (\<forall>k \<in> set ks. criterion_met x s events latest k)"
    using Cons.IH [of ?b] cs by simp
  ultimately show ?case by simp
qed simp

lemma fold_met:
  "\<forall>k \<in> set ks. criterion_met x s events latest k \<Longrightarrow>
     missing (fold (judge_criterion x display s events latest) ks a) = missing a \<and>
     needs_validation (fold (judge_criterion x display s events latest) ks a) = needs_validation a \<and>
     rejected (fold (judge_criterion x display s events latest) ks a) = rejected a"
  by (induction ks arbitrary: a) (simp_all add: judge_met)

definition nothing_pending :: "CurrentState \<Rightarrow> bool" where
  "nothing_pending s \<longleftrightarrow>
     (\<forall>p \<in> set (bt_values (approvals s)). Approval.status p \<noteq> ApprovalStatus.Pending) \<and>
     (\<forall>p \<in> set (bt_values (operations s)).
        Operation.status p \<noteq> OperationStatus.Started \<and> Operation.status p \<noteq> OperationStatus.Unknown)"

lemma gate_ready_iff:
  "(\<exists>vs. evaluate_task_completion_in x display s events tid = Inr (CompletionGateResult.Ready vs)) \<longleftrightarrow>
     bt_contains (tasks s) tid \<and> nothing_pending s \<and>
     (\<exists>latest. latest_claims x events = Inr latest \<and>
        (\<forall>k \<in> set (required_criteria s tid). criterion_met x s events latest k))"
proof (cases "bt_contains (tasks s) tid \<and> is_ok (latest_claims x events)")
  case False
  then show ?thesis
    by (auto simp: evaluate_task_completion_in_def ensure_task_def is_ok_iff res_simps)
next
  case True
  then obtain latest where l: "latest_claims x events = Inr latest" by (auto simp: is_ok_iff)
  let ?a = "fold (judge_criterion x display s events latest) (required_criteria s tid) no_verdict"
  have met: "blockers ?a = [] \<longleftrightarrow> (\<forall>k \<in> set (required_criteria s tid). criterion_met x s events latest k)"
    using fold_blockers [of x display s events latest _ no_verdict] by (simp add: no_verdict_def)
  have rest: "missing ?a = [] \<and> needs_validation ?a = [] \<and> rejected ?a = []" if "blockers ?a = []"
    using fold_met [of "required_criteria s tid" x s events latest display no_verdict] that met
    by (simp add: no_verdict_def)
  have pend: "nothing_pending s \<longleftrightarrow>
      filter (\<lambda>p. Approval.status p = ApprovalStatus.Pending) (bt_values (approvals s)) = [] \<and>
      filter (\<lambda>p. Operation.status p \<in> {OperationStatus.Started, OperationStatus.Unknown})
        (bt_values (operations s)) = []"
    by (auto simp: nothing_pending_def filter_empty_conv)
  show ?thesis
    unfolding pend using True l met rest
    by (auto simp: evaluate_task_completion_in_def ensure_task_def Let_def required_criteria_def)
qed

section \<open>Committing\<close>

lemma commit_Inr:
  assumes "commit x c flt db expected e = Inr (s', db')" and "load_state x c db = Inr s"
  shows "CurrentState.revision s = expected \<and> apply_event x s e = Inr s' \<and>
    commit_batch x c flt db [e] s' (Some expected) None = Inr db'"
proof -
  from assms(1) have "record_batch x c flt db [e] (Some expected) None = Inr (s', db')"
    by (auto simp: commit_def split: sum.splits ProjectionError.splits StorageError.splits)
  from record_batch_Inr [OF this] assms(2) show ?thesis
    by (auto simp: res_simps)
qed

lemma commit_stale:
  "load_state x c db = Inr s \<Longrightarrow> CurrentState.revision s \<noteq> expected \<Longrightarrow>
     commit x c flt db expected e = Inl (StaleRevision expected (CurrentState.revision s))"
  by (simp add: commit_def record_batch_def)

lemma commit_projection_error:
  assumes "commit x c flt db (CurrentState.revision s) e = Inl (Projection (InvalidPayload k msg))"
    and "load_state x c db = Inr s"
  shows "apply_event x s e = Inl (InvalidPayload k msg)"
  using assms
  by (cases "apply_event x s e")
    (auto simp: commit_def record_batch_def res_bind_Inl_iff map_err_Inl_iff
      split: sum.splits ProjectionError.splits StorageError.splits)

lemma completion_event_Inr:
  assumes "completion_event x eid t1 t2 actor k ek u value corr caus sref = Inr e"
  shows "\<exists>v. value = Inr v \<and> payload e = v \<and> event_kind e = k \<and>
    ExperienceEvent.event_id e = eid \<and> ExperienceEvent.actor_id e = actor \<and>
    ExperienceEvent.subject e = Some \<lparr>EntityRef.kind = ek, id = u\<rparr> \<and>
    verify_integrity x e = Inr True"
proof -
  from assms obtain v where v: "value = Inr v"
    and e: "new_with_id x t1 t2 eid actor k (Some \<lparr>EntityRef.kind = ek, id = u\<rparr>) v
         \<lparr>EventSource.source_type = ''completion'', source_ref = sref\<rparr> caus corr None = Inr e"
    by (auto simp: completion_event_def res_simps)
  from new_with_id_Inr [OF e] v show ?thesis by simp
qed

lemma ensure_actor: "ensure_non_model_actor s a = Inr u \<longleftrightarrow> \<not> is_model_actor s a"
  by (simp add: ensure_non_model_actor_def is_model_actor_def)

section \<open>Completing a task\<close>

lemma complete_task_Inr:
  assumes db: "db_holds x c read es s" and cur: "bt_get (tasks s) tid = Some cur"
    and open': "Task.status cur \<noteq> TaskStatus.Completed"
    and run: "complete_task x display c flt eid t1 t2 read db actor tid expected = Inr (t, db')"
  shows "\<not> is_model_actor s actor \<and> expected = CurrentState.revision s \<and>
    (\<exists>vs. evaluate_task_completion_in x display s es tid = Inr (CompletionGateResult.Ready vs)) \<and>
    Task.status cur = TaskStatus.InProgress \<and> t = cur\<lparr>Task.status := TaskStatus.Completed\<rparr> \<and>
    (\<exists>e s'. event_kind e = TaskCompleted \<and> subject_is e EntityKind.Task (uuid tid) \<and>
       commit x c flt db (CurrentState.revision s) e = Inr (s', db'))"
proof -
  have load: "load_events x c read = Inr es" "replay x es = Inr s"
    using db by (simp_all add: db_holds_def)
  have task: "ensure_task s tid = Inr ()"
    using cur by (simp add: ensure_task_def bt_contains_def)
  from run load task cur open' have actor: "ensure_non_model_actor s actor = Inr ()"
    by (auto simp: complete_task_def res_simps)
  from run load task cur open' actor obtain g where g: "expected = CurrentState.revision s"
    "evaluate_task_completion_in x display s es tid = Inr g"
    by (auto simp: complete_task_def res_simps split: if_splits)
  then obtain vs where vs: "g = CompletionGateResult.Ready vs"
    using run load task cur open' actor by (cases g) (auto simp: complete_task_def)
  from run load task cur open' actor g vs obtain e s' where
    t: "transition_task cur TaskStatus.Completed = Inr t"
    and e: "completion_event x eid t1 t2 actor TaskCompleted EntityKind.Task (uuid tid)
        (task_to_value x t) (Some (id_text x tid)) None None = Inr e"
    and com: "commit x c flt db (CurrentState.revision s) e = Inr (s', db')"
    by (auto simp: complete_task_def res_simps)
  have "event_kind e = TaskCompleted \<and> subject_is e EntityKind.Task (uuid tid)"
    using completion_event_Inr [OF e] by (auto simp: subject_is_def)
  moreover have "Task.status cur = TaskStatus.InProgress \<and> t = cur\<lparr>Task.status := TaskStatus.Completed\<rparr>"
    using t by (auto simp: transition_task_def task_allowed_Completed res_simps)
  ultimately show ?thesis
    using g vs com actor by (auto simp: ensure_actor)
qed

lemma complete_task_effect:
  assumes db: "db_holds x c db es s" and cur: "bt_get (tasks s) tid = Some cur"
    and open': "Task.status cur \<noteq> TaskStatus.Completed"
    and run: "complete_task x display c flt eid t1 t2 db db actor tid expected = Inr (t, db')"
  shows "\<exists>s'. derived_from db' = Some s' \<and> bt_get (tasks s') tid = Some t"
proof -
  from complete_task_Inr [OF assms] obtain e s' where k: "event_kind e = TaskCompleted"
    and subj: "subject_is e EntityKind.Task (uuid tid)"
    and com: "commit x c flt db (CurrentState.revision s) e = Inr (s', db')"
    and t: "t = cur\<lparr>Task.status := TaskStatus.Completed\<rparr>" by blast
  have "load_state x c db = Inr s" using db by (simp add: db_holds_def)
  from commit_Inr [OF com this] have ap: "apply_event x s e = Inr s'"
    and cb: "commit_batch x c flt db [e] s' (Some (CurrentState.revision s)) None = Inr db'"
    by simp_all
  from ap obtain u where u: "apply_kind x s e = Inr u" "tasks s' = tasks u"
    by (auto simp: apply_event_Inr)
  from u(1) k have "apply_task_completion x s e = Inr u" by (simp add: apply_kind_def)
  from task_completion_Inr [OF this] obtain cur' where
    c: "bt_get (tasks s) (Task.id cur') = Some cur'" "subject_is e EntityKind.Task (uuid (Task.id cur'))"
    "tasks u = bt_insert (Task.id cur') (cur'\<lparr>Task.status := TaskStatus.Completed\<rparr>) (tasks s)"
    by auto
  from c(2) subj have "Task.id cur' = tid" by (auto simp: subject_is_def is_some_and_iff)
  with c cur t u(2) have "bt_get (tasks s') tid = Some t" by simp
  moreover have "derived_from db' = Some s'" using commit_batch_Inr [OF cb] by blast
  ultimately show ?thesis by blast
qed

lemma complete_task_stale:
  assumes read: "db_holds x c read es s" and cur: "bt_get (tasks s) tid = Some cur"
    and open': "Task.status cur \<noteq> TaskStatus.Completed"
    and db: "db_holds x c db es' s'" and moved: "length es' \<noteq> length es"
  shows "\<exists>err. complete_task x display c flt eid t1 t2 read db actor tid expected = Inl err"
proof (cases "complete_task x display c flt eid t1 t2 read db actor tid expected")
  case (Inr r)
  then obtain t db' where "complete_task x display c flt eid t1 t2 read db actor tid expected = Inr (t, db')"
    by (cases r) simp
  from complete_task_Inr [OF read cur open' this] obtain e s2
    where com: "commit x c flt db (CurrentState.revision s) e = Inr (s2, db')" by blast
  have rev: "CurrentState.revision s = of_nat (length es)" "CurrentState.revision s' = of_nat (length es')"
    using replay_revision read db by (auto simp: db_holds_def)
  have small: "length es < 2 ^ 63" "length es' < 2 ^ 63"
    using read db by (simp_all add: db_holds_def)
  have "CurrentState.revision s' \<noteq> CurrentState.revision s"
  proof
    assume "CurrentState.revision s' = CurrentState.revision s"
    then have "unat (of_nat (length es') :: u64) = unat (of_nat (length es) :: u64)"
      using rev by simp
    moreover have "unat (of_nat (length es) :: u64) = length es"
      using small by (intro unat_of_nat_u64) simp
    moreover have "unat (of_nat (length es') :: u64) = length es'"
      using small by (intro unat_of_nat_u64) simp
    ultimately show False using moved by simp
  qed
  then show ?thesis
    using commit_stale [of x c db s'] db com by (simp add: db_holds_def)
qed simp

section \<open>The gate's checks are the projector's\<close>

text \<open>
  With one database throughout, the projector never refuses what the gate lets through. The
  hypotheses say that a value serde encodes decodes to itself and that the fresh identifier
  is fresh.
\<close>

lemma apply_event_not_invalid:
  "apply_kind x s e = Inr t \<Longrightarrow> apply_event x s e \<noteq> Inl (InvalidPayload k msg)"
  by (simp add: apply_event_def)

lemma check_errors:
  "ensure_task s tid \<noteq> Inl (Projection p)" "ensure_non_model_actor s actor \<noteq> Inl (Projection p)"
  "ensure_criterion s tid kid \<noteq> Inl (Projection p)"
  "validate_supersedes s tid kid prev \<noteq> Inl (Projection p)"
  "completion_event x eid t1 t2 actor k ek u value corr caus sref \<noteq> Inl (Projection p)"
  by (auto simp: ensure_task_def ensure_non_model_actor_def ensure_criterion_def
      validate_supersedes_def completion_event_def res_bind_Inl_iff map_err_Inl_iff
      split: option.splits if_splits)

lemma validate_one_not_projection: "validate_one_evidence x s events as_of ev \<noteq> Inl (Projection p)"
  by (auto simp: validate_one_evidence_def Let_def res_bind_Inl_iff map_err_Inl_iff
      split: option.splits if_splits)

lemma validate_refs_not_projection: "validate_evidence_refs x s events evs as_of \<noteq> Inl (Projection p)"
  by (induction x s events evs as_of rule: validate_evidence_refs.induct)
    (auto simp: res_bind_Inl_iff validate_one_not_projection)

lemmas no_projection = check_errors validate_refs_not_projection

lemma db_holds_ledger:
  assumes "db_holds x c db es s"
  shows "load_state x c db = Inr s" and "load_events x c db = Inr es"
    and "applied_events s = map ExperienceEvent.event_id es" and "claims_inv x s"
proof -
  show "load_state x c db = Inr s" "load_events x c db = Inr es"
    using assms by (simp_all add: db_holds_def)
  have r: "replay x es = Inr s" using assms by (simp add: db_holds_def)
  then show "applied_events s = map ExperienceEvent.event_id es"
    using ledger.run_ids [of x default_state es s] by (simp add: replay_def default_state_def)
  show "claims_inv x s" using r by (rule claims_inv_replay)
qed

lemma define_criterion_agrees:
  assumes db: "db_holds x c db es s"
    and serde: "\<And>k v. criterion_to_value x k = Inr v \<Longrightarrow> de_criterion x v = Inr k"
    and fresh: "\<not> bt_contains (completion_criteria s) new_id"
  shows "define_criterion x c flt new_id eid t0 t1 t2 db db actor tid desc req \<noteq>
    Inl (Projection (InvalidPayload kd msg))"
proof
  let ?k = "\<lparr>CompletionCriterion.id = new_id, task_id = tid, description = trim desc,
      required = req, created_at = t0\<rparr>"
  assume run: "define_criterion x c flt new_id eid t0 t1 t2 db db actor tid desc req =
    Inl (Projection (InvalidPayload kd msg))"
  note load = db_holds_ledger [OF db]
  have task: "bt_contains (tasks s) tid" and nb: "\<not> blank desc"
    and dup: "\<not> (\<exists>k \<in> set (bt_values (completion_criteria s)).
               CompletionCriterion.task_id k = tid \<and>
               normalize_description x (CompletionCriterion.description k) =
               normalize_description x (trim desc))"
    using run load(1)
    by (auto simp: define_criterion_def res_bind_Inl_iff Let_def no_projection ensure_task_def
        blank_def simp del: normalize_description_trim split: if_splits)
  with run load(1) obtain e where
    e: "completion_event x eid t1 t2 actor CompletionCriterionDefined
            EntityKind.CompletionCriterion (uuid new_id) (criterion_to_value x ?k)
            (Some (id_text x tid)) None None = Inr e"
    and com: "commit x c flt db (CurrentState.revision s) e = Inl (Projection (InvalidPayload kd msg))"
    by (auto simp: define_criterion_def res_bind_Inl_iff Let_def no_projection
        simp del: normalize_description_trim split: if_splits)
  from completion_event_Inr [OF e] serde have pl: "de_criterion x (payload e) = Inr ?k"
    and k: "event_kind e = CompletionCriterionDefined" by auto
  have "apply_criterion_defined x s e = Inr (s\<lparr>completion_criteria :=
      bt_insert new_id ?k (completion_criteria s)\<rparr>)"
    using pl task nb dup fresh by (simp add: apply_criterion_defined_def Let_def decode_def)
  then have "\<exists>t. apply_kind x s e = Inr t" using k by (simp add: apply_kind_def)
  then show False
    using apply_event_not_invalid commit_projection_error [OF com load(1)] by blast
qed

lemma create_claim_agrees:
  assumes db: "db_holds x c db es s"
    and serde: "\<And>k v. claim_to_value x k = Inr v \<Longrightarrow> de_claim x v = Inr k"
    and fresh: "\<not> bt_contains (completion_claims s) new_id"
  shows "create_claim x c flt new_id eid t0 t1 t2 db db db actor tid kid conf refs blk prev \<noteq>
    Inl (Projection (InvalidPayload kd msg))"
proof
  let ?refs = "normalize_evidence_refs refs"
  let ?fp = "completion_fingerprint x tid kid ?refs"
  let ?k = "\<lparr>CompletionClaim.id = new_id, task_id = tid, criterion_id = kid,
               disposition = NeedsValidation, confidence = conf, evidence_refs = ?refs,
               blocker = Option.bind blk non_empty, fingerprint = ?fp,
               as_of_sequence = CurrentState.revision s, supersedes = prev, created_at = t0\<rparr>"
  assume run: "create_claim x c flt new_id eid t0 t1 t2 db db db actor tid kid conf refs blk prev =
    Inl (Projection (InvalidPayload kd msg))"
  note load = db_holds_ledger [OF db]
  have checks: "ensure_task s tid = Inr ()" "ensure_non_model_actor s actor = Inr ()"
      "ensure_criterion s tid kid = Inr ()" "conf \<le> 100"
      "validate_evidence_refs x s es ?refs (CurrentState.revision s) = Inr ()"
      "\<not> (\<exists>d \<in> set (bt_values (completion_claims s)). CompletionClaim.fingerprint d = ?fp)"
      "validate_supersedes s tid kid prev = Inr ()"
    using run load(1,2)
    by (auto simp: create_claim_def res_bind_Inl_iff Let_def no_projection not_less split: if_splits)
  with run load(1,2) obtain e where
    e: "completion_event x eid t1 t2 actor CompletionClaimCreated EntityKind.CompletionClaim
            (uuid new_id) (claim_to_value x ?k) (Some (id_text x tid)) None None = Inr e"
    and com: "commit x c flt db (CurrentState.revision s) e = Inl (Projection (InvalidPayload kd msg))"
    by (auto simp: create_claim_def res_bind_Inl_iff Let_def no_projection split: if_splits)
  from completion_event_Inr [OF e] serde have pl: "de_claim x (payload e) = Inr ?k"
    and k: "event_kind e = CompletionClaimCreated" and actor: "ExperienceEvent.actor_id e = actor"
    by auto
  have same: "with_normal_evidence ?k = ?k" by (simp add: with_normal_evidence_def)
  have "claim_admissible x s ?k"
    using checks fresh validate_evidence_refs_ok [OF checks(5) load(3)]
    by (auto simp: claim_admissible_def ensure_task_def ensure_criterion_def validate_supersedes_def
        is_some_and_iff split: if_splits option.splits)
  then have "\<exists>t. apply_claim_created x s ?k CompletionClaimCreated = Inr t"
    by (simp add: claim_created_Inr same)
  then have "\<exists>t. apply_kind x s e = Inr t"
    using k pl actor checks(2)
    by (simp add: apply_kind_def apply_claim_created_event_def decode_def ensure_actor)
  then show False
    using apply_event_not_invalid commit_projection_error [OF com load(1)] by blast
qed

section \<open>Settling a claim\<close>

lemma transition_claim_agrees:
  assumes db: "db_holds x c db es s"
    and serde: "\<And>t v. claim_transition_to_value x t = Inr v \<Longrightarrow> de_claim_transition x v = Inr t"
  shows "transition_claim x c flt eid t0 t1 t2 db db db actor cid d reason0 \<noteq>
    Inl (Projection (InvalidPayload kd msg))"
proof
  assume run: "transition_claim x c flt eid t0 t1 t2 db db db actor cid d reason0 =
    Inl (Projection (InvalidPayload kd msg))"
  note load = db_holds_ledger [OF db]
  obtain k where k: "bt_get (completion_claims s) cid = Some k"
    using run load(1) by (cases "bt_get (completion_claims s) cid") (auto simp: transition_claim_def)
  obtain rsn where rsn: "non_empty reason0 = Some rsn"
    using run load(1) k by (cases "non_empty reason0")
      (auto simp: transition_claim_def res_bind_Inl_iff no_projection split: if_splits)
  let ?t = "\<lparr>claim_id = CompletionClaim.id k, CompletionClaimTransition.task_id = CompletionClaim.task_id k,
      criterion_id = CompletionClaim.criterion_id k,
      previous_disposition = CompletionClaim.disposition k, disposition = d, reason = rsn,
      evidence_refs = CompletionClaim.evidence_refs k, transitioned_at = t0\<rparr>"
  have checks: "ensure_non_model_actor s actor = Inr ()"
      "CompletionClaim.disposition k = NeedsValidation"
      "d = VerificationDisposition.Verified \<or> d = VerificationDisposition.Rejected"
      "d = VerificationDisposition.Verified \<longrightarrow> CompletionClaim.evidence_refs k \<noteq> [] \<and>
         Option.bind (blocker k) non_empty = None"
    using run load(1,2) k rsn
    by (auto simp: transition_claim_def res_bind_Inl_iff Let_def no_projection split: if_splits)
  with run load(1,2) k rsn obtain e where
    e: "completion_event x eid t1 t2 actor
          (if d = VerificationDisposition.Verified then CompletionClaimVerified
           else CompletionClaimRejected)
          EntityKind.CompletionClaim (uuid (CompletionClaim.id k)) (claim_transition_to_value x ?t)
          (Some (id_text x (CompletionClaim.task_id k))) (claim_event_id es (CompletionClaim.id k))
          (Some (id_text x actor)) = Inr e"
    and com: "commit x c flt db (CurrentState.revision s) e = Inl (Projection (InvalidPayload kd msg))"
    by (auto simp: transition_claim_def res_bind_Inl_iff Let_def no_projection
        split: if_splits option.splits)
  from completion_event_Inr [OF e] serde have pl: "de_claim_transition x (payload e) = Inr ?t"
    and kind: "event_kind e = (if d = VerificationDisposition.Verified then CompletionClaimVerified
           else CompletionClaimRejected)" and actor: "ExperienceEvent.actor_id e = actor"
    by auto
  have inv: "CompletionClaim.id k = cid" "claim_ok x s k"
    using load(4) k unfolding claims_inv_def by blast+
  have "\<not> blank rsn"
    using rsn by (auto simp: non_empty_def blank_def Let_def split: if_splits)
  with checks inv k have "\<exists>u. apply_claim_transition s ?t d (event_kind e) = Inr u"
    by (auto simp: apply_claim_transition_def claim_ok_def non_empty_blank)
  then have "\<exists>u. apply_kind x s e = Inr u"
    using kind pl actor checks(1,3)
    by (auto simp: apply_kind_def apply_claim_verified_event_def apply_claim_rejected_event_def
        decode_def ensure_actor)
  then show False
    using apply_event_not_invalid commit_projection_error [OF com load(1)] by blast
qed

lemma transition_claim_Inr:
  assumes db: "db_holds x c db es s"
    and serde: "\<And>t v. claim_transition_to_value x t = Inr v \<Longrightarrow> de_claim_transition x v = Inr t"
    and run: "transition_claim x c flt eid t0 t1 t2 db db db actor cid d reason0 = Inr (k', db')"
  shows "\<exists>k s'. bt_get (completion_claims s) cid = Some k \<and>
    CompletionClaim.disposition k = NeedsValidation \<and> d \<noteq> NeedsValidation \<and>
    k' = k\<lparr>CompletionClaim.disposition := d\<rparr> \<and> \<not> is_model_actor s actor \<and>
    validate_evidence_refs x s es (CompletionClaim.evidence_refs k)
      (CompletionClaim.as_of_sequence k) = Inr () \<and>
    derived_from db' = Some s' \<and>
    completion_claims s' = bt_modify cid (\<lambda>b. b\<lparr>CompletionClaim.disposition := d\<rparr>) (completion_claims s)"
proof -
  note load = db_holds_ledger [OF db]
  obtain k where k: "bt_get (completion_claims s) cid = Some k"
    using run load(1) by (cases "bt_get (completion_claims s) cid") (auto simp: transition_claim_def)
  obtain rsn where rsn: "non_empty reason0 = Some rsn"
    using run load(1) k by (cases "non_empty reason0")
      (auto simp: transition_claim_def res_simps split: if_splits)
  let ?t = "\<lparr>claim_id = CompletionClaim.id k, CompletionClaimTransition.task_id = CompletionClaim.task_id k,
      criterion_id = CompletionClaim.criterion_id k,
      previous_disposition = CompletionClaim.disposition k, disposition = d, reason = rsn,
      evidence_refs = CompletionClaim.evidence_refs k, transitioned_at = t0\<rparr>"
  from run load(1,2) k rsn obtain e s' where checks: "ensure_non_model_actor s actor = Inr ()"
      "CompletionClaim.disposition k = NeedsValidation"
      "d = VerificationDisposition.Verified \<or> d = VerificationDisposition.Rejected"
      "validate_evidence_refs x s es (CompletionClaim.evidence_refs k)
         (CompletionClaim.as_of_sequence k) = Inr ()"
    and e: "completion_event x eid t1 t2 actor
          (if d = VerificationDisposition.Verified then CompletionClaimVerified
           else CompletionClaimRejected)
          EntityKind.CompletionClaim (uuid (CompletionClaim.id k)) (claim_transition_to_value x ?t)
          (Some (id_text x (CompletionClaim.task_id k))) (claim_event_id es (CompletionClaim.id k))
          (Some (id_text x actor)) = Inr e"
    and com: "commit x c flt db (CurrentState.revision s) e = Inr (s', db')"
    and k': "bt_get (completion_claims s') cid = Some k'"
    by (auto simp: transition_claim_def res_simps Let_def split: if_splits option.splits)
  from completion_event_Inr [OF e] serde have pl: "de_claim_transition x (payload e) = Inr ?t"
    and kind: "event_kind e = (if d = VerificationDisposition.Verified then CompletionClaimVerified
           else CompletionClaimRejected)"
    by auto
  have id: "CompletionClaim.id k = cid"
    using load(4) k unfolding claims_inv_def by blast
  from commit_Inr [OF com load(1)] have ap: "apply_event x s e = Inr s'"
    and cb: "commit_batch x c flt db [e] s' (Some (CurrentState.revision s)) None = Inr db'"
    by simp_all
  from ap obtain u where u: "apply_kind x s e = Inr u" "completion_claims s' = completion_claims u"
    by (auto simp: apply_event_Inr)
  have "\<exists>kd. apply_claim_transition s ?t d kd = Inr u"
    using u(1) kind pl checks(3)
    by (auto simp: apply_kind_def apply_claim_verified_event_def apply_claim_rejected_event_def
        decode_def res_simps split: if_splits)
  then have "completion_claims u = bt_modify cid (\<lambda>b. b\<lparr>CompletionClaim.disposition := d\<rparr>)
      (completion_claims s)"
    using claim_transition_Inr id by fastforce
  moreover from this have "k' = k\<lparr>CompletionClaim.disposition := d\<rparr>" using k k' u(2) by simp
  moreover have "derived_from db' = Some s'" using commit_batch_Inr [OF cb] by blast
  ultimately show ?thesis
    using k checks u(2) by (auto simp: ensure_actor)
qed

end
