(* ===== verification/PositionHistory.thy ===== *)
theory PositionHistory
  imports MaterializationHistory
begin

text \<open>
  What an integrated change of one of HEKATE's positions does to the positions on record, and
  what a conflict does to the relationships of its participants.
\<close>

section \<open>Positions are stored under their identifiers\<close>

definition positions_keyed :: "CurrentState \<Rightarrow> bool" where
  "positions_keyed s \<longleftrightarrow> bt_wf (CurrentState.positions s) \<and>
     (\<forall>i p. bt_get (CurrentState.positions s) i = Some p \<longrightarrow> Position.id p = i)"

lemma supersede_wf [simp]: "bt_wf (supersede_position q m) = bt_wf m"
  by (simp add: supersede_position_def split: option.split)

lemma supersede_get:
  "bt_get (supersede_position q m) i =
     (if q = Some i
      then map_option (\<lambda>p. p\<lparr>Position.status := PositionStatus.Superseded\<rparr>) (bt_get m i)
      else bt_get m i)"
  by (auto simp: supersede_position_def split: option.split)

lemma keyed_insert:
  assumes "positions_keyed s"
    and "CurrentState.positions t =
      bt_insert (Position.id p) p (supersede_position q (CurrentState.positions s))"
  shows "positions_keyed t"
  using assms by (auto simp: positions_keyed_def supersede_get split: if_splits)

lemma integration_positions:
  assumes "apply_position_integration x s e ie = Inr t"
  shows "\<exists>q. CurrentState.positions t =
    bt_insert (Position.id (PositionIntegrationEventPayload.position ie))
      (PositionIntegrationEventPayload.position ie)
      (supersede_position q (CurrentState.positions s)) \<and>
    q = (if PositionIntegrationMaterialization.action (position_integration ie) =
           PositionIntegrationActionKind.Revise
         then Position.supersedes (PositionIntegrationEventPayload.position ie) else None)"
  using assms by (auto simp: apply_position_integration_def Let_def res_simps supersede_position_def)

lemma positions_step:
  assumes "apply_kind x s e = Inr t"
  shows "CurrentState.positions t = CurrentState.positions s \<or>
    (\<exists>p q. CurrentState.positions t =
       bt_insert (Position.id p) p (supersede_position q (CurrentState.positions s)))"
proof (cases "event_kind e \<in> {PositionEstablished, PositionMaintained, PositionRecorded,
    PositionRevised, PositionRetracted}")
  case False
  with positions_frame [OF assms] show ?thesis by simp
next
  case True
  with assms have ev: "apply_position_event x s e = Inr t" by (auto simp: apply_kind_def)
  show ?thesis
  proof (cases "has_field x (payload e) ''position_integration''")
    case True
    with ev obtain ie where "apply_position_integration x s e ie = Inr t"
      by (auto simp: apply_position_event_def res_simps)
    from integration_positions [OF this] show ?thesis by blast
  next
    case False
    with ev obtain p where p: "decode (de_position x) e = Inr p"
      by (auto simp: apply_position_event_def res_simps)
    with ev True False have "CurrentState.positions t =
          bt_insert (Position.id p) p (CurrentState.positions s) \<or>
        CurrentState.positions t = bt_insert (Position.id p) p
          (supersede_position (Position.supersedes p) (CurrentState.positions s))"
      by (auto simp: apply_position_event_def)
    moreover have "supersede_position None m = m" for m by (simp add: supersede_position_def)
    ultimately show ?thesis by metis
  qed
qed

lemma positions_keyed_step:
  assumes "positions_keyed s" and "apply_event x s e = Inr s'"
  shows "positions_keyed s'"
  using assms(2)
proof (cases rule: apply_event_cases)
  case (1 t)
  from positions_step [OF 1(1)] have "positions_keyed t"
  proof (elim disjE exE)
    assume "CurrentState.positions t = CurrentState.positions s"
    with assms(1) show ?thesis by (simp add: positions_keyed_def)
  qed (rule keyed_insert [OF assms(1)])
  with 1(2) show ?thesis by (simp add: positions_keyed_def)
qed

lemma positions_keyed_default: "positions_keyed default_state"
  by (simp add: positions_keyed_def default_state_def)

lemma positions_keyed_replay: "replay x es = Inr s \<Longrightarrow> positions_keyed s"
  unfolding replay_def
  by (rule ledger.run_invariant [where I = positions_keyed])
    (auto intro: positions_keyed_step positions_keyed_default)

section \<open>An integrated change\<close>

text \<open>What each of the three actions requires of the new and of the prior position.\<close>

definition position_change_ok ::
  "CurrentState \<Rightarrow> Position \<Rightarrow> PositionIntegrationMaterialization \<Rightarrow> bool"
where
  "position_change_ok s p m \<longleftrightarrow>
     (case PositionIntegrationMaterialization.action m of
        PositionIntegrationActionKind.Establish \<Rightarrow>
          prior_position m = None \<and> Position.status p = PositionStatus.Active \<and>
          Position.version p = 1
      | PositionIntegrationActionKind.Revise \<Rightarrow>
          is_some_and (prior_position m) (\<lambda>q.
            bt_get (CurrentState.positions s) (Position.id q) = Some q \<and>
            Position.status q = PositionStatus.Active \<and> Position.id p \<noteq> Position.id q \<and>
            Position.supersedes p = Some (Position.id q) \<and>
            Position.principal_id p = Position.principal_id q \<and>
            Position.subject p = Position.subject q \<and>
            unat (Position.version p) = unat (Position.version q) + 1 \<and>
            Position.status p = PositionStatus.Active)
      | PositionIntegrationActionKind.Withdraw \<Rightarrow>
          is_some_and (prior_position m) (\<lambda>q.
            bt_get (CurrentState.positions s) (Position.id q) = Some q \<and>
            Position.status q = PositionStatus.Active \<and> Position.id p = Position.id q \<and>
            Position.status p = PositionStatus.Retracted \<and>
            Position.principal_id p = Position.principal_id q \<and>
            Position.subject p = Position.subject q \<and> stance p = stance q))"

lemma position_action_ok_Inr:
  "position_action_ok s p m k = Inr u \<Longrightarrow> position_change_ok s p m"
  by (cases "PositionIntegrationMaterialization.action m")
    (auto simp: position_action_ok_def position_change_ok_def res_simps dest: checked_add_Some)

lemma position_integration_facts:
  assumes "apply_position_integration x s e ie = Inr t"
  defines "p \<equiv> PositionIntegrationEventPayload.position ie"
    and "m \<equiv> position_integration ie"
  shows "position_change_ok s p m" and
    "entitled s IntegrationCandidateKind.Position (PositionIntegrationMaterialization.candidate_id m)"
    and "\<not> is_model_actor s (ExperienceEvent.actor_id e)"
    and "is_some_and (bt_get (principals s) (Position.principal_id p)) (\<lambda>q. Principal.kind q = Hekate)"
    and "\<not> position_integration_blocked x s (Position.principal_id p) (Position.subject p)
           (map_option Position.id (prior_position m))"
proof -
  obtain c where c: "position_materialization_provenance x s e p m (event_kind e) = Inr c"
    and ok: "position_action_ok s p m (event_kind e) = Inr ()"
    and nb: "\<not> position_integration_blocked x s (Position.principal_id p) (Position.subject p)
           (map_option Position.id (prior_position m))"
    using assms(1) by (auto simp: apply_position_integration_def Let_def res_simps p_def m_def)
  show "position_change_ok s p m" using ok by (rule position_action_ok_Inr)
  show "\<not> position_integration_blocked x s (Position.principal_id p) (Position.subject p)
           (map_option Position.id (prior_position m))" by (rule nb)
  note prov = position_provenance_Inr [OF c]
  show "entitled s IntegrationCandidateKind.Position (PositionIntegrationMaterialization.candidate_id m)"
    and "\<not> is_model_actor s (ExperienceEvent.actor_id e)"
    and "is_some_and (bt_get (principals s) (Position.principal_id p)) (\<lambda>q. Principal.kind q = Hekate)"
    using prov by simp_all
qed

text \<open>
  After an establishment or a revision the new position is the only active one of its
  principal on its subject, up to white space and case.
\<close>

lemma integrated_position_unique:
  assumes keyed: "positions_keyed s" and step: "apply_position_integration x s e ie = Inr t"
    and q: "bt_get (CurrentState.positions t) i = Some q"
      "Position.status q = PositionStatus.Active"
      "Position.principal_id q = Position.principal_id (PositionIntegrationEventPayload.position ie)"
      "normalize_description x (Position.subject q) =
       normalize_description x (Position.subject (PositionIntegrationEventPayload.position ie))"
  shows "q = PositionIntegrationEventPayload.position ie"
proof (rule ccontr)
  let ?p = "PositionIntegrationEventPayload.position ie" and ?m = "position_integration ie"
  assume "q \<noteq> ?p"
  note f = position_integration_facts [OF step]
  obtain r where r: "CurrentState.positions t =
      bt_insert (Position.id ?p) ?p (supersede_position r (CurrentState.positions s))"
    "r = (if PositionIntegrationMaterialization.action ?m = PositionIntegrationActionKind.Revise
          then Position.supersedes ?p else None)"
    using integration_positions [OF step] by blast
  have i: "i \<noteq> Position.id ?p" using q(1) \<open>q \<noteq> ?p\<close> r(1) by auto
  with q(1,2) r(1) have old: "bt_get (CurrentState.positions s) i = Some q" and nr: "r \<noteq> Some i"
    by (auto simp: supersede_get split: if_splits)
  have "Position.id q = i" using keyed old by (simp add: positions_keyed_def)
  have "Some i = map_option Position.id (prior_position ?m)"
    using f(5) bt_get_values [OF old] q(2-4) \<open>Position.id q = i\<close>
    unfolding position_integration_blocked_def Let_def by blast
  then show False
    using f(1) i nr r(2) by (cases "PositionIntegrationMaterialization.action ?m")
      (auto simp: position_change_ok_def is_some_and_iff)
qed

section \<open>Conflicts\<close>

definition conflict_participant :: "CurrentState \<Rightarrow> Conflict \<Rightarrow> Relationship \<Rightarrow> bool" where
  "conflict_participant s c r \<longleftrightarrow>
     (\<exists>i \<in> set (participant_positions c). is_some_and (bt_get (CurrentState.positions s) i)
        (\<lambda>p. Position.principal_id p \<in> set (Relationship.participants r)))"

lemma store_conflict_relationship:
  assumes "bt_get (relationships s) i = Some r"
  shows "\<exists>r'. bt_get (relationships (store_conflict s c)) i = Some r' \<and>
     r' = r\<lparr>unresolved_conflicts := unresolved_conflicts r'\<rparr> \<and>
     set (unresolved_conflicts r') =
       (if \<not> conflict_participant s c r then set (unresolved_conflicts r)
        else if Conflict.status c \<in> {ConflictStatus.Open, ConflictStatus.Negotiating}
        then insert (Conflict.id c) (set (unresolved_conflicts r))
        else set (unresolved_conflicts r) - {Conflict.id c})"
proof -
  have "(\<exists>p \<in> set (map Position.principal_id
          (filter_map (bt_get (CurrentState.positions s)) (participant_positions c))).
          p \<in> set (Relationship.participants r)) \<longleftrightarrow> conflict_participant s c r"
    by (auto simp: conflict_participant_def set_filter_map is_some_and_iff)
  with assms show ?thesis
    by (auto simp: store_conflict_def Let_def push_unique_set)
qed

end
