(* ===== verification/Scenario.thy ===== *)
theory Scenario
  imports CompletionHistory MaterializationHistory PositionHistory InitiativeHistory Lease
begin

text \<open>
  A concrete run of the system: two principals, a task with one criterion and one verified
  claim, a sleep run with a position candidate that is verified and established, an
  initiative. It instantiates the third-party functions with concrete ones and shows the
  hypotheses of the properties to hold together.
\<close>

section \<open>Data\<close>

definition the_user :: Principal where
  "the_user = \<lparr>Principal.id = from_uuid 1, kind = User, name = ''user'', identity_version_id = None\<rparr>"

definition the_hekate :: Principal where
  "the_hekate = \<lparr>Principal.id = from_uuid 2, kind = Hekate, name = ''hekate'', identity_version_id = None\<rparr>"

definition the_task :: Task where
  "the_task = \<lparr>Task.id = from_uuid 3, goal_id = None, title = ''task'',
     status = TaskStatus.InProgress, created_at = ''t''\<rparr>"

definition the_criterion :: CompletionCriterion where
  "the_criterion = \<lparr>CompletionCriterion.id = from_uuid 4, task_id = from_uuid 3,
     description = ''done'', required = True, created_at = ''t''\<rparr>"

definition zero_hash :: string where
  "zero_hash = replicate 64 CHR ''0''"

definition the_evidence :: EvidenceRef where
  "the_evidence = \<lparr>EvidenceRef.event_id = from_uuid 13, artifact_id = None,
     source_hash = zero_hash, as_of_sequence = 3\<rparr>"

text \<open>
  The digest of a text is its length; event texts have length 0. Payloads are numbers that
  name the decoded value.
\<close>

definition tagged :: "(string \<times> 'v) list \<Rightarrow> json \<Rightarrow> string + 'v" where
  "tagged table v =
     (case v of
        JNumber t \<Rightarrow> (case map_of table t of None \<Rightarrow> Inl ''no such value'' | Some y \<Rightarrow> Inr y)
      | _ \<Rightarrow> Inl ''not a number'')"

definition blank_ext :: ext where
  "blank_ext = \<lparr>
     sha256_digest = (\<lambda>b. replicate 31 (CHR 0x00) @ [char_of (length b)]),
     uuid_text = (\<lambda>u. replicate (unat u) (CHR ''1'')), to_lowercase = (\<lambda>t. t),
     event_json = (\<lambda>e. Inr []), candidate_kind_json = (\<lambda>k. Inr []),
     initiative_json = (\<lambda>j. []), has_field = (\<lambda>v f. False),
     de_principal = tagged [(''user'', the_user), (''hekate'', the_hekate)],
     de_identity_version = tagged [], de_relationship = tagged [], de_observation = tagged [],
     de_focus_resolution = tagged [], de_goal = tagged [],
     de_task = tagged [(''task'', the_task),
       (''completed'', the_task\<lparr>Task.status := TaskStatus.Completed\<rparr>)],
     de_run = tagged [], de_attempt = tagged [], de_working_state = tagged [],
     de_decision = tagged [], de_position = tagged [], de_position_integration_event = tagged [],
     de_conflict = tagged [], de_commitment = tagged [], de_action_intent = tagged [],
     de_operation = tagged [], de_artifact = tagged [],
     de_criterion = tagged [(''criterion'', the_criterion)], de_claim = tagged [],
     de_claim_transition = tagged [], de_initiative = tagged [], de_approval = tagged [],
     de_receipt = tagged [], de_verification = tagged [], de_memory_candidate = tagged [],
     de_active_memory = tagged [], de_sleep_run = tagged [], de_integration_candidate = tagged [],
     de_integration_verification = tagged [], de_integration_materialization = tagged [],
     de_memory_revision_materialization = tagged [],
     position_proposal_from_str = (\<lambda>t. Inl ''no proposal''),
     memory_revision_from_str = (\<lambda>t. Inl ''no proposal''),
     criterion_to_value = (\<lambda>k. if k = the_criterion then Inr (JNumber ''criterion'') else Inl ''''),
     claim_to_value = (\<lambda>k. Inl ''''), claim_transition_to_value = (\<lambda>k. Inl ''''),
     task_to_value = (\<lambda>t. if t = the_task\<lparr>Task.status := TaskStatus.Completed\<rparr>
       then Inr (JNumber ''completed'') else Inl '''')\<rparr>"

definition the_claim :: CompletionClaim where
  "the_claim = \<lparr>CompletionClaim.id = from_uuid 5, task_id = from_uuid 3, criterion_id = from_uuid 4,
     disposition = NeedsValidation, confidence = 80, evidence_refs = [the_evidence], blocker = None,
     fingerprint = completion_fingerprint blank_ext (from_uuid 3) (from_uuid 4) [the_evidence],
     as_of_sequence = 4, supersedes = None, created_at = ''t''\<rparr>"

definition the_verdict :: CompletionClaimTransition where
  "the_verdict = \<lparr>claim_id = from_uuid 5, CompletionClaimTransition.task_id = from_uuid 3,
     criterion_id = from_uuid 4, previous_disposition = NeedsValidation,
     disposition = VerificationDisposition.Verified, reason = ''seen'',
     evidence_refs = [the_evidence], transitioned_at = ''t''\<rparr>"

definition verified_claim :: CompletionClaim where
  "verified_claim = the_claim\<lparr>CompletionClaim.disposition := VerificationDisposition.Verified\<rparr>"

section \<open>The work ledger\<close>

definition an_event :: "Uuid \<Rightarrow> Uuid \<Rightarrow> EventKind \<Rightarrow> string \<Rightarrow> EntityRef option \<Rightarrow> ExperienceEvent" where
  "an_event eid actor k tag subj =
     \<lparr>ExperienceEvent.event_id = from_uuid eid, occurred_at = ''t'', recorded_at = ''t'',
      actor_id = from_uuid actor, event_kind = k, subject = subj, payload = JNumber tag,
      source = \<lparr>EventSource.source_type = ''test'', source_ref = None\<rparr>, causation_id = None,
      correlation_id = None, confidence = None, integrity_hash = zero_hash\<rparr>"

definition demo :: ext where
  "demo = blank_ext\<lparr>de_claim := tagged [(''claim'', the_claim)],
     de_claim_transition := tagged [(''verdict'', the_verdict)],
     claim_to_value := (\<lambda>k. if k = the_claim then Inr (JNumber ''claim'') else Inl ''''),
     claim_transition_to_value :=
       (\<lambda>t. if t = the_verdict then Inr (JNumber ''verdict'') else Inl '''')\<rparr>"

definition setup_events :: "ExperienceEvent list" where
  "setup_events =
     [an_event 11 1 PrincipalCreated ''user'' None, an_event 12 1 PrincipalCreated ''hekate'' None,
      an_event 13 1 TaskCreated ''task'' None,
      an_event 14 1 CompletionCriterionDefined ''criterion'' None]"

definition setup_state :: CurrentState where
  "setup_state = default_state\<lparr>CurrentState.revision := 4,
     principals := [(from_uuid 1, the_user), (from_uuid 2, the_hekate)],
     tasks := [(from_uuid 3, the_task)],
     completion_criteria := [(from_uuid 4, the_criterion)],
     applied_events := [from_uuid 11, from_uuid 12, from_uuid 13, from_uuid 14]\<rparr>"

definition claim_event :: ExperienceEvent where
  "claim_event = an_event 15 1 CompletionClaimCreated ''claim'' None"

definition verdict_event :: ExperienceEvent where
  "verdict_event = an_event 16 1 CompletionClaimVerified ''verdict'' None"

definition claimed_state :: CurrentState where
  "claimed_state = setup_state\<lparr>CurrentState.revision := 5,
     completion_claims := [(from_uuid 5, the_claim)],
     applied_events := applied_events setup_state @ [from_uuid 15]\<rparr>"

definition verified_state :: CurrentState where
  "verified_state = setup_state\<lparr>CurrentState.revision := 6,
     completion_claims := [(from_uuid 5, verified_claim)],
     applied_events := applied_events setup_state @ [from_uuid 15, from_uuid 16]\<rparr>"

lemmas demo_data = the_user_def the_hekate_def the_task_def the_criterion_def the_claim_def
  the_verdict_def verified_claim_def the_evidence_def an_event_def

lemma trim_demo [simp]: "trim ''done'' = ''done''" "trim ''seen'' = ''seen''" "trim '''' = ''''"
  by code_simp+

lemma blank_demo [simp]: "\<not> blank ''done''" "\<not> blank ''seen''" "\<not> blank ''x''" "blank ''''"
  by code_simp+

lemma zero_hash_valid [simp]: "valid_sha256_hex zero_hash" "zero_hash \<noteq> []"
  by code_simp+

lemma normalize_one [simp]: "normalize_evidence_refs [e] = [e]"
  by (simp add: normalize_evidence_refs_def)

lemma fingerprint_demo [simp]: "completion_fingerprint demo = completion_fingerprint blank_ext"
  by (intro ext)
    (simp add: completion_fingerprint_def demo_def sha256_hex_def id_text_def [abs_def] Let_def)

lemma demo_reads [simp]:
  "de_principal demo = tagged [(''user'', the_user), (''hekate'', the_hekate)]"
  "de_task demo = tagged [(''task'', the_task),
     (''completed'', the_task\<lparr>Task.status := TaskStatus.Completed\<rparr>)]"
  "de_criterion demo = tagged [(''criterion'', the_criterion)]"
  "de_claim demo = tagged [(''claim'', the_claim)]"
  "de_claim_transition demo = tagged [(''verdict'', the_verdict)]"
  by (simp_all add: demo_def blank_ext_def)

lemmas step_defs = apply_event_def apply_kind_def Let_def insert_payload_def decode_def tagged_def
  is_model_actor_def event_sequence_of_def less_Id_def bt_contains_def bt_values_def
  bt_modify_def demo_data

lemma setup_replay: "replay demo setup_events = Inr setup_state"
  by (simp add: replay_def setup_events_def setup_state_def default_state_def step_defs
      apply_criterion_defined_def)

lemma claim_step: "apply_event demo setup_state claim_event = Inr claimed_state"
  by (simp add: step_defs claim_event_def setup_state_def claimed_state_def default_state_def
      apply_claim_created_event_def apply_claim_created_def validate_evidence_ref_def)

lemma verdict_step: "apply_event demo claimed_state verdict_event = Inr verified_state"
  by (simp add: step_defs verdict_event_def setup_state_def claimed_state_def verified_state_def
      default_state_def apply_claim_verified_event_def apply_claim_transition_def)

end
