(* ===== verification/DbScenario.thy ===== *)
theory DbScenario
  imports Scenario
begin

text \<open>
  The concrete run in the store: a codec for its texts, the databases that hold its ledgers,
  and the completion of its task.
\<close>

definition demo_kinds :: "(EventKind \<times> string) list" where
  "demo_kinds = [(PrincipalCreated, ''p''), (TaskCreated, ''t''),
     (CompletionCriterionDefined, ''k''), (CompletionClaimCreated, ''c''),
     (CompletionClaimVerified, ''v''), (TaskCompleted, ''d'')]"

definition demo_codec :: codec where
  "demo_codec = \<lparr>
     uuid_parse = (\<lambda>t. Inr (of_nat (length t))),
     value_to_string = (\<lambda>v. case v of JNumber t \<Rightarrow> Inr t | _ \<Rightarrow> Inl ''not a number''),
     value_from_str = (\<lambda>t. Inr (JNumber t)),
     kind_to_string = (\<lambda>k. case map_of demo_kinds k of
       None \<Rightarrow> Inl ''unknown'' | Some t \<Rightarrow> Inr ([CHR 0x22] @ t @ [CHR 0x22])),
     kind_from_str = (\<lambda>t. case map_of (map prod.swap demo_kinds) (trim_quotes t) of
       None \<Rightarrow> Inl ''unknown'' | Some k \<Rightarrow> Inr k),
     entity_to_string = (\<lambda>k. Inr ''task''), entity_from_str = (\<lambda>t. Inr EntityKind.Task),
     sql_real = Some,
     state_to_string = (\<lambda>s. Inr (replicate (unat (CurrentState.revision s)) (CHR ''s''))),
     state_from_str = (\<lambda>t. case map_of [(4, setup_state), (5, claimed_state),
         (6, verified_state), (7, verified_state\<lparr>CurrentState.revision := 7,
            tasks := [(from_uuid 3, the_task\<lparr>Task.status := TaskStatus.Completed\<rparr>)],
            applied_events := applied_events verified_state @ [from_uuid 17]\<rparr>)] (length t) of
       None \<Rightarrow> Inl ''unknown state'' | Some s \<Rightarrow> Inr s),
     trace_to_string = (\<lambda>t. Inl ''no traces'')\<rparr>"

definition no_fault :: "stage \<Rightarrow> string option" where "no_fault st = None"

definition completed_state :: CurrentState where
  "completed_state = verified_state\<lparr>CurrentState.revision := 7,
     tasks := [(from_uuid 3, the_task\<lparr>Task.status := TaskStatus.Completed\<rparr>)],
     applied_events := applied_events verified_state @ [from_uuid 17]\<rparr>"

text \<open>The rows of an event without a subject, and of the event of the completion.\<close>

definition demo_row :: "ExperienceEvent \<Rightarrow> EventRow" where
  "demo_row e = \<lparr>col_event_id = id_text blank_ext (ExperienceEvent.event_id e),
     col_occurred_at = ''t'', col_recorded_at = ''t'',
     col_kind = event_kind_text demo_codec (event_kind e),
     col_actor_id = id_text blank_ext (ExperienceEvent.actor_id e), col_subject_kind = None,
     col_subject_id = None, col_payload = (case payload e of JNumber t \<Rightarrow> t | _ \<Rightarrow> []),
     col_source_type = ''test'', col_source_ref = None, col_causation_id = None,
     col_correlation_id = None, col_confidence = None, col_integrity_hash = zero_hash\<rparr>"

definition demo_db :: "ExperienceEvent list \<Rightarrow> CurrentState \<Rightarrow> Db" where
  "demo_db es s = \<lparr>event_rows = map demo_row es,
     snapshot = Some \<lparr>snap_revision = CurrentState.revision s,
       snap_json = replicate (unat (CurrentState.revision s)) (CHR ''s''),
       snap_hash = snapshot_hash blank_ext
         (replicate (unat (CurrentState.revision s)) (CHR ''s''))\<rparr>,
     trace_rows = [], lease_row = None, derived_from = Some s\<rparr>"

lemma codec_reads [simp]:
  "uuid_parse demo_codec t = Inr (of_nat (length t))"
  "value_to_string demo_codec (JNumber t) = Inr t"
  "value_from_str demo_codec t = Inr (JNumber t)"
  "state_to_string demo_codec s = Inr (replicate (unat (CurrentState.revision s)) (CHR ''s''))"
  "sql_real demo_codec = Some"
  by (simp_all add: demo_codec_def)

lemma ids_read [simp]: "length (uuid_text demo u) = unat u" "length (uuid_text blank_ext u) = unat u"
    "uuid_text demo = uuid_text blank_ext"
  by (simp_all add: demo_def blank_ext_def)

lemma an_event_id [simp]: "ExperienceEvent.event_id (an_event eid actor k tag subj) = from_uuid eid"
  by (simp add: an_event_def)

lemma empty_hash [simp]: "sha256_hex blank_ext [] = zero_hash"
proof -
  have "hex_byte (CHR 0x00) = ''00''" "hex_byte (char_of (0 :: nat)) = ''00''" by code_simp+
  then show ?thesis
    by (simp add: sha256_hex_def blank_ext_def zero_hash_def numeral_eq_Suc hex_byte_def [symmetric])
qed

lemma demo_integrity [simp]: "verify_integrity demo (an_event eid actor k tag subj) = Inr True"
proof -
  have "event_json demo = (\<lambda>e. Inr [])" "sha256_hex demo = sha256_hex blank_ext"
    by (auto simp: demo_def blank_ext_def sha256_hex_def)
  then show ?thesis by (simp add: verify_integrity_def calculate_hash_def an_event_def)
qed

lemma kinds_read:
  assumes "(k, t) \<in> set demo_kinds"
  shows "kind_from_str demo_codec ([CHR 0x22] @ event_kind_text demo_codec k @ [CHR 0x22]) = Inr k"
proof -
  have q: "trim_quotes ([CHR 0x22] @ t @ [CHR 0x22]) = t"
    using assms by (auto simp: demo_kinds_def trim_quotes_def)
  moreover have "kind_to_string demo_codec k = Inr ([CHR 0x22] @ t @ [CHR 0x22])"
    using assms by (auto simp: demo_codec_def demo_kinds_def)
  ultimately have "event_kind_text demo_codec k = t"
    by (simp add: event_kind_text_def enum_text_def)
  with q have "kind_from_str demo_codec ([CHR 0x22] @ event_kind_text demo_codec k @ [CHR 0x22]) =
      (case map_of (map prod.swap demo_kinds) t of None \<Rightarrow> Inl ''unknown'' | Some k \<Rightarrow> Inr k)"
    by (simp add: demo_codec_def)
  also have "\<dots> = Inr k" using assms by (auto simp: demo_kinds_def)
  finally show ?thesis .
qed

lemma demo_reads_event:
  "(k, t) \<in> set demo_kinds \<Longrightarrow> codec_reads_event demo demo_codec (an_event eid actor k tag None)"
  using kinds_read [of k t]
  by (simp add: codec_reads_event_def an_event_def id_text_def del: append_Cons)

lemma demo_row: "row_of_event demo demo_codec (an_event eid actor k tag None) =
    Inr (demo_row (an_event eid actor k tag None))"
  by (simp add: row_of_event_def demo_row_def an_event_def id_text_def)

lemma demo_row_id [simp]: "col_event_id (demo_row (an_event eid actor k tag subj)) = uuid_text blank_ext eid"
  by (simp add: demo_row_def an_event_def id_text_def)

lemma texts_differ [simp]: "uuid_text blank_ext u = uuid_text blank_ext v \<longleftrightarrow> u = v"
proof -
  have "u = v" if "uuid_text blank_ext u = uuid_text blank_ext v"
    using arg_cong [OF that, of length] by (simp add: word_unat_eq_iff)
  then show ?thesis by blast
qed

lemma demo_snapshot [simp]: "snapshot_hash demo = snapshot_hash blank_ext"
  by (intro HOL.ext) (simp add: snapshot_hash_def sha256_hex_def demo_def)

definition claim_ledger :: "ExperienceEvent list" where
  "claim_ledger = setup_events @ [claim_event]"

definition full_ledger :: "ExperienceEvent list" where
  "full_ledger = setup_events @ [claim_event, verdict_event]"

lemma ledgers_replay:
  "apply_all demo default_state setup_events = Inr setup_state"
  "apply_all demo default_state claim_ledger = Inr claimed_state"
  "apply_all demo default_state full_ledger = Inr verified_state"
  using setup_replay claim_step verdict_step
  by (simp_all add: replay_def claim_ledger_def full_ledger_def ledger.run_append)

lemma fresh_state [simp]: "load_state x c fresh_db = Inr default_state"
  using fresh_db_holds [of x c] by (simp add: db_holds_def)

lemmas commit_defs = commit_batch_def sql_def no_fault_def Let_def demo_row fresh_db_def demo_db_def
  revision_of_i64_def get_def len_u64_def

lemma setup_commit:
  "commit_batch demo demo_codec no_fault fresh_db setup_events setup_state None None =
     Inr (demo_db setup_events setup_state)"
  by (simp add: commit_defs setup_events_def setup_state_def)

lemma claim_commit:
  "commit_batch demo demo_codec no_fault fresh_db claim_ledger claimed_state None None =
     Inr (demo_db claim_ledger claimed_state)"
  by (simp add: commit_defs claim_ledger_def setup_events_def claim_event_def setup_state_def
      claimed_state_def)

lemma full_commit:
  "commit_batch demo demo_codec no_fault fresh_db full_ledger verified_state None None =
     Inr (demo_db full_ledger verified_state)"
  by (simp add: commit_defs full_ledger_def setup_events_def claim_event_def verdict_event_def
      setup_state_def verified_state_def)

lemma ledger_kinds: "\<forall>e \<in> set full_ledger. codec_reads_event demo demo_codec e"
proof -
  have "\<exists>eid actor k tag t. e = an_event eid actor k tag None \<and> (k, t) \<in> set demo_kinds"
    if "e \<in> set full_ledger" for e
    using that unfolding full_ledger_def setup_events_def claim_event_def verdict_event_def
      demo_kinds_def by auto
  then show ?thesis using demo_reads_event by blast
qed

lemma states_read: "codec_reads_state demo_codec setup_state"
  "codec_reads_state demo_codec verified_state" "codec_reads_state demo_codec claimed_state"
proof -
  have "trim (replicate 4 (CHR ''s'')) = ''ssss''" "trim (replicate 6 (CHR ''s'')) = ''ssssss''"
      "trim (replicate 5 (CHR ''s'')) = ''sssss''"
    by code_simp+
  moreover have "state_from_str demo_codec (replicate 4 (CHR ''s'')) = Inr setup_state"
      "state_from_str demo_codec (replicate 6 (CHR ''s'')) = Inr verified_state"
      "state_from_str demo_codec (replicate 5 (CHR ''s'')) = Inr claimed_state"
    by (simp_all add: demo_codec_def)
  moreover have "CurrentState.revision setup_state = 4" "CurrentState.revision verified_state = 6"
      "CurrentState.revision claimed_state = 5"
    by (simp_all add: setup_state_def verified_state_def claimed_state_def)
  ultimately show "codec_reads_state demo_codec setup_state"
    "codec_reads_state demo_codec verified_state" "codec_reads_state demo_codec claimed_state"
    by (simp_all add: codec_reads_state_def)
qed

lemma setup_record:
  "record_batch demo demo_codec no_fault fresh_db setup_events None None =
     Inr (setup_state, demo_db setup_events setup_state)"
  using ledgers_replay(1) setup_commit by (simp add: record_batch_def)

lemma claim_record:
  "record_batch demo demo_codec no_fault fresh_db claim_ledger None None =
     Inr (claimed_state, demo_db claim_ledger claimed_state)"
  using ledgers_replay(2) claim_commit by (simp add: record_batch_def)

lemma full_record:
  "record_batch demo demo_codec no_fault fresh_db full_ledger None None =
     Inr (verified_state, demo_db full_ledger verified_state)"
  using ledgers_replay(3) full_commit by (simp add: record_batch_def)

lemma demo_holds:
  "db_holds demo demo_codec (demo_db setup_events setup_state) setup_events setup_state"
  "db_holds demo demo_codec (demo_db full_ledger verified_state) full_ledger verified_state"
  "db_holds demo demo_codec (demo_db claim_ledger claimed_state) claim_ledger claimed_state"
  using record_batch_holds [OF fresh_db_holds claim_record] record_batch_holds [OF fresh_db_holds setup_record] ledger_kinds states_read
    record_batch_holds [OF fresh_db_holds full_record]
  by (simp_all add: full_ledger_def claim_ledger_def setup_events_def)

section \<open>Completing the task\<close>

definition done_event :: ExperienceEvent where
  "done_event = (an_event 17 1 TaskCompleted ''completed''
       (Some \<lparr>EntityRef.kind = EntityKind.Task, id = 3\<rparr>))
     \<lparr>source := \<lparr>EventSource.source_type = ''completion'', source_ref = None\<rparr>,
      correlation_id := Some (uuid_text blank_ext 3)\<rparr>"

definition shown :: "CompletionError \<Rightarrow> string" where "shown err = ''error''"

lemma demo_fields [simp]:
  "event_json demo = (\<lambda>e. Inr [])" "sha256_hex demo = sha256_hex blank_ext"
  "task_to_value demo = (\<lambda>t. if t = the_task\<lparr>Task.status := TaskStatus.Completed\<rparr>
     then Inr (JNumber ''completed'') else Inl [])"
  by (auto simp: demo_def blank_ext_def sha256_hex_def)

lemma done_made:
  "completion_event demo (from_uuid 17) ''t'' ''t'' (from_uuid 1) TaskCompleted EntityKind.Task 3
     (task_to_value demo (the_task\<lparr>Task.status := TaskStatus.Completed\<rparr>))
     (Some (id_text demo (from_uuid 3 :: TaskId))) None None = Inr done_event"
  by (simp add: completion_event_def new_with_id_def calculate_hash_def done_event_def an_event_def
      Let_def id_text_def)

lemma done_step: "apply_event demo verified_state done_event = Inr completed_state"
  by (simp add: step_defs done_event_def setup_state_def verified_state_def completed_state_def
      default_state_def apply_task_completion_def subject_is_def transition_task_def
      task_allowed_def)

lemma gate_ready:
  "evaluate_task_completion_in demo shown verified_state full_ledger (from_uuid 3) =
     Inr (CompletionGateResult.Ready [from_uuid 5])"
  by (simp add: evaluate_task_completion_in_def ensure_task_def latest_claims_def full_ledger_def
      setup_events_def claim_event_def verdict_event_def step_defs setup_state_def
      verified_state_def default_state_def judge_criterion_def judge_claim_def no_verdict_def
      validate_one_evidence_def)

lemma full_head [simp]:
  "load_state demo demo_codec (demo_db full_ledger verified_state) = Inr verified_state"
  "load_events demo demo_codec (demo_db full_ledger verified_state) = Inr full_ledger"
  "replay demo full_ledger = Inr verified_state"
  using demo_holds(2) by (simp_all add: db_holds_def)

lemma done_commit:
  "\<exists>db'. commit_batch demo demo_codec no_fault (demo_db full_ledger verified_state) [done_event]
     completed_state (Some 6) None = Inr db'"
proof -
  have "verify_integrity demo done_event = Inr True"
    by (simp add: done_event_def an_event_def verify_integrity_def calculate_hash_def)
  moreover have "col_event_id r \<notin> set (map col_event_id (map demo_row full_ledger))"
    if "row_of_event demo demo_codec done_event = Inr r" for r
    using that by (auto simp: row_of_event_def done_event_def an_event_def id_text_def res_simps
        full_ledger_def setup_events_def claim_event_def verdict_event_def demo_row_def)
  moreover have "\<exists>r. row_of_event demo demo_codec done_event = Inr r"
    by (simp add: row_of_event_def done_event_def an_event_def)
  ultimately show ?thesis
    by (auto simp: commit_batch_def sql_def no_fault_def Let_def demo_db_def revision_of_i64_def
        get_def len_u64_def completed_state_def verified_state_def setup_state_def
        full_ledger_def setup_events_def done_event_def an_event_def)
qed

lemma complete_run:
  "\<exists>db'. complete_task demo shown demo_codec no_fault (from_uuid 17) ''t'' ''t''
     (demo_db full_ledger verified_state) (demo_db full_ledger verified_state)
     (from_uuid 1) (from_uuid 3) 6 = Inr (the_task\<lparr>Task.status := TaskStatus.Completed\<rparr>, db')"
proof -
  obtain db' where db: "commit_batch demo demo_codec no_fault (demo_db full_ledger verified_state)
     [done_event] completed_state (Some 6) None = Inr db'"
    using done_commit by blast
  have s: "CurrentState.revision verified_state = 6" "bt_get (tasks verified_state) (from_uuid 3) = Some the_task"
      "ensure_task verified_state (from_uuid 3) = Inr ()"
      "ensure_non_model_actor verified_state (from_uuid 1) = Inr ()"
      "transition_task the_task TaskStatus.Completed = Inr (the_task\<lparr>Task.status := TaskStatus.Completed\<rparr>)"
      "Task.status the_task = TaskStatus.InProgress"
    by (simp_all add: verified_state_def setup_state_def ensure_task_def ensure_non_model_actor_def
        step_defs transition_task_def task_allowed_def)
  have "commit demo demo_codec no_fault (demo_db full_ledger verified_state) 6 done_event =
      Inr (completed_state, db')"
    using db done_step s by (simp add: commit_def record_batch_def)
  then show ?thesis
    using done_made s gate_ready by (simp add: complete_task_def)
qed

section \<open>Verifying the claim\<close>

lemma demo_values [simp]:
  "claim_to_value demo = (\<lambda>k. if k = the_claim then Inr (JNumber ''claim'') else Inl [])"
  "criterion_to_value demo = (\<lambda>k. if k = the_criterion then Inr (JNumber ''criterion'') else Inl [])"
  "claim_transition_to_value demo =
     (\<lambda>t. if t = the_verdict then Inr (JNumber ''verdict'') else Inl [])"
  by (simp_all add: demo_def blank_ext_def)

lemma claim_head [simp]:
  "load_state demo demo_codec (demo_db claim_ledger claimed_state) = Inr claimed_state"
  "load_events demo demo_codec (demo_db claim_ledger claimed_state) = Inr claim_ledger"
  using demo_holds(3) by (simp_all add: db_holds_def)

definition seen_event :: ExperienceEvent where
  "seen_event = (an_event 16 1 CompletionClaimVerified ''verdict''
       (Some \<lparr>EntityRef.kind = EntityKind.CompletionClaim, id = 5\<rparr>))
     \<lparr>source := \<lparr>EventSource.source_type = ''completion'',
                 source_ref = Some (uuid_text blank_ext 1)\<rparr>,
      correlation_id := Some (uuid_text blank_ext 3)\<rparr>"

lemma seen_step: "apply_event demo claimed_state seen_event = Inr verified_state"
  by (simp add: step_defs seen_event_def setup_state_def claimed_state_def verified_state_def
      default_state_def apply_claim_verified_event_def apply_claim_transition_def)

lemma seen_made:
  "completion_event demo (from_uuid 16) ''t'' ''t'' (from_uuid 1) CompletionClaimVerified
     EntityKind.CompletionClaim 5 (claim_transition_to_value demo the_verdict)
     (Some (id_text demo (from_uuid 3 :: TaskId))) None
     (Some (id_text demo (from_uuid 1 :: PrincipalId))) = Inr seen_event"
  by (simp add: completion_event_def new_with_id_def calculate_hash_def seen_event_def an_event_def
      Let_def id_text_def)

lemma seen_commit:
  "\<exists>db'. commit_batch demo demo_codec no_fault (demo_db claim_ledger claimed_state) [seen_event]
     verified_state (Some 5) None = Inr db'"
proof -
  have "verify_integrity demo seen_event = Inr True"
    by (simp add: seen_event_def an_event_def verify_integrity_def calculate_hash_def)
  moreover have "col_event_id r \<notin> set (map col_event_id (map demo_row claim_ledger))"
    if "row_of_event demo demo_codec seen_event = Inr r" for r
    using that by (auto simp: row_of_event_def seen_event_def an_event_def id_text_def res_simps
        claim_ledger_def setup_events_def claim_event_def demo_row_def)
  moreover have "\<exists>r. row_of_event demo demo_codec seen_event = Inr r"
    by (simp add: row_of_event_def seen_event_def an_event_def)
  ultimately show ?thesis
    by (auto simp: commit_batch_def sql_def no_fault_def Let_def demo_db_def revision_of_i64_def
        get_def len_u64_def claimed_state_def verified_state_def setup_state_def
        claim_ledger_def setup_events_def seen_event_def an_event_def)
qed

lemma verify_run:
  "\<exists>db'. transition_claim demo demo_codec no_fault (from_uuid 16) ''t'' ''t'' ''t''
     (demo_db claim_ledger claimed_state) (demo_db claim_ledger claimed_state)
     (demo_db claim_ledger claimed_state) (from_uuid 1) (from_uuid 5)
     VerificationDisposition.Verified ''seen'' = Inr (verified_claim, db')"
proof -
  obtain db' where db: "commit_batch demo demo_codec no_fault (demo_db claim_ledger claimed_state)
     [seen_event] verified_state (Some 5) None = Inr db'"
    using seen_commit by blast
  have rev: "CurrentState.revision claimed_state = 5" by (simp add: claimed_state_def)
  with db seen_step have com: "commit demo demo_codec no_fault (demo_db claim_ledger claimed_state) 5
      seen_event = Inr (verified_state, db')"
    by (simp add: commit_def record_batch_def)
  have refs: "validate_evidence_refs demo claimed_state claim_ledger [the_evidence] 4 = Inr ()"
    by (simp add: validate_one_evidence_def claim_ledger_def setup_events_def claim_event_def
        an_event_def the_evidence_def)
  have claim: "bt_get (completion_claims claimed_state) (from_uuid 5) = Some the_claim"
      "bt_get (completion_claims verified_state) (from_uuid 5) = Some verified_claim"
      "ensure_non_model_actor claimed_state (from_uuid 1) = Inr ()"
      "non_empty ''seen'' = Some ''seen''" "claim_event_id claim_ledger (from_uuid 5) = None"
    by (simp_all add: claimed_state_def verified_state_def setup_state_def ensure_non_model_actor_def
        step_defs non_empty_def claim_event_id_def claim_ledger_def setup_events_def claim_event_def
        subject_is_def)
  have fields: "CompletionClaim.disposition the_claim = NeedsValidation"
      "CompletionClaim.evidence_refs the_claim = [the_evidence]" "blocker the_claim = None"
      "CompletionClaim.as_of_sequence the_claim = 4" "CompletionClaim.id the_claim = from_uuid 5"
      "CompletionClaim.task_id the_claim = from_uuid 3"
      "CompletionClaim.criterion_id the_claim = from_uuid 4"
    by (simp_all add: the_claim_def)
  show ?thesis
    using seen_made com refs claim rev
    by (simp add: transition_claim_def fields the_verdict_def [symmetric])
qed

end
