(* ===== verification/LocalPolicy.thy ===== *)
theory LocalPolicy
  imports Entities
begin

text \<open>
  The local action policy (\<open>src/adapters/local_policy.rs\<close>): which intents a model may act on,
  and which of them only after an approval. The decision is a function of the intent's
  capability and operation alone.
\<close>

record PolicyDecision =
  allowed :: bool
  requires_approval :: bool
  reason :: string

datatype ComputerUseRisk = Observe | Interact | SensitiveInteraction

definition computer_use_risk :: "string \<Rightarrow> ComputerUseRisk option" where
  "computer_use_risk op =
     (if op \<in> {''list_windows'', ''screenshot'', ''inspect_accessibility''} then Some Observe
      else if op \<in> {''focus_window'', ''scroll'', ''move_pointer''} then Some Interact
      else if op \<in> {''click'', ''double_click'', ''type_text'', ''key'', ''hotkey''}
      then Some SensitiveInteraction
      else None)"

abbreviation decide :: "bool \<Rightarrow> bool \<Rightarrow> string \<Rightarrow> 'e + PolicyDecision" where
  "decide a r msg \<equiv> Inr \<lparr>allowed = a, requires_approval = r, reason = msg\<rparr>"

datatype PolicyError = Evaluation string

definition evaluate :: "PrincipalId \<Rightarrow> ActionIntent \<Rightarrow> PolicyError + PolicyDecision" where
  "evaluate actor intent =
     (let cap = ActionIntent.capability intent; op = ActionIntent.operation intent in
      if cap = ''computer'' then
        (case computer_use_risk op of
           Some Observe \<Rightarrow> decide True False ''desktop observation is read-only''
         | Some Interact \<Rightarrow> decide True False ''non-sensitive desktop interaction is permitted''
         | Some SensitiveInteraction \<Rightarrow>
             decide True True ''desktop input may trigger sensitive external effects''
         | None \<Rightarrow> decide False False ''unknown computer-use operation'')
      else if cap = ''workspace_read'' \<and>
        op \<in> {''list'', ''read'', ''read_text'', ''search'', ''metadata'', ''hash'', ''diff''}
      then decide True False ''v1 permits read-only workspace access''
      else if cap = ''workspace_write'' \<and> op \<in> {''write'', ''write_text'', ''create''}
      then decide True True ''workspace writes are permitted only after explicit approval''
      else if cap = ''document_reader'' \<and> op = ''read''
      then decide True False ''v1 permits read-only document conversion''
      else if cap = ''git_read'' \<and> op \<in> {''status'', ''diff'', ''log'', ''show'', ''branch_list''}
      then decide True False ''Git inspection is read-only''
      else if cap = ''git_write'' \<and> op \<in> {''add'', ''commit'', ''branch_create'', ''checkout''}
      then decide True True ''Git mutation requires explicit approval''
      else if starts_with cap ''browser.'' \<and>
        op \<in> {''open'', ''snapshot'', ''find'', ''click'', ''type'', ''scroll'', ''back'', ''forward'',
              ''reload'', ''screenshot'', ''download'', ''current_url''}
      then
        (let approve = (op \<notin> {''open'', ''snapshot'', ''find'', ''current_url''}) in
         decide True approve
           (if approve then ''browser mutation requires explicit approval''
            else ''browser observation is read-only''))
      else decide False False ''the local Phase 0 policy permits no external mutation'')"

section \<open>What may happen without an approval\<close>

text \<open>
  The observations of each capability, and the three pointer movements the policy counts as
  harmless. Everything else is refused or waits for an approval.
\<close>

definition unattended :: "string \<Rightarrow> string \<Rightarrow> bool" where
  "unattended cap op \<longleftrightarrow>
     (cap, op) \<in> {(''computer'', ''list_windows''), (''computer'', ''screenshot''),
       (''computer'', ''inspect_accessibility''), (''computer'', ''focus_window''),
       (''computer'', ''scroll''), (''computer'', ''move_pointer''),
       (''workspace_read'', ''list''), (''workspace_read'', ''read''),
       (''workspace_read'', ''read_text''), (''workspace_read'', ''search''),
       (''workspace_read'', ''metadata''), (''workspace_read'', ''hash''),
       (''workspace_read'', ''diff''), (''document_reader'', ''read''),
       (''git_read'', ''status''), (''git_read'', ''diff''), (''git_read'', ''log''),
       (''git_read'', ''show''), (''git_read'', ''branch_list'')} \<or>
     starts_with cap ''browser.'' \<and> op \<in> {''open'', ''snapshot'', ''find'', ''current_url''}"

lemma browser_capability:
  "starts_with cap ''browser.'' \<Longrightarrow> cap \<noteq> ''computer'' \<and> cap \<noteq> ''workspace_read'' \<and>
     cap \<noteq> ''workspace_write'' \<and> cap \<noteq> ''document_reader'' \<and> cap \<noteq> ''git_read'' \<and>
     cap \<noteq> ''git_write''"
  by (auto simp: starts_with_def)

text \<open>The decision's two flags, capability by capability.\<close>

definition flags :: "ActionIntent \<Rightarrow> (bool \<times> bool) option" where
  "flags intent =
     (case evaluate (from_uuid 0) intent of
        Inl _ \<Rightarrow> None | Inr d \<Rightarrow> Some (allowed d, requires_approval d))"

lemma evaluate_flags: "evaluate actor intent = Inr d \<Longrightarrow> flags intent = Some (allowed d, requires_approval d)"
proof -
  have "evaluate actor intent = evaluate (from_uuid 0) intent" by (simp only: evaluate_def)
  then show "evaluate actor intent = Inr d \<Longrightarrow> ?thesis" by (simp add: flags_def)
qed

lemma flags_cases:
  "ActionIntent.capability i = ''computer'' \<Longrightarrow> flags i =
     (case computer_use_risk (ActionIntent.operation i) of
        Some Observe \<Rightarrow> Some (True, False) | Some Interact \<Rightarrow> Some (True, False)
      | Some SensitiveInteraction \<Rightarrow> Some (True, True) | None \<Rightarrow> Some (False, False))"
  "ActionIntent.capability i = ''workspace_read'' \<Longrightarrow> flags i =
     Some (ActionIntent.operation i \<in>
       {''list'', ''read'', ''read_text'', ''search'', ''metadata'', ''hash'', ''diff''}, False)"
  "ActionIntent.capability i = ''workspace_write'' \<Longrightarrow> flags i =
     (let w = ActionIntent.operation i \<in> {''write'', ''write_text'', ''create''} in Some (w, w))"
  "ActionIntent.capability i = ''document_reader'' \<Longrightarrow> flags i =
     Some (ActionIntent.operation i = ''read'', False)"
  "ActionIntent.capability i = ''git_read'' \<Longrightarrow> flags i =
     Some (ActionIntent.operation i \<in> {''status'', ''diff'', ''log'', ''show'', ''branch_list''}, False)"
  "ActionIntent.capability i = ''git_write'' \<Longrightarrow> flags i =
     (let w = ActionIntent.operation i \<in> {''add'', ''commit'', ''branch_create'', ''checkout''} in
      Some (w, w))"
  by (simp_all add: flags_def evaluate_def starts_with_def Let_def
      split: option.split ComputerUseRisk.split)

lemma flags_browser:
  assumes "starts_with (ActionIntent.capability i) ''browser.''"
  shows "flags i = (let op = ActionIntent.operation i in
     Some (op \<in> {''open'', ''snapshot'', ''find'', ''click'', ''type'', ''scroll'', ''back'', ''forward'',
              ''reload'', ''screenshot'', ''download'', ''current_url''},
       op \<in> {''click'', ''type'', ''scroll'', ''back'', ''forward'', ''reload'', ''screenshot'',
              ''download''}))"
  using browser_capability [OF assms] assms by (simp add: flags_def evaluate_def Let_def)

lemma flags_other:
  assumes "ActionIntent.capability i \<notin> {''computer'', ''workspace_read'', ''workspace_write'',
      ''document_reader'', ''git_read'', ''git_write''}"
    and "\<not> starts_with (ActionIntent.capability i) ''browser.''"
  shows "flags i = Some (False, False)"
  using assms by (simp add: flags_def evaluate_def Let_def)

lemma flags_unattended:
  "flags i = Some (True, False) \<longleftrightarrow>
     unattended (ActionIntent.capability i) (ActionIntent.operation i)"
proof -
  consider "ActionIntent.capability i = ''computer''" | "ActionIntent.capability i = ''workspace_read''"
    | "ActionIntent.capability i = ''workspace_write''" | "ActionIntent.capability i = ''document_reader''"
    | "ActionIntent.capability i = ''git_read''" | "ActionIntent.capability i = ''git_write''"
    | (browser) "starts_with (ActionIntent.capability i) ''browser.''"
    | (other) "ActionIntent.capability i \<notin> {''computer'', ''workspace_read'', ''workspace_write'',
      ''document_reader'', ''git_read'', ''git_write''}"
      "\<not> starts_with (ActionIntent.capability i) ''browser.''"
    by blast
  then show ?thesis
  proof cases
    case 1
    then show ?thesis
      by (simp add: flags_cases(1) unattended_def starts_with_def computer_use_risk_def)
  next
    case browser
    note no = browser_capability [OF browser]
    show ?thesis
      unfolding flags_browser [OF browser] unattended_def using no browser by (auto simp: Let_def)
  next
    case other
    then show ?thesis by (simp add: flags_other unattended_def)
  qed (simp_all add: flags_cases unattended_def starts_with_def Let_def, blast+)
qed

lemma evaluate_unattended:
  "evaluate actor intent = Inr d \<Longrightarrow>
     allowed d \<and> \<not> requires_approval d \<longleftrightarrow>
       unattended (ActionIntent.capability intent) (ActionIntent.operation intent)"
  using evaluate_flags [of actor intent d] flags_unattended [of intent] by auto

end
