(* ===== verification/StoreProperties.thy ===== *)
theory StoreProperties
  imports StoredLedger DbScenario LocalPolicy
begin

text \<open>
  Properties of the ledger, of the store behind it and of the lease slot, with the concrete
  runs that satisfy their hypotheses.
\<close>

section \<open>The store and its ledger\<close>






text \<open>
  Optimistic concurrency: a state that was projected from a ledger cannot be committed to
  a database whose ledger has grown since, with or without an expected base revision.
\<close>

theorem commit_refuses_moved_ledger:
  assumes "db_holds x c db0 es s" and "apply_all x s evs = Inr s'"
    and "event_rows db = event_rows db0 @ later" and "later \<noteq> []"
    and "length (event_rows db) < 2 ^ 63"
  shows "\<exists>err. commit_batch x c flt db evs s' eb tr = Inl err"
  using commit_needs_head [OF assms(1,2,3,5)] assms(4)
  by (cases "commit_batch x c flt db evs s' eb tr") auto

theorem commit_refuses_moved_ledger_witness:
  "\<exists>err. commit_batch demo demo_codec no_fault (demo_db full_ledger verified_state) setup_events
     setup_state None None = Inl err"
  by (rule commit_refuses_moved_ledger
      [OF fresh_db_holds ledgers_replay(1), where later = "map demo_row full_ledger"])
    (simp_all add: fresh_db_def demo_db_def full_ledger_def setup_events_def)

text \<open>C40. A row of the \<open>events\<close> table reads back as the event it was written from.\<close>

theorem event_row_roundtrip:
  assumes "codec_reads_event x c e" and "row_of_event x c e = Inr r"
  shows "event_from_row c r = Inr e"
  by (rule row_roundtrip [OF assms])

theorem event_row_roundtrip_witness: "event_from_row demo_codec (demo_row claim_event) = Inr claim_event"
  by (rule event_row_roundtrip [of demo])
    (use ledger_kinds in \<open>simp_all add: full_ledger_def claim_event_def demo_row\<close>)

text \<open>
  An event that the constructor built passes the integrity check with its own hash and
  with no other, and carries its arguments.
\<close>

theorem new_event_verifies:
  assumes "new_with_id x t1 t2 eid actor k subj pl src caus corr conf = Inr e"
  shows "verify_integrity x (e\<lparr>integrity_hash := h\<rparr>) = Inr (h = integrity_hash e) \<and>
      ExperienceEvent.event_id e = eid \<and> ExperienceEvent.actor_id e = actor \<and> event_kind e = k \<and>
      ExperienceEvent.subject e = subj \<and> payload e = pl \<and> causation_id e = caus"
  using new_with_id_Inr [OF assms] by (auto simp: verify_integrity_def res_simps)

theorem new_event_verifies_witness:
  "\<exists>e. new_with_id demo ''t'' ''t'' (from_uuid 1) (from_uuid 2) StateChanged None JNull
       \<lparr>EventSource.source_type = ''test'', source_ref = None\<rparr> None None None = Inr e \<and>
     verify_integrity demo (e\<lparr>integrity_hash := ''forged''\<rparr>) = Inr (''forged'' = integrity_hash e)"
proof -
  obtain e where e: "new_with_id demo ''t'' ''t'' (from_uuid 1) (from_uuid 2) StateChanged None JNull
       \<lparr>EventSource.source_type = ''test'', source_ref = None\<rparr> None None None = Inr e"
    by (simp add: new_with_id_def calculate_hash_def Let_def)
  from e new_event_verifies [OF e] show ?thesis by blast
qed

section \<open>The projection of a ledger\<close>

text \<open>
  A projection can stop and resume at any event: replaying a ledger is replaying a prefix
  and applying the rest to the state it gives, and an error in the prefix is the error of the
  whole.
\<close>

theorem replay_resumes: "replay x (es @ fs) = res_bind (replay x es) (\<lambda>s. apply_all x s fs)"
  by (simp add: replay_def ledger.run_append)

text \<open>
  A state remembers its ledger: its \<open>applied_events\<close> are the identifiers of the events, in
  order and without repetition, its revision is their number, and each of these events is
  refused a second time, with the error that names it.
\<close>

theorem replay_remembers_ledger:
  assumes "replay x es = Inr s"
  shows "applied_events s = map ExperienceEvent.event_id es \<and>
    distinct (map ExperienceEvent.event_id es) \<and> CurrentState.revision s = of_nat (length es) \<and>
    (\<forall>e \<in> set es. apply_event x s e = Inl (Duplicate (id_text x (ExperienceEvent.event_id e))))"
proof -
  have "applied_events s = map ExperienceEvent.event_id es"
    using ledger.run_ids [of x default_state es s] assms by (simp add: replay_def default_state_def)
  then show ?thesis
    using ledger.run_distinct [of x default_state es s] assms replay_revision [OF assms]
    by (simp add: replay_def apply_event_def)
qed

theorem replay_remembers_ledger_witness:
  "CurrentState.revision setup_state = 4 \<and>
   apply_event demo setup_state (an_event 13 1 TaskCreated ''task'' None) =
     Inl (Duplicate (id_text demo (from_uuid 13 :: EventId)))"
  using replay_remembers_ledger [OF setup_replay] by (simp add: setup_events_def)

section \<open>The lease slot\<close>

definition leased_db :: Db where
  "leased_db = fresh_db\<lparr>lease_row := Some (''a'', 30)\<rparr>"

definition lone_world :: world where
  "lone_world = \<lparr>clock = 10, store = fresh_db, belief = (\<lambda>_. None)\<rparr>"

definition leased_world :: world where
  "leased_world = \<lparr>clock = 10, store = leased_db, belief = (\<lambda>_. None)(''a'' := Some 30)\<rparr>"

lemma leased_reachable: "reachable_world leased_world"
proof -
  have d: "lease_deadline 10 20 = 30"
    by (simp add: lease_deadline_def saturating_add_i64_def I64_MAX_def)
  then have "acquire_foreground_lease (clock lone_world) (store lone_world) ''a'' 20 = (leased_db, True)"
    by (simp add: lone_world_def leased_db_def acquire_foreground_lease_def fresh_db_def)
  from lease_step.acquired [OF this] d have "lease_step lone_world leased_world"
    by (simp add: lone_world_def leased_world_def)
  moreover have "reachable_world lone_world"
    by (rule reachable_world.start) (simp add: lone_world_def)
  ultimately show ?thesis by (blast intro: reachable_world.step)
qed

text \<open>
  C34. Mutual exclusion: in every world reachable through acquisitions, renewals, releases,
  refusals, commits and the passage of time, two processes that believe in an unexpired
  foreground lease are the same process, and the database agrees that a lease is active.
\<close>

theorem lease_exclusive:
  assumes "reachable_world w" and "belief w a = Some d" and "sint (clock w) < d"
    and "belief w b = Some d'" and "sint (clock w) < d'"
  shows "a = b \<and> d = d' \<and> has_active_foreground_lease (clock w) (store w)"
proof -
  have "lease_held (store w) = Some (a, d)" "lease_held (store w) = Some (b, d')"
    using reachable_exclusion [OF assms(1)] assms(2-) unfolding lease.exclusion_def by blast+
  then show ?thesis
    using assms(3) by (auto simp: lease_held_def has_active_foreground_lease_def)
qed

theorem lease_exclusive_witness: "has_active_foreground_lease (clock leased_world) (store leased_world)"
  using lease_exclusive [OF leased_reachable, of "''a''" 30 "''a''" 30]
  by (simp add: leased_world_def)

section \<open>The local policy\<close>

text \<open>
  The local policy lets exactly the read-only operations run without an approval: an
  intent is allowed with no approval iff its capability and operation are in the table of
  observations; every other operation is denied or needs an approval.
\<close>

theorem policy_unattended_exactly:
  assumes "evaluate actor intent = Inr d"
  shows "allowed d \<and> \<not> requires_approval d \<longleftrightarrow>
    unattended (ActionIntent.capability intent) (ActionIntent.operation intent)"
  by (rule evaluate_unattended [OF assms])

definition an_intent :: "string \<Rightarrow> string \<Rightarrow> ActionIntent" where
  "an_intent cap op = \<lparr>ActionIntent.id = from_uuid 1, capability = cap, operation = op,
     target = ''t'', arguments = JNull, expected_effect = ''e'', preconditions = [],
     proposed_by_event = None\<rparr>"

theorem policy_unattended_exactly_witness:
  "\<exists>d. evaluate (from_uuid 1) (an_intent ''git_write'' ''commit'') = Inr d \<and>
     \<not> (allowed d \<and> \<not> requires_approval d)"
proof -
  obtain d where d: "evaluate (from_uuid 1) (an_intent ''git_write'' ''commit'') = Inr d"
    by (simp add: evaluate_def an_intent_def Let_def)
  from d policy_unattended_exactly [OF d] show ?thesis
    by (simp add: unattended_def an_intent_def starts_with_def)
qed

end
