(* ===== verification/ClaimProperties.thy ===== *)
theory ClaimProperties
  imports DbScenario
begin

text \<open>
  Properties of completion criteria, claims and the completion gate: what is on record is
  justified and final, and a task completes exactly when the record allows it.
\<close>

section \<open>The record\<close>

text \<open>
  A settled claim is final: whatever events follow, every claim stays on record under its
  identifier with everything but its disposition unchanged, and the disposition itself never
  changes again once a person has verified or rejected the claim.
\<close>

theorem settled_claims_final:
  assumes "apply_all x s es = Inr s'" and "bt_get (completion_claims s) i = Some c"
  shows "\<exists>c'. bt_get (completion_claims s') i = Some c' \<and>
    c' = c\<lparr>CompletionClaim.disposition := CompletionClaim.disposition c'\<rparr> \<and>
    (CompletionClaim.disposition c \<noteq> NeedsValidation \<longrightarrow> c' = c)"
proof -
  from bt_relD [OF claims_extend_run [OF assms(1)] assms(2)]
  obtain c' where c': "bt_get (completion_claims s') i = Some c'" "settles_to c c'" by blast
  moreover from c'(2) have "CompletionClaim.disposition c \<noteq> NeedsValidation \<longrightarrow> c' = c"
    unfolding settles_to_def by (cases c; cases c') simp
  ultimately show ?thesis unfolding settles_to_def by blast
qed

theorem settled_claims_final_witness:
  "\<exists>c'. bt_get (completion_claims completed_state) (from_uuid 5) = Some c' \<and> c' = verified_claim"
proof -
  have run: "apply_all demo verified_state [done_event] = Inr completed_state"
    using done_step by simp
  have c: "bt_get (completion_claims verified_state) (from_uuid 5) = Some verified_claim"
    by (simp add: verified_state_def)
  from settled_claims_final [OF run c] show ?thesis by (auto simp: verified_claim_def)
qed

text \<open>
  A model never writes a claim: an event whose actor is HEKATE leaves every completion
  claim as it is, whatever its kind.
\<close>

theorem model_writes_no_claim:
  assumes "apply_event x s e = Inr s'" and "is_model_actor s (ExperienceEvent.actor_id e)"
  shows "completion_claims s' = completion_claims s"
  using assms(1)
proof (cases rule: apply_event_cases)
  case (1 t)
  from 1(1) show ?thesis
    by (cases rule: claims_step) (use 1(2) assms(2) in simp_all)
qed

theorem model_writes_no_claim_witness:
  "completion_claims (verified_state\<lparr>CurrentState.revision := 7,
     applied_events := applied_events verified_state @ [from_uuid 40]\<rparr>) =
   completion_claims verified_state"
  by (rule model_writes_no_claim [of demo _ "an_event 40 2 StateChanged ''x'' None"])
    (simp_all add: step_defs verified_state_def setup_state_def)

text \<open>
  C31. The record is justified. In the state of any ledger, every claim concerns a criterion of
  its task, carries the fingerprint of its normalised evidence, cites only events that are in
  the ledger no later than the claim's own sequence number, and is verified only with evidence
  and without a blocker.
\<close>

theorem claims_justified:
  assumes "replay x es = Inr s" and "bt_get (completion_claims s) i = Some c"
  shows "CompletionClaim.id c = i \<and> claim_ok x s c \<and>
    (\<forall>ev \<in> set (CompletionClaim.evidence_refs c).
       EvidenceRef.event_id ev \<in> ExperienceEvent.event_id ` set es)"
proof -
  have ok: "CompletionClaim.id c = i \<and> claim_ok x s c"
    using claims_inv_replay [OF assms(1)] assms(2) unfolding claims_inv_def by blast
  moreover have "applied_events s = map ExperienceEvent.event_id es"
    using ledger.run_ids [of x default_state es s] assms(1) by (simp add: replay_def default_state_def)
  ultimately show ?thesis using grounded_in unfolding claim_ok_def by (metis set_map)
qed

theorem claims_justified_witness: "CompletionClaim.id verified_claim = from_uuid 5 \<and>
    claim_ok demo verified_state verified_claim"
proof -
  have "replay demo full_ledger = Inr verified_state" by simp
  moreover have "bt_get (completion_claims verified_state) (from_uuid 5) = Some verified_claim"
    by (simp add: verified_state_def)
  ultimately show ?thesis using claims_justified by blast
qed

text \<open>
  No fact is claimed twice: in the state of any ledger, two claims with the same
  fingerprint are the same claim, and two criteria of a task whose descriptions agree up to
  white space and letter case are the same criterion.
\<close>

theorem claims_and_criteria_distinct:
  assumes "replay x es = Inr s"
  shows "(\<forall>i j c d. bt_get (completion_claims s) i = Some c \<longrightarrow>
      bt_get (completion_claims s) j = Some d \<longrightarrow>
      CompletionClaim.fingerprint c = CompletionClaim.fingerprint d \<longrightarrow> i = j) \<and>
    (\<forall>i j c d. bt_get (completion_criteria s) i = Some c \<longrightarrow>
      bt_get (completion_criteria s) j = Some d \<longrightarrow>
      CompletionCriterion.task_id c = CompletionCriterion.task_id d \<longrightarrow>
      normalize_description x (CompletionCriterion.description c) =
        normalize_description x (CompletionCriterion.description d) \<longrightarrow> i = j)"
  using claims_inv_replay [OF assms] criteria_inv_replay [OF assms]
  unfolding claims_inv_def criteria_inv_def prod.inject by blast

theorem claims_and_criteria_distinct_witness:
  "\<exists>i j c d. bt_get (completion_claims verified_state) i = Some c \<and>
     bt_get (completion_claims verified_state) j = Some d \<and>
     CompletionClaim.fingerprint c = CompletionClaim.fingerprint d \<and> i = j"
proof -
  have "replay demo full_ledger = Inr verified_state" by simp
  moreover have "bt_get (completion_claims verified_state) (from_uuid 5) = Some verified_claim"
    by (simp add: verified_state_def)
  ultimately show ?thesis using claims_and_criteria_distinct by blast
qed

section \<open>The gate\<close>

text \<open>
  C4. The completion gate is ready for a known task exactly when no approval is pending, no
  operation has an unknown effect, and the latest claim about every required criterion of the
  task is verified, unblocked, and still supported by its evidence.
\<close>

theorem gate_ready_exactly:
  "(\<exists>vs. evaluate_task_completion_in x display s events tid = Inr (CompletionGateResult.Ready vs)) \<longleftrightarrow>
     bt_contains (tasks s) tid \<and> nothing_pending s \<and>
     (\<exists>latest. latest_claims x events = Inr latest \<and>
        (\<forall>k \<in> set (required_criteria s tid). criterion_met x s events latest k))"
  by (rule gate_ready_iff)

theorem gate_ready_exactly_witness:
  "nothing_pending verified_state \<and> (\<exists>latest. latest_claims demo full_ledger = Inr latest \<and>
     (\<forall>k \<in> set (required_criteria verified_state (from_uuid 3)).
        criterion_met demo verified_state full_ledger latest k))"
  using gate_ready gate_ready_exactly [of demo shown verified_state full_ledger "from_uuid 3"]
  by blast

text \<open>
  C3. Completing an open task succeeds only for an actor that is not a model, at the revision
  the caller expects, with the gate ready and the task in progress; it returns the completed
  task, and the state it stores holds that task.
\<close>

theorem complete_task_sound:
  assumes "db_holds x c db es s" and "bt_get (tasks s) tid = Some cur"
    and "Task.status cur \<noteq> TaskStatus.Completed"
    and "complete_task x display c flt eid t1 t2 db db actor tid expected = Inr (t, db')"
  shows "\<not> is_model_actor s actor \<and> expected = CurrentState.revision s \<and>
    (\<exists>vs. evaluate_task_completion_in x display s es tid = Inr (CompletionGateResult.Ready vs)) \<and>
    Task.status cur = TaskStatus.InProgress \<and> t = cur\<lparr>Task.status := TaskStatus.Completed\<rparr> \<and>
    (\<exists>s'. derived_from db' = Some s' \<and> bt_get (tasks s') tid = Some t)"
  using complete_task_Inr [OF assms] complete_task_effect [OF assms] by blast

theorem complete_task_sound_witness:
  "\<exists>db' s'. complete_task demo shown demo_codec no_fault (from_uuid 17) ''t'' ''t''
       (demo_db full_ledger verified_state) (demo_db full_ledger verified_state)
       (from_uuid 1) (from_uuid 3) 6 = Inr (the_task\<lparr>Task.status := TaskStatus.Completed\<rparr>, db') \<and>
     derived_from db' = Some s' \<and>
     bt_get (tasks s') (from_uuid 3) = Some (the_task\<lparr>Task.status := TaskStatus.Completed\<rparr>)"
proof -
  have "bt_get (tasks verified_state) (from_uuid 3) = Some the_task"
    "Task.status the_task \<noteq> TaskStatus.Completed"
    by (simp_all add: verified_state_def setup_state_def the_task_def)
  with complete_run complete_task_sound [OF demo_holds(2)] show ?thesis by metis
qed

text \<open>
  A completion that was decided on one ledger never lands on another: when the database
  has moved since the service read it, completing an open task is refused.
\<close>

theorem complete_task_refuses_moved_ledger:
  assumes "db_holds x c read es s" and "bt_get (tasks s) tid = Some cur"
    and "Task.status cur \<noteq> TaskStatus.Completed"
    and "db_holds x c db es' s'" and "length es' \<noteq> length es"
  shows "\<exists>err. complete_task x display c flt eid t1 t2 read db actor tid expected = Inl err"
  by (rule complete_task_stale [OF assms])

theorem complete_task_refuses_moved_ledger_witness:
  "\<exists>err. complete_task demo shown demo_codec no_fault (from_uuid 17) ''t'' ''t''
     (demo_db full_ledger verified_state) (demo_db setup_events setup_state)
     (from_uuid 1) (from_uuid 3) 6 = Inl err"
  by (rule complete_task_refuses_moved_ledger [OF demo_holds(2) _ _ demo_holds(1), where cur = the_task])
    (simp_all add: verified_state_def setup_state_def the_task_def full_ledger_def)

section \<open>The service and the projector\<close>

text \<open>
  Settling a claim through the service succeeds only for a claim that still needs
  validation, by an actor that is not a model and with the claim's evidence confirmed against
  the stored ledger; it returns the settled claim and stores a state in which that claim's
  disposition, and no other claim, has changed.
\<close>

theorem transition_claim_sound:
  assumes "db_holds x c db es s"
    and "\<And>t v. claim_transition_to_value x t = Inr v \<Longrightarrow> de_claim_transition x v = Inr t"
    and "transition_claim x c flt eid t0 t1 t2 db db db actor cid d reason0 = Inr (k', db')"
  shows "\<exists>k s'. bt_get (completion_claims s) cid = Some k \<and>
    CompletionClaim.disposition k = NeedsValidation \<and> d \<noteq> NeedsValidation \<and>
    k' = k\<lparr>CompletionClaim.disposition := d\<rparr> \<and> \<not> is_model_actor s actor \<and>
    validate_evidence_refs x s es (CompletionClaim.evidence_refs k)
      (CompletionClaim.as_of_sequence k) = Inr () \<and>
    derived_from db' = Some s' \<and>
    completion_claims s' = bt_modify cid (\<lambda>b. b\<lparr>CompletionClaim.disposition := d\<rparr>) (completion_claims s)"
  by (rule transition_claim_Inr [OF assms])

lemma demo_serde:
  "claim_transition_to_value demo t = Inr v \<Longrightarrow> de_claim_transition demo v = Inr t"
  "claim_to_value demo k = Inr v \<Longrightarrow> de_claim demo v = Inr k"
  "criterion_to_value demo r = Inr v \<Longrightarrow> de_criterion demo v = Inr r"
  by (auto simp: tagged_def split: if_splits)

theorem transition_claim_sound_witness:
  "\<exists>db' s'. transition_claim demo demo_codec no_fault (from_uuid 16) ''t'' ''t'' ''t''
     (demo_db claim_ledger claimed_state) (demo_db claim_ledger claimed_state)
     (demo_db claim_ledger claimed_state) (from_uuid 1) (from_uuid 5)
     VerificationDisposition.Verified ''seen'' = Inr (verified_claim, db') \<and>
   derived_from db' = Some s' \<and> completion_claims s' = bt_modify (from_uuid 5)
     (\<lambda>b. b\<lparr>CompletionClaim.disposition := VerificationDisposition.Verified\<rparr>)
     (completion_claims claimed_state)"
proof -
  from verify_run obtain db' where run: "transition_claim demo demo_codec no_fault (from_uuid 16)
     ''t'' ''t'' ''t'' (demo_db claim_ledger claimed_state) (demo_db claim_ledger claimed_state)
     (demo_db claim_ledger claimed_state) (from_uuid 1) (from_uuid 5)
     VerificationDisposition.Verified ''seen'' = Inr (verified_claim, db')" by blast
  from run transition_claim_sound [OF demo_holds(3) demo_serde(1) run] show ?thesis by blast
qed

text \<open>
  The service is no more permissive than the projector: on an unchanged database, a
  criterion, a claim or a verdict that passed the service's checks is never refused by the
  projector as an invalid payload, so the two copies of the rules agree.
\<close>

theorem service_agrees_with_projector:
  assumes "db_holds x c db es s"
    and "\<And>k v. criterion_to_value x k = Inr v \<Longrightarrow> de_criterion x v = Inr k"
    and "\<And>k v. claim_to_value x k = Inr v \<Longrightarrow> de_claim x v = Inr k"
    and "\<And>t v. claim_transition_to_value x t = Inr v \<Longrightarrow> de_claim_transition x v = Inr t"
    and "\<not> bt_contains (completion_criteria s) new_k" and "\<not> bt_contains (completion_claims s) new_c"
  shows "define_criterion x c flt new_k eid t0 t1 t2 db db actor tid desc req \<noteq>
      Inl (Projection (InvalidPayload kd msg)) \<and>
    create_claim x c flt new_c eid t0 t1 t2 db db db actor tid kid conf refs blk prev \<noteq>
      Inl (Projection (InvalidPayload kd msg)) \<and>
    transition_claim x c flt eid t0 t1 t2 db db db actor cid d reason0 \<noteq>
      Inl (Projection (InvalidPayload kd msg))"
  by (intro conjI define_criterion_agrees [OF assms(1) _ assms(5)]
      create_claim_agrees [OF assms(1) _ assms(6)] transition_claim_agrees [OF assms(1)])
    (fact assms)+

theorem service_agrees_with_projector_witness:
  "create_claim demo demo_codec no_fault (from_uuid 5) (from_uuid 15) ''t'' ''t'' ''t''
     (demo_db setup_events setup_state) (demo_db setup_events setup_state)
     (demo_db setup_events setup_state) (from_uuid 1) (from_uuid 3) (from_uuid 4) 80
     [the_evidence] None None \<noteq> Inl (Projection (InvalidPayload CompletionClaimCreated ''''))"
proof -
  have "\<not> bt_contains (completion_criteria setup_state) (from_uuid 40)"
      "\<not> bt_contains (completion_claims setup_state) (from_uuid 5)"
    by (simp_all add: setup_state_def default_state_def bt_contains_def)
  from service_agrees_with_projector [OF demo_holds(1) demo_serde(3,2,1) this] show ?thesis by blast
qed

end
