(* ===== verification/SleepScenario.thy ===== *)
theory SleepScenario
  imports Scenario
begin

text \<open>
  The second half of the concrete run: a night. A sleep run proposes a position, the user
  verifies it, HEKATE holds it, the run ends; HEKATE then proposes an initiative, which the
  user dismisses, and resolves what an observation is about.
\<close>

section \<open>Data\<close>

definition the_run :: SleepRun where
  "the_run = \<lparr>SleepRun.id = from_uuid 6, status = SleepRunStatus.Running, high_water_revision = 4,
     cursor_before = 0, cursor_after = None, seed_event_ids = [from_uuid 13],
     processed_observation_count = 0, created_candidate_count = 0, started_at = ''t'',
     finished_at = None, error_kind = None, context_budget_report = None\<rparr>"

definition the_rest :: SleepRun where
  "the_rest = the_run\<lparr>SleepRun.status := SleepRunStatus.Completed, cursor_after := Some 4\<rparr>"

definition proposed :: "string \<Rightarrow> IntegrationCandidate" where
  "proposed text0 = \<lparr>IntegrationCandidate.id = from_uuid 7, sleep_run_id = from_uuid 6,
     kind = IntegrationCandidateKind.Position, disposition = NeedsValidation, as_of_revision = 4,
     content = text0, rationale = ''seen'', source_event_ids = [from_uuid 13],
     counterevidence_event_ids = [], confidence = 70,
     fingerprint = integration_candidate_fingerprint blank_ext IntegrationCandidateKind.Position
       text0 [from_uuid 13] [], created_at = ''t''\<rparr>"

definition the_candidate :: IntegrationCandidate where "the_candidate = proposed ''view''"
definition the_intruder :: IntegrationCandidate where "the_intruder = proposed ''other view''"

definition accepted :: IntegrationCandidate where
  "accepted = the_candidate\<lparr>IntegrationCandidate.disposition := VerificationDisposition.Verified\<rparr>"

definition the_record :: IntegrationVerification where
  "the_record = \<lparr>IntegrationVerification.candidate_id = from_uuid 7,
     verification_event_id = Some (from_uuid 23), previous_disposition = NeedsValidation,
     new_disposition = VerificationDisposition.Verified, actor_id = from_uuid 1, reason = ''seen'',
     evidence_refs = [the_evidence], as_of_revision = 4, created_at = ''t''\<rparr>"

definition the_position :: Position where
  "the_position = \<lparr>Position.id = from_uuid 8, principal_id = from_uuid 2, subject = ''tea'',
     stance = Stance.Support, version = 1, status = PositionStatus.Active, confidence = 70,
     supersedes = None, reasons = [''seen''], evidence_refs = [from_uuid 13],
     reconsideration_conditions = [''done''], created_at = ''t''\<rparr>"

definition the_change :: PositionIntegrationMaterialization where
  "the_change = \<lparr>PositionIntegrationMaterialization.candidate_id = from_uuid 7,
     position_id = from_uuid 8, position_event_id = from_uuid 24,
     verification_event_id = from_uuid 23, action = PositionIntegrationActionKind.Establish,
     prior_position = None, source_event_ids = [from_uuid 13], counterevidence_event_ids = [],
     evidence_refs = [the_evidence], fingerprint = IntegrationCandidate.fingerprint the_candidate,
     as_of_revision = 4, created_at = ''t''\<rparr>"

definition the_integration :: PositionIntegrationEventPayload where
  "the_integration = \<lparr>PositionIntegrationEventPayload.position = the_position,
     position_integration = the_change\<rparr>"

definition the_initiative :: "InitiativeStatus \<Rightarrow> InitiativeProposal" where
  "the_initiative st = \<lparr>InitiativeProposal.id = 9, kind = Question, content = ''seen'',
     rationale = ''done'', source_entity = \<lparr>EntityRef.kind = EntityKind.Task, id = 3\<rparr>,
     source_version = 1, source_event_ids = [from_uuid 13], target_principal_id = from_uuid 1,
     as_of_revision = 4,
     fingerprint = initiative_fingerprint blank_ext Question
       \<lparr>EntityRef.kind = EntityKind.Task, id = 3\<rparr> 1 (from_uuid 1) [from_uuid 13],
     status = st, created_at = ''t''\<rparr>"

definition night :: ext where
  "night = demo\<lparr>de_sleep_run := tagged [(''run'', the_run), (''rest'', the_rest)],
     de_integration_candidate := tagged [(''candidate'', the_candidate), (''intruder'', the_intruder)],
     de_integration_verification := tagged [(''record'', the_record)],
     has_field := (\<lambda>v f. v = JNumber ''integration'' \<and> f = ''position_integration''),
     de_position_integration_event := tagged [(''integration'', the_integration)],
     position_proposal_from_str := (\<lambda>t. Inr \<lparr>PositionIntegrationProposal.schema =
         POSITION_INTEGRATION_SCHEMA, operation = PositionIntegrationOperation.Establish ''tea''
         Stance.Support [''seen''] [''done'']\<rparr>),
     de_initiative := tagged [(''initiative'', the_initiative Proposed),
       (''ready'', the_initiative InitiativeStatus.Ready), (''dismissed'', the_initiative Dismissed)]\<rparr>"

section \<open>The events and the states they lead to\<close>

definition start_event :: ExperienceEvent where
  "start_event = an_event 21 2 SleepRunStarted ''run'' None"

definition candidate_event :: ExperienceEvent where
  "candidate_event = an_event 22 2 IntegrationCandidateCreated ''candidate'' None"

definition record_event :: ExperienceEvent where
  "record_event = an_event 23 1 IntegrationCandidateVerified ''record''
     (Some \<lparr>EntityRef.kind = EntityKind.IntegrationCandidate, id = 7\<rparr>)"

definition held_event :: ExperienceEvent where
  "held_event =
     (an_event 24 1 PositionEstablished ''integration''
        (Some \<lparr>EntityRef.kind = EntityKind.Position, id = 8\<rparr>))
     \<lparr>source := \<lparr>EventSource.source_type = ''position_integration'',
                 source_ref = Some (id_text blank_ext (from_uuid 7 :: IntegrationCandidateId))\<rparr>,
      correlation_id := Some (id_text blank_ext (from_uuid 7 :: IntegrationCandidateId)),
      causation_id := Some (from_uuid 23)\<rparr>"

definition rest_event :: ExperienceEvent where
  "rest_event = an_event 25 2 SleepRunCompleted ''rest'' None"

definition intruder_event :: ExperienceEvent where
  "intruder_event = an_event 26 2 IntegrationCandidateCreated ''intruder'' None"

definition asleep_state :: CurrentState where
  "asleep_state = setup_state\<lparr>CurrentState.revision := 5,
     sleep_runs := [(from_uuid 6, the_run)],
     applied_events := applied_events setup_state @ [from_uuid 21]\<rparr>"

definition dreaming_state :: CurrentState where
  "dreaming_state = asleep_state\<lparr>CurrentState.revision := 6,
     integration_candidates := [(from_uuid 7, the_candidate)],
     applied_events := applied_events setup_state @ [from_uuid 21, from_uuid 22]\<rparr>"

definition accepted_state :: CurrentState where
  "accepted_state = asleep_state\<lparr>CurrentState.revision := 7,
     integration_candidates := [(from_uuid 7, accepted)],
     integration_verifications := [(from_uuid 7, the_record)],
     applied_events := applied_events setup_state @ [from_uuid 21, from_uuid 22, from_uuid 23]\<rparr>"

definition held_state :: CurrentState where
  "held_state = accepted_state\<lparr>CurrentState.revision := 8,
     CurrentState.positions := [(from_uuid 8, the_position)],
     position_integration_materializations := [(from_uuid 7, the_change)],
     applied_events := applied_events accepted_state @ [from_uuid 24]\<rparr>"

definition rested_state :: CurrentState where
  "rested_state = held_state\<lparr>CurrentState.revision := 9, sleep_cursor := 4,
     sleep_runs := [(from_uuid 6, the_rest)],
     applied_events := applied_events accepted_state @ [from_uuid 24, from_uuid 25]\<rparr>"

definition usurped_state :: CurrentState where
  "usurped_state = held_state\<lparr>CurrentState.revision := 9,
     integration_candidates := [(from_uuid 7, the_intruder)],
     applied_events := applied_events accepted_state @ [from_uuid 24, from_uuid 26]\<rparr>"

lemma night_reads [simp]:
  "de_sleep_run night = tagged [(''run'', the_run), (''rest'', the_rest)]"
  "de_integration_candidate night =
     tagged [(''candidate'', the_candidate), (''intruder'', the_intruder)]"
  "de_integration_verification night = tagged [(''record'', the_record)]"
  "has_field night v f \<longleftrightarrow> v = JNumber ''integration'' \<and> f = ''position_integration''"
  "de_position_integration_event night = tagged [(''integration'', the_integration)]"
  "position_proposal_from_str night t = Inr \<lparr>PositionIntegrationProposal.schema =
     POSITION_INTEGRATION_SCHEMA, operation = PositionIntegrationOperation.Establish ''tea''
     Stance.Support [''seen''] [''done'']\<rparr>"
  "de_initiative night = tagged [(''initiative'', the_initiative Proposed),
     (''ready'', the_initiative InitiativeStatus.Ready), (''dismissed'', the_initiative Dismissed)]"
  by (simp_all add: night_def)

lemma night_hashes [simp]:
  "integration_candidate_fingerprint night = integration_candidate_fingerprint blank_ext"
  "id_text night = (id_text blank_ext :: 'a Id \<Rightarrow> string)"
  by (intro ext, simp add: integration_candidate_fingerprint_def night_def demo_def blank_ext_def
      sha256_hex_def id_text_def [abs_def] Let_def)+

lemma trim_night [simp]: "trim ''tea'' = ''tea''" "trim ''view'' = ''view''"
    "trim ''other view'' = ''other view''" "\<not> blank ''view''" "\<not> blank ''other view''"
  by code_simp+

lemma night_proposal [simp]:
  "position_proposal_parse night t = Inr \<lparr>PositionIntegrationProposal.schema =
     POSITION_INTEGRATION_SCHEMA, operation = PositionIntegrationOperation.Establish ''tea''
     Stance.Support [''seen''] [''done'']\<rparr>"
  by (simp add: position_proposal_parse_Inr_iff text_ok_def texts_ok_def)

lemma night_fingerprints:
  "integration_candidate_fingerprint blank_ext IntegrationCandidateKind.Position ''other view''
     [from_uuid 13] [] \<noteq>
   integration_candidate_fingerprint blank_ext IntegrationCandidateKind.Position ''view''
     [from_uuid 13] []"
  by (simp add: integration_candidate_fingerprint_def blank_ext_def sha256_hex_def id_text_def
      hex_byte_def hex_digit_def Let_def)

lemmas night_data = the_run_def the_rest_def proposed_def the_candidate_def the_intruder_def
  accepted_def the_record_def the_position_def the_change_def the_integration_def

lemmas night_states = setup_state_def default_state_def asleep_state_def dreaming_state_def
  accepted_state_def held_state_def rested_state_def usurped_state_def

lemma start_step: "apply_event night setup_state start_event = Inr asleep_state"
  by (simp add: step_defs night_data night_states start_event_def apply_sleep_run_def
      sleep_run_start_ok_def)

lemma rest_step: "apply_event night held_state rest_event = Inr rested_state"
  by (simp add: step_defs night_data night_states rest_event_def apply_sleep_run_def)

lemma candidate_step: "apply_event night asleep_state candidate_event = Inr dreaming_state"
  by (simp add: step_defs night_data night_states candidate_event_def apply_candidate_created_def
      candidate_provenance_bad_def fingerprint_of_candidate_def MAX_CANDIDATE_SOURCES_def)

lemma record_step: "apply_event night dreaming_state record_event = Inr accepted_state"
  by (simp add: step_defs night_data night_states record_event_def apply_integration_transition_def
      fingerprint_of_candidate_def typed_proposal_ok_def subject_is_def)

lemma position_change_step: "apply_event night accepted_state held_event = Inr held_state"
  by (simp add: step_defs night_data night_states held_event_def apply_position_event_def
      apply_position_integration_def position_event_identity_ok_def subject_is_def
      position_materialization_provenance_def fingerprint_of_candidate_def
      position_matches_proposal_def position_action_ok_def position_integration_blocked_def
      validate_position_revision_def)

lemma intruder_step: "apply_event night held_state intruder_event = Inr usurped_state"
  by (simp add: step_defs night_data night_states intruder_event_def apply_candidate_created_def
      candidate_provenance_bad_def fingerprint_of_candidate_def MAX_CANDIDATE_SOURCES_def
      night_fingerprints [symmetric])

section \<open>An initiative\<close>

definition night_initiative_event :: "Uuid \<Rightarrow> Uuid \<Rightarrow> EventKind \<Rightarrow> string \<Rightarrow> ExperienceEvent" where
  "night_initiative_event eid actor k tag =
     (an_event eid actor k tag (Some \<lparr>EntityRef.kind = EntityKind.Initiative, id = 9\<rparr>))
     \<lparr>source := \<lparr>EventSource.source_type = ''initiative'',
                 source_ref = Some (uuid_text blank_ext 9)\<rparr>,
      correlation_id := Some (uuid_text blank_ext 9)\<rparr>"

definition propose_event :: ExperienceEvent where
  "propose_event = night_initiative_event 31 2 InitiativeProposed ''initiative''"

definition dismiss_event :: ExperienceEvent where
  "dismiss_event = night_initiative_event 32 1 InitiativeDismissed ''dismissed''"

definition asking_state :: CurrentState where
  "asking_state = setup_state\<lparr>CurrentState.revision := 5,
     initiatives := [(9, the_initiative Proposed)],
     applied_events := applied_events setup_state @ [from_uuid 31]\<rparr>"

definition silent_state :: CurrentState where
  "silent_state = setup_state\<lparr>CurrentState.revision := 6,
     initiatives := [(9, the_initiative Dismissed)],
     applied_events := applied_events setup_state @ [from_uuid 31, from_uuid 32]\<rparr>"

lemma night_initiative [simp]:
  "initiative_fingerprint night = initiative_fingerprint blank_ext"
  "uuid_text night = uuid_text blank_ext"
  by (intro ext, simp add: initiative_fingerprint_def night_def demo_def blank_ext_def
      sha256_hex_def)+

lemma propose_step: "apply_event night setup_state propose_event = Inr asking_state"
  by (simp add: step_defs the_initiative_def night_states asking_state_def propose_event_def
      night_initiative_event_def apply_initiative_proposed_def initiative_subject_matches_def
      initiative_source_exists_def subject_is_def has_key_def bt_keys_def)

lemma dismiss_step: "apply_event night asking_state dismiss_event = Inr silent_state"
  by (simp add: step_defs the_initiative_def night_states asking_state_def silent_state_def
      dismiss_event_def apply_initiative_dismissed_def apply_initiative_status_def
      night_initiative_event_def initiative_subject_matches_def subject_is_def)

section \<open>What an observation is about\<close>

definition the_observation :: Observation where
  "the_observation = \<lparr>Observation.id = from_uuid 10, actor_id = from_uuid 1, content = ''seen'',
     source_type = ''test'', source_ref = None, thread_id = None, message_id = None,
     received_at = ''t''\<rparr>"

definition the_question :: FocusResolution where
  "the_question = \<lparr>observation_id = from_uuid 10, outcome = Clarification, focus = unattached,
     as_of_revision = 5, basis = AmbiguousCandidates, candidates = [],
     clarification = Some ''seen''\<rparr>"

definition talk :: ext where
  "talk = night\<lparr>de_observation := tagged [(''observation'', the_observation)],
     de_focus_resolution := tagged [(''question'', the_question)]\<rparr>"

definition observe_event :: ExperienceEvent where
  "observe_event = an_event 41 1 ObservationRecorded ''observation'' None"

definition focus_event :: ExperienceEvent where
  "focus_event = (an_event 42 1 FocusResolved ''question''
       (Some \<lparr>EntityRef.kind = EntityKind.Observation, id = 10\<rparr>))
     \<lparr>correlation_id := Some (uuid_text blank_ext 10)\<rparr>"

definition observed_state :: CurrentState where
  "observed_state = setup_state\<lparr>CurrentState.revision := 5,
     observations := [(from_uuid 10, the_observation)],
     applied_events := applied_events setup_state @ [from_uuid 41]\<rparr>"

definition focused_state :: CurrentState where
  "focused_state = observed_state\<lparr>CurrentState.revision := 6,
     focus_resolutions := [(from_uuid 10, the_question)],
     applied_events := applied_events setup_state @ [from_uuid 41, from_uuid 42]\<rparr>"

lemma talk_reads [simp]:
  "de_observation talk = tagged [(''observation'', the_observation)]"
  "de_focus_resolution talk = tagged [(''question'', the_question)]"
  "uuid_text talk = uuid_text blank_ext"
  by (simp_all add: talk_def)

lemma observe_step: "apply_event talk setup_state observe_event = Inr observed_state"
  by (simp add: step_defs the_observation_def night_states observe_event_def observed_state_def)

lemma focus_step: "apply_event talk observed_state focus_event = Inr focused_state"
  by (simp add: step_defs the_observation_def the_question_def night_states focus_event_def
      observed_state_def focused_state_def apply_focus_resolution_def subject_is_def
      focus_is_valid_def unattached_def id_text_def)

end
