(* ===== verification/SleepProperties.thy ===== *)
theory SleepProperties
  imports SleepScenario
begin

text \<open>
  Properties of what HEKATE does on its own: sleep runs, the candidates they propose, the
  verdicts and materialisations that may follow, its positions and its initiatives.
\<close>

section \<open>Candidates\<close>

definition night_events :: "ExperienceEvent list" where
  "night_events = setup_events @ [start_event, candidate_event, record_event, held_event]"

lemma night_setup: "replay night setup_events = Inr setup_state"
proof -
  have "de_principal night = de_principal demo" "de_task night = de_task demo"
      "de_criterion night = de_criterion demo"
      "normalize_description night = normalize_description demo"
    by (auto simp: night_def normalize_description_def)
  then show ?thesis
    by (simp add: replay_def setup_events_def setup_state_def default_state_def step_defs
        apply_criterion_defined_def)
qed

lemma night_run: "apply_all night setup_state [start_event, candidate_event, record_event, held_event]
    = Inr held_state"
  by (simp add: start_step candidate_step record_step position_change_step)

lemma night_replay: "replay night night_events = Inr held_state"
  using night_setup night_run by (simp add: replay_def night_events_def ledger.run_append)

lemma held_candidate: "bt_get (integration_candidates held_state) (from_uuid 7) = Some accepted"
  by (simp add: held_state_def accepted_state_def)

text \<open>
  C30. No proposal of a sleep run takes effect by itself: in the state of any ledger, a
  candidate that is no longer awaiting validation has a verification record whose event is in
  the ledger, with a reason and with evidence drawn from the candidate's own sources, none of
  it newer than the candidate; and every candidate has bounded sources from the ledger, apart
  from its counterevidence, and its own fingerprint.
\<close>

theorem candidates_decided_with_record:
  assumes "replay x es = Inr s" and "bt_get (integration_candidates s) i = Some c"
  shows "IntegrationCandidate.id c = i \<and> candidate_ok x s c \<and>
    (IntegrationCandidate.disposition c \<noteq> NeedsValidation \<longrightarrow>
       (\<exists>v. bt_get (integration_verifications s) i = Some v \<and> record_ok (applied_events s) c v))"
proof -
  have "IntegrationCandidate.id c = i \<and> candidate_ok x s c \<and> decided_ok s i c"
    using candidates_inv_replay [OF assms(1)] assms(2) unfolding candidates_inv_def by blast
  then show ?thesis by (auto simp: decided_ok_def is_some_and_iff)
qed

theorem candidates_decided_with_record_witness:
  "\<exists>v. bt_get (integration_verifications held_state) (from_uuid 7) = Some v \<and>
     record_ok (applied_events held_state) accepted v"
  using candidates_decided_with_record [OF night_replay held_candidate] by (simp add: accepted_def)

text \<open>
  What a sleep run writes is a proposal and nothing else: the event that creates a
  candidate adds one admissible candidate, awaiting validation, to the state and changes no
  memory, position, identity, goal or relationship, only the revision and the ledger.
\<close>

theorem candidate_creation_only_proposes:
  assumes "apply_event x s e = Inr s'" and "event_kind e = IntegrationCandidateCreated"
  shows "\<exists>c. candidate_admissible x s c \<and>
    s' = s\<lparr>integration_candidates := bt_insert (IntegrationCandidate.id c) c (integration_candidates s),
           CurrentState.revision := CurrentState.revision s + 1,
           applied_events := applied_events s @ [ExperienceEvent.event_id e]\<rparr>"
  using assms(1)
proof (cases rule: apply_event_cases)
  case (1 t)
  with assms(2) have "apply_candidate_created x s e = Inr t" by (simp add: apply_kind_def)
  from candidate_created_Inr [OF this assms(2)] 1(2) show ?thesis by auto
qed

theorem candidate_creation_only_proposes_witness:
  "\<exists>c. candidate_admissible night asleep_state c \<and> active_memories dreaming_state = active_memories asleep_state"
  using candidate_creation_only_proposes [OF candidate_step]
  by (auto simp: candidate_event_def an_event_def dreaming_state_def)

text \<open>
  C32. On a ledger that never reuses a candidate identifier, decisions are final: later events
  keep every candidate but for its disposition, keep a decided one entirely, and keep every
  verification and materialisation record; and a candidate is materialised only when verified,
  in the one form its kind names.
\<close>

theorem decisions_final_and_single:
  assumes "guarded (apply_event x) (new_candidate_id x) default_state es" and "replay x es = Inr s"
    and "guarded (apply_event x) (new_candidate_id x) s fs" and "apply_all x s fs = Inr s'"
  shows "integration_extend s s' \<and>
    (\<forall>i. bt_contains (integration_materializations s') i \<longrightarrow>
       entitled s' IntegrationCandidateKind.Memory i \<and>
       \<not> bt_contains (memory_revision_materializations s') i \<and>
       \<not> bt_contains (position_integration_materializations s') i) \<and>
    (\<forall>i. bt_contains (memory_revision_materializations s') i \<longrightarrow>
       entitled s' IntegrationCandidateKind.MemoryRevision i \<and>
       \<not> bt_contains (position_integration_materializations s') i) \<and>
    (\<forall>i. bt_contains (position_integration_materializations s') i \<longrightarrow>
       entitled s' IntegrationCandidateKind.Position i)"
proof -
  have "once_inv x s"
    using once_run [OF once_inv_default assms(1)] assms(2) by (simp add: replay_def)
  from once_run [OF this assms(3,4)] have inv: "once_inv x s'" and ext: "integration_extend s s'"
    by blast+
  have one: "k = l" if "entitled s' k i" "entitled s' l i" for k l i
    using that by (auto simp: entitled_def is_some_and_iff)
  from inv one ext show ?thesis unfolding once_inv_def by blast
qed

theorem decisions_final_and_single_witness:
  "integration_extend held_state rested_state \<and>
   entitled rested_state IntegrationCandidateKind.Position (from_uuid 7)"
proof -
  have "guarded (apply_event night) (new_candidate_id night) default_state night_events"
  proof -
    have "guarded (apply_event night) (new_candidate_id night) default_state setup_events"
      by (rule guarded_all) (auto simp: setup_events_def an_event_def new_candidate_id_def)
    moreover have "guarded (apply_event night) (new_candidate_id night) setup_state
        [start_event, candidate_event, record_event, held_event]"
      by (simp add: start_step candidate_step record_step position_change_step)
        (simp add: new_candidate_id_def start_event_def candidate_event_def record_event_def
          held_event_def an_event_def tagged_def asleep_state_def setup_state_def default_state_def
          bt_contains_def)
    ultimately show ?thesis
      using ledger.guarded_append night_setup unfolding night_events_def replay_def by blast
  qed
  moreover have "guarded (apply_event night) (new_candidate_id night) held_state [rest_event]"
    by (simp add: new_candidate_id_def rest_event_def an_event_def rest_step split: sum.split)
  moreover have "apply_all night held_state [rest_event] = Inr rested_state" by (simp add: rest_step)
  moreover have "bt_contains (position_integration_materializations rested_state) (from_uuid 7)"
    by (simp add: rested_state_def held_state_def bt_contains_def)
  ultimately show ?thesis using decisions_final_and_single night_replay by blast
qed

text \<open>
  Without that discipline they are not: the projector accepts the creation of a candidate
  under an identifier that is taken, so a candidate that a person verified and that has been
  materialised as a position is replaced by an unverified one, while the records of the old
  one stay in place.
\<close>

theorem reused_candidate_id_overwrites:
  "\<exists>x es e s s' i c. replay x es = Inr s \<and> apply_event x s e = Inr s' \<and>
     event_kind e = IntegrationCandidateCreated \<and>
     entitled s IntegrationCandidateKind.Position i \<and>
     bt_contains (position_integration_materializations s') i \<and>
     bt_get (integration_candidates s') i = Some c \<and>
     IntegrationCandidate.disposition c = NeedsValidation"
proof -
  have "entitled held_state IntegrationCandidateKind.Position (from_uuid 7)"
    using held_candidate
    by (simp add: entitled_def accepted_def the_candidate_def proposed_def)
  moreover have "bt_get (integration_candidates usurped_state) (from_uuid 7) = Some the_intruder"
    "bt_contains (position_integration_materializations usurped_state) (from_uuid 7)"
    by (simp_all add: usurped_state_def held_state_def bt_contains_def)
  moreover have "event_kind intruder_event = IntegrationCandidateCreated"
    "IntegrationCandidate.disposition the_intruder = NeedsValidation"
    by (simp_all add: intruder_event_def an_event_def the_intruder_def proposed_def)
  ultimately show ?thesis using night_replay intruder_step by blast
qed

section \<open>Sleep runs and the cursor\<close>

text \<open>
  A sleep run ends once: whatever events follow, a run stays on record with its window,
  its start cursor and its seed events, and a run that is no longer running never changes
  again.
\<close>

theorem sleep_runs_end_once:
  assumes "replay x es = Inr s" and "apply_all x s fs = Inr s'" and "bt_get (sleep_runs s) i = Some r"
  shows "\<exists>r'. bt_get (sleep_runs s') i = Some r' \<and> cursor_before r' = cursor_before r \<and>
    high_water_revision r' = high_water_revision r \<and> seed_event_ids r' = seed_event_ids r \<and>
    (SleepRun.status r \<noteq> SleepRunStatus.Running \<longrightarrow> r' = r)"
  using bt_relD [OF sleep_extend_run [OF sleep_inv_replay [OF assms(1)] assms(2)] assms(3)]
  unfolding run_ends_to_def by blast

theorem sleep_runs_end_once_witness:
  "\<exists>r'. bt_get (sleep_runs rested_state) (from_uuid 6) = Some r' \<and> high_water_revision r' = 4"
proof -
  have "apply_all night held_state [rest_event] = Inr rested_state" by (simp add: rest_step)
  moreover have "bt_get (sleep_runs held_state) (from_uuid 6) = Some the_run"
    by (simp add: held_state_def accepted_state_def asleep_state_def)
  ultimately show ?thesis using sleep_runs_end_once [OF night_replay] by (fastforce simp: the_run_def)
qed

text \<open>
  In the state of any ledger the sleep cursor and the window of every sleep run lie within
  the ledger, and a run has an end cursor, inside its window, exactly when it completed.
\<close>

theorem sleep_windows_within_ledger:
  assumes "replay x es = Inr s"
  shows "unat (sleep_cursor s) \<le> length es \<and>
    (\<forall>i r. bt_get (sleep_runs s) i = Some r \<longrightarrow> SleepRun.id r = i \<and> sleep_run_ok (length es) r)"
proof -
  have "length (applied_events s) = length es"
    using ledger.run_ids [of x default_state es s] assms by (simp add: replay_def default_state_def)
  with sleep_inv_replay [OF assms] show ?thesis unfolding sleep_inv_def by simp
qed

theorem sleep_windows_within_ledger_witness:
  "unat (sleep_cursor held_state) \<le> length night_events \<and> sleep_run_ok (length night_events) the_run"
proof -
  have "bt_get (sleep_runs held_state) (from_uuid 6) = Some the_run"
    by (simp add: held_state_def accepted_state_def asleep_state_def)
  with sleep_windows_within_ledger [OF night_replay] show ?thesis by blast
qed

text \<open>
  The sleep cursor moves only when a running sleep run completes, and then to a place
  inside the window of that run.
\<close>

theorem cursor_moves_only_in_window:
  assumes "apply_event x s e = Inr s'" and "sleep_cursor s' \<noteq> sleep_cursor s"
  shows "event_kind e = SleepRunCompleted \<and>
    (\<exists>i r r'. bt_get (sleep_runs s) i = Some r \<and> SleepRun.status r = SleepRunStatus.Running \<and>
       bt_get (sleep_runs s') i = Some r' \<and> SleepRun.status r' = SleepRunStatus.Completed \<and>
       cursor_before r \<le> sleep_cursor s' \<and> sleep_cursor s' \<le> high_water_revision r)"
  using cursor_step [OF assms(1)] assms(2) by blast

theorem cursor_moves_only_in_window_witness:
  "\<exists>i r. bt_get (sleep_runs held_state) i = Some r \<and> SleepRun.status r = SleepRunStatus.Running \<and>
     4 \<le> high_water_revision r"
proof -
  have "sleep_cursor rested_state = 4" "sleep_cursor held_state = 0"
    by (simp_all add: rested_state_def held_state_def accepted_state_def asleep_state_def
        setup_state_def default_state_def)
  then show ?thesis using cursor_moves_only_in_window [OF rest_step] by auto
qed

text \<open>
  On a ledger that starts a sleep run only when none is open, the sleep cursor never moves
  back, so no event is ever handed to sleep twice.
\<close>

theorem serial_sleep_cursor_monotone:
  assumes "guarded (apply_event x) serial_sleep default_state (es @ fs)"
    and "replay x es = Inr s" and "apply_all x s fs = Inr s'"
  shows "sleep_cursor s \<le> sleep_cursor s'"
proof -
  have run: "apply_all x default_state es = Inr s" using assms(2) by (simp add: replay_def)
  from assms(1) have g: "guarded (apply_event x) serial_sleep default_state es"
      "guarded (apply_event x) serial_sleep s fs"
    by (simp_all add: ledger.guarded_append [OF run])
  from serial_cursor_forward [OF serial_inv_default g(1) run]
  have "serial_inv s" by blast
  from serial_cursor_forward [OF this g(2) assms(3)] show ?thesis by blast
qed

theorem serial_sleep_cursor_monotone_witness: "sleep_cursor setup_state \<le> sleep_cursor rested_state"
proof -
  let ?night = "[start_event, candidate_event, record_event, held_event, rest_event]"
  have run: "apply_all night default_state setup_events = Inr setup_state"
    using night_setup by (simp add: replay_def)
  have "guarded (apply_event night) serial_sleep default_state setup_events"
    by (rule guarded_all) (auto simp: setup_events_def an_event_def serial_sleep_def)
  moreover have "guarded (apply_event night) serial_sleep setup_state ?night"
    by (simp add: start_step candidate_step record_step position_change_step rest_step)
      (simp add: serial_sleep_def start_event_def candidate_event_def record_event_def
        held_event_def rest_event_def an_event_def no_open_run_def setup_state_def
        default_state_def bt_values_def)
  moreover have "apply_all night setup_state ?night = Inr rested_state"
    by (simp add: start_step candidate_step record_step position_change_step rest_step)
  ultimately show ?thesis
    using serial_sleep_cursor_monotone [OF _ night_setup] ledger.guarded_append [OF run] by blast
qed

end
