(* ===== verification/AgencyProperties.thy ===== *)
theory AgencyProperties
  imports SleepProperties DbScenario InitiativeHistory PositionHistory Deliberation
begin

text \<open>
  Properties of HEKATE's positions, of the memories it may revise, of its initiatives, of the
  focus of an observation and of the lifecycles of work.
\<close>

section \<open>Positions and memories\<close>




text \<open>
  What the user said explicitly stays: the materialisation of a memory revision whose
  target is an explicit preference of the user is refused, whoever records it and whatever was
  verified before.
\<close>

theorem explicit_preference_not_revised:
  assumes "event_kind e = MemoryRevisionMaterialized"
    and "de_memory_revision_materialization x (payload e) = Inr m"
    and "bt_get (active_memories s) (MemoryRevisionMaterialization.target_memory_id m) = Some a"
    and "ActiveMemory.kind a = ExplicitPreference"
  shows "\<exists>err. apply_event x s e = Inl err"
proof (cases "apply_event x s e")
  case (Inr s')
  then obtain t where "apply_memory_revision_materialization x s e = Inr t"
    using assms(1) by (auto simp: apply_event_Inr apply_kind_def)
  from memory_revision_Inr [OF this] assms(2-) show ?thesis by (auto simp: is_some_and_iff)
qed simp

definition a_preference :: ActiveMemory where
  "a_preference = \<lparr>ActiveMemory.id = from_uuid 50, candidate_id = from_uuid 51,
     kind = ExplicitPreference, content = ''seen'', subject_principal_id = None,
     status = ActiveMemoryStatus.Active, confidence = 90, source_event_ids = [from_uuid 13],
     valid_from = None, valid_until = None, supersedes = None, last_verified_at = None,
     created_at = ''t''\<rparr>"

definition an_expiry :: MemoryRevisionMaterialization where
  "an_expiry = \<lparr>MemoryRevisionMaterialization.candidate_id = from_uuid 7,
     verification_event_id = from_uuid 23, target_memory_id = from_uuid 50,
     replacement_memory_id = None, expected_event_id = from_uuid 13,
     expected_event_hash = zero_hash, action = MemoryRevisionActionKind.Expire,
     source_event_ids = [from_uuid 13], counterevidence_event_ids = [],
     evidence_refs = [the_evidence], fingerprint = [], as_of_revision = 4, created_at = ''t''\<rparr>"

theorem explicit_preference_not_revised_witness:
  "\<exists>err. apply_event (night\<lparr>de_memory_revision_materialization := (\<lambda>v. Inr an_expiry)\<rparr>)
     (held_state\<lparr>active_memories := [(from_uuid 50, a_preference)]\<rparr>)
     (an_event 60 1 MemoryRevisionMaterialized ''x'' None) = Inl err"
  by (rule explicit_preference_not_revised [where m = an_expiry and a = a_preference])
    (simp_all add: an_event_def an_expiry_def a_preference_def)

section \<open>Initiatives\<close>

text \<open>
  C37. Every change to an initiative is authorised: a new one is proposed by HEKATE, addressed
  to a user; one on record changes its status only, becomes ready only through HEKATE, and is
  dismissed only by the principal it addresses.
\<close>

theorem initiative_changes_authorised:
  assumes "replay x es = Inr s" and "apply_event x s e = Inr s'"
    and "bt_get (initiatives s') i = Some q" and "bt_get (initiatives s) i \<noteq> Some q"
  shows "bt_get (initiatives s) i = None \<and> InitiativeProposal.status q = Proposed \<and>
      is_model_actor s (ExperienceEvent.actor_id e) \<and>
      is_some_and (bt_get (principals s) (InitiativeProposal.target_principal_id q))
        (\<lambda>u. Principal.kind u = User) \<or>
    (\<exists>p. bt_get (initiatives s) i = Some p \<and>
       initiative_move s (ExperienceEvent.actor_id e) p q)"
  using assms(2)
proof (cases rule: apply_event_cases)
  case (1 t)
  then have t: "initiatives s' = initiatives t" by simp
  from 1(1) show ?thesis
  proof (cases rule: initiative_step)
    case same
    with t assms(3,4) show ?thesis by simp
  next
    case (proposed p)
    with t assms(3,4) have "i = InitiativeProposal.id p \<and> q = p" by (simp split: if_splits)
    with proposed show ?thesis by (simp add: bt_contains_iff)
  next
    case (moved p r)
    with t assms(3,4) have "i = InitiativeProposal.id r \<and> q = r" by (simp split: if_splits)
    with moved show ?thesis by blast
  qed
qed

lemma asking_replay: "replay night (setup_events @ [propose_event]) = Inr asking_state"
  using night_setup by (simp add: replay_def ledger.run_append propose_step)

theorem initiative_changes_authorised_witness:
  "\<exists>p. bt_get (initiatives asking_state) 9 = Some p \<and>
     initiative_move asking_state (from_uuid 1) p (the_initiative Dismissed)"
proof -
  have "bt_get (initiatives silent_state) 9 = Some (the_initiative Dismissed)"
    "bt_get (initiatives asking_state) 9 = Some (the_initiative Proposed)"
    by (simp_all add: silent_state_def asking_state_def)
  moreover have "the_initiative Proposed \<noteq> the_initiative Dismissed"
    by (simp add: the_initiative_def)
  ultimately show ?thesis
    using initiative_changes_authorised [OF asking_replay dismiss_step, of 9 "the_initiative Dismissed"]
    by (auto simp: dismiss_event_def night_initiative_event_def an_event_def)
qed

text \<open>
  Initiatives only move forward: after any further events each is on record with nothing
  but its status changed, and that never to an earlier stage, so a dismissed one stays
  dismissed; and no two initiatives of the state share a fingerprint.
\<close>

theorem initiatives_forward_and_distinct:
  assumes "replay x es = Inr s" and "apply_all x s fs = Inr s'"
    and "bt_get (initiatives s) i = Some p"
  shows "(\<exists>q. bt_get (initiatives s') i = Some q \<and> initiative_advances p q \<and>
      (InitiativeProposal.status p = Dismissed \<longrightarrow> q = p) \<and>
      (\<forall>j r. bt_get (initiatives s') j = Some r \<longrightarrow>
         InitiativeProposal.fingerprint r = InitiativeProposal.fingerprint q \<longrightarrow> j = i))"
proof -
  from bt_relD [OF initiatives_extend_run [OF assms(2)] assms(3)]
  obtain q where q: "bt_get (initiatives s') i = Some q" "initiative_advances p q" by blast
  have "replay x (es @ fs) = Inr s'" using assms(1,2) by (simp add: replay_def ledger.run_append)
  from initiatives_inv_replay [OF this] have inv: "initiatives_inv x s'" .
  have "InitiativeProposal.status q = Dismissed" if "InitiativeProposal.status p = Dismissed"
    using q(2) that by (cases "InitiativeProposal.status q") (auto simp: initiative_advances_def)
  then have "InitiativeProposal.status p = Dismissed \<longrightarrow> q = p"
    using q(2) unfolding initiative_advances_def by (cases p; cases q) auto
  with q inv show ?thesis unfolding initiatives_inv_def by blast
qed

theorem initiatives_forward_and_distinct_witness:
  "\<exists>q. bt_get (initiatives silent_state) 9 = Some q \<and> initiative_advances (the_initiative Proposed) q"
proof -
  have "apply_all night asking_state [dismiss_event] = Inr silent_state" by (simp add: dismiss_step)
  moreover have "bt_get (initiatives asking_state) 9 = Some (the_initiative Proposed)"
    by (simp add: asking_state_def)
  ultimately show ?thesis using initiatives_forward_and_distinct [OF asking_replay] by blast
qed

section \<open>Focus and tasks\<close>

text \<open>
  An observation is attached to work once, and only to work it may be attached to: a new
  focus resolution answers a recorded observation that had none, is recorded for the principal
  who made the observation, and names an active goal open to that principal with its task in
  progress and its live run, or a taskless run, or a question; a resolution on record stays.
\<close>

theorem focus_resolved_once:
  assumes "apply_event x s e = Inr s'"
  shows "(\<forall>i r. bt_get (focus_resolutions s) i = Some r \<longrightarrow>
      bt_get (focus_resolutions s') i = Some r) \<and>
    (\<forall>i r. bt_get (focus_resolutions s') i = Some r \<longrightarrow> bt_get (focus_resolutions s) i = None \<longrightarrow>
      (\<exists>obs. bt_get (observations s) i = Some obs \<and>
         ExperienceEvent.actor_id e = Observation.actor_id obs \<and>
         resolution_ok s (Observation.actor_id obs) r))"
proof -
  from assms obtain t where k: "apply_kind x s e = Inr t"
    and t: "focus_resolutions s' = focus_resolutions t"
    by (cases rule: apply_event_cases) simp
  have "\<exists>obs. bt_get (observations s) i = Some obs \<and>
      ExperienceEvent.actor_id e = Observation.actor_id obs \<and> resolution_ok s (Observation.actor_id obs) r"
    if "bt_get (focus_resolutions s') i = Some r" "bt_get (focus_resolutions s) i = None" for i r
  proof (cases "event_kind e = FocusResolved")
    case True
    with k have "apply_focus_resolution x s e = Inr t" by (simp add: apply_kind_def)
    from focus_resolution_Inr [OF this] that t show ?thesis by (auto split: if_splits)
  next
    case False
    with focus_frame [OF k] that t show ?thesis by simp
  qed
  moreover have "bt_get (focus_resolutions s') i = Some r" if "bt_get (focus_resolutions s) i = Some r" for i r
    using bt_relD [OF focus_extend_step [OF assms] that] by simp
  ultimately show ?thesis by blast
qed

theorem focus_resolved_once_witness:
  "\<exists>obs. bt_get (observations observed_state) (from_uuid 10) = Some obs \<and>
     resolution_ok observed_state (Observation.actor_id obs) the_question"
proof -
  have "bt_get (focus_resolutions focused_state) (from_uuid 10) = Some the_question"
    "bt_get (focus_resolutions observed_state) (from_uuid 10) = None"
    by (simp_all add: focused_state_def observed_state_def setup_state_def default_state_def)
  with focus_resolved_once [OF focus_step] show ?thesis by blast
qed

text \<open>
  The projector closes a task only from progress: an event \<open>TaskCompleted\<close> completes the
  task of its subject, which was in progress, and leaves every other task and field of the
  state but the revision and the ledger as they were.
\<close>

theorem task_completes_from_progress:
  assumes "apply_event x s e = Inr s'" and "event_kind e = TaskCompleted"
  shows "\<exists>t. bt_get (tasks s) (Task.id t) = Some t \<and> Task.status t = TaskStatus.InProgress \<and>
    subject_is e EntityKind.Task (uuid (Task.id t)) \<and>
    s' = s\<lparr>tasks := bt_insert (Task.id t) (t\<lparr>Task.status := TaskStatus.Completed\<rparr>) (tasks s),
           CurrentState.revision := CurrentState.revision s + 1,
           applied_events := applied_events s @ [ExperienceEvent.event_id e]\<rparr>"
  using assms(1)
proof (cases rule: apply_event_cases)
  case (1 t)
  with assms(2) have "apply_task_completion x s e = Inr t" by (simp add: apply_kind_def)
  from task_completion_Inr [OF this] 1(2) show ?thesis by auto
qed

theorem task_completes_from_progress_witness:
  "\<exists>t. bt_get (tasks verified_state) (Task.id t) = Some t \<and> Task.status t = TaskStatus.InProgress"
  using task_completes_from_progress [OF done_step] by (auto simp: done_event_def an_event_def)

section \<open>Lifecycles and judgments\<close>








section \<open>Normal forms and fingerprints\<close>

text \<open>
  The normal form of a list of evidence references is a set in order: it is strictly
  sorted by event, artifact and hash, so it has no duplicates, it is its own normal form, it
  has the same keys as the list and, for each, a reference at least as old.
\<close>

theorem evidence_normal_form:
  "sorted_wrt (<) (map evidence_key (normalize_evidence_refs refs)) \<and>
   normalize_evidence_refs (normalize_evidence_refs refs) = normalize_evidence_refs refs \<and>
   evidence_key ` set (normalize_evidence_refs refs) = evidence_key ` set refs"
  using normalize_strict normalize_idem normalize_keys by blast

text \<open>
  Fingerprints do not depend on the order in which evidence is listed: a claim's on no
  permutation of its references, a candidate's on no permutation of its sources or of its
  counterevidence nor on white space around its content, an initiative's on its sources as a
  set.
\<close>

theorem fingerprints_order_free:
  assumes "mset refs = mset refs'" and "mset src = mset src'" and "mset counter = mset counter'"
    and "set ids = set ids'"
  shows "completion_fingerprint x tid cid refs = completion_fingerprint x tid cid refs' \<and>
    integration_candidate_fingerprint x k (trim cont) src' counter' =
      integration_candidate_fingerprint x k cont src counter \<and>
    initiative_fingerprint x ik ent ver tgt ids = initiative_fingerprint x ik ent ver tgt ids'"
  using completion_fingerprint_mset [OF assms(1)] integration_fingerprint_mset [OF assms(2,3)]
    initiative_fingerprint_set [OF assms(4)] by blast

theorem fingerprints_order_free_witness:
  "integration_candidate_fingerprint blank_ext IntegrationCandidateKind.Memory (trim ''view'')
     [from_uuid 2, from_uuid 1] [] =
   integration_candidate_fingerprint blank_ext IntegrationCandidateKind.Memory ''view''
     [from_uuid 1, from_uuid 2] []"
  using fingerprints_order_free
    [of "[]" "[]" "[from_uuid 1, from_uuid 2]" "[from_uuid 2, from_uuid 1]" "[]" "[]" "[]" "[]"]
  by (simp add: add_mset_commute del: trim_night)

text \<open>
  Recording a conflict keeps the relationships in step: each relationship keeps all but
  its list of unresolved conflicts, which lists the conflict afterwards exactly when a
  participant takes part in it and it is open or under negotiation, and loses it when settled.
\<close>

theorem conflict_updates_relationships:
  assumes "bt_get (relationships s) i = Some r"
  shows "\<exists>r'. bt_get (relationships (store_conflict s c)) i = Some r' \<and>
     r' = r\<lparr>unresolved_conflicts := unresolved_conflicts r'\<rparr> \<and>
     set (unresolved_conflicts r') =
       (if \<not> conflict_participant s c r then set (unresolved_conflicts r)
        else if Conflict.status c \<in> {ConflictStatus.Open, ConflictStatus.Negotiating}
        then insert (Conflict.id c) (set (unresolved_conflicts r))
        else set (unresolved_conflicts r) - {Conflict.id c})"
  by (rule store_conflict_relationship [OF assms])

definition a_conflict :: Conflict where
  "a_conflict = \<lparr>Conflict.id = from_uuid 80, subject = ''tea'',
     participant_positions = [from_uuid 8], status = ConflictStatus.Open, revision = 1,
     reasons = [], evidence_refs = [], alternatives = [], reconsideration_conditions = [],
     unresolved_questions = [], resolution = None, resolved_at = None, created_at = ''t''\<rparr>"

definition a_relationship :: Relationship where
  "a_relationship = \<lparr>Relationship.id = from_uuid 81, participants = [from_uuid 1, from_uuid 2],
     shared_commitments = [], unresolved_conflicts = [], trust_by_domain = [],
     interaction_norms = []\<rparr>"

theorem conflict_updates_relationships_witness:
  "\<exists>r'. bt_get (relationships (store_conflict (held_state\<lparr>relationships :=
       [(from_uuid 81, a_relationship)]\<rparr>) a_conflict)) (from_uuid 81) = Some r' \<and>
     set (unresolved_conflicts r') = {from_uuid 80}"
proof -
  let ?s = "held_state\<lparr>relationships := [(from_uuid 81, a_relationship)]\<rparr>"
  have "bt_get (relationships ?s) (from_uuid 81) = Some a_relationship" by simp
  moreover have "conflict_participant ?s a_conflict a_relationship"
    by (simp add: conflict_participant_def a_conflict_def a_relationship_def held_state_def
        the_position_def)
  ultimately show ?thesis
    using conflict_updates_relationships [of ?s "from_uuid 81" a_relationship a_conflict]
    by (auto simp: a_conflict_def a_relationship_def)
qed

end
