(* ===== verification/MemoryIntegration.thy ===== *)
theory MemoryIntegration
  imports Completion
begin

text \<open>
  The integration service of \<open>src/runtime/memory_integration.rs\<close>: it verifies or rejects the
  candidates of a sleep run and materialises verified ones as Memories, Memory revisions or
  changes of HEKATE's positions, each as one batch of events that the projector checks again.
  As in \<open>Completion\<close> the readings of the database and the database at the commit are separate
  arguments; \<open>new\<close> gives the fresh identifiers and \<open>now\<close> the clock readings in the order the
  code asks for them. The private helper \<open>non_empty\<close> is the one of the completion gate.
\<close>

section \<open>Errors and results\<close>

datatype IntegrationError =
    UnknownCandidate IntegrationCandidateId
  | InvalidDispositionTransition VerificationDisposition VerificationDisposition
  | UnsupportedCandidateKind IntegrationCandidateKind
  | MissingEvidence
  | InvalidEvidenceHash string
  | UnknownEvidenceEvent EventId
  | FutureEvidence EventId u64
  | FutureEvidenceSequence u64 u64
  | EvidenceOutsideCandidate EventId
  | SourceEventIntegrity EventId
  | EventHashMismatch EventId
  | UnknownArtifactEvidence ArtifactId
  | ArtifactProvenanceMismatch ArtifactId EventId
  | ArtifactHashMismatch ArtifactId
  | CandidateFingerprintMismatch
  | InvalidReason
  | UnknownActor PrincipalId
  | ModelCannotVerify
  | StaleRevision u64 u64
  | MissingVerification IntegrationCandidateId
  | CandidateNotVerified IntegrationCandidateId
  | AlreadyMaterialized IntegrationCandidateId
  | DuplicateFingerprint string
  | MemoryMaterializationFailure string
  | InvalidMemoryRevisionProposal string
  | UnknownMemory MemoryId
  | MemoryChanged MemoryId
  | MemoryNotActive MemoryId
  | ExplicitPreferenceProtected
  | MemoryTargetEvidenceMismatch
  | InvalidPositionProposal string
  | UnknownPosition PositionId
  | WrongPositionPrincipal PositionId
  | PositionVersionMismatch PositionId u32 u32
  | PositionChanged PositionId
  | PositionConflict string
  | InvalidPositionAsOf u64
  | PositionAlreadyMaterialized IntegrationCandidateId
  | InvalidPositionTransition
  | Storage StorageError
  | Projection ProjectionError
  | Serialization string
  | Event string

record IntegrationCandidateInspection =
  candidate :: IntegrationCandidate
  verification :: "IntegrationVerification option"
  materialization :: "IntegrationMaterialization option"
  position_materialization :: "PositionIntegrationMaterialization option"
  memory_revision_materialization :: "MemoryRevisionMaterialization option"

datatype MemoryIntegrationResult =
    Created MemoryCandidate ActiveMemory IntegrationMaterialization
  | Replaced MemoryCandidate ActiveMemory ActiveMemory MemoryRevisionMaterialization
  | Expired ActiveMemory MemoryRevisionMaterialization

text \<open>\<open>serde_json::to_value\<close> of the payloads this service writes.\<close>

record payload_values =
  memory_candidate_to_value :: "MemoryCandidate \<Rightarrow> string + json"
  active_memory_to_value :: "ActiveMemory \<Rightarrow> string + json"
  verification_to_value :: "IntegrationVerification \<Rightarrow> string + json"
  materialization_to_value :: "IntegrationMaterialization \<Rightarrow> string + json"
  memory_revision_to_value :: "MemoryRevisionMaterialization \<Rightarrow> string + json"
  position_integration_to_value :: "PositionIntegrationEventPayload \<Rightarrow> string + json"

section \<open>Checks\<close>

definition ensure_actor :: "CurrentState \<Rightarrow> PrincipalId \<Rightarrow> bool \<Rightarrow> IntegrationError + unit" where
  "ensure_actor s actor cannot_be_model =
     (case bt_get (principals s) actor of
        None \<Rightarrow> Inl (UnknownActor actor)
      | Some p \<Rightarrow>
          if cannot_be_model \<and> Principal.kind p = Hekate
          then Inl IntegrationError.ModelCannotVerify else Inr ())"

definition supported_kind :: "IntegrationCandidateKind \<Rightarrow> bool" where
  "supported_kind k \<longleftrightarrow>
     k \<in> {IntegrationCandidateKind.Memory, IntegrationCandidateKind.MemoryRevision,
          IntegrationCandidateKind.Association, IntegrationCandidateKind.Position,
          IntegrationCandidateKind.Conflict, IntegrationCandidateKind.Relationship,
          IntegrationCandidateKind.Identity, IntegrationCandidateKind.Goal}"

definition check_integrity :: "ext \<Rightarrow> ExperienceEvent \<Rightarrow> EventId \<Rightarrow> IntegrationError + unit" where
  "check_integrity x e i =
     (case verify_integrity x e of
        Inr True \<Rightarrow> Inr ()
      | _ \<Rightarrow> Inl (SourceEventIntegrity i))"

definition event_hash :: "ext \<Rightarrow> ExperienceEvent \<Rightarrow> IntegrationError + string" where
  "event_hash x e =
     (if integrity_hash e = [] then map_err IntegrationError.Event (canonical_hash x e)
      else Inr (integrity_hash e))"

fun check_sources ::
  "ext \<Rightarrow> ExperienceEvent list \<Rightarrow> u64 \<Rightarrow> EventId list \<Rightarrow> IntegrationError + unit"
where
  "check_sources x events as_of [] = Inr ()"
| "check_sources x events as_of (i # is) =
     (case position_index (\<lambda>e. ExperienceEvent.event_id e = i) events of
        None \<Rightarrow> Inl (UnknownEvidenceEvent i)
      | Some n \<Rightarrow>
          if of_nat n + 1 > as_of then Inl (FutureEvidence i as_of)
          else
            res_bind (check_integrity x (events ! n) i) (\<lambda>_. check_sources x events as_of is))"

definition check_artifact ::
  "CurrentState \<Rightarrow> ExperienceEvent list \<Rightarrow> EvidenceRef \<Rightarrow> ArtifactId \<Rightarrow> IntegrationError + unit"
where
  "check_artifact s events ev aid =
     (case bt_get (CurrentState.artifacts s) aid of
        None \<Rightarrow> Inl (IntegrationError.UnknownArtifactEvidence aid)
      | Some a \<Rightarrow>
          (case position_index (is_artifact_event aid) events of
             None \<Rightarrow> Inl (IntegrationError.UnknownArtifactEvidence aid)
           | Some j \<Rightarrow>
               if of_nat j + 1 > EvidenceRef.as_of_sequence ev
               then Inl (IntegrationError.FutureEvidenceSequence (of_nat j + 1)
                           (EvidenceRef.as_of_sequence ev))
               else if provenance_event_id a \<noteq> EvidenceRef.event_id ev
               then Inl (IntegrationError.ArtifactProvenanceMismatch aid (EvidenceRef.event_id ev))
               else if content_hash a \<noteq> EvidenceRef.source_hash ev
               then Inl (IntegrationError.ArtifactHashMismatch aid)
               else Inr ()))"

definition check_evidence ::
  "ext \<Rightarrow> CurrentState \<Rightarrow> ExperienceEvent list \<Rightarrow> IntegrationCandidate \<Rightarrow> EvidenceRef \<Rightarrow>
   IntegrationError + unit"
where
  "check_evidence x s events c ev =
     (let as_of = IntegrationCandidate.as_of_revision c; i = EvidenceRef.event_id ev in
      if \<not> valid_sha256_hex (EvidenceRef.source_hash ev)
      then Inl (InvalidEvidenceHash (EvidenceRef.source_hash ev))
      else if EvidenceRef.as_of_sequence ev > as_of
      then Inl (IntegrationError.FutureEvidenceSequence (EvidenceRef.as_of_sequence ev) as_of)
      else if i \<notin> set (IntegrationCandidate.source_event_ids c @
                       IntegrationCandidate.counterevidence_event_ids c)
      then Inl (EvidenceOutsideCandidate i)
      else
        (case position_index (\<lambda>e. ExperienceEvent.event_id e = i) events of
           None \<Rightarrow> Inl (UnknownEvidenceEvent i)
         | Some n \<Rightarrow>
             (let sq = of_nat n + 1 in
              if sq > EvidenceRef.as_of_sequence ev \<or> sq > as_of
              then Inl (IntegrationError.FutureEvidenceSequence sq
                          (min (EvidenceRef.as_of_sequence ev) as_of))
              else
                res_bind (check_integrity x (events ! n) i) (\<lambda>_.
                case artifact_id ev of
                  Some aid \<Rightarrow> check_artifact s events ev aid
                | None \<Rightarrow>
                    res_bind (event_hash x (events ! n)) (\<lambda>h.
                    if h \<noteq> EvidenceRef.source_hash ev
                    then Inl (IntegrationError.EventHashMismatch i) else Inr ())))))"

fun check_all_evidence ::
  "ext \<Rightarrow> CurrentState \<Rightarrow> ExperienceEvent list \<Rightarrow> IntegrationCandidate \<Rightarrow> EvidenceRef list \<Rightarrow>
   IntegrationError + unit"
where
  "check_all_evidence x s events c [] = Inr ()"
| "check_all_evidence x s events c (ev # evs) =
     res_bind (check_evidence x s events c ev) (\<lambda>_. check_all_evidence x s events c evs)"

definition validate_candidate ::
  "ext \<Rightarrow> CurrentState \<Rightarrow> ExperienceEvent list \<Rightarrow> IntegrationCandidate \<Rightarrow> EvidenceRef list \<Rightarrow>
   IntegrationError + unit"
where
  "validate_candidate x s events c refs =
     (if \<not> supported_kind (IntegrationCandidate.kind c)
      then Inl (UnsupportedCandidateKind (IntegrationCandidate.kind c))
      else if blank (IntegrationCandidate.content c) \<or> blank (IntegrationCandidate.rationale c)
      then Inl (MemoryMaterializationFailure ''candidate content and rationale cannot be empty'')
      else if IntegrationCandidate.source_event_ids c = [] then Inl MissingEvidence
      else if IntegrationCandidate.as_of_revision c > CurrentState.revision s
      then Inl (IntegrationError.FutureEvidenceSequence (IntegrationCandidate.as_of_revision c)
                  (CurrentState.revision s))
      else if fingerprint_of_candidate x c \<noteq> IntegrationCandidate.fingerprint c
      then Inl CandidateFingerprintMismatch
      else
        res_bind (check_sources x events (IntegrationCandidate.as_of_revision c)
          (IntegrationCandidate.source_event_ids c @
           IntegrationCandidate.counterevidence_event_ids c)) (\<lambda>_.
        if refs = [] then Inl MissingEvidence
        else check_all_evidence x s events c refs))"

fun default_evidence_of ::
  "ext \<Rightarrow> ExperienceEvent list \<Rightarrow> u64 \<Rightarrow> EventId list \<Rightarrow> IntegrationError + EvidenceRef list"
where
  "default_evidence_of x events as_of [] = Inr []"
| "default_evidence_of x events as_of (i # is) =
     (case position_index (\<lambda>e. ExperienceEvent.event_id e = i) events of
        None \<Rightarrow> Inl (UnknownEvidenceEvent i)
      | Some n \<Rightarrow>
          res_bind (check_integrity x (events ! n) i) (\<lambda>_.
          res_bind (event_hash x (events ! n)) (\<lambda>h.
          res_bind (default_evidence_of x events as_of is) (\<lambda>refs.
          Inr (\<lparr>EvidenceRef.event_id = i, artifact_id = None, source_hash = h,
                as_of_sequence = as_of\<rparr> # refs)))))"

definition default_evidence ::
  "ext \<Rightarrow> IntegrationCandidate \<Rightarrow> ExperienceEvent list \<Rightarrow> IntegrationError + EvidenceRef list"
where
  "default_evidence x c events =
     default_evidence_of x events (IntegrationCandidate.as_of_revision c)
       (IntegrationCandidate.source_event_ids c @ IntegrationCandidate.counterevidence_event_ids c)"

section \<open>The plan of a Memory revision\<close>

definition parse_memory_revision_proposal ::
  "ext \<Rightarrow> IntegrationCandidate \<Rightarrow> IntegrationError + MemoryRevisionProposal"
where
  "parse_memory_revision_proposal x c =
     (if IntegrationCandidate.kind c \<noteq> IntegrationCandidateKind.MemoryRevision
      then Inl (UnsupportedCandidateKind (IntegrationCandidate.kind c))
      else map_err InvalidMemoryRevisionProposal
             (memory_revision_parse x (IntegrationCandidate.content c)))"

text \<open>
  The candidate's revision must be that of its sleep run and lie inside a ledger the state is
  up to date with.
\<close>

definition as_of_in_ledger ::
  "CurrentState \<Rightarrow> ExperienceEvent list \<Rightarrow> IntegrationCandidate \<Rightarrow> bool"
where
  "as_of_in_ledger s events c \<longleftrightarrow>
     CurrentState.revision s = of_nat (length events) \<and>
     unat (IntegrationCandidate.as_of_revision c) \<le> length events \<and>
     is_some_and (bt_get (sleep_runs s) (sleep_run_id c))
       (\<lambda>r. high_water_revision r = IntegrationCandidate.as_of_revision c)"

definition touches_memory :: "MemoryId \<Rightarrow> ExperienceEvent \<Rightarrow> bool" where
  "touches_memory mid e \<longleftrightarrow>
     event_kind e \<in> {MemoryPromoted, MemorySuperseded, MemoryExpired} \<and>
     subject_is e EntityKind.Memory (uuid mid)"

definition is_promotion_of :: "EventId \<Rightarrow> MemoryId \<Rightarrow> ExperienceEvent \<Rightarrow> bool" where
  "is_promotion_of eid mid e \<longleftrightarrow>
     ExperienceEvent.event_id e = eid \<and> event_kind e = MemoryPromoted \<and>
     subject_is e EntityKind.Memory (uuid mid)"

text \<open>An observation of the candidate recorded after position \<open>n\<close> of the ledger.\<close>

definition has_new_source :: "ExperienceEvent list \<Rightarrow> IntegrationCandidate \<Rightarrow> nat \<Rightarrow> bool" where
  "has_new_source events c n \<longleftrightarrow>
     (\<exists>e \<in> set (drop (Suc n) events).
        ExperienceEvent.event_id e \<in> set (IntegrationCandidate.source_event_ids c) \<and>
        event_kind e \<in> {ObservationRecorded, UserMessageReceived})"

text \<open>The checks on the event that made the memory, found at position \<open>n\<close>.\<close>

definition check_target_event ::
  "ext \<Rightarrow> IntegrationCandidate \<Rightarrow> ActiveMemory \<Rightarrow> string \<Rightarrow> nat \<Rightarrow> ExperienceEvent \<Rightarrow>
   IntegrationError + unit"
where
  "check_target_event x c prior expected_hash n e =
     res_bind (map_err (\<lambda>_. SourceEventIntegrity (ExperienceEvent.event_id e))
       (verify_integrity x e)) (\<lambda>valid.
     res_bind (event_hash x e) (\<lambda>h.
     res_bind (map_err IntegrationError.Serialization (de_active_memory x (payload e))) (\<lambda>m.
     if \<not> valid \<or> of_nat n + 1 > IntegrationCandidate.as_of_revision c \<or> m \<noteq> prior \<or>
        h \<noteq> expected_hash
     then Inl MemoryTargetEvidenceMismatch else Inr ())))"

fun unchanged_replacement :: "MemoryRevisionOperation \<Rightarrow> ActiveMemory \<Rightarrow> bool" where
  "unchanged_replacement (MemoryRevisionOperation.Replace mid eid h r) prior \<longleftrightarrow>
     trim r = trim (ActiveMemory.content prior)"
| "unchanged_replacement (MemoryRevisionOperation.Expire mid eid h) prior \<longleftrightarrow> False"

definition memory_revision_plan ::
  "ext \<Rightarrow> CurrentState \<Rightarrow> ExperienceEvent list \<Rightarrow> IntegrationCandidate \<Rightarrow>
   MemoryRevisionProposal \<Rightarrow> IntegrationError + ActiveMemory \<times> ExperienceEvent"
where
  "memory_revision_plan x s events c proposal =
     (let op = MemoryRevisionProposal.operation proposal;
          (tid, expected_id, expected_hash) = memory_operation_target op;
          n = unat (IntegrationCandidate.as_of_revision c) in
      if \<not> as_of_in_ledger s events c
      then Inl (InvalidMemoryRevisionProposal
             ''candidate as-of revision is not present in the event ledger'')
      else if expected_id \<notin> set (IntegrationCandidate.counterevidence_event_ids c)
      then Inl MemoryTargetEvidenceMismatch
      else
        res_bind (map_err IntegrationError.Projection (replay x (take n events))) (\<lambda>old.
        case bt_get (active_memories old) tid of
          None \<Rightarrow>
            if bt_contains (active_memories s) tid then Inl (MemoryChanged tid)
            else Inl (UnknownMemory tid)
        | Some prior \<Rightarrow>
            if ActiveMemory.status prior \<noteq> ActiveMemoryStatus.Active
            then Inl (MemoryNotActive tid)
            else if ActiveMemory.kind prior = ExplicitPreference
            then Inl ExplicitPreferenceProtected
            else if unchanged_replacement op prior
            then Inl (MemoryMaterializationFailure
                   ''Memory replacement does not change its content'')
            else if bt_get (active_memories s) tid \<noteq> Some prior then Inl (MemoryChanged tid)
            else if \<exists>e \<in> set (drop n events). touches_memory tid e then Inl (MemoryChanged tid)
            else
              (case position_index (is_promotion_of expected_id tid) events of
                 None \<Rightarrow> Inl MemoryTargetEvidenceMismatch
               | Some k \<Rightarrow>
                   res_bind (check_target_event x c prior expected_hash k (events ! k)) (\<lambda>_.
                   if \<not> has_new_source events c k
                   then Inl (MemoryMaterializationFailure
                          ''Memory revision needs new observation evidence'')
                   else Inr (prior, events ! k)))))"

section \<open>The plan of a change of position\<close>

definition parse_position_proposal ::
  "ext \<Rightarrow> IntegrationCandidate \<Rightarrow> IntegrationError + PositionIntegrationProposal"
where
  "parse_position_proposal x c =
     (if IntegrationCandidate.kind c \<noteq> IntegrationCandidateKind.Position
      then Inl (UnsupportedCandidateKind (IntegrationCandidate.kind c))
      else map_err InvalidPositionProposal
             (position_proposal_parse x (IntegrationCandidate.content c)))"

definition unique_hekate_principal :: "CurrentState \<Rightarrow> IntegrationError + PrincipalId" where
  "unique_hekate_principal s =
     (case map Principal.id (filter (\<lambda>p. Principal.kind p = Hekate) (bt_values (principals s))) of
        [] \<Rightarrow> Inl (InvalidPositionProposal ''HEKATE principal is missing'')
      | [i] \<Rightarrow> Inr i
      | _ \<Rightarrow> Inl (InvalidPositionProposal ''HEKATE principal is ambiguous''))"

definition prior_position_in ::
  "CurrentState \<Rightarrow> CurrentState \<Rightarrow> PositionId \<Rightarrow> IntegrationError + Position"
where
  "prior_position_in current old pid =
     (case bt_get (CurrentState.positions old) pid of
        None \<Rightarrow>
          if bt_contains (CurrentState.positions current) pid then Inl (PositionChanged pid)
          else Inl (UnknownPosition pid)
      | Some prior \<Rightarrow>
          if bt_get (CurrentState.positions current) pid \<noteq> Some prior
          then Inl (PositionChanged pid) else Inr prior)"

definition validate_position_base :: "Position \<Rightarrow> PrincipalId \<Rightarrow> u32 \<Rightarrow> IntegrationError + unit" where
  "validate_position_base prior hid expected =
     (if Position.principal_id prior \<noteq> hid then Inl (WrongPositionPrincipal (Position.id prior))
      else if Position.version prior \<noteq> expected
      then Inl (PositionVersionMismatch (Position.id prior) expected (Position.version prior))
      else Inr ())"

definition normalized_position_texts :: "string list \<Rightarrow> string list" where
  "normalized_position_texts vs = map trim vs"

definition revision_allowed :: "CurrentState \<Rightarrow> Position \<Rightarrow> IntegrationError + unit" where
  "revision_allowed s p = map_err (\<lambda>_. InvalidPositionTransition) (validate_position_revision s p)"

text \<open>What a revision and a withdrawal check of the position they start from.\<close>

definition plan_prior ::
  "ext \<Rightarrow> CurrentState \<Rightarrow> CurrentState \<Rightarrow> PrincipalId \<Rightarrow> PositionId \<Rightarrow> u32 \<Rightarrow>
   IntegrationError + Position"
where
  "plan_prior x s old hid pid expected =
     res_bind (prior_position_in s old pid) (\<lambda>prior.
     res_bind (validate_position_base prior hid expected) (\<lambda>_.
     if Position.status prior \<noteq> PositionStatus.Active then Inl InvalidPositionTransition
     else if position_integration_blocked x old hid (Position.subject prior)
               (Some (Position.id prior)) \<or>
             position_integration_blocked x s hid (Position.subject prior)
               (Some (Position.id prior))
     then Inl (PositionConflict (Position.subject prior))
     else Inr prior))"

definition plan_operation ::
  "ext \<Rightarrow> PositionId \<Rightarrow> string \<Rightarrow> CurrentState \<Rightarrow> CurrentState \<Rightarrow> IntegrationCandidate \<Rightarrow>
   PrincipalId \<Rightarrow> PositionIntegrationOperation \<Rightarrow>
   IntegrationError + Position \<times> PositionIntegrationActionKind \<times> Position option"
where
  "plan_operation x new_id t0 s old c hid op =
     (case op of
        PositionIntegrationOperation.Establish sub0 st rs cs \<Rightarrow>
          (let sub = trim sub0 in
           if position_integration_blocked x old hid sub None \<or>
              position_integration_blocked x s hid sub None
           then Inl (PositionConflict sub)
           else
             (let p = \<lparr>Position.id = new_id, principal_id = hid, subject = sub, stance = st,
                    version = 1, status = PositionStatus.Active,
                    confidence = IntegrationCandidate.confidence c, supersedes = None,
                    reasons = normalized_position_texts rs,
                    evidence_refs = IntegrationCandidate.source_event_ids c,
                    reconsideration_conditions = normalized_position_texts cs,
                    created_at = t0\<rparr> in
              res_bind (revision_allowed s p) (\<lambda>_.
              Inr (p, PositionIntegrationActionKind.Establish, None))))
      | PositionIntegrationOperation.Revise pid expected st rs cs \<Rightarrow>
          res_bind (plan_prior x s old hid pid expected) (\<lambda>prior.
          case checked_add (Position.version prior) 1 of
            None \<Rightarrow> Inl InvalidPositionTransition
          | Some ver \<Rightarrow>
              (let p = \<lparr>Position.id = new_id, principal_id = hid,
                     subject = Position.subject prior, stance = st, version = ver,
                     status = PositionStatus.Active,
                     confidence = IntegrationCandidate.confidence c,
                     supersedes = Some (Position.id prior),
                     reasons = normalized_position_texts rs,
                     evidence_refs = IntegrationCandidate.source_event_ids c,
                     reconsideration_conditions = normalized_position_texts cs,
                     created_at = t0\<rparr> in
               res_bind (revision_allowed s p) (\<lambda>_.
               Inr (p, PositionIntegrationActionKind.Revise, Some prior))))
      | PositionIntegrationOperation.Withdraw pid expected r \<Rightarrow>
          res_bind (plan_prior x s old hid pid expected) (\<lambda>prior.
          let p = prior\<lparr>Position.status := PositionStatus.Retracted,
                        Position.reasons := Position.reasons prior @ [trim r],
                        Position.evidence_refs := dedup_by (\<lambda>a b. a = b)
                          (sort (Position.evidence_refs prior @
                                 IntegrationCandidate.source_event_ids c))\<rparr> in
          res_bind (revision_allowed s p) (\<lambda>_.
          Inr (p, PositionIntegrationActionKind.Withdraw, Some prior))))"

definition position_plan ::
  "ext \<Rightarrow> PositionId \<Rightarrow> string \<Rightarrow> CurrentState \<Rightarrow> ExperienceEvent list \<Rightarrow> IntegrationCandidate \<Rightarrow>
   PrincipalId \<Rightarrow> PositionIntegrationProposal \<Rightarrow>
   IntegrationError + Position \<times> PositionIntegrationActionKind \<times> Position option"
where
  "position_plan x new_id t0 s events c hid proposal =
     (let as_of = IntegrationCandidate.as_of_revision c in
      if \<not> as_of_in_ledger s events c then Inl (InvalidPositionAsOf as_of)
      else
        res_bind (map_err IntegrationError.Projection (replay x (take (unat as_of) events)))
          (\<lambda>old.
        if CurrentState.revision old \<noteq> as_of \<or>
           \<not> is_some_and (bt_get (principals old) hid) (\<lambda>p. Principal.kind p = Hekate)
        then Inl (InvalidPositionAsOf as_of)
        else plan_operation x new_id t0 s old c hid
               (PositionIntegrationProposal.operation proposal)))"

end
