(* ===== verification/IntegrationService.thy ===== *)
theory IntegrationService
  imports MemoryIntegration
begin

text \<open>
  The operations of the integration service: reading candidates, their verification or
  rejection, and the three materialisations (\<open>src/runtime/memory_integration.rs\<close>). In each
  operation \<open>new n\<close> is the identifier and \<open>now n\<close> the clock reading obtained at the \<open>n\<close>-th place
  of its text that asks for one.
\<close>

section \<open>Events\<close>

definition integration_event ::
  "ext \<Rightarrow> EventId \<Rightarrow> string \<Rightarrow> string \<Rightarrow> PrincipalId \<Rightarrow> EventKind \<Rightarrow> EntityKind \<Rightarrow> Uuid \<Rightarrow>
   (string + json) \<Rightarrow> IntegrationCandidateId \<Rightarrow> EventId option \<Rightarrow>
   IntegrationError + ExperienceEvent"
where
  "integration_event x eid t1 t2 actor k ek u value cid caus =
     res_bind (map_err IntegrationError.Serialization value) (\<lambda>v.
     map_err IntegrationError.Event
       (new_with_id x t1 t2 eid actor k (Some \<lparr>EntityRef.kind = ek, id = u\<rparr>) v
         \<lparr>EventSource.source_type = ''memory_integration'', source_ref = Some (id_text x cid)\<rparr>
         caus (Some (id_text x cid)) None))"

definition integration_transition_event_id ::
  "ExperienceEvent list \<Rightarrow> IntegrationCandidateId \<Rightarrow> EventKind \<Rightarrow> EventId option"
where
  "integration_transition_event_id events cid k =
     map_option ExperienceEvent.event_id
       (find (\<lambda>e. event_kind e = k \<and> subject_is e EntityKind.IntegrationCandidate (uuid cid))
         (rev events))"

definition candidate_event_id ::
  "ExperienceEvent list \<Rightarrow> IntegrationCandidateId \<Rightarrow> EventId option"
where
  "candidate_event_id events cid =
     integration_transition_event_id events cid IntegrationCandidateCreated"

definition commit_events ::
  "ext \<Rightarrow> codec \<Rightarrow> (stage \<Rightarrow> string option) \<Rightarrow> Db \<Rightarrow> u64 \<Rightarrow> ExperienceEvent list \<Rightarrow>
   IntegrationError + CurrentState \<times> Db"
where
  "commit_events x c flt db expected es =
     (case record_batch x c flt db es (Some expected) None of
        Inr r \<Rightarrow> Inr r
      | Inl (ProjectionError.StaleContext ex ac) \<Rightarrow> Inl (IntegrationError.StaleRevision ex ac)
      | Inl (ProjectionError.Storage (StorageError.StaleContext ex ac)) \<Rightarrow>
          Inl (IntegrationError.StaleRevision ex ac)
      | Inl err \<Rightarrow> Inl (IntegrationError.Projection err))"

section \<open>Reading\<close>

definition inspection_of :: "CurrentState \<Rightarrow> IntegrationCandidate \<Rightarrow> IntegrationCandidateInspection" where
  "inspection_of s k =
     (let cid = IntegrationCandidate.id k in
      \<lparr>IntegrationCandidateInspection.candidate = k,
       verification = bt_get (integration_verifications s) cid,
       materialization = bt_get (integration_materializations s) cid,
       position_materialization = bt_get (position_integration_materializations s) cid,
       memory_revision_materialization = bt_get (memory_revision_materializations s) cid\<rparr>)"

definition list_candidates ::
  "ext \<Rightarrow> codec \<Rightarrow> Db \<Rightarrow> IntegrationError + IntegrationCandidateInspection list"
where
  "list_candidates x c db =
     res_bind (map_err IntegrationError.Storage (load_state x c db)) (\<lambda>s.
     Inr (map (inspection_of s) (bt_values (integration_candidates s))))"

definition inspect_candidate ::
  "ext \<Rightarrow> codec \<Rightarrow> Db \<Rightarrow> IntegrationCandidateId \<Rightarrow>
   IntegrationError + IntegrationCandidateInspection"
where
  "inspect_candidate x c db cid =
     res_bind (map_err IntegrationError.Storage (load_state x c db)) (\<lambda>s.
     case bt_get (integration_candidates s) cid of
       None \<Rightarrow> Inl (IntegrationError.UnknownCandidate cid)
     | Some k \<Rightarrow>
         Inr \<lparr>IntegrationCandidateInspection.candidate = k,
              verification = bt_get (integration_verifications s) cid,
              materialization = bt_get (integration_materializations s) cid,
              position_materialization = bt_get (position_integration_materializations s) cid,
              memory_revision_materialization =
                bt_get (memory_revision_materializations s) cid\<rparr>)"

section \<open>Verification and rejection\<close>

text \<open>A candidate with a typed proposal is verified only if its plan is feasible now.\<close>

definition check_typed_plan ::
  "ext \<Rightarrow> PositionId \<Rightarrow> string \<Rightarrow> CurrentState \<Rightarrow> ExperienceEvent list \<Rightarrow> IntegrationCandidate \<Rightarrow>
   VerificationDisposition \<Rightarrow> IntegrationError + unit"
where
  "check_typed_plan x new_id t0 s events k d =
     (if d = VerificationDisposition.Verified \<and>
         IntegrationCandidate.kind k = IntegrationCandidateKind.Position
      then
        res_bind (unique_hekate_principal s) (\<lambda>hid.
        res_bind (parse_position_proposal x k) (\<lambda>proposal.
        res_bind (position_plan x new_id t0 s events k hid proposal) (\<lambda>_. Inr ())))
      else if d = VerificationDisposition.Verified \<and>
         IntegrationCandidate.kind k = IntegrationCandidateKind.MemoryRevision
      then
        res_bind (parse_memory_revision_proposal x k) (\<lambda>proposal.
        res_bind (memory_revision_plan x s events k proposal) (\<lambda>_. Inr ()))
      else Inr ())"

definition transition ::
  "ext \<Rightarrow> payload_values \<Rightarrow> codec \<Rightarrow> (stage \<Rightarrow> string option) \<Rightarrow> (nat \<Rightarrow> Uuid) \<Rightarrow>
   (nat \<Rightarrow> string) \<Rightarrow> Db \<Rightarrow> Db \<Rightarrow> Db \<Rightarrow> IntegrationCandidateId \<Rightarrow> PrincipalId \<Rightarrow>
   VerificationDisposition \<Rightarrow> string \<Rightarrow> EvidenceRef list option \<Rightarrow>
   IntegrationError + IntegrationCandidate \<times> Db"
where
  "transition x pv c flt new now read1 read2 db cid actor d reason0 refs0 =
     res_bind (map_err IntegrationError.Storage (load_state x c read1)) (\<lambda>s.
     case bt_get (integration_candidates s) cid of
       None \<Rightarrow> Inl (IntegrationError.UnknownCandidate cid)
     | Some k \<Rightarrow>
         res_bind (ensure_actor s actor True) (\<lambda>_.
         if IntegrationCandidate.disposition k \<noteq> NeedsValidation \<or>
            d \<notin> {VerificationDisposition.Verified, VerificationDisposition.Rejected}
         then Inl (IntegrationError.InvalidDispositionTransition
                (IntegrationCandidate.disposition k) d)
         else
           (case non_empty reason0 of
              None \<Rightarrow> Inl IntegrationError.InvalidReason
            | Some rsn \<Rightarrow>
           res_bind (map_err IntegrationError.Storage (load_events x c read2)) (\<lambda>events.
           res_bind (case refs0 of
               Some refs \<Rightarrow> Inr (normalize_evidence_refs refs)
             | None \<Rightarrow> default_evidence x k events) (\<lambda>refs.
           res_bind (validate_candidate x s events k refs) (\<lambda>_.
           res_bind (check_typed_plan x (from_uuid (new 0)) (now 0) s events k d) (\<lambda>_.
           let v = \<lparr>IntegrationVerification.candidate_id = cid, verification_event_id = None,
                 previous_disposition = IntegrationCandidate.disposition k,
                 new_disposition = d, actor_id = actor, reason = rsn, evidence_refs = refs,
                 as_of_revision = IntegrationCandidate.as_of_revision k,
                 created_at = now 1\<rparr> in
           res_bind (integration_event x (from_uuid (new 1)) (now 2) (now 3) actor
               (if d = VerificationDisposition.Verified then IntegrationCandidateVerified
                else IntegrationCandidateRejected)
               EntityKind.IntegrationCandidate (uuid cid) (verification_to_value pv v) cid
               (candidate_event_id events cid)) (\<lambda>e.
           res_bind (commit_events x c flt db (CurrentState.revision s) [e]) (\<lambda>r.
           case bt_get (integration_candidates (fst r)) cid of
             None \<Rightarrow> Inl (IntegrationError.UnknownCandidate cid)
           | Some k' \<Rightarrow> Inr (k', snd r))))))))))"

definition verify_candidate where
  "verify_candidate x pv c flt new now read1 read2 db cid actor reason0 =
     transition x pv c flt new now read1 read2 db cid actor VerificationDisposition.Verified
       reason0 None"

definition verify_candidate_with_evidence where
  "verify_candidate_with_evidence x pv c flt new now read1 read2 db cid actor reason0 refs =
     transition x pv c flt new now read1 read2 db cid actor VerificationDisposition.Verified
       reason0 (Some refs)"

definition reject_candidate where
  "reject_candidate x pv c flt new now read1 read2 db cid actor reason0 =
     transition x pv c flt new now read1 read2 db cid actor VerificationDisposition.Rejected
       reason0 None"

definition reject_candidate_with_evidence where
  "reject_candidate_with_evidence x pv c flt new now read1 read2 db cid actor reason0 refs =
     transition x pv c flt new now read1 read2 db cid actor VerificationDisposition.Rejected
       reason0 (Some refs)"

section \<open>Materialisation as a Memory\<close>

text \<open>The verification a materialisation rests on.\<close>

definition verified_record ::
  "CurrentState \<Rightarrow> IntegrationCandidateId \<Rightarrow> IntegrationError + IntegrationVerification"
where
  "verified_record s cid =
     (case bt_get (integration_verifications s) cid of
        None \<Rightarrow> Inl (MissingVerification cid)
      | Some v \<Rightarrow>
          if new_disposition v \<noteq> VerificationDisposition.Verified
          then Inl (CandidateNotVerified cid) else Inr v)"

definition fingerprint_materialized :: "CurrentState \<Rightarrow> IntegrationCandidate \<Rightarrow> bool" where
  "fingerprint_materialized s k \<longleftrightarrow>
     (\<exists>m \<in> set (bt_values (integration_materializations s)).
        IntegrationMaterialization.fingerprint m = IntegrationCandidate.fingerprint k \<and>
        is_some_and (bt_get (active_memories s) (memory_id m))
          (\<lambda>a. ActiveMemory.status a = ActiveMemoryStatus.Active))"

definition lesson_present :: "CurrentState \<Rightarrow> IntegrationCandidate \<Rightarrow> bool" where
  "lesson_present s k \<longleftrightarrow>
     (\<exists>a \<in> set (bt_values (active_memories s)).
        ActiveMemory.status a = ActiveMemoryStatus.Active \<and> ActiveMemory.kind a = Lesson \<and>
        ActiveMemory.content a = IntegrationCandidate.content k \<and>
        ActiveMemory.source_event_ids a = IntegrationCandidate.source_event_ids k)"

definition lesson_candidate ::
  "(nat \<Rightarrow> Uuid) \<Rightarrow> (nat \<Rightarrow> string) \<Rightarrow> IntegrationCandidate \<Rightarrow> MemoryCandidate"
where
  "lesson_candidate new now k =
     \<lparr>MemoryCandidate.id = from_uuid (new 0), kind = Lesson,
      content = IntegrationCandidate.content k, subject_principal_id = None,
      status = MemoryCandidateStatus.Candidate, confidence = IntegrationCandidate.confidence k,
      source_event_ids = IntegrationCandidate.source_event_ids k, valid_from = Some (now 0),
      valid_until = None, supersedes = None, created_at = now 1\<rparr>"

text \<open>The Memory a Memory candidate becomes; \<open>previous\<close> is the Memory it replaces.\<close>

definition memory_of ::
  "MemoryId \<Rightarrow> string \<Rightarrow> string \<Rightarrow> MemoryId option \<Rightarrow> MemoryCandidate \<Rightarrow> ActiveMemory"
where
  "memory_of mid t1 t2 previous mc =
     \<lparr>ActiveMemory.id = mid, candidate_id = MemoryCandidate.id mc, kind = MemoryCandidate.kind mc,
      content = MemoryCandidate.content mc,
      subject_principal_id = MemoryCandidate.subject_principal_id mc,
      status = ActiveMemoryStatus.Active, confidence = MemoryCandidate.confidence mc,
      source_event_ids = MemoryCandidate.source_event_ids mc,
      valid_from = MemoryCandidate.valid_from mc, valid_until = MemoryCandidate.valid_until mc,
      supersedes = previous, last_verified_at = Some t1, created_at = t2\<rparr>"

definition lesson_materialization ::
  "(nat \<Rightarrow> string) \<Rightarrow> IntegrationCandidate \<Rightarrow> IntegrationCandidateId \<Rightarrow> IntegrationVerification \<Rightarrow>
   MemoryCandidate \<Rightarrow> ActiveMemory \<Rightarrow> IntegrationMaterialization"
where
  "lesson_materialization now k cid v mc mem =
     \<lparr>IntegrationMaterialization.candidate_id = cid, memory_candidate_id = MemoryCandidate.id mc,
      memory_id = ActiveMemory.id mem, source_event_ids = IntegrationCandidate.source_event_ids k,
      counterevidence_event_ids = IntegrationCandidate.counterevidence_event_ids k,
      evidence_refs = IntegrationVerification.evidence_refs v,
      fingerprint = IntegrationCandidate.fingerprint k,
      as_of_revision = IntegrationCandidate.as_of_revision k, created_at = now 4\<rparr>"

definition lesson_batch ::
  "ext \<Rightarrow> payload_values \<Rightarrow> (nat \<Rightarrow> Uuid) \<Rightarrow> (nat \<Rightarrow> string) \<Rightarrow> PrincipalId \<Rightarrow>
   IntegrationCandidateId \<Rightarrow> MemoryCandidate \<Rightarrow> ActiveMemory \<Rightarrow> IntegrationMaterialization \<Rightarrow>
   IntegrationError + ExperienceEvent list"
where
  "lesson_batch x pv new now actor cid mc mem m =
     res_bind (integration_event x (from_uuid (new 2)) (now 5) (now 6) actor
         MemoryCandidateCreated EntityKind.MemoryCandidate (uuid (MemoryCandidate.id mc))
         (memory_candidate_to_value pv mc) cid None) (\<lambda>e1.
     res_bind (integration_event x (from_uuid (new 3)) (now 7) (now 8) actor
         MemoryPromoted EntityKind.Memory (uuid (ActiveMemory.id mem))
         (active_memory_to_value pv mem) cid (Some (ExperienceEvent.event_id e1))) (\<lambda>e2.
     res_bind (integration_event x (from_uuid (new 4)) (now 9) (now 10) actor
         IntegrationCandidateMaterialized EntityKind.IntegrationCandidate (uuid cid)
         (materialization_to_value pv m) cid (Some (ExperienceEvent.event_id e2))) (\<lambda>e3.
     Inr [e1, e2, e3])))"

text \<open>What the service returns must be found in the committed state.\<close>

definition committed :: "('a) option \<Rightarrow> string \<Rightarrow> IntegrationError + 'a" where
  "committed v what =
     (case v of None \<Rightarrow> Inl (MemoryMaterializationFailure what) | Some a \<Rightarrow> Inr a)"

definition materialize_lesson ::
  "ext \<Rightarrow> payload_values \<Rightarrow> codec \<Rightarrow> (stage \<Rightarrow> string option) \<Rightarrow> (nat \<Rightarrow> Uuid) \<Rightarrow>
   (nat \<Rightarrow> string) \<Rightarrow> Db \<Rightarrow> Db \<Rightarrow> CurrentState \<Rightarrow> IntegrationCandidate \<Rightarrow>
   IntegrationCandidateId \<Rightarrow> PrincipalId \<Rightarrow> IntegrationError + MemoryIntegrationResult \<times> Db"
where
  "materialize_lesson x pv c flt new now read2 db s k cid actor =
     (if IntegrationCandidate.disposition k \<noteq> VerificationDisposition.Verified
      then Inl (CandidateNotVerified cid)
      else if IntegrationCandidate.kind k \<noteq> IntegrationCandidateKind.Memory
      then Inl (UnsupportedCandidateKind (IntegrationCandidate.kind k))
      else if bt_contains (integration_materializations s) cid
      then Inl (AlreadyMaterialized cid)
      else
        res_bind (verified_record s cid) (\<lambda>v.
        res_bind (map_err IntegrationError.Storage (load_events x c read2)) (\<lambda>events.
        res_bind (validate_candidate x s events k (IntegrationVerification.evidence_refs v)) (\<lambda>_.
        if fingerprint_materialized s k \<or> lesson_present s k
        then Inl (IntegrationError.DuplicateFingerprint (IntegrationCandidate.fingerprint k))
        else
          (let mc = lesson_candidate new now k;
               mem = memory_of (from_uuid (new 1)) (now 2) (now 3) None mc;
               m = lesson_materialization now k cid v mc mem in
           res_bind (lesson_batch x pv new now actor cid mc mem m) (\<lambda>batch.
           res_bind (commit_events x c flt db (CurrentState.revision s) batch) (\<lambda>r.
           res_bind (committed (bt_get (CurrentState.memory_candidates (fst r))
               (MemoryCandidate.id mc)) ''committed Memory candidate is missing'') (\<lambda>mc'.
           res_bind (committed (bt_get (active_memories (fst r)) (ActiveMemory.id mem))
               ''committed Memory is missing'') (\<lambda>mem'.
           res_bind (committed (bt_get (integration_materializations (fst r)) cid)
               ''committed materialization link is missing'') (\<lambda>m'.
           Inr (Created mc' mem' m', snd r)))))))))))"

section \<open>Materialisation as a Memory revision\<close>

definition replacement_candidate ::
  "(nat \<Rightarrow> Uuid) \<Rightarrow> (nat \<Rightarrow> string) \<Rightarrow> IntegrationCandidate \<Rightarrow> ActiveMemory \<Rightarrow> string \<Rightarrow>
   MemoryCandidate"
where
  "replacement_candidate new now k prior replacement =
     \<lparr>MemoryCandidate.id = from_uuid (new 0), kind = ActiveMemory.kind prior,
      content = trim replacement,
      subject_principal_id = ActiveMemory.subject_principal_id prior,
      status = MemoryCandidateStatus.Candidate, confidence = IntegrationCandidate.confidence k,
      source_event_ids = IntegrationCandidate.source_event_ids k, valid_from = Some (now 0),
      valid_until = ActiveMemory.valid_until prior,
      supersedes = Some (ActiveMemory.candidate_id prior), created_at = now 1\<rparr>"

text \<open>The action, and for a replacement the new Memory candidate and Memory.\<close>

fun revision_action ::
  "(nat \<Rightarrow> Uuid) \<Rightarrow> (nat \<Rightarrow> string) \<Rightarrow> IntegrationCandidate \<Rightarrow> ActiveMemory \<Rightarrow>
   MemoryRevisionOperation \<Rightarrow>
   MemoryRevisionActionKind \<times> (MemoryCandidate \<times> ActiveMemory) option"
where
  "revision_action new now k prior (MemoryRevisionOperation.Replace mid eid h r) =
     (let mc = replacement_candidate new now k prior r in
      (MemoryRevisionActionKind.Replace,
       Some (mc, memory_of (from_uuid (new 1)) (now 2) (now 3) (Some (ActiveMemory.id prior)) mc)))"
| "revision_action new now k prior (MemoryRevisionOperation.Expire mid eid h) =
     (MemoryRevisionActionKind.Expire, None)"

fun retired_status :: "MemoryRevisionActionKind \<Rightarrow> ActiveMemoryStatus" where
  "retired_status MemoryRevisionActionKind.Replace = ActiveMemoryStatus.Superseded"
| "retired_status MemoryRevisionActionKind.Expire = ActiveMemoryStatus.Expired"

fun retirement_kind :: "MemoryRevisionActionKind \<Rightarrow> EventKind" where
  "retirement_kind MemoryRevisionActionKind.Replace = MemorySuperseded"
| "retirement_kind MemoryRevisionActionKind.Expire = MemoryExpired"

definition revision_materialization ::
  "(nat \<Rightarrow> string) \<Rightarrow> IntegrationCandidate \<Rightarrow> IntegrationVerification \<Rightarrow> EventId \<Rightarrow>
   ActiveMemory \<Rightarrow> ExperienceEvent \<Rightarrow> string \<Rightarrow> MemoryRevisionActionKind \<Rightarrow>
   (MemoryCandidate \<times> ActiveMemory) option \<Rightarrow> MemoryRevisionMaterialization"
where
  "revision_materialization now k v veid prior expected h act repl =
     \<lparr>MemoryRevisionMaterialization.candidate_id = IntegrationCandidate.id k,
      verification_event_id = veid, target_memory_id = ActiveMemory.id prior,
      replacement_memory_id = map_option (\<lambda>(mc, mem). ActiveMemory.id mem) repl,
      expected_event_id = ExperienceEvent.event_id expected, expected_event_hash = h,
      action = act, source_event_ids = IntegrationCandidate.source_event_ids k,
      counterevidence_event_ids = IntegrationCandidate.counterevidence_event_ids k,
      evidence_refs = IntegrationVerification.evidence_refs v,
      fingerprint = IntegrationCandidate.fingerprint k,
      as_of_revision = IntegrationCandidate.as_of_revision k, created_at = now 4\<rparr>"

text \<open>The event that retires the prior memory, caused by the event before it in the batch.\<close>

definition retirement_event ::
  "ext \<Rightarrow> payload_values \<Rightarrow> (nat \<Rightarrow> Uuid) \<Rightarrow> (nat \<Rightarrow> string) \<Rightarrow> PrincipalId \<Rightarrow>
   IntegrationCandidateId \<Rightarrow> ActiveMemory \<Rightarrow> MemoryRevisionActionKind \<Rightarrow> EventId \<Rightarrow>
   IntegrationError + ExperienceEvent"
where
  "retirement_event x pv new now actor cid prior act cause =
     integration_event x (from_uuid (new 3)) (now 7) (now 8) actor (retirement_kind act)
       EntityKind.Memory (uuid (ActiveMemory.id prior))
       (active_memory_to_value pv (prior\<lparr>ActiveMemory.status := retired_status act\<rparr>)) cid
       (Some cause)"

definition revision_record_event ::
  "ext \<Rightarrow> payload_values \<Rightarrow> (nat \<Rightarrow> Uuid) \<Rightarrow> (nat \<Rightarrow> string) \<Rightarrow> PrincipalId \<Rightarrow>
   IntegrationCandidateId \<Rightarrow> EventId \<Rightarrow> MemoryRevisionMaterialization \<Rightarrow>
   IntegrationError + ExperienceEvent"
where
  "revision_record_event x pv new now actor cid veid m =
     integration_event x (from_uuid (new 5)) (now 11) (now 12) actor MemoryRevisionMaterialized
       EntityKind.IntegrationCandidate (uuid cid) (memory_revision_to_value pv m) cid (Some veid)"

definition revision_batch ::
  "ext \<Rightarrow> payload_values \<Rightarrow> (nat \<Rightarrow> Uuid) \<Rightarrow> (nat \<Rightarrow> string) \<Rightarrow> PrincipalId \<Rightarrow>
   IntegrationCandidateId \<Rightarrow> EventId \<Rightarrow> ActiveMemory \<Rightarrow> MemoryRevisionActionKind \<Rightarrow>
   (MemoryCandidate \<times> ActiveMemory) option \<Rightarrow> MemoryRevisionMaterialization \<Rightarrow>
   IntegrationError + ExperienceEvent list"
where
  "revision_batch x pv new now actor cid veid prior act repl m =
     (case repl of
        None \<Rightarrow>
          res_bind (retirement_event x pv new now actor cid prior act veid) (\<lambda>e2.
          res_bind (revision_record_event x pv new now actor cid veid m) (\<lambda>e4.
          Inr [e2, e4]))
      | Some (mc, mem) \<Rightarrow>
          res_bind (integration_event x (from_uuid (new 2)) (now 5) (now 6) actor
              MemoryCandidateCreated EntityKind.MemoryCandidate (uuid (MemoryCandidate.id mc))
              (memory_candidate_to_value pv mc) cid (Some veid)) (\<lambda>e1.
          res_bind (retirement_event x pv new now actor cid prior act
              (ExperienceEvent.event_id e1)) (\<lambda>e2.
          res_bind (integration_event x (from_uuid (new 4)) (now 9) (now 10) actor
              MemoryPromoted EntityKind.Memory (uuid (ActiveMemory.id mem))
              (active_memory_to_value pv mem) cid (Some (ExperienceEvent.event_id e2))) (\<lambda>e3.
          res_bind (revision_record_event x pv new now actor cid veid m) (\<lambda>e4.
          Inr [e1, e2, e3, e4])))))"

definition revision_result ::
  "CurrentState \<Rightarrow> MemoryId \<Rightarrow> (MemoryCandidate \<times> ActiveMemory) option \<Rightarrow>
   MemoryRevisionMaterialization \<Rightarrow> IntegrationError + MemoryIntegrationResult"
where
  "revision_result s tid repl m =
     (case repl of
        Some (mc, mem) \<Rightarrow>
          res_bind (committed (bt_get (CurrentState.memory_candidates s) (MemoryCandidate.id mc))
              ''replacement Memory candidate is missing'') (\<lambda>mc'.
          res_bind (committed (bt_get (active_memories s) (ActiveMemory.id mem))
              ''replacement Memory is missing'') (\<lambda>mem'.
          res_bind (committed (bt_get (active_memories s) tid)
              ''superseded Memory is missing'') (\<lambda>old.
          Inr (Replaced mc' mem' old m))))
      | None \<Rightarrow>
          res_bind (committed (bt_get (active_memories s) tid) ''expired Memory is missing'')
            (\<lambda>old. Inr (Expired old m)))"

definition materialize_memory_revision ::
  "ext \<Rightarrow> payload_values \<Rightarrow> codec \<Rightarrow> (stage \<Rightarrow> string option) \<Rightarrow> (nat \<Rightarrow> Uuid) \<Rightarrow>
   (nat \<Rightarrow> string) \<Rightarrow> Db \<Rightarrow> Db \<Rightarrow> CurrentState \<Rightarrow> IntegrationCandidate \<Rightarrow> PrincipalId \<Rightarrow>
   IntegrationError + MemoryIntegrationResult \<times> Db"
where
  "materialize_memory_revision x pv c flt new now read2 db s k actor =
     (let cid = IntegrationCandidate.id k in
      if IntegrationCandidate.disposition k \<noteq> VerificationDisposition.Verified
      then Inl (CandidateNotVerified cid)
      else if bt_contains (memory_revision_materializations s) cid
      then Inl (AlreadyMaterialized cid)
      else
        res_bind (verified_record s cid) (\<lambda>v.
        res_bind (map_err IntegrationError.Storage (load_events x c read2)) (\<lambda>events.
        res_bind (validate_candidate x s events k (IntegrationVerification.evidence_refs v)) (\<lambda>_.
        res_bind (parse_memory_revision_proposal x k) (\<lambda>proposal.
        res_bind (memory_revision_plan x s events k proposal) (\<lambda>(prior, expected).
        case integration_transition_event_id events cid IntegrationCandidateVerified of
          None \<Rightarrow> Inl (MissingVerification cid)
        | Some veid \<Rightarrow>
            (let (act, repl) = revision_action new now k prior
                   (MemoryRevisionProposal.operation proposal) in
             res_bind (map_err IntegrationError.Event (canonical_hash x expected)) (\<lambda>h.
             let m = revision_materialization now k v veid prior expected h act repl in
             res_bind (revision_batch x pv new now actor cid veid prior act repl m) (\<lambda>batch.
             res_bind (commit_events x c flt db (CurrentState.revision s) batch) (\<lambda>r.
             res_bind (committed (bt_get (memory_revision_materializations (fst r)) cid)
                 ''committed Memory revision is missing'') (\<lambda>m'.
             res_bind (revision_result (fst r) (ActiveMemory.id prior) repl m') (\<lambda>result.
             Inr (result, snd r)))))))))))))"

definition materialize_memory ::
  "ext \<Rightarrow> payload_values \<Rightarrow> codec \<Rightarrow> (stage \<Rightarrow> string option) \<Rightarrow> (nat \<Rightarrow> Uuid) \<Rightarrow>
   (nat \<Rightarrow> string) \<Rightarrow> Db \<Rightarrow> Db \<Rightarrow> Db \<Rightarrow> IntegrationCandidateId \<Rightarrow> PrincipalId \<Rightarrow>
   IntegrationError + MemoryIntegrationResult \<times> Db"
where
  "materialize_memory x pv c flt new now read1 read2 db cid actor =
     res_bind (map_err IntegrationError.Storage (load_state x c read1)) (\<lambda>s.
     res_bind (ensure_actor s actor False) (\<lambda>_.
     case bt_get (integration_candidates s) cid of
       None \<Rightarrow> Inl (IntegrationError.UnknownCandidate cid)
     | Some k \<Rightarrow>
         if IntegrationCandidate.kind k = IntegrationCandidateKind.MemoryRevision
         then materialize_memory_revision x pv c flt new now read2 db s k actor
         else materialize_lesson x pv c flt new now read2 db s k cid actor))"

section \<open>Materialisation as a Position\<close>

definition position_materialization_of ::
  "(nat \<Rightarrow> string) \<Rightarrow> IntegrationCandidate \<Rightarrow> IntegrationCandidateId \<Rightarrow>
   IntegrationVerification \<Rightarrow> EventId \<Rightarrow> EventId \<Rightarrow>
   Position \<times> PositionIntegrationActionKind \<times> Position option \<Rightarrow>
   PositionIntegrationMaterialization"
where
  "position_materialization_of now k cid v veid peid plan =
     (case plan of (p, act, prior) \<Rightarrow>
       \<lparr>PositionIntegrationMaterialization.candidate_id = cid, position_id = Position.id p,
        position_event_id = peid, verification_event_id = veid, action = act,
        prior_position = prior, source_event_ids = IntegrationCandidate.source_event_ids k,
        counterevidence_event_ids = IntegrationCandidate.counterevidence_event_ids k,
        evidence_refs = IntegrationVerification.evidence_refs v,
        fingerprint = IntegrationCandidate.fingerprint k,
        as_of_revision = IntegrationCandidate.as_of_revision k, created_at = now 1\<rparr>)"

definition position_event ::
  "ext \<Rightarrow> payload_values \<Rightarrow> EventId \<Rightarrow> string \<Rightarrow> string \<Rightarrow> PrincipalId \<Rightarrow>
   IntegrationCandidateId \<Rightarrow> Position \<Rightarrow> PositionIntegrationMaterialization \<Rightarrow>
   IntegrationError + ExperienceEvent"
where
  "position_event x pv peid t1 t2 actor cid p m =
     res_bind (map_err IntegrationError.Serialization (position_integration_to_value pv
         \<lparr>PositionIntegrationEventPayload.position = p, position_integration = m\<rparr>)) (\<lambda>v.
     map_err IntegrationError.Event
       (new_with_id x t1 t2 peid actor
         (position_action_event_kind (PositionIntegrationMaterialization.action m))
         (Some \<lparr>EntityRef.kind = EntityKind.Position, id = uuid (Position.id p)\<rparr>) v
         \<lparr>EventSource.source_type = ''position_integration'',
          source_ref = Some (id_text x cid)\<rparr>
         (Some (PositionIntegrationMaterialization.verification_event_id m))
         (Some (id_text x cid)) None))"

definition materialize_position ::
  "ext \<Rightarrow> payload_values \<Rightarrow> codec \<Rightarrow> (stage \<Rightarrow> string option) \<Rightarrow> (nat \<Rightarrow> Uuid) \<Rightarrow>
   (nat \<Rightarrow> string) \<Rightarrow> Db \<Rightarrow> Db \<Rightarrow> Db \<Rightarrow> IntegrationCandidateId \<Rightarrow> PrincipalId \<Rightarrow>
   PrincipalId \<Rightarrow> IntegrationError + (Position \<times> PositionIntegrationMaterialization) \<times> Db"
where
  "materialize_position x pv c flt new now read1 read2 db cid hid actor =
     res_bind (map_err IntegrationError.Storage (load_state x c read1)) (\<lambda>s.
     res_bind (ensure_actor s actor True) (\<lambda>_.
     case bt_get (integration_candidates s) cid of
       None \<Rightarrow> Inl (IntegrationError.UnknownCandidate cid)
     | Some k \<Rightarrow>
         if IntegrationCandidate.disposition k \<noteq> VerificationDisposition.Verified
         then Inl (CandidateNotVerified cid)
         else if IntegrationCandidate.kind k \<noteq> IntegrationCandidateKind.Position
         then Inl (UnsupportedCandidateKind (IntegrationCandidate.kind k))
         else if bt_contains (position_integration_materializations s) cid
         then Inl (PositionAlreadyMaterialized cid)
         else
           res_bind (verified_record s cid) (\<lambda>v.
           res_bind (map_err IntegrationError.Storage (load_events x c read2)) (\<lambda>events.
           res_bind (validate_candidate x s events k
               (IntegrationVerification.evidence_refs v)) (\<lambda>_.
           res_bind (parse_position_proposal x k) (\<lambda>proposal.
           res_bind (position_plan x (from_uuid (new 0)) (now 0) s events k hid proposal) (\<lambda>plan.
           case integration_transition_event_id events cid IntegrationCandidateVerified of
             None \<Rightarrow> Inl (MissingVerification cid)
           | Some veid \<Rightarrow>
               (let p = fst plan; peid = from_uuid (new 1);
                    m = position_materialization_of now k cid v veid peid plan in
                res_bind (position_event x pv peid (now 2) (now 3) actor cid p m) (\<lambda>e.
                res_bind (commit_events x c flt db (CurrentState.revision s) [e]) (\<lambda>r.
                res_bind (committed (bt_get (CurrentState.positions (fst r)) (Position.id p))
                    ''committed Position is missing'') (\<lambda>p'.
                res_bind (committed
                    (bt_get (position_integration_materializations (fst r)) cid)
                    ''committed Position materialization link is missing'') (\<lambda>m'.
                Inr ((p', m'), snd r)))))))))))))"

end
