(* ===== verification/IntegrationServiceHistory.thy ===== *)
theory IntegrationServiceHistory
  imports IntegrationService CompletionHistory MaterializationHistory
begin

text \<open>
  What the integration service promises: its evidence checks imply the projector's, a planned
  Memory revision or change of position is one the projector accepts, and what a successful
  operation leaves in the database.
\<close>

section \<open>Commits\<close>

lemma commit_events_Inr:
  assumes "commit_events x c flt db (CurrentState.revision s) es = Inr (s', db')"
    and "load_state x c db = Inr s"
  shows "apply_all x s es = Inr s'" and "derived_from db' = Some s'"
proof -
  from assms have "apply_all x s es = Inr s'"
    and cb: "commit_batch x c flt db es s' (Some (CurrentState.revision s)) None = Inr db'"
    by (auto simp: commit_events_def record_batch_def res_simps
        split: sum.splits ProjectionError.splits StorageError.splits)
  then show "apply_all x s es = Inr s'" by simp
  from commit_batch_Inr [OF cb] show "derived_from db' = Some s'" by blast
qed

lemma commit_events_error:
  assumes "commit_events x c flt db (CurrentState.revision s) es =
      Inl (IntegrationError.Projection (InvalidPayload k msg))"
    and "load_state x c db = Inr s"
  shows "apply_all x s es = Inl (InvalidPayload k msg)"
  using assms
  by (cases "apply_all x s es")
    (auto simp: commit_events_def record_batch_def res_bind_Inl_iff map_err_Inl_iff
      split: sum.splits ProjectionError.splits StorageError.splits)

lemma integration_event_Inr:
  assumes "integration_event x eid t1 t2 actor k ek u value cid caus = Inr e"
  shows "value = Inr (payload e)" and "event_kind e = k" and "ExperienceEvent.event_id e = eid"
    and "ExperienceEvent.actor_id e = actor"
    and "ExperienceEvent.subject e = Some \<lparr>EntityRef.kind = ek, id = u\<rparr>"
    and "source e = \<lparr>EventSource.source_type = ''memory_integration'',
           source_ref = Some (id_text x cid)\<rparr>"
    and "causation_id e = caus" and "correlation_id e = Some (id_text x cid)"
    and "verify_integrity x e = Inr True"
proof -
  from assms obtain v where v: "value = Inr v"
    and e: "new_with_id x t1 t2 eid actor k (Some \<lparr>EntityRef.kind = ek, id = u\<rparr>) v
         \<lparr>EventSource.source_type = ''memory_integration'', source_ref = Some (id_text x cid)\<rparr>
         caus (Some (id_text x cid)) None = Inr e"
    by (auto simp: integration_event_def res_simps)
  from new_with_id_Inr [OF e] v
  show "value = Inr (payload e)" "event_kind e = k" "ExperienceEvent.event_id e = eid"
    "ExperienceEvent.actor_id e = actor"
    "ExperienceEvent.subject e = Some \<lparr>EntityRef.kind = ek, id = u\<rparr>"
    "source e = \<lparr>EventSource.source_type = ''memory_integration'',
           source_ref = Some (id_text x cid)\<rparr>"
    "causation_id e = caus" "correlation_id e = Some (id_text x cid)"
    "verify_integrity x e = Inr True"
    by simp_all
qed

section \<open>Evidence\<close>

lemma check_evidence_ok:
  assumes "check_evidence x s events k ev = Inr u"
    and "applied_events s = map ExperienceEvent.event_id events"
  shows "integration_evidence_ok s k (IntegrationCandidate.as_of_revision k) ev"
proof -
  obtain i where i: "position_index (\<lambda>e. ExperienceEvent.event_id e = EvidenceRef.event_id ev) events = Some i"
    using assms(1)
    by (cases "position_index (\<lambda>e. ExperienceEvent.event_id e = EvidenceRef.event_id ev) events")
      (auto simp: check_evidence_def Let_def split: if_splits)
  then have "event_sequence_of s (EvidenceRef.event_id ev) = Some (of_nat i + 1)"
    using assms(2) by (simp add: event_sequence_of_def position_index_map)
  then show ?thesis
    using assms(1) i by (cases "artifact_id ev")
      (auto simp: check_evidence_def check_artifact_def integration_evidence_ok_def Let_def
        res_simps is_some_and_iff not_less split: if_splits option.splits)
qed

lemma check_all_evidence_Inr:
  "check_all_evidence x s events k evs = Inr u \<longleftrightarrow>
     (\<forall>ev \<in> set evs. check_evidence x s events k ev = Inr ())"
  by (induction evs) (auto simp: res_simps)

text \<open>Evidence that is an event is confirmed by the hash of that event in the ledger.\<close>

lemma check_evidence_hash:
  assumes "check_evidence x s events k ev = Inr u" and "artifact_id ev = None"
  shows "\<exists>e \<in> set events. ExperienceEvent.event_id e = EvidenceRef.event_id ev \<and>
    verify_integrity x e = Inr True \<and> event_hash x e = Inr (EvidenceRef.source_hash ev)"
proof -
  obtain i where i: "position_index (\<lambda>e. ExperienceEvent.event_id e = EvidenceRef.event_id ev) events = Some i"
    using assms(1)
    by (cases "position_index (\<lambda>e. ExperienceEvent.event_id e = EvidenceRef.event_id ev) events")
      (auto simp: check_evidence_def Let_def split: if_splits)
  then have "events ! i \<in> set events" "ExperienceEvent.event_id (events ! i) = EvidenceRef.event_id ev"
    using position_index_Some [OF i] by auto
  moreover have "verify_integrity x (events ! i) = Inr True"
    "event_hash x (events ! i) = Inr (EvidenceRef.source_hash ev)"
    using assms i by (auto simp: check_evidence_def check_integrity_def Let_def res_simps
        split: if_splits sum.splits bool.splits)
  ultimately show ?thesis by blast
qed

lemma validate_candidate_Inr:
  assumes "validate_candidate x s events k refs = Inr u"
  shows "supported_kind (IntegrationCandidate.kind k)" and "refs \<noteq> []"
    and "IntegrationCandidate.as_of_revision k \<le> CurrentState.revision s"
    and "fingerprint_of_candidate x k = IntegrationCandidate.fingerprint k"
    and "\<forall>ev \<in> set refs. check_evidence x s events k ev = Inr ()"
  using assms by (auto simp: validate_candidate_def res_simps check_all_evidence_Inr not_less
      split: if_splits)

section \<open>Only the projector refuses a payload\<close>

text \<open>The checks of the service never fail with a projection error on a replayable ledger.\<close>

lemma evidence_not_projection:
  "check_evidence x s events k ev \<noteq> Inl (IntegrationError.Projection p)"
  "check_all_evidence x s events k evs \<noteq> Inl (IntegrationError.Projection p)"
  "check_sources x events as_of is \<noteq> Inl (IntegrationError.Projection p)"
  "default_evidence_of x events as_of is \<noteq> Inl (IntegrationError.Projection p)"
proof -
  have one: "check_evidence x s events k ev \<noteq> Inl (IntegrationError.Projection p)" for ev
    by (auto simp: check_evidence_def check_artifact_def check_integrity_def event_hash_def Let_def
        res_bind_Inl_iff map_err_Inl_iff split: option.splits if_splits sum.splits bool.splits)
  then show "check_evidence x s events k ev \<noteq> Inl (IntegrationError.Projection p)" .
  show "check_all_evidence x s events k evs \<noteq> Inl (IntegrationError.Projection p)"
    by (induction evs) (auto simp: res_bind_Inl_iff one)
  show "check_sources x events as_of is \<noteq> Inl (IntegrationError.Projection p)"
    by (induction "is") (auto simp: res_bind_Inl_iff check_integrity_def
        split: option.splits if_splits sum.splits bool.splits)
  show "default_evidence_of x events as_of is \<noteq> Inl (IntegrationError.Projection p)"
    by (induction "is") (auto simp: res_bind_Inl_iff check_integrity_def event_hash_def
        map_err_Inl_iff split: option.splits if_splits sum.splits bool.splits)
qed

lemma service_not_projection:
  "ensure_actor s actor b \<noteq> Inl (IntegrationError.Projection p)"
  "validate_candidate x s events k refs \<noteq> Inl (IntegrationError.Projection p)"
  "default_evidence x k events \<noteq> Inl (IntegrationError.Projection p)"
  "integration_event x eid t1 t2 actor kd ek u value cid caus \<noteq> Inl (IntegrationError.Projection p)"
  "position_event x pv eid t1 t2 actor cid ps m \<noteq> Inl (IntegrationError.Projection p)"
  "parse_memory_revision_proposal x k \<noteq> Inl (IntegrationError.Projection p)"
  "parse_position_proposal x k \<noteq> Inl (IntegrationError.Projection p)"
  "unique_hekate_principal s \<noteq> Inl (IntegrationError.Projection p)"
  "verified_record s cid \<noteq> Inl (IntegrationError.Projection p)"
  "committed v what \<noteq> Inl (IntegrationError.Projection p)"
  by (auto simp: ensure_actor_def validate_candidate_def default_evidence_def integration_event_def
      position_event_def parse_memory_revision_proposal_def parse_position_proposal_def
      unique_hekate_principal_def verified_record_def committed_def res_bind_Inl_iff
      map_err_Inl_iff evidence_not_projection split: option.splits if_splits list.splits)

lemma replay_take: "replay x es = Inr s \<Longrightarrow> \<exists>m. replay x (take n es) = Inr m"
  using ledger.run_prefix [of x default_state "take n es" "drop n es" s]
  by (auto simp: replay_def)

lemma plan_not_projection:
  assumes "replay x events = Inr s0"
  shows "memory_revision_plan x s events k proposal \<noteq> Inl (IntegrationError.Projection p)"
    and "position_plan x i t0 s events k hid pproposal \<noteq> Inl (IntegrationError.Projection p)"
proof -
  let ?n = "unat (IntegrationCandidate.as_of_revision k)"
  obtain m where m: "replay x (take ?n events) = Inr m"
    using replay_take [OF assms] by blast
  show "memory_revision_plan x s events k proposal \<noteq> Inl (IntegrationError.Projection p)"
    using m by (auto simp: memory_revision_plan_def check_target_event_def event_hash_def Let_def
        res_bind_Inl_iff map_err_Inl_iff split: option.splits if_splits prod.splits)
  have "plan_operation x i t0 s m k hid op \<noteq> Inl (IntegrationError.Projection p)" for op
    by (cases op) (auto simp: plan_operation_def plan_prior_def prior_position_in_def
        validate_position_base_def revision_allowed_def Let_def res_bind_Inl_iff map_err_Inl_iff
        split: option.splits if_splits)
  then show "position_plan x i t0 s events k hid pproposal \<noteq> Inl (IntegrationError.Projection p)"
    using m by (auto simp: position_plan_def Let_def split: if_splits)
qed

lemma typed_plan_not_projection:
  "replay x events = Inr s0 \<Longrightarrow>
     check_typed_plan x i t0 s events k d \<noteq> Inl (IntegrationError.Projection p)"
  by (auto simp: check_typed_plan_def res_bind_Inl_iff service_not_projection plan_not_projection)

section \<open>Verifying and rejecting\<close>

lemma typed_plan_parses:
  "check_typed_plan x i t0 s events k d = Inr u \<Longrightarrow> typed_proposal_ok x k d kd = Inr ()"
  by (auto simp: check_typed_plan_def typed_proposal_ok_def parse_position_proposal_def
      parse_memory_revision_proposal_def res_simps is_ok_iff split: if_splits)

text \<open>What the service has checked when it builds the event of a decision.\<close>

definition decision_checked ::
  "ext \<Rightarrow> CurrentState \<Rightarrow> ExperienceEvent list \<Rightarrow> IntegrationCandidateId \<Rightarrow> IntegrationCandidate \<Rightarrow>
   PrincipalId \<Rightarrow> VerificationDisposition \<Rightarrow> string \<Rightarrow> EvidenceRef list \<Rightarrow> bool"
where
  "decision_checked x s events cid k actor d rsn refs \<longleftrightarrow>
     bt_get (integration_candidates s) cid = Some k \<and>
     IntegrationCandidate.disposition k = NeedsValidation \<and>
     d \<in> {VerificationDisposition.Verified, VerificationDisposition.Rejected} \<and>
     is_some_and (bt_get (principals s) actor) (\<lambda>p. Principal.kind p \<noteq> Hekate) \<and>
     \<not> blank rsn \<and> validate_candidate x s events k refs = Inr ()"

abbreviation decision_record ::
  "IntegrationCandidateId \<Rightarrow> IntegrationCandidate \<Rightarrow> PrincipalId \<Rightarrow> VerificationDisposition \<Rightarrow>
   string \<Rightarrow> EvidenceRef list \<Rightarrow> string \<Rightarrow> IntegrationVerification"
where
  "decision_record cid k actor d rsn refs t \<equiv>
     \<lparr>IntegrationVerification.candidate_id = cid, verification_event_id = None,
      previous_disposition = IntegrationCandidate.disposition k, new_disposition = d,
      actor_id = actor, reason = rsn, evidence_refs = refs,
      as_of_revision = IntegrationCandidate.as_of_revision k, created_at = t\<rparr>"

definition decided_kind :: "VerificationDisposition \<Rightarrow> EventKind" where
  "decided_kind d = (if d = VerificationDisposition.Verified then IntegrationCandidateVerified
                     else IntegrationCandidateRejected)"

lemma transition_commits:
  assumes db: "db_holds x c db events s"
    and run: "transition x pv c flt new now db db db cid actor d reason0 refs0 = r"
    and r: "r = Inl (IntegrationError.Projection (InvalidPayload kd msg)) \<or> r = Inr res"
  shows "\<exists>k rsn refs e. decision_checked x s events cid k actor d rsn refs \<and>
    check_typed_plan x (from_uuid (new 0)) (now 0) s events k d = Inr () \<and>
    integration_event x (from_uuid (new 1)) (now 2) (now 3) actor (decided_kind d)
      EntityKind.IntegrationCandidate (uuid cid)
      (verification_to_value pv (decision_record cid k actor d rsn refs (now 1))) cid
      (candidate_event_id events cid) = Inr e \<and>
    res_bind (commit_events x c flt db (CurrentState.revision s) [e]) (\<lambda>q.
      case bt_get (integration_candidates (fst q)) cid of
        None \<Rightarrow> Inl (IntegrationError.UnknownCandidate cid)
      | Some k' \<Rightarrow> Inr (k', snd q)) = r"
proof -
  note load = db_holds_ledger [OF db]
  have rep: "replay x events = Inr s" using db by (simp add: db_holds_def)
  obtain k where k: "bt_get (integration_candidates s) cid = Some k"
    using run r load(1) by (cases "bt_get (integration_candidates s) cid")
      (auto simp: transition_def)
  have actor: "ensure_actor s actor True = Inr ()"
    using run r load(1) k by (cases "ensure_actor s actor True")
      (auto simp: transition_def service_not_projection)
  obtain rsn where rsn: "non_empty reason0 = Some rsn"
    using run r load(1) k actor by (cases "non_empty reason0")
      (auto simp: transition_def split: if_splits)
  have disp: "IntegrationCandidate.disposition k = NeedsValidation"
      "d \<in> {VerificationDisposition.Verified, VerificationDisposition.Rejected}"
    using run r load(1) k actor by (auto simp: transition_def split: if_splits)
  let ?refs = "case refs0 of Some refs \<Rightarrow> Inr (normalize_evidence_refs refs)
    | None \<Rightarrow> default_evidence x k events"
  obtain refs where refs: "?refs = Inr refs"
    using run r load(1,2) k actor rsn disp
    by (cases ?refs) (auto simp: transition_def service_not_projection split: option.splits)
  have val: "validate_candidate x s events k refs = Inr ()"
    using run r load(1,2) k actor rsn disp refs
    by (cases "validate_candidate x s events k refs")
      (auto simp: transition_def service_not_projection)
  have plan: "check_typed_plan x (from_uuid (new 0)) (now 0) s events k d = Inr ()"
    using run r load(1,2) k actor rsn disp refs val typed_plan_not_projection [OF rep]
    by (cases "check_typed_plan x (from_uuid (new 0)) (now 0) s events k d")
      (auto simp: transition_def)
  let ?ev = "integration_event x (from_uuid (new 1)) (now 2) (now 3) actor (decided_kind d)
      EntityKind.IntegrationCandidate (uuid cid)
      (verification_to_value pv (decision_record cid k actor d rsn refs (now 1))) cid
      (candidate_event_id events cid)"
  have "transition x pv c flt new now db db db cid actor d reason0 refs0 =
      res_bind ?ev (\<lambda>e. res_bind (commit_events x c flt db (CurrentState.revision s) [e]) (\<lambda>q.
      case bt_get (integration_candidates (fst q)) cid of
        None \<Rightarrow> Inl (IntegrationError.UnknownCandidate cid)
      | Some k' \<Rightarrow> Inr (k', snd q)))"
    using load(1,2) k actor rsn disp refs val plan
    by (simp add: transition_def decided_kind_def Let_def)
  with run r obtain e where "?ev = Inr e" "res_bind (commit_events x c flt db (CurrentState.revision s) [e]) (\<lambda>q.
      case bt_get (integration_candidates (fst q)) cid of
        None \<Rightarrow> Inl (IntegrationError.UnknownCandidate cid)
      | Some k' \<Rightarrow> Inr (k', snd q)) = r"
    by (cases ?ev) (auto simp: service_not_projection)
  moreover have "decision_checked x s events cid k actor d rsn refs"
    using k disp actor rsn val
    by (auto simp: decision_checked_def ensure_actor_def non_empty_def blank_def Let_def
        is_some_and_iff split: option.splits if_splits)
  ultimately show ?thesis using plan by blast
qed

text \<open>The projector accepts the record, and this is what it makes of it.\<close>

definition decided_state ::
  "CurrentState \<Rightarrow> IntegrationCandidateId \<Rightarrow> VerificationDisposition \<Rightarrow> EventId \<Rightarrow>
   IntegrationVerification \<Rightarrow> CurrentState"
where
  "decided_state s cid d eid v =
     s\<lparr>integration_candidates := bt_modify cid
         (\<lambda>b. b\<lparr>IntegrationCandidate.disposition := d\<rparr>) (integration_candidates s),
       integration_verifications := bt_insert cid
         (v\<lparr>IntegrationVerification.verification_event_id := Some eid,
            IntegrationVerification.reason := trim (IntegrationVerification.reason v),
            IntegrationVerification.evidence_refs :=
              normalize_evidence_refs (IntegrationVerification.evidence_refs v)\<rparr>)
         (integration_verifications s)\<rparr>"

lemma decision_applies:
  assumes inv: "candidates_inv x s" and ids: "applied_events s = map ExperienceEvent.event_id events"
    and ok: "decision_checked x s events cid k actor d rsn refs"
    and plan: "check_typed_plan x i t0 s events k d = Inr ()"
    and pl: "de_integration_verification x (payload e) =
      Inr (decision_record cid k actor d rsn refs t)"
    and subj: "ExperienceEvent.subject e =
      Some \<lparr>EntityRef.kind = EntityKind.IntegrationCandidate, id = uuid cid\<rparr>"
    and actor: "ExperienceEvent.actor_id e = actor"
  shows "apply_integration_transition x s e d =
    Inr (decided_state s cid d (ExperienceEvent.event_id e)
      (decision_record cid k actor d rsn refs t))"
proof -
  from ok have k: "bt_get (integration_candidates s) cid = Some k"
    and disp: "IntegrationCandidate.disposition k = NeedsValidation"
    and val: "validate_candidate x s events k refs = Inr ()" and rsn: "\<not> blank rsn"
    by (simp_all add: decision_checked_def)
  obtain p where p: "bt_get (principals s) actor = Some p" "Principal.kind p \<noteq> Hekate"
    using ok by (auto simp: decision_checked_def is_some_and_iff)
  note v = validate_candidate_Inr [OF val]
  have id: "IntegrationCandidate.id k = cid" using inv k unfolding candidates_inv_def by blast
  have ev: "validate_integration_evidence s k (normalize_evidence_refs refs)
      (IntegrationCandidate.as_of_revision k) kd = Inr ()" for kd
  proof -
    have "\<forall>ev \<in> set refs. integration_evidence_ok s k (IntegrationCandidate.as_of_revision k) ev"
      using v(5) check_evidence_ok ids by blast
    then have "\<forall>ev \<in> set (normalize_evidence_refs refs).
        integration_evidence_ok s k (IntegrationCandidate.as_of_revision k) ev"
      using set_normalize by blast
    then show ?thesis by (simp add: validate_integration_evidence_Inr)
  qed
  show ?thesis
    using k disp p rsn v(1-4) id ev pl subj actor typed_plan_parses [OF plan]
    by (simp add: apply_integration_transition_def Let_def decode_def subject_is_def
        normalize_Nil_iff decided_state_def bt_contains_def not_less)
qed

lemma decision_apply_kind:
  assumes "event_kind e = decided_kind d"
    and "d \<in> {VerificationDisposition.Verified, VerificationDisposition.Rejected}"
  shows "apply_kind x s e = apply_integration_transition x s e d"
  using assms by (auto simp: apply_kind_def decided_kind_def)

lemma transition_run:
  assumes db: "db_holds x c db events s"
    and serde: "\<And>v j. verification_to_value pv v = Inr j \<Longrightarrow> de_integration_verification x j = Inr v"
    and run: "transition x pv c flt new now db db db cid actor d reason0 refs0 = r"
    and r: "r = Inl (IntegrationError.Projection (InvalidPayload kd msg)) \<or> r = Inr res"
  shows "\<exists>k rsn refs e t. decision_checked x s events cid k actor d rsn refs \<and>
    check_typed_plan x (from_uuid (new 0)) (now 0) s events k d = Inr () \<and>
    ExperienceEvent.event_id e = from_uuid (new 1) \<and> verify_integrity x e = Inr True \<and>
    causation_id e = candidate_event_id events cid \<and>
    apply_kind x s e = Inr (decided_state s cid d (from_uuid (new 1))
      (decision_record cid k actor d rsn refs t)) \<and>
    res_bind (commit_events x c flt db (CurrentState.revision s) [e]) (\<lambda>q.
      case bt_get (integration_candidates (fst q)) cid of
        None \<Rightarrow> Inl (IntegrationError.UnknownCandidate cid)
      | Some k' \<Rightarrow> Inr (k', snd q)) = r"
proof -
  note load = db_holds_ledger [OF db]
  from transition_commits [OF db run r] obtain k rsn refs e where
    ok: "decision_checked x s events cid k actor d rsn refs"
    and plan: "check_typed_plan x (from_uuid (new 0)) (now 0) s events k d = Inr ()"
    and ev: "integration_event x (from_uuid (new 1)) (now 2) (now 3) actor (decided_kind d)
      EntityKind.IntegrationCandidate (uuid cid)
      (verification_to_value pv (decision_record cid k actor d rsn refs (now 1))) cid
      (candidate_event_id events cid) = Inr e"
    and com: "res_bind (commit_events x c flt db (CurrentState.revision s) [e]) (\<lambda>q.
      case bt_get (integration_candidates (fst q)) cid of
        None \<Rightarrow> Inl (IntegrationError.UnknownCandidate cid)
      | Some k' \<Rightarrow> Inr (k', snd q)) = r"
    by blast
  note e = integration_event_Inr [OF ev]
  have inv: "candidates_inv x s"
    using candidates_inv_replay db unfolding db_holds_def by blast
  have "apply_integration_transition x s e d = Inr (decided_state s cid d
      (ExperienceEvent.event_id e) (decision_record cid k actor d rsn refs (now 1)))"
    using decision_applies [OF inv load(3) ok plan serde [OF e(1)] e(5,4)] .
  then have "apply_kind x s e = Inr (decided_state s cid d (from_uuid (new 1))
      (decision_record cid k actor d rsn refs (now 1)))"
    using decision_apply_kind [OF e(2)] ok e(3) by (simp add: decision_checked_def)
  then show ?thesis using ok plan e(3,7,9) com by blast
qed

lemma transition_agrees:
  assumes db: "db_holds x c db events s"
    and serde: "\<And>v j. verification_to_value pv v = Inr j \<Longrightarrow> de_integration_verification x j = Inr v"
  shows "transition x pv c flt new now db db db cid actor d reason0 refs0 \<noteq>
    Inl (IntegrationError.Projection (InvalidPayload kd msg))"
proof
  assume run: "transition x pv c flt new now db db db cid actor d reason0 refs0 =
    Inl (IntegrationError.Projection (InvalidPayload kd msg))"
  from transition_run [OF db serde run] obtain e u where ap: "apply_kind x s e = Inr u"
    and com: "res_bind (commit_events x c flt db (CurrentState.revision s) [e]) (\<lambda>q.
      case bt_get (integration_candidates (fst q)) cid of
        None \<Rightarrow> Inl (IntegrationError.UnknownCandidate cid)
      | Some k' \<Rightarrow> Inr (k', snd q)) = Inl (IntegrationError.Projection (InvalidPayload kd msg))"
    by blast
  from com have "commit_events x c flt db (CurrentState.revision s) [e] =
      Inl (IntegrationError.Projection (InvalidPayload kd msg))"
    by (auto simp: res_bind_Inl_iff split: option.splits)
  from commit_events_error [OF this db_holds_ledger(1) [OF db]]
  have "apply_event x s e = Inl (InvalidPayload kd msg)"
    by (cases "apply_event x s e") auto
  with apply_event_not_invalid [OF ap] show False by blast
qed

lemma transition_Inr:
  assumes db: "db_holds x c db events s"
    and serde: "\<And>v j. verification_to_value pv v = Inr j \<Longrightarrow> de_integration_verification x j = Inr v"
    and run: "transition x pv c flt new now db db db cid actor d reason0 refs0 = Inr (k', db')"
  shows "\<exists>k rsn refs t s'. decision_checked x s events cid k actor d rsn refs \<and>
    check_typed_plan x (from_uuid (new 0)) (now 0) s events k d = Inr () \<and>
    k' = k\<lparr>IntegrationCandidate.disposition := d\<rparr> \<and> derived_from db' = Some s' \<and>
    s' = (decided_state s cid d (from_uuid (new 1)) (decision_record cid k actor d rsn refs t))
      \<lparr>CurrentState.revision := CurrentState.revision s + 1,
       applied_events := applied_events s @ [from_uuid (new 1)]\<rparr>"
proof -
  from transition_run [OF db serde run] obtain k rsn refs e t where
    ok: "decision_checked x s events cid k actor d rsn refs"
    and plan: "check_typed_plan x (from_uuid (new 0)) (now 0) s events k d = Inr ()"
    and i: "ExperienceEvent.event_id e = from_uuid (new 1)"
    and ap: "apply_kind x s e = Inr (decided_state s cid d (from_uuid (new 1))
      (decision_record cid k actor d rsn refs t))"
    and com: "res_bind (commit_events x c flt db (CurrentState.revision s) [e]) (\<lambda>q.
      case bt_get (integration_candidates (fst q)) cid of
        None \<Rightarrow> Inl (IntegrationError.UnknownCandidate cid)
      | Some k' \<Rightarrow> Inr (k', snd q)) = Inr (k', db')"
    by blast
  from com obtain s' where ce: "commit_events x c flt db (CurrentState.revision s) [e] = Inr (s', db')"
    and k': "bt_get (integration_candidates s') cid = Some k'"
    by (auto simp: res_simps split: option.splits)
  note com2 = commit_events_Inr [OF ce db_holds_ledger(1) [OF db]]
  from com2(1) have "apply_event x s e = Inr s'" by (auto simp: res_simps)
  with ap i have s': "s' = (decided_state s cid d (from_uuid (new 1))
      (decision_record cid k actor d rsn refs t))
      \<lparr>CurrentState.revision := CurrentState.revision s + 1,
       applied_events := applied_events s @ [from_uuid (new 1)]\<rparr>"
    by (simp add: apply_event_Inr)
  with k' ok have "k' = k\<lparr>IntegrationCandidate.disposition := d\<rparr>"
    by (simp add: decided_state_def decision_checked_def)
  with ok plan com2(2) s' show ?thesis by blast
qed

section \<open>Verification records and the ledger\<close>

text \<open>
  A record is normalised, and a verification is the last event of its kind about its candidate,
  which is where the service looks for it.
\<close>

definition records_match :: "ExperienceEvent list \<Rightarrow> CurrentState \<Rightarrow> bool" where
  "records_match events s \<longleftrightarrow>
     (\<forall>cid v. bt_get (integration_verifications s) cid = Some v \<longrightarrow>
        normalize_evidence_refs (IntegrationVerification.evidence_refs v) =
          IntegrationVerification.evidence_refs v \<and>
        (new_disposition v = VerificationDisposition.Verified \<longrightarrow>
           integration_transition_event_id events cid IntegrationCandidateVerified =
           IntegrationVerification.verification_event_id v))"

lemma transition_event_snoc:
  "integration_transition_event_id (events @ [e]) cid k =
     (if event_kind e = k \<and> subject_is e EntityKind.IntegrationCandidate (uuid cid)
      then Some (ExperienceEvent.event_id e)
      else integration_transition_event_id events cid k)"
  by (simp add: integration_transition_event_id_def)

lemma verification_step:
  assumes "apply_kind x s e = Inr t"
  obtains (same) "integration_verifications t = integration_verifications s"
      and "event_kind e \<noteq> IntegrationCandidateVerified"
  | (decided) k v d where "verification_ok x s e k d v" and "event_kind e = decided_kind d"
      and "integration_verifications t = bt_insert (IntegrationVerification.candidate_id v) v
             (integration_verifications s)"
proof (cases "event_kind e \<in> {IntegrationCandidateVerified, IntegrationCandidateRejected}")
  case False
  with integration_verifications_frame [OF assms] show ?thesis using same by simp
next
  case True
  then have "event_kind e = decided_kind VerificationDisposition.Verified \<or>
      event_kind e = decided_kind VerificationDisposition.Rejected"
    by (simp add: decided_kind_def)
  then obtain d where d: "event_kind e = decided_kind d" "d \<noteq> NeedsValidation" by blast
  then have "apply_integration_transition x s e d = Inr t"
    using assms decision_apply_kind [OF d(1)] by (cases d) auto
  from integration_transition_Inr [OF this] d show ?thesis using decided [OF _ d(1)] by fastforce
qed

lemma subject_is_unique: "subject_is e k (uuid i) \<Longrightarrow> subject_is e k (uuid j) \<Longrightarrow> i = j"
  by (auto simp: subject_is_def is_some_and_iff intro: Id.expand)

lemma records_match_step:
  assumes inv: "records_match events s" and step: "apply_event x s e = Inr s'"
  shows "records_match (events @ [e]) s'"
  using step
proof (cases rule: apply_event_cases)
  case (1 t)
  from 1(1) show ?thesis
  proof (cases rule: verification_step)
    case same
    then show ?thesis using inv 1(2) by (simp add: records_match_def transition_event_snoc)
  next
    case (decided k v d)
    have v: "normalize_evidence_refs (IntegrationVerification.evidence_refs v) =
          IntegrationVerification.evidence_refs v" "new_disposition v = d"
      "IntegrationVerification.verification_event_id v = Some (ExperienceEvent.event_id e)"
      "subject_is e EntityKind.IntegrationCandidate (uuid (IntegrationVerification.candidate_id v))"
      using decided(1) by (simp_all add: verification_ok_def)
    show ?thesis
      unfolding records_match_def
    proof (intro allI impI)
      fix cid w assume w: "bt_get (integration_verifications s') cid = Some w"
      show "normalize_evidence_refs (IntegrationVerification.evidence_refs w) =
          IntegrationVerification.evidence_refs w \<and>
        (new_disposition w = VerificationDisposition.Verified \<longrightarrow>
           integration_transition_event_id (events @ [e]) cid IntegrationCandidateVerified =
           IntegrationVerification.verification_event_id w)"
      proof (cases "cid = IntegrationVerification.candidate_id v")
        case True
        with w v decided(2,3) 1(2) show ?thesis
          by (auto simp: transition_event_snoc decided_kind_def)
      next
        case False
        then have "\<not> subject_is e EntityKind.IntegrationCandidate (uuid cid)"
          using subject_is_unique v(4) by blast
        with False w inv decided(3) 1(2) show ?thesis
          by (simp add: records_match_def transition_event_snoc)
      qed
    qed
  qed
qed

lemma records_match_replay: "replay x es = Inr s \<Longrightarrow> records_match es s"
proof (induction es arbitrary: s rule: rev_induct)
  case Nil
  then show ?case by (auto simp: records_match_def replay_def default_state_def)
next
  case (snoc e es)
  then show ?case
    using records_match_step by (auto simp: replay_def ledger.run_snoc res_simps)
qed

text \<open>A Memory is stored under its own identifier.\<close>

definition memories_keyed :: "CurrentState \<Rightarrow> bool" where
  "memories_keyed s \<longleftrightarrow>
     (\<forall>i m. bt_get (active_memories s) i = Some m \<longrightarrow> ActiveMemory.id m = i)"

lemma memories_frame:
  assumes "apply_kind x s e = Inr t"
    and "event_kind e \<notin> {MemoryPromoted, MemorySuperseded, MemoryExpired}"
  shows "active_memories t = active_memories s"
  using assms by (cases "event_kind e") (auto simp: apply_kind_def Let_def res_simps dest!: footprint)

lemma memories_keyed_step:
  assumes "memories_keyed s" and "apply_event x s e = Inr s'"
  shows "memories_keyed s'"
  using assms(2)
proof (cases rule: apply_event_cases)
  case (1 t)
  show ?thesis
  proof (cases "event_kind e \<in> {MemoryPromoted, MemorySuperseded, MemoryExpired}")
    case True
    with 1(1) have "apply_active_memory x s e = Inr t" by (auto simp: apply_kind_def)
    then obtain m where "active_memories t = bt_insert (ActiveMemory.id m) m (active_memories s)"
      by (auto simp: apply_active_memory_def res_simps)
    then show ?thesis using assms(1) 1(2) by (simp add: memories_keyed_def)
  next
    case False
    with memories_frame [OF 1(1)] assms(1) 1(2) show ?thesis by (simp add: memories_keyed_def)
  qed
qed

lemma memories_keyed_replay: "replay x es = Inr s \<Longrightarrow> memories_keyed s"
  unfolding replay_def
  by (rule ledger.run_invariant [where I = memories_keyed, OF memories_keyed_step])
    (auto simp: memories_keyed_def default_state_def)

section \<open>The plan of a Memory revision\<close>

lemma find_rev_Some: "find P (rev xs) = Some a \<Longrightarrow> a \<in> set xs \<and> P a"
  by (metis find_Some_iff set_rev nth_mem)

lemma transition_event_in_ledger:
  "integration_transition_event_id events cid k = Some i \<Longrightarrow>
     i \<in> ExperienceEvent.event_id ` set events"
  by (auto simp: integration_transition_event_id_def dest: find_rev_Some)

text \<open>A plan exists only for a memory that is safe to revise, and on fresh evidence.\<close>

definition revisable ::
  "ext \<Rightarrow> CurrentState \<Rightarrow> ExperienceEvent list \<Rightarrow> IntegrationCandidate \<Rightarrow>
   MemoryRevisionOperation \<Rightarrow> ActiveMemory \<Rightarrow> ExperienceEvent \<Rightarrow> bool"
where
  "revisable x s events k op prior e \<longleftrightarrow>
     (let (tid, eid, h) = memory_operation_target op; n = unat (IntegrationCandidate.as_of_revision k) in
      bt_get (active_memories s) tid = Some prior \<and>
      ActiveMemory.status prior = ActiveMemoryStatus.Active \<and>
      ActiveMemory.kind prior \<noteq> ExplicitPreference \<and> \<not> unchanged_replacement op prior \<and>
      (\<exists>old. replay x (take n events) = Inr old \<and> bt_get (active_memories old) tid = Some prior) \<and>
      (\<forall>d \<in> set (drop n events). \<not> touches_memory tid d) \<and>
      eid \<in> set (IntegrationCandidate.counterevidence_event_ids k) \<and>
      is_promotion_of eid tid e \<and> verify_integrity x e = Inr True \<and> canonical_hash x e = Inr h \<and>
      de_active_memory x (payload e) = Inr prior \<and>
      (\<exists>i < length events. events ! i = e \<and> i < n \<and> has_new_source events k i))"

lemma event_hash_verified:
  "verify_integrity x e = Inr True \<Longrightarrow> event_hash x e = Inr h \<Longrightarrow> canonical_hash x e = Inr h"
  by (auto simp: verify_integrity_def event_hash_def canonical_hash_def res_simps split: if_splits)

lemma memory_revision_plan_Inr:
  assumes plan: "memory_revision_plan x s events k proposal = Inr (prior, e)"
    and len: "length events < 2 ^ 63"
  shows "revisable x s events k (MemoryRevisionProposal.operation proposal) prior e"
proof -
  let ?op = "MemoryRevisionProposal.operation proposal"
  let ?n = "unat (IntegrationCandidate.as_of_revision k)"
  obtain tid eid h where t: "memory_operation_target ?op = (tid, eid, h)" by (metis prod_cases3)
  obtain old where old: "replay x (take ?n events) = Inr old"
    using plan t by (auto simp: memory_revision_plan_def Let_def res_simps split: if_splits)
  obtain p where p: "bt_get (active_memories old) tid = Some p"
    using plan t old by (cases "bt_get (active_memories old) tid")
      (auto simp: memory_revision_plan_def Let_def split: if_splits)
  obtain i where i: "position_index (is_promotion_of eid tid) events = Some i"
    using plan t old p by (cases "position_index (is_promotion_of eid tid) events")
      (auto simp: memory_revision_plan_def Let_def split: if_splits)
  have checks: "as_of_in_ledger s events k" "eid \<in> set (IntegrationCandidate.counterevidence_event_ids k)"
      "ActiveMemory.status p = ActiveMemoryStatus.Active" "ActiveMemory.kind p \<noteq> ExplicitPreference"
      "\<not> unchanged_replacement ?op p" "bt_get (active_memories s) tid = Some p"
      "\<forall>d \<in> set (drop ?n events). \<not> touches_memory tid d"
      "check_target_event x k p h i (events ! i) = Inr ()" "has_new_source events k i"
      "p = prior" "events ! i = e"
    using plan t old p i
    by (auto simp: memory_revision_plan_def Let_def res_simps split: if_splits)
  have il: "i < length events" and prom: "is_promotion_of eid tid (events ! i)"
    using position_index_Some [OF i] by auto
  have target: "verify_integrity x e = Inr True" "event_hash x e = Inr h"
      "de_active_memory x (payload e) = Inr prior"
      "of_nat i + 1 \<le> IntegrationCandidate.as_of_revision k"
    using checks(8,10,11) by (auto simp: check_target_event_def res_simps not_less split: if_splits)
  have "unat (of_nat i + 1 :: u64) = i + 1"
    using il len unat_of_nat_u64 [of "i + 1"] by (simp add: add.commute)
  then have "i < ?n" using target(4) by (simp add: word_le_nat_alt)
  with il checks prom target old p event_hash_verified [OF target(1,2)] t show ?thesis
    by (auto simp: revisable_def)
qed

end
