(* ===== verification/ServiceMaterialization.thy ===== *)
theory ServiceMaterialization
  imports IntegrationServiceHistory
begin

text \<open>
  The three materialisations of the integration service against the projector: each batch the
  service builds is applied without an invalid payload, and what it leaves in the state.
\<close>

section \<open>Steps of a batch\<close>

abbreviation ticked :: "CurrentState \<Rightarrow> ExperienceEvent \<Rightarrow> CurrentState \<Rightarrow> CurrentState" where
  "ticked s e t \<equiv> t\<lparr>CurrentState.revision := CurrentState.revision s + 1,
                   applied_events := applied_events s @ [ExperienceEvent.event_id e]\<rparr>"

lemma apply_event_ticked:
  "ExperienceEvent.event_id e \<notin> set (applied_events s) \<Longrightarrow> apply_kind x s e = Inr t \<Longrightarrow>
     apply_event x s e = Inr (ticked s e t)"
  by (simp add: apply_event_Inr)

lemma apply_event_invalid:
  "apply_event x s e = Inl (InvalidPayload k msg) \<Longrightarrow> apply_kind x s e = Inr t \<Longrightarrow> False"
  using apply_event_not_invalid by blast

lemma memory_candidate_event:
  "event_kind e = MemoryCandidateCreated \<Longrightarrow> de_memory_candidate x (payload e) = Inr mc \<Longrightarrow>
     apply_kind x s e = Inr (s\<lparr>CurrentState.memory_candidates :=
       bt_insert (MemoryCandidate.id mc) mc (CurrentState.memory_candidates s)\<rparr>)"
  by (simp add: apply_kind_def insert_payload_def)

definition with_memory :: "ActiveMemory \<Rightarrow> CurrentState \<Rightarrow> CurrentState" where
  "with_memory m s =
     s\<lparr>CurrentState.memory_candidates := bt_modify (ActiveMemory.candidate_id m)
         (\<lambda>c. c\<lparr>MemoryCandidate.status := memory_candidate_status (ActiveMemory.status m)\<rparr>)
         (CurrentState.memory_candidates s),
       active_memories := bt_insert (ActiveMemory.id m) m (active_memories s)\<rparr>"

lemma memory_event:
  "event_kind e \<in> {MemoryPromoted, MemorySuperseded, MemoryExpired} \<Longrightarrow>
     de_active_memory x (payload e) = Inr m \<Longrightarrow> apply_kind x s e = Inr (with_memory m s)"
  by (auto simp: apply_kind_def apply_active_memory_def decode_def with_memory_def)

lemma evidence_ok_later:
  assumes "integration_evidence_ok s c as_of ev"
    and "CurrentState.artifacts t = CurrentState.artifacts s"
    and "applied_events t = applied_events s @ later"
  shows "integration_evidence_ok t c as_of ev"
proof -
  have "event_sequence_of t i = Some n" if "event_sequence_of s i = Some n" for i n
    using that assms(3) position_index_append by (fastforce simp: event_sequence_of_def)
  with assms(1,2) show ?thesis
    by (auto simp: integration_evidence_ok_def is_some_and_iff split: option.splits)
qed

lemma verified_record_Inr:
  "verified_record s cid = Inr v \<longleftrightarrow>
     bt_get (integration_verifications s) cid = Some v \<and>
     new_disposition v = VerificationDisposition.Verified"
  by (auto simp: verified_record_def split: option.splits)

section \<open>The record of a Memory revision\<close>

text \<open>
  The last event of a revision batch: the states before it differ from the one the service
  read in memories and ledger only.
\<close>

definition same_but_memories :: "CurrentState \<Rightarrow> CurrentState \<Rightarrow> bool" where
  "same_but_memories s t \<longleftrightarrow>
     (\<exists>cs ms r later. t = s\<lparr>CurrentState.memory_candidates := cs, active_memories := ms,
        CurrentState.revision := r, applied_events := applied_events s @ later\<rparr>)"

lemma same_but_memories_refl: "same_but_memories s s"
proof -
  have "s = s\<lparr>CurrentState.memory_candidates := CurrentState.memory_candidates s,
      active_memories := active_memories s, CurrentState.revision := CurrentState.revision s,
      applied_events := applied_events s @ []\<rparr>" by simp
  then show ?thesis unfolding same_but_memories_def by blast
qed

lemma same_but_memories_step:
  assumes "same_but_memories s t"
  shows "same_but_memories s (ticked t e (t\<lparr>CurrentState.memory_candidates := cs\<rparr>))"
    and "same_but_memories s (ticked t e (with_memory m t))"
proof -
  from assms obtain cs0 ms0 r0 l0 where t: "t = s\<lparr>CurrentState.memory_candidates := cs0,
      active_memories := ms0, CurrentState.revision := r0,
      applied_events := applied_events s @ l0\<rparr>"
    unfolding same_but_memories_def by blast
  have "ticked t e (t\<lparr>CurrentState.memory_candidates := cs\<rparr>) =
      s\<lparr>CurrentState.memory_candidates := cs, active_memories := ms0,
        CurrentState.revision := r0 + 1,
        applied_events := applied_events s @ (l0 @ [ExperienceEvent.event_id e])\<rparr>"
    by (simp add: t)
  then show "same_but_memories s (ticked t e (t\<lparr>CurrentState.memory_candidates := cs\<rparr>))"
    unfolding same_but_memories_def by blast
  have "ticked t e (with_memory m t) =
      s\<lparr>CurrentState.memory_candidates := CurrentState.memory_candidates (with_memory m t),
        active_memories := active_memories (with_memory m t),
        CurrentState.revision := r0 + 1,
        applied_events := applied_events s @ (l0 @ [ExperienceEvent.event_id e])\<rparr>"
    by (simp add: t with_memory_def)
  then show "same_but_memories s (ticked t e (with_memory m t))"
    unfolding same_but_memories_def by blast
qed

lemma same_but_memoriesD:
  assumes "same_but_memories s t"
  shows "principals t = principals s" and "integration_candidates t = integration_candidates s"
    and "integration_verifications t = integration_verifications s"
    and "memory_revision_materializations t = memory_revision_materializations s"
    and "integration_materializations t = integration_materializations s"
    and "CurrentState.artifacts t = CurrentState.artifacts s"
    and "\<exists>later. applied_events t = applied_events s @ later"
  using assms by (auto simp: same_but_memories_def)

text \<open>What the service knows of a verified candidate when it builds a batch.\<close>

definition ready_to_materialize ::
  "ext \<Rightarrow> CurrentState \<Rightarrow> ExperienceEvent list \<Rightarrow> IntegrationCandidate \<Rightarrow>
   IntegrationVerification \<Rightarrow> bool"
where
  "ready_to_materialize x s events k v \<longleftrightarrow>
     bt_get (integration_candidates s) (IntegrationCandidate.id k) = Some k \<and>
     IntegrationCandidate.disposition k = VerificationDisposition.Verified \<and>
     verified_record s (IntegrationCandidate.id k) = Inr v \<and>
     validate_candidate x s events k (IntegrationVerification.evidence_refs v) = Inr ()"

lemma ready_evidence:
  assumes ready: "ready_to_materialize x s events k v" and match: "records_match events s"
    and ids: "applied_events s = map ExperienceEvent.event_id events"
    and same: "CurrentState.artifacts t = CurrentState.artifacts s"
      "applied_events t = applied_events s @ later"
  shows "validate_integration_evidence t k
      (normalize_evidence_refs (IntegrationVerification.evidence_refs v))
      (IntegrationCandidate.as_of_revision k) kd = Inr ()"
    and "normalize_evidence_refs (IntegrationVerification.evidence_refs v) =
      IntegrationVerification.evidence_refs v"
    and "fingerprint_of_candidate x k = IntegrationCandidate.fingerprint k"
proof -
  from ready have val: "validate_candidate x s events k (IntegrationVerification.evidence_refs v) = Inr ()"
    and rec: "bt_get (integration_verifications s) (IntegrationCandidate.id k) = Some v"
    by (simp_all add: ready_to_materialize_def verified_record_Inr)
  show norm: "normalize_evidence_refs (IntegrationVerification.evidence_refs v) =
      IntegrationVerification.evidence_refs v"
    using match rec unfolding records_match_def by blast
  have "\<forall>ev \<in> set (IntegrationVerification.evidence_refs v).
      integration_evidence_ok t k (IntegrationCandidate.as_of_revision k) ev"
    using validate_candidate_Inr(5) [OF val] check_evidence_ok ids evidence_ok_later [OF _ same]
    by blast
  then show "validate_integration_evidence t k
      (normalize_evidence_refs (IntegrationVerification.evidence_refs v))
      (IntegrationCandidate.as_of_revision k) kd = Inr ()"
    by (simp add: norm validate_integration_evidence_Inr)
  show "fingerprint_of_candidate x k = IntegrationCandidate.fingerprint k"
    by (rule validate_candidate_Inr(4) [OF val])
qed

text \<open>A replacement or expiry that the service plans.\<close>

definition revision_planned ::
  "ext \<Rightarrow> CurrentState \<Rightarrow> ExperienceEvent list \<Rightarrow> IntegrationCandidate \<Rightarrow>
   IntegrationVerification \<Rightarrow> MemoryRevisionOperation \<Rightarrow> ActiveMemory \<Rightarrow> ExperienceEvent \<Rightarrow>
   EventId \<Rightarrow> bool"
where
  "revision_planned x s events k v op prior e0 veid \<longleftrightarrow>
     ready_to_materialize x s events k v \<and>
     IntegrationCandidate.kind k = IntegrationCandidateKind.MemoryRevision \<and>
     \<not> bt_contains (memory_revision_materializations s) (IntegrationCandidate.id k) \<and>
     (\<exists>proposal. memory_revision_parse x (IntegrationCandidate.content k) = Inr proposal \<and>
        MemoryRevisionProposal.operation proposal = op) \<and>
     revisable x s events k op prior e0 \<and>
     integration_transition_event_id events (IntegrationCandidate.id k)
       IntegrationCandidateVerified = Some veid"

text \<open>The facts of a replayed ledger the projector's acceptance rests on.\<close>

definition ledger_facts :: "CurrentState \<Rightarrow> ExperienceEvent list \<Rightarrow> bool" where
  "ledger_facts s events \<longleftrightarrow>
     records_match events s \<and> memories_keyed s \<and>
     applied_events s = map ExperienceEvent.event_id events"

lemma ledger_facts_db: "db_holds x c db events s \<Longrightarrow> ledger_facts s events"
  using records_match_replay memories_keyed_replay db_holds_ledger(3)
  unfolding ledger_facts_def db_holds_def by blast

lemma planned_matches:
  assumes planned: "revision_planned x s events k v op prior e0 veid"
    and led: "ledger_facts s events" and same: "same_but_memories s t"
    and h: "canonical_hash x e0 = Inr h"
    and m: "m = revision_materialization now k v veid prior e0 h act repl"
  shows "memory_revision_matches_candidate x t k m"
    and "memory_operation_target op = (ActiveMemory.id prior, ExperienceEvent.event_id e0, h)"
    and "veid \<in> set (applied_events t)" and "ExperienceEvent.event_id e0 \<in> set (applied_events t)"
    and "ActiveMemory.kind prior \<noteq> ExplicitPreference"
proof -
  from planned have ready: "ready_to_materialize x s events k v"
    and rev: "revisable x s events k op prior e0"
    and veid: "integration_transition_event_id events (IntegrationCandidate.id k)
      IntegrationCandidateVerified = Some veid"
    and rest: "IntegrationCandidate.kind k = IntegrationCandidateKind.MemoryRevision"
      "\<not> bt_contains (memory_revision_materializations s) (IntegrationCandidate.id k)"
    unfolding revision_planned_def by blast+
  obtain proposal where parse: "memory_revision_parse x (IntegrationCandidate.content k) = Inr proposal"
    and op: "MemoryRevisionProposal.operation proposal = op"
    using planned unfolding revision_planned_def by blast
  obtain tid eid h' where t: "memory_operation_target op = (tid, eid, h')" by (metis prod_cases3)
  from rev t have r: "bt_get (active_memories s) tid = Some prior" "ActiveMemory.kind prior \<noteq> ExplicitPreference"
    "eid \<in> set (IntegrationCandidate.counterevidence_event_ids k)" "is_promotion_of eid tid e0"
    "canonical_hash x e0 = Inr h'" "e0 \<in> set events"
    by (auto simp: revisable_def Let_def)
  have eid: "ExperienceEvent.event_id e0 = eid" "h' = h" and tid: "ActiveMemory.id prior = tid"
    using r(1,4,5) h led unfolding is_promotion_of_def ledger_facts_def memories_keyed_def by auto
  with t show "memory_operation_target op =
      (ActiveMemory.id prior, ExperienceEvent.event_id e0, h)" by simp
  show "ActiveMemory.kind prior \<noteq> ExplicitPreference" by (rule r(2))
  from same_but_memoriesD(7) [OF same] obtain later
    where later: "applied_events t = map ExperienceEvent.event_id events @ later"
    using led by (auto simp: ledger_facts_def)
  show "veid \<in> set (applied_events t)"
    using transition_event_in_ledger [OF veid] later by simp
  show "ExperienceEvent.event_id e0 \<in> set (applied_events t)" using r(6) later by simp
  have "valid_sha256_hex h"
    using parse op t eid by (cases op) (auto simp: memory_revision_parse_Inr_iff)
  moreover have "fingerprint_of_candidate x k = IntegrationCandidate.fingerprint k"
    using validate_candidate_Inr(4) ready unfolding ready_to_materialize_def by blast
  ultimately show "memory_revision_matches_candidate x t k m"
    using ready rest r(3) eid same_but_memoriesD(4) [OF same]
    by (simp add: memory_revision_matches_candidate_def m revision_materialization_def
        ready_to_materialize_def)
qed

lemma revision_record_applies:
  assumes planned: "revision_planned x s events k v op prior e0 veid"
    and led: "ledger_facts s events" and same: "same_but_memories s t"
    and h: "canonical_hash x e0 = Inr h"
    and m: "m = revision_materialization now k v veid prior e0 h act repl"
    and actor: "bt_contains (principals s) actor" "\<not> is_model_actor s actor"
    and tgt: "bt_get (active_memories t) (ActiveMemory.id prior) = Some tgt"
      "ActiveMemory.kind tgt = ActiveMemory.kind prior"
    and made: "memory_revision_done t m op tgt MemoryRevisionMaterialized = Inr ()"
    and ev: "revision_record_event x pv new now actor (IntegrationCandidate.id k) veid m = Inr e"
    and pl: "de_memory_revision_materialization x (payload e) = Inr m"
  shows "apply_kind x t e = Inr (t\<lparr>memory_revision_materializations :=
    bt_insert (IntegrationCandidate.id k) m (memory_revision_materializations s)\<rparr>)"
proof -
  note e = integration_event_Inr [OF ev [unfolded revision_record_event_def]]
  note pm = planned_matches [OF planned led same h m]
  note d = same_but_memoriesD [OF same]
  let ?cid = "IntegrationCandidate.id k"
  have fields: "MemoryRevisionMaterialization.candidate_id m = ?cid"
    "MemoryRevisionMaterialization.verification_event_id m = veid"
    "MemoryRevisionMaterialization.target_memory_id m = ActiveMemory.id prior"
    "MemoryRevisionMaterialization.expected_event_id m = ExperienceEvent.event_id e0"
    "MemoryRevisionMaterialization.expected_event_hash m = h"
    "MemoryRevisionMaterialization.evidence_refs m = IntegrationVerification.evidence_refs v"
    "MemoryRevisionMaterialization.as_of_revision m = IntegrationCandidate.as_of_revision k"
    by (simp_all add: m revision_materialization_def)
  from planned have ready: "ready_to_materialize x s events k v"
    and veid: "integration_transition_event_id events ?cid IntegrationCandidateVerified = Some veid"
    unfolding revision_planned_def by blast+
  obtain proposal where parse: "memory_revision_parse x (IntegrationCandidate.content k) = Inr proposal"
    "MemoryRevisionProposal.operation proposal = op"
    using planned unfolding revision_planned_def by blast
  from ready have rec: "bt_get (integration_candidates t) ?cid = Some k"
      "bt_get (integration_verifications t) ?cid = Some v"
      "new_disposition v = VerificationDisposition.Verified"
    by (auto simp: ready_to_materialize_def verified_record_Inr d)
  have vid: "IntegrationVerification.verification_event_id v = Some veid"
    using led rec veid unfolding ledger_facts_def records_match_def d by (metis (no_types))
  obtain later where "applied_events t = applied_events s @ later" using d(7) by blast
  note ev' = ready_evidence [OF ready _ _ d(6) this]
  have refs: "normalize_evidence_refs (IntegrationVerification.evidence_refs v) =
      IntegrationVerification.evidence_refs v"
    and valid: "validate_integration_evidence t k (IntegrationVerification.evidence_refs v)
      (IntegrationCandidate.as_of_revision k) MemoryRevisionMaterialized = Inr ()"
    using ev' led unfolding ledger_facts_def by (metis (no_types))+
  have prov: "memory_revision_provenance_ok x t e m"
    using e pm(3,4) by (simp add: memory_revision_provenance_ok_def fields subject_is_def)
  have act: "bt_contains (principals t) (ExperienceEvent.actor_id e)"
    "\<not> is_model_actor t (ExperienceEvent.actor_id e)"
    using actor e(4) d(1) by (simp_all add: is_model_actor_def)
  have same_m: "m\<lparr>MemoryRevisionMaterialization.evidence_refs :=
      IntegrationVerification.evidence_refs v\<rparr> = m"
    using fields(6) by (metis MemoryRevisionMaterialization.surjective
      MemoryRevisionMaterialization.update_convs(10) MemoryRevisionMaterialization.select_convs(10))
  have "apply_memory_revision_materialization x t e =
      Inr (t\<lparr>memory_revision_materializations := bt_insert ?cid m (memory_revision_materializations s)\<rparr>)"
    using pl prov act rec parse pm(1,2,5) tgt made refs valid vid e(2)
    by (simp add: apply_memory_revision_materialization_def Let_def decode_def fields same_m d)
  then show ?thesis using e(2) by (simp add: apply_kind_def)
qed

section \<open>Batches of a Memory revision\<close>

text \<open>What serde encodes, serde decodes.\<close>

definition payload_roundtrip :: "ext \<Rightarrow> payload_values \<Rightarrow> bool" where
  "payload_roundtrip x pv \<longleftrightarrow>
     (\<forall>v j. verification_to_value pv v = Inr j \<longrightarrow> de_integration_verification x j = Inr v) \<and>
     (\<forall>v j. memory_candidate_to_value pv v = Inr j \<longrightarrow> de_memory_candidate x j = Inr v) \<and>
     (\<forall>v j. active_memory_to_value pv v = Inr j \<longrightarrow> de_active_memory x j = Inr v) \<and>
     (\<forall>v j. materialization_to_value pv v = Inr j \<longrightarrow> de_integration_materialization x j = Inr v) \<and>
     (\<forall>v j. memory_revision_to_value pv v = Inr j \<longrightarrow>
        de_memory_revision_materialization x j = Inr v) \<and>
     (\<forall>v j. position_integration_to_value pv v = Inr j \<longrightarrow>
        de_position_integration_event x j = Inr v \<and> has_field x j ''position_integration'')"

lemma payload_roundtripD:
  assumes "payload_roundtrip x pv"
  shows "verification_to_value pv v1 = Inr j \<Longrightarrow> de_integration_verification x j = Inr v1"
    and "memory_candidate_to_value pv v2 = Inr j \<Longrightarrow> de_memory_candidate x j = Inr v2"
    and "active_memory_to_value pv v3 = Inr j \<Longrightarrow> de_active_memory x j = Inr v3"
    and "materialization_to_value pv v4 = Inr j \<Longrightarrow> de_integration_materialization x j = Inr v4"
    and "memory_revision_to_value pv v5 = Inr j \<Longrightarrow>
      de_memory_revision_materialization x j = Inr v5"
    and "position_integration_to_value pv v6 = Inr j \<Longrightarrow>
      de_position_integration_event x j = Inr v6 \<and> has_field x j ''position_integration''"
  using assms unfolding payload_roundtrip_def by blast+

text \<open>The identifiers drawn for a batch are new and distinct.\<close>

definition fresh_ids :: "(nat \<Rightarrow> Uuid) \<Rightarrow> CurrentState \<Rightarrow> bool" where
  "fresh_ids new s \<longleftrightarrow>
     distinct (map new [0..<6]) \<and>
     set (map (\<lambda>i. from_uuid (new i)) [0..<6]) \<inter> set (applied_events s) = {} \<and>
     \<not> bt_contains (CurrentState.memory_candidates s) (from_uuid (new 0)) \<and>
     \<not> bt_contains (active_memories s) (from_uuid (new 1)) \<and>
     \<not> bt_contains (CurrentState.positions s) (from_uuid (new 0))"

lemma fresh_ids_event:
  "fresh_ids new s \<Longrightarrow> i < 6 \<Longrightarrow> (from_uuid (new i) :: EventId) \<notin> set (applied_events s)"
  unfolding fresh_ids_def by fastforce

lemma fresh_ids_distinct:
  "fresh_ids new s \<Longrightarrow> i < 6 \<Longrightarrow> j < 6 \<Longrightarrow> i \<noteq> j \<Longrightarrow> new i \<noteq> new j"
  by (auto simp: fresh_ids_def distinct_map inj_on_def)

definition retired :: "ActiveMemory \<Rightarrow> MemoryRevisionActionKind \<Rightarrow> ActiveMemory" where
  "retired prior act = prior\<lparr>ActiveMemory.status := retired_status act\<rparr>"

definition revised_memories ::
  "CurrentState \<Rightarrow> ActiveMemory \<Rightarrow> MemoryRevisionActionKind \<Rightarrow>
   (MemoryCandidate \<times> ActiveMemory) option \<Rightarrow> (MemoryId, ActiveMemory) btree"
where
  "revised_memories s prior act repl =
     (let ms = bt_insert (ActiveMemory.id prior) (retired prior act) (active_memories s) in
      case repl of None \<Rightarrow> ms | Some (mc, mem) \<Rightarrow> bt_insert (ActiveMemory.id mem) mem ms)"

lemma retirement_step:
  assumes ev: "retirement_event x pv new now actor cid prior act cause = Inr e"
    and rt: "payload_roundtrip x pv"
    and fresh: "(from_uuid (new 3) :: EventId) \<notin> set (applied_events s)"
  shows "apply_event x s e = Inr (ticked s e (with_memory (retired prior act) s))"
    and "ExperienceEvent.event_id e = from_uuid (new 3)"
proof -
  note e = integration_event_Inr [OF ev [unfolded retirement_event_def]]
  have "de_active_memory x (payload e) = Inr (retired prior act)"
    using payload_roundtripD(3) [OF rt e(1)] by (simp add: retired_def)
  moreover have "event_kind e \<in> {MemoryPromoted, MemorySuperseded, MemoryExpired}"
    using e(2) by (cases act) simp_all
  ultimately have "apply_kind x s e = Inr (with_memory (retired prior act) s)"
    using memory_event by blast
  with fresh e(3) show "apply_event x s e = Inr (ticked s e (with_memory (retired prior act) s))"
    by (intro apply_event_ticked) simp_all
  show "ExperienceEvent.event_id e = from_uuid (new 3)" by (rule e(3))
qed

lemma expiry_applies:
  assumes planned: "revision_planned x s events k v op prior e0 veid"
    and led: "ledger_facts s events" and h: "canonical_hash x e0 = Inr h"
    and act: "revision_action new now k prior op = (act, None)"
    and m: "m = revision_materialization now k v veid prior e0 h act None"
    and actor: "bt_contains (principals s) actor" "\<not> is_model_actor s actor"
    and batch: "revision_batch x pv new now actor (IntegrationCandidate.id k) veid prior act None m = Inr es"
    and rt: "payload_roundtrip x pv" and fresh: "fresh_ids new s"
  shows "\<exists>s'. apply_all x s es = Inr s' \<and> active_memories s' = revised_memories s prior act None \<and>
    memory_revision_materializations s' =
      bt_insert (IntegrationCandidate.id k) m (memory_revision_materializations s)"
proof -
  let ?cid = "IntegrationCandidate.id k"
  from batch obtain e2 e4 where
    e2: "retirement_event x pv new now actor ?cid prior act veid = Inr e2"
    and e4: "revision_record_event x pv new now actor ?cid veid m = Inr e4" and es: "es = [e2, e4]"
    by (auto simp: revision_batch_def res_simps)
  define s2 where "s2 = ticked s e2 (with_memory (retired prior act) s)"
  have step2: "apply_event x s e2 = Inr s2" and i2: "ExperienceEvent.event_id e2 = from_uuid (new 3)"
    unfolding s2_def using retirement_step [OF e2 rt fresh_ids_event [OF fresh]] by simp_all
  have same: "same_but_memories s s2"
    unfolding s2_def by (rule same_but_memories_step [OF same_but_memories_refl])
  obtain tid eid h' where op: "op = MemoryRevisionOperation.Expire tid eid h'"
    and actE: "act = MemoryRevisionActionKind.Expire"
    using act by (cases op) (auto simp: Let_def)
  have tgt: "bt_get (active_memories s2) (ActiveMemory.id prior) = Some (retired prior act)"
    by (simp add: s2_def with_memory_def retired_def)
  have made: "memory_revision_done s2 m op (retired prior act) MemoryRevisionMaterialized = Inr ()"
    by (simp add: memory_revision_done_def m revision_materialization_def actE op retired_def)
  note e = integration_event_Inr [OF e4 [unfolded revision_record_event_def]]
  have kindp: "ActiveMemory.kind (retired prior act) = ActiveMemory.kind prior"
    by (simp add: retired_def)
  have ap: "apply_kind x s2 e4 = Inr (s2\<lparr>memory_revision_materializations :=
      bt_insert ?cid m (memory_revision_materializations s)\<rparr>)"
    by (rule revision_record_applies [OF planned led same h m actor tgt kindp made e4
        payload_roundtripD(5) [OF rt e(1)]])
  have "ExperienceEvent.event_id e4 \<notin> set (applied_events s2)"
    using e(3) i2 fresh_ids_event [OF fresh] fresh_ids_distinct [OF fresh, of 3 5]
    by (simp add: s2_def)
  from apply_event_ticked [OF this ap] have "apply_all x s es =
      Inr (ticked s2 e4 (s2\<lparr>memory_revision_materializations :=
        bt_insert ?cid m (memory_revision_materializations s)\<rparr>))"
    using step2 by (simp add: es)
  then show ?thesis by (simp add: s2_def with_memory_def revised_memories_def retired_def)
qed

lemma memory_candidate_step:
  assumes ev: "integration_event x (from_uuid i) t1 t2 actor MemoryCandidateCreated
      EntityKind.MemoryCandidate u (memory_candidate_to_value pv mc) cid caus = Inr e"
    and rt: "payload_roundtrip x pv"
    and fresh: "(from_uuid i :: EventId) \<notin> set (applied_events s)"
  shows "apply_event x s e = Inr (ticked s e (s\<lparr>CurrentState.memory_candidates :=
       bt_insert (MemoryCandidate.id mc) mc (CurrentState.memory_candidates s)\<rparr>))"
    and "ExperienceEvent.event_id e = from_uuid i"
proof -
  note e = integration_event_Inr [OF ev]
  show "ExperienceEvent.event_id e = from_uuid i" by (rule e(3))
  show "apply_event x s e = Inr (ticked s e (s\<lparr>CurrentState.memory_candidates :=
       bt_insert (MemoryCandidate.id mc) mc (CurrentState.memory_candidates s)\<rparr>))"
    using apply_event_ticked [OF _ memory_candidate_event [OF e(2)
      payload_roundtripD(2) [OF rt e(1)]]] fresh e(3) by simp
qed

lemma promotion_step:
  assumes ev: "integration_event x (from_uuid i) t1 t2 actor MemoryPromoted EntityKind.Memory u
      (active_memory_to_value pv mem) cid caus = Inr e"
    and rt: "payload_roundtrip x pv"
    and fresh: "(from_uuid i :: EventId) \<notin> set (applied_events s)"
  shows "apply_event x s e = Inr (ticked s e (with_memory mem s))"
    and "ExperienceEvent.event_id e = from_uuid i"
proof -
  note e = integration_event_Inr [OF ev]
  show "ExperienceEvent.event_id e = from_uuid i" by (rule e(3))
  have "apply_kind x s e = Inr (with_memory mem s)"
    by (rule memory_event [OF _ payload_roundtripD(3) [OF rt e(1)]]) (simp add: e(2))
  with fresh e(3) show "apply_event x s e = Inr (ticked s e (with_memory mem s))"
    by (intro apply_event_ticked) simp_all
qed

lemma replacement_applies:
  assumes planned: "revision_planned x s events k v op prior e0 veid"
    and led: "ledger_facts s events" and h: "canonical_hash x e0 = Inr h"
    and act: "revision_action new now k prior op = (act, Some (mc, mem))"
    and m: "m = revision_materialization now k v veid prior e0 h act (Some (mc, mem))"
    and actor: "bt_contains (principals s) actor" "\<not> is_model_actor s actor"
    and batch: "revision_batch x pv new now actor (IntegrationCandidate.id k) veid prior act
      (Some (mc, mem)) m = Inr es"
    and rt: "payload_roundtrip x pv" and fresh: "fresh_ids new s"
  shows "\<exists>s'. apply_all x s es = Inr s' \<and>
    active_memories s' = revised_memories s prior act (Some (mc, mem)) \<and>
    memory_revision_materializations s' =
      bt_insert (IntegrationCandidate.id k) m (memory_revision_materializations s)"
proof -
  let ?cid = "IntegrationCandidate.id k"
  from batch obtain e1 e2 e3 e4 where
    e1: "integration_event x (from_uuid (new 2)) (now 5) (now 6) actor MemoryCandidateCreated
      EntityKind.MemoryCandidate (uuid (MemoryCandidate.id mc)) (memory_candidate_to_value pv mc)
      ?cid (Some veid) = Inr e1"
    and e2: "retirement_event x pv new now actor ?cid prior act (ExperienceEvent.event_id e1) = Inr e2"
    and e3: "integration_event x (from_uuid (new 4)) (now 9) (now 10) actor MemoryPromoted
      EntityKind.Memory (uuid (ActiveMemory.id mem)) (active_memory_to_value pv mem) ?cid
      (Some (ExperienceEvent.event_id e2)) = Inr e3"
    and e4: "revision_record_event x pv new now actor ?cid veid m = Inr e4"
    and es: "es = [e1, e2, e3, e4]"
    by (auto simp: revision_batch_def res_simps)
  obtain tid eid h' r where op: "op = MemoryRevisionOperation.Replace tid eid h' r"
    and actR: "act = MemoryRevisionActionKind.Replace"
    and mc: "mc = replacement_candidate new now k prior r"
    and mem: "mem = memory_of (from_uuid (new 1)) (now 2) (now 3) (Some (ActiveMemory.id prior)) mc"
    using act by (cases op) (auto simp: Let_def)
  note ids = fresh_ids_event [OF fresh]
  have neq: "new 2 \<noteq> new 3" "new 2 \<noteq> new 4" "new 3 \<noteq> new 4" "new 2 \<noteq> new 5" "new 3 \<noteq> new 5" "new 4 \<noteq> new 5"
    using fresh_ids_distinct [OF fresh] by simp_all
  define s1 where "s1 = ticked s e1 (s\<lparr>CurrentState.memory_candidates :=
      bt_insert (MemoryCandidate.id mc) mc (CurrentState.memory_candidates s)\<rparr>)"
  define s2 where "s2 = ticked s1 e2 (with_memory (retired prior act) s1)"
  define s3 where "s3 = ticked s2 e3 (with_memory mem s2)"
  have step1: "apply_event x s e1 = Inr s1" and i1: "ExperienceEvent.event_id e1 = from_uuid (new 2)"
    unfolding s1_def using memory_candidate_step [OF e1 rt ids] by simp_all
  have f2: "(from_uuid (new 3) :: EventId) \<notin> set (applied_events s1)"
    using ids i1 neq by (simp add: s1_def)
  have step2: "apply_event x s1 e2 = Inr s2" and i2: "ExperienceEvent.event_id e2 = from_uuid (new 3)"
    unfolding s2_def using retirement_step [OF e2 rt f2] by blast+
  have f3: "(from_uuid (new 4) :: EventId) \<notin> set (applied_events s2)"
    using ids i1 i2 neq by (simp add: s1_def s2_def)
  have step3: "apply_event x s2 e3 = Inr s3" and i3: "ExperienceEvent.event_id e3 = from_uuid (new 4)"
    unfolding s3_def using promotion_step [OF e3 rt f3] by blast+
  have same: "same_but_memories s s3"
    unfolding s3_def s2_def s1_def by (intro same_but_memories_step same_but_memories_refl)
  have old: "bt_contains (active_memories s) (ActiveMemory.id prior)"
    using planned planned_matches(2) [OF planned led same_but_memories_refl h m]
    by (auto simp: revision_planned_def revisable_def Let_def bt_contains_def)
  then have other: "ActiveMemory.id prior \<noteq> from_uuid (new 1)"
    using fresh by (auto simp: fresh_ids_def)
  have tgt: "bt_get (active_memories s3) (ActiveMemory.id prior) = Some (retired prior act)"
    using other by (simp add: s3_def s2_def s1_def with_memory_def retired_def mem memory_of_def)
  have rep: "bt_get (active_memories s3) (ActiveMemory.id mem) = Some mem"
    by (simp add: s3_def s2_def s1_def with_memory_def)
  have cand: "\<exists>c. bt_get (CurrentState.memory_candidates s3) (ActiveMemory.candidate_id mem) = Some c \<and>
      MemoryCandidate.supersedes c = MemoryCandidate.supersedes mc \<and>
      MemoryCandidate.content c = MemoryCandidate.content mc"
    by (simp add: s3_def s2_def s1_def with_memory_def mem memory_of_def)
  then have made: "memory_revision_done s3 m op (retired prior act) MemoryRevisionMaterialized = Inr ()"
    using rep by (auto simp: memory_revision_done_def m revision_materialization_def actR op
        retired_def mem memory_of_def mc replacement_candidate_def Let_def)
  note e = integration_event_Inr [OF e4 [unfolded revision_record_event_def]]
  have kindp: "ActiveMemory.kind (retired prior act) = ActiveMemory.kind prior"
    by (simp add: retired_def)
  have ap: "apply_kind x s3 e4 = Inr (s3\<lparr>memory_revision_materializations :=
      bt_insert ?cid m (memory_revision_materializations s)\<rparr>)"
    by (rule revision_record_applies [OF planned led same h m actor tgt kindp made e4
        payload_roundtripD(5) [OF rt e(1)]])
  have "ExperienceEvent.event_id e4 \<notin> set (applied_events s3)"
    using e(3) ids i1 i2 i3 neq by (simp add: s1_def s2_def s3_def)
  from apply_event_ticked [OF this ap] have "apply_all x s es =
      Inr (ticked s3 e4 (s3\<lparr>memory_revision_materializations :=
        bt_insert ?cid m (memory_revision_materializations s)\<rparr>))"
    using step1 step2 step3 by (simp add: es)
  then show ?thesis
    by (simp add: s3_def s2_def s1_def with_memory_def revised_memories_def retired_def)
qed

section \<open>Materialising a Memory revision\<close>

lemma batch_not_projection:
  "revision_batch x pv new now actor cid veid prior act repl m \<noteq> Inl (IntegrationError.Projection p)"
  "lesson_batch x pv new now actor cid mc mem im \<noteq> Inl (IntegrationError.Projection p)"
  "revision_result s tid repl m \<noteq> Inl (IntegrationError.Projection p)"
  by (auto simp: revision_batch_def lesson_batch_def retirement_event_def revision_record_event_def
      revision_result_def res_bind_Inl_iff service_not_projection split: option.splits)

lemma ensure_actor_Inr:
  "ensure_actor s actor b = Inr u \<longleftrightarrow>
     bt_contains (principals s) actor \<and> (b \<longrightarrow> \<not> is_model_actor s actor)"
  by (auto simp: ensure_actor_def is_model_actor_def bt_contains_def is_some_and_iff
      split: option.splits)

lemma revision_commits:
  assumes db: "db_holds x c db events s"
    and k: "bt_get (integration_candidates s) cid = Some k"
      "IntegrationCandidate.kind k = IntegrationCandidateKind.MemoryRevision"
    and run: "materialize_memory x pv c flt new now db db db cid actor = r"
    and r: "r = Inl (IntegrationError.Projection (InvalidPayload kd msg)) \<or> r = Inr res"
  shows "\<exists>v op prior e0 veid act repl h es. revision_planned x s events k v op prior e0 veid \<and>
    bt_contains (principals s) actor \<and> revision_action new now k prior op = (act, repl) \<and>
    canonical_hash x e0 = Inr h \<and> IntegrationCandidate.id k = cid \<and>
    revision_batch x pv new now actor cid veid prior act repl
      (revision_materialization now k v veid prior e0 h act repl) = Inr es \<and>
    res_bind (commit_events x c flt db (CurrentState.revision s) es) (\<lambda>q.
    res_bind (committed (bt_get (memory_revision_materializations (fst q)) cid)
      ''committed Memory revision is missing'') (\<lambda>m'.
    res_bind (revision_result (fst q) (ActiveMemory.id prior) repl m') (\<lambda>result.
    Inr (result, snd q)))) = r"
proof -
  note load = db_holds_ledger [OF db]
  have rep: "replay x events = Inr s" and len: "length events < 2 ^ 63"
    using db by (simp_all add: db_holds_def)
  have id: "IntegrationCandidate.id k = cid"
    using candidates_inv_replay [OF rep] k(1) unfolding candidates_inv_def by blast
  have actor: "ensure_actor s actor False = Inr ()"
    using run r load(1) by (cases "ensure_actor s actor False")
      (auto simp: materialize_memory_def service_not_projection)
  have run': "materialize_memory_revision x pv c flt new now db db s k actor = r"
    using run load(1) actor k by (simp add: materialize_memory_def)
  have disp: "IntegrationCandidate.disposition k = VerificationDisposition.Verified"
    "\<not> bt_contains (memory_revision_materializations s) cid"
    using run' r id by (auto simp: materialize_memory_revision_def Let_def split: if_splits)
  obtain v where v: "verified_record s cid = Inr v"
    using run' r id disp by (cases "verified_record s cid")
      (auto simp: materialize_memory_revision_def Let_def service_not_projection)
  have val: "validate_candidate x s events k (IntegrationVerification.evidence_refs v) = Inr ()"
    using run' r id disp v load(2)
    by (cases "validate_candidate x s events k (IntegrationVerification.evidence_refs v)")
      (auto simp: materialize_memory_revision_def Let_def service_not_projection)
  obtain proposal where parse: "parse_memory_revision_proposal x k = Inr proposal"
    using run' r id disp v load(2) val by (cases "parse_memory_revision_proposal x k")
      (auto simp: materialize_memory_revision_def Let_def service_not_projection)
  obtain prior e0 where plan: "memory_revision_plan x s events k proposal = Inr (prior, e0)"
    using run' r id disp v load(2) val parse plan_not_projection [OF rep]
    by (cases "memory_revision_plan x s events k proposal")
      (auto simp: materialize_memory_revision_def Let_def)
  let ?op = "MemoryRevisionProposal.operation proposal"
  obtain veid where veid: "integration_transition_event_id events cid IntegrationCandidateVerified = Some veid"
    using run' r id disp v load(2) val parse plan
    by (cases "integration_transition_event_id events cid IntegrationCandidateVerified")
      (auto simp: materialize_memory_revision_def Let_def)
  obtain act repl where act: "revision_action new now k prior ?op = (act, repl)" by fastforce
  have revb: "revisable x s events k ?op prior e0"
    by (rule memory_revision_plan_Inr [OF plan len])
  then obtain h where h: "canonical_hash x e0 = Inr h"
    by (auto simp: revisable_def Let_def split: prod.splits)
  let ?m = "revision_materialization now k v veid prior e0 h act repl"
  let ?es = "revision_batch x pv new now actor cid veid prior act repl ?m"
  have eq: "materialize_memory_revision x pv c flt new now db db s k actor =
      res_bind ?es (\<lambda>es. res_bind (commit_events x c flt db (CurrentState.revision s) es) (\<lambda>q.
      res_bind (committed (bt_get (memory_revision_materializations (fst q)) cid)
        ''committed Memory revision is missing'') (\<lambda>m'.
      res_bind (revision_result (fst q) (ActiveMemory.id prior) repl m') (\<lambda>result.
      Inr (result, snd q)))))"
    using id disp v load(2) val parse plan veid act h
    by (simp add: materialize_memory_revision_def Let_def)
  with run' r obtain es where es: "?es = Inr es"
    by (cases ?es) (auto simp: batch_not_projection)
  have "revision_planned x s events k v ?op prior e0 veid"
    using k disp v val parse revb veid id
    by (auto simp: revision_planned_def ready_to_materialize_def parse_memory_revision_proposal_def
        res_simps)
  moreover have "bt_contains (principals s) actor" using actor by (simp add: ensure_actor_Inr)
  moreover have "res_bind (commit_events x c flt db (CurrentState.revision s) es) (\<lambda>q.
      res_bind (committed (bt_get (memory_revision_materializations (fst q)) cid)
        ''committed Memory revision is missing'') (\<lambda>m'.
      res_bind (revision_result (fst q) (ActiveMemory.id prior) repl m') (\<lambda>result.
      Inr (result, snd q)))) = r"
    using eq run' es by simp
  ultimately show ?thesis using act h id es by blast
qed

lemma revision_applies:
  assumes "revision_planned x s events k v op prior e0 veid" and "ledger_facts s events"
    and "canonical_hash x e0 = Inr h" and "revision_action new now k prior op = (act, repl)"
    and "bt_contains (principals s) actor" and "\<not> is_model_actor s actor"
    and "revision_batch x pv new now actor (IntegrationCandidate.id k) veid prior act repl
      (revision_materialization now k v veid prior e0 h act repl) = Inr es"
    and "payload_roundtrip x pv" and "fresh_ids new s"
  shows "\<exists>s'. apply_all x s es = Inr s' \<and> active_memories s' = revised_memories s prior act repl \<and>
    memory_revision_materializations s' = bt_insert (IntegrationCandidate.id k)
      (revision_materialization now k v veid prior e0 h act repl)
      (memory_revision_materializations s)"
proof (cases repl)
  case None
  with expiry_applies [OF assms(1-3) _ refl assms(5,6) _ assms(8,9)] assms(4,7)
  show ?thesis by blast
next
  case (Some r)
  obtain mc mem where "r = (mc, mem)" by fastforce
  with Some replacement_applies [OF assms(1-3) _ refl assms(5,6) _ assms(8,9)] assms(4,7)
  show ?thesis by blast
qed

lemma revision_agrees:
  assumes db: "db_holds x c db events s"
    and k: "bt_get (integration_candidates s) cid = Some k"
      "IntegrationCandidate.kind k = IntegrationCandidateKind.MemoryRevision"
    and hyp: "payload_roundtrip x pv" "fresh_ids new s" "\<not> is_model_actor s actor"
  shows "materialize_memory x pv c flt new now db db db cid actor \<noteq>
    Inl (IntegrationError.Projection (InvalidPayload kd msg))"
proof
  assume run: "materialize_memory x pv c flt new now db db db cid actor =
    Inl (IntegrationError.Projection (InvalidPayload kd msg))"
  from revision_commits [OF db k run disjI1 [OF refl]] obtain v op prior e0 veid act repl h es where
    planned: "revision_planned x s events k v op prior e0 veid"
      "bt_contains (principals s) actor" "revision_action new now k prior op = (act, repl)"
      "canonical_hash x e0 = Inr h" "IntegrationCandidate.id k = cid"
      "revision_batch x pv new now actor cid veid prior act repl
        (revision_materialization now k v veid prior e0 h act repl) = Inr es"
    and com: "commit_events x c flt db (CurrentState.revision s) es =
      Inl (IntegrationError.Projection (InvalidPayload kd msg))"
    by (auto simp: res_bind_Inl_iff service_not_projection batch_not_projection)
  from revision_applies [OF planned(1) ledger_facts_db [OF db] planned(4,3,2) hyp(3) _ hyp(1,2)]
    planned(5,6) obtain s' where "apply_all x s es = Inr s'" by blast
  with commit_events_error [OF com db_holds_ledger(1) [OF db]] show False by simp
qed

lemma revision_Inr:
  assumes db: "db_holds x c db events s"
    and k: "bt_get (integration_candidates s) cid = Some k"
      "IntegrationCandidate.kind k = IntegrationCandidateKind.MemoryRevision"
    and hyp: "payload_roundtrip x pv" "fresh_ids new s" "\<not> is_model_actor s actor"
    and run: "materialize_memory x pv c flt new now db db db cid actor = Inr (result, db')"
  shows "\<exists>v op prior e0 veid act repl s'. revision_planned x s events k v op prior e0 veid \<and>
    revision_action new now k prior op = (act, repl) \<and> derived_from db' = Some s' \<and>
    active_memories s' = revised_memories s prior act repl \<and>
    (\<exists>m. memory_revision_materializations s' =
      bt_insert cid m (memory_revision_materializations s) \<and>
      revision_result s' (ActiveMemory.id prior) repl m = Inr result)"
proof -
  from revision_commits [OF db k run disjI2 [OF refl]] obtain v op prior e0 veid act repl h es where
    planned: "revision_planned x s events k v op prior e0 veid"
      "bt_contains (principals s) actor" "revision_action new now k prior op = (act, repl)"
      "canonical_hash x e0 = Inr h" "IntegrationCandidate.id k = cid"
      "revision_batch x pv new now actor cid veid prior act repl
        (revision_materialization now k v veid prior e0 h act repl) = Inr es"
    and com: "res_bind (commit_events x c flt db (CurrentState.revision s) es) (\<lambda>q.
    res_bind (committed (bt_get (memory_revision_materializations (fst q)) cid)
      ''committed Memory revision is missing'') (\<lambda>m'.
    res_bind (revision_result (fst q) (ActiveMemory.id prior) repl m') (\<lambda>result.
    Inr (result, snd q)))) = Inr (result, db')"
    by blast
  from com obtain s1 m' where ce: "commit_events x c flt db (CurrentState.revision s) es = Inr (s1, db')"
    and m': "bt_get (memory_revision_materializations s1) cid = Some m'"
    and res: "revision_result s1 (ActiveMemory.id prior) repl m' = Inr result"
    by (auto simp: res_simps committed_def split: option.splits)
  note com2 = commit_events_Inr [OF ce db_holds_ledger(1) [OF db]]
  from revision_applies [OF planned(1) ledger_facts_db [OF db] planned(4,3,2) hyp(3) _ hyp(1,2)]
    planned(5,6) com2(1)
  have s1: "active_memories s1 = revised_memories s prior act repl"
    "memory_revision_materializations s1 = bt_insert cid
      (revision_materialization now k v veid prior e0 h act repl)
      (memory_revision_materializations s)"
    by auto
  with m' res have "revision_result s1 (ActiveMemory.id prior) repl
      (revision_materialization now k v veid prior e0 h act repl) = Inr result" by simp
  with planned(1,3) s1 com2(2) show ?thesis by blast
qed

section \<open>Materialising a lesson\<close>

lemma lesson_applies:
  assumes ready: "ready_to_materialize x s events k v"
    and kind: "IntegrationCandidate.kind k = IntegrationCandidateKind.Memory"
    and new: "\<not> bt_contains (integration_materializations s) (IntegrationCandidate.id k)"
    and led: "ledger_facts s events"
    and mc: "mc = lesson_candidate new now k"
    and mem: "mem = memory_of (from_uuid (new 1)) t1 t2 None mc"
    and m: "m = lesson_materialization now k (IntegrationCandidate.id k) v mc mem"
    and batch: "lesson_batch x pv new now actor (IntegrationCandidate.id k) mc mem m = Inr es"
    and rt: "payload_roundtrip x pv" and fresh: "fresh_ids new s"
  shows "\<exists>s'. apply_all x s es = Inr s' \<and>
    active_memories s' = bt_insert (ActiveMemory.id mem) mem (active_memories s) \<and>
    integration_materializations s' =
      bt_insert (IntegrationCandidate.id k) m (integration_materializations s)"
proof -
  let ?cid = "IntegrationCandidate.id k"
  from batch obtain e1 e2 e3 where
    e1: "integration_event x (from_uuid (new 2)) (now 5) (now 6) actor MemoryCandidateCreated
      EntityKind.MemoryCandidate (uuid (MemoryCandidate.id mc)) (memory_candidate_to_value pv mc)
      ?cid None = Inr e1"
    and e2: "integration_event x (from_uuid (new 3)) (now 7) (now 8) actor MemoryPromoted
      EntityKind.Memory (uuid (ActiveMemory.id mem)) (active_memory_to_value pv mem) ?cid
      (Some (ExperienceEvent.event_id e1)) = Inr e2"
    and e3: "integration_event x (from_uuid (new 4)) (now 9) (now 10) actor
      IntegrationCandidateMaterialized EntityKind.IntegrationCandidate (uuid ?cid)
      (materialization_to_value pv m) ?cid (Some (ExperienceEvent.event_id e2)) = Inr e3"
    and es: "es = [e1, e2, e3]"
    by (auto simp: lesson_batch_def res_simps)
  note ids = fresh_ids_event [OF fresh]
  have neq: "new 2 \<noteq> new 3" "new 2 \<noteq> new 4" "new 3 \<noteq> new 4"
    using fresh_ids_distinct [OF fresh] by simp_all
  define s1 where "s1 = ticked s e1 (s\<lparr>CurrentState.memory_candidates :=
      bt_insert (MemoryCandidate.id mc) mc (CurrentState.memory_candidates s)\<rparr>)"
  define s2 where "s2 = ticked s1 e2 (with_memory mem s1)"
  have step1: "apply_event x s e1 = Inr s1" and i1: "ExperienceEvent.event_id e1 = from_uuid (new 2)"
    unfolding s1_def using memory_candidate_step [OF e1 rt ids] by simp_all
  have f2: "(from_uuid (new 3) :: EventId) \<notin> set (applied_events s1)"
    using ids i1 neq by (simp add: s1_def)
  have step2: "apply_event x s1 e2 = Inr s2" and i2: "ExperienceEvent.event_id e2 = from_uuid (new 3)"
    unfolding s2_def using promotion_step [OF e2 rt f2] by blast+
  have same: "same_but_memories s s2"
    unfolding s2_def s1_def by (intro same_but_memories_step same_but_memories_refl)
  note d = same_but_memoriesD [OF same]
  note e = integration_event_Inr [OF e3]
  have pl: "de_integration_materialization x (payload e3) = Inr m"
    by (rule payload_roundtripD(4) [OF rt e(1)])
  obtain later where later: "applied_events s2 = applied_events s @ later" using d(7) by blast
  have refs: "normalize_evidence_refs (IntegrationVerification.evidence_refs v) =
      IntegrationVerification.evidence_refs v"
    and valid: "validate_integration_evidence s2 k (IntegrationVerification.evidence_refs v)
      (IntegrationCandidate.as_of_revision k) IntegrationCandidateMaterialized = Inr ()"
    and fp: "fingerprint_of_candidate x k = IntegrationCandidate.fingerprint k"
    using ready_evidence [OF ready _ _ d(6) later] led unfolding ledger_facts_def by (metis (no_types))+
  have rec: "bt_get (integration_candidates s2) ?cid = Some k"
      "bt_get (integration_verifications s2) ?cid = Some v"
      "new_disposition v = VerificationDisposition.Verified"
      "IntegrationCandidate.disposition k = VerificationDisposition.Verified"
    using ready by (auto simp: ready_to_materialize_def verified_record_Inr d)
  have mems: "bt_get (active_memories s2) (ActiveMemory.id mem) = Some mem"
    "bt_get (CurrentState.memory_candidates s2) (MemoryCandidate.id mc) =
      Some (mc\<lparr>MemoryCandidate.status := MemoryCandidateStatus.Promoted\<rparr>)"
    by (simp_all add: s2_def s1_def with_memory_def mem memory_of_def)
  have fields: "IntegrationMaterialization.candidate_id m = ?cid"
    "memory_candidate_id m = MemoryCandidate.id mc" "memory_id m = ActiveMemory.id mem"
    "IntegrationMaterialization.fingerprint m = IntegrationCandidate.fingerprint k"
    "IntegrationMaterialization.source_event_ids m = IntegrationCandidate.source_event_ids k"
    "IntegrationMaterialization.counterevidence_event_ids m =
      IntegrationCandidate.counterevidence_event_ids k"
    "IntegrationMaterialization.as_of_revision m = IntegrationCandidate.as_of_revision k"
    "IntegrationMaterialization.evidence_refs m = IntegrationVerification.evidence_refs v"
    by (simp_all add: m lesson_materialization_def)
  have vals: "MemoryCandidate.kind mc = Lesson" "MemoryCandidate.content mc = IntegrationCandidate.content k"
    "MemoryCandidate.source_event_ids mc = IntegrationCandidate.source_event_ids k"
    "ActiveMemory.status mem = ActiveMemoryStatus.Active"
    "ActiveMemory.candidate_id mem = MemoryCandidate.id mc"
    by (simp_all add: mc mem memory_of_def lesson_candidate_def)
  have same_m: "m\<lparr>IntegrationMaterialization.evidence_refs :=
      IntegrationVerification.evidence_refs v\<rparr> = m"
    by (simp add: m lesson_materialization_def)
  have "apply_integration_materialization x s2 e3 = Inr (s2\<lparr>integration_materializations :=
      bt_insert ?cid m (integration_materializations s)\<rparr>)"
    using pl e(2,5) rec kind new fp refs valid mems
    by (simp add: apply_integration_materialization_def Let_def decode_def fields vals same_m d
        subject_is_def)
  then have ap: "apply_kind x s2 e3 = Inr (s2\<lparr>integration_materializations :=
      bt_insert ?cid m (integration_materializations s)\<rparr>)"
    using e(2) by (simp add: apply_kind_def)
  have "ExperienceEvent.event_id e3 \<notin> set (applied_events s2)"
    using e(3) ids i1 i2 neq by (simp add: s1_def s2_def)
  from apply_event_ticked [OF this ap] have "apply_all x s es =
      Inr (ticked s2 e3 (s2\<lparr>integration_materializations :=
        bt_insert ?cid m (integration_materializations s)\<rparr>))"
    using step1 step2 by (simp add: es)
  then show ?thesis by (simp add: s2_def s1_def with_memory_def)
qed

lemma lesson_commits:
  assumes db: "db_holds x c db events s"
    and k: "bt_get (integration_candidates s) cid = Some k"
      "IntegrationCandidate.kind k \<noteq> IntegrationCandidateKind.MemoryRevision"
    and run: "materialize_memory x pv c flt new now db db db cid actor = r"
    and r: "r = Inl (IntegrationError.Projection (InvalidPayload kd msg)) \<or> r = Inr res"
    and mc: "mc = lesson_candidate new now k"
    and mem: "mem = memory_of (from_uuid (new 1)) (now 2) (now 3) None mc"
  shows "\<exists>v es. ready_to_materialize x s events k v \<and> IntegrationCandidate.id k = cid \<and>
    IntegrationCandidate.kind k = IntegrationCandidateKind.Memory \<and>
    \<not> bt_contains (integration_materializations s) cid \<and>
    \<not> fingerprint_materialized s k \<and> \<not> lesson_present s k \<and>
    lesson_batch x pv new now actor cid mc mem (lesson_materialization now k cid v mc mem) = Inr es \<and>
    res_bind (commit_events x c flt db (CurrentState.revision s) es) (\<lambda>q.
    res_bind (committed (bt_get (CurrentState.memory_candidates (fst q)) (MemoryCandidate.id mc))
      ''committed Memory candidate is missing'') (\<lambda>mc'.
    res_bind (committed (bt_get (active_memories (fst q)) (ActiveMemory.id mem))
      ''committed Memory is missing'') (\<lambda>mem'.
    res_bind (committed (bt_get (integration_materializations (fst q)) cid)
      ''committed materialization link is missing'') (\<lambda>m'.
    Inr (Created mc' mem' m', snd q))))) = r"
proof -
  note load = db_holds_ledger [OF db]
  have rep: "replay x events = Inr s" using db by (simp add: db_holds_def)
  have id: "IntegrationCandidate.id k = cid"
    using candidates_inv_replay [OF rep] k(1) unfolding candidates_inv_def by blast
  have actor: "ensure_actor s actor False = Inr ()"
    using run r load(1) by (cases "ensure_actor s actor False")
      (auto simp: materialize_memory_def service_not_projection)
  have run': "materialize_lesson x pv c flt new now db db s k cid actor = r"
    using run load(1) actor k by (simp add: materialize_memory_def)
  have disp: "IntegrationCandidate.disposition k = VerificationDisposition.Verified"
    "IntegrationCandidate.kind k = IntegrationCandidateKind.Memory"
    "\<not> bt_contains (integration_materializations s) cid"
    using run' r by (auto simp: materialize_lesson_def split: if_splits)
  obtain v where v: "verified_record s cid = Inr v"
    using run' r disp by (cases "verified_record s cid")
      (auto simp: materialize_lesson_def service_not_projection)
  have val: "validate_candidate x s events k (IntegrationVerification.evidence_refs v) = Inr ()"
    using run' r disp v load(2)
    by (cases "validate_candidate x s events k (IntegrationVerification.evidence_refs v)")
      (auto simp: materialize_lesson_def service_not_projection)
  have dup: "\<not> fingerprint_materialized s k" "\<not> lesson_present s k"
    using run' r disp v load(2) val by (auto simp: materialize_lesson_def split: if_splits)
  let ?es = "lesson_batch x pv new now actor cid mc mem (lesson_materialization now k cid v mc mem)"
  let ?rest = "\<lambda>es. res_bind (commit_events x c flt db (CurrentState.revision s) es) (\<lambda>q.
    res_bind (committed (bt_get (CurrentState.memory_candidates (fst q)) (MemoryCandidate.id mc))
      ''committed Memory candidate is missing'') (\<lambda>mc'.
    res_bind (committed (bt_get (active_memories (fst q)) (ActiveMemory.id mem))
      ''committed Memory is missing'') (\<lambda>mem'.
    res_bind (committed (bt_get (integration_materializations (fst q)) cid)
      ''committed materialization link is missing'') (\<lambda>m'.
    Inr (Created mc' mem' m', snd q)))))"
  have eq: "materialize_lesson x pv c flt new now db db s k cid actor = res_bind ?es ?rest"
    using disp v load(2) val dup by (simp add: materialize_lesson_def Let_def mc mem)
  with run' r obtain es where es: "?es = Inr es" "?rest es = r"
    by (cases ?es) (auto simp: batch_not_projection)
  have "ready_to_materialize x s events k v"
    using k(1) disp(1) v val id by (simp add: ready_to_materialize_def)
  with disp dup id es show ?thesis by blast
qed

lemma lesson_agrees:
  assumes db: "db_holds x c db events s"
    and k: "bt_get (integration_candidates s) cid = Some k"
      "IntegrationCandidate.kind k \<noteq> IntegrationCandidateKind.MemoryRevision"
    and hyp: "payload_roundtrip x pv" "fresh_ids new s"
  shows "materialize_memory x pv c flt new now db db db cid actor \<noteq>
    Inl (IntegrationError.Projection (InvalidPayload kd msg))"
proof
  assume run: "materialize_memory x pv c flt new now db db db cid actor =
    Inl (IntegrationError.Projection (InvalidPayload kd msg))"
  let ?mc = "lesson_candidate new now k"
  let ?mem = "memory_of (from_uuid (new 1)) (now 2) (now 3) None ?mc"
  from lesson_commits [OF db k run disjI1 [OF refl] refl refl] obtain v es where
    l: "ready_to_materialize x s events k v" "IntegrationCandidate.id k = cid"
      "IntegrationCandidate.kind k = IntegrationCandidateKind.Memory"
      "\<not> bt_contains (integration_materializations s) cid"
      "lesson_batch x pv new now actor cid ?mc ?mem
        (lesson_materialization now k cid v ?mc ?mem) = Inr es"
    and com: "commit_events x c flt db (CurrentState.revision s) es =
      Inl (IntegrationError.Projection (InvalidPayload kd msg))"
    by (auto simp: res_bind_Inl_iff service_not_projection)
  from lesson_applies [OF l(1,3) _ ledger_facts_db [OF db] refl refl refl _ hyp] l(2,4,5)
  obtain s' where "apply_all x s es = Inr s'" by blast
  with commit_events_error [OF com db_holds_ledger(1) [OF db]] show False by simp
qed

lemma lesson_Inr:
  assumes db: "db_holds x c db events s"
    and k: "bt_get (integration_candidates s) cid = Some k"
      "IntegrationCandidate.kind k \<noteq> IntegrationCandidateKind.MemoryRevision"
    and hyp: "payload_roundtrip x pv" "fresh_ids new s"
    and run: "materialize_memory x pv c flt new now db db db cid actor = Inr (result, db')"
    and mem: "mem = memory_of (from_uuid (new 1)) (now 2) (now 3) None (lesson_candidate new now k)"
  shows "\<exists>v s' mc' m'. ready_to_materialize x s events k v \<and>
    IntegrationCandidate.kind k = IntegrationCandidateKind.Memory \<and>
    \<not> bt_contains (integration_materializations s) cid \<and> \<not> lesson_present s k \<and>
    derived_from db' = Some s' \<and>
    active_memories s' = bt_insert (from_uuid (new 1)) mem (active_memories s) \<and>
    integration_materializations s' = bt_insert cid m' (integration_materializations s) \<and>
    result = Created mc' mem m'"
proof -
  let ?mc = "lesson_candidate new now k"
  from lesson_commits [OF db k run disjI2 [OF refl] refl mem] obtain v es where
    l: "ready_to_materialize x s events k v" "IntegrationCandidate.id k = cid"
      "IntegrationCandidate.kind k = IntegrationCandidateKind.Memory"
      "\<not> bt_contains (integration_materializations s) cid" "\<not> lesson_present s k"
      "lesson_batch x pv new now actor cid ?mc mem
        (lesson_materialization now k cid v ?mc mem) = Inr es"
    and com: "res_bind (commit_events x c flt db (CurrentState.revision s) es) (\<lambda>q.
    res_bind (committed (bt_get (CurrentState.memory_candidates (fst q)) (MemoryCandidate.id ?mc))
      ''committed Memory candidate is missing'') (\<lambda>mc'.
    res_bind (committed (bt_get (active_memories (fst q)) (ActiveMemory.id mem))
      ''committed Memory is missing'') (\<lambda>mem'.
    res_bind (committed (bt_get (integration_materializations (fst q)) cid)
      ''committed materialization link is missing'') (\<lambda>m'.
    Inr (Created mc' mem' m', snd q))))) = Inr (result, db')"
    by blast
  from com obtain s1 mc' mem' m' where
    ce: "commit_events x c flt db (CurrentState.revision s) es = Inr (s1, db')"
    and got: "bt_get (active_memories s1) (ActiveMemory.id mem) = Some mem'"
      "bt_get (integration_materializations s1) cid = Some m'" "result = Created mc' mem' m'"
    by (auto simp: res_simps committed_def split: option.splits)
  note com2 = commit_events_Inr [OF ce db_holds_ledger(1) [OF db]]
  have mid: "ActiveMemory.id mem = from_uuid (new 1)" by (simp add: mem memory_of_def)
  have "\<exists>s'. apply_all x s es = Inr s' \<and>
      active_memories s' = bt_insert (ActiveMemory.id mem) mem (active_memories s) \<and>
      integration_materializations s' = bt_insert cid
        (lesson_materialization now k cid v ?mc mem) (integration_materializations s)"
    using lesson_applies [OF l(1,3) _ ledger_facts_db [OF db] refl mem refl _ hyp] l(2,4,6) by blast
  with com2(1) have s1: "active_memories s1 = bt_insert (from_uuid (new 1)) mem (active_memories s)"
    "integration_materializations s1 = bt_insert cid (lesson_materialization now k cid v ?mc mem)
      (integration_materializations s)"
    by (auto simp: mid)
  with got have "mem' = mem" "m' = lesson_materialization now k cid v ?mc mem" by (simp_all add: mid)
  with got(3) l s1 com2(2) show ?thesis by blast
qed

end
