(* ===== verification/PositionService.thy ===== *)
theory PositionService
  imports ServiceMaterialization PositionHistory
begin

text \<open>
  Materialising a candidate as a change of one of HEKATE's positions: what the plan of the
  service guarantees, when the projector accepts the event, and the one condition it adds.
\<close>

section \<open>The plan\<close>

lemma plan_prior_Inr:
  assumes "plan_prior x s old hid pid ver = Inr q"
  shows "bt_get (CurrentState.positions s) pid = Some q" and "Position.principal_id q = hid"
    and "Position.version q = ver" and "Position.status q = PositionStatus.Active"
    and "\<not> position_integration_blocked x s hid (Position.subject q) (Some (Position.id q))"
  using assms by (auto simp: plan_prior_def prior_position_in_def validate_position_base_def
      res_simps split: option.splits if_splits)

lemma revision_allowed_Inr: "revision_allowed s p = Inr u \<longleftrightarrow> is_ok (validate_position_revision s p)"
  by (simp add: revision_allowed_def res_simps is_ok_iff)

lemma set_dedup_sort: "set (dedup_by (\<lambda>a b. a = b) (sort (xs :: 'a :: linorder list))) = set xs"
  using dedup_by_key_keys [of "\<lambda>a. a" "sort xs"] by simp

text \<open>What a planned change satisfies; a withdrawal keeps the confidence of the position.\<close>

definition change_planned ::
  "ext \<Rightarrow> CurrentState \<Rightarrow> IntegrationCandidate \<Rightarrow> PrincipalId \<Rightarrow> Position \<Rightarrow>
   PositionIntegrationActionKind \<Rightarrow> Position option \<Rightarrow> bool"
where
  "change_planned x s k hid p act prior \<longleftrightarrow>
     Position.principal_id p = hid \<and> is_ok (validate_position_revision s p) \<and>
     \<not> position_integration_blocked x s hid (Position.subject p) (map_option Position.id prior) \<and>
     (if act = PositionIntegrationActionKind.Withdraw
      then is_some_and prior (\<lambda>q. Position.confidence p = Position.confidence q) \<and>
           set (IntegrationCandidate.source_event_ids k) \<subseteq> set (Position.evidence_refs p)
      else Position.confidence p = IntegrationCandidate.confidence k \<and>
           Position.evidence_refs p = IntegrationCandidate.source_event_ids k)"

lemma plan_operation_Inr:
  assumes plan: "plan_operation x pid t0 s old k hid op = Inr (p, act, prior)"
    and keyed: "positions_keyed s" and fresh: "\<not> bt_contains (CurrentState.positions s) pid"
    and parse: "position_proposal_parse x (IntegrationCandidate.content k) = Inr proposal"
      "PositionIntegrationProposal.operation proposal = op"
    and m: "m = position_materialization_of now k cid v veid peid (p, act, prior)"
  shows "change_planned x s k hid p act prior" and "position_matches_proposal x k p m"
    and "position_action_ok s p m kd = Inr ()"
proof -
  have key: "Position.id q = i" if "bt_get (CurrentState.positions s) i = Some q" for i q
    using keyed that by (simp add: positions_keyed_def)
  have all: "change_planned x s k hid p act prior \<and> position_matches_proposal x k p m \<and>
      position_action_ok s p m kd = Inr ()"
  proof (cases op)
    case (Establish sub st rs cs)
    then show ?thesis
      using plan parse
      by (auto simp: plan_operation_def Let_def res_simps change_planned_def m
          position_materialization_of_def position_matches_proposal_def position_action_ok_def
          normalized_position_texts_def revision_allowed_Inr split: if_splits)
  next
    case (Revise qid ver st rs cs)
    then obtain q where q: "plan_prior x s old hid qid ver = Inr q"
      using plan by (auto simp: plan_operation_def res_simps)
    note pr = plan_prior_Inr [OF q]
    have "pid \<noteq> Position.id q" using fresh pr(1) key by (auto simp: bt_contains_def)
    with Revise q pr key [OF pr(1)] plan parse show ?thesis
      by (auto simp: plan_operation_def Let_def res_simps change_planned_def m
          position_materialization_of_def position_matches_proposal_def position_action_ok_def
          normalized_position_texts_def revision_allowed_Inr split: option.splits)
  next
    case (Withdraw qid ver r)
    then obtain q where q: "plan_prior x s old hid qid ver = Inr q"
      using plan by (auto simp: plan_operation_def res_simps)
    note pr = plan_prior_Inr [OF q]
    from Withdraw q plan have p: "p = q\<lparr>Position.status := PositionStatus.Retracted,
        Position.reasons := Position.reasons q @ [trim r],
        Position.evidence_refs := dedup_by (\<lambda>a b. a = b) (sort (Position.evidence_refs q @
          IntegrationCandidate.source_event_ids k))\<rparr>"
      and act: "act = PositionIntegrationActionKind.Withdraw" "prior = Some q"
      and ok: "is_ok (validate_position_revision s p)"
      by (auto simp: plan_operation_def Let_def res_simps revision_allowed_Inr)
    have "Position.supersedes q = None"
      using ok pr(1) key [OF pr(1)] by (auto simp: validate_position_revision_def p split: option.splits)
    with Withdraw pr key [OF pr(1)] parse p act ok show ?thesis
      by (simp add: change_planned_def m position_materialization_of_def
          position_matches_proposal_def position_action_ok_def set_dedup_sort)
  qed
  show "change_planned x s k hid p act prior" using all by blast
  show "position_matches_proposal x k p m" using all by blast
  show "position_action_ok s p m kd = Inr ()" using all by blast
qed

lemma position_plan_Inr:
  assumes "position_plan x pid t0 s events k hid proposal = Inr plan"
  shows "\<exists>old. plan_operation x pid t0 s old k hid (PositionIntegrationProposal.operation proposal) =
      Inr plan \<and> replay x (take (unat (IntegrationCandidate.as_of_revision k)) events) = Inr old \<and>
      is_some_and (bt_get (principals old) hid) (\<lambda>p. Principal.kind p = Hekate)"
    and "as_of_in_ledger s events k"
  using assms by (auto simp: position_plan_def Let_def res_simps split: if_splits)

section \<open>The event\<close>

lemma position_event_Inr:
  assumes "position_event x pv peid t1 t2 actor cid p m = Inr e"
  shows "position_integration_to_value pv
      \<lparr>PositionIntegrationEventPayload.position = p, position_integration = m\<rparr> = Inr (payload e)"
    and "event_kind e = position_action_event_kind (PositionIntegrationMaterialization.action m)"
    and "ExperienceEvent.event_id e = peid" and "ExperienceEvent.actor_id e = actor"
    and "ExperienceEvent.subject e = Some \<lparr>EntityRef.kind = EntityKind.Position, id = uuid (Position.id p)\<rparr>"
    and "source e = \<lparr>EventSource.source_type = ''position_integration'',
           source_ref = Some (id_text x cid)\<rparr>"
    and "causation_id e = Some (PositionIntegrationMaterialization.verification_event_id m)"
    and "correlation_id e = Some (id_text x cid)"
proof -
  from assms obtain j where j: "position_integration_to_value pv
      \<lparr>PositionIntegrationEventPayload.position = p, position_integration = m\<rparr> = Inr j"
    and e: "new_with_id x t1 t2 peid actor
         (position_action_event_kind (PositionIntegrationMaterialization.action m))
         (Some \<lparr>EntityRef.kind = EntityKind.Position, id = uuid (Position.id p)\<rparr>) j
         \<lparr>EventSource.source_type = ''position_integration'', source_ref = Some (id_text x cid)\<rparr>
         (Some (PositionIntegrationMaterialization.verification_event_id m))
         (Some (id_text x cid)) None = Inr e"
    by (auto simp: position_event_def res_simps)
  note n = new_with_id_Inr [OF e]
  show "position_integration_to_value pv
      \<lparr>PositionIntegrationEventPayload.position = p, position_integration = m\<rparr> = Inr (payload e)"
    by (simp add: n(5) j)
  show "event_kind e = position_action_event_kind (PositionIntegrationMaterialization.action m)"
    "ExperienceEvent.event_id e = peid" "ExperienceEvent.actor_id e = actor"
    "ExperienceEvent.subject e = Some \<lparr>EntityRef.kind = EntityKind.Position, id = uuid (Position.id p)\<rparr>"
    "source e = \<lparr>EventSource.source_type = ''position_integration'', source_ref = Some (id_text x cid)\<rparr>"
    "causation_id e = Some (PositionIntegrationMaterialization.verification_event_id m)"
    "correlation_id e = Some (id_text x cid)"
    by (rule n)+
qed

text \<open>What the service knows when it builds the event of a change.\<close>

definition position_change_ready ::
  "ext \<Rightarrow> CurrentState \<Rightarrow> ExperienceEvent list \<Rightarrow> IntegrationCandidate \<Rightarrow>
   IntegrationVerification \<Rightarrow> PrincipalId \<Rightarrow> PrincipalId \<Rightarrow> EventId \<Rightarrow> PositionId \<Rightarrow> string \<Rightarrow>
   Position \<times> PositionIntegrationActionKind \<times> Position option \<Rightarrow> bool"
where
  "position_change_ready x s events k v hid actor veid pid t0 plan \<longleftrightarrow>
     ready_to_materialize x s events k v \<and>
     IntegrationCandidate.kind k = IntegrationCandidateKind.Position \<and>
     \<not> bt_contains (position_integration_materializations s) (IntegrationCandidate.id k) \<and>
     bt_contains (principals s) actor \<and> \<not> is_model_actor s actor \<and>
     (\<exists>proposal. position_proposal_parse x (IntegrationCandidate.content k) = Inr proposal \<and>
        position_plan x pid t0 s events k hid proposal = Inr plan) \<and>
     integration_transition_event_id events (IntegrationCandidate.id k)
       IntegrationCandidateVerified = Some veid"

lemma change_provenance:
  assumes ready: "position_change_ready x s events k v hid actor veid pid t0 (p, act, prior)"
    and led: "ledger_facts s events" and inv: "candidates_inv x s"
    and hek: "is_some_and (bt_get (principals s) (Position.principal_id p))
      (\<lambda>q. Principal.kind q = Hekate)"
    and m: "m = position_materialization_of now k (IntegrationCandidate.id k) v veid peid (p, act, prior)"
    and actor: "ExperienceEvent.actor_id e = actor"
  shows "position_materialization_provenance x s e p m kd = Inr k"
proof -
  let ?cid = "IntegrationCandidate.id k"
  have r: "ready_to_materialize x s events k v"
    and veid: "integration_transition_event_id events ?cid IntegrationCandidateVerified = Some veid"
    using ready unfolding position_change_ready_def by blast+
  have rec: "bt_get (integration_candidates s) ?cid = Some k"
    "bt_get (integration_verifications s) ?cid = Some v"
    "new_disposition v = VerificationDisposition.Verified"
    "IntegrationCandidate.disposition k = VerificationDisposition.Verified"
    and val: "validate_candidate x s events k (IntegrationVerification.evidence_refs v) = Inr ()"
    using r by (simp_all add: ready_to_materialize_def verified_record_Inr)
  have vid: "IntegrationVerification.verification_event_id v = Some veid"
    using led rec veid unfolding ledger_facts_def records_match_def by (metis (no_types))
  have app: "applied_events s = applied_events s @ []" by simp
  have refs: "normalize_evidence_refs (IntegrationVerification.evidence_refs v) =
      IntegrationVerification.evidence_refs v"
    and valid: "validate_integration_evidence s k (IntegrationVerification.evidence_refs v)
      (IntegrationCandidate.as_of_revision k) kd = Inr ()"
    and fp: "fingerprint_of_candidate x k = IntegrationCandidate.fingerprint k"
    using ready_evidence [OF r _ _ refl app] led unfolding ledger_facts_def by (metis (no_types))+
  have "candidate_ok x s k" using inv rec(1) unfolding candidates_inv_def by blast
  then have src: "\<not> (\<exists>i \<in> set (IntegrationCandidate.source_event_ids k @
      IntegrationCandidate.counterevidence_event_ids k). i \<notin> set (applied_events s))"
    by (auto simp: candidate_ok_def)
  have applied: "veid \<in> set (applied_events s)"
    using transition_event_in_ledger [OF veid] led by (simp add: ledger_facts_def)
  obtain q where q: "bt_get (principals s) (Position.principal_id p) = Some q" "Principal.kind q = Hekate"
    using hek by (auto simp: is_some_and_iff)
  have old: "\<not> IntegrationCandidate.as_of_revision k > CurrentState.revision s"
    using validate_candidate_Inr(3) [OF val] by (simp add: not_less)
  have fields: "PositionIntegrationMaterialization.candidate_id m = ?cid"
    "PositionIntegrationMaterialization.verification_event_id m = veid"
    "PositionIntegrationMaterialization.evidence_refs m = IntegrationVerification.evidence_refs v"
    "PositionIntegrationMaterialization.fingerprint m = IntegrationCandidate.fingerprint k"
    "PositionIntegrationMaterialization.source_event_ids m = IntegrationCandidate.source_event_ids k"
    "PositionIntegrationMaterialization.counterevidence_event_ids m =
      IntegrationCandidate.counterevidence_event_ids k"
    "PositionIntegrationMaterialization.as_of_revision m = IntegrationCandidate.as_of_revision k"
    by (simp_all add: m position_materialization_of_def)
  show ?thesis
    using ready rec vid refs valid fp src applied q old actor
    by (simp add: position_materialization_provenance_def Let_def fields position_change_ready_def
        del: bex_simps set_append)
qed

definition changed_positions ::
  "CurrentState \<Rightarrow> Position \<Rightarrow> PositionIntegrationActionKind \<Rightarrow> (PositionId, Position) btree"
where
  "changed_positions s p act =
     bt_insert (Position.id p) p
       (if act = PositionIntegrationActionKind.Revise
        then supersede_position (Position.supersedes p) (CurrentState.positions s)
        else CurrentState.positions s)"

text \<open>The projector adds one condition: the confidence of the candidate.\<close>

lemma change_applies:
  assumes ready: "position_change_ready x s events k v hid actor veid pid t0 (p, act, prior)"
    and led: "ledger_facts s events" and inv: "candidates_inv x s" and keyed: "positions_keyed s"
    and fresh: "\<not> bt_contains (CurrentState.positions s) pid"
    and hek: "is_some_and (bt_get (principals s) hid) (\<lambda>q. Principal.kind q = Hekate)"
    and m: "m = position_materialization_of now k (IntegrationCandidate.id k) v veid peid (p, act, prior)"
    and ev: "position_event x pv peid t1 t2 actor (IntegrationCandidate.id k) p m = Inr e"
    and rt: "payload_roundtrip x pv"
  shows "apply_kind x s e =
    (if Position.confidence p = IntegrationCandidate.confidence k
     then Inr (s\<lparr>CurrentState.positions := changed_positions s p act,
                 position_integration_materializations := bt_insert (IntegrationCandidate.id k) m
                   (position_integration_materializations s)\<rparr>)
     else Inl (InvalidPayload (event_kind e) ''Position confidence does not match candidate''))"
proof -
  note e = position_event_Inr [OF ev]
  note de = payload_roundtripD(6) [OF rt e(1)]
  from ready obtain proposal where pr: "position_proposal_parse x (IntegrationCandidate.content k) = Inr proposal"
    "position_plan x pid t0 s events k hid proposal = Inr (p, act, prior)"
    unfolding position_change_ready_def by blast
  from position_plan_Inr(1) [OF pr(2)] obtain old where
    op: "plan_operation x pid t0 s old k hid (PositionIntegrationProposal.operation proposal) =
      Inr (p, act, prior)" by blast
  note plan = plan_operation_Inr [OF op keyed fresh pr(1) refl m]
  have act: "PositionIntegrationMaterialization.action m = act"
    "prior_position m = prior" "PositionIntegrationMaterialization.candidate_id m = IntegrationCandidate.id k"
    "PositionIntegrationMaterialization.position_id m = Position.id p" "position_event_id m = peid"
    by (simp_all add: m position_materialization_of_def)
  from plan(1) have hid: "Position.principal_id p = hid" by (simp add: change_planned_def)
  have prov: "position_materialization_provenance x s e p m (event_kind e) = Inr k"
    using change_provenance [OF ready led inv _ m e(4)] hek hid by simp
  have ident: "position_event_identity_ok x e p m (event_kind e) = Inr ()"
    using e by (simp add: position_event_identity_ok_def Let_def subject_is_def act)
  have sub: "\<not> (act = PositionIntegrationActionKind.Withdraw \<and>
      (\<exists>i \<in> set (IntegrationCandidate.source_event_ids k). i \<notin> set (Position.evidence_refs p)))"
    using plan(1) by (auto simp: change_planned_def)
  have refs: "act = PositionIntegrationActionKind.Withdraw \<or>
      Position.evidence_refs p = IntegrationCandidate.source_event_ids k"
    using plan(1) by (auto simp: change_planned_def split: if_splits)
  have ap: "apply_position_integration x s e
      \<lparr>PositionIntegrationEventPayload.position = p, position_integration = m\<rparr> =
    (if Position.confidence p = IntegrationCandidate.confidence k
     then Inr (s\<lparr>CurrentState.positions := changed_positions s p act,
                 position_integration_materializations := bt_insert (IntegrationCandidate.id k) m
                   (position_integration_materializations s)\<rparr>)
     else Inl (InvalidPayload (event_kind e) ''Position confidence does not match candidate''))"
    using plan ident prov sub refs e(2) hid
    by (simp add: apply_position_integration_def Let_def act change_planned_def changed_positions_def
        invalid_def del: bex_simps) blast
  have "event_kind e \<in> {PositionEstablished, PositionRevised, PositionRetracted}"
    using e(2) by (cases act) (simp_all add: act)
  then have "apply_kind x s e = apply_position_event x s e" by (auto simp: apply_kind_def)
  then show ?thesis using de ap by (simp add: apply_position_event_def decode_def)
qed

section \<open>The operation\<close>

lemma position_commits:
  assumes db: "db_holds x c db events s" and k: "bt_get (integration_candidates s) cid = Some k"
    and run: "materialize_position x pv c flt new now db db db cid hid actor = r"
    and r: "r = Inl (IntegrationError.Projection (InvalidPayload kd msg)) \<or> r = Inr res"
  shows "\<exists>v veid p act prior e.
    position_change_ready x s events k v hid actor veid (from_uuid (new 0)) (now 0) (p, act, prior) \<and>
    IntegrationCandidate.id k = cid \<and>
    position_event x pv (from_uuid (new 1)) (now 2) (now 3) actor cid p
      (position_materialization_of now k cid v veid (from_uuid (new 1)) (p, act, prior)) = Inr e \<and>
    res_bind (commit_events x c flt db (CurrentState.revision s) [e]) (\<lambda>q.
    res_bind (committed (bt_get (CurrentState.positions (fst q)) (Position.id p))
      ''committed Position is missing'') (\<lambda>p'.
    res_bind (committed (bt_get (position_integration_materializations (fst q)) cid)
      ''committed Position materialization link is missing'') (\<lambda>m'.
    Inr ((p', m'), snd q)))) = r"
proof -
  note load = db_holds_ledger [OF db]
  have rep: "replay x events = Inr s" using db by (simp add: db_holds_def)
  have id: "IntegrationCandidate.id k = cid"
    using candidates_inv_replay [OF rep] k(1) unfolding candidates_inv_def by blast
  have actor: "ensure_actor s actor True = Inr ()"
    using run r load(1) by (cases "ensure_actor s actor True")
      (auto simp: materialize_position_def service_not_projection)
  have disp: "IntegrationCandidate.disposition k = VerificationDisposition.Verified"
    "IntegrationCandidate.kind k = IntegrationCandidateKind.Position"
    "\<not> bt_contains (position_integration_materializations s) cid"
    using run r load(1) actor k by (auto simp: materialize_position_def split: if_splits)
  obtain v where v: "verified_record s cid = Inr v"
    using run r load(1) actor k disp by (cases "verified_record s cid")
      (auto simp: materialize_position_def service_not_projection)
  have val: "validate_candidate x s events k (IntegrationVerification.evidence_refs v) = Inr ()"
    using run r load(1,2) actor k disp v
    by (cases "validate_candidate x s events k (IntegrationVerification.evidence_refs v)")
      (auto simp: materialize_position_def service_not_projection)
  obtain proposal where parse: "parse_position_proposal x k = Inr proposal"
    using run r load(1,2) actor k disp v val by (cases "parse_position_proposal x k")
      (auto simp: materialize_position_def service_not_projection)
  let ?plan = "position_plan x (from_uuid (new 0)) (now 0) s events k hid proposal"
  obtain p act prior where plan: "?plan = Inr (p, act, prior)"
    using run r load(1,2) actor k disp v val parse plan_not_projection(2) [OF rep]
    by (cases ?plan) (auto simp: materialize_position_def)
  obtain veid where veid: "integration_transition_event_id events cid IntegrationCandidateVerified = Some veid"
    using run r load(1,2) actor k disp v val parse plan
    by (cases "integration_transition_event_id events cid IntegrationCandidateVerified")
      (auto simp: materialize_position_def)
  let ?e = "position_event x pv (from_uuid (new 1)) (now 2) (now 3) actor cid p
      (position_materialization_of now k cid v veid (from_uuid (new 1)) (p, act, prior))"
  let ?rest = "\<lambda>e. res_bind (commit_events x c flt db (CurrentState.revision s) [e]) (\<lambda>q.
    res_bind (committed (bt_get (CurrentState.positions (fst q)) (Position.id p))
      ''committed Position is missing'') (\<lambda>p'.
    res_bind (committed (bt_get (position_integration_materializations (fst q)) cid)
      ''committed Position materialization link is missing'') (\<lambda>m'.
    Inr ((p', m'), snd q))))"
  have "materialize_position x pv c flt new now db db db cid hid actor = res_bind ?e ?rest"
    using load(1,2) actor k disp v val parse plan veid
    by (simp add: materialize_position_def Let_def)
  with run r obtain e where e: "?e = Inr e" "?rest e = r"
    by (cases ?e) (auto simp: service_not_projection)
  have "ready_to_materialize x s events k v"
    using k disp(1) v val id by (simp add: ready_to_materialize_def)
  moreover have "position_proposal_parse x (IntegrationCandidate.content k) = Inr proposal"
    using parse by (auto simp: parse_position_proposal_def res_simps split: if_splits)
  ultimately have "position_change_ready x s events k v hid actor veid (from_uuid (new 0)) (now 0) (p, act, prior)"
    using actor disp plan veid id by (auto simp: position_change_ready_def ensure_actor_Inr)
  with id e show ?thesis by blast
qed

lemma position_run:
  assumes db: "db_holds x c db events s" and k: "bt_get (integration_candidates s) cid = Some k"
    and hek: "is_some_and (bt_get (principals s) hid) (\<lambda>q. Principal.kind q = Hekate)"
    and hyp: "payload_roundtrip x pv" "fresh_ids new s"
    and run: "materialize_position x pv c flt new now db db db cid hid actor = r"
    and r: "r = Inl (IntegrationError.Projection (InvalidPayload kd msg)) \<or> r = Inr ((p', m'), db')"
  shows "\<exists>v veid p act prior.
    position_change_ready x s events k v hid actor veid (from_uuid (new 0)) (now 0) (p, act, prior) \<and>
    change_planned x s k hid p act prior \<and>
    (if Position.confidence p = IntegrationCandidate.confidence k
     then r = Inr ((p', m'), db') \<and> p' = p \<and> (\<exists>s'. derived_from db' = Some s' \<and>
       CurrentState.positions s' = changed_positions s p act \<and>
       position_integration_materializations s' =
         bt_insert cid m' (position_integration_materializations s))
     else r = Inl (IntegrationError.Projection (InvalidPayload (position_action_event_kind act)
       ''Position confidence does not match candidate'')))"
proof -
  from position_commits [OF db k run, of kd msg "((p', m'), db')"] r obtain v veid p act prior e where
    ready: "position_change_ready x s events k v hid actor veid (from_uuid (new 0)) (now 0) (p, act, prior)"
    and id: "IntegrationCandidate.id k = cid"
    and ev: "position_event x pv (from_uuid (new 1)) (now 2) (now 3) actor cid p
      (position_materialization_of now k cid v veid (from_uuid (new 1)) (p, act, prior)) = Inr e"
    and com: "res_bind (commit_events x c flt db (CurrentState.revision s) [e]) (\<lambda>q.
    res_bind (committed (bt_get (CurrentState.positions (fst q)) (Position.id p))
      ''committed Position is missing'') (\<lambda>p'.
    res_bind (committed (bt_get (position_integration_materializations (fst q)) cid)
      ''committed Position materialization link is missing'') (\<lambda>m'.
    Inr ((p', m'), snd q)))) = r"
    by blast
  have rep: "replay x events = Inr s" using db by (simp add: db_holds_def)
  have inv: "candidates_inv x s" and keyed: "positions_keyed s"
    using candidates_inv_replay [OF rep] positions_keyed_replay [OF rep] by blast+
  have fresh: "\<not> bt_contains (CurrentState.positions s) (from_uuid (new 0))"
    using hyp(2) by (simp add: fresh_ids_def)
  from ready obtain proposal old where pr: "position_proposal_parse x (IntegrationCandidate.content k) = Inr proposal"
    and op: "plan_operation x (from_uuid (new 0)) (now 0) s old k hid
      (PositionIntegrationProposal.operation proposal) = Inr (p, act, prior)"
    using position_plan_Inr(1) unfolding position_change_ready_def by blast
  have planned: "change_planned x s k hid p act prior"
    by (rule plan_operation_Inr(1) [OF op keyed fresh pr refl refl])
  let ?m = "position_materialization_of now k cid v veid (from_uuid (new 1)) (p, act, prior)"
  note ap = change_applies [OF ready ledger_facts_db [OF db] inv keyed fresh hek refl
      ev [folded id] hyp(1), unfolded id]
  note e = position_event_Inr [OF ev]
  have kind: "event_kind e = position_action_event_kind act"
    using e(2) by (simp add: position_materialization_of_def)
  have new: "ExperienceEvent.event_id e \<notin> set (applied_events s)"
    using e(3) fresh_ids_event [OF hyp(2)] by simp
  have load: "load_state x c db = Inr s" by (rule db_holds_ledger(1) [OF db])
  show ?thesis
  proof (cases "Position.confidence p = IntegrationCandidate.confidence k")
    case True
    let ?t = "s\<lparr>CurrentState.positions := changed_positions s p act,
        position_integration_materializations := bt_insert cid ?m (position_integration_materializations s)\<rparr>"
    have step: "apply_all x s [e] = Inr (ticked s e ?t)"
      using apply_event_ticked [OF new] ap True by simp
    have "r \<noteq> Inl (IntegrationError.Projection (InvalidPayload kd msg))"
    proof
      assume "r = Inl (IntegrationError.Projection (InvalidPayload kd msg))"
      with com have "commit_events x c flt db (CurrentState.revision s) [e] =
          Inl (IntegrationError.Projection (InvalidPayload kd msg))"
        by (auto simp: res_bind_Inl_iff service_not_projection)
      from commit_events_error [OF this load] step show False by simp
    qed
    with r have r': "r = Inr ((p', m'), db')" by simp
    with com obtain s1 where ce: "commit_events x c flt db (CurrentState.revision s) [e] = Inr (s1, db')"
      and got: "bt_get (CurrentState.positions s1) (Position.id p) = Some p'"
        "bt_get (position_integration_materializations s1) cid = Some m'"
      by (auto simp: res_simps committed_def split: option.splits)
    note com2 = commit_events_Inr [OF ce load]
    from com2(1) step have s1: "s1 = ticked s e ?t" by simp
    with got have "p' = p" "m' = ?m" by (simp_all add: changed_positions_def)
    moreover from this s1 com2(2) have "\<exists>s'. derived_from db' = Some s' \<and>
        CurrentState.positions s' = changed_positions s p act \<and>
        position_integration_materializations s' =
          bt_insert cid m' (position_integration_materializations s)"
      by simp
    ultimately have "if Position.confidence p = IntegrationCandidate.confidence k
     then r = Inr ((p', m'), db') \<and> p' = p \<and> (\<exists>s'. derived_from db' = Some s' \<and>
       CurrentState.positions s' = changed_positions s p act \<and>
       position_integration_materializations s' =
         bt_insert cid m' (position_integration_materializations s))
     else r = Inl (IntegrationError.Projection (InvalidPayload (position_action_event_kind act)
       ''Position confidence does not match candidate''))"
      by (simp add: r' True)
    with ready planned show ?thesis by blast
  next
    case False
    then have err: "apply_all x s [e] = Inl (InvalidPayload (position_action_event_kind act)
        ''Position confidence does not match candidate'')"
      using ap kind new by (simp add: apply_event_def)
    then have "commit_events x c flt db (CurrentState.revision s) [e] =
        Inl (IntegrationError.Projection (InvalidPayload (position_action_event_kind act)
          ''Position confidence does not match candidate''))"
      using load by (simp add: commit_events_def record_batch_def)
    with com have "r = Inl (IntegrationError.Projection (InvalidPayload (position_action_event_kind act)
          ''Position confidence does not match candidate''))" by simp
    then have "if Position.confidence p = IntegrationCandidate.confidence k
     then r = Inr ((p', m'), db') \<and> p' = p \<and> (\<exists>s'. derived_from db' = Some s' \<and>
       CurrentState.positions s' = changed_positions s p act \<and>
       position_integration_materializations s' =
         bt_insert cid m' (position_integration_materializations s))
     else r = Inl (IntegrationError.Projection (InvalidPayload (position_action_event_kind act)
       ''Position confidence does not match candidate''))"
      by (simp add: False)
    with ready planned show ?thesis by blast
  qed
qed

end
