(* ===== verification/IntegrationScenario.thy ===== *)
theory IntegrationScenario
  imports PositionService StoredLedger SleepScenario DbScenario
begin

text \<open>
  A concrete run of the integration service: a memory is promoted, an observation speaks
  against it, a sleep run proposes that it expire, the user verifies the proposal and has it
  materialised. The position of \<open>SleepScenario\<close> is materialised through the service too.
\<close>

section \<open>A codec for ledgers with subjects\<close>

definition study_kinds :: "(EventKind \<times> string) list" where
  "study_kinds = [(PrincipalCreated, ''p''), (TaskCreated, ''t''),
     (CompletionCriterionDefined, ''k''), (MemoryPromoted, ''m''), (ObservationRecorded, ''o''),
     (SleepRunStarted, ''s''), (IntegrationCandidateCreated, ''c''),
     (IntegrationCandidateVerified, ''v''), (MemoryExpired, ''e''),
     (MemoryRevisionMaterialized, ''r''), (PositionEstablished, ''h''), (CommitmentCreated, ''g''),
     (InitiativeProposed, ''i''), (InitiativeReadied, ''j'')]"

definition study_entities :: "(EntityKind \<times> string) list" where
  "study_entities = [(EntityKind.Memory, ''m''), (EntityKind.IntegrationCandidate, ''c''),
     (EntityKind.Position, ''p''), (EntityKind.Commitment, ''g''), (EntityKind.Initiative, ''i'')]"

definition quoted :: "string \<Rightarrow> string" where "quoted t = [CHR 0x22] @ t @ [CHR 0x22]"

text \<open>The only state such a store is asked for is the one it was last given.\<close>

definition study_codec :: "CurrentState \<Rightarrow> codec" where
  "study_codec s = \<lparr>
     uuid_parse = (\<lambda>t. Inr (of_nat (length t))),
     value_to_string = (\<lambda>v. case v of JNumber t \<Rightarrow> Inr t | _ \<Rightarrow> Inl ''not a number''),
     value_from_str = (\<lambda>t. Inr (JNumber t)),
     kind_to_string = (\<lambda>k. case map_of study_kinds k of
       None \<Rightarrow> Inl ''unknown'' | Some t \<Rightarrow> Inr (quoted t)),
     kind_from_str = (\<lambda>t. case map_of (map prod.swap study_kinds) (trim_quotes t) of
       None \<Rightarrow> Inl ''unknown'' | Some k \<Rightarrow> Inr k),
     entity_to_string = (\<lambda>k. case map_of study_entities k of
       None \<Rightarrow> Inl ''unknown'' | Some t \<Rightarrow> Inr (quoted t)),
     entity_from_str = (\<lambda>t. case map_of (map prod.swap study_entities) (trim_quotes t) of
       None \<Rightarrow> Inl ''unknown'' | Some k \<Rightarrow> Inr k),
     sql_real = Some, state_to_string = (\<lambda>s'. Inr ''s''), state_from_str = (\<lambda>t. Inr s),
     trace_to_string = (\<lambda>t. Inl ''no traces'')\<rparr>"

lemma study_codec_reads [simp]:
  "uuid_parse (study_codec s) t = Inr (of_nat (length t))"
  "value_to_string (study_codec s) (JNumber t) = Inr t"
  "value_from_str (study_codec s) t = Inr (JNumber t)"
  "state_to_string (study_codec s) s' = Inr ''s''"
  by (simp_all add: study_codec_def)

lemma study_state: "codec_reads_state (study_codec s) s"
proof -
  have "trim ''s'' = ''s''" by code_simp
  then show ?thesis by (simp add: codec_reads_state_def study_codec_def)
qed

lemma quotes_off: "trim_quotes (quoted [a]) = [a]" if "a \<noteq> CHR 0x22"
  using that by (simp add: trim_quotes_def quoted_def)

lemma study_tables:
  "(k, t) \<in> set study_kinds \<Longrightarrow> map_of study_kinds k = Some t \<and>
     map_of (map prod.swap study_kinds) t = Some k \<and> trim_quotes (quoted t) = t"
  "(ek, t) \<in> set study_entities \<Longrightarrow> map_of study_entities ek = Some t \<and>
     map_of (map prod.swap study_entities) t = Some ek \<and> trim_quotes (quoted t) = t"
  unfolding study_kinds_def study_entities_def
  by (simp, elim disjE conjE; simp add: quotes_off)+

lemma study_kind_reads:
  assumes "(k, t) \<in> set study_kinds"
  shows "kind_from_str (study_codec s) (quoted (event_kind_text (study_codec s) k)) = Inr k"
  using study_tables(1) [OF assms]
  by (simp add: event_kind_text_def enum_text_def study_codec_def)

lemma study_entity_reads:
  assumes "(k, t) \<in> set study_entities"
  shows "entity_from_str (study_codec s) (quoted (entity_kind_text (study_codec s) k)) = Inr k"
  using study_tables(2) [OF assms]
  by (simp add: entity_kind_text_def enum_text_def study_codec_def)

lemma study_reads:
  assumes "uuid_text x = uuid_text blank_ext" and "event_json x = (\<lambda>e. Inr [])"
    and "sha256_hex x [] = zero_hash"
    and "(k, t) \<in> set study_kinds"
    and "case subj of None \<Rightarrow> True | Some r \<Rightarrow> \<exists>t. (EntityRef.kind r, t) \<in> set study_entities"
  shows "codec_reads_event x (study_codec s) (an_event eid actor k tag subj)"
    and "writable x (study_codec s) (an_event eid actor k tag subj)"
  using assms study_kind_reads [OF assms(4), of s] study_entity_reads
  by (auto simp: codec_reads_event_def writable_def an_event_def id_text_def verify_integrity_def
      calculate_hash_def quoted_def is_ok_iff split: option.splits)

lemma blank_texts_inj: "inj (uuid_text blank_ext)"
  by (simp add: inj_def)

section \<open>The position of the night\<close>

definition night_ledger :: "ExperienceEvent list" where
  "night_ledger = setup_events @ [start_event, candidate_event, record_event]"

abbreviation night_codec :: codec where "night_codec \<equiv> study_codec accepted_state"
abbreviation night_db :: Db where "night_db \<equiv> stored night night_codec night_ledger"

lemma night_texts [simp]: "event_json night = (\<lambda>e. Inr [])" "sha256_hex night = sha256_hex blank_ext"
  by (auto simp: night_def demo_def blank_ext_def sha256_hex_def)

lemma service_night_setup: "replay night setup_events = Inr setup_state"
  by (simp add: replay_def setup_events_def setup_state_def default_state_def step_defs
      apply_criterion_defined_def night_def demo_def blank_ext_def normalize_description_def)

lemma service_night_replay: "replay night night_ledger = Inr accepted_state"
  using service_night_setup start_step candidate_step record_step
  by (simp add: night_ledger_def replay_def ledger.run_append)

lemmas event_defs = setup_events_def start_event_def candidate_event_def record_event_def

lemma night_events:
  "\<forall>e \<in> set night_ledger. codec_reads_event night (study_codec s) e \<and> writable night (study_codec s) e"
  unfolding night_ledger_def event_defs
  by (simp add: study_reads [where t = "''p''"] study_reads [where t = "''t''"]
      study_reads [where t = "''k''"] study_reads [where t = "''s''"] study_reads [where t = "''c''"]
      study_reads [where t = "''v''"] study_kinds_def study_entities_def)

lemma night_holds: "db_holds night night_codec night_db night_ledger accepted_state"
proof (rule stored_holds(1) [OF service_night_replay])
  show "inj (uuid_text night)" using blank_texts_inj by simp
  show "\<forall>e \<in> set night_ledger. writable night night_codec e"
    "\<forall>e \<in> set night_ledger. codec_reads_event night night_codec e" using night_events by blast+
qed (simp_all add: study_state night_ledger_def setup_events_def is_ok_iff)

definition night_values :: payload_values where
  "night_values = \<lparr>memory_candidate_to_value = (\<lambda>m. Inl []), active_memory_to_value = (\<lambda>m. Inl []),
     verification_to_value = (\<lambda>v. Inl []), materialization_to_value = (\<lambda>m. Inl []),
     memory_revision_to_value = (\<lambda>m. Inl []),
     position_integration_to_value =
       (\<lambda>p. if p = the_integration then Inr (JNumber ''integration'') else Inl [])\<rparr>"

lemma night_roundtrip: "payload_roundtrip night night_values"
  by (auto simp: payload_roundtrip_def night_values_def tagged_def split: if_splits)

definition night_ids :: "nat \<Rightarrow> Uuid" where
  "night_ids i = (if i = 0 then 8 else if i = 1 then 24 else 70 + of_nat i)"

lemma night_fresh: "fresh_ids night_ids accepted_state"
  by (simp add: fresh_ids_def night_ids_def night_states bt_contains_def upt_conv_Cons)

abbreviation clock :: "nat \<Rightarrow> string" where "clock \<equiv> \<lambda>_. ''t''"

lemma verify_zero [simp]:
  "event_json x = (\<lambda>e. Inr []) \<Longrightarrow> sha256_hex x = sha256_hex blank_ext \<Longrightarrow>
     verify_integrity x (an_event eid actor k tag subj) = Inr True"
  "event_hash x (an_event eid actor k tag subj) = Inr zero_hash"
  by (simp_all add: verify_integrity_def calculate_hash_def an_event_def event_hash_def)

lemma night_evidence:
  "validate_candidate night accepted_state night_ledger accepted [the_evidence] = Inr ()"
  by (simp add: validate_candidate_def supported_kind_def check_evidence_def check_integrity_def
      night_ledger_def event_defs fingerprint_of_candidate_def night_data night_states the_evidence_def
      Let_def)

lemma night_plan:
  "position_plan night (from_uuid 8) ''t'' accepted_state night_ledger accepted (from_uuid 2)
     \<lparr>PositionIntegrationProposal.schema = POSITION_INTEGRATION_SCHEMA,
      operation = PositionIntegrationOperation.Establish ''tea'' Stance.Support [''seen''] [''done'']\<rparr> =
   Inr (the_position, PositionIntegrationActionKind.Establish, None)"
proof -
  have "take 4 night_ledger = setup_events" by (simp add: night_ledger_def setup_events_def)
  then show ?thesis
    using service_night_setup
    by (simp add: position_plan_def as_of_in_ledger_def plan_operation_def revision_allowed_def
        validate_position_revision_def position_integration_blocked_def normalized_position_texts_def
        night_data night_states demo_data bt_values_def Let_def
        night_ledger_def setup_events_def)
qed

lemma night_event:
  "position_event night night_values (from_uuid 24) ''t'' ''t'' (from_uuid 1) (from_uuid 7)
     the_position the_change = Inr held_event"
  by (simp add: position_event_def night_values_def the_integration_def new_with_id_def
      calculate_hash_def held_event_def an_event_def the_change_def the_position_def Let_def)

lemma service_night_run:
  "\<exists>db'. materialize_position night night_values night_codec no_fault night_ids clock
     night_db night_db night_db (from_uuid 7) (from_uuid 2) (from_uuid 1) =
     Inr ((the_position, the_change), db')"
proof -
  note load = db_holds_ledger(1,2) [OF night_holds]
  have k: "bt_get (integration_candidates accepted_state) (from_uuid 7) = Some accepted"
    "ensure_actor accepted_state (from_uuid 1) True = Inr ()"
    "verified_record accepted_state (from_uuid 7) = Inr the_record"
    "\<not> bt_contains (position_integration_materializations accepted_state) (from_uuid 7)"
    "CurrentState.revision accepted_state = 7"
    by (simp_all add: night_states night_data demo_data ensure_actor_def verified_record_def
        bt_contains_def)
  have fields: "IntegrationCandidate.disposition accepted = VerificationDisposition.Verified"
    "IntegrationCandidate.kind accepted = IntegrationCandidateKind.Position"
    "IntegrationVerification.evidence_refs the_record = [the_evidence]"
    by (simp_all add: night_data)
  have veid: "integration_transition_event_id night_ledger (from_uuid 7)
      IntegrationCandidateVerified = Some (from_uuid 23)"
    by (simp add: integration_transition_event_id_def night_ledger_def event_defs an_event_def
        subject_is_def)
  have m: "position_materialization_of clock accepted (from_uuid 7) the_record (from_uuid 23)
      (from_uuid 24) (the_position, PositionIntegrationActionKind.Establish, None) = the_change"
    by (simp add: position_materialization_of_def night_data)
  have "writable night night_codec held_event"
    by (simp add: writable_def held_event_def an_event_def verify_integrity_def calculate_hash_def
        is_ok_iff)
  moreover have "apply_all night accepted_state [held_event] = Inr held_state"
    using position_change_step by simp
  moreover have "rows_of night night_codec night_db night_ledger"
    using stored_holds(2) [OF service_night_replay] night_events blank_texts_inj study_state
    by (simp add: night_ledger_def setup_events_def is_ok_iff)
  ultimately obtain db' where "record_batch night night_codec no_fault night_db [held_event]
      (Some 7) None = Inr (held_state, db')"
    using record_possible [OF night_holds, of "[held_event]" held_state "Some 7" no_fault] k(5)
      blank_texts_inj
    by (auto simp: is_ok_iff night_ledger_def setup_events_def no_fault_def [abs_def])
  then have "commit_events night night_codec no_fault night_db 7 [held_event] = Inr (held_state, db')"
    by (simp add: commit_events_def)
  moreover have "bt_get (CurrentState.positions held_state) (from_uuid 8) = Some the_position"
    "bt_get (position_integration_materializations held_state) (from_uuid 7) = Some the_change"
    by (simp_all add: held_state_def)
  moreover have "Position.id the_position = from_uuid 8" by (simp add: the_position_def)
  ultimately show ?thesis
    using load k night_evidence night_plan veid m night_event fields
    by (simp add: materialize_position_def parse_position_proposal_def night_ids_def committed_def)
qed

section \<open>A memory that expires\<close>

definition the_memory :: ActiveMemory where
  "the_memory = \<lparr>ActiveMemory.id = from_uuid 51, candidate_id = from_uuid 52, kind = Lesson,
     content = ''view'', subject_principal_id = None, status = ActiveMemoryStatus.Active,
     confidence = 70, source_event_ids = [from_uuid 13], valid_from = None, valid_until = None,
     supersedes = None, last_verified_at = None, created_at = ''t''\<rparr>"

definition gone_memory :: ActiveMemory where
  "gone_memory = the_memory\<lparr>ActiveMemory.status := ActiveMemoryStatus.Expired\<rparr>"

definition the_note :: EvidenceRef where
  "the_note = \<lparr>EvidenceRef.event_id = from_uuid 42, artifact_id = None,
     source_hash = zero_hash, as_of_sequence = 6\<rparr>"

definition the_study :: SleepRun where
  "the_study = the_run\<lparr>SleepRun.id := from_uuid 56, high_water_revision := 6,
     seed_event_ids := [from_uuid 42]\<rparr>"

definition the_doubt :: IntegrationCandidate where
  "the_doubt = \<lparr>IntegrationCandidate.id = from_uuid 57, sleep_run_id = from_uuid 56,
     kind = IntegrationCandidateKind.MemoryRevision, disposition = NeedsValidation,
     as_of_revision = 6, content = ''view'', rationale = ''seen'',
     source_event_ids = [from_uuid 42], counterevidence_event_ids = [from_uuid 41],
     confidence = 70,
     fingerprint = integration_candidate_fingerprint blank_ext
       IntegrationCandidateKind.MemoryRevision ''view'' [from_uuid 42] [from_uuid 41],
     created_at = ''t''\<rparr>"

definition doubt_accepted :: IntegrationCandidate where
  "doubt_accepted = the_doubt\<lparr>IntegrationCandidate.disposition := VerificationDisposition.Verified\<rparr>"

definition the_decision :: IntegrationVerification where
  "the_decision = \<lparr>IntegrationVerification.candidate_id = from_uuid 57,
     verification_event_id = None, previous_disposition = NeedsValidation,
     new_disposition = VerificationDisposition.Verified, actor_id = from_uuid 1, reason = ''seen'',
     evidence_refs = [the_note], as_of_revision = 6, created_at = ''t''\<rparr>"

definition decision_kept :: IntegrationVerification where
  "decision_kept = the_decision\<lparr>IntegrationVerification.verification_event_id := Some (from_uuid 45)\<rparr>"

definition expiry_proposal :: MemoryRevisionProposal where
  "expiry_proposal = \<lparr>MemoryRevisionProposal.schema = MEMORY_REVISION_SCHEMA,
     operation = MemoryRevisionOperation.Expire (from_uuid 51) (from_uuid 41) zero_hash\<rparr>"

definition the_expiry :: MemoryRevisionMaterialization where
  "the_expiry = \<lparr>MemoryRevisionMaterialization.candidate_id = from_uuid 57,
     verification_event_id = from_uuid 45, target_memory_id = from_uuid 51,
     replacement_memory_id = None, expected_event_id = from_uuid 41,
     expected_event_hash = zero_hash, action = MemoryRevisionActionKind.Expire,
     source_event_ids = [from_uuid 42], counterevidence_event_ids = [from_uuid 41],
     evidence_refs = [the_note], fingerprint = IntegrationCandidate.fingerprint the_doubt,
     as_of_revision = 6, created_at = ''t''\<rparr>"

definition study :: ext where
  "study = night\<lparr>de_active_memory := tagged [(''memory'', the_memory), (''gone'', gone_memory)],
     de_observation := tagged [(''observation'', the_observation)],
     de_sleep_run := tagged [(''study'', the_study)],
     de_integration_candidate := tagged [(''doubt'', the_doubt)],
     de_integration_verification := tagged [(''decision'', the_decision)],
     de_memory_revision_materialization := tagged [(''expiry'', the_expiry)],
     memory_revision_from_str := (\<lambda>t. Inr expiry_proposal)\<rparr>"

definition study_events :: "ExperienceEvent list" where
  "study_events =
     [an_event 41 1 MemoryPromoted ''memory'' (Some \<lparr>EntityRef.kind = EntityKind.Memory, id = 51\<rparr>),
      an_event 42 1 ObservationRecorded ''observation'' None,
      an_event 43 2 SleepRunStarted ''study'' None,
      an_event 44 2 IntegrationCandidateCreated ''doubt''
        (Some \<lparr>EntityRef.kind = EntityKind.IntegrationCandidate, id = 57\<rparr>)]"

definition decision_event :: ExperienceEvent where
  "decision_event = an_event 45 1 IntegrationCandidateVerified ''decision''
     (Some \<lparr>EntityRef.kind = EntityKind.IntegrationCandidate, id = 57\<rparr>)"

definition doubted_ledger :: "ExperienceEvent list" where
  "doubted_ledger = setup_events @ study_events"

definition decided_ledger :: "ExperienceEvent list" where
  "decided_ledger = doubted_ledger @ [decision_event]"

definition noted_state :: CurrentState where
  "noted_state = setup_state\<lparr>CurrentState.revision := 6,
     active_memories := [(from_uuid 51, the_memory)],
     observations := [(from_uuid 10, the_observation)],
     applied_events := applied_events setup_state @ [from_uuid 41, from_uuid 42]\<rparr>"

definition doubted_state :: CurrentState where
  "doubted_state = noted_state\<lparr>CurrentState.revision := 8,
     sleep_runs := [(from_uuid 56, the_study)],
     integration_candidates := [(from_uuid 57, the_doubt)],
     applied_events := applied_events noted_state @ [from_uuid 43, from_uuid 44]\<rparr>"

definition answered_state :: CurrentState where
  "answered_state = doubted_state\<lparr>CurrentState.revision := 9,
     integration_candidates := [(from_uuid 57, doubt_accepted)],
     integration_verifications := [(from_uuid 57, decision_kept)],
     applied_events := applied_events doubted_state @ [from_uuid 45]\<rparr>"

lemmas study_data = the_memory_def gone_memory_def the_note_def the_study_def the_run_def
  the_doubt_def doubt_accepted_def the_decision_def decision_kept_def expiry_proposal_def
  the_expiry_def the_observation_def

lemmas study_states = setup_state_def default_state_def noted_state_def doubted_state_def
  answered_state_def

lemma study_fields [simp]:
  "de_active_memory study = tagged [(''memory'', the_memory), (''gone'', gone_memory)]"
  "de_observation study = tagged [(''observation'', the_observation)]"
  "de_sleep_run study = tagged [(''study'', the_study)]"
  "de_integration_candidate study = tagged [(''doubt'', the_doubt)]"
  "de_integration_verification study = tagged [(''decision'', the_decision)]"
  "de_memory_revision_materialization study = tagged [(''expiry'', the_expiry)]"
  "memory_revision_from_str study = (\<lambda>t. Inr expiry_proposal)"
  "has_field study = has_field night"
  "event_json study = (\<lambda>e. Inr [])" "sha256_hex study = sha256_hex blank_ext"
  "uuid_text study = uuid_text blank_ext" "id_text study = (id_text blank_ext :: 'a Id \<Rightarrow> string)"
  "integration_candidate_fingerprint study = integration_candidate_fingerprint blank_ext"
  using night_hashes(1) night_texts(2)
  by (auto simp: study_def integration_candidate_fingerprint_def [abs_def] sha256_hex_def [abs_def]
      id_text_def [abs_def] Let_def)

lemma study_setup: "replay study setup_events = Inr setup_state"
  by (simp add: replay_def setup_events_def setup_state_def default_state_def step_defs
      apply_criterion_defined_def study_def night_def demo_def blank_ext_def
      normalize_description_def)

lemma note_step: "apply_all study setup_state (take 2 study_events) = Inr noted_state"
  by (simp add: study_events_def step_defs study_data study_states apply_active_memory_def)

lemma doubt_step: "apply_all study noted_state (drop 2 study_events) = Inr doubted_state"
  by (simp add: study_events_def step_defs study_data study_states apply_sleep_run_def
      sleep_run_start_ok_def apply_candidate_created_def candidate_provenance_bad_def
      fingerprint_of_candidate_def MAX_CANDIDATE_SOURCES_def)

lemma study_proposal [simp]: "memory_revision_parse study t = Inr expiry_proposal"
  by (simp add: memory_revision_parse_Inr_iff expiry_proposal_def)

lemma answer_step: "apply_event study doubted_state decision_event = Inr answered_state"
  by (simp add: decision_event_def step_defs study_data study_states
      apply_integration_transition_def fingerprint_of_candidate_def typed_proposal_ok_def
      subject_is_def)

lemma noted_replay: "replay study (setup_events @ take 2 study_events) = Inr noted_state"
  using study_setup note_step by (simp add: replay_def ledger.run_append)

lemma doubted_replay: "replay study doubted_ledger = Inr doubted_state"
proof -
  have "apply_all study setup_state (take 2 study_events @ drop 2 study_events) = Inr doubted_state"
    using note_step doubt_step unfolding ledger.run_append by simp
  then show ?thesis
    using study_setup by (simp add: replay_def doubted_ledger_def ledger.run_append)
qed

lemma answered_replay: "replay study decided_ledger = Inr answered_state"
  using doubted_replay answer_step by (simp add: replay_def decided_ledger_def ledger.run_append)

abbreviation doubted_db :: Db where
  "doubted_db \<equiv> stored study (study_codec doubted_state) doubted_ledger"

abbreviation answered_db :: Db where
  "answered_db \<equiv> stored study (study_codec answered_state) decided_ledger"

lemmas study_event_defs = setup_events_def study_events_def decision_event_def doubted_ledger_def
  decided_ledger_def

lemma study_ledger_ok:
  "\<forall>e \<in> set decided_ledger. codec_reads_event study (study_codec s) e \<and> writable study (study_codec s) e"
  unfolding study_event_defs
  by (simp add: study_reads [where t = "''p''"] study_reads [where t = "''t''"]
      study_reads [where t = "''k''"] study_reads [where t = "''s''"] study_reads [where t = "''c''"]
      study_reads [where t = "''v''"] study_reads [where t = "''m''"] study_reads [where t = "''o''"]
      study_kinds_def study_entities_def)

lemma study_stored:
  assumes "replay study es = Inr s" and "es \<noteq> []" and "set es \<subseteq> set decided_ledger"
    and "length es < 2 ^ 63"
  shows "db_holds study (study_codec s) (stored study (study_codec s) es) es s"
    and "rows_of study (study_codec s) (stored study (study_codec s) es) es"
  using stored_holds [OF assms(1,2), of "study_codec s"] study_ledger_ok assms(3,4) study_state
    blank_texts_inj
  by (auto simp: is_ok_iff)

lemma study_dbs:
  "db_holds study (study_codec doubted_state) doubted_db doubted_ledger doubted_state"
  "rows_of study (study_codec doubted_state) doubted_db doubted_ledger"
  "db_holds study (study_codec answered_state) answered_db decided_ledger answered_state"
  "rows_of study (study_codec answered_state) answered_db decided_ledger"
  by (rule study_stored [OF doubted_replay] study_stored [OF answered_replay];
      simp add: study_event_defs)+

text \<open>The plan of the expiry, before and after the verification.\<close>

lemma study_takes:
  "take 6 doubted_ledger = setup_events @ take 2 study_events"
  "take 6 decided_ledger = setup_events @ take 2 study_events"
  "drop 6 doubted_ledger = drop 2 study_events"
  "drop 6 decided_ledger = drop 2 study_events @ [decision_event]"
  "length doubted_ledger = 8" "length decided_ledger = 9"
  by (simp_all add: study_event_defs)

lemma study_promotion:
  "position_index (is_promotion_of (from_uuid 41) (from_uuid 51)) doubted_ledger = Some 4"
  "position_index (is_promotion_of (from_uuid 41) (from_uuid 51)) decided_ledger = Some 4"
  "doubted_ledger ! 4 = hd study_events" "decided_ledger ! 4 = hd study_events"
  by (simp_all add: study_event_defs is_promotion_of_def an_event_def subject_is_def)

lemma study_target:
  "check_target_event study the_doubt the_memory zero_hash 4 (hd study_events) = Inr ()"
  "check_target_event study doubt_accepted the_memory zero_hash 4 (hd study_events) = Inr ()"
  by (simp_all add: check_target_event_def study_events_def the_doubt_def doubt_accepted_def)
    (simp_all add: an_event_def tagged_def)

lemma study_new_source:
  "has_new_source doubted_ledger the_doubt 4" "has_new_source decided_ledger doubt_accepted 4"
  by (simp_all add: has_new_source_def study_event_defs the_doubt_def doubt_accepted_def)
    (simp_all add: an_event_def)

lemma study_plans:
  "memory_revision_plan study doubted_state doubted_ledger the_doubt expiry_proposal =
     Inr (the_memory, hd study_events)"
  "memory_revision_plan study answered_state decided_ledger doubt_accepted expiry_proposal =
     Inr (the_memory, hd study_events)"
proof -
  have untouched: "\<not> (\<exists>e \<in> set (drop 2 study_events @ [decision_event]). touches_memory (from_uuid 51) e)"
    by (simp add: study_event_defs touches_memory_def an_event_def)
  have as_of: "as_of_in_ledger doubted_state doubted_ledger the_doubt"
    "as_of_in_ledger answered_state decided_ledger doubt_accepted"
    by (simp_all add: as_of_in_ledger_def study_takes study_states study_data)
  show "memory_revision_plan study doubted_state doubted_ledger the_doubt expiry_proposal =
     Inr (the_memory, hd study_events)"
    using untouched as_of(1) noted_replay study_takes study_promotion study_target study_new_source
    by (simp add: memory_revision_plan_def Let_def expiry_proposal_def)
      (simp add: study_states study_data)
  show "memory_revision_plan study answered_state decided_ledger doubt_accepted expiry_proposal =
     Inr (the_memory, hd study_events)"
    using untouched as_of(2) noted_replay study_takes study_promotion study_target study_new_source
    by (simp add: memory_revision_plan_def Let_def expiry_proposal_def)
      (simp add: study_states study_data)
qed

lemma study_evidence:
  "validate_candidate study doubted_state doubted_ledger the_doubt [the_note] = Inr ()"
  "validate_candidate study answered_state decided_ledger doubt_accepted [the_note] = Inr ()"
  by (simp_all add: validate_candidate_def supported_kind_def check_evidence_def check_integrity_def
      study_event_defs fingerprint_of_candidate_def study_data study_states Let_def)

section \<open>The runs\<close>

definition study_values :: payload_values where
  "study_values = \<lparr>memory_candidate_to_value = (\<lambda>m. Inl []),
     active_memory_to_value = (\<lambda>m. if m = gone_memory then Inr (JNumber ''gone'') else Inl []),
     verification_to_value =
       (\<lambda>v. if v = the_decision then Inr (JNumber ''decision'') else Inl []),
     materialization_to_value = (\<lambda>m. Inl []),
     memory_revision_to_value = (\<lambda>m. if m = the_expiry then Inr (JNumber ''expiry'') else Inl []),
     position_integration_to_value = (\<lambda>p. Inl [])\<rparr>"

lemma study_roundtrip: "payload_roundtrip study study_values"
  by (auto simp: payload_roundtrip_def study_values_def tagged_def split: if_splits)

definition study_ids :: "nat \<Rightarrow> Uuid" where "study_ids i = 60 + of_nat i"

definition answer_ids :: "nat \<Rightarrow> Uuid" where
  "answer_ids i = (if i = 1 then 45 else 60 + of_nat i)"

lemma study_fresh: "fresh_ids study_ids answered_state"
  by (simp add: fresh_ids_def study_ids_def study_states bt_contains_def upt_conv_Cons study_data)

definition service_event :: "ExperienceEvent \<Rightarrow> EventId \<Rightarrow> ExperienceEvent" where
  "service_event e cause = e
     \<lparr>source := \<lparr>EventSource.source_type = ''memory_integration'',
                 source_ref = Some (id_text blank_ext (from_uuid 57 :: IntegrationCandidateId))\<rparr>,
      correlation_id := Some (id_text blank_ext (from_uuid 57 :: IntegrationCandidateId)),
      causation_id := Some cause\<rparr>"

lemma service_event_made:
  "integration_event study (from_uuid eid) ''t'' ''t'' (from_uuid actor) k ek u (Inr (JNumber tag))
     (from_uuid 57) (Some cause) =
   Inr (service_event (an_event eid actor k tag (Some \<lparr>EntityRef.kind = ek, id = u\<rparr>)) cause)"
  by (simp add: integration_event_def new_with_id_def calculate_hash_def service_event_def
      an_event_def Let_def)

lemma service_event_writable:
  "writable study (study_codec s) (service_event (an_event eid actor k tag subj) cause)"
  by (simp add: writable_def service_event_def an_event_def verify_integrity_def calculate_hash_def
      is_ok_iff)

definition answer :: ExperienceEvent where
  "answer = service_event decision_event (from_uuid 44)"

lemma answered: "apply_event study doubted_state answer = Inr answered_state"
  by (simp add: answer_def service_event_def decision_event_def step_defs study_data study_states
      apply_integration_transition_def fingerprint_of_candidate_def typed_proposal_ok_def
      subject_is_def)

lemma study_commit:
  assumes "db_holds study (study_codec s) db es s" and "rows_of study (study_codec s) db es"
    and "apply_all study s evs = Inr s'" and "evs \<noteq> []" and "length es + length evs < 2 ^ 63"
    and "\<forall>e \<in> set evs. writable study (study_codec s) e"
  shows "\<exists>db'. commit_events study (study_codec s) no_fault db (CurrentState.revision s) evs =
    Inr (s', db')"
  using record_possible [OF assms(1-4,6) _ assms(5), of "Some (CurrentState.revision s)" no_fault]
    blank_texts_inj
  by (auto simp: is_ok_iff no_fault_def [abs_def] commit_events_def)

lemma answer_run:
  "\<exists>db'. verify_candidate_with_evidence study study_values (study_codec doubted_state) no_fault
     answer_ids clock doubted_db doubted_db doubted_db (from_uuid 57) (from_uuid 1) ''seen''
     [the_note] = Inr (doubt_accepted, db')"
proof -
  note load = db_holds_ledger(1,2) [OF study_dbs(1)]
  have k: "bt_get (integration_candidates doubted_state) (from_uuid 57) = Some the_doubt"
    "bt_get (integration_candidates answered_state) (from_uuid 57) = Some doubt_accepted"
    "ensure_actor doubted_state (from_uuid 1) True = Inr ()"
    "CurrentState.revision doubted_state = 8"
    by (simp_all add: study_states demo_data ensure_actor_def)
  have fields: "IntegrationCandidate.disposition the_doubt = NeedsValidation"
    "IntegrationCandidate.kind the_doubt = IntegrationCandidateKind.MemoryRevision"
    "IntegrationCandidate.as_of_revision the_doubt = 6"
    by (simp_all add: the_doubt_def)
  have plan: "check_typed_plan study i t0 doubted_state doubted_ledger the_doubt
      VerificationDisposition.Verified = Inr ()" for i t0
    using study_plans(1) fields by (simp add: check_typed_plan_def parse_memory_revision_proposal_def)
  have made: "integration_event study (from_uuid 45) ''t'' ''t'' (from_uuid 1)
      IntegrationCandidateVerified EntityKind.IntegrationCandidate 57
      (verification_to_value study_values the_decision) (from_uuid 57) (Some (from_uuid 44)) = Inr answer"
    by (simp add: study_values_def service_event_made answer_def decision_event_def)
  have cand: "candidate_event_id doubted_ledger (from_uuid 57) = Some (from_uuid 44)"
    by (simp add: candidate_event_id_def integration_transition_event_id_def study_event_defs
        an_event_def subject_is_def)
  obtain db' where "commit_events study (study_codec doubted_state) no_fault doubted_db 8 [answer] =
      Inr (answered_state, db')"
    using study_commit [OF study_dbs(1,2), of "[answer]" answered_state] answered k(4)
      service_event_writable
    by (auto simp: answer_def decision_event_def study_takes)
  moreover have "non_empty ''seen'' = Some ''seen''" by (simp add: non_empty_def)
  ultimately show ?thesis
    using load k fields plan made cand study_evidence(1)
    by (simp add: verify_candidate_with_evidence_def transition_def answer_ids_def
        the_decision_def [symmetric])
qed

definition expiry_events :: "ExperienceEvent list" where
  "expiry_events =
     [service_event (an_event 63 1 MemoryExpired ''gone''
        (Some \<lparr>EntityRef.kind = EntityKind.Memory, id = 51\<rparr>)) (from_uuid 45),
      service_event (an_event 65 1 MemoryRevisionMaterialized ''expiry''
        (Some \<lparr>EntityRef.kind = EntityKind.IntegrationCandidate, id = 57\<rparr>)) (from_uuid 45)]"

definition expired_state :: CurrentState where
  "expired_state = answered_state\<lparr>CurrentState.revision := 11,
     active_memories := [(from_uuid 51, gone_memory)],
     memory_revision_materializations := [(from_uuid 57, the_expiry)],
     applied_events := applied_events answered_state @ [from_uuid 63, from_uuid 65]\<rparr>"

lemma expiry_steps: "apply_all study answered_state expiry_events = Inr expired_state"
  by (simp add: expiry_events_def service_event_def step_defs study_data study_states
      expired_state_def apply_active_memory_def apply_memory_revision_materialization_def
      memory_revision_provenance_ok_def memory_revision_matches_candidate_def
      memory_revision_done_def fingerprint_of_candidate_def subject_is_def)

lemma expiry_batch:
  "revision_batch study study_values study_ids clock (from_uuid 1) (from_uuid 57) (from_uuid 45)
     the_memory MemoryRevisionActionKind.Expire None the_expiry = Inr expiry_events"
proof -
  have "the_memory\<lparr>ActiveMemory.status := ActiveMemoryStatus.Expired\<rparr> = gone_memory"
    "ActiveMemory.id the_memory = from_uuid 51"
    by (simp_all add: gone_memory_def the_memory_def)
  then show ?thesis
    by (simp add: revision_batch_def retirement_event_def revision_record_event_def
        study_values_def study_ids_def service_event_made expiry_events_def)
qed

lemma expiry_run:
  "\<exists>db'. materialize_memory study study_values (study_codec answered_state) no_fault study_ids
     clock answered_db answered_db answered_db (from_uuid 57) (from_uuid 1) =
     Inr (Expired gone_memory the_expiry, db')"
proof -
  note load = db_holds_ledger(1,2) [OF study_dbs(3)]
  have k: "bt_get (integration_candidates answered_state) (from_uuid 57) = Some doubt_accepted"
    "ensure_actor answered_state (from_uuid 1) False = Inr ()"
    "verified_record answered_state (from_uuid 57) = Inr decision_kept"
    "\<not> bt_contains (memory_revision_materializations answered_state) (from_uuid 57)"
    "CurrentState.revision answered_state = 9"
    by (simp_all add: study_states study_data demo_data ensure_actor_def verified_record_def
        bt_contains_def)
  have fields: "IntegrationCandidate.disposition doubt_accepted = VerificationDisposition.Verified"
    "IntegrationCandidate.kind doubt_accepted = IntegrationCandidateKind.MemoryRevision"
    "IntegrationCandidate.id doubt_accepted = from_uuid 57"
    "IntegrationVerification.evidence_refs decision_kept = [the_note]"
    "MemoryRevisionProposal.operation expiry_proposal =
      MemoryRevisionOperation.Expire (from_uuid 51) (from_uuid 41) zero_hash"
    by (simp_all add: study_data)
  have veid: "integration_transition_event_id decided_ledger (from_uuid 57)
      IntegrationCandidateVerified = Some (from_uuid 45)"
    by (simp add: integration_transition_event_id_def study_event_defs an_event_def subject_is_def)
  have h: "canonical_hash study (hd study_events) = Inr zero_hash"
    by (simp add: canonical_hash_def calculate_hash_def)
  have m: "revision_materialization clock doubt_accepted decision_kept (from_uuid 45) the_memory
      (hd study_events) zero_hash MemoryRevisionActionKind.Expire None = the_expiry"
    by (simp add: revision_materialization_def study_data study_events_def an_event_def)
  obtain db' where com: "commit_events study (study_codec answered_state) no_fault answered_db 9
      expiry_events = Inr (expired_state, db')"
    using study_commit [OF study_dbs(3,4) expiry_steps] k(5) service_event_writable
    by (auto simp: expiry_events_def study_takes)
  have got: "bt_get (memory_revision_materializations expired_state) (from_uuid 57) = Some the_expiry"
    "bt_get (active_memories expired_state) (from_uuid 51) = Some gone_memory"
    "ActiveMemory.id the_memory = from_uuid 51"
    by (simp_all add: expired_state_def the_memory_def)
  show ?thesis
    using load k fields study_evidence(2) study_plans(2) veid h m expiry_batch com got
    by (simp add: materialize_memory_def materialize_memory_revision_def
        parse_memory_revision_proposal_def revision_result_def committed_def Let_def)
qed

section \<open>A codec of tables\<close>

text \<open>
  A codec given by tables of one-character texts: an event kind, an entity kind or a state outside
  its table is not printed, and what is printed is read back. The scenarios instantiate the codec
  of the database with it.
\<close>

definition table_codec ::
  "(EventKind \<times> string) list \<Rightarrow> (EntityKind \<times> string) list \<Rightarrow> (CurrentState \<times> string) list \<Rightarrow> codec"
where
  "table_codec ks es ss = (study_codec default_state)\<lparr>
     kind_to_string := (\<lambda>k. case map_of ks k of
       None \<Rightarrow> Inl ''unknown'' | Some t \<Rightarrow> Inr (quoted t)),
     kind_from_str := (\<lambda>t. case map_of (map prod.swap ks) (trim_quotes t) of
       None \<Rightarrow> Inl ''unknown'' | Some k \<Rightarrow> Inr k),
     entity_to_string := (\<lambda>k. case map_of es k of
       None \<Rightarrow> Inl ''unknown'' | Some t \<Rightarrow> Inr (quoted t)),
     entity_from_str := (\<lambda>t. case map_of (map prod.swap es) (trim_quotes t) of
       None \<Rightarrow> Inl ''unknown'' | Some k \<Rightarrow> Inr k),
     state_to_string := (\<lambda>s. case map_of ss s of None \<Rightarrow> Inl ''unknown'' | Some t \<Rightarrow> Inr t),
     state_from_str := (\<lambda>t. case map_of (map prod.swap ss) t of
       None \<Rightarrow> Inl ''unknown'' | Some s \<Rightarrow> Inr s)\<rparr>"

text \<open>A table that is read both ways, its texts of one character that is no quote and no blank.\<close>

definition two_way :: "('k \<times> string) list \<Rightarrow> bool" where
  "two_way tab \<longleftrightarrow> distinct (map fst tab) \<and> distinct (map snd tab) \<and>
     list_all (\<lambda>p. trim_quotes (quoted (snd p)) = snd p) tab"

lemma table_reads:
  assumes "distinct (map fst tab)" and "distinct (map snd tab)" and "(k, t) \<in> set tab"
  shows "map_of tab k = Some t" and "map_of (map prod.swap tab) t = Some k"
proof -
  have "map fst (map prod.swap tab) = map snd tab" by simp
  with assms(2) have "distinct (map fst (map prod.swap tab))" by (simp only:)
  moreover have "(t, k) \<in> set (map prod.swap tab)" using assms(3) by force
  ultimately show "map_of (map prod.swap tab) t = Some k" by (rule map_of_is_SomeI)
  show "map_of tab k = Some t" using assms(1,3) by (rule map_of_is_SomeI)
qed

lemma two_way_reads:
  assumes "two_way tab" and "(k, t) \<in> set tab"
  shows "map_of tab k = Some t" "map_of (map prod.swap tab) t = Some k" "trim_quotes (quoted t) = t"
  using assms table_reads [of tab k t] by (auto simp: two_way_def list_all_iff)

lemma table_codec_reads [simp]:
  "uuid_parse (table_codec ks es ss) t = Inr (of_nat (length t))"
  "value_from_str (table_codec ks es ss) t = Inr (JNumber t)" "sql_real (table_codec ks es ss) = Some"
  "value_to_string (table_codec ks es ss) v = (case v of JNumber t \<Rightarrow> Inr t | _ \<Rightarrow> Inl ''not a number'')"
  "state_to_string (table_codec ks es ss) s = (case map_of ss s of None \<Rightarrow> Inl ''unknown'' | Some t \<Rightarrow> Inr t)"
  by (simp_all add: table_codec_def study_codec_def)

lemma table_kind_reads:
  assumes "two_way ks" and "(k, t) \<in> set ks"
  shows "kind_from_str (table_codec ks es ss)
    (CHR 0x22 # event_kind_text (table_codec ks es ss) k @ [CHR 0x22]) = Inr k"
  using two_way_reads [OF assms] by (simp add: event_kind_text_def enum_text_def table_codec_def quoted_def)

lemma table_entity_reads:
  assumes "two_way es" and "(k, t) \<in> set es"
  shows "entity_from_str (table_codec ks es ss)
    (CHR 0x22 # entity_kind_text (table_codec ks es ss) k @ [CHR 0x22]) = Inr k"
  using two_way_reads [OF assms] by (simp add: entity_kind_text_def enum_text_def table_codec_def quoted_def)

lemma table_event_reads:
  assumes "two_way ks" and "two_way es" and x: "uuid_text x = uuid_text blank_ext"
    and k: "(event_kind e, t) \<in> set ks"
    and r: "ExperienceEvent.subject e = Some r" "(EntityRef.kind r, t') \<in> set es"
  shows "codec_reads_event x (table_codec ks es ss) e"
  using x r table_kind_reads [OF assms(1) k] table_entity_reads [OF assms(2) r(2)]
  by (auto simp: codec_reads_event_def id_text_def split: option.splits json.splits)

lemma table_state_reads:
  assumes tab: "distinct (map fst ss)" "distinct (map snd ss)"
    and short: "list_all (\<lambda>p. trim (snd p) = snd p \<and> snd p \<noteq> [] \<and> snd p \<noteq> ''{}'') ss"
  shows "codec_reads_state (table_codec ks es ss) s"
proof (cases "map_of ss s")
  case (Some t)
  then have "(s, t) \<in> set ss" by (rule map_of_SomeD)
  with table_reads [OF tab this] short show ?thesis
    by (auto simp: codec_reads_state_def list_all_iff) (simp add: table_codec_def)
qed (simp add: codec_reads_state_def)

end
