(* ===== verification/IntegrationProperties.thy ===== *)
theory IntegrationProperties
  imports IntegrationScenario
begin

text \<open>
  Properties of the integration service: what a verdict rests on, that the projector accepts
  what the service has checked, what a materialisation leaves behind, and when a commit
  succeeds.
\<close>

section \<open>Verdicts\<close>

text \<open>
  C5. A verdict is passed only by a known person on an undecided candidate, on evidence that
  the service has found in the ledger with its hash, and a Memory revision is verified only
  while its target is revisable: active, no explicit preference, untouched since the candidate's
  revision, and doubted by a newer observation. The stored candidate changes in its disposition
  only, and the record names the person, the verdict and the normalised evidence.
\<close>

theorem candidate_decision_sound:
  assumes db: "db_holds x c db events s" and serde: "payload_roundtrip x pv"
    and run: "transition x pv c flt new now db db db cid actor d reason0 refs0 = Inr (k', db')"
  shows "\<exists>k refs s' v. bt_get (integration_candidates s) cid = Some k \<and>
    IntegrationCandidate.disposition k = NeedsValidation \<and>
    d \<in> {VerificationDisposition.Verified, VerificationDisposition.Rejected} \<and>
    is_some_and (bt_get (principals s) actor) (\<lambda>p. Principal.kind p \<noteq> Hekate) \<and>
    refs \<noteq> [] \<and> list_all (\<lambda>ev. check_evidence x s events k ev = Inr ()) refs \<and>
    (d = VerificationDisposition.Verified \<longrightarrow>
       IntegrationCandidate.kind k = IntegrationCandidateKind.MemoryRevision \<longrightarrow>
       (\<exists>op prior e. revisable x s events k op prior e)) \<and>
    k' = k\<lparr>IntegrationCandidate.disposition := d\<rparr> \<and> derived_from db' = Some s' \<and>
    bt_get (integration_candidates s') cid = Some k' \<and>
    bt_get (integration_verifications s') cid = Some v \<and>
    new_disposition v = d \<and> IntegrationVerification.actor_id v = actor \<and>
    IntegrationVerification.evidence_refs v = normalize_evidence_refs refs"
proof -
  from transition_Inr [OF db payload_roundtripD(1) [OF serde] run] obtain k rsn refs t s' where
    ok: "decision_checked x s events cid k actor d rsn refs"
    and plan: "check_typed_plan x (from_uuid (new 0)) (now 0) s events k d = Inr ()"
    and k': "k' = k\<lparr>IntegrationCandidate.disposition := d\<rparr>" and s': "derived_from db' = Some s'"
      "s' = (decided_state s cid d (from_uuid (new 1)) (decision_record cid k actor d rsn refs t))
        \<lparr>CurrentState.revision := CurrentState.revision s + 1,
         applied_events := applied_events s @ [from_uuid (new 1)]\<rparr>"
    by blast
  have len: "length events < 2 ^ 63" using db by (simp add: db_holds_def)
  have val: "validate_candidate x s events k refs = Inr ()"
    and k: "bt_get (integration_candidates s) cid = Some k"
      "IntegrationCandidate.disposition k = NeedsValidation"
      "d \<in> {VerificationDisposition.Verified, VerificationDisposition.Rejected}"
      "is_some_and (bt_get (principals s) actor) (\<lambda>p. Principal.kind p \<noteq> Hekate)"
    using ok unfolding decision_checked_def by blast+
  have refs: "refs \<noteq> []" "list_all (\<lambda>ev. check_evidence x s events k ev = Inr ()) refs"
    using validate_candidate_Inr(2,5) [OF val] by (simp_all add: list_all_iff)
  have rev: "d = VerificationDisposition.Verified \<longrightarrow>
      IntegrationCandidate.kind k = IntegrationCandidateKind.MemoryRevision \<longrightarrow>
      (\<exists>op prior e. revisable x s events k op prior e)"
    using plan memory_revision_plan_Inr [OF _ len]
    by (fastforce simp: check_typed_plan_def res_simps)
  have "bt_get (integration_candidates s') cid = Some k'"
    "\<exists>v. bt_get (integration_verifications s') cid = Some v \<and> new_disposition v = d \<and>
      IntegrationVerification.actor_id v = actor \<and>
      IntegrationVerification.evidence_refs v = normalize_evidence_refs refs"
    using k(1) k' by (simp_all add: s'(2) decided_state_def)
  with k refs rev k' s'(1) show ?thesis by blast
qed

theorem candidate_decision_sound_witness:
  "\<exists>(s' :: CurrentState) v. bt_get (integration_candidates s') (from_uuid 57) = Some doubt_accepted \<and>
     bt_get (integration_verifications s') (from_uuid 57) = Some v \<and>
     IntegrationVerification.actor_id v = from_uuid 1"
proof -
  obtain db' where "transition study study_values (study_codec doubted_state) no_fault
      answer_ids clock doubted_db doubted_db doubted_db (from_uuid 57) (from_uuid 1)
      VerificationDisposition.Verified ''seen'' (Some [the_note]) = Inr (doubt_accepted, db')"
    using answer_run by (auto simp: verify_candidate_with_evidence_def)
  from candidate_decision_sound [OF study_dbs(1) study_roundtrip this] show ?thesis by blast
qed

section \<open>The service and the projector\<close>



text \<open>
  C6. Materialising a Memory revision retires its target and, for a replacement, adds one new
  memory; no other memory changes. The target was active, no explicit preference, and identical
  in the candidate's as-of state and now; the candidate was verified; its materialisation is
  recorded and, as every Memory revision, happens once.
\<close>

theorem memory_revision_sound:
  assumes db: "db_holds x c db events s" and serde: "payload_roundtrip x pv"
    and fresh: "fresh_ids new s" and person: "\<not> is_model_actor s actor"
    and k: "bt_get (integration_candidates s) cid = Some k"
      "IntegrationCandidate.kind k = IntegrationCandidateKind.MemoryRevision"
    and run: "materialize_memory x pv c flt new now db db db cid actor = Inr (result, db')"
  shows "\<exists>op prior e act repl s'. revisable x s events k op prior e \<and>
    IntegrationCandidate.disposition k = VerificationDisposition.Verified \<and>
    \<not> bt_contains (memory_revision_materializations s) cid \<and>
    revision_action new now k prior op = (act, repl) \<and> derived_from db' = Some s' \<and>
    active_memories s' = revised_memories s prior act repl \<and>
    bt_contains (memory_revision_materializations s') cid"
proof -
  from revision_Inr [OF db k serde fresh person run] obtain v op prior e0 veid act repl s' m where
    r: "revision_planned x s events k v op prior e0 veid"
      "revision_action new now k prior op = (act, repl)" "derived_from db' = Some s'"
      "active_memories s' = revised_memories s prior act repl"
      "memory_revision_materializations s' = bt_insert cid m (memory_revision_materializations s)"
    by blast
  have rep: "replay x events = Inr s" using db by (simp add: db_holds_def)
  have "IntegrationCandidate.id k = cid"
    using candidates_inv_replay [OF rep] k(1) unfolding candidates_inv_def by blast
  with r(1) have "revisable x s events k op prior e0"
    "IntegrationCandidate.disposition k = VerificationDisposition.Verified"
    "\<not> bt_contains (memory_revision_materializations s) cid"
    unfolding revision_planned_def ready_to_materialize_def by blast+
  moreover have "bt_contains (memory_revision_materializations s') cid" by (simp add: r(5))
  ultimately show ?thesis using r(2-4) by blast
qed

theorem memory_revision_sound_witness:
  "\<exists>prior act repl (s' :: CurrentState). active_memories s' = revised_memories answered_state prior act repl \<and>
     bt_contains (memory_revision_materializations s') (from_uuid 57)"
proof -
  have person: "\<not> is_model_actor answered_state (from_uuid 1)"
    by (simp add: study_states demo_data is_model_actor_def)
  have k: "bt_get (integration_candidates answered_state) (from_uuid 57) = Some doubt_accepted"
    "IntegrationCandidate.kind doubt_accepted = IntegrationCandidateKind.MemoryRevision"
    by (simp_all add: study_states study_data)
  obtain db' where "materialize_memory study study_values (study_codec answered_state) no_fault
      study_ids clock answered_db answered_db answered_db (from_uuid 57) (from_uuid 1) =
      Inr (Expired gone_memory the_expiry, db')"
    using expiry_run by blast
  from memory_revision_sound [OF study_dbs(3) study_roundtrip study_fresh person k this]
  show ?thesis by blast
qed

text \<open>
  C7. Materialising a position either stores exactly the planned change, with its link to the
  candidate, or is refused by the projector, and refused exactly when the confidence of the
  candidate differs from that of the planned position. An establishment and a revision take the
  candidate's confidence; a withdrawal keeps the position's, so that a verified withdrawal with
  another confidence can never be carried out.
\<close>

theorem position_materialization_exactly:
  assumes db: "db_holds x c db events s" and serde: "payload_roundtrip x pv"
    and fresh: "fresh_ids new s"
    and hek: "is_some_and (bt_get (principals s) hid) (\<lambda>q. Principal.kind q = Hekate)"
    and k: "bt_get (integration_candidates s) cid = Some k"
    and run: "materialize_position x pv c flt new now db db db cid hid actor = r"
    and r: "r = Inl (IntegrationError.Projection (InvalidPayload kd msg)) \<or> r = Inr ((p', m'), db')"
  shows "\<exists>p act prior. change_planned x s k hid p act prior \<and>
    IntegrationCandidate.disposition k = VerificationDisposition.Verified \<and>
    \<not> is_model_actor s actor \<and>
    (if Position.confidence p = IntegrationCandidate.confidence k
     then r = Inr ((p', m'), db') \<and> p' = p \<and> (\<exists>s'. derived_from db' = Some s' \<and>
       CurrentState.positions s' = changed_positions s p act \<and>
       position_integration_materializations s' =
         bt_insert cid m' (position_integration_materializations s))
     else act = PositionIntegrationActionKind.Withdraw \<and>
       r = Inl (IntegrationError.Projection (InvalidPayload PositionRetracted
         ''Position confidence does not match candidate'')))"
proof -
  from position_run [OF db k hek serde fresh run r] obtain v veid p act prior where
    ready: "position_change_ready x s events k v hid actor veid (from_uuid (new 0)) (now 0) (p, act, prior)"
    and planned: "change_planned x s k hid p act prior"
    and out: "if Position.confidence p = IntegrationCandidate.confidence k
     then r = Inr ((p', m'), db') \<and> p' = p \<and> (\<exists>s'. derived_from db' = Some s' \<and>
       CurrentState.positions s' = changed_positions s p act \<and>
       position_integration_materializations s' =
         bt_insert cid m' (position_integration_materializations s))
     else r = Inl (IntegrationError.Projection (InvalidPayload (position_action_event_kind act)
       ''Position confidence does not match candidate''))"
    by blast
  have "act = PositionIntegrationActionKind.Withdraw"
    if "Position.confidence p \<noteq> IntegrationCandidate.confidence k"
    using planned that by (auto simp: change_planned_def split: if_splits)
  with out have "if Position.confidence p = IntegrationCandidate.confidence k
     then r = Inr ((p', m'), db') \<and> p' = p \<and> (\<exists>s'. derived_from db' = Some s' \<and>
       CurrentState.positions s' = changed_positions s p act \<and>
       position_integration_materializations s' =
         bt_insert cid m' (position_integration_materializations s))
     else act = PositionIntegrationActionKind.Withdraw \<and>
       r = Inl (IntegrationError.Projection (InvalidPayload PositionRetracted
         ''Position confidence does not match candidate''))"
    by (simp split: if_splits)
  moreover from ready have "IntegrationCandidate.disposition k = VerificationDisposition.Verified"
    "\<not> is_model_actor s actor"
    unfolding position_change_ready_def ready_to_materialize_def by blast+
  ultimately show ?thesis using planned by blast
qed

theorem position_materialization_exactly_witness:
  "\<exists>p act prior (s' :: CurrentState). change_planned night accepted_state accepted (from_uuid 2) p act prior \<and>
     CurrentState.positions s' = changed_positions accepted_state the_position act"
proof -
  have hek: "is_some_and (bt_get (principals accepted_state) (from_uuid 2)) (\<lambda>q. Principal.kind q = Hekate)"
    and k: "bt_get (integration_candidates accepted_state) (from_uuid 7) = Some accepted"
    by (simp_all add: night_states demo_data)
  obtain db' where run: "materialize_position night night_values night_codec no_fault night_ids clock
     night_db night_db night_db (from_uuid 7) (from_uuid 2) (from_uuid 1) =
     Inr ((the_position, the_change), db')"
    using service_night_run by blast
  from position_materialization_exactly [OF night_holds night_roundtrip night_fresh hek k run disjI2 [OF refl]]
  show ?thesis by (auto split: if_splits)
qed

section \<open>Commits that succeed\<close>

text \<open>
  C35. An undisturbed commit succeeds: on a database that holds its ledger, a non-empty batch
  that the projector applies and whose hashes verify is recorded, whatever its events are,
  unless SQLite or serde fails, and the database then holds the longer ledger.
\<close>

theorem undisturbed_commit_succeeds:
  assumes db: "db_holds x c db es s" and rows: "rows_of x c db es"
    and run: "apply_all x s evs = Inr s'" and "evs \<noteq> []"
    and ok: "\<forall>e \<in> set evs. writable x c e \<and> codec_reads_event x c e"
    and state: "is_ok (state_to_string c s')" "codec_reads_state c s'"
    and small: "length es + length evs < 2 ^ 63"
    and base: "eb = None \<or> eb = Some (CurrentState.revision s)"
    and flt: "flt = (\<lambda>_. None)" and inj: "inj (uuid_text x)"
  shows "\<exists>db'. record_batch x c flt db evs eb None = Inr (s', db') \<and>
    db_holds x c db' (es @ evs) s' \<and> rows_of x c db' (es @ evs)"
proof -
  have w: "\<forall>e \<in> set evs. writable x c e" and e: "\<forall>e \<in> set evs. codec_reads_event x c e"
    using ok by blast+
  from record_possible [OF db rows run \<open>evs \<noteq> []\<close> w state(1) small base flt inj]
  obtain db' where "record_batch x c flt db evs eb None = Inr (s', db')"
    "rows_of x c db' (es @ evs)" by blast
  with record_batch_holds [OF db this(1) e state(2) small] show ?thesis by blast
qed

theorem undisturbed_commit_succeeds_witness:
  "\<exists>db'. db_holds study (study_codec doubted_state) db' ([] @ doubted_ledger) doubted_state"
proof -
  have ok: "\<forall>e \<in> set doubted_ledger. writable study (study_codec doubted_state) e \<and>
      codec_reads_event study (study_codec doubted_state) e"
    using study_ledger_ok by (auto simp: decided_ledger_def)
  have rows: "rows_of study (study_codec doubted_state) fresh_db []"
    by (simp add: rows_of_def fresh_db_def)
  have run: "apply_all study default_state doubted_ledger = Inr doubted_state"
    using doubted_replay by (simp add: replay_def)
  have inj: "inj (uuid_text study)" using blank_texts_inj by simp
  from undisturbed_commit_succeeds [OF fresh_db_holds rows run _ ok _ study_state _ _ refl inj,
      of None] show ?thesis
    by (auto simp: is_ok_iff study_event_defs)
qed

end
