(* ===== verification/RustChars.thy ===== *)
theory RustChars
  imports RustStr
begin

text \<open>
  Characters of Rust's \<open>str\<close>: a UTF-8 byte string cut into the encodings of its characters, the
  character boundaries, and splitting at characters. Unicode's \<open>Alphabetic\<close> and numeric
  properties are tables of the standard library, so \<open>char::is_alphanumeric\<close> is an argument
  \<open>alnum\<close> of the definitions that use it, a predicate on encodings.
\<close>

function utf8_chars :: "string \<Rightarrow> string list" where
  "utf8_chars [] = []"
| "utf8_chars (c # cs) =
     (c # takeWhile continuation cs) # utf8_chars (dropWhile continuation cs)"
  by pat_completeness auto
termination
  by (relation "measure length") (simp_all add: length_dropWhile_le less_Suc_eq_le)

text \<open>\<open>str::is_char_boundary\<close>.\<close>

definition is_char_boundary :: "string \<Rightarrow> nat \<Rightarrow> bool" where
  "is_char_boundary s n \<longleftrightarrow>
     n = 0 \<or> n = length s \<or> (n < length s \<and> \<not> continuation (s ! n))"

text \<open>The loop \<open>while !value.is_char_boundary(end) { end -= 1 }\<close>; it stops at 0.\<close>

fun floor_boundary :: "string \<Rightarrow> nat \<Rightarrow> nat" where
  "floor_boundary s n =
     (if is_char_boundary s n then n else case n of 0 \<Rightarrow> 0 | Suc m \<Rightarrow> floor_boundary s m)"

declare floor_boundary.simps [simp del]

text \<open>\<open>str::split\<close> at the characters that satisfy \<open>P\<close>, on the characters of the string.\<close>

fun split_from :: "(string \<Rightarrow> bool) \<Rightarrow> string \<Rightarrow> string list \<Rightarrow> string list" where
  "split_from P acc [] = [acc]"
| "split_from P acc (c # cs) =
     (if P c then acc # split_from P [] cs else split_from P (acc @ c) cs)"

definition split_at :: "(string \<Rightarrow> bool) \<Rightarrow> string \<Rightarrow> string list" where
  "split_at P s = split_from P [] (utf8_chars s)"

lemma concat_utf8_chars [simp]: "concat (utf8_chars s) = s"
  by (induction s rule: utf8_chars.induct) simp_all

lemma floor_boundary_le: "floor_boundary s n \<le> n"
proof (induction n)
  case (Suc n)
  then show ?case by (simp add: floor_boundary.simps [of s "Suc n"])
qed (simp add: floor_boundary.simps)

lemma floor_boundary_is: "is_char_boundary s (floor_boundary s n)"
proof (induction n)
  case (Suc n)
  then show ?case by (simp add: floor_boundary.simps [of s "Suc n"])
qed (simp add: floor_boundary.simps is_char_boundary_def)

section \<open>Truncation keeps a trimmed text trimmed in front\<close>

lemma leading_take_None:
  "leading white_space s = None \<Longrightarrow> leading white_space (take n s) = None"
  by (metis append_take_drop_id leading_prefix_None)

lemma leading_trim: "leading white_space (trim s) = None"
proof -
  have "trim_start (trim s) = trim s"
  proof -
    obtain t where t: "trim_start s = trim s @ t"
      using trim_end_prefix [of "trim_start s"] by (auto simp: trim_def)
    have "leading white_space (trim_start s) = None"
      by (simp add: trim_start_def leading_strip_front)
    then have "leading white_space (trim s) = None"
      unfolding t by (rule leading_prefix_None)
    then show ?thesis by (simp add: trim_start_def strip_front_id)
  qed
  then show ?thesis by (metis leading_strip_front trim_start_def)
qed

lemma trim_end_trimmed:
  assumes "leading white_space s = None"
  shows "trim (trim_end s) = trim_end s"
proof -
  obtain t where t: "s = trim_end s @ t" using trim_end_prefix by blast
  have "leading white_space (trim_end s) = None"
    using assms t by (metis leading_prefix_None)
  then show ?thesis by (simp add: trim_def trim_start_def strip_front_id trim_end_idem)
qed

lemma trim_take_trim [simp]: "trim (trim_end (take n (trim s))) = trim_end (take n (trim s))"
  by (rule trim_end_trimmed) (simp add: leading_take_None leading_trim)

lemma length_trim_end: "length (trim_end s) \<le> length s"
  using trim_end_prefix [of s] by (metis le_add1 length_append)

end
