(* ===== verification/Agenda.thy ===== *)
theory Agenda
  imports Projector RustChars
begin

text \<open>
  The agenda of \<open>src/runtime/initiative/agenda.rs\<close>: from the projection and the ledger it
  selects what HEKATE could raise with the user, open questions of a conflict first, then
  commitments to follow up, then positions that newer observations may challenge.
\<close>

section \<open>Data\<close>

record AgendaCandidate =
  kind :: InitiativeKind
  content :: string
  rationale :: string
  source_entity :: EntityRef
  source_version :: u64
  source_event_ids :: "EventId list"
  target_principal_id :: PrincipalId
  as_of_revision :: u64
  fingerprint :: string

definition MAX_TEXT_BYTES :: nat where "MAX_TEXT_BYTES = 320"

definition MAX_SLEEP_CANDIDATES :: nat where "MAX_SLEEP_CANDIDATES = 8"

definition NON_TOPICAL_WORDS :: "string list" where
  "NON_TOPICAL_WORDS =
     [''about'', ''after'', ''also'', ''and'', ''are'', ''could'', ''does'', ''for'', ''from'',
      ''have'', ''into'', ''is'', ''its'', ''more'', ''should'', ''that'', ''the'', ''their'',
      ''this'', ''through'', ''with'', ''would'']"

type_synonym VerifiedLedger = "(EventId, ExperienceEvent \<times> u64) btree"

section \<open>The verified ledger\<close>

text \<open>\<open>enumerate()\<close> with sequence numbers from 1.\<close>

definition sequenced :: "'a list \<Rightarrow> ('a \<times> u64) list" where
  "sequenced xs = zip xs (map (\<lambda>n. of_nat n + 1) [0..<length xs])"

definition sequences :: "EventId list \<Rightarrow> (EventId, u64) btree" where
  "sequences ids = foldl (\<lambda>m (i, n). bt_insert i n m) [] (sequenced ids)"

definition enter_event ::
  "ext \<Rightarrow> (EventId, u64) btree \<Rightarrow> VerifiedLedger \<Rightarrow> ExperienceEvent \<Rightarrow> VerifiedLedger"
where
  "enter_event x sq l e =
     (case bt_get sq (ExperienceEvent.event_id e) of
        None \<Rightarrow> l
      | Some n \<Rightarrow>
          if verify_integrity x e = Inr True \<and> \<not> bt_contains l (ExperienceEvent.event_id e)
          then bt_insert (ExperienceEvent.event_id e) (e, n) l else l)"

definition verified_ledger ::
  "ext \<Rightarrow> CurrentState \<Rightarrow> ExperienceEvent list \<Rightarrow> VerifiedLedger option"
where
  "verified_ledger x s events =
     (if len_u64 (applied_events s) \<noteq> CurrentState.revision s then None
      else
        (let sq = sequences (applied_events s) in
         if length sq \<noteq> length (applied_events s) then None
         else
           (let l = foldl (enter_event x sq) [] events in
            if length l \<noteq> length sq then None else Some l)))"

text \<open>The last event of an entity's life that decodes to a value of its identifier.\<close>

definition later_payload ::
  "EntityKind \<Rightarrow> Uuid \<Rightarrow> (EventKind \<Rightarrow> bool) \<Rightarrow> (json \<Rightarrow> string + 'a) \<Rightarrow> ('a \<Rightarrow> Uuid) \<Rightarrow>
   (u64 \<times> ExperienceEvent \<times> 'a) option \<Rightarrow> ExperienceEvent \<times> u64 \<Rightarrow>
   (u64 \<times> ExperienceEvent \<times> 'a) option"
where
  "later_payload ek u life de pid latest entry =
     (case entry of (e, n) \<Rightarrow>
        if \<not> life (event_kind e) \<or> \<not> subject_is e ek u then latest
        else
          (case de (payload e) of
             Inl _ \<Rightarrow> latest
           | Inr v \<Rightarrow>
               if pid v \<noteq> u then latest
               else if (case latest of None \<Rightarrow> True | Some (m, _) \<Rightarrow> n > m)
               then Some (n, e, v) else latest))"

definition latest_entity_payload ::
  "VerifiedLedger \<Rightarrow> EntityKind \<Rightarrow> Uuid \<Rightarrow> (EventKind \<Rightarrow> bool) \<Rightarrow> (json \<Rightarrow> string + 'a) \<Rightarrow>
   ('a \<Rightarrow> Uuid) \<Rightarrow> (u64 \<times> ExperienceEvent \<times> 'a) option"
where
  "latest_entity_payload l ek u life de pid =
     foldl (later_payload ek u life de pid) None (bt_values l)"

definition current_position_sequence :: "ext \<Rightarrow> Position \<Rightarrow> VerifiedLedger \<Rightarrow> u64 option" where
  "current_position_sequence x p l =
     Option.bind (latest_entity_payload l EntityKind.Position (uuid (Position.id p))
         (\<lambda>k. k \<in> {PositionEstablished, PositionMaintained, PositionRecorded, PositionRevised,
                  PositionRetracted})
         (de_position x) (\<lambda>q. uuid (Position.id q)))
       (\<lambda>(n, _, q). if q = p then Some n else None)"

definition current_conflict_sequence :: "ext \<Rightarrow> Conflict \<Rightarrow> VerifiedLedger \<Rightarrow> u64 option" where
  "current_conflict_sequence x c l =
     Option.bind (latest_entity_payload l EntityKind.Conflict (uuid (Conflict.id c))
         (\<lambda>k. k \<in> {ConflictOpened, ConflictUpdated, ConflictResolved, ConflictRecorded})
         (de_conflict x) (\<lambda>d. uuid (Conflict.id d)))
       (\<lambda>(n, _, d). if d = c then Some n else None)"

definition current_commitment ::
  "ext \<Rightarrow> Commitment \<Rightarrow> VerifiedLedger \<Rightarrow> (u64 \<times> EventKind) option"
where
  "current_commitment x c l =
     Option.bind (latest_entity_payload l EntityKind.Commitment (uuid (Commitment.id c))
         (\<lambda>k. k \<in> {CommitmentCreated, CommitmentFulfilled})
         (de_commitment x) (\<lambda>d. uuid (Commitment.id d)))
       (\<lambda>(n, e, d). if d = c then Some (n, event_kind e) else None)"

section \<open>Making a candidate\<close>

definition bounded_text :: "string \<Rightarrow> string" where
  "bounded_text v0 =
     (let v = trim v0 in
      trim_end (take (floor_boundary v (min (length v) MAX_TEXT_BYTES)) v))"

definition make_candidate ::
  "ext \<Rightarrow> InitiativeKind \<Rightarrow> string \<Rightarrow> string \<Rightarrow> EntityRef \<Rightarrow> u64 \<Rightarrow> EventId list \<Rightarrow>
   PrincipalId \<Rightarrow> u64 \<Rightarrow> AgendaCandidate option"
where
  "make_candidate x k cont0 rat0 ent ver ids0 tgt as_of =
     (let ids = take MAX_CANDIDATE_SOURCES (dedup_by (\<lambda>a b. a = b) (sort ids0));
          cont = bounded_text cont0; rat = bounded_text rat0 in
      if ids = [] then None
      else if cont = [] \<or> rat = [] then None
      else Some \<lparr>AgendaCandidate.kind = k, content = cont, rationale = rat, source_entity = ent,
             source_version = ver, source_event_ids = ids, target_principal_id = tgt,
             as_of_revision = as_of,
             fingerprint = initiative_fingerprint x k ent ver tgt ids\<rparr>)"

text \<open>Newest first, then by identifier.\<close>

definition recency :: "EventId \<times> u64 \<Rightarrow> int \<times> EventId" where
  "recency v = (- uint (snd v), fst v)"

definition newest_sources :: "(EventId \<times> u64) list \<Rightarrow> EventId list" where
  "newest_sources vs =
     sort (map fst (take MAX_CANDIDATE_SOURCES
       (dedup_by (\<lambda>a b. fst a = fst b) (sort_key recency vs))))"

definition bounded_valid_event_ids ::
  "EventId list \<Rightarrow> VerifiedLedger \<Rightarrow> u64 option \<Rightarrow> EventId list"
where
  "bounded_valid_event_ids ids l before =
     newest_sources (filter_map (\<lambda>i.
       Option.bind (bt_get l i) (\<lambda>(_, n).
       if is_some_and before (\<lambda>b. n \<ge> b) then None else Some (i, n))) ids)"

section \<open>Open conflicts\<close>

definition participates ::
  "ext \<Rightarrow> CurrentState \<Rightarrow> VerifiedLedger \<Rightarrow> u64 \<Rightarrow> (Position \<Rightarrow> bool) \<Rightarrow> Conflict \<Rightarrow> bool"
where
  "participates x s l sq who c \<longleftrightarrow>
     (\<exists>i \<in> set (participant_positions c).
        is_some_and (bt_get (CurrentState.positions s) i) (\<lambda>p.
          who p \<and> is_some_and (current_position_sequence x p l) (\<lambda>n. n < sq)))"

definition conflict_candidate ::
  "ext \<Rightarrow> CurrentState \<Rightarrow> VerifiedLedger \<Rightarrow> PrincipalId \<Rightarrow> PrincipalId \<Rightarrow> Conflict \<Rightarrow>
   AgendaCandidate option"
where
  "conflict_candidate x s l hid uid c =
     (if Conflict.status c \<notin> {ConflictStatus.Open, ConflictStatus.Negotiating} then None
      else
        Option.bind (find (\<lambda>q. q \<noteq> []) (map trim (Conflict.unresolved_questions c))) (\<lambda>question.
        Option.bind (current_conflict_sequence x c l) (\<lambda>sq.
        if \<not> participates x s l sq (\<lambda>p. Position.principal_id p = hid \<and>
               Position.status p = PositionStatus.Active) c \<or>
           \<not> participates x s l sq (\<lambda>p. Position.principal_id p = uid) c
        then None
        else
          (let sources = bounded_valid_event_ids (Conflict.evidence_refs c) l (Some sq) in
           if sources = [] then None
           else make_candidate x Question question
                  (''An open conflict about '' @ trim (Conflict.subject c) @
                   '' has an unresolved question backed by verified events.'')
                  \<lparr>EntityRef.kind = EntityKind.Conflict, id = uuid (Conflict.id c)\<rparr>
                  (ucast (Conflict.revision c)) sources uid (CurrentState.revision s)))))"

definition add_conflict_candidates ::
  "ext \<Rightarrow> CurrentState \<Rightarrow> VerifiedLedger \<Rightarrow> PrincipalId \<Rightarrow> PrincipalId \<Rightarrow> AgendaCandidate list"
where
  "add_conflict_candidates x s l hid uid =
     filter_map (conflict_candidate x s l hid uid) (bt_values (CurrentState.conflicts s))"

section \<open>Open commitments\<close>

definition commitment_candidate ::
  "ext \<Rightarrow> CurrentState \<Rightarrow> VerifiedLedger \<Rightarrow> PrincipalId \<Rightarrow> PrincipalId \<Rightarrow> Commitment \<Rightarrow>
   AgendaCandidate option"
where
  "commitment_candidate x s l hid uid c =
     (if Commitment.status c \<noteq> CommitmentStatus.Open \<or> debtor_principal_id c \<noteq> hid \<or>
         creditor_principal_id c \<noteq> uid then None
      else
        Option.bind (current_commitment x c l) (\<lambda>(ver, k).
        if k \<noteq> CommitmentCreated then None
        else
          Option.bind (Commitment.source_event_id c) (\<lambda>i.
          let sources = bounded_valid_event_ids [i] l (Some ver) in
          if sources = [] then None
          else make_candidate x FollowUp
                 (''Can I follow up on my commitment: '' @ promise c @ ''?'')
                 ''HEKATE has an open commitment to this principal with a verified source event.''
                 \<lparr>EntityRef.kind = EntityKind.Commitment, id = uuid (Commitment.id c)\<rparr>
                 ver sources uid (CurrentState.revision s))))"

definition add_commitment_candidates ::
  "ext \<Rightarrow> CurrentState \<Rightarrow> VerifiedLedger \<Rightarrow> PrincipalId \<Rightarrow> PrincipalId \<Rightarrow> AgendaCandidate list"
where
  "add_commitment_candidates x s l hid uid =
     filter_map (commitment_candidate x s l hid uid) (bt_values (CurrentState.commitments s))"

section \<open>Positions to review\<close>

definition tokens :: "ext \<Rightarrow> (string \<Rightarrow> bool) \<Rightarrow> string \<Rightarrow> string list" where
  "tokens x alnum t =
     map (to_lowercase x) (filter (\<lambda>w. w \<noteq> []) (split_at (\<lambda>c. \<not> alnum c) t))"

text \<open>A \<open>BTreeSet\<close> of words, used for membership, size and intersection only.\<close>

definition position_terms :: "ext \<Rightarrow> (string \<Rightarrow> bool) \<Rightarrow> Position \<Rightarrow> string set" where
  "position_terms x alnum p =
     set (filter (\<lambda>w. length (utf8_chars w) \<ge> 4 \<and> w \<notin> set NON_TOPICAL_WORDS)
       (concat (map (tokens x alnum)
         (Position.subject p # Position.reasons p @ Position.reconsideration_conditions p))))"

definition observation_related ::
  "ext \<Rightarrow> (string \<Rightarrow> bool) \<Rightarrow> string set \<Rightarrow> string \<Rightarrow> bool"
where
  "observation_related x alnum terms t \<longleftrightarrow>
     card (terms \<inter> set (tokens x alnum t)) \<ge> min (card terms) 2"

text \<open>A projected observation, recorded after the position, about its topic.\<close>

definition related_observation ::
  "ext \<Rightarrow> (string \<Rightarrow> bool) \<Rightarrow> CurrentState \<Rightarrow> string set \<Rightarrow> u64 \<Rightarrow> ExperienceEvent \<times> u64 \<Rightarrow>
   (EventId \<times> u64) option"
where
  "related_observation x alnum s terms after entry =
     (case entry of (e, n) \<Rightarrow>
        if n \<le> after \<or> event_kind e \<notin> {ObservationRecorded, UserMessageReceived} then None
        else
          (case de_observation x (payload e) of
             Inl _ \<Rightarrow> None
           | Inr obs \<Rightarrow>
               if \<not> subject_is e EntityKind.Observation (uuid (Observation.id obs)) \<or>
                  ExperienceEvent.actor_id e \<noteq> Observation.actor_id obs \<or>
                  bt_get (observations s) (Observation.id obs) \<noteq> Some obs \<or>
                  \<not> observation_related x alnum terms (Observation.content obs)
               then None else Some (ExperienceEvent.event_id e, n)))"

definition position_candidate ::
  "ext \<Rightarrow> (string \<Rightarrow> bool) \<Rightarrow> CurrentState \<Rightarrow> VerifiedLedger \<Rightarrow> PrincipalId \<Rightarrow> PrincipalId \<Rightarrow>
   Position \<Rightarrow> AgendaCandidate option"
where
  "position_candidate x alnum s l hid uid p =
     (if Position.principal_id p \<noteq> hid \<or> Position.status p \<noteq> PositionStatus.Active then None
      else
        Option.bind (current_position_sequence x p l) (\<lambda>sq.
        let terms = position_terms x alnum p in
        if terms = {} then None
        else
          (let sources = newest_sources
                 (filter_map (related_observation x alnum s terms sq) (bt_values l)) in
           if sources = [] then None
           else make_candidate x InitiativeKind.Challenge
                  (''Could new evidence change HEKATE'' @ [CHR 0x27] @ ''s position on '' @
                   trim (Position.subject p) @ ''?'')
                  ''A related observation arrived after this active HEKATE position was recorded.''
                  \<lparr>EntityRef.kind = EntityKind.Position, id = uuid (Position.id p)\<rparr>
                  (ucast (Position.version p)) sources uid (CurrentState.revision s))))"

definition add_position_review_candidates ::
  "ext \<Rightarrow> (string \<Rightarrow> bool) \<Rightarrow> CurrentState \<Rightarrow> VerifiedLedger \<Rightarrow> PrincipalId \<Rightarrow> PrincipalId \<Rightarrow>
   AgendaCandidate list"
where
  "add_position_review_candidates x alnum s l hid uid =
     filter_map (position_candidate x alnum s l hid uid) (bt_values (CurrentState.positions s))"

section \<open>The selection\<close>

fun priority :: "InitiativeKind \<Rightarrow> nat" where
  "priority Question = 0"
| "priority FollowUp = 1"
| "priority InitiativeKind.Challenge = 2"

definition agenda_order :: "AgendaCandidate \<Rightarrow> nat \<times> Uuid \<times> u64 \<times> string" where
  "agenda_order c =
     (priority (AgendaCandidate.kind c), EntityRef.id (AgendaCandidate.source_entity c),
      AgendaCandidate.source_version c, AgendaCandidate.fingerprint c)"

definition ranked :: "AgendaCandidate list \<Rightarrow> AgendaCandidate list" where
  "ranked cs =
     take MAX_SLEEP_CANDIDATES
       (dedup_by (\<lambda>a b. AgendaCandidate.fingerprint a = AgendaCandidate.fingerprint b)
         (sort_key agenda_order cs))"

definition has_kind :: "CurrentState \<Rightarrow> PrincipalId \<Rightarrow> PrincipalKind \<Rightarrow> bool" where
  "has_kind s i k \<longleftrightarrow> is_some_and (bt_get (principals s) i) (\<lambda>p. Principal.kind p = k)"

definition select ::
  "ext \<Rightarrow> (string \<Rightarrow> bool) \<Rightarrow> CurrentState \<Rightarrow> ExperienceEvent list \<Rightarrow> PrincipalId \<Rightarrow>
   PrincipalId \<Rightarrow> AgendaCandidate list"
where
  "select x alnum s events hid uid =
     (if hid = uid \<or> \<not> has_kind s hid Hekate \<or> \<not> has_kind s uid User then []
      else
        (case verified_ledger x s events of
           None \<Rightarrow> []
         | Some l \<Rightarrow>
             ranked (add_conflict_candidates x s l hid uid @ add_commitment_candidates x s l hid uid @
               add_position_review_candidates x alnum s l hid uid)))"

end
