(* ===== verification/InitiativeService.thy ===== *)
theory InitiativeService
  imports Agenda Lease
begin

text \<open>
  The initiative service of \<open>src/runtime/initiative/service.rs\<close> and the pace of its worker
  (\<open>worker.rs\<close>). Every access to the database is a reading of its own: \<open>rd n\<close> is the database
  at the \<open>n\<close>-th access of an operation and \<open>clk\<close> the clock of the lease query, so that other
  processes may commit in between; the last reading is the one the commit finds.
\<close>

section \<open>Results and errors\<close>

datatype InitiativeRunResult =
    NoCandidate
  | Duplicate string
  | Deferred
  | Proposed InitiativeProposal
  | Dismissed InitiativeProposal

datatype InitiativeError =
    Storage StorageError
  | Projection ProjectionError
  | Event string
  | InvalidCandidate string
  | NotFound Uuid
  | StaleSnapshot
  | ProjectionMismatch

section \<open>Reading\<close>

definition list_initiatives ::
  "ext \<Rightarrow> codec \<Rightarrow> Db \<Rightarrow> PrincipalId \<Rightarrow> InitiativeError + InitiativeProposal list"
where
  "list_initiatives x c db uid =
     res_bind (map_err Storage (load_state x c db)) (\<lambda>s.
     Inr (filter (\<lambda>p. InitiativeProposal.target_principal_id p = uid) (bt_values (initiatives s))))"

definition ready_for_display ::
  "ext \<Rightarrow> codec \<Rightarrow> Db \<Rightarrow> PrincipalId \<Rightarrow> InitiativeError + InitiativeProposal option"
where
  "ready_for_display x c db uid =
     res_bind (list_initiatives x c db uid) (\<lambda>ps.
     Inr (find (\<lambda>p. InitiativeProposal.status p = Ready) ps))"

definition snapshot_of ::
  "ext \<Rightarrow> codec \<Rightarrow> Db \<Rightarrow> Db \<Rightarrow> InitiativeError + CurrentState \<times> ExperienceEvent list"
where
  "snapshot_of x c read1 read2 =
     res_bind (map_err Storage (load_state x c read1)) (\<lambda>s.
     res_bind (map_err Storage (load_events x c read2)) (\<lambda>events.
     if CurrentState.revision s \<noteq> len_u64 events \<or>
        applied_events s \<noteq> map ExperienceEvent.event_id events
     then Inl StaleSnapshot
     else
       res_bind (map_err Projection (replay x events)) (\<lambda>replayed.
       if replayed \<noteq> s then Inl ProjectionMismatch else Inr (s, events))))"

section \<open>Validation\<close>

text \<open>\<open>max_by_key\<close>: the last of the greatest.\<close>

definition max_by_key :: "('a \<Rightarrow> 'k::linorder) \<Rightarrow> 'a list \<Rightarrow> 'a option" where
  "max_by_key f vs =
     foldl (\<lambda>m v. case m of None \<Rightarrow> Some v | Some w \<Rightarrow> if f v \<ge> f w then Some v else m) None vs"

definition commitment_event ::
  "ext \<Rightarrow> EntityRef \<Rightarrow> ExperienceEvent \<times> u64 \<Rightarrow> (u64 \<times> ExperienceEvent \<times> Commitment) option"
where
  "commitment_event x r entry =
     (case entry of (e, n) \<Rightarrow>
        if ExperienceEvent.subject e = Some r \<and>
           event_kind e \<in> {CommitmentCreated, CommitmentFulfilled}
        then
          (case de_commitment x (payload e) of
             Inl _ \<Rightarrow> None
           | Inr c \<Rightarrow> if uuid (Commitment.id c) = EntityRef.id r then Some (n, e, c) else None)
        else None)"

definition source_version_of ::
  "ext \<Rightarrow> CurrentState \<Rightarrow> ExperienceEvent list \<Rightarrow> EntityRef \<Rightarrow> u64 option"
where
  "source_version_of x s events r =
     (let u = EntityRef.id r in
      if EntityRef.kind r = EntityKind.Commitment
      then
        Option.bind (bt_get (CurrentState.commitments s) (from_uuid u)) (\<lambda>c.
        Option.bind (max_by_key fst (filter_map (commitment_event x r) (sequenced events)))
          (\<lambda>(n, e, projected).
          if verify_integrity x e \<noteq> Inr True \<or> projected \<noteq> c \<or> event_kind e \<noteq> CommitmentCreated
          then None else Some n))
      else
        (let explicit =
           (case EntityRef.kind r of
              EntityKind.IdentityVersion \<Rightarrow>
                map_option (\<lambda>i. ucast (IdentityVersion.version i))
                  (bt_get (identity_versions s) (from_uuid u))
            | EntityKind.Position \<Rightarrow>
                map_option (\<lambda>p. ucast (Position.version p))
                  (bt_get (CurrentState.positions s) (from_uuid u))
            | EntityKind.Conflict \<Rightarrow>
                map_option (\<lambda>c. ucast (Conflict.revision c))
                  (bt_get (CurrentState.conflicts s) (from_uuid u))
            | _ \<Rightarrow> None) in
         case explicit of
           Some v \<Rightarrow> Some v
         | None \<Rightarrow>
             (let versions = len_u64 (filter (\<lambda>e. ExperienceEvent.subject e = Some r) events) in
              if versions > 0 then Some versions else None)))"

definition goal_belongs_to :: "CurrentState \<Rightarrow> PrincipalId \<Rightarrow> GoalId option \<Rightarrow> bool" where
  "goal_belongs_to s tgt gid \<longleftrightarrow>
     is_some_and (Option.bind gid (bt_get (CurrentState.goals s))) (\<lambda>g.
       owner_principal_id g = tgt \<or> tgt \<in> set (Goal.participants g))"

definition task_belongs_to :: "CurrentState \<Rightarrow> PrincipalId \<Rightarrow> TaskId option \<Rightarrow> bool" where
  "task_belongs_to s tgt tid \<longleftrightarrow>
     is_some_and (Option.bind tid (bt_get (CurrentState.tasks s))) (\<lambda>t.
       goal_belongs_to s tgt (Task.goal_id t))"

definition source_owned_by ::
  "CurrentState \<Rightarrow> EntityRef \<Rightarrow> PrincipalId \<Rightarrow> PrincipalId \<Rightarrow> bool"
where
  "source_owned_by s r tgt hid \<longleftrightarrow>
     (let u = EntityRef.id r in
      case EntityRef.kind r of
        EntityKind.Principal \<Rightarrow> u = uuid tgt \<and> has_kind s tgt User
      | EntityKind.IdentityVersion \<Rightarrow>
          is_some_and (bt_get (identity_versions s) (from_uuid u))
            (\<lambda>i. IdentityVersion.principal_id i = tgt)
      | EntityKind.Relationship \<Rightarrow>
          is_some_and (bt_get (CurrentState.relationships s) (from_uuid u))
            (\<lambda>i. tgt \<in> set (Relationship.participants i))
      | EntityKind.Observation \<Rightarrow>
          is_some_and (bt_get (observations s) (from_uuid u)) (\<lambda>i. Observation.actor_id i = tgt)
      | EntityKind.Goal \<Rightarrow> goal_belongs_to s tgt (Some (from_uuid u))
      | EntityKind.Task \<Rightarrow> task_belongs_to s tgt (Some (from_uuid u))
      | EntityKind.Run \<Rightarrow>
          is_some_and (bt_get (CurrentState.runs s) (from_uuid u))
            (\<lambda>rn. task_belongs_to s tgt (Run.task_id rn))
      | EntityKind.WorkingState \<Rightarrow>
          is_some_and (find (\<lambda>w. uuid (WorkingState.id w) = u) (bt_values (working_states s)))
            (\<lambda>w. is_some_and (bt_get (CurrentState.runs s) (WorkingState.run_id w))
              (\<lambda>rn. task_belongs_to s tgt (Run.task_id rn)))
      | EntityKind.Decision \<Rightarrow>
          is_some_and (bt_get (decisions s) (from_uuid u))
            (\<lambda>d. Decision.target_principal_id d = Some tgt)
      | EntityKind.Position \<Rightarrow>
          is_some_and (bt_get (CurrentState.positions s) (from_uuid u))
            (\<lambda>p. Position.principal_id p = tgt \<or> Position.principal_id p = hid)
      | EntityKind.Conflict \<Rightarrow>
          is_some_and (bt_get (CurrentState.conflicts s) (from_uuid u)) (\<lambda>c.
            \<exists>i \<in> set (participant_positions c).
              is_some_and (bt_get (CurrentState.positions s) i) (\<lambda>p. Position.principal_id p = tgt))
      | EntityKind.Commitment \<Rightarrow>
          is_some_and (bt_get (CurrentState.commitments s) (from_uuid u))
            (\<lambda>c. debtor_principal_id c = tgt \<or> creditor_principal_id c = tgt)
      | EntityKind.MemoryCandidate \<Rightarrow>
          is_some_and (bt_get (CurrentState.memory_candidates s) (from_uuid u))
            (\<lambda>m. MemoryCandidate.subject_principal_id m = Some tgt)
      | EntityKind.Memory \<Rightarrow>
          is_some_and (bt_get (active_memories s) (from_uuid u))
            (\<lambda>m. ActiveMemory.subject_principal_id m = Some tgt)
      | _ \<Rightarrow> False)"

fun check_ledger :: "ext \<Rightarrow> ExperienceEvent list \<Rightarrow> InitiativeError + unit" where
  "check_ledger x [] = Inr ()"
| "check_ledger x (e # es) =
     res_bind (map_err Event (verify_integrity x e)) (\<lambda>ok.
     if \<not> ok then Inl (InvalidCandidate ''ledger event integrity check failed'')
     else check_ledger x es)"

definition validate_agenda_candidate ::
  "ext \<Rightarrow> (string \<Rightarrow> bool) \<Rightarrow> CurrentState \<Rightarrow> ExperienceEvent list \<Rightarrow> AgendaCandidate \<Rightarrow>
   PrincipalId \<Rightarrow> PrincipalId \<Rightarrow> InitiativeError + unit"
where
  "validate_agenda_candidate x alnum s events k hid uid =
     (if \<not> has_kind s hid Hekate
      then Inl (InvalidCandidate ''configured HEKATE principal is missing or invalid'')
      else if \<not> has_kind s uid User
      then Inl (InvalidCandidate ''configured target principal is missing or invalid'')
      else if AgendaCandidate.target_principal_id k \<noteq> uid
      then Inl (InvalidCandidate ''candidate target is not the configured user'')
      else if blank (AgendaCandidate.content k) \<or> blank (AgendaCandidate.rationale k)
      then Inl (InvalidCandidate ''content and rationale must be non-empty'')
      else if AgendaCandidate.source_event_ids k = []
      then Inl (InvalidCandidate ''candidate has no evidence events'')
      else if AgendaCandidate.fingerprint k \<noteq>
        initiative_fingerprint x (AgendaCandidate.kind k) (AgendaCandidate.source_entity k)
          (AgendaCandidate.source_version k) (AgendaCandidate.target_principal_id k)
          (AgendaCandidate.source_event_ids k)
      then Inl (InvalidCandidate ''candidate fingerprint does not match its provenance'')
      else
        res_bind (check_ledger x events) (\<lambda>_.
        if \<exists>i \<in> set (AgendaCandidate.source_event_ids k).
             i \<notin> ExperienceEvent.event_id ` set events
        then Inl (InvalidCandidate ''evidence event is not in the current ledger'')
        else if \<not> source_owned_by s (AgendaCandidate.source_entity k) uid hid
        then Inl (InvalidCandidate ''source entity is not owned by or addressed to the target'')
        else
          (case source_version_of x s events (AgendaCandidate.source_entity k) of
             None \<Rightarrow> Inl (InvalidCandidate ''source entity is unsupported or no longer exists'')
           | Some v \<Rightarrow>
               if AgendaCandidate.source_version k \<noteq> v
               then Inl (InvalidCandidate ''source entity version changed'')
               else if k \<notin> set (select x alnum s events hid uid)
               then Inl (InvalidCandidate
                      ''candidate does not match the current verified Agenda selection'')
               else Inr ())))"

section \<open>Proposing and dismissing\<close>

definition initiative_event ::
  "ext \<Rightarrow> (InitiativeProposal \<Rightarrow> string + json) \<Rightarrow> EventId \<Rightarrow> string \<Rightarrow> string \<Rightarrow> PrincipalId \<Rightarrow>
   EventKind \<Rightarrow> InitiativeProposal \<Rightarrow> EventId option \<Rightarrow> string + ExperienceEvent"
where
  "initiative_event x to_value eid t1 t2 actor k p caus =
     res_bind (to_value p) (\<lambda>v.
     new_with_id x t1 t2 eid actor k
       (Some \<lparr>EntityRef.kind = EntityKind.Initiative, id = InitiativeProposal.id p\<rparr>) v
       \<lparr>EventSource.source_type = ''initiative'',
        source_ref = Some (uuid_text x (InitiativeProposal.id p))\<rparr>
       caus (Some (uuid_text x (InitiativeProposal.id p))) None)"

fun revision_conflict :: "ProjectionError \<Rightarrow> bool" where
  "revision_conflict (ProjectionError.StaleContext ex ac) = True"
| "revision_conflict (ProjectionError.Storage (StorageError.StaleContext ex ac)) = True"
| "revision_conflict (ProjectionError.Storage (RevisionConflict ex ac)) = True"
| "revision_conflict _ = False"

definition proposal_of :: "Uuid \<Rightarrow> string \<Rightarrow> AgendaCandidate \<Rightarrow> InitiativeProposal" where
  "proposal_of i t k =
     \<lparr>InitiativeProposal.id = i, kind = AgendaCandidate.kind k,
      content = AgendaCandidate.content k, rationale = AgendaCandidate.rationale k,
      source_entity = AgendaCandidate.source_entity k,
      source_version = AgendaCandidate.source_version k,
      source_event_ids = AgendaCandidate.source_event_ids k,
      target_principal_id = AgendaCandidate.target_principal_id k,
      as_of_revision = AgendaCandidate.as_of_revision k,
      fingerprint = AgendaCandidate.fingerprint k, status = InitiativeStatus.Proposed,
      created_at = t\<rparr>"

definition fingerprint_taken :: "CurrentState \<Rightarrow> AgendaCandidate \<Rightarrow> bool" where
  "fingerprint_taken s k \<longleftrightarrow>
     (\<exists>p \<in> set (bt_values (initiatives s)).
        InitiativeProposal.fingerprint p = AgendaCandidate.fingerprint k)"

definition propose_candidate ::
  "ext \<Rightarrow> (string \<Rightarrow> bool) \<Rightarrow> (InitiativeProposal \<Rightarrow> string + json) \<Rightarrow> codec \<Rightarrow>
   (stage \<Rightarrow> string option) \<Rightarrow> (nat \<Rightarrow> Uuid) \<Rightarrow> (nat \<Rightarrow> string) \<Rightarrow> (nat \<Rightarrow> Db) \<Rightarrow> i64 \<Rightarrow>
   PrincipalId \<Rightarrow> PrincipalId \<Rightarrow> AgendaCandidate \<Rightarrow> InitiativeError + InitiativeRunResult \<times> Db"
where
  "propose_candidate x alnum to_value c flt new now rd clk hid uid k =
     (case snapshot_of x c (rd 0) (rd 1) of
        Inl StaleSnapshot \<Rightarrow> Inr (Deferred, rd 1)
      | Inl err \<Rightarrow> Inl err
      | Inr (s, events) \<Rightarrow>
          if fingerprint_taken s k
          then Inr (Duplicate (AgendaCandidate.fingerprint k), rd 1)
          else if AgendaCandidate.as_of_revision k \<noteq> CurrentState.revision s
          then Inr (Deferred, rd 1)
          else
            res_bind (validate_agenda_candidate x alnum s events k hid uid) (\<lambda>_.
            if has_active_foreground_lease clk (rd 2) then Inr (Deferred, rd 2)
            else
              (let p = proposal_of (new 0) (now 0) k;
                   p' = p\<lparr>InitiativeProposal.status := Ready\<rparr> in
               res_bind (map_err Event (initiative_event x to_value (from_uuid (new 1)) (now 1)
                   (now 2) hid InitiativeProposed p None)) (\<lambda>e1.
               res_bind (map_err Event (initiative_event x to_value (from_uuid (new 2)) (now 3)
                   (now 4) hid InitiativeReadied p' (Some (ExperienceEvent.event_id e1)))) (\<lambda>e2.
               case record_batch x c flt (rd 3) [e1, e2] (Some (CurrentState.revision s)) None of
                 Inr r \<Rightarrow> Inr (Proposed p', snd r)
               | Inl err \<Rightarrow>
                   if revision_conflict err then Inr (Deferred, rd 3)
                   else Inl (Projection err))))))"

definition run_once ::
  "ext \<Rightarrow> (string \<Rightarrow> bool) \<Rightarrow> (InitiativeProposal \<Rightarrow> string + json) \<Rightarrow> codec \<Rightarrow>
   (stage \<Rightarrow> string option) \<Rightarrow> (nat \<Rightarrow> Uuid) \<Rightarrow> (nat \<Rightarrow> string) \<Rightarrow> (nat \<Rightarrow> Db) \<Rightarrow> (nat \<Rightarrow> i64) \<Rightarrow>
   PrincipalId \<Rightarrow> PrincipalId \<Rightarrow> InitiativeError + InitiativeRunResult \<times> Db"
where
  "run_once x alnum to_value c flt new now rd clk hid uid =
     (if has_active_foreground_lease (clk 0) (rd 0) then Inr (Deferred, rd 0)
      else
        (case snapshot_of x c (rd 1) (rd 2) of
           Inl StaleSnapshot \<Rightarrow> Inr (Deferred, rd 2)
         | Inl err \<Rightarrow> Inl err
         | Inr (s, events) \<Rightarrow>
             (let ks = select x alnum s events hid uid in
              case find (\<lambda>k. \<not> fingerprint_taken s k) ks of
                None \<Rightarrow>
                  (case ks of
                     k # _ \<Rightarrow> Inr (Duplicate (AgendaCandidate.fingerprint k), rd 2)
                   | [] \<Rightarrow> Inr (NoCandidate, rd 2))
              | Some k \<Rightarrow>
                  propose_candidate x alnum to_value c flt new now (\<lambda>n. rd (n + 3)) (clk 1)
                    hid uid k)))"

definition dismiss ::
  "ext \<Rightarrow> (InitiativeProposal \<Rightarrow> string + json) \<Rightarrow> codec \<Rightarrow> (stage \<Rightarrow> string option) \<Rightarrow>
   (nat \<Rightarrow> Uuid) \<Rightarrow> (nat \<Rightarrow> string) \<Rightarrow> (nat \<Rightarrow> Db) \<Rightarrow> PrincipalId \<Rightarrow> Uuid \<Rightarrow>
   InitiativeError + InitiativeRunResult \<times> Db"
where
  "dismiss x to_value c flt new now rd uid i =
     res_bind (snapshot_of x c (rd 0) (rd 1)) (\<lambda>(s, _).
     case bt_get (initiatives s) i of
       None \<Rightarrow> Inl (NotFound i)
     | Some current \<Rightarrow>
         if InitiativeProposal.target_principal_id current \<noteq> uid
         then Inl (InvalidCandidate ''initiative is addressed to another principal'')
         else if InitiativeProposal.status current = InitiativeStatus.Dismissed
         then Inr (Dismissed current, rd 1)
         else
           (let p = current\<lparr>InitiativeProposal.status := InitiativeStatus.Dismissed\<rparr> in
            res_bind (map_err Event (initiative_event x to_value (from_uuid (new 0)) (now 0) (now 1)
                uid InitiativeDismissed p None)) (\<lambda>e.
            case record_batch x c flt (rd 2) [e] (Some (CurrentState.revision s)) None of
              Inr r \<Rightarrow> Inr (Dismissed p, snd r)
            | Inl err \<Rightarrow>
                if revision_conflict err then Inr (Deferred, rd 2) else Inl (Projection err))))"

section \<open>The worker\<close>

text \<open>A \<open>Duration\<close> is its number of nanoseconds, at most \<open>2 ^ 64\<close> seconds.\<close>

type_synonym Duration = nat

definition DURATION_MAX :: Duration where "DURATION_MAX = (2 ^ 64 - 1) * 10 ^ 9 + 999999999"

definition duration_checked_add :: "Duration \<Rightarrow> Duration \<Rightarrow> Duration option" where
  "duration_checked_add a b = (if a + b \<le> DURATION_MAX then Some (a + b) else None)"

record InitiativeWorkerConfig =
  idle_interval :: Duration
  completed_interval :: Duration
  deferred_interval :: Duration
  initial_error_backoff :: Duration
  max_error_backoff :: Duration

definition default_worker_config :: InitiativeWorkerConfig where
  "default_worker_config =
     \<lparr>idle_interval = 300 * 10 ^ 9, completed_interval = 30 * 10 ^ 9,
      deferred_interval = 60 * 10 ^ 9, initial_error_backoff = 30 * 10 ^ 9,
      max_error_backoff = 900 * 10 ^ 9\<rparr>"

definition config_valid :: "InitiativeWorkerConfig \<Rightarrow> bool" where
  "config_valid cfg \<longleftrightarrow>
     \<not> (\<exists>d \<in> {idle_interval cfg, completed_interval cfg, deferred_interval cfg,
             initial_error_backoff cfg, max_error_backoff cfg}. d = 0) \<and>
     \<not> max_error_backoff cfg < initial_error_backoff cfg"

datatype InitiativeWorkerOutcome =
    DeferredForeground
  | Ran InitiativeRunResult
  | Failed string

definition run_cycle ::
  "(InitiativeError \<Rightarrow> string) \<Rightarrow> ext \<Rightarrow> (string \<Rightarrow> bool) \<Rightarrow>
   (InitiativeProposal \<Rightarrow> string + json) \<Rightarrow> codec \<Rightarrow> (stage \<Rightarrow> string option) \<Rightarrow>
   (nat \<Rightarrow> Uuid) \<Rightarrow> (nat \<Rightarrow> string) \<Rightarrow> (nat \<Rightarrow> Db) \<Rightarrow> (nat \<Rightarrow> i64) \<Rightarrow>
   PrincipalId \<Rightarrow> PrincipalId \<Rightarrow> InitiativeWorkerOutcome"
where
  "run_cycle error_text x alnum to_value c flt new now rd clk hid uid =
     (if has_active_foreground_lease (clk 0) (rd 0) then DeferredForeground
      else
        (case run_once x alnum to_value c flt new now (\<lambda>n. rd (Suc n)) (\<lambda>n. clk (Suc n)) hid uid of
           Inr r \<Rightarrow> Ran (fst r)
         | Inl err \<Rightarrow> Failed (error_text err)))"

fun backoff_from :: "Duration \<Rightarrow> Duration \<Rightarrow> nat \<Rightarrow> Duration" where
  "backoff_from maximum delay 0 = delay"
| "backoff_from maximum delay (Suc n) =
     (let d = min (unwrap_or maximum (duration_checked_add delay delay)) maximum in
      if d = maximum then d else backoff_from maximum d n)"

definition bounded_backoff :: "Duration \<Rightarrow> Duration \<Rightarrow> u32 \<Rightarrow> Duration" where
  "bounded_backoff initial maximum exponent = backoff_from maximum initial (unat exponent)"

text \<open>The policy's counter of consecutive failures, and the delay after an outcome.\<close>

fun next_delay ::
  "InitiativeWorkerConfig \<Rightarrow> u32 \<Rightarrow> InitiativeWorkerOutcome \<Rightarrow> u32 \<times> Duration"
where
  "next_delay cfg fails (Failed err) =
     (saturating_add fails 1,
      bounded_backoff (initial_error_backoff cfg) (max_error_backoff cfg) fails)"
| "next_delay cfg fails DeferredForeground = (0, deferred_interval cfg)"
| "next_delay cfg fails (Ran r) =
     (0, case r of
           Deferred \<Rightarrow> deferred_interval cfg
         | Proposed p \<Rightarrow> completed_interval cfg
         | Dismissed p \<Rightarrow> completed_interval cfg
         | NoCandidate \<Rightarrow> idle_interval cfg
         | Duplicate f \<Rightarrow> idle_interval cfg)"

text \<open>The delays of the worker's loop over the outcomes of its cycles until shutdown.\<close>

fun worker_delays ::
  "InitiativeWorkerConfig \<Rightarrow> u32 \<Rightarrow> InitiativeWorkerOutcome list \<Rightarrow> Duration list"
where
  "worker_delays cfg fails [] = []"
| "worker_delays cfg fails (r # rs) =
     (case next_delay cfg fails r of (fails', d) \<Rightarrow> d # worker_delays cfg fails' rs)"

end
