(* ===== verification/StateTyping.thy ===== *)
theory StateTyping
  imports Projector ClaimHistory InitiativeHistory PositionHistory MaterializationHistory
begin

text \<open>
  The typing of the whole projected state: to the maps of the records come those whose
  handlers check what they store and the four that keep the outcome of a candidate under the
  candidate's identifier.
\<close>

section \<open>The records\<close>

text \<open>
  The typing of a projected state: every map is in key order and keeps each record under the
  record's own identifier. This theory proves it for the maps whose handlers store what they
  decode; the maps of the checked handlers have it as part of their own invariants.
\<close>

definition keyed :: "('v \<Rightarrow> 'k) \<Rightarrow> ('k::linorder, 'v) btree \<Rightarrow> bool" where
  "keyed key m \<longleftrightarrow> bt_wf m \<and> (\<forall>k v. bt_get m k = Some v \<longrightarrow> key v = k)"

lemma keyed_Nil [simp]: "keyed key []"
  by (simp add: keyed_def)

lemma keyed_insert_id [simp]: "keyed key m \<Longrightarrow> k = key v \<Longrightarrow> keyed key (bt_insert k v m)"
  by (simp add: keyed_def)

lemma keyed_modify: "keyed key m \<Longrightarrow> (\<And>v. key (f v) = key v) \<Longrightarrow> keyed key (bt_modify k f m)"
  by (auto simp: keyed_def split: if_splits)

lemma keyed_map_values: "keyed key m \<Longrightarrow> (\<And>v. key (f v) = key v) \<Longrightarrow> keyed key (bt_map_values f m)"
  by (auto simp: keyed_def)

lemma keyed_values: "keyed key m \<Longrightarrow> v \<in> set (bt_values m) \<longleftrightarrow> bt_get m (key v) = Some v"
  by (auto simp: keyed_def bt_values_get)

definition records_wf :: "CurrentState \<Rightarrow> bool" where
  "records_wf s \<longleftrightarrow>
     keyed Principal.id (principals s) \<and> keyed IdentityVersion.id (identity_versions s) \<and>
     keyed Relationship.id (CurrentState.relationships s) \<and> keyed Goal.id (CurrentState.goals s) \<and>
     keyed Task.id (CurrentState.tasks s) \<and> keyed Run.id (CurrentState.runs s) \<and>
     keyed Attempt.id (attempts s) \<and> keyed WorkingState.run_id (working_states s) \<and>
     keyed Conflict.id (CurrentState.conflicts s) \<and>
     keyed Commitment.id (CurrentState.commitments s) \<and> keyed Observation.id (observations s) \<and>
     keyed observation_id (focus_resolutions s) \<and> keyed Decision.id (decisions s) \<and>
     keyed ActionIntent.id (action_intents s) \<and> keyed Operation.id (operations s) \<and>
     keyed Artifact.id (CurrentState.artifacts s) \<and>
     keyed MemoryCandidate.id (CurrentState.memory_candidates s) \<and>
     keyed ActiveMemory.id (active_memories s) \<and> keyed Approval.id (approvals s) \<and>
     keyed Receipt.id (receipts s) \<and> keyed Verification.id (verifications s)"

lemma records_wf_insert:
  assumes "records_wf s"
  shows "keyed Principal.id m1 \<Longrightarrow> records_wf (s\<lparr>principals := m1\<rparr>)"
    and "keyed Relationship.id m2 \<Longrightarrow> records_wf (s\<lparr>CurrentState.relationships := m2\<rparr>)"
    and "keyed Observation.id m3 \<Longrightarrow> records_wf (s\<lparr>observations := m3\<rparr>)"
    and "keyed Goal.id m4 \<Longrightarrow> records_wf (s\<lparr>CurrentState.goals := m4\<rparr>)"
    and "keyed Task.id m5 \<Longrightarrow> records_wf (s\<lparr>CurrentState.tasks := m5\<rparr>)"
    and "keyed Run.id m6 \<Longrightarrow> records_wf (s\<lparr>CurrentState.runs := m6\<rparr>)"
    and "keyed Attempt.id m7 \<Longrightarrow> records_wf (s\<lparr>attempts := m7\<rparr>)"
    and "keyed Decision.id m8 \<Longrightarrow> records_wf (s\<lparr>decisions := m8\<rparr>)"
    and "keyed Commitment.id m9 \<Longrightarrow> records_wf (s\<lparr>CurrentState.commitments := m9\<rparr>)"
    and "keyed ActionIntent.id m10 \<Longrightarrow> records_wf (s\<lparr>action_intents := m10\<rparr>)"
    and "keyed Operation.id m11 \<Longrightarrow> records_wf (s\<lparr>operations := m11\<rparr>)"
    and "keyed Artifact.id m12 \<Longrightarrow> records_wf (s\<lparr>CurrentState.artifacts := m12\<rparr>)"
    and "keyed Approval.id m13 \<Longrightarrow> records_wf (s\<lparr>approvals := m13\<rparr>)"
    and "keyed Receipt.id m14 \<Longrightarrow> records_wf (s\<lparr>receipts := m14\<rparr>)"
    and "keyed MemoryCandidate.id m15 \<Longrightarrow> records_wf (s\<lparr>CurrentState.memory_candidates := m15\<rparr>)"
    and "keyed WorkingState.run_id m16 \<Longrightarrow> records_wf (s\<lparr>working_states := m16\<rparr>)"
    and "keyed observation_id m17 \<Longrightarrow> records_wf (s\<lparr>focus_resolutions := m17\<rparr>)"
    and "keyed IdentityVersion.id m18 \<Longrightarrow> records_wf (s\<lparr>identity_versions := m18\<rparr>)"
    and "keyed Conflict.id m19 \<Longrightarrow> records_wf (s\<lparr>CurrentState.conflicts := m19\<rparr>)"
    and "keyed Verification.id m20 \<Longrightarrow> records_wf (s\<lparr>verifications := m20\<rparr>)"
    and "keyed ActiveMemory.id m21 \<Longrightarrow> records_wf (s\<lparr>active_memories := m21\<rparr>)"
  using assms by (simp_all add: records_wf_def)

lemma records_wf_other [simp]:
  "records_wf (s\<lparr>CurrentState.positions := a\<rparr>) = records_wf s"
  "records_wf (s\<lparr>sleep_runs := b\<rparr>) = records_wf s"
  "records_wf (s\<lparr>sleep_cursor := c\<rparr>) = records_wf s"
  "records_wf (s\<lparr>integration_candidates := d\<rparr>) = records_wf s"
  "records_wf (s\<lparr>integration_verifications := e\<rparr>) = records_wf s"
  "records_wf (s\<lparr>integration_materializations := f\<rparr>) = records_wf s"
  "records_wf (s\<lparr>position_integration_materializations := g\<rparr>) = records_wf s"
  "records_wf (s\<lparr>memory_revision_materializations := h\<rparr>) = records_wf s"
  "records_wf (s\<lparr>completion_criteria := i\<rparr>) = records_wf s"
  "records_wf (s\<lparr>completion_claims := j\<rparr>) = records_wf s"
  "records_wf (s\<lparr>initiatives := k\<rparr>) = records_wf s"
  "records_wf (s\<lparr>CurrentState.revision := l\<rparr>) = records_wf s"
  "records_wf (s\<lparr>applied_events := m\<rparr>) = records_wf s"
  by (simp_all add: records_wf_def)

lemma records_wf_maps:
  assumes "records_wf s"
  shows "keyed Principal.id (principals s)" "keyed IdentityVersion.id (identity_versions s)"
    "keyed Relationship.id (CurrentState.relationships s)" "keyed Goal.id (CurrentState.goals s)"
    "keyed Task.id (CurrentState.tasks s)" "keyed Run.id (CurrentState.runs s)"
    "keyed Attempt.id (attempts s)" "keyed WorkingState.run_id (working_states s)"
    "keyed Conflict.id (CurrentState.conflicts s)" "keyed Commitment.id (CurrentState.commitments s)"
    "keyed Observation.id (observations s)" "keyed observation_id (focus_resolutions s)"
    "keyed Decision.id (decisions s)" "keyed ActionIntent.id (action_intents s)"
    "keyed Operation.id (operations s)" "keyed Artifact.id (CurrentState.artifacts s)"
    "keyed MemoryCandidate.id (CurrentState.memory_candidates s)"
    "keyed ActiveMemory.id (active_memories s)" "keyed Approval.id (approvals s)"
    "keyed Receipt.id (receipts s)" "keyed Verification.id (verifications s)"
  using assms unfolding records_wf_def by blast+

lemmas records_wf_step = records_wf_insert records_wf_maps keyed_insert_id

lemma handlers_wf:
  assumes wf: "records_wf s"
  shows "apply_identity_version x s e = Inr t \<Longrightarrow> records_wf t"
    and "apply_conflict x s e = Inr t \<Longrightarrow> records_wf t"
    and "apply_verification x s e = Inr t \<Longrightarrow> records_wf t"
    and "apply_active_memory x s e = Inr t \<Longrightarrow> records_wf t"
    and "apply_working_state x s e = Inr t \<Longrightarrow> records_wf t"
    and "apply_focus_resolution x s e = Inr t \<Longrightarrow> records_wf t"
    and "apply_task_completion x s e = Inr t \<Longrightarrow> records_wf t"
proof -
  show "apply_identity_version x s e = Inr t \<Longrightarrow> records_wf t"
    by (auto simp: apply_identity_version_def res_simps wf intro!: records_wf_step keyed_modify)
  show "apply_conflict x s e = Inr t \<Longrightarrow> records_wf t"
    by (auto simp: apply_conflict_def store_conflict_def Let_def res_simps wf
        intro!: records_wf_step keyed_map_values)
  show "apply_verification x s e = Inr t \<Longrightarrow> records_wf t"
    by (auto simp: apply_verification_def res_simps wf intro!: records_wf_step keyed_modify)
  show "apply_active_memory x s e = Inr t \<Longrightarrow> records_wf t"
    by (auto simp: apply_active_memory_def res_simps wf intro!: records_wf_step keyed_modify)
  show "apply_working_state x s e = Inr t \<Longrightarrow> records_wf t"
    by (auto simp: wf dest!: working_state_footprint intro!: records_wf_step)
  show "apply_focus_resolution x s e = Inr t \<Longrightarrow> records_wf t"
    by (auto simp: wf dest!: focus_footprint intro!: records_wf_step)
  show "apply_task_completion x s e = Inr t \<Longrightarrow> records_wf t"
    by (auto simp: wf dest!: task_completion_footprint intro!: records_wf_step)
qed

lemma insert_payload_wf:
  "insert_payload de key k v m = Inr m' \<Longrightarrow> keyed key m \<Longrightarrow> keyed key m'"
  by (auto simp: insert_payload_Inr)

lemma records_wf_kind:
  assumes wf: "records_wf s" and step: "apply_kind x s e = Inr t"
  shows "records_wf t"
  using step wf
  by (cases "event_kind e")
    (auto simp: apply_kind_def Let_def res_simps wf
      dest: handlers_wf [OF wf] insert_payload_wf
      dest!: sleep_run_footprint criterion_footprint claim_event_footprint
        candidate_created_footprint integration_transition_footprint
        integration_materialization_footprint memory_revision_footprint
        position_event_footprint initiative_proposed_footprint
        initiative_transition_footprint initiative_dismissed_footprint
      intro: records_wf_insert [OF wf] records_wf_maps [OF wf])

lemma records_wf_event:
  assumes "records_wf s" and "apply_event x s e = Inr s'"
  shows "records_wf s'"
  using assms(2)
proof (cases rule: apply_event_cases)
  case (1 t)
  with records_wf_kind [OF assms(1) 1(1)] show ?thesis by simp
qed

lemma records_wf_replay: "replay x es = Inr s \<Longrightarrow> records_wf s"
  unfolding replay_def
  by (rule ledger.run_invariant [where I = records_wf, OF records_wf_event])
    (auto simp: records_wf_def default_state_def)

definition outcomes_wf :: "CurrentState \<Rightarrow> bool" where
  "outcomes_wf s \<longleftrightarrow>
     keyed IntegrationVerification.candidate_id (integration_verifications s) \<and>
     keyed IntegrationMaterialization.candidate_id (integration_materializations s) \<and>
     keyed PositionIntegrationMaterialization.candidate_id (position_integration_materializations s) \<and>
     keyed MemoryRevisionMaterialization.candidate_id (memory_revision_materializations s)"

definition state_typed :: "CurrentState \<Rightarrow> bool" where
  "state_typed s \<longleftrightarrow>
     records_wf s \<and> outcomes_wf s \<and>
     keyed Position.id (CurrentState.positions s) \<and> keyed SleepRun.id (sleep_runs s) \<and>
     keyed IntegrationCandidate.id (integration_candidates s) \<and>
     keyed CompletionCriterion.id (completion_criteria s) \<and>
     keyed CompletionClaim.id (completion_claims s) \<and>
     keyed InitiativeProposal.id (initiatives s)"

lemma verifications_typed:
  assumes "apply_kind x s e = Inr t"
    and "keyed IntegrationVerification.candidate_id (integration_verifications s)"
  shows "keyed IntegrationVerification.candidate_id (integration_verifications t)"
  using assms(1) by (cases rule: candidates_step) (use assms(2) in auto)

lemma memory_outcomes_typed:
  assumes "apply_kind x s e = Inr t"
    and "keyed IntegrationMaterialization.candidate_id (integration_materializations s)"
  shows "keyed IntegrationMaterialization.candidate_id (integration_materializations t)"
proof (cases "event_kind e = IntegrationCandidateMaterialized")
  case True
  with assms(1) have "apply_integration_materialization x s e = Inr t" by (simp add: apply_kind_def)
  from memory_materialized_Inr [OF this] assms(2) show ?thesis by auto
next
  case False
  with materializations_frame [OF assms(1)] assms(2) show ?thesis by simp
qed

lemma revision_outcomes_typed:
  assumes "apply_kind x s e = Inr t"
    and "keyed MemoryRevisionMaterialization.candidate_id (memory_revision_materializations s)"
  shows "keyed MemoryRevisionMaterialization.candidate_id (memory_revision_materializations t)"
proof (cases "event_kind e = MemoryRevisionMaterialized")
  case True
  with assms(1) have "apply_memory_revision_materialization x s e = Inr t" by (simp add: apply_kind_def)
  from memory_revision_Inr [OF this] assms(2) show ?thesis by auto
next
  case False
  with memory_revisions_frame [OF assms(1)] assms(2) show ?thesis by simp
qed

lemma position_outcomes_typed:
  assumes "apply_kind x s e = Inr t"
    and "keyed PositionIntegrationMaterialization.candidate_id (position_integration_materializations s)"
  shows "keyed PositionIntegrationMaterialization.candidate_id (position_integration_materializations t)"
proof (cases "event_kind e \<in> {PositionEstablished, PositionMaintained, PositionRecorded,
    PositionRevised, PositionRetracted}")
  case False
  with positions_frame [OF assms(1)] assms(2) show ?thesis by simp
next
  case True
  with assms(1) have ev: "apply_position_event x s e = Inr t" by (auto simp: apply_kind_def)
  show ?thesis
  proof (cases "has_field x (payload e) ''position_integration''")
    case False
    from legacy_position_event [OF ev False] assms(2) show ?thesis by auto
  next
    case True
    with ev obtain ie where "apply_position_integration x s e ie = Inr t"
      by (auto simp: apply_position_event_def res_simps)
    from position_integration_Inr [OF this] assms(2) show ?thesis by auto
  qed
qed

lemma outcomes_wf_event:
  assumes "outcomes_wf s" and "apply_event x s e = Inr s'"
  shows "outcomes_wf s'"
  using assms(2)
proof (cases rule: apply_event_cases)
  case (1 t)
  with verifications_typed [OF 1(1)] memory_outcomes_typed [OF 1(1)] revision_outcomes_typed [OF 1(1)]
    position_outcomes_typed [OF 1(1)] assms(1)
  show ?thesis by (simp add: outcomes_wf_def)
qed

lemma outcomes_wf_replay: "replay x es = Inr s \<Longrightarrow> outcomes_wf s"
  unfolding replay_def
  by (rule ledger.run_invariant [where I = outcomes_wf, OF outcomes_wf_event])
    (auto simp: outcomes_wf_def default_state_def)

lemma state_typed_replay:
  assumes "replay x es = Inr s"
  shows "state_typed s"
proof -
  have "keyed SleepRun.id (sleep_runs s)"
    using candidates_inv_replay [OF assms] unfolding sleep_inv_def keyed_def by blast
  moreover have "keyed IntegrationCandidate.id (integration_candidates s)"
    using candidates_inv_replay [OF assms] unfolding candidates_inv_def keyed_def by blast
  moreover have "keyed CompletionCriterion.id (completion_criteria s)"
    using criteria_inv_replay [OF assms] unfolding criteria_inv_def keyed_def by blast
  moreover have "keyed CompletionClaim.id (completion_claims s)"
    using claims_inv_replay [OF assms] unfolding claims_inv_def keyed_def by blast
  moreover have "keyed InitiativeProposal.id (initiatives s)"
    using initiatives_inv_replay [OF assms] unfolding initiatives_inv_def keyed_def by blast
  moreover have "keyed Position.id (CurrentState.positions s)"
    using positions_keyed_replay [OF assms] by (simp add: positions_keyed_def keyed_def)
  ultimately show ?thesis
    using records_wf_replay [OF assms] outcomes_wf_replay [OF assms] by (simp add: state_typed_def)
qed

end
