(* ===== verification/AgendaFacts.thy ===== *)
theory AgendaFacts
  imports InitiativeService StateTyping Recovery InitiativeHistory
begin

text \<open>
  What the agenda selects: bounded, sourced and current candidates, each of which the service
  accepts when it validates it again.
\<close>

section \<open>The verified ledger is the ledger\<close>

lemma sequenced_nth:
  "(a, n) \<in> set (sequenced xs) \<longleftrightarrow> (\<exists>i < length xs. a = xs ! i \<and> n = of_nat i + 1)"
  by (auto simp: sequenced_def set_zip)

lemma sequences_snoc:
  "sequences (ids @ [i]) = bt_insert i (of_nat (length ids) + 1) (sequences ids)"
  by (simp add: sequences_def sequenced_def)

lemma sequences_wf: "bt_wf (sequences ids)"
  by (induction ids rule: rev_induct) (simp_all add: sequences_snoc, simp add: sequences_def sequenced_def)

lemma sequences_get:
  "distinct ids \<Longrightarrow> i < length ids \<Longrightarrow> bt_get (sequences ids) (ids ! i) = Some (of_nat i + 1)"
proof (induction ids arbitrary: i rule: rev_induct)
  case (snoc j ids)
  then show ?case
    by (cases "i = length ids") (auto simp: sequences_snoc nth_append nth_eq_iff_index_eq)
qed simp

lemma sequences_keys: "fst ` set (sequences ids) = set ids"
  by (induction ids rule: rev_induct)
    (simp_all add: sequences_snoc set_bt_insert_keys, simp add: sequences_def sequenced_def)

definition ledger_part :: "ext \<Rightarrow> (EventId, u64) btree \<Rightarrow> ExperienceEvent list \<Rightarrow> VerifiedLedger \<Rightarrow> bool" where
  "ledger_part x sq es l \<longleftrightarrow> bt_wf l \<and>
     (\<forall>i e n. bt_get l i = Some (e, n) \<longrightarrow>
        e \<in> set es \<and> ExperienceEvent.event_id e = i \<and> verify_integrity x e = Inr True \<and>
        bt_get sq i = Some n)"

lemma ledger_part_fold: "ledger_part x sq es (foldl (enter_event x sq) [] es)"
proof (induction es rule: rev_induct)
  case (snoc e es)
  let ?l = "foldl (enter_event x sq) [] es"
  have part: "ledger_part x sq (es @ [e]) ?l"
    using snoc unfolding ledger_part_def by fastforce
  show ?case
  proof (cases "enter_event x sq ?l e = ?l")
    case True
    then show ?thesis using part by simp
  next
    case False
    then obtain n where n: "bt_get sq (ExperienceEvent.event_id e) = Some n"
      and v: "verify_integrity x e = Inr True"
      and l: "enter_event x sq ?l e = bt_insert (ExperienceEvent.event_id e) (e, n) ?l"
      by (auto simp: enter_event_def split: option.splits if_splits)
    show ?thesis
      using part unfolding ledger_part_def foldl_append foldl_Cons foldl_Nil l
      by (simp add: n v)
  qed
qed (simp add: ledger_part_def)

lemma bt_length: "bt_wf m \<Longrightarrow> length m = card (fst ` set m)"
  by (metis bt_wf_distinct distinct_card length_map set_map)

text \<open>A state that has replayed its ledger: identifiers, length and projection agree.\<close>

definition in_step :: "ext \<Rightarrow> CurrentState \<Rightarrow> ExperienceEvent list \<Rightarrow> bool" where
  "in_step x s events \<longleftrightarrow> replay x events = Inr s \<and> length events < 2 ^ 63"

lemma in_step_facts:
  assumes "in_step x s events"
  shows "applied_events s = map ExperienceEvent.event_id events"
    and "distinct (map ExperienceEvent.event_id events)"
    and "CurrentState.revision s = of_nat (length events)"
proof -
  have r: "replay x events = Inr s" using assms by (simp add: in_step_def)
  then show "applied_events s = map ExperienceEvent.event_id events"
    "distinct (map ExperienceEvent.event_id events)"
    using ledger.run_ids [of x default_state events s] ledger.run_distinct [of x default_state events s]
    by (simp_all add: replay_def default_state_def)
  show "CurrentState.revision s = of_nat (length events)" by (rule replay_revision [OF r])
qed

lemma verified_ledger_Some:
  assumes step: "in_step x s events" and l: "verified_ledger x s events = Some l"
  shows "bt_wf l"
    and "bt_get l i = Some (e, n) \<longleftrightarrow> (e, n) \<in> set (sequenced events) \<and> i = ExperienceEvent.event_id e"
    and "\<forall>e \<in> set events. verify_integrity x e = Inr True"
proof -
  note f = in_step_facts [OF step]
  let ?ids = "map ExperienceEvent.event_id events" and ?sq = "sequences (applied_events s)"
  from l have l': "l = foldl (enter_event x ?sq) [] events" "length l = length ?sq"
    by (auto simp: verified_ledger_def Let_def split: if_splits)
  then have part: "ledger_part x ?sq events l" using ledger_part_fold by simp
  then show wf: "bt_wf l" by (simp add: ledger_part_def)
  have sub: "fst ` set l \<subseteq> fst ` set ?sq"
  proof
    fix i assume "i \<in> fst ` set l"
    then obtain v where "(i, v) \<in> set l" by auto
    with wf have "bt_get l i = Some v" by (simp add: bt_wf_get)
    with part obtain n where "bt_get ?sq i = Some n" by (cases v) (auto simp: ledger_part_def)
    then show "i \<in> fst ` set ?sq" using map_of_SomeD by force
  qed
  have "card (fst ` set l) = card (fst ` set ?sq)"
    using l'(2) wf sequences_wf by (metis bt_length)
  with sub have keys: "fst ` set l = set ?ids"
    by (metis card_subset_eq f(1) finite_imageI finite_set sequences_keys)
  have entry: "\<exists>n. bt_get l (ExperienceEvent.event_id e) = Some (e, n)" if "e \<in> set events" for e
  proof -
    have "ExperienceEvent.event_id e \<in> fst ` set l" using keys that by auto
    then obtain v where "bt_get l (ExperienceEvent.event_id e) = Some v"
      by (metis fst_conv imageE map_of_eq_None_iff option.exhaust)
    moreover obtain d n where "v = (d, n)" by (cases v)
    ultimately have "d \<in> set events" "ExperienceEvent.event_id d = ExperienceEvent.event_id e"
      "bt_get l (ExperienceEvent.event_id e) = Some (d, n)"
      using part by (auto simp: ledger_part_def)
    moreover from this that f(2) have "d = e" by (auto simp: distinct_map dest: inj_onD)
    ultimately show ?thesis by blast
  qed
  with part show "\<forall>e \<in> set events. verify_integrity x e = Inr True"
    unfolding ledger_part_def by blast
  have seq: "bt_get ?sq (ExperienceEvent.event_id e) = Some n \<longleftrightarrow> (e, n) \<in> set (sequenced events)"
    if "e \<in> set events" for e n
  proof -
    from that obtain k where k: "k < length events" "e = events ! k" by (metis in_set_conv_nth)
    with sequences_get [OF f(2), of k] f(1)
    have "bt_get ?sq (ExperienceEvent.event_id e) = Some (of_nat k + 1)" by simp
    moreover have "events ! j = events ! k \<longleftrightarrow> j = k" if "j < length events" for j
      using that k f(2) by (metis distinct_map nth_eq_iff_index_eq)
    ultimately show ?thesis unfolding sequenced_nth using k by (metis option.inject)
  qed
  show "bt_get l i = Some (e, n) \<longleftrightarrow> (e, n) \<in> set (sequenced events) \<and> i = ExperienceEvent.event_id e"
  proof
    assume "bt_get l i = Some (e, n)"
    with part have "e \<in> set events" "ExperienceEvent.event_id e = i" "bt_get ?sq i = Some n"
      unfolding ledger_part_def by blast+
    with seq show "(e, n) \<in> set (sequenced events) \<and> i = ExperienceEvent.event_id e" by auto
  next
    assume a: "(e, n) \<in> set (sequenced events) \<and> i = ExperienceEvent.event_id e"
    then have e: "e \<in> set events" by (auto simp: sequenced_nth)
    with entry obtain m where m: "bt_get l i = Some (e, m)" using a by blast
    with part have "bt_get ?sq i = Some m" unfolding ledger_part_def by blast
    with seq [OF e, of n] a m show "bt_get l i = Some (e, n)" by auto
  qed
qed

text \<open>The sequence numbers of the ledger are its positions.\<close>

lemma sequenced_inj:
  assumes "length xs < 2 ^ 63" and "(a, n) \<in> set (sequenced xs)" and "(b, n) \<in> set (sequenced xs)"
  shows "a = b"
proof -
  from assms(2,3) obtain i j where "i < length xs" "j < length xs" "a = xs ! i" "b = xs ! j"
    and eq: "(of_nat i + 1 :: u64) = of_nat j + 1"
    unfolding sequenced_nth by metis
  moreover from eq have "(of_nat i :: u64) = of_nat j" by simp
  then have "unat (of_nat i :: u64) = unat (of_nat j :: u64)" by (rule arg_cong)
  then have "i = j" using assms(1) \<open>i < length xs\<close> \<open>j < length xs\<close> by (simp add: unat_of_nat_u64)
  ultimately show ?thesis by simp
qed

lemma verified_ledger_values:
  assumes "in_step x s events" and "verified_ledger x s events = Some l"
  shows "set (bt_values l) = set (sequenced events)"
  using verified_ledger_Some [OF assms]
  by (auto simp: bt_values_get)

section \<open>The last event of a life\<close>

definition life_event ::
  "EntityKind \<Rightarrow> Uuid \<Rightarrow> (EventKind \<Rightarrow> bool) \<Rightarrow> (json \<Rightarrow> string + 'a) \<Rightarrow> ('a \<Rightarrow> Uuid) \<Rightarrow>
   ExperienceEvent \<Rightarrow> 'a \<Rightarrow> bool"
where
  "life_event ek u life de pid e v \<longleftrightarrow>
     life (event_kind e) \<and> subject_is e ek u \<and> de (payload e) = Inr v \<and> pid v = u"

lemma later_payload_cases:
  obtains "\<nexists>v. life_event ek u life de pid e v"
      and "later_payload ek u life de pid old (e, n) = old"
  | v where "life_event ek u life de pid e v"
      and "later_payload ek u life de pid old (e, n) =
        (if case old of None \<Rightarrow> True | Some (m, _) \<Rightarrow> n > m then Some (n, e, v) else old)"
proof (cases "\<exists>v. life_event ek u life de pid e v")
  case False
  with that(1) show thesis
    by (auto simp: later_payload_def life_event_def split: sum.splits)
next
  case True
  with that(2) show thesis
    by (auto simp: later_payload_def life_event_def)
qed

lemma life_event_unique:
  "life_event ek u life de pid e v \<Longrightarrow> life_event ek u life de pid e w \<Longrightarrow> v = w"
  by (simp add: life_event_def)

lemma latest_fold:
  "case foldl (later_payload ek u life de pid) None xs of
     None \<Rightarrow> \<forall>e n v. (e, n) \<in> set xs \<longrightarrow> \<not> life_event ek u life de pid e v
   | Some (n, e, v) \<Rightarrow> (e, n) \<in> set xs \<and> life_event ek u life de pid e v \<and>
       (\<forall>e' n' v'. (e', n') \<in> set xs \<longrightarrow> life_event ek u life de pid e' v' \<longrightarrow> n' \<le> n)"
proof (induction xs rule: rev_induct)
  case (snoc entry xs)
  obtain d m where entry: "entry = (d, m)" by (cases entry)
  let ?old = "foldl (later_payload ek u life de pid) None xs"
  show ?case
  proof (cases rule: later_payload_cases [of ek u life de pid d ?old m])
    case 1
    with snoc show ?thesis unfolding entry by (cases ?old) (auto split: prod.splits)
  next
    case (2 w)
    show ?thesis
    proof (cases ?old)
      case None
      with snoc 2 show ?thesis unfolding entry by auto
    next
      case (Some old)
      then obtain k c z where old: "?old = Some (k, c, z)" by (cases old) auto
      show ?thesis
      proof (cases "m > k")
        case True
        have "n' \<le> m" if "n' \<le> k" for n' using that True by simp
        with snoc 2 old True show ?thesis unfolding entry by auto
      next
        case False
        with snoc 2 old show ?thesis unfolding entry by auto
      qed
    qed
  qed
qed simp

lemma latest_Some:
  assumes "latest_entity_payload l ek u life de pid = Some (n, e, v)"
  shows "(e, n) \<in> set (bt_values l)" and "life_event ek u life de pid e v"
    and "(e', n') \<in> set (bt_values l) \<Longrightarrow> life_event ek u life de pid e' v' \<Longrightarrow> n' \<le> n"
  using latest_fold [where xs = "bt_values l" and ek = ek and u = u and life = life and de = de and pid = pid] assms
  by (auto simp: latest_entity_payload_def)

lemma max_by_key_fold:
  "case max_by_key f xs of
     None \<Rightarrow> xs = []
   | Some v \<Rightarrow> v \<in> set xs \<and> (\<forall>w \<in> set xs. f w \<le> f v)"
proof (induction xs rule: rev_induct)
  case (snoc a xs)
  let ?m = "max_by_key f xs"
  have step: "max_by_key f (xs @ [a]) =
      (case ?m of None \<Rightarrow> Some a | Some w \<Rightarrow> if f a \<ge> f w then Some a else ?m)"
    unfolding max_by_key_def foldl_append by simp
  show ?case
  proof (cases ?m)
    case None
    with snoc step show ?thesis by simp
  next
    case (Some w)
    with snoc step show ?thesis by (cases "f a \<ge> f w") (auto intro: order.trans)
  qed
qed (simp add: max_by_key_def)

section \<open>What makes a candidate\<close>

lemma set_dedup_eq: "set (dedup_by (\<lambda>a b. a = b) xs) = set xs"
  using dedup_by_key_keys [of "\<lambda>y. y" xs] by simp

lemma sorted_dedup_strict: "sorted_wrt (<) (dedup_by (\<lambda>a b. a = b) (sort xs))"
  for xs :: "'a::linorder list"
  using dedup_by_key_strict [of "\<lambda>y. y" "sort xs"] by simp

lemma sorted_wrt_take: "sorted_wrt P xs \<Longrightarrow> sorted_wrt P (take n xs)"
  by (metis append_take_drop_id sorted_wrt_append)

lemma bounded_text_trimmed [simp]: "trim (bounded_text v) = bounded_text v"
  by (simp add: bounded_text_def Let_def)

lemma bounded_text_length: "length (bounded_text v) \<le> MAX_TEXT_BYTES"
proof -
  let ?w = "trim v"
  have "length (bounded_text v) \<le> length (take (floor_boundary ?w (min (length ?w) MAX_TEXT_BYTES)) ?w)"
    unfolding bounded_text_def Let_def by (rule length_trim_end)
  also have "\<dots> \<le> floor_boundary ?w (min (length ?w) MAX_TEXT_BYTES)" by simp
  also have "\<dots> \<le> MAX_TEXT_BYTES"
    using floor_boundary_le [of ?w "min (length ?w) MAX_TEXT_BYTES"] by simp
  finally show ?thesis .
qed

lemma newest_sources_set: "set (newest_sources vs) \<subseteq> fst ` set vs"
proof -
  have "set (take MAX_CANDIDATE_SOURCES (dedup_by (\<lambda>a b. fst a = fst b) (sort_key recency vs)))
      \<subseteq> set (dedup_by (\<lambda>a b. fst a = fst b) (sort_key recency vs))"
    by (rule set_take_subset)
  also have "\<dots> \<subseteq> set vs"
    using set_dedup_by [of "\<lambda>a b. fst a = fst b" "sort_key recency vs"] by simp
  finally have "set (take MAX_CANDIDATE_SOURCES
      (dedup_by (\<lambda>a b. fst a = fst b) (sort_key recency vs))) \<subseteq> set vs" .
  from image_mono [OF this] show ?thesis
    unfolding newest_sources_def set_sort set_map .
qed

definition candidate_fine :: "ext \<Rightarrow> AgendaCandidate \<Rightarrow> bool" where
  "candidate_fine x k \<longleftrightarrow>
     AgendaCandidate.source_event_ids k \<noteq> [] \<and>
     sorted_wrt (<) (AgendaCandidate.source_event_ids k) \<and>
     length (AgendaCandidate.source_event_ids k) \<le> MAX_CANDIDATE_SOURCES \<and>
     \<not> blank (AgendaCandidate.content k) \<and> \<not> blank (AgendaCandidate.rationale k) \<and>
     length (AgendaCandidate.content k) \<le> MAX_TEXT_BYTES \<and>
     length (AgendaCandidate.rationale k) \<le> MAX_TEXT_BYTES \<and>
     AgendaCandidate.fingerprint k =
       initiative_fingerprint x (AgendaCandidate.kind k) (AgendaCandidate.source_entity k)
         (AgendaCandidate.source_version k) (AgendaCandidate.target_principal_id k)
         (AgendaCandidate.source_event_ids k)"

lemma make_candidate_Some:
  assumes "make_candidate x ik cont rat ent ver ids tgt as_of = Some k"
  shows "candidate_fine x k" and "set (AgendaCandidate.source_event_ids k) \<subseteq> set ids"
    and "AgendaCandidate.kind k = ik" and "AgendaCandidate.source_entity k = ent"
    and "AgendaCandidate.source_version k = ver" and "AgendaCandidate.target_principal_id k = tgt"
    and "AgendaCandidate.as_of_revision k = as_of"
proof -
  let ?ids = "take MAX_CANDIDATE_SOURCES (dedup_by (\<lambda>a b. a = b) (sort ids))"
  have strict: "sorted_wrt (<) ?ids" by (intro sorted_wrt_take sorted_dedup_strict)
  have sub: "set ?ids \<subseteq> set ids"
    using set_take_subset [of MAX_CANDIDATE_SOURCES "dedup_by (\<lambda>a b. a = b) (sort ids)"]
    by (simp add: set_dedup_eq)
  from assms have k: "?ids \<noteq> []" "bounded_text cont \<noteq> []" "bounded_text rat \<noteq> []"
    "k = \<lparr>AgendaCandidate.kind = ik, content = bounded_text cont, rationale = bounded_text rat,
       source_entity = ent, source_version = ver, source_event_ids = ?ids,
       target_principal_id = tgt, as_of_revision = as_of,
       fingerprint = initiative_fingerprint x ik ent ver tgt ?ids\<rparr>"
    unfolding make_candidate_def Let_def by (auto split: if_splits)
  show "candidate_fine x k"
    unfolding candidate_fine_def k(4)
    using k(1-3) strict bounded_text_length by (simp add: blank_def)
  show "set (AgendaCandidate.source_event_ids k) \<subseteq> set ids"
    using sub by (simp add: k(4))
qed (use assms in \<open>auto simp: make_candidate_def Let_def split: if_splits\<close>)

section \<open>The three sources\<close>

text \<open>The entity behind a candidate is on record, open to the pair, at the stated version.\<close>

definition source_current ::
  "ext \<Rightarrow> CurrentState \<Rightarrow> ExperienceEvent list \<Rightarrow> PrincipalId \<Rightarrow> PrincipalId \<Rightarrow> AgendaCandidate \<Rightarrow> bool"
where
  "source_current x s events hid uid k \<longleftrightarrow>
     set (AgendaCandidate.source_event_ids k) \<subseteq> set (applied_events s) \<and>
     initiative_source_exists s (AgendaCandidate.source_entity k) \<and>
     source_owned_by s (AgendaCandidate.source_entity k) uid hid \<and>
     source_version_of x s events (AgendaCandidate.source_entity k) =
       Some (AgendaCandidate.source_version k) \<and>
     AgendaCandidate.target_principal_id k = uid \<and>
     AgendaCandidate.as_of_revision k = CurrentState.revision s"

lemma bounded_ids_in_ledger:
  assumes "in_step x s events" and "verified_ledger x s events = Some l"
  shows "set (bounded_valid_event_ids ids l before) \<subseteq> set (applied_events s)"
proof -
  have "i \<in> set (applied_events s)" if "bt_get l i = Some (e, n)" for i e n
    using that verified_ledger_Some(2) [OF assms, of i e n] in_step_facts(1) [OF assms(1)]
    by (auto simp: sequenced_nth)
  then show ?thesis
    unfolding bounded_valid_event_ids_def
    by (intro order.trans [OF newest_sources_set]) (auto simp: vec_simps bind_eq_Some_conv split: if_splits)
qed

lemma has_key_get: "bt_get m i = Some v \<Longrightarrow> has_key m (uuid i)"
  by (force simp: has_key_def bt_keys_def dest: map_of_SomeD)

lemma conflict_current:
  assumes step: "in_step x s events" and l: "verified_ledger x s events = Some l"
    and c: "c \<in> set (bt_values (CurrentState.conflicts s))"
    and k: "conflict_candidate x s l hid uid c = Some k"
  shows "candidate_fine x k \<and> source_current x s events hid uid k"
proof -
  have "records_wf s" using step records_wf_replay by (auto simp: in_step_def)
  then have get: "bt_get (CurrentState.conflicts s) (Conflict.id c) = Some c"
    using c keyed_values [OF records_wf_maps(9)] by blast
  from k obtain question rat sources sq where m: "make_candidate x Question question rat
        \<lparr>EntityRef.kind = EntityKind.Conflict, id = uuid (Conflict.id c)\<rparr>
        (ucast (Conflict.revision c)) sources uid (CurrentState.revision s) = Some k"
    and src: "sources = bounded_valid_event_ids (Conflict.evidence_refs c) l (Some sq)"
    and user: "participates x s l sq (\<lambda>p. Position.principal_id p = uid) c"
    by (auto simp: conflict_candidate_def bind_eq_Some_conv Let_def split: if_splits)
  note f = make_candidate_Some [OF m]
  have "set sources \<subseteq> set (applied_events s)"
    unfolding src by (rule bounded_ids_in_ledger [OF step l])
  with f get user show ?thesis
    by (auto simp: source_current_def initiative_source_exists_def has_key_get source_owned_by_def
        source_version_of_def participates_def is_some_and_iff)
qed

lemma position_current:
  assumes step: "in_step x s events" and l: "verified_ledger x s events = Some l"
    and p: "p \<in> set (bt_values (CurrentState.positions s))"
    and wf: "keyed Position.id (CurrentState.positions s)"
    and k: "position_candidate x alnum s l hid uid p = Some k"
  shows "candidate_fine x k \<and> source_current x s events hid uid k"
proof -
  have get: "bt_get (CurrentState.positions s) (Position.id p) = Some p"
    using p wf by (simp add: keyed_values)
  from k obtain cont rat sq where m: "make_candidate x InitiativeKind.Challenge cont rat
        \<lparr>EntityRef.kind = EntityKind.Position, id = uuid (Position.id p)\<rparr>
        (ucast (Position.version p)) (newest_sources (filter_map
          (related_observation x alnum s (position_terms x alnum p) sq) (bt_values l)))
        uid (CurrentState.revision s) = Some k"
    and own: "Position.principal_id p = hid"
    by (auto simp: position_candidate_def bind_eq_Some_conv Let_def split: if_splits)
  note f = make_candidate_Some [OF m]
  have "i \<in> set (applied_events s)"
    if "related_observation x alnum s terms sq v = Some (i, n)" "v \<in> set (bt_values l)" for terms i n v
    using that verified_ledger_values [OF step l] in_step_facts(1) [OF step]
    by (auto simp: related_observation_def sequenced_nth split: prod.splits if_splits sum.splits)
  then have "set (newest_sources (filter_map
          (related_observation x alnum s (position_terms x alnum p) sq) (bt_values l)))
      \<subseteq> set (applied_events s)"
    by (intro order.trans [OF newest_sources_set]) (auto simp: vec_simps)
  with f get own show ?thesis
    by (auto simp: source_current_def initiative_source_exists_def has_key_get source_owned_by_def
        source_version_of_def is_some_and_iff)
qed

lemma commitment_event_Some:
  "commitment_event x \<lparr>EntityRef.kind = EntityKind.Commitment, id = u\<rparr> (e, n) = Some v \<longleftrightarrow>
     (\<exists>c. v = (n, e, c) \<and>
        life_event EntityKind.Commitment u (\<lambda>k. k \<in> {CommitmentCreated, CommitmentFulfilled})
          (de_commitment x) (\<lambda>d. uuid (Commitment.id d)) e c)"
proof -
  have "ExperienceEvent.subject e = Some \<lparr>EntityRef.kind = EntityKind.Commitment, id = u\<rparr> \<longleftrightarrow>
      subject_is e EntityKind.Commitment u"
    by (auto simp: subject_is_def is_some_and_iff)
  then show ?thesis
    by (auto simp: commitment_event_def life_event_def split: sum.splits)
qed

lemma commitment_version:
  assumes step: "in_step x s events" and l: "verified_ledger x s events = Some l"
    and get: "bt_get (CurrentState.commitments s) (Commitment.id c) = Some c"
    and cur: "current_commitment x c l = Some (ver, CommitmentCreated)"
  shows "source_version_of x s events
     \<lparr>EntityRef.kind = EntityKind.Commitment, id = uuid (Commitment.id c)\<rparr> = Some ver"
proof -
  let ?r = "\<lparr>EntityRef.kind = EntityKind.Commitment, id = uuid (Commitment.id c)\<rparr>"
  let ?life = "life_event EntityKind.Commitment (uuid (Commitment.id c))
    (\<lambda>k. k \<in> {CommitmentCreated, CommitmentFulfilled}) (de_commitment x)
    (\<lambda>d. uuid (Commitment.id d))"
  let ?vs = "filter_map (commitment_event x ?r) (sequenced events)"
  from cur obtain e where e: "event_kind e = CommitmentCreated"
    and latest: "latest_entity_payload l EntityKind.Commitment (uuid (Commitment.id c))
      (\<lambda>k. k \<in> {CommitmentCreated, CommitmentFulfilled}) (de_commitment x)
      (\<lambda>d. uuid (Commitment.id d)) = Some (ver, e, c)"
    by (auto simp: current_commitment_def bind_eq_Some_conv split: if_splits)
  note vals = verified_ledger_values [OF step l]
  have here: "(e, ver) \<in> set (sequenced events)" "?life e c"
    using latest_Some(1,2) [OF latest] vals by auto
  have top: "n \<le> ver" if "(d, n) \<in> set (sequenced events)" "?life d w" for d n w
    using latest_Some(3) [OF latest] that vals by auto
  have mem: "(n, d, w) \<in> set ?vs \<longleftrightarrow> (d, n) \<in> set (sequenced events) \<and> ?life d w" for n d w
  proof -
    have "(n, d, w) \<in> set ?vs \<longleftrightarrow>
        (\<exists>e m. (e, m) \<in> set (sequenced events) \<and> commitment_event x ?r (e, m) = Some (n, d, w))"
      by (auto simp: set_filter_map)
    then show ?thesis unfolding commitment_event_Some by blast
  qed
  have in_vs: "(ver, e, c) \<in> set ?vs" using mem here by blast
  obtain n d w where best: "max_by_key fst ?vs = Some (n, d, w)" "(n, d, w) \<in> set ?vs" "ver \<le> n"
  proof (cases "max_by_key fst ?vs")
    case None
    with max_by_key_fold [where f = fst and xs = ?vs] in_vs show thesis by simp
  next
    case (Some v)
    with max_by_key_fold [where f = fst and xs = ?vs] in_vs that [of "fst v" "fst (snd v)" "snd (snd v)"]
    show thesis by fastforce
  qed
  with mem top have "n = ver" by (auto intro: antisym)
  have d: "(d, ver) \<in> set (sequenced events)" "?life d w"
    using best(2) mem \<open>n = ver\<close> by blast+
  have "length events < 2 ^ 63" using step by (simp add: in_step_def)
  from sequenced_inj [OF this d(1) here(1)] have "d = e" .
  moreover from this d(2) here(2) have "w = c" by (simp add: life_event_def)
  moreover have "verify_integrity x e = Inr True"
    using verified_ledger_Some(3) [OF step l] here(1) by (auto simp: sequenced_nth)
  ultimately show ?thesis
    using best(1) get e \<open>n = ver\<close> by (simp add: source_version_of_def)
qed

lemma commitment_current:
  assumes step: "in_step x s events" and l: "verified_ledger x s events = Some l"
    and c: "c \<in> set (bt_values (CurrentState.commitments s))"
    and k: "commitment_candidate x s l hid uid c = Some k"
  shows "candidate_fine x k \<and> source_current x s events hid uid k"
proof -
  have "records_wf s" using step records_wf_replay by (auto simp: in_step_def)
  then have get: "bt_get (CurrentState.commitments s) (Commitment.id c) = Some c"
    using c keyed_values [OF records_wf_maps(10)] by blast
  from k obtain cont rat ver i where m: "make_candidate x FollowUp cont rat
        \<lparr>EntityRef.kind = EntityKind.Commitment, id = uuid (Commitment.id c)\<rparr> ver
        (bounded_valid_event_ids [i] l (Some ver)) uid (CurrentState.revision s) = Some k"
    and cur: "current_commitment x c l = Some (ver, CommitmentCreated)"
    and own: "creditor_principal_id c = uid"
    by (auto simp: commitment_candidate_def bind_eq_Some_conv Let_def split: if_splits)
  note f = make_candidate_Some [OF m]
  have "set (bounded_valid_event_ids [i] l (Some ver)) \<subseteq> set (applied_events s)"
    by (rule bounded_ids_in_ledger [OF step l])
  with f get own commitment_version [OF step l get cur] show ?thesis
    by (auto simp: source_current_def initiative_source_exists_def has_key_get source_owned_by_def)
qed

section \<open>The selection\<close>

lemma set_ranked: "set (ranked cs) \<subseteq> set cs"
proof -
  have "set (ranked cs) \<subseteq> set (dedup_by (\<lambda>a b. AgendaCandidate.fingerprint a =
      AgendaCandidate.fingerprint b) (sort_key agenda_order cs))"
    unfolding ranked_def by (rule set_take_subset)
  also have "\<dots> \<subseteq> set (sort_key agenda_order cs)" by (rule set_dedup_by)
  finally show ?thesis by simp
qed

lemma dedup_by_sorted: "sorted (map f xs) \<Longrightarrow> sorted (map f (dedup_by P xs))"
proof (induction P xs rule: dedup_by.induct)
  case (3 P x y ys)
  have "\<forall>z \<in> set (dedup_by P (y # ys)). f x \<le> f z"
    using 3(3) set_dedup_by [of P "y # ys"] by auto
  with 3 show ?case by auto
qed simp_all

lemma ranked_sorted: "sorted (map agenda_order (ranked cs))"
proof -
  have "sorted (map agenda_order (dedup_by (\<lambda>a b. AgendaCandidate.fingerprint a =
      AgendaCandidate.fingerprint b) (sort_key agenda_order cs)))"
    by (rule dedup_by_sorted) simp
  from sorted_wrt_take [OF this] show ?thesis by (simp add: ranked_def take_map)
qed

lemma selected_cases:
  assumes "k \<in> set (select x alnum s events hid uid)"
  obtains l where "has_kind s hid Hekate" and "has_kind s uid User" and "hid \<noteq> uid"
    and "verified_ledger x s events = Some l"
    and "k \<in> set (add_conflict_candidates x s l hid uid) \<union> set (add_commitment_candidates x s l hid uid) \<union>
       set (add_position_review_candidates x alnum s l hid uid)"
proof -
  have "verified_ledger x s events \<noteq> None"
  proof
    assume "verified_ledger x s events = None"
    with assms show False by (simp add: select_def split: if_splits)
  qed
  with assms obtain l where l: "has_kind s hid Hekate" "has_kind s uid User" "hid \<noteq> uid"
    "verified_ledger x s events = Some l"
    "k \<in> set (ranked (add_conflict_candidates x s l hid uid @ add_commitment_candidates x s l hid uid @
      add_position_review_candidates x alnum s l hid uid))"
    by (auto simp: select_def split: if_splits)
  from subsetD [OF set_ranked l(5)] show thesis by (intro that [OF l(1-4)]) auto
qed

lemma selected_fine:
  assumes step: "in_step x s events" and wf: "keyed Position.id (CurrentState.positions s)"
    and k: "k \<in> set (select x alnum s events hid uid)"
  shows "candidate_fine x k" and "source_current x s events hid uid k"
proof -
  from k obtain l where l: "verified_ledger x s events = Some l"
    and src: "k \<in> set (add_conflict_candidates x s l hid uid) \<union> set (add_commitment_candidates x s l hid uid) \<union>
       set (add_position_review_candidates x alnum s l hid uid)"
    by (rule selected_cases)
  have "candidate_fine x k \<and> source_current x s events hid uid k"
    using src conflict_current [OF step l] commitment_current [OF step l] position_current [OF step l _ wf]
    by (auto simp: add_conflict_candidates_def add_commitment_candidates_def
        add_position_review_candidates_def vec_simps)
  then show "candidate_fine x k" "source_current x s events hid uid k" by blast+
qed

lemma check_ledger_ok: "\<forall>e \<in> set es. verify_integrity x e = Inr True \<Longrightarrow> check_ledger x es = Inr ()"
  by (induction es) simp_all

text \<open>The service accepts every selected candidate.\<close>

lemma selected_validates:
  assumes step: "in_step x s events" and wf: "keyed Position.id (CurrentState.positions s)"
    and k: "k \<in> set (select x alnum s events hid uid)"
  shows "validate_agenda_candidate x alnum s events k hid uid = Inr ()"
proof -
  from k obtain l where kinds: "has_kind s hid Hekate" "has_kind s uid User"
    and l: "verified_ledger x s events = Some l" by (rule selected_cases)
  note f = selected_fine [OF step wf k]
  have "check_ledger x events = Inr ()"
    by (rule check_ledger_ok) (rule verified_ledger_Some(3) [OF step l])
  moreover have "\<forall>i \<in> set (AgendaCandidate.source_event_ids k). i \<in> ExperienceEvent.event_id ` set events"
    using f(2) in_step_facts(1) [OF step] by (auto simp: source_current_def)
  ultimately show ?thesis
    using kinds f k by (simp add: validate_agenda_candidate_def candidate_fine_def source_current_def)
qed

end
