(* ===== verification/InitiativeServiceFacts.thy ===== *)
theory InitiativeServiceFacts
  imports AgendaFacts CompletionHistory PositionHistory
begin

text \<open>
  What the initiative service promises: a run on an unchanged database raises the first
  selected candidate that was not raised before, and the projector takes the two events of
  every proposal the service has built.
\<close>

section \<open>One reading of the database\<close>

lemma snapshot_undisturbed:
  assumes "db_holds x c db events s"
  shows "snapshot_of x c db db = Inr (s, events)" and "in_step x s events"
proof -
  note l = db_holds_ledger [OF assms]
  have rep: "replay x events = Inr s" "length events < 2 ^ 63" using assms by (auto simp: db_holds_def)
  then show step: "in_step x s events" by (simp add: in_step_def)
  show "snapshot_of x c db db = Inr (s, events)"
    using l rep in_step_facts(3) [OF step] by (simp add: snapshot_of_def len_u64_def)
qed

lemma revision_conflict_undisturbed:
  assumes "db_holds x c db events s"
    and "record_batch x c flt db es (Some (CurrentState.revision s)) tr = Inl err"
    and "apply_all x s es = Inr s'"
  shows "\<exists>se. err = ProjectionError.Storage se"
proof -
  note l = db_holds_ledger [OF assms(1)]
  show ?thesis using assms(2,3) l(1) by (auto simp: record_batch_def res_bind_Inl_iff map_err_Inl_iff)
qed

section \<open>The events of an initiative\<close>

lemma initiative_event_Inr:
  assumes "initiative_event x to_value eid t1 t2 actor k p caus = Inr e"
  shows "to_value p = Inr (payload e)" and "event_kind e = k" and "ExperienceEvent.event_id e = eid"
    and "ExperienceEvent.actor_id e = actor"
    and "initiative_subject_matches x e (InitiativeProposal.id p)"
    and "causation_id e = caus" and "verify_integrity x e = Inr True"
proof -
  from assms obtain v where v: "to_value p = Inr v"
    and e: "new_with_id x t1 t2 eid actor k
       (Some \<lparr>EntityRef.kind = EntityKind.Initiative, id = InitiativeProposal.id p\<rparr>) v
       \<lparr>EventSource.source_type = ''initiative'',
        source_ref = Some (uuid_text x (InitiativeProposal.id p))\<rparr>
       caus (Some (uuid_text x (InitiativeProposal.id p))) None = Inr e"
    by (auto simp: initiative_event_def res_simps)
  from new_with_id_Inr [OF e] v
  show "to_value p = Inr (payload e)" "event_kind e = k" "ExperienceEvent.event_id e = eid"
    "ExperienceEvent.actor_id e = actor" "initiative_subject_matches x e (InitiativeProposal.id p)"
    "causation_id e = caus" "verify_integrity x e = Inr True"
    by (simp_all add: initiative_subject_matches_def subject_is_def)
qed

definition reads_back :: "ext \<Rightarrow> (InitiativeProposal \<Rightarrow> string + json) \<Rightarrow> bool" where
  "reads_back x to_value \<longleftrightarrow> (\<forall>p v. to_value p = Inr v \<longrightarrow> de_initiative x v = Inr p)"

text \<open>The state a proposal and its readiness lead to.\<close>

definition raised_state ::
  "CurrentState \<Rightarrow> EventId \<Rightarrow> EventId \<Rightarrow> InitiativeProposal \<Rightarrow> CurrentState"
where
  "raised_state s i1 i2 p =
     s\<lparr>initiatives := bt_insert (InitiativeProposal.id p) (p\<lparr>InitiativeProposal.status := InitiativeStatus.Ready\<rparr>)
         (initiatives s),
       CurrentState.revision := CurrentState.revision s + 1 + 1,
       applied_events := applied_events s @ [i1, i2]\<rparr>"

lemma bt_insert_overwrite [simp]: "bt_insert i v (bt_insert i w m) = bt_insert i v m"
  for m :: "('k::linorder, 'v) btree"
  by (induction i w m rule: bt_insert.induct) auto

lemma proposal_steps:
  assumes e1: "initiative_event x to_value i1 t1 t2 hid InitiativeProposed p None = Inr e1"
    and e2: "initiative_event x to_value i2 t3 t4 hid InitiativeReadied
      (p\<lparr>InitiativeProposal.status := InitiativeStatus.Ready\<rparr>) caus = Inr e2"
    and serde: "reads_back x to_value"
    and ids: "i1 \<notin> set (applied_events s)" "i2 \<notin> set (applied_events s)" "i1 \<noteq> i2"
      "\<not> bt_contains (initiatives s) (InitiativeProposal.id p)"
    and ok: "initiative_ok x s p" "InitiativeProposal.status p = InitiativeStatus.Proposed"
      "InitiativeProposal.as_of_revision p = CurrentState.revision s"
      "initiative_source_exists s (InitiativeProposal.source_entity p)"
      "\<not> (\<exists>q \<in> set (bt_values (initiatives s)).
         InitiativeProposal.fingerprint q = InitiativeProposal.fingerprint p)"
    and kinds: "has_kind s hid Hekate" "has_kind s (InitiativeProposal.target_principal_id p) User"
  shows "apply_all x s [e1, e2] = Inr (raised_state s i1 i2 p)"
proof -
  note a = initiative_event_Inr [OF e1] and b = initiative_event_Inr [OF e2]
  have de: "de_initiative x (payload e1) = Inr p"
    "de_initiative x (payload e2) = Inr (p\<lparr>InitiativeProposal.status := InitiativeStatus.Ready\<rparr>)"
    using serde a(1) b(1) by (auto simp: reads_back_def)
  let ?s1 = "s\<lparr>initiatives := bt_insert (InitiativeProposal.id p) p (initiatives s),
    CurrentState.revision := CurrentState.revision s + 1, applied_events := applied_events s @ [i1]\<rparr>"
  have "apply_initiative_proposed x s e1 =
      Inr (s\<lparr>initiatives := bt_insert (InitiativeProposal.id p) p (initiatives s)\<rparr>)"
    using de(1) a ok ids kinds
    by (auto simp: apply_initiative_proposed_def decode_def initiative_ok_def has_kind_def
        is_model_actor_def Let_def)
  then have one: "apply_event x s e1 = Inr ?s1"
    using a ids(1) by (simp add: apply_event_def apply_kind_def)
  have "apply_initiative_transition x ?s1 e2 InitiativeStatus.Proposed InitiativeStatus.Ready =
      Inr (?s1\<lparr>initiatives := bt_insert (InitiativeProposal.id p)
        (p\<lparr>InitiativeProposal.status := InitiativeStatus.Ready\<rparr>) (initiatives s)\<rparr>)"
    using de(2) b ok(2) kinds(1)
    by (simp add: apply_initiative_transition_def apply_initiative_status_def decode_def
        has_kind_def is_model_actor_def)
  then have "apply_event x ?s1 e2 = Inr (raised_state s i1 i2 p)"
    using b(2,3) ids(2,3) by (simp add: apply_event_def apply_kind_def raised_state_def)
  with one show ?thesis by simp
qed

section \<open>A run\<close>

lemma loaded_as_many: "load_rows x c rows = Inr es \<Longrightarrow> length rows = length es"
  by (induction rows arbitrary: es) (auto simp: res_simps split: if_splits)

text \<open>On the database it was read from, a batch meets no revision conflict.\<close>

fun conflicting :: "StorageError \<Rightarrow> bool" where
  "conflicting (StorageError.StaleContext ex ac) = True"
| "conflicting (RevisionConflict ex ac) = True"
| "conflicting _ = False"

text \<open>Every error of a result has a property.\<close>

definition errors_only :: "('e \<Rightarrow> bool) \<Rightarrow> 'e + 'a \<Rightarrow> bool" where
  "errors_only P r \<longleftrightarrow> (\<forall>err. r = Inl err \<longrightarrow> P err)"

lemma errors_only_bind:
  "errors_only P r \<Longrightarrow> (\<And>v. r = Inr v \<Longrightarrow> errors_only P (f v)) \<Longrightarrow> errors_only P (res_bind r f)"
  by (cases r) (auto simp: errors_only_def)

lemma errors_only_simps [simp]:
  "errors_only P (Inr v)" "errors_only P (Inl err) \<longleftrightarrow> P err"
  by (simp_all add: errors_only_def)

lemma errors_only_map_err: "(\<And>m. P (f m)) \<Longrightarrow> errors_only P (map_err f r)"
  by (cases r) simp_all

lemma sql_error: "errors_only (\<lambda>err. \<not> conflicting err) (sql flt st)"
  by (auto simp: sql_def split: option.splits)

lemma verify_events_error: "errors_only (\<lambda>err. \<not> conflicting err) (verify_events x es)"
  by (induction es) (auto intro!: errors_only_bind errors_only_map_err)

lemma insert_events_error:
  "errors_only (\<lambda>err. \<not> conflicting err) (insert_events x c flt i rows es)"
  by (induction es arbitrary: i rows)
    (auto intro!: errors_only_bind errors_only_map_err sql_error simp: row_of_event_def)

lemma commit_batch_error:
  assumes "revision_of_i64 (len_u64 (event_rows db)) = b"
    and "CurrentState.revision s' = b + len_u64 es"
  shows "errors_only (\<lambda>err. \<not> conflicting err) (commit_batch x c flt db es s' (Some b) None)"
  unfolding commit_batch_def assms Let_def
  by (simp, intro impI conjI errors_only_bind)
    (auto intro!: errors_only_bind errors_only_map_err sql_error verify_events_error
      insert_events_error)

lemma conflicting_revision [simp]:
  "revision_conflict (ProjectionError.Storage se) \<longleftrightarrow> conflicting se"
  by (cases se) simp_all

lemma commit_no_conflict:
  assumes db: "db_holds x c db events s" and run: "apply_all x s es = Inr s'"
    and rec: "record_batch x c flt db es (Some (CurrentState.revision s)) None = Inl err"
  shows "\<exists>se. err = ProjectionError.Storage se \<and> \<not> conflicting se"
proof -
  note l = db_holds_ledger [OF db] and step = snapshot_undisturbed(2) [OF db]
  have rows: "length (event_rows db) = length events"
    using l(2) by (simp add: load_events_def loaded_as_many)
  have small: "length events < 2 ^ 63" using step by (simp add: in_step_def)
  have rev: "revision_of_i64 (len_u64 (event_rows db)) = CurrentState.revision s"
    using in_step_facts(3) [OF step] revision_of_small [OF small] rows by (simp add: len_u64_def)
  have "replay x (events @ es) = Inr s'"
    using db run by (simp add: db_holds_def replay_def ledger.run_append)
  from replay_revision [OF this] in_step_facts(3) [OF step]
  have "CurrentState.revision s' = CurrentState.revision s + len_u64 es" by (simp add: len_u64_def)
  from commit_batch_error [OF rev this] rec run l(1) show ?thesis
    by (auto simp: record_batch_def res_bind_Inl_iff map_err_Inl_iff errors_only_def
        split: if_splits)
qed

definition new_ids :: "(nat \<Rightarrow> Uuid) \<Rightarrow> CurrentState \<Rightarrow> bool" where
  "new_ids new s \<longleftrightarrow>
     \<not> bt_contains (initiatives s) (new 0) \<and> new 1 \<noteq> new 2 \<and>
     from_uuid (new 1) \<notin> set (applied_events s) \<and> from_uuid (new 2) \<notin> set (applied_events s)"

text \<open>What raising a candidate on an unchanged database may come to.\<close>

definition raising ::
  "CurrentState \<Rightarrow> (nat \<Rightarrow> Uuid) \<Rightarrow> string \<Rightarrow> AgendaCandidate \<Rightarrow>
   InitiativeError + InitiativeRunResult \<times> Db \<Rightarrow> bool"
where
  "raising s new t k r \<longleftrightarrow>
     (case r of
        Inl (InitiativeError.Event m) \<Rightarrow> True
      | Inl (InitiativeError.Projection (ProjectionError.Storage se)) \<Rightarrow> \<not> conflicting se
      | Inr (InitiativeRunResult.Proposed p, db') \<Rightarrow>
          p = (proposal_of (new 0) t k)\<lparr>InitiativeProposal.status := InitiativeStatus.Ready\<rparr> \<and>
          derived_from db' =
            Some (raised_state s (from_uuid (new 1)) (from_uuid (new 2)) (proposal_of (new 0) t k))
      | _ \<Rightarrow> False)"

lemma proposal_of_ok:
  assumes fine: "candidate_fine x k" and cur: "source_current x s events hid uid k"
  shows "initiative_ok x s (proposal_of i t k)"
  using assms by (auto simp: initiative_ok_def proposal_of_def candidate_fine_def source_current_def)

lemma raising_event: "raising s new t k (Inl (InitiativeError.Event m))"
  by (simp add: raising_def)

lemma propose_undisturbed:
  assumes db: "db_holds x c db events s" and serde: "reads_back x to_value"
    and ids: "new_ids new s" and k: "k \<in> set (select x alnum s events hid uid)"
    and fresh: "\<not> fingerprint_taken s k"
    and r_def: "r = propose_candidate x alnum to_value c flt new now (\<lambda>_. db) clk hid uid k"
  shows "if has_active_foreground_lease clk db then r = Inr (InitiativeRunResult.Deferred, db)
    else raising s new (now 0) k r"
proof (cases "has_active_foreground_lease clk db")
  case True
  note snap = snapshot_undisturbed [OF db]
  have keyed: "keyed Position.id (CurrentState.positions s)"
    using positions_keyed_replay [of x events s] db by (simp add: db_holds_def positions_keyed_def keyed_def)
  have "CurrentState.revision s = AgendaCandidate.as_of_revision k"
    using selected_fine(2) [OF snap(2) keyed k] by (simp add: source_current_def)
  with True snap fresh selected_validates [OF snap(2) keyed k] show ?thesis
    by (simp add: r_def propose_candidate_def)
next
  case False
  note snap = snapshot_undisturbed [OF db]
  have keyed: "keyed Position.id (CurrentState.positions s)"
    using positions_keyed_replay [of x events s] db by (simp add: db_holds_def positions_keyed_def keyed_def)
  note fine = selected_fine [OF snap(2) keyed k]
  let ?p = "proposal_of (new 0) (now 0) k"
  let ?q = "?p\<lparr>InitiativeProposal.status := InitiativeStatus.Ready\<rparr>"
  let ?e1 = "initiative_event x to_value (from_uuid (new 1)) (now 1) (now 2) hid InitiativeProposed ?p None"
  have as_of: "AgendaCandidate.as_of_revision k = CurrentState.revision s"
    using fine(2) by (simp add: source_current_def)
  let ?e2 = "\<lambda>e1. initiative_event x to_value (from_uuid (new 2)) (now 3) (now 4) hid
    InitiativeReadied ?q (Some (ExperienceEvent.event_id e1))"
  have r: "r = res_bind (map_err InitiativeError.Event ?e1) (\<lambda>e1.
      res_bind (map_err InitiativeError.Event (?e2 e1)) (\<lambda>e2.
      case record_batch x c flt db [e1, e2] (Some (CurrentState.revision s)) None of
        Inr r \<Rightarrow> Inr (InitiativeRunResult.Proposed ?q, snd r)
      | Inl err \<Rightarrow> if revision_conflict err then Inr (InitiativeRunResult.Deferred, db)
          else Inl (InitiativeError.Projection err)))"
    using False snap(1) fresh selected_validates [OF snap(2) keyed k] as_of
    by (simp add: r_def propose_candidate_def Let_def)
  show ?thesis
  proof (cases ?e1)
    case (Inl m)
    with False show ?thesis unfolding r by (simp add: raising_event)
  next
    case e1: (Inr e1)
    show ?thesis
    proof (cases "?e2 e1")
      case (Inl m)
      with False e1 show ?thesis unfolding r by (simp add: raising_event)
    next
      case e2: (Inr e2)
      from k obtain l where kinds: "has_kind s hid Hekate" "has_kind s uid User"
        by (rule selected_cases)
      have fields: "InitiativeProposal.status ?p = InitiativeStatus.Proposed"
        "InitiativeProposal.as_of_revision ?p = CurrentState.revision s"
        "initiative_source_exists s (InitiativeProposal.source_entity ?p)"
        "has_kind s (InitiativeProposal.target_principal_id ?p) User"
        "\<not> (\<exists>q \<in> set (bt_values (initiatives s)).
           InitiativeProposal.fingerprint q = InitiativeProposal.fingerprint ?p)"
        "InitiativeProposal.id ?p = new 0"
        using fine(2) as_of kinds fresh
        by (simp_all add: proposal_of_def source_current_def fingerprint_taken_def)
      have run: "apply_all x s [e1, e2] =
          Inr (raised_state s (from_uuid (new 1)) (from_uuid (new 2)) ?p)"
        by (rule proposal_steps [OF e1 e2 serde _ _ _ _ proposal_of_ok [OF fine] fields(1-3,5) kinds(1) fields(4)])
          (use ids fields(6) in \<open>simp_all add: new_ids_def\<close>)
      show ?thesis
      proof (cases "record_batch x c flt db [e1, e2] (Some (CurrentState.revision s)) None")
        case (Inl err)
        with commit_no_conflict [OF db run Inl] show ?thesis
          using False e1 e2 unfolding r raising_def by auto
      next
        case (Inr q)
        obtain s' db' where q: "q = (s', db')" by (cases q)
        from record_batch_Inr [OF Inr [unfolded q]] db_holds_ledger(1) [OF db] run
        have "commit_batch x c flt db [e1, e2] s' (Some (CurrentState.revision s)) None = Inr db'"
          "s' = raised_state s (from_uuid (new 1)) (from_uuid (new 2)) ?p" by auto
        with commit_batch_Inr [OF this(1)] have "derived_from db' =
            Some (raised_state s (from_uuid (new 1)) (from_uuid (new 2)) ?p)" by blast
        with Inr q False e1 e2 show ?thesis unfolding r raising_def by simp
      qed
    qed
  qed
qed

text \<open>A run: nothing while the lease is held, else the first candidate not raised before.\<close>

lemma run_undisturbed:
  assumes db: "db_holds x c db events s" and serde: "reads_back x to_value" and ids: "new_ids new s"
    and r: "r = run_once x alnum to_value c flt new now (\<lambda>_. db) clk hid uid"
  shows "if has_active_foreground_lease (clk 0) db then r = Inr (InitiativeRunResult.Deferred, db)
    else
      (case find (\<lambda>k. \<not> fingerprint_taken s k) (select x alnum s events hid uid) of
         None \<Rightarrow> r = Inr (case select x alnum s events hid uid of
             [] \<Rightarrow> NoCandidate
           | k # ks \<Rightarrow> InitiativeRunResult.Duplicate (AgendaCandidate.fingerprint k), db)
       | Some k \<Rightarrow>
           if has_active_foreground_lease (clk 1) db
           then r = Inr (InitiativeRunResult.Deferred, db) else raising s new (now 0) k r)"
proof -
  note snap = snapshot_undisturbed [OF db]
  show ?thesis
  proof (cases "find (\<lambda>k. \<not> fingerprint_taken s k) (select x alnum s events hid uid)")
    case None
    with snap(1) show ?thesis unfolding r run_once_def by (simp split: list.splits)
  next
    case (Some k)
    then have k: "k \<in> set (select x alnum s events hid uid)" "\<not> fingerprint_taken s k"
      by (auto simp: find_Some_iff)
    have eq: "\<not> has_active_foreground_lease (clk 0) db \<Longrightarrow>
        r = propose_candidate x alnum to_value c flt new now (\<lambda>_. db) (clk 1) hid uid k"
      using snap(1) Some unfolding r run_once_def by (simp add: Let_def)
    show ?thesis
    proof (cases "has_active_foreground_lease (clk 0) db")
      case True
      then show ?thesis unfolding r run_once_def by simp
    next
      case False
      from propose_undisturbed [OF db serde ids k eq [OF False]] False Some show ?thesis by simp
    qed
  qed
qed

section \<open>Dismissing\<close>

lemma dismiss_undisturbed:
  assumes db: "db_holds x c db events s" and serde: "reads_back x to_value"
    and id0: "from_uuid (new 0) \<notin> set (applied_events s)"
    and run: "dismiss x to_value c flt new now (\<lambda>_. db) uid i = r"
  shows "case r of
      Inr (InitiativeRunResult.Dismissed p, db') \<Rightarrow>
        (\<exists>current. bt_get (initiatives s) i = Some current \<and>
           InitiativeProposal.target_principal_id current = uid \<and>
           p = current\<lparr>InitiativeProposal.status := InitiativeStatus.Dismissed\<rparr> \<and>
           (if InitiativeProposal.status current = InitiativeStatus.Dismissed then db' = db
            else \<exists>s'. derived_from db' = Some s' \<and>
              initiatives s' = bt_insert i p (initiatives s)))
    | Inr _ \<Rightarrow> False
    | Inl (InitiativeError.NotFound j) \<Rightarrow> j = i \<and> bt_get (initiatives s) i = None
    | Inl (InvalidCandidate m) \<Rightarrow>
        \<exists>current. bt_get (initiatives s) i = Some current \<and>
          InitiativeProposal.target_principal_id current \<noteq> uid
    | Inl (InitiativeError.Event m) \<Rightarrow> True
    | Inl (InitiativeError.Projection (ProjectionError.Storage se)) \<Rightarrow> \<not> conflicting se
    | Inl _ \<Rightarrow> False"
proof -
  note snap = snapshot_undisturbed [OF db]
  have rep: "replay x events = Inr s" using db by (simp add: db_holds_def)
  show ?thesis
  proof (cases "bt_get (initiatives s) i")
    case None
    with run snap(1) show ?thesis by (auto simp: dismiss_def)
  next
    case (Some current)
    let ?p = "current\<lparr>InitiativeProposal.status := InitiativeStatus.Dismissed\<rparr>"
    have cur: "InitiativeProposal.id current = i"
      "InitiativeProposal.status current \<in> {InitiativeStatus.Proposed, InitiativeStatus.Ready,
         InitiativeStatus.Dismissed}"
      using initiatives_inv_replay [OF rep] Some unfolding initiatives_inv_def initiative_ok_def
      by blast+
    let ?e = "initiative_event x to_value (from_uuid (new 0)) (now 0) (now 1) uid
        InitiativeDismissed ?p None"
    show ?thesis
    proof (cases "InitiativeProposal.target_principal_id current = uid \<and>
        InitiativeProposal.status current \<noteq> InitiativeStatus.Dismissed")
      case False
      have "current\<lparr>InitiativeProposal.status := InitiativeStatus.Dismissed\<rparr> = current"
        if "InitiativeProposal.status current = InitiativeStatus.Dismissed"
        using that by (cases current) simp
      with False run snap(1) Some show ?thesis by (auto simp: dismiss_def intro!: exI [of _ current])
    next
      case True
      then have r: "r = res_bind (map_err InitiativeError.Event ?e) (\<lambda>e.
          case record_batch x c flt db [e] (Some (CurrentState.revision s)) None of
            Inr r \<Rightarrow> Inr (InitiativeRunResult.Dismissed ?p, snd r)
          | Inl err \<Rightarrow> if revision_conflict err then Inr (InitiativeRunResult.Deferred, db)
              else Inl (InitiativeError.Projection err))"
        using run snap(1) Some by (auto simp: dismiss_def Let_def)
      show ?thesis
      proof (cases ?e)
        case (Inl m)
        then show ?thesis unfolding r by simp
      next
        case e: (Inr e)
        note a = initiative_event_Inr [OF e]
        have de: "de_initiative x (payload e) = Inr ?p" using serde a(1) by (auto simp: reads_back_def)
        let ?s' = "s\<lparr>initiatives := bt_insert i ?p (initiatives s),
          CurrentState.revision := CurrentState.revision s + 1,
          applied_events := applied_events s @ [from_uuid (new 0)]\<rparr>"
        have "apply_initiative_dismissed x s e =
            Inr (s\<lparr>initiatives := bt_insert i ?p (initiatives s)\<rparr>)"
          using de a cur Some True
          by (auto simp: apply_initiative_dismissed_def apply_initiative_status_def decode_def Let_def)
        then have run1: "apply_all x s [e] = Inr ?s'"
          using a id0 by (simp add: apply_event_def apply_kind_def)
        show ?thesis
        proof (cases "record_batch x c flt db [e] (Some (CurrentState.revision s)) None")
          case (Inl err)
          with commit_no_conflict [OF db run1 Inl] show ?thesis unfolding r e by auto
        next
          case (Inr q)
          obtain s' db' where q: "q = (s', db')" by (cases q)
          from record_batch_Inr [OF Inr [unfolded q]] db_holds_ledger(1) [OF db] run1
          have com: "commit_batch x c flt db [e] ?s' (Some (CurrentState.revision s)) None = Inr db'"
            by auto
          have "derived_from db' = Some ?s'" using commit_batch_Inr [OF com] by blast
          with Inr q True Some show ?thesis unfolding r e by (auto simp: cur(1))
        qed
      qed
    qed
  qed
qed

end
