(* ===== verification/InitiativeScenario.thy ===== *)
theory InitiativeScenario
  imports InitiativeServiceFacts IntegrationScenario
begin

text \<open>
  A concrete run of the initiative service: HEKATE owes the user a promise, the agenda selects
  a follow-up, the service raises it.
\<close>

section \<open>Data\<close>

definition the_pledge :: Commitment where
  "the_pledge = \<lparr>Commitment.id = from_uuid 60, debtor_principal_id = from_uuid 2,
     creditor_principal_id = from_uuid 1, promise = ''tea'', status = CommitmentStatus.Open,
     source_event_id = Some (from_uuid 13), created_at = ''t''\<rparr>"

definition pledge_ref :: EntityRef where
  "pledge_ref = \<lparr>EntityRef.kind = EntityKind.Commitment, id = 60\<rparr>"

definition the_follow_up :: AgendaCandidate where
  "the_follow_up = \<lparr>AgendaCandidate.kind = FollowUp,
     content = ''Can I follow up on my commitment: tea?'',
     rationale = ''HEKATE has an open commitment to this principal with a verified source event.'',
     source_entity = pledge_ref, source_version = 5, source_event_ids = [from_uuid 13],
     target_principal_id = from_uuid 1, as_of_revision = 5,
     fingerprint = initiative_fingerprint blank_ext FollowUp pledge_ref 5 (from_uuid 1) [from_uuid 13]\<rparr>"

definition the_reminder :: "InitiativeStatus \<Rightarrow> InitiativeProposal" where
  "the_reminder st = (proposal_of 70 ''t'' the_follow_up)\<lparr>InitiativeProposal.status := st\<rparr>"

definition pledge :: ext where
  "pledge = night\<lparr>de_commitment := tagged [(''pledge'', the_pledge)],
     de_initiative := tagged [(''raise'', the_reminder InitiativeStatus.Proposed),
       (''ready'', the_reminder InitiativeStatus.Ready)]\<rparr>"

definition pledge_event :: ExperienceEvent where
  "pledge_event = an_event 46 1 CommitmentCreated ''pledge'' (Some pledge_ref)"

definition pledge_ledger :: "ExperienceEvent list" where
  "pledge_ledger = setup_events @ [pledge_event]"

definition pledged_state :: CurrentState where
  "pledged_state = setup_state\<lparr>CurrentState.revision := 5,
     CurrentState.commitments := [(from_uuid 60, the_pledge)],
     applied_events := applied_events setup_state @ [from_uuid 46]\<rparr>"

definition reminder_values :: "InitiativeProposal \<Rightarrow> string + json" where
  "reminder_values p =
     (if p = the_reminder InitiativeStatus.Proposed then Inr (JNumber ''raise'')
      else if p = the_reminder InitiativeStatus.Ready then Inr (JNumber ''ready'')
      else Inl [])"

definition reminder_ids :: "nat \<Rightarrow> Uuid" where "reminder_ids i = 70 + of_nat i"

abbreviation pledge_codec :: codec where "pledge_codec \<equiv> study_codec pledged_state"
abbreviation pledge_db :: Db where "pledge_db \<equiv> stored pledge pledge_codec pledge_ledger"

lemma pledge_fields [simp]:
  "de_commitment pledge = tagged [(''pledge'', the_pledge)]"
  "de_initiative pledge = tagged [(''raise'', the_reminder InitiativeStatus.Proposed),
     (''ready'', the_reminder InitiativeStatus.Ready)]"
  "event_json pledge = (\<lambda>e. Inr [])" "sha256_hex pledge = sha256_hex blank_ext"
  "uuid_text pledge = uuid_text blank_ext" "id_text pledge = (id_text blank_ext :: 'a Id \<Rightarrow> string)"
  "initiative_fingerprint pledge = initiative_fingerprint blank_ext"
  using night_texts night_initiative
  by (auto simp: pledge_def sha256_hex_def [abs_def] initiative_fingerprint_def [abs_def]
      id_text_def [abs_def] Let_def)

section \<open>The ledger and its database\<close>

lemma pledge_setup: "replay pledge setup_events = Inr setup_state"
  by (simp add: replay_def setup_events_def setup_state_def default_state_def step_defs
      apply_criterion_defined_def pledge_def night_def demo_def blank_ext_def
      normalize_description_def)

lemma pledge_replay: "replay pledge pledge_ledger = Inr pledged_state"
proof -
  have "apply_event pledge setup_state pledge_event = Inr pledged_state"
    by (simp add: step_defs pledge_event_def pledged_state_def night_states the_pledge_def)
  then show ?thesis using pledge_setup by (simp add: replay_def pledge_ledger_def ledger.run_append)
qed

lemma pledge_events:
  "\<forall>e \<in> set pledge_ledger. codec_reads_event pledge (study_codec s) e \<and> writable pledge (study_codec s) e"
  unfolding pledge_ledger_def setup_events_def pledge_event_def
  by (simp add: study_reads [where t = "''p''"] study_reads [where t = "''t''"]
      study_reads [where t = "''k''"] study_reads [where t = "''g''"] pledge_ref_def
      study_kinds_def study_entities_def)

lemma pledge_holds:
  "db_holds pledge pledge_codec pledge_db pledge_ledger pledged_state"
  "rows_of pledge pledge_codec pledge_db pledge_ledger"
  using stored_holds [OF pledge_replay] pledge_events study_state blank_texts_inj
  by (simp_all add: pledge_ledger_def is_ok_iff setup_events_def)

lemma pledge_reads: "reads_back pledge reminder_values"
  by (auto simp: reads_back_def reminder_values_def tagged_def split: if_splits)

lemma pledge_new: "new_ids reminder_ids pledged_state"
  by (simp add: new_ids_def reminder_ids_def pledged_state_def night_states bt_contains_def)

lemma pledge_unleased: "\<not> has_active_foreground_lease now pledge_db"
proof -
  have "lease_row pledge_db = None"
  proof (cases "record_batch pledge pledge_codec (\<lambda>_. None) fresh_db pledge_ledger None None")
    case (Inl e)
    then show ?thesis by (simp add: stored_def fresh_db_def)
  next
    case (Inr r)
    obtain s' db' where r: "r = (s', db')" by (cases r)
    from record_batch_Inr [OF Inr [unfolded r]] commit_batch_Inr
    have "lease_row db' = lease_row fresh_db" by blast
    with Inr r show ?thesis by (simp add: stored_def fresh_db_def)
  qed
  then show ?thesis by (simp add: has_active_foreground_lease_def)
qed

section \<open>The selection\<close>

lemma pledge_ledger_verified:
  "verified_ledger pledge pledged_state pledge_ledger =
     Some [(from_uuid 11, setup_events ! 0, 1), (from_uuid 12, setup_events ! 1, 2),
           (from_uuid 13, setup_events ! 2, 3), (from_uuid 14, setup_events ! 3, 4),
           (from_uuid 46, pledge_event, 5)]"
proof -
  have ids: "applied_events pledged_state = [from_uuid 11, from_uuid 12, from_uuid 13, from_uuid 14, from_uuid 46]"
    by (simp add: pledged_state_def setup_state_def)
  have sq: "sequences (applied_events pledged_state) =
      [(from_uuid 11, 1), (from_uuid 12, 2), (from_uuid 13, 3), (from_uuid 14, 4), (from_uuid 46, 5)]"
    unfolding ids by (simp add: sequences_def sequenced_def upt_conv_Cons less_Id_def)
  have v: "verify_integrity pledge (an_event eid actor k tag subj) = Inr True" for eid actor k tag subj
    by (simp add: verify_integrity_def calculate_hash_def an_event_def)
  have e: "ExperienceEvent.event_id (an_event eid actor k tag subj) = from_uuid eid" for eid actor k tag subj
    by (simp add: an_event_def)
  have "foldl (enter_event pledge (sequences (applied_events pledged_state))) [] pledge_ledger =
     [(from_uuid 11, setup_events ! 0, 1), (from_uuid 12, setup_events ! 1, 2),
           (from_uuid 13, setup_events ! 2, 3), (from_uuid 14, setup_events ! 3, 4),
           (from_uuid 46, pledge_event, 5)]"
    unfolding sq pledge_ledger_def setup_events_def pledge_event_def
    by (simp add: enter_event_def v e bt_contains_def less_Id_def)
  moreover have "CurrentState.revision pledged_state = 5" by (simp add: pledged_state_def)
  ultimately show ?thesis
    unfolding verified_ledger_def Let_def sq by (simp add: ids len_u64_def)
qed

lemma pledge_texts:
  "bounded_text (''Can I follow up on my commitment: '' @ ''tea'' @ ''?'') =
     ''Can I follow up on my commitment: tea?''"
  "bounded_text ''HEKATE has an open commitment to this principal with a verified source event.'' =
     ''HEKATE has an open commitment to this principal with a verified source event.''"
  by code_simp+

lemma pledge_commitment:
  assumes "l = [(from_uuid 11, setup_events ! 0, 1), (from_uuid 12, setup_events ! 1, 2),
      (from_uuid 13, setup_events ! 2, 3), (from_uuid 14, setup_events ! 3, 4),
      (from_uuid 46, pledge_event, 5)]"
  shows "commitment_candidate pledge pledged_state l (from_uuid 2) (from_uuid 1) the_pledge =
     Some the_follow_up"
proof -
  have cur: "current_commitment pledge the_pledge l = Some (5, CommitmentCreated)"
    unfolding assms
    by (simp add: current_commitment_def latest_entity_payload_def later_payload_def bt_values_def
        setup_events_def pledge_event_def an_event_def subject_is_def pledge_ref_def the_pledge_def
        tagged_def)
  have src: "bounded_valid_event_ids [from_uuid 13] l (Some 5) = [from_uuid 13]"
    unfolding assms
    by (simp add: bounded_valid_event_ids_def newest_sources_def MAX_CANDIDATE_SOURCES_def)
  have rev: "CurrentState.revision pledged_state = 5" by (simp add: pledged_state_def)
  show ?thesis
    using cur src pledge_texts rev
    by (simp add: commitment_candidate_def)
      (simp add: the_pledge_def the_follow_up_def pledge_ref_def make_candidate_def
        MAX_CANDIDATE_SOURCES_def Let_def)
qed

lemma pledge_selection:
  "select pledge alnum pledged_state pledge_ledger (from_uuid 2) (from_uuid 1) = [the_follow_up]"
proof -
  let ?l = "[(from_uuid 11, setup_events ! 0, 1), (from_uuid 12, setup_events ! 1, 2),
      (from_uuid 13, setup_events ! 2, 3), (from_uuid 14, setup_events ! 3, 4),
      (from_uuid 46, pledge_event, 5)]"
  have kinds: "has_kind pledged_state (from_uuid 2) Hekate" "has_kind pledged_state (from_uuid 1) User"
    by (simp_all add: has_kind_def pledged_state_def setup_state_def the_user_def the_hekate_def)
  have maps: "bt_values (CurrentState.conflicts pledged_state) = []"
    "bt_values (CurrentState.positions pledged_state) = []"
    "bt_values (CurrentState.commitments pledged_state) = [the_pledge]"
    by (simp_all add: pledged_state_def setup_state_def default_state_def bt_values_def)
  have "add_conflict_candidates pledge pledged_state ?l (from_uuid 2) (from_uuid 1) = []"
    "add_position_review_candidates pledge alnum pledged_state ?l (from_uuid 2) (from_uuid 1) = []"
    "add_commitment_candidates pledge pledged_state ?l (from_uuid 2) (from_uuid 1) = [the_follow_up]"
    using pledge_commitment [OF refl]
    by (simp_all add: add_conflict_candidates_def add_position_review_candidates_def
        add_commitment_candidates_def maps)
  then show ?thesis
    using kinds pledge_ledger_verified
    by (simp add: select_def ranked_def MAX_SLEEP_CANDIDATES_def)
qed

section \<open>The run\<close>

definition raise_events :: "ExperienceEvent list" where
  "raise_events = map (\<lambda>(eid, k, tag, caus).
     (an_event eid 2 k tag (Some \<lparr>EntityRef.kind = EntityKind.Initiative, id = 70\<rparr>))
     \<lparr>source := \<lparr>EventSource.source_type = ''initiative'', source_ref = Some (uuid_text blank_ext 70)\<rparr>,
      correlation_id := Some (uuid_text blank_ext 70), causation_id := caus\<rparr>)
     [(71, InitiativeProposed, ''raise'', None),
      (72, InitiativeReadied, ''ready'', Some (from_uuid 71))]"

lemma raise_made:
  "initiative_event pledge reminder_values (from_uuid 71) ''t'' ''t'' (from_uuid 2) InitiativeProposed
     (the_reminder InitiativeStatus.Proposed) None = Inr (raise_events ! 0)"
  "initiative_event pledge reminder_values (from_uuid 72) ''t'' ''t'' (from_uuid 2) InitiativeReadied
     (the_reminder InitiativeStatus.Ready) (Some (from_uuid 71)) = Inr (raise_events ! 1)"
  by (simp_all add: initiative_event_def new_with_id_def calculate_hash_def raise_events_def
      an_event_def reminder_values_def the_reminder_def proposal_of_def Let_def)

lemma reminder_run:
  "\<exists>db'. run_once pledge alnum reminder_values pledge_codec no_fault reminder_ids clock
     (\<lambda>_. pledge_db) clk (from_uuid 2) (from_uuid 1) =
     Inr (InitiativeRunResult.Proposed (the_reminder InitiativeStatus.Ready), db')"
proof -
  have sel: "the_follow_up \<in> set (select pledge alnum pledged_state pledge_ledger (from_uuid 2) (from_uuid 1))"
    by (simp add: pledge_selection)
  have fresh: "\<not> fingerprint_taken pledged_state the_follow_up"
    by (simp add: fingerprint_taken_def pledged_state_def night_states bt_values_def)
  note snap = snapshot_undisturbed [OF pledge_holds(1)]
  have keyed: "keyed Position.id (CurrentState.positions pledged_state)"
    by (simp add: keyed_def pledged_state_def night_states)
  note val = selected_validates [OF snap(2) keyed sel]
  have p: "proposal_of 70 ''t'' the_follow_up = the_reminder InitiativeStatus.Proposed"
    "(the_reminder InitiativeStatus.Proposed)\<lparr>InitiativeProposal.status := InitiativeStatus.Ready\<rparr> =
       the_reminder InitiativeStatus.Ready"
    by (simp_all add: the_reminder_def proposal_of_def)
  have ids: "ExperienceEvent.event_id (raise_events ! 0) = from_uuid 71"
    by (simp add: raise_events_def an_event_def)
  have as_of: "AgendaCandidate.as_of_revision the_follow_up = CurrentState.revision pledged_state"
    by (simp add: the_follow_up_def pledged_state_def)
  have fields: "InitiativeProposal.status (the_reminder InitiativeStatus.Proposed) = InitiativeStatus.Proposed"
    "InitiativeProposal.as_of_revision (the_reminder InitiativeStatus.Proposed) =
       CurrentState.revision pledged_state"
    "initiative_source_exists pledged_state
       (InitiativeProposal.source_entity (the_reminder InitiativeStatus.Proposed))"
    "\<not> (\<exists>q \<in> set (bt_values (initiatives pledged_state)).
       InitiativeProposal.fingerprint q =
       InitiativeProposal.fingerprint (the_reminder InitiativeStatus.Proposed))"
    "has_kind pledged_state (from_uuid 2) Hekate"
    "has_kind pledged_state
       (InitiativeProposal.target_principal_id (the_reminder InitiativeStatus.Proposed)) User"
    "from_uuid 71 \<notin> set (applied_events pledged_state)" "from_uuid 72 \<notin> set (applied_events pledged_state)"
    "from_uuid 71 \<noteq> (from_uuid 72 :: EventId)"
    "\<not> bt_contains (initiatives pledged_state)
       (InitiativeProposal.id (the_reminder InitiativeStatus.Proposed))"
    by (simp_all add: the_reminder_def proposal_of_def the_follow_up_def pledged_state_def
        night_states has_kind_def the_user_def the_hekate_def pledge_ref_def bt_values_def
        bt_contains_def initiative_source_exists_def has_key_def bt_keys_def)
  have run: "apply_all pledge pledged_state [raise_events ! 0, raise_events ! 1] =
      Inr (raised_state pledged_state (from_uuid 71) (from_uuid 72)
        (the_reminder InitiativeStatus.Proposed))"
    by (rule proposal_steps [OF raise_made(1) raise_made(2) [folded p(2)] pledge_reads])
      (use fields proposal_of_ok [OF selected_fine [OF snap(2) keyed sel], of 70 "''t''"] p(1) in simp_all)
  have w: "\<forall>e \<in> set [raise_events ! 0, raise_events ! 1]. writable pledge pledge_codec e"
    by (simp add: raise_events_def writable_def an_event_def verify_integrity_def
        calculate_hash_def is_ok_iff)
  from record_possible [OF pledge_holds run _ w, of "Some (CurrentState.revision pledged_state)" no_fault]
  obtain db' where "record_batch pledge pledge_codec no_fault pledge_db
      [raise_events ! 0, raise_events ! 1] (Some (CurrentState.revision pledged_state)) None =
      Inr (raised_state pledged_state (from_uuid 71) (from_uuid 72)
        (the_reminder InitiativeStatus.Proposed), db')"
    using blank_texts_inj
    by (auto simp: is_ok_iff pledge_ledger_def setup_events_def no_fault_def [abs_def])
  then show ?thesis
    using snap(1) fresh val as_of raise_made p ids pledge_unleased
    by (simp add: run_once_def propose_candidate_def pledge_selection reminder_ids_def Let_def)
qed

end
