(* ===== verification/InitiativeProperties.thy ===== *)
theory InitiativeProperties
  imports InitiativeScenario StateTyping
begin

text \<open>
  Properties of the initiative service: what the agenda selects, what a run does with it, how
  long the worker waits; and the typing of the projected state.
\<close>

section \<open>The agenda\<close>

text \<open>
  C10. The agenda selects at most eight candidates in the order of priority, source entity,
  version and fingerprint. Each is well-formed, rests on at most sixteen events of the ledger,
  names an existing source that the user owns or is addressed by, at its current version, and
  passes the service's own validation.
\<close>

theorem agenda_selection_sound:
  assumes "replay x events = Inr s" and "length events < 2 ^ 63"
  shows "length (select x alnum s events hid uid) \<le> 8 \<and>
    sorted (map agenda_order (select x alnum s events hid uid)) \<and>
    list_all (\<lambda>k. candidate_fine x k \<and> source_current x s events hid uid k \<and>
      validate_agenda_candidate x alnum s events k hid uid = Inr ())
      (select x alnum s events hid uid)"
proof -
  have step: "in_step x s events" using assms by (simp add: in_step_def)
  have keyed: "keyed Position.id (CurrentState.positions s)"
    using positions_keyed_replay [OF assms(1)] by (simp add: positions_keyed_def keyed_def)
  have "length (select x alnum s events hid uid) \<le> 8"
    by (simp add: select_def ranked_def MAX_SLEEP_CANDIDATES_def split: option.split)
  moreover have "sorted (map agenda_order (select x alnum s events hid uid))"
    using ranked_sorted by (simp add: select_def split: option.split)
  ultimately show ?thesis
    using selected_fine [OF step keyed] selected_validates [OF step keyed]
    by (simp add: list_all_iff)
qed

theorem agenda_selection_sound_witness:
  "candidate_fine pledge the_follow_up \<and>
   source_current pledge pledged_state pledge_ledger (from_uuid 2) (from_uuid 1) the_follow_up"
proof -
  have "length pledge_ledger < 2 ^ 63" by (simp add: pledge_ledger_def setup_events_def)
  from agenda_selection_sound [OF pledge_replay this, of "\<lambda>_. False" "from_uuid 2" "from_uuid 1"]
  show ?thesis by (simp add: pledge_selection)
qed

section \<open>A run\<close>

text \<open>
  C9. On an unchanged database a run does nothing while a foreground lease is active; otherwise
  it raises the first selected candidate whose fingerprint no initiative has, and reports a
  duplicate or no candidate when there is none. Raising fails with an error of serialization or
  of the storage only, never because the projector refuses the events, and stores the proposal
  as ready, two events after the state it was selected from.
\<close>

theorem initiative_run_exactly:
  assumes "db_holds x c db events s" and "reads_back x to_value" and "new_ids new s"
    and "r = run_once x alnum to_value c flt new now (\<lambda>_. db) clk hid uid"
  shows "if has_active_foreground_lease (clk 0) db then r = Inr (InitiativeRunResult.Deferred, db)
    else
      (case find (\<lambda>k. \<not> fingerprint_taken s k) (select x alnum s events hid uid) of
         None \<Rightarrow> r = Inr (case select x alnum s events hid uid of
             [] \<Rightarrow> NoCandidate
           | k # ks \<Rightarrow> InitiativeRunResult.Duplicate (AgendaCandidate.fingerprint k), db)
       | Some k \<Rightarrow>
           if has_active_foreground_lease (clk 1) db
           then r = Inr (InitiativeRunResult.Deferred, db) else raising s new (now 0) k r)"
  by (rule run_undisturbed [OF assms])

theorem initiative_run_exactly_witness:
  "raising pledged_state reminder_ids ''t'' the_follow_up
     (run_once pledge (\<lambda>_. False) reminder_values pledge_codec no_fault reminder_ids clock
       (\<lambda>_. pledge_db) (\<lambda>_. 0) (from_uuid 2) (from_uuid 1)) \<and>
   (\<exists>db'. run_once pledge (\<lambda>_. False) reminder_values pledge_codec no_fault reminder_ids clock
       (\<lambda>_. pledge_db) (\<lambda>_. 0) (from_uuid 2) (from_uuid 1) =
     Inr (InitiativeRunResult.Proposed (the_reminder InitiativeStatus.Ready), db'))"
proof -
  have fresh: "\<not> fingerprint_taken pledged_state the_follow_up"
    by (simp add: fingerprint_taken_def pledged_state_def night_states bt_values_def)
  from initiative_run_exactly [OF pledge_holds(1) pledge_reads pledge_new refl,
      where alnum = "\<lambda>_. False" and flt = no_fault and now = clock and clk = "\<lambda>_. 0"
        and hid = "from_uuid 2" and uid = "from_uuid 1"] reminder_run
  show ?thesis using fresh pledge_unleased by (simp add: pledge_selection)
qed

section \<open>The pace of the worker\<close>

lemma backoff_from_min:
  "d \<le> m \<Longrightarrow> m \<le> DURATION_MAX \<Longrightarrow> backoff_from m d n = min (d * 2 ^ n) m"
proof (induction n arbitrary: d)
  case (Suc n)
  let ?d = "min (unwrap_or m (duration_checked_add d d)) m"
  have d: "?d = min (2 * d) m"
    using Suc.prems by (auto simp: duration_checked_add_def min_def)
  show ?case
  proof (cases "2 * d < m")
    case True
    with Suc.IH [of "2 * d"] Suc.prems d show ?thesis by (simp add: Let_def mult.assoc)
  next
    case False
    then have "m \<le> 2 * d" by simp
    also have "\<dots> \<le> d * 2 ^ Suc n" by simp
    finally have "m \<le> d * 2 ^ Suc n" .
    with False d show ?thesis by (simp add: Let_def min_absorb2)
  qed
qed simp

text \<open>
  After \<open>n\<close> consecutive failures the worker waits the initial backoff doubled \<open>n\<close> times,
  capped at the configured maximum; the doubling never overflows a \<open>Duration\<close>.
\<close>

theorem worker_backoff_exactly:
  assumes "config_valid cfg" and "max_error_backoff cfg \<le> DURATION_MAX" and "n < 2 ^ 32"
  shows "worker_delays cfg 0 (replicate n (Failed err)) =
    map (\<lambda>k. min (initial_error_backoff cfg * 2 ^ k) (max_error_backoff cfg)) [0..<n]"
proof -
  have "worker_delays cfg (of_nat m) (replicate n (Failed err)) =
      map (\<lambda>k. min (initial_error_backoff cfg * 2 ^ k) (max_error_backoff cfg)) [m..<m + n]"
    if "m + n < 2 ^ 32" for m
    using that
  proof (induction n arbitrary: m)
    case (Suc n)
    have u: "unat (of_nat m :: u32) = m"
      using Suc.prems by (simp add: unat_of_nat)
    have "bounded_backoff (initial_error_backoff cfg) (max_error_backoff cfg) (of_nat m) =
        min (initial_error_backoff cfg * 2 ^ m) (max_error_backoff cfg)"
      using Suc.prems assms(1,2)
      by (simp add: bounded_backoff_def backoff_from_min config_valid_def u)
    moreover have "saturating_add (of_nat m :: u32) 1 = of_nat (Suc m)"
      using Suc.prems by (simp add: saturating_add_def u)
    moreover have "[m..<m + Suc n] = m # [Suc m..<Suc m + n]"
      using upt_conv_Cons [of m "m + Suc n"] by simp
    ultimately show ?case using Suc.IH [of "Suc m"] Suc.prems by (simp del: upt_Suc)
  qed simp
  from this [of 0] assms(3) show ?thesis by simp
qed

theorem worker_backoff_exactly_witness:
  "worker_delays \<lparr>idle_interval = 1, completed_interval = 1, deferred_interval = 1,
     initial_error_backoff = 3, max_error_backoff = 10\<rparr> 0 (replicate 4 (Failed [])) =
   [3, 6, 10, 10]"
proof -
  let ?cfg = "\<lparr>idle_interval = 1, completed_interval = 1, deferred_interval = 1,
     initial_error_backoff = 3, max_error_backoff = 10\<rparr> :: InitiativeWorkerConfig"
  have "config_valid ?cfg" "max_error_backoff ?cfg \<le> DURATION_MAX"
    by (simp_all add: config_valid_def DURATION_MAX_def)
  from worker_backoff_exactly [OF this, of 4 "[]"] show ?thesis by (simp add: upt_conv_Cons)
qed

section \<open>The typing of the state\<close>

text \<open>
  C36. Every one of the thirty-one maps of a projected state is in key order and keeps each
  record under the identifier the record itself carries: its own, its run's, its observation's
  or its candidate's.
\<close>

theorem projected_state_typed:
  assumes "replay x events = Inr s"
  shows "state_typed s"
  by (rule state_typed_replay [OF assms])

theorem projected_state_typed_witness:
  "keyed Commitment.id (CurrentState.commitments pledged_state)"
  using projected_state_typed [OF pledge_replay] by (simp add: state_typed_def records_wf_maps)

end
