(* ===== verification/PromptBudget.thy ===== *)
theory PromptBudget
  imports Thought
begin

text \<open>
  The budget of a model request (\<open>src/core/model_io.rs\<close>, \<open>src/runtime/prompt_budget.rs\<close>): the
  byte estimate, the loop that drops optional items from the end until the request fits, and the
  gate before the transport. \<open>jt\<close> is \<open>serde_json\<close>'s text of a value; its objects are in key order.
\<close>

section \<open>Data\<close>

datatype Think = Enabled bool | Level string

record ModelIoConfig =
  transport :: TransportKind
  context_tokens :: "u32 option"
  foreground_max_tokens :: u32
  sleep_max_tokens :: u32
  safety_margin :: u32
  foreground_reasoning_effort :: string
  sleep_reasoning_effort :: string
  foreground_think :: "Think option"
  sleep_think :: "Think option"

definition default_model_io :: ModelIoConfig where
  "default_model_io =
     \<lparr>ModelIoConfig.transport = OpenaiCompatible, context_tokens = None,
      foreground_max_tokens = 8192, sleep_max_tokens = 4096, safety_margin = 512,
      foreground_reasoning_effort = ''low'', sleep_reasoning_effort = ''none'',
      foreground_think = None, sleep_think = None\<rparr>"

record ModelMessage =
  role :: string
  content :: string

record PreparedModelRequest =
  messages :: "ModelMessage list"
  purpose :: RequestPurpose
  budget :: BudgetReport
  evidence_ids :: "EventId list"
  position_ids :: "PositionId list"
  conflict_ids :: "ConflictId list"
  context_revision :: u64
  context_hash :: string
  reasoning_effort :: string
  think :: "Think option"

record PromptItem =
  "value" :: json
  evidence_ids :: "EventId list"

record RenderedPrompt =
  system :: string
  required :: PromptItem
  optional :: "PromptItem list"
  position_ids :: "PositionId list"
  conflict_ids :: "ConflictId list"
  revision :: u64
  hash :: string

datatype PreparationError = Configuration string | Budget BudgetReport

section \<open>The estimate\<close>

definition message_cost :: "ModelMessage \<Rightarrow> u64" where
  "message_cost m =
     saturating_add
       (saturating_add (of_nat (length (role m)) :: usize) (of_nat (length (ModelMessage.content m)))) 32"

definition estimate :: "ModelMessage list \<Rightarrow> u64" where
  "estimate ms = saturating_add 128 (foldl saturating_add 0 (map message_cost ms))"

section \<open>Preparing a request\<close>

text \<open>Rendering with a selection of the optional items: the evidence and the messages.\<close>

definition selected_evidence :: "RenderedPrompt \<Rightarrow> PromptItem list \<Rightarrow> EventId list" where
  "selected_evidence r sel =
     dedup_by (\<lambda>a b. a = b)
       (sort (PromptItem.evidence_ids (required r) @ concat (map PromptItem.evidence_ids sel)))"

definition rendered_messages ::
  "ext \<Rightarrow> (json \<Rightarrow> string) \<Rightarrow> RenderedPrompt \<Rightarrow> string option \<Rightarrow> PromptItem list \<Rightarrow> ModelMessage list"
where
  "rendered_messages x jt r corr sel =
     [\<lparr>role = ''system'', content = system r\<rparr>,
      \<lparr>role = ''user'', content = jt (JObject
         [(''allowed_evidence_event_ids'',
             JArray (map (\<lambda>i. JString (id_text x i)) (selected_evidence r sel))),
          (''current'', PromptItem.value (required r)),
          (''historical_evidence_untrusted'', JArray (map PromptItem.value sel))])\<rparr>] @
     (case corr of None \<Rightarrow> [] | Some t \<Rightarrow> [\<lparr>role = ''system'', content = t\<rparr>])"

definition budget_report :: "u32 \<Rightarrow> u32 \<Rightarrow> u32 \<Rightarrow> ModelMessage list \<Rightarrow> usize \<Rightarrow> BudgetReport" where
  "budget_report ctx out margin ms excluded =
     \<lparr>BudgetReport.context_tokens = ctx, context_source = ''configured'',
      estimated_input_tokens = estimate ms,
      estimation_method = ''estimated_utf8_bytes_plus_template_v1'',
      reserved_output_tokens = out, safety_margin = margin, excluded_items = excluded\<rparr>"

definition report_fits :: "BudgetReport \<Rightarrow> bool" where
  "report_fits b \<longleftrightarrow>
     saturating_add (saturating_add (estimated_input_tokens b) (ucast (reserved_output_tokens b)))
       (ucast (BudgetReport.safety_margin b)) \<le> ucast (BudgetReport.context_tokens b)"

definition prepared_request ::
  "RenderedPrompt \<Rightarrow> RequestPurpose \<Rightarrow> string \<Rightarrow> Think option \<Rightarrow> PromptItem list \<Rightarrow>
   ModelMessage list \<Rightarrow> BudgetReport \<Rightarrow> PreparedModelRequest"
where
  "prepared_request r p eff th sel ms b =
     \<lparr>messages = ms, purpose = p, budget = b, evidence_ids = selected_evidence r sel,
      position_ids = RenderedPrompt.position_ids r, conflict_ids = RenderedPrompt.conflict_ids r,
      context_revision = RenderedPrompt.revision r, context_hash = hash r, reasoning_effort = eff,
      think = th\<rparr>"

text \<open>The loop: the last optional item goes first.\<close>

function prepare_loop ::
  "ext \<Rightarrow> (json \<Rightarrow> string) \<Rightarrow> RenderedPrompt \<Rightarrow> RequestPurpose \<Rightarrow> string option \<Rightarrow> u32 \<Rightarrow> u32 \<Rightarrow> u32 \<Rightarrow>
   string \<Rightarrow> Think option \<Rightarrow> PromptItem list \<Rightarrow> usize \<Rightarrow> PreparationError + PreparedModelRequest"
where
  "prepare_loop x jt r p corr ctx out margin eff th sel excluded =
     (let ms = rendered_messages x jt r corr sel;
          b = budget_report ctx out margin ms excluded in
      if report_fits b then Inr (prepared_request r p eff th sel ms b)
      else if sel = [] then Inl (Budget b)
      else prepare_loop x jt r p corr ctx out margin eff th (butlast sel) (excluded + 1))"
  by pat_completeness auto
termination
  by (relation "measure (\<lambda>(x, jt, r, p, corr, ctx, out, margin, eff, th, sel, excluded). length sel)")
    simp_all

declare prepare_loop.simps [simp del]

definition prepare ::
  "ext \<Rightarrow> (json \<Rightarrow> string) \<Rightarrow> RenderedPrompt \<Rightarrow> ModelIoConfig \<Rightarrow> RequestPurpose \<Rightarrow> string option \<Rightarrow>
   PreparationError + PreparedModelRequest"
where
  "prepare x jt r cfg p corr =
     (case ModelIoConfig.context_tokens cfg of
        None \<Rightarrow> Inl (Configuration ''set model_io.context_tokens or HEKATE_MODEL_CONTEXT_TOKENS to the deployment context limit before generation'')
      | Some ctx \<Rightarrow>
          if \<not> ctx > 0
          then Inl (Configuration ''set model_io.context_tokens or HEKATE_MODEL_CONTEXT_TOKENS to the deployment context limit before generation'')
          else
            (case (case p of
                Foreground \<Rightarrow>
                  (foreground_max_tokens cfg, foreground_reasoning_effort cfg, foreground_think cfg)
              | Sleep \<Rightarrow> (sleep_max_tokens cfg, sleep_reasoning_effort cfg, sleep_think cfg)) of
               (out, eff, th) \<Rightarrow>
                 if out = 0 \<or>
                    (ucast out :: u64) + ucast (ModelIoConfig.safety_margin cfg) \<ge> ucast ctx
                 then Inl (Configuration ''generation reservation plus safety margin must be smaller than context_tokens; generation reservation must be positive'')
                 else prepare_loop x jt r p corr ctx out (ModelIoConfig.safety_margin cfg) eff th
                        (optional r) 0))"

text \<open>The gate of the transport.\<close>

definition check_prepared :: "PreparedModelRequest \<Rightarrow> bool" where
  "check_prepared q \<longleftrightarrow>
     (let b = budget q in
      estimate (messages q) = estimated_input_tokens b \<and>
      saturating_add (saturating_add (estimate (messages q)) (ucast (reserved_output_tokens b)))
        (ucast (BudgetReport.safety_margin b)) \<le> ucast (BudgetReport.context_tokens b))"

section \<open>The longest prefix that fits\<close>

text \<open>What several loops of the program search for, from the longest prefix to the shortest.\<close>

definition longest_fit :: "(nat \<Rightarrow> bool) \<Rightarrow> nat \<Rightarrow> nat option" where
  "longest_fit P n = find P (rev [0..<Suc n])"

lemma longest_fit_0: "longest_fit P 0 = (if P 0 then Some 0 else None)"
  by (simp add: longest_fit_def)

lemma longest_fit_Suc: "longest_fit P (Suc n) = (if P (Suc n) then Some (Suc n) else longest_fit P n)"
  by (simp add: longest_fit_def)

lemma longest_fit_Some:
  "longest_fit P n = Some k \<longleftrightarrow> k \<le> n \<and> P k \<and> (\<forall>j. k < j \<longrightarrow> j \<le> n \<longrightarrow> \<not> P j)"
proof (induction n)
  case (Suc n)
  show ?case
  proof (cases "P (Suc n)")
    case True
    then show ?thesis by (auto simp: longest_fit_Suc dest: le_neq_implies_less)
  next
    case False
    with Suc show ?thesis by (auto simp: longest_fit_Suc le_Suc_eq)
  qed
qed (auto simp: longest_fit_0)

lemma longest_fit_None: "longest_fit P n = None \<longleftrightarrow> (\<forall>k \<le> n. \<not> P k)"
  by (induction n) (auto simp: longest_fit_0 longest_fit_Suc le_Suc_eq)

text \<open>An attempt with the first \<open>k\<close> optional items.\<close>

definition attempt ::
  "ext \<Rightarrow> (json \<Rightarrow> string) \<Rightarrow> RenderedPrompt \<Rightarrow> string option \<Rightarrow> u32 \<Rightarrow> u32 \<Rightarrow> u32 \<Rightarrow> nat \<Rightarrow> BudgetReport"
where
  "attempt x jt r corr ctx out margin k =
     budget_report ctx out margin (rendered_messages x jt r corr (take k (optional r)))
       (of_nat (length (optional r) - k))"

lemma prepare_loop_exactly:
  assumes "k \<le> length (optional r)"
  shows "prepare_loop x jt r p corr ctx out margin eff th (take k (optional r))
      (of_nat (length (optional r) - k)) =
    (case longest_fit (\<lambda>k. report_fits (attempt x jt r corr ctx out margin k)) k of
       Some i \<Rightarrow> Inr (prepared_request r p eff th (take i (optional r))
         (rendered_messages x jt r corr (take i (optional r))) (attempt x jt r corr ctx out margin i))
     | None \<Rightarrow> Inl (Budget (attempt x jt r corr ctx out margin 0)))"
  using assms
proof (induction k)
  case 0
  show ?case
    by (subst prepare_loop.simps) (simp add: attempt_def longest_fit_0 Let_def)
next
  case (Suc k)
  have less: "butlast (take (Suc k) (optional r)) = take k (optional r)"
    using Suc.prems by (simp add: butlast_take)
  have ne: "take (Suc k) (optional r) \<noteq> []" using Suc.prems by auto
  have "length (optional r) - k = Suc (length (optional r) - Suc k)" using Suc.prems by simp
  then have more: "of_nat (length (optional r) - Suc k) + 1 = (of_nat (length (optional r) - k) :: usize)"
    by (simp add: add.commute)
  show ?case
    using Suc.IH Suc.prems ne
    by (subst prepare_loop.simps)
      (simp add: less more longest_fit_Suc attempt_def [symmetric] Let_def
        del: of_nat_diff of_nat_Suc)
qed

end
