(* ===== verification/SleepData.thy ===== *)
theory SleepData
  imports Agenda PromptBudget
begin

text \<open>
  The data of a sleep cycle (\<open>src/core/sleep.rs\<close>, the query of \<open>src/core/recall.rs\<close>) and the pure
  parts of \<open>src/runtime/sleep.rs\<close> and \<open>sleep_batch.rs\<close>: the window of observations a run looks
  at, the search for the longest prefix that fits the model, and the checks of a deliberation.
  Counts of elements of vectors in memory are naturals. \<open>sleep_json\<close> holds what \<open>serde_json\<close>
  writes.
\<close>

section \<open>Bounds\<close>

definition MAX_SLEEP_SEEDS :: nat where "MAX_SLEEP_SEEDS = 12"
definition MAX_SLEEP_RECALL :: nat where "MAX_SLEEP_RECALL = 24"
definition SLEEP_ANCHOR_BUDGET_BYTES :: nat where "SLEEP_ANCHOR_BUDGET_BYTES = 16 * 1024"
definition SLEEP_SEED_BUDGET_BYTES :: nat where "SLEEP_SEED_BUDGET_BYTES = 32 * 1024"
definition SLEEP_RECALL_BUDGET_BYTES :: nat where "SLEEP_RECALL_BUDGET_BYTES = 32 * 1024"
definition SLEEP_CONTEXT_HARD_LIMIT_BYTES :: nat where
  "SLEEP_CONTEXT_HARD_LIMIT_BYTES = 80 * 1024"

section \<open>Data\<close>

record SleepSeed =
  event_id :: EventId
  "sequence" :: u64
  observation :: Observation

record SleepContext =
  sleep_run_id :: SleepRunId
  high_water_revision :: u64
  seed_observations :: "SleepSeed list"
  recalled_experiences :: "RecalledItem list"
  identity :: "IdentityVersion option"
  active_positions :: "Position list"
  active_conflicts :: "Conflict list"
  relationship :: "Relationship option"
  snapshot_hash :: string

record IntegrationCandidateDraft =
  kind :: IntegrationCandidateKind
  content :: string
  rationale :: string
  source_event_ids :: "EventId list"
  counterevidence_event_ids :: "EventId list"
  confidence :: u8

record SleepSelfReview =
  weak_points :: "string list"
  possible_counterevidence_event_ids :: "EventId list"
  revised :: bool

record SleepDeliberation =
  draft_summary :: string
  self_review :: SleepSelfReview
  candidates :: "IntegrationCandidateDraft list"
  "trace" :: "CognitiveTrace option"

record RecallQuery =
  "text" :: string
  limit :: nat
  exclude_event_ids :: "EventId list"
  as_of_sequence :: "u64 option"

record SeedWindow =
  event_ids :: "EventId list"
  seeds :: "SleepSeed list"
  cursor_after :: "u64 option"
  invalid_count :: nat
  deferred_seed_count :: nat

record SleepAnchors =
  identity :: "IdentityVersion option"
  active_positions :: "Position list"
  active_conflicts :: "Conflict list"
  relationship :: "Relationship option"
  high_water_revision :: u64

record sleep_json =
  seeds_text :: "SleepSeed list \<Rightarrow> string + string"
  recalled_text :: "RecalledItem list \<Rightarrow> string + string"
  anchors_text :: "SleepAnchors \<Rightarrow> string + string"
  context_text :: "SleepContext \<Rightarrow> string + string"
  sleep_run_to_value :: "SleepRun \<Rightarrow> string + json"
  candidate_to_value :: "IntegrationCandidate \<Rightarrow> string + json"

definition serialized_len :: "('a \<Rightarrow> string + string) \<Rightarrow> 'a \<Rightarrow> string + nat" where
  "serialized_len f v = res_bind (f v) (\<lambda>t. Inr (length t))"

section \<open>The window of a run\<close>

definition decode_seed ::
  "ext \<Rightarrow> ExperienceEvent list \<Rightarrow> EventId \<Rightarrow> u64 \<Rightarrow> SleepSeed option"
where
  "decode_seed x events i hw =
     Option.bind (position_index (\<lambda>e. ExperienceEvent.event_id e = i) events) (\<lambda>n.
     let e = events ! n; sq = of_nat n + 1 in
     if sq > hw \<or> event_kind e \<noteq> ObservationRecorded then None
     else
       (case de_observation x (payload e) of
          Inl _ \<Rightarrow> None
        | Inr obs \<Rightarrow>
            if blank (Observation.content obs) \<or>
               \<not> is_some_and (ExperienceEvent.subject e) (\<lambda>r.
                   EntityRef.kind r = EntityKind.Observation \<and>
                   EntityRef.id r = uuid (Observation.id obs))
            then None
            else Some \<lparr>SleepSeed.event_id = i, sequence = sq, observation = obs\<rparr>))"

definition fits_seed_budget :: "sleep_json \<Rightarrow> SleepSeed list \<Rightarrow> SleepSeed \<Rightarrow> bool" where
  "fits_seed_budget sj ss candidate =
     (case serialized_len (seeds_text sj) (ss @ [candidate]) of
        Inl _ \<Rightarrow> False | Inr n \<Rightarrow> n \<le> SLEEP_SEED_BUDGET_BYTES)"

text \<open>
  One turn of the scan over the ledger: the seeds taken, the damaged observations, the readable
  ones, and whether the window still takes any.
\<close>

definition scan_event ::
  "ext \<Rightarrow> sleep_json \<Rightarrow> ExperienceEvent list \<Rightarrow> u64 \<Rightarrow> u64 \<Rightarrow> SleepSeed list \<times> nat \<times> nat \<times> bool \<Rightarrow>
   ExperienceEvent \<times> u64 \<Rightarrow> SleepSeed list \<times> nat \<times> nat \<times> bool"
where
  "scan_event x sj events cursor hw acc entry =
     (case acc of (ss, damaged, available, accepting) \<Rightarrow>
        case entry of (e, sq) \<Rightarrow>
          if sq \<le> cursor \<or> sq > hw then acc
          else if event_kind e \<noteq> ObservationRecorded then acc
          else
            (case decode_seed x events (ExperienceEvent.event_id e) hw of
               None \<Rightarrow> (ss, Suc damaged, available, accepting)
             | Some seed \<Rightarrow>
                 if \<not> accepting then (ss, damaged, Suc available, accepting)
                 else if length ss \<ge> MAX_SLEEP_SEEDS \<or> \<not> fits_seed_budget sj ss seed
                 then (ss, damaged, Suc available, False)
                 else (ss @ [seed], damaged, Suc available, accepting)))"

definition last_sequence :: "SleepSeed list \<Rightarrow> u64 option" where
  "last_sequence ss = (if ss = [] then None else Some (SleepSeed.sequence (last ss)))"

definition seed_window ::
  "ext \<Rightarrow> sleep_json \<Rightarrow> ExperienceEvent list \<Rightarrow> u64 \<Rightarrow> u64 \<Rightarrow> SeedWindow"
where
  "seed_window x sj events cursor hw =
     (case foldl (scan_event x sj events cursor hw) ([], 0, 0, True) (sequenced events) of
        (ss, damaged, available, _) \<Rightarrow>
          \<lparr>SeedWindow.event_ids = map SleepSeed.event_id ss, seeds = ss,
           cursor_after = last_sequence ss, invalid_count = damaged,
           deferred_seed_count = available - length ss\<rparr>)"

definition seed_window_from_run ::
  "ext \<Rightarrow> ExperienceEvent list \<Rightarrow> SleepRun \<Rightarrow> SeedWindow"
where
  "seed_window_from_run x events r =
     (let hw = SleepRun.high_water_revision r;
          after = (if seed_event_ids r = [] then None
            else map_option (\<lambda>n. of_nat n + 1)
              (position_index (\<lambda>e. ExperienceEvent.event_id e = last (seed_event_ids r)) events));
          ss = filter_map (\<lambda>i. decode_seed x events i hw) (seed_event_ids r) in
      \<lparr>SeedWindow.event_ids = seed_event_ids r, seeds = ss, cursor_after = after,
       invalid_count = length (seed_event_ids r) - length ss,
       deferred_seed_count =
         length (filter (\<lambda>(e, sq).
           sq > unwrap_or (cursor_before r) after \<and> sq \<le> hw \<and> event_kind e = ObservationRecorded \<and>
           decode_seed x events (ExperienceEvent.event_id e) hw \<noteq> None) (sequenced events))\<rparr>)"

definition make_running_run ::
  "SleepRunId \<Rightarrow> string \<Rightarrow> u64 \<Rightarrow> u64 \<Rightarrow> EventId list \<Rightarrow> nat \<Rightarrow> nat \<Rightarrow> ContextBudgetReport option \<Rightarrow>
   SleepRun"
where
  "make_running_run i t before hw ids processed damaged report =
     \<lparr>SleepRun.id = i, status = SleepRunStatus.Running, high_water_revision = hw,
      cursor_before = before, cursor_after = None, seed_event_ids = ids,
      processed_observation_count = of_nat processed, created_candidate_count = 0,
      started_at = t, finished_at = None,
      error_kind = (if damaged > 0 then Some ''skipped_corrupt_observation_payload'' else None),
      context_budget_report = report\<rparr>"

section \<open>Planning a new batch\<close>

record SleepBatchPlan =
  "context" :: SleepContext
  context_budget :: ContextBudgetReport

datatype SleepBatchError =
    ContextBuild string
  | ModelConfiguration string SleepBatchPlan
  | AnchorsExceed SleepBatchPlan
  | ObservationExceeds SleepBatchPlan
  | NoCandidates

definition with_report :: "SleepBatchPlan \<Rightarrow> BudgetReport \<Rightarrow> SleepBatchPlan" where
  "with_report p b =
     p\<lparr>context_budget := (context_budget p)\<lparr>model_budget := Some b\<rparr>\<rparr>"

text \<open>The loop over the prefixes, from \<open>k\<close> observations down to one.\<close>

fun try_prefixes ::
  "(nat \<Rightarrow> nat \<Rightarrow> string + SleepBatchPlan) \<Rightarrow> (SleepContext \<Rightarrow> PreparationError + BudgetReport) \<Rightarrow>
   nat \<Rightarrow> SleepBatchPlan option \<Rightarrow> nat \<Rightarrow> SleepBatchError + SleepBatchPlan"
where
  "try_prefixes build check whole failure 0 =
     Inl (case failure of None \<Rightarrow> NoCandidates | Some p \<Rightarrow> ObservationExceeds p)"
| "try_prefixes build check whole failure (Suc k) =
     res_bind (map_err ContextBuild (build (Suc k) (whole - Suc k))) (\<lambda>p.
     case check (SleepBatchPlan.context p) of
       Inr report \<Rightarrow> Inr (with_report p report)
     | Inl (Budget report) \<Rightarrow>
         try_prefixes build check whole (if k = 0 then Some (with_report p report) else failure) k
     | Inl (Configuration m) \<Rightarrow> Inl (ModelConfiguration m p))"

definition plan_new ::
  "nat \<Rightarrow> nat \<Rightarrow> (nat \<Rightarrow> nat \<Rightarrow> string + SleepBatchPlan) \<Rightarrow>
   (SleepContext \<Rightarrow> PreparationError + BudgetReport) \<Rightarrow> SleepBatchError + SleepBatchPlan"
where
  "plan_new n deferred build check =
     (if n = 0 then Inl NoCandidates
      else
        res_bind (map_err ContextBuild (build 0 (n + deferred))) (\<lambda>anchors.
        case check (SleepBatchPlan.context anchors) of
          Inl (Budget report) \<Rightarrow> Inl (AnchorsExceed (with_report anchors report))
        | Inl (Configuration m) \<Rightarrow> Inl (ModelConfiguration m anchors)
        | Inr report \<Rightarrow> try_prefixes build check (n + deferred) None n))"

section \<open>Checking a deliberation\<close>

definition dedup_ids :: "EventId list \<Rightarrow> EventId list" where
  "dedup_ids ids = dedup_by (\<lambda>a b. a = b) (sort ids)"

definition context_event_ids :: "SleepContext \<Rightarrow> EventId set" where
  "context_event_ids c =
     set (map SleepSeed.event_id (seed_observations c) @
          map RecalledItem.source_event_id (recalled_experiences c))"

definition deliberation_out_of_bounds :: "SleepDeliberation \<Rightarrow> bool" where
  "deliberation_out_of_bounds d \<longleftrightarrow>
     length (SleepDeliberation.candidates d) > MAX_SLEEP_CANDIDATES \<or>
     length (trim (draft_summary d)) > MAX_SLEEP_TEXT \<or>
     length (weak_points (self_review d)) > MAX_SLEEP_CANDIDATES \<or>
     length (possible_counterevidence_event_ids (self_review d)) > MAX_CANDIDATE_SOURCES \<or>
     (\<exists>t \<in> set (weak_points (self_review d)). length (trim t) > MAX_SLEEP_TEXT)"

text \<open>Target, expected event and expected hash of a Memory revision.\<close>

fun revision_expectation :: "MemoryRevisionOperation \<Rightarrow> MemoryId \<times> EventId \<times> string" where
  "revision_expectation (MemoryRevisionOperation.Replace m e h r) = (m, e, h)"
| "revision_expectation (MemoryRevisionOperation.Expire m e h) = (m, e, h)"

definition recalled_target ::
  "SleepContext \<Rightarrow> MemoryId \<Rightarrow> EventId \<Rightarrow> string \<Rightarrow> bool"
where
  "recalled_target c m e h \<longleftrightarrow>
     (\<exists>r \<in> set (recalled_experiences c).
        EntityRef.kind (RecalledItem.entity r) = EntityKind.Memory \<and>
        EntityRef.id (RecalledItem.entity r) = uuid m \<and>
        RecalledItem.source_event_id r = e \<and> RecalledItem.source_hash r = h \<and>
        RecalledItem.as_of_sequence r = SleepContext.high_water_revision c)"

text \<open>Whether a draft of a Memory revision is kept; any other kind is.\<close>

definition check_revision_draft ::
  "ext \<Rightarrow> SleepContext \<Rightarrow> CurrentState \<Rightarrow> IntegrationCandidateDraft \<Rightarrow> EventId list \<Rightarrow>
   EventId list \<Rightarrow> string + bool"
where
  "check_revision_draft x c s d src counter =
     (if IntegrationCandidateDraft.kind d \<noteq> IntegrationCandidateKind.MemoryRevision then Inr True
      else
        res_bind (memory_revision_parse x (IntegrationCandidateDraft.content d)) (\<lambda>p.
        case revision_expectation (MemoryRevisionProposal.operation p) of (m, e, h) \<Rightarrow>
          if \<not> recalled_target c m e h \<or> e \<notin> set counter \<or>
             \<not> (\<exists>i \<in> set src. \<exists>seed \<in> set (seed_observations c). SleepSeed.event_id seed = i)
          then Inl ''Memory revision target or new evidence is outside the Sleep context''
          else
            Inr (is_some_and (bt_get (active_memories s) m) (\<lambda>a.
              \<not> (ActiveMemory.status a \<noteq> ActiveMemoryStatus.Active \<or>
                 ActiveMemory.kind a = ExplicitPreference)))))"

definition candidate_of_draft ::
  "ext \<Rightarrow> SleepContext \<Rightarrow> IntegrationCandidateId \<Rightarrow> string \<Rightarrow> IntegrationCandidateDraft \<Rightarrow>
   IntegrationCandidate"
where
  "candidate_of_draft x c i t d =
     (let src = dedup_ids (IntegrationCandidateDraft.source_event_ids d);
          counter = dedup_ids (IntegrationCandidateDraft.counterevidence_event_ids d);
          text0 = trim (IntegrationCandidateDraft.content d) in
      \<lparr>IntegrationCandidate.id = i, sleep_run_id = SleepContext.sleep_run_id c,
       kind = IntegrationCandidateDraft.kind d, disposition = NeedsValidation,
       as_of_revision = SleepContext.high_water_revision c, content = text0,
       rationale = trim (IntegrationCandidateDraft.rationale d), source_event_ids = src,
       counterevidence_event_ids = counter, confidence = IntegrationCandidateDraft.confidence d,
       fingerprint =
         integration_candidate_fingerprint x (IntegrationCandidateDraft.kind d) text0 src counter,
       created_at = t\<rparr>)"

definition check_draft ::
  "EventId set \<Rightarrow> IntegrationCandidateDraft \<Rightarrow> string + unit"
where
  "check_draft allowed d =
     (let src0 = IntegrationCandidateDraft.source_event_ids d;
          counter0 = IntegrationCandidateDraft.counterevidence_event_ids d;
          src = dedup_ids src0; counter = dedup_ids counter0 in
      if blank (IntegrationCandidateDraft.content d) \<or> blank (IntegrationCandidateDraft.rationale d)
      then Inl ''candidate content and rationale cannot be empty''
      else if length (trim (IntegrationCandidateDraft.content d)) > MAX_SLEEP_TEXT \<or>
              length (trim (IntegrationCandidateDraft.rationale d)) > MAX_SLEEP_TEXT \<or>
              length src0 > MAX_CANDIDATE_SOURCES \<or> length counter0 > MAX_CANDIDATE_SOURCES \<or>
              IntegrationCandidateDraft.confidence d > 100
      then Inl ''candidate exceeds its bounds''
      else if src = [] then Inl ''candidate needs at least one source event''
      else if \<exists>i \<in> set (src @ counter). i \<notin> allowed
      then Inl ''candidate provenance references an event outside the context''
      else if \<exists>i \<in> set src. i \<in> set counter
      then Inl ''candidate source and counterevidence overlap''
      else Inr ())"

text \<open>The drafts in order; \<open>ks\<close> are the candidates made so far.\<close>

fun validate_drafts ::
  "ext \<Rightarrow> SleepContext \<Rightarrow> CurrentState \<Rightarrow> (nat \<Rightarrow> IntegrationCandidateId) \<Rightarrow> (nat \<Rightarrow> string) \<Rightarrow>
   IntegrationCandidate list \<Rightarrow> IntegrationCandidateDraft list \<Rightarrow>
   string + IntegrationCandidate list"
where
  "validate_drafts x c s cid t ks [] = Inr ks"
| "validate_drafts x c s cid t ks (d # ds) =
     res_bind (check_draft (context_event_ids c) d) (\<lambda>_.
     res_bind (check_revision_draft x c s d
       (dedup_ids (IntegrationCandidateDraft.source_event_ids d))
       (dedup_ids (IntegrationCandidateDraft.counterevidence_event_ids d))) (\<lambda>keep.
     if \<not> keep then validate_drafts x c s cid t ks ds
     else
       (let k = candidate_of_draft x c (cid (length ks)) (t (length ks)) d in
        if (\<exists>q \<in> set (bt_values (integration_candidates s)).
              IntegrationCandidate.fingerprint q = IntegrationCandidate.fingerprint k) \<or>
           (\<exists>q \<in> set ks. IntegrationCandidate.fingerprint q = IntegrationCandidate.fingerprint k)
        then validate_drafts x c s cid t ks ds
        else validate_drafts x c s cid t (ks @ [k]) ds)))"

definition validate_deliberation ::
  "ext \<Rightarrow> (nat \<Rightarrow> IntegrationCandidateId) \<Rightarrow> (nat \<Rightarrow> string) \<Rightarrow> SleepDeliberation \<Rightarrow> SleepContext \<Rightarrow>
   CurrentState \<Rightarrow> string + IntegrationCandidate list"
where
  "validate_deliberation x cid t d c s =
     (if deliberation_out_of_bounds d then Inl ''sleep deliberation exceeds its bounds''
      else if \<exists>i \<in> set (possible_counterevidence_event_ids (self_review d)). i \<notin> context_event_ids c
      then Inl ''sleep self-review references an event outside the context''
      else validate_drafts x c s cid t [] (SleepDeliberation.candidates d))"

end
