(* ===== verification/Payloads.thy ===== *)
theory Payloads
  imports Prelude RustChars State
begin

text \<open>
  What the engine hands to serde: the payloads of its events and the values it prints into a
  context; and \<open>Iterator::max_by\<close>, which keeps the last of the greatest.
\<close>

section \<open>The order on scores\<close>

text \<open>
  Recall scores: \<open>f32\<close> values as their bits. Sleep, context building and local recall compare
  them in the two ways of the standard library.
\<close>

text \<open>\<open>f32::total_cmp\<close> compares these integers; \<open>>\<close> is false on a NaN and ignores the sign of zero.\<close>

definition f32_magnitude :: "f32_bits \<Rightarrow> f32_bits" where
  "f32_magnitude b = (if b < 0x80000000 then b else b - 0x80000000)"

definition f32_total :: "f32_bits \<Rightarrow> int" where
  "f32_total b = (if b < 0x80000000 then uint b else - 1 - uint (f32_magnitude b))"

definition f32_nan :: "f32_bits \<Rightarrow> bool" where
  "f32_nan b \<longleftrightarrow> f32_magnitude b > 0x7F800000"

definition f32_ordered :: "f32_bits \<Rightarrow> int" where
  "f32_ordered b = (if b < 0x80000000 then uint b else - uint (f32_magnitude b))"

definition f32_greater :: "f32_bits \<Rightarrow> f32_bits \<Rightarrow> bool" where
  "f32_greater a b \<longleftrightarrow> \<not> f32_nan a \<and> \<not> f32_nan b \<and> f32_ordered a > f32_ordered b"

text \<open>\<open>f32::is_finite\<close>.\<close>

definition f32_finite :: "f32_bits \<Rightarrow> bool" where
  "f32_finite b \<longleftrightarrow> f32_magnitude b < 0x7F800000"

section \<open>Text\<close>

text \<open>
  More of Rust's \<open>str\<close>: searching, lower-casing of ASCII, trimming by a predicate on characters,
  slicing with its panic.
\<close>

fun contains :: "string \<Rightarrow> string \<Rightarrow> bool" where
  "contains [] p \<longleftrightarrow> p = []"
| "contains (c # s) p \<longleftrightarrow> starts_with (c # s) p \<or> contains s p"

definition ascii_lower :: "char \<Rightarrow> char" where
  "ascii_lower c = (if CHR ''A'' \<le> c \<and> c \<le> CHR ''Z'' then char_of (of_char c + 32 :: nat) else c)"

definition to_ascii_lowercase :: "string \<Rightarrow> string" where
  "to_ascii_lowercase s = map ascii_lower s"

definition trim_matches :: "(string \<Rightarrow> bool) \<Rightarrow> string \<Rightarrow> string" where
  "trim_matches P s = concat (rev (dropWhile P (rev (dropWhile P (utf8_chars s)))))"

text \<open>\<open>&s[i..]\<close>: \<open>None\<close> is the panic on an index that is not on a character boundary.\<close>

definition slice_from :: "string \<Rightarrow> nat \<Rightarrow> string option" where
  "slice_from s i = (if is_char_boundary s i then Some (drop i s) else None)"

definition char_count :: "string \<Rightarrow> nat" where "char_count s = length (utf8_chars s)"

lemma starts_with_iff: "starts_with s p \<longleftrightarrow> (\<exists>v. s = p @ v)"
  unfolding starts_with_def by (metis append_eq_conv_conj append_take_drop_id)

lemma contains_iff: "contains s p \<longleftrightarrow> (\<exists>u v. s = u @ p @ v)"
proof (induction s)
  case (Cons c s)
  have "(\<exists>u v. c # s = u @ p @ v) \<longleftrightarrow> (\<exists>v. c # s = p @ v) \<or> (\<exists>u v. s = u @ p @ v)"
    by (metis append_Cons append_Nil list.exhaust list.inject)
  then show ?case using Cons.IH by (simp add: starts_with_iff)
qed simp

record ResponseRecord =
  decision_id :: DecisionId
  content :: string
  created_at :: string

datatype Recorded =
    PrincipalPayload Principal
  | IdentityPayload IdentityVersion
  | RelationshipPayload Relationship
  | ObservationPayload Observation
  | GoalPayload Goal
  | TaskPayload Task
  | RunPayload Run
  | FocusPayload FocusResolution
  | AttemptPayload Attempt
  | DecisionPayload Decision
  | PositionPayload Position
  | ConflictPayload Conflict
  | IntentPayload ActionIntent
  | OperationPayload Operation
  | ApprovalPayload Approval
  | ResponsePayload ResponseRecord
  | WorkingStatePayload WorkingState
  | ReceiptPayload Receipt
  | ArtifactPayload Artifact
  | VerificationPayload Verification
  | CandidatePayload MemoryCandidate
  | MemoryPayload ActiveMemory

text \<open>\<open>le b x\<close> says that \<open>b\<close> does not compare as greater than \<open>x\<close>.\<close>

fun max_by :: "('a \<Rightarrow> 'a \<Rightarrow> bool) \<Rightarrow> 'a list \<Rightarrow> 'a option" where
  "max_by le [] = None"
| "max_by le (x # xs) = Some (foldl (\<lambda>b y. if le b y then y else b) x xs)"

lemma foldl_best:
  assumes total: "\<And>x y. le x y \<or> le y x" and trans: "\<And>x y z. le x y \<Longrightarrow> le y z \<Longrightarrow> le x z"
  shows "foldl (\<lambda>b y. if le b y then y else b) x xs \<in> insert x (set xs) \<and>
    (\<forall>y \<in> insert x (set xs). le y (foldl (\<lambda>b y. if le b y then y else b) x xs))"
proof (induction xs arbitrary: x)
  case Nil
  then show ?case using total by auto
next
  case (Cons a xs)
  define z where "z = (if le x a then a else x)"
  have z: "le x z" "le a z" "z \<in> {x, a}" using total [of x a] total [of x x] total [of a a] by (auto simp: z_def)
  define m where "m = foldl (\<lambda>b y. if le b y then y else b) z xs"
  have m: "m \<in> insert z (set xs)" "le z m" "\<forall>y \<in> set xs. le y m"
    using Cons.IH [of z] by (auto simp: m_def)
  have "le x m" "le a m" using trans [OF z(1) m(2)] trans [OF z(2) m(2)] .
  moreover have "foldl (\<lambda>b y. if le b y then y else b) x (a # xs) = m" by (simp add: m_def z_def)
  ultimately show ?case using m z(3) by auto
qed

lemma max_by_Some:
  assumes "\<And>x y. le x y \<or> le y x" and "\<And>x y z. le x y \<Longrightarrow> le y z \<Longrightarrow> le x z"
    and "max_by le xs = Some m"
  shows "m \<in> set xs" and "\<forall>y \<in> set xs. le y m"
proof -
  from assms(3) obtain x ys where xs: "xs = x # ys"
    and m: "m = foldl (\<lambda>b y. if le b y then y else b) x ys" by (cases xs) auto
  have "m \<in> insert x (set ys) \<and> (\<forall>y \<in> insert x (set ys). le y m)"
    unfolding m by (rule foldl_best) (use assms(1,2) in blast)+
  then show "m \<in> set xs" and "\<forall>y \<in> set xs. le y m"
    by (simp_all add: xs)
qed

lemma max_by_None [simp]: "max_by le xs = None \<longleftrightarrow> xs = []"
  by (cases xs) simp_all

end
