(* ===== verification/SleepContexts.thy ===== *)
theory SleepContexts
  imports SleepData Payloads
begin

text \<open>
  What a sleep run shows the model (\<open>collect_recall\<close> and \<open>build_context\<close> of
  \<open>src/runtime/sleep.rs\<close>): anchors, seeds and recalled experiences under their byte budgets.
  \<open>rc\<close> is the recall the coordinator was given, semantic or local.
\<close>

section \<open>Recall\<close>

type_synonym recaller = "RecallQuery \<Rightarrow> CurrentState \<Rightarrow> ExperienceEvent list \<Rightarrow> RecalledItem list"

definition sequence_by_id :: "ExperienceEvent list \<Rightarrow> (EventId, u64) btree" where
  "sequence_by_id events = sequences (map ExperienceEvent.event_id events)"

definition collect_recall ::
  "recaller \<Rightarrow> u64 \<Rightarrow> SleepSeed list \<Rightarrow> EventId list \<Rightarrow> ExperienceEvent list \<Rightarrow> CurrentState \<Rightarrow>
   (EventId, RecalledItem list) btree"
where
  "collect_recall rc hw ss excluded events s =
     foldl (\<lambda>m seed.
       let query = \<lparr>RecallQuery.text = Observation.content (SleepSeed.observation seed), limit = 6,
                    exclude_event_ids = excluded, as_of_sequence = Some hw\<rparr>;
           found = filter (\<lambda>r. RecalledItem.source_event_id r \<notin> set excluded \<and>
             is_some_and (bt_get (sequence_by_id events) (RecalledItem.source_event_id r))
               (\<lambda>n. n \<le> hw)) (rc query s events) in
       bt_insert (SleepSeed.event_id seed) found m) [] ss"

text \<open>The best item of every source event that is no seed and not newer than the run.\<close>

definition keep_best ::
  "(EventId, u64) btree \<Rightarrow> EventId list \<Rightarrow> u64 \<Rightarrow> (EventId, RecalledItem) btree \<Rightarrow> RecalledItem \<Rightarrow>
   (EventId, RecalledItem) btree"
where
  "keep_best sq seed_ids hw m r =
     (let i = RecalledItem.source_event_id r in
      if i \<in> set seed_ids \<or> unwrap_or True (map_option (\<lambda>n. n > hw) (bt_get sq i)) then m
      else if unwrap_or True
                (map_option (\<lambda>q. f32_greater (RecalledItem.score r) (RecalledItem.score q)) (bt_get m i))
      then bt_insert i r m else m)"

definition merged_recall ::
  "u64 \<Rightarrow> SleepSeed list \<Rightarrow> (EventId, RecalledItem list) btree \<Rightarrow> ExperienceEvent list \<Rightarrow>
   (EventId, RecalledItem) btree"
where
  "merged_recall hw ss by_seed events =
     foldl (\<lambda>m seed.
       case bt_get by_seed (SleepSeed.event_id seed) of
         None \<Rightarrow> m
       | Some found \<Rightarrow>
           foldl (keep_best (sequence_by_id events) (map SleepSeed.event_id ss) hw) m found) [] ss"

definition ranked_recall :: "ext \<Rightarrow> (EventId, RecalledItem) btree \<Rightarrow> RecalledItem list" where
  "ranked_recall x m =
     sort_key (\<lambda>r. (- f32_total (RecalledItem.score r), id_text x (RecalledItem.source_event_id r)))
       (bt_values m)"

text \<open>At most \<open>MAX_SLEEP_RECALL\<close> are looked at; one that exceeds the byte budget is left out.\<close>

fun fill_recall ::
  "sleep_json \<Rightarrow> nat \<Rightarrow> RecalledItem list \<Rightarrow> nat \<Rightarrow> RecalledItem list \<Rightarrow>
   string + RecalledItem list \<times> nat"
where
  "fill_recall sj index kept dropped [] = Inr (kept, dropped)"
| "fill_recall sj index kept dropped (r # rs) =
     (if index \<ge> MAX_SLEEP_RECALL then fill_recall sj (Suc index) kept (Suc dropped) rs
      else
        res_bind (serialized_len (recalled_text sj) (kept @ [r])) (\<lambda>n.
        if n > SLEEP_RECALL_BUDGET_BYTES then fill_recall sj (Suc index) kept (Suc dropped) rs
        else fill_recall sj (Suc index) (kept @ [r]) dropped rs))"

section \<open>The context\<close>

datatype SleepRuntimeError =
    Storage StorageError
  | Projection ProjectionError
  | Event string
  | Serialization string
  | Invalid string

record BuiltSleepContext =
  "context" :: SleepContext
  budget_report :: ContextBudgetReport

definition context_hash :: "ext \<Rightarrow> sleep_json \<Rightarrow> SleepContext \<Rightarrow> string + string" where
  "context_hash x sj c =
     res_bind (context_text sj (c\<lparr>SleepContext.snapshot_hash := []\<rparr>)) (\<lambda>t. Inr (sha256_hex x t))"

text \<open>Hash, measure, and drop the last recalled item until the context fits.\<close>

function shrink_context ::
  "ext \<Rightarrow> sleep_json \<Rightarrow> SleepContext \<Rightarrow> nat \<Rightarrow> SleepRuntimeError + SleepContext \<times> nat"
where
  "shrink_context x sj c dropped =
     res_bind (map_err Serialization (context_hash x sj c)) (\<lambda>h.
     let c' = c\<lparr>SleepContext.snapshot_hash := h\<rparr> in
     res_bind (map_err Serialization (serialized_len (context_text sj) c')) (\<lambda>n.
     if n \<le> SLEEP_CONTEXT_HARD_LIMIT_BYTES then Inr (c', dropped)
     else if recalled_experiences c' = []
     then Inl (Invalid ''sleep context exceeds its bounded size'')
     else shrink_context x sj
            (c'\<lparr>recalled_experiences := butlast (recalled_experiences c')\<rparr>) (Suc dropped)))"
  by pat_completeness auto
termination
  by (relation "measure (\<lambda>(x, sj, c, dropped). length (recalled_experiences c))") simp_all

declare shrink_context.simps [simp del]

definition sleep_anchors ::
  "CurrentState \<Rightarrow> PrincipalId \<Rightarrow> PrincipalId \<Rightarrow> u64 \<Rightarrow> SleepAnchors"
where
  "sleep_anchors s hid uid hw =
     \<lparr>SleepAnchors.identity = hekate_identity s, active_positions = State.active_positions s hid,
      active_conflicts = filter (\<lambda>c. Conflict.status c \<in> {ConflictStatus.Open, ConflictStatus.Negotiating})
        (bt_values (CurrentState.conflicts s)),
      relationship = find (\<lambda>r. hid \<in> set (Relationship.participants r) \<and>
        uid \<in> set (Relationship.participants r)) (bt_values (CurrentState.relationships s)),
      high_water_revision = hw\<rparr>"

definition context_of ::
  "SleepRunId \<Rightarrow> SleepAnchors \<Rightarrow> SleepSeed list \<Rightarrow> RecalledItem list \<Rightarrow> SleepContext"
where
  "context_of rid a ss recalled =
     \<lparr>SleepContext.sleep_run_id = rid, high_water_revision = SleepAnchors.high_water_revision a,
      seed_observations = ss, recalled_experiences = recalled,
      identity = SleepAnchors.identity a, active_positions = SleepAnchors.active_positions a,
      active_conflicts = SleepAnchors.active_conflicts a,
      relationship = SleepAnchors.relationship a, snapshot_hash = []\<rparr>"

definition build_context ::
  "ext \<Rightarrow> sleep_json \<Rightarrow> PrincipalId \<Rightarrow> PrincipalId \<Rightarrow> SleepRunId \<Rightarrow> u64 \<Rightarrow> SleepSeed list \<Rightarrow>
   (EventId, RecalledItem list) btree \<Rightarrow> ExperienceEvent list \<Rightarrow> CurrentState \<Rightarrow> nat \<Rightarrow>
   SleepRuntimeError + BuiltSleepContext"
where
  "build_context x sj hid uid rid hw ss by_seed events s deferred =
     (let ranking = ranked_recall x (merged_recall hw ss by_seed events);
          anchors = sleep_anchors s hid uid hw in
      res_bind (map_err Serialization (serialized_len (anchors_text sj) anchors)) (\<lambda>anchor_n.
      if anchor_n > SLEEP_ANCHOR_BUDGET_BYTES
      then Inl (Invalid ''sleep anchors exceed their bounded size'')
      else
        res_bind (map_err Serialization (serialized_len (seeds_text sj) ss)) (\<lambda>seed_n.
        if seed_n > SLEEP_SEED_BUDGET_BYTES
        then Inl (Invalid ''sleep seeds exceed their bounded size'')
        else
          res_bind (map_err Serialization (fill_recall sj 0 [] 0 ranking)) (\<lambda>(kept, dropped0).
          res_bind (shrink_context x sj (context_of rid anchors ss kept) dropped0)
            (\<lambda>(c, dropped).
          res_bind (map_err Serialization
            (serialized_len (recalled_text sj) (recalled_experiences c))) (\<lambda>recalled_n.
          res_bind (map_err Serialization (serialized_len (context_text sj) c)) (\<lambda>total_n.
          Inr \<lparr>BuiltSleepContext.context = c,
               budget_report =
                 \<lparr>ContextBudgetReport.anchor_bytes = of_nat anchor_n, seed_bytes = of_nat seed_n,
                  recalled_bytes = of_nat recalled_n, total_bytes = of_nat total_n,
                  included_seed_count = of_nat (length (seed_observations c)),
                  deferred_seed_count = of_nat deferred,
                  included_recall_count = of_nat (length (recalled_experiences c)),
                  dropped_recall_count = of_nat dropped,
                  hard_limit_bytes = of_nat SLEEP_CONTEXT_HARD_LIMIT_BYTES,
                  model_budget = None\<rparr>\<rparr>)))))))"

end
