(* ===== verification/Access.thy ===== *)
theory Access
  imports Lease Recovery
begin

text \<open>
  Services that read and write the database several times (\<open>src/runtime/sleep.rs\<close>,
  \<open>src/runtime/engine.rs\<close>) run among other processes. \<open>others n\<close> is what those do to the
  database before the \<open>n\<close>-th access, so that they may commit, take or release the lease between
  any two accesses. An action returns a value or an error together with the world it leaves, since
  an error does not undo earlier commits.
\<close>

section \<open>Actions\<close>

type_synonym ('w, 'e, 'a) program = "'w \<Rightarrow> ('e + 'a) \<times> 'w"

definition act_return :: "'a \<Rightarrow> ('w, 'e, 'a) program" where "act_return v w = (Inr v, w)"

definition act_lift :: "'e + 'a \<Rightarrow> ('w, 'e, 'a) program" where "act_lift r w = (r, w)"

definition act_bind ::
  "('w, 'e, 'a) program \<Rightarrow> ('a \<Rightarrow> ('w, 'e, 'b) program) \<Rightarrow> ('w, 'e, 'b) program"
where
  "act_bind m f w = (case m w of (Inl err, w') \<Rightarrow> (Inl err, w') | (Inr v, w') \<Rightarrow> f v w')"

lemma act_bind_Inr:
  "act_bind m f w = (Inr v, w') \<longleftrightarrow> (\<exists>u w1. m w = (Inr u, w1) \<and> f u w1 = (Inr v, w'))"
  by (auto simp: act_bind_def split: prod.splits sum.splits)

lemma act_bind_Inl:
  "act_bind m f w = (Inl err, w') \<longleftrightarrow>
     m w = (Inl err, w') \<or> (\<exists>u w1. m w = (Inr u, w1) \<and> f u w1 = (Inl err, w'))"
  by (auto simp: act_bind_def split: prod.splits sum.splits)

lemma act_return_Inr [simp]: "act_return v w = (Inr u, w') \<longleftrightarrow> u = v \<and> w' = w"
  by (auto simp: act_return_def)

lemma act_lift_Inr [simp]: "act_lift r w = (Inr u, w') \<longleftrightarrow> r = Inr u \<and> w' = w"
  by (auto simp: act_lift_def)

lemma act_case_sum:
  "(case r of Inl err \<Rightarrow> f err | Inr v \<Rightarrow> g v) w = z \<longleftrightarrow>
     (\<exists>err. r = Inl err \<and> f err w = z) \<or> (\<exists>v. r = Inr v \<and> g v w = z)"
  by (cases r) simp_all

lemma act_case_option:
  "(case r of None \<Rightarrow> f | Some v \<Rightarrow> g v) w = z \<longleftrightarrow>
     (r = None \<and> f w = z) \<or> (\<exists>v. r = Some v \<and> g v w = z)"
  by (cases r) simp_all

section \<open>The surroundings of a service\<close>

text \<open>Third-party code, other processes, the clock of the lease, the failures of SQL.\<close>

record Surroundings =
  lib :: ext
  store_codec :: codec
  others :: "nat \<Rightarrow> Db \<Rightarrow> Db"
  lease_clock :: "nat \<Rightarrow> i64"
  faults :: "nat \<Rightarrow> stage \<Rightarrow> string option"

text \<open>The number of the next access and the database.\<close>

type_synonym World = "nat \<times> Db"

type_synonym ('e, 'a) access = "(World, 'e, 'a) program"

definition observe ::
  "'z Surroundings_scheme \<Rightarrow> (nat \<Rightarrow> Db \<Rightarrow> 'e + 'a) \<Rightarrow> ('e, 'a) access"
where
  "observe co f w =
     (case w of (n, db) \<Rightarrow> let db' = others co n db in (f n db', (Suc n, db')))"

text \<open>\<open>record_batch\<close>, whose error the caller inspects.\<close>

definition record_events ::
  "'z Surroundings_scheme \<Rightarrow> ExperienceEvent list \<Rightarrow> u64 option \<Rightarrow> CognitiveTrace option \<Rightarrow>
   ('e, ProjectionError + CurrentState) access"
where
  "record_events co es base tr w =
     (case w of (n, db) \<Rightarrow>
        let db' = others co n db in
        case record_batch (lib co) (store_codec co) (faults co n) db' es base tr of
          Inl err \<Rightarrow> (Inr (Inl err), (Suc n, db'))
        | Inr (s, db'') \<Rightarrow> (Inr (Inr s), (Suc n, db'')))"

definition record_cognitive_trace ::
  "codec \<Rightarrow> (stage \<Rightarrow> string option) \<Rightarrow> CognitiveTrace \<Rightarrow> Db \<Rightarrow> StorageError + Db"
where
  "record_cognitive_trace c flt t db =
     res_bind (sql flt BeginTx) (\<lambda>_.
     res_bind (write_cognitive_trace c flt t db) (\<lambda>db'.
     res_bind (sql flt CommitTx) (\<lambda>_. Inr db')))"

text \<open>Storing a trace, whose error the caller inspects.\<close>

definition store_trace ::
  "'z Surroundings_scheme \<Rightarrow> CognitiveTrace \<Rightarrow> ('e, StorageError + unit) access"
where
  "store_trace co t w =
     (case w of (n, db) \<Rightarrow>
        let db' = others co n db in
        case record_cognitive_trace (store_codec co) (faults co n) t db' of
          Inl err \<Rightarrow> (Inr (Inl err), (Suc n, db'))
        | Inr db'' \<Rightarrow> (Inr (Inr ()), (Suc n, db'')))"

end
