(* ===== verification/SleepService.thy ===== *)
theory SleepService
  imports SleepContexts Access
begin

text \<open>
  The sleep coordinator of \<open>src/runtime/sleep.rs\<close>. A cycle reads and writes the database many
  times; \<open>others n\<close> is what other processes do to the database before its \<open>n\<close>-th access, so that
  they may commit, take or release the lease between any two. An action returns a value or an
  error together with the database it leaves, since an error does not undo earlier commits. The
  language model is its two calls; that it is asked only where the code asks is part of the model.
\<close>

section \<open>Data\<close>

datatype SleepOnceStatus = Idle | Deferred | Completed | RunningResumed | Interrupted | Failed

record SleepOnceResult =
  status :: SleepOnceStatus
  run_id :: "SleepRunId option"
  high_water_revision :: "u64 option"
  cursor_before :: "u64 option"
  cursor_after :: "u64 option"
  processed_observations :: u32
  created_candidates :: u32
  resumed :: bool
  error_kind :: "string option"

record SleepRunSummary =
  id :: SleepRunId
  status :: SleepRunStatus
  high_water_revision :: u64
  cursor_before :: u64
  cursor_after :: "u64 option"
  processed_observations :: u32
  created_candidates :: u32
  started_at :: string
  finished_at :: "string option"
  error_kind :: "string option"

record SleepStatus =
  cursor :: u64
  active_run :: "SleepRunSummary option"
  recent_runs :: "SleepRunSummary list"
  pending_candidates :: nat
  projection_verified :: bool

text \<open>The port to the model (\<open>src/ports/model.rs\<close>).\<close>

datatype SleepCognitiveError =
    Configuration string CognitiveTrace
  | Timeout CognitiveTrace
  | Provider string CognitiveTrace
  | Malformed string CognitiveTrace

fun error_trace :: "SleepCognitiveError \<Rightarrow> CognitiveTrace" where
  "error_trace (SleepCognitiveError.Configuration m t) = t"
| "error_trace (Timeout t) = t"
| "error_trace (Provider m t) = t"
| "error_trace (Malformed m t) = t"

definition cognitive_kind :: "SleepCognitiveError \<Rightarrow> string" where
  "cognitive_kind err =
     (case CognitiveTrace.error_kind (error_trace err) of
        Some k \<Rightarrow> k
      | None \<Rightarrow>
          (case err of
             SleepCognitiveError.Configuration m t \<Rightarrow> ''configuration''
           | Timeout t \<Rightarrow> ''timeout''
           | Provider m t \<Rightarrow> ''provider_error''
           | Malformed m t \<Rightarrow> ''malformed_model_output''))"

record SleepModel =
  check_sleep_budget :: "SleepContext \<Rightarrow> PreparationError + BudgetReport"
  deliberate_sleep :: "SleepContext \<Rightarrow> SleepCognitiveError + SleepDeliberation"

text \<open>
  The coordinator with its surroundings: third-party code, other processes, the clock of the
  lease, the failures of SQL, fresh identifiers and the wall clock.
\<close>

record SleepCoordinator = Surroundings +
  model :: "SleepModel option"
  recall :: recaller
  hekate_id :: PrincipalId
  user_id :: PrincipalId
  texts :: sleep_json
  show_error :: "SleepRuntimeError \<Rightarrow> string"
  fresh_run :: SleepRunId
  start_event_id :: EventId
  end_event_id :: EventId
  done_event_id :: EventId
  fresh_candidate :: "nat \<Rightarrow> IntegrationCandidateId"
  candidate_event_id :: "nat \<Rightarrow> EventId"
  wall_clock :: "nat \<Rightarrow> string"

section \<open>Accesses\<close>

type_synonym 'a action = "(SleepRuntimeError, 'a) access"

abbreviation record_sleep ::
  "SleepCoordinator \<Rightarrow> ExperienceEvent list \<Rightarrow> u64 option \<Rightarrow> CognitiveTrace option \<Rightarrow>
   (ProjectionError + CurrentState) action"
where
  "record_sleep \<equiv> record_events"

definition load :: "SleepCoordinator \<Rightarrow> CurrentState action" where
  "load co = observe co (\<lambda>n db. map_err SleepRuntimeError.Storage (load_state (lib co) (store_codec co) db))"

definition load_ledger :: "SleepCoordinator \<Rightarrow> ExperienceEvent list action" where
  "load_ledger co = observe co (\<lambda>n db. map_err SleepRuntimeError.Storage (load_events (lib co) (store_codec co) db))"

definition leased :: "SleepCoordinator \<Rightarrow> bool action" where
  "leased co = observe co (\<lambda>n db. Inr (has_active_foreground_lease (lease_clock co n) db))"

text \<open>A trace that cannot be stored is only logged.\<close>

definition record_trace :: "SleepCoordinator \<Rightarrow> CognitiveTrace \<Rightarrow> unit action" where
  "record_trace co t = act_bind (store_trace co t) (\<lambda>_. act_return ())"

section \<open>Events and results\<close>

fun json_get :: "json \<Rightarrow> string \<Rightarrow> json option" where
  "json_get (JObject kvs) f = map_of kvs f"
| "json_get v f = None"

definition payload_subject ::
  "codec \<Rightarrow> json \<Rightarrow> SleepRunId \<Rightarrow> SleepRuntimeError + (EntityKind \<times> Uuid) option"
where
  "payload_subject c v rid =
     (if json_get v ''sleep_run_id'' \<noteq> None
      then
        (case json_get v ''id'' of
           Some (JString t) \<Rightarrow>
             (case uuid_parse c t of
                Inl _ \<Rightarrow> Inl (Invalid ''sleep payload ID is invalid'')
              | Inr u \<Rightarrow> Inr (Some (EntityKind.IntegrationCandidate, u)))
         | _ \<Rightarrow> Inl (Invalid ''sleep payload has no ID''))
      else Inr (Some (EntityKind.SleepRun, uuid rid)))"

text \<open>The event of a payload \<open>v\<close>; \<open>Some 1.0\<close> is the confidence.\<close>

definition sleep_event ::
  "SleepCoordinator \<Rightarrow> EventId \<Rightarrow> string \<Rightarrow> string \<Rightarrow> EventKind \<Rightarrow> string + json \<Rightarrow> SleepRunId \<Rightarrow>
   SleepRuntimeError + ExperienceEvent"
where
  "sleep_event co eid t1 t2 k v0 rid =
     res_bind (map_err Serialization v0) (\<lambda>v.
     res_bind (payload_subject (store_codec co) v rid) (\<lambda>subj.
     let (ek, u) = (case subj of Some p \<Rightarrow> p | None \<Rightarrow> (EntityKind.SleepRun, uuid rid)) in
     map_err Event (new_with_id (lib co) t1 t2 eid (hekate_id co) k
       (Some \<lparr>EntityRef.kind = ek, id = u\<rparr>) v
       \<lparr>EventSource.source_type = ''sleep'', source_ref = Some (id_text (lib co) rid)\<rparr>
       None (Some (id_text (lib co) rid)) (Some 0x3F800000))))"

definition result_from_run :: "SleepRun \<Rightarrow> SleepOnceStatus \<Rightarrow> bool \<Rightarrow> SleepOnceResult" where
  "result_from_run r st res =
     \<lparr>SleepOnceResult.status = st, run_id = Some (SleepRun.id r),
      high_water_revision = Some (SleepRun.high_water_revision r),
      cursor_before = Some (SleepRun.cursor_before r), cursor_after = SleepRun.cursor_after r,
      processed_observations = processed_observation_count r,
      created_candidates = created_candidate_count r, resumed = res,
      error_kind = SleepRun.error_kind r\<rparr>"

definition empty_result :: "SleepOnceStatus \<Rightarrow> SleepOnceResult" where
  "empty_result st =
     \<lparr>SleepOnceResult.status = st, run_id = None, high_water_revision = None,
      cursor_before = None, cursor_after = None, processed_observations = 0,
      created_candidates = 0, resumed = False, error_kind = None\<rparr>"

section \<open>Starting and ending a run\<close>

text \<open>The errors that mean that the ledger has moved.\<close>

fun stale_context :: "ProjectionError \<Rightarrow> bool" where
  "stale_context (ProjectionError.StaleContext ex ac) = True"
| "stale_context (ProjectionError.Storage (StorageError.StaleContext ex ac)) = True"
| "stale_context _ = False"

definition lost_race :: "SleepCoordinator \<Rightarrow> CurrentState option action" where
  "lost_race co =
     act_bind (leased co) (\<lambda>held.
     if held then act_return None
     else act_lift (Inl (Invalid ''sleep start lost a concurrent state race'')))"

definition record_started_run ::
  "SleepCoordinator \<Rightarrow> SleepRun \<Rightarrow> CurrentState \<Rightarrow> CurrentState option action"
where
  "record_started_run co r s =
     act_bind (leased co) (\<lambda>held.
     if held then act_return None
     else
       act_bind (load co) (\<lambda>current.
       if CurrentState.revision current \<noteq> CurrentState.revision s then lost_race co
       else
         act_bind (act_lift (sleep_event co (start_event_id co) (wall_clock co 1) (wall_clock co 2)
           SleepRunStarted (sleep_run_to_value (texts co) r) (SleepRun.id r))) (\<lambda>e.
         act_bind (record_sleep co [e] (Some (CurrentState.revision s)) None) (\<lambda>res.
         case res of
           Inr s' \<Rightarrow> act_return (Some s')
         | Inl err \<Rightarrow>
             if stale_context err then lost_race co else act_lift (Inl (SleepRuntimeError.Projection err))))))"

text \<open>The event that ends a run without moving the cursor, and the result of the cycle.\<close>

definition end_run ::
  "SleepCoordinator \<Rightarrow> EventKind \<Rightarrow> SleepOnceStatus \<Rightarrow> SleepRun \<Rightarrow> CurrentState \<Rightarrow>
   SleepOnceResult action"
where
  "end_run co k st ended s =
     act_bind (act_lift (sleep_event co (end_event_id co) (wall_clock co 4) (wall_clock co 5) k
       (sleep_run_to_value (texts co) ended) (SleepRun.id ended))) (\<lambda>e.
     act_bind (record_sleep co [e] (Some (CurrentState.revision s)) None) (\<lambda>res.
     case res of
       Inl err \<Rightarrow> act_lift (Inl (SleepRuntimeError.Projection err))
     | Inr s' \<Rightarrow>
         act_return (result_from_run
           (unwrap_or ended (bt_get (sleep_runs s') (SleepRun.id ended))) st False)))"

definition fail_run ::
  "SleepCoordinator \<Rightarrow> SleepRun \<Rightarrow> string \<Rightarrow> CurrentState \<Rightarrow> ContextBudgetReport option \<Rightarrow>
   SleepOnceResult action"
where
  "fail_run co r why s report =
     end_run co SleepRunFailed Failed
       (r\<lparr>SleepRun.status := SleepRunStatus.Failed, SleepRun.finished_at := Some (wall_clock co 3),
          SleepRun.error_kind := Some why, SleepRun.cursor_after := None, SleepRun.context_budget_report := report\<rparr>) s"

definition interrupt_run ::
  "SleepCoordinator \<Rightarrow> SleepRun \<Rightarrow> CurrentState \<Rightarrow> ContextBudgetReport option \<Rightarrow>
   SleepOnceResult action"
where
  "interrupt_run co r s report =
     end_run co SleepRunInterrupted Interrupted
       (r\<lparr>SleepRun.status := SleepRunStatus.Interrupted, SleepRun.finished_at := Some (wall_clock co 3),
          SleepRun.error_kind := Some ''foreground_activity'', SleepRun.cursor_after := None,
          SleepRun.context_budget_report := report\<rparr>) s"

text \<open>\<open>latest.revision != state.revision || has_active_foreground_lease()\<close>.\<close>

definition disturbed :: "SleepCoordinator \<Rightarrow> CurrentState \<Rightarrow> CurrentState \<Rightarrow> bool action" where
  "disturbed co s latest =
     (if CurrentState.revision latest \<noteq> CurrentState.revision s then act_return True else leased co)"

section \<open>Preparing a cycle\<close>

text \<open>Either the cycle is over, or a running run with its context goes to the model.\<close>

datatype Prepared =
    Finished SleepOnceResult
  | Ready SleepModel SleepRun bool CurrentState SeedWindow BuiltSleepContext

definition finished :: "SleepOnceResult action \<Rightarrow> Prepared action" where
  "finished m = act_bind m (\<lambda>r. act_return (Finished r))"

definition budgeted :: "ContextBudgetReport \<Rightarrow> BudgetReport \<Rightarrow> ContextBudgetReport" where
  "budgeted report b = report\<lparr>model_budget := Some b\<rparr>"

definition resumable_kind :: "SleepRun \<Rightarrow> string" where
  "resumable_kind r =
     (case SleepRun.error_kind r of
        Some k \<Rightarrow>
          if k \<in> {''sleep_anchors_exceed_model_budget'', ''model_configuration''} then k
          else ''corrupt_observation_payload''
      | None \<Rightarrow> ''corrupt_observation_payload'')"

text \<open>A run that was left open: its own seeds, checked again.\<close>

definition resume_run ::
  "SleepCoordinator \<Rightarrow> SleepRun \<Rightarrow> CurrentState \<Rightarrow> ExperienceEvent list \<Rightarrow> Prepared action"
where
  "resume_run co r s events =
     (let w = seed_window_from_run (lib co) events r;
          hw = SleepRun.high_water_revision r in
      if invalid_count w > 0
      then finished (fail_run co r ''corrupt_observation_payload'' s None)
      else if seeds w = []
      then finished (fail_run co r (resumable_kind r) s (context_budget_report r))
      else
        (case model co of
           None \<Rightarrow> finished (fail_run co r ''sleep_model_unavailable'' s None)
         | Some m \<Rightarrow>
             let recalled = collect_recall (recall co) hw (seeds w) (seed_event_ids r) events s in
             case build_context (lib co) (texts co) (hekate_id co) (user_id co) (SleepRun.id r) hw
                    (seeds w) recalled events s (SeedWindow.deferred_seed_count w) of
               Inl err \<Rightarrow> finished (fail_run co r ''context_build_failed'' s None)
             | Inr built \<Rightarrow>
                 act_bind (load co) (\<lambda>latest.
                 act_bind (disturbed co s latest) (\<lambda>stop.
                 if stop then finished (interrupt_run co r latest (Some (budget_report built)))
                 else
                   (case check_sleep_budget m (BuiltSleepContext.context built) of
                      Inr b \<Rightarrow>
                        act_return (Ready m r True s w
                          (built\<lparr>budget_report := budgeted (budget_report built) b\<rparr>))
                    | Inl (Budget b) \<Rightarrow>
                        finished (fail_run co r ''running_sleep_run_exceeds_model_budget'' s
                          (Some (budgeted (budget_report built) b)))
                    | Inl (PreparationError.Configuration msg) \<Rightarrow>
                        finished (fail_run co r ''model_configuration'' s
                          (Some (budget_report built))))))))"

text \<open>A run that is started only to record its failure.\<close>

definition start_and_fail ::
  "SleepCoordinator \<Rightarrow> SleepRun \<Rightarrow> string \<Rightarrow> CurrentState \<Rightarrow> ContextBudgetReport option \<Rightarrow>
   Prepared action"
where
  "start_and_fail co r why s report =
     (let r' = r\<lparr>SleepRun.error_kind := Some why\<rparr> in
      act_bind (record_started_run co r' s) (\<lambda>started.
      case started of
        None \<Rightarrow> act_return (Finished (empty_result Deferred))
      | Some s' \<Rightarrow> finished (fail_run co r' why s' report)))"

text \<open>Building the context of the first \<open>k\<close> observations of the window.\<close>

definition prefix_plan ::
  "SleepCoordinator \<Rightarrow> SeedWindow \<Rightarrow> (EventId, RecalledItem list) btree \<Rightarrow> ExperienceEvent list \<Rightarrow>
   CurrentState \<Rightarrow> nat \<Rightarrow> nat \<Rightarrow> string + SleepBatchPlan"
where
  "prefix_plan co w recalled events s k deferred =
     (case build_context (lib co) (texts co) (hekate_id co) (user_id co) (fresh_run co)
             (CurrentState.revision s) (take k (seeds w)) recalled events s deferred of
        Inl err \<Rightarrow> Inl (show_error co err)
      | Inr built \<Rightarrow>
          Inr \<lparr>SleepBatchPlan.context = BuiltSleepContext.context built,
               context_budget = budget_report built\<rparr>)"

definition new_run ::
  "SleepCoordinator \<Rightarrow> CurrentState \<Rightarrow> SeedWindow \<Rightarrow> EventId list \<Rightarrow> nat \<Rightarrow>
   ContextBudgetReport option \<Rightarrow> SleepRun"
where
  "new_run co s w ids n report =
     make_running_run (fresh_run co) (wall_clock co 0) (sleep_cursor s) (CurrentState.revision s)
       ids n (invalid_count w) report"

definition attempt_run :: "SleepCoordinator \<Rightarrow> CurrentState \<Rightarrow> SeedWindow \<Rightarrow> SleepBatchPlan \<Rightarrow> SleepRun"
where
  "attempt_run co s w p =
     (let ss = seed_observations (SleepBatchPlan.context p) in
      new_run co s w (map SleepSeed.event_id ss) (length ss) (Some (context_budget p)))"

definition start_run ::
  "SleepCoordinator \<Rightarrow> CurrentState \<Rightarrow> ExperienceEvent list \<Rightarrow> Prepared action"
where
  "start_run co s events =
     (let hw = CurrentState.revision s;
          w = seed_window (lib co) (texts co) events (sleep_cursor s) hw;
          whole = new_run co s w (SeedWindow.event_ids w) (length (seeds w)) None;
          failed = (\<lambda>p why. start_and_fail co (attempt_run co s w p) why s (Some (context_budget p))) in
      if seeds w = []
      then act_return (Finished (empty_result
             (if SeedWindow.deferred_seed_count w > 0 then Deferred else Idle)))
      else
        (case model co of
           None \<Rightarrow> start_and_fail co whole ''sleep_model_unavailable'' s None
         | Some m \<Rightarrow>
             let recalled =
               collect_recall (recall co) hw (seeds w) (SeedWindow.event_ids w) events s in
             case plan_new (length (seeds w)) (SeedWindow.deferred_seed_count w)
                    (prefix_plan co w recalled events s) (check_sleep_budget m) of
               Inl (AnchorsExceed p) \<Rightarrow> failed p ''sleep_anchors_exceed_model_budget''
             | Inl (ObservationExceeds p) \<Rightarrow> failed p ''sleep_observation_exceeds_model_budget''
             | Inl (ModelConfiguration msg p) \<Rightarrow> failed p ''model_configuration''
             | Inl NoCandidates \<Rightarrow> act_return (Finished (empty_result Idle))
             | Inl (ContextBuild msg) \<Rightarrow> start_and_fail co whole ''context_build_failed'' s None
             | Inr p \<Rightarrow>
                 let r = attempt_run co s w p; c = SleepBatchPlan.context p in
                 act_bind (record_started_run co r s) (\<lambda>started.
                 case started of
                   None \<Rightarrow> act_return (Finished (empty_result Deferred))
                 | Some s' \<Rightarrow>
                     act_return (Ready m r False s'
                       \<lparr>SeedWindow.event_ids = seed_event_ids r, seeds = seed_observations c,
                        cursor_after = last_sequence (seed_observations c),
                        invalid_count = invalid_count w,
                        deferred_seed_count =
                          unat (ContextBudgetReport.deferred_seed_count (context_budget p))\<rparr>
                       \<lparr>BuiltSleepContext.context = c, budget_report = context_budget p\<rparr>))))"

section \<open>A cycle\<close>

definition failure_kind_of :: "SleepCognitiveError \<Rightarrow> string" where
  "failure_kind_of err =
     (if cognitive_kind err = ''context_budget_exceeded'' \<and> CognitiveTrace.retries (error_trace err) > 0
      then ''sleep_correction_context_budget_exceeded'' else cognitive_kind err)"

definition failure_report ::
  "SleepCognitiveError \<Rightarrow> ContextBudgetReport \<Rightarrow> ContextBudgetReport"
where
  "failure_report err report =
     (if failure_kind_of err = ''sleep_correction_context_budget_exceeded''
      then report\<lparr>model_budget :=
             (let ds = CognitiveTrace.model_io (error_trace err) in
              if ds = [] then None else Some (ModelIoDiagnostic.budget (last ds)))\<rparr>
      else report)"

definition completed_run ::
  "SleepCoordinator \<Rightarrow> SleepRun \<Rightarrow> u64 \<Rightarrow> nat \<Rightarrow> ContextBudgetReport \<Rightarrow> SleepRun"
where
  "completed_run co r after n report =
     r\<lparr>SleepRun.status := SleepRunStatus.Completed, SleepRun.cursor_after := Some after,
       SleepRun.created_candidate_count := of_nat n, SleepRun.finished_at := Some (wall_clock co 6),
       SleepRun.error_kind := (if SleepRun.error_kind r = Some ''skipped_corrupt_observation_payload''
         then SleepRun.error_kind r else None),
       SleepRun.context_budget_report := Some report\<rparr>"

fun candidate_events ::
  "SleepCoordinator \<Rightarrow> SleepRunId \<Rightarrow> nat \<Rightarrow> IntegrationCandidate list \<Rightarrow>
   SleepRuntimeError + ExperienceEvent list"
where
  "candidate_events co rid i [] = Inr []"
| "candidate_events co rid i (k # ks) =
     res_bind (sleep_event co (candidate_event_id co i) (wall_clock co (10 + 3 * i))
       (wall_clock co (11 + 3 * i)) IntegrationCandidateCreated
       (candidate_to_value (texts co) k) rid) (\<lambda>e.
     res_bind (candidate_events co rid (Suc i) ks) (\<lambda>es. Inr (e # es)))"

definition completion_events ::
  "SleepCoordinator \<Rightarrow> SleepRun \<Rightarrow> SleepRun \<Rightarrow> IntegrationCandidate list \<Rightarrow>
   SleepRuntimeError + ExperienceEvent list"
where
  "completion_events co r completed ks =
     res_bind (candidate_events co (SleepRun.id r) 0 ks) (\<lambda>es.
     res_bind (sleep_event co (done_event_id co) (wall_clock co 7) (wall_clock co 8)
       SleepRunCompleted (sleep_run_to_value (texts co) completed) (SleepRun.id r)) (\<lambda>e.
     Inr (es @ [e])))"

definition complete_run ::
  "SleepCoordinator \<Rightarrow> SleepRun \<Rightarrow> bool \<Rightarrow> CurrentState \<Rightarrow> SeedWindow \<Rightarrow> ContextBudgetReport \<Rightarrow>
   SleepDeliberation \<Rightarrow> IntegrationCandidate list \<Rightarrow> SleepOnceResult action"
where
  "complete_run co r res latest w report d ks =
     (case SeedWindow.cursor_after w of
        None \<Rightarrow> act_lift (Inl (Invalid ''sleep seed cursor is empty''))
      | Some after \<Rightarrow>
          let completed = completed_run co r after (length ks) report in
          act_bind (act_lift (completion_events co r completed ks)) (\<lambda>es.
          act_bind (record_sleep co es (Some (CurrentState.revision latest)) (SleepDeliberation.trace d))
            (\<lambda>committed.
          case committed of
            Inr s' \<Rightarrow>
              act_return (result_from_run
                (unwrap_or completed (bt_get (sleep_runs s') (SleepRun.id r)))
                (if res then RunningResumed else Completed) res)
          | Inl err \<Rightarrow>
              if stale_context err
              then act_bind (load co) (\<lambda>current. interrupt_run co r current (Some report))
              else act_lift (Inl (SleepRuntimeError.Projection err)))))"

definition trace_mismatch :: "SleepContext \<Rightarrow> CognitiveTrace \<Rightarrow> bool" where
  "trace_mismatch c t \<longleftrightarrow>
     CognitiveTrace.context_hash t \<noteq> [] \<and>
     CognitiveTrace.context_hash t \<noteq> SleepContext.snapshot_hash c"

definition record_trace_of :: "SleepCoordinator \<Rightarrow> SleepDeliberation \<Rightarrow> unit action" where
  "record_trace_of co d =
     (case SleepDeliberation.trace d of None \<Rightarrow> act_return () | Some t \<Rightarrow> record_trace co t)"

definition judge_deliberation ::
  "SleepCoordinator \<Rightarrow> SleepRun \<Rightarrow> bool \<Rightarrow> CurrentState \<Rightarrow> SeedWindow \<Rightarrow> BuiltSleepContext \<Rightarrow>
   SleepDeliberation \<Rightarrow> SleepOnceResult action"
where
  "judge_deliberation co r res latest w built d =
     (let c = BuiltSleepContext.context built; report = budget_report built in
      case validate_deliberation (lib co) (fresh_candidate co) (\<lambda>i. wall_clock co (9 + 3 * i))
             d c latest of
        Inl err \<Rightarrow>
          act_bind (record_trace_of co d) (\<lambda>_. fail_run co r err latest (Some report))
      | Inr ks \<Rightarrow>
          if is_some_and (SleepDeliberation.trace d) (trace_mismatch c)
          then act_bind (record_trace_of co d) (\<lambda>_.
                 fail_run co r ''sleep_trace_context_mismatch'' latest (Some report))
          else complete_run co r res latest w report d ks)"

definition deliberate ::
  "SleepCoordinator \<Rightarrow> SleepModel \<Rightarrow> SleepRun \<Rightarrow> bool \<Rightarrow> CurrentState \<Rightarrow> SeedWindow \<Rightarrow>
   BuiltSleepContext \<Rightarrow> SleepOnceResult action"
where
  "deliberate co m r res s w built =
     (let c = BuiltSleepContext.context built; report = budget_report built in
      act_bind (load co) (\<lambda>latest0.
      act_bind (disturbed co s latest0) (\<lambda>stop0.
      if stop0 then interrupt_run co r latest0 (Some report)
      else
        (case deliberate_sleep m c of
           Inl err \<Rightarrow>
             act_bind (record_trace co (error_trace err)) (\<lambda>_.
             act_bind (load co) (\<lambda>latest.
             act_bind (disturbed co s latest) (\<lambda>stop.
             if stop then interrupt_run co r latest (Some report)
             else fail_run co r (failure_kind_of err) latest (Some (failure_report err report)))))
         | Inr d \<Rightarrow>
             act_bind (load co) (\<lambda>latest.
             act_bind (disturbed co s latest) (\<lambda>stop.
             if stop then interrupt_run co r latest (Some report)
             else judge_deliberation co r res latest w built d))))))"

definition open_run :: "CurrentState \<Rightarrow> SleepRun option" where
  "open_run s = find (\<lambda>r. SleepRun.status r = SleepRunStatus.Running) (bt_values (sleep_runs s))"

definition sleep_once :: "SleepCoordinator \<Rightarrow> SleepOnceResult action" where
  "sleep_once co =
     act_bind (load co) (\<lambda>s.
     act_bind (leased co) (\<lambda>held.
     if held then act_return (empty_result Deferred)
     else
       act_bind (load_ledger co) (\<lambda>events.
       act_bind (case open_run s of
           Some r \<Rightarrow> resume_run co r s events
         | None \<Rightarrow> start_run co s events) (\<lambda>p.
       case p of
         Finished result \<Rightarrow> act_return result
       | Ready m r res s' w built \<Rightarrow> deliberate co m r res s' w built))))"

section \<open>Status\<close>

definition run_summary :: "SleepRun \<Rightarrow> SleepRunSummary" where
  "run_summary r =
     \<lparr>SleepRunSummary.id = SleepRun.id r, status = SleepRun.status r,
      high_water_revision = SleepRun.high_water_revision r,
      cursor_before = SleepRun.cursor_before r, cursor_after = SleepRun.cursor_after r,
      processed_observations = processed_observation_count r,
      created_candidates = created_candidate_count r, started_at = SleepRun.started_at r,
      finished_at = SleepRun.finished_at r, error_kind = SleepRun.error_kind r\<rparr>"

text \<open>Stable, the latest start first.\<close>

definition latest_first :: "SleepRunSummary list \<Rightarrow> SleepRunSummary list" where
  "latest_first rs = rev (sort_key SleepRunSummary.started_at (rev rs))"

definition sleep_status ::
  "ext \<Rightarrow> codec \<Rightarrow> Db \<Rightarrow> Db \<Rightarrow> SleepRuntimeError + SleepStatus"
where
  "sleep_status x c read1 read2 =
     res_bind (map_err SleepRuntimeError.Storage (load_state x c read1)) (\<lambda>s.
     let verified = (case recover x c read2 of Inl _ \<Rightarrow> False
                     | Inr report \<Rightarrow> RecoveryReport.projection_verified report);
         runs = bt_values (sleep_runs s) in
     Inr \<lparr>SleepStatus.cursor = sleep_cursor s,
          active_run = map_option run_summary (open_run s),
          recent_runs = take 5 (latest_first (map run_summary runs)),
          pending_candidates = length (filter (\<lambda>k.
            IntegrationCandidate.disposition k = NeedsValidation) (bt_values (integration_candidates s))),
          projection_verified = verified\<rparr>)"

end
