(* ===== verification/AccessFacts.thy ===== *)
theory AccessFacts
  imports Access AgendaFacts InitiativeServiceFacts StoredLedger "HOL-Library.Sublist"
begin

text \<open>
  What holds of every service among other processes that only append to the ledger: an access
  sees an extension of the ledger seen before, and a batch with a base revision is committed to
  the very ledger that revision stands for.
\<close>

section \<open>Processes that append\<close>

definition others_append :: "'z Surroundings_scheme \<Rightarrow> bool" where
  "others_append co \<longleftrightarrow>
     (\<forall>n db es s. db_holds (lib co) (store_codec co) db es s \<longrightarrow>
        (\<exists>fs s'. db_holds (lib co) (store_codec co) (others co n db) (es @ fs) s' \<and>
           length fs < 2 ^ 32))"

text \<open>A world whose database holds a ledger; the bound grows with the accesses.\<close>

definition ledger_at ::
  "'z Surroundings_scheme \<Rightarrow> World \<Rightarrow> ExperienceEvent list \<Rightarrow> CurrentState \<Rightarrow> bool"
where
  "ledger_at co w es s \<longleftrightarrow>
     db_holds (lib co) (store_codec co) (snd w) es s \<and> length es < 2 ^ 62 + fst w * 2 ^ 33"

lemma ledger_at_step: "ledger_at co w es s \<Longrightarrow> in_step (lib co) s es"
  by (simp add: ledger_at_def db_holds_def in_step_def)

lemma in_step_unique:
  assumes "in_step x s es" and "in_step x s' es'" and "prefix es es'"
    and "CurrentState.revision s' = CurrentState.revision s"
  shows "es' = es" and "s' = s"
proof -
  from assms in_step_facts(3) have "(of_nat (length es') :: u64) = of_nat (length es)" by metis
  moreover have "unat (of_nat (length es') :: u64) = length es'" "unat (of_nat (length es) :: u64) = length es"
    using assms(1,2) by (simp_all add: in_step_def unat_of_nat)
  ultimately have "length es' = length es" by metis
  with assms(3) show "es' = es" by (auto simp: prefix_def)
  with assms(1,2) show "s' = s" by (simp add: in_step_def)
qed

section \<open>Accesses\<close>

text \<open>Before an access the others may have appended.\<close>

lemma others_step:
  assumes "others_append co" and "ledger_at co (n, db) es s"
  shows "\<exists>es' s'. prefix es es' \<and> db_holds (lib co) (store_codec co) (others co n db) es' s' \<and>
    length es' + 2 ^ 32 < 2 ^ 62 + Suc n * 2 ^ 33"
proof -
  from assms obtain fs s' where "db_holds (lib co) (store_codec co) (others co n db) (es @ fs) s'"
    "length fs < 2 ^ 32" unfolding others_append_def ledger_at_def snd_conv by metis
  then show ?thesis
    using assms(2) by (intro exI [of _ "es @ fs"] exI [of _ s']) (auto simp: ledger_at_def)
qed

lemma window_step:
  assumes "others_append co" and "ledger_at co w es s" and "observe co f w = (r, w')"
  shows "\<exists>es' s'. prefix es es' \<and> ledger_at co w' es' s' \<and> fst w' = Suc (fst w) \<and>
    f (fst w) (snd w') = r"
proof -
  obtain n db where w: "w = (n, db)" by (cases w)
  from others_step [OF assms(1)] assms(2) w obtain es' s' where
    "prefix es es'" "db_holds (lib co) (store_codec co) (others co n db) es' s'"
    "length es' + 2 ^ 32 < 2 ^ 62 + Suc n * 2 ^ 33" by blast
  then show ?thesis
    using assms(3) w by (intro exI [of _ es'] exI [of _ s']) (auto simp: observe_def Let_def ledger_at_def)
qed

text \<open>A batch is committed to the very ledger its base revision stands for.\<close>

lemma batch_step:
  assumes rely: "others_append co"
    and at: "ledger_at co w es s1" and base: "in_step (lib co) s esb" and pre: "prefix esb es"
    and rec: "record_events co evs (Some (CurrentState.revision s)) tr w = (Inr (Inr s'), w')"
    and evs: "\<forall>e \<in> set evs. codec_reads_event (lib co) (store_codec co) e"
      "codec_reads_state (store_codec co) s'"
    and len: "length evs < 2 ^ 32" and n: "fst w < 2 ^ 20"
  shows "es = esb \<and> apply_all (lib co) s evs = Inr s' \<and> ledger_at co w' (esb @ evs) s' \<and>
    fst w' = Suc (fst w)"
proof -
  obtain n db where w: "w = (n, db)" by (cases w)
  from others_step [OF rely] at w obtain es' s2 where
    es': "prefix es es'" and db: "db_holds (lib co) (store_codec co) (others co n db) es' s2"
    and bound: "length es' + 2 ^ 32 < 2 ^ 62 + Suc n * 2 ^ 33" by blast
  from rec w obtain db'' where
    r: "record_batch (lib co) (store_codec co) (faults co n) (others co n db) evs
        (Some (CurrentState.revision s)) tr = Inr (s', db'')" and w': "w' = (Suc n, db'')"
    by (auto simp: record_events_def Let_def split: sum.splits prod.splits)
  have "CurrentState.revision s2 = CurrentState.revision s" "apply_all (lib co) s2 evs = Inr s'"
    using record_batch_Inr [OF r] db by (auto simp: db_holds_def)
  moreover have "in_step (lib co) s2 es'" using db by (simp add: db_holds_def in_step_def)
  moreover have "prefix esb es'" using pre es' by (rule prefix_order.trans)
  ultimately have same: "es' = esb" "s2 = s" and run: "apply_all (lib co) s evs = Inr s'"
    using in_step_unique [OF base] by metis+
  have "length es' + length evs < 2 ^ 63" using bound len n w by simp
  then have "db_holds (lib co) (store_codec co) db'' (es' @ evs) s'"
    using record_batch_holds [OF db r] evs by blast
  then show ?thesis
    using same run bound len es' pre w w' by (auto simp: ledger_at_def intro: prefix_order.antisym)
qed

section \<open>Alone\<close>

text \<open>Nobody else touches the database and nothing fails.\<close>

definition undisturbed :: "'z Surroundings_scheme \<Rightarrow> bool" where
  "undisturbed co \<longleftrightarrow> others co = (\<lambda>n db. db) \<and> faults co = (\<lambda>n st. None)"

text \<open>A database without a lease whose rows are those of its ledger.\<close>

definition settled :: "'z Surroundings_scheme \<Rightarrow> Db \<Rightarrow> ExperienceEvent list \<Rightarrow> CurrentState \<Rightarrow> bool" where
  "settled co db es s \<longleftrightarrow>
     db_holds (lib co) (store_codec co) db es s \<and> rows_of (lib co) (store_codec co) db es \<and>
     lease_row db = None"

lemma settled_batch:
  assumes quiet: "undisturbed co" and at: "settled co db es s"
    and run: "apply_all (lib co) s evs = Inr s'" and ne: "evs \<noteq> []"
    and ok: "\<forall>e \<in> set evs. writable (lib co) (store_codec co) e"
    and evs: "\<forall>e \<in> set evs. codec_reads_event (lib co) (store_codec co) e"
      "codec_reads_state (store_codec co) s'"
    and text_ok: "is_ok (state_to_string (store_codec co) s')" and inj: "inj (uuid_text (lib co))"
    and len: "length es + length evs < 2 ^ 63"
    and base: "base \<in> {None, Some (CurrentState.revision s)}"
  shows "\<exists>db'. record_events co evs base None (n, db) =
      (Inr (Inr s'), (Suc n, db')) \<and> settled co db' (es @ evs) s'"
proof -
  have db: "db_holds (lib co) (store_codec co) db es s" using at by (simp add: settled_def)
  from record_possible [OF db _ run ne ok text_ok len, of base "faults co n"]
    at quiet inj base obtain db' where
    rec: "record_batch (lib co) (store_codec co) (faults co n) db evs base None =
      Inr (s', db')" and rows: "rows_of (lib co) (store_codec co) db' (es @ evs)"
    by (auto simp: settled_def undisturbed_def)
  have "db_holds (lib co) (store_codec co) db' (es @ evs) s'"
    by (rule record_batch_holds [OF db rec]) (use evs len in auto)
  moreover have "lease_row db' = None"
    using record_batch_Inr [OF rec] commit_batch_Inr at unfolding settled_def by metis
  ultimately show ?thesis
    using rec rows quiet
    by (intro exI [of _ db']) (simp add: record_events_def undisturbed_def settled_def)
qed

lemma undisturbed_append: "undisturbed co \<Longrightarrow> others_append co"
  by (auto simp: undisturbed_def others_append_def intro!: exI [of _ "[]"])

lemma settled_ledger:
  assumes "settled co db es s" and "length es < 2 ^ 62"
  shows "ledger_at co (n, db) es s" and "in_step (lib co) s es"
  using assms by (auto simp: settled_def ledger_at_def db_holds_def in_step_def)

end
