(* ===== verification/SleepAcceptance.thy ===== *)
theory SleepAcceptance
  imports SleepService AccessFacts SleepHistory
begin

text \<open>
  Facts about the pure parts of a sleep cycle: the window is the longest prefix of the readable
  observations that its bounds allow, the batch the longest prefix the model has room for, and
  a context shows only seeds and events of the ledger up to the run's revision. The projector
  takes what a cycle commits: the candidates a checked deliberation leaves and the event that
  ends the run.
\<close>

section \<open>The window\<close>

text \<open>The observations of the window that decode, in the order of the ledger.\<close>

definition in_window :: "u64 \<Rightarrow> u64 \<Rightarrow> ExperienceEvent \<times> u64 \<Rightarrow> bool" where
  "in_window cur hw entry \<longleftrightarrow>
     (case entry of (e, sq) \<Rightarrow> cur < sq \<and> sq \<le> hw \<and> event_kind e = ObservationRecorded)"

definition readable ::
  "ext \<Rightarrow> ExperienceEvent list \<Rightarrow> u64 \<Rightarrow> u64 \<Rightarrow> (ExperienceEvent \<times> u64) list \<Rightarrow> SleepSeed list"
where
  "readable x events cur hw entries =
     filter_map (\<lambda>(e, sq). decode_seed x events (ExperienceEvent.event_id e) hw)
       (filter (in_window cur hw) entries)"

definition damaged_in ::
  "ext \<Rightarrow> ExperienceEvent list \<Rightarrow> u64 \<Rightarrow> u64 \<Rightarrow> (ExperienceEvent \<times> u64) list \<Rightarrow> nat"
where
  "damaged_in x events cur hw entries =
     length (filter (\<lambda>(e, sq). decode_seed x events (ExperienceEvent.event_id e) hw = None)
       (filter (in_window cur hw) entries))"

fun take_seeds :: "sleep_json \<Rightarrow> SleepSeed list \<Rightarrow> SleepSeed list \<Rightarrow> SleepSeed list" where
  "take_seeds sj ss [] = ss"
| "take_seeds sj ss (d # ds) =
     (if length ss \<ge> MAX_SLEEP_SEEDS \<or> \<not> fits_seed_budget sj ss d then ss
      else take_seeds sj (ss @ [d]) ds)"

fun accepting_after :: "sleep_json \<Rightarrow> SleepSeed list \<Rightarrow> SleepSeed list \<Rightarrow> bool" where
  "accepting_after sj ss [] = True"
| "accepting_after sj ss (d # ds) =
     (\<not> (length ss \<ge> MAX_SLEEP_SEEDS \<or> \<not> fits_seed_budget sj ss d) \<and>
      accepting_after sj (ss @ [d]) ds)"

lemma scan_fold:
  "foldl (scan_event x sj events cur hw) (ss, bad, av, acc) entries =
     ((if acc then take_seeds sj ss (readable x events cur hw entries) else ss),
      bad + damaged_in x events cur hw entries,
      av + length (readable x events cur hw entries),
      acc \<and> accepting_after sj ss (readable x events cur hw entries))"
proof (induction entries arbitrary: ss bad av acc)
  case Nil
  show ?case by (simp add: readable_def damaged_in_def)
next
  case (Cons entry entries)
  obtain e sq where entry: "entry = (e, sq)" by (cases entry)
  show ?case
  proof (cases "in_window cur hw entry")
    case False
    then have "scan_event x sj events cur hw (ss, bad, av, acc) entry = (ss, bad, av, acc)"
      by (auto simp: scan_event_def entry in_window_def)
    moreover have "readable x events cur hw (entry # entries) = readable x events cur hw entries"
      "damaged_in x events cur hw (entry # entries) = damaged_in x events cur hw entries"
      using False by (simp_all add: readable_def damaged_in_def)
    ultimately show ?thesis by (simp only: foldl_Cons Cons.IH)
  next
    case True
    then have w: "\<not> (sq \<le> cur \<or> sq > hw)" "event_kind e = ObservationRecorded"
      by (auto simp: entry in_window_def)
    show ?thesis
    proof (cases "decode_seed x events (ExperienceEvent.event_id e) hw")
      case None
      have "readable x events cur hw (entry # entries) = readable x events cur hw entries"
        "damaged_in x events cur hw (entry # entries) = Suc (damaged_in x events cur hw entries)"
        using True None by (simp_all add: readable_def damaged_in_def entry)
      moreover have "scan_event x sj events cur hw (ss, bad, av, acc) entry = (ss, Suc bad, av, acc)"
        using w None by (simp add: scan_event_def entry)
      ultimately show ?thesis by (simp only: foldl_Cons Cons.IH) simp
    next
      case (Some d)
      have "readable x events cur hw (entry # entries) = d # readable x events cur hw entries"
        "damaged_in x events cur hw (entry # entries) = damaged_in x events cur hw entries"
        using True Some by (simp_all add: readable_def damaged_in_def entry)
      moreover have "scan_event x sj events cur hw (ss, bad, av, acc) entry =
          (if acc \<and> \<not> (length ss \<ge> MAX_SLEEP_SEEDS \<or> \<not> fits_seed_budget sj ss d)
           then (ss @ [d], bad, Suc av, True) else (ss, bad, Suc av, False))"
        using w Some by (auto simp: scan_event_def entry)
      ultimately show ?thesis by (auto simp: Cons.IH)
    qed
  qed
qed

lemma seed_window_eq:
  "seed_window x sj events cur hw =
     (let rs = readable x events cur hw (sequenced events); ss = take_seeds sj [] rs in
      \<lparr>SeedWindow.event_ids = map SleepSeed.event_id ss, seeds = ss, cursor_after = last_sequence ss,
       invalid_count = damaged_in x events cur hw (sequenced events),
       deferred_seed_count = length rs - length ss\<rparr>)"
  by (simp add: seed_window_def scan_fold Let_def)

lemma take_seeds_prefix: "\<exists>rest. ss @ ds = take_seeds sj ss ds @ rest \<and>
    (rest \<noteq> [] \<longrightarrow> length (take_seeds sj ss ds) \<ge> MAX_SLEEP_SEEDS \<or>
       \<not> fits_seed_budget sj (take_seeds sj ss ds) (hd rest))"
proof (induction ds arbitrary: ss)
  case (Cons d ds)
  show ?case
  proof (cases "length ss \<ge> MAX_SLEEP_SEEDS \<or> \<not> fits_seed_budget sj ss d")
    case True
    then show ?thesis by (intro exI [of _ "d # ds"]) auto
  next
    case False
    with Cons.IH [of "ss @ [d]"] show ?thesis by simp
  qed
qed simp

lemma take_seeds_bounds:
  assumes "length ss \<le> MAX_SLEEP_SEEDS"
    and "ss \<noteq> [] \<Longrightarrow> fits_seed_budget sj (butlast ss) (last ss)"
  shows "length (take_seeds sj ss ds) \<le> MAX_SLEEP_SEEDS \<and>
    (take_seeds sj ss ds \<noteq> [] \<longrightarrow>
       fits_seed_budget sj (butlast (take_seeds sj ss ds)) (last (take_seeds sj ss ds)))"
  using assms by (induction ds arbitrary: ss) auto

text \<open>A seed is the observation of an event of the ledger, at its position.\<close>

lemma decode_seed_Some:
  assumes "decode_seed x events i hw = Some d"
  shows "SleepSeed.event_id d = i" and "i \<in> ExperienceEvent.event_id ` set events"
    and "SleepSeed.sequence d \<le> hw"
  using assms position_index_Some
  by (fastforce simp: decode_seed_def bind_eq_Some_conv Let_def split: if_splits sum.splits)+

lemma decode_seed_position:
  assumes step: "in_step x s events" and e: "(e, sq) \<in> set (sequenced events)"
    and d: "decode_seed x events (ExperienceEvent.event_id e) hw = Some d"
  shows "SleepSeed.sequence d = sq" and "de_observation x (payload e) = Inr (SleepSeed.observation d)"
proof -
  note f = in_step_facts [OF step]
  from e obtain k where k: "k < length events" "e = events ! k" "sq = of_nat k + 1"
    by (auto simp: sequenced_nth)
  from d obtain n where n: "position_index (\<lambda>e'. ExperienceEvent.event_id e' = ExperienceEvent.event_id e)
      events = Some n"
    by (auto simp: decode_seed_def bind_eq_Some_conv)
  then have "n < length events" "ExperienceEvent.event_id (events ! n) = ExperienceEvent.event_id (events ! k)"
    using position_index_Some [OF n] k by auto
  then have "n = k"
    using f(2) k(1) by (metis length_map nth_eq_iff_index_eq nth_map)
  with n k d show "SleepSeed.sequence d = sq"
    "de_observation x (payload e) = Inr (SleepSeed.observation d)"
    by (auto simp: decode_seed_def Let_def split: if_splits sum.splits)
qed

text \<open>The sequences of the readable observations grow and lie in the window.\<close>

lemma readable_sequences:
  assumes step: "in_step x s events"
  shows "map SleepSeed.sequence (readable x events cur hw (sequenced events)) =
    map snd (filter (\<lambda>(e, sq). in_window cur hw (e, sq) \<and>
      decode_seed x events (ExperienceEvent.event_id e) hw \<noteq> None) (sequenced events))"
proof -
  have "map SleepSeed.sequence (readable x events cur hw entries) =
      map snd (filter (\<lambda>(e, sq). in_window cur hw (e, sq) \<and>
        decode_seed x events (ExperienceEvent.event_id e) hw \<noteq> None) entries)"
    if "set entries \<subseteq> set (sequenced events)" for entries
    using that
    by (induction entries)
      (auto simp: readable_def dest: decode_seed_position(1) [OF step] split: option.splits)
  then show ?thesis by simp
qed

lemma sequenced_sorted:
  assumes "length es < 2 ^ 63"
  shows "sorted_wrt (<) (map snd (sequenced es))"
proof -
  have "unat (of_nat i + 1 :: u64) = Suc i" if "i < length es" for i
  proof -
    have "of_nat i + 1 = (of_nat (Suc i) :: u64)" by (simp add: add.commute)
    moreover have "Suc i < 2 ^ 64" using that assms by simp
    ultimately show ?thesis by (simp add: unat_of_nat del: of_nat_Suc)
  qed
  then show ?thesis
    by (auto simp: sorted_wrt_iff_nth_less sequenced_def word_less_nat_alt)
qed

lemma readable_sorted:
  assumes step: "in_step x s events"
  shows "sorted_wrt (<) (map SleepSeed.sequence (readable x events cur hw (sequenced events)))"
    and "q \<in> set (map SleepSeed.sequence (readable x events cur hw (sequenced events))) \<Longrightarrow>
      cur < q \<and> q \<le> hw"
proof -
  have "sorted_wrt (<) (map snd (filter P (sequenced events)))" for P
    using sequenced_sorted [of events] step sorted_wrt_filter
    by (fastforce simp: in_step_def sorted_wrt_map)
  then show "sorted_wrt (<) (map SleepSeed.sequence (readable x events cur hw (sequenced events)))"
    by (simp add: readable_sequences [OF step])
  show "cur < q \<and> q \<le> hw"
    if "q \<in> set (map SleepSeed.sequence (readable x events cur hw (sequenced events)))"
    using that unfolding readable_sequences [OF step] by (auto simp: in_window_def)
qed

lemma readable_seed:
  assumes "d \<in> set (readable x events cur hw (sequenced events))"
  shows "SleepSeed.event_id d \<in> ExperienceEvent.event_id ` set events"
proof -
  from assms obtain e :: ExperienceEvent where "decode_seed x events (ExperienceEvent.event_id e) hw = Some d"
    by (auto simp: readable_def set_filter_map)
  from decode_seed_Some [OF this] show ?thesis by simp
qed

lemma fits_seed_budget_iff:
  "fits_seed_budget sj ss d \<longleftrightarrow>
     (\<exists>n. serialized_len (seeds_text sj) (ss @ [d]) = Inr n \<and> n \<le> SLEEP_SEED_BUDGET_BYTES)"
  by (simp add: fits_seed_budget_def split: sum.splits)

text \<open>A run without damaged seeds: its window ends at its last seed.\<close>

lemma length_filter_map: "length (filter_map f xs) \<le> length xs"
  by (induction xs) (auto split: option.splits)

lemma filter_map_all:
  "length xs \<le> length (filter_map f xs) \<Longrightarrow> y \<in> set xs \<Longrightarrow> f y \<noteq> None"
  using length_filter_map [of f]
  by (induction xs) (fastforce split: option.splits dest: Suc_le_lessD le_less_trans)+

lemma decode_seed_at:
  assumes "decode_seed x events i hw = Some d"
  shows "\<exists>n. position_index (\<lambda>e. ExperienceEvent.event_id e = i) events = Some n \<and>
    of_nat n + 1 \<le> hw"
  using assms
  by (auto simp: decode_seed_def bind_eq_Some_conv Let_def not_less split: if_splits)

lemma window_from_run_facts:
  assumes r: "r = seed_window_from_run x events r0" and sound: "invalid_count r = 0" "seeds r \<noteq> []"
  shows "is_some_and (SeedWindow.cursor_after r) (\<lambda>after. after \<le> SleepRun.high_water_revision r0)"
    and "SleepSeed.event_id ` set (seeds r) \<subseteq> ExperienceEvent.event_id ` set events"
proof -
  let ?hw = "SleepRun.high_water_revision r0"
  have seeds: "seeds r = filter_map (\<lambda>i. decode_seed x events i ?hw) (seed_event_ids r0)"
    by (simp add: r seed_window_from_run_def Let_def)
  have ne: "seed_event_ids r0 \<noteq> []" using sound(2) by (auto simp: seeds)
  have "length (seed_event_ids r0) \<le> length (seeds r)"
    using sound(1) by (simp add: r seed_window_from_run_def Let_def)
  from filter_map_all [OF this [unfolded seeds] last_in_set [OF ne]]
  obtain d where "decode_seed x events (last (seed_event_ids r0)) ?hw = Some d" by blast
  from decode_seed_at [OF this] ne
  show "is_some_and (SeedWindow.cursor_after r) (\<lambda>after. after \<le> ?hw)"
    by (auto simp: r seed_window_from_run_def Let_def)
  show "SleepSeed.event_id ` set (seeds r) \<subseteq> ExperienceEvent.event_id ` set events"
    unfolding seeds using decode_seed_Some by (auto simp: set_filter_map)
qed

section \<open>The batch\<close>

text \<open>What the model says of the first \<open>k\<close> observations.\<close>

definition prefix_fits ::
  "(nat \<Rightarrow> nat \<Rightarrow> string + SleepBatchPlan) \<Rightarrow> (SleepContext \<Rightarrow> PreparationError + BudgetReport) \<Rightarrow>
   nat \<Rightarrow> nat \<Rightarrow> SleepBatchPlan \<Rightarrow> bool"
where
  "prefix_fits build check whole k p \<longleftrightarrow>
     (\<exists>q b. build k (whole - k) = Inr q \<and> check (SleepBatchPlan.context q) = Inr b \<and> p = with_report q b)"

definition prefix_exceeds ::
  "(nat \<Rightarrow> nat \<Rightarrow> string + SleepBatchPlan) \<Rightarrow> (SleepContext \<Rightarrow> PreparationError + BudgetReport) \<Rightarrow>
   nat \<Rightarrow> nat \<Rightarrow> SleepBatchPlan \<Rightarrow> bool"
where
  "prefix_exceeds build check whole k p \<longleftrightarrow>
     (\<exists>q b. build k (whole - k) = Inr q \<and> check (SleepBatchPlan.context q) = Inl (Budget b) \<and>
        p = with_report q b)"

lemma longest_step:
  "(\<exists>k. 0 < k \<and> k \<le> Suc n \<and> F k \<and> (\<forall>j. k < j \<longrightarrow> j \<le> Suc n \<longrightarrow> E j)) \<longleftrightarrow>
     F (Suc n) \<or> E (Suc n) \<and> (\<exists>k. 0 < k \<and> k \<le> n \<and> F k \<and> (\<forall>j. k < j \<longrightarrow> j \<le> n \<longrightarrow> E j))"
  (is "?L \<longleftrightarrow> ?R")
proof
  assume ?L
  then obtain k where k: "0 < k" "k \<le> Suc n" "F k" "\<forall>j. k < j \<longrightarrow> j \<le> Suc n \<longrightarrow> E j"
    by blast
  show ?R
  proof (cases "k = Suc n")
    case False
    with k have "E (Suc n)" "k \<le> n" by simp_all
    with k show ?thesis by (blast intro: le_SucI)
  qed (use k in simp)
next
  assume R: ?R
  show ?L
  proof (cases "F (Suc n)")
    case True
    then show ?thesis by (intro exI [of _ "Suc n"]) simp
  next
    case False
    with R show ?thesis by (auto simp: le_Suc_eq)
  qed
qed

lemma try_prefixes_Inr:
  "try_prefixes build check whole failure n = Inr p \<longleftrightarrow>
     (\<exists>k. 0 < k \<and> k \<le> n \<and> prefix_fits build check whole k p \<and>
        (\<forall>j. k < j \<longrightarrow> j \<le> n \<longrightarrow> (\<exists>q. prefix_exceeds build check whole j q)))"
proof (induction n arbitrary: failure)
  case (Suc n)
  have "try_prefixes build check whole failure (Suc n) = Inr p \<longleftrightarrow>
      prefix_fits build check whole (Suc n) p \<or>
      (\<exists>q. prefix_exceeds build check whole (Suc n) q) \<and>
        (\<exists>failure. try_prefixes build check whole failure n = Inr p)"
  proof (cases "build (Suc n) (whole - Suc n)")
    case (Inl err)
    then show ?thesis by (simp add: prefix_fits_def prefix_exceeds_def)
  next
    case (Inr q)
    then show ?thesis
      using Suc.IH by (auto simp: prefix_fits_def prefix_exceeds_def
          split: sum.splits PreparationError.splits)
  qed
  then show ?case using Suc.IH by (simp add: longest_step)
qed simp

lemma try_prefixes_exceeds:
  "try_prefixes build check whole failure n = Inl (ObservationExceeds p) \<longleftrightarrow>
     (if n = 0 then failure = Some p
      else prefix_exceeds build check whole 1 p \<and>
        (\<forall>j. 0 < j \<longrightarrow> j \<le> n \<longrightarrow> (\<exists>q. prefix_exceeds build check whole j q)))"
proof (induction n arbitrary: failure)
  case 0
  show ?case by (simp split: option.splits)
next
  case (Suc n)
  show ?case
  proof (cases "\<exists>q b. build (Suc n) (whole - Suc n) = Inr q \<and>
      check (SleepBatchPlan.context q) = Inl (Budget b)")
    case True
    then obtain q b where q: "build (Suc n) (whole - Suc n) = Inr q"
      "check (SleepBatchPlan.context q) = Inl (Budget b)" by blast
    then have ex: "prefix_exceeds build check whole (Suc n) p' \<longleftrightarrow> p' = with_report q b" for p'
      by (auto simp: prefix_exceeds_def)
    show ?thesis
    proof (cases n)
      case 0
      with q ex show ?thesis by (auto simp: le_Suc_eq)
    next
      case (Suc m)
      with q ex Suc.IH show ?thesis by (auto simp: le_Suc_eq)
    qed
  next
    case False
    then have "\<not> (\<exists>q. prefix_exceeds build check whole (Suc n) q)"
      by (auto simp: prefix_exceeds_def)
    moreover have "try_prefixes build check whole failure (Suc n) \<noteq> Inl (ObservationExceeds p)"
      using False by (cases "build (Suc n) (whole - Suc n)")
        (auto split: sum.splits PreparationError.splits)
    ultimately show ?thesis by auto
  qed
qed

lemma plan_new_anchors:
  "plan_new n deferred build check = Inr p \<or> plan_new n deferred build check = Inl (ObservationExceeds p) \<Longrightarrow>
     n \<noteq> 0 \<and> (\<exists>q. prefix_fits build check (n + deferred) 0 q)"
  by (cases "build 0 (n + deferred)")
    (auto simp: plan_new_def prefix_fits_def split: if_splits sum.splits PreparationError.splits)

lemma plan_new_fits:
  assumes "n \<noteq> 0" and "prefix_fits build check (n + deferred) 0 q"
  shows "plan_new n deferred build check = try_prefixes build check (n + deferred) None n"
  using assms by (auto simp: plan_new_def prefix_fits_def)

lemma plan_new_Inr:
  "plan_new n deferred build check = Inr p \<longleftrightarrow>
     n \<noteq> 0 \<and> (\<exists>q. prefix_fits build check (n + deferred) 0 q) \<and>
     (\<exists>k. 0 < k \<and> k \<le> n \<and> prefix_fits build check (n + deferred) k p \<and>
        (\<forall>j. k < j \<longrightarrow> j \<le> n \<longrightarrow> (\<exists>q. prefix_exceeds build check (n + deferred) j q)))"
  using plan_new_anchors [of n deferred build check p] plan_new_fits [of n build check deferred]
    try_prefixes_Inr [of build check "n + deferred" None n p]
  by metis

lemma plan_new_exceeds:
  "plan_new n deferred build check = Inl (ObservationExceeds p) \<longleftrightarrow>
     n \<noteq> 0 \<and> (\<exists>q. prefix_fits build check (n + deferred) 0 q) \<and>
     prefix_exceeds build check (n + deferred) 1 p \<and>
     (\<forall>j. 0 < j \<longrightarrow> j \<le> n \<longrightarrow> (\<exists>q. prefix_exceeds build check (n + deferred) j q))"
  using plan_new_anchors [of n deferred build check p] plan_new_fits [of n build check deferred]
    try_prefixes_exceeds [of build check "n + deferred" None n p]
  by metis

section \<open>The context\<close>

lemma fill_recall_facts:
  assumes "fill_recall sj i kept dropped rs = Inr (kept', dropped')"
    and "kept = [] \<or> (\<exists>n. serialized_len (recalled_text sj) kept = Inr n \<and> n \<le> SLEEP_RECALL_BUDGET_BYTES)"
  shows "\<exists>new. kept' = kept @ new \<and> subseq new rs \<and> length new + i \<le> max i MAX_SLEEP_RECALL \<and>
      dropped' + length new = dropped + length rs"
    and "kept' = [] \<or> (\<exists>n. serialized_len (recalled_text sj) kept' = Inr n \<and> n \<le> SLEEP_RECALL_BUDGET_BYTES)"
proof -
  have "(\<exists>new. kept' = kept @ new \<and> subseq new rs \<and> length new + i \<le> max i MAX_SLEEP_RECALL \<and>
      dropped' + length new = dropped + length rs) \<and>
    (kept' = [] \<or> (\<exists>n. serialized_len (recalled_text sj) kept' = Inr n \<and> n \<le> SLEEP_RECALL_BUDGET_BYTES))"
    using assms
  proof (induction rs arbitrary: i kept dropped)
    case (Cons r rs)
    show ?case
    proof (cases "i \<ge> MAX_SLEEP_RECALL")
      case True
      from Cons.IH [of "Suc i" kept "Suc dropped"] Cons.prems True show ?thesis by auto
    next
      case False
      with Cons.prems(1) obtain n where n: "serialized_len (recalled_text sj) (kept @ [r]) = Inr n"
        by (auto simp: res_simps)
      show ?thesis
      proof (cases "n > SLEEP_RECALL_BUDGET_BYTES")
        case True
        from Cons.IH [of "Suc i" kept "Suc dropped"] Cons.prems True False n show ?thesis
          by (auto simp: max_def split: if_splits)
      next
        case fits: False
        from Cons.IH [of "Suc i" "kept @ [r]" dropped] Cons.prems False fits n
        obtain new where "kept' = (kept @ [r]) @ new" "subseq new rs"
          "length new + Suc i \<le> max (Suc i) MAX_SLEEP_RECALL"
          "dropped' + length new = dropped + length rs"
          "kept' = [] \<or> (\<exists>n. serialized_len (recalled_text sj) kept' = Inr n \<and> n \<le> SLEEP_RECALL_BUDGET_BYTES)"
          by auto
        then show ?thesis using False
          by (intro conjI exI [of _ "r # new"]) auto
      qed
    qed
  qed simp
  then show "\<exists>new. kept' = kept @ new \<and> subseq new rs \<and> length new + i \<le> max i MAX_SLEEP_RECALL \<and>
      dropped' + length new = dropped + length rs"
    "kept' = [] \<or> (\<exists>n. serialized_len (recalled_text sj) kept' = Inr n \<and> n \<le> SLEEP_RECALL_BUDGET_BYTES)"
    by blast+
qed

text \<open>Shrinking drops recalled items from the end and nothing else.\<close>

lemma shrink_context_facts:
  assumes "shrink_context x sj c dropped = Inr (c', dropped')"
  shows "\<exists>k \<le> length (recalled_experiences c).
      c' = c\<lparr>recalled_experiences := take k (recalled_experiences c),
             SleepContext.snapshot_hash := SleepContext.snapshot_hash c'\<rparr> \<and>
      dropped' + k = dropped + length (recalled_experiences c)"
    and "context_hash x sj c' = Inr (SleepContext.snapshot_hash c')"
    and "\<exists>n. serialized_len (context_text sj) c' = Inr n \<and> n \<le> SLEEP_CONTEXT_HARD_LIMIT_BYTES"
proof -
  have "(\<exists>k \<le> length (recalled_experiences c).
      c' = c\<lparr>recalled_experiences := take k (recalled_experiences c),
             SleepContext.snapshot_hash := SleepContext.snapshot_hash c'\<rparr> \<and>
      dropped' + k = dropped + length (recalled_experiences c)) \<and>
    context_hash x sj c' = Inr (SleepContext.snapshot_hash c') \<and>
    (\<exists>n. serialized_len (context_text sj) c' = Inr n \<and> n \<le> SLEEP_CONTEXT_HARD_LIMIT_BYTES)"
    using assms
  proof (induction "recalled_experiences c" arbitrary: c dropped rule: rev_induct)
    case Nil
    then show ?case
      by (subst (asm) shrink_context.simps)
        (auto simp: res_simps Let_def context_hash_def split: if_splits)
  next
    case (snoc r rs)
    from snoc.prems obtain h n where h: "context_hash x sj c = Inr h"
      and n: "serialized_len (context_text sj) (c\<lparr>SleepContext.snapshot_hash := h\<rparr>) = Inr n"
      by (subst (asm) shrink_context.simps) (auto simp: res_simps Let_def)
    show ?case
    proof (cases "n \<le> SLEEP_CONTEXT_HARD_LIMIT_BYTES")
      case True
      with snoc.prems h n shrink_context.simps [of x sj c dropped]
      have "c' = c\<lparr>SleepContext.snapshot_hash := h\<rparr>" "dropped' = dropped" by simp_all
      with h n True show ?thesis
        by (auto simp: context_hash_def intro!: exI [of _ "length (recalled_experiences c)"])
    next
      case False
      let ?c = "c\<lparr>SleepContext.snapshot_hash := h, recalled_experiences := rs\<rparr>"
      have rs: "recalled_experiences c = rs @ [r]" by (rule snoc.hyps(2) [symmetric])
      with snoc.prems h n False have "shrink_context x sj ?c (Suc dropped) = Inr (c', dropped')"
        using shrink_context.simps [of x sj c dropped] by simp
      from snoc.hyps(1) [OF _ this] obtain k where
        "k \<le> length rs" and rest: "dropped' + k = Suc dropped + length rs"
        "c' = ?c\<lparr>recalled_experiences := take k rs,
               SleepContext.snapshot_hash := SleepContext.snapshot_hash c'\<rparr>"
        "context_hash x sj c' = Inr (SleepContext.snapshot_hash c')"
        "\<exists>n. serialized_len (context_text sj) c' = Inr n \<and> n \<le> SLEEP_CONTEXT_HARD_LIMIT_BYTES"
        by auto
      then have "\<exists>k \<le> length (recalled_experiences c).
          c' = c\<lparr>recalled_experiences := take k (recalled_experiences c),
                 SleepContext.snapshot_hash := SleepContext.snapshot_hash c'\<rparr> \<and>
          dropped' + k = dropped + length (recalled_experiences c)"
        by (intro exI [of _ k]) (simp add: rs)
      with rest(3,4) show ?thesis by blast
    qed
  qed
  then show "\<exists>k \<le> length (recalled_experiences c).
      c' = c\<lparr>recalled_experiences := take k (recalled_experiences c),
             SleepContext.snapshot_hash := SleepContext.snapshot_hash c'\<rparr> \<and>
      dropped' + k = dropped + length (recalled_experiences c)"
    "context_hash x sj c' = Inr (SleepContext.snapshot_hash c')"
    "\<exists>n. serialized_len (context_text sj) c' = Inr n \<and> n \<le> SLEEP_CONTEXT_HARD_LIMIT_BYTES"
    by blast+
qed

text \<open>What recall may show: no seed, and nothing newer than the run.\<close>

definition recall_allowed ::
  "(EventId, u64) btree \<Rightarrow> EventId list \<Rightarrow> u64 \<Rightarrow> EventId \<Rightarrow> bool"
where
  "recall_allowed sq seed_ids hw i \<longleftrightarrow> i \<notin> set seed_ids \<and> is_some_and (bt_get sq i) (\<lambda>n. n \<le> hw)"

definition recall_sound ::
  "(EventId, u64) btree \<Rightarrow> EventId list \<Rightarrow> u64 \<Rightarrow> (EventId, RecalledItem) btree \<Rightarrow> bool"
where
  "recall_sound sq seed_ids hw m \<longleftrightarrow> bt_wf m \<and>
     (\<forall>(i, r) \<in> set m. RecalledItem.source_event_id r = i \<and> recall_allowed sq seed_ids hw i)"

lemma set_bt_insert_subset: "set (bt_insert i v m) \<subseteq> insert (i, v) (set m)"
  by (induction i v m rule: bt_insert.induct) auto

lemma keep_best_sound:
  "recall_sound sq ids hw m \<Longrightarrow> recall_sound sq ids hw (keep_best sq ids hw m r)"
  using set_bt_insert_subset [of "RecalledItem.source_event_id r" r m]
  by (cases "bt_get sq (RecalledItem.source_event_id r)")
    (auto simp: keep_best_def recall_sound_def recall_allowed_def Let_def not_less)

lemma keep_best_fold:
  "recall_sound sq ids hw m \<Longrightarrow> recall_sound sq ids hw (foldl (keep_best sq ids hw) m rs)"
  by (induction rs arbitrary: m) (auto intro: keep_best_sound)

lemma merged_recall_sound:
  "recall_sound (sequence_by_id events) (map SleepSeed.event_id ss) hw (merged_recall hw ss by_seed events)"
proof -
  have "recall_sound sq ids hw (foldl (\<lambda>m seed.
       case bt_get by_seed (SleepSeed.event_id seed) of
         None \<Rightarrow> m | Some found \<Rightarrow> foldl (keep_best sq ids hw) m found) m ds)"
    if "recall_sound sq ids hw m" for sq ids m and ds :: "SleepSeed list"
    using that by (induction ds arbitrary: m) (auto intro: keep_best_fold split: option.splits)
  moreover have "recall_sound sq ids hw []" for sq ids by (simp add: recall_sound_def)
  ultimately show ?thesis by (simp add: merged_recall_def)
qed

lemma ranked_recall_set: "set (ranked_recall x m) = set (bt_values m)"
  by (simp add: ranked_recall_def)

lemma ranked_recall_distinct:
  assumes "recall_sound sq ids hw m"
  shows "distinct (map RecalledItem.source_event_id (ranked_recall x m))"
proof -
  have "map RecalledItem.source_event_id (map snd m) = map fst m"
    using assms by (auto simp: recall_sound_def)
  moreover have "distinct (map fst m)"
    using assms by (simp add: recall_sound_def bt_wf_distinct)
  ultimately have "distinct (map RecalledItem.source_event_id (bt_values m))"
    unfolding bt_values_def by metis
  then show ?thesis by (simp add: distinct_map ranked_recall_def)
qed

lemma build_context_facts:
  assumes "build_context x sj hid uid rid hw ss by_seed events s deferred = Inr built"
  defines "c \<equiv> BuiltSleepContext.context built" and "b \<equiv> budget_report built"
  shows "SleepContext.sleep_run_id c = rid" and "SleepContext.high_water_revision c = hw"
    and "seed_observations c = ss"
    and "subseq (recalled_experiences c) (ranked_recall x (merged_recall hw ss by_seed events))"
    and "length (recalled_experiences c) \<le> MAX_SLEEP_RECALL"
    and "context_hash x sj c = Inr (SleepContext.snapshot_hash c)"
    and "\<exists>n. serialized_len (context_text sj) c = Inr n \<and> n \<le> SLEEP_CONTEXT_HARD_LIMIT_BYTES \<and>
      ContextBudgetReport.total_bytes b = of_nat n"
    and "\<exists>n. serialized_len (seeds_text sj) ss = Inr n \<and> n \<le> SLEEP_SEED_BUDGET_BYTES \<and>
      ContextBudgetReport.seed_bytes b = of_nat n"
    and "\<exists>n. serialized_len (anchors_text sj) (sleep_anchors s hid uid hw) = Inr n \<and>
      n \<le> SLEEP_ANCHOR_BUDGET_BYTES \<and> ContextBudgetReport.anchor_bytes b = of_nat n"
    and "included_recall_count b + dropped_recall_count b =
      of_nat (length (ranked_recall x (merged_recall hw ss by_seed events)))"
proof -
  let ?rank = "ranked_recall x (merged_recall hw ss by_seed events)"
  let ?a = "sleep_anchors s hid uid hw"
  from assms(1) obtain an sn kept dr0 dr rn tn where
    an: "serialized_len (anchors_text sj) ?a = Inr an" "an \<le> SLEEP_ANCHOR_BUDGET_BYTES" and
    sn: "serialized_len (seeds_text sj) ss = Inr sn" "sn \<le> SLEEP_SEED_BUDGET_BYTES" and
    kept: "fill_recall sj 0 [] 0 ?rank = Inr (kept, dr0)" and
    c: "shrink_context x sj (context_of rid ?a ss kept) dr0 = Inr (c, dr)" and
    tn: "serialized_len (context_text sj) c = Inr tn" and
    b: "b = \<lparr>ContextBudgetReport.anchor_bytes = of_nat an, seed_bytes = of_nat sn,
                  recalled_bytes = of_nat rn, total_bytes = of_nat tn,
                  included_seed_count = of_nat (length (seed_observations c)),
                  deferred_seed_count = of_nat deferred,
                  included_recall_count = of_nat (length (recalled_experiences c)),
                  dropped_recall_count = of_nat dr,
                  hard_limit_bytes = of_nat SLEEP_CONTEXT_HARD_LIMIT_BYTES,
                  model_budget = None\<rparr>"
    unfolding c_def b_def
    by (auto simp: build_context_def Let_def res_simps not_less split: if_splits prod.splits)
  note k = fill_recall_facts [OF kept] and sh = shrink_context_facts [OF c]
  from k(1) obtain new where new: "kept = new" "subseq new ?rank" "length new \<le> MAX_SLEEP_RECALL"
    "dr0 + length new = length ?rank" by auto
  from sh(1) obtain i where i: "i \<le> length kept"
    "c = (context_of rid ?a ss kept)\<lparr>recalled_experiences := take i kept,
             SleepContext.snapshot_hash := SleepContext.snapshot_hash c\<rparr>"
    "dr + i = dr0 + length kept" by (auto simp: context_of_def)
  have fields: "SleepContext.sleep_run_id c = rid" "SleepContext.high_water_revision c = hw"
    "seed_observations c = ss" "recalled_experiences c = take i kept"
    by (subst i(2), simp add: context_of_def sleep_anchors_def)+
  then show "SleepContext.sleep_run_id c = rid" "SleepContext.high_water_revision c = hw"
    "seed_observations c = ss" by simp_all
  have "subseq (take i new) ?rank"
    using new(2) by (meson subseq_order.trans prefix_imp_subseq take_is_prefix)
  then show "subseq (recalled_experiences c) ?rank" using fields new(1) by simp
  show "length (recalled_experiences c) \<le> MAX_SLEEP_RECALL" using fields new(1,3) by simp
  show "context_hash x sj c = Inr (SleepContext.snapshot_hash c)" by (rule sh(2))
  show "\<exists>n. serialized_len (context_text sj) c = Inr n \<and> n \<le> SLEEP_CONTEXT_HARD_LIMIT_BYTES \<and>
      ContextBudgetReport.total_bytes b = of_nat n" using sh(3) tn b by auto
  show "\<exists>n. serialized_len (seeds_text sj) ss = Inr n \<and> n \<le> SLEEP_SEED_BUDGET_BYTES \<and>
      ContextBudgetReport.seed_bytes b = of_nat n" using sn b by auto
  show "\<exists>n. serialized_len (anchors_text sj) ?a = Inr n \<and> n \<le> SLEEP_ANCHOR_BUDGET_BYTES \<and>
      ContextBudgetReport.anchor_bytes b = of_nat n" using an b by auto
  have "i + dr = length ?rank" using i new(1,4) by simp
  then have "(of_nat i + of_nat dr :: usize) = of_nat (length ?rank)"
    by (metis of_nat_add)
  then show "included_recall_count b + dropped_recall_count b = of_nat (length ?rank)"
    using b fields(4) i(1) by (simp add: min_absorb2)
qed

lemma sequence_by_id_get:
  assumes "in_step x s events" and "bt_get (sequence_by_id events) i = Some n"
  shows "\<exists>k < length events. ExperienceEvent.event_id (events ! k) = i \<and> n = of_nat k + 1"
proof -
  from assms(2) have "i \<in> ExperienceEvent.event_id ` set events"
    using sequences_keys [of "map ExperienceEvent.event_id events"]
    by (metis (no_types) image_set map_of_eq_None_iff option.distinct(1) sequence_by_id_def)
  then obtain k where k: "k < length events" "i = ExperienceEvent.event_id (events ! k)"
    by (auto simp: in_set_conv_nth)
  with sequences_get [OF in_step_facts(2) [OF assms(1)], of k] assms(2)
  show ?thesis by (auto simp: sequence_by_id_def)
qed

section \<open>The events of a run\<close>

lemma sleep_event_Inr:
  assumes "sleep_event co eid t1 t2 k v0 rid = Inr e"
  shows "v0 = Inr (payload e)" and "event_kind e = k" and "ExperienceEvent.event_id e = eid"
    and "ExperienceEvent.actor_id e = hekate_id co" and "verify_integrity (lib co) e = Inr True"
    and "\<exists>r. ExperienceEvent.subject e = Some r \<and>
      EntityRef.kind r \<in> {EntityKind.SleepRun, EntityKind.IntegrationCandidate}"
    and "causation_id e = None"
proof -
  from assms obtain v subj where v: "v0 = Inr v" and subj: "payload_subject (store_codec co) v rid = Inr subj"
    by (auto simp: sleep_event_def res_simps)
  define r where "r = (case case subj of Some p \<Rightarrow> p | None \<Rightarrow> (EntityKind.SleepRun, uuid rid) of
    (ek, u) \<Rightarrow> \<lparr>EntityRef.kind = ek, id = u\<rparr>)"
  from assms v subj have e: "new_with_id (lib co) t1 t2 eid (hekate_id co) k (Some r) v
      \<lparr>EventSource.source_type = ''sleep'', source_ref = Some (id_text (lib co) rid)\<rparr>
      None (Some (id_text (lib co) rid)) (Some 0x3F800000) = Inr e"
    by (auto simp: sleep_event_def res_simps r_def split: option.splits prod.splits)
  have "EntityRef.kind r \<in> {EntityKind.SleepRun, EntityKind.IntegrationCandidate}"
    using subj by (auto simp: r_def payload_subject_def res_simps
        split: option.splits if_splits json.splits sum.splits)
  with new_with_id_Inr [OF e] v show "v0 = Inr (payload e)" "event_kind e = k"
    "ExperienceEvent.event_id e = eid" "ExperienceEvent.actor_id e = hekate_id co"
    "verify_integrity (lib co) e = Inr True"
    "\<exists>r. ExperienceEvent.subject e = Some r \<and>
      EntityRef.kind r \<in> {EntityKind.SleepRun, EntityKind.IntegrationCandidate}"
    "causation_id e = None"
    by simp_all
qed

section \<open>Checked drafts\<close>

text \<open>What a candidate must be for the projector, given the events it may name.\<close>

definition candidate_good :: "ext \<Rightarrow> SleepContext \<Rightarrow> EventId set \<Rightarrow> IntegrationCandidate \<Rightarrow> bool" where
  "candidate_good x c allowed k \<longleftrightarrow>
     IntegrationCandidate.disposition k = NeedsValidation \<and>
     \<not> blank (IntegrationCandidate.content k) \<and> \<not> blank (IntegrationCandidate.rationale k) \<and>
     IntegrationCandidate.source_event_ids k \<noteq> [] \<and>
     length (IntegrationCandidate.source_event_ids k) \<le> MAX_CANDIDATE_SOURCES \<and>
     length (IntegrationCandidate.counterevidence_event_ids k) \<le> MAX_CANDIDATE_SOURCES \<and>
     IntegrationCandidate.confidence k \<le> 100 \<and>
     set (IntegrationCandidate.source_event_ids k) \<subseteq> allowed \<and>
     set (IntegrationCandidate.counterevidence_event_ids k) \<subseteq> allowed \<and>
     set (IntegrationCandidate.source_event_ids k) \<inter>
       set (IntegrationCandidate.counterevidence_event_ids k) = {} \<and>
     IntegrationCandidate.sleep_run_id k = SleepContext.sleep_run_id c \<and>
     IntegrationCandidate.as_of_revision k = SleepContext.high_water_revision c \<and>
     fingerprint_of_candidate x k = IntegrationCandidate.fingerprint k"

lemma length_dedup_by: "length (dedup_by P xs) \<le> length xs"
  by (induction P xs rule: dedup_by.induct) auto

lemma dedup_ids_facts: "length (dedup_ids ids) \<le> length ids" "set (dedup_ids ids) = set ids"
  using length_dedup_by [of _ "sort ids"] by (simp_all add: dedup_ids_def set_dedup_eq)

lemma check_draft_good:
  assumes "check_draft (context_event_ids c) d = Inr ()"
  shows "candidate_good x c (context_event_ids c) (candidate_of_draft x c i t d)"
  using assms dedup_ids_facts(1) [of "IntegrationCandidateDraft.source_event_ids d"]
    dedup_ids_facts(1) [of "IntegrationCandidateDraft.counterevidence_event_ids d"]
  by (auto simp: check_draft_def candidate_good_def candidate_of_draft_def Let_def
      fingerprint_of_candidate_def not_less split: if_splits)

abbreviation fingerprints :: "IntegrationCandidate list \<Rightarrow> string list" where
  "fingerprints \<equiv> map IntegrationCandidate.fingerprint"

lemma validate_drafts_good:
  assumes "validate_drafts x c s cid t ks ds = Inr ks'"
    and "\<forall>k \<in> set ks. candidate_good x c (context_event_ids c) k"
    and "distinct (fingerprints ks)"
    and "set (fingerprints ks) \<inter> set (fingerprints (bt_values (integration_candidates s))) = {}"
    and "map IntegrationCandidate.id ks = map cid [0..<length ks]"
    and "length ks + length ds \<le> m"
  shows "(\<forall>k \<in> set ks'. candidate_good x c (context_event_ids c) k) \<and> distinct (fingerprints ks') \<and>
    set (fingerprints ks') \<inter> set (fingerprints (bt_values (integration_candidates s))) = {} \<and>
    map IntegrationCandidate.id ks' = map cid [0..<length ks'] \<and> length ks' \<le> m"
  using assms
proof (induction ds arbitrary: ks)
  case (Cons d ds)
  from Cons.prems(1) obtain keep where
    chk: "check_draft (context_event_ids c) d = Inr ()" and
    keep: "check_revision_draft x c s d
       (dedup_ids (IntegrationCandidateDraft.source_event_ids d))
       (dedup_ids (IntegrationCandidateDraft.counterevidence_event_ids d)) = Inr keep"
    by (auto simp: res_simps)
  let ?k = "candidate_of_draft x c (cid (length ks)) (t (length ks)) d"
  let ?dup = "(\<exists>q \<in> set (bt_values (integration_candidates s)).
              IntegrationCandidate.fingerprint q = IntegrationCandidate.fingerprint ?k) \<or>
           (\<exists>q \<in> set ks. IntegrationCandidate.fingerprint q = IntegrationCandidate.fingerprint ?k)"
  show ?case
  proof (cases "keep \<and> \<not> ?dup")
    case True
    then have rest: "validate_drafts x c s cid t (ks @ [?k]) ds = Inr ks'"
      using Cons.prems(1) chk keep by (simp add: Let_def)
    have "IntegrationCandidate.id ?k = cid (length ks)" by (simp add: candidate_of_draft_def Let_def)
    then show ?thesis
      using True Cons.prems(2-6) check_draft_good [OF chk]
      by (intro Cons.IH [OF rest]) (auto simp: image_iff)
  next
    case False
    then have "validate_drafts x c s cid t ks ds = Inr ks'"
      using Cons.prems(1) chk keep by (auto simp: Let_def split: if_splits)
    from Cons.IH [OF this] Cons.prems(2-6) show ?thesis by simp
  qed
qed simp

lemma validate_deliberation_good:
  assumes "validate_deliberation x cid t d c s = Inr ks"
  shows "\<forall>k \<in> set ks. candidate_good x c (context_event_ids c) k"
    and "distinct (fingerprints ks)"
    and "set (fingerprints ks) \<inter> set (fingerprints (bt_values (integration_candidates s))) = {}"
    and "map IntegrationCandidate.id ks = map cid [0..<length ks]"
    and "length ks \<le> MAX_SLEEP_CANDIDATES"
proof -
  have len: "length (SleepDeliberation.candidates d) \<le> MAX_SLEEP_CANDIDATES"
    using assms by (auto simp: validate_deliberation_def deliberation_out_of_bounds_def split: if_splits)
  have run: "validate_drafts x c s cid t [] (SleepDeliberation.candidates d) = Inr ks"
    using assms by (auto simp: validate_deliberation_def split: if_splits)
  from validate_drafts_good [OF run, of MAX_SLEEP_CANDIDATES] len
  show "\<forall>k \<in> set ks. candidate_good x c (context_event_ids c) k" "distinct (fingerprints ks)"
    "set (fingerprints ks) \<inter> set (fingerprints (bt_values (integration_candidates s))) = {}"
    "map IntegrationCandidate.id ks = map cid [0..<length ks]" "length ks \<le> MAX_SLEEP_CANDIDATES"
    by simp_all
qed

section \<open>The projector\<close>

text \<open>The state with candidates and their events added.\<close>

definition with_candidates ::
  "CurrentState \<Rightarrow> EventId list \<Rightarrow> IntegrationCandidate list \<Rightarrow> CurrentState"
where
  "with_candidates s ids ks =
     s\<lparr>integration_candidates :=
         foldl (\<lambda>m k. bt_insert (IntegrationCandidate.id k) k m) (integration_candidates s) ks,
       CurrentState.revision := CurrentState.revision s + of_nat (length ks),
       applied_events := applied_events s @ ids\<rparr>"

lemma accept_candidate_step:
  assumes run: "bt_get (sleep_runs s) (SleepContext.sleep_run_id c) = Some r"
    "SleepRun.status r = SleepRunStatus.Running"
    "SleepRun.high_water_revision r = SleepContext.high_water_revision c"
    and good: "candidate_good x c (set (applied_events s)) k"
    and new: "IntegrationCandidate.fingerprint k \<notin> set (fingerprints (bt_values (integration_candidates s)))"
    and e: "event_kind e = IntegrationCandidateCreated" "de_integration_candidate x (payload e) = Inr k"
      "ExperienceEvent.event_id e \<notin> set (applied_events s)"
  shows "apply_event x s e = Inr (with_candidates s [ExperienceEvent.event_id e] [k])"
proof -
  have prov: "\<not> candidate_provenance_bad s k"
    using good by (auto simp: candidate_good_def candidate_provenance_bad_def)
  have fp: "\<not> (\<exists>d \<in> set (bt_values (integration_candidates s)).
      IntegrationCandidate.fingerprint d = IntegrationCandidate.fingerprint k)"
    using new by (metis image_eqI list.set_map)
  have fields: "IntegrationCandidate.sleep_run_id k = SleepContext.sleep_run_id c"
    "IntegrationCandidate.as_of_revision k = SleepRun.high_water_revision r"
    "fingerprint_of_candidate x k = IntegrationCandidate.fingerprint k"
    using good run(3) by (simp_all add: candidate_good_def)
  have same: "(if P then k\<lparr>IntegrationCandidate.as_of_revision := SleepRun.high_water_revision r\<rparr> else k) = k"
    for P using fields(2) by (cases k) simp
  have shape: "\<not> (IntegrationCandidate.disposition k \<noteq> NeedsValidation \<or>
         blank (IntegrationCandidate.content k) \<or>
         blank (IntegrationCandidate.rationale k) \<or>
         IntegrationCandidate.source_event_ids k = [] \<or>
         length (IntegrationCandidate.source_event_ids k) > MAX_CANDIDATE_SOURCES \<or>
         length (IntegrationCandidate.counterevidence_event_ids k) > MAX_CANDIDATE_SOURCES \<or>
         IntegrationCandidate.confidence k > 100)"
    using good by (simp add: candidate_good_def not_less)
  have "apply_candidate_created x s e =
      Inr (s\<lparr>integration_candidates := bt_insert (IntegrationCandidate.id k) k (integration_candidates s)\<rparr>)"
    using run(1,2) fields fp
    by (simp only: apply_candidate_created_def decode_def e(2) map_err.simps res_bind.simps shape prov
        if_False Let_def option.case same) simp
  then show ?thesis
    using e by (simp add: apply_event_def apply_kind_def with_candidates_def)
qed

text \<open>What \<open>serde\<close> writes it reads: candidates and runs of the coordinator.\<close>

definition sleep_serde :: "SleepCoordinator \<Rightarrow> bool" where
  "sleep_serde co \<longleftrightarrow>
     (\<forall>k v. candidate_to_value (texts co) k = Inr v \<longrightarrow> de_integration_candidate (lib co) v = Inr k) \<and>
     (\<forall>r v. sleep_run_to_value (texts co) r = Inr v \<longrightarrow> de_sleep_run (lib co) v = Inr r)"

lemma with_candidates_step:
  "with_candidates (with_candidates s [i] [k]) ids ks = with_candidates s (i # ids) (k # ks)"
  by (simp add: with_candidates_def)

lemma with_candidates_nil [simp]: "with_candidates s [] [] = s"
  by (simp add: with_candidates_def)

lemma candidate_good_mono:
  "candidate_good x c allowed k \<Longrightarrow> allowed \<subseteq> more_ids \<Longrightarrow> candidate_good x c more_ids k"
  by (auto simp: candidate_good_def)

lemma candidates_run:
  assumes "candidate_events co rid i ks = Inr es" and "sleep_serde co"
    and "bt_get (sleep_runs s) (SleepContext.sleep_run_id c) = Some r"
    and "SleepRun.status r = SleepRunStatus.Running"
    and "SleepRun.high_water_revision r = SleepContext.high_water_revision c"
    and "\<forall>k \<in> set ks. candidate_good (lib co) c (set (applied_events s)) k"
    and "distinct (fingerprints ks)"
    and "set (fingerprints ks) \<inter> set (fingerprints (bt_values (integration_candidates s))) = {}"
    and "distinct (map (candidate_event_id co) [i..<i + length ks])"
    and "set (map (candidate_event_id co) [i..<i + length ks]) \<inter> set (applied_events s) = {}"
  shows "apply_all (lib co) s es = Inr (with_candidates s (map ExperienceEvent.event_id es) ks) \<and>
    map ExperienceEvent.event_id es = map (candidate_event_id co) [i..<i + length ks] \<and>
    list_all (\<lambda>e. event_kind e = IntegrationCandidateCreated) es"
  using assms
proof (induction ks arbitrary: i es s)
  case (Cons k ks)
  from Cons.prems(1) obtain e es' where
    e: "sleep_event co (candidate_event_id co i) (wall_clock co (10 + 3 * i))
       (wall_clock co (11 + 3 * i)) IntegrationCandidateCreated
       (candidate_to_value (texts co) k) rid = Inr e" and
    es': "candidate_events co rid (Suc i) ks = Inr es'" and es: "es = e # es'"
    by (auto simp: res_simps)
  note f = sleep_event_Inr [OF e]
  have upt: "[i..<Suc (i + length ks)] = i # [Suc i..<Suc (i + length ks)]"
    by (simp add: upt_conv_Cons del: upt_Suc)
  let ?s = "with_candidates s [ExperienceEvent.event_id e] [k]"
  have step: "apply_event (lib co) s e = Inr ?s"
    using Cons.prems(2) f(1)
    by (intro accept_candidate_step [OF Cons.prems(3-5)])
      (use Cons.prems(6,8,10) f(2,3) in \<open>auto simp: sleep_serde_def upt simp del: upt_Suc\<close>)
  have new: "set (fingerprints ks) \<inter>
      set (fingerprints (bt_values (integration_candidates ?s))) = {}"
  proof -
    have "set (fingerprints (bt_values (integration_candidates ?s))) \<subseteq>
        insert (IntegrationCandidate.fingerprint k)
          (set (fingerprints (bt_values (integration_candidates s))))"
      using bt_values_insert [where m = "integration_candidates s"]
      by (fastforce simp: with_candidates_def)
    moreover have "IntegrationCandidate.fingerprint k \<notin> set (fingerprints ks)"
      "set (fingerprints ks) \<inter> set (fingerprints (bt_values (integration_candidates s))) = {}"
      using Cons.prems(7,8) by simp_all
    ultimately show ?thesis by blast
  qed
  have "apply_all (lib co) ?s es' = Inr (with_candidates ?s (map ExperienceEvent.event_id es') ks) \<and>
      map ExperienceEvent.event_id es' = map (candidate_event_id co) [Suc i..<Suc i + length ks] \<and>
      list_all (\<lambda>e. event_kind e = IntegrationCandidateCreated) es'"
    by (rule Cons.IH [OF es' Cons.prems(2) _ Cons.prems(4,5)])
      (use Cons.prems(3,6,7,9,10) new f(3) in
        \<open>auto simp: upt with_candidates_def simp del: upt_Suc intro: candidate_good_mono\<close>)
  then show ?case
    using step f(2,3) by (simp add: es upt with_candidates_step del: upt_Suc)
qed simp

text \<open>The state a completed run leaves.\<close>

definition slept_state ::
  "CurrentState \<Rightarrow> SleepRun \<Rightarrow> u64 \<Rightarrow> EventId list \<Rightarrow> EventId \<Rightarrow> IntegrationCandidate list \<Rightarrow>
   CurrentState"
where
  "slept_state s r after ids done_id ks =
     (with_candidates s ids ks)
       \<lparr>sleep_cursor := after, sleep_runs := bt_insert (SleepRun.id r) r (sleep_runs s),
        CurrentState.revision := CurrentState.revision s + of_nat (length ks) + 1,
        applied_events := applied_events s @ ids @ [done_id]\<rparr>"

definition completion_ids_new :: "SleepCoordinator \<Rightarrow> CurrentState \<Rightarrow> nat \<Rightarrow> bool" where
  "completion_ids_new co s n \<longleftrightarrow>
     distinct (map (candidate_event_id co) [0..<n] @ [done_event_id co]) \<and>
     set (map (candidate_event_id co) [0..<n] @ [done_event_id co]) \<inter> set (applied_events s) = {}"

lemma completion_accepted:
  assumes es: "completion_events co r (completed_run co r after (length ks) report) ks = Inr es"
    and serde: "sleep_serde co"
    and run: "bt_get (sleep_runs s) (SleepRun.id r) = Some r" "SleepRun.status r = SleepRunStatus.Running"
    and c: "SleepContext.sleep_run_id c = SleepRun.id r"
      "SleepContext.high_water_revision c = SleepRun.high_water_revision r"
      "context_event_ids c \<subseteq> set (applied_events s)"
    and ks: "validate_deliberation (lib co) cid t d c s = Inr ks"
    and cur: "SleepRun.cursor_before r \<le> after" "after \<le> SleepRun.high_water_revision r"
    and ids: "completion_ids_new co s (length ks)"
  shows "apply_all (lib co) s es =
    Inr (slept_state s (completed_run co r after (length ks) report) after
      (map (candidate_event_id co) [0..<length ks]) (done_event_id co) ks)"
proof -
  let ?r = "completed_run co r after (length ks) report"
  from es obtain cs e where cs: "candidate_events co (SleepRun.id r) 0 ks = Inr cs" and
    e: "sleep_event co (done_event_id co) (wall_clock co 7) (wall_clock co 8)
       SleepRunCompleted (sleep_run_to_value (texts co) ?r) (SleepRun.id r) = Inr e" and
    es: "es = cs @ [e]"
    by (auto simp: completion_events_def res_simps)
  note good = validate_deliberation_good [OF ks]
  note f = sleep_event_Inr [OF e]
  have cand: "apply_all (lib co) s cs = Inr (with_candidates s (map ExperienceEvent.event_id cs) ks)"
    "map ExperienceEvent.event_id cs = map (candidate_event_id co) [0..<length ks]"
    using candidates_run [OF cs serde, of s c r] run c good(1-3) ids
    by (auto simp: completion_ids_new_def intro: candidate_good_mono)
  let ?s = "with_candidates s (map (candidate_event_id co) [0..<length ks]) ks"
  have fields: "SleepRun.id ?r = SleepRun.id r" "SleepRun.cursor_after ?r = Some after"
    "sleep_run_end_ok ?s SleepRunCompleted r ?r" "bt_get (sleep_runs ?s) (SleepRun.id r) = Some r"
    using run cur by (simp_all add: completed_run_def sleep_run_end_ok_def with_candidates_def)
  have de: "decode (de_sleep_run (lib co)) e = Inr ?r"
    using serde f(1) by (simp add: sleep_serde_def decode_def)
  have "apply_sleep_run (lib co) ?s e =
      Inr (?s\<lparr>sleep_cursor := after, sleep_runs := bt_insert (SleepRun.id ?r) ?r (sleep_runs ?s)\<rparr>)"
    using de fields f(2) sleep_run_end_Inr [of e "lib co" ?s] by simp
  then have "apply_event (lib co) ?s e =
      Inr (slept_state s ?r after (map (candidate_event_id co) [0..<length ks]) (done_event_id co) ks)"
    using f(2,3) ids
    by (simp add: apply_event_def apply_kind_def slept_state_def with_candidates_def
        completion_ids_new_def)
  with cand show ?thesis by (simp add: es ledger.run_append)
qed

end
