(* ===== verification/SleepCycle.thy ===== *)
theory SleepCycle
  imports SleepAcceptance
begin

text \<open>
  A sleep cycle among other processes. They may append to the ledger and take or release the
  lease between any two accesses of the cycle; the lemmas follow a cycle that completes a run
  from access to access and show that the ledger did not move under it.
\<close>

section \<open>The surroundings\<close>

definition sleep_kinds :: "EventKind set" where
  "sleep_kinds = {SleepRunStarted, SleepRunCompleted, SleepRunInterrupted, SleepRunFailed,
     IntegrationCandidateCreated}"

definition sleep_codec :: "SleepCoordinator \<Rightarrow> bool" where
  "sleep_codec co \<longleftrightarrow>
     (\<forall>e. event_kind e \<in> sleep_kinds \<and> causation_id e = None \<and>
        (\<exists>r. ExperienceEvent.subject e = Some r \<and>
           EntityRef.kind r \<in> {EntityKind.SleepRun, EntityKind.IntegrationCandidate}) \<longrightarrow>
        codec_reads_event (lib co) (store_codec co) e) \<and>
     (\<forall>s. codec_reads_state (store_codec co) s)"

lemma act_case_preparation:
  "(case err of PreparationError.Configuration m \<Rightarrow> f m | Budget b \<Rightarrow> g b) w = z \<longleftrightarrow>
     (\<exists>m. err = PreparationError.Configuration m \<and> f m w = z) \<or> (\<exists>b. err = Budget b \<and> g b w = z)"
  by (cases err) simp_all

lemma act_case_prepared:
  "(case p of Finished res \<Rightarrow> f res | Prepared.Ready m r res s w0 built \<Rightarrow> g m r res s w0 built) w = z \<longleftrightarrow>
     (\<exists>res. p = Finished res \<and> f res w = z) \<or>
     (\<exists>m r res s w0 built. p = Prepared.Ready m r res s w0 built \<and> g m r res s w0 built w = z)"
  by (cases p) simp_all

lemmas act_simps =
  act_bind_Inr act_case_sum act_case_option act_case_preparation act_case_prepared

section \<open>Accesses\<close>

lemma load_step:
  assumes "others_append co" and "ledger_at co w es s" and "load co w = (Inr s', w')"
  shows "\<exists>es'. prefix es es' \<and> ledger_at co w' es' s' \<and> fst w' = Suc (fst w)"
proof -
  from window_step [OF assms(1,2) assms(3) [unfolded load_def]] obtain es' s1 where
    "prefix es es'" "ledger_at co w' es' s1" "fst w' = Suc (fst w)"
    "load_state (lib co) (store_codec co) (snd w') = Inr s'" by (auto simp: res_simps)
  moreover from this have "s1 = s'" by (simp add: ledger_at_def db_holds_def)
  ultimately show ?thesis by blast
qed

lemma leased_step:
  assumes "others_append co" and "ledger_at co w es s" and "leased co w = (Inr b, w')"
  shows "\<exists>es' s'. prefix es es' \<and> ledger_at co w' es' s' \<and> fst w' = Suc (fst w)"
  using window_step [OF assms(1,2) assms(3) [unfolded leased_def]] by blast

lemma load_ledger_step:
  assumes "others_append co" and "ledger_at co w es s" and "load_ledger co w = (Inr es', w')"
  shows "\<exists>s'. prefix es es' \<and> ledger_at co w' es' s' \<and> fst w' = Suc (fst w)"
proof -
  from window_step [OF assms(1,2) assms(3) [unfolded load_ledger_def]] obtain es1 s1 where
    "prefix es es1" "ledger_at co w' es1 s1" "fst w' = Suc (fst w)"
    "load_events (lib co) (store_codec co) (snd w') = Inr es'" by (auto simp: res_simps)
  moreover from this have "es1 = es'" by (simp add: ledger_at_def db_holds_def)
  ultimately show ?thesis by blast
qed

text \<open>Not disturbed: the state that was loaded is the one compared with.\<close>

lemma undisturbed_step:
  assumes "others_append co" and "ledger_at co w es s1" and "disturbed co s latest w = (Inr False, w')"
  shows "CurrentState.revision latest = CurrentState.revision s \<and>
    (\<exists>es' s'. prefix es es' \<and> ledger_at co w' es' s' \<and> fst w' = Suc (fst w))"
  using assms(3) leased_step [OF assms(1,2)] by (auto simp: disturbed_def split: if_splits)

text \<open>A batch is committed to the very ledger its base revision stands for.\<close>

lemma record_batch_step:
  assumes rely: "others_append co" and codec: "sleep_codec co"
    and at: "ledger_at co w es s1" and base: "in_step (lib co) s esb" and pre: "prefix esb es"
    and rec: "record_sleep co evs (Some (CurrentState.revision s)) tr w = (Inr (Inr s'), w')"
    and evs: "\<forall>e \<in> set evs. event_kind e \<in> sleep_kinds \<and> causation_id e = None \<and>
        (\<exists>r. ExperienceEvent.subject e = Some r \<and>
           EntityRef.kind r \<in> {EntityKind.SleepRun, EntityKind.IntegrationCandidate})"
    and len: "length evs < 2 ^ 32" and n: "fst w < 2 ^ 20"
  shows "es = esb \<and> apply_all (lib co) s evs = Inr s' \<and> ledger_at co w' (esb @ evs) s' \<and>
    fst w' = Suc (fst w)"
  using codec evs by (intro batch_step [OF rely at base pre rec]) (use len n in \<open>auto simp: sleep_codec_def\<close>)

section \<open>Preparing\<close>

text \<open>A run that goes to the model: open in the state, with a context of that state's ledger.\<close>

definition ready_run ::
  "SleepCoordinator \<Rightarrow> SleepModel \<Rightarrow> SleepRun \<Rightarrow> CurrentState \<Rightarrow> SeedWindow \<Rightarrow> BuiltSleepContext \<Rightarrow>
   bool"
where
  "ready_run co m r s w built \<longleftrightarrow>
     model co = Some m \<and> bt_get (sleep_runs s) (SleepRun.id r) = Some r \<and>
     SleepRun.status r = SleepRunStatus.Running \<and>
     SleepContext.sleep_run_id (BuiltSleepContext.context built) = SleepRun.id r \<and>
     SleepContext.high_water_revision (BuiltSleepContext.context built) = SleepRun.high_water_revision r \<and>
     context_event_ids (BuiltSleepContext.context built) \<subseteq> set (applied_events s) \<and>
     is_some_and (SeedWindow.cursor_after w) (\<lambda>after. after \<le> SleepRun.high_water_revision r)"

lemma context_ids:
  assumes step: "in_step x s events"
    and built: "build_context x sj hid uid rid hw ss by_seed events s0 deferred = Inr built"
    and ss: "SleepSeed.event_id ` set ss \<subseteq> ExperienceEvent.event_id ` set events"
  shows "context_event_ids (BuiltSleepContext.context built) \<subseteq> set (applied_events s)"
proof -
  note b = build_context_facts [OF built]
  have "RecalledItem.source_event_id r \<in> ExperienceEvent.event_id ` set events"
    if "r \<in> set (recalled_experiences (BuiltSleepContext.context built))" for r
  proof -
    from that b(4) have "r \<in> set (bt_values (merged_recall hw ss by_seed events))"
      by (metis subseq_order.trans subseq_singleton_left ranked_recall_set)
    then obtain n where "bt_get (sequence_by_id events) (RecalledItem.source_event_id r) = Some n"
      using merged_recall_sound [of events ss hw by_seed]
      by (cases "bt_get (sequence_by_id events) (RecalledItem.source_event_id r)")
        (fastforce simp: recall_sound_def bt_values_def recall_allowed_def)+
    from sequence_by_id_get [OF step this] show ?thesis by (metis image_eqI nth_mem)
  qed
  then show ?thesis
    using ss b(3) in_step_facts(1) [OF step] by (auto simp: context_event_ids_def)
qed

lemma record_started_step:
  assumes rely: "others_append co" and codec: "sleep_codec co" and serde: "sleep_serde co"
    and at: "ledger_at co w es s1" and base: "in_step (lib co) s esb" and pre: "prefix esb es"
    and n: "fst w < 2 ^ 10"
    and run: "record_started_run co r s w = (Inr (Some s'), w')"
  shows "es = esb \<and> (\<exists>e. ledger_at co w' (esb @ [e]) s') \<and> fst w' = fst w + 3 \<and>
    sleep_run_start_ok s r \<and> bt_get (sleep_runs s') (SleepRun.id r) = Some r \<and>
    set (applied_events s) \<subseteq> set (applied_events s')"
proof -
  have lost: "lost_race co v \<noteq> (Inr (Some t), v')" for v t v'
    by (auto simp: lost_race_def act_simps split: if_splits)
  from run obtain w1 cur w2 e w3 where
    w1: "leased co w = (Inr False, w1)" and w2: "load co w1 = (Inr cur, w2)"
    and rev: "CurrentState.revision cur = CurrentState.revision s"
    and e: "sleep_event co (start_event_id co) (wall_clock co 1) (wall_clock co 2)
           SleepRunStarted (sleep_run_to_value (texts co) r) (SleepRun.id r) = Inr e"
    and rec: "record_sleep co [e] (Some (CurrentState.revision s)) None w2 = (Inr (Inr s'), w')"
    by (auto simp: record_started_run_def act_simps lost split: if_splits)
  from leased_step [OF rely at w1] obtain es1 t1 where
    es1: "prefix es es1" "ledger_at co w1 es1 t1" "fst w1 = Suc (fst w)" by blast
  from load_step [OF rely es1(2) w2] obtain es2 where
    es2: "prefix es1 es2" "ledger_at co w2 es2 cur" "fst w2 = Suc (fst w1)" by blast
  have chain: "prefix esb es2" using pre es1(1) es2(1) by (meson prefix_order.trans)
  have "es2 = esb" by (rule in_step_unique(1) [OF base ledger_at_step [OF es2(2)] chain rev])
  then have same: "es = esb"
    using pre es1(1) es2(1) by (meson prefix_order.antisym prefix_order.trans)
  note f = sleep_event_Inr [OF e]
  from record_batch_step [OF rely codec es2(2) base chain rec] f n es1(3) es2(3)
  have done_step: "apply_all (lib co) s [e] = Inr s'" "ledger_at co w' (esb @ [e]) s'"
    "fst w' = Suc (fst w2)" by (auto simp: sleep_kinds_def)
  from done_step(1) obtain t where t: "apply_kind (lib co) s e = Inr t"
    and s': "s' = t\<lparr>CurrentState.revision := CurrentState.revision t + 1,
      applied_events := applied_events t @ [ExperienceEvent.event_id e]\<rparr>"
    by (auto simp: apply_event_def res_simps split: if_splits)
  have "decode (de_sleep_run (lib co)) e = Inr r"
    using serde f(1) by (simp add: sleep_serde_def decode_def)
  moreover have "apply_sleep_run (lib co) s e = Inr t" using t f(2) by (simp add: apply_kind_def)
  ultimately have "sleep_run_start_ok s r" "t = s\<lparr>sleep_runs := bt_insert (SleepRun.id r) r (sleep_runs s)\<rparr>"
    using sleep_run_start_Inr [OF f(2)] by auto
  with s' done_step same es1(3) es2(3) show ?thesis by auto
qed

lemma take_seeds_subset: "set (take_seeds sj ss ds) \<subseteq> set ss \<union> set ds"
  using take_seeds_prefix [of ss ds sj] by (metis Un_upper1 set_append)

lemma window_seed:
  assumes "d \<in> set (seeds (seed_window x sj events cur hw))"
  shows "d \<in> set (readable x events cur hw (sequenced events))"
  using assms take_seeds_subset [of sj "[]"] by (auto simp: seed_window_eq Let_def)

lemma finished_Inr [simp]:
  "finished a w = (Inr p, w') \<longleftrightarrow> (\<exists>res. a w = (Inr res, w') \<and> p = Finished res)"
  by (auto simp: finished_def act_bind_Inr)

lemma start_and_fail_finished [simp]:
  "start_and_fail co r why s report w \<noteq> (Inr (Prepared.Ready m r' res s' w0 built), w')"
  by (auto simp: start_and_fail_def act_simps Let_def)

lemma start_run_step:
  assumes rely: "others_append co" and codec: "sleep_codec co" and serde: "sleep_serde co"
    and at: "ledger_at co w events s1" and base: "in_step (lib co) s esb" and pre: "prefix esb events"
    and n: "fst w < 2 ^ 10"
    and run: "start_run co s events w = (Inr (Prepared.Ready m r res s' w0 built), w')"
  shows "\<not> res \<and> events = esb \<and> (\<exists>e. ledger_at co w' (esb @ [e]) s') \<and> fst w' = fst w + 3 \<and>
    ready_run co m r s' w0 built \<and> sleep_run_start_ok s r \<and>
    is_some_and (SeedWindow.cursor_after w0) (\<lambda>after. sleep_cursor s < after)"
proof -
  let ?hw = "CurrentState.revision s"
  let ?w = "seed_window (lib co) (texts co) events (sleep_cursor s) ?hw"
  let ?recalled = "collect_recall (recall co) ?hw (seeds ?w) (SeedWindow.event_ids ?w) events s"
  from run have ne: "seeds ?w \<noteq> []" by (auto simp: start_run_def Let_def)
  from run ne obtain m' where m': "model co = Some m'"
    by (cases "model co") (auto simp: start_run_def Let_def)
  obtain p where plan: "plan_new (length (seeds ?w)) (SeedWindow.deferred_seed_count ?w)
       (prefix_plan co ?w ?recalled events s) (check_sleep_budget m') = Inr p"
  proof (cases "plan_new (length (seeds ?w)) (SeedWindow.deferred_seed_count ?w)
       (prefix_plan co ?w ?recalled events s) (check_sleep_budget m')")
    case (Inl err)
    with run ne m' show ?thesis by (cases err) (simp_all add: start_run_def Let_def)
  qed
  from run ne m' plan have m: "m = m'" and
    started: "record_started_run co r s w = (Inr (Some s'), w')" and
    r: "r = attempt_run co s ?w p" and res: "\<not> res" and
    w0: "SeedWindow.cursor_after w0 = last_sequence (seed_observations (SleepBatchPlan.context p))" and
    built: "BuiltSleepContext.context built = SleepBatchPlan.context p"
    by (auto simp: start_run_def Let_def act_simps)
  have st: "events = esb" "\<exists>e. ledger_at co w' (esb @ [e]) s'" "fst w' = fst w + 3"
    "sleep_run_start_ok s r" "bt_get (sleep_runs s') (SleepRun.id r) = Some r"
    "set (applied_events s) \<subseteq> set (applied_events s')"
    using record_started_step [OF rely codec serde at base pre n started] by auto
  have step: "in_step (lib co) s events" using base st(1) by simp
  from plan obtain k q b where k: "0 < k" "k \<le> length (seeds ?w)"
    and q: "prefix_plan co ?w ?recalled events s k (length (seeds ?w) + SeedWindow.deferred_seed_count ?w - k) = Inr q"
    and p: "p = with_report q b"
    unfolding plan_new_Inr prefix_fits_def by metis
  from q obtain bq where bq: "build_context (lib co) (texts co) (hekate_id co) (user_id co) (fresh_run co)
      ?hw (take k (seeds ?w)) ?recalled events s
      (length (seeds ?w) + SeedWindow.deferred_seed_count ?w - k) = Inr bq"
    and c: "SleepBatchPlan.context p = BuiltSleepContext.context bq"
    by (auto simp: prefix_plan_def p with_report_def split: sum.splits)
  note b = build_context_facts [OF bq]
  have fields: "SleepRun.id r = fresh_run co" "SleepRun.status r = SleepRunStatus.Running"
    "SleepRun.high_water_revision r = ?hw"
    by (simp_all add: r attempt_run_def new_run_def make_running_run_def Let_def)
  have readable: "set (take k (seeds ?w)) \<subseteq>
      set (readable (lib co) events (sleep_cursor s) ?hw (sequenced events))"
    using window_seed set_take_subset by fast
  then have ids: "SleepSeed.event_id ` set (take k (seeds ?w)) \<subseteq> ExperienceEvent.event_id ` set events"
    using readable_seed by blast
  have "context_event_ids (BuiltSleepContext.context bq) \<subseteq> set (applied_events s)"
    by (rule context_ids [OF step bq ids])
  with st(6) have ctx: "context_event_ids (BuiltSleepContext.context bq) \<subseteq> set (applied_events s')"
    by blast
  have some: "take k (seeds ?w) \<noteq> []" using k by auto
  then have "last (take k (seeds ?w)) \<in> set (readable (lib co) events (sleep_cursor s) ?hw (sequenced events))"
    using readable last_in_set by blast
  then have "sleep_cursor s < SleepSeed.sequence (last (take k (seeds ?w))) \<and>
      SleepSeed.sequence (last (take k (seeds ?w))) \<le> ?hw"
    using readable_sorted(2) [OF step] by fastforce
  then have "\<exists>after. SeedWindow.cursor_after w0 = Some after \<and> sleep_cursor s < after \<and> after \<le> ?hw"
    using w0 c b(3) some by (simp add: last_sequence_def)
  then show ?thesis
    using res st ctx m m' fields built c b(1,2) by (auto simp: ready_run_def)
qed

lemma open_run_get:
  assumes "replay x es = Inr s" and "open_run s = Some r"
  shows "bt_get (sleep_runs s) (SleepRun.id r) = Some r" and "SleepRun.status r = SleepRunStatus.Running"
proof -
  from assms(2) have r: "r \<in> set (bt_values (sleep_runs s))" "SleepRun.status r = SleepRunStatus.Running"
    by (auto simp: open_run_def find_Some_iff)
  with sleep_inv_replay [OF assms(1)] show "bt_get (sleep_runs s) (SleepRun.id r) = Some r"
    "SleepRun.status r = SleepRunStatus.Running"
    by (auto simp: sleep_inv_def bt_values_get)
qed

lemma resume_run_step:
  assumes rely: "others_append co"
    and at: "ledger_at co w events s1" and base: "in_step (lib co) s esb" and pre: "prefix esb events"
    and open_r: "open_run s = Some r0"
    and run: "resume_run co r0 s events w = (Inr (Prepared.Ready m r res s' w0 built), w')"
  shows "res \<and> r = r0 \<and> s' = s \<and> events = esb \<and>
    (\<exists>es' t. prefix esb es' \<and> ledger_at co w' es' t) \<and> fst w' = fst w + 2 \<and>
    ready_run co m r s w0 built"
proof -
  let ?w = "seed_window_from_run (lib co) events r0"
  let ?hw = "SleepRun.high_water_revision r0"
  let ?recalled = "collect_recall (recall co) ?hw (seeds ?w) (seed_event_ids r0) events s"
  from run have sound: "invalid_count ?w = 0" "seeds ?w \<noteq> []"
    by (auto simp: resume_run_def Let_def split: if_splits)
  with run obtain m' where m: "model co = Some m'"
    by (cases "model co") (auto simp: resume_run_def Let_def)
  obtain bq where bq: "build_context (lib co) (texts co) (hekate_id co) (user_id co) (SleepRun.id r0) ?hw
      (seeds ?w) ?recalled events s (SeedWindow.deferred_seed_count ?w) = Inr bq"
    using run sound m by (auto simp: resume_run_def Let_def split: sum.splits)
  from run sound m bq obtain latest w1 b where w1: "load co w = (Inr latest, w1)"
    and calm: "disturbed co s latest w1 = (Inr False, w')"
    and rest: "m = m'" "r = r0" "res" "s' = s" "w0 = ?w"
      "built = bq\<lparr>budget_report := budgeted (budget_report bq) b\<rparr>"
    by (auto simp: resume_run_def Let_def act_bind_Inr split: if_splits sum.splits PreparationError.splits)
  from load_step [OF rely at w1] obtain es1 where
    es1: "prefix events es1" "ledger_at co w1 es1 latest" "fst w1 = Suc (fst w)" by blast
  from undisturbed_step [OF rely es1(2) calm] obtain es2 s2 where
    rev: "CurrentState.revision latest = CurrentState.revision s" and
    es2: "prefix es1 es2" "ledger_at co w' es2 s2" "fst w' = Suc (fst w1)" by blast
  have "prefix esb es1" using pre es1(1) by (rule prefix_order.trans)
  from in_step_unique [OF base ledger_at_step [OF es1(2)] this rev] have "es1 = esb" "latest = s" by simp_all
  with pre es1(1) have same: "events = esb" by (auto intro: prefix_order.antisym)
  note win = window_from_run_facts [OF refl sound]
  note b = build_context_facts [OF bq]
  have "context_event_ids (BuiltSleepContext.context bq) \<subseteq> set (applied_events s)"
    using context_ids [OF _ bq win(2)] base same by blast
  then have "ready_run co m r s w0 built"
    using rest m b(1,2) win(1) open_run_get [OF _ open_r] base
    by (auto simp: ready_run_def in_step_def)
  then show ?thesis using rest same es1 es2 \<open>es1 = esb\<close> by auto
qed

section \<open>Completing\<close>

abbreviation completes :: "SleepOnceResult \<Rightarrow> bool" where
  "completes res \<equiv> SleepOnceResult.status res \<in> {SleepOnceStatus.Completed, RunningResumed}"

lemma end_run_status:
  "end_run co k st ended s w = (Inr res, w') \<Longrightarrow> SleepOnceResult.status res = st"
  by (auto simp: end_run_def act_simps result_from_run_def)

lemma ended_status:
  "fail_run co r why s report w = (Inr res, w') \<Longrightarrow> SleepOnceResult.status res = SleepOnceStatus.Failed"
  "interrupt_run co r s report w = (Inr res, w') \<Longrightarrow>
     SleepOnceResult.status res = SleepOnceStatus.Interrupted"
  by (auto simp: fail_run_def interrupt_run_def dest: end_run_status)

lemma candidate_events_shape:
  assumes "candidate_events co rid i ks = Inr es"
  shows "length es = length ks \<and>
    (\<forall>e \<in> set es. event_kind e = IntegrationCandidateCreated \<and> causation_id e = None \<and>
       (\<exists>r. ExperienceEvent.subject e = Some r \<and>
          EntityRef.kind r \<in> {EntityKind.SleepRun, EntityKind.IntegrationCandidate}))"
  using assms
proof (induction ks arbitrary: i es)
  case (Cons k ks)
  from Cons.prems obtain e es' where
    e: "sleep_event co (candidate_event_id co i) (wall_clock co (10 + 3 * i))
       (wall_clock co (11 + 3 * i)) IntegrationCandidateCreated
       (candidate_to_value (texts co) k) rid = Inr e" and
    es': "candidate_events co rid (Suc i) ks = Inr es'" and es: "es = e # es'"
    by (auto simp: res_simps)
  from Cons.IH [OF es'] sleep_event_Inr [OF e] show ?case unfolding es by simp
qed simp

lemma completion_events_shape:
  assumes "completion_events co r r' ks = Inr es"
  shows "length es = Suc (length ks) \<and>
    (\<forall>e \<in> set es. event_kind e \<in> sleep_kinds \<and> causation_id e = None \<and>
       (\<exists>r. ExperienceEvent.subject e = Some r \<and>
          EntityRef.kind r \<in> {EntityKind.SleepRun, EntityKind.IntegrationCandidate}))"
proof -
  from assms obtain cs e where cs: "candidate_events co (SleepRun.id r) 0 ks = Inr cs" and
    e: "sleep_event co (done_event_id co) (wall_clock co 7) (wall_clock co 8)
       SleepRunCompleted (sleep_run_to_value (texts co) r') (SleepRun.id r) = Inr e" and
    es: "es = cs @ [e]"
    by (auto simp: completion_events_def res_simps)
  from candidate_events_shape [OF cs] sleep_event_Inr [OF e] show ?thesis
    unfolding es by (auto simp: sleep_kinds_def)
qed

lemma completion_cursor:
  assumes serde: "sleep_serde co" and es: "completion_events co r r' ks = Inr es"
    and after: "SleepRun.cursor_after r' = Some after" and run: "apply_all (lib co) s es = Inr s'"
  shows "sleep_cursor s' = after \<and> bt_get (sleep_runs s') (SleepRun.id r') = Some r'"
proof -
  from es obtain cs e where
    e: "sleep_event co (done_event_id co) (wall_clock co 7) (wall_clock co 8)
       SleepRunCompleted (sleep_run_to_value (texts co) r') (SleepRun.id r) = Inr e" and
    cs: "es = cs @ [e]"
    by (auto simp: completion_events_def res_simps)
  note f = sleep_event_Inr [OF e]
  have "decode (de_sleep_run (lib co)) e = Inr r'"
    using serde f(1) by (simp add: sleep_serde_def decode_def)
  moreover from run obtain t where "apply_event (lib co) t e = Inr s'"
    by (auto simp: cs ledger.run_append res_simps)
  ultimately show ?thesis
    using f(2) after sleep_run_end_Inr [of e "lib co" t]
    by (auto simp: apply_event_def apply_kind_def res_simps split: if_splits)
qed

text \<open>
  A run completed on its own ledger \<open>es\<close>: the model's answer to a context of that ledger was
  checked against the state of that ledger, and the events follow it immediately.
\<close>

definition completed_on ::
  "SleepCoordinator \<Rightarrow> ExperienceEvent list \<Rightarrow> CurrentState \<Rightarrow> SleepRun \<Rightarrow> SleepDeliberation \<Rightarrow>
   IntegrationCandidate list \<Rightarrow> ExperienceEvent list \<Rightarrow> CurrentState \<Rightarrow> bool"
where
  "completed_on co es s r d ks evs s' \<longleftrightarrow>
     replay (lib co) es = Inr s \<and> bt_get (sleep_runs s) (SleepRun.id r) = Some r \<and>
     SleepRun.status r = SleepRunStatus.Running \<and>
     (\<exists>m c after report. model co = Some m \<and> deliberate_sleep m c = Inr d \<and>
        SleepContext.sleep_run_id c = SleepRun.id r \<and>
        SleepContext.high_water_revision c = SleepRun.high_water_revision r \<and>
        context_event_ids c \<subseteq> set (applied_events s) \<and>
        validate_deliberation (lib co) (fresh_candidate co) (\<lambda>i. wall_clock co (9 + 3 * i)) d c s = Inr ks \<and>
        \<not> is_some_and (SleepDeliberation.trace d) (trace_mismatch c) \<and>
        completion_events co r (completed_run co r after (length ks) report) ks = Inr evs \<and>
        after \<le> SleepRun.high_water_revision r) \<and>
     apply_all (lib co) s evs = Inr s'"

lemma deliberate_step:
  assumes rely: "others_append co" and codec: "sleep_codec co" and serde: "sleep_serde co"
    and at: "ledger_at co w es1 t" and base: "in_step (lib co) s esb" and pre: "prefix esb es1"
    and n: "fst w < 2 ^ 10" and ready: "ready_run co m r s w0 built"
    and run: "deliberate co m r res s w0 built w = (Inr result, w')" and ok: "completes result"
  shows "\<exists>d ks evs s'. completed_on co esb s r d ks evs s' \<and> ledger_at co w' (esb @ evs) s' \<and>
    SleepOnceResult.status result = (if res then RunningResumed else Completed) \<and>
    SleepOnceResult.cursor_after result = Some (sleep_cursor s')"
proof -
  let ?c = "BuiltSleepContext.context built"
  from run ok obtain latest0 wa wb d latest wc wd where
    wa: "load co w = (Inr latest0, wa)" and wb: "disturbed co s latest0 wa = (Inr False, wb)"
    and d: "deliberate_sleep m ?c = Inr d"
    and wc: "load co wb = (Inr latest, wc)" and wd: "disturbed co s latest wc = (Inr False, wd)"
    and judge: "judge_deliberation co r res latest w0 built d wd = (Inr result, w')"
    by (auto simp: deliberate_def Let_def act_simps dest: ended_status split: if_splits)
  from load_step [OF rely at wa] obtain ea where
    ea: "prefix es1 ea" "ledger_at co wa ea latest0" "fst wa = Suc (fst w)" by blast
  from undisturbed_step [OF rely ea(2) wb] obtain eb tb where
    eb: "prefix ea eb" "ledger_at co wb eb tb" "fst wb = Suc (fst wa)" by blast
  from load_step [OF rely eb(2) wc] obtain ec where
    ec: "prefix eb ec" "ledger_at co wc ec latest" "fst wc = Suc (fst wb)" by blast
  from undisturbed_step [OF rely ec(2) wd] obtain ed td where
    rev: "CurrentState.revision latest = CurrentState.revision s" and
    ed: "prefix ec ed" "ledger_at co wd ed td" "fst wd = Suc (fst wc)" by blast
  have "prefix esb ec" using pre ea(1) eb(1) ec(1) by (meson prefix_order.trans)
  from in_step_unique [OF base ledger_at_step [OF ec(2)] this rev] have
    same: "ec = esb" "latest = s" by simp_all
  from judge ok obtain ks where
    ks: "validate_deliberation (lib co) (fresh_candidate co) (\<lambda>i. wall_clock co (9 + 3 * i)) d ?c s = Inr ks"
    and tr: "\<not> is_some_and (SleepDeliberation.trace d) (trace_mismatch ?c)"
    and compl: "complete_run co r res s w0 (budget_report built) d ks wd = (Inr result, w')"
    using same(2) by (auto simp: judge_deliberation_def Let_def act_simps dest: ended_status split: if_splits)
  obtain after where after: "SeedWindow.cursor_after w0 = Some after" "after \<le> SleepRun.high_water_revision r"
    using ready by (auto simp: ready_run_def is_some_and_iff)
  let ?r = "completed_run co r after (length ks) (budget_report built)"
  from compl ok after obtain evs s' where evs: "completion_events co r ?r ks = Inr evs"
    and rec: "record_sleep co evs (Some (CurrentState.revision s)) (SleepDeliberation.trace d) wd =
      (Inr (Inr s'), w')"
    and st: "result = result_from_run (unwrap_or ?r (bt_get (sleep_runs s') (SleepRun.id r)))
        (if res then RunningResumed else Completed) res"
    by (auto simp: complete_run_def Let_def act_simps result_from_run_def dest: ended_status
        split: if_splits)
  note shape = completion_events_shape [OF evs]
  have len: "length evs < 2 ^ 32"
    using shape validate_deliberation_good(5) [OF ks] by (simp add: MAX_SLEEP_CANDIDATES_def)
  have "prefix esb ed" using same(1) ed(1) by simp
  from record_batch_step [OF rely codec ed(2) base this rec _ len] shape n ea(3) eb(3) ec(3) ed(3)
  have "apply_all (lib co) s evs = Inr s'" "ledger_at co w' (esb @ evs) s'" by auto
  moreover have "completed_on co esb s r d ks evs s'"
    unfolding completed_on_def
    using ready base calculation(1) ks tr evs after d
    by (intro conjI exI [of _ m] exI [of _ ?c] exI [of _ after] exI [of _ "budget_report built"])
      (simp_all add: ready_run_def in_step_def)
  moreover have "SleepRun.cursor_after ?r = Some after" "SleepRun.id ?r = SleepRun.id r"
    by (simp_all add: completed_run_def)
  ultimately show ?thesis
    using st completion_cursor [OF serde evs, of after s s'] by (auto simp: result_from_run_def)
qed

text \<open>The cycle from its first access to its last.\<close>

lemma resumed_finished:
  assumes "resume_run co r s events w = (Inr (Finished result), w')"
  shows "\<not> completes result"
  using assms
  by (auto simp: resume_run_def Let_def act_simps dest!: ended_status
      split: if_splits option.splits sum.splits)

lemma start_and_fail_status:
  "start_and_fail co r why s report w = (Inr (Finished result), w') \<Longrightarrow> \<not> completes result"
  by (auto simp: start_and_fail_def act_simps Let_def empty_result_def dest!: ended_status)

lemma started_finished:
  assumes "start_run co s events w = (Inr (Finished result), w')"
  shows "\<not> completes result"
proof (cases "model co")
  case None
  with assms show ?thesis
    by (auto simp: start_run_def Let_def empty_result_def dest!: start_and_fail_status split: if_splits)
next
  case (Some m)
  let ?w = "seed_window (lib co) (texts co) events (sleep_cursor s) (CurrentState.revision s)"
  let ?p = "plan_new (length (seeds ?w)) (SeedWindow.deferred_seed_count ?w)
    (prefix_plan co ?w (collect_recall (recall co) (CurrentState.revision s) (seeds ?w)
      (SeedWindow.event_ids ?w) events s) events s) (check_sleep_budget m)"
  show ?thesis
  proof (cases ?p)
    case (Inl err)
    with assms Some show ?thesis
      by (cases err)
        (auto simp: start_run_def Let_def empty_result_def dest!: start_and_fail_status split: if_splits)
  next
    case (Inr p)
    with assms Some show ?thesis
      by (auto simp: start_run_def Let_def act_simps empty_result_def split: if_splits)
  qed
qed

lemma sleep_cycle_completes:
  assumes rely: "others_append co" and codec: "sleep_codec co" and serde: "sleep_serde co"
    and db: "db_holds (lib co) (store_codec co) db es0 s0" and small: "length es0 < 2 ^ 62"
    and run: "sleep_once co (0, db) = (Inr result, (n, db'))" and ok: "completes result"
  shows "\<exists>es s r d ks evs s'. completed_on co es s r d ks evs s' \<and>
    db_holds (lib co) (store_codec co) db' (es @ evs) s' \<and> prefix es0 es \<and>
    SleepOnceResult.cursor_after result = Some (sleep_cursor s') \<and>
    (SleepOnceResult.status result = Completed \<longrightarrow> (\<exists>es1 s1 e. es = es1 @ [e] \<and>
       replay (lib co) es1 = Inr s1 \<and> sleep_run_start_ok s1 r \<and> prefix es0 es1))"
proof -
  have at: "ledger_at co (0, db) es0 s0" using db small by (simp add: ledger_at_def)
  from run ok obtain s w1 w2 events w3 m r res s' w0 built w4 where
    w1: "load co (0, db) = (Inr s, w1)" and w2: "leased co w1 = (Inr False, w2)"
    and w3: "load_ledger co w2 = (Inr events, w3)"
    and prep: "(case open_run s of Some r \<Rightarrow> resume_run co r s events
         | None \<Rightarrow> start_run co s events) w3 = (Inr (Prepared.Ready m r res s' w0 built), w4)"
    and del: "deliberate co m r res s' w0 built w4 = (Inr result, (n, db'))"
    by (auto simp: sleep_once_def act_simps empty_result_def dest: resumed_finished started_finished
        split: if_splits option.splits)
  from load_step [OF rely at w1] obtain es1 where
    es1: "prefix es0 es1" "ledger_at co w1 es1 s" "fst w1 = 1" by auto
  from leased_step [OF rely es1(2) w2] obtain es2 t2 where
    es2: "prefix es1 es2" "ledger_at co w2 es2 t2" "fst w2 = 2" using es1(3) by auto
  from load_ledger_step [OF rely es2(2) w3] obtain t3 where
    es3: "prefix es2 events" "ledger_at co w3 events t3" "fst w3 = 3" using es2(3) by auto
  note step = ledger_at_step [OF es1(2)]
  have pre: "prefix es1 events" using es2(1) es3(1) by (rule prefix_order.trans)
  have n: "fst w3 < 2 ^ 10" using es3(3) by simp
  show ?thesis
  proof (cases "open_run s")
    case None
    with prep have start: "start_run co s events w3 = (Inr (Prepared.Ready m r res s' w0 built), w4)" by simp
    from start_run_step [OF rely codec serde es3(2) step pre n start] obtain e where
      e: "\<not> res" "ledger_at co w4 (es1 @ [e]) s'" "fst w4 = 6" "ready_run co m r s' w0 built"
        "sleep_run_start_ok s r" using es3(3) by auto
    have n4: "fst w4 < 2 ^ 10" using e(3) by simp
    from deliberate_step [OF rely codec serde e(2) ledger_at_step [OF e(2)] prefix_order.refl n4 e(4) del ok]
    obtain d ks evs s'' where "completed_on co (es1 @ [e]) s' r d ks evs s''"
      "ledger_at co (n, db') ((es1 @ [e]) @ evs) s''"
      "SleepOnceResult.cursor_after result = Some (sleep_cursor s'')" by blast
    moreover have "replay (lib co) es1 = Inr s" using step by (simp add: in_step_def)
    moreover have "prefix es0 (es1 @ [e])" using es1(1) by (rule prefix_prefix)
    ultimately show ?thesis using e(5) es1(1) by (auto simp: ledger_at_def intro!: exI)
  next
    case (Some r0)
    with prep have resume: "resume_run co r0 s events w3 = (Inr (Prepared.Ready m r res s' w0 built), w4)" by simp
    from resume_run_step [OF rely es3(2) step pre Some resume] obtain es' t where
      r: "res" "s' = s" "prefix es1 es'" "ledger_at co w4 es' t" "fst w4 = 5"
        "ready_run co m r s w0 built" using es3(3) by auto
    have n4: "fst w4 < 2 ^ 10" using r(5) by simp
    from deliberate_step [OF rely codec serde r(4) step r(3) n4 r(6) del [unfolded r(2)] ok] r(1)
    obtain d ks evs s'' where "completed_on co es1 s r d ks evs s''"
      "ledger_at co (n, db') (es1 @ evs) s''" "SleepOnceResult.status result = RunningResumed"
      "SleepOnceResult.cursor_after result = Some (sleep_cursor s'')" by auto
    with es1(1) show ?thesis by (auto simp: ledger_at_def intro!: exI)
  qed
qed

section \<open>A cycle that nobody disturbs\<close>

text \<open>
  When nobody else touches the database and nothing fails, a cycle that finds readable
  observations, a model with room for the first of them and an answer that passes the checks
  completes its run.
\<close>

definition started_state :: "CurrentState \<Rightarrow> EventId \<Rightarrow> SleepRun \<Rightarrow> CurrentState" where
  "started_state s i r =
     s\<lparr>sleep_runs := bt_insert (SleepRun.id r) r (sleep_runs s),
       CurrentState.revision := CurrentState.revision s + 1,
       applied_events := applied_events s @ [i]\<rparr>"

lemma settled_reads:
  assumes "undisturbed co" and "settled co db es s"
  shows "load co (n, db) = (Inr s, (Suc n, db))"
    and "leased co (n, db) = (Inr False, (Suc n, db))"
    and "load_ledger co (n, db) = (Inr es, (Suc n, db))"
    and "disturbed co s s (n, db) = (Inr False, (Suc n, db))"
  using assms
  by (simp_all add: undisturbed_def settled_def load_def leased_def load_ledger_def disturbed_def
      observe_def Let_def db_holds_def has_active_foreground_lease_def)

lemma settled_records:
  assumes quiet: "undisturbed co" and at: "settled co db es s" and codec: "sleep_codec co"
    and run: "apply_all (lib co) s evs = Inr s'" and ne: "evs \<noteq> []"
    and ok: "\<forall>e \<in> set evs. writable (lib co) (store_codec co) e"
    and evs: "\<forall>e \<in> set evs. event_kind e \<in> sleep_kinds \<and> causation_id e = None \<and>
        (\<exists>r. ExperienceEvent.subject e = Some r \<and>
           EntityRef.kind r \<in> {EntityKind.SleepRun, EntityKind.IntegrationCandidate})"
    and text_ok: "is_ok (state_to_string (store_codec co) s')" and inj: "inj (uuid_text (lib co))"
    and len: "length es + length evs < 2 ^ 63"
  shows "\<exists>db'. record_sleep co evs (Some (CurrentState.revision s)) None (n, db) =
      (Inr (Inr s'), (Suc n, db')) \<and> settled co db' (es @ evs) s'"
  using codec evs by (intro settled_batch [OF quiet at run ne ok _ _ text_ok inj len])
    (auto simp: sleep_codec_def)

lemma start_applies:
  assumes e: "sleep_event co (start_event_id co) (wall_clock co 1) (wall_clock co 2)
      SleepRunStarted (sleep_run_to_value (texts co) r) (SleepRun.id r) = Inr e"
    and serde: "sleep_serde co" and ok: "sleep_run_start_ok s r"
    and new: "start_event_id co \<notin> set (applied_events s)"
  shows "apply_all (lib co) s [e] = Inr (started_state s (start_event_id co) r)"
proof -
  note f = sleep_event_Inr [OF e]
  have "decode (de_sleep_run (lib co)) e = Inr r"
    using serde f(1) by (simp add: sleep_serde_def decode_def)
  then have "apply_sleep_run (lib co) s e = Inr (s\<lparr>sleep_runs := bt_insert (SleepRun.id r) r (sleep_runs s)\<rparr>)"
    using ok sleep_run_start_Inr [OF f(2)] by blast
  then show ?thesis using f(2,3) new by (simp add: apply_event_def apply_kind_def started_state_def)
qed

text \<open>What a cycle needs: its window, its plan, the model's answer and the events it makes.\<close>

definition plan_of :: "SleepCoordinator \<Rightarrow> SleepModel \<Rightarrow> CurrentState \<Rightarrow> ExperienceEvent list \<Rightarrow>
  SleepBatchError + SleepBatchPlan" where
  "plan_of co m s es =
     (let w = seed_window (lib co) (texts co) es (sleep_cursor s) (CurrentState.revision s) in
      plan_new (length (seeds w)) (SeedWindow.deferred_seed_count w)
        (prefix_plan co w (collect_recall (recall co) (CurrentState.revision s) (seeds w)
           (SeedWindow.event_ids w) es s) es s) (check_sleep_budget m))"

lemma start_run_settled:
  assumes quiet: "undisturbed co" and codec: "sleep_codec co" and serde: "sleep_serde co"
    and at: "settled co db es s" and small: "length es < 2 ^ 62"
    and m: "model co = Some m" and plan: "plan_of co m s es = Inr p"
    and r: "r = attempt_run co s (seed_window (lib co) (texts co) es (sleep_cursor s)
        (CurrentState.revision s)) p"
    and e: "sleep_event co (start_event_id co) (wall_clock co 1) (wall_clock co 2)
      SleepRunStarted (sleep_run_to_value (texts co) r) (SleepRun.id r) = Inr e"
      "writable (lib co) (store_codec co) e"
    and new: "start_event_id co \<notin> set (applied_events s)" "\<not> bt_contains (sleep_runs s) (fresh_run co)"
    and text_ok: "is_ok (state_to_string (store_codec co) (started_state s (start_event_id co) r))"
    and inj: "inj (uuid_text (lib co))"
  shows "\<exists>w0 built db1. start_run co s es (3, db) =
      (Inr (Prepared.Ready m r False (started_state s (start_event_id co) r) w0 built), (6, db1)) \<and>
    settled co db1 (es @ [e]) (started_state s (start_event_id co) r) \<and>
    BuiltSleepContext.context built = SleepBatchPlan.context p \<and>
    budget_report built = SleepBatchPlan.context_budget p \<and>
    SeedWindow.cursor_after w0 = last_sequence (seed_observations (SleepBatchPlan.context p)) \<and>
    ready_run co m r (started_state s (start_event_id co) r) w0 built \<and>
    is_some_and (SeedWindow.cursor_after w0) (\<lambda>after. sleep_cursor s < after)"
proof -
  let ?s = "started_state s (start_event_id co) r"
  let ?w = "seed_window (lib co) (texts co) es (sleep_cursor s) (CurrentState.revision s)"
  have ok: "sleep_run_start_ok s r"
    using new(2) by (simp add: r sleep_run_start_ok_def attempt_run_def new_run_def make_running_run_def Let_def)
  note f = sleep_event_Inr [OF e(1)]
  note rd = settled_reads [OF quiet at]
  have len: "length es + length [e] < 2 ^ 63" using small by simp
  from settled_records [OF quiet at codec start_applies [OF e(1) serde ok new(1)] _ _ _ text_ok inj len, of 5]
    f e(2) obtain db1 where
    rec: "record_sleep co [e] (Some (CurrentState.revision s)) None (5, db) = (Inr (Inr ?s), (6, db1))"
    and at1: "settled co db1 (es @ [e]) ?s"
    by (auto simp: sleep_kinds_def)
  have started: "record_started_run co r s (3, db) = (Inr (Some ?s), (6, db1))"
    using rd e(1) rec by (simp add: record_started_run_def act_bind_def act_lift_def act_return_def)
  have ne: "seeds ?w \<noteq> []" using plan by (auto simp: plan_of_def Let_def plan_new_def)
  let ?c = "SleepBatchPlan.context p"
  let ?w0 = "\<lparr>SeedWindow.event_ids = seed_event_ids r, seeds = seed_observations ?c,
     cursor_after = last_sequence (seed_observations ?c), invalid_count = invalid_count ?w,
     deferred_seed_count = unat (ContextBudgetReport.deferred_seed_count (context_budget p))\<rparr>"
  let ?built = "\<lparr>BuiltSleepContext.context = ?c, budget_report = context_budget p\<rparr>"
  have start: "start_run co s es (3, db) = (Inr (Prepared.Ready m r False ?s ?w0 ?built), (6, db1))"
    using ne m plan started
    by (simp add: start_run_def plan_of_def Let_def act_bind_def act_return_def r [symmetric])
  have "ready_run co m r ?s ?w0 ?built \<and>
      is_some_and (SeedWindow.cursor_after ?w0) (\<lambda>after. sleep_cursor s < after)"
    using start_run_step [OF undisturbed_append [OF quiet] codec serde settled_ledger(1) [OF at small]
        settled_ledger(2) [OF at small] prefix_order.refl _ start] by simp
  with start at1 show ?thesis
    by (intro exI [of _ ?w0] exI [of _ ?built] exI [of _ db1]) simp
qed

lemma settled_cycle:
  assumes quiet: "undisturbed co" and codec: "sleep_codec co" and serde: "sleep_serde co"
    and at: "settled co db es s" and small: "length es < 2 ^ 61" and idle: "open_run s = None"
    and m: "model co = Some m" and plan: "plan_of co m s es = Inr p"
    and r: "r = attempt_run co s (seed_window (lib co) (texts co) es (sleep_cursor s)
        (CurrentState.revision s)) p"
    and e: "sleep_event co (start_event_id co) (wall_clock co 1) (wall_clock co 2)
      SleepRunStarted (sleep_run_to_value (texts co) r) (SleepRun.id r) = Inr e"
      "writable (lib co) (store_codec co) e"
    and new: "start_event_id co \<notin> set (applied_events s)" "\<not> bt_contains (sleep_runs s) (fresh_run co)"
    and sa: "sa = started_state s (start_event_id co) r"
    and d: "deliberate_sleep m (SleepBatchPlan.context p) = Inr d" "SleepDeliberation.trace d = None"
      "validate_deliberation (lib co) (fresh_candidate co) (\<lambda>i. wall_clock co (9 + 3 * i)) d
         (SleepBatchPlan.context p) sa = Inr ks"
    and after: "last_sequence (seed_observations (SleepBatchPlan.context p)) = Some after"
    and r': "r' = completed_run co r after (length ks) (SleepBatchPlan.context_budget p)"
    and evs: "completion_events co r r' ks = Inr evs"
      "\<forall>e \<in> set evs. writable (lib co) (store_codec co) e"
    and ids: "completion_ids_new co sa (length ks)"
    and sb: "sb = slept_state sa r' after (map (candidate_event_id co) [0..<length ks]) (done_event_id co) ks"
    and text_ok: "is_ok (state_to_string (store_codec co) sa)" "is_ok (state_to_string (store_codec co) sb)"
    and inj: "inj (uuid_text (lib co))"
  shows "\<exists>db'. sleep_once co (0, db) = (Inr (result_from_run r' Completed False), (11, db')) \<and>
    settled co db' (es @ e # evs) sb"
proof -
  have small': "length es < 2 ^ 62" using small by simp
  from start_run_settled [OF quiet codec serde at small' m plan r e new text_ok(1) [unfolded sa] inj]
  obtain w0 built db1 where
    start: "start_run co s es (3, db) = (Inr (Prepared.Ready m r False sa w0 built), (6, db1))" and
    at1: "settled co db1 (es @ [e]) sa" and
    built: "BuiltSleepContext.context built = SleepBatchPlan.context p"
      "budget_report built = SleepBatchPlan.context_budget p"
      "SeedWindow.cursor_after w0 = Some after" and
    ready: "ready_run co m r sa w0 built" and "sleep_cursor s < after"
    using after by (auto simp: sa)
  have before: "SleepRun.cursor_before r \<le> after"
    using \<open>sleep_cursor s < after\<close> by (simp add: r attempt_run_def new_run_def make_running_run_def Let_def)
  have run: "apply_all (lib co) sa evs = Inr sb"
    unfolding sb r'
    by (rule completion_accepted [OF evs(1) [unfolded r'] serde _ _ _ _ _ d(3)])
      (use ready before built ids in \<open>auto simp: ready_run_def\<close>)
  note shape = completion_events_shape [OF evs(1)]
  have len: "length (es @ [e]) + length evs < 2 ^ 63"
    using small shape validate_deliberation_good(5) [OF d(3)] by (simp add: MAX_SLEEP_CANDIDATES_def)
  from settled_records [OF quiet at1 codec run _ evs(2) _ text_ok(2) inj len, of 10] shape obtain db2 where
    rec: "record_sleep co evs (Some (CurrentState.revision sa)) None (10, db1) = (Inr (Inr sb), (11, db2))"
    and at2: "settled co db2 ((es @ [e]) @ evs) sb" by fastforce
  have stored_run: "bt_get (sleep_runs sb) (SleepRun.id r) = Some r'"
    by (simp add: sb slept_state_def r' completed_run_def)
  note rd = settled_reads [OF quiet at] and rd1 = settled_reads [OF quiet at1]
  have tr: "record_trace_of co d = act_return ()" by (simp add: record_trace_of_def d(2))
  have "deliberate co m r False sa w0 built (6, db1) =
      (Inr (result_from_run r' Completed False), (11, db2))"
    using rd1 d built r' evs(1) rec stored_run
    by (simp add: deliberate_def judge_deliberation_def complete_run_def act_bind_def act_lift_def
        act_return_def Let_def)
  then have "sleep_once co (0, db) = (Inr (result_from_run r' Completed False), (11, db2))"
    using rd start idle
    by (simp add: sleep_once_def act_bind_def numeral_2_eq_2 numeral_3_eq_3)
  with at2 show ?thesis by auto
qed

end
