(* ===== verification/SleepRunScenario.thy ===== *)
theory SleepRunScenario
  imports SleepCycle IntegrationScenario
begin

text \<open>
  A concrete nap: the user has said something, nobody else touches the database, the model
  proposes a view, the cycle completes.
\<close>

section \<open>Data\<close>

definition the_remark :: Observation where
  "the_remark = \<lparr>Observation.id = from_uuid 61, actor_id = from_uuid 1, content = ''tea'',
     source_type = ''cli'', source_ref = None, thread_id = None, message_id = None,
     received_at = ''t''\<rparr>"

definition remark_event :: ExperienceEvent where
  "remark_event = an_event 47 1 ObservationRecorded ''remark''
     (Some \<lparr>EntityRef.kind = EntityKind.Observation, id = 61\<rparr>)"

definition remark_seed :: SleepSeed where
  "remark_seed = \<lparr>SleepSeed.event_id = from_uuid 47, sequence = 5, observation = the_remark\<rparr>"

definition nap_ledger :: "ExperienceEvent list" where "nap_ledger = setup_events @ [remark_event]"

definition remarked_state :: CurrentState where
  "remarked_state = setup_state\<lparr>CurrentState.revision := 5,
     observations := [(from_uuid 61, the_remark)],
     applied_events := applied_events setup_state @ [from_uuid 47]\<rparr>"

definition nap_budget :: BudgetReport where
  "nap_budget = PromptBudget.budget_report 4096 1024 512 [] 0"

definition nap_report :: ContextBudgetReport where
  "nap_report = \<lparr>ContextBudgetReport.anchor_bytes = 0, seed_bytes = 0, recalled_bytes = 0,
     total_bytes = 0, included_seed_count = 1, deferred_seed_count = 0, included_recall_count = 0,
     dropped_recall_count = 0, hard_limit_bytes = of_nat SLEEP_CONTEXT_HARD_LIMIT_BYTES,
     model_budget = Some nap_budget\<rparr>"

definition nap_context :: SleepContext where
  "nap_context = (context_of (from_uuid 80) (sleep_anchors remarked_state (from_uuid 2) (from_uuid 1) 5)
     [remark_seed] [])\<lparr>SleepContext.snapshot_hash := zero_hash\<rparr>"

definition nap_plan :: SleepBatchPlan where
  "nap_plan = \<lparr>SleepBatchPlan.context = nap_context, context_budget = nap_report\<rparr>"

definition nap_run :: SleepRun where
  "nap_run = make_running_run (from_uuid 80) ''t'' 0 5 [from_uuid 47] 1 0 (Some nap_report)"

definition nap_draft :: IntegrationCandidateDraft where
  "nap_draft = \<lparr>IntegrationCandidateDraft.kind = IntegrationCandidateKind.Position,
     content = ''view'', rationale = ''seen'', source_event_ids = [from_uuid 47],
     counterevidence_event_ids = [], confidence = 70\<rparr>"

definition nap_answer :: SleepDeliberation where
  "nap_answer = \<lparr>SleepDeliberation.draft_summary = ''seen'',
     self_review = \<lparr>SleepSelfReview.weak_points = [], possible_counterevidence_event_ids = [],
       revised = False\<rparr>,
     candidates = [nap_draft], trace = None\<rparr>"

definition nap_candidate :: IntegrationCandidate where
  "nap_candidate = candidate_of_draft blank_ext nap_context (from_uuid 84) ''t'' nap_draft"

definition nap_end :: SleepRun where
  "nap_end = nap_run\<lparr>SleepRun.status := SleepRunStatus.Completed, SleepRun.cursor_after := Some 5,
     SleepRun.created_candidate_count := 1, SleepRun.finished_at := Some ''t'',
     SleepRun.error_kind := None, SleepRun.context_budget_report := Some nap_report\<rparr>"

definition napping_state :: CurrentState where
  "napping_state = started_state remarked_state (from_uuid 81) nap_run"

definition napped_state :: CurrentState where
  "napped_state = slept_state napping_state nap_end 5 [from_uuid 85] (from_uuid 82) [nap_candidate]"

definition nap_ext :: ext where
  "nap_ext = demo\<lparr>de_observation := tagged [(''remark'', the_remark)],
     de_sleep_run := tagged [(''start'', nap_run), (''end'', nap_end)],
     de_integration_candidate := tagged [(''candidate'', nap_candidate)]\<rparr>"

definition nap_kinds :: "(EventKind \<times> string) list" where
  "nap_kinds = [(PrincipalCreated, ''p''), (TaskCreated, ''t''), (CompletionCriterionDefined, ''k''),
     (ObservationRecorded, ''o''), (SleepRunStarted, ''s''), (SleepRunCompleted, ''e''),
     (SleepRunInterrupted, ''i''), (SleepRunFailed, ''f''), (IntegrationCandidateCreated, ''c'')]"

definition nap_entities :: "(EntityKind \<times> string) list" where
  "nap_entities = [(EntityKind.Observation, ''o''), (EntityKind.SleepRun, ''s''),
     (EntityKind.IntegrationCandidate, ''c'')]"

definition nap_codec :: codec where
  "nap_codec = (study_codec remarked_state)\<lparr>
     kind_to_string := (\<lambda>k. case map_of nap_kinds k of
       None \<Rightarrow> Inl ''unknown'' | Some t \<Rightarrow> Inr (quoted t)),
     kind_from_str := (\<lambda>t. case map_of (map prod.swap nap_kinds) (trim_quotes t) of
       None \<Rightarrow> Inl ''unknown'' | Some k \<Rightarrow> Inr k),
     entity_to_string := (\<lambda>k. case map_of nap_entities k of
       None \<Rightarrow> Inl ''unknown'' | Some t \<Rightarrow> Inr (quoted t)),
     entity_from_str := (\<lambda>t. case map_of (map prod.swap nap_entities) (trim_quotes t) of
       None \<Rightarrow> Inl ''unknown'' | Some k \<Rightarrow> Inr k),
     state_to_string := (\<lambda>s. if s = remarked_state then Inr ''a'' else if s = napping_state then Inr ''b''
       else if s = napped_state then Inr ''c'' else Inl ''unknown''),
     state_from_str := (\<lambda>t. if t = ''a'' then Inr remarked_state else if t = ''b'' then Inr napping_state
       else if t = ''c'' then Inr napped_state else Inl ''unknown'')\<rparr>"

definition nap_texts :: sleep_json where
  "nap_texts = \<lparr>seeds_text = \<lambda>_. Inr [], recalled_text = \<lambda>_. Inr [], anchors_text = \<lambda>_. Inr [],
     context_text = \<lambda>_. Inr [],
     sleep_run_to_value = (\<lambda>r. if r = nap_run then Inr (JNumber ''start'')
       else if r = nap_end then Inr (JNumber ''end'') else Inl ''unknown''),
     candidate_to_value = (\<lambda>k. if k = nap_candidate then Inr (JNumber ''candidate'') else Inl ''unknown'')\<rparr>"

definition nap_model :: SleepModel where
  "nap_model = \<lparr>check_sleep_budget = \<lambda>_. Inr nap_budget, deliberate_sleep = \<lambda>_. Inr nap_answer\<rparr>"

definition nap :: SleepCoordinator where
  "nap = \<lparr>lib = nap_ext, store_codec = nap_codec, others = \<lambda>n db. db, lease_clock = \<lambda>n. 0,
     faults = \<lambda>n st. None, model = Some nap_model, recall = \<lambda>q s es. [], hekate_id = from_uuid 2,
     user_id = from_uuid 1, texts = nap_texts, show_error = \<lambda>e. [], fresh_run = from_uuid 80,
     start_event_id = from_uuid 81, end_event_id = from_uuid 83, done_event_id = from_uuid 82,
     fresh_candidate = \<lambda>n. from_uuid (84 + of_nat n), candidate_event_id = \<lambda>n. from_uuid (85 + of_nat n),
     wall_clock = \<lambda>n. ''t''\<rparr>"

abbreviation nap_db :: Db where "nap_db \<equiv> stored nap_ext nap_codec nap_ledger"

lemma nap_fields [simp]:
  "model nap = Some nap_model" "recall nap = (\<lambda>q s es. [])" "hekate_id nap = from_uuid 2"
  "user_id nap = from_uuid 1" "lib nap = nap_ext" "store_codec nap = nap_codec" "texts nap = nap_texts"
  "others nap = (\<lambda>n db. db)" "faults nap = (\<lambda>n st. None)" "fresh_run nap = from_uuid 80"
  "start_event_id nap = from_uuid 81" "done_event_id nap = from_uuid 82"
  "fresh_candidate nap = (\<lambda>n. from_uuid (84 + of_nat n))"
  "SleepCoordinator.candidate_event_id nap = (\<lambda>n. from_uuid (85 + of_nat n))" "wall_clock nap = (\<lambda>n. ''t'')"
  by (simp_all add: nap_def)

lemma nap_ext_fields [simp]:
  "de_observation nap_ext = tagged [(''remark'', the_remark)]"
  "de_sleep_run nap_ext = tagged [(''start'', nap_run), (''end'', nap_end)]"
  "de_integration_candidate nap_ext = tagged [(''candidate'', nap_candidate)]"
  "event_json nap_ext = (\<lambda>e. Inr [])" "sha256_hex nap_ext = sha256_hex blank_ext"
  "uuid_text nap_ext = uuid_text blank_ext" "id_text nap_ext = (id_text blank_ext :: 'a Id \<Rightarrow> string)"
  "integration_candidate_fingerprint nap_ext = integration_candidate_fingerprint blank_ext"
  by (auto simp: nap_ext_def demo_def blank_ext_def sha256_hex_def [abs_def] id_text_def [abs_def]
      integration_candidate_fingerprint_def [abs_def] Let_def)

lemma nap_states_differ [simp]:
  "napping_state \<noteq> remarked_state" "napped_state \<noteq> remarked_state" "napped_state \<noteq> napping_state"
  "remarked_state \<noteq> napping_state" "remarked_state \<noteq> napped_state" "napping_state \<noteq> napped_state"
proof -
  have "CurrentState.revision remarked_state = 5" "CurrentState.revision napping_state = 6"
    "CurrentState.revision napped_state = 8"
    by (simp_all add: remarked_state_def napping_state_def napped_state_def started_state_def slept_state_def)
  then show "napping_state \<noteq> remarked_state" "napped_state \<noteq> remarked_state" "napped_state \<noteq> napping_state"
    "remarked_state \<noteq> napping_state" "remarked_state \<noteq> napped_state" "napping_state \<noteq> napped_state"
    by (auto dest: arg_cong [where f = CurrentState.revision])
qed

section \<open>Codecs\<close>

lemma nap_serde: "sleep_serde nap"
proof -
  have "nap_end \<noteq> nap_run" by (simp add: nap_end_def nap_run_def make_running_run_def)
  then show ?thesis
    by (auto simp: sleep_serde_def nap_texts_def tagged_def split: if_splits)
qed

lemma nap_tables:
  "(k, t) \<in> set nap_kinds \<Longrightarrow> map_of nap_kinds k = Some t \<and>
     map_of (map prod.swap nap_kinds) t = Some k \<and> trim_quotes (quoted t) = t"
  "(ek, t) \<in> set nap_entities \<Longrightarrow> map_of nap_entities ek = Some t \<and>
     map_of (map prod.swap nap_entities) t = Some ek \<and> trim_quotes (quoted t) = t"
  unfolding nap_kinds_def nap_entities_def
  by (simp, elim disjE conjE; simp add: quotes_off)+

lemma nap_codec_reads [simp]:
  "uuid_parse nap_codec t = Inr (of_nat (length t))"
  "value_from_str nap_codec t = Inr (JNumber t)" "sql_real nap_codec = Some"
  "value_to_string nap_codec v = (case v of JNumber t \<Rightarrow> Inr t | _ \<Rightarrow> Inl ''not a number'')"
  by (simp_all add: nap_codec_def study_codec_def)

lemma nap_state_texts [simp]:
  "state_to_string nap_codec napping_state = Inr ''b''" "state_to_string nap_codec napped_state = Inr ''c''"
  by (simp_all add: nap_codec_def)

lemma nap_kind_reads:
  assumes "(k, t) \<in> set nap_kinds"
  shows "kind_from_str nap_codec (CHR 0x22 # event_kind_text nap_codec k @ [CHR 0x22]) = Inr k"
  using nap_tables(1) [OF assms]
  by (simp add: event_kind_text_def enum_text_def nap_codec_def quoted_def)

lemma nap_entity_reads:
  assumes "(k, t) \<in> set nap_entities"
  shows "entity_from_str nap_codec (CHR 0x22 # entity_kind_text nap_codec k @ [CHR 0x22]) = Inr k"
  using nap_tables(2) [OF assms]
  by (simp add: entity_kind_text_def enum_text_def nap_codec_def quoted_def)

lemma nap_reads:
  assumes "(event_kind e, t) \<in> set nap_kinds" and "causation_id e = None"
    and "case ExperienceEvent.subject e of None \<Rightarrow> True
      | Some r \<Rightarrow> \<exists>t. (EntityRef.kind r, t) \<in> set nap_entities"
  shows "codec_reads_event nap_ext nap_codec e"
  using assms nap_kind_reads [OF assms(1)] nap_entity_reads
  by (auto simp: codec_reads_event_def id_text_def split: option.splits json.splits)

lemma nap_sleep_codec: "sleep_codec nap"
proof -
  have "codec_reads_event nap_ext nap_codec e"
    if "event_kind e \<in> sleep_kinds" "causation_id e = None" "ExperienceEvent.subject e = Some r"
      "EntityRef.kind r \<in> {EntityKind.SleepRun, EntityKind.IntegrationCandidate}" for e r
    using that by (auto simp: sleep_kinds_def nap_kinds_def nap_entities_def intro!: nap_reads)
  moreover have "trim ''a'' = ''a''" "trim ''b'' = ''b''" "trim ''c'' = ''c''" by code_simp+
  then have "codec_reads_state nap_codec s" for s
    by (simp add: codec_reads_state_def nap_codec_def)
  ultimately show ?thesis by (auto simp: sleep_codec_def)
qed

section \<open>The ledger and its database\<close>

lemma nap_replay: "replay nap_ext nap_ledger = Inr remarked_state"
proof -
  have "replay nap_ext setup_events = Inr setup_state"
    by (simp add: replay_def setup_events_def setup_state_def default_state_def step_defs
        apply_criterion_defined_def nap_ext_def demo_def blank_ext_def normalize_description_def)
  moreover have "apply_event nap_ext setup_state remark_event = Inr remarked_state"
    by (simp add: step_defs remark_event_def remarked_state_def setup_state_def default_state_def
        the_remark_def)
  ultimately show ?thesis by (simp add: replay_def nap_ledger_def ledger.run_append)
qed

lemma nap_hash: "calculate_hash nap_ext e = Inr zero_hash"
  by (simp add: calculate_hash_def)

lemma nap_writable: "writable nap_ext nap_codec (an_event eid actor k tag subj)"
  by (simp add: writable_def verify_integrity_def nap_hash an_event_def is_ok_iff)

lemma nap_settled: "settled nap nap_db nap_ledger remarked_state"
proof -
  have "\<forall>e \<in> set nap_ledger. codec_reads_event nap_ext nap_codec e"
    by (auto simp: nap_ledger_def setup_events_def remark_event_def an_event_def nap_kinds_def
        nap_entities_def intro!: nap_reads)
  moreover have "\<forall>e \<in> set nap_ledger. writable nap_ext nap_codec e"
    by (auto simp: nap_ledger_def setup_events_def remark_event_def nap_writable)
  moreover have "codec_reads_state nap_codec remarked_state" "is_ok (state_to_string nap_codec remarked_state)"
    using nap_sleep_codec by (simp_all add: sleep_codec_def nap_codec_def is_ok_iff)
  moreover have "lease_row nap_db = None"
  proof (cases "record_batch nap_ext nap_codec (\<lambda>_. None) fresh_db nap_ledger None None")
    case (Inr r)
    obtain s' db' where r: "r = (s', db')" by (cases r)
    from record_batch_Inr [OF Inr [unfolded r]] commit_batch_Inr
    have "lease_row db' = lease_row fresh_db" by blast
    with Inr r show ?thesis by (simp add: stored_def fresh_db_def)
  qed (simp add: stored_def fresh_db_def)
  ultimately show ?thesis
    using stored_holds [OF nap_replay] blank_texts_inj
    by (simp add: settled_def nap_ledger_def setup_events_def)
qed

section \<open>The plan\<close>

lemma nap_window:
  "seed_window nap_ext nap_texts nap_ledger 0 5 =
     \<lparr>SeedWindow.event_ids = [from_uuid 47], seeds = [remark_seed], cursor_after = Some 5,
      invalid_count = 0, deferred_seed_count = 0\<rparr>"
proof -
  have "decode_seed nap_ext nap_ledger (from_uuid 47) 5 = Some remark_seed"
    by (simp add: decode_seed_def nap_ledger_def setup_events_def remark_event_def an_event_def
        tagged_def remark_seed_def the_remark_def blank_def)
  moreover have "sequenced nap_ledger =
      [(setup_events ! 0, 1), (setup_events ! 1, 2), (setup_events ! 2, 3), (setup_events ! 3, 4),
       (remark_event, 5)]"
    by (simp add: sequenced_def nap_ledger_def setup_events_def upt_conv_Cons)
  moreover have "event_kind (setup_events ! 0) \<noteq> ObservationRecorded"
    "event_kind (setup_events ! 1) \<noteq> ObservationRecorded"
    "event_kind (setup_events ! 2) \<noteq> ObservationRecorded"
    "event_kind (setup_events ! 3) \<noteq> ObservationRecorded"
    by (simp_all add: setup_events_def an_event_def numeral_eq_Suc)
  moreover have "event_kind remark_event = ObservationRecorded"
    "ExperienceEvent.event_id remark_event = from_uuid 47"
    by (simp_all add: remark_event_def an_event_def)
  ultimately have "readable nap_ext nap_ledger 0 5 (sequenced nap_ledger) = [remark_seed]"
    "damaged_in nap_ext nap_ledger 0 5 (sequenced nap_ledger) = 0"
    by (simp_all add: readable_def damaged_in_def in_window_def)
  then show ?thesis
    by (simp add: seed_window_eq fits_seed_budget_def serialized_len_def nap_texts_def
        last_sequence_def remark_seed_def MAX_SLEEP_SEEDS_def)
qed

lemma nap_no_recall:
  "merged_recall hw ss (collect_recall (\<lambda>q s es. []) hw ss' ex events s) events = []"
proof -
  have got: "bt_get (collect_recall (\<lambda>q s es. []) hw ss' ex events s) i \<in> {None, Some []}" for i
  proof -
    have "bt_get (foldl (\<lambda>m seed. bt_insert (SleepSeed.event_id seed) [] m) m ss') i \<in> {None, Some []}"
      if "bt_get m i \<in> {None, Some []}" for m :: "(EventId, RecalledItem list) btree"
      using that
    proof (induction ss' arbitrary: m)
      case (Cons d ds)
      have "bt_get (bt_insert (SleepSeed.event_id d) [] m) i \<in> {None, Some []}"
        using Cons.prems by (cases "i = SleepSeed.event_id d") simp_all
      from Cons.IH [OF this] show ?case by simp
    qed simp
    from this [of "[]"] show ?thesis by (simp add: collect_recall_def Let_def)
  qed
  have "foldl (\<lambda>m seed. case bt_get (collect_recall (\<lambda>q s es. []) hw ss' ex events s) (SleepSeed.event_id seed) of
      None \<Rightarrow> m | Some found \<Rightarrow> foldl f m found) [] ds = []" for f and ds :: "SleepSeed list"
  proof (induction ds)
    case (Cons d ds)
    with got [of "SleepSeed.event_id d"] show ?case by auto
  qed simp
  then show ?thesis by (simp add: merged_recall_def)
qed

lemma nap_build:
  "build_context nap_ext nap_texts hid uid rid hw ss
     (collect_recall (\<lambda>q s es. []) hw ss' ex nap_ledger s) nap_ledger s deferred =
   Inr \<lparr>BuiltSleepContext.context =
          (context_of rid (sleep_anchors s hid uid hw) ss [])\<lparr>SleepContext.snapshot_hash := zero_hash\<rparr>,
        budget_report = \<lparr>ContextBudgetReport.anchor_bytes = 0, seed_bytes = 0, recalled_bytes = 0,
          total_bytes = 0, included_seed_count = of_nat (length ss),
          deferred_seed_count = of_nat deferred, included_recall_count = 0, dropped_recall_count = 0,
          hard_limit_bytes = of_nat SLEEP_CONTEXT_HARD_LIMIT_BYTES, model_budget = None\<rparr>\<rparr>"
  by (simp add: build_context_def Let_def nap_no_recall ranked_recall_def bt_values_def serialized_len_def
      nap_texts_def shrink_context.simps context_hash_def)
    (simp add: context_of_def)

lemma nap_planned: "plan_of nap nap_model remarked_state nap_ledger = Inr nap_plan"
proof -
  have s: "sleep_cursor remarked_state = 0" "CurrentState.revision remarked_state = 5"
    by (simp_all add: remarked_state_def setup_state_def default_state_def)
  show ?thesis
    by (simp add: plan_of_def s nap_window plan_new_def prefix_plan_def nap_build nap_model_def Let_def
        with_report_def nap_plan_def nap_context_def nap_report_def)
qed

lemma nap_attempt:
  "attempt_run nap remarked_state (seed_window nap_ext nap_texts nap_ledger (sleep_cursor remarked_state)
     (CurrentState.revision remarked_state)) nap_plan = nap_run"
proof -
  have s: "sleep_cursor remarked_state = 0" "CurrentState.revision remarked_state = 5"
    by (simp_all add: remarked_state_def setup_state_def default_state_def)
  show ?thesis
    by (simp add: attempt_run_def new_run_def s nap_window nap_run_def nap_plan_def nap_context_def
        context_of_def remark_seed_def Let_def)
qed

section \<open>The answer and the events\<close>

definition nap_event :: "Uuid \<Rightarrow> EventKind \<Rightarrow> string \<Rightarrow> ExperienceEvent" where
  "nap_event i k tag =
     (an_event i 2 k tag (Some \<lparr>EntityRef.kind = EntityKind.SleepRun, id = 80\<rparr>))
     \<lparr>source := \<lparr>EventSource.source_type = ''sleep'', source_ref = Some (uuid_text blank_ext 80)\<rparr>,
      correlation_id := Some (uuid_text blank_ext 80), ExperienceEvent.confidence := Some 0x3F800000\<rparr>"

lemma nap_made:
  "sleep_event nap (from_uuid i) ''t'' ''t'' k (Inr (JNumber tag)) (from_uuid 80) = Inr (nap_event i k tag)"
  by (simp add: sleep_event_def payload_subject_def new_with_id_def nap_hash nap_event_def an_event_def
      id_text_def Let_def)

lemma nap_event_writable: "writable nap_ext nap_codec (nap_event i k tag)"
  by (simp add: writable_def verify_integrity_def nap_hash nap_event_def an_event_def is_ok_iff)

lemma nap_validated:
  "validate_deliberation nap_ext (fresh_candidate nap) (\<lambda>i. wall_clock nap (9 + 3 * i)) nap_answer
     nap_context napping_state = Inr [nap_candidate]"
proof -
  have ids: "context_event_ids nap_context = {from_uuid 47}"
    by (simp add: context_event_ids_def nap_context_def context_of_def remark_seed_def)
  have none: "bt_values (integration_candidates napping_state) = []"
    by (simp add: napping_state_def started_state_def remarked_state_def setup_state_def default_state_def
        bt_values_def)
  have "candidate_of_draft nap_ext nap_context (from_uuid 84) ''t'' nap_draft = nap_candidate"
    by (simp add: nap_candidate_def candidate_of_draft_def Let_def)
  moreover have "trim ''seen'' = ''seen''" "trim ''view'' = ''view''" "\<not> blank ''seen''" "\<not> blank ''view''"
    by simp_all
  ultimately show ?thesis
    by (simp add: validate_deliberation_def deliberation_out_of_bounds_def nap_answer_def ids none
        check_draft_def check_revision_draft_def dedup_ids_def MAX_SLEEP_CANDIDATES_def MAX_SLEEP_TEXT_def
        MAX_CANDIDATE_SOURCES_def Let_def)
      (simp add: nap_draft_def dedup_ids_def MAX_SLEEP_TEXT_def MAX_CANDIDATE_SOURCES_def)
qed

lemma nap_completion:
  "completion_events nap nap_run nap_end [nap_candidate] =
     Inr [nap_event 85 IntegrationCandidateCreated ''candidate'', nap_event 82 SleepRunCompleted ''end'']"
proof -
  have "nap_end \<noteq> nap_run" "SleepRun.id nap_run = from_uuid 80"
    by (simp_all add: nap_end_def nap_run_def make_running_run_def)
  then show ?thesis
    by (simp add: completion_events_def nap_texts_def nap_made)
qed

text \<open>The whole cycle: its inputs, then the cycle.\<close>

lemma nap_end_is: "nap_end = completed_run nap nap_run 5 (length [nap_candidate]) (SleepBatchPlan.context_budget nap_plan)"
  by (simp add: nap_end_def completed_run_def nap_plan_def nap_run_def make_running_run_def)

lemma nap_started: "sleep_event nap (start_event_id nap) (wall_clock nap 1) (wall_clock nap 2) SleepRunStarted
      (sleep_run_to_value (texts nap) nap_run) (SleepRun.id nap_run) = Inr (nap_event 81 SleepRunStarted ''start'')"
  using nap_made [of 81] by (simp add: nap_texts_def) (simp add: nap_run_def make_running_run_def)

lemma nap_ids_new: "completion_ids_new nap napping_state (length [nap_candidate])"
  by (simp add: completion_ids_new_def napping_state_def started_state_def remarked_state_def setup_state_def)

lemma nap_inputs:
  shows "undisturbed nap" and "sleep_codec nap" and "sleep_serde nap"
    and "settled nap nap_db nap_ledger remarked_state" and "length nap_ledger < 2 ^ 61"
    and "open_run remarked_state = None" and "model nap = Some nap_model"
    and "plan_of nap nap_model remarked_state nap_ledger = Inr nap_plan"
    and "nap_run = attempt_run nap remarked_state (seed_window (lib nap) (texts nap) nap_ledger
      (sleep_cursor remarked_state) (CurrentState.revision remarked_state)) nap_plan"
    and "sleep_event nap (start_event_id nap) (wall_clock nap 1) (wall_clock nap 2) SleepRunStarted
      (sleep_run_to_value (texts nap) nap_run) (SleepRun.id nap_run) = Inr (nap_event 81 SleepRunStarted ''start'')"
    and "writable (lib nap) (store_codec nap) (nap_event 81 SleepRunStarted ''start'')"
    and "start_event_id nap \<notin> set (applied_events remarked_state)"
    and "\<not> bt_contains (sleep_runs remarked_state) (fresh_run nap)"
    and "napping_state = started_state remarked_state (start_event_id nap) nap_run"
    and "deliberate_sleep nap_model (SleepBatchPlan.context nap_plan) = Inr nap_answer"
    and "SleepDeliberation.trace nap_answer = None"
    and "validate_deliberation (lib nap) (fresh_candidate nap) (\<lambda>i. wall_clock nap (9 + 3 * i)) nap_answer
     (SleepBatchPlan.context nap_plan) napping_state = Inr [nap_candidate]"
    and "last_sequence (seed_observations (SleepBatchPlan.context nap_plan)) = Some 5"
    and "nap_end = completed_run nap nap_run 5 (length [nap_candidate]) (SleepBatchPlan.context_budget nap_plan)"
    and "completion_events nap nap_run nap_end [nap_candidate] =
     Inr [nap_event 85 IntegrationCandidateCreated ''candidate'', nap_event 82 SleepRunCompleted ''end'']"
    and "\<forall>e \<in> set [nap_event 85 IntegrationCandidateCreated ''candidate'', nap_event 82 SleepRunCompleted ''end''].
      writable (lib nap) (store_codec nap) e"
    and "completion_ids_new nap napping_state (length [nap_candidate])"
    and "napped_state = slept_state napping_state nap_end 5
      (map (SleepCoordinator.candidate_event_id nap) [0..<length [nap_candidate]]) (done_event_id nap) [nap_candidate]"
    and "is_ok (state_to_string (store_codec nap) napping_state)"
    and "is_ok (state_to_string (store_codec nap) napped_state)"
    and "inj (uuid_text (lib nap))"
  using nap_sleep_codec nap_serde nap_settled nap_planned nap_attempt nap_started nap_end_is
    nap_completion nap_ids_new blank_texts_inj nap_validated
  by (simp_all add: undisturbed_def nap_event_writable is_ok_iff)
    (simp_all add: nap_ledger_def setup_events_def open_run_def remarked_state_def setup_state_def
      default_state_def bt_values_def bt_contains_def napping_state_def nap_plan_def nap_context_def
      context_of_def remark_seed_def last_sequence_def nap_model_def nap_answer_def napped_state_def)

lemma nap_cycle:
  "\<exists>db'. sleep_once nap (0, nap_db) =
      (Inr (result_from_run nap_end SleepOnceStatus.Completed False), (11, db')) \<and>
    settled nap db' (nap_ledger @ nap_event 81 SleepRunStarted ''start'' #
      [nap_event 85 IntegrationCandidateCreated ''candidate'', nap_event 82 SleepRunCompleted ''end'']) napped_state"
  by (rule settled_cycle [OF nap_inputs])

end
