(* ===== verification/SleepWorker.thy ===== *)
theory SleepWorker
  imports SleepService InitiativeService
begin

text \<open>
  The worker around the sleep coordinator (\<open>src/runtime/sleep_worker.rs\<close>): its configuration,
  a cycle, the pause after it. Signals, logging and timers are left out; a run of the worker is
  the list of the outcomes of its cycles until shutdown.
\<close>

record SleepWorkerConfig =
  idle_interval :: Duration
  completed_interval :: Duration
  deferred_interval :: Duration
  initial_error_backoff :: Duration
  max_error_backoff :: Duration

definition default_sleep_worker :: SleepWorkerConfig where
  "default_sleep_worker =
     \<lparr>idle_interval = 300 * 10 ^ 9, completed_interval = 30 * 10 ^ 9,
      deferred_interval = 60 * 10 ^ 9, initial_error_backoff = 30 * 10 ^ 9,
      max_error_backoff = 900 * 10 ^ 9\<rparr>"

definition validate_sleep_worker :: "SleepWorkerConfig \<Rightarrow> string + unit" where
  "validate_sleep_worker cfg =
     (if idle_interval cfg = 0 \<or> completed_interval cfg = 0 \<or> deferred_interval cfg = 0 \<or>
         initial_error_backoff cfg = 0 \<or> max_error_backoff cfg = 0
      then Inl ''sleep worker intervals and backoff must be greater than zero''
      else if max_error_backoff cfg < initial_error_backoff cfg
      then Inl ''sleep worker max error backoff must be at least the initial backoff''
      else Inr ())"

definition new_sleep_worker ::
  "Duration \<Rightarrow> Duration \<Rightarrow> Duration \<Rightarrow> Duration \<Rightarrow> Duration \<Rightarrow> string + SleepWorkerConfig"
where
  "new_sleep_worker idle completed deferred initial maximum =
     (let cfg = \<lparr>idle_interval = idle, completed_interval = completed, deferred_interval = deferred,
        initial_error_backoff = initial, max_error_backoff = maximum\<rparr> in
      res_bind (validate_sleep_worker cfg) (\<lambda>_. Inr cfg))"

datatype CycleOutcome =
    Status SleepOnceStatus "string option" u32
  | Error string

text \<open>The kinds of the errors of a cycle; no access to the lease fails in the model.\<close>

fun sleep_failure_kind :: "SleepRuntimeError \<Rightarrow> string" where
  "sleep_failure_kind (SleepRuntimeError.Storage err) = ''storage_error''"
| "sleep_failure_kind (SleepRuntimeError.Projection err) = ''projection_error''"
| "sleep_failure_kind (SleepRuntimeError.Event m) = ''event_error''"
| "sleep_failure_kind (SleepRuntimeError.Serialization m) = ''serialization_error''"
| "sleep_failure_kind (SleepRuntimeError.Invalid m) = ''sleep_invalid_state''"

definition sleep_worker_cycle :: "SleepCoordinator \<Rightarrow> World \<Rightarrow> CycleOutcome \<times> World" where
  "sleep_worker_cycle co w =
     (case leased co w of
        (Inl err, w') \<Rightarrow> (Error (sleep_failure_kind err), w')
      | (Inr True, w') \<Rightarrow> (Status SleepOnceStatus.Deferred None 0, w')
      | (Inr False, w') \<Rightarrow>
          (case sleep_once co w' of
             (Inl err, w'') \<Rightarrow> (Error (sleep_failure_kind err), w'')
           | (Inr r, w'') \<Rightarrow>
               (Status (SleepOnceResult.status r) (SleepOnceResult.error_kind r) (SleepOnceResult.created_candidates r), w'')))"

text \<open>The loop of \<open>bounded_backoff\<close>: \<open>remaining > 0\<close> and \<open>delay < maximum\<close>.\<close>

function sleep_backoff :: "Duration \<Rightarrow> Duration \<Rightarrow> u32 \<Rightarrow> Duration" where
  "sleep_backoff delay maximum remaining =
     (if remaining > 0 \<and> delay < maximum
      then sleep_backoff (min (unwrap_or maximum (duration_checked_add delay delay)) maximum) maximum
             (remaining - 1)
      else delay)"
  by pat_completeness auto
termination
proof (relation "measure (\<lambda>(delay, maximum, remaining). unat remaining)")
  show "((d, maximum, remaining - 1), (delay, maximum, remaining)) \<in>
      measure (\<lambda>(delay, maximum, remaining). unat remaining)"
    if "remaining > 0 \<and> delay < maximum" for d delay maximum :: Duration and remaining :: u32
    using that by (simp add: measure_unat word_gt_0)
qed simp

declare sleep_backoff.simps [simp del]

fun sleep_next_delay ::
  "SleepWorkerConfig \<Rightarrow> u32 \<Rightarrow> CycleOutcome \<Rightarrow> u32 \<times> Duration"
where
  "sleep_next_delay cfg fails (Error m) =
     (saturating_add fails 1,
      sleep_backoff (initial_error_backoff cfg) (max_error_backoff cfg) fails)"
| "sleep_next_delay cfg fails (Status st err n) =
     (case st of
        SleepOnceStatus.Failed \<Rightarrow>
          (saturating_add fails 1,
           sleep_backoff (initial_error_backoff cfg) (max_error_backoff cfg) fails)
      | SleepOnceStatus.Idle \<Rightarrow> (0, idle_interval cfg)
      | SleepOnceStatus.Completed \<Rightarrow> (0, completed_interval cfg)
      | SleepOnceStatus.RunningResumed \<Rightarrow> (0, completed_interval cfg)
      | SleepOnceStatus.Deferred \<Rightarrow> (0, deferred_interval cfg)
      | SleepOnceStatus.Interrupted \<Rightarrow> (0, deferred_interval cfg))"

fun sleep_worker_delays :: "SleepWorkerConfig \<Rightarrow> u32 \<Rightarrow> CycleOutcome list \<Rightarrow> Duration list" where
  "sleep_worker_delays cfg fails [] = []"
| "sleep_worker_delays cfg fails (r # rs) =
     (case sleep_next_delay cfg fails r of (fails', d) \<Rightarrow> d # sleep_worker_delays cfg fails' rs)"

section \<open>The backoff\<close>

lemma sleep_backoff_min:
  "delay \<le> maximum \<Longrightarrow> maximum \<le> DURATION_MAX \<Longrightarrow>
     sleep_backoff delay maximum remaining = min (delay * 2 ^ unat remaining) maximum"
proof (induction delay maximum remaining rule: sleep_backoff.induct)
  case (1 delay maximum remaining)
  show ?case
  proof (cases "remaining > 0 \<and> delay < maximum")
    case False
    have "min (delay * 2 ^ unat remaining) maximum = delay"
    proof (cases "remaining = 0")
      case True
      with 1(2) show ?thesis by simp
    next
      case positive: False
      with False 1(2) have "delay = maximum" by (simp add: word_gt_0)
      then show ?thesis by (simp add: min_absorb2)
    qed
    with False sleep_backoff.simps [of delay maximum remaining] show ?thesis by auto
  next
    case True
    let ?d = "min (unwrap_or maximum (duration_checked_add delay delay)) maximum"
    have d: "?d = min (2 * delay) maximum"
      using 1(2,3) by (auto simp: duration_checked_add_def min_def)
    have n: "unat remaining = Suc (unat (remaining - 1))"
      using True by (metis Suc_pred' unat_gt_0 unat_minus_one word_gt_0)
    have "sleep_backoff delay maximum remaining = sleep_backoff ?d maximum (remaining - 1)"
      using True sleep_backoff.simps [of delay maximum remaining] by simp
    also have "\<dots> = min (?d * 2 ^ unat (remaining - 1)) maximum"
      by (rule 1(1) [OF True]) (use 1(3) in simp_all)
    also have "\<dots> = min (delay * 2 ^ unat remaining) maximum"
    proof (cases "2 * delay < maximum")
      case less: True
      then show ?thesis by (simp add: d n mult.assoc)
    next
      case False
      then have "maximum \<le> delay * 2" by simp
      also have "\<dots> \<le> delay * 2 * 2 ^ unat (remaining - 1)" by simp
      also have "\<dots> = delay * 2 ^ unat remaining" by (simp add: n mult.assoc)
      finally have "maximum \<le> delay * 2 ^ unat remaining" .
      moreover have "maximum \<le> maximum * 2 ^ unat (remaining - 1)" by simp
      moreover have "?d = maximum" using False d by simp
      ultimately show ?thesis by (simp add: min_absorb2)
    qed
    finally show ?thesis .
  qed
qed

end
