(* ===== verification/SleepServiceProperties.thy ===== *)
theory SleepServiceProperties
  imports SleepRunScenario SleepWorker InitiativeProperties
begin

text \<open>
  Properties of sleep: what a cycle looks at, what it asks the model, what it commits and when;
  how long the worker waits.
\<close>

section \<open>The window and the batch\<close>

text \<open>
  C14. The seeds of a new run are the first readable observations after the cursor and up to
  the state's revision, in the order of the ledger and inside the window. There are at most
  twelve, their text is at most 32 KiB, and the first one left out would have broken a bound.
  Damaged observations are counted and skipped.
\<close>

theorem sleep_window_exactly:
  assumes "replay x events = Inr s" and "length events < 2 ^ 63"
    and "w = seed_window x sj events cur hw"
    and "rs = readable x events cur hw (sequenced events)"
  shows "(\<exists>rest. rs = seeds w @ rest \<and> SeedWindow.deferred_seed_count w = length rest \<and>
      (rest \<noteq> [] \<longrightarrow> length (seeds w) = MAX_SLEEP_SEEDS \<or> \<not> fits_seed_budget sj (seeds w) (hd rest))) \<and>
    length (seeds w) \<le> MAX_SLEEP_SEEDS \<and>
    (seeds w \<noteq> [] \<longrightarrow> (\<exists>n. serialized_len (seeds_text sj) (seeds w) = Inr n \<and> n \<le> SLEEP_SEED_BUDGET_BYTES)) \<and>
    sorted_wrt (<) (map SleepSeed.sequence (seeds w)) \<and>
    (\<forall>q \<in> set (map SleepSeed.sequence (seeds w)). cur < q \<and> q \<le> hw) \<and>
    SeedWindow.event_ids w = map SleepSeed.event_id (seeds w) \<and>
    SeedWindow.cursor_after w = last_sequence (seeds w) \<and>
    invalid_count w = damaged_in x events cur hw (sequenced events)"
proof -
  have step: "in_step x s events" using assms(1,2) by (simp add: in_step_def)
  let ?ss = "take_seeds sj [] rs"
  have w: "seeds w = ?ss" "SeedWindow.event_ids w = map SleepSeed.event_id ?ss"
    "SeedWindow.cursor_after w = last_sequence ?ss" "SeedWindow.deferred_seed_count w = length rs - length ?ss"
    "invalid_count w = damaged_in x events cur hw (sequenced events)"
    unfolding assms(3,4) seed_window_eq by (simp_all add: Let_def)
  from take_seeds_prefix [of "[]" rs sj] obtain rest where rest: "rs = ?ss @ rest"
    "rest \<noteq> [] \<longrightarrow> length ?ss \<ge> MAX_SLEEP_SEEDS \<or> \<not> fits_seed_budget sj ?ss (hd rest)" by auto
  have bounds: "length ?ss \<le> MAX_SLEEP_SEEDS"
    "?ss \<noteq> [] \<longrightarrow> fits_seed_budget sj (butlast ?ss) (last ?ss)"
    using take_seeds_bounds [of "[]" sj rs] by simp_all
  note q = readable_sorted [OF step, where cur = cur and hw = hw, folded assms(4)]
  have "sorted_wrt (<) (map SleepSeed.sequence ?ss)"
    using q(1) rest(1) by (metis map_append sorted_wrt_append)
  moreover have "\<forall>n \<in> set (map SleepSeed.sequence ?ss). cur < n \<and> n \<le> hw"
  proof
    fix n
    assume "n \<in> set (map SleepSeed.sequence ?ss)"
    moreover have "set ?ss \<subseteq> set rs" using take_seeds_subset [of sj "[]" rs] by simp
    ultimately have "n \<in> set (map SleepSeed.sequence rs)" by auto
    then show "cur < n \<and> n \<le> hw" by (rule q(2))
  qed
  moreover have "rest \<noteq> [] \<longrightarrow> length ?ss = MAX_SLEEP_SEEDS \<or> \<not> fits_seed_budget sj ?ss (hd rest)"
    using rest(2) bounds(1) by (metis le_antisym)
  moreover have "length rs - length ?ss = length rest" using arg_cong [OF rest(1), of length] by simp
  moreover have "?ss \<noteq> [] \<longrightarrow>
      (\<exists>n. serialized_len (seeds_text sj) ?ss = Inr n \<and> n \<le> SLEEP_SEED_BUDGET_BYTES)"
    using bounds(2) by (metis append_butlast_last_id fits_seed_budget_iff)
  ultimately show ?thesis
    unfolding w using rest(1) bounds(1) by blast
qed

theorem sleep_window_exactly_witness:
  "seeds (seed_window nap_ext nap_texts nap_ledger 0 5) = [remark_seed] \<and>
   length (seeds (seed_window nap_ext nap_texts nap_ledger 0 5)) \<le> MAX_SLEEP_SEEDS"
proof -
  have "length nap_ledger < 2 ^ 63" by (simp add: nap_ledger_def setup_events_def)
  from sleep_window_exactly [OF nap_replay this refl refl, where sj = nap_texts and cur = 0 and hw = 5]
  show ?thesis
    by (simp add: nap_window)
qed

text \<open>
  C15. A new batch is the longest prefix of the window that the model has room for: it is
  planned exactly when the anchors alone fit, some prefix fits and all longer ones are over the
  budget. The plan fails for the first observation exactly when the anchors fit and every
  prefix is over the budget; it then carries the context of that one observation.
\<close>

theorem sleep_batch_longest:
  "(plan_new n deferred build check = Inr p \<longleftrightarrow>
     n \<noteq> 0 \<and> (\<exists>q. prefix_fits build check (n + deferred) 0 q) \<and>
     (\<exists>k. 0 < k \<and> k \<le> n \<and> prefix_fits build check (n + deferred) k p \<and>
        (\<forall>j. k < j \<longrightarrow> j \<le> n \<longrightarrow> (\<exists>q. prefix_exceeds build check (n + deferred) j q)))) \<and>
   (plan_new n deferred build check = Inl (ObservationExceeds p) \<longleftrightarrow>
     n \<noteq> 0 \<and> (\<exists>q. prefix_fits build check (n + deferred) 0 q) \<and>
     prefix_exceeds build check (n + deferred) 1 p \<and>
     (\<forall>j. 0 < j \<longrightarrow> j \<le> n \<longrightarrow> (\<exists>q. prefix_exceeds build check (n + deferred) j q)))"
  by (rule conjI [OF plan_new_Inr plan_new_exceeds])

text \<open>The nap's plan fits the model as a whole.\<close>

theorem sleep_batch_longest_witness:
  "\<exists>k. 0 < k \<and> k \<le> 1 \<and>
     prefix_fits (prefix_plan nap (seed_window nap_ext nap_texts nap_ledger 0 5)
       (collect_recall (recall nap) 5 [remark_seed] [from_uuid 47] nap_ledger remarked_state)
       nap_ledger remarked_state) (check_sleep_budget nap_model) 1 k nap_plan"
proof -
  have s: "sleep_cursor remarked_state = 0" "CurrentState.revision remarked_state = 5"
    by (simp_all add: remarked_state_def setup_state_def default_state_def)
  have "plan_new 1 0 (prefix_plan nap (seed_window nap_ext nap_texts nap_ledger 0 5)
       (collect_recall (recall nap) 5 [remark_seed] [from_uuid 47] nap_ledger remarked_state)
       nap_ledger remarked_state) (check_sleep_budget nap_model) = Inr nap_plan"
    using nap_planned by (simp add: plan_of_def s nap_window Let_def)
  from conjunct1 [OF sleep_batch_longest, THEN iffD1, OF this] show ?thesis by auto
qed

section \<open>The budgets\<close>

text \<open>
  The context of a sleep run shows the run's seeds, the state's anchors and at most
  twenty-four recalled events, each once, none a seed, none newer than the run. Anchors, seeds
  and the whole are within their byte budgets, the hash is that of the context, and every event
  recall found is counted as included or dropped.
\<close>

theorem sleep_context_bounded:
  assumes "build_context x sj hid uid rid hw ss by_seed events s deferred = Inr built"
    and "c = BuiltSleepContext.context built"
  shows "seed_observations c = ss \<and> SleepContext.high_water_revision c = hw \<and>
    length (recalled_experiences c) \<le> MAX_SLEEP_RECALL \<and>
    distinct (map RecalledItem.source_event_id (recalled_experiences c)) \<and>
    (\<forall>r \<in> set (recalled_experiences c).
       recall_allowed (sequence_by_id events) (map SleepSeed.event_id ss) hw (RecalledItem.source_event_id r)) \<and>
    context_hash x sj c = Inr (SleepContext.snapshot_hash c) \<and>
    (\<exists>n. serialized_len (context_text sj) c = Inr n \<and> n \<le> SLEEP_CONTEXT_HARD_LIMIT_BYTES) \<and>
    (\<exists>n. serialized_len (seeds_text sj) ss = Inr n \<and> n \<le> SLEEP_SEED_BUDGET_BYTES) \<and>
    (\<exists>n. serialized_len (anchors_text sj) (sleep_anchors s hid uid hw) = Inr n \<and>
       n \<le> SLEEP_ANCHOR_BUDGET_BYTES) \<and>
    included_recall_count (budget_report built) + dropped_recall_count (budget_report built) =
      of_nat (length (ranked_recall x (merged_recall hw ss by_seed events)))"
proof -
  note b = build_context_facts [OF assms(1)]
  let ?ranked = "ranked_recall x (merged_recall hw ss by_seed events)"
  note sound = merged_recall_sound [of events ss hw by_seed]
  have sub: "subseq (map RecalledItem.source_event_id (recalled_experiences c))
      (map RecalledItem.source_event_id ?ranked)"
    unfolding assms(2) by (rule subseq_map [OF b(4)])
  have "distinct (map RecalledItem.source_event_id (recalled_experiences c))"
    using sub ranked_recall_distinct [OF sound] by (metis distinct_nthsI subseq_conv_nths)
  moreover have "recall_allowed (sequence_by_id events) (map SleepSeed.event_id ss) hw (RecalledItem.source_event_id r)"
    if "r \<in> set (recalled_experiences c)" for r
  proof -
    have "r \<in> set (bt_values (merged_recall hw ss by_seed events))"
      using that b(4) assms(2) by (metis subseq_order.trans subseq_singleton_left ranked_recall_set)
    with sound show ?thesis by (auto simp: recall_sound_def bt_values_def)
  qed
  ultimately show ?thesis using b assms(2) by auto
qed

theorem sleep_context_bounded_witness:
  "context_hash nap_ext nap_texts nap_context = Inr (SleepContext.snapshot_hash nap_context)"
proof -
  note b = nap_build [of "from_uuid 2" "from_uuid 1" "from_uuid 80" 5 "[remark_seed]" "[remark_seed]"
    "[from_uuid 47]" remarked_state 0]
  from sleep_context_bounded [OF b refl] show ?thesis by (simp add: nap_context_def)
qed

text \<open>
  C16. Preparing a model request keeps the longest prefix of the optional items whose estimate,
  with the output reservation and the safety margin, fits the configured context; it fails with
  the report of the bare request when not even that fits. What is prepared passes the gate of
  the transport. The context size and a reservation below it are required.
\<close>

theorem prompt_budget_exactly:
  assumes "ModelIoConfig.context_tokens cfg = Some ctx" and "0 < ctx"
    and "(out, eff, th) = (case p of
       Foreground \<Rightarrow> (foreground_max_tokens cfg, foreground_reasoning_effort cfg, foreground_think cfg)
     | Sleep \<Rightarrow> (sleep_max_tokens cfg, sleep_reasoning_effort cfg, sleep_think cfg))"
    and "margin = ModelIoConfig.safety_margin cfg"
    and "0 < out" and "(ucast out :: u64) + ucast margin < ucast ctx"
  shows "prepare x jt r cfg p corr =
      (case longest_fit (\<lambda>k. report_fits (attempt x jt r corr ctx out margin k)) (length (optional r)) of
         Some i \<Rightarrow> Inr (prepared_request r p eff th
           (take i (optional r)) (rendered_messages x jt r corr (take i (optional r)))
           (attempt x jt r corr ctx out margin i))
       | None \<Rightarrow> Inl (Budget (attempt x jt r corr ctx out margin 0))) \<and>
    (\<forall>q. prepare x jt r cfg p corr = Inr q \<longrightarrow> check_prepared q)"
proof -
  let ?n = "length (optional r)"
  have "prepare x jt r cfg p corr = prepare_loop x jt r p corr ctx out margin
      eff th (take ?n (optional r)) (of_nat (?n - ?n))"
  proof -
    have "\<not> (out = 0 \<or> (ucast out :: u64) + ucast (ModelIoConfig.safety_margin cfg) \<ge> ucast ctx)"
      using assms(4-6) by (auto simp: word_gt_0)
    then show ?thesis
      using assms(1,2,4) unfolding prepare_def assms(3) [symmetric] by simp
  qed
  also note prepare_loop_exactly [OF order.refl]
  finally have eq: "prepare x jt r cfg p corr =
      (case longest_fit (\<lambda>k. report_fits (attempt x jt r corr ctx out margin k)) ?n of
         Some i \<Rightarrow> Inr (prepared_request r p eff th
           (take i (optional r)) (rendered_messages x jt r corr (take i (optional r)))
           (attempt x jt r corr ctx out margin i))
       | None \<Rightarrow> Inl (Budget (attempt x jt r corr ctx out margin 0)))" .
  moreover have "check_prepared q" if "prepare x jt r cfg p corr = Inr q" for q
    using that unfolding eq
    by (auto simp: longest_fit_Some check_prepared_def prepared_request_def attempt_def
        PromptBudget.budget_report_def report_fits_def Let_def split: option.splits)
  ultimately show ?thesis by blast
qed

definition note_item :: PromptItem where
  "note_item = \<lparr>PromptItem.value = JNumber ''1'', evidence_ids = []\<rparr>"

definition note_prompt :: RenderedPrompt where
  "note_prompt = \<lparr>system = [], required = note_item, optional = [note_item], position_ids = [],
     conflict_ids = [], revision = 1, hash = []\<rparr>"

definition note_config :: ModelIoConfig where
  "note_config = default_model_io\<lparr>ModelIoConfig.context_tokens := Some 16384\<rparr>"

theorem prompt_budget_exactly_witness:
  "check_prepared (prepared_request note_prompt Foreground ''low'' None [note_item]
     (rendered_messages blank_ext (\<lambda>v. []) note_prompt None [note_item])
     (attempt blank_ext (\<lambda>v. []) note_prompt None 16384 8192 512 1))"
proof -
  have fits: "report_fits (attempt blank_ext (\<lambda>v. []) note_prompt None 16384 8192 512 1)"
    by (simp add: attempt_def PromptBudget.budget_report_def report_fits_def estimate_def message_cost_def
        rendered_messages_def note_prompt_def saturating_add_def)
  have one: "longest_fit (\<lambda>k. report_fits (attempt blank_ext (\<lambda>v. []) note_prompt None 16384 8192 512 k))
      (length (optional note_prompt)) = Some 1"
    using fits by (simp add: note_prompt_def longest_fit_Suc longest_fit_0)
  have "ModelIoConfig.context_tokens note_config = Some 16384" "foreground_max_tokens note_config = 8192"
    "ModelIoConfig.safety_margin note_config = 512" "foreground_reasoning_effort note_config = ''low''"
    "foreground_think note_config = None"
    by (simp_all add: note_config_def default_model_io_def)
  with prompt_budget_exactly [where cfg = note_config and ctx = 16384 and p = Foreground and out = 8192
      and eff = "''low''" and th = None and margin = 512 and x = blank_ext and jt = "\<lambda>v. []"
      and r = note_prompt and corr = None] one
  show ?thesis by (simp add: note_prompt_def)
qed

section \<open>A cycle\<close>

text \<open>
  C11. Whatever other processes append or lease between any two accesses of a cycle: when the
  cycle reports a completed run, the ledger it leaves is the ledger the model's answer was
  checked against, followed at once by the cycle's own candidates and the end of its run. The
  answer was for a context of that ledger, and the cursor is where the result says. A fresh run
  was started by the last event before them, on the ledger its window was taken from.
\<close>

theorem sleep_completion_atomic:
  assumes "others_append co" and "sleep_codec co" and "sleep_serde co"
    and "db_holds (lib co) (store_codec co) db es0 s0" and "length es0 < 2 ^ 62"
    and "sleep_once co (0, db) = (Inr result, (n, db'))" and "completes result"
  shows "\<exists>es s r d ks evs s'. completed_on co es s r d ks evs s' \<and>
    db_holds (lib co) (store_codec co) db' (es @ evs) s' \<and> prefix es0 es \<and>
    SleepOnceResult.cursor_after result = Some (sleep_cursor s') \<and>
    (SleepOnceResult.status result = SleepOnceStatus.Completed \<longrightarrow> (\<exists>es1 s1 e. es = es1 @ [e] \<and>
       replay (lib co) es1 = Inr s1 \<and> sleep_run_start_ok s1 r \<and> prefix es0 es1))"
  by (rule sleep_cycle_completes [OF assms])

theorem sleep_completion_atomic_witness:
  "\<exists>es s r d ks evs s' db'. completed_on nap es s r d ks evs s' \<and>
     db_holds nap_ext nap_codec db' (es @ evs) s' \<and> prefix nap_ledger es"
proof -
  from nap_cycle obtain db' where
    run: "sleep_once nap (0, nap_db) = (Inr (result_from_run nap_end SleepOnceStatus.Completed False), (11, db'))"
    by blast
  have "others_append nap" by (rule undisturbed_append) (simp add: undisturbed_def)
  moreover have "db_holds (lib nap) (store_codec nap) nap_db nap_ledger remarked_state"
    using nap_settled by (simp add: settled_def)
  moreover have "length nap_ledger < 2 ^ 62" by (simp add: nap_ledger_def setup_events_def)
  moreover have "completes (result_from_run nap_end SleepOnceStatus.Completed False)"
    by (simp add: result_from_run_def)
  ultimately show ?thesis
    using sleep_completion_atomic [OF _ nap_sleep_codec nap_serde _ _ run]
    unfolding nap_fields by blast
qed

text \<open>
  C12. What a checked deliberation leaves is taken by the projector: with the run open, the
  context the run's and its events in the ledger, the candidates and the end of the run apply
  without a refusal and lead to the state with the candidates, the ended run and its cursor.
\<close>

theorem sleep_candidates_accepted:
  assumes "completion_events co r (completed_run co r after (length ks) report) ks = Inr es"
    and "sleep_serde co"
    and "bt_get (sleep_runs s) (SleepRun.id r) = Some r" and "SleepRun.status r = SleepRunStatus.Running"
    and "SleepContext.sleep_run_id c = SleepRun.id r"
    and "SleepContext.high_water_revision c = SleepRun.high_water_revision r"
    and "context_event_ids c \<subseteq> set (applied_events s)"
    and "validate_deliberation (lib co) cid t d c s = Inr ks"
    and "SleepRun.cursor_before r \<le> after" and "after \<le> SleepRun.high_water_revision r"
    and "completion_ids_new co s (length ks)"
  shows "apply_all (lib co) s es =
    Inr (slept_state s (completed_run co r after (length ks) report) after
      (map (SleepCoordinator.candidate_event_id co) [0..<length ks]) (done_event_id co) ks)"
  by (rule completion_accepted [OF assms])

theorem sleep_candidates_accepted_witness:
  "apply_all nap_ext napping_state
     [nap_event 85 IntegrationCandidateCreated ''candidate'', nap_event 82 SleepRunCompleted ''end''] =
   Inr napped_state"
proof -
  have ended: "completed_run nap nap_run 5 (length [nap_candidate]) nap_report = nap_end"
    by (simp add: nap_end_def completed_run_def nap_run_def make_running_run_def)
  have run: "bt_get (sleep_runs napping_state) (SleepRun.id nap_run) = Some nap_run"
    "SleepRun.status nap_run = SleepRunStatus.Running" "SleepRun.cursor_before nap_run \<le> 5"
    "5 \<le> SleepRun.high_water_revision nap_run"
    by (simp_all add: napping_state_def started_state_def nap_run_def make_running_run_def)
  have c: "SleepContext.sleep_run_id nap_context = SleepRun.id nap_run"
    "SleepContext.high_water_revision nap_context = SleepRun.high_water_revision nap_run"
    "context_event_ids nap_context \<subseteq> set (applied_events napping_state)"
    by (simp_all add: nap_context_def context_of_def sleep_anchors_def nap_run_def make_running_run_def
        context_event_ids_def remark_seed_def napping_state_def started_state_def remarked_state_def)
  have ids: "completion_ids_new nap napping_state (length [nap_candidate])"
    by (simp add: completion_ids_new_def napping_state_def started_state_def remarked_state_def setup_state_def)
  have val: "validate_deliberation (lib nap) (fresh_candidate nap) (\<lambda>i. wall_clock nap (9 + 3 * i))
      nap_answer nap_context napping_state = Inr [nap_candidate]"
    using nap_validated by simp
  have made: "completion_events nap nap_run (completed_run nap nap_run 5 (length [nap_candidate]) nap_report)
      [nap_candidate] = Inr [nap_event 85 IntegrationCandidateCreated ''candidate'',
        nap_event 82 SleepRunCompleted ''end'']"
    using nap_completion by (simp only: ended)
  from sleep_candidates_accepted [OF made nap_serde run(1,2) c val run(3,4) ids]
  show ?thesis by (simp add: ended [simplified] napped_state_def)
qed



section \<open>The pace of the workers\<close>

text \<open>
  The two workers back off alike: after the \<open>n\<close>-th consecutive failure each waits the
  initial backoff doubled \<open>n - 1\<close> times, capped at the maximum, though their loops differ.
\<close>

theorem workers_back_off_alike:
  assumes "validate_sleep_worker cfg = Inr ()" and "config_valid cfg'"
    and "SleepWorkerConfig.initial_error_backoff cfg = InitiativeWorkerConfig.initial_error_backoff cfg'"
    and "SleepWorkerConfig.max_error_backoff cfg = InitiativeWorkerConfig.max_error_backoff cfg'"
    and "SleepWorkerConfig.max_error_backoff cfg \<le> DURATION_MAX" and "n < 2 ^ 32"
  shows "sleep_worker_delays cfg 0 (replicate n (Error m)) =
      map (\<lambda>k. min (SleepWorkerConfig.initial_error_backoff cfg * 2 ^ k)
        (SleepWorkerConfig.max_error_backoff cfg)) [0..<n] \<and>
    worker_delays cfg' 0 (replicate n (InitiativeWorkerOutcome.Failed err)) =
      sleep_worker_delays cfg 0 (replicate n (Error m))"
proof -
  have le: "SleepWorkerConfig.initial_error_backoff cfg \<le> SleepWorkerConfig.max_error_backoff cfg"
    using assms(1) by (auto simp: validate_sleep_worker_def not_less split: if_splits)
  have "sleep_worker_delays cfg (of_nat k) (replicate n (Error m)) =
      map (\<lambda>k. min (SleepWorkerConfig.initial_error_backoff cfg * 2 ^ k)
        (SleepWorkerConfig.max_error_backoff cfg)) [k..<k + n]"
    if "k + n < 2 ^ 32" for k
    using that
  proof (induction n arbitrary: k)
    case (Suc n)
    have u: "unat (of_nat k :: u32) = k" using Suc.prems by (simp add: unat_of_nat)
    have "saturating_add (of_nat k :: u32) 1 = of_nat (Suc k)"
      using Suc.prems by (simp add: saturating_add_def u)
    moreover have "[k..<k + Suc n] = k # [Suc k..<Suc k + n]"
      using upt_conv_Cons [of k "k + Suc n"] by simp
    ultimately show ?case
      using Suc.IH [of "Suc k"] Suc.prems sleep_backoff_min [OF le assms(5), of "of_nat k"]
      by (simp add: u del: upt_Suc)
  qed simp
  from this [of 0] assms(6) worker_backoff_exactly [OF assms(2) _ assms(6), of err]
  show ?thesis using assms(3-5) by simp
qed

theorem workers_back_off_alike_witness:
  "sleep_worker_delays default_sleep_worker 0 (replicate 6 (Error [])) =
     map (\<lambda>k. min (30 * 10 ^ 9 * 2 ^ k) (900 * 10 ^ 9)) [0..<6]"
proof -
  have "validate_sleep_worker default_sleep_worker = Inr ()" "config_valid default_worker_config"
    "SleepWorkerConfig.max_error_backoff default_sleep_worker \<le> DURATION_MAX"
    by (simp_all add: validate_sleep_worker_def default_sleep_worker_def config_valid_def
        default_worker_config_def DURATION_MAX_def)
  from workers_back_off_alike [OF this(1,2) _ _ this(3), of 6 "[]" "[]"] show ?thesis
    by (simp add: default_sleep_worker_def default_worker_config_def)
qed

end
