(* ===== verification/ResponseProfiles.thy ===== *)
theory ResponseProfiles
  imports Payloads
begin

text \<open>
  How the user wants to be answered (\<open>src/core/response_profile.rs\<close>,
  \<open>src/runtime/response_profile.rs\<close>): a profile derived from the explicit preferences among the
  active memories. Parsing the memory's JSON and printing the hash input are serde's.
\<close>

section \<open>Data\<close>

datatype ResponseVerbosity = Compact | Balanced | Detailed

datatype ResponseStepSize = Small | Balanced | Large

datatype ProgressVisibility = Minimal | Normal | Explicit

datatype TechnicalDepth = Low | Balanced | High

datatype ResponseFormatPreference = Natural | Markdown | Structured

datatype ResponsePreferenceKey =
  Language | Verbosity | StepSize | ProgressVisibility | NextActionFirst | TechnicalDepth
| PreferredFormat

fun key_text :: "ResponsePreferenceKey \<Rightarrow> string" where
  "key_text ResponsePreferenceKey.Language = ''language''"
| "key_text ResponsePreferenceKey.Verbosity = ''verbosity''"
| "key_text ResponsePreferenceKey.StepSize = ''step_size''"
| "key_text ResponsePreferenceKey.ProgressVisibility = ''progress_visibility''"
| "key_text ResponsePreferenceKey.NextActionFirst = ''next_action_first''"
| "key_text ResponsePreferenceKey.TechnicalDepth = ''technical_depth''"
| "key_text ResponsePreferenceKey.PreferredFormat = ''preferred_format''"

text \<open>The declaration order, in which \<open>BTreeMap\<close> keeps the keys.\<close>

fun key_rank :: "ResponsePreferenceKey \<Rightarrow> nat" where
  "key_rank ResponsePreferenceKey.Language = 0"
| "key_rank ResponsePreferenceKey.Verbosity = 1"
| "key_rank ResponsePreferenceKey.StepSize = 2"
| "key_rank ResponsePreferenceKey.ProgressVisibility = 3"
| "key_rank ResponsePreferenceKey.NextActionFirst = 4"
| "key_rank ResponsePreferenceKey.TechnicalDepth = 5"
| "key_rank ResponsePreferenceKey.PreferredFormat = 6"

instantiation ResponsePreferenceKey :: linorder
begin

definition less_eq_ResponsePreferenceKey :: "ResponsePreferenceKey \<Rightarrow> ResponsePreferenceKey \<Rightarrow> bool" where
  "less_eq_ResponsePreferenceKey a b \<longleftrightarrow> key_rank a \<le> key_rank b"

definition less_ResponsePreferenceKey :: "ResponsePreferenceKey \<Rightarrow> ResponsePreferenceKey \<Rightarrow> bool" where
  "less_ResponsePreferenceKey a b \<longleftrightarrow> key_rank a < key_rank b"

instance
proof
  fix a b :: ResponsePreferenceKey
  assume "a \<le> b" and "b \<le> a"
  then have "key_rank a = key_rank b" by (simp add: less_eq_ResponsePreferenceKey_def)
  then show "a = b" by (cases a; cases b) simp_all
qed (auto simp: less_eq_ResponsePreferenceKey_def less_ResponsePreferenceKey_def)

end

datatype ResponsePreferenceScope = Principal PrincipalId

record ResponsePreferenceEvidence =
  memory_id :: MemoryId
  source_event_id :: EventId
  key :: ResponsePreferenceKey
  scope :: ResponsePreferenceScope
  memory_revision_or_version :: u64

record ResponseProfile =
  language :: "string option"
  verbosity :: ResponseVerbosity
  step_size :: ResponseStepSize
  progress_visibility :: ProgressVisibility
  next_action_first :: bool
  technical_depth :: TechnicalDepth
  preferred_format :: ResponseFormatPreference
  evidence :: "ResponsePreferenceEvidence list"
  as_of_revision :: u64
  profile_hash :: string

definition default_profile :: ResponseProfile where
  "default_profile =
     \<lparr>language = None, verbosity = ResponseVerbosity.Balanced, step_size = ResponseStepSize.Balanced,
      progress_visibility = Normal, next_action_first = False,
      technical_depth = TechnicalDepth.Balanced, preferred_format = Natural, evidence = [],
      as_of_revision = 0, profile_hash = []\<rparr>"

record ResponseProfileReport =
  considered_memories :: nat
  applied_preferences :: nat
  ignored_non_explicit :: nat
  ignored_malformed :: nat
  ignored_scope_mismatch :: nat
  conflicting_keys :: nat

datatype PreferenceValue =
    LanguageValue string
  | VerbosityValue ResponseVerbosity
  | StepSizeValue ResponseStepSize
  | ProgressVisibilityValue ProgressVisibility
  | NextActionFirstValue bool
  | TechnicalDepthValue TechnicalDepth
  | PreferredFormatValue ResponseFormatPreference

record PreferenceCandidate =
  "value" :: PreferenceValue
  evidence :: ResponsePreferenceEvidence
  source_event_sequence :: u64

section \<open>Parsing a preference\<close>

definition lookup_text :: "(string \<times> 'a) list \<Rightarrow> json \<Rightarrow> 'a option" where
  "lookup_text table v = (case v of JString t \<Rightarrow> map_of table t | _ \<Rightarrow> None)"

definition parse_verbosity :: "json \<Rightarrow> ResponseVerbosity option" where
  "parse_verbosity = lookup_text [(''compact'', Compact), (''balanced'', ResponseVerbosity.Balanced),
     (''detailed'', Detailed)]"

definition parse_step_size :: "json \<Rightarrow> ResponseStepSize option" where
  "parse_step_size = lookup_text [(''small'', Small), (''balanced'', ResponseStepSize.Balanced),
     (''large'', Large)]"

definition parse_progress_visibility :: "json \<Rightarrow> ProgressVisibility option" where
  "parse_progress_visibility = lookup_text [(''minimal'', Minimal), (''normal'', Normal),
     (''explicit'', Explicit)]"

definition parse_technical_depth :: "json \<Rightarrow> TechnicalDepth option" where
  "parse_technical_depth = lookup_text [(''low'', Low), (''balanced'', TechnicalDepth.Balanced),
     (''high'', High)]"

definition parse_format :: "json \<Rightarrow> ResponseFormatPreference option" where
  "parse_format = lookup_text [(''natural'', Natural), (''markdown'', Markdown),
     (''structured'', Structured)]"

definition ascii_alphanumeric :: "char \<Rightarrow> bool" where
  "ascii_alphanumeric c \<longleftrightarrow>
     CHR ''0'' \<le> c \<and> c \<le> CHR ''9'' \<or> CHR ''A'' \<le> c \<and> c \<le> CHR ''Z'' \<or> CHR ''a'' \<le> c \<and> c \<le> CHR ''z''"

definition parse_language :: "json \<Rightarrow> string option" where
  "parse_language v =
     (case v of
        JString t \<Rightarrow>
          (let l = trim t in
           if l = [] \<or> 35 < char_count l \<or> starts_with l ''-'' \<or> last l = CHR ''-'' \<or>
              contains l ''--'' \<or> \<not> list_all (\<lambda>c. ascii_alphanumeric c \<or> c = CHR ''-'') l
           then None else Some l)
      | _ \<Rightarrow> None)"

definition RESPONSE_PREFERENCE_SCHEMA :: string where
  "RESPONSE_PREFERENCE_SCHEMA = ''hekate.response_preference.v1''"

definition preference_value :: "string \<Rightarrow> json \<Rightarrow> (ResponsePreferenceKey \<times> PreferenceValue) option" where
  "preference_value k v =
     (if k = ''language''
      then map_option (\<lambda>l. (ResponsePreferenceKey.Language, LanguageValue l)) (parse_language v)
      else if k = ''verbosity''
      then map_option (\<lambda>l. (ResponsePreferenceKey.Verbosity, VerbosityValue l)) (parse_verbosity v)
      else if k = ''step_size''
      then map_option (\<lambda>l. (ResponsePreferenceKey.StepSize, StepSizeValue l)) (parse_step_size v)
      else if k = ''progress_visibility''
      then map_option (\<lambda>l. (ResponsePreferenceKey.ProgressVisibility, ProgressVisibilityValue l))
        (parse_progress_visibility v)
      else if k = ''next_action_first''
      then (case v of JBool b \<Rightarrow> Some (ResponsePreferenceKey.NextActionFirst, NextActionFirstValue b) | _ \<Rightarrow> None)
      else if k = ''technical_depth''
      then map_option (\<lambda>l. (ResponsePreferenceKey.TechnicalDepth, TechnicalDepthValue l))
        (parse_technical_depth v)
      else if k = ''preferred_format''
      then map_option (\<lambda>l. (ResponsePreferenceKey.PreferredFormat, PreferredFormatValue l)) (parse_format v)
      else None)"

text \<open>\<open>from_str\<close> is \<open>serde_json::from_str\<close> to a value.\<close>

definition parse_preference ::
  "(string \<Rightarrow> string + json) \<Rightarrow> string \<Rightarrow> (ResponsePreferenceKey \<times> PreferenceValue) option"
where
  "parse_preference from_str t =
     (case from_str t of
        Inr (JObject kvs) \<Rightarrow>
          if length kvs \<noteq> 3 \<or> map_of kvs ''schema'' \<noteq> Some (JString RESPONSE_PREFERENCE_SCHEMA) then None
          else
            (case (map_of kvs ''key'', map_of kvs ''value'') of
               (Some (JString k), Some v) \<Rightarrow> preference_value k v
             | _ \<Rightarrow> None)
      | _ \<Rightarrow> None)"

section \<open>Provenance\<close>

definition event_sequences :: "ExperienceEvent list \<Rightarrow> u64 \<Rightarrow> (EventId, u64) btree" where
  "event_sequences events as_of =
     foldl (\<lambda>m (i, e). bt_insert (ExperienceEvent.event_id e) (of_nat i) m) []
       (filter (\<lambda>(i, e). (of_nat i :: u64) \<le> as_of) (enumerate 1 events))"

text \<open>The event, the revision of the memory and the sequence of the event that vouch for it.\<close>

definition lifecycle_events ::
  "ActiveMemory \<Rightarrow> ExperienceEvent list \<Rightarrow> (EventId, u64) btree \<Rightarrow> (EventId \<times> u64) list"
where
  "lifecycle_events m events seqs =
     map (\<lambda>(i, e). (ExperienceEvent.event_id e, of_nat i))
       (filter (\<lambda>(i, e). bt_get seqs (ExperienceEvent.event_id e) = Some (of_nat i) \<and>
            event_kind e \<in> {MemoryPromoted, MemorySuperseded, MemoryExpired} \<and>
            map_option EntityRef.id (ExperienceEvent.subject e) = Some (uuid (ActiveMemory.id m)))
          (enumerate 1 events))"

definition provenance ::
  "ActiveMemory \<Rightarrow> ExperienceEvent list \<Rightarrow> (EventId, u64) btree \<Rightarrow> (EventId \<times> u64 \<times> u64) option"
where
  "provenance m events seqs =
     (let sources = List.map_filter (\<lambda>i. let n = unwrap_or 0 (bt_get seqs i) in
            if 0 < n then Some (i, n) else None) (ActiveMemory.source_event_ids m);
          source = max_by (\<lambda>a b. (snd a, fst a) \<le> (snd b, fst b)) sources;
          lifecycle = max_by (\<lambda>a b. snd a \<le> snd b) (lifecycle_events m events seqs) in
      case (case source of Some p \<Rightarrow> Some p | None \<Rightarrow> lifecycle) of
        None \<Rightarrow> None
      | Some p \<Rightarrow>
          Some (fst p, (case lifecycle of Some l \<Rightarrow> snd l | None \<Rightarrow> snd p), snd p))"

section \<open>Resolving\<close>

text \<open>\<open>left\<close> does not compare as greater: by revision, by sequence, then the smaller identifier wins.\<close>

definition candidate_le :: "ext \<Rightarrow> PreferenceCandidate \<Rightarrow> PreferenceCandidate \<Rightarrow> bool" where
  "candidate_le x l r =
     (let a = (memory_revision_or_version (PreferenceCandidate.evidence l), source_event_sequence l);
          b = (memory_revision_or_version (PreferenceCandidate.evidence r), source_event_sequence r) in
      if a = b
      then id_text x (memory_id (PreferenceCandidate.evidence r)) \<le>
           id_text x (memory_id (PreferenceCandidate.evidence l))
      else a \<le> b)"

fun apply_value :: "PreferenceValue \<Rightarrow> ResponseProfile \<Rightarrow> ResponseProfile" where
  "apply_value (LanguageValue v) p = p\<lparr>language := Some v\<rparr>"
| "apply_value (VerbosityValue v) p = p\<lparr>verbosity := v\<rparr>"
| "apply_value (StepSizeValue v) p = p\<lparr>step_size := v\<rparr>"
| "apply_value (ProgressVisibilityValue v) p = p\<lparr>progress_visibility := v\<rparr>"
| "apply_value (NextActionFirstValue v) p = p\<lparr>next_action_first := v\<rparr>"
| "apply_value (TechnicalDepthValue v) p = p\<lparr>technical_depth := v\<rparr>"
| "apply_value (PreferredFormatValue v) p = p\<lparr>preferred_format := v\<rparr>"

type_synonym candidate_map = "(ResponsePreferenceKey, PreferenceCandidate list) btree"

definition weigh ::
  "ext \<Rightarrow> (string \<Rightarrow> string + json) \<Rightarrow> ExperienceEvent list \<Rightarrow> (EventId, u64) btree \<Rightarrow> PrincipalId \<Rightarrow>
   ActiveMemory \<Rightarrow> candidate_map \<times> ResponseProfileReport \<Rightarrow> candidate_map \<times> ResponseProfileReport"
where
  "weigh x from_str events seqs pid m acc =
     (case acc of (cands, rep0) \<Rightarrow>
        if ActiveMemory.status m \<noteq> ActiveMemoryStatus.Active then acc
        else
          (let rep = rep0\<lparr>considered_memories := considered_memories rep0 + 1\<rparr> in
           if ActiveMemory.subject_principal_id m \<noteq> Some pid
           then (cands, rep\<lparr>ignored_scope_mismatch := ignored_scope_mismatch rep + 1\<rparr>)
           else if ActiveMemory.kind m \<noteq> MemoryKind.ExplicitPreference
           then (cands, rep\<lparr>ignored_non_explicit := ignored_non_explicit rep + 1\<rparr>)
           else
             (case (parse_preference from_str (ActiveMemory.content m), provenance m events seqs) of
                (Some (k, v), Some (src, rv, n)) \<Rightarrow>
                  (bt_insert k (unwrap_or [] (bt_get cands k) @
                     [\<lparr>PreferenceCandidate.value = v,
                       evidence = \<lparr>ResponsePreferenceEvidence.memory_id = ActiveMemory.id m,
                         source_event_id = src, key = k, scope = Principal pid,
                         memory_revision_or_version = rv\<rparr>,
                       source_event_sequence = n\<rparr>]) cands, rep)
              | _ \<Rightarrow> (cands, rep\<lparr>ignored_malformed := ignored_malformed rep + 1\<rparr>))))"

definition settle ::
  "ext \<Rightarrow> PreferenceCandidate list \<Rightarrow> ResponseProfile \<times> ResponseProfileReport \<Rightarrow>
   ResponseProfile \<times> ResponseProfileReport"
where
  "settle x options acc =
     (case acc of (p, rep) \<Rightarrow>
        (case max_by (candidate_le x) options of
           None \<Rightarrow> acc
         | Some w \<Rightarrow>
             (let q = apply_value (PreferenceCandidate.value w) p in
              (q\<lparr>ResponseProfile.evidence := ResponseProfile.evidence q @ [PreferenceCandidate.evidence w]\<rparr>,
               if 1 < length (remdups (map PreferenceCandidate.value options))
               then rep\<lparr>conflicting_keys := conflicting_keys rep + 1\<rparr> else rep))))"

definition evidence_sort_key :: "ext \<Rightarrow> ResponsePreferenceEvidence \<Rightarrow> string \<times> string \<times> string" where
  "evidence_sort_key x e =
     (key_text (key e), id_text x (memory_id e), id_text x (ResponsePreferenceEvidence.source_event_id e))"

definition empty_report :: ResponseProfileReport where
  "empty_report = \<lparr>considered_memories = 0, applied_preferences = 0, ignored_non_explicit = 0,
     ignored_malformed = 0, ignored_scope_mismatch = 0, conflicting_keys = 0\<rparr>"

text \<open>
  \<open>hash_input\<close> is the JSON of \<open>ProfileHashInput\<close>, which holds every field of the profile but the
  hash.
\<close>

definition resolve_response_profile_with_report ::
  "ext \<Rightarrow> (string \<Rightarrow> string + json) \<Rightarrow> (ResponseProfile \<Rightarrow> string + string) \<Rightarrow> CurrentState \<Rightarrow>
   ExperienceEvent list \<Rightarrow> PrincipalId \<Rightarrow> u64 \<Rightarrow> ResponseProfile \<times> ResponseProfileReport"
where
  "resolve_response_profile_with_report x from_str hash_input s events pid as_of =
     (let seqs = event_sequences events as_of;
          (cands, rep1) = fold (weigh x from_str events seqs pid) (bt_values (active_memories s))
            ([], empty_report);
          (p1, rep2) = fold (settle x) (bt_values cands)
            (default_profile\<lparr>ResponseProfile.as_of_revision := as_of\<rparr>, rep1);
          p2 = p1\<lparr>ResponseProfile.evidence := sort_key (evidence_sort_key x) (ResponseProfile.evidence p1)\<rparr> in
      (p2\<lparr>profile_hash := sha256_hex x (case hash_input p2 of Inl _ \<Rightarrow> [] | Inr bytes \<Rightarrow> bytes)\<rparr>,
       rep2\<lparr>applied_preferences := length (ResponseProfile.evidence p2)\<rparr>))"

definition resolve_response_profile ::
  "ext \<Rightarrow> (string \<Rightarrow> string + json) \<Rightarrow> (ResponseProfile \<Rightarrow> string + string) \<Rightarrow> CurrentState \<Rightarrow>
   ExperienceEvent list \<Rightarrow> PrincipalId \<Rightarrow> u64 \<Rightarrow> ResponseProfile"
where
  "resolve_response_profile x from_str hash_input s events pid as_of =
     fst (resolve_response_profile_with_report x from_str hash_input s events pid as_of)"

end
