(* ===== verification/ContextSnapshots.thy ===== *)
theory ContextSnapshots
  imports ResponseProfiles Thought Payloads
begin

text \<open>
  The snapshot that grounds a thought in the ledger (\<open>src/core/context_snapshot.rs\<close>,
  \<open>src/runtime/context_builder.rs\<close>): anchors, the compressed middle and the recent past, each
  under a byte budget, with the hash of every event they rest on. Sets are lists: the code searches
  them or goes through them in order.
\<close>

section \<open>Data\<close>

record ContextBudget =
  anchor_bytes :: nat
  middle_bytes :: nat
  active_bytes :: nat
  hard_limit_bytes :: nat

definition default_budget :: ContextBudget where
  "default_budget = \<lparr>anchor_bytes = 24 * 1024, middle_bytes = 32 * 1024, active_bytes = 48 * 1024,
     hard_limit_bytes = 104 * 1024\<rparr>"

record SnapshotBudgetReport =
  anchor_bytes :: nat
  middle_bytes :: nat
  active_bytes :: nat
  total_bytes :: nat
  included_items :: nat
  dropped_middle_items :: nat
  dropped_active_items :: nat
  hard_limit_bytes :: nat

datatype ContextItemKind =
  Identity | Policy | Focus | Relationship | Memory | Position | Conflict | Goal | Task | Run
| WorkingState | Artifact | RecentObservation | RecentEvent | Recall

record ContextItem =
  kind :: ContextItemKind
  "text" :: string
  source_event_ids :: "EventId list"
  entity :: "EntityRef option"
  as_of_revision :: u64

record ContextSourceRef =
  event_id :: EventId
  entity :: "EntityRef option"
  source_hash :: string
  as_of_revision :: u64

record ContextBuildRequest =
  principal_id :: PrincipalId
  current_observation_id :: "ObservationId option"
  relationship_id :: "RelationshipId option"
  task_id :: "TaskId option"
  run_id :: "RunId option"
  as_of_revision :: u64
  recalled :: RecallBundle
  budget :: ContextBudget

record ContextSnapshot =
  as_of_revision :: u64
  anchors :: "ContextItem list"
  compressed_middle :: "ContextItem list"
  active_recent :: "ContextItem list"
  response_profile :: ResponseProfile
  budget_report :: SnapshotBudgetReport
  source_refs :: "ContextSourceRef list"
  snapshot_hash :: string

datatype ContextBuilderError =
    AnchorBudgetExceeded nat nat
  | FutureProjection u64 u64
  | FutureEvent EventId u64 u64
  | FutureRecallSource EventId u64 u64
  | InvalidRecallAsOf EventId u64
  | FutureResponseProfile u64 u64
  | MissingSourceEvent EventId
  | SourceHashMismatch EventId
  | InvalidSourceEvent EventId string
  | MissingRequestedEntity string string
  | Serialization string

text \<open>The input of the snapshot's digest (\<open>HashInput\<close>).\<close>

record HashInput =
  as_of_revision :: u64
  anchors :: "ContextItem list"
  compressed_middle :: "ContextItem list"
  active_recent :: "ContextItem list"
  response_profile_hash :: string
  budget_report :: SnapshotBudgetReport
  source_refs :: "ContextSourceRef list"

text \<open>serde's texts and \<open>Uuid::parse_str\<close>.\<close>

record printing =
  print_lib :: ext
  payload_text :: "Recorded \<Rightarrow> string + string"
  json_text :: "json \<Rightarrow> string + string"
  kind_text :: "EventKind \<Rightarrow> string + string"
  items_text :: "ContextItem list \<Rightarrow> string + string"
  snapshot_text :: "ContextSnapshot \<Rightarrow> string + string"
  hash_text :: "HashInput \<Rightarrow> string + string"
  read_uuid :: "string \<Rightarrow> string + Uuid"
  read_json :: "string \<Rightarrow> string + json"
  profile_text :: "ResponseProfile \<Rightarrow> string + string"

section \<open>The index\<close>

type_synonym event_map = "(EventId, u64 \<times> ExperienceEvent) btree"

definition event_index :: "ExperienceEvent list \<Rightarrow> event_map" where
  "event_index events =
     foldl (\<lambda>m (i, e). bt_insert (ExperienceEvent.event_id e) (of_nat i, e) m) [] (enumerate 1 events)"

definition validate_event_hash :: "ext \<Rightarrow> EventId \<Rightarrow> ExperienceEvent \<Rightarrow> ContextBuilderError + unit" where
  "validate_event_hash x i e =
     (case verify_integrity x e of
        Inr True \<Rightarrow> Inr ()
      | Inr False \<Rightarrow> Inl (SourceHashMismatch i)
      | Inl m \<Rightarrow> Inl (InvalidSourceEvent i m))"

text \<open>An event of the index that is not newer than the request and whose hash verifies.\<close>

definition indexed ::
  "ext \<Rightarrow> u64 \<Rightarrow> event_map \<Rightarrow> EventId \<Rightarrow> ContextBuilderError + u64 \<times> ExperienceEvent"
where
  "indexed x as_of index i =
     (case bt_get index i of
        None \<Rightarrow> Inl (MissingSourceEvent i)
      | Some (n, e) \<Rightarrow>
          if n > as_of then Inl (FutureEvent i n as_of)
          else res_bind (validate_event_hash x i e) (\<lambda>_. Inr (n, e)))"

fun sequenced_sources ::
  "ext \<Rightarrow> u64 \<Rightarrow> event_map \<Rightarrow> EventId list \<Rightarrow> ContextBuilderError + (u64 \<times> EventId) list"
where
  "sequenced_sources x as_of index [] = Inr []"
| "sequenced_sources x as_of index (i # is) =
     res_bind (indexed x as_of index i) (\<lambda>(n, e).
     res_bind (sequenced_sources x as_of index is) (\<lambda>ps. Inr ((n, i) # ps)))"

definition by_sequence :: "ext \<Rightarrow> (u64 \<times> EventId) list \<Rightarrow> EventId list" where
  "by_sequence x ps = map snd (sort_key (\<lambda>(n, i). (n, id_text x i)) ps)"

definition validated_sources ::
  "ext \<Rightarrow> EventId list \<Rightarrow> u64 \<Rightarrow> event_map \<Rightarrow> ContextBuilderError + EventId list"
where
  "validated_sources x ids as_of index =
     res_bind (sequenced_sources x as_of index (sort (remdups ids))) (\<lambda>ps. Inr (by_sequence x ps))"

definition subject_sources :: "ext \<Rightarrow> event_map \<Rightarrow> EntityRef \<Rightarrow> u64 \<Rightarrow> EventId list" where
  "subject_sources x index r as_of =
     by_sequence x (map (\<lambda>(n, e). (n, ExperienceEvent.event_id e))
       (filter (\<lambda>(n, e). n \<le> as_of \<and> ExperienceEvent.subject e = Some r) (bt_values index)))"

definition source_revision :: "EventId list \<Rightarrow> event_map \<Rightarrow> u64" where
  "source_revision ids index =
     foldr max (List.map_filter (\<lambda>i. map_option fst (bt_get index i)) ids) 0"

definition ledger_hash :: "ext \<Rightarrow> EventId \<Rightarrow> u64 \<Rightarrow> event_map \<Rightarrow> ContextBuilderError + string" where
  "ledger_hash x i as_of index =
     res_bind (indexed x as_of index i) (\<lambda>(n, e). map_err (InvalidSourceEvent i) (canonical_hash x e))"

section \<open>Who and what the request is about\<close>

definition first_hekate :: "CurrentState \<Rightarrow> PrincipalId option" where
  "first_hekate s =
     map_option Principal.id (find (\<lambda>p. Principal.kind p = PrincipalKind.Hekate) (bt_values (principals s)))"

definition relevant_principal_ids :: "CurrentState \<Rightarrow> PrincipalId \<Rightarrow> PrincipalId list" where
  "relevant_principal_ids s pid = pid # (case first_hekate s of None \<Rightarrow> [] | Some h \<Rightarrow> [h])"

definition requested ::
  "ext \<Rightarrow> string \<Rightarrow> ('e Id, 'v) btree \<Rightarrow> 'e Id option \<Rightarrow> ContextBuilderError + 'v option"
where
  "requested x k m oid =
     (case oid of
        None \<Rightarrow> Inr None
      | Some i \<Rightarrow>
          (case bt_get m i of None \<Rightarrow> Inl (MissingRequestedEntity k (id_text x i)) | Some v \<Rightarrow> Inr (Some v)))"

definition requested_relationship ::
  "ext \<Rightarrow> CurrentState \<Rightarrow> ContextBuildRequest \<Rightarrow> ContextBuilderError + Relationship option"
where
  "requested_relationship x s rq =
     (if ContextBuildRequest.relationship_id rq \<noteq> None
      then requested x ''relationship'' (relationships s) (ContextBuildRequest.relationship_id rq)
      else Inr (find (\<lambda>r. ContextBuildRequest.principal_id rq \<in> set (Relationship.participants r) \<and>
            (case first_hekate s of None \<Rightarrow> True | Some h \<Rightarrow> h \<in> set (Relationship.participants r)))
          (bt_values (relationships s))))"

definition request_focus_ids :: "ContextBuildRequest \<Rightarrow> Uuid list" where
  "request_focus_ids rq =
     (case ContextBuildRequest.relationship_id rq of None \<Rightarrow> [] | Some i \<Rightarrow> [uuid i]) @
     (case ContextBuildRequest.task_id rq of None \<Rightarrow> [] | Some i \<Rightarrow> [uuid i]) @
     (case ContextBuildRequest.run_id rq of None \<Rightarrow> [] | Some i \<Rightarrow> [uuid i])"

definition focus_ids :: "CurrentState \<Rightarrow> ContextBuildRequest \<Rightarrow> Uuid list" where
  "focus_ids s rq =
     request_focus_ids rq @
     (case Option.bind (ContextBuildRequest.task_id rq) (bt_get (tasks s)) of
        None \<Rightarrow> []
      | Some t \<Rightarrow> uuid (Task.id t) # (case Task.goal_id t of None \<Rightarrow> [] | Some g \<Rightarrow> [uuid g])) @
     (case Option.bind (ContextBuildRequest.run_id rq) (bt_get (runs s)) of
        None \<Rightarrow> []
      | Some r \<Rightarrow> uuid (Run.id r) # (case Run.task_id r of None \<Rightarrow> [] | Some t \<Rightarrow> [uuid t]))"

definition event_matches_focus :: "printing \<Rightarrow> ExperienceEvent \<Rightarrow> Uuid list \<Rightarrow> bool" where
  "event_matches_focus pr e ids \<longleftrightarrow>
     is_some_and (ExperienceEvent.subject e) (\<lambda>r. EntityRef.id r \<in> set ids) \<or>
     is_some_and (correlation_id e)
       (\<lambda>t. case read_uuid pr t of Inl _ \<Rightarrow> False | Inr u \<Rightarrow> u \<in> set ids)"

section \<open>Anchors\<close>

fun item_kind_debug :: "ContextItemKind \<Rightarrow> string" where
  "item_kind_debug ContextItemKind.Identity = ''Identity''"
| "item_kind_debug ContextItemKind.Policy = ''Policy''"
| "item_kind_debug ContextItemKind.Focus = ''Focus''"
| "item_kind_debug ContextItemKind.Relationship = ''Relationship''"
| "item_kind_debug ContextItemKind.Memory = ''Memory''"
| "item_kind_debug ContextItemKind.Position = ''Position''"
| "item_kind_debug ContextItemKind.Conflict = ''Conflict''"
| "item_kind_debug ContextItemKind.Goal = ''Goal''"
| "item_kind_debug ContextItemKind.Task = ''Task''"
| "item_kind_debug ContextItemKind.Run = ''Run''"
| "item_kind_debug ContextItemKind.WorkingState = ''WorkingState''"
| "item_kind_debug ContextItemKind.Artifact = ''Artifact''"
| "item_kind_debug ContextItemKind.RecentObservation = ''RecentObservation''"
| "item_kind_debug ContextItemKind.RecentEvent = ''RecentEvent''"
| "item_kind_debug ContextItemKind.Recall = ''Recall''"

fun entity_kind_debug :: "EntityKind \<Rightarrow> string" where
  "entity_kind_debug EntityKind.Principal = ''Principal''"
| "entity_kind_debug EntityKind.IdentityVersion = ''IdentityVersion''"
| "entity_kind_debug EntityKind.Relationship = ''Relationship''"
| "entity_kind_debug EntityKind.Observation = ''Observation''"
| "entity_kind_debug EntityKind.Goal = ''Goal''"
| "entity_kind_debug EntityKind.Task = ''Task''"
| "entity_kind_debug EntityKind.Run = ''Run''"
| "entity_kind_debug EntityKind.WorkingState = ''WorkingState''"
| "entity_kind_debug EntityKind.Decision = ''Decision''"
| "entity_kind_debug EntityKind.Position = ''Position''"
| "entity_kind_debug EntityKind.Conflict = ''Conflict''"
| "entity_kind_debug EntityKind.Commitment = ''Commitment''"
| "entity_kind_debug EntityKind.ActionIntent = ''ActionIntent''"
| "entity_kind_debug EntityKind.Operation = ''Operation''"
| "entity_kind_debug EntityKind.Approval = ''Approval''"
| "entity_kind_debug EntityKind.Receipt = ''Receipt''"
| "entity_kind_debug EntityKind.Verification = ''Verification''"
| "entity_kind_debug EntityKind.MemoryCandidate = ''MemoryCandidate''"
| "entity_kind_debug EntityKind.Memory = ''Memory''"
| "entity_kind_debug EntityKind.Attempt = ''Attempt''"
| "entity_kind_debug EntityKind.Artifact = ''Artifact''"
| "entity_kind_debug EntityKind.SleepRun = ''SleepRun''"
| "entity_kind_debug EntityKind.IntegrationCandidate = ''IntegrationCandidate''"
| "entity_kind_debug EntityKind.CompletionCriterion = ''CompletionCriterion''"
| "entity_kind_debug EntityKind.CompletionClaim = ''CompletionClaim''"
| "entity_kind_debug EntityKind.Initiative = ''Initiative''"


definition entity_key :: "ext \<Rightarrow> EntityRef \<Rightarrow> string" where
  "entity_key x r = entity_kind_debug (EntityRef.kind r) @ '':'' @ uuid_text x (EntityRef.id r)"

definition anchor_key :: "ext \<Rightarrow> ContextItem \<Rightarrow> string" where
  "anchor_key x item =
     item_kind_debug (ContextItem.kind item) @ '':'' @
     (case ContextItem.entity item of None \<Rightarrow> [] | Some r \<Rightarrow> entity_key x r)"

text \<open>\<open>push_anchor\<close>: the first item of a kind and entity stays.\<close>

definition push_anchor :: "ext \<Rightarrow> ContextItem list \<Rightarrow> ContextItem \<Rightarrow> ContextItem list" where
  "push_anchor x its item =
     (if anchor_key x item \<in> set (map (anchor_key x) its) then its else its @ [item])"

definition stance_text :: "Stance \<Rightarrow> string" where
  "stance_text st =
     (case st of Support \<Rightarrow> ''support'' | Oppose \<Rightarrow> ''oppose'' | Uncertain \<Rightarrow> ''uncertain''
      | Neutral \<Rightarrow> ''neutral'')"

definition position_text :: "Position \<Rightarrow> string" where
  "position_text p =
     ''subject: '' @ Position.subject p @ [CHR 0x0A] @ ''stance: '' @ stance_text (Position.stance p) @
     [CHR 0x0A] @ ''reasons:'' @ [CHR 0x0A] @
     join [CHR 0x0A] (map (\<lambda>r. ''- '' @ r) (Position.reasons p))"

text \<open>An item on an entity: the events on it and \<open>extra\<close> are its sources, checked before the text.\<close>

definition entity_item ::
  "printing \<Rightarrow> event_map \<Rightarrow> u64 \<Rightarrow> ContextItemKind \<Rightarrow> EntityRef \<Rightarrow> EventId list \<Rightarrow>
   string + string \<Rightarrow> ContextBuilderError + ContextItem"
where
  "entity_item pr index as_of k r extra txt =
     res_bind (validated_sources (print_lib pr) (extra @ subject_sources (print_lib pr) index r as_of) as_of index)
       (\<lambda>sources.
     res_bind (map_err ContextBuilderError.Serialization txt) (\<lambda>t.
     Inr \<lparr>ContextItem.kind = k, text = t, source_event_ids = sources, entity = Some r,
          as_of_revision = as_of\<rparr>))"

abbreviation entity_ref :: "EntityKind \<Rightarrow> 'e Id \<Rightarrow> EntityRef" where
  "entity_ref k i \<equiv> \<lparr>EntityRef.kind = k, id = uuid i\<rparr>"

definition optional_item ::
  "('v \<Rightarrow> ContextBuilderError + ContextItem) \<Rightarrow> 'v option \<Rightarrow> ContextBuilderError + ContextItem list"
where
  "optional_item f ov =
     (case ov of None \<Rightarrow> Inr [] | Some v \<Rightarrow> res_bind (f v) (\<lambda>item. Inr [item]))"

fun all_items ::
  "('v \<Rightarrow> ContextBuilderError + ContextItem) \<Rightarrow> 'v list \<Rightarrow> ContextBuilderError + ContextItem list"
where
  "all_items f [] = Inr []"
| "all_items f (v # vs) = res_bind (f v) (\<lambda>item. res_bind (all_items f vs) (\<lambda>its. Inr (item # its)))"

definition anchor_identity :: "CurrentState \<Rightarrow> ContextBuildRequest \<Rightarrow> IdentityVersion option" where
  "anchor_identity s rq =
     (case hekate_identity s of
        Some v \<Rightarrow> Some v
      | None \<Rightarrow>
          Option.bind (bt_get (principals s) (ContextBuildRequest.principal_id rq)) (\<lambda>p.
          Option.bind (Principal.identity_version_id p) (bt_get (identity_versions s))))"

definition identity_anchors ::
  "printing \<Rightarrow> event_map \<Rightarrow> u64 \<Rightarrow> IdentityVersion option \<Rightarrow> ContextBuilderError + ContextItem list"
where
  "identity_anchors pr index as_of oi =
     (case oi of
        None \<Rightarrow> Inr []
      | Some v \<Rightarrow>
          res_bind (entity_item pr index as_of ContextItemKind.Identity
            (entity_ref EntityKind.IdentityVersion (IdentityVersion.id v)) []
            (payload_text pr (IdentityPayload v))) (\<lambda>item.
          res_bind (map_err ContextBuilderError.Serialization (json_text pr
            (JObject [(''boundaries'', JArray (map JString (IdentityVersion.boundaries v))),
               (''values'', JArray (map JString (IdentityVersion.values v)))]))) (\<lambda>t.
          Inr [item, item\<lparr>ContextItem.kind := ContextItemKind.Policy, ContextItem.text := t, ContextItem.entity := None\<rparr>])))"

definition focus_json :: "ext \<Rightarrow> Goal option \<Rightarrow> Task option \<Rightarrow> Run option \<Rightarrow> json" where
  "focus_json x g t r =
     (let opt = (\<lambda>v. case v of None \<Rightarrow> JNull | Some u \<Rightarrow> JString u) in
      JObject [(''goal_id'', opt (map_option (id_text x \<circ> Goal.id) g)),
        (''run_id'', opt (map_option (id_text x \<circ> Run.id) r)),
        (''task_id'', opt (map_option (id_text x \<circ> Task.id) t))])"

definition focus_anchors ::
  "printing \<Rightarrow> CurrentState \<Rightarrow> ContextBuildRequest \<Rightarrow> u64 \<Rightarrow> event_map \<Rightarrow>
   ContextBuilderError + ContextItem list"
where
  "focus_anchors pr s rq as_of index =
     res_bind (requested (print_lib pr) ''run'' (runs s) (ContextBuildRequest.run_id rq)) (\<lambda>r.
     let tid = (case ContextBuildRequest.task_id rq of Some t \<Rightarrow> Some t | None \<Rightarrow> Option.bind r Run.task_id) in
     res_bind (requested (print_lib pr) ''task'' (tasks s) tid) (\<lambda>t.
     let g = Option.bind (Option.bind t Task.goal_id) (bt_get (goals s));
         w = Option.bind r (\<lambda>r. bt_get (working_states s) (Run.id r)) in
     res_bind (optional_item (\<lambda>g. entity_item pr index as_of ContextItemKind.Goal
       (entity_ref EntityKind.Goal (Goal.id g)) [] (payload_text pr (GoalPayload g))) g) (\<lambda>is1.
     res_bind (optional_item (\<lambda>t. entity_item pr index as_of ContextItemKind.Task
       (entity_ref EntityKind.Task (Task.id t)) [] (payload_text pr (TaskPayload t))) t) (\<lambda>is2.
     res_bind (optional_item (\<lambda>r. entity_item pr index as_of ContextItemKind.Run
       (entity_ref EntityKind.Run (Run.id r)) [] (payload_text pr (RunPayload r))) r) (\<lambda>is3.
     res_bind (optional_item (\<lambda>w. entity_item pr index as_of ContextItemKind.WorkingState
       (entity_ref EntityKind.WorkingState (WorkingState.id w)) []
       (payload_text pr (WorkingStatePayload w))) w) (\<lambda>is4.
     let its = is1 @ is2 @ is3 @ is4 in
     if g = None \<and> t = None \<and> r = None then Inr its
     else
       res_bind (validated_sources (print_lib pr) (concat (map ContextItem.source_event_ids its)) as_of index)
         (\<lambda>sources.
       res_bind (map_err ContextBuilderError.Serialization (json_text pr (focus_json (print_lib pr) g t r))) (\<lambda>txt.
       Inr (its @ [\<lparr>ContextItem.kind = ContextItemKind.Focus, text = txt, source_event_ids = sources,
         entity = None, as_of_revision = as_of\<rparr>])))))))))"

definition anchor_positions :: "CurrentState \<Rightarrow> ContextBuildRequest \<Rightarrow> Position list" where
  "anchor_positions s rq =
     filter (\<lambda>p. Position.principal_id p \<in> set (relevant_principal_ids s (ContextBuildRequest.principal_id rq)) \<and>
         Position.status p = PositionStatus.Active) (bt_values (CurrentState.positions s))"

definition anchor_conflicts ::
  "CurrentState \<Rightarrow> ContextBuildRequest \<Rightarrow> Relationship option \<Rightarrow> Conflict list"
where
  "anchor_conflicts s rq rel =
     filter (\<lambda>c. Conflict.status c \<in> {ConflictStatus.Open, ConflictStatus.Negotiating} \<and>
         (is_some_and rel (\<lambda>r. Conflict.id c \<in> set (unresolved_conflicts r)) \<or>
          (\<exists>i \<in> set (participant_positions c). i \<in> set (map Position.id (anchor_positions s rq))) \<or>
          rel = None))
       (bt_values (CurrentState.conflicts s))"

definition build_anchors ::
  "printing \<Rightarrow> CurrentState \<Rightarrow> ContextBuildRequest \<Rightarrow> u64 \<Rightarrow> event_map \<Rightarrow>
   ContextBuilderError + ContextItem list"
where
  "build_anchors pr s rq as_of index =
     res_bind (identity_anchors pr index as_of (anchor_identity s rq)) (\<lambda>is1.
     res_bind (requested_relationship (print_lib pr) s rq) (\<lambda>rel.
     res_bind (optional_item (\<lambda>r. entity_item pr index as_of ContextItemKind.Relationship
       (entity_ref EntityKind.Relationship (Relationship.id r)) []
       (payload_text pr (RelationshipPayload r))) rel) (\<lambda>is2.
     res_bind (focus_anchors pr s rq as_of index) (\<lambda>is3.
     res_bind (all_items (\<lambda>p. entity_item pr index as_of ContextItemKind.Position
       (entity_ref EntityKind.Position (Position.id p)) (Position.evidence_refs p)
       (Inr (position_text p))) (anchor_positions s rq)) (\<lambda>is4.
     res_bind (all_items (\<lambda>c. entity_item pr index as_of ContextItemKind.Conflict
       (entity_ref EntityKind.Conflict (Conflict.id c)) (Conflict.evidence_refs c)
       (payload_text pr (ConflictPayload c))) (anchor_conflicts s rq rel)) (\<lambda>is5.
     Inr (foldl (push_anchor (print_lib pr)) [] (is1 @ is2 @ is3 @ is4 @ is5))))))))"

section \<open>The compressed middle\<close>

record MiddleCandidate =
  item :: ContextItem
  authority :: nat
  scope :: nat
  revision :: u64
  relevance :: nat
  key :: string

fun memory_authority :: "MemoryKind \<Rightarrow> nat" where
  "memory_authority ExplicitPreference = 5"
| "memory_authority VerifiedFact = 4"
| "memory_authority Lesson = 3"
| "memory_authority Episode = 2"
| "memory_authority InferredPreference = 1"

definition text_relevance :: "ext \<Rightarrow> string \<Rightarrow> Uuid list \<Rightarrow> nat" where
  "text_relevance x t ids = (if list_ex (\<lambda>u. contains t (uuid_text x u)) ids then 1 else 0)"

fun all_candidates ::
  "('v \<Rightarrow> ContextBuilderError + MiddleCandidate option) \<Rightarrow> 'v list \<Rightarrow>
   ContextBuilderError + MiddleCandidate list"
where
  "all_candidates f [] = Inr []"
| "all_candidates f (v # vs) =
     res_bind (f v) (\<lambda>oc.
     res_bind (all_candidates f vs) (\<lambda>cs.
     Inr (case oc of None \<Rightarrow> cs | Some c \<Rightarrow> c # cs)))"

definition memory_candidate ::
  "printing \<Rightarrow> CurrentState \<Rightarrow> ContextBuildRequest \<Rightarrow> u64 \<Rightarrow> event_map \<Rightarrow> ActiveMemory \<Rightarrow>
   ContextBuilderError + MiddleCandidate option"
where
  "memory_candidate pr s rq as_of index m =
     (let pids = relevant_principal_ids s (ContextBuildRequest.principal_id rq) in
      if ActiveMemory.status m \<noteq> ActiveMemoryStatus.Active \<or>
         is_some_and (ActiveMemory.subject_principal_id m) (\<lambda>i. i \<notin> set pids) \<or>
         ActiveMemory.source_event_ids m = []
      then Inr None
      else
        res_bind (validated_sources (print_lib pr) (ActiveMemory.source_event_ids m) as_of index) (\<lambda>sources.
        Inr (Some
          \<lparr>MiddleCandidate.item = \<lparr>ContextItem.kind = ContextItemKind.Memory,
             text = ActiveMemory.content m, source_event_ids = sources,
             entity = Some (entity_ref EntityKind.Memory (ActiveMemory.id m)), as_of_revision = as_of\<rparr>,
           authority = memory_authority (ActiveMemory.kind m),
           scope = (if ActiveMemory.subject_principal_id m = Some (ContextBuildRequest.principal_id rq)
                    then 1 else 0),
           revision = source_revision sources index, relevance = 0,
           key = id_text (print_lib pr) (ActiveMemory.id m)\<rparr>)))"

definition old_position_candidate ::
  "printing \<Rightarrow> CurrentState \<Rightarrow> ContextBuildRequest \<Rightarrow> u64 \<Rightarrow> event_map \<Rightarrow> Position \<Rightarrow>
   ContextBuilderError + MiddleCandidate option"
where
  "old_position_candidate pr s rq as_of index p =
     (if Position.principal_id p \<notin> set (relevant_principal_ids s (ContextBuildRequest.principal_id rq)) \<or>
         Position.status p = PositionStatus.Active
      then Inr None
      else
        res_bind (entity_item pr index as_of ContextItemKind.Position
          (entity_ref EntityKind.Position (Position.id p)) (Position.evidence_refs p)
          (Inr (position_text p))) (\<lambda>it.
        Inr (if ContextItem.source_event_ids it = [] then None
          else Some
            \<lparr>MiddleCandidate.item = it, authority = 3, scope = 1,
             revision = ucast (Position.version p),
             relevance = text_relevance (print_lib pr) (Position.subject p) (focus_ids s rq),
             key = id_text (print_lib pr) (Position.id p)\<rparr>)))"

definition artifact_candidate ::
  "printing \<Rightarrow> CurrentState \<Rightarrow> ContextBuildRequest \<Rightarrow> u64 \<Rightarrow> event_map \<Rightarrow> Artifact \<Rightarrow>
   ContextBuilderError + MiddleCandidate option"
where
  "artifact_candidate pr s rq as_of index a =
     (case bt_get index (provenance_event_id a) of
        None \<Rightarrow> Inr None
      | Some (n, e) \<Rightarrow>
          if \<not> event_matches_focus pr e (focus_ids s rq) then Inr None
          else
            res_bind (validated_sources (print_lib pr) [provenance_event_id a] as_of index) (\<lambda>sources.
            res_bind (map_err ContextBuilderError.Serialization (payload_text pr (ArtifactPayload a))) (\<lambda>t.
            Inr (Some
              \<lparr>MiddleCandidate.item = \<lparr>ContextItem.kind = ContextItemKind.Artifact, text = t,
                 source_event_ids = sources,
                 entity = Some (entity_ref EntityKind.Artifact (Artifact.id a)), as_of_revision = as_of\<rparr>,
               authority = 2, scope = 1, revision = source_revision sources index, relevance = 2,
               key = id_text (print_lib pr) (Artifact.id a)\<rparr>))))"

definition middle_order :: "MiddleCandidate \<Rightarrow> int \<times> int \<times> int \<times> int \<times> string" where
  "middle_order c =
     (- int (authority c), - int (MiddleCandidate.scope c), - uint (MiddleCandidate.revision c),
      - int (relevance c), MiddleCandidate.key c)"

definition build_middle ::
  "printing \<Rightarrow> CurrentState \<Rightarrow> ContextBuildRequest \<Rightarrow> u64 \<Rightarrow> event_map \<Rightarrow>
   ContextBuilderError + MiddleCandidate list"
where
  "build_middle pr s rq as_of index =
     res_bind (all_candidates (memory_candidate pr s rq as_of index) (bt_values (active_memories s))) (\<lambda>ms.
     res_bind (all_candidates (old_position_candidate pr s rq as_of index)
       (bt_values (CurrentState.positions s))) (\<lambda>ps.
     res_bind (all_candidates (artifact_candidate pr s rq as_of index)
       (bt_values (CurrentState.artifacts s))) (\<lambda>as.
     Inr (sort_key middle_order (ms @ ps @ as)))))"

section \<open>The recent past\<close>

definition change_kinds :: "EventKind list" where
  "change_kinds = [DecisionCreated, PositionEstablished, PositionMaintained, PositionRevised,
     PositionRetracted, PositionRecorded, ConflictOpened, ConflictUpdated, ConflictResolved,
     ConflictRecorded]"

definition recent_kinds :: "EventKind list" where
  "recent_kinds = [ObservationRecorded, UserMessageReceived, FocusResolved, DecisionCreated,
     PositionEstablished, PositionMaintained, PositionRevised, PositionRetracted, PositionRecorded,
     ConflictOpened, ConflictUpdated, ConflictResolved, ConflictRecorded, RunStarted, RunSuspended,
     RunCompleted, WorkingStateUpdated, ArtifactCreated, ResponseProduced]"

definition RECENT_EVENT_WINDOW :: u64 where "RECENT_EVENT_WINDOW = 20"

definition change_key :: "ext \<Rightarrow> ExperienceEvent \<Rightarrow> string" where
  "change_key x e =
     (case ExperienceEvent.subject e of
        Some r \<Rightarrow> entity_key x r
      | None \<Rightarrow> id_text x (ExperienceEvent.event_id e))"

definition latest_changes :: "ext \<Rightarrow> u64 \<Rightarrow> event_map \<Rightarrow> (string, u64) btree" where
  "latest_changes x as_of index =
     foldl (\<lambda>m (n, e).
         if n > as_of \<or> event_kind e \<notin> set change_kinds then m
         else bt_insert (change_key x e)
           (case bt_get m (change_key x e) of None \<Rightarrow> n | Some l \<Rightarrow> max l n) m)
       [] (bt_values index)"

definition recent_start :: "u64 \<Rightarrow> u64" where
  "recent_start as_of =
     (let w = RECENT_EVENT_WINDOW - 1 in max (if as_of \<ge> w then as_of - w else 0) 1)"

definition recent_enough ::
  "printing \<Rightarrow> ContextBuildRequest \<Rightarrow> u64 \<Rightarrow> event_map \<Rightarrow> u64 \<times> ExperienceEvent \<Rightarrow> bool"
where
  "recent_enough pr rq as_of index p =
     (case p of (n, e) \<Rightarrow>
        let ids = request_focus_ids rq; texts = map (uuid_text (print_lib pr)) ids in
        n \<le> as_of \<and> event_kind e \<in> set recent_kinds \<and>
        (n \<ge> recent_start as_of \<or>
         bt_get (latest_changes (print_lib pr) as_of index) (change_key (print_lib pr) e) = Some n \<or>
         event_matches_focus pr e ids \<or>
         is_some_and (correlation_id e) (\<lambda>t. t \<in> set texts) \<or>
         is_some_and (ExperienceEvent.subject e) (\<lambda>r. uuid_text (print_lib pr) (EntityRef.id r) \<in> set texts)))"

definition on_current_observation :: "ContextBuildRequest \<Rightarrow> ExperienceEvent \<Rightarrow> bool" where
  "on_current_observation rq e =
     is_some_and (current_observation_id rq) (\<lambda>i. ExperienceEvent.subject e =
       Some (entity_ref EntityKind.Observation i))"

definition selected_events ::
  "printing \<Rightarrow> ContextBuildRequest \<Rightarrow> u64 \<Rightarrow> event_map \<Rightarrow> ExperienceEvent list"
where
  "selected_events pr rq as_of index =
     map snd (sort_key (\<lambda>(n, e). (n, id_text (print_lib pr) (ExperienceEvent.event_id e)))
       (filter (\<lambda>p. recent_enough pr rq as_of index p \<and> \<not> on_current_observation rq (snd p))
         (bt_values index)))"

definition recent_event_fields ::
  "printing \<Rightarrow> ExperienceEvent \<Rightarrow> ContextBuilderError + ContextItemKind \<times> EntityRef option \<times> string"
where
  "recent_event_fields pr e =
     (let seen = event_kind e \<in> {ObservationRecorded, UserMessageReceived};
          printed =
            res_bind (map_err ContextBuilderError.Serialization (kind_text pr (event_kind e))) (\<lambda>k.
            res_bind (map_err ContextBuilderError.Serialization (json_text pr (payload e))) (\<lambda>v.
            Inr (if seen then ContextItemKind.RecentObservation else ContextItemKind.RecentEvent,
                 ExperienceEvent.subject e, ''event='' @ k @ '' payload='' @ v))) in
      if seen
      then
        (case de_observation (print_lib pr) (payload e) of
           Inl _ \<Rightarrow> printed
         | Inr obs \<Rightarrow>
             Inr (ContextItemKind.RecentObservation,
               Some (unwrap_or (entity_ref EntityKind.Observation (Observation.id obs))
                 (ExperienceEvent.subject e)),
               Observation.content obs))
      else printed)"

fun recent_items ::
  "printing \<Rightarrow> u64 \<Rightarrow> event_map \<Rightarrow> ExperienceEvent list \<Rightarrow> ContextBuilderError + ContextItem list"
where
  "recent_items pr as_of index [] = Inr []"
| "recent_items pr as_of index (e # es) =
     res_bind (validated_sources (print_lib pr) [ExperienceEvent.event_id e] as_of index) (\<lambda>sources.
     res_bind (recent_event_fields pr e) (\<lambda>(k, r, t).
     res_bind (recent_items pr as_of index es) (\<lambda>its.
     Inr (\<lparr>ContextItem.kind = k, text = t, source_event_ids = sources, entity = r,
           as_of_revision = as_of\<rparr> # its))))"

text \<open>A recalled item must name an event of the ledger as it is.\<close>

definition check_recalled ::
  "ext \<Rightarrow> u64 \<Rightarrow> event_map \<Rightarrow> RecalledItem \<Rightarrow> ContextBuilderError + unit"
where
  "check_recalled x as_of index r =
     (let i = RecalledItem.source_event_id r in
      case bt_get index i of
        None \<Rightarrow> Inl (MissingSourceEvent i)
      | Some (n, e) \<Rightarrow>
          if n > as_of then Inl (FutureRecallSource i n as_of)
          else
            res_bind (validate_event_hash x i e) (\<lambda>_.
            if as_of_sequence r < n \<or> as_of_sequence r > as_of
            then Inl (InvalidRecallAsOf i (as_of_sequence r))
            else
              res_bind (map_err (InvalidSourceEvent i) (canonical_hash x e)) (\<lambda>h.
              if RecalledItem.source_hash r \<noteq> h then Inl (SourceHashMismatch i) else Inr ())))"

fun best_recalled ::
  "ext \<Rightarrow> u64 \<Rightarrow> event_map \<Rightarrow> EventId list \<Rightarrow> (EventId, RecalledItem) btree \<Rightarrow> RecalledItem list \<Rightarrow>
   ContextBuilderError + (EventId, RecalledItem) btree"
where
  "best_recalled x as_of index present m [] = Inr m"
| "best_recalled x as_of index present m (r # rs) =
     res_bind (check_recalled x as_of index r) (\<lambda>_.
     best_recalled x as_of index present
       (let i = RecalledItem.source_event_id r in
        if i \<in> set present \<or> \<not> f32_finite (RecalledItem.score r) then m
        else
          (case bt_get m i of
             None \<Rightarrow> bt_insert i r m
           | Some old \<Rightarrow>
               if f32_total (RecalledItem.score r) > f32_total (RecalledItem.score old)
               then bt_insert i r m else m)) rs)"

definition recall_item :: "u64 \<Rightarrow> RecalledItem \<Rightarrow> EventId list \<Rightarrow> ContextItem" where
  "recall_item as_of r sources =
     \<lparr>ContextItem.kind = ContextItemKind.Recall,
      text = ''[untrusted historical evidence] '' @ RecalledItem.text r,
      source_event_ids = sources, entity = Some (RecalledItem.entity r), as_of_revision = as_of\<rparr>"

definition build_active_recent ::
  "printing \<Rightarrow> ContextBuildRequest \<Rightarrow> u64 \<Rightarrow> event_map \<Rightarrow> ContextBuilderError + ContextItem list"
where
  "build_active_recent pr rq as_of index =
     (let events = selected_events pr rq as_of index in
      res_bind (recent_items pr as_of index events) (\<lambda>is1.
      res_bind (best_recalled (print_lib pr) as_of index (map ExperienceEvent.event_id events) []
        (RecallBundle.items (recalled rq))) (\<lambda>m.
      res_bind (all_items (\<lambda>r.
          res_bind (validated_sources (print_lib pr) [RecalledItem.source_event_id r] as_of index) (\<lambda>sources.
          Inr (recall_item as_of r sources)))
        (sort_key (\<lambda>r. (- f32_total (RecalledItem.score r),
             id_text (print_lib pr) (RecalledItem.source_event_id r))) (bt_values m))) (\<lambda>is2.
      Inr (is1 @ is2)))))"

section \<open>Budgets\<close>

definition text_length :: "string + string \<Rightarrow> ContextBuilderError + nat" where
  "text_length t = map_err ContextBuilderError.Serialization (res_bind t (\<lambda>t. Inr (length t)))"

text \<open>An item that would exceed the budget is left out; later and smaller ones may still fit.\<close>

fun select_by_budget ::
  "(ContextItem list \<Rightarrow> string + string) \<Rightarrow> nat \<Rightarrow> ContextItem list \<Rightarrow> nat \<Rightarrow> ContextItem list \<Rightarrow>
   ContextBuilderError + ContextItem list \<times> nat"
where
  "select_by_budget txt limit kept dropped [] = Inr (kept, dropped)"
| "select_by_budget txt limit kept dropped (i # is) =
     res_bind (text_length (txt (kept @ [i]))) (\<lambda>n.
     if n > limit then select_by_budget txt limit kept (Suc dropped) is
     else select_by_budget txt limit (kept @ [i]) dropped is)"

text \<open>The parts of a snapshot that may be dropped, with the counts of what was.\<close>

record draft =
  middle :: "ContextItem list"
  active :: "ContextItem list"
  middle_dropped :: nat
  active_dropped :: nat

text \<open>The last recalled item goes first, then the last of the middle, then the oldest event.\<close>

definition drop_for_hard_limit :: "draft \<Rightarrow> draft option" where
  "drop_for_hard_limit d =
     (case position_index (\<lambda>i. ContextItem.kind i = ContextItemKind.Recall) (rev (active d)) of
        Some k \<Rightarrow>
          (let j = length (active d) - 1 - k in
           Some (d\<lparr>active := take j (active d) @ drop (Suc j) (active d),
                   active_dropped := active_dropped d + 1\<rparr>))
      | None \<Rightarrow>
          if middle d \<noteq> []
          then Some (d\<lparr>middle := butlast (middle d), middle_dropped := middle_dropped d + 1\<rparr>)
          else if active d \<noteq> []
          then Some (d\<lparr>active := tl (active d), active_dropped := active_dropped d + 1\<rparr>)
          else None)"

fun item_refs ::
  "ext \<Rightarrow> u64 \<Rightarrow> event_map \<Rightarrow> (EventId \<times> EntityRef option) list \<Rightarrow> (string, ContextSourceRef) btree \<Rightarrow>
   ContextBuilderError + (string, ContextSourceRef) btree"
where
  "item_refs x as_of index [] m = Inr m"
| "item_refs x as_of index ((i, r) # ps) m =
     res_bind (ledger_hash x i as_of index) (\<lambda>h.
     item_refs x as_of index ps
       (if bt_contains m (id_text x i) then m
        else bt_insert (id_text x i)
          \<lparr>ContextSourceRef.event_id = i, entity = r, source_hash = h, as_of_revision = as_of\<rparr> m))"

definition collect_source_refs ::
  "ext \<Rightarrow> ContextItem list \<Rightarrow> ResponseProfile \<Rightarrow> u64 \<Rightarrow> event_map \<Rightarrow>
   ContextBuilderError + ContextSourceRef list"
where
  "collect_source_refs x its profile as_of index =
     res_bind (item_refs x as_of index
       (concat (map (\<lambda>i. map (\<lambda>e. (e, ContextItem.entity i)) (ContextItem.source_event_ids i)) its) @
        map (\<lambda>ev. (ResponsePreferenceEvidence.source_event_id ev,
            Some (entity_ref EntityKind.Memory (memory_id ev)))) (ResponseProfile.evidence profile)) [])
       (\<lambda>m. Inr (bt_values m))"

definition snapshot_budget_report ::
  "printing \<Rightarrow> ContextItem list \<Rightarrow> draft \<Rightarrow> nat \<Rightarrow> nat \<Rightarrow> ContextBuilderError + SnapshotBudgetReport"
where
  "snapshot_budget_report pr anc d whole limit =
     res_bind (text_length (items_text pr anc)) (\<lambda>a.
     res_bind (text_length (items_text pr (middle d))) (\<lambda>m.
     res_bind (text_length (items_text pr (active d))) (\<lambda>r.
     Inr \<lparr>SnapshotBudgetReport.anchor_bytes = a, middle_bytes = m, active_bytes = r, total_bytes = whole,
          included_items = length anc + length (middle d) + length (active d),
          dropped_middle_items = middle_dropped d, dropped_active_items = active_dropped d,
          hard_limit_bytes = limit\<rparr>)))"

definition draft_snapshot ::
  "printing \<Rightarrow> event_map \<Rightarrow> u64 \<Rightarrow> ResponseProfile \<Rightarrow> ContextItem list \<Rightarrow> nat \<Rightarrow> nat \<Rightarrow> draft \<Rightarrow>
   ContextBuilderError + ContextSnapshot"
where
  "draft_snapshot pr index as_of profile anc limit hint d =
     res_bind (collect_source_refs (print_lib pr) (anc @ middle d @ active d) profile as_of index) (\<lambda>refs.
     res_bind (snapshot_budget_report pr anc d hint limit) (\<lambda>report.
     res_bind (map_err ContextBuilderError.Serialization (hash_text pr
       \<lparr>HashInput.as_of_revision = as_of, anchors = anc, compressed_middle = middle d,
        active_recent = active d, response_profile_hash = profile_hash profile,
        budget_report = report, source_refs = refs\<rparr>)) (\<lambda>bytes.
     Inr \<lparr>ContextSnapshot.as_of_revision = as_of, anchors = anc, compressed_middle = middle d,
          active_recent = active d, response_profile = profile, budget_report = report,
          source_refs = refs, snapshot_hash = sha256_hex (print_lib pr) bytes\<rparr>)))"

text \<open>\<open>for _ in 0..8\<close>; \<open>hint\<close> is the size that the report of the next round claims.\<close>

fun stabilize ::
  "printing \<Rightarrow> event_map \<Rightarrow> u64 \<Rightarrow> ResponseProfile \<Rightarrow> ContextItem list \<Rightarrow> nat \<Rightarrow> nat \<Rightarrow> nat \<Rightarrow> draft \<Rightarrow>
   ContextBuilderError + ContextSnapshot"
where
  "stabilize pr index as_of profile anc limit 0 hint d =
     Inl (ContextBuilderError.Serialization ''snapshot size did not stabilize'')"
| "stabilize pr index as_of profile anc limit (Suc rounds) hint d =
     res_bind (draft_snapshot pr index as_of profile anc limit hint d) (\<lambda>snap.
     res_bind (text_length (snapshot_text pr snap)) (\<lambda>whole.
     if whole > limit
     then
       (case drop_for_hard_limit d of
          Some d' \<Rightarrow> stabilize pr index as_of profile anc limit rounds 0 d'
        | None \<Rightarrow> Inl (AnchorBudgetExceeded whole limit))
     else if total_bytes (ContextSnapshot.budget_report snap) = whole then Inr snap
     else stabilize pr index as_of profile anc limit rounds whole d))"

definition validate_profile ::
  "ext \<Rightarrow> ResponseProfile \<Rightarrow> u64 \<Rightarrow> event_map \<Rightarrow> ContextBuilderError + unit"
where
  "validate_profile x profile as_of index =
     (if ResponseProfile.as_of_revision profile > as_of
      then Inl (FutureResponseProfile (ResponseProfile.as_of_revision profile) as_of)
      else
        foldl (\<lambda>r ev. res_bind r (\<lambda>_.
            res_bind (validated_sources x [ResponsePreferenceEvidence.source_event_id ev] as_of index)
              (\<lambda>_. Inr ())))
          (Inr ()) (ResponseProfile.evidence profile))"

definition build_with_profile ::
  "printing \<Rightarrow> CurrentState \<Rightarrow> ExperienceEvent list \<Rightarrow> ContextBuildRequest \<Rightarrow> ResponseProfile \<Rightarrow>
   ContextBuilderError + ContextSnapshot"
where
  "build_with_profile pr s events rq profile =
     (let as_of = ContextBuildRequest.as_of_revision rq; b = ContextBuildRequest.budget rq;
          index = event_index events in
      if CurrentState.revision s > as_of then Inl (FutureProjection as_of (CurrentState.revision s))
      else
        res_bind (validate_profile (print_lib pr) profile as_of index) (\<lambda>_.
        res_bind (build_anchors pr s rq as_of index) (\<lambda>anc.
        res_bind (text_length (items_text pr anc)) (\<lambda>n.
        if n > ContextBudget.anchor_bytes b
        then Inl (AnchorBudgetExceeded n (ContextBudget.anchor_bytes b))
        else
          res_bind (build_middle pr s rq as_of index) (\<lambda>ms.
          res_bind (select_by_budget (items_text pr) (ContextBudget.middle_bytes b) [] 0
            (map MiddleCandidate.item ms)) (\<lambda>(mid, md).
          res_bind (build_active_recent pr rq as_of index) (\<lambda>as.
          res_bind (select_by_budget (items_text pr) (ContextBudget.active_bytes b) [] 0 as) (\<lambda>(act, ad).
          stabilize pr index as_of profile anc (ContextBudget.hard_limit_bytes b) 8 0
            \<lparr>middle = mid, active = act, middle_dropped = md, active_dropped = ad\<rparr>))))))))"

definition build_context_snapshot ::
  "printing \<Rightarrow> CurrentState \<Rightarrow> ExperienceEvent list \<Rightarrow> ContextBuildRequest \<Rightarrow>
   ContextBuilderError + ContextSnapshot"
where
  "build_context_snapshot pr s events rq =
     build_with_profile pr s events rq
       (resolve_response_profile (print_lib pr) (read_json pr) (profile_text pr) s events
         (ContextBuildRequest.principal_id rq) (ContextBuildRequest.as_of_revision rq))"

end
