(* ===== verification/Engine.thy ===== *)
theory Engine
  imports Access LocalPolicy Deliberation Transition ContextSnapshots
begin

text \<open>
  The engine of \<open>src/runtime/engine.rs\<close>: its errors, its ports, its accesses to the store and to
  the capabilities, the events it builds and the helpers at the end of the file. Fresh identifiers
  and readings of the clock are drawn from supplies indexed by the place in the code that asks.
\<close>

section \<open>Ports\<close>

text \<open>\<open>src/ports/capability.rs\<close> and \<open>src/ports/model.rs\<close>.\<close>

record CapabilityResult =
  data :: json
  evidence :: "string list"
  verified :: bool

datatype CapabilityError = OutcomeUnknown string | InvalidInput string | Execution string

fun capability_error_text :: "CapabilityError \<Rightarrow> string" where
  "capability_error_text (OutcomeUnknown m) =
     ''capability outcome is unknown; reconcile before retrying: '' @ m"
| "capability_error_text (InvalidInput m) = ''capability input is invalid: '' @ m"
| "capability_error_text (Execution m) = ''capability failed: '' @ m"

datatype CognitiveError =
    Configuration string CognitiveTrace
  | Timeout CognitiveTrace
  | Provider string CognitiveTrace
  | Malformed string CognitiveTrace

fun cognitive_trace :: "CognitiveError \<Rightarrow> CognitiveTrace" where
  "cognitive_trace (CognitiveError.Configuration m t) = t"
| "cognitive_trace (CognitiveError.Timeout t) = t"
| "cognitive_trace (CognitiveError.Provider m t) = t"
| "cognitive_trace (CognitiveError.Malformed m t) = t"

text \<open>\<open>Panic\<close> is no error of the code: it marks an unwinding, which runs none of the error paths.\<close>

datatype EngineError =
    Storage StorageError
  | Projection ProjectionError
  | Cognitive CognitiveError
  | Event string
  | Transition TransitionError
  | Serialization string
  | Policy PolicyError
  | Capability CapabilityError
  | PolicyDenied string
  | InvalidObservation string
  | InvalidCognitiveTrace string
  | Judgment JudgmentValidationError
  | StaleContext u64 u64
  | NotFound string
  | InvalidOperation string
  | ForegroundActivityBusy
  | ForegroundActivityLeaseLost
  | ContextBuilder ContextBuilderError
  | Panic string

section \<open>The engine\<close>

text \<open>
  \<open>execute n\<close> is the catalog's answer to an invocation before the \<open>n\<close>-th access to the database.
\<close>

record Engine = Surroundings +
  to_value :: "Recorded \<Rightarrow> string + json"
  policy :: "PrincipalId \<Rightarrow> ActionIntent \<Rightarrow> PolicyError + PolicyDecision"
  capability_names :: "string list"
  execute :: "nat \<Rightarrow> string \<Rightarrow> json \<Rightarrow> CapabilityError + CapabilityResult"
  hekate_id :: PrincipalId
  user_id :: PrincipalId
  fresh :: "string \<Rightarrow> Uuid"
  clock :: "string \<Rightarrow> string"

text \<open>\<open>Id::new()\<close> at a place of the code.\<close>

definition fresh_id :: "'z Engine_scheme \<Rightarrow> string \<Rightarrow> 'e Id" where
  "fresh_id en l = from_uuid (fresh en l)"

text \<open>The world of the engine: the database, and the capability invocations made so far.\<close>

type_synonym EngineWorld = "World \<times> (string \<times> json) list"

type_synonym 'a engine_action = "(EngineWorld, EngineError, 'a) program"

definition on_ledger :: "('e, 'a) access \<Rightarrow> (World \<times> 'l, 'e, 'a) program" where
  "on_ledger m w = (case w of (v, log) \<Rightarrow> case m v of (r, v') \<Rightarrow> (r, (v', log)))"

section \<open>Accesses\<close>

definition current :: "'z Engine_scheme \<Rightarrow> CurrentState engine_action" where
  "current en = on_ledger (observe en (\<lambda>n db.
     map_err EngineError.Storage (load_state (lib en) (store_codec en) db)))"

definition all_events :: "'z Engine_scheme \<Rightarrow> ExperienceEvent list engine_action" where
  "all_events en = on_ledger (observe en (\<lambda>n db.
     map_err EngineError.Storage (load_events (lib en) (store_codec en) db)))"

definition try_record ::
  "'z Engine_scheme \<Rightarrow> ExperienceEvent list \<Rightarrow> u64 option \<Rightarrow> CognitiveTrace option \<Rightarrow>
   (ProjectionError + CurrentState) engine_action"
where
  "try_record en es base tr = on_ledger (record_events en es base tr)"

definition record_all ::
  "'z Engine_scheme \<Rightarrow> ExperienceEvent list \<Rightarrow> u64 option \<Rightarrow> CurrentState engine_action"
where
  "record_all en es base =
     act_bind (try_record en es base None) (\<lambda>r. act_lift (map_err EngineError.Projection r))"

definition invoke :: "'z Engine_scheme \<Rightarrow> string \<Rightarrow> json \<Rightarrow> (CapabilityError + CapabilityResult) engine_action" where
  "invoke en cap input w =
     (case w of ((n, db), log) \<Rightarrow> (Inr (execute en n cap input), ((n, db), log @ [(cap, input)])))"

definition save_trace :: "'z Engine_scheme \<Rightarrow> CognitiveTrace \<Rightarrow> string \<Rightarrow> string option \<Rightarrow> unit engine_action" where
  "save_trace en original oc why =
     act_bind (on_ledger (store_trace en
       (original\<lparr>CognitiveTrace.outcome := oc, CognitiveTrace.error_kind := why\<rparr>)))
       (\<lambda>r. act_lift (map_err EngineError.Storage r))"

section \<open>Events\<close>

text \<open>\<open>event_with_id\<close> and \<open>event\<close>; \<open>Some 1.0\<close> is the confidence.\<close>

definition event_with_id ::
  "'z Engine_scheme \<Rightarrow> EventId \<Rightarrow> string \<Rightarrow> PrincipalId \<Rightarrow> EventKind \<Rightarrow> EntityRef option \<Rightarrow> Recorded \<Rightarrow>
   string option \<Rightarrow> EventId option \<Rightarrow> EngineError + ExperienceEvent"
where
  "event_with_id en eid l actor k subj p corr caus =
     res_bind (map_err EngineError.Serialization (to_value en p)) (\<lambda>v.
     map_err EngineError.Event (new_with_id (lib en) (clock en (l @ '' occurred'')) (clock en (l @ '' recorded''))
       eid actor k subj v \<lparr>EventSource.source_type = ''engine'', source_ref = None\<rparr>
       caus corr (Some 0x3F800000)))"

definition event ::
  "'z Engine_scheme \<Rightarrow> string \<Rightarrow> PrincipalId \<Rightarrow> EventKind \<Rightarrow> EntityRef option \<Rightarrow> Recorded \<Rightarrow>
   string option \<Rightarrow> EventId option \<Rightarrow> EngineError + ExperienceEvent"
where
  "event en l actor k subj p corr caus =
     event_with_id en (fresh_id en l) l actor k subj p corr caus"

definition append_event ::
  "'z Engine_scheme \<Rightarrow> string \<Rightarrow> PrincipalId \<Rightarrow> EventKind \<Rightarrow> EntityRef option \<Rightarrow> Recorded \<Rightarrow>
   string option \<Rightarrow> CurrentState engine_action"
where
  "append_event en l actor k subj p corr =
     act_bind (act_lift (event en l actor k subj p corr None)) (\<lambda>e. record_all en [e] None)"

text \<open>\<open>EntityRef::new(kind, id.uuid())\<close>.\<close>

definition reference :: "EntityKind \<Rightarrow> 'e Id \<Rightarrow> EntityRef option" where
  "reference k i = Some \<lparr>EntityRef.kind = k, id = uuid i\<rparr>"

section \<open>Helpers\<close>

definition json_field :: "json \<Rightarrow> string \<Rightarrow> json option" where
  "json_field v f = (case v of JObject kvs \<Rightarrow> map_of kvs f | _ \<Rightarrow> None)"

fun json_str :: "json \<Rightarrow> string option" where
  "json_str (JString t) = Some t"
| "json_str v = None"

text \<open>\<open>as_u64\<close>: a number that serde holds as an unsigned integer is a row of digits.\<close>

definition is_digit :: "char \<Rightarrow> bool" where
  "is_digit c \<longleftrightarrow> CHR ''0'' \<le> c \<and> c \<le> CHR ''9''"

definition digits_value :: "string \<Rightarrow> nat" where
  "digits_value t = foldl (\<lambda>n c. 10 * n + (of_char c - 48)) 0 t"

fun json_u64 :: "json \<Rightarrow> u64 option" where
  "json_u64 (JNumber t) =
     (if t \<noteq> [] \<and> list_all is_digit t \<and> digits_value t < 2 ^ 64 then Some (of_nat (digits_value t))
      else None)"
| "json_u64 v = None"

definition ensure_operation_matches :: "ActionIntent \<Rightarrow> json \<Rightarrow> EngineError + unit" where
  "ensure_operation_matches intent input =
     (if Option.bind (json_field input ''operation'') json_str \<noteq> Some (ActionIntent.operation intent)
      then Inl (EngineError.InvalidOperation
        ''capability input operation does not match the authorized intent'')
      else Inr ())"

definition position_event_kind :: "CurrentState \<Rightarrow> Position \<Rightarrow> EventKind" where
  "position_event_kind s p =
     (if Position.status p = PositionStatus.Retracted then PositionRetracted
      else if Position.supersedes p \<noteq> None then PositionRevised
      else if bt_contains (CurrentState.positions s) (Position.id p) then PositionMaintained
      else PositionEstablished)"

definition conflict_event_kind :: "CurrentState \<Rightarrow> Conflict \<Rightarrow> EventKind" where
  "conflict_event_kind s c =
     (if Conflict.status c \<in> {ConflictStatus.Resolved, ConflictStatus.AcceptedDisagreement}
      then ConflictResolved
      else if bt_contains (CurrentState.conflicts s) (Conflict.id c) then ConflictUpdated
      else ConflictOpened)"

definition push_all :: "'a list \<Rightarrow> 'a list \<Rightarrow> 'a list" where
  "push_all xs ys = foldl push_unique xs ys"

definition trace_for_decision :: "CognitiveTrace \<Rightarrow> Decision \<Rightarrow> CognitiveTrace" where
  "trace_for_decision original d =
     (let refs0 = push_all (referenced_event_ids original) (Decision.evidence_refs d);
          refs1 = (case Decision.position d of None \<Rightarrow> refs0
                   | Some p \<Rightarrow> push_all refs0 (Position.evidence_refs p));
          refs2 = (case Decision.user_position d of None \<Rightarrow> refs1
                   | Some p \<Rightarrow> push_all refs1 (Position.evidence_refs p));
          refs3 = (case Decision.conflict d of None \<Rightarrow> refs2
                   | Some c \<Rightarrow> push_all refs2 (Conflict.evidence_refs c))
      in original\<lparr>referenced_event_ids := refs3\<rparr>)"

definition evidence_event_ids :: "ThoughtContext \<Rightarrow> EventId list" where
  "evidence_event_ids ctx =
     push_all (recent_event_ids ctx)
       (map RecalledItem.source_event_id (RecallBundle.items (ThoughtContext.recall ctx)))"

definition artifact_from_receipt ::
  "'z Engine_scheme \<Rightarrow> Receipt \<Rightarrow> EventId \<Rightarrow> Artifact option"
where
  "artifact_from_receipt en r src =
     (case (Option.bind (json_field (Receipt.output r) ''path'') json_str,
            Option.bind (json_field (Receipt.output r) ''content_hash'') json_str) of
        (Some p, Some h) \<Rightarrow>
          Some \<lparr>Artifact.id = fresh_id en ''artifact'', path = p, content_hash = h,
            byte_size =
              (case Option.bind (json_field (Receipt.output r) ''size'') json_u64 of
                 Some n \<Rightarrow> n
               | None \<Rightarrow>
                   (case Option.bind (json_field (Receipt.output r) ''content'') json_str of
                      Some t \<Rightarrow> len_u64 t
                    | None \<Rightarrow> 0)),
            media_type = unwrap_or ''text/plain''
              (Option.bind (json_field (Receipt.output r) ''media_type'') json_str),
            provenance_event_id = src, created_at = clock en ''artifact''\<rparr>
      | _ \<Rightarrow> None)"

end
