(* ===== verification/EngineOperations.thy ===== *)
theory EngineOperations
  imports Engine
begin

text \<open>
  The engine's operations on memories, approvals and planned operations, and the identity it
  lays down before the first observation (\<open>src/runtime/engine.rs\<close>). Indexing for semantic recall,
  which the code starts in the background after a commit, does not touch the ledger and is left out.
\<close>

section \<open>Memories\<close>

definition promote_memory :: "'z Engine_scheme \<Rightarrow> MemoryCandidateId \<Rightarrow> ActiveMemory engine_action" where
  "promote_memory en cid =
     act_bind (current en) (\<lambda>s.
     case bt_get (CurrentState.memory_candidates s) cid of
       None \<Rightarrow> act_lift (Inl (NotFound (''memory candidate '' @ id_text (lib en) cid)))
     | Some c \<Rightarrow>
         if MemoryCandidate.status c \<noteq> MemoryCandidateStatus.Candidate
         then act_lift (Inl (EngineError.InvalidOperation ''only a candidate memory can be promoted''))
         else
           (let inferred =
                  (if MemoryCandidate.kind c = MemoryKind.ExplicitPreference
                   then find (\<lambda>m. ActiveMemory.status m = ActiveMemoryStatus.Active \<and>
                          ActiveMemory.kind m = MemoryKind.InferredPreference \<and>
                          ActiveMemory.subject_principal_id m = MemoryCandidate.subject_principal_id c)
                        (bt_values (CurrentState.active_memories s))
                   else None);
                m = \<lparr>ActiveMemory.id = fresh_id en ''memory'', candidate_id = cid,
                      kind = MemoryCandidate.kind c, content = MemoryCandidate.content c,
                      subject_principal_id = MemoryCandidate.subject_principal_id c,
                      status = ActiveMemoryStatus.Active, confidence = MemoryCandidate.confidence c,
                      source_event_ids = MemoryCandidate.source_event_ids c,
                      valid_from = MemoryCandidate.valid_from c,
                      valid_until = MemoryCandidate.valid_until c,
                      supersedes = map_option ActiveMemory.id inferred,
                      last_verified_at = Some (clock en ''memory verified''),
                      created_at = clock en ''memory''\<rparr> in
            act_bind (act_lift (event en ''MemoryPromoted'' (user_id en) MemoryPromoted
              (reference EntityKind.Memory (ActiveMemory.id m)) (MemoryPayload m) None None)) (\<lambda>promoted.
            act_bind
              (case inferred of
                 None \<Rightarrow> act_return [promoted]
               | Some p \<Rightarrow>
                   (let previous = p\<lparr>ActiveMemory.status := ActiveMemoryStatus.Superseded\<rparr> in
                    act_bind (act_lift (event en ''MemorySuperseded'' (user_id en) MemorySuperseded
                      (reference EntityKind.Memory (ActiveMemory.id previous)) (MemoryPayload previous)
                      None None)) (\<lambda>superseded. act_return [superseded, promoted])))
              (\<lambda>es.
            act_bind (record_all en es (Some (CurrentState.revision s))) (\<lambda>_. act_return m)))))"

definition create_memory_candidate ::
  "'z Engine_scheme \<Rightarrow> MemoryKind \<Rightarrow> string \<Rightarrow> u8 \<Rightarrow> bool \<Rightarrow> MemoryCandidate engine_action"
where
  "create_memory_candidate en k txt conf promote =
     (if trim txt = []
      then act_lift (Inl (EngineError.InvalidObservation ''memory content cannot be empty''))
      else if conf > 100
      then act_lift (Inl (EngineError.InvalidObservation ''memory confidence must be between 0 and 100''))
      else
        (let c = \<lparr>MemoryCandidate.id = fresh_id en ''memory candidate'', kind = k, content = txt,
               subject_principal_id = Some (user_id en), status = MemoryCandidateStatus.Candidate,
               confidence = conf, source_event_ids = [],
               valid_from = Some (clock en ''candidate valid from''), valid_until = None,
               supersedes = None, created_at = clock en ''candidate''\<rparr> in
         act_bind (append_event en ''MemoryCandidateCreated'' (user_id en) MemoryCandidateCreated
           (reference EntityKind.MemoryCandidate (MemoryCandidate.id c)) (CandidatePayload c) None) (\<lambda>_.
         if promote
         then act_bind (promote_memory en (MemoryCandidate.id c)) (\<lambda>_. act_return c)
         else act_return c)))"

definition reject_memory :: "'z Engine_scheme \<Rightarrow> MemoryCandidateId \<Rightarrow> MemoryCandidate engine_action" where
  "reject_memory en cid =
     act_bind (current en) (\<lambda>s.
     case bt_get (CurrentState.memory_candidates s) cid of
       None \<Rightarrow> act_lift (Inl (NotFound (''memory candidate '' @ id_text (lib en) cid)))
     | Some c \<Rightarrow>
         if MemoryCandidate.status c \<noteq> MemoryCandidateStatus.Candidate
         then act_lift (Inl (EngineError.InvalidOperation ''only a candidate memory can be rejected''))
         else
           (let rejected = c\<lparr>MemoryCandidate.status := MemoryCandidateStatus.Rejected\<rparr> in
            act_bind (append_event en ''MemoryRejected'' (user_id en) MemoryRejected
              (reference EntityKind.MemoryCandidate (MemoryCandidate.id rejected))
              (CandidatePayload rejected) None) (\<lambda>_. act_return rejected)))"

definition set_memory_status ::
  "'z Engine_scheme \<Rightarrow> MemoryId \<Rightarrow> ActiveMemoryStatus \<Rightarrow> EventKind \<Rightarrow> ActiveMemory engine_action"
where
  "set_memory_status en mid st k =
     act_bind (current en) (\<lambda>s.
     case bt_get (CurrentState.active_memories s) mid of
       None \<Rightarrow> act_lift (Inl (NotFound (''memory '' @ id_text (lib en) mid)))
     | Some m0 \<Rightarrow>
         if ActiveMemory.status m0 \<noteq> ActiveMemoryStatus.Active
         then act_lift (Inl (EngineError.InvalidOperation ''only an active memory can change lifecycle''))
         else
           (let m = m0\<lparr>ActiveMemory.status := st\<rparr> in
            act_bind (act_lift (event en ''memory status'' (user_id en) k
              (reference EntityKind.Memory (ActiveMemory.id m)) (MemoryPayload m) None None)) (\<lambda>e.
            act_bind (record_all en [e] (Some (CurrentState.revision s))) (\<lambda>_. act_return m))))"

definition supersede_memory :: "'z Engine_scheme \<Rightarrow> MemoryId \<Rightarrow> ActiveMemory engine_action" where
  "supersede_memory en mid = set_memory_status en mid ActiveMemoryStatus.Superseded MemorySuperseded"

definition expire_memory :: "'z Engine_scheme \<Rightarrow> MemoryId \<Rightarrow> ActiveMemory engine_action" where
  "expire_memory en mid = set_memory_status en mid ActiveMemoryStatus.Expired MemoryExpired"

section \<open>Approvals\<close>

definition resolve_approval :: "'z Engine_scheme \<Rightarrow> ApprovalId \<Rightarrow> bool \<Rightarrow> Approval engine_action" where
  "resolve_approval en aid approved =
     act_bind (current en) (\<lambda>s.
     case bt_get (approvals s) aid of
       None \<Rightarrow> act_lift (Inl (NotFound (''approval '' @ id_text (lib en) aid)))
     | Some existing \<Rightarrow>
         if Approval.status existing \<noteq> ApprovalStatus.Pending
         then act_lift (Inl (EngineError.InvalidOperation ''approval is already resolved''))
         else
           (let a = existing\<lparr>Approval.status :=
                      (if approved then ApprovalStatus.Approved else ApprovalStatus.Denied),
                    resolved_by := Some (user_id en),
                    resolved_at := Some (clock en ''approval resolved'')\<rparr> in
            case bt_get (operations s) (Approval.operation_id a) of
              None \<Rightarrow> act_lift (Inl (NotFound (''operation '' @ id_text (lib en) (Approval.operation_id a))))
            | Some op0 \<Rightarrow>
                act_bind (act_lift (map_err EngineError.Transition (transition_operation op0
                  (if approved then OperationStatus.Authorized else OperationStatus.Failed)))) (\<lambda>op.
                act_bind (act_lift (event en ''ApprovalResolved'' (user_id en) ApprovalResolved
                  (reference EntityKind.Approval (Approval.id a)) (ApprovalPayload a)
                  (Some (id_text (lib en) (Approval.id a))) None)) (\<lambda>e1.
                act_bind (act_lift (event en ''approved operation'' (user_id en)
                  (if approved then OperationAuthorized else OperationFailed)
                  (reference EntityKind.Operation (Operation.id op)) (OperationPayload op)
                  (Some (id_text (lib en) (Approval.id a))) (Some (ExperienceEvent.event_id e1)))) (\<lambda>e2.
                act_bind (record_all en [e1, e2] (Some (CurrentState.revision s))) (\<lambda>_.
                act_return a))))))"

section \<open>Executing\<close>

definition execute_capability ::
  "'z Engine_scheme \<Rightarrow> PrincipalId \<Rightarrow> ActionIntent \<Rightarrow> json \<Rightarrow> CapabilityResult engine_action"
where
  "execute_capability en actor intent input =
     act_bind (act_lift (ensure_operation_matches intent input)) (\<lambda>_.
     act_bind (act_lift (map_err EngineError.Policy (policy en actor intent))) (\<lambda>d.
     if \<not> allowed d then act_lift (Inl (PolicyDenied (PolicyDecision.reason d)))
     else if requires_approval d
     then act_lift (Inl (PolicyDenied ''explicit approval is required before capability execution''))
     else
       act_bind (invoke en (ActionIntent.capability intent) input) (\<lambda>r.
       act_lift (map_err EngineError.Capability r))))"

text \<open>The approval a policy may ask for.\<close>

definition check_approval ::
  "'z Engine_scheme \<Rightarrow> CurrentState \<Rightarrow> Operation \<Rightarrow> PolicyDecision \<Rightarrow> EngineError + unit"
where
  "check_approval en s op d =
     (if requires_approval d
      then
        (case Operation.approval_id op of
           None \<Rightarrow> Inl (EngineError.InvalidOperation ''operation has no approval'')
         | Some aid \<Rightarrow>
             (case bt_get (approvals s) aid of
                None \<Rightarrow> Inl (NotFound (''approval '' @ id_text (lib en) aid))
              | Some a \<Rightarrow>
                  if Approval.status a \<noteq> ApprovalStatus.Approved
                  then Inl (EngineError.InvalidOperation ''operation requires an approved request'')
                  else Inr ()))
      else Inr ())"

text \<open>An event on the operation, and the events on what it left behind.\<close>

definition operation_event ::
  "'z Engine_scheme \<Rightarrow> string \<Rightarrow> EventKind \<Rightarrow> Operation \<Rightarrow> EngineError + ExperienceEvent"
where
  "operation_event en l k op =
     event en l (hekate_id en) k (reference EntityKind.Operation (Operation.id op)) (OperationPayload op)
       (Some (id_text (lib en) (Operation.id op))) None"

definition receipt_event ::
  "'z Engine_scheme \<Rightarrow> Operation \<Rightarrow> Receipt \<Rightarrow> EventId \<Rightarrow> EngineError + ExperienceEvent"
where
  "receipt_event en op r caus =
     event en ''ReceiptRecorded'' (hekate_id en) ReceiptRecorded
       (reference EntityKind.Receipt (Receipt.id r)) (ReceiptPayload r)
       (Some (id_text (lib en) (Operation.id op))) (Some caus)"

definition artifact_events ::
  "'z Engine_scheme \<Rightarrow> Operation \<Rightarrow> Receipt \<Rightarrow> EventId \<Rightarrow> EngineError + ExperienceEvent list"
where
  "artifact_events en op r caus =
     (case artifact_from_receipt en r caus of
        None \<Rightarrow> Inr []
      | Some a \<Rightarrow>
          res_bind (event en ''ArtifactCreated'' (hekate_id en) ArtifactCreated
            (reference EntityKind.Artifact (Artifact.id a)) (ArtifactPayload a)
            (Some (id_text (lib en) (Operation.id op))) (Some caus)) (\<lambda>e. Inr [e]))"

definition verification_event ::
  "'z Engine_scheme \<Rightarrow> OperationId \<Rightarrow> Operation \<Rightarrow> VerificationStatus \<Rightarrow> string list \<Rightarrow> EventId \<Rightarrow>
   EngineError + ExperienceEvent"
where
  "verification_event en oid op st ev caus =
     (let v = \<lparr>Verification.id = fresh_id en ''verification'', operation_id = oid,
           status = st, evidence = ev, checked_at = clock en ''verification''\<rparr> in
      event en ''VerificationRecorded'' (hekate_id en) VerificationRecorded
        (reference EntityKind.Verification (Verification.id v)) (VerificationPayload v)
        (Some (id_text (lib en) (Operation.id op))) (Some caus))"

definition receipt_of :: "'z Engine_scheme \<Rightarrow> OperationId \<Rightarrow> Operation \<Rightarrow> json \<Rightarrow> Receipt" where
  "receipt_of en oid op out =
     \<lparr>Receipt.id = fresh_id en ''receipt'', operation_id = oid,
      status = Operation.status op, external_reference = None, output = out,
      recorded_at = clock en ''receipt''\<rparr>"

text \<open>The outcome of an invocation as a batch of events, and the receipt it leaves.\<close>

definition outcome_events ::
  "'z Engine_scheme \<Rightarrow> OperationId \<Rightarrow> Operation \<Rightarrow> CapabilityError + CapabilityResult \<Rightarrow>
   EngineError + ExperienceEvent list \<times> Receipt"
where
  "outcome_events en oid op0 res =
     (let finished = Some (clock en ''operation finished'') in
      case res of
        Inr r \<Rightarrow>
          (let op = op0\<lparr>Operation.status :=
                 (if verified r then OperationStatus.Succeeded else OperationStatus.Unknown),
               Operation.finished_at := finished\<rparr>;
               rc = receipt_of en oid op (data r) in
           res_bind (operation_event en ''outcome''
             (if verified r then OperationSucceeded else OperationStateUnknown) op) (\<lambda>e1.
           res_bind (receipt_event en op rc (ExperienceEvent.event_id e1)) (\<lambda>e2.
           res_bind (artifact_events en op rc (ExperienceEvent.event_id e2)) (\<lambda>as.
           res_bind
             (if verified r
              then res_bind (verification_event en oid op VerificationStatus.Verified (CapabilityResult.evidence r)
                     (ExperienceEvent.event_id e2)) (\<lambda>e. Inr [e])
              else Inr []) (\<lambda>vs.
           Inr ([e1, e2] @ as @ vs, rc))))))
      | Inl (OutcomeUnknown m) \<Rightarrow>
          (let op = op0\<lparr>Operation.status := OperationStatus.Unknown\<rparr>;
               rc = receipt_of en oid op
                 (JObject [(''error'', JString (capability_error_text (OutcomeUnknown m)))]) in
           res_bind (operation_event en ''outcome'' OperationStateUnknown op) (\<lambda>e1.
           res_bind (receipt_event en op rc (ExperienceEvent.event_id e1)) (\<lambda>e2.
           Inr ([e1, e2], rc))))
      | Inl err \<Rightarrow>
          (let op = op0\<lparr>Operation.status := OperationStatus.Failed, Operation.finished_at := finished\<rparr>;
               rc = receipt_of en oid op (JObject [(''error'', JString (capability_error_text err))]) in
           res_bind (operation_event en ''outcome'' OperationFailed op) (\<lambda>e1.
           res_bind (receipt_event en op rc (ExperienceEvent.event_id e1)) (\<lambda>e2.
           res_bind (verification_event en oid op VerificationStatus.Failed []
             (ExperienceEvent.event_id e2)) (\<lambda>e3.
           Inr ([e1, e2, e3], rc))))))"

text \<open>From a checked operation to its receipt: authorise, start, invoke, record the outcome.\<close>

definition authorize_planned :: "'z Engine_scheme \<Rightarrow> Operation \<Rightarrow> Operation engine_action" where
  "authorize_planned en op0 =
     (if Operation.status op0 = OperationStatus.Planned
      then
        act_bind (act_lift (map_err EngineError.Transition
          (transition_operation op0 OperationStatus.Authorized))) (\<lambda>op.
        act_bind (append_event en ''OperationAuthorized'' (hekate_id en) OperationAuthorized
          (reference EntityKind.Operation (Operation.id op)) (OperationPayload op)
          (Some (id_text (lib en) (Operation.id op)))) (\<lambda>_. act_return op))
      else act_return op0)"

definition perform_operation ::
  "'z Engine_scheme \<Rightarrow> OperationId \<Rightarrow> ActionIntent \<Rightarrow> Operation \<Rightarrow> Receipt engine_action"
where
  "perform_operation en oid intent op =
     act_bind (invoke en (ActionIntent.capability intent) (ActionIntent.arguments intent)) (\<lambda>res.
     act_bind (act_lift (outcome_events en oid op res)) (\<lambda>(es, rc).
     act_bind (record_all en es None) (\<lambda>_. act_return rc)))"

definition run_operation ::
  "'z Engine_scheme \<Rightarrow> OperationId \<Rightarrow> ActionIntent \<Rightarrow> Operation \<Rightarrow> Receipt engine_action"
where
  "run_operation en oid intent op0 =
     act_bind (authorize_planned en op0) (\<lambda>op1.
     act_bind (act_lift (map_err EngineError.Transition
       (transition_operation op1 OperationStatus.Started))) (\<lambda>op2.
     let op = op2\<lparr>Operation.started_at := Some (clock en ''operation started'')\<rparr> in
     act_bind (act_lift (operation_event en ''OperationStarted'' OperationStarted op)) (\<lambda>e.
     act_bind (record_all en [e] None) (\<lambda>_. perform_operation en oid intent op))))"

text \<open>The checks on the state that was read.\<close>

definition execute_in :: "'z Engine_scheme \<Rightarrow> OperationId \<Rightarrow> CurrentState \<Rightarrow> Receipt engine_action" where
  "execute_in en oid s =
     (case bt_get (operations s) oid of
       None \<Rightarrow> act_lift (Inl (NotFound (''operation '' @ id_text (lib en) oid)))
     | Some op \<Rightarrow>
         if Operation.status op \<in> {OperationStatus.Succeeded, OperationStatus.Verified,
              OperationStatus.Failed, OperationStatus.Disputed}
         then act_lift (ok_or (EngineError.InvalidOperation ''operation has no receipt'')
           (find (\<lambda>r. Receipt.operation_id r = oid) (bt_values (receipts s))))
         else if Operation.status op \<in> {OperationStatus.Started, OperationStatus.Unknown}
         then act_lift (Inl (EngineError.InvalidOperation
           ''started or unknown operations require reconciliation before execution''))
         else
           (case bt_get (action_intents s) (Operation.intent_id op) of
              None \<Rightarrow> act_lift (Inl (NotFound (''intent '' @ id_text (lib en) (Operation.intent_id op))))
            | Some intent \<Rightarrow>
                act_bind (act_lift (map_err EngineError.Policy (policy en (hekate_id en) intent))) (\<lambda>d.
                if \<not> allowed d then act_lift (Inl (PolicyDenied (PolicyDecision.reason d)))
                else
                  act_bind (act_lift (check_approval en s op d)) (\<lambda>_. run_operation en oid intent op))))"

definition execute_operation :: "'z Engine_scheme \<Rightarrow> OperationId \<Rightarrow> Receipt engine_action" where
  "execute_operation en oid = act_bind (current en) (execute_in en oid)"

section \<open>Identity\<close>

text \<open>The principals, the identity and the relationship that every interaction rests on.\<close>

definition ensure_principal ::
  "'z Engine_scheme \<Rightarrow> string \<Rightarrow> PrincipalId \<Rightarrow> PrincipalKind \<Rightarrow> string \<Rightarrow> CurrentState \<Rightarrow>
   CurrentState engine_action"
where
  "ensure_principal en l i k nm s =
     (if bt_contains (principals s) i then act_return s
      else
        append_event en l i PrincipalCreated (reference EntityKind.Principal i)
          (PrincipalPayload \<lparr>Principal.id = i, kind = k, name = nm, identity_version_id = None\<rparr>) None)"

definition first_identity :: "'z Engine_scheme \<Rightarrow> IdentityVersion" where
  "first_identity en =
     \<lparr>IdentityVersion.id = fresh_id en ''identity'', principal_id = hekate_id en, version = 1,
      name = ''HEKATE'',
      values = [''preserve evidence before narrative'', ''maintain independent judgment''],
      boundaries = [''do not pretend agreement'', ''do not execute external mutation without policy''],
      created_at = clock en ''identity'', supersedes = None\<rparr>"

definition ensure_version :: "'z Engine_scheme \<Rightarrow> CurrentState \<Rightarrow> CurrentState engine_action" where
  "ensure_version en s =
     (if hekate_identity s \<noteq> None then act_return s
      else
        append_event en ''IdentityVersionCreated'' (hekate_id en) IdentityVersionCreated
          (reference EntityKind.IdentityVersion (IdentityVersion.id (first_identity en)))
          (IdentityPayload (first_identity en)) None)"

definition related :: "'z Engine_scheme \<Rightarrow> Relationship \<Rightarrow> bool" where
  "related en r \<longleftrightarrow>
     user_id en \<in> set (Relationship.participants r) \<and> hekate_id en \<in> set (Relationship.participants r)"

definition first_relationship :: "'z Engine_scheme \<Rightarrow> Relationship" where
  "first_relationship en =
     \<lparr>Relationship.id = fresh_id en ''relationship'', participants = [user_id en, hekate_id en],
      shared_commitments = [], unresolved_conflicts = [], trust_by_domain = [],
      interaction_norms = [''state reasons and evidence when disagreeing'']\<rparr>"

definition ensure_relationship :: "'z Engine_scheme \<Rightarrow> CurrentState \<Rightarrow> CurrentState engine_action" where
  "ensure_relationship en s =
     (if list_ex (related en) (bt_values (relationships s)) then act_return s
      else
        append_event en ''RelationshipCreated'' (hekate_id en) RelationshipCreated
          (reference EntityKind.Relationship (Relationship.id (first_relationship en)))
          (RelationshipPayload (first_relationship en)) None)"

definition ensure_identity :: "'z Engine_scheme \<Rightarrow> CurrentState \<Rightarrow> CurrentState engine_action" where
  "ensure_identity en s0 =
     act_bind (ensure_principal en ''hekate created'' (hekate_id en) PrincipalKind.Hekate ''HEKATE'' s0) (\<lambda>s1.
     act_bind (ensure_principal en ''user created'' (user_id en) PrincipalKind.User ''User'' s1) (\<lambda>s2.
     act_bind (ensure_version en s2) (\<lambda>s3.
     ensure_relationship en s3)))"

end
