(* ===== verification/EngineFacts.thy ===== *)
theory EngineFacts
  imports EngineOperations AccessFacts StateTyping
begin

text \<open>
  What the engine does to its world: which actions leave the log of invocations as it is, what
  stands on the ledger when a capability is invoked, and how a batch with a base revision is
  committed.
\<close>

section \<open>Actions that invoke nothing\<close>

definition keeps_log :: "(World \<times> 'l, 'e, 'a) program \<Rightarrow> bool" where
  "keeps_log m \<longleftrightarrow> (\<forall>w. snd (snd (m w)) = snd w)"

named_theorems quiet \<open>actions that leave the log of invocations as it is\<close>

lemma keeps_logD: "keeps_log m \<Longrightarrow> m (v, log) = (r, (v', log')) \<Longrightarrow> log' = log"
  by (metis keeps_log_def snd_conv)

lemma quiet_return [quiet]: "keeps_log (act_return v)"
  by (simp add: keeps_log_def act_return_def)

lemma quiet_lift [quiet]: "keeps_log (act_lift r)"
  by (simp add: keeps_log_def act_lift_def)

lemma quiet_ledger [quiet]: "keeps_log (on_ledger m)"
  by (simp add: keeps_log_def on_ledger_def split: prod.splits)

lemma quiet_bind [quiet]:
  "keeps_log m \<Longrightarrow> (\<And>v. keeps_log (f v)) \<Longrightarrow> keeps_log (act_bind m f)"
  by (auto simp: keeps_log_def act_bind_def split: prod.splits sum.splits) (metis snd_conv)+

lemma quiet_cases [quiet]:
  "keeps_log m \<Longrightarrow> keeps_log m' \<Longrightarrow> keeps_log (if c then m else m')"
  "keeps_log m \<Longrightarrow> (\<And>v. keeps_log (f v)) \<Longrightarrow> keeps_log (case ov of None \<Rightarrow> m | Some v \<Rightarrow> f v)"
  "(\<And>e. keeps_log (g e)) \<Longrightarrow> (\<And>v. keeps_log (h v)) \<Longrightarrow> keeps_log (case r of Inl e \<Rightarrow> g e | Inr v \<Rightarrow> h v)"
  by (simp_all split: option.split sum.split)

lemma quiet_pair [quiet]: "(\<And>u v. keeps_log (f u v)) \<Longrightarrow> keeps_log (case p of (u, v) \<Rightarrow> f u v)"
  by (cases p) simp

lemma quiet_let [quiet]: "keeps_log (f t) \<Longrightarrow> keeps_log (let v = t in f v)"
  by simp

lemma quiet_accesses [quiet]:
  "keeps_log (current en)" "keeps_log (all_events en)" "keeps_log (try_record en es base tr)"
  by (simp_all add: current_def all_events_def try_record_def quiet_ledger)

lemma quiet_record [quiet]: "keeps_log (record_all en es base)"
  unfolding record_all_def by (intro quiet)

lemma quiet_trace [quiet]: "keeps_log (save_trace en tr oc why)"
  unfolding save_trace_def by (intro quiet)

lemma quiet_append [quiet]: "keeps_log (append_event en l actor k subj p corr)"
  unfolding append_event_def by (intro quiet)

lemma quiet_authorize [quiet]: "keeps_log (authorize_planned en op)"
  unfolding authorize_planned_def by (intro quiet)

lemma quiet_identity [quiet]: "keeps_log (ensure_identity en s)"
  unfolding ensure_identity_def ensure_principal_def ensure_version_def ensure_relationship_def
  by (intro quiet)

section \<open>The commit of a batch\<close>

lemma record_all_Inr:
  assumes "record_all en es base ((n, db), log) = (Inr s', (w', log'))"
  shows "\<exists>db'. record_batch (lib en) (store_codec en) (faults en n) (others en n db) es base None =
    Inr (s', db') \<and> w' = (Suc n, db') \<and> log' = log"
  using assms
  by (auto simp: record_all_def try_record_def on_ledger_def record_events_def act_bind_def act_lift_def
      Let_def split: prod.splits sum.splits)

lemma record_all_Inl:
  assumes "record_all en es base ((n, db), log) = (Inl err, (w', log'))"
  shows "w' = (Suc n, others en n db) \<and> log' = log"
  using assms
  by (auto simp: record_all_def try_record_def on_ledger_def record_events_def act_bind_def act_lift_def
      Let_def split: prod.splits sum.splits)

lemma current_Inr:
  assumes "current en ((n, db), log) = (Inr s, (w', log'))"
  shows "load_state (lib en) (store_codec en) (others en n db) = Inr s \<and>
    w' = (Suc n, others en n db) \<and> log' = log"
  using assms by (auto simp: current_def on_ledger_def observe_def Let_def res_simps split: prod.splits)

section \<open>Accesses among other processes\<close>

lemma current_step:
  assumes "others_append en" and "ledger_at en w es s" and "current en (w, log) = (Inr s', (w', log'))"
  shows "\<exists>es'. prefix es es' \<and> ledger_at en w' es' s' \<and> fst w' = Suc (fst w) \<and> log' = log"
proof -
  obtain q where obs: "observe en (\<lambda>n db. map_err EngineError.Storage (load_state (lib en) (store_codec en) db)) w =
    (q, w')" and log: "log' = log" and q: "q = Inr s'"
    using assms(3) by (auto simp: current_def on_ledger_def split: prod.splits)
  from window_step [OF assms(1,2) obs] q obtain es' s1 where
    "prefix es es'" "ledger_at en w' es' s1" "fst w' = Suc (fst w)"
    "load_state (lib en) (store_codec en) (snd w') = Inr s'" by (auto simp: res_simps)
  moreover from this have "s1 = s'" by (simp add: ledger_at_def db_holds_def)
  ultimately show ?thesis using log by blast
qed

lemma all_events_step:
  assumes "others_append en" and "ledger_at en w es s" and "all_events en (w, log) = (Inr events, (w', log'))"
  shows "\<exists>s'. prefix es events \<and> ledger_at en w' events s' \<and> fst w' = Suc (fst w) \<and> log' = log"
proof -
  obtain q where obs: "observe en (\<lambda>n db. map_err EngineError.Storage (load_events (lib en) (store_codec en) db)) w =
    (q, w')" and log: "log' = log" and q: "q = Inr events"
    using assms(3) by (auto simp: all_events_def on_ledger_def split: prod.splits)
  from window_step [OF assms(1,2) obs] q obtain es' s1 where
    "prefix es es'" "ledger_at en w' es' s1" "fst w' = Suc (fst w)"
    "load_events (lib en) (store_codec en) (snd w') = Inr events" by (auto simp: res_simps)
  moreover from this have "es' = events" by (simp add: ledger_at_def db_holds_def)
  ultimately show ?thesis using log by blast
qed

lemma try_record_step:
  assumes "others_append en" and "ledger_at en w es s1" and "in_step (lib en) s esb" and "prefix esb es"
    and rec: "try_record en evs (Some (CurrentState.revision s)) tr (w, log) = (Inr (Inr s'), (w', log'))"
    and "\<forall>e \<in> set evs. codec_reads_event (lib en) (store_codec en) e" "codec_reads_state (store_codec en) s'"
    and "length evs < 2 ^ 32" and "fst w < 2 ^ 20"
  shows "es = esb \<and> apply_all (lib en) s evs = Inr s' \<and> ledger_at en w' (esb @ evs) s' \<and>
    fst w' = Suc (fst w) \<and> log' = log"
proof -
  have batch: "record_events en evs (Some (CurrentState.revision s)) tr w =
      (Inr (Inr s') :: EngineError + ProjectionError + CurrentState, w')" and log: "log' = log"
    using rec by (auto simp: try_record_def on_ledger_def split: prod.splits)
  from batch_step [OF assms(1-4) batch assms(6-9)] log show ?thesis by blast
qed

lemma record_all_step:
  assumes "others_append en" and "ledger_at en w es s1" and "in_step (lib en) s esb" and "prefix esb es"
    and "record_all en evs (Some (CurrentState.revision s)) (w, log) = (Inr s', (w', log'))"
    and "\<forall>e \<in> set evs. codec_reads_event (lib en) (store_codec en) e" "codec_reads_state (store_codec en) s'"
    and "length evs < 2 ^ 32" and "fst w < 2 ^ 20"
  shows "es = esb \<and> apply_all (lib en) s evs = Inr s' \<and> ledger_at en w' (esb @ evs) s' \<and>
    fst w' = Suc (fst w) \<and> log' = log"
proof -
  from assms(5) have "try_record en evs (Some (CurrentState.revision s)) None (w, log) = (Inr (Inr s'), (w', log'))"
    by (auto simp: record_all_def act_bind_Inr res_simps)
  from try_record_step [OF assms(1-4) this assms(6-9)] show ?thesis .
qed

section \<open>Events\<close>

lemma event_fields:
  assumes "event_with_id en eid l actor k subj p corr caus = Inr e"
  shows "ExperienceEvent.event_id e = eid" and "event_kind e = k" and "ExperienceEvent.actor_id e = actor"
    and "ExperienceEvent.subject e = subj" and "causation_id e = caus" and "correlation_id e = corr"
    and "to_value en p = Inr (payload e)"
  using assms by (auto simp: event_with_id_def new_with_id_def res_simps Let_def split: if_splits)

lemma built_event:
  assumes "event en l actor k subj p corr caus = Inr e"
  shows "ExperienceEvent.event_id e = fresh_id en l" and "event_kind e = k" and "ExperienceEvent.actor_id e = actor"
    and "ExperienceEvent.subject e = subj" and "causation_id e = caus" and "correlation_id e = corr"
    and "to_value en p = Inr (payload e)"
  using event_fields [OF assms [unfolded event_def]] by simp_all

section \<open>Invoking a capability\<close>

text \<open>The commit that leads to the database \<open>db\<close> puts the operation to \<open>Started\<close>.\<close>

definition start_recorded :: "'z Engine_scheme \<Rightarrow> Operation \<Rightarrow> nat \<Rightarrow> Db \<Rightarrow> Db \<Rightarrow> bool" where
  "start_recorded en op n db0 db \<longleftrightarrow>
     Operation.status op = OperationStatus.Started \<and>
     (\<exists>e s. record_batch (lib en) (store_codec en) (faults en n) (others en n db0) [e] None None = Inr (s, db) \<and>
        event_kind e = OperationStarted \<and>
        ExperienceEvent.subject e = reference EntityKind.Operation (Operation.id op) \<and>
        to_value en (OperationPayload op) = Inr (payload e))"

text \<open>The policy's word on an intent, and the approval it asks for.\<close>

definition may_run :: "'z Engine_scheme \<Rightarrow> CurrentState \<Rightarrow> Operation \<Rightarrow> ActionIntent \<Rightarrow> bool" where
  "may_run en s op intent \<longleftrightarrow>
     (\<exists>d. policy en (hekate_id en) intent = Inr d \<and> allowed d \<and>
        (requires_approval d \<longrightarrow>
           (\<exists>aid a. Operation.approval_id op = Some aid \<and> bt_get (approvals s) aid = Some a \<and>
              Approval.status a = ApprovalStatus.Approved)))"

lemma check_approval_Inr:
  "check_approval en s op d = Inr u \<Longrightarrow> requires_approval d \<Longrightarrow>
   \<exists>aid a. Operation.approval_id op = Some aid \<and> bt_get (approvals s) aid = Some a \<and>
     Approval.status a = ApprovalStatus.Approved"
  by (auto simp: check_approval_def split: option.splits if_splits)

lemma transition_operation_Inr:
  "transition_operation op st = Inr op' \<Longrightarrow> op' = op\<lparr>Operation.status := st\<rparr>"
  by (auto simp: transition_operation_def split: if_splits)

lemma authorize_planned_Inr:
  assumes "authorize_planned en op w = (Inr op', w')"
  shows "op' = op\<lparr>Operation.status := Operation.status op'\<rparr>"
  using assms transition_operation_Inr
  by (fastforce simp: authorize_planned_def act_bind_Inr res_simps split: if_splits)

lemma perform_operation_log:
  assumes "perform_operation en oid intent op ((n, db), log) = (r, (w', log'))"
  shows "log' = log @ [(ActionIntent.capability intent, ActionIntent.arguments intent)]"
proof -
  have "keeps_log (act_bind (act_lift (outcome_events en oid op res)) (\<lambda>(es, rc).
      act_bind (record_all en es None) (\<lambda>_. act_return rc)))" for res
    by (intro quiet)
  from keeps_logD [OF this] assms show ?thesis
    by (simp add: perform_operation_def act_bind_def [of "invoke _ _ _"] invoke_def)
qed

text \<open>A run of an operation either invokes nothing or performs it once it is on record as started.\<close>

lemma quiet_then:
  assumes "act_bind m f (w, log) = (r, (w', log'))" and "keeps_log m" and "log' \<noteq> log"
  obtains v w1 where "m (w, log) = (Inr v, (w1, log))" and "f v (w1, log) = (r, (w', log'))"
proof -
  obtain q w1 log1 where m: "m (w, log) = (q, (w1, log1))" by (metis prod.collapse)
  moreover from keeps_logD [OF assms(2) m] have "log1 = log" .
  ultimately show ?thesis
    using assms(1,3) that by (cases q) (auto simp: act_bind_def)
qed

lemma run_operation_performs:
  assumes run: "run_operation en oid intent op (w, log) = (r, (w', log'))" and ran: "log' \<noteq> log"
  shows "\<exists>op1 n db0 db op'. authorize_planned en op (w, log) = (Inr op1, ((n, db0), log)) \<and>
    start_recorded en op' n db0 db \<and> Operation.id op' = Operation.id op \<and>
    perform_operation en oid intent op' ((Suc n, db), log) = (r, (w', log'))"
proof -
  obtain op1 w1 where auth: "authorize_planned en op (w, log) = (Inr op1, (w1, log))" and
    rest: "act_bind (act_lift (map_err EngineError.Transition
       (transition_operation op1 OperationStatus.Started))) (\<lambda>op2.
     let op = op2\<lparr>Operation.started_at := Some (clock en ''operation started'')\<rparr> in
     act_bind (act_lift (operation_event en ''OperationStarted'' OperationStarted op)) (\<lambda>e.
     act_bind (record_all en [e] None) (\<lambda>_. perform_operation en oid intent op))) (w1, log) = (r, (w', log'))"
    by (rule quiet_then [OF run [unfolded run_operation_def] quiet_authorize ran]) (rule that)
  obtain op2 where op2: "transition_operation op1 OperationStatus.Started = Inr op2" and
    rest2: "act_bind (act_lift (operation_event en ''OperationStarted'' OperationStarted
        (op2\<lparr>Operation.started_at := Some (clock en ''operation started'')\<rparr>))) (\<lambda>e.
      act_bind (record_all en [e] None) (\<lambda>_. perform_operation en oid intent
        (op2\<lparr>Operation.started_at := Some (clock en ''operation started'')\<rparr>))) (w1, log) = (r, (w', log'))"
    by (rule quiet_then [OF rest quiet_lift ran]) (auto simp: res_simps Let_def intro: that)
  define op' where "op' = op2\<lparr>Operation.started_at := Some (clock en ''operation started'')\<rparr>"
  obtain e where e: "operation_event en ''OperationStarted'' OperationStarted op' = Inr e" and
    rest3: "act_bind (record_all en [e] None) (\<lambda>_. perform_operation en oid intent op') (w1, log) = (r, (w', log'))"
    unfolding op'_def by (rule quiet_then [OF rest2 quiet_lift ran]) (auto intro: that)
  obtain s w2 where rec: "record_all en [e] None (w1, log) = (Inr s, (w2, log))" and
    perf: "perform_operation en oid intent op' (w2, log) = (r, (w', log'))"
    by (rule quiet_then [OF rest3 quiet_record ran]) (rule that)
  obtain n db0 where w1: "w1 = (n, db0)" by (cases w1)
  from record_all_Inr [OF rec [unfolded w1]] obtain db where
    batch: "record_batch (lib en) (store_codec en) (faults en n) (others en n db0) [e] None None = Inr (s, db)"
    and w2: "w2 = (Suc n, db)" by blast
  have "Operation.status op' = OperationStatus.Started" "Operation.id op' = Operation.id op"
    using transition_operation_Inr [OF op2] authorize_planned_Inr [OF auth]
    by (simp_all add: op'_def) (metis Operation.select_convs(1) Operation.surjective Operation.update_convs(3))
  moreover have "start_recorded en op' n db0 db"
    unfolding start_recorded_def
    using batch calculation(1) built_event [OF e [unfolded operation_event_def]] by blast
  ultimately show ?thesis using perf w2 auth w1 by blast
qed

text \<open>
  The whole of \<open>execute_operation\<close>: it invokes nothing, or a capability was asked for what the
  intent says, of an operation that was open, under the policy and the approval it asks for, and
  with its start on record.
\<close>

lemma execute_operation_performs:
  assumes run: "execute_operation en oid ((n, db), log) = (r, (w', log'))" and ran: "log' \<noteq> log"
  shows "\<exists>s op intent op1 k db0 dbk op'.
    load_state (lib en) (store_codec en) (others en n db) = Inr s \<and>
    bt_get (operations s) oid = Some op \<and>
    Operation.status op \<in> {OperationStatus.Planned, OperationStatus.Authorized} \<and>
    bt_get (action_intents s) (Operation.intent_id op) = Some intent \<and> may_run en s op intent \<and>
    authorize_planned en op ((Suc n, others en n db), log) = (Inr op1, ((k, db0), log)) \<and>
    start_recorded en op' k db0 dbk \<and> Operation.id op' = Operation.id op \<and>
    perform_operation en oid intent op' ((Suc k, dbk), log) = (r, (w', log')) \<and>
    log' = log @ [(ActionIntent.capability intent, ActionIntent.arguments intent)]"
proof -
  obtain s w1 where cur: "current en ((n, db), log) = (Inr s, (w1, log))" and
    rest: "execute_in en oid s (w1, log) = (r, (w', log'))"
    by (rule quiet_then [OF run [unfolded execute_operation_def] quiet_accesses(1) ran]) (rule that)
  have lift: "act_lift q (w1, log) \<noteq> (r, (w', log'))" for q :: "EngineError + Receipt"
    using ran keeps_logD [OF quiet_lift] by metis
  obtain op where op: "bt_get (operations s) oid = Some op"
    using rest lift by (cases "bt_get (operations s) oid") (simp_all add: execute_in_def)
  then obtain intent where intent: "bt_get (action_intents s) (Operation.intent_id op) = Some intent"
    and open_op: "Operation.status op \<in> {OperationStatus.Planned, OperationStatus.Authorized}"
    and rest2: "act_bind (act_lift (map_err EngineError.Policy (policy en (hekate_id en) intent))) (\<lambda>d.
          if \<not> allowed d then act_lift (Inl (PolicyDenied (PolicyDecision.reason d)))
          else act_bind (act_lift (check_approval en s op d)) (\<lambda>_. run_operation en oid intent op))
        (w1, log) = (r, (w', log'))"
    using rest lift by (cases "Operation.status op"; cases "bt_get (action_intents s) (Operation.intent_id op)")
      (simp_all add: execute_in_def)
  obtain d where d: "policy en (hekate_id en) intent = Inr d" "allowed d"
    and rest3: "act_bind (act_lift (check_approval en s op d)) (\<lambda>_. run_operation en oid intent op)
      (w1, log) = (r, (w', log'))"
  proof (rule quiet_then [OF rest2 quiet_lift ran])
    fix d w2
    assume "act_lift (map_err EngineError.Policy (policy en (hekate_id en) intent)) (w1, log) = (Inr d, (w2, log))"
      and "(if \<not> allowed d then act_lift (Inl (PolicyDenied (PolicyDecision.reason d)))
          else act_bind (act_lift (check_approval en s op d)) (\<lambda>_. run_operation en oid intent op)) (w2, log) =
        (r, (w', log'))"
    then show thesis using lift that by (cases "allowed d") (auto simp: res_simps)
  qed
  obtain u where ok: "check_approval en s op d = Inr u"
    and runs: "run_operation en oid intent op (w1, log) = (r, (w', log'))"
    by (rule quiet_then [OF rest3 quiet_lift ran]) (auto intro: that)
  have may: "may_run en s op intent"
    using d check_approval_Inr [OF ok] by (auto simp: may_run_def)
  from run_operation_performs [OF runs ran] obtain op1 k db0 dbk op' where
    "authorize_planned en op (w1, log) = (Inr op1, ((k, db0), log))"
    "start_recorded en op' k db0 dbk" "Operation.id op' = Operation.id op"
    and perf: "perform_operation en oid intent op' ((Suc k, dbk), log) = (r, (w', log'))" by blast
  with op intent open_op may current_Inr [OF cur] perform_operation_log [OF perf]
  show ?thesis by blast
qed

section \<open>An operation once it was run\<close>

text \<open>
  An operation is performed once: what the engine records around an invocation never reopens the
  operation, whichever of its commits succeed, so a later call finds it closed.
\<close>

subsection \<open>The events of an operation\<close>

definition operation_kinds :: "EventKind set" where
  "operation_kinds = {OperationAuthorized, OperationStarted, OperationSucceeded, OperationFailed,
     OperationStateUnknown, ReceiptRecorded, ArtifactCreated, VerificationRecorded, ApprovalResolved}"

definition operation_entities :: "EntityKind set" where
  "operation_entities = {EntityKind.Operation, EntityKind.Receipt, EntityKind.Artifact,
     EntityKind.Verification, EntityKind.Approval}"

definition operation_codec :: "'z Engine_scheme \<Rightarrow> bool" where
  "operation_codec en \<longleftrightarrow>
     (\<forall>e. event_kind e \<in> operation_kinds \<and>
        (\<exists>r. ExperienceEvent.subject e = Some r \<and> EntityRef.kind r \<in> operation_entities) \<longrightarrow>
        codec_reads_event (lib en) (store_codec en) e) \<and>
     (\<forall>s. codec_reads_state (store_codec en) s)"

definition operation_serde :: "'z Engine_scheme \<Rightarrow> bool" where
  "operation_serde en \<longleftrightarrow>
     (\<forall>op v. to_value en (OperationPayload op) = Inr v \<longrightarrow> de_operation (lib en) v = Inr op)"

text \<open>An event on an operation, with a payload that is not open.\<close>

definition closing :: "'z Engine_scheme \<Rightarrow> ExperienceEvent \<Rightarrow> bool" where
  "closing en e \<longleftrightarrow>
     event_kind e \<in> operation_kinds - {OperationAuthorized, ApprovalResolved} \<and>
     (\<exists>r. ExperienceEvent.subject e = Some r \<and> EntityRef.kind r \<in> operation_entities) \<and>
     (event_kind e \<in> {OperationStarted, OperationSucceeded, OperationFailed, OperationStateUnknown} \<longrightarrow>
        (\<exists>op. to_value en (OperationPayload op) = Inr (payload e) \<and>
           Operation.status op \<notin> {OperationStatus.Planned, OperationStatus.Authorized}))"

definition closed :: "CurrentState \<Rightarrow> OperationId \<Rightarrow> bool" where
  "closed s oid \<longleftrightarrow>
     (\<exists>op. bt_get (operations s) oid = Some op \<and>
        Operation.status op \<notin> {OperationStatus.Planned, OperationStatus.Authorized})"

lemma operation_kind_Inr:
  assumes "apply_kind x s e = Inr t"
    and "event_kind e \<in> {OperationStarted, OperationSucceeded, OperationFailed, OperationStateUnknown}"
  shows "\<exists>op. de_operation x (payload e) = Inr op \<and> operations t = bt_insert (Operation.id op) op (operations s)"
  using assms by (auto simp: apply_kind_def Let_def res_simps insert_payload_Inr)

lemma side_kind_Inr:
  assumes "apply_kind x s e = Inr t" and "event_kind e \<in> {ReceiptRecorded, ArtifactCreated}"
  shows "operations t = operations s"
  using assms by (auto simp: apply_kind_def Let_def res_simps)

lemma verification_kind_Inr:
  assumes "apply_kind x s e = Inr t" and "event_kind e = VerificationRecorded"
  shows "\<exists>v :: Verification. operations t = bt_modify (Verification.operation_id v)
    (\<lambda>p. p\<lparr>Operation.status := verified_operation_status (Verification.status v)\<rparr>) (operations s)"
  using assms by (auto simp: apply_kind_def apply_verification_def res_simps)

lemma verified_not_open:
  "verified_operation_status v \<notin> {OperationStatus.Planned, OperationStatus.Authorized}"
  by (cases v) simp_all

lemma closing_event:
  assumes "apply_event (lib en) s e = Inr s'" and closing: "closing en e" and "operation_serde en"
    and "closed s oid"
  shows "closed s' oid"
  using assms(1)
proof (cases rule: apply_event_cases)
  case (1 t)
  from closing consider
    (operation) "event_kind e \<in> {OperationStarted, OperationSucceeded, OperationFailed, OperationStateUnknown}"
    | (side) "event_kind e \<in> {ReceiptRecorded, ArtifactCreated}"
    | (verification) "event_kind e = VerificationRecorded"
    by (auto simp: closing_def operation_kinds_def)
  then have "closed t oid"
  proof cases
    case operation
    from operation_kind_Inr [OF 1(1) this] closing operation assms(3,4) show ?thesis
      by (auto simp: closing_def operation_serde_def closed_def)
  next
    case side
    from side_kind_Inr [OF 1(1) this] assms(4) show ?thesis by (simp add: closed_def)
  next
    case verification
    from verification_kind_Inr [OF 1(1) this] obtain v :: Verification where
      t: "operations t = bt_modify (Verification.operation_id v)
        (\<lambda>p. p\<lparr>Operation.status := verified_operation_status (Verification.status v)\<rparr>) (operations s)"
      by blast
    show ?thesis
      using assms(4) verified_not_open [of "Verification.status v"]
      by (auto simp: closed_def t)
  qed
  with 1(2) show ?thesis by (simp add: closed_def)
qed

lemma closing_events:
  assumes "apply_all (lib en) s evs = Inr s'" and "\<forall>e \<in> set evs. closing en e" and "operation_serde en"
    and "closed s oid"
  shows "closed s' oid"
  using assms(1,2,4)
  by (induction evs arbitrary: s) (auto simp: res_simps intro: closing_event [OF _ _ assms(3)])

lemma started_event:
  assumes "apply_event (lib en) s e = Inr s'" and "event_kind e = OperationStarted"
    and "to_value en (OperationPayload op) = Inr (payload e)" and "operation_serde en"
    and "Operation.status op = OperationStatus.Started"
  shows "closed s' (Operation.id op)"
  using assms
  by (auto simp: apply_event_Inr apply_kind_def Let_def operation_serde_def closed_def res_simps insert_payload_Inr)

subsection \<open>What an outcome records\<close>

lemma operation_event_closing:
  assumes "operation_event en l k op = Inr e"
    and "k \<in> {OperationStarted, OperationSucceeded, OperationFailed, OperationStateUnknown}"
    and "Operation.status op \<notin> {OperationStatus.Planned, OperationStatus.Authorized}"
  shows "closing en e"
  using assms(2,3) built_event [OF assms(1) [unfolded operation_event_def]]
  by (auto simp: closing_def operation_kinds_def operation_entities_def reference_def)

lemma side_event_closing:
  assumes "event en l actor k (reference r i) p corr caus = Inr e"
    and "k \<in> {ReceiptRecorded, ArtifactCreated, VerificationRecorded}" and "r \<in> operation_entities"
  shows "closing en e"
  using assms(2,3) built_event [OF assms(1)]
  by (auto simp: closing_def operation_kinds_def reference_def)

lemma receipt_event_closing: "receipt_event en op rc caus = Inr e \<Longrightarrow> closing en e"
  unfolding receipt_event_def by (erule side_event_closing) (simp_all add: operation_entities_def)

lemma artifact_events_closing: "artifact_events en op rc caus = Inr es \<Longrightarrow> \<forall>e \<in> set es. closing en e"
  by (auto simp: artifact_events_def res_simps operation_entities_def split: option.splits
      intro: side_event_closing)

lemma verification_event_closing: "verification_event en oid op st ev caus = Inr e \<Longrightarrow> closing en e"
  by (auto simp: verification_event_def Let_def operation_entities_def intro: side_event_closing)

lemma outcome_closing:
  assumes "outcome_events en oid op res = Inr (es, rc)"
  shows "\<forall>e \<in> set es. closing en e"
proof (cases res)
  case (Inr r)
  define st where "st = (if CapabilityResult.verified r then OperationStatus.Succeeded else OperationStatus.Unknown)"
  from assms Inr obtain op' e1 e2 as vs where
    e1: "operation_event en ''outcome'' (if CapabilityResult.verified r then OperationSucceeded else OperationStateUnknown) op' = Inr e1"
    and op': "Operation.status op' = st"
    and e2: "receipt_event en op' rc (ExperienceEvent.event_id e1) = Inr e2"
    and as: "artifact_events en op' rc (ExperienceEvent.event_id e2) = Inr as"
    and vs: "(if CapabilityResult.verified r then res_bind (verification_event en oid op' VerificationStatus.Verified
        (CapabilityResult.evidence r) (ExperienceEvent.event_id e2)) (\<lambda>e. Inr [e]) else Inr []) = Inr vs"
    and es: "es = [e1, e2] @ as @ vs"
    by (fastforce simp: outcome_events_def Let_def res_simps st_def)
  have "\<forall>e \<in> set vs. closing en e"
    using vs verification_event_closing by (auto simp: res_simps split: if_splits)
  moreover have "closing en e1"
    by (rule operation_event_closing [OF e1]) (auto simp: op' st_def)
  ultimately show ?thesis
    using receipt_event_closing [OF e2] artifact_events_closing [OF as] by (auto simp: es)
next
  case (Inl err)
  with assms show ?thesis
    by (cases err) (auto simp: outcome_events_def Let_def res_simps
        dest!: receipt_event_closing verification_event_closing; erule operation_event_closing; simp)+
qed

subsection \<open>Alone\<close>

definition alone :: "'z Engine_scheme \<Rightarrow> bool" where "alone en \<longleftrightarrow> (\<forall>n db. others en n db = db)"

definition operation_record :: "ExperienceEvent \<Rightarrow> bool" where
  "operation_record e \<longleftrightarrow> event_kind e \<in> operation_kinds \<and>
     (\<exists>r. ExperienceEvent.subject e = Some r \<and> EntityRef.kind r \<in> operation_entities)"

lemma closing_record: "closing en e \<Longrightarrow> operation_record e"
  by (auto simp: closing_def operation_record_def)

text \<open>The database holds some ledger, with room for \<open>k\<close> more events, whose state satisfies \<open>P\<close>.\<close>

definition holds_some :: "'z Engine_scheme \<Rightarrow> nat \<Rightarrow> (CurrentState \<Rightarrow> bool) \<Rightarrow> Db \<Rightarrow> bool" where
  "holds_some en k P db \<longleftrightarrow>
     (\<exists>es s. db_holds (lib en) (store_codec en) db es s \<and> length es + k < 2 ^ 63 \<and> P s)"

lemma alone_batch:
  assumes "alone en" and "operation_codec en" and at: "holds_some en k P db"
    and rec: "record_batch (lib en) (store_codec en) (faults en n) (others en n db) evs base tr = Inr (s', db')"
    and evs: "\<forall>e \<in> set evs. operation_record e" "length evs \<le> j" "j \<le> k"
    and keep: "\<And>s. P s \<Longrightarrow> apply_all (lib en) s evs = Inr s' \<Longrightarrow> Q s'"
  shows "holds_some en (k - j) Q db'"
proof -
  from assms(1) at obtain es s where db: "db_holds (lib en) (store_codec en) (others en n db) es s"
    and len: "length es + k < 2 ^ 63" and P: "P s"
    by (auto simp: alone_def holds_some_def)
  from record_batch_Inr [OF rec] db have run: "apply_all (lib en) s evs = Inr s'"
    by (auto simp: db_holds_def)
  have "length es + length evs < 2 ^ 63" using len evs(2,3) by simp
  then have "db_holds (lib en) (store_codec en) db' (es @ evs) s'"
    using record_batch_holds [OF db rec] assms(2) evs(1)
    by (auto simp: operation_codec_def operation_record_def)
  then show ?thesis
    using keep [OF P run] len evs(2,3) unfolding holds_some_def
    by (intro exI [of _ "es @ evs"] exI [of _ s']) auto
qed

lemma authorize_keeps:
  assumes "alone en" and "operation_codec en" and "holds_some en k P db" and "0 < k"
    and auth: "authorize_planned en op ((n, db), log) = (Inr op1, ((n1, db1), log1))"
  shows "holds_some en (k - 1) (\<lambda>s. True) db1"
proof (cases "Operation.status op = OperationStatus.Planned")
  case True
  with auth obtain e s' where ev: "event en ''OperationAuthorized'' (hekate_id en) OperationAuthorized
      (reference EntityKind.Operation (Operation.id op1)) (OperationPayload op1)
      (Some (id_text (lib en) (Operation.id op1))) None = Inr e"
    and rec: "record_all en [e] None ((n, db), log) = (Inr s', ((n1, db1), log1))"
    by (auto simp: authorize_planned_def append_event_def act_bind_Inr)
  from record_all_Inr [OF rec] have batch: "record_batch (lib en) (store_codec en) (faults en n) (others en n db)
      [e] None None = Inr (s', db1)" by auto
  have "operation_record e"
    using built_event [OF ev]
    by (simp add: operation_record_def operation_kinds_def operation_entities_def reference_def)
  then show ?thesis
    using alone_batch [OF assms(1-3) batch, of 1 "\<lambda>s. True"] assms(4) by simp
next
  case False
  with auth assms(3) show ?thesis
    by (fastforce simp: authorize_planned_def holds_some_def)
qed

lemma start_closes:
  assumes "alone en" and "operation_codec en" and "operation_serde en"
    and "holds_some en k P db0" and "0 < k" and start: "start_recorded en op n db0 db"
  shows "holds_some en (k - 1) (\<lambda>s. closed s (Operation.id op)) db"
proof -
  from start obtain e s' where
    rec: "record_batch (lib en) (store_codec en) (faults en n) (others en n db0) [e] None None = Inr (s', db)"
    and e: "event_kind e = OperationStarted" "to_value en (OperationPayload op) = Inr (payload e)"
      "ExperienceEvent.subject e = reference EntityKind.Operation (Operation.id op)"
    and op: "Operation.status op = OperationStatus.Started"
    by (auto simp: start_recorded_def)
  have "operation_record e"
    using e by (simp add: operation_record_def operation_kinds_def operation_entities_def reference_def)
  moreover have "closed s' (Operation.id op)" if "apply_all (lib en) s [e] = Inr s'" for s
    using that started_event [OF _ e(1,2) assms(3) op] by (auto simp: res_simps)
  ultimately show ?thesis
    using alone_batch [OF assms(1,2,4) rec, of 1 "\<lambda>s. closed s (Operation.id op)"] assms(5) by simp
qed

lemma artifact_events_length: "artifact_events en op rc caus = Inr es \<Longrightarrow> length es \<le> 1"
  by (auto simp: artifact_events_def res_simps split: option.splits)

lemma outcome_length:
  assumes "outcome_events en oid op res = Inr (es, rc)"
  shows "length es \<le> 4"
proof (cases res)
  case (Inr r)
  with assms show ?thesis
    by (auto simp: outcome_events_def Let_def res_simps dest!: artifact_events_length split: if_splits)
next
  case (Inl err)
  with assms show ?thesis
    by (cases err) (auto simp: outcome_events_def Let_def res_simps)
qed

lemma perform_keeps_closed:
  assumes "alone en" and "operation_codec en" and "operation_serde en"
    and at: "holds_some en k (\<lambda>s. closed s i) db" and k: "4 \<le> k"
    and perf: "perform_operation en oid intent op ((n, db), log) = (r, ((n', db'), log'))"
  shows "holds_some en (k - 4) (\<lambda>s. closed s i) db'"
proof -
  define cap where "cap = ActionIntent.capability intent"
  define args where "args = ActionIntent.arguments intent"
  define res where "res = execute en n cap args"
  have same: "holds_some en (k - 4) (\<lambda>s. closed s i) db"
    using at by (fastforce simp: holds_some_def)
  have "act_bind (act_lift (outcome_events en oid op res)) (\<lambda>(es, rc).
      act_bind (record_all en es None) (\<lambda>_. act_return rc)) ((n, db), log @ [(cap, args)]) = (r, ((n', db'), log'))"
    using perf by (simp add: perform_operation_def act_bind_def [of "invoke _ _ _"] invoke_def res_def cap_def args_def)
  then consider "db' = db" | es rc q w2 where "outcome_events en oid op res = Inr (es, rc)"
    and "record_all en es None ((n, db), log @ [(cap, args)]) = (q, ((n', db'), w2))"
    by (auto simp: act_bind_def act_lift_def act_return_def split: sum.splits prod.splits)
  then show ?thesis
  proof cases
    case 2
    show ?thesis
    proof (cases q)
      case (Inl err)
      with record_all_Inl [of en es None n db _ err] 2(2) assms(1) have "db' = db"
        by (auto simp: alone_def)
      with same show ?thesis by simp
    next
      case (Inr s')
      with record_all_Inr 2(2) have rec: "record_batch (lib en) (store_codec en) (faults en n) (others en n db)
          es None None = Inr (s', db')" by fastforce
      show ?thesis
        by (rule alone_batch [OF assms(1,2) at rec _ outcome_length [OF 2(1)] k])
          (use outcome_closing [OF 2(1)] closing_record closing_events assms(3) in blast)+
    qed
  qed (use same in simp)
qed

lemma closed_not_executed:
  assumes "alone later" and at: "holds_some en k (\<lambda>s. closed s oid) db"
    and "lib later = lib en" "store_codec later = store_codec en"
    and run: "execute_operation later oid ((n, db), log) = (r, (w', log'))"
  shows "log' = log"
proof (rule ccontr)
  assume "log' \<noteq> log"
  from execute_operation_performs [OF run this] at assms(1,3,4) show False
    by (auto simp: holds_some_def closed_def alone_def db_holds_def)
qed

lemma executed_then_closed:
  assumes "alone en" and "operation_codec en" and "operation_serde en"
    and db: "db_holds (lib en) (store_codec en) db es s" and len: "length es < 2 ^ 62"
    and run: "execute_operation en oid ((n, db), log) = (r, ((n', db'), log'))" and ran: "log' \<noteq> log"
  shows "holds_some en 0 (\<lambda>s. closed s oid) db'"
proof -
  from execute_operation_performs [OF run ran] assms(1) db obtain op intent op1 k db0 dbk op' where
    op: "bt_get (operations s) oid = Some op"
    and auth: "authorize_planned en op ((Suc n, db), log) = (Inr op1, ((k, db0), log))"
    and start: "start_recorded en op' k db0 dbk" and same: "Operation.id op' = Operation.id op"
    and perf: "perform_operation en oid intent op' ((Suc k, dbk), log) = (r, ((n', db'), log'))"
    by (auto simp: alone_def db_holds_def)
  have "Operation.id op = oid"
    using op db records_wf_replay by (fastforce simp: db_holds_def records_wf_def keyed_def)
  have "holds_some en 6 (\<lambda>s. True) db" using db len by (auto simp: holds_some_def)
  from authorize_keeps [OF assms(1,2) this _ auth] have "holds_some en 5 (\<lambda>s. True) db0" by simp
  from start_closes [OF assms(1-3) this _ start] have "holds_some en 4 (\<lambda>s. closed s (Operation.id op')) dbk" by simp
  from perform_keeps_closed [OF assms(1-3) this _ perf] show ?thesis
    using same \<open>Operation.id op = oid\<close> by simp
qed

subsection \<open>Resolving an approval\<close>

definition approval_serde :: "'z Engine_scheme \<Rightarrow> bool" where
  "approval_serde en \<longleftrightarrow> operation_serde en \<and>
     (\<forall>a v. to_value en (ApprovalPayload a) = Inr v \<longrightarrow> de_approval (lib en) v = Inr a)"

definition resolved_approval :: "'z Engine_scheme \<Rightarrow> bool \<Rightarrow> Approval \<Rightarrow> Approval" where
  "resolved_approval en approved a =
     a\<lparr>Approval.status := (if approved then ApprovalStatus.Approved else ApprovalStatus.Denied),
       Approval.resolved_by := Some (user_id en),
       Approval.resolved_at := Some (clock en ''approval resolved'')\<rparr>"

definition resolved_status :: "bool \<Rightarrow> OperationStatus" where
  "resolved_status approved = (if approved then OperationStatus.Authorized else OperationStatus.Failed)"

lemma resolution_applies:
  assumes "apply_all x s [e1, e2] = Inr s'" and "event_kind e1 = ApprovalResolved"
    and "event_kind e2 \<in> {OperationAuthorized, OperationFailed}"
    and "de_approval x (payload e1) = Inr a" and "de_operation x (payload e2) = Inr op"
  shows "bt_get (approvals s') (Approval.id a) = Some a" and "bt_get (operations s') (Operation.id op) = Some op"
  using assms by (auto simp: res_simps apply_event_Inr apply_kind_def Let_def insert_payload_Inr)

lemma resolve_approval_run:
  assumes "resolve_approval en aid approved (w, log) = (Inr a, (w', log'))"
  obtains s w1 a0 op0 e1 e2 s' where "current en (w, log) = (Inr s, (w1, log))"
    and "bt_get (approvals s) aid = Some a0" and "Approval.status a0 = ApprovalStatus.Pending"
    and "a = resolved_approval en approved a0"
    and "bt_get (operations s) (Approval.operation_id a0) = Some op0"
    and "operation_allowed (Operation.status op0) (resolved_status approved)"
    and "event en ''ApprovalResolved'' (user_id en) ApprovalResolved
      (reference EntityKind.Approval (Approval.id a)) (ApprovalPayload a)
      (Some (id_text (lib en) (Approval.id a))) None = Inr e1"
    and "event en ''approved operation'' (user_id en) (if approved then OperationAuthorized else OperationFailed)
      (reference EntityKind.Operation (Operation.id op0))
      (OperationPayload (op0\<lparr>Operation.status := resolved_status approved\<rparr>))
      (Some (id_text (lib en) (Approval.id a))) (Some (ExperienceEvent.event_id e1)) = Inr e2"
    and "record_all en [e1, e2] (Some (CurrentState.revision s)) (w1, log) = (Inr s', (w', log'))"
proof -
  from assms obtain s w1 log1 where cur: "current en (w, log) = (Inr s, (w1, log1))"
    by (auto simp: resolve_approval_def act_bind_Inr)
  from keeps_logD [OF quiet_accesses(1) cur] have "log1 = log" .
  with assms cur that show thesis
    by (auto simp: resolve_approval_def act_bind_Inr act_case_option Let_def res_simps resolved_approval_def
        resolved_status_def transition_operation_def split: if_splits)
qed

end
