(* ===== verification/EngineScenario.thy ===== *)
theory EngineScenario
  imports EngineFacts IntegrationScenario
begin

text \<open>
  A concrete operation: it is planned and waits for an approval, the user approves it, the engine
  runs it and records its success. Nobody else touches the database.
\<close>

section \<open>Data\<close>

definition the_intent :: ActionIntent where
  "the_intent = \<lparr>ActionIntent.id = from_uuid 31, capability = ''git'', operation = ''commit'',
     target = ''repo'', arguments = JNumber ''args'', expected_effect = ''commit'', preconditions = [],
     proposed_by_event = None\<rparr>"

definition waiting_operation :: Operation where
  "waiting_operation = \<lparr>Operation.id = from_uuid 32, intent_id = from_uuid 31,
     status = OperationStatus.Planned, idempotency_key = ''intent:31'',
     approval_id = Some (from_uuid 33), started_at = None, finished_at = None\<rparr>"

definition pending :: Approval where
  "pending = \<lparr>Approval.id = from_uuid 33, intent_id = from_uuid 31, operation_id = from_uuid 32,
     requested_by = from_uuid 2, status = ApprovalStatus.Pending, reason = ''mutation'',
     resolved_by = None, resolved_at = None, created_at = ''t''\<rparr>"

definition granted :: Approval where
  "granted = pending\<lparr>Approval.status := ApprovalStatus.Approved, Approval.resolved_by := Some (from_uuid 1),
     Approval.resolved_at := Some ''t''\<rparr>"

definition ready_operation :: Operation where
  "ready_operation = waiting_operation\<lparr>Operation.status := OperationStatus.Authorized\<rparr>"

definition started_operation :: Operation where
  "started_operation = waiting_operation\<lparr>Operation.status := OperationStatus.Started,
     Operation.started_at := Some ''t''\<rparr>"

definition done_operation :: Operation where
  "done_operation = started_operation\<lparr>Operation.status := OperationStatus.Succeeded,
     Operation.finished_at := Some ''t''\<rparr>"

definition the_receipt :: Receipt where
  "the_receipt = \<lparr>Receipt.id = from_uuid 36, operation_id = from_uuid 32,
     status = OperationStatus.Succeeded, external_reference = None, output = JNull,
     recorded_at = ''t''\<rparr>"

definition the_verification :: Verification where
  "the_verification = \<lparr>Verification.id = from_uuid 38, operation_id = from_uuid 32,
     status = VerificationStatus.Verified, evidence = [], checked_at = ''t''\<rparr>"

section \<open>States\<close>

definition waiting_state :: CurrentState where
  "waiting_state = default_state\<lparr>CurrentState.revision := 3,
     action_intents := [(from_uuid 31, the_intent)], operations := [(from_uuid 32, waiting_operation)],
     approvals := [(from_uuid 33, pending)],
     applied_events := [from_uuid 21, from_uuid 22, from_uuid 23]\<rparr>"

definition approved_state :: CurrentState where
  "approved_state = waiting_state\<lparr>CurrentState.revision := 5,
     operations := [(from_uuid 32, ready_operation)], approvals := [(from_uuid 33, granted)],
     applied_events := applied_events waiting_state @ [from_uuid 24, from_uuid 25]\<rparr>"

definition begun_state :: CurrentState where
  "begun_state = approved_state\<lparr>CurrentState.revision := 6,
     operations := [(from_uuid 32, started_operation)],
     applied_events := applied_events approved_state @ [from_uuid 26]\<rparr>"

definition finished_state :: CurrentState where
  "finished_state = begun_state\<lparr>CurrentState.revision := 9,
     operations := [(from_uuid 32, done_operation\<lparr>Operation.status := OperationStatus.Verified\<rparr>)],
     receipts := [(from_uuid 36, the_receipt)], verifications := [(from_uuid 38, the_verification)],
     applied_events := applied_events begun_state @ [from_uuid 27, from_uuid 28, from_uuid 29]\<rparr>"

section \<open>The desk\<close>

definition desk_ext :: ext where
  "desk_ext = demo\<lparr>de_action_intent := tagged [(''intent'', the_intent)],
     de_operation := tagged [(''planned'', waiting_operation), (''ready'', ready_operation),
       (''started'', started_operation), (''done'', done_operation)],
     de_approval := tagged [(''pending'', pending), (''granted'', granted)],
     de_receipt := tagged [(''receipt'', the_receipt)],
     de_verification := tagged [(''verification'', the_verification)]\<rparr>"

definition desk_kinds :: "(EventKind \<times> string) list" where
  "desk_kinds = [(ActionIntentCreated, ''i''), (OperationPlanned, ''p''), (ApprovalRequested, ''r''),
     (OperationAuthorized, ''a''), (OperationStarted, ''s''), (OperationSucceeded, ''d''),
     (OperationFailed, ''f''), (OperationStateUnknown, ''u''), (ReceiptRecorded, ''c''),
     (ArtifactCreated, ''t''), (VerificationRecorded, ''v''), (ApprovalResolved, ''g'')]"

definition desk_entities :: "(EntityKind \<times> string) list" where
  "desk_entities = [(EntityKind.ActionIntent, ''i''), (EntityKind.Operation, ''o''), (EntityKind.Receipt, ''r''),
     (EntityKind.Artifact, ''t''), (EntityKind.Verification, ''v''), (EntityKind.Approval, ''a'')]"

definition desk_states :: "(CurrentState \<times> string) list" where
  "desk_states = [(waiting_state, ''a''), (approved_state, ''b''), (begun_state, ''c''), (finished_state, ''d'')]"

definition desk_codec :: codec where
  "desk_codec = table_codec desk_kinds desk_entities desk_states"

definition desk_payloads :: "(Recorded \<times> string) list" where
  "desk_payloads = [(OperationPayload ready_operation, ''ready''), (ApprovalPayload granted, ''granted''),
     (OperationPayload started_operation, ''started''), (OperationPayload done_operation, ''done''),
     (ReceiptPayload the_receipt, ''receipt''), (VerificationPayload the_verification, ''verification'')]"

definition desk_uuids :: "(string \<times> Uuid) list" where
  "desk_uuids = [(''ApprovalResolved'', 24), (''approved operation'', 25), (''OperationStarted'', 26),
     (''outcome'', 27), (''ReceiptRecorded'', 28), (''VerificationRecorded'', 29), (''receipt'', 36),
     (''verification'', 38)]"

definition desk_policy :: "PrincipalId \<Rightarrow> ActionIntent \<Rightarrow> PolicyError + PolicyDecision" where
  "desk_policy i intent = Inr \<lparr>allowed = True, requires_approval = True, reason = ''mutation''\<rparr>"

definition desk :: Engine where
  "desk = \<lparr>lib = desk_ext, store_codec = desk_codec, others = \<lambda>n db. db, lease_clock = \<lambda>n. 0,
     faults = \<lambda>n st. None,
     to_value = (\<lambda>p. case map_of desk_payloads p of None \<Rightarrow> Inl ''unknown'' | Some t \<Rightarrow> Inr (JNumber t)),
     policy = desk_policy, capability_names = [''git''],
     execute = \<lambda>n cap input. Inr \<lparr>CapabilityResult.data = JNull, evidence = [], verified = True\<rparr>,
     hekate_id = from_uuid 2, user_id = from_uuid 1,
     fresh = (\<lambda>l. case map_of desk_uuids l of None \<Rightarrow> 0 | Some u \<Rightarrow> u), clock = \<lambda>l. ''t''\<rparr>"

definition desk_ledger :: "ExperienceEvent list" where
  "desk_ledger = [an_event 21 2 ActionIntentCreated ''intent'' (Some \<lparr>EntityRef.kind = EntityKind.ActionIntent, id = 31\<rparr>),
     an_event 22 2 OperationPlanned ''planned'' (Some \<lparr>EntityRef.kind = EntityKind.Operation, id = 32\<rparr>),
     an_event 23 2 ApprovalRequested ''pending'' (Some \<lparr>EntityRef.kind = EntityKind.Approval, id = 33\<rparr>)]"

definition desk_event :: "Uuid \<Rightarrow> Uuid \<Rightarrow> EventKind \<Rightarrow> EntityKind \<Rightarrow> Uuid \<Rightarrow> string \<Rightarrow> Uuid \<Rightarrow> EventId option \<Rightarrow> ExperienceEvent" where
  "desk_event i actor k r u tag corr caus =
     (an_event i actor k tag (Some \<lparr>EntityRef.kind = r, id = u\<rparr>))
     \<lparr>source := \<lparr>EventSource.source_type = ''engine'', source_ref = None\<rparr>, causation_id := caus,
      correlation_id := Some (uuid_text blank_ext corr), ExperienceEvent.confidence := Some 0x3F800000\<rparr>"

abbreviation desk_db :: Db where "desk_db \<equiv> stored desk_ext desk_codec desk_ledger"

lemma desk_fields [simp]:
  "lib desk = desk_ext" "store_codec desk = desk_codec" "others desk = (\<lambda>n db. db)"
  "faults desk = (\<lambda>n st. None)" "policy desk = desk_policy" "hekate_id desk = from_uuid 2"
  "user_id desk = from_uuid 1" "Engine.clock desk = (\<lambda>l. ''t'')"
  "execute desk = (\<lambda>n cap input. Inr \<lparr>CapabilityResult.data = JNull, evidence = [], verified = True\<rparr>)"
  "to_value desk p = (case map_of desk_payloads p of None \<Rightarrow> Inl ''unknown'' | Some t \<Rightarrow> Inr (JNumber t))"
  "fresh desk l = (case map_of desk_uuids l of None \<Rightarrow> 0 | Some u \<Rightarrow> u)"
  by (simp_all add: desk_def)

lemma desk_ext_fields [simp]:
  "de_action_intent desk_ext = tagged [(''intent'', the_intent)]"
  "de_operation desk_ext = tagged [(''planned'', waiting_operation), (''ready'', ready_operation),
     (''started'', started_operation), (''done'', done_operation)]"
  "de_approval desk_ext = tagged [(''pending'', pending), (''granted'', granted)]"
  "de_receipt desk_ext = tagged [(''receipt'', the_receipt)]"
  "de_verification desk_ext = tagged [(''verification'', the_verification)]"
  "event_json desk_ext = (\<lambda>e. Inr [])" "sha256_hex desk_ext = sha256_hex blank_ext"
  "uuid_text desk_ext = uuid_text blank_ext" "id_text desk_ext = (id_text blank_ext :: 'a Id \<Rightarrow> string)"
  by (auto simp: desk_ext_def demo_def blank_ext_def sha256_hex_def [abs_def] id_text_def [abs_def])

section \<open>Codecs\<close>

lemma desk_operations_differ [simp]:
  "waiting_operation \<noteq> ready_operation" "waiting_operation \<noteq> started_operation" "waiting_operation \<noteq> done_operation"
  "ready_operation \<noteq> started_operation" "ready_operation \<noteq> done_operation" "started_operation \<noteq> done_operation"
  "ready_operation \<noteq> waiting_operation" "started_operation \<noteq> waiting_operation" "done_operation \<noteq> waiting_operation"
  "started_operation \<noteq> ready_operation" "done_operation \<noteq> ready_operation" "done_operation \<noteq> started_operation"
  by (simp_all add: waiting_operation_def ready_operation_def started_operation_def done_operation_def)

lemma desk_states_differ [simp]:
  "waiting_state \<noteq> approved_state" "waiting_state \<noteq> begun_state" "waiting_state \<noteq> finished_state"
  "approved_state \<noteq> begun_state" "approved_state \<noteq> finished_state" "begun_state \<noteq> finished_state"
  "approved_state \<noteq> waiting_state" "begun_state \<noteq> waiting_state" "finished_state \<noteq> waiting_state"
  "begun_state \<noteq> approved_state" "finished_state \<noteq> approved_state" "finished_state \<noteq> begun_state"
proof -
  have "CurrentState.revision waiting_state = 3" "CurrentState.revision approved_state = 5"
    "CurrentState.revision begun_state = 6" "CurrentState.revision finished_state = 9"
    by (simp_all add: waiting_state_def approved_state_def begun_state_def finished_state_def)
  then show "waiting_state \<noteq> approved_state" "waiting_state \<noteq> begun_state" "waiting_state \<noteq> finished_state"
    "approved_state \<noteq> begun_state" "approved_state \<noteq> finished_state" "begun_state \<noteq> finished_state"
    "approved_state \<noteq> waiting_state" "begun_state \<noteq> waiting_state" "finished_state \<noteq> waiting_state"
    "begun_state \<noteq> approved_state" "finished_state \<noteq> approved_state" "finished_state \<noteq> begun_state"
    by (auto dest: arg_cong [where f = CurrentState.revision])
qed

lemma desk_serde: "approval_serde desk"
  by (auto simp: approval_serde_def operation_serde_def desk_payloads_def tagged_def pending_def granted_def
      split: option.splits if_splits)

lemma desk_tables: "two_way desk_kinds" "two_way desk_entities"
  by (simp_all add: two_way_def desk_kinds_def desk_entities_def quotes_off)

lemma desk_codec_reads [simp]:
  "value_to_string desk_codec v = (case v of JNumber t \<Rightarrow> Inr t | _ \<Rightarrow> Inl ''not a number'')"
  "uuid_parse desk_codec t = Inr (of_nat (length t))" "value_from_str desk_codec t = Inr (JNumber t)"
  by (simp_all add: desk_codec_def)

lemma desk_reads:
  assumes "(event_kind e, t) \<in> set desk_kinds"
    and "\<exists>r t. ExperienceEvent.subject e = Some r \<and> (EntityRef.kind r, t) \<in> set desk_entities"
  shows "codec_reads_event desk_ext desk_codec e"
  using assms table_event_reads [OF desk_tables desk_ext_fields(8) assms(1)]
  unfolding desk_codec_def by blast

lemma desk_state_reads: "codec_reads_state desk_codec s"
proof -
  have "trim ''a'' = ''a''" "trim ''b'' = ''b''" "trim ''c'' = ''c''" "trim ''d'' = ''d''" by code_simp+
  then show ?thesis
    unfolding desk_codec_def by (intro table_state_reads) (simp_all add: desk_states_def)
qed

lemma desk_operation_codec: "operation_codec desk"
proof -
  have "codec_reads_event desk_ext desk_codec e"
    if "event_kind e \<in> operation_kinds" "ExperienceEvent.subject e = Some r"
      "EntityRef.kind r \<in> operation_entities" for e r
  proof -
    have "operation_kinds \<subseteq> fst ` set desk_kinds" "operation_entities \<subseteq> fst ` set desk_entities"
      by (simp_all add: operation_kinds_def operation_entities_def desk_kinds_def desk_entities_def)
    with that(1,3) obtain t t' where t: "(event_kind e, t) \<in> set desk_kinds"
      and "(EntityRef.kind r, t') \<in> set desk_entities" by fastforce
    with that(2) show ?thesis by (intro desk_reads [OF t]) blast
  qed
  with desk_state_reads show ?thesis by (auto simp: operation_codec_def)
qed

section \<open>The ledger and its events\<close>

lemma desk_hash: "calculate_hash desk_ext e = Inr zero_hash"
  by (simp add: calculate_hash_def)

lemma desk_writable: "payload e = JNumber t \<Longrightarrow> integrity_hash e = zero_hash \<Longrightarrow> writable desk_ext desk_codec e"
  by (simp add: writable_def verify_integrity_def desk_hash is_ok_iff)

lemma desk_made:
  "event_with_id desk (from_uuid i) l (from_uuid actor) k (Some \<lparr>EntityRef.kind = r, id = u\<rparr>) p
     (Some (uuid_text blank_ext corr)) caus =
   (case map_of desk_payloads p of None \<Rightarrow> Inl (EngineError.Serialization ''unknown'')
    | Some t \<Rightarrow> Inr (desk_event i actor k r u t corr caus))"
  by (cases "map_of desk_payloads p")
    (simp_all add: event_with_id_def new_with_id_def desk_hash desk_event_def an_event_def Let_def)

lemma desk_replay: "replay desk_ext desk_ledger = Inr waiting_state"
  by (simp add: replay_def desk_ledger_def waiting_state_def default_state_def step_defs insert_payload_def
      the_intent_def waiting_operation_def pending_def)

lemma desk_settled: "settled desk desk_db desk_ledger waiting_state"
proof -
  have "\<forall>e \<in> set desk_ledger. codec_reads_event desk_ext desk_codec e"
    by (auto simp: desk_ledger_def an_event_def desk_kinds_def desk_entities_def intro!: desk_reads)
  moreover have "\<forall>e \<in> set desk_ledger. writable desk_ext desk_codec e"
    by (auto simp: desk_ledger_def an_event_def intro: desk_writable)
  moreover have "is_ok (state_to_string desk_codec waiting_state)"
    by (simp add: desk_codec_def is_ok_iff desk_states_def)
  moreover have "lease_row desk_db = None"
  proof (cases "record_batch desk_ext desk_codec (\<lambda>_. None) fresh_db desk_ledger None None")
    case (Inr r)
    obtain s' db' where r: "r = (s', db')" by (cases r)
    from record_batch_Inr [OF Inr [unfolded r]] commit_batch_Inr
    have "lease_row db' = lease_row fresh_db" by blast
    with Inr r show ?thesis by (simp add: stored_def fresh_db_def)
  qed (simp add: stored_def fresh_db_def)
  ultimately show ?thesis
    using stored_holds [OF desk_replay] blank_texts_inj desk_state_reads
    by (simp add: settled_def desk_ledger_def)
qed

section \<open>The approval\<close>

definition approval_events :: "ExperienceEvent list" where
  "approval_events =
     [desk_event 24 1 ApprovalResolved EntityKind.Approval 33 ''granted'' 33 None,
      desk_event 25 1 OperationAuthorized EntityKind.Operation 32 ''ready'' 33 (Some (from_uuid 24))]"

definition start_event_of_desk :: ExperienceEvent where
  "start_event_of_desk = desk_event 26 2 OperationStarted EntityKind.Operation 32 ''started'' 32 None"

definition outcome_of_desk :: "ExperienceEvent list" where
  "outcome_of_desk =
     [desk_event 27 2 OperationSucceeded EntityKind.Operation 32 ''done'' 32 None,
      desk_event 28 2 ReceiptRecorded EntityKind.Receipt 36 ''receipt'' 32 (Some (from_uuid 27)),
      desk_event 29 2 VerificationRecorded EntityKind.Verification 38 ''verification'' 32 (Some (from_uuid 28))]"

lemma desk_event_fields [simp]:
  "ExperienceEvent.event_id (desk_event i actor k r u tag corr caus) = from_uuid i"
  "event_kind (desk_event i actor k r u tag corr caus) = k"
  "ExperienceEvent.subject (desk_event i actor k r u tag corr caus) = Some \<lparr>EntityRef.kind = r, id = u\<rparr>"
  "payload (desk_event i actor k r u tag corr caus) = JNumber tag"
  "integrity_hash (desk_event i actor k r u tag corr caus) = zero_hash"
  by (simp_all add: desk_event_def an_event_def)

lemma desk_record:
  assumes at: "settled desk db es s" and run: "apply_all desk_ext s evs = Inr s'" and ne: "evs \<noteq> []"
    and evs: "\<forall>e \<in> set evs. operation_record e \<and> (\<exists>t. payload e = JNumber t) \<and> integrity_hash e = zero_hash"
    and s': "s' \<in> set (map fst desk_states)" and len: "length es < 100" "length evs < 100"
    and base: "base \<in> {None, Some (CurrentState.revision s)}"
  shows "\<exists>db'. record_all desk evs base ((n, db), log) = (Inr s', ((Suc n, db'), log)) \<and>
    settled desk db' (es @ evs) s'"
proof -
  have "undisturbed desk" by (simp add: undisturbed_def)
  moreover have "\<forall>e \<in> set evs. writable (lib desk) (store_codec desk) e"
    using evs desk_writable by fastforce
  moreover have "\<forall>e \<in> set evs. codec_reads_event (lib desk) (store_codec desk) e"
    using evs desk_operation_codec by (auto simp: operation_codec_def operation_record_def)
  moreover have "is_ok (state_to_string (store_codec desk) s')"
    using s' by (auto simp: desk_states_def desk_codec_def is_ok_iff)
  ultimately obtain db' where
    "record_events desk evs base None (n, db) = (Inr (Inr s') :: EngineError + ProjectionError + CurrentState, (Suc n, db'))"
    "settled desk db' (es @ evs) s'"
    using settled_batch [OF _ at _ ne, of s' base n] run desk_state_reads len base blank_texts_inj by auto
  then show ?thesis
    by (auto simp: record_all_def try_record_def on_ledger_def act_bind_def act_lift_def)
qed

lemma desk_current:
  "settled desk db es s \<Longrightarrow> current desk ((n, db), log) = (Inr s, ((Suc n, db), log))"
  by (simp add: current_def on_ledger_def observe_def settled_def db_holds_def)

lemma desk_approved:
  "\<exists>db'. resolve_approval desk (from_uuid 33) True ((n, desk_db), log) = (Inr granted, ((n + 2, db'), log)) \<and>
     settled desk db' (desk_ledger @ approval_events) approved_state"
proof -
  have run: "apply_all desk_ext waiting_state approval_events = Inr approved_state"
    by (simp add: approval_events_def waiting_state_def approved_state_def default_state_def step_defs
        insert_payload_def tagged_def ready_operation_def waiting_operation_def granted_def pending_def)
  have records: "\<forall>e \<in> set approval_events. operation_record e \<and> (\<exists>t. payload e = JNumber t) \<and>
      integrity_hash e = zero_hash"
    by (auto simp: approval_events_def operation_record_def operation_kinds_def operation_entities_def)
  have rev: "CurrentState.revision waiting_state = 3" by (simp add: waiting_state_def)
  have "\<exists>db'. record_all desk approval_events (Some (CurrentState.revision waiting_state)) ((Suc n, desk_db), log) =
      (Inr approved_state, ((Suc (Suc n), db'), log)) \<and> settled desk db' (desk_ledger @ approval_events) approved_state"
    by (rule desk_record [OF desk_settled run _ records])
      (simp_all add: approval_events_def desk_ledger_def desk_states_def)
  then obtain db' where rec: "record_all desk approval_events (Some 3) ((Suc n, desk_db), log) =
      (Inr approved_state, ((Suc (Suc n), db'), log))"
    and at: "settled desk db' (desk_ledger @ approval_events) approved_state" unfolding rev by blast
  have get: "bt_get (approvals waiting_state) (from_uuid 33) = Some pending"
    "bt_get (operations waiting_state) (from_uuid 32) = Some waiting_operation"
    by (simp_all add: waiting_state_def)
  have e1: "event desk ''ApprovalResolved'' (from_uuid 1) ApprovalResolved (reference EntityKind.Approval (Approval.id granted))
      (ApprovalPayload granted) (Some (id_text blank_ext (Approval.id granted))) None =
    Inr (desk_event 24 1 ApprovalResolved EntityKind.Approval 33 ''granted'' 33 None)"
    by (simp add: event_def fresh_id_def desk_uuids_def reference_def granted_def pending_def id_text_def desk_made
        desk_payloads_def)
  have e2: "event desk ''approved operation'' (from_uuid 1) OperationAuthorized
      (reference EntityKind.Operation (Operation.id ready_operation)) (OperationPayload ready_operation)
      (Some (id_text blank_ext (Approval.id granted))) (Some (from_uuid 24)) =
    Inr (desk_event 25 1 OperationAuthorized EntityKind.Operation 32 ''ready'' 33 (Some (from_uuid 24)))"
    by (simp add: event_def fresh_id_def desk_uuids_def reference_def granted_def pending_def id_text_def desk_made
        desk_payloads_def) (simp add: ready_operation_def waiting_operation_def)
  have "transition_operation waiting_operation OperationStatus.Authorized = Inr ready_operation"
    by (simp add: transition_operation_def operation_allowed_def waiting_operation_def ready_operation_def)
  moreover have "pending\<lparr>Approval.status := ApprovalStatus.Approved, resolved_by := Some (from_uuid 1),
      resolved_at := Some ''t''\<rparr> = granted" "Approval.status pending = ApprovalStatus.Pending"
    "Approval.operation_id granted = from_uuid 32"
    by (simp_all add: granted_def pending_def)
  ultimately have "resolve_approval desk (from_uuid 33) True ((n, desk_db), log) = (Inr granted, ((n + 2, db'), log))"
    using rec e1 e2
    by (simp add: resolve_approval_def act_bind_def desk_current [OF desk_settled] act_lift_def act_return_def get rev
        Let_def approval_events_def)
  with at show ?thesis by blast
qed

section \<open>The run\<close>

lemma desk_begun:
  assumes at: "settled desk db (desk_ledger @ approval_events) approved_state"
  shows "\<exists>db'. record_all desk [start_event_of_desk] None ((n, db), log) = (Inr begun_state, ((Suc n, db'), log)) \<and>
    settled desk db' (desk_ledger @ approval_events @ [start_event_of_desk]) begun_state"
proof -
  have "apply_all desk_ext approved_state [start_event_of_desk] = Inr begun_state"
    by (simp add: start_event_of_desk_def approved_state_def waiting_state_def begun_state_def default_state_def step_defs
        insert_payload_def tagged_def started_operation_def ready_operation_def waiting_operation_def)
  from desk_record [OF at this, of None n log] show ?thesis
    by (simp add: start_event_of_desk_def operation_record_def operation_kinds_def operation_entities_def
        desk_states_def desk_ledger_def approval_events_def)
qed

lemma desk_finished:
  assumes at: "settled desk db (desk_ledger @ approval_events @ [start_event_of_desk]) begun_state"
  shows "\<exists>db'. record_all desk outcome_of_desk None ((n, db), log) = (Inr finished_state, ((Suc n, db'), log)) \<and>
    settled desk db' ((desk_ledger @ approval_events @ [start_event_of_desk]) @ outcome_of_desk) finished_state"
proof -
  have run: "apply_all desk_ext begun_state outcome_of_desk = Inr finished_state"
    by (simp add: outcome_of_desk_def approved_state_def waiting_state_def begun_state_def finished_state_def
        default_state_def step_defs insert_payload_def tagged_def started_operation_def done_operation_def
        waiting_operation_def the_receipt_def the_verification_def apply_verification_def decode_def)
  show ?thesis
    by (rule desk_record [OF at run])
      (auto simp: outcome_of_desk_def operation_record_def operation_kinds_def operation_entities_def
        desk_states_def desk_ledger_def approval_events_def)
qed

text \<open>The invocation, and what it leaves.\<close>

lemma desk_runs:
  assumes at: "settled desk db (desk_ledger @ approval_events) approved_state"
  shows "\<exists>db'. execute_operation desk (from_uuid 32) ((n, db), log) =
      (Inr the_receipt, ((n + 3, db'), log @ [(''git'', JNumber ''args'')])) \<and>
    settled desk db' ((desk_ledger @ approval_events @ [start_event_of_desk]) @ outcome_of_desk) finished_state"
proof -
  from desk_begun [OF at] obtain db1 where
    rec1: "record_all desk [start_event_of_desk] None ((Suc n, db), log) = (Inr begun_state, ((Suc (Suc n), db1), log))"
    and at1: "settled desk db1 (desk_ledger @ approval_events @ [start_event_of_desk]) begun_state" by blast
  from desk_finished [OF at1] obtain db2 where
    rec2: "record_all desk outcome_of_desk None ((Suc (Suc n), db1), log @ [(''git'', JNumber ''args'')]) =
      (Inr finished_state, ((Suc (Suc (Suc n)), db2), log @ [(''git'', JNumber ''args'')]))"
    and at2: "settled desk db2 ((desk_ledger @ approval_events @ [start_event_of_desk]) @ outcome_of_desk) finished_state"
    by blast
  have get: "bt_get (operations approved_state) (from_uuid 32) = Some ready_operation"
    "bt_get (action_intents approved_state) (from_uuid 31) = Some the_intent"
    "bt_get (approvals approved_state) (from_uuid 33) = Some granted"
    by (simp_all add: approved_state_def waiting_state_def)
  have op: "Operation.status ready_operation = OperationStatus.Authorized" "Operation.intent_id ready_operation = from_uuid 31"
    "Operation.approval_id ready_operation = Some (from_uuid 33)" "Operation.id ready_operation = from_uuid 32"
    "Approval.status granted = ApprovalStatus.Approved"
    by (simp_all add: ready_operation_def waiting_operation_def granted_def)
  have trans: "transition_operation ready_operation OperationStatus.Started =
      Inr (ready_operation\<lparr>Operation.status := OperationStatus.Started\<rparr>)"
    by (simp add: transition_operation_def operation_allowed_def op)
  have started: "ready_operation\<lparr>Operation.status := OperationStatus.Started, Operation.started_at := Some ''t''\<rparr> =
      started_operation" by (simp add: ready_operation_def started_operation_def)
  have e: "operation_event desk ''OperationStarted'' OperationStarted started_operation = Inr start_event_of_desk"
    by (simp add: operation_event_def event_def fresh_id_def desk_uuids_def reference_def id_text_def desk_made
        desk_payloads_def start_event_of_desk_def) (simp add: started_operation_def waiting_operation_def)
  have made: "operation_event desk ''outcome'' OperationSucceeded done_operation =
      Inr (desk_event 27 2 OperationSucceeded EntityKind.Operation 32 ''done'' 32 None)"
    "receipt_event desk done_operation the_receipt (from_uuid 27) =
      Inr (desk_event 28 2 ReceiptRecorded EntityKind.Receipt 36 ''receipt'' 32 (Some (from_uuid 27)))"
    by (simp add: operation_event_def receipt_event_def event_def fresh_id_def desk_uuids_def reference_def id_text_def
        desk_made desk_payloads_def;
      simp add: done_operation_def started_operation_def waiting_operation_def the_receipt_def)+
  have checked: "verification_event desk (from_uuid 32) done_operation VerificationStatus.Verified [] (from_uuid 28) =
      Inr (desk_event 29 2 VerificationRecorded EntityKind.Verification 38 ''verification'' 32 (Some (from_uuid 28)))"
  proof -
    have "\<lparr>Verification.id = from_uuid 38, operation_id = from_uuid 32, status = VerificationStatus.Verified,
        evidence = [], checked_at = ''t''\<rparr> = the_verification" by (simp add: the_verification_def)
    moreover have "Verification.id the_verification = from_uuid 38" by (simp add: the_verification_def)
    moreover have "Operation.id done_operation = from_uuid 32"
      by (simp add: done_operation_def started_operation_def waiting_operation_def)
    ultimately show ?thesis
      by (simp add: verification_event_def Let_def event_def fresh_id_def desk_uuids_def reference_def id_text_def
          desk_made desk_payloads_def)
  qed
  have "started_operation\<lparr>Operation.status := OperationStatus.Succeeded, Operation.finished_at := Some ''t''\<rparr> =
      done_operation" by (simp add: done_operation_def)
  moreover have "receipt_of desk (from_uuid 32) done_operation JNull = the_receipt"
    by (simp add: receipt_of_def the_receipt_def fresh_id_def desk_uuids_def done_operation_def)
  moreover have "artifact_events desk done_operation the_receipt (from_uuid 28) = Inr []"
    by (simp add: artifact_events_def artifact_from_receipt_def json_field_def the_receipt_def)
  ultimately have out: "outcome_events desk (from_uuid 32) started_operation
      (Inr \<lparr>CapabilityResult.data = JNull, evidence = [], verified = True\<rparr>) = Inr (outcome_of_desk, the_receipt)"
    by (simp add: outcome_events_def Let_def made checked outcome_of_desk_def)
  have intent: "ActionIntent.capability the_intent = ''git''" "ActionIntent.arguments the_intent = JNumber ''args''"
    by (simp_all add: the_intent_def)
  have "execute_operation desk (from_uuid 32) ((n, db), log) =
      (Inr the_receipt, ((n + 3, db2), log @ [(''git'', JNumber ''args'')]))"
    using rec1 rec2
    by (simp add: execute_operation_def execute_in_def act_bind_def desk_current [OF at] act_lift_def act_return_def get op
        desk_policy_def check_approval_def run_operation_def authorize_planned_def trans started e perform_operation_def
        invoke_def out intent Let_def)
  with at2 show ?thesis by blast
qed

end
