(* ===== verification/ThoughtContexts.thy ===== *)
theory ThoughtContexts
  imports Thought Payloads
begin

text \<open>
  The context of a thought (\<open>src/runtime/context.rs\<close>): what of the state and of the ledger the
  model sees of an observation. The serialised context and its digest are serde's and SHA-2's.
\<close>

definition relevant_subject :: "string \<Rightarrow> string \<Rightarrow> bool" where
  "relevant_subject subj req =
     (let t = to_ascii_lowercase subj in contains t req \<or> contains req t)"

definition about_observation :: "Observation \<Rightarrow> ExperienceEvent \<Rightarrow> bool" where
  "about_observation obs e =
     is_some_and (ExperienceEvent.subject e)
       (\<lambda>r. EntityRef.kind r = EntityKind.Observation \<and> EntityRef.id r = uuid (Observation.id obs))"

definition focus_subjects :: "CurrentState \<Rightarrow> Focus \<Rightarrow> Uuid list" where
  "focus_subjects s f =
     (case Option.bind (Focus.goal_id f) (bt_get (goals s)) of None \<Rightarrow> [] | Some g \<Rightarrow> [uuid (Goal.id g)]) @
     (case Option.bind (Focus.task_id f) (bt_get (tasks s)) of None \<Rightarrow> [] | Some t \<Rightarrow> [uuid (Task.id t)]) @
     (case Option.bind (Focus.run_id f) (bt_get (runs s)) of None \<Rightarrow> [] | Some r \<Rightarrow> [uuid (Run.id r)])"

text \<open>The last twenty events, those of the observation and those on what the context shows.\<close>

definition RECENT_EVENTS :: nat where "RECENT_EVENTS = 20"

definition select_events ::
  "ext \<Rightarrow> CurrentState \<Rightarrow> Observation \<Rightarrow> Focus \<Rightarrow> Position list \<Rightarrow> Position list \<Rightarrow> Conflict list \<Rightarrow>
   ExperienceEvent list \<Rightarrow> ExperienceEvent list"
where
  "select_events x s obs f ps us cs events =
     (let subjects = map (uuid \<circ> Position.id) ps @ map (uuid \<circ> Position.id) us @
            map (uuid \<circ> Conflict.id) cs @ focus_subjects s f;
          start = length events - RECENT_EVENTS in
      map snd (filter (\<lambda>(i, e). \<not> about_observation obs e \<and>
          (start \<le> i \<or> correlation_id e = Some (id_text x (Observation.id obs)) \<or>
           is_some_and (ExperienceEvent.subject e) (\<lambda>r. EntityRef.id r \<in> set subjects)))
        (enumerate 0 events)))"

definition context_hekate :: "CurrentState \<Rightarrow> PrincipalId option" where
  "context_hekate s =
     map_option Principal.id (find (\<lambda>p. Principal.kind p = PrincipalKind.Hekate) (bt_values (principals s)))"

definition context_relationship :: "CurrentState \<Rightarrow> Observation \<Rightarrow> Relationship option" where
  "context_relationship s obs =
     find (\<lambda>r. Observation.actor_id obs \<in> set (Relationship.participants r) \<and>
        is_some_and (context_hekate s) (\<lambda>h. h \<in> set (Relationship.participants r)))
       (bt_values (relationships s))"

definition context_conflicts :: "CurrentState \<Rightarrow> Observation \<Rightarrow> Conflict list" where
  "context_conflicts s obs =
     filter (\<lambda>c. Conflict.status c \<in> {ConflictStatus.Open, ConflictStatus.Negotiating} \<and>
         (case context_relationship s obs of
            None \<Rightarrow> True
          | Some r \<Rightarrow> Conflict.id c \<in> set (unresolved_conflicts r)))
       (bt_values (CurrentState.conflicts s))"

definition context_positions :: "CurrentState \<Rightarrow> Position list" where
  "context_positions s = (case context_hekate s of None \<Rightarrow> [] | Some h \<Rightarrow> State.active_positions s h)"

definition context_user_positions :: "CurrentState \<Rightarrow> Observation \<Rightarrow> Position list" where
  "context_user_positions s obs =
     (let in_conflict = concat (map participant_positions (context_conflicts s obs));
          req = to_ascii_lowercase (Observation.content obs) in
      filter (\<lambda>p. Position.principal_id p = Observation.actor_id obs \<and>
          Position.status p = PositionStatus.Active \<and>
          (Position.id p \<in> set in_conflict \<or> relevant_subject (Position.subject p) req))
        (bt_values (CurrentState.positions s)))"

definition OUTPUT_SCHEMA :: string where
  "OUTPUT_SCHEMA = ''thought_cycle(draft, review, commitment(final_act, reasons, response, confidence, evidence_refs, position, user_position, conflict, action))''"

definition build_context_with_recall_and_snapshot ::
  "ext \<Rightarrow> (ThoughtContext \<Rightarrow> string + string) \<Rightarrow> CurrentState \<Rightarrow> Observation \<Rightarrow> Focus \<Rightarrow>
   ExperienceEvent list \<Rightarrow> string list \<Rightarrow> RecallBundle \<Rightarrow> json option \<Rightarrow> ThoughtContext"
where
  "build_context_with_recall_and_snapshot x context_json s obs f events caps bundle snap =
     (let ps = context_positions s; us = context_user_positions s obs; cs = context_conflicts s obs;
          relevant = select_events x s obs f ps us cs events;
          ids = map ExperienceEvent.event_id relevant;
          here = map_option ExperienceEvent.event_id (find (about_observation obs) events);
          ctx = \<lparr>ThoughtContext.event_sequence = CurrentState.revision s, observation = obs,
            current_observation_event_id = here, focus = f, identity = hekate_identity s,
            relationship = context_relationship s obs,
            goal = Option.bind (Focus.goal_id f) (bt_get (goals s)),
            task = Option.bind (Focus.task_id f) (bt_get (tasks s)),
            run = Option.bind (Focus.run_id f) (bt_get (runs s)),
            working_state = Option.bind (Focus.run_id f) (bt_get (working_states s)),
            positions = ps, user_positions = us, conflicts = cs,
            commitments = filter (\<lambda>c. Commitment.status c = CommitmentStatus.Open)
              (bt_values (CurrentState.commitments s)),
            memories = filter (\<lambda>m. ActiveMemory.status m = ActiveMemoryStatus.Active)
              (bt_values (active_memories s)),
            memory_candidates = filter (\<lambda>c. MemoryCandidate.status c = MemoryCandidateStatus.Candidate)
              (bt_values (CurrentState.memory_candidates s)),
            pending_approvals = filter (\<lambda>a. Approval.status a = ApprovalStatus.Pending)
              (bt_values (approvals s)),
            artifacts = bt_values (CurrentState.artifacts s), recall = bundle,
            context_snapshot = snap,
            recent_event_ids = (case here of None \<Rightarrow> ids | Some i \<Rightarrow> push_unique ids i),
            relevant_events = relevant, available_capabilities = caps,
            output_schema = OUTPUT_SCHEMA, snapshot_hash = []\<rparr>
      in ctx\<lparr>ThoughtContext.snapshot_hash :=
           sha256_hex x (case context_json ctx of Inl _ \<Rightarrow> [] | Inr bytes \<Rightarrow> bytes)\<rparr>)"

definition build_context_with_recall ::
  "ext \<Rightarrow> (ThoughtContext \<Rightarrow> string + string) \<Rightarrow> CurrentState \<Rightarrow> Observation \<Rightarrow> Focus \<Rightarrow>
   ExperienceEvent list \<Rightarrow> string list \<Rightarrow> RecallBundle \<Rightarrow> ThoughtContext"
where
  "build_context_with_recall x context_json s obs f events caps bundle =
     build_context_with_recall_and_snapshot x context_json s obs f events caps bundle None"

text \<open>\<open>RecallBundle::empty_for\<close>: no items, and the hash of the text that was asked for.\<close>

definition empty_for :: "ext \<Rightarrow> string \<Rightarrow> string \<Rightarrow> RecallBundle" where
  "empty_for x t space =
     \<lparr>RecallBundle.query_hash = sha256_hex x t, embedding_space_id = space, items = []\<rparr>"

definition build_thought_context ::
  "ext \<Rightarrow> (ThoughtContext \<Rightarrow> string + string) \<Rightarrow> CurrentState \<Rightarrow> Observation \<Rightarrow> Focus \<Rightarrow>
   ExperienceEvent list \<Rightarrow> string list \<Rightarrow> ThoughtContext"
where
  "build_thought_context x context_json s obs f events caps =
     build_context_with_recall x context_json s obs f events caps
       (empty_for x (Observation.content obs) [])"

section \<open>Contesting a request\<close>

text \<open>\<open>src/runtime/contest.rs\<close>: a position HEKATE holds against what the observation asks.\<close>

definition destructive :: "string \<Rightarrow> bool" where
  "destructive t = list_ex (contains t) [''delet'', ''remov'', ''destroy'', ''overwrit'']"

definition opposing_position :: "ThoughtContext \<Rightarrow> Position option" where
  "opposing_position ctx =
     (let asked = to_ascii_lowercase (Observation.content (observation ctx)) in
      find (\<lambda>p. Position.stance p = Oppose \<and>
          (let subj = to_ascii_lowercase (Position.subject p) in
           contains asked subj \<or> destructive asked \<and> destructive subj))
        (ThoughtContext.positions ctx))"

end
