(* ===== verification/Continuity.thy ===== *)
theory Continuity
  imports Payloads Transition
begin

text \<open>
  The resolution of an observation to a task, to new work, to conversation or to a question
  (\<open>src/runtime/continuity\<close>, \<open>src/runtime/focus.rs\<close>). A \<open>BTreeSet\<close> of words is a list without
  duplicates, since the code only counts and searches. Slicing a title out of the text can panic;
  then the resolution is \<open>None\<close>.
\<close>

text \<open>
  Unicode's alphanumeric characters, the parser of \<open>Uuid\<close>, fresh identifiers and the clock, each
  asked by the name of the place in the code.
\<close>

record reading =
  strings :: ext
  alphanumeric :: "string \<Rightarrow> bool"
  parse_uuid :: "string \<Rightarrow> string + Uuid"
  new_uuid :: "string \<Rightarrow> Uuid"
  time_now :: "string \<Rightarrow> string"

section \<open>Candidates\<close>

record TaskCandidate =
  "record" :: FocusCandidate
  "keywords" :: "string list"
  same_thread :: bool

definition stop_words :: "string list" where
  "stop_words =
     [''a'', ''an'', ''and'', ''are'', ''back'', ''can'', ''continue'', ''could'', ''for'',
      ''from'', ''goal'', ''i'', ''in'', ''is'', ''it'', ''keep'', ''me'', ''new'', ''of'',
      ''on'', ''our'', ''pick'', ''previous'', ''resume'', ''run'', ''task'', ''the'', ''this'',
      ''to'', ''up'', ''we'', ''with'',
      [CHR 0xEC, CHR 0x9E, CHR 0x91, CHR 0xEC, CHR 0x97, CHR 0x85],
      [CHR 0xEA, CHR 0xB3, CHR 0x84, CHR 0xEC, CHR 0x86, CHR 0x8D],
      [CHR 0xED, CHR 0x95, CHR 0x98, CHR 0xEB, CHR 0x8D, CHR 0x98],
      [CHR 0xEC, CHR 0x95, CHR 0x84, CHR 0xEA, CHR 0xB9, CHR 0x8C],
      [CHR 0xEC, CHR 0x9D, CHR 0xB4, CHR 0xEC, CHR 0xA0, CHR 0x84],
      [CHR 0xEA, CHR 0xB7, CHR 0xB8],
      [CHR 0xEB, CHR 0x8B, CHR 0xA4, CHR 0xEC, CHR 0x8B, CHR 0x9C],
      [CHR 0xEC, CHR 0x9D, CHR 0xB4, CHR 0xEC, CHR 0x96, CHR 0xB4]]"

definition words :: "reading \<Rightarrow> string \<Rightarrow> string list" where
  "words rd t =
     remdups (filter (\<lambda>w. 1 < char_count w \<and> w \<notin> set stop_words)
       (map (to_lowercase (strings rd)) (split_at (\<lambda>c. \<not> alphanumeric rd c) t)))"

definition shared_word_count :: "string list \<Rightarrow> string list \<Rightarrow> nat" where
  "shared_word_count ws vs = length (filter (\<lambda>w. w \<in> set vs) ws)"

definition has_distinctive_shared_word :: "string list \<Rightarrow> string list \<Rightarrow> bool" where
  "has_distinctive_shared_word ws vs \<longleftrightarrow> (\<exists>w \<in> set ws. w \<in> set vs \<and> 8 \<le> char_count w)"

definition owned_goal :: "CurrentState \<Rightarrow> PrincipalId \<Rightarrow> GoalId \<Rightarrow> bool" where
  "owned_goal s actor gid =
     is_some_and (bt_get (goals s) gid)
       (\<lambda>g. Goal.owner_principal_id g = actor \<or> actor \<in> set (Goal.participants g))"

definition owned_run_task :: "CurrentState \<Rightarrow> PrincipalId \<Rightarrow> Run \<Rightarrow> Task option" where
  "owned_run_task s actor r =
     Option.bind (Run.task_id r) (\<lambda>tid.
     Option.bind (bt_get (tasks s) tid) (\<lambda>t.
     Option.bind (Task.goal_id t) (\<lambda>gid. if owned_goal s actor gid then Some t else None)))"

definition live_run :: "Run \<Rightarrow> bool" where
  "live_run r \<longleftrightarrow> Run.status r \<in> {RunStatus.Pending, RunStatus.Running}"

definition task_run :: "CurrentState \<Rightarrow> TaskId \<Rightarrow> Run option" where
  "task_run s tid =
     max_by (\<lambda>b r. Run.started_at b \<le> Run.started_at r)
       (filter (\<lambda>r. Run.task_id r = Some tid \<and> live_run r) (bt_values (runs s)))"

definition append_found :: "(ExperienceEvent \<Rightarrow> bool) \<Rightarrow> ExperienceEvent list \<Rightarrow> EventId list \<Rightarrow> EventId list" where
  "append_found P events out =
     (case find P events of
        None \<Rightarrow> out
      | Some e \<Rightarrow> push_unique out (ExperienceEvent.event_id e))"

definition on_subject :: "ExperienceEvent \<Rightarrow> Uuid \<Rightarrow> bool" where
  "on_subject e u = is_some_and (ExperienceEvent.subject e) (\<lambda>r. EntityRef.id r = u)"

definition append_subject_event ::
  "ExperienceEvent list \<Rightarrow> EventKind \<Rightarrow> Uuid \<Rightarrow> EventId list \<Rightarrow> EventId list"
where
  "append_subject_event events k u out =
     append_found (\<lambda>e. event_kind e = k \<and> on_subject e u) events out"

definition append_observation_event ::
  "ExperienceEvent list \<Rightarrow> ObservationId \<Rightarrow> EventId list \<Rightarrow> EventId list"
where
  "append_observation_event events oid out =
     append_found (\<lambda>e. event_kind e \<in> {ObservationRecorded, UserMessageReceived} \<and>
       on_subject e (uuid oid)) events out"

definition append_correlation_event ::
  "ExperienceEvent list \<Rightarrow> EventKind \<Rightarrow> string \<Rightarrow> EventId list \<Rightarrow> EventId list"
where
  "append_correlation_event events k corr out =
     append_found (\<lambda>e. event_kind e = k \<and> correlation_id e = Some corr) events out"

text \<open>An earlier observation of the same thread that was about the task.\<close>

definition thread_about_task :: "CurrentState \<Rightarrow> Observation \<Rightarrow> TaskId \<Rightarrow> bool" where
  "thread_about_task s obs tid \<longleftrightarrow>
     Observation.thread_id obs \<noteq> None \<and>
     (\<exists>p \<in> set (bt_values (observations s)).
        Observation.id p \<noteq> Observation.id obs \<and>
        Observation.thread_id p = Observation.thread_id obs \<and>
        is_some_and (bt_get (focus_resolutions s) (Observation.id p))
          (\<lambda>r. outcome r \<in> {Continue, NewWork} \<and> Focus.task_id (FocusResolution.focus r) = Some tid))"

definition thread_evidence ::
  "reading \<Rightarrow> CurrentState \<Rightarrow> ExperienceEvent list \<Rightarrow> Observation \<Rightarrow> TaskId \<Rightarrow> EventId list \<Rightarrow> EventId list"
where
  "thread_evidence rd s events obs tid out0 =
     foldl (\<lambda>out p.
         append_correlation_event events FocusResolved (id_text (strings rd) (Observation.id p))
           (append_observation_event events (Observation.id p) out))
       out0
       (filter (\<lambda>p. Observation.id p \<noteq> Observation.id obs \<and>
            Observation.thread_id p = Observation.thread_id obs \<and>
            is_some_and (bt_get (focus_resolutions s) (Observation.id p))
              (\<lambda>r. Focus.task_id (FocusResolution.focus r) = Some tid))
          (bt_values (observations s)))"

definition task_reference ::
  "reading \<Rightarrow> CurrentState \<Rightarrow> ExperienceEvent list \<Rightarrow> Observation \<Rightarrow> PrincipalId \<Rightarrow> Task \<Rightarrow>
   TaskCandidate option"
where
  "task_reference rd s events obs actor t =
     Option.bind (Task.goal_id t) (\<lambda>gid.
     Option.bind (bt_get (goals s) gid) (\<lambda>g.
     if Goal.owner_principal_id g \<noteq> actor \<and> actor \<notin> set (Goal.participants g) then None
     else
       (let ev1 = append_subject_event events TaskCreated (uuid (Task.id t))
              (append_subject_event events GoalCreated (uuid gid) []);
            r = task_run s (Task.id t);
            ev2 = (case r of None \<Rightarrow> ev1
                   | Some r \<Rightarrow> append_subject_event events RunStarted (uuid (Run.id r)) ev1);
            same = thread_about_task s obs (Task.id t);
            ev3 = (if same then thread_evidence rd s events obs (Task.id t) ev2 else ev2) in
        Some \<lparr>TaskCandidate.record = \<lparr>FocusCandidate.goal_id = gid, goal_title = Goal.title g,
                task_id = Task.id t, task_title = Task.title t, task_status = Task.status t,
                run_id = map_option Run.id r, evidence_event_ids = ev3\<rparr>,
              keywords = words rd (Goal.title g @ '' '' @ Task.title t), same_thread = same\<rparr>)))"

definition goal_active :: "CurrentState \<Rightarrow> GoalId \<Rightarrow> bool" where
  "goal_active s gid = is_some_and (bt_get (goals s) gid) (\<lambda>g. Goal.status g = GoalStatus.Active)"

definition active_tasks ::
  "reading \<Rightarrow> CurrentState \<Rightarrow> ExperienceEvent list \<Rightarrow> Observation \<Rightarrow> PrincipalId \<Rightarrow> TaskCandidate list"
where
  "active_tasks rd s events obs actor =
     filter (\<lambda>c. task_status (TaskCandidate.record c) = TaskStatus.InProgress \<and>
         goal_active s (FocusCandidate.goal_id (TaskCandidate.record c)))
       (List.map_filter (task_reference rd s events obs actor) (bt_values (tasks s)))"

section \<open>Plans\<close>

record FocusPlan =
  resolution :: FocusResolution
  goal :: "Goal option"
  task :: "Task option"
  run :: "Run option"

datatype WorkReference = GoalReference GoalId | TaskReference TaskId | RunReference RunId

datatype TextMatch = NoMatch | Unique nat | Uncertain "nat list"

definition plan ::
  "CurrentState \<Rightarrow> Observation \<Rightarrow> FocusOutcome \<Rightarrow> FocusBasis \<Rightarrow> Focus \<Rightarrow> FocusCandidate list \<Rightarrow>
   string option \<Rightarrow> FocusPlan"
where
  "plan s obs oc b f cs q =
     \<lparr>FocusPlan.resolution = \<lparr>FocusResolution.observation_id = Observation.id obs, outcome = oc,
        focus = f, as_of_revision = CurrentState.revision s, basis = b, candidates = cs,
        clarification = q\<rparr>,
      goal = None, task = None, run = None\<rparr>"

definition running :: "reading \<Rightarrow> TaskId option \<Rightarrow> Run" where
  "running rd tid =
     \<lparr>Run.id = from_uuid (new_uuid rd ''run''), task_id = tid, status = RunStatus.Running,
      started_at = time_now rd ''run'', completed_at = None\<rparr>"

definition continue_task ::
  "reading \<Rightarrow> CurrentState \<Rightarrow> Observation \<Rightarrow> TaskCandidate \<Rightarrow> FocusBasis \<Rightarrow> Run option \<Rightarrow> FocusPlan"
where
  "continue_task rd s obs c b forced =
     (let k = TaskCandidate.record c;
          found = (case forced of Some r \<Rightarrow> Some r | None \<Rightarrow> task_run s (FocusCandidate.task_id k));
          new = running rd (Some (FocusCandidate.task_id k));
          rid = (case found of Some r \<Rightarrow> Run.id r | None \<Rightarrow> Run.id new) in
      (plan s obs Continue b
         \<lparr>Focus.goal_id = Some (FocusCandidate.goal_id k), task_id = Some (FocusCandidate.task_id k),
          run_id = Some rid\<rparr> [k] None)
        \<lparr>FocusPlan.run := (case found of Some r \<Rightarrow> None | None \<Rightarrow> Some new)\<rparr>)"

definition conversation ::
  "reading \<Rightarrow> CurrentState \<Rightarrow> Observation \<Rightarrow> TaskCandidate list \<Rightarrow> FocusPlan"
where
  "conversation rd s obs cs =
     (let r = running rd None in
      (plan s obs Conversation GeneralConversation
         \<lparr>Focus.goal_id = None, task_id = None, run_id = Some (Run.id r)\<rparr>
         (map TaskCandidate.record cs) None)\<lparr>FocusPlan.run := Some r\<rparr>)"

definition candidate_question :: "reading \<Rightarrow> FocusCandidate list \<Rightarrow> string" where
  "candidate_question rd cs =
     (if cs = []
      then (''Which task do you want to continue? Give its task ID or say '' @ [CHR 0x27] @ ''new task: ...'' @ [CHR 0x27] @ ''.'')
      else
        ''Which task should I continue: '' @
        join '', '' (map (\<lambda>c. [CHR 0x27] @ task_title c @ [CHR 0x27] @ '' ('' @
            id_text (strings rd) (FocusCandidate.task_id c) @ '')'') (take 5 cs)) @
        (''? Reply with a task ID or say '' @ [CHR 0x27] @ ''new task: ...'' @ [CHR 0x27] @ ''.''))"

definition clarify ::
  "reading \<Rightarrow> CurrentState \<Rightarrow> Observation \<Rightarrow> FocusBasis \<Rightarrow> TaskCandidate list \<Rightarrow> string option \<Rightarrow> FocusPlan"
where
  "clarify rd s obs b cs q =
     (let ks = map TaskCandidate.record cs in
      plan s obs Clarification b unattached ks
        (Some (case q of Some t \<Rightarrow> t | None \<Rightarrow> candidate_question rd ks)))"

section \<open>Reading the text\<close>

definition match_text :: "reading \<Rightarrow> string \<Rightarrow> TaskCandidate list \<Rightarrow> TextMatch" where
  "match_text rd t cs =
     (let query = words rd t in
      if query = [] then NoMatch
      else
        (let scores = map (\<lambda>c. (shared_word_count query (keywords c),
                 has_distinctive_shared_word query (keywords c))) cs;
             best = foldr max (map fst scores) 0 in
         if best = 0 then NoMatch
         else
           (let matching = filter (\<lambda>i. fst (scores ! i) = best) [0..<length scores];
                strong = (2 \<le> best \<or> (\<exists>i \<in> set matching. snd (scores ! i))) in
            if strong \<and> length matching = 1 then Unique (hd matching) else Uncertain matching)))"

definition new_work_markers :: "string list" where
  "new_work_markers =
     [''new task:'', ''new goal:'', ''new run:'', ''start a new task'', ''create a new task'',
      ''start a new project'',
      [CHR 0xEC, CHR 0x83, CHR 0x88, CHR 0x20, CHR 0xEC, CHR 0x9E, CHR 0x91, CHR 0xEC, CHR 0x97, CHR 0x85, CHR 0x3A],
      [CHR 0xEC, CHR 0x83, CHR 0x88, CHR 0x20, CHR 0xEB, CHR 0xAA, CHR 0xA9, CHR 0xED, CHR 0x91, CHR 0x9C, CHR 0x3A],
      [CHR 0xEC, CHR 0x83, CHR 0x88, CHR 0x20, CHR 0xEC, CHR 0x8B, CHR 0xA4, CHR 0xED, CHR 0x96, CHR 0x89, CHR 0x3A],
      [CHR 0xEC, CHR 0x83, CHR 0x88, CHR 0x20, CHR 0xED, CHR 0x94, CHR 0x84, CHR 0xEB, CHR 0xA1, CHR 0x9C, CHR 0xEC, CHR 0xA0, CHR 0x9D, CHR 0xED, CHR 0x8A, CHR 0xB8, CHR 0x3A],
      [CHR 0xEC, CHR 0x83, CHR 0x88, CHR 0x20, CHR 0xEC, CHR 0x9E, CHR 0x91, CHR 0xEC, CHR 0x97, CHR 0x85, CHR 0x20, CHR 0xEC, CHR 0x8B, CHR 0x9C, CHR 0xEC, CHR 0x9E, CHR 0x91],
      [CHR 0xEC, CHR 0x83, CHR 0x88, CHR 0xEB, CHR 0xA1, CHR 0x9C, CHR 0x20, CHR 0xEC, CHR 0x8B, CHR 0x9C, CHR 0xEC, CHR 0x9E, CHR 0x91, CHR 0x3A],
      [CHR 0xEB, CHR 0x8B, CHR 0xA4, CHR 0xEB, CHR 0xA5, CHR 0xB8, CHR 0x20, CHR 0xEC, CHR 0x9E, CHR 0x91, CHR 0xEC, CHR 0x97, CHR 0x85, CHR 0x20, CHR 0xEC, CHR 0x8B, CHR 0x9C, CHR 0xEC, CHR 0x9E, CHR 0x91]]"

definition continuation_markers :: "string list" where
  "continuation_markers =
     [''continue'', ''resume'', ''pick up'', ''carry on'', ''back to'', ''return to'',
      ''keep working'',
      [CHR 0xEC, CHR 0x95, CHR 0x84, CHR 0xEA, CHR 0xB9, CHR 0x8C, CHR 0x20, CHR 0xED, CHR 0x95, CHR 0x98, CHR 0xEB, CHR 0x8D, CHR 0x98],
      [CHR 0xEC, CHR 0x9D, CHR 0xB4, CHR 0xEC, CHR 0xA0, CHR 0x84, CHR 0x20, CHR 0xEC, CHR 0x9E, CHR 0x91, CHR 0xEC, CHR 0x97, CHR 0x85],
      [CHR 0xEC, CHR 0xA7, CHR 0x80, CHR 0xEB, CHR 0x82, CHR 0x9C, CHR 0x20, CHR 0xEC, CHR 0x9E, CHR 0x91, CHR 0xEC, CHR 0x97, CHR 0x85],
      [CHR 0xEA, CHR 0xB7, CHR 0xB8, CHR 0x20, CHR 0xEC, CHR 0x9E, CHR 0x91, CHR 0xEC, CHR 0x97, CHR 0x85, CHR 0x20, CHR 0xEA, CHR 0xB3, CHR 0x84, CHR 0xEC, CHR 0x86, CHR 0x8D],
      [CHR 0xEA, CHR 0xB3, CHR 0x84, CHR 0xEC, CHR 0x86, CHR 0x8D, CHR 0xED, CHR 0x95, CHR 0x98],
      [CHR 0xEC, CHR 0x9D, CHR 0xB4, CHR 0xEC, CHR 0x96, CHR 0xB4, CHR 0xEA, CHR 0xB0, CHR 0x80],
      [CHR 0xEC, CHR 0x9D, CHR 0xB4, CHR 0xEC, CHR 0x96, CHR 0xB4, CHR 0xEC, CHR 0x84, CHR 0x9C],
      [CHR 0xEC, CHR 0x9E, CHR 0xAC, CHR 0xEA, CHR 0xB0, CHR 0x9C]]"

definition social_messages :: "string list" where
  "social_messages =
     [''hi'', ''hello'', ''hey'', ''good morning'', ''good evening'',
      [CHR 0xEC, CHR 0x95, CHR 0x88, CHR 0xEB, CHR 0x85, CHR 0x95],
      [CHR 0xEC, CHR 0x95, CHR 0x88, CHR 0xEB, CHR 0x85, CHR 0x95, CHR 0xED, CHR 0x95, CHR 0x98, CHR 0xEC, CHR 0x84, CHR 0xB8, CHR 0xEC, CHR 0x9A, CHR 0x94]]"

definition title_prefixes :: "string list" where
  "title_prefixes =
     [''new task:'', ''new goal:'', ''new run:'',
      [CHR 0xEC, CHR 0x83, CHR 0x88, CHR 0x20, CHR 0xEC, CHR 0x9E, CHR 0x91, CHR 0xEC, CHR 0x97, CHR 0x85, CHR 0x3A],
      [CHR 0xEC, CHR 0x83, CHR 0x88, CHR 0x20, CHR 0xEB, CHR 0xAA, CHR 0xA9, CHR 0xED, CHR 0x91, CHR 0x9C, CHR 0x3A],
      [CHR 0xEC, CHR 0x83, CHR 0x88, CHR 0x20, CHR 0xEC, CHR 0x8B, CHR 0xA4, CHR 0xED, CHR 0x96, CHR 0x89, CHR 0x3A],
      [CHR 0xEC, CHR 0x83, CHR 0x88, CHR 0x20, CHR 0xED, CHR 0x94, CHR 0x84, CHR 0xEB, CHR 0xA1, CHR 0x9C, CHR 0xEC, CHR 0xA0, CHR 0x9D, CHR 0xED, CHR 0x8A, CHR 0xB8, CHR 0x3A],
      [CHR 0xEC, CHR 0x83, CHR 0x88, CHR 0xEB, CHR 0xA1, CHR 0x9C, CHR 0x20, CHR 0xEC, CHR 0x8B, CHR 0x9C, CHR 0xEC, CHR 0x9E, CHR 0x91, CHR 0x3A]]"

definition has_new_work_intent :: "reading \<Rightarrow> string \<Rightarrow> bool" where
  "has_new_work_intent rd t =
     list_ex (starts_with (to_lowercase (strings rd) (trim t))) new_work_markers"

definition has_continuation_intent :: "reading \<Rightarrow> string \<Rightarrow> bool" where
  "has_continuation_intent rd t =
     list_ex (contains (to_lowercase (strings rd) t)) continuation_markers"

definition is_social_message :: "reading \<Rightarrow> string \<Rightarrow> bool" where
  "is_social_message rd t \<longleftrightarrow>
     to_lowercase (strings rd) (trim_matches (\<lambda>c. \<not> alphanumeric rd c) (trim t)) \<in> set social_messages"

definition reference_of :: "reading \<Rightarrow> string \<Rightarrow> string \<Rightarrow> WorkReference option" where
  "reference_of rd w t =
     (case parse_uuid rd t of
        Inl _ \<Rightarrow> None
      | Inr u \<Rightarrow>
          (let k = to_lowercase (strings rd) w in
           if k \<in> set [''task'', [CHR 0xEC, CHR 0x9E, CHR 0x91, CHR 0xEC, CHR 0x97, CHR 0x85],
      [CHR 0xED, CHR 0x83, CHR 0x9C, CHR 0xEC, CHR 0x8A, CHR 0xA4, CHR 0xED, CHR 0x81, CHR 0xAC]] then Some (TaskReference (from_uuid u))
           else if k \<in> set [''goal'', [CHR 0xEB, CHR 0xAA, CHR 0xA9, CHR 0xED, CHR 0x91, CHR 0x9C]] then Some (GoalReference (from_uuid u))
           else if k \<in> set [''run'', [CHR 0xEC, CHR 0x8B, CHR 0xA4, CHR 0xED, CHR 0x96, CHR 0x89]] then Some (RunReference (from_uuid u))
           else None))"

text \<open>\<open>windows(2)\<close> and \<open>find_map\<close>.\<close>

fun first_reference :: "reading \<Rightarrow> string list \<Rightarrow> WorkReference option" where
  "first_reference rd (w # t # ts) =
     (case reference_of rd w t of Some r \<Rightarrow> Some r | None \<Rightarrow> first_reference rd (t # ts))"
| "first_reference rd ts = None"

definition parse_reference :: "reading \<Rightarrow> string \<Rightarrow> WorkReference option" where
  "parse_reference rd t =
     first_reference rd (filter (\<lambda>p. p \<noteq> [])
       (split_at (\<lambda>c. \<not> alphanumeric rd c \<and> c \<noteq> ''-'') t))"

definition title_text :: "reading \<Rightarrow> string \<Rightarrow> string option" where
  "title_text rd t =
     (case find (starts_with (to_lowercase (strings rd) t)) title_prefixes of
        None \<Rightarrow> Some (trim t)
      | Some p \<Rightarrow>
          map_option (\<lambda>rest. if trim rest = [] then trim t else trim rest) (slice_from t (length p)))"

definition work_title :: "reading \<Rightarrow> string \<Rightarrow> string option" where
  "work_title rd t =
     map_option (\<lambda>u. let v = concat (take 80 (utf8_chars u)) in if v = [] then ''Untitled task'' else v)
       (title_text rd t)"

definition new_work ::
  "reading \<Rightarrow> CurrentState \<Rightarrow> Observation \<Rightarrow> PrincipalId \<Rightarrow> PrincipalId \<Rightarrow> TaskCandidate list \<Rightarrow>
   FocusPlan option"
where
  "new_work rd s obs uid hid cs =
     map_option (\<lambda>t.
       (let g = \<lparr>Goal.id = from_uuid (new_uuid rd ''goal''), owner_principal_id = uid,
              participants = [uid, hid], title = t, description = Observation.content obs,
              status = GoalStatus.Active, created_at = time_now rd ''goal''\<rparr>;
            k = \<lparr>Task.id = from_uuid (new_uuid rd ''task''), goal_id = Some (Goal.id g), title = t,
              status = TaskStatus.InProgress, created_at = time_now rd ''task''\<rparr>;
            r = running rd (Some (Task.id k)) in
        (plan s obs NewWork ExplicitNewWork
           \<lparr>Focus.goal_id = Some (Goal.id g), task_id = Some (Task.id k), run_id = Some (Run.id r)\<rparr>
           (map TaskCandidate.record cs) None)
          \<lparr>FocusPlan.goal := Some g, FocusPlan.task := Some k, FocusPlan.run := Some r\<rparr>))
     (work_title rd (Observation.content obs))"

section \<open>Resolving\<close>

definition choose_from_pool ::
  "reading \<Rightarrow> CurrentState \<Rightarrow> Observation \<Rightarrow> TaskCandidate list \<Rightarrow> FocusBasis \<Rightarrow> bool \<Rightarrow> FocusPlan"
where
  "choose_from_pool rd s obs cs single continuation_request =
     (let b = (if continuation_request then ExplicitContinuation else single);
          near = filter (\<lambda>i. same_thread (cs ! i)) [0..<length cs] in
      if cs = []
      then clarify rd s obs ClosedWorkReference []
        (Some (''I couldn'' @ [CHR 0x27] @ ''t identify an active task to continue. Name its task ID or say '' @ [CHR 0x27] @ ''new task: ...'' @ [CHR 0x27] @ ''.''))
      else if length near = 1
      then continue_task rd s obs (cs ! hd near) SameThreadContinuation None
      else
        (case match_text rd (Observation.content obs) cs of
           Unique i \<Rightarrow> continue_task rd s obs (cs ! i) b None
         | Uncertain js \<Rightarrow>
             if 1 < length cs
             then clarify rd s obs AmbiguousCandidates (map ((!) cs) js) None
             else continue_task rd s obs (hd cs) b None
         | NoMatch \<Rightarrow>
             if length cs = 1 then continue_task rd s obs (hd cs) b None
             else clarify rd s obs AmbiguousCandidates cs None))"

definition resolve_task_reference ::
  "reading \<Rightarrow> CurrentState \<Rightarrow> ExperienceEvent list \<Rightarrow> Observation \<Rightarrow> PrincipalId \<Rightarrow> TaskId \<Rightarrow> FocusPlan"
where
  "resolve_task_reference rd s events obs uid tid =
     (case bt_get (tasks s) tid of
        None \<Rightarrow> clarify rd s obs InvalidReference []
          (Some (''I can'' @ [CHR 0x27] @ ''t verify that task ID. Which active task should I continue?''))
      | Some t \<Rightarrow>
          (case task_reference rd s events obs uid t of
             None \<Rightarrow> clarify rd s obs InvalidReference []
               (Some (''I can'' @ [CHR 0x27] @ ''t verify that task belongs to you. Which active task should I continue?''))
           | Some c \<Rightarrow>
               if Task.status t = TaskStatus.InProgress \<and>
                  goal_active s (FocusCandidate.goal_id (TaskCandidate.record c))
               then continue_task rd s obs c ExplicitTask None
               else if Task.status t \<in> {TaskStatus.Completed, TaskStatus.Cancelled}
               then clarify rd s obs ClosedWorkReference [c]
                 (Some (''Task '' @ [CHR 0x27] @ Task.title t @ [CHR 0x27] @ '' is '' @
                    task_status_debug (Task.status t) @
                    ''. Should it be reopened, or should I start a new task?''))
               else clarify rd s obs InvalidReference [c]
                 (Some (''Task '' @ [CHR 0x27] @ Task.title t @ [CHR 0x27] @
                    '' is not active yet. Should I start it, or choose an active task?''))))"

definition resolve_goal_reference ::
  "reading \<Rightarrow> CurrentState \<Rightarrow> Observation \<Rightarrow> PrincipalId \<Rightarrow> TaskCandidate list \<Rightarrow> GoalId \<Rightarrow> FocusPlan"
where
  "resolve_goal_reference rd s obs uid cs gid =
     (if \<not> owned_goal s uid gid \<or> \<not> goal_active s gid
      then clarify rd s obs InvalidReference []
        (Some (''I can'' @ [CHR 0x27] @ ''t verify an active goal with that ID. Which task should I continue?''))
      else
        (let pool = filter (\<lambda>c. FocusCandidate.goal_id (TaskCandidate.record c) = gid) cs in
         if pool = []
         then clarify rd s obs ClosedWorkReference []
           (Some ''That goal has no active task. Which task should I continue, or should I start a new one?'')
         else choose_from_pool rd s obs pool ExplicitGoal False))"

definition resolve_run_reference ::
  "reading \<Rightarrow> CurrentState \<Rightarrow> ExperienceEvent list \<Rightarrow> Observation \<Rightarrow> PrincipalId \<Rightarrow> TaskCandidate list \<Rightarrow>
   RunId \<Rightarrow> FocusPlan"
where
  "resolve_run_reference rd s events obs uid cs rid =
     (case bt_get (runs s) rid of
        None \<Rightarrow> clarify rd s obs InvalidReference []
          (Some (''I can'' @ [CHR 0x27] @ ''t verify that run ID. Which active task should I continue?''))
      | Some r \<Rightarrow>
          (case owned_run_task s uid r of
             None \<Rightarrow> clarify rd s obs InvalidReference []
               (Some ''That run is not attached to an active task I can continue. Which task did you mean?'')
           | Some t \<Rightarrow>
               (case find (\<lambda>c. FocusCandidate.task_id (TaskCandidate.record c) = Task.id t) cs of
                  None \<Rightarrow> clarify rd s obs ClosedWorkReference
                    (case task_reference rd s events obs uid t of None \<Rightarrow> [] | Some c \<Rightarrow> [c])
                    (Some ''That run or its task is not active. Should I reopen the work, or choose another task?'')
                | Some c \<Rightarrow>
                    if \<not> live_run r
                    then clarify rd s obs ClosedWorkReference [c]
                      (Some (''Run '' @ id_text (strings rd) rid @ '' is '' @ run_status_debug (Run.status r) @
                         ''. Should I start a new run for task '' @ [CHR 0x27] @ Task.title t @ [CHR 0x27] @ ''?''))
                    else continue_task rd s obs c ExplicitRun (Some r))))"

definition resolve_reference ::
  "reading \<Rightarrow> CurrentState \<Rightarrow> ExperienceEvent list \<Rightarrow> Observation \<Rightarrow> PrincipalId \<Rightarrow> TaskCandidate list \<Rightarrow>
   WorkReference \<Rightarrow> FocusPlan"
where
  "resolve_reference rd s events obs uid cs ref =
     (case ref of
        TaskReference tid \<Rightarrow> resolve_task_reference rd s events obs uid tid
      | GoalReference gid \<Rightarrow> resolve_goal_reference rd s obs uid cs gid
      | RunReference rid \<Rightarrow> resolve_run_reference rd s events obs uid cs rid)"

definition resolve ::
  "reading \<Rightarrow> CurrentState \<Rightarrow> ExperienceEvent list \<Rightarrow> Observation \<Rightarrow> PrincipalId \<Rightarrow> PrincipalId \<Rightarrow>
   FocusPlan option"
where
  "resolve rd s events obs uid hid =
     (let t = Observation.content obs; cs = active_tasks rd s events obs uid in
      if has_new_work_intent rd t then new_work rd s obs uid hid cs
      else Some
        (case parse_reference rd t of
           Some ref \<Rightarrow> resolve_reference rd s events obs uid cs ref
         | None \<Rightarrow>
             if is_social_message rd t then conversation rd s obs cs
             else if has_continuation_intent rd t
             then choose_from_pool rd s obs cs ExplicitContinuation True
             else
               (case match_text rd t cs of
                  Unique i \<Rightarrow> continue_task rd s obs (cs ! i) StrongTextMatch None
                | Uncertain js \<Rightarrow> clarify rd s obs AmbiguousCandidates (map ((!) cs) js) None
                | NoMatch \<Rightarrow> conversation rd s obs cs)))"

section \<open>Observations from before resolutions were recorded\<close>

definition focus_for_run :: "CurrentState \<Rightarrow> RunId \<Rightarrow> Focus option" where
  "focus_for_run s rid =
     map_option (\<lambda>r.
         \<lparr>Focus.goal_id = Option.bind (Option.bind (Run.task_id r) (bt_get (tasks s))) Task.goal_id,
          task_id = Run.task_id r, run_id = Some (Run.id r)\<rparr>)
       (bt_get (runs s) rid)"

definition correlated :: "ExperienceEvent list \<Rightarrow> EventKind \<Rightarrow> string \<Rightarrow> ExperienceEvent option" where
  "correlated events k corr = find (\<lambda>e. event_kind e = k \<and> correlation_id e = Some corr) events"

definition legacy_run ::
  "ext \<Rightarrow> ExperienceEvent list \<Rightarrow> string \<Rightarrow> string + RunId option"
where
  "legacy_run x events corr =
     (case correlated events AttemptStarted corr of
        Some e \<Rightarrow> res_bind (de_attempt x (payload e)) (\<lambda>a. Inr (Some (Attempt.run_id a)))
      | None \<Rightarrow>
          (case correlated events RunStarted corr of
             Some e \<Rightarrow> res_bind (de_run x (payload e)) (\<lambda>r. Inr (Some (Run.id r)))
           | None \<Rightarrow> Inr None))"

definition legacy_resolution ::
  "ext \<Rightarrow> CurrentState \<Rightarrow> ExperienceEvent list \<Rightarrow> Observation \<Rightarrow> string + FocusResolution option"
where
  "legacy_resolution x s events obs =
     (let corr = id_text x (Observation.id obs);
          created = list_all (\<lambda>k. correlated events k corr \<noteq> None) [GoalCreated, TaskCreated, RunStarted] in
      res_bind (legacy_run x events corr) (\<lambda>rid.
      Inr (map_option (\<lambda>f.
          \<lparr>FocusResolution.observation_id = Observation.id obs,
           outcome = (if Focus.task_id f \<noteq> None then (if created then NewWork else Continue) else Conversation),
           focus = f, as_of_revision = CurrentState.revision s,
           basis = (if created then ExplicitNewWork else ExplicitContinuation),
           candidates = [], clarification = None\<rparr>)
        (Option.bind rid (focus_for_run s)))))"

end
