(* ===== verification/Interaction.thy ===== *)
theory Interaction
  imports EngineOperations ThoughtContexts Continuity SleepData
begin

text \<open>
  An interaction (\<open>handle\<close> of \<open>src/runtime/engine.rs\<close>): the lease, the observation, its focus, the
  context, the model's thought, and the one batch that records the decision with everything that
  follows from it. The error of a step is paired with the attempt that was open when it arose,
  since the caller closes that attempt.
\<close>

section \<open>The engine with its model\<close>

text \<open>
  \<open>think\<close> answers \<open>None\<close> where \<open>select!\<close> saw the lease lost before the model's answer;
  \<open>recall\<close> is the semantic recall, or the local one when that is absent or fails.
\<close>

record Conversant = Engine +
  think :: "nat \<Rightarrow> ThoughtContext \<Rightarrow> (CognitiveError + ThoughtCycle) option"
  recall :: "RecallQuery \<Rightarrow> CurrentState \<Rightarrow> ExperienceEvent list \<Rightarrow> RecallBundle"
  printed :: printing
  context_text :: "ThoughtContext \<Rightarrow> string + string"
  snapshot_to_value :: "ContextSnapshot \<Rightarrow> string + json"
  alnum :: "string \<Rightarrow> bool"
  lease_owner :: string

definition printing_of :: "Conversant \<Rightarrow> printing" where
  "printing_of en = (printed en)\<lparr>print_lib := lib en\<rparr>"

definition reading_of :: "Conversant \<Rightarrow> reading" where
  "reading_of en =
     \<lparr>strings = lib en, alphanumeric = alnum en, parse_uuid = uuid_parse (store_codec en),
      new_uuid = fresh en, time_now = clock en\<rparr>"

record InteractionResult =
  observation_id :: ObservationId
  focus :: Focus
  decision :: Decision
  revision :: u64
  operation_id :: "OperationId option"
  approval_id :: "ApprovalId option"

section \<open>Errors and the open attempt\<close>

type_synonym 'a handling = "(EngineWorld, EngineError \<times> Attempt option, 'a) program"

definition during :: "Attempt option \<Rightarrow> 'a engine_action \<Rightarrow> 'a handling" where
  "during oa m w =
     (case m w of (Inl err, w') \<Rightarrow> (Inl (err, oa), w') | (Inr v, w') \<Rightarrow> (Inr v, w'))"

definition fail_with :: "EngineError \<Rightarrow> 'a engine_action" where
  "fail_with err = act_lift (Inl err)"

section \<open>Events\<close>

definition conversation_event ::
  "Conversant \<Rightarrow> string \<Rightarrow> PrincipalId \<Rightarrow> EventKind \<Rightarrow> EntityRef option \<Rightarrow> Recorded \<Rightarrow> ObservationId \<Rightarrow>
   EventId option \<Rightarrow> EngineError + ExperienceEvent"
where
  "conversation_event en l actor k subj p oid caus =
     event en l actor k subj p (Some (id_text (lib en) oid)) caus"

definition optional_event ::
  "('v \<Rightarrow> EngineError + ExperienceEvent) \<Rightarrow> 'v option \<Rightarrow> EngineError + ExperienceEvent list"
where
  "optional_event f ov = (case ov of None \<Rightarrow> Inr [] | Some v \<Rightarrow> res_bind (f v) (\<lambda>e. Inr [e]))"

definition focus_events :: "Conversant \<Rightarrow> FocusPlan \<Rightarrow> EngineError + ExperienceEvent list" where
  "focus_events en p =
     (let rs = FocusPlan.resolution p; oid = FocusResolution.observation_id rs; u = user_id en in
      res_bind (optional_event (\<lambda>g. conversation_event en ''GoalCreated'' u GoalCreated
        (reference EntityKind.Goal (Goal.id g)) (GoalPayload g) oid None) (FocusPlan.goal p)) (\<lambda>gs.
      res_bind (optional_event (\<lambda>t. conversation_event en ''TaskCreated'' u TaskCreated
        (reference EntityKind.Task (Task.id t)) (TaskPayload t) oid None) (FocusPlan.task p)) (\<lambda>ts.
      res_bind (optional_event (\<lambda>r. conversation_event en ''RunStarted'' u RunStarted
        (reference EntityKind.Run (Run.id r)) (RunPayload r) oid None) (FocusPlan.run p)) (\<lambda>rns.
      res_bind (conversation_event en ''FocusResolved'' u FocusResolved
        (reference EntityKind.Observation oid) (FocusPayload rs) oid None) (\<lambda>f.
      Inr (gs @ ts @ rns @ [f]))))))"

definition persist_focus_plan ::
  "Conversant \<Rightarrow> CurrentState \<Rightarrow> FocusPlan \<Rightarrow> (CurrentState \<times> FocusResolution) engine_action"
where
  "persist_focus_plan en s p =
     act_bind (act_lift (focus_events en p)) (\<lambda>es.
     act_bind (record_all en es (Some (CurrentState.revision s))) (\<lambda>s'.
     act_return (s', FocusPlan.resolution p)))"

section \<open>Clarification\<close>

fun focus_basis_debug :: "FocusBasis \<Rightarrow> string" where
  "focus_basis_debug ExplicitNewWork = ''ExplicitNewWork''"
| "focus_basis_debug ExplicitTask = ''ExplicitTask''"
| "focus_basis_debug ExplicitGoal = ''ExplicitGoal''"
| "focus_basis_debug ExplicitRun = ''ExplicitRun''"
| "focus_basis_debug ExplicitContinuation = ''ExplicitContinuation''"
| "focus_basis_debug SameThreadContinuation = ''SameThreadContinuation''"
| "focus_basis_debug StrongTextMatch = ''StrongTextMatch''"
| "focus_basis_debug GeneralConversation = ''GeneralConversation''"
| "focus_basis_debug AmbiguousCandidates = ''AmbiguousCandidates''"
| "focus_basis_debug ClosedWorkReference = ''ClosedWorkReference''"
| "focus_basis_debug InvalidReference = ''InvalidReference''"

definition request_for ::
  "Conversant \<Rightarrow> CurrentState \<Rightarrow> Observation \<Rightarrow> Focus \<Rightarrow> RecallBundle \<Rightarrow> ContextBuildRequest"
where
  "request_for en s obs f bundle =
     \<lparr>ContextBuildRequest.principal_id = user_id en,
      current_observation_id = Some (Observation.id obs),
      relationship_id = map_option Relationship.id (find (related en) (bt_values (relationships s))),
      task_id = Focus.task_id f, run_id = Focus.run_id f,
      as_of_revision = CurrentState.revision s, recalled = bundle, budget = default_budget\<rparr>"

definition clarification_evidence ::
  "Conversant \<Rightarrow> FocusResolution \<Rightarrow> ExperienceEvent list \<Rightarrow> EventId list"
where
  "clarification_evidence en rs events =
     push_all [] (map ExperienceEvent.event_id
       (filter (\<lambda>e. event_kind e \<in> {ObservationRecorded, UserMessageReceived, FocusResolved} \<and>
            correlation_id e = Some (id_text (lib en) (FocusResolution.observation_id rs))) events))"

definition clarification_decision ::
  "Conversant \<Rightarrow> Observation \<Rightarrow> FocusResolution \<Rightarrow> ExperienceEvent list \<Rightarrow> ContextSnapshot \<Rightarrow> string \<Rightarrow> Decision"
where
  "clarification_decision en obs rs events snap q =
     (respond (fresh_id en ''decision'') (clock en ''decision'') q)
       \<lparr>Decision.kind := RequestClarification,
        Decision.target_principal_id := Some (user_id en),
        Decision.request := Observation.content obs,
        Decision.context_hash := ContextSnapshot.snapshot_hash snap,
        Decision.confidence := 100,
        Decision.reasons := [''continuity requires confirmation: '' @
          focus_basis_debug (FocusResolution.basis rs)],
        Decision.evidence_refs := clarification_evidence en rs events,
        Decision.alternatives := map (\<lambda>c. task_title c @ '' ('' @
          id_text (lib en) (FocusCandidate.task_id c) @ '')'') (FocusResolution.candidates rs),
        Decision.reconsideration_conditions :=
          [''The user identifies a task or explicitly starts new work''],
        Decision.unresolved_questions := [q]\<rparr>"

definition decided_event ::
  "Conversant \<Rightarrow> EventId \<Rightarrow> Decision \<Rightarrow> ObservationId \<Rightarrow> EngineError + ExperienceEvent"
where
  "decided_event en eid d oid =
     event_with_id en eid ''DecisionCreated'' (hekate_id en) DecisionCreated
       (reference EntityKind.Decision (Decision.id d)) (DecisionPayload d)
       (Some (id_text (lib en) oid)) None"

definition response_event ::
  "Conversant \<Rightarrow> Decision \<Rightarrow> string \<Rightarrow> ObservationId \<Rightarrow> EventId \<Rightarrow> EngineError + ExperienceEvent"
where
  "response_event en d t oid caus =
     conversation_event en ''ResponseProduced'' (hekate_id en) ResponseProduced
       (reference EntityKind.Decision (Decision.id d))
       (ResponsePayload \<lparr>ResponseRecord.decision_id = Decision.id d, content = t,
          created_at = clock en ''response''\<rparr>) oid (Some caus)"

definition produce_clarification ::
  "Conversant \<Rightarrow> Observation \<Rightarrow> CurrentState \<Rightarrow> FocusResolution \<Rightarrow> InteractionResult engine_action"
where
  "produce_clarification en obs s rs =
     (case FocusResolution.clarification rs of
        None \<Rightarrow> fail_with (EngineError.InvalidOperation ''clarification resolution is missing its question'')
      | Some q \<Rightarrow>
          act_bind (all_events en) (\<lambda>events.
          act_bind (act_lift (map_err ContextBuilder (build_context_snapshot (printing_of en) s events
            (request_for en s obs unattached (empty_for (lib en) (Observation.content obs) []))))) (\<lambda>snap.
          let d = clarification_decision en obs rs events snap q in
          act_bind (act_lift (decided_event en (fresh_id en ''DecisionCreated'') d (Observation.id obs))) (\<lambda>e1.
          act_bind (act_lift (response_event en d q (Observation.id obs) (ExperienceEvent.event_id e1))) (\<lambda>e2.
          act_bind (record_all en [e1, e2] (Some (CurrentState.revision s))) (\<lambda>s'.
          act_return \<lparr>InteractionResult.observation_id = Observation.id obs,
            focus = FocusResolution.focus rs, decision = d, revision = CurrentState.revision s',
            operation_id = None, approval_id = None\<rparr>))))))"

section \<open>What follows from a decision\<close>

text \<open>The actions a decision asks for, under the policy's answer: an intent, an operation, an approval.\<close>

definition planned_operation :: "Conversant \<Rightarrow> ActionIntent \<Rightarrow> ApprovalId option \<Rightarrow> Operation" where
  "planned_operation en intent oa =
     \<lparr>Operation.id = fresh_id en ''operation'', intent_id = ActionIntent.id intent,
      status = OperationStatus.Planned,
      idempotency_key = ''intent:'' @ id_text (lib en) (ActionIntent.id intent),
      approval_id = oa, started_at = None, finished_at = None\<rparr>"

definition pending_approval :: "Conversant \<Rightarrow> ActionIntent \<Rightarrow> PolicyDecision \<Rightarrow> Approval" where
  "pending_approval en intent pd =
     \<lparr>Approval.id = fresh_id en ''approval'', intent_id = ActionIntent.id intent,
      operation_id = fresh_id en ''operation'', requested_by = hekate_id en,
      status = ApprovalStatus.Pending, reason = PolicyDecision.reason pd, resolved_by = None,
      resolved_at = None, created_at = clock en ''approval''\<rparr>"

definition action_events ::
  "Conversant \<Rightarrow> ObservationId \<Rightarrow> EventId \<Rightarrow> (ActionIntent \<times> PolicyDecision) option \<Rightarrow>
   EngineError + ExperienceEvent list"
where
  "action_events en oid caus act =
     (case act of
        None \<Rightarrow> Inr []
      | Some (intent, pd) \<Rightarrow>
          (let oa = (if requires_approval pd then Some (fresh_id en ''approval'') else None);
               op = planned_operation en intent oa in
           res_bind (conversation_event en ''ActionIntentCreated'' (hekate_id en) ActionIntentCreated
             (reference EntityKind.ActionIntent (ActionIntent.id intent)) (IntentPayload intent) oid
             (Some caus)) (\<lambda>e1.
           res_bind (conversation_event en ''OperationPlanned'' (hekate_id en) OperationPlanned
             (reference EntityKind.Operation (Operation.id op)) (OperationPayload op) oid
             (Some caus)) (\<lambda>e2.
           res_bind
             (if requires_approval pd
              then res_bind (conversation_event en ''ApprovalRequested'' (hekate_id en) ApprovalRequested
                (reference EntityKind.Approval (Approval.id (pending_approval en intent pd)))
                (ApprovalPayload (pending_approval en intent pd)) oid (Some caus)) (\<lambda>e. Inr [e])
              else Inr []) (\<lambda>es.
           Inr ([e1, e2] @ es))))))"

text \<open>The working state of the run, and the run's own transition.\<close>

definition next_working_state :: "Conversant \<Rightarrow> CurrentState \<Rightarrow> RunId \<Rightarrow> Observation \<Rightarrow> Decision \<Rightarrow> WorkingState" where
  "next_working_state en s rid obs d =
     (let w = unwrap_or
            \<lparr>WorkingState.id = fresh_id en ''working state'', run_id = rid, revision = 0,
             completed_observations = [], notes = [], next_action = None\<rparr>
            (bt_get (working_states s) rid) in
      w\<lparr>WorkingState.revision := WorkingState.revision w + 1,
        completed_observations := push_unique (completed_observations w) (Observation.id obs),
        next_action := Some (message d)\<rparr>)"

definition run_event ::
  "Conversant \<Rightarrow> ObservationId \<Rightarrow> EventId \<Rightarrow> RunStatus \<Rightarrow> Run \<Rightarrow> EngineError + ExperienceEvent"
where
  "run_event en oid caus next r0 =
     res_bind (map_err EngineError.Transition (transition_run r0 next)) (\<lambda>r1.
     let r = (if next = RunStatus.Completed
              then r1\<lparr>Run.completed_at := Some (clock en ''run completed'')\<rparr> else r1) in
     conversation_event en ''run'' (hekate_id en)
       (if next = RunStatus.Completed then RunCompleted else RunSuspended)
       (reference EntityKind.Run (Run.id r)) (RunPayload r) oid (Some caus))"

definition run_events ::
  "Conversant \<Rightarrow> CurrentState \<Rightarrow> ObservationId \<Rightarrow> EventId \<Rightarrow> RunId \<Rightarrow> FocusResolution \<Rightarrow> Decision \<Rightarrow>
   EngineError + ExperienceEvent list"
where
  "run_events en s oid caus rid rs d =
     (let r = bt_get (runs s) rid in
      if FocusResolution.outcome rs = Conversation
      then optional_event (run_event en oid caus RunStatus.Completed)
        (case r of Some r \<Rightarrow> if Run.status r = RunStatus.Running then Some r else None | None \<Rightarrow> None)
      else if Decision.kind d \<in> {Suspend, Complete}
      then optional_event (run_event en oid caus
        (if Decision.kind d = Suspend then RunStatus.Suspended else RunStatus.Completed)) r
      else Inr [])"

definition focus_run_events ::
  "Conversant \<Rightarrow> CurrentState \<Rightarrow> Observation \<Rightarrow> EventId \<Rightarrow> FocusResolution \<Rightarrow> Decision \<Rightarrow>
   EngineError + ExperienceEvent list"
where
  "focus_run_events en s obs caus rs d =
     (case Focus.run_id (FocusResolution.focus rs) of
        None \<Rightarrow> Inr []
      | Some rid \<Rightarrow>
          (let w = next_working_state en s rid obs d in
           res_bind (conversation_event en ''WorkingStateUpdated'' (hekate_id en) WorkingStateUpdated
             (reference EntityKind.WorkingState (WorkingState.id w)) (WorkingStatePayload w)
             (Observation.id obs) (Some caus)) (\<lambda>e.
           res_bind (run_events en s (Observation.id obs) caus rid rs d) (\<lambda>es. Inr (e # es)))))"

definition opinion_events ::
  "Conversant \<Rightarrow> CurrentState \<Rightarrow> Observation \<Rightarrow> EventId \<Rightarrow> Decision \<Rightarrow> EngineError + ExperienceEvent list"
where
  "opinion_events en s obs caus d =
     (let oid = Observation.id obs in
      res_bind (optional_event (\<lambda>p. conversation_event en ''position'' (hekate_id en)
        (position_event_kind s p) (reference EntityKind.Position (Position.id p)) (PositionPayload p)
        oid (Some caus)) (Decision.position d)) (\<lambda>es1.
      res_bind (optional_event (\<lambda>p. conversation_event en ''user position'' (Observation.actor_id obs)
        (position_event_kind s p) (reference EntityKind.Position (Position.id p)) (PositionPayload p)
        oid (Some caus)) (Decision.user_position d)) (\<lambda>es2.
      res_bind (optional_event (\<lambda>c. conversation_event en ''conflict'' (hekate_id en)
        (conflict_event_kind s c) (reference EntityKind.Conflict (Conflict.id c)) (ConflictPayload c)
        oid (Some caus)) (Decision.conflict d)) (\<lambda>es3.
      Inr (es1 @ es2 @ es3)))))"

definition finished_attempt :: "Conversant \<Rightarrow> Attempt \<Rightarrow> AttemptStatus \<Rightarrow> Attempt" where
  "finished_attempt en a st =
     a\<lparr>Attempt.status := st, Attempt.finished_at := Some (clock en ''attempt finished'')\<rparr>"

text \<open>The batch: the decision, then everything it causes, last the success of the attempt.\<close>

definition final_events ::
  "Conversant \<Rightarrow> CurrentState \<Rightarrow> Observation \<Rightarrow> FocusResolution \<Rightarrow> Attempt \<Rightarrow> Decision \<Rightarrow>
   PolicyDecision option \<Rightarrow> EngineError + ExperienceEvent list"
where
  "final_events en s obs rs a d pd =
     (let oid = Observation.id obs in
      res_bind (decided_event en (fresh_id en ''DecisionCreated'') d oid) (\<lambda>e0.
      let caus = ExperienceEvent.event_id e0 in
      res_bind (opinion_events en s obs caus d) (\<lambda>es1.
      res_bind (action_events en oid caus
        (case (Decision.action d, pd) of (Some i, Some q) \<Rightarrow> Some (i, q) | _ \<Rightarrow> None)) (\<lambda>es2.
      res_bind (response_event en d (message d) oid caus) (\<lambda>e3.
      res_bind (focus_run_events en s obs caus rs d) (\<lambda>es4.
      res_bind (conversation_event en ''AttemptCompleted'' (hekate_id en) AttemptCompleted
        (reference EntityKind.Attempt (Attempt.id a))
        (AttemptPayload (finished_attempt en a AttemptStatus.Succeeded)) oid (Some caus)) (\<lambda>e5.
      Inr ([e0] @ es1 @ es2 @ [e3] @ es4 @ [e5]))))))))"

section \<open>Processing an observation\<close>

definition recall_query :: "Observation \<Rightarrow> EventId \<Rightarrow> CurrentState \<Rightarrow> RecallQuery" where
  "recall_query obs i s =
     \<lparr>RecallQuery.text = Observation.content obs, limit = 6, exclude_event_ids = [i],
      as_of_sequence = Some (CurrentState.revision s)\<rparr>"

definition new_attempt :: "Conversant \<Rightarrow> RunId \<Rightarrow> Attempt" where
  "new_attempt en rid =
     \<lparr>Attempt.id = fresh_id en ''attempt'', run_id = rid, status = AttemptStatus.Started,
      started_at = clock en ''attempt'', finished_at = None\<rparr>"

text \<open>A judgment that is not recorded leaves its trace.\<close>

definition reject_thought ::
  "Conversant \<Rightarrow> CognitiveTrace \<Rightarrow> string \<Rightarrow> string option \<Rightarrow> EngineError \<Rightarrow> 'a engine_action"
where
  "reject_thought en tr oc why err = act_bind (save_trace en tr oc why) (\<lambda>_. fail_with err)"

text \<open>The policy's answer on the action of a decision.\<close>

definition judge_action ::
  "Conversant \<Rightarrow> CognitiveTrace \<Rightarrow> Decision \<Rightarrow> PolicyDecision option engine_action"
where
  "judge_action en tr d =
     (case Decision.action d of
        None \<Rightarrow> act_return None
      | Some intent \<Rightarrow>
          act_bind (act_lift (map_err EngineError.Policy (policy en (hekate_id en) intent))) (\<lambda>pd.
          if \<not> allowed pd
          then reject_thought en tr ''rejected'' (Some ''policy_denied'') (PolicyDenied (PolicyDecision.reason pd))
          else act_return (Some pd)))"

definition commit_decision ::
  "Conversant \<Rightarrow> CognitiveTrace \<Rightarrow> ExperienceEvent list \<Rightarrow> u64 \<Rightarrow> CurrentState engine_action"
where
  "commit_decision en tr es base =
     act_bind (try_record en es (Some base) (Some tr)) (\<lambda>res.
     case res of
       Inr s' \<Rightarrow> act_return s'
     | Inl (ProjectionError.StaleContext ex ac) \<Rightarrow>
         reject_thought en tr ''stale_context'' (Some ''stale_context'') (EngineError.StaleContext ex ac)
     | Inl (ProjectionError.Storage (StorageError.StaleContext ex ac)) \<Rightarrow>
         reject_thought en tr ''stale_context'' (Some ''stale_context'') (EngineError.StaleContext ex ac)
     | Inl err \<Rightarrow>
         reject_thought en tr ''commit_failed'' (Some ''commit_failed'') (EngineError.Projection err))"

definition with_proposer :: "Conversant \<Rightarrow> Decision \<Rightarrow> Decision" where
  "with_proposer en d =
     d\<lparr>Decision.action := map_option
         (\<lambda>i. i\<lparr>proposed_by_event := Some (fresh_id en ''DecisionCreated'')\<rparr>) (Decision.action d)\<rparr>"

definition record_thought ::
  "Conversant \<Rightarrow> Observation \<Rightarrow> FocusResolution \<Rightarrow> Attempt \<Rightarrow> CurrentState \<Rightarrow> ThoughtContext \<Rightarrow> ThoughtCycle \<Rightarrow>
   InteractionResult engine_action"
where
  "record_thought en obs rs a s ctx cycle =
     (let d0 = decision_from_cycle (fresh_id en ''decision'') (clock en ''decision'')
            (fresh_id en ''intent'') ctx cycle;
          tr = trace_for_decision (ThoughtCycle.trace cycle) d0 in
      case validate_judgment ctx s (evidence_event_ids ctx) d0 (hekate_id en) of
        Inl err \<Rightarrow> reject_thought en tr ''rejected'' (Some ''invalid_judgment'') (EngineError.Judgment err)
      | Inr _ \<Rightarrow>
          act_bind (judge_action en tr d0) (\<lambda>pd.
          let d = with_proposer en d0 in
          act_bind (act_lift (final_events en s obs rs a d pd)) (\<lambda>es.
          act_bind (commit_decision en tr es (ThoughtContext.event_sequence ctx)) (\<lambda>s'.
          act_return \<lparr>InteractionResult.observation_id = Observation.id obs,
            focus = FocusResolution.focus rs, decision = d, revision = CurrentState.revision s',
            operation_id = map_option (\<lambda>_. fresh_id en ''operation'') (Decision.action d),
            approval_id = Option.bind pd (\<lambda>q.
              if requires_approval q then Some (fresh_id en ''approval'') else None)\<rparr>))))"

definition ask_model ::
  "Conversant \<Rightarrow> ThoughtContext \<Rightarrow> (CognitiveError + ThoughtCycle) option engine_action"
where
  "ask_model en ctx w = (case w of ((n, db), log) \<Rightarrow> (Inr (think en n ctx), ((n, db), log)))"

text \<open>What the model answers is accepted if the ledger has not moved under the thought.\<close>

definition accept_answer ::
  "Conversant \<Rightarrow> Observation \<Rightarrow> FocusResolution \<Rightarrow> Attempt \<Rightarrow> CurrentState \<Rightarrow> ThoughtContext \<Rightarrow>
   (CognitiveError + ThoughtCycle) option \<Rightarrow> InteractionResult engine_action"
where
  "accept_answer en obs rs a s ctx answer =
     (case answer of
        None \<Rightarrow> fail_with ForegroundActivityLeaseLost
      | Some (Inl err) \<Rightarrow>
          reject_thought en (cognitive_trace err) ''failed''
            (CognitiveTrace.error_kind (cognitive_trace err)) (Cognitive err)
      | Some (Inr cycle) \<Rightarrow>
          act_bind (current en) (\<lambda>after.
          if CurrentState.revision after \<noteq> ThoughtContext.event_sequence ctx
          then reject_thought en (ThoughtCycle.trace cycle) ''stale_context'' (Some ''stale_context'')
            (EngineError.StaleContext (ThoughtContext.event_sequence ctx) (CurrentState.revision after))
          else if context_sequence (ThoughtCycle.trace cycle) \<noteq> ThoughtContext.event_sequence ctx \<or>
            CognitiveTrace.context_hash (ThoughtCycle.trace cycle) \<noteq> ThoughtContext.snapshot_hash ctx
          then reject_thought en (ThoughtCycle.trace cycle) ''rejected'' (Some ''trace_context_mismatch'')
            (InvalidCognitiveTrace ''cognitive trace does not match its thought context'')
          else record_thought en obs rs a s ctx cycle))"

definition think_through ::
  "Conversant \<Rightarrow> Observation \<Rightarrow> FocusResolution \<Rightarrow> Attempt \<Rightarrow> CurrentState \<Rightarrow> ThoughtContext \<Rightarrow>
   InteractionResult engine_action"
where
  "think_through en obs rs a s ctx =
     act_bind (current en) (\<lambda>before.
     if CurrentState.revision before \<noteq> ThoughtContext.event_sequence ctx
     then fail_with (EngineError.StaleContext (ThoughtContext.event_sequence ctx)
       (CurrentState.revision before))
     else act_bind (ask_model en ctx) (accept_answer en obs rs a s ctx))"

definition think_and_record ::
  "Conversant \<Rightarrow> Observation \<Rightarrow> FocusResolution \<Rightarrow> Attempt \<Rightarrow> CurrentState \<Rightarrow> RecallBundle \<Rightarrow> ContextSnapshot \<Rightarrow>
   InteractionResult engine_action"
where
  "think_and_record en obs rs a s bundle snap =
     act_bind (all_events en) (\<lambda>events.
     act_bind (act_lift (map_err EngineError.Serialization (snapshot_to_value en snap))) (\<lambda>v.
     think_through en obs rs a s (build_context_with_recall_and_snapshot (lib en) (context_text en) s obs
       (FocusResolution.focus rs) events (capability_names en) bundle (Some v))))"

definition start_attempt :: "Conversant \<Rightarrow> Observation \<Rightarrow> CurrentState \<Rightarrow> Attempt \<Rightarrow> CurrentState engine_action" where
  "start_attempt en obs s a =
     act_bind (act_lift (conversation_event en ''AttemptStarted'' (user_id en) AttemptStarted
       (reference EntityKind.Attempt (Attempt.id a)) (AttemptPayload a) (Observation.id obs) None)) (\<lambda>e.
     record_all en [e] (Some (CurrentState.revision s)))"

definition process_observation ::
  "Conversant \<Rightarrow> Observation \<Rightarrow> EventId \<Rightarrow> CurrentState \<Rightarrow> FocusResolution \<Rightarrow> InteractionResult handling"
where
  "process_observation en obs src s rs =
     (if FocusResolution.outcome rs = Clarification
      then during None (produce_clarification en obs s rs)
      else
        act_bind (during None (all_events en)) (\<lambda>events.
        let bundle = recall en (recall_query obs src s) s events in
        act_bind (during None (act_lift (map_err ContextBuilder (build_context_snapshot (printing_of en)
          s events (request_for en s obs (FocusResolution.focus rs) bundle))))) (\<lambda>snap.
        case Focus.run_id (FocusResolution.focus rs) of
          None \<Rightarrow> during None (fail_with (EngineError.InvalidOperation ''foreground focus has no run''))
        | Some rid \<Rightarrow>
            (let a = new_attempt en rid in
             act_bind (during None (start_attempt en obs s a)) (\<lambda>s'.
             during (Some a) (think_and_record en obs rs a s' bundle snap))))))"

section \<open>Handling an observation\<close>

text \<open>The same message of the same source, seen before.\<close>

definition seen_before :: "Observation \<Rightarrow> CurrentState \<Rightarrow> Observation option" where
  "seen_before obs s =
     find (\<lambda>o'. Observation.message_id obs \<noteq> None \<and>
         Observation.source_type o' = Observation.source_type obs \<and>
         Observation.source_ref o' = Observation.source_ref obs \<and>
         Observation.message_id o' = Observation.message_id obs)
       (bt_values (observations s))"

definition resolved_plan :: "FocusResolution \<Rightarrow> FocusPlan" where
  "resolved_plan rs = \<lparr>FocusPlan.resolution = rs, goal = None, task = None, run = None\<rparr>"

definition recorded_decision ::
  "Conversant \<Rightarrow> ExperienceEvent list \<Rightarrow> Observation \<Rightarrow> EngineError + Decision option"
where
  "recorded_decision en events obs =
     (case find (\<lambda>e. event_kind e = DecisionCreated \<and>
          correlation_id e = Some (id_text (lib en) (Observation.id obs))) (rev events) of
        None \<Rightarrow> Inr None
      | Some e \<Rightarrow>
          res_bind (map_err EngineError.Serialization (de_decision (lib en) (payload e)))
            (\<lambda>d. Inr (Some d)))"

definition known_resolution ::
  "Conversant \<Rightarrow> CurrentState \<Rightarrow> ExperienceEvent list \<Rightarrow> Observation \<Rightarrow> EngineError + FocusResolution option"
where
  "known_resolution en s events obs =
     (case bt_get (focus_resolutions s) (Observation.id obs) of
        Some rs \<Rightarrow> Inr (Some rs)
      | None \<Rightarrow> map_err EngineError.Serialization (legacy_resolution (lib en) s events obs))"

text \<open>The earlier answer again, with the operation and the approval it led to.\<close>

definition earlier_result ::
  "CurrentState \<Rightarrow> Observation \<Rightarrow> FocusResolution option \<Rightarrow> Decision \<Rightarrow> InteractionResult"
where
  "earlier_result s obs known d =
     (let oid = Option.bind (Decision.action d) (\<lambda>i.
            map_option Operation.id (find (\<lambda>op. Operation.intent_id op = ActionIntent.id i)
              (bt_values (operations s)))) in
      \<lparr>InteractionResult.observation_id = Observation.id obs,
       focus = unwrap_or unattached (map_option FocusResolution.focus known), decision = d,
       revision = CurrentState.revision s, operation_id = oid,
       approval_id = Option.bind oid (\<lambda>i.
         map_option Approval.id (find (\<lambda>a. Approval.operation_id a = i) (bt_values (approvals s))))\<rparr>)"

definition is_source_of :: "Observation \<Rightarrow> ExperienceEvent \<Rightarrow> bool" where
  "is_source_of obs e \<longleftrightarrow>
     event_kind e \<in> {ObservationRecorded, UserMessageReceived} \<and>
     on_subject e (uuid (Observation.id obs))"

definition resolve_new ::
  "Conversant \<Rightarrow> CurrentState \<Rightarrow> ExperienceEvent list \<Rightarrow> Observation \<Rightarrow>
   (CurrentState \<times> FocusResolution) engine_action"
where
  "resolve_new en s events obs =
     (case resolve (reading_of en) s events obs (user_id en) (hekate_id en) of
        None \<Rightarrow> fail_with (Panic ''slice out of a character boundary'')
      | Some p \<Rightarrow> persist_focus_plan en s p)"

definition keep_resolution ::
  "Conversant \<Rightarrow> CurrentState \<Rightarrow> Observation \<Rightarrow> FocusResolution \<Rightarrow>
   (CurrentState \<times> FocusResolution) engine_action"
where
  "keep_resolution en s obs rs =
     (if bt_contains (focus_resolutions s) (Observation.id obs) then act_return (s, rs)
      else persist_focus_plan en s (resolved_plan rs))"

definition handle_again :: "Conversant \<Rightarrow> CurrentState \<Rightarrow> Observation \<Rightarrow> InteractionResult handling" where
  "handle_again en s existing =
     act_bind (during None (all_events en)) (\<lambda>events.
     act_bind (during None (act_lift (known_resolution en s events existing))) (\<lambda>known.
     act_bind (during None (act_lift (recorded_decision en events existing))) (\<lambda>od.
     case od of
       Some d \<Rightarrow>
         act_bind (during None (case known of
             None \<Rightarrow> act_return s
           | Some rs \<Rightarrow> act_bind (keep_resolution en s existing rs) (\<lambda>p. act_return (fst p)))) (\<lambda>s'.
         act_return (earlier_result s' existing known d))
     | None \<Rightarrow>
         act_bind (during None (act_lift (ok_or
           (EngineError.InvalidObservation ''duplicate external message is missing its source event'')
           (find (is_source_of existing) events)))) (\<lambda>e.
         act_bind (during None (case known of
             Some rs \<Rightarrow> keep_resolution en s existing rs
           | None \<Rightarrow> resolve_new en s events existing)) (\<lambda>(s', rs).
         process_observation en existing (ExperienceEvent.event_id e) s' rs)))))"

definition handle_first :: "Conversant \<Rightarrow> CurrentState \<Rightarrow> Observation \<Rightarrow> InteractionResult handling" where
  "handle_first en s obs =
     act_bind (during None (ensure_identity en s)) (\<lambda>_.
     act_bind (during None (act_lift (conversation_event en ''ObservationRecorded'' (user_id en)
       ObservationRecorded (reference EntityKind.Observation (Observation.id obs))
       (ObservationPayload obs) (Observation.id obs) None))) (\<lambda>e.
     act_bind (during None (record_all en [e] None)) (\<lambda>s1.
     act_bind (during None (all_events en)) (\<lambda>events.
     act_bind (during None (resolve_new en s1 events obs)) (\<lambda>(s2, rs).
     process_observation en obs (ExperienceEvent.event_id e) s2 rs)))))"

definition handle_leased :: "Conversant \<Rightarrow> Observation \<Rightarrow> InteractionResult handling" where
  "handle_leased en obs =
     act_bind (during None (current en)) (\<lambda>s.
     case seen_before obs s of
       Some existing \<Rightarrow> handle_again en s existing
     | None \<Rightarrow> handle_first en s obs)"

definition complete_attempt :: "Conversant \<Rightarrow> Attempt \<Rightarrow> AttemptStatus \<Rightarrow> unit engine_action" where
  "complete_attempt en a st =
     act_bind (current en) (\<lambda>s.
     case bt_get (attempts s) (Attempt.id a) of
       None \<Rightarrow> act_return ()
     | Some c \<Rightarrow>
         if Attempt.status c \<noteq> AttemptStatus.Started then act_return ()
         else
           act_bind (act_lift (event en ''attempt failed'' (user_id en) AttemptCompleted
             (reference EntityKind.Attempt (Attempt.id c)) (AttemptPayload (finished_attempt en c st))
             None None)) (\<lambda>e.
           act_bind (record_all en [e] None) (\<lambda>_. act_return ())))"

definition FOREGROUND_LEASE_TTL :: u128 where "FOREGROUND_LEASE_TTL = 30000"

definition take_lease :: "Conversant \<Rightarrow> bool engine_action" where
  "take_lease en = on_ledger (\<lambda>(n, db).
     case acquire_foreground_lease (lease_clock en n) (others en n db) (lease_owner en) FOREGROUND_LEASE_TTL of
       (db', got) \<Rightarrow> (Inr got, (Suc n, db')))"

definition drop_lease :: "Conversant \<Rightarrow> unit engine_action" where
  "drop_lease en = on_ledger (\<lambda>(n, db).
     (Inr (), (Suc n, release_foreground_lease (others en n db) (lease_owner en))))"

text \<open>An action whose error is only logged.\<close>

definition best_effort :: "unit engine_action \<Rightarrow> EngineWorld \<Rightarrow> EngineWorld" where
  "best_effort m w = snd (m w)"

text \<open>The end of what ran under the lease: a failed attempt is closed, the lease released.\<close>

definition close_interaction ::
  "Conversant \<Rightarrow> ((EngineError \<times> Attempt option) + InteractionResult) \<times> EngineWorld \<Rightarrow>
   (EngineError + InteractionResult) \<times> EngineWorld"
where
  "close_interaction en p =
     (case p of
        (Inr r, w') \<Rightarrow> (Inr r, best_effort (drop_lease en) w')
      | (Inl (Panic m, oa), w') \<Rightarrow> (Inl (Panic m), w')
      | (Inl (err, oa), w') \<Rightarrow>
          (Inl err, best_effort (drop_lease en)
             (case oa of
                None \<Rightarrow> w'
              | Some a \<Rightarrow> best_effort (complete_attempt en a AttemptStatus.Failed) w')))"

definition handle :: "Conversant \<Rightarrow> Observation \<Rightarrow> InteractionResult engine_action" where
  "handle en obs =
     (if user_id en = hekate_id en
      then fail_with (EngineError.InvalidObservation ''user and HEKATE must be different principals'')
      else if Observation.actor_id obs \<noteq> user_id en
      then fail_with (EngineError.InvalidObservation ''observation actor is not the configured user'')
      else if trim (Observation.content obs) = []
      then fail_with (EngineError.InvalidObservation ''observation content cannot be empty'')
      else
        act_bind (take_lease en) (\<lambda>got.
        if \<not> got then fail_with ForegroundActivityBusy
        else (\<lambda>w. close_interaction en (handle_leased en obs w))))"

end
