(* ===== verification/InteractionLedger.thy ===== *)
theory InteractionLedger
  imports Interaction EngineFacts StoredLedger
begin

text \<open>
  The ledger under an interaction: other processes may append between any two of its accesses,
  and the lemmas follow the interaction from access to access up to the commit of its decision.
\<close>

section \<open>What an interaction leaves behind\<close>

text \<open>
  An interaction among other processes: what it never does, what it leaves when it fails, and how
  the ledger grows from one of its accesses to the next.
\<close>

subsection \<open>Nothing is invoked\<close>

lemma quiet_during [quiet]: "keeps_log m \<Longrightarrow> keeps_log (during oa m)"
  by (auto simp: keeps_log_def during_def split: prod.splits sum.splits) (metis snd_conv)+

lemma quiet_fail [quiet]: "keeps_log (fail_with err)"
  unfolding fail_with_def by (intro quiet)

lemma quiet_ask [quiet]: "keeps_log (ask_model en ctx)"
  by (simp add: keeps_log_def ask_model_def split: prod.splits)

lemma quiet_focus [quiet]: "keeps_log (persist_focus_plan en s p)"
  unfolding persist_focus_plan_def by (intro quiet)

lemma quiet_clarification [quiet]: "keeps_log (produce_clarification en obs s rs)"
  unfolding produce_clarification_def by (intro quiet)

lemma quiet_reject [quiet]: "keeps_log (reject_thought en tr oc why err)"
  unfolding reject_thought_def by (intro quiet)

lemma quiet_commit [quiet]: "keeps_log (commit_decision en tr es base)"
  unfolding commit_decision_def
  by (rule quiet_bind [OF quiet_accesses(3)])
    (auto intro!: quiet split: sum.split ProjectionError.split StorageError.split)

lemma quiet_judge [quiet]: "keeps_log (judge_action en tr d)"
  unfolding judge_action_def by (intro quiet)

lemma quiet_thought [quiet]: "keeps_log (record_thought en obs rs a s ctx cycle)"
  unfolding record_thought_def by (intro quiet)

lemma quiet_answer [quiet]: "keeps_log (accept_answer en obs rs a s ctx answer)"
  unfolding accept_answer_def by (intro quiet)

lemma quiet_think_through [quiet]: "keeps_log (think_through en obs rs a s ctx)"
  unfolding think_through_def by (intro quiet)

lemma quiet_think [quiet]: "keeps_log (think_and_record en obs rs a s bundle snap)"
  unfolding think_and_record_def by (intro quiet)

lemma quiet_start [quiet]: "keeps_log (start_attempt en obs s a)"
  unfolding start_attempt_def by (intro quiet)

lemma quiet_process [quiet]: "keeps_log (process_observation en obs src s rs)"
  unfolding process_observation_def by (intro quiet)

lemma quiet_resolutions [quiet]:
  "keeps_log (resolve_new en s events obs)" "keeps_log (keep_resolution en s obs rs)"
  unfolding resolve_new_def keep_resolution_def by (intro quiet)+

lemma quiet_handling [quiet]:
  "keeps_log (handle_again en s existing)" "keeps_log (handle_first en s obs)"
  unfolding handle_again_def handle_first_def by (intro quiet)+

lemma quiet_leased [quiet]: "keeps_log (handle_leased en obs)"
  unfolding handle_leased_def by (intro quiet)

lemma quiet_complete [quiet]: "keeps_log (complete_attempt en a st)"
  unfolding complete_attempt_def by (intro quiet)

lemma quiet_lease [quiet]: "keeps_log (take_lease en)" "keeps_log (drop_lease en)"
  unfolding take_lease_def drop_lease_def by (intro quiet)+

lemma best_effort_log: "keeps_log m \<Longrightarrow> snd (best_effort m w) = snd w"
  unfolding best_effort_def keeps_log_def by blast

subsection \<open>How an interaction ends\<close>

definition refused_input :: "Conversant \<Rightarrow> Observation \<Rightarrow> bool" where
  "refused_input en obs \<longleftrightarrow>
     user_id en = hekate_id en \<or> Observation.actor_id obs \<noteq> user_id en \<or> trim (Observation.content obs) = []"

definition lease_granted :: "Conversant \<Rightarrow> nat \<Rightarrow> Db \<Rightarrow> bool" where
  "lease_granted en n db =
     snd (acquire_foreground_lease (lease_clock en n) (others en n db) (lease_owner en) FOREGROUND_LEASE_TTL)"

definition panicked :: "EngineError + 'a \<Rightarrow> bool" where
  "panicked r \<longleftrightarrow> (\<exists>m. r = Inl (Panic m))"

definition holds_lease :: "string \<Rightarrow> Db \<Rightarrow> bool" where
  "holds_lease owner db \<longleftrightarrow> (\<exists>d. lease_row db = Some (owner, d))"

lemma released: "\<not> holds_lease owner (release_foreground_lease db owner)"
  by (auto simp: holds_lease_def release_foreground_lease_def split: option.splits)

lemma drop_lease_releases: "\<not> holds_lease (lease_owner en) (snd (fst (best_effort (drop_lease en) w)))"
  by (simp add: best_effort_def drop_lease_def on_ledger_def released split: prod.split)

lemma close_interaction_releases:
  "close_interaction en p = (r, w') \<Longrightarrow> \<not> panicked r \<Longrightarrow> \<not> holds_lease (lease_owner en) (snd (fst w'))"
  by (auto simp: close_interaction_def panicked_def drop_lease_releases split: prod.splits sum.splits EngineError.splits)

lemma close_interaction_log:
  "close_interaction en p = (r, w') \<Longrightarrow> snd w' = snd (snd p)"
  by (auto simp: close_interaction_def best_effort_log quiet_lease(2) quiet_complete split: prod.splits sum.splits EngineError.splits option.splits)


text \<open>An interaction that passed its guards and took the lease.\<close>

lemma handle_leased_world:
  assumes "\<not> refused_input en obs" and "lease_granted en n db"
  shows "\<exists>db1. handle en obs ((n, db), log) = close_interaction en (handle_leased en obs ((Suc n, db1), log))"
  using assms
  by (auto simp: handle_def refused_input_def lease_granted_def take_lease_def on_ledger_def act_bind_def
      split: prod.splits)

lemma handle_busy:
  assumes "\<not> refused_input en obs" and "\<not> lease_granted en n db"
  shows "handle en obs ((n, db), log) = (Inl ForegroundActivityBusy, ((Suc n, others en n db), log))"
  using assms
  by (auto simp: handle_def refused_input_def lease_granted_def take_lease_def on_ledger_def act_bind_def
      fail_with_def act_lift_def acquire_foreground_lease_def split: prod.splits option.splits if_splits)

lemma handle_refused:
  "refused_input en obs \<Longrightarrow> \<exists>m. handle en obs w = (Inl (EngineError.InvalidObservation m), w)"
  by (auto simp: handle_def refused_input_def fail_with_def act_lift_def)

lemma handle_invokes_nothing:
  assumes "handle en obs ((n, db), log) = (r, (w', log'))"
  shows "log' = log"
proof (cases "refused_input en obs")
  case True
  with handle_refused [OF True, of "((n, db), log)"] assms show ?thesis by auto
next
  case False
  show ?thesis
  proof (cases "lease_granted en n db")
    case True
    from handle_leased_world [OF False True, of log] obtain db1 where
      run: "close_interaction en (handle_leased en obs ((Suc n, db1), log)) = (r, (w', log'))" using assms by auto
    moreover have "snd (snd (handle_leased en obs ((Suc n, db1), log))) = log"
      using quiet_leased [of en obs] unfolding keeps_log_def by (metis snd_conv)
    ultimately show ?thesis using close_interaction_log [OF run] by simp
  next
    case busy: False
    with handle_busy [OF False busy, of log] assms show ?thesis by simp
  qed
qed

section \<open>The events of an interaction\<close>

definition talk_kinds :: "EventKind set" where
  "talk_kinds = {PrincipalCreated, IdentityVersionCreated, RelationshipCreated, ObservationRecorded,
     GoalCreated, TaskCreated, RunStarted, FocusResolved, AttemptStarted, DecisionCreated,
     PositionEstablished, PositionMaintained, PositionRevised, PositionRetracted, ConflictOpened,
     ConflictUpdated, ConflictResolved, ActionIntentCreated, OperationPlanned, ApprovalRequested,
     ResponseProduced, WorkingStateUpdated, RunCompleted, RunSuspended, AttemptCompleted}"

definition talk_codec :: "'z Engine_scheme \<Rightarrow> bool" where
  "talk_codec en \<longleftrightarrow>
     (\<forall>e. event_kind e \<in> talk_kinds \<and> ExperienceEvent.subject e \<noteq> None \<longrightarrow>
        codec_reads_event (lib en) (store_codec en) e) \<and>
     (\<forall>s. codec_reads_state (store_codec en) s)"

definition talk_event :: "ExperienceEvent \<Rightarrow> bool" where
  "talk_event e \<longleftrightarrow> event_kind e \<in> talk_kinds \<and> ExperienceEvent.subject e \<noteq> None"

lemma talk_codecD: "talk_codec en \<Longrightarrow> talk_event e \<Longrightarrow> codec_reads_event (lib en) (store_codec en) e"
  by (simp add: talk_codec_def talk_event_def)

lemma built_talk:
  assumes "event_with_id en eid l actor k (reference r i) p corr caus = Inr e" and "k \<in> talk_kinds"
  shows "talk_event e"
  using event_fields [OF assms(1)] assms(2) by (simp add: talk_event_def reference_def)

lemma conversation_talk:
  "conversation_event en l actor k (reference r i) p oid caus = Inr e \<Longrightarrow> k \<in> talk_kinds \<Longrightarrow> talk_event e"
  unfolding conversation_event_def event_def by (rule built_talk)

lemma optional_talk:
  assumes "optional_event f ov = Inr es" and "\<And>v e. f v = Inr e \<Longrightarrow> talk_event e"
  shows "(\<forall>e \<in> set es. talk_event e) \<and> length es \<le> 1"
  using assms by (auto simp: optional_event_def res_simps split: option.splits)

lemma optional_conversation:
  assumes "optional_event (\<lambda>v. conversation_event en l actor (k v) (reference r (i v)) (p v) oid caus) ov = Inr es"
    and "\<And>v. k v \<in> talk_kinds"
  shows "(\<forall>e \<in> set es. talk_event e) \<and> length es \<le> 1"
  using assms(1) by (rule optional_talk) (rule conversation_talk [OF _ assms(2)])

lemma focus_events_talk:
  assumes "focus_events en p = Inr es"
  shows "\<forall>e \<in> set es. talk_event e" and "length es \<le> 4"
proof -
  from assms obtain gs ts rns f where es: "es = gs @ ts @ rns @ [f]"
    and gs: "optional_event (\<lambda>g. conversation_event en ''GoalCreated'' (user_id en) GoalCreated
        (reference EntityKind.Goal (Goal.id g)) (GoalPayload g)
        (FocusResolution.observation_id (FocusPlan.resolution p)) None) (FocusPlan.goal p) = Inr gs"
    and ts: "optional_event (\<lambda>t. conversation_event en ''TaskCreated'' (user_id en) TaskCreated
        (reference EntityKind.Task (Task.id t)) (TaskPayload t)
        (FocusResolution.observation_id (FocusPlan.resolution p)) None) (FocusPlan.task p) = Inr ts"
    and rns: "optional_event (\<lambda>r. conversation_event en ''RunStarted'' (user_id en) RunStarted
        (reference EntityKind.Run (Run.id r)) (RunPayload r)
        (FocusResolution.observation_id (FocusPlan.resolution p)) None) (FocusPlan.run p) = Inr rns"
    and f: "conversation_event en ''FocusResolved'' (user_id en) FocusResolved
        (reference EntityKind.Observation (FocusResolution.observation_id (FocusPlan.resolution p)))
        (FocusPayload (FocusPlan.resolution p))
        (FocusResolution.observation_id (FocusPlan.resolution p)) None = Inr f"
    by (auto simp: focus_events_def Let_def res_simps)
  have "(\<forall>e \<in> set gs. talk_event e) \<and> length gs \<le> 1"
    by (rule optional_conversation [OF gs]) (simp add: talk_kinds_def)
  moreover have "(\<forall>e \<in> set ts. talk_event e) \<and> length ts \<le> 1"
    by (rule optional_conversation [OF ts]) (simp add: talk_kinds_def)
  moreover have "(\<forall>e \<in> set rns. talk_event e) \<and> length rns \<le> 1"
    by (rule optional_conversation [OF rns]) (simp add: talk_kinds_def)
  moreover have "talk_event f" using conversation_talk [OF f] by (simp add: talk_kinds_def)
  ultimately show "\<forall>e \<in> set es. talk_event e" "length es \<le> 4" by (auto simp: es)
qed

lemma decided_talk: "decided_event en eid d oid = Inr e \<Longrightarrow> talk_event e"
  unfolding decided_event_def by (erule built_talk) (simp add: talk_kinds_def)

lemma response_talk: "response_event en d t oid caus = Inr e \<Longrightarrow> talk_event e"
  unfolding response_event_def by (erule conversation_talk) (simp add: talk_kinds_def)

lemma opinion_events_talk:
  assumes "opinion_events en s obs caus d = Inr es"
  shows "\<forall>e \<in> set es. talk_event e" and "length es \<le> 3"
proof -
  have k: "position_event_kind s p \<in> talk_kinds" "conflict_event_kind s c \<in> talk_kinds" for p c
    by (simp_all add: position_event_kind_def conflict_event_kind_def talk_kinds_def)
  from assms obtain es1 es2 es3 where es: "es = es1 @ es2 @ es3"
    and 1: "optional_event (\<lambda>p. conversation_event en ''position'' (hekate_id en)
        (position_event_kind s p) (reference EntityKind.Position (Position.id p)) (PositionPayload p)
        (Observation.id obs) (Some caus)) (Decision.position d) = Inr es1"
    and 2: "optional_event (\<lambda>p. conversation_event en ''user position'' (Observation.actor_id obs)
        (position_event_kind s p) (reference EntityKind.Position (Position.id p)) (PositionPayload p)
        (Observation.id obs) (Some caus)) (Decision.user_position d) = Inr es2"
    and 3: "optional_event (\<lambda>c. conversation_event en ''conflict'' (hekate_id en)
        (conflict_event_kind s c) (reference EntityKind.Conflict (Conflict.id c)) (ConflictPayload c)
        (Observation.id obs) (Some caus)) (Decision.conflict d) = Inr es3"
    by (auto simp: opinion_events_def Let_def res_simps)
  have "(\<forall>e \<in> set es1. talk_event e) \<and> length es1 \<le> 1"
    by (rule optional_conversation [OF 1]) (rule k(1))
  moreover have "(\<forall>e \<in> set es2. talk_event e) \<and> length es2 \<le> 1"
    by (rule optional_conversation [OF 2]) (rule k(1))
  moreover have "(\<forall>e \<in> set es3. talk_event e) \<and> length es3 \<le> 1"
    by (rule optional_conversation [OF 3]) (rule k(2))
  ultimately show "\<forall>e \<in> set es. talk_event e" "length es \<le> 3" by (auto simp: es)
qed

lemma action_events_talk:
  assumes "action_events en oid caus act = Inr es"
  shows "\<forall>e \<in> set es. talk_event e" and "length es \<le> 3"
  using assms
  by (auto simp: action_events_def Let_def res_simps talk_kinds_def dest!: conversation_talk
      split: option.splits if_splits)

lemma run_event_talk: "run_event en oid caus st r = Inr e \<Longrightarrow> talk_event e"
  by (auto simp: run_event_def Let_def res_simps talk_kinds_def split: if_splits dest!: conversation_talk)

lemma focus_run_events_talk:
  assumes "focus_run_events en s obs caus rs d = Inr es"
  shows "\<forall>e \<in> set es. talk_event e" and "length es \<le> 2"
proof -
  have "(\<forall>e \<in> set es'. talk_event e) \<and> length es' \<le> 1" if "run_events en s oid caus rid rs d = Inr es'" for oid rid es'
  proof -
    have "run_event en oid caus st r = Inr e \<Longrightarrow> talk_event e" for st r e by (rule run_event_talk)
    with that optional_talk show ?thesis
      by (fastforce simp: run_events_def Let_def split: if_splits)
  qed
  then show "\<forall>e \<in> set es. talk_event e" "length es \<le> 2"
    using assms
    by (auto simp: focus_run_events_def Let_def res_simps talk_kinds_def dest!: conversation_talk split: option.splits)
qed

lemma final_events_talk:
  assumes "final_events en s obs rs a d pd = Inr es"
  shows "\<forall>e \<in> set es. talk_event e" and "length es \<le> 11"
proof -
  from assms obtain e0 es1 es2 e3 es4 e5 where es: "es = [e0] @ es1 @ es2 @ [e3] @ es4 @ [e5]"
    and e0: "decided_event en (fresh_id en ''DecisionCreated'') d (Observation.id obs) = Inr e0"
    and es1: "opinion_events en s obs (ExperienceEvent.event_id e0) d = Inr es1"
    and es2: "action_events en (Observation.id obs) (ExperienceEvent.event_id e0)
        (case (Decision.action d, pd) of (Some i, Some q) \<Rightarrow> Some (i, q) | _ \<Rightarrow> None) = Inr es2"
    and e3: "response_event en d (message d) (Observation.id obs) (ExperienceEvent.event_id e0) = Inr e3"
    and es4: "focus_run_events en s obs (ExperienceEvent.event_id e0) rs d = Inr es4"
    and e5: "conversation_event en ''AttemptCompleted'' (hekate_id en) AttemptCompleted
        (reference EntityKind.Attempt (Attempt.id a))
        (AttemptPayload (finished_attempt en a AttemptStatus.Succeeded)) (Observation.id obs)
        (Some (ExperienceEvent.event_id e0)) = Inr e5"
    by (auto simp: final_events_def Let_def res_simps)
  have "talk_event e5" using conversation_talk [OF e5] by (simp add: talk_kinds_def)
  then show "\<forall>e \<in> set es. talk_event e" "length es \<le> 11"
    using decided_talk [OF e0] response_talk [OF e3] opinion_events_talk [OF es1] action_events_talk [OF es2]
      focus_run_events_talk [OF es4] by (auto simp: es)
qed

section \<open>Steps\<close>

text \<open>A batch, wherever it is committed.\<close>

lemma record_any_step:
  assumes rely: "others_append en" and codec: "talk_codec en" and at: "ledger_at en w es s"
    and rec: "record_all en evs base (w, log) = (Inr s', (w', log'))"
    and evs: "\<forall>e \<in> set evs. talk_event e" "length evs < 2 ^ 32" and n: "fst w < 2 ^ 20"
  shows "\<exists>es'. prefix es es' \<and> ledger_at en w' es' s' \<and> fst w' = Suc (fst w)"
proof -
  obtain n db where w: "w = (n, db)" by (cases w)
  from others_step [OF rely] at w obtain es1 s1 where
    es1: "prefix es es1" and db: "db_holds (lib en) (store_codec en) (others en n db) es1 s1"
    and bound: "length es1 + 2 ^ 32 < 2 ^ 62 + Suc n * 2 ^ 33" by blast
  from record_all_Inr [OF rec [unfolded w]] obtain db' where
    r: "record_batch (lib en) (store_codec en) (faults en n) (others en n db) evs base None = Inr (s', db')"
    and w': "w' = (Suc n, db')" by blast
  have "length es1 + length evs < 2 ^ 63" using bound evs(2) n w by simp
  then have "db_holds (lib en) (store_codec en) db' (es1 @ evs) s'"
    using record_batch_holds [OF db r] evs(1) talk_codecD [OF codec] codec by (auto simp: talk_codec_def)
  then show ?thesis
    using es1 bound evs(2) w w'
    by (intro exI [of _ "es1 @ evs"]) (auto simp: ledger_at_def intro: prefix_order.trans)
qed

text \<open>In \<open>k\<close> accesses at most, an action that succeeds has only seen the ledger grow.\<close>

definition advances :: "'z Engine_scheme \<Rightarrow> nat \<Rightarrow> (EngineWorld, 'e, 'a) program \<Rightarrow> bool" where
  "advances en k m \<longleftrightarrow>
     (\<forall>w es s log v w' log'. ledger_at en w es s \<longrightarrow> fst w + k \<le> 2 ^ 20 \<longrightarrow>
        m (w, log) = (Inr v, (w', log')) \<longrightarrow>
        (\<exists>es' s'. prefix es es' \<and> ledger_at en w' es' s' \<and> fst w' \<le> fst w + k))"

lemma advancesD:
  "advances en k m \<Longrightarrow> ledger_at en w es s \<Longrightarrow> fst w + k \<le> 2 ^ 20 \<Longrightarrow> m (w, log) = (Inr v, (w', log')) \<Longrightarrow>
     \<exists>es' s'. prefix es es' \<and> ledger_at en w' es' s' \<and> fst w' \<le> fst w + k"
  unfolding advances_def by blast

lemma advances_stay: "(\<And>w v w'. m w = (Inr v, w') \<Longrightarrow> w' = w) \<Longrightarrow> advances en k m"
  unfolding advances_def by (metis le_add1 prefix_order.refl prod.inject)

lemma advances_return: "advances en k (act_return v)" and advances_lift: "advances en k (act_lift r)"
  by (auto intro!: advances_stay)

lemma advances_mono: "advances en k m \<Longrightarrow> k \<le> j \<Longrightarrow> advances en j m"
  unfolding advances_def by (meson add_le_mono le_refl le_trans)

lemma advances_bind:
  assumes "advances en k m" and "\<And>v. advances en j (f v)"
  shows "advances en (k + j) (act_bind m f)"
  unfolding advances_def
proof (intro allI impI)
  fix w es s log v w' log'
  assume at: "ledger_at en w es s" and n: "fst w + (k + j) \<le> 2 ^ 20"
    and run: "act_bind m f (w, log) = (Inr v, (w', log'))"
  from run obtain u w1 log1 where m: "m (w, log) = (Inr u, (w1, log1))" and f: "f u (w1, log1) = (Inr v, (w', log'))"
    by (auto simp: act_bind_Inr)
  from advancesD [OF assms(1) at _ m] n obtain es1 s1 where
    1: "prefix es es1" "ledger_at en w1 es1 s1" "fst w1 \<le> fst w + k" by auto
  from advancesD [OF assms(2) 1(2) _ f] n 1(3) obtain es2 s2 where
    2: "prefix es1 es2" "ledger_at en w' es2 s2" "fst w' \<le> fst w1 + j" by auto
  show "\<exists>es' s'. prefix es es' \<and> ledger_at en w' es' s' \<and> fst w' \<le> fst w + (k + j)"
    using 1 2 by (intro exI [of _ es2] exI [of _ s2]) (auto intro: prefix_order.trans)
qed

lemma advances_during: "advances en k m \<Longrightarrow> advances en k (during oa m)"
  unfolding advances_def during_def by (fastforce split: prod.splits sum.splits)

lemma advancesI:
  assumes "\<And>w es s log v w' log'. ledger_at en w es s \<Longrightarrow> fst w + k \<le> 2 ^ 20 \<Longrightarrow>
      m (w, log) = (Inr v, (w', log')) \<Longrightarrow> \<exists>es' s'. prefix es es' \<and> ledger_at en w' es' s' \<and> fst w' \<le> fst w + k"
  shows "advances en k m"
  unfolding advances_def using assms by blast

lemma advances_bind_lift:
  "(\<And>v. r = Inr v \<Longrightarrow> advances en k (f v)) \<Longrightarrow> advances en k (act_bind (act_lift r) f)"
  by (cases r) (auto simp: advances_def act_bind_def act_lift_def)

lemma advances_current: "others_append en \<Longrightarrow> advances en 1 (current en)"
  by (rule advancesI, drule (2) current_step) auto

lemma advances_events: "others_append en \<Longrightarrow> advances en 1 (all_events en)"
  by (rule advancesI, drule (2) all_events_step) auto

lemma advances_record:
  assumes "others_append en" and "talk_codec en" and "\<forall>e \<in> set evs. talk_event e" and "length evs < 2 ^ 32"
  shows "advances en 1 (record_all en evs base)"
  by (rule advancesI, drule (1) record_any_step [OF assms(1,2) _ _ assms(3,4)]) auto

lemma advances_append:
  assumes "others_append en" and "talk_codec en" and "k \<in> talk_kinds"
  shows "advances en 1 (append_event en l actor k (reference r i) p corr)"
  unfolding append_event_def
  by (rule advances_bind_lift, rule advances_record [OF assms(1,2)])
    (auto intro: built_talk [OF _ assms(3)] simp: event_def)

text \<open>The parts of an interaction.\<close>

lemma advances_identity:
  assumes "others_append en" and "talk_codec en"
  shows "advances en 4 (ensure_identity en s)"
proof -
  have "advances en 1 (ensure_principal en l i k nm s)" for l i k nm s
    unfolding ensure_principal_def
    by (split if_split, intro conjI impI advances_append [OF assms] advances_return)
      (simp add: talk_kinds_def)
  moreover have "advances en 1 (ensure_version en s)" for s
    unfolding ensure_version_def
    by (split if_split, intro conjI impI advances_append [OF assms] advances_return)
      (simp add: talk_kinds_def)
  moreover have "advances en 1 (ensure_relationship en s)" for s
    unfolding ensure_relationship_def
    by (split if_split, intro conjI impI advances_append [OF assms] advances_return)
      (simp add: talk_kinds_def)
  ultimately have "advances en (1 + (1 + (1 + 1))) (ensure_identity en s)"
    unfolding ensure_identity_def by (intro advances_bind)
  then show ?thesis by (rule advances_mono) simp
qed

lemma advances_focus:
  assumes "others_append en" and "talk_codec en"
  shows "advances en 1 (persist_focus_plan en s p)"
proof -
  have "advances en (1 + 0) (act_bind (record_all en es base) (\<lambda>s'. act_return (s', FocusPlan.resolution p)))"
    if "focus_events en p = Inr es" for es base
    using focus_events_talk [OF that]
    by (intro advances_bind advances_record [OF assms] advances_return) auto
  then show ?thesis
    unfolding persist_focus_plan_def by (intro advances_bind_lift) simp
qed

lemma advances_resolutions:
  assumes "others_append en" and "talk_codec en"
  shows "advances en 1 (resolve_new en s events obs)" and "advances en 1 (keep_resolution en s obs rs)"
  using advances_focus [OF assms] advances_return
  by (auto simp: resolve_new_def keep_resolution_def fail_with_def advances_lift split: option.split)

lemma advances_start:
  assumes "others_append en" and "talk_codec en"
  shows "advances en 1 (start_attempt en obs s a)"
  unfolding start_attempt_def
  by (rule advances_bind_lift, rule advances_record [OF assms])
    (auto simp: talk_kinds_def intro: conversation_talk)

section \<open>The decision\<close>

text \<open>
  The thought behind an answer: the model was shown a context of the ledger \<open>es\<close>, its decision
  passed the checks and the policy, and the batch is what the decision asks for.
\<close>

definition thought_out ::
  "Conversant \<Rightarrow> ExperienceEvent list \<Rightarrow> CurrentState \<Rightarrow> Observation \<Rightarrow> FocusResolution \<Rightarrow> Attempt \<Rightarrow>
   ThoughtContext \<Rightarrow> ThoughtCycle \<Rightarrow> Decision \<Rightarrow> ExperienceEvent list \<Rightarrow> bool"
where
  "thought_out en es s obs rs a ctx cycle d evs \<longleftrightarrow>
     (\<exists>n bundle v d0 pd.
        ctx = build_context_with_recall_and_snapshot (lib en) (context_text en) s obs
          (FocusResolution.focus rs) es (capability_names en) bundle (Some v) \<and>
        think en n ctx = Some (Inr cycle) \<and>
        context_sequence (ThoughtCycle.trace cycle) = ThoughtContext.event_sequence ctx \<and>
        CognitiveTrace.context_hash (ThoughtCycle.trace cycle) = ThoughtContext.snapshot_hash ctx \<and>
        d0 = decision_from_cycle (fresh_id en ''decision'') (clock en ''decision'') (fresh_id en ''intent'') ctx cycle \<and>
        validate_judgment ctx s (evidence_event_ids ctx) d0 (hekate_id en) = Inr () \<and>
        (\<forall>i. Decision.action d0 = Some i \<longrightarrow>
           (\<exists>q. pd = Some q \<and> policy en (hekate_id en) i = Inr q \<and> allowed q)) \<and>
        d = with_proposer en d0 \<and> final_events en s obs rs a d pd = Inr evs)"

lemma context_sequence_of:
  "ThoughtContext.event_sequence (build_context_with_recall_and_snapshot x txt s obs f events names bundle snap) =
     CurrentState.revision s"
  by (simp add: build_context_with_recall_and_snapshot_def Let_def)

lemma reject_fails [simp]: "reject_thought en tr oc why err w \<noteq> (Inr v, w')"
  by (auto simp: reject_thought_def fail_with_def act_bind_Inr)

lemma commit_decision_Inr:
  assumes "commit_decision en tr es base w = (Inr s', w')"
  shows "try_record en es (Some base) (Some tr) w = (Inr (Inr s'), w')"
  using assms
  by (simp only: commit_decision_def act_bind_Inr, elim exE conjE)
    (auto split: sum.splits ProjectionError.splits StorageError.splits)

lemma judge_action_Inr:
  assumes "judge_action en tr d w = (Inr pd, w')"
  shows "w' = w" and "\<forall>i. Decision.action d = Some i \<longrightarrow>
    (\<exists>q. pd = Some q \<and> policy en (hekate_id en) i = Inr q \<and> allowed q)"
  using assms
  by (auto simp: judge_action_def act_bind_Inr res_simps split: option.splits if_splits)

lemma record_thought_Inr:
  assumes "record_thought en obs rs a s ctx cycle w = (Inr res, w')"
  obtains d0 pd d evs s' tr where
    "d0 = decision_from_cycle (fresh_id en ''decision'') (clock en ''decision'') (fresh_id en ''intent'') ctx cycle"
    and "validate_judgment ctx s (evidence_event_ids ctx) d0 (hekate_id en) = Inr ()"
    and "\<forall>i. Decision.action d0 = Some i \<longrightarrow>
      (\<exists>q. pd = Some q \<and> policy en (hekate_id en) i = Inr q \<and> allowed q)"
    and "d = with_proposer en d0" and "final_events en s obs rs a d pd = Inr evs"
    and "try_record en evs (Some (ThoughtContext.event_sequence ctx)) (Some tr) w = (Inr (Inr s'), w')"
    and "InteractionResult.decision res = d" and "InteractionResult.revision res = CurrentState.revision s'"
proof -
  define d0 where "d0 = decision_from_cycle (fresh_id en ''decision'') (clock en ''decision'') (fresh_id en ''intent'') ctx cycle"
  define tr where "tr = trace_for_decision (ThoughtCycle.trace cycle) d0"
  from assms have ok: "validate_judgment ctx s (evidence_event_ids ctx) d0 (hekate_id en) = Inr ()"
    by (auto simp: record_thought_def Let_def d0_def split: sum.splits)
  with assms obtain pd w1 es s' where judged: "judge_action en tr d0 w = (Inr pd, w1)"
    and es: "final_events en s obs rs a (with_proposer en d0) pd = Inr es"
    and com: "commit_decision en tr es (ThoughtContext.event_sequence ctx) w1 = (Inr s', w')"
    and res: "InteractionResult.decision res = with_proposer en d0" "InteractionResult.revision res = CurrentState.revision s'"
    by (auto simp: record_thought_def Let_def d0_def [symmetric] tr_def [symmetric] act_bind_Inr)
  from judge_action_Inr [OF judged] commit_decision_Inr [OF com] show thesis
    using that [OF d0_def ok _ refl es _ res] by metis
qed

lemma ask_model_Inr [simp]: "ask_model en ctx w = (Inr q, w') \<longleftrightarrow> q = think en (fst (fst w)) ctx \<and> w' = w"
  by (auto simp: ask_model_def split: prod.splits)

lemma accept_answer_Inr:
  assumes "accept_answer en obs rs a s ctx answer w = (Inr res, w')"
  obtains cycle after w1 where "answer = Some (Inr cycle)" and "current en w = (Inr after, w1)"
    and "CurrentState.revision after = ThoughtContext.event_sequence ctx"
    and "context_sequence (ThoughtCycle.trace cycle) = ThoughtContext.event_sequence ctx"
    and "CognitiveTrace.context_hash (ThoughtCycle.trace cycle) = ThoughtContext.snapshot_hash ctx"
    and "record_thought en obs rs a s ctx cycle w1 = (Inr res, w')"
proof -
  from assms obtain cycle where "answer = Some (Inr cycle)"
    by (auto simp: accept_answer_def fail_with_def split: option.splits sum.splits)
  with assms that show thesis
    by (auto simp: accept_answer_def act_bind_Inr split: if_splits)
qed

lemma deliberate_Inr:
  assumes "think_through en obs rs a s ctx w = (Inr res, w')"
  obtains before w1 where "current en w = (Inr before, w1)"
    and "CurrentState.revision before = ThoughtContext.event_sequence ctx"
    and "accept_answer en obs rs a s ctx (think en (fst (fst w1)) ctx) w1 = (Inr res, w')"
  using assms by (auto simp: think_through_def act_bind_Inr fail_with_def split: if_splits)

text \<open>The thought is of the ledger that the batch is committed to.\<close>

lemma think_and_record_commits:
  assumes rely: "others_append en" and codec: "talk_codec en" and at: "ledger_at en w es s"
    and n: "fst w + 8 \<le> 2 ^ 20"
    and run: "think_and_record en obs rs a s bundle snap (w, log) = (Inr res, (w', log'))"
  shows "\<exists>ctx cycle evs s'. thought_out en es s obs rs a ctx cycle (InteractionResult.decision res) evs \<and>
    apply_all (lib en) s evs = Inr s' \<and> ledger_at en w' (es @ evs) s' \<and>
    InteractionResult.revision res = CurrentState.revision s'"
proof -
  from run obtain events w1 v where ev: "all_events en (w, log) = (Inr events, w1)"
    and del: "think_through en obs rs a s (build_context_with_recall_and_snapshot (lib en) (context_text en) s obs
       (FocusResolution.focus rs) events (capability_names en) bundle (Some v)) w1 = (Inr res, (w', log'))"
    by (auto simp: think_and_record_def act_bind_Inr)
  define ctx where "ctx = build_context_with_recall_and_snapshot (lib en) (context_text en) s obs
       (FocusResolution.focus rs) events (capability_names en) bundle (Some v)"
  have seq: "ThoughtContext.event_sequence ctx = CurrentState.revision s"
    by (simp add: ctx_def context_sequence_of)
  obtain before w2 where before: "current en w1 = (Inr before, w2)" "CurrentState.revision before = CurrentState.revision s"
    and acc: "accept_answer en obs rs a s ctx (think en (fst (fst w2)) ctx) w2 = (Inr res, (w', log'))"
    using deliberate_Inr [OF del [folded ctx_def]] seq by metis
  obtain cycle after w3 where cycle: "think en (fst (fst w2)) ctx = Some (Inr cycle)"
    and after: "current en w2 = (Inr after, w3)"
    and shown: "context_sequence (ThoughtCycle.trace cycle) = ThoughtContext.event_sequence ctx"
      "CognitiveTrace.context_hash (ThoughtCycle.trace cycle) = ThoughtContext.snapshot_hash ctx"
    and rec: "record_thought en obs rs a s ctx cycle w3 = (Inr res, (w', log'))"
    by (rule accept_answer_Inr [OF acc])
  obtain d0 pd d evs s' tr where
    d0: "d0 = decision_from_cycle (fresh_id en ''decision'') (clock en ''decision'') (fresh_id en ''intent'') ctx cycle"
    and ok: "validate_judgment ctx s (evidence_event_ids ctx) d0 (hekate_id en) = Inr ()"
    and pd: "\<forall>i. Decision.action d0 = Some i \<longrightarrow>
      (\<exists>q. pd = Some q \<and> policy en (hekate_id en) i = Inr q \<and> allowed q)"
    and d: "d = with_proposer en d0" and evs: "final_events en s obs rs a d pd = Inr evs"
    and com: "try_record en evs (Some (CurrentState.revision s)) (Some tr) w3 = (Inr (Inr s'), (w', log'))"
    and res: "InteractionResult.decision res = d" "InteractionResult.revision res = CurrentState.revision s'"
    by (rule record_thought_Inr [OF rec, unfolded seq])
  obtain v1 l1 v2 l2 v3 l3 where ws: "w1 = (v1, l1)" "w2 = (v2, l2)" "w3 = (v3, l3)"
    by (metis prod.exhaust)
  from all_events_step [OF rely at ev [unfolded ws]] obtain s1 where
    1: "prefix es events" "ledger_at en v1 events s1" "fst v1 = Suc (fst w)" by blast
  from current_step [OF rely 1(2) before(1) [unfolded ws]] obtain es2 where
    2: "prefix events es2" "ledger_at en v2 es2 before" "fst v2 = Suc (fst v1)" by blast
  from current_step [OF rely 2(2) after [unfolded ws]] obtain es3 where
    3: "prefix es2 es3" "ledger_at en v3 es3 after" "fst v3 = Suc (fst v2)" by blast
  have step: "in_step (lib en) s es" "in_step (lib en) before es2"
    using ledger_at_step at 2(2) by blast+
  have "prefix es es2" using 1(1) 2(1) by (rule prefix_order.trans)
  with in_step_unique(1) [OF step this before(2)] 1(1) 2(1) have same: "events = es"
    by (metis prefix_order.antisym)
  have pre: "prefix es es3" using \<open>prefix es es2\<close> 3(1) by (rule prefix_order.trans)
  have coded: "\<forall>e \<in> set evs. codec_reads_event (lib en) (store_codec en) e" "codec_reads_state (store_codec en) s'"
    using final_events_talk(1) [OF evs] talk_codecD [OF codec] codec by (auto simp: talk_codec_def)
  have "length evs < 2 ^ 32" using final_events_talk(2) [OF evs] by simp
  moreover have "fst v3 < 2 ^ 20" using 1(3) 2(3) 3(3) n by simp
  ultimately have fin: "apply_all (lib en) s evs = Inr s'" "ledger_at en w' (es @ evs) s'"
    using try_record_step [OF rely 3(2) step(1) pre com [unfolded ws] coded] by simp_all
  have "thought_out en es s obs rs a ctx cycle d evs"
    unfolding thought_out_def using cycle shown d0 ok pd d evs ctx_def [unfolded same] by blast
  with fin res show ?thesis by blast
qed

section \<open>Processing an observation\<close>

text \<open>The question that is put instead, and the batch that records it.\<close>

definition asked_back ::
  "Conversant \<Rightarrow> ExperienceEvent list \<Rightarrow> Observation \<Rightarrow> FocusResolution \<Rightarrow> Decision \<Rightarrow>
   ExperienceEvent list \<Rightarrow> bool"
where
  "asked_back en es obs rs d evs \<longleftrightarrow>
     (\<exists>q snap e1 e2. FocusResolution.outcome rs = Clarification \<and> FocusResolution.clarification rs = Some q \<and>
        d = clarification_decision en obs rs es snap q \<and>
        decided_event en (fresh_id en ''DecisionCreated'') d (Observation.id obs) = Inr e1 \<and>
        response_event en d q (Observation.id obs) (ExperienceEvent.event_id e1) = Inr e2 \<and> evs = [e1, e2])"

lemma produce_clarification_commits:
  assumes rely: "others_append en" and codec: "talk_codec en" and at: "ledger_at en w es s1"
    and base: "in_step (lib en) s esb" and pre: "prefix esb es" and n: "fst w + 8 \<le> 2 ^ 20"
    and rs: "FocusResolution.outcome rs = Clarification"
    and run: "produce_clarification en obs s rs (w, log) = (Inr res, (w', log'))"
  shows "\<exists>evs s'. asked_back en es obs rs (InteractionResult.decision res) evs \<and> es = esb \<and>
    apply_all (lib en) s evs = Inr s' \<and> ledger_at en w' (es @ evs) s' \<and>
    InteractionResult.revision res = CurrentState.revision s'"
proof -
  from run obtain q events w1 snap e1 e2 s' where q: "FocusResolution.clarification rs = Some q"
    and ev: "all_events en (w, log) = (Inr events, w1)"
    and e1: "decided_event en (fresh_id en ''DecisionCreated'') (clarification_decision en obs rs events snap q)
      (Observation.id obs) = Inr e1"
    and e2: "response_event en (clarification_decision en obs rs events snap q) q (Observation.id obs)
      (ExperienceEvent.event_id e1) = Inr e2"
    and rec: "record_all en [e1, e2] (Some (CurrentState.revision s)) w1 = (Inr s', (w', log'))"
    and res: "InteractionResult.decision res = clarification_decision en obs rs events snap q"
      "InteractionResult.revision res = CurrentState.revision s'"
    by (auto simp: produce_clarification_def act_bind_Inr Let_def fail_with_def split: option.splits)
  obtain v1 l1 where w1: "w1 = (v1, l1)" by (cases w1)
  from all_events_step [OF rely at ev [unfolded w1]] obtain s2 where
    1: "prefix es events" "ledger_at en v1 events s2" "fst v1 = Suc (fst w)" by blast
  have pre1: "prefix esb events" using pre 1(1) by (rule prefix_order.trans)
  have "codec_reads_event (lib en) (store_codec en) e" if "e \<in> {e1, e2}" for e
    using that decided_talk [OF e1] response_talk [OF e2] talk_codecD [OF codec] by auto
  then have fin: "events = esb \<and> apply_all (lib en) s [e1, e2] = Inr s' \<and> ledger_at en w' (esb @ [e1, e2]) s'"
    using record_all_step [OF rely 1(2) base pre1 rec [unfolded w1]] codec 1(3) n
    by (simp add: talk_codec_def del: apply_all.simps)
  with 1(1) pre have same: "es = esb" "events = es" by (auto intro: prefix_order.antisym)
  have "asked_back en es obs rs (InteractionResult.decision res) [e1, e2]"
    unfolding asked_back_def
    using rs q res(1) [unfolded same(2)] e1 [folded res(1)] e2 [folded res(1)] by blast
  with fin same res show ?thesis by blast
qed

text \<open>How an answer came about: by a question, or by a thought of the ledger it is committed to.\<close>

definition answered ::
  "Conversant \<Rightarrow> ExperienceEvent list \<Rightarrow> CurrentState \<Rightarrow> Observation \<Rightarrow> Decision \<Rightarrow> ExperienceEvent list \<Rightarrow> bool"
where
  "answered en es s obs d evs \<longleftrightarrow>
     (\<exists>rs. asked_back en es obs rs d evs \<or> (\<exists>a ctx cycle. thought_out en es s obs rs a ctx cycle d evs))"

lemma process_observation_commits:
  assumes rely: "others_append en" and codec: "talk_codec en" and at: "ledger_at en w es s1"
    and base: "in_step (lib en) s esb" and pre: "prefix esb es" and n: "fst w + 16 \<le> 2 ^ 20"
    and run: "process_observation en obs src s rs (w, log) = (Inr res, (w', log'))"
  shows "\<exists>es2 s2 evs s'. prefix es es2 \<and> replay (lib en) es2 = Inr s2 \<and>
    answered en es2 s2 obs (InteractionResult.decision res) evs \<and>
    ledger_at en w' (es2 @ evs) s' \<and> InteractionResult.revision res = CurrentState.revision s'"
proof (cases "FocusResolution.outcome rs = Clarification")
  case True
  with run have "produce_clarification en obs s rs (w, log) = (Inr res, (w', log'))"
    by (auto simp: process_observation_def during_def split: prod.splits sum.splits)
  from produce_clarification_commits [OF rely codec at base pre _ True this] n obtain evs s' where
    "asked_back en es obs rs (InteractionResult.decision res) evs" "es = esb"
    "ledger_at en w' (es @ evs) s'" "InteractionResult.revision res = CurrentState.revision s'" by auto
  moreover from this base have "replay (lib en) es = Inr s" by (simp add: in_step_def)
  ultimately show ?thesis unfolding answered_def by blast
next
  case False
  have during: "during oa m v = (Inr u, v') \<longleftrightarrow> m v = (Inr u, v')" for oa v u v' and m :: "'b engine_action"
    by (auto simp: during_def split: prod.splits sum.splits)
  from run False obtain events w1 bdl snap rid s2 w2 where
    ev: "all_events en (w, log) = (Inr events, w1)"
    and start: "start_attempt en obs s (new_attempt en rid) w1 = (Inr s2, w2)"
    and think: "think_and_record en obs rs (new_attempt en rid) s2 bdl snap w2 = (Inr res, (w', log'))"
    by (auto simp: process_observation_def act_bind_Inr during Let_def fail_with_def split: option.splits)
  obtain v1 l1 v2 l2 where ws: "w1 = (v1, l1)" "w2 = (v2, l2)" by (metis prod.exhaust)
  from all_events_step [OF rely at ev [unfolded ws]] obtain s3 where
    1: "prefix es events" "ledger_at en v1 events s3" "fst v1 = Suc (fst w)" by blast
  from start [unfolded ws] obtain e where conv: "conversation_event en ''AttemptStarted'' (user_id en) AttemptStarted
      (reference EntityKind.Attempt (Attempt.id (new_attempt en rid))) (AttemptPayload (new_attempt en rid))
      (Observation.id obs) None = Inr e"
    and rec: "record_all en [e] (Some (CurrentState.revision s)) (v1, l1) = (Inr s2, (v2, l2))"
    by (auto simp: start_attempt_def act_bind_Inr)
  have e: "talk_event e" using conversation_talk [OF conv] by (simp add: talk_kinds_def)
  from record_any_step [OF rely codec 1(2) rec] e 1(3) n obtain es2 where
    2: "prefix events es2" "ledger_at en v2 es2 s2" "fst v2 = Suc (fst v1)" by auto
  from think_and_record_commits [OF rely codec 2(2) _ think [unfolded ws]] 2(3) 1(3) n obtain ctx cycle evs s' where
    "thought_out en es2 s2 obs rs (new_attempt en rid) ctx cycle (InteractionResult.decision res) evs"
    "ledger_at en w' (es2 @ evs) s'" "InteractionResult.revision res = CurrentState.revision s'" by auto
  moreover have "prefix es es2" using 1(1) 2(1) by (rule prefix_order.trans)
  moreover have "replay (lib en) es2 = Inr s2" using 2(2) by (simp add: ledger_at_def db_holds_def)
  ultimately show ?thesis unfolding answered_def by blast
qed

section \<open>Handling an observation\<close>

text \<open>
  A message seen before is answered again by the decision the ledger records for it; a new one by
  a decision that is committed to the ledger it was made of.
\<close>

definition answered_before ::
  "Conversant \<Rightarrow> ExperienceEvent list \<Rightarrow> Observation \<Rightarrow> InteractionResult \<Rightarrow> bool"
where
  "answered_before en es0 obs res \<longleftrightarrow>
     (\<exists>es s existing events s' known. prefix es0 es \<and> replay (lib en) es = Inr s \<and>
        seen_before obs s = Some existing \<and> prefix es events \<and>
        recorded_decision en events existing = Inr (Some (InteractionResult.decision res)) \<and>
        res = earlier_result s' existing known (InteractionResult.decision res))"

text \<open>The message itself, or the one of the same source that was recorded earlier.\<close>

definition same_message :: "Observation \<Rightarrow> Observation \<Rightarrow> bool" where
  "same_message obs seen \<longleftrightarrow> seen = obs \<or> (\<exists>s. seen_before obs s = Some seen)"

definition answered_now ::
  "Conversant \<Rightarrow> ExperienceEvent list \<Rightarrow> Observation \<Rightarrow> World \<Rightarrow> InteractionResult \<Rightarrow> bool"
where
  "answered_now en es0 obs w res \<longleftrightarrow>
     (\<exists>es s seen evs s'. prefix es0 es \<and> replay (lib en) es = Inr s \<and> same_message obs seen \<and>
        answered en es s seen (InteractionResult.decision res) evs \<and>
        ledger_at en w (es @ evs) s' \<and> InteractionResult.revision res = CurrentState.revision s')"

lemma during_Inr [simp]: "during oa m w = (Inr u, w') \<longleftrightarrow> m w = (Inr u, w')"
  by (auto simp: during_def split: prod.splits sum.splits)

lemma persist_focus_step:
  assumes rely: "others_append en" and codec: "talk_codec en" and at: "ledger_at en w es s1"
    and n: "fst w < 2 ^ 20" and run: "persist_focus_plan en s p (w, log) = (Inr (s', rs), (w', log'))"
  shows "\<exists>es'. prefix es es' \<and> ledger_at en w' es' s' \<and> fst w' = Suc (fst w)"
proof -
  from run obtain evs where evs: "focus_events en p = Inr evs"
    and rec: "record_all en evs (Some (CurrentState.revision s)) (w, log) = (Inr s', (w', log'))"
    by (auto simp: persist_focus_plan_def act_bind_Inr)
  have "length evs < 2 ^ 32" using focus_events_talk(2) [OF evs] by simp
  with record_any_step [OF rely codec at rec] focus_events_talk(1) [OF evs] n show ?thesis by blast
qed

lemma earlier_result_decision [simp]: "InteractionResult.decision (earlier_result s existing known d) = d"
  by (simp add: earlier_result_def Let_def)

lemma handle_again_answers:
  assumes rely: "others_append en" and codec: "talk_codec en" and at: "ledger_at en w es s"
    and seen: "seen_before obs s = Some existing" and n: "fst w + 32 \<le> 2 ^ 20"
    and run: "handle_again en s existing (w, log) = (Inr res, (w', log'))"
  shows "answered_before en es obs res \<or> answered_now en es obs w' res"
proof -
  from run obtain events w1 known od where ev: "all_events en (w, log) = (Inr events, w1)"
    and od: "recorded_decision en events existing = Inr od"
    and rest: "(case od of
       Some d \<Rightarrow>
         act_bind (during None (case known of
             None \<Rightarrow> act_return s
           | Some rs \<Rightarrow> act_bind (keep_resolution en s existing rs) (\<lambda>p. act_return (fst p)))) (\<lambda>s'.
         act_return (earlier_result s' existing known d))
     | None \<Rightarrow>
         act_bind (during None (act_lift (ok_or
           (EngineError.InvalidObservation ''duplicate external message is missing its source event'')
           (find (is_source_of existing) events)))) (\<lambda>e.
         act_bind (during None (case known of
             Some rs \<Rightarrow> keep_resolution en s existing rs
           | None \<Rightarrow> resolve_new en s events existing)) (\<lambda>(s', rs).
         process_observation en existing (ExperienceEvent.event_id e) s' rs))) w1 = (Inr res, (w', log'))"
    by (auto simp: handle_again_def act_bind_Inr)
  obtain v1 l1 where w1: "w1 = (v1, l1)" by (cases w1)
  from all_events_step [OF rely at ev [unfolded w1]] obtain s1 where
    1: "prefix es events" "ledger_at en v1 events s1" "fst v1 = Suc (fst w)" by blast
  show ?thesis
  proof (cases od)
    case (Some d)
    from rest [unfolded Some] obtain s' where "res = earlier_result s' existing known d"
      by (auto simp: act_bind_Inr)
    moreover from this od [unfolded Some] have
      "recorded_decision en events existing = Inr (Some (InteractionResult.decision res))"
      by (simp add: earlier_result_def Let_def)
    moreover have "replay (lib en) es = Inr s" using at by (simp add: ledger_at_def db_holds_def)
    ultimately have "answered_before en es obs res"
      unfolding answered_before_def using seen 1(1)
      by (metis earlier_result_decision prefix_order.refl)
    then show ?thesis ..
  next
    case None
    from rest [unfolded None] obtain e :: ExperienceEvent and s' rs w2 where
      got: "(case known of Some rs \<Rightarrow> keep_resolution en s existing rs
           | None \<Rightarrow> resolve_new en s events existing) w1 = (Inr (s', rs), w2)"
      and proc: "process_observation en existing (ExperienceEvent.event_id e) s' rs w2 = (Inr res, (w', log'))"
      by (auto simp: act_bind_Inr)
    obtain v2 l2 where w2: "w2 = (v2, l2)" by (cases w2)
    from got [unfolded w1 w2] consider (kept) "s' = s" "w2 = w1" | (new) p where
      "persist_focus_plan en s p (v1, l1) = (Inr (s', rs), (v2, l2))"
      by (auto simp: keep_resolution_def resolve_new_def fail_with_def w1 w2 split: option.splits if_splits)
    then obtain es2 s2 esb where 2: "prefix events es2" "ledger_at en v2 es2 s2" "fst v2 \<le> Suc (fst v1)"
      and base: "in_step (lib en) s' esb" "prefix esb es2"
    proof cases
      case kept
      then show thesis
        using that [of events s1 es] 1 ledger_at_step [OF at] w1 w2 by simp
    next
      case new
      from persist_focus_step [OF rely codec 1(2) _ new] 1(3) n obtain es2 where
        "prefix events es2" "ledger_at en v2 es2 s'" "fst v2 = Suc (fst v1)" by auto
      with that [of es2 s' es2] ledger_at_step [of en v2 es2 s'] show thesis by simp
    qed
    from process_observation_commits [OF rely codec 2(2) base _ proc [unfolded w2]] 2(3) 1(3) n
    obtain es3 s3 evs s4 where 3: "prefix es2 es3" "replay (lib en) es3 = Inr s3"
      "answered en es3 s3 existing (InteractionResult.decision res) evs" "ledger_at en w' (es3 @ evs) s4"
      "InteractionResult.revision res = CurrentState.revision s4" by auto
    have "prefix es es3" using 1(1) 2(1) 3(1) by (blast intro: prefix_order.trans)
    moreover have "same_message obs existing" using seen by (auto simp: same_message_def)
    ultimately show ?thesis using 3 unfolding answered_now_def by blast
  qed
qed

lemma handle_first_answers:
  assumes rely: "others_append en" and codec: "talk_codec en" and at: "ledger_at en w es s0"
    and n: "fst w + 64 \<le> 2 ^ 20"
    and run: "handle_first en s obs (w, log) = (Inr res, (w', log'))"
  shows "answered_now en es obs w' res"
proof -
  from run obtain u1 w1 and e :: ExperienceEvent and s1 w2 events w3 s2 rs w4 where
    ident: "ensure_identity en s (w, log) = (Inr u1, w1)"
    and e: "conversation_event en ''ObservationRecorded'' (user_id en)
       ObservationRecorded (reference EntityKind.Observation (Observation.id obs))
       (ObservationPayload obs) (Observation.id obs) None = Inr e"
    and rec: "record_all en [e] None w1 = (Inr s1, w2)"
    and ev: "all_events en w2 = (Inr events, w3)"
    and res: "resolve_new en s1 events obs w3 = (Inr (s2, rs), w4)"
    and proc: "process_observation en obs (ExperienceEvent.event_id e) s2 rs w4 = (Inr res, (w', log'))"
    by (auto simp: handle_first_def act_bind_Inr)
  obtain v1 l1 v2 l2 v3 l3 v4 l4 where ws: "w1 = (v1, l1)" "w2 = (v2, l2)" "w3 = (v3, l3)" "w4 = (v4, l4)"
    by (metis prod.exhaust)
  from advancesD [OF advances_identity [OF rely codec] at _ ident [unfolded ws]] n obtain es1 t1 where
    1: "prefix es es1" "ledger_at en v1 es1 t1" "fst v1 \<le> fst w + 4" by auto
  have "talk_event e" using conversation_talk [OF e] by (simp add: talk_kinds_def)
  with record_any_step [OF rely codec 1(2) rec [unfolded ws]] 1(3) n obtain es2 where
    2: "prefix es1 es2" "ledger_at en v2 es2 s1" "fst v2 = Suc (fst v1)" by auto
  from all_events_step [OF rely 2(2) ev [unfolded ws]] obtain t3 where
    3: "prefix es2 events" "ledger_at en v3 events t3" "fst v3 = Suc (fst v2)" by blast
  from res obtain p where "persist_focus_plan en s1 p (v3, l3) = (Inr (s2, rs), (v4, l4))"
    by (auto simp: resolve_new_def fail_with_def ws split: option.splits)
  from persist_focus_step [OF rely codec 3(2) _ this] 1(3) 2(3) 3(3) n obtain es4 where
    4: "prefix events es4" "ledger_at en v4 es4 s2" "fst v4 = Suc (fst v3)" by auto
  from process_observation_commits [OF rely codec 4(2) ledger_at_step [OF 4(2)] _ _ proc [unfolded ws]]
    1(3) 2(3) 3(3) 4(3) n obtain es5 s5 evs s6 where 5: "prefix es4 es5" "replay (lib en) es5 = Inr s5"
      "answered en es5 s5 obs (InteractionResult.decision res) evs" "ledger_at en w' (es5 @ evs) s6"
      "InteractionResult.revision res = CurrentState.revision s6" by auto
  have "prefix es es5" using 1(1) 2(1) 3(1) 4(1) 5(1) by (blast intro: prefix_order.trans)
  moreover have "same_message obs obs" by (simp add: same_message_def)
  ultimately show ?thesis using 5 unfolding answered_now_def by blast
qed

section \<open>The lease around it\<close>

lemma lease_keeps_ledger:
  "db_holds x c (db\<lparr>lease_row := q\<rparr>) es s \<longleftrightarrow> db_holds x c db es s"
  by (rule db_holds_cong) simp_all

lemma acquire_keeps_ledger:
  "acquire_foreground_lease now db owner ttl = (db', got) \<Longrightarrow> db_holds x c db' es s \<longleftrightarrow> db_holds x c db es s"
  by (auto simp: acquire_foreground_lease_def lease_keeps_ledger split: option.splits if_splits)

lemma release_keeps_ledger:
  "db_holds x c (release_foreground_lease db owner) es s \<longleftrightarrow> db_holds x c db es s"
  by (auto simp: release_foreground_lease_def lease_keeps_ledger split: option.splits)

lemma take_lease_step:
  assumes rely: "others_append en" and at: "ledger_at en w es s"
    and run: "take_lease en (w, log) = (Inr got, (w', log'))"
  shows "\<exists>es' s'. prefix es es' \<and> ledger_at en w' es' s' \<and> fst w' = Suc (fst w)"
proof -
  obtain n db where w: "w = (n, db)" by (cases w)
  from others_step [OF rely at [unfolded w]] obtain es' s' where
    es': "prefix es es'" "db_holds (lib en) (store_codec en) (others en n db) es' s'"
      "length es' + 2 ^ 32 < 2 ^ 62 + Suc n * 2 ^ 33" by blast
  from run obtain db' where
    acq: "acquire_foreground_lease (lease_clock en n) (others en n db) (lease_owner en) FOREGROUND_LEASE_TTL = (db', got)"
    and w': "w' = (Suc n, db')"
    by (auto simp: take_lease_def on_ledger_def w split: prod.splits)
  from es' have "ledger_at en w' es' s'"
    by (simp add: ledger_at_def w' acquire_keeps_ledger [OF acq])
  with es'(1) w w' show ?thesis by auto
qed

lemma drop_lease_step:
  assumes rely: "others_append en" and at: "ledger_at en w es s"
  shows "\<exists>es' s'. prefix es es' \<and> ledger_at en (fst (best_effort (drop_lease en) (w, log))) es' s'"
proof -
  obtain n db where w: "w = (n, db)" by (cases w)
  from others_step [OF rely at [unfolded w]] obtain es' s' where
    es': "prefix es es'" "db_holds (lib en) (store_codec en) (others en n db) es' s'"
      "length es' + 2 ^ 32 < 2 ^ 62 + Suc n * 2 ^ 33" by blast
  then have "ledger_at en (fst (best_effort (drop_lease en) (w, log))) es' s'"
    by (simp add: w best_effort_def drop_lease_def on_ledger_def ledger_at_def release_keeps_ledger)
  with es'(1) show ?thesis by blast
qed

lemma handle_leased_answers:
  assumes rely: "others_append en" and codec: "talk_codec en" and at: "ledger_at en w es s0"
    and n: "fst w + 80 \<le> 2 ^ 20" and run: "handle_leased en obs (w, log) = (Inr res, (w', log'))"
  shows "\<exists>es1. prefix es es1 \<and> (answered_before en es1 obs res \<or> answered_now en es1 obs w' res)"
proof -
  from run obtain s w1 where cur: "current en (w, log) = (Inr s, w1)"
    and rest: "(case seen_before obs s of Some existing \<Rightarrow> handle_again en s existing
      | None \<Rightarrow> handle_first en s obs) w1 = (Inr res, (w', log'))"
    by (auto simp: handle_leased_def act_bind_Inr)
  obtain v1 l1 where w1: "w1 = (v1, l1)" by (cases w1)
  from current_step [OF rely at cur [unfolded w1]] obtain es1 where
    1: "prefix es es1" "ledger_at en v1 es1 s" "fst v1 = Suc (fst w)" by blast
  have "answered_before en es1 obs res \<or> answered_now en es1 obs w' res"
  proof (cases "seen_before obs s")
    case None
    from handle_first_answers [OF rely codec 1(2)] rest [unfolded None w1] 1(3) n show ?thesis by simp
  next
    case (Some existing)
    from handle_again_answers [OF rely codec 1(2) Some] rest [unfolded Some w1] 1(3) n show ?thesis by simp
  qed
  with 1(1) show ?thesis by blast
qed

lemma close_interaction_Inr:
  "close_interaction en p = (Inr res, w') \<longleftrightarrow> fst p = Inr res \<and> w' = best_effort (drop_lease en) (snd p)"
  by (auto simp: close_interaction_def split: prod.splits sum.splits EngineError.splits)

text \<open>A result of \<open>handle\<close>: the lease was taken, the answer given, the lease dropped.\<close>

lemma handle_Inr:
  assumes "handle en obs w = (Inr res, w')"
  shows "\<exists>w1 w2. take_lease en w = (Inr True, w1) \<and> handle_leased en obs w1 = (Inr res, w2) \<and>
    w' = best_effort (drop_lease en) w2"
proof -
  from assms obtain w1 where "take_lease en w = (Inr True, w1)"
    and "close_interaction en (handle_leased en obs w1) = (Inr res, w')"
    by (auto simp: handle_def act_bind_Inr fail_with_def split: if_splits)
  then show ?thesis unfolding close_interaction_Inr by (metis prod.collapse)
qed

lemma answered_before_earlier:
  "answered_before en es1 obs res \<Longrightarrow> prefix es es1 \<Longrightarrow> answered_before en es obs res"
  unfolding answered_before_def by (blast intro: prefix_order.trans)

lemma answered_now_earlier:
  "answered_now en es1 obs w res \<Longrightarrow> prefix es es1 \<Longrightarrow> answered_now en es obs w res"
  unfolding answered_now_def by (blast intro: prefix_order.trans)

end
