(* ===== verification/ConversationScenario.thy ===== *)
theory ConversationScenario
  imports InteractionLedger EngineScenario
begin

text \<open>
  A concrete conversation: a message that could mean more than one thing was recorded, its focus
  was resolved to a question, and the process stopped there. The message comes in again, and the
  question is put. Nobody else touches the database.
\<close>

section \<open>Data\<close>

definition said :: Observation where
  "said = \<lparr>Observation.id = from_uuid 41, actor_id = from_uuid 1, content = ''continue'',
     source_type = ''cli'', source_ref = None, thread_id = None, message_id = Some ''m'',
     received_at = ''t''\<rparr>"

definition unclear :: FocusResolution where
  "unclear = \<lparr>FocusResolution.observation_id = from_uuid 41, outcome = Clarification, focus = unattached,
     as_of_revision = 1, basis = AmbiguousCandidates, candidates = [], clarification = Some ''Which?''\<rparr>"

definition parlour_event ::
  "Uuid \<Rightarrow> Uuid \<Rightarrow> EventKind \<Rightarrow> EntityKind \<Rightarrow> Uuid \<Rightarrow> string \<Rightarrow> EventId option \<Rightarrow> ExperienceEvent"
where
  "parlour_event i actor k r u tag caus = desk_event i actor k r u tag 41 caus"

definition parlour_ledger :: "ExperienceEvent list" where
  "parlour_ledger = [parlour_event 51 1 ObservationRecorded EntityKind.Observation 41 ''said'' None,
     parlour_event 52 1 FocusResolved EntityKind.Observation 41 ''unclear'' None]"

definition which_one :: Decision where
  "which_one = (respond (from_uuid 61) ''t'' ''Which?'')
     \<lparr>Decision.kind := RequestClarification, Decision.target_principal_id := Some (from_uuid 1),
      Decision.request := ''continue'', Decision.context_hash := zero_hash, Decision.confidence := 100,
      Decision.reasons := [''continuity requires confirmation: AmbiguousCandidates''],
      Decision.evidence_refs := [from_uuid 51, from_uuid 52],
      Decision.reconsideration_conditions := [''The user identifies a task or explicitly starts new work''],
      Decision.unresolved_questions := [''Which?'']\<rparr>"

definition question_record :: ResponseRecord where
  "question_record = \<lparr>ResponseRecord.decision_id = from_uuid 61, content = ''Which?'', created_at = ''t''\<rparr>"

definition question_events :: "ExperienceEvent list" where
  "question_events = [parlour_event 53 2 DecisionCreated EntityKind.Decision 61 ''question'' None,
     parlour_event 54 2 ResponseProduced EntityKind.Decision 61 ''words'' (Some (from_uuid 53))]"

definition unclear_state :: CurrentState where
  "unclear_state = default_state\<lparr>CurrentState.revision := 2, observations := [(from_uuid 41, said)],
     focus_resolutions := [(from_uuid 41, unclear)], applied_events := [from_uuid 51, from_uuid 52]\<rparr>"

definition asked_state :: CurrentState where
  "asked_state = unclear_state\<lparr>CurrentState.revision := 4, decisions := [(from_uuid 61, which_one)],
     applied_events := applied_events unclear_state @ [from_uuid 53, from_uuid 54]\<rparr>"

section \<open>The parlour\<close>

definition parlour_ext :: ext where
  "parlour_ext = demo\<lparr>de_observation := tagged [(''said'', said)],
     de_focus_resolution := tagged [(''unclear'', unclear)],
     de_decision := tagged [(''question'', which_one)]\<rparr>"

definition parlour_kinds :: "(EventKind \<times> string) list" where
  "parlour_kinds = [(PrincipalCreated, ''a''), (IdentityVersionCreated, ''b''), (RelationshipCreated, ''c''),
     (ObservationRecorded, ''d''), (GoalCreated, ''e''), (TaskCreated, ''f''), (RunStarted, ''g''),
     (FocusResolved, ''h''), (AttemptStarted, ''i''), (DecisionCreated, ''j''), (PositionEstablished, ''k''),
     (PositionMaintained, ''l''), (PositionRevised, ''m''), (PositionRetracted, ''n''), (ConflictOpened, ''o''),
     (ConflictUpdated, ''p''), (ConflictResolved, ''q''), (ActionIntentCreated, ''r''), (OperationPlanned, ''s''),
     (ApprovalRequested, ''t''), (ResponseProduced, ''u''), (WorkingStateUpdated, ''v''), (RunCompleted, ''w''),
     (RunSuspended, ''x''), (AttemptCompleted, ''y'')]"

definition parlour_entities :: "(EntityKind \<times> string) list" where
  "parlour_entities = [(EntityKind.Principal, ''a''), (EntityKind.IdentityVersion, ''b''),
     (EntityKind.Relationship, ''c''), (EntityKind.Observation, ''d''), (EntityKind.Goal, ''e''),
     (EntityKind.Task, ''f''), (EntityKind.Run, ''g''), (EntityKind.WorkingState, ''h''),
     (EntityKind.Decision, ''i''), (EntityKind.Position, ''j''), (EntityKind.Conflict, ''k''),
     (EntityKind.Commitment, ''l''), (EntityKind.ActionIntent, ''m''), (EntityKind.Operation, ''n''),
     (EntityKind.Approval, ''o''), (EntityKind.Receipt, ''p''), (EntityKind.Verification, ''q''),
     (EntityKind.MemoryCandidate, ''r''), (EntityKind.Memory, ''s''), (EntityKind.Attempt, ''t''),
     (EntityKind.Artifact, ''u''), (EntityKind.SleepRun, ''v''), (EntityKind.IntegrationCandidate, ''w''),
     (EntityKind.CompletionCriterion, ''x''), (EntityKind.CompletionClaim, ''y''), (EntityKind.Initiative, ''z'')]"

definition parlour_states :: "(CurrentState \<times> string) list" where
  "parlour_states = [(unclear_state, ''a''), (asked_state, ''b'')]"

definition parlour_codec :: codec where
  "parlour_codec = table_codec parlour_kinds parlour_entities parlour_states"

definition parlour_uuids :: "(string \<times> Uuid) list" where
  "parlour_uuids = [(''decision'', 61), (''DecisionCreated'', 53), (''ResponseProduced'', 54)]"

definition parlour_payloads :: "(Recorded \<times> string) list" where
  "parlour_payloads = [(DecisionPayload which_one, ''question''), (ResponsePayload question_record, ''words'')]"

text \<open>Nothing in the parlour is printed, so every snapshot has the size 0.\<close>

definition mute :: printing where
  "mute = \<lparr>print_lib = parlour_ext, payload_text = \<lambda>p. Inr [], json_text = \<lambda>v. Inr [],
     kind_text = \<lambda>k. Inr [], items_text = \<lambda>its. Inr [], snapshot_text = \<lambda>s. Inr [],
     hash_text = \<lambda>h. Inr [], read_uuid = \<lambda>t. Inl ''none'', read_json = \<lambda>t. Inl ''none'',
     profile_text = \<lambda>p. Inr []\<rparr>"

definition parlour :: Conversant where
  "parlour = \<lparr>lib = parlour_ext, store_codec = parlour_codec, others = \<lambda>n db. db, lease_clock = \<lambda>n. 0,
     faults = \<lambda>n st. None,
     to_value = (\<lambda>p. case map_of parlour_payloads p of None \<Rightarrow> Inl ''unknown'' | Some t \<Rightarrow> Inr (JNumber t)),
     policy = desk_policy, capability_names = [''git''],
     execute = \<lambda>n cap input. Inr \<lparr>CapabilityResult.data = JNull, evidence = [], verified = True\<rparr>,
     hekate_id = from_uuid 2, user_id = from_uuid 1,
     fresh = (\<lambda>l. case map_of parlour_uuids l of None \<Rightarrow> 0 | Some u \<Rightarrow> u), clock = \<lambda>l. ''t'',
     think = \<lambda>n ctx. None,
     recall = \<lambda>q s es. empty_for parlour_ext [] [],
     printed = mute, context_text = \<lambda>ctx. Inr [], snapshot_to_value = \<lambda>s. Inl ''none'',
     alnum = \<lambda>c. False, lease_owner = ''cli''\<rparr>"

lemma parlour_fields [simp]:
  "lib parlour = parlour_ext" "store_codec parlour = parlour_codec" "others parlour = (\<lambda>n db. db)"
  "lease_clock parlour = (\<lambda>n. 0)" "faults parlour = (\<lambda>n st. None)" "hekate_id parlour = from_uuid 2"
  "user_id parlour = from_uuid 1" "Engine.clock parlour = (\<lambda>l. ''t'')" "lease_owner parlour = ''cli''"
  "to_value parlour p = (case map_of parlour_payloads p of None \<Rightarrow> Inl ''unknown'' | Some t \<Rightarrow> Inr (JNumber t))"
  "fresh parlour l = (case map_of parlour_uuids l of None \<Rightarrow> 0 | Some u \<Rightarrow> u)"
  "printing_of parlour = mute"
  by (simp_all add: parlour_def printing_of_def mute_def)

lemma parlour_ext_fields [simp]:
  "de_observation parlour_ext = tagged [(''said'', said)]"
  "de_focus_resolution parlour_ext = tagged [(''unclear'', unclear)]"
  "de_decision parlour_ext = tagged [(''question'', which_one)]"
  "event_json parlour_ext = (\<lambda>e. Inr [])" "sha256_hex parlour_ext = sha256_hex blank_ext"
  "uuid_text parlour_ext = uuid_text blank_ext" "id_text parlour_ext = (id_text blank_ext :: 'a Id \<Rightarrow> string)"
  by (auto simp: parlour_ext_def demo_def blank_ext_def sha256_hex_def [abs_def] id_text_def [abs_def])

section \<open>Codecs\<close>

lemma parlour_states_differ [simp]: "unclear_state \<noteq> asked_state" "asked_state \<noteq> unclear_state"
proof -
  have "CurrentState.revision unclear_state = 2" "CurrentState.revision asked_state = 4"
    by (simp_all add: unclear_state_def asked_state_def)
  then show "unclear_state \<noteq> asked_state" "asked_state \<noteq> unclear_state" by auto
qed

lemma parlour_tables: "two_way parlour_kinds" "two_way parlour_entities"
  by (simp_all add: two_way_def parlour_kinds_def parlour_entities_def quotes_off)

lemma parlour_state_reads: "codec_reads_state parlour_codec s"
proof -
  have "trim ''a'' = ''a''" "trim ''b'' = ''b''" by code_simp+
  then show ?thesis
    unfolding parlour_codec_def by (intro table_state_reads) (simp_all add: parlour_states_def)
qed

lemma parlour_event_reads:
  assumes "event_kind e \<in> talk_kinds" and "ExperienceEvent.subject e \<noteq> None"
  shows "codec_reads_event parlour_ext parlour_codec e"
proof -
  have "talk_kinds \<subseteq> fst ` set parlour_kinds" by (simp add: talk_kinds_def parlour_kinds_def)
  with assms(1) obtain t where "(event_kind e, t) \<in> set parlour_kinds" by fastforce
  moreover from assms(2) obtain r where "ExperienceEvent.subject e = Some r" by blast
  moreover have "\<exists>t. (EntityRef.kind r, t) \<in> set parlour_entities"
    by (cases "EntityRef.kind r") (simp_all add: parlour_entities_def)
  ultimately show ?thesis
    unfolding parlour_codec_def using table_event_reads [OF parlour_tables parlour_ext_fields(6)] by blast
qed

lemma parlour_talk_codec: "talk_codec parlour"
  using parlour_event_reads parlour_state_reads by (auto simp: talk_codec_def)

section \<open>The ledger\<close>

lemma parlour_event_fields [simp]:
  "ExperienceEvent.event_id (parlour_event i actor k r u tag caus) = from_uuid i"
  "event_kind (parlour_event i actor k r u tag caus) = k"
  "ExperienceEvent.actor_id (parlour_event i actor k r u tag caus) = from_uuid actor"
  "ExperienceEvent.subject (parlour_event i actor k r u tag caus) = Some \<lparr>EntityRef.kind = r, id = u\<rparr>"
  "payload (parlour_event i actor k r u tag caus) = JNumber tag"
  "correlation_id (parlour_event i actor k r u tag caus) = Some (uuid_text blank_ext 41)"
  "integrity_hash (parlour_event i actor k r u tag caus) = zero_hash"
  by (simp_all add: parlour_event_def desk_event_def an_event_def)

lemma parlour_hash: "calculate_hash parlour_ext e = Inr zero_hash"
  by (simp add: calculate_hash_def)

lemma parlour_writable: "payload e = JNumber t \<Longrightarrow> integrity_hash e = zero_hash \<Longrightarrow> writable parlour_ext parlour_codec e"
  by (simp add: writable_def verify_integrity_def parlour_hash is_ok_iff parlour_codec_def)

lemma parlour_replay: "replay parlour_ext parlour_ledger = Inr unclear_state"
proof -
  have "\<not> blank ''Which?''" by code_simp
  then show ?thesis
    by (simp add: replay_def parlour_ledger_def unclear_state_def default_state_def step_defs insert_payload_def
        apply_focus_resolution_def unclear_def said_def subject_is_def id_text_def focus_is_valid_def unattached_def)
qed

lemma question_applies: "apply_all parlour_ext unclear_state question_events = Inr asked_state"
  by (simp add: question_events_def unclear_state_def asked_state_def default_state_def step_defs insert_payload_def
      which_one_def respond_def)

definition parlour_db :: Db where
  "parlour_db = stored parlour_ext parlour_codec parlour_ledger"

text \<open>What the steps of the conversation need of the database: the lease is another matter.\<close>

definition kept :: "Db \<Rightarrow> ExperienceEvent list \<Rightarrow> CurrentState \<Rightarrow> bool" where
  "kept db es s \<longleftrightarrow> db_holds parlour_ext parlour_codec db es s \<and> rows_of parlour_ext parlour_codec db es"

lemma parlour_kept: "kept parlour_db parlour_ledger unclear_state"
proof -
  have "\<forall>e \<in> set parlour_ledger. codec_reads_event parlour_ext parlour_codec e"
    by (auto simp: parlour_ledger_def talk_kinds_def intro!: parlour_event_reads)
  moreover have "\<forall>e \<in> set parlour_ledger. writable parlour_ext parlour_codec e"
    by (auto simp: parlour_ledger_def intro: parlour_writable)
  moreover have "is_ok (state_to_string parlour_codec unclear_state)"
    by (simp add: parlour_codec_def is_ok_iff parlour_states_def)
  ultimately show ?thesis
    using stored_holds [OF parlour_replay] blank_texts_inj parlour_state_reads
    by (simp add: kept_def parlour_db_def parlour_ledger_def)
qed

lemma kept_lease: "kept (db\<lparr>lease_row := q\<rparr>) es s \<longleftrightarrow> kept db es s"
  by (simp add: kept_def lease_keeps_ledger rows_of_def)

lemma parlour_current:
  "kept db es s \<Longrightarrow> current parlour ((n, db), log) = (Inr s, ((Suc n, db), log))"
  "kept db es s \<Longrightarrow> all_events parlour ((n, db), log) = (Inr es, ((Suc n, db), log))"
  by (simp_all add: current_def all_events_def on_ledger_def observe_def kept_def db_holds_def)

lemma question_recorded:
  assumes "kept db parlour_ledger unclear_state"
  shows "\<exists>db'. record_all parlour question_events (Some 2) ((n, db), log) = (Inr asked_state, ((Suc n, db'), log))"
proof -
  have "\<forall>e \<in> set question_events. writable parlour_ext parlour_codec e"
    by (auto simp: question_events_def intro: parlour_writable)
  moreover have "is_ok (state_to_string parlour_codec asked_state)"
    by (simp add: parlour_codec_def is_ok_iff parlour_states_def)
  moreover have "CurrentState.revision unclear_state = 2" by (simp add: unclear_state_def)
  ultimately obtain db' where
    "record_batch parlour_ext parlour_codec (\<lambda>st. None) db question_events (Some 2) None = Inr (asked_state, db')"
    using record_possible [OF _ _ question_applies, of parlour_codec db parlour_ledger "Some 2" "\<lambda>st. None"] assms blank_texts_inj
    by (auto simp: kept_def question_events_def parlour_ledger_def)
  then show ?thesis
    by (simp add: record_all_def try_record_def on_ledger_def record_events_def act_bind_def act_lift_def)
qed

section \<open>The question\<close>

lemma parlour_made:
  "event_with_id parlour (from_uuid i) l (from_uuid actor) k (Some \<lparr>EntityRef.kind = r, id = u\<rparr>) p
     (Some (uuid_text blank_ext 41)) caus =
   (case map_of parlour_payloads p of None \<Rightarrow> Inl (EngineError.Serialization ''unknown'')
    | Some t \<Rightarrow> Inr (parlour_event i actor k r u t caus))"
  by (cases "map_of parlour_payloads p")
    (simp_all add: event_with_id_def new_with_id_def parlour_hash parlour_event_def desk_event_def an_event_def Let_def)

definition parlour_request :: ContextBuildRequest where
  "parlour_request = request_for parlour unclear_state said unattached
     (empty_for parlour_ext (Observation.content said) [])"

lemma parlour_request_fields [simp]:
  "ContextBuildRequest.as_of_revision parlour_request = 2"
  "current_observation_id parlour_request = Some (from_uuid 41)"
  "ContextBuildRequest.relationship_id parlour_request = None"
  "ContextBuildRequest.task_id parlour_request = None" "ContextBuildRequest.run_id parlour_request = None"
  "RecallBundle.items (recalled parlour_request) = []"
  "ContextBuildRequest.principal_id parlour_request = from_uuid 1"
  by (simp_all add: parlour_request_def request_for_def unclear_state_def default_state_def said_def unattached_def empty_for_def bt_values_def)

lemma unclear_state_fields [simp]:
  "CurrentState.revision unclear_state = 2" "principals unclear_state = bt_empty"
  "identity_versions unclear_state = bt_empty" "relationships unclear_state = bt_empty"
  "CurrentState.positions unclear_state = bt_empty" "CurrentState.conflicts unclear_state = bt_empty"
  "active_memories unclear_state = bt_empty" "CurrentState.artifacts unclear_state = bt_empty"
  "observations unclear_state = [(from_uuid 41, said)]"
  "focus_resolutions unclear_state = [(from_uuid 41, unclear)]"
  by (simp_all add: unclear_state_def default_state_def)

lemma parlour_profile:
  "ResponseProfile.evidence (resolve_response_profile x rj pt unclear_state es p a) = []"
  "ResponseProfile.as_of_revision (resolve_response_profile x rj pt unclear_state es p a) = a"
  by (simp_all add: resolve_response_profile_def resolve_response_profile_with_report_def bt_values_def
      Let_def default_profile_def)

lemma parlour_nothing_recent:
  "build_active_recent mute parlour_request 2 (event_index parlour_ledger) = Inr []"
proof -
  have "selected_events mute parlour_request 2 (event_index parlour_ledger) = []"
    by (auto simp: selected_events_def on_current_observation_def event_index_def parlour_ledger_def bt_values_def
        less_Id_def filter_empty_conv)
  then show ?thesis by (simp add: build_active_recent_def bt_values_def)
qed

lemma parlour_anchors: "build_anchors mute unclear_state parlour_request 2 index = Inr []"
  by (simp add: build_anchors_def identity_anchors_def anchor_identity_def hekate_identity_def requested_relationship_def
      bt_values_def optional_item_def focus_anchors_def requested_def Let_def
      anchor_positions_def anchor_conflicts_def)

lemma parlour_middle: "build_middle mute unclear_state parlour_request 2 index = Inr []"
  by (simp add: build_middle_def bt_values_def)

lemma parlour_snapshot:
  "\<exists>snap. build_context_snapshot mute unclear_state parlour_ledger parlour_request = Inr snap \<and>
     ContextSnapshot.snapshot_hash snap = zero_hash"
proof -
  have "\<exists>snap. stabilize mute index 2 pf [] limit 8 0
      \<lparr>middle = [], active = [], middle_dropped = 0, active_dropped = 0\<rparr> = Inr snap \<and>
      ContextSnapshot.snapshot_hash snap = zero_hash"
    if "ResponseProfile.evidence pf = []" for index pf limit
    using that by (simp add: eval_nat_numeral draft_snapshot_def collect_source_refs_def snapshot_budget_report_def
        mute_def text_length_def bt_values_def)
  moreover have "text_length (items_text mute its) = Inr 0" for its by (simp add: mute_def text_length_def)
  ultimately show ?thesis
    by (simp add: build_context_snapshot_def build_with_profile_def Let_def parlour_profile validate_profile_def
        parlour_anchors parlour_middle parlour_nothing_recent)
qed

lemma parlour_said [simp]:
  "Observation.id said = from_uuid 41" "Observation.actor_id said = from_uuid 1"
  "Observation.content said = ''continue''" "Observation.message_id said = Some ''m''"
  by (simp_all add: said_def)

lemma parlour_unclear [simp]:
  "FocusResolution.observation_id unclear = from_uuid 41" "FocusResolution.outcome unclear = Clarification"
  "FocusResolution.clarification unclear = Some ''Which?''" "FocusResolution.basis unclear = AmbiguousCandidates"
  "FocusResolution.candidates unclear = []"
  by (simp_all add: unclear_def)

lemma parlour_decision:
  assumes "ContextSnapshot.snapshot_hash snap = zero_hash"
  shows "clarification_decision parlour said unclear parlour_ledger snap ''Which?'' = which_one"
  using assms
  by (simp add: clarification_decision_def which_one_def clarification_evidence_def parlour_ledger_def id_text_def
      push_all_def push_unique_def fresh_id_def parlour_uuids_def respond_def)

lemma parlour_question_events:
  "decided_event parlour (from_uuid 53) which_one (from_uuid 41) = Inr (hd question_events)"
  "response_event parlour which_one ''Which?'' (from_uuid 41) (from_uuid 53) = Inr (question_events ! 1)"
proof -
  have "Decision.id which_one = from_uuid 61" by (simp add: which_one_def respond_def)
  then show "decided_event parlour (from_uuid 53) which_one (from_uuid 41) = Inr (hd question_events)"
    "response_event parlour which_one ''Which?'' (from_uuid 41) (from_uuid 53) = Inr (question_events ! 1)"
    by (simp_all add: decided_event_def response_event_def conversation_event_def event_def reference_def
        id_text_def parlour_made parlour_payloads_def question_events_def question_record_def fresh_id_def
        parlour_uuids_def)
qed

lemma parlour_asks:
  assumes at: "kept db parlour_ledger unclear_state"
  shows "\<exists>res w'. produce_clarification parlour said unclear_state unclear ((n, db), log) = (Inr res, w') \<and>
    InteractionResult.decision res = which_one"
proof -
  obtain snap where snap: "build_context_snapshot mute unclear_state parlour_ledger parlour_request = Inr snap"
    and hash: "ContextSnapshot.snapshot_hash snap = zero_hash" using parlour_snapshot by blast
  obtain db' where "record_all parlour question_events (Some 2) ((Suc n, db), log) = (Inr asked_state, ((Suc (Suc n), db'), log))"
    using question_recorded [OF at] by blast
  moreover have "question_events = [hd question_events, question_events ! 1]" by (simp add: question_events_def)
  ultimately have "record_all parlour [hd question_events, question_events ! 1] (Some 2) ((Suc n, db), log) =
      (Inr asked_state, ((Suc (Suc n), db'), log))" by (simp only:)
  moreover have "(fresh_id parlour ''DecisionCreated'' :: EventId) = from_uuid 53" "ExperienceEvent.event_id (hd question_events) = from_uuid 53"
    by (simp_all add: fresh_id_def parlour_uuids_def question_events_def)
  ultimately show ?thesis
    using snap parlour_question_events
    by (simp add: produce_clarification_def act_bind_def parlour_current [OF at] act_lift_def act_return_def Let_def
        parlour_decision [OF hash] parlour_request_def)
qed

lemma parlour_answers:
  "\<exists>res w'. handle parlour said ((0, parlour_db), []) = (Inr res, w') \<and>
     InteractionResult.decision res = which_one"
proof -
  have none: "lease_row parlour_db = None"
  proof (cases "record_batch parlour_ext parlour_codec (\<lambda>_. None) fresh_db parlour_ledger None None")
    case (Inr r)
    obtain s' db' where r: "r = (s', db')" by (cases r)
    from record_batch_Inr [OF Inr [unfolded r]] commit_batch_Inr
    have "lease_row db' = lease_row fresh_db" by blast
    with Inr r show ?thesis by (simp add: parlour_db_def stored_def fresh_db_def)
  qed (simp add: parlour_db_def stored_def fresh_db_def)
  define db where "db = parlour_db\<lparr>lease_row := Some (''cli'', lease_deadline 0 FOREGROUND_LEASE_TTL)\<rparr>"
  have at: "kept db parlour_ledger unclear_state" by (simp add: db_def kept_lease parlour_kept)
  have take: "take_lease parlour ((0, parlour_db), []) = (Inr True, ((Suc 0, db), []))"
    by (simp add: take_lease_def on_ledger_def acquire_foreground_lease_def none db_def)
  obtain res w' where ask: "produce_clarification parlour said unclear_state unclear ((3, db), []) = (Inr res, w')"
    and res: "InteractionResult.decision res = which_one" using parlour_asks [OF at] by blast
  have none_yet: "recorded_decision parlour parlour_ledger said = Inr None"
    by (simp add: recorded_decision_def parlour_ledger_def)
  have source: "find (is_source_of said) parlour_ledger = Some (hd parlour_ledger)"
    by (simp add: is_source_of_def parlour_ledger_def on_subject_def)
  have seen: "seen_before said unclear_state = Some said"
    by (simp add: seen_before_def bt_values_def)
  have "handle_again parlour unclear_state said ((2, db), []) = (Inr res, w')"
    using ask
    by (simp add: handle_again_def act_bind_def during_def parlour_current [OF at] act_lift_def act_return_def
        known_resolution_def none_yet source keep_resolution_def bt_contains_def process_observation_def eval_nat_numeral)
  then have "handle_leased parlour said ((Suc 0, db), []) = (Inr res, w')"
    by (simp add: handle_leased_def act_bind_def during_def parlour_current [OF at] seen eval_nat_numeral)
  moreover have "trim ''continue'' \<noteq> []" by code_simp
  ultimately have "handle parlour said ((0, parlour_db), []) = (Inr res, best_effort (drop_lease parlour) w')"
    by (simp add: handle_def act_bind_def take close_interaction_Inr [THEN iffD2] close_interaction_def)
  with res show ?thesis by blast
qed

end
