(* ===== verification/EngineProperties.thy ===== *)
theory EngineProperties
  imports EngineScenario ConversationScenario
begin

text \<open>
  The properties of the engine: what it takes for a capability to be invoked, that an operation
  is performed once, and what the resolution of an approval leaves on the ledger.
\<close>



text \<open>
  C18. As long as nobody else writes, an operation is performed at most once: after a call that
  invoked its capability, whatever became of the commits that follow the invocation, a later
  call on the same operation invokes nothing, and leaves the log as it is.
\<close>

theorem operation_performed_once:
  assumes "alone en" and "operation_codec en" and "operation_serde en"
    and "db_holds (lib en) (store_codec en) db es s" and "length es < 2 ^ 62"
    and "execute_operation en oid ((n, db), log) = (r, ((n', db'), log'))" and "log' \<noteq> log"
    and "alone later" and "lib later = lib en" and "store_codec later = store_codec en"
    and "execute_operation later oid ((m, db'), log') = (r'', (w'', log''))"
  shows "log'' = log'"
  using closed_not_executed [OF assms(8) executed_then_closed [OF assms(1-7)] assms(9-11)] .

theorem operation_performed_once_witness:
  "\<exists>db'. snd (snd (execute_operation desk (from_uuid 32) ((9, db'), [(''git'', JNumber ''args'')]))) =
     [(''git'', JNumber ''args'')] \<and>
     db_holds desk_ext desk_codec db' ((desk_ledger @ approval_events @ [start_event_of_desk]) @ outcome_of_desk)
       finished_state"
proof -
  from desk_approved [of 0 "[]"] obtain db1 where
    at: "settled desk db1 (desk_ledger @ approval_events) approved_state" by blast
  from desk_runs [OF at, of 2 "[]"] obtain db2 where
    run: "execute_operation desk (from_uuid 32) ((2, db1), []) = (Inr the_receipt, ((5, db2), [(''git'', JNumber ''args'')]))"
    and at2: "settled desk db2 ((desk_ledger @ approval_events @ [start_event_of_desk]) @ outcome_of_desk) finished_state"
    by auto
  have "alone desk" by (simp add: alone_def)
  moreover have "operation_serde desk" using desk_serde by (simp add: approval_serde_def)
  moreover have "db_holds (lib desk) (store_codec desk) db1 (desk_ledger @ approval_events) approved_state"
    using at by (simp add: settled_def)
  moreover have "length (desk_ledger @ approval_events) < 2 ^ 62" by (simp add: desk_ledger_def approval_events_def)
  ultimately have "snd (snd (execute_operation desk (from_uuid 32) ((9, db2), [(''git'', JNumber ''args'')]))) =
      [(''git'', JNumber ''args'')]"
    using operation_performed_once [OF _ desk_operation_codec _ _ _ run _ _ refl refl] by (metis list.distinct(1) prod.collapse)
  with at2 show ?thesis by (auto simp: settled_def)
qed

text \<open>
  C29. An approval is resolved by the configured user, once, out of \<open>Pending\<close>, in one batch with
  the transition of its operation, which is committed to the very ledger the approval was read
  from; nothing is invoked.
\<close>

theorem approval_resolved_with_operation:
  assumes "others_append en" and "operation_codec en" and "approval_serde en"
    and "db_holds (lib en) (store_codec en) db es0 s0" and "length es0 < 2 ^ 62"
    and "resolve_approval en aid approved ((0, db), log) = (Inr a, ((n', db'), log'))"
  shows "\<exists>es s a0 op0 e1 e2 s'. prefix es0 es \<and> replay (lib en) es = Inr s \<and>
    bt_get (approvals s) aid = Some a0 \<and> Approval.status a0 = ApprovalStatus.Pending \<and>
    a = resolved_approval en approved a0 \<and>
    bt_get (operations s) (Approval.operation_id a0) = Some op0 \<and>
    operation_allowed (Operation.status op0) (resolved_status approved) \<and>
    ExperienceEvent.actor_id e1 = user_id en \<and>
    db_holds (lib en) (store_codec en) db' (es @ [e1, e2]) s' \<and>
    bt_get (approvals s') aid = Some a \<and>
    bt_get (operations s') (Approval.operation_id a0) = Some (op0\<lparr>Operation.status := resolved_status approved\<rparr>) \<and>
    log' = log"
proof -
  obtain s w1 a0 op0 e1 e2 s' where cur: "current en ((0, db), log) = (Inr s, (w1, log))"
    and a0: "bt_get (approvals s) aid = Some a0" "Approval.status a0 = ApprovalStatus.Pending"
      "a = resolved_approval en approved a0"
    and op0: "bt_get (operations s) (Approval.operation_id a0) = Some op0"
      "operation_allowed (Operation.status op0) (resolved_status approved)"
    and e1: "event en ''ApprovalResolved'' (user_id en) ApprovalResolved
      (reference EntityKind.Approval (Approval.id a)) (ApprovalPayload a)
      (Some (id_text (lib en) (Approval.id a))) None = Inr e1"
    and e2: "event en ''approved operation'' (user_id en) (if approved then OperationAuthorized else OperationFailed)
      (reference EntityKind.Operation (Operation.id op0))
      (OperationPayload (op0\<lparr>Operation.status := resolved_status approved\<rparr>))
      (Some (id_text (lib en) (Approval.id a))) (Some (ExperienceEvent.event_id e1)) = Inr e2"
    and rec: "record_all en [e1, e2] (Some (CurrentState.revision s)) (w1, log) = (Inr s', ((n', db'), log'))"
    by (rule resolve_approval_run [OF assms(6)])
  have "ledger_at en (0, db) es0 s0" using assms(4,5) by (simp add: ledger_at_def)
  from current_step [OF assms(1) this cur] obtain es where
    es: "prefix es0 es" "ledger_at en w1 es s" "fst w1 = 1" by auto
  from ledger_at_step [OF es(2)] have step: "in_step (lib en) s es" .
  have "codec_reads_event (lib en) (store_codec en) e" if "e \<in> {e1, e2}" for e
    using that assms(2) built_event [OF e1] built_event [OF e2]
    by (auto simp: operation_codec_def operation_kinds_def operation_entities_def reference_def split: if_splits)
  moreover have "codec_reads_state (store_codec en) s'" using assms(2) by (simp add: operation_codec_def)
  ultimately have fin: "apply_all (lib en) s [e1, e2] = Inr s' \<and> ledger_at en (n', db') (es @ [e1, e2]) s' \<and> log' = log"
    using record_all_step [OF assms(1) es(2) step _ rec] es(3) by (simp del: apply_all.simps) blast
  have "records_wf s" using es(2) by (auto simp: ledger_at_def db_holds_def intro: records_wf_replay)
  then have ids: "Approval.id a = aid" "Operation.id op0 = Approval.operation_id a0"
    using a0 op0 by (auto simp: records_wf_def keyed_def resolved_approval_def)
  have "de_approval (lib en) (payload e1) = Inr a"
    "de_operation (lib en) (payload e2) = Inr (op0\<lparr>Operation.status := resolved_status approved\<rparr>)"
    using assms(3) built_event(7) [OF e1] built_event(7) [OF e2]
    by (auto simp: approval_serde_def operation_serde_def)
  from resolution_applies [OF conjunct1 [OF fin] _ _ this] built_event [OF e1] built_event [OF e2] ids
  have "bt_get (approvals s') aid = Some a"
    "bt_get (operations s') (Approval.operation_id a0) = Some (op0\<lparr>Operation.status := resolved_status approved\<rparr>)"
    by (auto split: if_splits)
  then show ?thesis
    using es(1,2) a0 op0 built_event(3) [OF e1] fin by (auto simp del: apply_all.simps simp: ledger_at_def db_holds_def)
qed

theorem approval_resolved_with_operation_witness:
  "\<exists>db' es s e1 e2 s'. prefix desk_ledger es \<and> replay desk_ext es = Inr s \<and>
     db_holds desk_ext desk_codec db' (es @ [e1, e2]) s' \<and>
     bt_get (approvals s') (from_uuid 33) = Some granted"
proof -
  from desk_approved [of 0 "[]"] obtain db' where
    run: "resolve_approval desk (from_uuid 33) True ((0, desk_db), []) = (Inr granted, ((2, db'), []))" by auto
  have "others_append desk" by (rule undisturbed_append) (simp add: undisturbed_def)
  moreover have "db_holds (lib desk) (store_codec desk) desk_db desk_ledger waiting_state"
    using desk_settled by (simp add: settled_def)
  moreover have "length desk_ledger < 2 ^ 62" by (simp add: desk_ledger_def)
  ultimately show ?thesis
    using approval_resolved_with_operation [OF _ desk_operation_codec desk_serde _ _ run] unfolding desk_fields by blast
qed

section \<open>Interactions\<close>

text \<open>
  The properties of an interaction: what its failures leave behind, and what a decision has to do
  with the ledger it is committed to.
\<close>



text \<open>
  C19. Other processes may write at any time, as long as they only append. A decision that
  \<open>handle\<close> returns is then either the one the ledger records for the same message, or it was made
  for the very ledger it is committed to: no event lies between the state the model was shown (or
  the question was put for) and the batch that records the decision, which is what that decision
  asks for after the checks of the judgment and of the policy.
\<close>

theorem decision_committed_on_its_context:
  assumes "others_append en" and "talk_codec en"
    and "db_holds (lib en) (store_codec en) db es0 s0" and "length es0 < 2 ^ 62" and "n < 2 ^ 19"
    and "handle en obs ((n, db), log) = (Inr res, ((n', db'), log'))"
  shows "answered_before en es0 obs res \<or>
    (\<exists>es s seen evs fs s'. prefix es0 es \<and> replay (lib en) es = Inr s \<and> same_message obs seen \<and>
       answered en es s seen (InteractionResult.decision res) evs \<and>
       db_holds (lib en) (store_codec en) db' (es @ evs @ fs) s')"
proof -
  from assms(3,4) have at: "ledger_at en (n, db) es0 s0" by (simp add: ledger_at_def)
  from handle_Inr [OF assms(6)] obtain w1 l1 w2 l2 where
    take: "take_lease en ((n, db), log) = (Inr True, (w1, l1))"
    and leased: "handle_leased en obs (w1, l1) = (Inr res, (w2, l2))"
    and end_w: "((n', db'), log') = best_effort (drop_lease en) (w2, l2)" by fastforce
  from take_lease_step [OF assms(1) at take] obtain es1 s1 where
    1: "prefix es0 es1" "ledger_at en w1 es1 s1" "fst w1 = Suc n" by auto
  from handle_leased_answers [OF assms(1,2) 1(2) _ leased] 1(3) assms(5) obtain es2 where
    2: "prefix es1 es2" "answered_before en es2 obs res \<or> answered_now en es2 obs w2 res" by auto
  have pre: "prefix es0 es2" using 1(1) 2(1) by (rule prefix_order.trans)
  from 2(2) show ?thesis
  proof
    assume "answered_before en es2 obs res"
    then show ?thesis using answered_before_earlier pre by blast
  next
    assume "answered_now en es2 obs w2 res"
    from answered_now_earlier [OF this pre] obtain es s seen evs s' where
      3: "prefix es0 es" "replay (lib en) es = Inr s" "same_message obs seen" "answered en es s seen (InteractionResult.decision res) evs"
      and at2: "ledger_at en w2 (es @ evs) s'"
      unfolding answered_now_def by blast
    from drop_lease_step [OF assms(1) at2, of l2] end_w obtain fs s3 where
      "ledger_at en (n', db') (es @ evs @ fs) s3" by (metis append.assoc fst_conv prefixE)
    then have "db_holds (lib en) (store_codec en) db' (es @ evs @ fs) s3" by (simp add: ledger_at_def)
    with 3 show ?thesis by blast
  qed
qed

theorem decision_committed_on_its_context_witness:
  "\<exists>res n' db' es s seen evs fs s'.
     handle parlour said ((0, parlour_db), []) = (Inr res, ((n', db'), [])) \<and>
     InteractionResult.decision res = which_one \<and>
     (answered_before parlour parlour_ledger said res \<or>
      (prefix parlour_ledger es \<and> replay parlour_ext es = Inr s \<and> same_message said seen \<and>
       answered parlour es s seen which_one evs \<and>
       db_holds parlour_ext parlour_codec db' (es @ evs @ fs) s'))"
proof -
  obtain res n' db' log where run: "handle parlour said ((0, parlour_db), []) = (Inr res, ((n', db'), log))"
    and res: "InteractionResult.decision res = which_one" using parlour_answers by (metis prod.exhaust)
  have "log = []" using handle_invokes_nothing [OF run] .
  moreover have "others_append parlour"
    by (rule undisturbed_append) (simp add: undisturbed_def)
  moreover have "db_holds (lib parlour) (store_codec parlour) parlour_db parlour_ledger unclear_state"
    using parlour_kept by (simp add: kept_def)
  moreover have "length parlour_ledger < 2 ^ 62" by (simp add: parlour_ledger_def)
  ultimately have "answered_before parlour parlour_ledger said res \<or>
      (\<exists>es s seen evs fs s'. prefix parlour_ledger es \<and> replay parlour_ext es = Inr s \<and> same_message said seen \<and>
       answered parlour es s seen which_one evs \<and> db_holds parlour_ext parlour_codec db' (es @ evs @ fs) s')"
    using decision_committed_on_its_context [OF _ parlour_talk_codec _ _ _ run] res by simp
  with run res \<open>log = []\<close> show ?thesis by blast
qed

end
