(* ===== verification/SnapshotFacts.thy ===== *)
theory SnapshotFacts
  imports ContextSnapshots "HOL-Library.Sublist"
begin

text \<open>
  What a context snapshot holds: the index it is built over, the budgets it is cut down to, the
  items that are left out, and the references from its items to the ledger.
\<close>

section \<open>The index\<close>

lemma event_index_snoc:
  "event_index (es @ [e]) = bt_insert (ExperienceEvent.event_id e) (of_nat (Suc (length es)), e) (event_index es)"
  by (simp add: event_index_def enumerate_append_eq)

lemma event_index_get:
  "bt_get (event_index es) i = Some (n, e) \<Longrightarrow>
     \<exists>k < length es. es ! k = e \<and> n = of_nat (Suc k) \<and> ExperienceEvent.event_id e = i"
proof (induction es rule: rev_induct)
  case Nil
  then show ?case by (simp add: event_index_def)
next
  case (snoc x es)
  show ?case
  proof (cases "i = ExperienceEvent.event_id x")
    case True
    with snoc.prems show ?thesis by (auto simp: event_index_snoc intro!: exI [of _ "length es"])
  next
    case False
    with snoc.prems have "bt_get (event_index es) i = Some (n, e)" by (simp add: event_index_snoc)
    from snoc.IH [OF this] obtain k where "k < length es" "es ! k = e" "n = of_nat (Suc k)"
      "ExperienceEvent.event_id e = i" by blast
    then show ?thesis by (intro exI [of _ k]) (simp add: nth_append)
  qed
qed

section \<open>References\<close>

text \<open>A reference to an event of the ledger that is no newer than the snapshot and whose hash verifies.\<close>

definition ref_grounded :: "ext \<Rightarrow> u64 \<Rightarrow> ExperienceEvent list \<Rightarrow> ContextSourceRef \<Rightarrow> bool" where
  "ref_grounded x as_of es r \<longleftrightarrow>
     (\<exists>k < length es. ExperienceEvent.event_id (es ! k) = ContextSourceRef.event_id r \<and>
        of_nat (Suc k) \<le> as_of \<and> verify_integrity x (es ! k) = Inr True \<and>
        canonical_hash x (es ! k) = Inr (ContextSourceRef.source_hash r) \<and>
        ContextSourceRef.as_of_revision r = as_of)"

lemma ledger_hash_grounded:
  assumes "ledger_hash x i as_of (event_index es) = Inr h"
  shows "ref_grounded x as_of es \<lparr>ContextSourceRef.event_id = i, entity = r, source_hash = h, as_of_revision = as_of\<rparr>"
proof -
  from assms obtain n e where ix: "indexed x as_of (event_index es) i = Inr (n, e)" and h: "canonical_hash x e = Inr h"
    by (auto simp: ledger_hash_def res_simps split: sum.splits)
  from ix have get: "bt_get (event_index es) i = Some (n, e)" and n: "n \<le> as_of" and v: "verify_integrity x e = Inr True"
    by (auto simp: indexed_def validate_event_hash_def res_simps split: option.splits if_splits sum.splits bool.splits)
  from event_index_get [OF get] n v h show ?thesis by (auto simp: ref_grounded_def)
qed

lemma item_refs_grounded:
  "item_refs x as_of (event_index es) ps m = Inr m' \<Longrightarrow> \<forall>r \<in> set (bt_values m). ref_grounded x as_of es r \<Longrightarrow>
     r \<in> set (bt_values m') \<Longrightarrow> ref_grounded x as_of es r"
proof (induction ps arbitrary: m)
  case (Cons p ps)
  obtain i ent where p: "p = (i, ent)" by (cases p)
  from Cons.prems(1) p obtain h where h: "ledger_hash x i as_of (event_index es) = Inr h"
    and rest: "item_refs x as_of (event_index es) ps
      (if bt_contains m (id_text x i) then m
       else bt_insert (id_text x i) \<lparr>ContextSourceRef.event_id = i, entity = ent, source_hash = h,
         as_of_revision = as_of\<rparr> m) = Inr m'"
    by (auto simp: res_simps)
  show ?case
    by (rule Cons.IH [OF rest _ Cons.prems(3)])
      (use Cons.prems(2) ledger_hash_grounded [OF h] in \<open>fastforce split: if_splits dest: bt_values_insert\<close>)
qed simp

text \<open>Every source of an item has its reference, as long as identifiers are printed apart.\<close>

definition keyed_by_event :: "ext \<Rightarrow> (string, ContextSourceRef) btree \<Rightarrow> bool" where
  "keyed_by_event x m \<longleftrightarrow> (\<forall>k r. bt_get m k = Some r \<longrightarrow> k = id_text x (ContextSourceRef.event_id r))"

lemma item_refs_keys:
  "item_refs x as_of index ps m = Inr m' \<Longrightarrow> keyed_by_event x m \<Longrightarrow>
     keyed_by_event x m' \<and> (\<forall>k. bt_contains m k \<longrightarrow> bt_contains m' k) \<and>
     (\<forall>p \<in> set ps. bt_contains m' (id_text x (fst p)))"
proof (induction ps arbitrary: m)
  case (Cons p ps)
  obtain i ent where p: "p = (i, ent)" by (cases p)
  from Cons.prems(1) p obtain h where
    rest: "item_refs x as_of index ps
      (if bt_contains m (id_text x i) then m
       else bt_insert (id_text x i) \<lparr>ContextSourceRef.event_id = i, entity = ent, source_hash = h,
         as_of_revision = as_of\<rparr> m) = Inr m'" (is "item_refs _ _ _ _ ?m = _")
    by (auto simp: res_simps)
  have "keyed_by_event x ?m" using Cons.prems(2) by (simp add: keyed_by_event_def)
  moreover have "bt_contains ?m (id_text x i)" "\<forall>k. bt_contains m k \<longrightarrow> bt_contains ?m k" by simp_all
  ultimately show ?case using Cons.IH [OF rest] p by auto
qed simp

lemma item_refs_cover:
  assumes run: "item_refs x as_of index ps [] = Inr m" and inj: "inj (uuid_text x)" and i: "(i, ent) \<in> set ps"
  shows "\<exists>r \<in> set (bt_values m). ContextSourceRef.event_id r = i"
proof -
  have "keyed_by_event x []" by (simp add: keyed_by_event_def)
  from item_refs_keys [OF run this] i have m: "keyed_by_event x m" and "bt_contains m (id_text x i)" by auto
  then obtain r where r: "bt_get m (id_text x i) = Some r" by (auto simp: bt_contains_iff)
  with m have "id_text x i = id_text x (ContextSourceRef.event_id r)" by (auto simp: keyed_by_event_def)
  then have "i = ContextSourceRef.event_id r" using inj by (simp add: id_text_def inj_eq)
  with bt_get_values [OF r] show ?thesis by blast
qed

section \<open>Budgets\<close>

lemma select_keeps:
  "select_by_budget prn limit kept dropped its = Inr (ks, n) \<Longrightarrow>
     \<exists>new. ks = kept @ new \<and> subseq new its \<and> length new + n = length its + dropped \<and>
       (new = [] \<or> (\<exists>k. text_length (prn ks) = Inr k \<and> k \<le> limit))"
proof (induction its arbitrary: kept dropped)
  case Nil
  then show ?case by simp
next
  case (Cons a its)
  from Cons.prems obtain k where k: "text_length (prn (kept @ [a])) = Inr k"
    by (auto simp: res_simps split: if_splits)
  show ?case
  proof (cases "k > limit")
    case True
    with Cons.prems k have "select_by_budget prn limit kept (Suc dropped) its = Inr (ks, n)" by (simp add: res_simps)
    from Cons.IH [OF this] show ?thesis by auto
  next
    case False
    with Cons.prems k have "select_by_budget prn limit (kept @ [a]) dropped its = Inr (ks, n)" by (simp add: res_simps)
    from Cons.IH [OF this] obtain new where new: "ks = (kept @ [a]) @ new" "subseq new its"
      "length new + n = length its + dropped" "new = [] \<or> (\<exists>k. text_length (prn ks) = Inr k \<and> k \<le> limit)" by blast
    moreover have "\<exists>k. text_length (prn ks) = Inr k \<and> k \<le> limit" if "new = []" using that new(1) k False by auto
    ultimately show ?thesis by (intro exI [of _ "a # new"]) auto
  qed
qed

text \<open>What dropping items does to a draft: fewer items, each one counted.\<close>

definition thinner :: "draft \<Rightarrow> draft \<Rightarrow> bool" where
  "thinner d' d \<longleftrightarrow> subseq (middle d') (middle d) \<and> subseq (active d') (active d) \<and>
     length (middle d') + middle_dropped d' = length (middle d) + middle_dropped d \<and>
     length (active d') + active_dropped d' = length (active d) + active_dropped d"

lemma thinner_refl [simp]: "thinner d d"
  by (simp add: thinner_def)

lemma thinner_trans: "thinner d1 d2 \<Longrightarrow> thinner d2 d3 \<Longrightarrow> thinner d1 d3"
  by (auto simp: thinner_def intro: subseq_order.trans)

lemma subseq_without: "subseq (take j xs @ drop (Suc j) xs) xs"
proof -
  have "subseq (take j xs @ drop (Suc j) xs) (take j xs @ drop j xs)"
    by (intro list_emb_append_mono) (auto intro: suffix_imp_subseq simp: suffix_def drop_Suc drop_tl
        intro!: exI [of _ "take 1 (drop j xs)"] simp flip: drop_drop)
  then show ?thesis by simp
qed

lemma drop_thins: "drop_for_hard_limit d = Some d' \<Longrightarrow> thinner d' d"
proof -
  assume run: "drop_for_hard_limit d = Some d'"
  show ?thesis
  proof (cases "position_index (\<lambda>i. ContextItem.kind i = ContextItemKind.Recall) (rev (active d))")
    case None
    with run show ?thesis
      by (cases "middle d" rule: rev_cases)
        (auto simp: drop_for_hard_limit_def thinner_def split: if_splits intro: suffix_imp_subseq)
  next
    case (Some k)
    then have k: "k < length (active d)" by (auto dest: position_index_Some)
    with run Some show ?thesis
      by (auto simp: drop_for_hard_limit_def thinner_def Let_def subseq_without)
  qed
qed

text \<open>The snapshot the rounds settle on is one of a thinner draft; its report tells its own size.\<close>

lemma stabilize_settles:
  "stabilize pr index as_of profile anc limit rounds hint d = Inr snap \<Longrightarrow>
     \<exists>hint' d' n. thinner d' d \<and> draft_snapshot pr index as_of profile anc limit hint' d' = Inr snap \<and>
       text_length (snapshot_text pr snap) = Inr n \<and> n \<le> limit \<and> total_bytes (ContextSnapshot.budget_report snap) = n"
proof (induction rounds arbitrary: hint d)
  case 0
  then show ?case by simp
next
  case (Suc rounds)
  from Suc.prems obtain s0 n where s0: "draft_snapshot pr index as_of profile anc limit hint d = Inr s0"
    and n: "text_length (snapshot_text pr s0) = Inr n" by (auto simp: res_simps)
  consider (drop) d' where "n > limit" "drop_for_hard_limit d = Some d'"
      "stabilize pr index as_of profile anc limit rounds 0 d' = Inr snap"
    | (settled) "n \<le> limit" "total_bytes (ContextSnapshot.budget_report s0) = n" "s0 = snap"
    | (again) "stabilize pr index as_of profile anc limit rounds n d = Inr snap"
    using Suc.prems s0 n by (fastforce simp: res_simps split: if_splits option.splits)
  then show ?case
  proof cases
    case drop
    from Suc.IH [OF drop(3)] drop_thins [OF drop(2)] thinner_trans show ?thesis by blast
  next
    case settled
    with s0 n show ?thesis using thinner_refl by blast
  next
    case again
    from Suc.IH [OF this] show ?thesis .
  qed
qed

section \<open>The snapshot\<close>

lemma draft_snapshot_parts:
  assumes "draft_snapshot pr index as_of profile anc limit hint d = Inr snap"
  shows "collect_source_refs (print_lib pr) (anc @ middle d @ active d) profile as_of index =
      Inr (ContextSnapshot.source_refs snap)"
    and "snapshot_budget_report pr anc d hint limit = Inr (ContextSnapshot.budget_report snap)"
    and "ContextSnapshot.anchors snap = anc" "ContextSnapshot.compressed_middle snap = middle d" "ContextSnapshot.active_recent snap = active d"
      "response_profile snap = profile" "ContextSnapshot.as_of_revision snap = as_of"
  using assms by (auto simp: draft_snapshot_def res_simps)

lemma budget_report_counts:
  assumes "snapshot_budget_report pr anc d whole limit = Inr report"
  shows "included_items report = length anc + length (middle d) + length (active d)"
    "dropped_middle_items report = middle_dropped d" "dropped_active_items report = active_dropped d"
    "text_length (items_text pr anc) = Inr (SnapshotBudgetReport.anchor_bytes report)"
    "text_length (items_text pr (middle d)) = Inr (SnapshotBudgetReport.middle_bytes report)"
    "text_length (items_text pr (active d)) = Inr (SnapshotBudgetReport.active_bytes report)"
  using assms by (auto simp: snapshot_budget_report_def res_simps)

text \<open>How a snapshot is built: what there is to show, what of it fits, and what the rounds leave of that.\<close>

lemma build_context_snapshot_Inr:
  assumes "build_context_snapshot pr s events rq = Inr snap"
  shows "\<exists>profile anc ms recent d hint.
    build_anchors pr s rq (ContextBuildRequest.as_of_revision rq) (event_index events) = Inr anc \<and>
    build_middle pr s rq (ContextBuildRequest.as_of_revision rq) (event_index events) = Inr ms \<and>
    build_active_recent pr rq (ContextBuildRequest.as_of_revision rq) (event_index events) = Inr recent \<and>
    (\<exists>n. text_length (items_text pr anc) = Inr n \<and> n \<le> ContextBudget.anchor_bytes (ContextBuildRequest.budget rq)) \<and>
    subseq (middle d) (map MiddleCandidate.item ms) \<and> subseq (active d) recent \<and>
    length (middle d) + middle_dropped d = length ms \<and> length (active d) + active_dropped d = length recent \<and>
    draft_snapshot pr (event_index events) (ContextBuildRequest.as_of_revision rq) profile anc
      (ContextBudget.hard_limit_bytes (ContextBuildRequest.budget rq)) hint d = Inr snap \<and>
    (\<exists>n. text_length (snapshot_text pr snap) = Inr n \<and>
       n \<le> ContextBudget.hard_limit_bytes (ContextBuildRequest.budget rq) \<and> total_bytes (ContextSnapshot.budget_report snap) = n)"
proof -
  let ?as_of = "ContextBuildRequest.as_of_revision rq" and ?b = "ContextBuildRequest.budget rq"
  let ?index = "event_index events"
  from assms obtain profile anc n ms mid md recent act ad where
    anc: "build_anchors pr s rq ?as_of ?index = Inr anc"
    and n: "text_length (items_text pr anc) = Inr n" "\<not> n > ContextBudget.anchor_bytes ?b"
    and ms: "build_middle pr s rq ?as_of ?index = Inr ms"
    and mid: "select_by_budget (items_text pr) (ContextBudget.middle_bytes ?b) [] 0 (map MiddleCandidate.item ms) = Inr (mid, md)"
    and recent: "build_active_recent pr rq ?as_of ?index = Inr recent"
    and act: "select_by_budget (items_text pr) (ContextBudget.active_bytes ?b) [] 0 recent = Inr (act, ad)"
    and st: "stabilize pr ?index ?as_of profile anc (ContextBudget.hard_limit_bytes ?b) 8 0
      \<lparr>middle = mid, active = act, middle_dropped = md, active_dropped = ad\<rparr> = Inr snap"
    by (auto simp: build_context_snapshot_def build_with_profile_def Let_def res_simps split: if_splits)
  from stabilize_settles [OF st] obtain hint d k where
    thin: "thinner d \<lparr>middle = mid, active = act, middle_dropped = md, active_dropped = ad\<rparr>"
    and snap: "draft_snapshot pr ?index ?as_of profile anc (ContextBudget.hard_limit_bytes ?b) hint d = Inr snap"
    and k: "text_length (snapshot_text pr snap) = Inr k" "k \<le> ContextBudget.hard_limit_bytes ?b"
      "total_bytes (ContextSnapshot.budget_report snap) = k" by blast
  from select_keeps [OF mid] select_keeps [OF act] have
    "subseq mid (map MiddleCandidate.item ms)" "length mid + md = length ms" "subseq act recent"
    "length act + ad = length recent" by auto
  with thin have "subseq (middle d) (map MiddleCandidate.item ms)" "subseq (active d) recent"
    "length (middle d) + middle_dropped d = length ms" "length (active d) + active_dropped d = length recent"
    by (auto simp: thinner_def intro: subseq_order.trans)
  with anc ms recent n snap k show ?thesis by (metis not_le_imp_less)
qed

lemma snapshot_refs:
  assumes "collect_source_refs x its profile as_of (event_index es) = Inr refs"
  shows "\<forall>r \<in> set refs. ref_grounded x as_of es r"
    and "inj (uuid_text x) \<Longrightarrow> ci \<in> set its \<Longrightarrow> i \<in> set (ContextItem.source_event_ids ci) \<Longrightarrow>
      i \<in> ContextSourceRef.event_id ` set refs"
    and "inj (uuid_text x) \<Longrightarrow> ev \<in> set (ResponseProfile.evidence profile) \<Longrightarrow>
      ResponsePreferenceEvidence.source_event_id ev \<in> ContextSourceRef.event_id ` set refs"
proof -
  from assms obtain m where run: "item_refs x as_of (event_index es)
      (concat (map (\<lambda>i. map (\<lambda>e. (e, ContextItem.entity i)) (ContextItem.source_event_ids i)) its) @
       map (\<lambda>ev. (ResponsePreferenceEvidence.source_event_id ev,
         Some (entity_ref EntityKind.Memory (memory_id ev)))) (ResponseProfile.evidence profile)) [] = Inr m"
    and refs: "refs = bt_values m"
    by (auto simp: collect_source_refs_def res_simps)
  show "\<forall>r \<in> set refs. ref_grounded x as_of es r"
    using item_refs_grounded [OF run] by (simp add: refs bt_values_def)
  note cover = item_refs_cover [OF run]
  show "i \<in> ContextSourceRef.event_id ` set refs"
    if "inj (uuid_text x)" "ci \<in> set its" "i \<in> set (ContextItem.source_event_ids ci)"
    unfolding refs using cover [OF that(1), of i "ContextItem.entity ci"] that(2,3) by force
  show "ResponsePreferenceEvidence.source_event_id ev \<in> ContextSourceRef.event_id ` set refs"
    if "inj (uuid_text x)" "ev \<in> set (ResponseProfile.evidence profile)"
    unfolding refs using cover [OF that(1), of "ResponsePreferenceEvidence.source_event_id ev"
        "Some (entity_ref EntityKind.Memory (memory_id ev))"] that(2) by force
qed

end
