(* ===== verification/FocusCommit.thy ===== *)
theory FocusCommit
  imports Continuity AgendaFacts EngineFacts InteractionLedger
begin

text \<open>
  The batch that records the resolution of an observation is never refused by the projector.
\<close>

section \<open>What the projector accepts\<close>

text \<open>
  What the resolution of an observation plans is what the projector accepts: the candidates match
  the state, their evidence is on the ledger, and the focus is work of the user that is under way,
  a conversation, or a question.
\<close>

subsection \<open>Text\<close>

lemma visible_front: "list_all (\<lambda>w. w \<noteq> [] \<and> hd w \<noteq> c) seqs \<Longrightarrow> leading seqs (c # s) = None"
  by (induction seqs) (auto simp: leading_def starts_with_def neq_Nil_conv)

lemma visible_stays:
  "list_all (\<lambda>w. w \<noteq> [] \<and> last w \<noteq> c) seqs \<Longrightarrow> strip_front seqs (s @ [c]) \<noteq> []"
proof (induction "length s" arbitrary: s rule: less_induct)
  case less
  show ?case
  proof (cases "leading seqs (s @ [c])")
    case None
    then show ?thesis by (simp add: strip_front_id)
  next
    case (Some w)
    from leading_Some [OF this] have w: "w \<noteq> []" "take (length w) (s @ [c]) = w" by auto
    have "w \<in> set seqs" using Some by (auto simp: leading_def find_Some_iff)
    with less.prems have "last w \<noteq> c" by (auto simp: list_all_iff)
    with w have short: "length w \<le> length s" by (metis last_snoc length_append_singleton not_less_eq_eq take_all)
    then have "strip_front seqs (s @ [c]) = strip_front seqs (drop (length w) s @ [c])"
      using Some by (simp add: strip_front.simps [of seqs "s @ [c]"])
    moreover have "length (drop (length w) s) < length s" using w(1) short by (cases w) auto
    ultimately show ?thesis using less.hyps [OF _ less.prems] by simp
  qed
qed

lemma visible_not_blank:
  assumes "list_all (\<lambda>w. w \<noteq> [] \<and> hd w \<noteq> c) white_space"
  shows "\<not> blank (c # s)"
proof -
  have "trim_start (c # s) = c # s"
    unfolding trim_start_def by (rule strip_front_id [OF visible_front [OF assms]])
  moreover have "list_all (\<lambda>w. w \<noteq> [] \<and> last w \<noteq> c) (map rev white_space)"
    using assms by (auto simp: list_all_iff last_rev)
  ultimately show ?thesis
    using visible_stays [of c "map rev white_space" "rev s"] by (simp add: blank_def trim_def trim_end_def)
qed

lemma words_not_blank [simp]:
  "\<not> blank (CHR ''I'' # t)" "\<not> blank (CHR ''T'' # t)" "\<not> blank (CHR ''W'' # t)" "\<not> blank (CHR ''R'' # t)"
  by (rule visible_not_blank, simp add: white_space_def)+

lemma question_not_blank [simp]: "\<not> blank (candidate_question rd cs)"
  by (simp add: candidate_question_def)

subsection \<open>Candidates\<close>

text \<open>What the projector asks of a candidate.\<close>

definition candidate_holds :: "CurrentState \<Rightarrow> PrincipalId \<Rightarrow> FocusCandidate \<Rightarrow> bool" where
  "candidate_holds s actor c \<longleftrightarrow>
     (\<exists>t g. bt_get (tasks s) (FocusCandidate.task_id c) = Some t \<and>
        bt_get (goals s) (FocusCandidate.goal_id c) = Some g \<and>
        Task.goal_id t = Some (FocusCandidate.goal_id c) \<and> Task.title t = task_title c \<and>
        Task.status t = task_status c \<and> Goal.title g = goal_title c \<and> goal_open_to g actor \<and>
        set (FocusCandidate.evidence_event_ids c) \<subseteq> set (applied_events s) \<and>
        (\<forall>r. FocusCandidate.run_id c = Some r \<longrightarrow>
           (\<exists>rn. bt_get (runs s) r = Some rn \<and> Run.task_id rn = Some (FocusCandidate.task_id c))))"

lemma check_candidates:
  "\<forall>c \<in> set cs. candidate_holds s actor c \<Longrightarrow> check_focus_candidates s k actor cs = Inr ()"
proof (induction cs)
  case (Cons c cs)
  then obtain t g where "bt_get (tasks s) (FocusCandidate.task_id c) = Some t"
    "bt_get (goals s) (FocusCandidate.goal_id c) = Some g" "Task.goal_id t = Some (FocusCandidate.goal_id c)"
    "Task.title t = task_title c" "Task.status t = task_status c" "Goal.title g = goal_title c"
    "goal_open_to g actor" "set (FocusCandidate.evidence_event_ids c) \<subseteq> set (applied_events s)"
    "\<forall>r. FocusCandidate.run_id c = Some r \<longrightarrow>
       (\<exists>rn. bt_get (runs s) r = Some rn \<and> Run.task_id rn = Some (FocusCandidate.task_id c))"
    by (auto simp: candidate_holds_def)
  with Cons show ?case by (cases "FocusCandidate.run_id c") auto
qed simp

lemma append_found_ids:
  "set (append_found P events out) \<subseteq> set out \<union> ExperienceEvent.event_id ` set events"
  by (auto simp: append_found_def push_unique_def find_Some_iff split: option.splits if_splits)

lemma append_ids:
  "set out \<subseteq> ExperienceEvent.event_id ` set events \<Longrightarrow>
     set (append_subject_event events k u out) \<subseteq> ExperienceEvent.event_id ` set events"
  "set out \<subseteq> ExperienceEvent.event_id ` set events \<Longrightarrow>
     set (append_observation_event events oid out) \<subseteq> ExperienceEvent.event_id ` set events"
  "set out \<subseteq> ExperienceEvent.event_id ` set events \<Longrightarrow>
     set (append_correlation_event events k corr out) \<subseteq> ExperienceEvent.event_id ` set events"
  using append_found_ids [where events = events and out = out]
  unfolding append_subject_event_def append_observation_event_def append_correlation_event_def by blast+

lemma thread_evidence_ids:
  assumes "set out \<subseteq> ExperienceEvent.event_id ` set events"
  shows "set (thread_evidence rd s events obs tid out) \<subseteq> ExperienceEvent.event_id ` set events"
proof -
  have "set (foldl (\<lambda>out p. append_correlation_event events FocusResolved (id_text (strings rd) (Observation.id p))
        (append_observation_event events (Observation.id p) out)) out ps) \<subseteq> ExperienceEvent.event_id ` set events" for ps
    using assms by (induction ps arbitrary: out) (simp_all add: append_ids)
  then show ?thesis unfolding thread_evidence_def .
qed

text \<open>The state the resolution reads: a projection of the events it is given.\<close>

definition reads_ledger :: "CurrentState \<Rightarrow> ExperienceEvent list \<Rightarrow> bool" where
  "reads_ledger s events \<longleftrightarrow> keyed Task.id (tasks s) \<and> keyed Run.id (runs s) \<and>
     applied_events s = map ExperienceEvent.event_id events"

lemma max_by_in: "max_by le xs = Some r \<Longrightarrow> r \<in> set xs"
proof -
  have "foldl (\<lambda>b y. if le b y then y else b) x ys \<in> insert x (set ys)" for x ys
    by (induction ys arbitrary: x) (simp_all, blast+)
  then show "max_by le xs = Some r \<Longrightarrow> r \<in> set xs" by (cases xs) auto
qed

lemma task_run_Some:
  assumes "task_run s tid = Some r" and "keyed Run.id (runs s)"
  shows "bt_get (runs s) (Run.id r) = Some r" "Run.task_id r = Some tid" "live_run r"
  using assms max_by_in [of _ _ r] by (fastforce simp: task_run_def keyed_values)+

text \<open>A candidate stands for a task of the state.\<close>

definition candidate_of :: "CurrentState \<Rightarrow> PrincipalId \<Rightarrow> Task \<Rightarrow> FocusCandidate \<Rightarrow> bool" where
  "candidate_of s actor t c \<longleftrightarrow> candidate_holds s actor c \<and> FocusCandidate.task_id c = Task.id t \<and>
     bt_get (tasks s) (Task.id t) = Some t"

lemma task_reference_holds:
  assumes run: "task_reference rd s events obs actor t = Some c" and s: "reads_ledger s events"
    and t: "bt_get (tasks s) (Task.id t) = Some t"
  shows "candidate_of s actor t (TaskCandidate.record c)"
proof -
  from run obtain gid g where g: "Task.goal_id t = Some gid" "bt_get (goals s) gid = Some g" "goal_open_to g actor"
    by (auto simp: task_reference_def goal_open_to_def split: Option.bind_splits if_splits)
  have ids: "set (append_subject_event events TaskCreated (uuid (Task.id t))
      (append_subject_event events GoalCreated (uuid gid) [])) \<subseteq> ExperienceEvent.event_id ` set events"
    by (intro append_ids) simp
  have "set (FocusCandidate.evidence_event_ids (TaskCandidate.record c)) \<subseteq> ExperienceEvent.event_id ` set events"
    using run g ids
    by (auto simp: task_reference_def Let_def goal_open_to_def split: option.splits if_splits
        dest!: subsetD [OF thread_evidence_ids, rotated] subsetD [OF append_ids(1), rotated])
  then have "set (FocusCandidate.evidence_event_ids (TaskCandidate.record c)) \<subseteq> set (applied_events s)"
    using s by (simp add: reads_ledger_def)
  moreover have "FocusCandidate.run_id (TaskCandidate.record c) = map_option Run.id (task_run s (Task.id t))"
    "FocusCandidate.task_id (TaskCandidate.record c) = Task.id t"
    "FocusCandidate.goal_id (TaskCandidate.record c) = gid" "goal_title (TaskCandidate.record c) = Goal.title g"
    "task_title (TaskCandidate.record c) = Task.title t" "task_status (TaskCandidate.record c) = Task.status t"
    using run g by (auto simp: task_reference_def Let_def goal_open_to_def)
  ultimately show ?thesis
    using t g task_run_Some [of s "Task.id t"] s
    by (auto simp: candidate_of_def candidate_holds_def reads_ledger_def)
qed

text \<open>Active candidates: the task is in progress, its goal active.\<close>

definition under_way :: "CurrentState \<Rightarrow> PrincipalId \<Rightarrow> FocusCandidate \<Rightarrow> bool" where
  "under_way s actor c \<longleftrightarrow>
     (\<exists>t. candidate_of s actor t c \<and> Task.status t = TaskStatus.InProgress \<and> goal_active s (FocusCandidate.goal_id c))"

lemma under_way_holds: "under_way s actor c \<Longrightarrow> candidate_holds s actor c"
  by (auto simp: under_way_def candidate_of_def)

lemma active_tasks_under_way:
  assumes "c \<in> set (active_tasks rd s events obs actor)" and s: "reads_ledger s events"
  shows "under_way s actor (TaskCandidate.record c)"
proof -
  from assms(1) obtain t where t: "t \<in> set (bt_values (tasks s))"
    and c: "task_reference rd s events obs actor t = Some c"
    and ok: "task_status (TaskCandidate.record c) = TaskStatus.InProgress"
      "goal_active s (FocusCandidate.goal_id (TaskCandidate.record c))"
    by (auto simp: active_tasks_def map_filter_def)
  have "bt_get (tasks s) (Task.id t) = Some t" using t s keyed_values [of Task.id "tasks s" t] by (simp add: reads_ledger_def)
  from task_reference_holds [OF c s this] have "candidate_of s actor t (TaskCandidate.record c)" .
  moreover from this ok(1) have "Task.status t = TaskStatus.InProgress"
    by (auto simp: candidate_of_def candidate_holds_def)
  ultimately show ?thesis using ok(2) by (auto simp: under_way_def)
qed

subsection \<open>Plans\<close>

text \<open>The maps once the goal, the task and the run of a plan are recorded.\<close>

definition with_new :: "('v \<Rightarrow> 'k::linorder) \<Rightarrow> 'v option \<Rightarrow> ('k, 'v) btree \<Rightarrow> ('k, 'v) btree" where
  "with_new kf ov m = (case ov of None \<Rightarrow> m | Some v \<Rightarrow> bt_insert (kf v) v m)"

definition installed :: "FocusPlan \<Rightarrow> CurrentState \<Rightarrow> CurrentState \<Rightarrow> bool" where
  "installed p s s1 \<longleftrightarrow>
     goals s1 = with_new Goal.id (FocusPlan.goal p) (goals s) \<and>
     tasks s1 = with_new Task.id (FocusPlan.task p) (tasks s) \<and>
     runs s1 = with_new Run.id (FocusPlan.run p) (runs s) \<and>
     set (applied_events s) \<subseteq> set (applied_events s1)"

definition unused_ids :: "reading \<Rightarrow> CurrentState \<Rightarrow> bool" where
  "unused_ids rd s \<longleftrightarrow> bt_get (goals s) (from_uuid (new_uuid rd ''goal'')) = None \<and>
     bt_get (tasks s) (from_uuid (new_uuid rd ''task'')) = None \<and>
     bt_get (runs s) (from_uuid (new_uuid rd ''run'')) = None"

definition new_under :: "reading \<Rightarrow> FocusPlan \<Rightarrow> bool" where
  "new_under rd p \<longleftrightarrow> (\<forall>g. FocusPlan.goal p = Some g \<longrightarrow> Goal.id g = from_uuid (new_uuid rd ''goal'')) \<and>
     (\<forall>t. FocusPlan.task p = Some t \<longrightarrow> Task.id t = from_uuid (new_uuid rd ''task'')) \<and>
     (\<forall>r. FocusPlan.run p = Some r \<longrightarrow> Run.id r = from_uuid (new_uuid rd ''run''))"

lemma with_new_keeps:
  "bt_get m k = Some v \<Longrightarrow> (\<And>w. ov = Some w \<Longrightarrow> bt_get m (kf w) = None) \<Longrightarrow> bt_get (with_new kf ov m) k = Some v"
  by (auto simp: with_new_def split: option.splits)

lemma installed_keeps:
  assumes "installed p s s1" and "unused_ids rd s" and "new_under rd p"
  shows "bt_get (goals s) i = Some g \<Longrightarrow> bt_get (goals s1) i = Some g"
    and "bt_get (tasks s) j = Some t \<Longrightarrow> bt_get (tasks s1) j = Some t"
    and "bt_get (runs s) l = Some r \<Longrightarrow> bt_get (runs s1) l = Some r"
  using assms by (auto simp: installed_def unused_ids_def new_under_def intro!: with_new_keeps)

text \<open>A plan the projector accepts.\<close>

definition acceptable :: "reading \<Rightarrow> CurrentState \<Rightarrow> PrincipalId \<Rightarrow> FocusPlan \<Rightarrow> bool" where
  "acceptable rd s actor p \<longleftrightarrow> new_under rd p \<and>
     (\<forall>c \<in> set (FocusResolution.candidates (FocusPlan.resolution p)). candidate_holds s actor c) \<and>
     (\<forall>s1 k. installed p s s1 \<and> unused_ids rd s \<longrightarrow> focus_is_valid s1 k actor (FocusPlan.resolution p) = Inr True) \<and>
     FocusResolution.as_of_revision (FocusPlan.resolution p) = CurrentState.revision s"

lemma acceptable_candidates:
  assumes "acceptable rd s actor p" and "unused_ids rd s" and "installed p s s1"
  shows "check_focus_candidates s1 k actor (FocusResolution.candidates (FocusPlan.resolution p)) = Inr ()"
proof (rule check_candidates, rule ballI)
  fix c assume "c \<in> set (FocusResolution.candidates (FocusPlan.resolution p))"
  with assms(1) have "candidate_holds s actor c" and new: "new_under rd p" by (auto simp: acceptable_def)
  then obtain t g where tg: "bt_get (tasks s) (FocusCandidate.task_id c) = Some t"
    "bt_get (goals s) (FocusCandidate.goal_id c) = Some g" "Task.goal_id t = Some (FocusCandidate.goal_id c)"
    "Task.title t = task_title c" "Task.status t = task_status c" "Goal.title g = goal_title c"
    "goal_open_to g actor" "set (FocusCandidate.evidence_event_ids c) \<subseteq> set (applied_events s)"
    and r: "\<forall>r. FocusCandidate.run_id c = Some r \<longrightarrow>
           (\<exists>rn. bt_get (runs s) r = Some rn \<and> Run.task_id rn = Some (FocusCandidate.task_id c))"
    unfolding candidate_holds_def by blast
  note keep = installed_keeps [OF assms(3,2) new]
  have "set (FocusCandidate.evidence_event_ids c) \<subseteq> set (applied_events s1)"
    using tg(8) assms(3) by (auto simp: installed_def)
  with keep(1) [OF tg(2)] keep(2) [OF tg(1)] tg r keep(3) show "candidate_holds s1 actor c"
    unfolding candidate_holds_def by blast
qed

lemma clarify_acceptable:
  assumes "\<forall>c \<in> set cs. candidate_holds s actor (TaskCandidate.record c)" and "\<And>u. q = Some u \<Longrightarrow> \<not> blank u"
  shows "acceptable rd s actor (clarify rd s obs b cs q)"
  using assms
  by (cases q) (auto simp: acceptable_def clarify_def plan_def Let_def new_under_def focus_is_valid_def unattached_def)

lemma clarify_nothing: "\<not> blank u \<Longrightarrow> acceptable rd s actor (clarify rd s obs b [] (Some u))"
  by (rule clarify_acceptable) auto

lemma conversation_acceptable:
  assumes "\<forall>c \<in> set cs. candidate_holds s actor (TaskCandidate.record c)"
  shows "acceptable rd s actor (conversation rd s obs cs)"
  using assms
  by (auto simp: acceptable_def conversation_def plan_def Let_def new_under_def focus_is_valid_def running_def
      installed_def with_new_def)

lemma new_work_acceptable:
  assumes "new_work rd s obs actor hid cs = Some p" and "\<forall>c \<in> set cs. candidate_holds s actor (TaskCandidate.record c)"
  shows "acceptable rd s actor p"
  using assms
  by (auto simp: acceptable_def new_work_def plan_def Let_def new_under_def focus_is_valid_def running_def
      installed_def with_new_def goal_open_to_def)

text \<open>Work that goes on: in the run it is told, in the task's own live run, or in a new one.\<close>

lemma continue_acceptable:
  assumes c: "under_way s actor (TaskCandidate.record c)" and keyed: "keyed Run.id (runs s)"
    and forced: "\<And>r. forced = Some r \<Longrightarrow> bt_get (runs s) (Run.id r) = Some r \<and>
      Run.task_id r = Some (FocusCandidate.task_id (TaskCandidate.record c)) \<and> live_run r"
  shows "acceptable rd s actor (continue_task rd s obs c b forced)"
proof -
  let ?k = "TaskCandidate.record c" and ?p = "continue_task rd s obs c b forced"
  from c obtain t g where t: "bt_get (tasks s) (FocusCandidate.task_id ?k) = Some t" "Task.status t = TaskStatus.InProgress"
      "Task.goal_id t = Some (FocusCandidate.goal_id ?k)" "bt_get (goals s) (FocusCandidate.goal_id ?k) = Some g"
      "goal_open_to g actor" "Goal.status g = GoalStatus.Active"
    by (auto simp: under_way_def candidate_of_def candidate_holds_def goal_active_def)
  define found where "found = (case forced of Some r \<Rightarrow> Some r | None \<Rightarrow> task_run s (FocusCandidate.task_id ?k))"
  have found: "bt_get (runs s) (Run.id r) = Some r \<and> Run.task_id r = Some (FocusCandidate.task_id ?k) \<and> live_run r"
    if "found = Some r" for r
    using that forced task_run_Some [OF _ keyed] by (auto simp: found_def split: option.splits)
  have p: "?p = (plan s obs Continue b \<lparr>Focus.goal_id = Some (FocusCandidate.goal_id ?k),
      task_id = Some (FocusCandidate.task_id ?k),
      run_id = Some (case found of Some r \<Rightarrow> Run.id r | None \<Rightarrow> from_uuid (new_uuid rd ''run''))\<rparr> [?k] None)
      \<lparr>FocusPlan.run := (case found of Some r \<Rightarrow> None | None \<Rightarrow> Some (running rd (Some (FocusCandidate.task_id ?k))))\<rparr>"
    unfolding continue_task_def found_def Let_def by (simp add: running_def split: option.split)
  have new: "new_under rd ?p" unfolding p by (auto simp: new_under_def plan_def running_def split: option.splits)
  have "focus_is_valid s1 k actor (FocusPlan.resolution ?p) = Inr True"
    if inst: "installed ?p s s1" and fresh: "unused_ids rd s" for s1 k
  proof -
    note keep = installed_keeps [OF inst fresh new]
    have "\<exists>rn. bt_get (runs s1) (case found of Some r \<Rightarrow> Run.id r | None \<Rightarrow> from_uuid (new_uuid rd ''run'')) = Some rn \<and>
        Run.task_id rn = Some (FocusCandidate.task_id ?k) \<and> live_run rn"
    proof (cases found)
      case None
      with inst show ?thesis unfolding p by (simp add: installed_def with_new_def running_def live_run_def)
    next
      case (Some r)
      with found [OF Some] keep(3) show ?thesis by auto
    qed
    then show ?thesis
      using keep(1) [OF t(4)] keep(2) [OF t(1)] t unfolding p
      by (auto simp: focus_is_valid_def plan_def live_run_def)
  qed
  with new under_way_holds [OF c] show ?thesis
    unfolding acceptable_def by (simp add: p plan_def)
qed

subsection \<open>The resolution\<close>

lemma only_one: "filter P [0..<n] = [j] \<Longrightarrow> j < n"
  by (metis atLeastLessThan_iff filter_is_subset list.set_intros(1) set_upt subset_iff)

lemma match_text_within:
  "match_text rd u cs = Unique i \<Longrightarrow> i < length cs"
  "match_text rd u cs = Uncertain js \<Longrightarrow> \<forall>j \<in> set js. j < length cs"
proof -
  show "i < length cs" if m: "match_text rd u cs = Unique i"
  proof -
    obtain P where one: "length (filter P [0..<length cs]) = 1" and i: "i = hd (filter P [0..<length cs])"
      using m by (auto simp: match_text_def Let_def split: if_splits)
    from one obtain j where j: "filter P [0..<length cs] = [j]" by (auto simp: length_Suc_conv)
    with i only_one [OF j] show ?thesis by simp
  qed
  show "match_text rd u cs = Uncertain js \<Longrightarrow> \<forall>j \<in> set js. j < length cs"
    by (auto simp: match_text_def Let_def split: if_splits)
qed

lemma choose_acceptable:
  assumes cs: "\<forall>c \<in> set cs. under_way s actor (TaskCandidate.record c)" and keyed: "keyed Run.id (runs s)"
  shows "acceptable rd s actor (choose_from_pool rd s obs cs b ask)"
proof -
  note holds = under_way_holds
  have cont: "acceptable rd s actor (continue_task rd s obs c b' None)" if "c \<in> set cs" for c b'
    using continue_acceptable [OF _ keyed] cs that by blast
  have ask: "acceptable rd s actor (clarify rd s obs b' ds None)" if "set ds \<subseteq> set cs" for ds b'
    using clarify_acceptable [of ds s actor None] cs holds that by blast
  show ?thesis
  proof (cases "cs = []")
    case True
    then show ?thesis by (simp add: choose_from_pool_def clarify_nothing)
  next
    case False
    let ?near = "filter (\<lambda>i. same_thread (cs ! i)) [0..<length cs]"
    have near: "cs ! hd ?near \<in> set cs" if "length ?near = 1"
    proof -
      from that obtain i where "?near = [i]" by (auto simp: length_Suc_conv)
      with only_one [OF this] show ?thesis by simp
    qed
    have hd_cs: "hd cs \<in> set cs" using False by simp
    show ?thesis
    proof (cases "match_text rd (Observation.content obs) cs")
      case NoMatch
      with False near hd_cs show ?thesis by (auto simp: choose_from_pool_def Let_def intro!: cont ask)
    next
      case (Unique i)
      with match_text_within(1) [OF Unique] False near show ?thesis
        by (auto simp: choose_from_pool_def Let_def intro!: cont)
    next
      case (Uncertain js)
      have "set (map ((!) cs) js) \<subseteq> set cs" using match_text_within(2) [OF Uncertain] by auto
      with Uncertain False near hd_cs show ?thesis
        by (auto simp: choose_from_pool_def Let_def simp del: set_map intro!: cont ask)
    qed
  qed
qed

section \<open>The resolution of references\<close>

lemma reference_acceptable:
  assumes s: "reads_ledger s events" and cs: "\<forall>c \<in> set cs. under_way s actor (TaskCandidate.record c)"
  shows "acceptable rd s actor (resolve_reference rd s events obs actor cs ref)"
proof -
  have keyed: "keyed Run.id (runs s)" "keyed Task.id (tasks s)" using s by (simp_all add: reads_ledger_def)
  note none = clarify_nothing
  have one: "acceptable rd s actor (clarify rd s obs b [c] (Some u))"
    if "candidate_of s actor t (TaskCandidate.record c)" "\<not> blank u" for b c u t
    by (rule clarify_acceptable) (use that in \<open>auto simp: candidate_of_def\<close>)
  have at_id: "bt_get (tasks s) tid = Some t \<Longrightarrow> bt_get (tasks s) (Task.id t) = Some t" for tid t
    using keyed(2) by (metis keyed_def)
  show ?thesis
  proof (cases ref)
    case (TaskReference tid)
    show ?thesis
    proof (cases "bt_get (tasks s) tid")
      case None
      then show ?thesis by (simp add: TaskReference resolve_reference_def resolve_task_reference_def none)
    next
      case (Some t)
      show ?thesis
      proof (cases "task_reference rd s events obs actor t")
        case None
        then show ?thesis by (simp add: TaskReference Some resolve_reference_def resolve_task_reference_def none)
      next
        case (Some c)
        have c: "candidate_of s actor t (TaskCandidate.record c)"
          using task_reference_holds [OF Some s at_id [OF \<open>bt_get (tasks s) tid = Some t\<close>]] .
        have "acceptable rd s actor (continue_task rd s obs c ExplicitTask None)"
          if "Task.status t = TaskStatus.InProgress" "goal_active s (FocusCandidate.goal_id (TaskCandidate.record c))"
          by (rule continue_acceptable [OF _ keyed(1)]) (use c that in \<open>auto simp: under_way_def\<close>)
        with Some \<open>bt_get (tasks s) tid = Some t\<close> one [OF c] show ?thesis
          by (simp add: TaskReference resolve_reference_def resolve_task_reference_def)
      qed
    qed
  next
    case (GoalReference gid)
    have "acceptable rd s actor (choose_from_pool rd s obs
        (filter (\<lambda>c. FocusCandidate.goal_id (TaskCandidate.record c) = gid) cs) b ask)" for b ask
      by (rule choose_acceptable [OF _ keyed(1)]) (use cs in auto)
    then show ?thesis
      by (simp add: GoalReference resolve_reference_def resolve_goal_reference_def Let_def none)
  next
    case (RunReference rid)
    show ?thesis
    proof (cases "bt_get (runs s) rid")
      case None
      then show ?thesis by (simp add: RunReference resolve_reference_def resolve_run_reference_def none)
    next
      case (Some r)
      show ?thesis
      proof (cases "owned_run_task s actor r")
        case None
        with Some show ?thesis by (simp add: RunReference resolve_reference_def resolve_run_reference_def none)
      next
        case own: (Some t)
        then obtain tid where t: "Run.task_id r = Some tid" "bt_get (tasks s) tid = Some t"
          by (auto simp: owned_run_task_def split: Option.bind_splits if_splits)
        then have tid: "Task.id t = tid" using keyed(2) by (simp add: keyed_def)
        have r: "bt_get (runs s) (Run.id r) = Some r" using Some keyed(1) by (metis keyed_def)
        show ?thesis
        proof (cases "find (\<lambda>c. FocusCandidate.task_id (TaskCandidate.record c) = Task.id t) cs")
          case None
          have "acceptable rd s actor (clarify rd s obs ClosedWorkReference
              (case task_reference rd s events obs actor t of None \<Rightarrow> [] | Some c \<Rightarrow> [c]) (Some u))"
            if "\<not> blank u" for u
          proof (cases "task_reference rd s events obs actor t")
            case (Some x)
            from one [OF task_reference_holds [OF Some s at_id [OF t(2)]] that] Some show ?thesis
              using tid t(2) by simp
          qed (simp add: none that)
          with None own Some show ?thesis
            by (simp add: RunReference resolve_reference_def resolve_run_reference_def)
        next
          case (Some c)
          then have "c \<in> set cs" and task: "FocusCandidate.task_id (TaskCandidate.record c) = Task.id t"
            by (auto simp: find_Some_iff)
          with cs have c: "under_way s actor (TaskCandidate.record c)" by blast
          have "acceptable rd s actor (clarify rd s obs b [c] (Some u))" if "\<not> blank u" for b u
            by (rule clarify_acceptable) (use that under_way_holds [OF c] in auto)
          moreover have "acceptable rd s actor (continue_task rd s obs c ExplicitRun (Some r))" if "live_run r"
            by (rule continue_acceptable [OF c keyed(1)]) (use that r t tid task in auto)
          ultimately show ?thesis
            using \<open>bt_get (runs s) rid = Some r\<close> own Some
            by (simp add: RunReference resolve_reference_def resolve_run_reference_def)
        qed
      qed
    qed
  qed
qed

lemma resolve_acceptable:
  assumes run: "resolve rd s events obs actor hid = Some p" and s: "reads_ledger s events"
  shows "acceptable rd s actor p"
proof -
  have keyed: "keyed Run.id (runs s)" using s by (simp add: reads_ledger_def)
  let ?cs = "active_tasks rd s events obs actor"
  have cs: "\<forall>c \<in> set ?cs. under_way s actor (TaskCandidate.record c)"
    using active_tasks_under_way [OF _ s] by blast
  then have holds: "\<forall>c \<in> set ?cs. candidate_holds s actor (TaskCandidate.record c)"
    using under_way_holds by blast
  show ?thesis
  proof (cases "has_new_work_intent rd (Observation.content obs)")
    case True
    with run new_work_acceptable holds show ?thesis by (simp add: resolve_def Let_def)
  next
    case False
    have conv: "acceptable rd s actor (conversation rd s obs ?cs)" by (rule conversation_acceptable [OF holds])
    have by_words: "acceptable rd s actor (case match_text rd (Observation.content obs) ?cs of
          Unique i \<Rightarrow> continue_task rd s obs (?cs ! i) StrongTextMatch None
        | Uncertain js \<Rightarrow> clarify rd s obs AmbiguousCandidates (map ((!) ?cs) js) None
        | NoMatch \<Rightarrow> conversation rd s obs ?cs)"
    proof (cases "match_text rd (Observation.content obs) ?cs")
      case NoMatch
      then show ?thesis using conv by simp
    next
      case (Unique i)
      with match_text_within(1) [OF Unique] cs show ?thesis
        using continue_acceptable [OF _ keyed, of actor "?cs ! i" None] by simp
    next
      case (Uncertain js)
      have "\<forall>c \<in> set (map ((!) ?cs) js). candidate_holds s actor (TaskCandidate.record c)"
        using match_text_within(2) [OF Uncertain] holds by auto
      then have "acceptable rd s actor (clarify rd s obs AmbiguousCandidates (map ((!) ?cs) js) None)"
        by (rule clarify_acceptable) simp
      with Uncertain show ?thesis by simp
    qed
    with False run conv reference_acceptable [OF s cs] choose_acceptable [OF cs keyed] show ?thesis
      by (auto simp: resolve_def Let_def split: option.splits if_splits)
  qed
qed

text \<open>A plan is about the observation it was made for.\<close>

lemma plans_about:
  "FocusResolution.observation_id (FocusPlan.resolution (clarify rd s obs b cs q)) = Observation.id obs"
  "FocusResolution.observation_id (FocusPlan.resolution (conversation rd s obs cs)) = Observation.id obs"
  "FocusResolution.observation_id (FocusPlan.resolution (continue_task rd s obs c b forced)) = Observation.id obs"
  by (simp_all add: clarify_def conversation_def continue_task_def plan_def Let_def)

lemma resolve_about:
  assumes "resolve rd s events obs actor hid = Some p"
  shows "FocusResolution.observation_id (FocusPlan.resolution p) = Observation.id obs"
proof -
  have new: "FocusResolution.observation_id (FocusPlan.resolution q) = Observation.id obs"
    if "new_work rd s obs actor hid cs = Some q" for cs q
    using that by (auto simp: new_work_def plan_def Let_def)
  have pool: "FocusResolution.observation_id (FocusPlan.resolution (choose_from_pool rd s obs cs b ask)) = Observation.id obs"
    for cs b ask by (simp add: choose_from_pool_def Let_def plans_about split: TextMatch.split)
  have "FocusResolution.observation_id (FocusPlan.resolution (resolve_reference rd s events obs actor cs ref)) = Observation.id obs"
    for cs ref
    by (simp add: resolve_reference_def resolve_task_reference_def resolve_goal_reference_def resolve_run_reference_def
        plans_about pool Let_def split: WorkReference.split option.split)
  with assms new pool show ?thesis
    by (auto simp: resolve_def Let_def plans_about split: if_splits option.splits TextMatch.splits)
qed

section \<open>The events\<close>

text \<open>What is written of a goal, a task, a run or a resolution is read back.\<close>

definition focus_serde :: "Conversant \<Rightarrow> bool" where
  "focus_serde en \<longleftrightarrow>
     (\<forall>g v. to_value en (GoalPayload g) = Inr v \<longrightarrow> de_goal (lib en) v = Inr g) \<and>
     (\<forall>t v. to_value en (TaskPayload t) = Inr v \<longrightarrow> de_task (lib en) v = Inr t) \<and>
     (\<forall>r v. to_value en (RunPayload r) = Inr v \<longrightarrow> de_run (lib en) v = Inr r) \<and>
     (\<forall>f v. to_value en (FocusPayload f) = Inr v \<longrightarrow> de_focus_resolution (lib en) v = Inr f)"

lemma conversation_event_fields:
  assumes "conversation_event en l actor k subj p oid caus = Inr e"
  shows "event_kind e = k" "ExperienceEvent.actor_id e = actor" "ExperienceEvent.subject e = subj"
    "correlation_id e = Some (id_text (lib en) oid)" "to_value en p = Inr (payload e)"
  using assms
  by (auto simp: conversation_event_def event_def event_with_id_def new_with_id_def Let_def res_simps)

text \<open>A step on one of the maps.\<close>

definition steps_to :: "CurrentState \<Rightarrow> ExperienceEvent list \<Rightarrow> CurrentState \<Rightarrow> bool" where
  "steps_to s es s1 \<longleftrightarrow> CurrentState.revision s1 = CurrentState.revision s + of_nat (length es) \<and>
     applied_events s1 = applied_events s @ map ExperienceEvent.event_id es \<and>
     observations s1 = observations s \<and> focus_resolutions s1 = focus_resolutions s"

lemma created_step:
  assumes new: "ExperienceEvent.event_id e \<notin> set (applied_events s)"
  shows "event_kind e = GoalCreated \<Longrightarrow> de_goal x (payload e) = Inr g \<Longrightarrow>
      \<exists>s1. apply_event x s e = Inr s1 \<and> steps_to s [e] s1 \<and> goals s1 = bt_insert (Goal.id g) g (goals s) \<and>
        tasks s1 = tasks s \<and> runs s1 = runs s"
    and "event_kind e = TaskCreated \<Longrightarrow> de_task x (payload e) = Inr t \<Longrightarrow>
      \<exists>s1. apply_event x s e = Inr s1 \<and> steps_to s [e] s1 \<and> goals s1 = goals s \<and>
        tasks s1 = bt_insert (Task.id t) t (tasks s) \<and> runs s1 = runs s"
    and "event_kind e = RunStarted \<Longrightarrow> de_run x (payload e) = Inr r \<Longrightarrow>
      \<exists>s1. apply_event x s e = Inr s1 \<and> steps_to s [e] s1 \<and> goals s1 = goals s \<and>
        tasks s1 = tasks s \<and> runs s1 = bt_insert (Run.id r) r (runs s)"
  using new by (auto simp: apply_event_def apply_kind_def Let_def insert_payload_def res_simps steps_to_def)

lemma steps_to_trans: "steps_to s es s1 \<Longrightarrow> steps_to s1 fs s2 \<Longrightarrow> steps_to s (es @ fs) s2"
  by (simp add: steps_to_def)

lemma optional_event_cases:
  "optional_event f ov = Inr es \<Longrightarrow> (ov = None \<and> es = []) \<or> (\<exists>v e. ov = Some v \<and> f v = Inr e \<and> es = [e])"
  by (auto simp: optional_event_def res_simps split: option.splits)

lemma optional_step:
  assumes serde: "focus_serde en" and new: "set (map ExperienceEvent.event_id es) \<inter> set (applied_events s) = {}"
  shows "optional_event (\<lambda>g. conversation_event en l u GoalCreated (gr g) (GoalPayload g) oid None) og = Inr es \<Longrightarrow>
      \<exists>s1. apply_all (lib en) s es = Inr s1 \<and> steps_to s es s1 \<and> goals s1 = with_new Goal.id og (goals s) \<and>
        tasks s1 = tasks s \<and> runs s1 = runs s"
    and "optional_event (\<lambda>t. conversation_event en l u TaskCreated (tr t) (TaskPayload t) oid None) ot = Inr es \<Longrightarrow>
      \<exists>s1. apply_all (lib en) s es = Inr s1 \<and> steps_to s es s1 \<and> goals s1 = goals s \<and>
        tasks s1 = with_new Task.id ot (tasks s) \<and> runs s1 = runs s"
    and "optional_event (\<lambda>r. conversation_event en l u RunStarted (rr r) (RunPayload r) oid None) orn = Inr es \<Longrightarrow>
      \<exists>s1. apply_all (lib en) s es = Inr s1 \<and> steps_to s es s1 \<and> goals s1 = goals s \<and>
        tasks s1 = tasks s \<and> runs s1 = with_new Run.id orn (runs s)"
proof -
  have none: "steps_to s [] s" by (simp add: steps_to_def)
  show "\<exists>s1. apply_all (lib en) s es = Inr s1 \<and> steps_to s es s1 \<and> goals s1 = with_new Goal.id og (goals s) \<and>
        tasks s1 = tasks s \<and> runs s1 = runs s"
    if ev: "optional_event (\<lambda>g. conversation_event en l u GoalCreated (gr g) (GoalPayload g) oid None) og = Inr es"
    using optional_event_cases [OF ev]
  proof (elim disjE exE conjE)
    fix g e assume e: "og = Some g" "conversation_event en l u GoalCreated (gr g) (GoalPayload g) oid None = Inr e" "es = [e]"
    note f = conversation_event_fields [OF e(2)]
    have "de_goal (lib en) (payload e) = Inr g" using serde f(5) by (simp add: focus_serde_def)
    from created_step(1) [OF _ f(1) this, of s] new e show ?thesis by (auto simp: with_new_def)
  qed (use none in \<open>simp add: with_new_def\<close>)
  show "\<exists>s1. apply_all (lib en) s es = Inr s1 \<and> steps_to s es s1 \<and> goals s1 = goals s \<and>
        tasks s1 = with_new Task.id ot (tasks s) \<and> runs s1 = runs s"
    if ev: "optional_event (\<lambda>t. conversation_event en l u TaskCreated (tr t) (TaskPayload t) oid None) ot = Inr es"
    using optional_event_cases [OF ev]
  proof (elim disjE exE conjE)
    fix t e assume e: "ot = Some t" "conversation_event en l u TaskCreated (tr t) (TaskPayload t) oid None = Inr e" "es = [e]"
    note f = conversation_event_fields [OF e(2)]
    have "de_task (lib en) (payload e) = Inr t" using serde f(5) by (simp add: focus_serde_def)
    from created_step(2) [OF _ f(1) this, of s] new e show ?thesis by (auto simp: with_new_def)
  qed (use none in \<open>simp add: with_new_def\<close>)
  show "\<exists>s1. apply_all (lib en) s es = Inr s1 \<and> steps_to s es s1 \<and> goals s1 = goals s \<and>
        tasks s1 = tasks s \<and> runs s1 = with_new Run.id orn (runs s)"
    if ev: "optional_event (\<lambda>r. conversation_event en l u RunStarted (rr r) (RunPayload r) oid None) orn = Inr es"
    using optional_event_cases [OF ev]
  proof (elim disjE exE conjE)
    fix r e assume e: "orn = Some r" "conversation_event en l u RunStarted (rr r) (RunPayload r) oid None = Inr e" "es = [e]"
    note f = conversation_event_fields [OF e(2)]
    have "de_run (lib en) (payload e) = Inr r" using serde f(5) by (simp add: focus_serde_def)
    from created_step(3) [OF _ f(1) this, of s] new e show ?thesis by (auto simp: with_new_def)
  qed (use none in \<open>simp add: with_new_def\<close>)
qed

lemma resolution_step:
  assumes serde: "focus_serde en" and p: "acceptable rd s (user_id en) p" "unused_ids rd s" "installed p s s1"
    and e: "conversation_event en ''FocusResolved'' (user_id en) FocusResolved
      (reference EntityKind.Observation (FocusResolution.observation_id (FocusPlan.resolution p)))
      (FocusPayload (FocusPlan.resolution p)) (FocusResolution.observation_id (FocusPlan.resolution p)) None = Inr e"
    and obs: "bt_get (observations s1) (FocusResolution.observation_id (FocusPlan.resolution p)) = Some obs"
      "Observation.actor_id obs = user_id en"
    and free: "bt_get (focus_resolutions s1) (FocusResolution.observation_id (FocusPlan.resolution p)) = None"
    and new: "ExperienceEvent.event_id e \<notin> set (applied_events s1)"
    and rev: "CurrentState.revision s \<le> CurrentState.revision s1"
  shows "\<exists>s2. apply_event (lib en) s1 e = Inr s2 \<and>
    bt_get (focus_resolutions s2) (FocusResolution.observation_id (FocusPlan.resolution p)) = Some (FocusPlan.resolution p)"
proof -
  note f = conversation_event_fields [OF e]
  have de: "de_focus_resolution (lib en) (payload e) = Inr (FocusPlan.resolution p)"
    using serde f(5) by (simp add: focus_serde_def)
  have valid: "focus_is_valid s1 FocusResolved (user_id en) (FocusPlan.resolution p) = Inr True"
    using p by (simp add: acceptable_def)
  have "\<not> CurrentState.revision s1 < FocusResolution.as_of_revision (FocusPlan.resolution p)"
    using p(1) rev by (simp add: acceptable_def not_less)
  then show ?thesis
    using new de obs free f valid acceptable_candidates [OF p]
    by (simp add: apply_event_def apply_kind_def Let_def apply_focus_resolution_def decode_def subject_is_def
        reference_def bt_contains_def)
qed

text \<open>The whole batch, on the state the resolution was made for.\<close>

lemma focus_batch_accepted:
  assumes serde: "focus_serde en" and p: "acceptable rd s (user_id en) p" and unused: "unused_ids rd s"
    and evs: "focus_events en p = Inr evs"
    and new: "distinct (map ExperienceEvent.event_id evs)"
      "set (map ExperienceEvent.event_id evs) \<inter> set (applied_events s) = {}"
    and obs: "bt_get (observations s) (FocusResolution.observation_id (FocusPlan.resolution p)) = Some obs"
      "Observation.actor_id obs = user_id en"
    and free: "bt_get (focus_resolutions s) (FocusResolution.observation_id (FocusPlan.resolution p)) = None"
    and small: "unat (CurrentState.revision s) < 2 ^ 63"
  shows "\<exists>s'. apply_all (lib en) s evs = Inr s' \<and>
    bt_get (focus_resolutions s') (FocusResolution.observation_id (FocusPlan.resolution p)) = Some (FocusPlan.resolution p)"
proof -
  let ?rs = "FocusPlan.resolution p"
  from evs obtain gs ts rns f where
    gs: "optional_event (\<lambda>g. conversation_event en ''GoalCreated'' (user_id en) GoalCreated
        (reference EntityKind.Goal (Goal.id g)) (GoalPayload g) (FocusResolution.observation_id ?rs) None) (FocusPlan.goal p) = Inr gs"
    and ts: "optional_event (\<lambda>t. conversation_event en ''TaskCreated'' (user_id en) TaskCreated
        (reference EntityKind.Task (Task.id t)) (TaskPayload t) (FocusResolution.observation_id ?rs) None) (FocusPlan.task p) = Inr ts"
    and rns: "optional_event (\<lambda>r. conversation_event en ''RunStarted'' (user_id en) RunStarted
        (reference EntityKind.Run (Run.id r)) (RunPayload r) (FocusResolution.observation_id ?rs) None) (FocusPlan.run p) = Inr rns"
    and f: "conversation_event en ''FocusResolved'' (user_id en) FocusResolved
        (reference EntityKind.Observation (FocusResolution.observation_id ?rs)) (FocusPayload ?rs)
        (FocusResolution.observation_id ?rs) None = Inr f"
    and evs': "evs = gs @ ts @ rns @ [f]"
    by (auto simp: focus_events_def Let_def res_simps)
  have short: "length gs \<le> 1" "length ts \<le> 1" "length rns \<le> 1"
    using optional_event_cases [OF gs] optional_event_cases [OF ts] optional_event_cases [OF rns] by auto
  have "set (map ExperienceEvent.event_id gs) \<inter> set (applied_events s) = {}" using new(2) evs' by auto
  from optional_step(1) [OF serde this gs] obtain s1 where
    1: "apply_all (lib en) s gs = Inr s1" "steps_to s gs s1" "goals s1 = with_new Goal.id (FocusPlan.goal p) (goals s)"
      "tasks s1 = tasks s" "runs s1 = runs s" by blast
  have "set (map ExperienceEvent.event_id ts) \<inter> set (applied_events s1) = {}"
    using 1(2) new evs' by (auto simp: steps_to_def)
  from optional_step(2) [OF serde this ts] obtain s2 where
    2: "apply_all (lib en) s1 ts = Inr s2" "steps_to s1 ts s2" "goals s2 = goals s1"
      "tasks s2 = with_new Task.id (FocusPlan.task p) (tasks s1)" "runs s2 = runs s1" by blast
  have "set (map ExperienceEvent.event_id rns) \<inter> set (applied_events s2) = {}"
    using 1(2) 2(2) new evs' by (auto simp: steps_to_def)
  from optional_step(3) [OF serde this rns] obtain s3 where
    3: "apply_all (lib en) s2 rns = Inr s3" "steps_to s2 rns s3" "goals s3 = goals s2" "tasks s3 = tasks s2"
      "runs s3 = with_new Run.id (FocusPlan.run p) (runs s2)" by blast
  have all: "steps_to s (gs @ ts @ rns) s3" using steps_to_trans [OF steps_to_trans [OF 1(2) 2(2)] 3(2)] by simp
  then have inst: "installed p s s3" using 1 2 3 by (auto simp: installed_def steps_to_def)
  have "CurrentState.revision s3 = CurrentState.revision s + of_nat (length (gs @ ts @ rns))"
    using all by (simp add: steps_to_def)
  moreover have "length (gs @ ts @ rns) < 2 ^ 63" using short by simp
  ultimately have rev: "CurrentState.revision s \<le> CurrentState.revision s3"
    using small by (simp add: word_le_nat_alt unat_word_ariths unat_of_nat)
  have "ExperienceEvent.event_id f \<notin> set (applied_events s3)"
    using all new evs' by (auto simp: steps_to_def)
  from resolution_step [OF serde p unused inst f _ obs(2) _ this rev] obs(1) free all obtain s4 where
    "apply_event (lib en) s3 f = Inr s4" "bt_get (focus_resolutions s4) (FocusResolution.observation_id ?rs) = Some ?rs"
    by (auto simp: steps_to_def)
  then show ?thesis using 1(1) 2(1) 3(1) unfolding evs' by (simp add: ledger.run_append)
qed

end
