(* ===== verification/ContextProperties.thy ===== *)
theory ContextProperties
  imports SnapshotFacts FocusCommit ConversationScenario
begin

text \<open>
  The properties of the context: what a snapshot holds of what there was to show, what its items
  rest on, and what the resolution of an observation commits.
\<close>

section \<open>A snapshot with two items\<close>

text \<open>The snapshot of the parlour's ledger when no observation is being answered.\<close>

definition looking_back :: ContextBuildRequest where
  "looking_back = parlour_request\<lparr>current_observation_id := None\<rparr>"

lemma looking_back_fields [simp]:
  "ContextBuildRequest.as_of_revision looking_back = 2" "current_observation_id looking_back = None"
  "ContextBuildRequest.relationship_id looking_back = None"
  "ContextBuildRequest.task_id looking_back = None" "ContextBuildRequest.run_id looking_back = None"
  "RecallBundle.items (recalled looking_back) = []"
  "ContextBuildRequest.principal_id looking_back = from_uuid 1"
  by (simp_all add: looking_back_def)

lemma parlour_index:
  "event_index parlour_ledger = [(from_uuid 51, 1, hd parlour_ledger), (from_uuid 52, 2, last parlour_ledger)]"
  by (simp add: event_index_def parlour_ledger_def less_Id_def)

lemma parlour_indexed:
  "indexed parlour_ext 2 (event_index parlour_ledger) (from_uuid 51) = Inr (1, hd parlour_ledger)"
  "indexed parlour_ext 2 (event_index parlour_ledger) (from_uuid 52) = Inr (2, last parlour_ledger)"
  by (simp_all add: indexed_def parlour_index validate_event_hash_def verify_integrity_def parlour_hash,
      simp_all add: parlour_ledger_def)

lemma parlour_source:
  "validated_sources parlour_ext [from_uuid 51] 2 (event_index parlour_ledger) = Inr [from_uuid 51]"
  "validated_sources parlour_ext [from_uuid 52] 2 (event_index parlour_ledger) = Inr [from_uuid 52]"
  by (simp_all add: validated_sources_def parlour_indexed by_sequence_def)

lemma parlour_entries:
  "event_kind (hd parlour_ledger) = ObservationRecorded" "event_kind (last parlour_ledger) = FocusResolved"
  "ExperienceEvent.event_id (hd parlour_ledger) = from_uuid 51" "ExperienceEvent.event_id (last parlour_ledger) = from_uuid 52"
  "parlour_ledger = [hd parlour_ledger, last parlour_ledger]"
  by (simp_all add: parlour_ledger_def)

lemma parlour_recent_enough:
  "recent_enough mute looking_back 2 index (1, hd parlour_ledger)"
  "recent_enough mute looking_back 2 index (2, last parlour_ledger)"
proof -
  have "recent_start 2 = 1" by (simp add: recent_start_def RECENT_EVENT_WINDOW_def)
  then show "recent_enough mute looking_back 2 index (1, hd parlour_ledger)"
    "recent_enough mute looking_back 2 index (2, last parlour_ledger)"
    by (simp_all add: recent_enough_def Let_def recent_kinds_def parlour_entries(1,2))
qed

lemma parlour_selected: "selected_events mute looking_back 2 (event_index parlour_ledger) = parlour_ledger"
proof -
  have "bt_values (event_index parlour_ledger) = [(1, hd parlour_ledger), (2, last parlour_ledger)]"
    unfolding parlour_index bt_values_def by simp
  then have "selected_events mute looking_back 2 (event_index parlour_ledger) = [hd parlour_ledger, last parlour_ledger]"
    using parlour_recent_enough by (simp add: selected_events_def on_current_observation_def)
  then show ?thesis using parlour_entries(5) by (simp only:)
qed

lemma parlour_recent:
  "\<exists>a b. build_active_recent mute looking_back 2 (event_index parlour_ledger) = Inr [a, b] \<and>
     ContextItem.source_event_ids a = [from_uuid 51] \<and> ContextItem.source_event_ids b = [from_uuid 52]"
proof -
  have lib: "print_lib mute = parlour_ext" by (simp add: mute_def)
  have "\<exists>k r u. recent_event_fields mute e = Inr (k, r, u)" for e
    by (simp add: recent_event_fields_def mute_def Let_def split: sum.split)
  then obtain k r u l q v where
    "recent_event_fields mute (hd parlour_ledger) = Inr (k, r, u)"
    "recent_event_fields mute (last parlour_ledger) = Inr (l, q, v)" by metis
  then have "recent_items mute 2 (event_index parlour_ledger) [hd parlour_ledger, last parlour_ledger] =
      Inr [\<lparr>ContextItem.kind = k, text = u, source_event_ids = [from_uuid 51], entity = r, as_of_revision = 2\<rparr>,
           \<lparr>ContextItem.kind = l, text = v, source_event_ids = [from_uuid 52], entity = q, as_of_revision = 2\<rparr>]"
    using lib parlour_source parlour_entries(3,4) by simp
  then have "recent_items mute 2 (event_index parlour_ledger) parlour_ledger =
      Inr [\<lparr>ContextItem.kind = k, text = u, source_event_ids = [from_uuid 51], entity = r, as_of_revision = 2\<rparr>,
           \<lparr>ContextItem.kind = l, text = v, source_event_ids = [from_uuid 52], entity = q, as_of_revision = 2\<rparr>]"
    using parlour_entries(5) by (simp only:)
  then show ?thesis by (simp add: build_active_recent_def parlour_selected bt_values_def)
qed

lemma looking_back_anchors: "build_anchors mute unclear_state looking_back 2 index = Inr []"
  by (simp add: build_anchors_def identity_anchors_def anchor_identity_def hekate_identity_def requested_relationship_def
      bt_values_def optional_item_def focus_anchors_def requested_def Let_def
      anchor_positions_def anchor_conflicts_def)

lemma looking_back_middle: "build_middle mute unclear_state looking_back 2 index = Inr []"
  by (simp add: build_middle_def bt_values_def)

lemma parlour_looks_back:
  "\<exists>snap. build_context_snapshot mute unclear_state parlour_ledger looking_back = Inr snap \<and>
     length (ContextSnapshot.active_recent snap) = 2"
proof -
  obtain a b where recent: "build_active_recent mute looking_back 2 (event_index parlour_ledger) = Inr [a, b]"
    and ids: "ContextItem.source_event_ids a = [from_uuid 51]" "ContextItem.source_event_ids b = [from_uuid 52]"
    using parlour_recent by blast
  let ?index = "event_index parlour_ledger"
  have "print_lib mute = parlour_ext" by (simp add: mute_def)
  then have "ledger_hash (print_lib mute) (from_uuid 51) 2 ?index = Inr zero_hash"
    "ledger_hash (print_lib mute) (from_uuid 52) 2 ?index = Inr zero_hash"
    by (simp_all add: ledger_hash_def parlour_indexed canonical_hash_def parlour_hash)
  then have refs: "\<exists>refs. collect_source_refs (print_lib mute) [a, b] pf 2 ?index = Inr refs"
    if "ResponseProfile.evidence pf = []" for pf
    using that ids by (simp add: collect_source_refs_def)
  have "\<exists>snap. stabilize mute ?index 2 pf [] limit 8 0
      \<lparr>middle = [], active = [a, b], middle_dropped = 0, active_dropped = 0\<rparr> = Inr snap \<and>
      length (ContextSnapshot.active_recent snap) = 2"
    if "ResponseProfile.evidence pf = []" for pf limit
    using refs [OF that]
    by (auto simp: eval_nat_numeral draft_snapshot_def snapshot_budget_report_def mute_def text_length_def)
  moreover have "text_length (items_text mute its) = Inr 0" for its by (simp add: mute_def text_length_def)
  ultimately show ?thesis
    by (simp add: build_context_snapshot_def build_with_profile_def Let_def parlour_profile validate_profile_def
        looking_back_anchors looking_back_middle recent)
qed

section \<open>A greeting\<close>

text \<open>A greeting was recorded; the conversation gets a run of its own.\<close>

definition greeting :: Observation where
  "greeting = said\<lparr>Observation.content := ''hi''\<rparr>"

definition chat_run :: Run where
  "chat_run = \<lparr>Run.id = from_uuid 71, task_id = None, status = RunStatus.Running, started_at = ''t'',
     completed_at = None\<rparr>"

definition chat_focus :: FocusResolution where
  "chat_focus = \<lparr>FocusResolution.observation_id = from_uuid 41, outcome = Conversation,
     focus = \<lparr>Focus.goal_id = None, task_id = None, run_id = Some (from_uuid 71)\<rparr>, as_of_revision = 1,
     basis = GeneralConversation, candidates = [], clarification = None\<rparr>"

definition hall_ext :: ext where
  "hall_ext = parlour_ext\<lparr>de_observation := tagged [(''hi'', greeting)], de_run := tagged [(''run'', chat_run)],
     de_focus_resolution := tagged [(''chat'', chat_focus)]\<rparr>"

definition hall_uuids :: "(string \<times> Uuid) list" where
  "hall_uuids = [(''run'', 71), (''RunStarted'', 72), (''FocusResolved'', 73)]"

definition hall_payloads :: "(Recorded \<times> string) list" where
  "hall_payloads = [(RunPayload chat_run, ''run''), (FocusPayload chat_focus, ''chat'')]"

definition hall :: Conversant where
  "hall = parlour\<lparr>lib := hall_ext, alnum := \<lambda>c. True,
     to_value := (\<lambda>p. case map_of hall_payloads p of None \<Rightarrow> Inl ''unknown'' | Some t \<Rightarrow> Inr (JNumber t)),
     fresh := (\<lambda>l. case map_of hall_uuids l of None \<Rightarrow> 0 | Some u \<Rightarrow> u)\<rparr>"

definition hall_ledger :: "ExperienceEvent list" where
  "hall_ledger = [parlour_event 51 1 ObservationRecorded EntityKind.Observation 41 ''hi'' None]"

definition greeted_state :: CurrentState where
  "greeted_state = default_state\<lparr>CurrentState.revision := 1, observations := [(from_uuid 41, greeting)],
     applied_events := [from_uuid 51]\<rparr>"

lemma hall_fields [simp]:
  "lib hall = hall_ext" "user_id hall = from_uuid 1" "hekate_id hall = from_uuid 2" "Engine.clock hall = (\<lambda>l. ''t'')"
  "to_value hall p = (case map_of hall_payloads p of None \<Rightarrow> Inl ''unknown'' | Some t \<Rightarrow> Inr (JNumber t))"
  "fresh hall l = (case map_of hall_uuids l of None \<Rightarrow> 0 | Some u \<Rightarrow> u)" "alnum hall = (\<lambda>c. True)"
  by (simp_all add: hall_def)

lemma hall_ext_fields [simp]:
  "de_observation hall_ext = tagged [(''hi'', greeting)]" "de_run hall_ext = tagged [(''run'', chat_run)]"
  "de_focus_resolution hall_ext = tagged [(''chat'', chat_focus)]" "to_lowercase hall_ext = (\<lambda>t. t)"
  "event_json hall_ext = (\<lambda>e. Inr [])" "sha256_hex hall_ext = sha256_hex blank_ext"
  "id_text hall_ext = (id_text blank_ext :: 'a Id \<Rightarrow> string)"
  by (auto simp: hall_ext_def parlour_ext_def demo_def blank_ext_def sha256_hex_def [abs_def] id_text_def [abs_def])

lemma hall_serde: "focus_serde hall"
  by (auto simp: focus_serde_def hall_payloads_def tagged_def split: option.splits if_splits)

lemma hall_step: "in_step hall_ext greeted_state hall_ledger"
  by (simp add: in_step_def replay_def hall_ledger_def greeted_state_def default_state_def step_defs
      insert_payload_def greeting_def said_def)

lemma greeting_words:
  "\<not> has_new_work_intent (reading_of hall) ''hi''" "parse_reference (reading_of hall) ''hi'' = None"
  "is_social_message (reading_of hall) ''hi''"
proof -
  have "trim ''hi'' = ''hi''" by code_simp
  then show "\<not> has_new_work_intent (reading_of hall) ''hi''"
    by (simp add: has_new_work_intent_def reading_of_def new_work_markers_def starts_with_def)
  have "split_at (\<lambda>c. \<not> True \<and> c \<noteq> ''-'') ''hi'' = [''hi'']" by code_simp
  then show "parse_reference (reading_of hall) ''hi'' = None"
    by (simp add: parse_reference_def reading_of_def)
  have "trim_matches (\<lambda>c. \<not> True) ''hi'' = ''hi''" by code_simp
  then show "is_social_message (reading_of hall) ''hi''"
    using \<open>trim ''hi'' = ''hi''\<close> by (simp add: is_social_message_def reading_of_def social_messages_def)
qed

definition chat_plan :: FocusPlan where
  "chat_plan = \<lparr>FocusPlan.resolution = chat_focus, goal = None, task = None, run = Some chat_run\<rparr>"

lemma greeting_resolves:
  "resolve (reading_of hall) greeted_state hall_ledger greeting (from_uuid 1) (from_uuid 2) = Some chat_plan"
proof -
  have "Observation.content greeting = ''hi''" "Observation.id greeting = from_uuid 41"
    by (simp_all add: greeting_def said_def)
  moreover have "active_tasks rd greeted_state es obs p = []" for rd es obs p
    by (simp add: active_tasks_def greeted_state_def default_state_def bt_values_def)
  moreover have "CurrentState.revision greeted_state = 1" by (simp add: greeted_state_def)
  ultimately show ?thesis
    using greeting_words
    by (simp add: resolve_def Let_def conversation_def plan_def running_def reading_of_def chat_plan_def chat_focus_def
        chat_run_def hall_uuids_def)
qed

definition chat_events :: "ExperienceEvent list" where
  "chat_events = [parlour_event 72 1 RunStarted EntityKind.Run 71 ''run'' None,
     parlour_event 73 1 FocusResolved EntityKind.Observation 41 ''chat'' None]"

lemma hall_made:
  "event_with_id hall (from_uuid i) l (from_uuid actor) k (Some \<lparr>EntityRef.kind = r, id = u\<rparr>) p
     (Some (uuid_text blank_ext 41)) caus =
   (case map_of hall_payloads p of None \<Rightarrow> Inl (EngineError.Serialization ''unknown'')
    | Some t \<Rightarrow> Inr (parlour_event i actor k r u t caus))"
  by (cases "map_of hall_payloads p")
    (simp_all add: event_with_id_def new_with_id_def calculate_hash_def parlour_event_def desk_event_def an_event_def Let_def)

lemma chat_recorded: "focus_events hall chat_plan = Inr chat_events"
proof -
  have "FocusResolution.observation_id chat_focus = from_uuid 41" "Run.id chat_run = from_uuid 71"
    by (simp_all add: chat_focus_def chat_run_def)
  then show ?thesis
    by (simp add: focus_events_def chat_plan_def Let_def optional_event_def conversation_event_def event_def
        reference_def id_text_def hall_made hall_payloads_def chat_events_def fresh_id_def hall_uuids_def)
qed

section \<open>Properties\<close>



text \<open>
  C28. Whatever an item of a snapshot, or a preference of its response profile, names as its source
  is among the references of the snapshot; and a reference is to an event of the ledger that is no
  newer than the snapshot, whose integrity hash verifies, with that event's own hash.
\<close>

theorem snapshot_grounded:
  assumes "build_context_snapshot pr s events rq = Inr snap" and "inj (uuid_text (print_lib pr))"
  shows "(\<forall>r \<in> set (ContextSnapshot.source_refs snap).
      ref_grounded (print_lib pr) (ContextBuildRequest.as_of_revision rq) events r) \<and>
    (\<forall>ci \<in> set (ContextSnapshot.anchors snap @ ContextSnapshot.compressed_middle snap @ ContextSnapshot.active_recent snap).
       set (ContextItem.source_event_ids ci) \<subseteq> ContextSourceRef.event_id ` set (ContextSnapshot.source_refs snap)) \<and>
    (\<forall>ev \<in> set (ResponseProfile.evidence (response_profile snap)).
       ResponsePreferenceEvidence.source_event_id ev \<in> ContextSourceRef.event_id ` set (ContextSnapshot.source_refs snap))"
proof -
  from build_context_snapshot_Inr [OF assms(1)] obtain profile anc d hint where
    snap: "draft_snapshot pr (event_index events) (ContextBuildRequest.as_of_revision rq) profile anc
      (ContextBudget.hard_limit_bytes (ContextBuildRequest.budget rq)) hint d = Inr snap" by blast
  note parts = draft_snapshot_parts [OF snap]
  note refs = snapshot_refs [OF parts(1)]
  show ?thesis
    using refs(1) refs(2) [OF assms(2)] refs(3) [OF assms(2)] parts(3-6) by (simp add: subset_iff)
qed

theorem snapshot_grounded_witness:
  "\<exists>snap. build_context_snapshot mute unclear_state parlour_ledger looking_back = Inr snap \<and>
     length (ContextSnapshot.active_recent snap) = 2 \<and>
     set (map (ref_grounded parlour_ext 2 parlour_ledger) (ContextSnapshot.source_refs snap)) \<subseteq> {True}"
proof -
  obtain snap where snap: "build_context_snapshot mute unclear_state parlour_ledger looking_back = Inr snap"
    and two: "length (ContextSnapshot.active_recent snap) = 2" using parlour_looks_back by blast
  have "print_lib mute = parlour_ext" by (simp add: mute_def)
  with snapshot_grounded [OF snap] blank_texts_inj snap two show ?thesis by auto
qed

text \<open>
  C26. The goal, the task, the run and the resolution that an observation leads to are never refused
  by the projector, on the state they were made for: the batch goes through and the resolution is
  on record, as long as the identifiers drawn are new and the values written are read back.
\<close>

theorem focus_plan_accepted:
  assumes "in_step (lib en) s events" and "focus_serde en"
    and "resolve (reading_of en) s events obs (user_id en) (hekate_id en) = Some p"
    and "focus_events en p = Inr evs"
    and "bt_get (observations s) (Observation.id obs) = Some obs" and "Observation.actor_id obs = user_id en"
    and "bt_get (focus_resolutions s) (Observation.id obs) = None"
    and "unused_ids (reading_of en) s" and "distinct (map ExperienceEvent.event_id (events @ evs))"
  shows "\<exists>s'. apply_all (lib en) s evs = Inr s' \<and>
    bt_get (focus_resolutions s') (Observation.id obs) = Some (FocusPlan.resolution p)"
proof -
  note step = in_step_facts [OF assms(1)]
  have "state_typed s" using assms(1) state_typed_replay by (auto simp: in_step_def)
  then have ledger: "reads_ledger s events"
    using step(1) by (simp add: reads_ledger_def state_typed_def records_wf_maps)
  have ok: "acceptable (reading_of en) s (user_id en) p" by (rule resolve_acceptable [OF assms(3) ledger])
  have about: "FocusResolution.observation_id (FocusPlan.resolution p) = Observation.id obs"
    by (rule resolve_about [OF assms(3)])
  have "unat (CurrentState.revision s) < 2 ^ 63"
    using assms(1) step(3) by (simp add: in_step_def unat_of_nat)
  with focus_batch_accepted [OF assms(2) ok assms(8,4)] assms(5-7,9) step(1) about show ?thesis by auto
qed

theorem focus_plan_accepted_witness:
  "\<exists>s'. apply_all hall_ext greeted_state chat_events = Inr s' \<and>
     bt_get (focus_resolutions s') (from_uuid 41) = Some chat_focus"
proof -
  have "Observation.id greeting = from_uuid 41" "Observation.actor_id greeting = from_uuid 1"
    by (simp_all add: greeting_def said_def)
  moreover have "observations greeted_state = [(from_uuid 41, greeting)]" "focus_resolutions greeted_state = bt_empty"
    "unused_ids rd greeted_state" for rd
    by (simp_all add: greeted_state_def default_state_def unused_ids_def)
  moreover have "distinct (map ExperienceEvent.event_id (hall_ledger @ chat_events))"
    by (simp add: hall_ledger_def chat_events_def)
  ultimately show ?thesis
    using focus_plan_accepted [OF _ hall_serde _ chat_recorded, of greeted_state hall_ledger greeting]
      hall_step greeting_resolves by (simp add: chat_plan_def)
qed

end
