(* ===== verification/ModelAnswers.thy ===== *)
theory ModelAnswers
  imports ModelRequests
begin

text \<open>
  What the program believes of a model's answer (\<open>src/adapters/primary_model.rs\<close>): the wire formats,
  their validation against the context that was shown, the correction sent after a first failure,
  and the two attempts of a call. serde's derived decoders of the wire structs take the decoder of
  their string lists as an argument, as the attributes of the structs hand it to them.
\<close>

section \<open>Wire formats\<close>

record WirePosition =
  id :: string
  principal_id :: string
  subject :: string
  stance :: string
  version :: u32
  status :: string
  confidence :: u8
  supersedes :: "string option"
  reasons :: "string list"
  evidence_refs :: "string list"
  reconsideration_conditions :: "string list"
  created_at :: "string option"

record WireConflict =
  id :: "string option"
  subject :: string
  participant_positions :: "string list"
  status :: string
  revision :: u32
  reasons :: "string list"
  evidence_refs :: "string list"
  alternatives :: "string list"
  reconsideration_conditions :: "string list"
  unresolved_questions :: "string list"
  resolution :: "string option"
  resolved_at :: "string option"
  created_at :: "string option"

record WireThoughtCycle =
  draft_interpretation :: string
  draft_initial_judgment :: string
  draft_reasons :: "string list"
  draft_doubts :: "string list"
  review_strongest_objection :: string
  review_identity_conflicts :: "string list"
  review_unsupported_claims :: "string list"
  review_suggested_revision :: "string option"
  act :: string
  rationale :: string
  response :: string
  confidence :: u8
  evidence_refs :: "string list"
  position_change :: "WirePosition option"
  conflict_change :: "WireConflict option"

record WireSleepSelfReview =
  weak_points :: "string list"
  possible_counterevidence :: "string list"
  revised :: bool

record WireSleepCandidate =
  kind :: string
  content :: string
  rationale :: string
  source_event_ids :: "string list"
  counterevidence_event_ids :: "string list"
  confidence :: u8

record WireSleepDeliberation =
  draft_summary :: string
  self_review :: WireSleepSelfReview
  candidates :: "WireSleepCandidate list"

text \<open>A single string stands for a list of one.\<close>

fun all_strings :: "json list \<Rightarrow> string + string list" where
  "all_strings [] = Inr []"
| "all_strings (v # vs) =
     res_bind (ok_or ''array field must contain only strings'' (json_str v)) (\<lambda>t.
     res_bind (all_strings vs) (\<lambda>ts. Inr (t # ts)))"

definition deserialize_string_list :: "json \<Rightarrow> string + string list" where
  "deserialize_string_list v =
     (case v of
        JString t \<Rightarrow> Inr [t]
      | JArray vs \<Rightarrow> all_strings vs
      | _ \<Rightarrow> Inl ''expected a string or an array of strings'')"

text \<open>
  serde and uuid, Rust's \<open>{:?}\<close> of a string (whose escapes follow tables of the standard library),
  and the identifier and the readings of the clock of the \<open>n\<close>-th attempt.
\<close>

record answering =
  answer_ids :: ext
  read_id :: "string \<Rightarrow> string + Uuid"
  debug_text :: "string \<Rightarrow> string"
  list_text :: "string list \<Rightarrow> string + string"
  read_raw :: "string \<Rightarrow> string + json"
  read_refs :: "json \<Rightarrow> string + ContextSourceRef list"
  read_cycle :: "(json \<Rightarrow> string + string list) \<Rightarrow> string \<Rightarrow> string + WireThoughtCycle"
  read_sleep :: "(json \<Rightarrow> string + string list) \<Rightarrow> string \<Rightarrow> string + WireSleepDeliberation"
  fresh_conflict :: "nat \<Rightarrow> ConflictId"
  position_time :: "nat \<Rightarrow> string"
  conflict_time :: "nat \<Rightarrow> string"

section \<open>Tokens and identifiers\<close>

definition strip_prefix :: "string \<Rightarrow> string \<Rightarrow> string option" where
  "strip_prefix p s = (if starts_with s p then Some (drop (length p) s) else None)"

definition strip_suffix :: "string \<Rightarrow> string \<Rightarrow> string option" where
  "strip_suffix p s = (if ends_with s p then Some (take (length s - length p) s) else None)"

fun or_else :: "'a option \<Rightarrow> 'a option \<Rightarrow> 'a option" where
  "or_else (Some a) b = Some a"
| "or_else None b = b"

text \<open>The answer without a Markdown fence.\<close>

definition json_candidate :: "string \<Rightarrow> string" where
  "json_candidate v =
     (let c = trim v in
      case Option.bind
          (or_else (strip_prefix ''```json'' c)
            (or_else (strip_prefix ''```JSON'' c) (strip_prefix ''```'' c)))
          (strip_suffix ''```'') of
        Some t \<Rightarrow> trim t
      | None \<Rightarrow> c)"

definition ascii_space :: "string \<Rightarrow> bool" where
  "ascii_space c \<longleftrightarrow> c \<in> {[CHR 0x20], [CHR 0x09], [CHR 0x0A], [CHR 0x0C], [CHR 0x0D]}"

fun ascii_upper :: "string \<Rightarrow> bool" where
  "ascii_upper [b] \<longleftrightarrow> CHR ''A'' \<le> b \<and> b \<le> CHR ''Z''"
| "ascii_upper c \<longleftrightarrow> False"

fun ascii_lowercase :: "string \<Rightarrow> bool" where
  "ascii_lowercase [b] \<longleftrightarrow> CHR ''a'' \<le> b \<and> b \<le> CHR ''z''"
| "ascii_lowercase c \<longleftrightarrow> False"

definition push_underscore :: "string \<Rightarrow> string" where
  "push_underscore r = (if ends_with r ''_'' then r else r @ ''_'')"

text \<open>One character: the text so far and the character before.\<close>

definition normalize_char :: "string \<times> string option \<Rightarrow> string \<Rightarrow> string \<times> string option" where
  "normalize_char acc c =
     (case acc of (r, previous) \<Rightarrow>
        (if c = ''-'' \<or> ascii_space c then push_underscore r
         else if ascii_upper c
         then (if is_some_and previous ascii_lowercase then push_underscore r else r) @
           to_ascii_lowercase c
         else r @ to_ascii_lowercase c, Some c))"

definition normalize_known_token :: "string \<Rightarrow> string" where
  "normalize_known_token v =
     trim_matches (\<lambda>c. c = ''_'') (fst (foldl normalize_char ([], None) (utf8_chars (trim v))))"

fun decision_kind_token :: "DecisionKind \<Rightarrow> string" where
  "decision_kind_token DecisionKind.Respond = ''respond''"
| "decision_kind_token DecisionKind.Agree = ''agree''"
| "decision_kind_token DecisionKind.AskWhy = ''ask_why''"
| "decision_kind_token DecisionKind.Challenge = ''challenge''"
| "decision_kind_token DecisionKind.CounterPropose = ''counter_propose''"
| "decision_kind_token DecisionKind.Negotiate = ''negotiate''"
| "decision_kind_token DecisionKind.Refuse = ''refuse''"
| "decision_kind_token DecisionKind.ObserveMore = ''observe_more''"
| "decision_kind_token DecisionKind.ProposeAction = ''propose_action''"
| "decision_kind_token DecisionKind.CreateOrUpdateGoal = ''create_or_update_goal''"
| "decision_kind_token DecisionKind.CreateOrUpdateTask = ''create_or_update_task''"
| "decision_kind_token DecisionKind.RequestClarification = ''request_clarification''"
| "decision_kind_token DecisionKind.RequestApproval = ''request_approval''"
| "decision_kind_token DecisionKind.Suspend = ''suspend''"
| "decision_kind_token DecisionKind.Complete = ''complete''"

definition parse_decision_kind :: "string \<Rightarrow> string \<Rightarrow> string + DecisionKind" where
  "parse_decision_kind v field =
     (let t = normalize_known_token v in
      if t = ''respond'' then Inr DecisionKind.Respond
      else if t = ''agree'' then Inr DecisionKind.Agree
      else if t = ''ask_why'' then Inr DecisionKind.AskWhy
      else if t = ''challenge'' then Inr DecisionKind.Challenge
      else if t = ''counter_propose'' then Inr DecisionKind.CounterPropose
      else if t = ''negotiate'' then Inr DecisionKind.Negotiate
      else if t = ''refuse'' then Inr DecisionKind.Refuse
      else if t = ''observe_more'' then Inr DecisionKind.ObserveMore
      else if t = ''request_clarification'' then Inr DecisionKind.RequestClarification
      else Inl (''thought cycle field '' @ field @ '' has an unsupported act''))"

definition parse_stance :: "string \<Rightarrow> string + Stance" where
  "parse_stance v =
     (let t = normalize_known_token v in
      if t = ''support'' then Inr Support
      else if t = ''oppose'' then Inr Oppose
      else if t = ''uncertain'' then Inr Uncertain
      else if t = ''neutral'' then Inr Neutral
      else Inl ''thought cycle position_change has an unsupported stance'')"

definition parse_position_status :: "string \<Rightarrow> string + PositionStatus" where
  "parse_position_status v =
     (let t = normalize_known_token v in
      if t = ''active'' then Inr PositionStatus.Active
      else if t = ''superseded'' then Inr PositionStatus.Superseded
      else if t = ''retracted'' then Inr PositionStatus.Retracted
      else Inl ''thought cycle position_change has an unsupported status'')"

definition parse_conflict_status :: "string \<Rightarrow> string + ConflictStatus" where
  "parse_conflict_status v =
     (let t = normalize_known_token v in
      if t = ''open'' then Inr ConflictStatus.Open
      else if t = ''negotiating'' then Inr ConflictStatus.Negotiating
      else if t = ''resolved'' then Inr ConflictStatus.Resolved
      else if t = ''accepted_disagreement'' then Inr ConflictStatus.AcceptedDisagreement
      else Inl ''thought cycle conflict_change has an unsupported status'')"

definition parse_integration_candidate_kind :: "string \<Rightarrow> string + IntegrationCandidateKind" where
  "parse_integration_candidate_kind v =
     (let t = normalize_known_token v in
      if t = ''memory'' then Inr IntegrationCandidateKind.Memory
      else if t = ''memory_revision'' then Inr IntegrationCandidateKind.MemoryRevision
      else if t = ''position'' then Inr IntegrationCandidateKind.Position
      else if t = ''conflict'' then Inr IntegrationCandidateKind.Conflict
      else if t = ''relationship'' then Inr IntegrationCandidateKind.Relationship
      else if t = ''identity'' then Inr IntegrationCandidateKind.Identity
      else if t = ''goal'' then Inr IntegrationCandidateKind.Goal
      else if t = ''association'' then Inr IntegrationCandidateKind.Association
      else Inl ''sleep candidate kind is unknown'')"

fun parse_event_ids :: "answering \<Rightarrow> string list \<Rightarrow> string \<Rightarrow> string + EventId list" where
  "parse_event_ids an [] field = Inr []"
| "parse_event_ids an (v # vs) field =
     res_bind (map_err (\<lambda>_. ''thought cycle field '' @ field @ '' contains an invalid event ID'')
       (read_id an (trim v))) (\<lambda>u.
     res_bind (parse_event_ids an vs field) (\<lambda>is. Inr (from_uuid u # is)))"

definition parse_wire_id :: "answering \<Rightarrow> string \<Rightarrow> string \<Rightarrow> string + 'e Id" where
  "parse_wire_id an v field =
     res_bind (map_err (\<lambda>_. ''thought cycle field '' @ field @ '' contains an invalid ID'')
       (read_id an (trim v))) (\<lambda>u. Inr (from_uuid u))"

fun parse_wire_ids :: "answering \<Rightarrow> string list \<Rightarrow> string \<Rightarrow> string + 'e Id list" where
  "parse_wire_ids an [] field = Inr []"
| "parse_wire_ids an (v # vs) field =
     res_bind (parse_wire_id an v field) (\<lambda>i. res_bind (parse_wire_ids an vs field) (\<lambda>is. Inr (i # is)))"

definition parse_optional_wire_id :: "answering \<Rightarrow> string option \<Rightarrow> string \<Rightarrow> string + 'e Id option" where
  "parse_optional_wire_id an v field =
     (case v of None \<Rightarrow> Inr None | Some t \<Rightarrow> res_bind (parse_wire_id an t field) (\<lambda>i. Inr (Some i)))"

section \<open>What the model may refer to\<close>

definition allowed_source_event_ids :: "ContextSourceRef list \<Rightarrow> EventId list" where
  "allowed_source_event_ids rs = sort (remdups (map ContextSourceRef.event_id rs))"

definition allowed_snapshot_evidence_ids :: "ContextSnapshot \<Rightarrow> EventId list" where
  "allowed_snapshot_evidence_ids s = allowed_source_event_ids (ContextSnapshot.source_refs s)"

definition with_sources :: "EventId list \<Rightarrow> EventId list \<Rightarrow> EventId list" where
  "with_sources ids js = foldl (\<lambda>is j. if j \<in> set is then is else is @ [j]) ids js"

definition allowed_evidence_ids :: "answering \<Rightarrow> ThoughtContext \<Rightarrow> EventId list" where
  "allowed_evidence_ids an ctx =
     (let ids = with_sources (recent_event_ids ctx)
        (map RecalledItem.source_event_id (RecallBundle.items (ThoughtContext.recall ctx))) in
      case Option.bind (Option.bind (context_snapshot ctx) (\<lambda>v. json_field v ''source_refs''))
          (\<lambda>v. case read_refs an v of Inl _ \<Rightarrow> None | Inr rs \<Rightarrow> Some rs) of
        None \<Rightarrow> ids
      | Some rs \<Rightarrow> with_sources ids (allowed_source_event_ids rs))"

definition sleep_event_ids :: "SleepContext \<Rightarrow> EventId list" where
  "sleep_event_ids c =
     with_sources (map SleepSeed.event_id (seed_observations c))
       (map RecalledItem.source_event_id (recalled_experiences c))"

text \<open>The context as the request showed it.\<close>

definition scoped_context :: "ThoughtContext \<Rightarrow> PreparedModelRequest \<Rightarrow> ThoughtContext" where
  "scoped_context ctx q =
     ctx\<lparr>recent_event_ids := PreparedModelRequest.evidence_ids q,
         ThoughtContext.recall := (ThoughtContext.recall ctx)\<lparr>RecallBundle.items := []\<rparr>,
         context_snapshot := None,
         ThoughtContext.positions := filter (\<lambda>p. Position.id p \<in> set (PreparedModelRequest.position_ids q))
           (ThoughtContext.positions ctx),
         user_positions := filter (\<lambda>p. Position.id p \<in> set (PreparedModelRequest.position_ids q))
           (user_positions ctx),
         ThoughtContext.conflicts := filter (\<lambda>c. Conflict.id c \<in> set (PreparedModelRequest.conflict_ids q))
           (ThoughtContext.conflicts ctx)\<rparr>"

definition scoped_sleep :: "SleepContext \<Rightarrow> PreparedModelRequest \<Rightarrow> SleepContext" where
  "scoped_sleep c q =
     c\<lparr>seed_observations := filter (\<lambda>s. SleepSeed.event_id s \<in> set (PreparedModelRequest.evidence_ids q))
         (seed_observations c),
       recalled_experiences := filter (\<lambda>r. RecalledItem.source_event_id r \<in> set (PreparedModelRequest.evidence_ids q))
         (recalled_experiences c)\<rparr>"

section \<open>Failures and corrections\<close>

text \<open>\<open>ParseFailure\<close> and \<open>SleepParseFailure\<close>.\<close>

record ParseFailure =
  message :: string
  correction :: string

definition ids_json :: "answering \<Rightarrow> 'e Id list \<Rightarrow> string" where
  "ids_json an is =
     (case list_text an (map (id_text (answer_ids an)) is) of Inl _ \<Rightarrow> ''[]'' | Inr t \<Rightarrow> t)"

definition parse_failure :: "answering \<Rightarrow> string \<Rightarrow> ThoughtContext \<Rightarrow> string \<Rightarrow> ParseFailure" where
  "parse_failure an m ctx preserved =
     \<lparr>ParseFailure.message = m, correction =
     ''The previous response failed validation: '' @
     m @
     ''. '' @
     preserved @
     ''Return one complete flat JSON object. Use exactly one act token from respond, '' @
     ''agree, ask_why, challenge, counter_propose, negotiate, refuse, observe_more, '' @
     ''request_clarification. Use respond for an informational or factual reply without a '' @
     ''state change. Use evidence_refs only from '' @
     ids_json an (allowed_evidence_ids an ctx) @
     ''; if no supplied event is needed, use []. Existing conflict IDs are '' @
     ids_json an (map Conflict.id (ThoughtContext.conflicts ctx)) @
     '': set conflict_change.id to null for a new conflict, and use one of those IDs only '' @
     ''for an update or resolution. Existing position IDs are '' @
     ids_json an (map Position.id (ThoughtContext.positions ctx @ user_positions ctx)) @
     ''; participant_positions must use only those IDs. Never invent UUIDs, Event IDs, '' @
     ''Position IDs, or Conflict IDs. If the selected act is challenge, counter_propose, '' @
     ''negotiate, or refuse, conflict_change must be non-null and complete with id, '' @
     ''subject, participant_positions, status, revision, reasons, evidence_refs, '' @
     ''alternatives, reconsideration_conditions, unresolved_questions, resolution, '' @
     ''resolved_at, and created_at. Preserve the original meaning and return only JSON '' @
     ''without markdown fences.''\<rparr>"

definition SLEEP_CANDIDATE_KINDS :: string where
  "SLEEP_CANDIDATE_KINDS =
     ''memory, memory_revision, position, conflict, relationship, identity, goal, '' @
     ''association''"

definition sleep_parse_failure :: "answering \<Rightarrow> string \<Rightarrow> SleepContext \<Rightarrow> ParseFailure" where
  "sleep_parse_failure an m c =
     \<lparr>ParseFailure.message = m, correction =
     ''The previous sleep response failed validation: '' @
     m @
     ''. Preserve the original meaning where possible. Return exactly one JSON object with '' @
     ''draft_summary, self_review, and candidates. Use only source_event_ids and '' @
     ''counterevidence_event_ids from '' @
     ids_json an (sleep_event_ids c) @
     ''. Candidate kinds are '' @
     SLEEP_CANDIDATE_KINDS @
     ''. Use at most '' @
     decimal MAX_SLEEP_CANDIDATES @
     '' candidates, at most '' @
     decimal MAX_CANDIDATE_SOURCES @
     '' source IDs per candidate, confidence 0..100, and non-empty content and rationale. '' @
     ''Never include candidate IDs, sleep run IDs, status, fingerprints, or arbitrary '' @
     ''entity IDs. Return JSON without markdown fences.''\<rparr>"

definition keep_text :: "answering \<Rightarrow> string \<Rightarrow> string \<Rightarrow> string" where
  "keep_text an a r =
     ''Keep act `'' @ a @ ''` and the original rationale '' @ debug_text an r @ '' unchanged. ''"

definition preserve_raw_fields :: "answering \<Rightarrow> string \<Rightarrow> string" where
  "preserve_raw_fields an v =
     (case read_raw an (json_candidate v) of
        Inl _ \<Rightarrow> []
      | Inr w \<Rightarrow>
          (case Option.bind (json_field w ''act'') json_str of
             None \<Rightarrow> []
           | Some a \<Rightarrow>
               (case Option.bind (json_field w ''rationale'') json_str of
                  None \<Rightarrow> [] | Some r \<Rightarrow> keep_text an a r)))"

definition preserve_cycle_fields :: "answering \<Rightarrow> ThoughtCycle \<Rightarrow> string" where
  "preserve_cycle_fields an c =
     keep_text an (decision_kind_token (final_act (ThoughtCycle.commitment c)))
       (case CommittedJudgment.reasons (ThoughtCycle.commitment c) of [] \<Rightarrow> [] | r # _ \<Rightarrow> r)"

definition conflict_repair_failure :: "answering \<Rightarrow> ThoughtCycle \<Rightarrow> string \<Rightarrow> ThoughtContext \<Rightarrow> ParseFailure" where
  "conflict_repair_failure an c a ctx =
     parse_failure an
       (''act '' @ a @ '' requires a non-null conflict_change with a supplied reference'') ctx
       (preserve_cycle_fields an c)"

definition output_error_kind :: "string \<Rightarrow> string" where
  "output_error_kind m =
     (if contains m ''JSON parse failed'' then ''thought_cycle_json_error'' else ''invalid_judgment'')"

definition safe_parse_error_reason :: "string \<Rightarrow> string" where
  "safe_parse_error_reason m =
     (if contains m ''JSON parse failed'' then ''wire_json_or_required_field_error''
      else if contains m ''is empty'' then ''empty_required_field''
      else if contains m ''unsupported act'' then ''unsupported_act''
      else if contains m ''invalid event ID'' then ''invalid_event_id''
      else if contains m ''invalid ID'' then ''invalid_entity_id''
      else if contains m ''outside the supplied context'' then ''evidence_reference_not_exposed''
      else if contains m ''requires a non-null conflict_change'' then ''act_requires_conflict_reference''
      else if contains m ''unknown context conflict'' then ''unknown_conflict_id''
      else if contains m ''unsupported stance'' \<or> contains m ''unsupported status''
      then ''unsupported_position_or_conflict_value''
      else ''thought_cycle_validation_failed'')"

section \<open>A thought\<close>

definition empty_trace :: CognitiveTrace where
  "empty_trace =
     \<lparr>CognitiveTrace.model_io = [], trace_id = [], outcome = [], provider = [], model = [],
      schema_version = [], context_sequence = 0, context_hash = [], referenced_event_ids = [],
      draft = None, review = None, commitment = None, parse_errors = [], retries = 0,
      elapsed_ms = 0, raw_response_hash = None, error_kind = None, created_at = []\<rparr>"

definition position_from_wire :: "answering \<Rightarrow> nat \<Rightarrow> WirePosition \<Rightarrow> string + Position" where
  "position_from_wire an n v =
     res_bind (parse_wire_id an (WirePosition.id v) ''position_change.id'') (\<lambda>i.
     res_bind (parse_wire_id an (WirePosition.principal_id v) ''position_change.principal_id'') (\<lambda>who.
     res_bind (parse_stance (WirePosition.stance v)) (\<lambda>sta.
     res_bind (parse_position_status (WirePosition.status v)) (\<lambda>st.
     res_bind (parse_optional_wire_id an (WirePosition.supersedes v) ''position_change.supersedes'') (\<lambda>old.
     res_bind (parse_event_ids an (WirePosition.evidence_refs v) ''position_change.evidence_refs'') (\<lambda>ev.
     Inr \<lparr>Position.id = i, principal_id = who, subject = WirePosition.subject v, stance = sta,
       version = WirePosition.version v, status = st, confidence = WirePosition.confidence v,
       supersedes = old, reasons = WirePosition.reasons v, evidence_refs = ev,
       reconsideration_conditions = WirePosition.reconsideration_conditions v,
       created_at = unwrap_or (position_time an n) (WirePosition.created_at v)\<rparr>))))))"

definition wire_conflict_id ::
  "answering \<Rightarrow> nat \<Rightarrow> ThoughtContext option \<Rightarrow> string option \<Rightarrow> string + ConflictId"
where
  "wire_conflict_id an n octx v =
     (case v of
        None \<Rightarrow> Inr (fresh_conflict an n)
      | Some t \<Rightarrow>
          res_bind (parse_wire_id an t ''conflict_change.id'') (\<lambda>i.
          case octx of
            None \<Rightarrow> Inr i
          | Some ctx \<Rightarrow>
              if i \<notin> set (map Conflict.id (ThoughtContext.conflicts ctx))
              then Inl (''thought cycle conflict_change.id '' @ id_text (answer_ids an) i @
                '' references an unknown context conflict'')
              else Inr i))"

definition conflict_from_wire ::
  "answering \<Rightarrow> nat \<Rightarrow> ThoughtContext option \<Rightarrow> WireConflict \<Rightarrow> string + Conflict"
where
  "conflict_from_wire an n octx v =
     res_bind (wire_conflict_id an n octx (WireConflict.id v)) (\<lambda>i.
     res_bind (parse_wire_ids an (WireConflict.participant_positions v)
       ''conflict_change.participant_positions'') (\<lambda>ps.
     res_bind (parse_conflict_status (WireConflict.status v)) (\<lambda>st.
     res_bind (parse_event_ids an (WireConflict.evidence_refs v) ''conflict_change.evidence_refs'') (\<lambda>ev.
     Inr \<lparr>Conflict.id = i, subject = WireConflict.subject v, participant_positions = ps,
       status = st, revision = WireConflict.revision v, reasons = WireConflict.reasons v,
       evidence_refs = ev, alternatives = WireConflict.alternatives v,
       reconsideration_conditions = WireConflict.reconsideration_conditions v,
       unresolved_questions = WireConflict.unresolved_questions v,
       resolution = WireConflict.resolution v, resolved_at = WireConflict.resolved_at v,
       created_at = unwrap_or (conflict_time an n) (WireConflict.created_at v)\<rparr>))))"

definition transpose_option :: "('a \<Rightarrow> 'e + 'b) \<Rightarrow> 'a option \<Rightarrow> 'e + 'b option" where
  "transpose_option f v = (case v of None \<Rightarrow> Inr None | Some a \<Rightarrow> res_bind (f a) (\<lambda>b. Inr (Some b)))"

definition cycle_of ::
  "WireThoughtCycle \<Rightarrow> DecisionKind \<Rightarrow> DecisionKind \<Rightarrow> EventId list \<Rightarrow> Position option \<Rightarrow>
   Conflict option \<Rightarrow> ThoughtCycle"
where
  "cycle_of w first final ev p c =
     \<lparr>ThoughtCycle.draft =
        \<lparr>ThoughtDraft.interpretation = draft_interpretation w, initial_judgment = first,
         reasons = draft_reasons w, uncertainties = draft_doubts w,
         initial_intent = draft_interpretation w\<rparr>,
      review =
        \<lparr>SelfReview.strongest_counterargument = review_strongest_objection w,
         value_conflicts = review_identity_conflicts w,
         unsupported_claims = review_unsupported_claims w,
         revision_direction = review_suggested_revision w\<rparr>,
      commitment =
        \<lparr>CommittedJudgment.final_act = final, reasons = [WireThoughtCycle.rationale w],
         response = WireThoughtCycle.response w, confidence = WireThoughtCycle.confidence w,
         unresolved_questions = draft_doubts w, alternatives = [], reconsideration_conditions = [],
         evidence_refs = ev, related_position_ids = [], position = p, user_position = None,
         conflict = c, action = None\<rparr>,
      trace = empty_trace\<rparr>"

definition required_text :: "string \<Rightarrow> string \<Rightarrow> string + unit" where
  "required_text t field =
     (if blank t then Inl (''thought cycle field '' @ field @ '' is empty'') else Inr ())"

definition parse_cycle_with_context ::
  "answering \<Rightarrow> nat \<Rightarrow> string \<Rightarrow> ThoughtContext option \<Rightarrow> string + ThoughtCycle"
where
  "parse_cycle_with_context an n v octx =
     res_bind (map_err (\<lambda>m. ''thought cycle JSON parse failed: '' @ m)
       (read_cycle an deserialize_string_list (json_candidate v))) (\<lambda>w.
     res_bind (parse_decision_kind (draft_initial_judgment w) ''draft_initial_judgment'') (\<lambda>first.
     res_bind (parse_decision_kind (act w) ''act'') (\<lambda>final.
     res_bind (required_text (draft_interpretation w) ''draft_interpretation'') (\<lambda>_.
     res_bind (required_text (review_strongest_objection w) ''review_strongest_objection'') (\<lambda>_.
     res_bind (required_text (WireThoughtCycle.rationale w) ''rationale'') (\<lambda>_.
     res_bind (required_text (WireThoughtCycle.response w) ''response'') (\<lambda>_.
     res_bind (parse_event_ids an (WireThoughtCycle.evidence_refs w) ''evidence_refs'') (\<lambda>ev.
     res_bind (transpose_option (position_from_wire an n) (position_change w)) (\<lambda>p.
     res_bind (transpose_option (conflict_from_wire an n octx) (conflict_change w)) (\<lambda>c.
     Inr (cycle_of w first final ev p c)))))))))))"

text \<open>An act that disputes needs a conflict with participants that exist or that evidence backs.\<close>

definition disputes :: "DecisionKind \<Rightarrow> bool" where
  "disputes k \<longleftrightarrow> k \<in> {DecisionKind.Challenge, DecisionKind.CounterPropose, DecisionKind.Negotiate,
       DecisionKind.Refuse}"

definition validate_conflict_structure ::
  "answering \<Rightarrow> ThoughtCycle \<Rightarrow> ThoughtContext \<Rightarrow> ParseFailure + unit"
where
  "validate_conflict_structure an cyc ctx =
     (let cm = ThoughtCycle.commitment cyc; a = decision_kind_token (final_act cm) in
      if \<not> disputes (final_act cm) then Inr ()
      else
        (case CommittedJudgment.conflict cm of
           None \<Rightarrow> Inl (conflict_repair_failure an cyc a ctx)
         | Some c \<Rightarrow>
             if Conflict.participant_positions c = [] \<or>
                \<not> (\<exists>i \<in> set (Conflict.participant_positions c).
                     i \<in> set (map Position.id (ThoughtContext.positions ctx @ user_positions ctx))) \<and>
                \<not> (CommittedJudgment.evidence_refs cm \<noteq> [] \<or> Conflict.evidence_refs c \<noteq> [])
             then Inl (conflict_repair_failure an cyc a ctx)
             else Inr ()))"

definition cited_events :: "CommittedJudgment \<Rightarrow> EventId list" where
  "cited_events cm =
     CommittedJudgment.evidence_refs cm @
     (case CommittedJudgment.position cm of None \<Rightarrow> [] | Some p \<Rightarrow> Position.evidence_refs p) @
     (case CommittedJudgment.conflict cm of None \<Rightarrow> [] | Some c \<Rightarrow> Conflict.evidence_refs c)"

definition parse_cycle_for_context ::
  "answering \<Rightarrow> nat \<Rightarrow> string \<Rightarrow> ThoughtContext \<Rightarrow> ParseFailure + ThoughtCycle"
where
  "parse_cycle_for_context an n v ctx =
     res_bind (map_err (\<lambda>m. parse_failure an m ctx (preserve_raw_fields an v))
       (parse_cycle_with_context an n v (Some ctx))) (\<lambda>cyc.
     case find (\<lambda>i. i \<notin> set (allowed_evidence_ids an ctx)) (cited_events (ThoughtCycle.commitment cyc)) of
       Some i \<Rightarrow>
         Inl (parse_failure an (''thought cycle evidence_refs ID '' @ id_text (answer_ids an) i @
           '' is outside the supplied context'') ctx (preserve_cycle_fields an cyc))
     | None \<Rightarrow> res_bind (validate_conflict_structure an cyc ctx) (\<lambda>_. Inr cyc))"

section \<open>A sleep deliberation\<close>

definition sleep_out_of_bounds :: "WireSleepDeliberation \<Rightarrow> bool" where
  "sleep_out_of_bounds w \<longleftrightarrow>
     length (trim (WireSleepDeliberation.draft_summary w)) > MAX_SLEEP_TEXT \<or>
     blank (WireSleepDeliberation.draft_summary w) \<or>
     length (WireSleepDeliberation.candidates w) > MAX_SLEEP_CANDIDATES \<or>
     length (WireSleepSelfReview.weak_points (WireSleepDeliberation.self_review w))
       > MAX_SLEEP_CANDIDATES \<or>
     (\<exists>t \<in> set (WireSleepSelfReview.weak_points (WireSleepDeliberation.self_review w)).
        blank t \<or> length (trim t) > MAX_SLEEP_TEXT) \<or>
     length (possible_counterevidence (WireSleepDeliberation.self_review w)) > MAX_CANDIDATE_SOURCES"

definition parse_candidate ::
  "answering \<Rightarrow> EventId list \<Rightarrow> nat \<Rightarrow> WireSleepCandidate \<Rightarrow> string + IntegrationCandidateDraft"
where
  "parse_candidate an ok_ids k w =
     (if blank (WireSleepCandidate.content w) \<or> blank (WireSleepCandidate.rationale w) \<or>
         length (trim (WireSleepCandidate.content w)) > MAX_SLEEP_TEXT \<or>
         length (trim (WireSleepCandidate.rationale w)) > MAX_SLEEP_TEXT \<or>
         length (WireSleepCandidate.source_event_ids w) > MAX_CANDIDATE_SOURCES \<or>
         length (WireSleepCandidate.counterevidence_event_ids w) > MAX_CANDIDATE_SOURCES \<or>
         WireSleepCandidate.confidence w > 100
      then Inl (''candidate '' @ decimal k @ '' is empty or exceeds its bounds'')
      else
        res_bind (parse_event_ids an (WireSleepCandidate.source_event_ids w)
          (''candidates['' @ decimal k @ ''].source_event_ids'')) (\<lambda>src.
        res_bind (parse_event_ids an (WireSleepCandidate.counterevidence_event_ids w)
          (''candidates['' @ decimal k @ ''].counterevidence_event_ids'')) (\<lambda>counter.
        if src = [] \<or> (\<exists>i \<in> set src. i \<in> set counter)
        then Inl (''candidate '' @ decimal k @ '' has invalid source provenance'')
        else if \<exists>i \<in> set (src @ counter). i \<notin> set ok_ids
        then Inl (''candidate '' @ decimal k @ '' provenance is outside the supplied context'')
        else
          res_bind (parse_integration_candidate_kind (WireSleepCandidate.kind w)) (\<lambda>kd.
          Inr \<lparr>IntegrationCandidateDraft.kind = kd, content = WireSleepCandidate.content w,
            rationale = WireSleepCandidate.rationale w, source_event_ids = src,
            counterevidence_event_ids = counter,
            confidence = WireSleepCandidate.confidence w\<rparr>))))"

fun parse_candidates ::
  "answering \<Rightarrow> EventId list \<Rightarrow> nat \<Rightarrow> WireSleepCandidate list \<Rightarrow>
   string + IntegrationCandidateDraft list"
where
  "parse_candidates an ok_ids k [] = Inr []"
| "parse_candidates an ok_ids k (w # ws) =
     res_bind (parse_candidate an ok_ids k w) (\<lambda>d.
     res_bind (parse_candidates an ok_ids (Suc k) ws) (\<lambda>ds. Inr (d # ds)))"

definition parse_sleep :: "answering \<Rightarrow> string \<Rightarrow> SleepContext \<Rightarrow> string + SleepDeliberation" where
  "parse_sleep an v c =
     res_bind (map_err (\<lambda>m. ''sleep deliberation JSON parse failed: '' @ m)
       (read_sleep an deserialize_string_list (json_candidate v))) (\<lambda>w.
     if sleep_out_of_bounds w
     then Inl ''sleep deliberation exceeds its bounds or has an empty summary''
     else
       res_bind (parse_event_ids an (possible_counterevidence (WireSleepDeliberation.self_review w))
         ''self_review.possible_counterevidence'') (\<lambda>counter.
       if \<exists>i \<in> set counter. i \<notin> set (sleep_event_ids c)
       then Inl ''sleep self-review references an event outside the supplied context''
       else
         res_bind (parse_candidates an (sleep_event_ids c) 0 (WireSleepDeliberation.candidates w)) (\<lambda>ds.
         Inr \<lparr>SleepDeliberation.draft_summary = WireSleepDeliberation.draft_summary w,
           self_review =
             \<lparr>SleepSelfReview.weak_points =
                WireSleepSelfReview.weak_points (WireSleepDeliberation.self_review w),
              possible_counterevidence_event_ids = counter,
              revised = WireSleepSelfReview.revised (WireSleepDeliberation.self_review w)\<rparr>,
           candidates = ds, trace = None\<rparr>)))"

definition parse_sleep_for_context ::
  "answering \<Rightarrow> string \<Rightarrow> SleepContext \<Rightarrow> ParseFailure + SleepDeliberation"
where
  "parse_sleep_for_context an v c = map_err (\<lambda>m. sleep_parse_failure an m c) (parse_sleep an v c)"

section \<open>The two attempts of a call\<close>

record PrimaryModel =
  base_url :: string
  api_key :: "string option"
  model_name :: string
  settings :: ModelIoConfig
  generation_limit :: "usize option"

text \<open>
  A call with its surroundings: the crates, the exchanges of its attempts, the times they took, the
  identifier of its trace.
\<close>

record exchange =
  over_wire :: wire
  in_prompt :: prompting
  in_answer :: answering
  post :: "nat \<Rightarrow> HttpUrl \<Rightarrow> string \<Rightarrow> string option \<Rightarrow> HttpOutcome"
  request_ms :: "nat \<Rightarrow> u64"
  since_start :: "nat \<Rightarrow> u128"
  new_trace_id :: string

record RawResponse =
  content :: string
  response_hash :: string
  elapsed_ms :: u64
  diagnostic :: ModelIoDiagnostic
  prepared :: PreparedModelRequest

datatype RequestError = Preparation PreparationError | Transport TransportError

definition new_trace :: "exchange \<Rightarrow> PrimaryModel \<Rightarrow> string \<Rightarrow> u64 \<Rightarrow> string \<Rightarrow> CognitiveTrace" where
  "new_trace ex pm sv sq h =
     empty_trace\<lparr>CognitiveTrace.trace_id := new_trace_id ex, outcome := ''failed'',
       provider := (case ModelIoConfig.transport (settings pm) of
          OpenaiCompatible \<Rightarrow> ''openai_compatible'' | Ollama \<Rightarrow> ''ollama''),
       CognitiveTrace.model := model_name pm, schema_version := sv, context_sequence := sq,
       CognitiveTrace.context_hash := h\<rparr>"

text \<open>The meter counts what is sent, before it is sent; \<open>used\<close> is its count.\<close>

definition metered :: "PrimaryModel \<Rightarrow> usize \<Rightarrow> usize option" where
  "metered pm used =
     (case generation_limit pm of
        None \<Rightarrow> Some used
      | Some lim \<Rightarrow> if used < lim then Some (saturating_add used 1) else None)"

definition send_prepared ::
  "exchange \<Rightarrow> PrimaryModel \<Rightarrow> nat \<Rightarrow> PreparedModelRequest \<Rightarrow> usize \<Rightarrow>
   (RequestError + RawResponse) \<times> usize"
where
  "send_prepared ex pm n q used =
     (case metered pm used of
        None \<Rightarrow>
          (Inl (Preparation (PreparationError.Configuration
            ''evaluation generation-call limit reached'')), used)
      | Some used' \<Rightarrow>
          (case send (over_wire ex) (post ex n) (request_ms ex n) (base_url pm) (api_key pm)
              (model_name pm) (ModelIoConfig.transport (settings pm)) q of
             Inl err \<Rightarrow> (Inl (Transport err), used')
           | Inr r \<Rightarrow>
               (Inr \<lparr>RawResponse.content = ModelResponse.content r,
                  response_hash = unwrap_or []
                    (ModelIoDiagnostic.response_hash (ModelResponse.diagnostic r)),
                  elapsed_ms = ModelIoDiagnostic.elapsed_ms (ModelResponse.diagnostic r),
                  diagnostic = ModelResponse.diagnostic r, prepared = q\<rparr>, used')))"

definition prepare_foreground ::
  "exchange \<Rightarrow> PrimaryModel \<Rightarrow> ThoughtContext \<Rightarrow> string option \<Rightarrow> PreparationError + PreparedModelRequest"
where
  "prepare_foreground ex pm ctx corr =
     res_bind (foreground (in_prompt ex) ctx) (\<lambda>r.
     prepare (wire_lib (over_wire ex)) (value_bytes (over_wire ex)) r (settings pm) Foreground corr)"

definition prepare_sleep ::
  "exchange \<Rightarrow> PrimaryModel \<Rightarrow> SleepContext \<Rightarrow> string option \<Rightarrow> PreparationError + PreparedModelRequest"
where
  "prepare_sleep ex pm c corr =
     res_bind (sleep_prompt (in_prompt ex) c) (\<lambda>r.
     prepare (wire_lib (over_wire ex)) (value_bytes (over_wire ex)) r (settings pm) RequestPurpose.Sleep
       corr)"

definition send_if_prepared ::
  "exchange \<Rightarrow> PrimaryModel \<Rightarrow> nat \<Rightarrow> PreparationError + PreparedModelRequest \<Rightarrow> usize \<Rightarrow>
   (RequestError + RawResponse) \<times> usize"
where
  "send_if_prepared ex pm n r used =
     (case r of Inl err \<Rightarrow> (Inl (Preparation err), used) | Inr q \<Rightarrow> send_prepared ex pm n q used)"

definition record_response :: "RawResponse \<Rightarrow> CognitiveTrace \<Rightarrow> CognitiveTrace" where
  "record_response r t =
     t\<lparr>CognitiveTrace.raw_response_hash := Some (RawResponse.response_hash r),
       CognitiveTrace.elapsed_ms := RawResponse.elapsed_ms r,
       referenced_event_ids := PreparedModelRequest.evidence_ids (prepared r),
       CognitiveTrace.model_io := CognitiveTrace.model_io t @ [RawResponse.diagnostic r]\<rparr>"

text \<open>The trace of a failed request, and its message.\<close>

definition record_error ::
  "PrimaryModel \<Rightarrow> RequestError \<Rightarrow> CognitiveTrace \<Rightarrow> RequestPurpose \<Rightarrow> u128 \<Rightarrow> string \<times> CognitiveTrace"
where
  "record_error pm err t0 p elapsed =
     (let t = t0\<lparr>CognitiveTrace.elapsed_ms := ucast elapsed\<rparr>;
          named = (\<lambda>k u. (k, u\<lparr>CognitiveTrace.error_kind := Some k\<rparr>)) in
      case err of
        Preparation (PreparationError.Configuration m) \<Rightarrow>
          (m, t\<lparr>CognitiveTrace.error_kind := Some ''configuration''\<rparr>)
      | Preparation (Budget b) \<Rightarrow>
          named ''context_budget_exceeded''
            (t\<lparr>CognitiveTrace.model_io := CognitiveTrace.model_io t @
               [\<lparr>ModelIoDiagnostic.transport = ModelIoConfig.transport (settings pm), purpose = p,
                 budget = b, evidence_ids = [], position_ids = [], conflict_ids = [],
                 observed_context_tokens = None, prompt_tokens = None, completion_tokens = None,
                 finish_reason = None, content_type = ''missing'', content_bytes = None,
                 request_hash = [], response_hash = None, elapsed_ms = ucast elapsed,
                 error_kind = Some ''context_budget_exceeded''\<rparr>]\<rparr>)
      | Transport te \<Rightarrow>
          named (TransportError.kind te)
            (t\<lparr>CognitiveTrace.raw_response_hash :=
                 ModelIoDiagnostic.response_hash (TransportError.diagnostic te),
               parse_errors := parse_errors t @
                 (case TransportError.envelope te of None \<Rightarrow> [] | Some e \<Rightarrow> [e]),
               CognitiveTrace.model_io := CognitiveTrace.model_io t @ [TransportError.diagnostic te]\<rparr>))"

definition request_error ::
  "PrimaryModel \<Rightarrow> RequestError \<Rightarrow> CognitiveTrace \<Rightarrow> u128 \<Rightarrow> CognitiveError"
where
  "request_error pm err t0 elapsed =
     (case record_error pm err t0 Foreground elapsed of (m, t) \<Rightarrow>
        let k = CognitiveTrace.error_kind t in
        if k = Some ''configuration'' \<or> k = Some ''context_budget_exceeded''
        then CognitiveError.Configuration m t
        else if k = Some ''timeout'' then CognitiveError.Timeout t
        else if k = Some ''provider_error'' then CognitiveError.Provider m t
        else CognitiveError.Malformed m t)"

definition sleep_request_error ::
  "PrimaryModel \<Rightarrow> RequestError \<Rightarrow> CognitiveTrace \<Rightarrow> u128 \<Rightarrow> SleepCognitiveError"
where
  "sleep_request_error pm err t0 elapsed =
     (case record_error pm err t0 RequestPurpose.Sleep elapsed of (m, t) \<Rightarrow>
        let k = CognitiveTrace.error_kind t in
        if k = Some ''configuration'' \<or> k = Some ''context_budget_exceeded''
        then SleepCognitiveError.Configuration m t
        else if k = Some ''timeout'' then SleepCognitiveError.Timeout t
        else if k = Some ''provider_error'' then SleepCognitiveError.Provider m t
        else SleepCognitiveError.Malformed m t)"

text \<open>The trace after an answer that did not validate.\<close>

definition note_failure :: "nat \<Rightarrow> string \<Rightarrow> CognitiveTrace \<Rightarrow> CognitiveTrace" where
  "note_failure n m t =
     t\<lparr>parse_errors := parse_errors t @
         [''attempt='' @ decimal n @ '';kind='' @ output_error_kind m @ '';reason='' @
            safe_parse_error_reason m],
       CognitiveTrace.model_io :=
         (case rev (CognitiveTrace.model_io t) of
            [] \<Rightarrow> []
          | d # ds \<Rightarrow> rev ds @ [d\<lparr>ModelIoDiagnostic.error_kind := Some (output_error_kind m)\<rparr>])\<rparr>"

text \<open>How the attempts end: no answer, no valid answer, or a valid one; each with the trace.\<close>

datatype 'a Attempted =
    NoAnswer RequestError CognitiveTrace nat
  | NotValid CognitiveTrace nat
  | Valid 'a CognitiveTrace nat

text \<open>
  The loop \<open>for attempt in 0..=1\<close> of \<open>think\<close> and \<open>deliberate_sleep\<close>: \<open>ask\<close> sends the \<open>n\<close>-th request
  with the correction, \<open>judge\<close> validates its answer against what it showed.
\<close>

function attempts ::
  "(nat \<Rightarrow> string option \<Rightarrow> usize \<Rightarrow> (RequestError + RawResponse) \<times> usize) \<Rightarrow>
   (nat \<Rightarrow> RawResponse \<Rightarrow> ParseFailure + 'a) \<Rightarrow> nat \<Rightarrow> string option \<Rightarrow> CognitiveTrace \<Rightarrow> usize \<Rightarrow>
   'a Attempted \<times> usize"
where
  "attempts ask judge n corr t0 used =
     (let t = t0\<lparr>retries := of_nat n\<rparr> in
      case ask n corr used of
        (Inl err, used') \<Rightarrow> (NoAnswer err t n, used')
      | (Inr r, used') \<Rightarrow>
          (let t' = record_response r t in
           case judge n r of
             Inr v \<Rightarrow> (Valid v t' n, used')
           | Inl f \<Rightarrow>
               (let t'' = note_failure n (message f) t' in
                if n \<ge> 1
                then (NotValid
                  (t''\<lparr>CognitiveTrace.error_kind := Some (output_error_kind (message f))\<rparr>) n, used')
                else attempts ask judge (Suc n) (Some (correction f)) t'' used')))"
  by pat_completeness auto
termination by (relation "measure (\<lambda>(ask, judge, n, corr, t0, used). 1 - n)") simp_all

declare attempts.simps [simp del]

definition think_with ::
  "exchange \<Rightarrow> PrimaryModel \<Rightarrow> ThoughtContext \<Rightarrow> usize \<Rightarrow> (CognitiveError + ThoughtCycle) \<times> usize"
where
  "think_with ex pm ctx used =
     (case attempts
        (\<lambda>n corr. send_if_prepared ex pm n (prepare_foreground ex pm ctx corr))
        (\<lambda>n r. parse_cycle_for_context (in_answer ex) n (RawResponse.content r)
          (scoped_context ctx (prepared r)))
        0 None
        (new_trace ex pm ''thought-cycle.v1'' (ThoughtContext.event_sequence ctx)
          (ThoughtContext.snapshot_hash ctx)) used of
        (NoAnswer err t n, used') \<Rightarrow> (Inl (request_error pm err t (since_start ex n)), used')
      | (NotValid t n, used') \<Rightarrow>
          (Inl (CognitiveError.Malformed ''model output failed validation after one correction''
            (t\<lparr>CognitiveTrace.elapsed_ms := ucast (since_start ex n)\<rparr>)), used')
      | (Valid cyc t n, used') \<Rightarrow>
          (Inr (cyc\<lparr>ThoughtCycle.trace :=
             t\<lparr>CognitiveTrace.elapsed_ms := ucast (since_start ex n), outcome := ''succeeded'',
               CognitiveTrace.draft := Some (ThoughtCycle.draft cyc),
               CognitiveTrace.review := Some (ThoughtCycle.review cyc),
               CognitiveTrace.commitment := Some (ThoughtCycle.commitment cyc)\<rparr>\<rparr>), used'))"

definition check_sleep_fits ::
  "exchange \<Rightarrow> PrimaryModel \<Rightarrow> SleepContext \<Rightarrow> PreparationError + BudgetReport"
where
  "check_sleep_fits ex pm c =
     res_bind (prepare_sleep ex pm c None) (\<lambda>q. Inr (PreparedModelRequest.budget q))"

definition sleep_with ::
  "exchange \<Rightarrow> PrimaryModel \<Rightarrow> SleepContext \<Rightarrow> usize \<Rightarrow>
   (SleepCognitiveError + SleepDeliberation) \<times> usize"
where
  "sleep_with ex pm c used =
     (case attempts
        (\<lambda>n corr. send_if_prepared ex pm n (prepare_sleep ex pm c corr))
        (\<lambda>n r. parse_sleep_for_context (in_answer ex) (RawResponse.content r)
          (scoped_sleep c (prepared r)))
        0 None
        (new_trace ex pm ''sleep-deliberation.v1'' (SleepContext.high_water_revision c)
          (SleepContext.snapshot_hash c)) used of
        (NoAnswer err t n, used') \<Rightarrow> (Inl (sleep_request_error pm err t (since_start ex n)), used')
      | (NotValid t n, used') \<Rightarrow>
          (Inl (SleepCognitiveError.Malformed ''Sleep output failed validation after one correction''
            (t\<lparr>CognitiveTrace.elapsed_ms := ucast (since_start ex n)\<rparr>)), used')
      | (Valid d t n, used') \<Rightarrow>
          (Inr (d\<lparr>SleepDeliberation.trace :=
             Some (t\<lparr>outcome := ''succeeded'',
               CognitiveTrace.elapsed_ms := ucast (since_start ex n)\<rparr>)\<rparr>), used'))"

end
