(* ===== verification/ModelProperties.thy ===== *)
theory ModelProperties
  imports ModelAnswers SleepAcceptance Scenario
begin

text \<open>
  Properties of the calls to a language model: which envelopes count as an answer, what a prompt
  holds, what a validated answer may refer to, and how often the model is asked.
\<close>

section \<open>What a prompt holds\<close>

lemma selected_evidence_set:
  "set (selected_evidence r sel) =
     set (PromptItem.evidence_ids (RenderedPrompt.required r)) \<union> set (concat (map PromptItem.evidence_ids sel))"
  by (simp add: selected_evidence_def set_dedup_eq)

text \<open>Whatever the budget leaves out, the required evidence stays.\<close>

lemma prepare_Inr:
  assumes "prepare x jt r cfg p corr = Inr q"
  shows "\<exists>k. PreparedModelRequest.evidence_ids q = selected_evidence r (take k (RenderedPrompt.optional r))"
    and "PreparedModelRequest.position_ids q = RenderedPrompt.position_ids r"
    and "PreparedModelRequest.conflict_ids q = RenderedPrompt.conflict_ids r"
    and "check_prepared q"
proof -
  let ?n = "length (RenderedPrompt.optional r)"
  from assms obtain ctx out eff th where
    "prepare_loop x jt r p corr ctx out (ModelIoConfig.safety_margin cfg) eff th
      (take ?n (RenderedPrompt.optional r)) (of_nat (?n - ?n)) = Inr q"
    unfolding prepare_def by (auto split: option.splits if_splits prod.splits)
  then obtain i where q: "q = prepared_request r p eff th (take i (RenderedPrompt.optional r))
      (rendered_messages x jt r corr (take i (RenderedPrompt.optional r)))
      (attempt x jt r corr ctx out (ModelIoConfig.safety_margin cfg) i)"
    and fits: "report_fits (attempt x jt r corr ctx out (ModelIoConfig.safety_margin cfg) i)"
    unfolding prepare_loop_exactly [OF order.refl] by (auto simp: longest_fit_Some split: option.splits)
  then show "check_prepared q"
    by (simp add: check_prepared_def prepared_request_def attempt_def PromptBudget.budget_report_def
        report_fits_def Let_def)
  from q  show "\<exists>k. PreparedModelRequest.evidence_ids q = selected_evidence r (take k (RenderedPrompt.optional r))"
    and "PreparedModelRequest.position_ids q = RenderedPrompt.position_ids r"
    and "PreparedModelRequest.conflict_ids q = RenderedPrompt.conflict_ids r"
    by (auto simp: prepared_request_def)
qed

definition item_sources :: "PromptItem list \<Rightarrow> EventId set" where
  "item_sources ps = set (concat (map PromptItem.evidence_ids ps))"

lemma item_sources_simps [simp]:
  "item_sources [] = {}"
  "item_sources (p # ps) = set (PromptItem.evidence_ids p) \<union> item_sources ps"
  "item_sources (ps @ qs) = item_sources ps \<union> item_sources qs"
  by (simp_all add: item_sources_def)

lemma item_sources_removed:
  assumes "n < length ps"
  shows "item_sources ps =
    set (PromptItem.evidence_ids (ps ! n)) \<union> item_sources (take n ps @ drop (Suc n) ps)"
proof -
  have "item_sources ps = item_sources (take n ps @ ps ! n # drop (Suc n) ps)"
    using assms by (simp add: id_take_nth_drop [symmetric])
  then show ?thesis by auto
qed

lemma add_support_Inr:
  "add_support pr events deps ids vs opt = Inr (ids', vs', opt') \<Longrightarrow>
   set ids \<union> set deps \<subseteq> set ids' \<and>
   set ids' \<union> item_sources opt' \<subseteq>
     set ids \<union> item_sources opt \<union> set (map ExperienceEvent.event_id events)"
proof (induction pr events deps ids vs opt rule: add_support.induct)
  case (2 pr events i deps ids vs opt)
  show ?case
  proof (cases "i \<in> set ids")
    case True
    with 2 show ?thesis by auto
  next
    case missing: False
    show ?thesis
    proof (cases "position_index (\<lambda>p. i \<in> set (PromptItem.evidence_ids p)) opt")
      case (Some n)
      then have n: "n < length opt" "i \<in> set (PromptItem.evidence_ids (opt ! n))"
        by (auto dest: position_index_Some)
      from 2(3) [OF missing Some] 2(4) missing Some item_sources_removed [OF n(1)] n(2)
      show ?thesis by auto
    next
      case None
      from 2(4) missing None obtain e where e: "find (\<lambda>e. ExperienceEvent.event_id e = i) events = Some e"
        by (auto split: option.splits)
      then have "i \<in> set (map ExperienceEvent.event_id events)" by (auto simp: find_Some_iff)
      with 2(2) [OF missing None e] 2(4) missing None e show ?thesis by auto
    qed
  qed
qed simp

text \<open>The events a context shows: recalled ones, those of the ledger, the sources of a snapshot.\<close>

definition snapshot_sources :: "prompting \<Rightarrow> ThoughtContext \<Rightarrow> EventId set" where
  "snapshot_sources pr ctx =
     (case context_snapshot ctx of
        None \<Rightarrow> {}
      | Some snap \<Rightarrow> \<Union> ((\<lambda>k. case snapshot_items pr snap k of
            Inl _ \<Rightarrow> {}
          | Inr its \<Rightarrow> set (concat (map ContextItem.source_event_ids its)))
          ` {''anchors'', ''active_recent'', ''compressed_middle''}))"

definition shown_events :: "prompting \<Rightarrow> ThoughtContext \<Rightarrow> EventId set" where
  "shown_events pr ctx =
     set_option (current_observation_event_id ctx) \<union>
     set (map RecalledItem.source_event_id (RecallBundle.items (ThoughtContext.recall ctx))) \<union>
     set (map ExperienceEvent.event_id (relevant_events ctx)) \<union> snapshot_sources pr ctx"

lemma by_score_set [simp]: "set (by_score rs) = set rs"
  by (simp add: by_score_def)

lemma item_sources_items:
  "item_sources (map (prompt_item pr) its) = set (concat (map ContextItem.source_event_ids its))"
  "item_sources (map (recall_prompt_item pr) rs) = set (map RecalledItem.source_event_id rs)"
  by (auto simp: item_sources_def prompt_item_def recall_prompt_item_def)

lemma snapshot_optional_sources:
  "item_sources (snapshot_optional pr ctx recents mids) \<subseteq>
    set (map RecalledItem.source_event_id (RecallBundle.items (ThoughtContext.recall ctx))) \<union>
    set (concat (map ContextItem.source_event_ids (recents @ mids)))"
  unfolding snapshot_optional_def Let_def by (auto simp: item_sources_items)

lemma snapshot_part_sources:
  assumes "snapshot_part pr ctx snap = Inr (ids, state, opt)" and "context_snapshot ctx = Some snap"
  shows "set ids \<union> item_sources opt \<subseteq>
    set (map RecalledItem.source_event_id (RecallBundle.items (ThoughtContext.recall ctx))) \<union>
    snapshot_sources pr ctx"
proof -
  from assms(1) obtain anch active middle where
    items: "snapshot_items pr snap ''anchors'' = Inr anch"
      "snapshot_items pr snap ''active_recent'' = Inr active"
      "snapshot_items pr snap ''compressed_middle'' = Inr middle"
    and parts: "ids = concat (map ContextItem.source_event_ids (filter (anchor_present ctx) anch))"
      "opt = snapshot_optional pr ctx active middle"
    by (auto simp: snapshot_part_def res_simps)
  from items have "snapshot_sources pr ctx =
      set (concat (map ContextItem.source_event_ids (anch @ active @ middle)))"
    using assms(2) by (auto simp: snapshot_sources_def)
  moreover have "set ids \<subseteq> set (concat (map ContextItem.source_event_ids anch))"
    by (auto simp: parts)
  ultimately show ?thesis
    using snapshot_optional_sources [of pr ctx active middle] by (auto simp: parts)
qed

lemma event_part_sources:
  "item_sources (event_part pr ctx) \<subseteq>
    set (map RecalledItem.source_event_id (RecallBundle.items (ThoughtContext.recall ctx))) \<union>
    set (map ExperienceEvent.event_id (relevant_events ctx))"
  by (auto simp: event_part_def Let_def item_sources_items) (auto simp: item_sources_def)

lemma foreground_sources:
  assumes "foreground pr ctx = Inr r"
  shows "set (dependencies ctx) \<union> set_option (current_observation_event_id ctx) \<subseteq>
      set (PromptItem.evidence_ids (RenderedPrompt.required r))"
    and "set (PromptItem.evidence_ids (RenderedPrompt.required r)) \<union> item_sources (RenderedPrompt.optional r) \<subseteq> shown_events pr ctx"
proof -
  let ?now = "case current_observation_event_id ctx of None \<Rightarrow> [] | Some i \<Rightarrow> [i]"
  from assms obtain ids state opt ids' vs' opt' where
    part: "(case context_snapshot ctx of
          Some snap \<Rightarrow> snapshot_part pr ctx snap
        | None \<Rightarrow> Inr ([], required_state pr ctx, event_part pr ctx)) = Inr (ids, state, opt)"
    and support: "add_support pr (relevant_events ctx) (dependencies ctx) (ids @ ?now) [] opt =
      Inr (ids', vs', opt')"
    and r: "PromptItem.evidence_ids (RenderedPrompt.required r) = ids'" "RenderedPrompt.optional r = opt'"
    by (auto simp: foreground_def res_simps)
  have now: "set ?now = set_option (current_observation_event_id ctx)" by (cases "current_observation_event_id ctx") simp_all
  have "set ids \<union> item_sources opt \<subseteq>
      set (map RecalledItem.source_event_id (RecallBundle.items (ThoughtContext.recall ctx))) \<union>
      set (map ExperienceEvent.event_id (relevant_events ctx)) \<union> snapshot_sources pr ctx"
    using part snapshot_part_sources [of pr ctx _ ids state opt] event_part_sources [of pr ctx]
    by (auto split: option.splits)
  with add_support_Inr [OF support] now r
  show "set (dependencies ctx) \<union> set_option (current_observation_event_id ctx) \<subseteq>
      set (PromptItem.evidence_ids (RenderedPrompt.required r))"
    and "set (PromptItem.evidence_ids (RenderedPrompt.required r)) \<union> item_sources (RenderedPrompt.optional r) \<subseteq> shown_events pr ctx"
    unfolding shown_events_def by auto
qed

lemma prepare_foreground_sources:
  assumes "prepare_foreground ex pm ctx corr = Inr q"
  shows "set (dependencies ctx) \<union> set_option (current_observation_event_id ctx) \<subseteq>
      set (PreparedModelRequest.evidence_ids q)"
    and "set (PreparedModelRequest.evidence_ids q) \<subseteq> shown_events (in_prompt ex) ctx"
proof -
  from assms obtain r where r: "foreground (in_prompt ex) ctx = Inr r"
    and q: "prepare (wire_lib (over_wire ex)) (value_bytes (over_wire ex)) r (settings pm) Foreground
      corr = Inr q"
    by (auto simp: prepare_foreground_def res_simps)
  from prepare_Inr(1) [OF q] obtain k where
    "PreparedModelRequest.evidence_ids q = selected_evidence r (take k (RenderedPrompt.optional r))" ..
  moreover have "item_sources (take k (RenderedPrompt.optional r)) \<subseteq> item_sources (RenderedPrompt.optional r)"
    by (auto simp: item_sources_def dest: in_set_takeD)
  then have "set (concat (map PromptItem.evidence_ids (take k (RenderedPrompt.optional r)))) \<subseteq>
      shown_events (in_prompt ex) ctx"
    using foreground_sources(2) [OF r] by (simp add: item_sources_def) blast
  ultimately show "set (dependencies ctx) \<union> set_option (current_observation_event_id ctx) \<subseteq>
      set (PreparedModelRequest.evidence_ids q)"
    and "set (PreparedModelRequest.evidence_ids q) \<subseteq> shown_events (in_prompt ex) ctx"
    using foreground_sources [OF r] by (auto simp: selected_evidence_set)
qed

section \<open>What a thought may refer to\<close>

lemma with_sources_set [simp]: "set (with_sources ids js) = set ids \<union> set js"
proof (induction js arbitrary: ids)
  case (Cons j js)
  have "with_sources ids (j # js) = with_sources (if j \<in> set ids then ids else ids @ [j]) js"
    by (simp add: with_sources_def)
  with Cons.IH show ?case by auto
qed (simp add: with_sources_def)

lemma allowed_scoped [simp]:
  "set (allowed_evidence_ids an (scoped_context ctx q)) = set (PreparedModelRequest.evidence_ids q)"
  by (simp add: allowed_evidence_ids_def scoped_context_def)

lemma sleep_scoped:
  "set (sleep_event_ids (scoped_sleep c q)) \<subseteq> context_event_ids c"
  by (auto simp: sleep_event_ids_def scoped_sleep_def context_event_ids_def)

text \<open>The acts that the parser knows.\<close>

definition speech_acts :: "DecisionKind set" where
  "speech_acts =
     {DecisionKind.Respond, DecisionKind.Agree, DecisionKind.AskWhy, DecisionKind.Challenge,
      DecisionKind.CounterPropose, DecisionKind.Negotiate, DecisionKind.Refuse,
      DecisionKind.ObserveMore, DecisionKind.RequestClarification}"

lemma parse_decision_kind_Inr:
  "parse_decision_kind v f = Inr k \<Longrightarrow>
   k \<in> speech_acts \<and> normalize_known_token v = decision_kind_token k"
  by (auto simp: parse_decision_kind_def Let_def speech_acts_def split: if_splits)

lemma conflict_from_wire_id:
  "conflict_from_wire an n (Some ctx) w = Inr c \<Longrightarrow>
   Conflict.id c \<in> insert (fresh_conflict an n) (set (map Conflict.id (ThoughtContext.conflicts ctx)))"
  by (auto simp: conflict_from_wire_def wire_conflict_id_def res_simps split: option.splits if_splits)

lemma parse_cycle_Inr:
  assumes "parse_cycle_with_context an n v (Some ctx) = Inr cyc"
  shows "final_act (ThoughtCycle.commitment cyc) \<in> speech_acts"
    and "\<not> blank (CommittedJudgment.response (ThoughtCycle.commitment cyc))"
    and "action (ThoughtCycle.commitment cyc) = None"
    and "user_position (ThoughtCycle.commitment cyc) = None"
    and "\<And>c. CommittedJudgment.conflict (ThoughtCycle.commitment cyc) = Some c \<Longrightarrow>
      Conflict.id c \<in> insert (fresh_conflict an n) (set (map Conflict.id (ThoughtContext.conflicts ctx)))"
proof -
  from assms obtain w first final ev p c where
    "cyc = cycle_of w first final ev p c"
    "parse_decision_kind (act w) ''act'' = Inr final"
    "required_text (WireThoughtCycle.response w) ''response'' = Inr ()"
    "transpose_option (conflict_from_wire an n (Some ctx)) (conflict_change w) = Inr c"
    by (auto simp: parse_cycle_with_context_def res_simps)
  then show "final_act (ThoughtCycle.commitment cyc) \<in> speech_acts"
    and "\<not> blank (CommittedJudgment.response (ThoughtCycle.commitment cyc))"
    and "action (ThoughtCycle.commitment cyc) = None"
    and "user_position (ThoughtCycle.commitment cyc) = None"
    and "\<And>c. CommittedJudgment.conflict (ThoughtCycle.commitment cyc) = Some c \<Longrightarrow>
      Conflict.id c \<in> insert (fresh_conflict an n) (set (map Conflict.id (ThoughtContext.conflicts ctx)))"
    by (auto simp: cycle_of_def required_text_def transpose_option_def res_simps
        dest!: parse_decision_kind_Inr conflict_from_wire_id split: if_splits option.splits)
qed

text \<open>The conflict an act that disputes must come with.\<close>

definition conflict_founded :: "ThoughtContext \<Rightarrow> CommittedJudgment \<Rightarrow> bool" where
  "conflict_founded ctx cm \<longleftrightarrow>
     (case CommittedJudgment.conflict cm of
        None \<Rightarrow> False
      | Some c \<Rightarrow> Conflict.participant_positions c \<noteq> [] \<and>
          ((\<exists>i \<in> set (Conflict.participant_positions c).
              i \<in> set (map Position.id (ThoughtContext.positions ctx @ user_positions ctx))) \<or>
           CommittedJudgment.evidence_refs cm \<noteq> [] \<or> Conflict.evidence_refs c \<noteq> []))"

lemma conflict_structure_Inr:
  "validate_conflict_structure an cyc ctx = Inr () \<Longrightarrow>
   disputes (final_act (ThoughtCycle.commitment cyc)) \<Longrightarrow>
   conflict_founded ctx (ThoughtCycle.commitment cyc)"
  by (auto simp: validate_conflict_structure_def conflict_founded_def Let_def
      split: option.splits if_splits)

lemma conflict_founded_scoped:
  "conflict_founded (scoped_context ctx q) cm \<Longrightarrow> conflict_founded ctx cm"
  by (auto simp: conflict_founded_def scoped_context_def split: option.splits)

lemma parse_cycle_for_context_Inr:
  assumes "parse_cycle_for_context an n v ctx = Inr cyc"
  shows "parse_cycle_with_context an n v (Some ctx) = Inr cyc"
    and "set (cited_events (ThoughtCycle.commitment cyc)) \<subseteq> set (allowed_evidence_ids an ctx)"
    and "disputes (final_act (ThoughtCycle.commitment cyc)) \<Longrightarrow>
      conflict_founded ctx (ThoughtCycle.commitment cyc)"
  using assms conflict_structure_Inr [of an cyc ctx]
  by (auto simp: parse_cycle_for_context_def res_simps find_None_iff split: option.splits)

section \<open>What a sleep deliberation may hold\<close>

lemma parse_event_ids_length: "parse_event_ids an vs f = Inr is \<Longrightarrow> length is = length vs"
  by (induction vs arbitrary: "is") (auto simp: res_simps)

lemma parse_candidate_Inr:
  assumes "parse_candidate an ok_ids k w = Inr d" and "set ok_ids \<subseteq> A"
  shows "check_draft A d = Inr ()"
proof -
  from assms(1) obtain src counter where
    "parse_event_ids an (WireSleepCandidate.source_event_ids w)
      (''candidates['' @ decimal k @ ''].source_event_ids'') = Inr src"
    "parse_event_ids an (WireSleepCandidate.counterevidence_event_ids w)
      (''candidates['' @ decimal k @ ''].counterevidence_event_ids'') = Inr counter"
    "src \<noteq> []" "\<forall>i \<in> set src. i \<notin> set counter" "\<forall>i \<in> set (src @ counter). i \<in> set ok_ids"
    "IntegrationCandidateDraft.source_event_ids d = src"
    "IntegrationCandidateDraft.counterevidence_event_ids d = counter"
    "IntegrationCandidateDraft.content d = WireSleepCandidate.content w"
    "IntegrationCandidateDraft.rationale d = WireSleepCandidate.rationale w"
    "IntegrationCandidateDraft.confidence d = WireSleepCandidate.confidence w"
    by (auto simp: parse_candidate_def res_simps split: if_splits)
  moreover from this(1,2) have "length src = length (WireSleepCandidate.source_event_ids w)"
    "length counter = length (WireSleepCandidate.counterevidence_event_ids w)"
    by (auto dest: parse_event_ids_length)
  moreover have "dedup_ids src \<noteq> []"
    using dedup_ids_facts(2) [of src] calculation(3) by (metis set_empty)
  moreover have "\<not> (blank (WireSleepCandidate.content w) \<or> blank (WireSleepCandidate.rationale w) \<or>
      length (trim (WireSleepCandidate.content w)) > MAX_SLEEP_TEXT \<or>
      length (trim (WireSleepCandidate.rationale w)) > MAX_SLEEP_TEXT \<or>
      length (WireSleepCandidate.source_event_ids w) > MAX_CANDIDATE_SOURCES \<or>
      length (WireSleepCandidate.counterevidence_event_ids w) > MAX_CANDIDATE_SOURCES \<or>
      WireSleepCandidate.confidence w > 100)"
    using assms(1) by (auto simp: parse_candidate_def split: if_splits)
  ultimately show ?thesis
    using assms(2) by (auto simp: check_draft_def Let_def dedup_ids_facts(2))
qed

lemma parse_candidates_Inr:
  "parse_candidates an ok_ids k ws = Inr ds \<Longrightarrow> set ok_ids \<subseteq> A \<Longrightarrow>
   length ds = length ws \<and> (\<forall>d \<in> set ds. check_draft A d = Inr ())"
  by (induction ws arbitrary: k ds) (auto simp: res_simps intro: parse_candidate_Inr)

lemma parse_sleep_Inr:
  assumes "parse_sleep an v c' = Inr d" and "set (sleep_event_ids c') \<subseteq> A"
  shows "\<not> deliberation_out_of_bounds d"
    and "set (possible_counterevidence_event_ids (SleepDeliberation.self_review d)) \<subseteq> A"
    and "\<forall>k \<in> set (SleepDeliberation.candidates d). check_draft A k = Inr ()"
proof -
  from assms(1) obtain w counter ds where
    w: "\<not> sleep_out_of_bounds w" and ids: "\<forall>i \<in> set counter. i \<in> set (sleep_event_ids c')"
    and counter: "parse_event_ids an (possible_counterevidence (WireSleepDeliberation.self_review w))
      ''self_review.possible_counterevidence'' = Inr counter"
    and ds: "parse_candidates an (sleep_event_ids c') 0 (WireSleepDeliberation.candidates w) = Inr ds"
    and d: "SleepDeliberation.draft_summary d = WireSleepDeliberation.draft_summary w"
      "SleepSelfReview.weak_points (SleepDeliberation.self_review d) =
        WireSleepSelfReview.weak_points (WireSleepDeliberation.self_review w)"
      "possible_counterevidence_event_ids (SleepDeliberation.self_review d) = counter"
      "SleepDeliberation.candidates d = ds"
    by (auto simp: parse_sleep_def res_simps split: if_splits)
  from parse_event_ids_length [OF counter] parse_candidates_Inr [OF ds assms(2)] w
  show "\<not> deliberation_out_of_bounds d"
    by (auto simp: deliberation_out_of_bounds_def sleep_out_of_bounds_def d)
  show "set (possible_counterevidence_event_ids (SleepDeliberation.self_review d)) \<subseteq> A"
    using ids assms(2) by (auto simp: d)
  show "\<forall>k \<in> set (SleepDeliberation.candidates d). check_draft A k = Inr ()"
    using parse_candidates_Inr [OF ds assms(2)] by (simp add: d)
qed

text \<open>After such a parse only a Memory revision can still be refused by the service.\<close>

lemma validate_drafts_Inl:
  assumes "\<forall>d \<in> set ds. check_draft (context_event_ids c) d = Inr ()"
    and "validate_drafts x c s cid t ks ds = Inl m"
  shows "\<exists>d \<in> set ds. IntegrationCandidateDraft.kind d = IntegrationCandidateKind.MemoryRevision \<and>
    check_revision_draft x c s d (dedup_ids (IntegrationCandidateDraft.source_event_ids d))
      (dedup_ids (IntegrationCandidateDraft.counterevidence_event_ids d)) = Inl m"
  using assms
proof (induction ds arbitrary: ks)
  case (Cons d ds)
  let ?src = "dedup_ids (IntegrationCandidateDraft.source_event_ids d)"
  let ?counter = "dedup_ids (IntegrationCandidateDraft.counterevidence_event_ids d)"
  show ?case
  proof (cases "check_revision_draft x c s d ?src ?counter")
    case (Inl e)
    with Cons.prems have "e = m" by simp
    moreover from Inl have "IntegrationCandidateDraft.kind d = IntegrationCandidateKind.MemoryRevision"
      by (simp add: check_revision_draft_def split: if_splits)
    ultimately show ?thesis using Inl by auto
  next
    case (Inr keep)
    with Cons.prems obtain ks' where "validate_drafts x c s cid t ks' ds = Inl m"
      by (simp add: Let_def split: if_splits)
    with Cons.IH [of ks'] Cons.prems(1) show ?thesis by auto
  qed
qed simp

section \<open>The attempts\<close>

text \<open>A valid answer was given to one of the requests, and its trace says what that request showed.\<close>

lemma attempts_Valid:
  "attempts ask judge n corr t0 used = (Valid v t m, used') \<Longrightarrow>
   \<exists>corr u u' r. ask m corr u = (Inr r, u') \<and> judge m r = Inr v \<and>
     referenced_event_ids t = PreparedModelRequest.evidence_ids (prepared r) \<and>
     context_sequence t = context_sequence t0 \<and>
     CognitiveTrace.context_hash t = CognitiveTrace.context_hash t0"
proof (induction ask judge n corr t0 used rule: attempts.induct)
  case (1 ask judge n corr t0 used)
  obtain res u' where ask: "ask n corr used = (res, u')" by fastforce
  show ?case
  proof (cases res)
    case (Inl err)
    with 1(2) ask show ?thesis by (subst (asm) attempts.simps) (simp add: Let_def)
  next
    case (Inr r)
    show ?thesis
    proof (cases "judge n r")
      case (Inr w)
      with 1(2) ask \<open>res = Inr r\<close>
      have "m = n" "v = w" "t = record_response r (t0\<lparr>retries := of_nat n\<rparr>)"
        by (subst (asm) (1) attempts.simps, simp add: Let_def)+
      with ask \<open>res = Inr r\<close> Inr show ?thesis
        by (intro exI [of _ corr] exI [of _ used] exI [of _ u'] exI [of _ r])
          (simp add: record_response_def)
    next
      case (Inl f)
      let ?t = "note_failure n (message f) (record_response r (t0\<lparr>retries := of_nat n\<rparr>))"
      have fields: "context_sequence ?t = context_sequence t0"
        "CognitiveTrace.context_hash ?t = CognitiveTrace.context_hash t0"
        by (simp_all add: note_failure_def record_response_def)
      from 1(2) ask \<open>res = Inr r\<close> Inl have n: "\<not> 1 \<le> n"
        and next_one: "attempts ask judge (Suc n) (Some (correction f)) ?t u' = (Valid v t m, used')"
        by (subst (asm) (1) attempts.simps, simp add: Let_def split: if_splits)+
      from 1(1) [OF refl ask [symmetric] \<open>res = Inr r\<close> refl Inl refl n next_one] fields
      show ?thesis by simp
    qed
  qed
qed

lemma attempts_few:
  "attempts ask judge n corr t0 used = (Valid v t m, used') \<Longrightarrow> n \<le> 1 \<Longrightarrow> m \<le> 1"
proof (induction ask judge n corr t0 used rule: attempts.induct)
  case (1 ask judge n corr t0 used)
  obtain res u' where ask: "ask n corr used = (res, u')" by fastforce
  show ?case
  proof (cases "\<exists>r f. res = Inr r \<and> judge n r = Inl f \<and> \<not> 1 \<le> n")
    case True
    then obtain r f where r: "res = Inr r" and f: "judge n r = Inl f" and n: "\<not> 1 \<le> n" by blast
    let ?t = "note_failure n (message f) (record_response r (t0\<lparr>retries := of_nat n\<rparr>))"
    from 1(2) ask r f n have
      "attempts ask judge (Suc n) (Some (correction f)) ?t u' = (Valid v t m, used')"
      by (subst (asm) (1) attempts.simps) (simp add: Let_def)
    with 1(1) [OF refl ask [symmetric] r refl f refl n] n show ?thesis by simp
  next
    case False
    with 1(2,3) ask show ?thesis
      by (subst (asm) attempts.simps) (auto simp: Let_def split: sum.splits if_splits)
  qed
qed






section \<open>A thought and a dream\<close>

text \<open>
  A model behind an OpenAI-compatible endpoint that answers every request: a thought with a counter
  proposal, a deliberation with one memory. Both cite the one event they were shown.
\<close>

definition seer_url :: HttpUrl where
  "seer_url = \<lparr>scheme = ''http'', host_str = Some ''h'', username = [], password = None, query = None,
     fragment = None, url_path = ''/''\<rparr>"

definition seer_choice :: OpenaiChoice where
  "seer_choice = \<lparr>OpenaiChoice.finish_reason = Some ''stop'', content = Some ''ok'', tool_calls = []\<rparr>"

definition seer_wire :: wire where
  "seer_wire = \<lparr>wire_lib = blank_ext, url_parse = (\<lambda>t. Inr seer_url),
     set_path = (\<lambda>u p. u\<lparr>url_path := p\<rparr>), read_value = (\<lambda>t. Inr JNull), value_bytes = (\<lambda>v. ''ok''),
     openai_choices = (\<lambda>v. Inr [seer_choice]), ollama_envelope = (\<lambda>v. Inl Data)\<rparr>"

definition seer_prompting :: prompting where
  "seer_prompting = \<lparr>prompt_ids = blank_ext, focus_value = (\<lambda>v. JNull),
     relationship_value = (\<lambda>v. JNull), goal_value = (\<lambda>v. JNull), task_value = (\<lambda>v. JNull),
     run_value = (\<lambda>v. JNull), working_state_value = (\<lambda>v. JNull), position_value = (\<lambda>v. JNull),
     conflict_value = (\<lambda>v. JNull), commitment_value = (\<lambda>v. JNull), approval_value = (\<lambda>v. JNull),
     item_kind_value = (\<lambda>v. JNull), entity_value = (\<lambda>v. JNull), event_kind_value = (\<lambda>v. JNull),
     recalled_value = (\<lambda>v. Inr JNull), read_items = (\<lambda>v. Inr [])\<rparr>"

definition wire_dispute :: WireConflict where
  "wire_dispute = \<lparr>WireConflict.id = None, subject = ''tea'', participant_positions = [''p''],
     status = ''Open'', revision = 1, reasons = [], evidence_refs = [''abc''], alternatives = [],
     reconsideration_conditions = [], unresolved_questions = [], resolution = None,
     resolved_at = None, created_at = None\<rparr>"

definition wire_objection :: WireThoughtCycle where
  "wire_objection = \<lparr>draft_interpretation = ''ab'', draft_initial_judgment = ''Refuse'',
     draft_reasons = [], draft_doubts = [], review_strongest_objection = ''ab'',
     review_identity_conflicts = [], review_unsupported_claims = [],
     review_suggested_revision = None, act = ''Counter-Propose'', rationale = ''ab'',
     response = ''ab'', confidence = 50, evidence_refs = [''abc''], position_change = None,
     conflict_change = Some wire_dispute\<rparr>"

definition wire_dream :: WireSleepDeliberation where
  "wire_dream = \<lparr>WireSleepDeliberation.draft_summary = ''ab'',
     self_review = \<lparr>WireSleepSelfReview.weak_points = [], possible_counterevidence = [],
       revised = False\<rparr>,
     candidates = [\<lparr>WireSleepCandidate.kind = ''Memory'', content = ''ab'', rationale = ''ab'',
       source_event_ids = [''abc''], counterevidence_event_ids = [], confidence = 50\<rparr>]\<rparr>"

definition seer_answering :: answering where
  "seer_answering = \<lparr>answer_ids = blank_ext, read_id = (\<lambda>t. Inr (of_nat (length t))),
     debug_text = (\<lambda>t. t), list_text = (\<lambda>ts. Inr []), read_raw = (\<lambda>t. Inl []),
     read_refs = (\<lambda>v. Inl []), read_cycle = (\<lambda>f t. Inr wire_objection),
     read_sleep = (\<lambda>f t. Inr wire_dream), fresh_conflict = (\<lambda>n. from_uuid 9),
     position_time = (\<lambda>n. ''t''), conflict_time = (\<lambda>n. ''t'')\<rparr>"

definition seer :: exchange where
  "seer = \<lparr>over_wire = seer_wire, in_prompt = seer_prompting, in_answer = seer_answering,
     post = (\<lambda>n u b k. Answered 200 ''ok''), request_ms = (\<lambda>n. 1), since_start = (\<lambda>n. 1),
     new_trace_id = ''i''\<rparr>"

definition asker :: PrimaryModel where
  "asker = \<lparr>base_url = ''u'', api_key = None, model_name = ''ab'',
     settings = default_model_io\<lparr>ModelIoConfig.context_tokens := Some 16384\<rparr>,
     generation_limit = Some 4\<rparr>"

definition asked_context :: ThoughtContext where
  "asked_context = \<lparr>ThoughtContext.event_sequence = 5,
     observation = \<lparr>Observation.id = from_uuid 2, actor_id = from_uuid 1, content = ''hi'',
       source_type = ''cli'', source_ref = None, thread_id = None, message_id = None,
       received_at = ''t''\<rparr>,
     current_observation_event_id = Some (from_uuid 3), focus = unattached, identity = None,
     relationship = None, goal = None, task = None, run = None, working_state = None,
     positions = [], user_positions = [], conflicts = [], commitments = [], memories = [],
     memory_candidates = [], pending_approvals = [], artifacts = [],
     recall = \<lparr>RecallBundle.query_hash = [], embedding_space_id = [], items = []\<rparr>,
     context_snapshot = None, recent_event_ids = [], relevant_events = [],
     available_capabilities = [], output_schema = [], snapshot_hash = ''h''\<rparr>"

definition dreaming_context :: SleepContext where
  "dreaming_context = \<lparr>SleepContext.sleep_run_id = from_uuid 8, high_water_revision = 5,
     seed_observations = [\<lparr>SleepSeed.event_id = from_uuid 3, sequence = 3,
       observation = ThoughtContext.observation asked_context\<rparr>],
     recalled_experiences = [], identity = None, active_positions = [], active_conflicts = [],
     relationship = None, snapshot_hash = ''h''\<rparr>"

lemma seer_fields [simp]:
  "wire_lib seer_wire = blank_ext" "url_parse seer_wire t = Inr seer_url"
  "set_path seer_wire u t = u\<lparr>url_path := t\<rparr>" "read_value seer_wire t = Inr JNull"
  "value_bytes seer_wire v = ''ok''" "openai_choices seer_wire v = Inr [seer_choice]"
  "answer_ids seer_answering = blank_ext" "read_id seer_answering t = Inr (of_nat (length t))"
  "read_cycle seer_answering f t = Inr wire_objection" "read_sleep seer_answering f t = Inr wire_dream"
  "fresh_conflict seer_answering n = from_uuid 9"
  "over_wire seer = seer_wire" "in_prompt seer = seer_prompting"
  "in_answer seer = seer_answering" "post seer n u b k = Answered 200 ''ok''"
  "request_ms seer n = 1" "since_start seer n = 1"
  "generation_limit asker = Some 4" "api_key asker = None" "model_name asker = ''ab''"
  "ModelIoConfig.transport (settings asker) = OpenaiCompatible"
  "ModelIoConfig.context_tokens (settings asker) = Some 16384"
  "foreground_max_tokens (settings asker) = 8192" "sleep_max_tokens (settings asker) = 4096"
  "ModelIoConfig.safety_margin (settings asker) = 512"
  by (simp_all add: seer_wire_def seer_answering_def seer_def asker_def default_model_io_def)

lemma short_texts [simp]:
  "blank ''ab'' = False" "blank ''ok'' = False" "trim ''ab'' = ''ab''" "trim ''abc'' = ''abc''"
  "trim ''p'' = ''p''" "utf8_valid ''ok'' = True"
  "normalize_known_token ''Refuse'' = ''refuse''" "normalize_known_token ''Open'' = ''open''"
  "normalize_known_token ''Memory'' = ''memory''"
  "normalize_known_token ''Counter-Propose'' = ''counter_propose''"
  by code_simp+

lemma prompt_sizes [simp]: "length FOREGROUND_SYSTEM = 2050" "length SLEEP_SYSTEM_PROMPT = 2287"
  by (simp_all add: FOREGROUND_SYSTEM_def SLEEP_SYSTEM_PROMPT_def)

text \<open>Either system prompt fits beside a short user message.\<close>

lemma seer_fits:
  assumes "RenderedPrompt.system r \<in> {FOREGROUND_SYSTEM, SLEEP_SYSTEM_PROMPT}" and "out \<in> {4096, 8192}"
  shows "report_fits (PromptBudget.budget_report 16384 out 512
    (rendered_messages blank_ext (\<lambda>v. ''ok'') r None []) 0)"
  using assms
  by (auto simp: PromptBudget.budget_report_def report_fits_def estimate_def message_cost_def
      rendered_messages_def saturating_add_def)

lemma seer_prepares:
  assumes "RenderedPrompt.system r \<in> {FOREGROUND_SYSTEM, SLEEP_SYSTEM_PROMPT}"
    and "RenderedPrompt.optional r = []"
  shows "\<exists>q. prepare blank_ext (\<lambda>v. ''ok'') r (settings asker) p None = Inr q \<and>
    PreparedModelRequest.evidence_ids q = selected_evidence r [] \<and> PreparedModelRequest.purpose q = p"
  by (cases p) (simp_all add: prepare_def assms(2) prepare_loop.simps Let_def
    seer_fits [OF assms(1)] prepared_request_def)

text \<open>Whatever is sent, the answer is the same text.\<close>

lemma seer_answers:
  assumes "check_prepared q"
  shows "\<exists>r. send seer_wire (post seer n) 1 (base_url asker) None ''ab'' OpenaiCompatible q = Inr r \<and>
    ModelResponse.content r = ''ok''"
proof -
  have "endpoint seer_wire (base_url asker) OpenaiCompatible =
      Inr (seer_url\<lparr>url_path := ''/v1/chat/completions''\<rparr>)"
    by (simp add: endpoint_def seer_url_def trim_end_slashes_def ends_with_def starts_with_def)
  moreover have "openai_decode seer_wire ''ok'' = Inr ''ok''"
    by (simp add: openai_decode_def seer_choice_def json_pointer_def json_step_def given_text_def)
  ultimately show ?thesis
    using assms by (simp add: send_def receive_def byte_in_def Let_def)
qed

lemma seer_sends:
  assumes "check_prepared q" and "used < 4"
  shows "\<exists>r. send_prepared seer asker n q used = (Inr r, saturating_add used 1) \<and>
    RawResponse.content r = ''ok'' \<and> prepared r = q"
  using seer_answers [OF assms(1), of n] assms(2) by (auto simp: send_prepared_def metered_def)

lemma asked_prepared:
  "\<exists>q. prepare_foreground seer asker asked_context None = Inr q \<and>
     PreparedModelRequest.evidence_ids q = [from_uuid 3] \<and> check_prepared q"
proof -
  obtain r where r: "foreground seer_prompting asked_context = Inr r"
    "RenderedPrompt.system r = FOREGROUND_SYSTEM" "RenderedPrompt.optional r = []"
    "PromptItem.evidence_ids (RenderedPrompt.required r) = [from_uuid 3]"
    by (simp add: foreground_def asked_context_def event_part_def by_score_def dependencies_def)
  then obtain q where "prepare blank_ext (\<lambda>v. ''ok'') r (settings asker) Foreground None = Inr q"
    "PreparedModelRequest.evidence_ids q = selected_evidence r []"
    using seer_prepares [of r Foreground] by auto
  moreover have "value_bytes seer_wire = (\<lambda>v. ''ok'')" by (rule ext) simp
  ultimately show ?thesis
    using r prepare_Inr(4) by (auto simp: prepare_foreground_def selected_evidence_def)
qed

lemma objection_parses:
  assumes "PreparedModelRequest.evidence_ids q = [from_uuid 3]"
  shows "\<exists>cyc. parse_cycle_for_context seer_answering 0 ''ok'' (scoped_context asked_context q) = Inr cyc \<and>
    final_act (ThoughtCycle.commitment cyc) = DecisionKind.CounterPropose"
proof -
  have "\<exists>c. conflict_from_wire seer_answering 0 octx wire_dispute = Inr c \<and>
      Conflict.participant_positions c = [from_uuid 1] \<and> Conflict.evidence_refs c = [from_uuid 3]" for octx
    by (simp add: conflict_from_wire_def wire_conflict_id_def wire_dispute_def parse_wire_id_def
        parse_conflict_status_def Let_def)
  then obtain c where c: "conflict_from_wire seer_answering 0
      (Some (scoped_context asked_context q)) wire_dispute = Inr c"
    "Conflict.participant_positions c = [from_uuid 1]" "Conflict.evidence_refs c = [from_uuid 3]"
    by blast
  have "parse_cycle_with_context seer_answering 0 ''ok'' (Some (scoped_context asked_context q)) =
      Inr (cycle_of wire_objection DecisionKind.Refuse DecisionKind.CounterPropose [from_uuid 3] None (Some c))"
    using c(1)
    by (simp add: parse_cycle_with_context_def wire_objection_def parse_decision_kind_def Let_def
        required_text_def transpose_option_def)
  moreover have "find (\<lambda>i. i \<notin> set (allowed_evidence_ids seer_answering (scoped_context asked_context q)))
      [from_uuid 3, from_uuid 3] = None"
    by (simp add: assms)
  ultimately show ?thesis
    using c(2,3)
    by (simp add: parse_cycle_for_context_def cycle_of_def cited_events_def validate_conflict_structure_def
        Let_def)
qed

lemma asked_thinks:
  "\<exists>cyc. think_with seer asker asked_context 0 = (Inr cyc, 1) \<and>
     final_act (ThoughtCycle.commitment cyc) = DecisionKind.CounterPropose"
proof -
  from asked_prepared obtain q where q: "prepare_foreground seer asker asked_context None = Inr q"
    "PreparedModelRequest.evidence_ids q = [from_uuid 3]" "check_prepared q" by blast
  from seer_sends [OF q(3), of 0 0] obtain r where r:
    "send_prepared seer asker 0 q 0 = (Inr r, 1)" "RawResponse.content r = ''ok''" "prepared r = q"
    by (auto simp: saturating_add_def)
  from objection_parses [OF q(2)] obtain cyc where
    "parse_cycle_for_context seer_answering 0 ''ok'' (scoped_context asked_context q) = Inr cyc"
    "final_act (ThoughtCycle.commitment cyc) = DecisionKind.CounterPropose" by blast
  then show ?thesis
    using q r by (simp add: think_with_def attempts.simps [of _ _ 0] send_if_prepared_def Let_def)
qed

lemma dream_prepared:
  "\<exists>q. prepare_sleep seer asker dreaming_context None = Inr q \<and>
     PreparedModelRequest.evidence_ids q = [from_uuid 3] \<and> check_prepared q"
proof -
  obtain r where r: "sleep_prompt seer_prompting dreaming_context = Inr r"
    "RenderedPrompt.system r = SLEEP_SYSTEM_PROMPT" "RenderedPrompt.optional r = []"
    "PromptItem.evidence_ids (RenderedPrompt.required r) = [from_uuid 3]"
    by (simp add: sleep_prompt_def dreaming_context_def)
  then obtain q where "prepare blank_ext (\<lambda>v. ''ok'') r (settings asker) RequestPurpose.Sleep None = Inr q"
    "PreparedModelRequest.evidence_ids q = selected_evidence r []"
    using seer_prepares [of r RequestPurpose.Sleep] by auto
  moreover have "value_bytes seer_wire = (\<lambda>v. ''ok'')" by (rule ext) simp
  ultimately show ?thesis
    using r prepare_Inr(4) by (auto simp: prepare_sleep_def selected_evidence_def)
qed

lemma dream_parses:
  assumes "PreparedModelRequest.evidence_ids q = [from_uuid 3]"
  shows "\<exists>d. parse_sleep_for_context seer_answering ''ok'' (scoped_sleep dreaming_context q) = Inr d \<and>
    length (SleepDeliberation.candidates d) = 1"
proof -
  have "sleep_event_ids (scoped_sleep dreaming_context q) = [from_uuid 3]"
    by (simp add: sleep_event_ids_def scoped_sleep_def dreaming_context_def assms with_sources_def)
  then show ?thesis
    by (simp add: parse_sleep_for_context_def parse_sleep_def wire_dream_def sleep_out_of_bounds_def
        parse_candidate_def parse_integration_candidate_kind_def MAX_SLEEP_TEXT_def
        MAX_SLEEP_CANDIDATES_def MAX_CANDIDATE_SOURCES_def Let_def)
qed

lemma dreamer_dreams:
  "\<exists>d. sleep_with seer asker dreaming_context 1 = (Inr d, 2) \<and>
     length (SleepDeliberation.candidates d) = 1"
proof -
  from dream_prepared obtain q where q: "prepare_sleep seer asker dreaming_context None = Inr q"
    "PreparedModelRequest.evidence_ids q = [from_uuid 3]" "check_prepared q" by blast
  from seer_sends [OF q(3), of 1 0] obtain r where r:
    "send_prepared seer asker 0 q 1 = (Inr r, 2)" "RawResponse.content r = ''ok''" "prepared r = q"
    by (auto simp: saturating_add_def)
  from dream_parses [OF q(2)] obtain d where
    "parse_sleep_for_context seer_answering ''ok'' (scoped_sleep dreaming_context q) = Inr d"
    "length (SleepDeliberation.candidates d) = 1" by blast
  then show ?thesis
    using q r by (simp add: sleep_with_def attempts.simps [of _ _ 0] send_if_prepared_def Let_def)
qed

section \<open>Properties of the prompt and the transport\<close>



text \<open>The body is an envelope in which the provider says that it stopped by itself and called nothing.\<close>

definition finished_text :: "wire \<Rightarrow> TransportKind \<Rightarrow> string \<Rightarrow> string \<Rightarrow> bool" where
  "finished_text wr tk raw t \<longleftrightarrow> \<not> blank t \<and>
     (case read_value wr raw of
        Inl _ \<Rightarrow> False
      | Inr v \<Rightarrow>
          (case tk of
             OpenaiCompatible \<Rightarrow>
               (case openai_choices wr v of
                  Inr (c # cs) \<Rightarrow> OpenaiChoice.finish_reason c = Some ''stop'' \<and>
                    OpenaiChoice.tool_calls c = [] \<and> OpenaiChoice.content c = Some t
                | _ \<Rightarrow> False)
           | Ollama \<Rightarrow>
               (case ollama_envelope wr v of
                  Inr e \<Rightarrow> finished e \<and> done_reason e = Some ''stop'' \<and>
                    OllamaEnvelope.tool_calls e = [] \<and> OllamaEnvelope.content e = Some t
                | _ \<Rightarrow> False)))"

lemma given_text_Inr: "given_text ot = Inr t \<longleftrightarrow> ot = Some t \<and> \<not> blank t"
  by (auto simp: given_text_def split: option.splits)

lemma openai_finished:
  assumes "openai_decode wr raw = Inr t"
  shows "finished_text wr OpenaiCompatible raw t"
proof -
  from assms obtain v cs where "read_value wr raw = Inr v" "openai_choices wr v = Inr cs"
    by (auto simp: openai_decode_def res_simps split: if_splits)
  with assms show ?thesis
    by (cases cs) (auto simp: openai_decode_def finished_text_def given_text_Inr split: if_splits)
qed

lemma ollama_finished: "ollama_decode wr raw = Inr t \<Longrightarrow> finished_text wr Ollama raw t"
  by (auto simp: ollama_decode_def finished_text_def given_text_Inr res_simps split: if_splits)

text \<open>
  C23. The transport takes a text from the model only for a request within its budget, sent to the
  endpoint with its body, from a success status, a UTF-8 body and an envelope in which the provider
  reports a finished answer without tool calls.
\<close>

theorem transport_takes_finished_answers:
  assumes "send wr pst ms base secret mdl tk q = Inr r"
  shows "check_prepared q \<and> (\<exists>u st raw. endpoint wr base tk = Inr u \<and>
    pst u (value_bytes wr (case tk of OpenaiCompatible \<Rightarrow> openai_body mdl q | Ollama \<Rightarrow> ollama_body mdl q))
      secret = Answered st raw \<and>
    200 \<le> st \<and> st < 300 \<and> utf8_valid raw \<and> finished_text wr tk raw (ModelResponse.content r))"
proof -
  from assms have gate: "check_prepared q" by (auto simp: send_def Let_def split: if_splits)
  with assms obtain u where u: "endpoint wr base tk = Inr u"
    by (auto simp: send_def Let_def split: sum.splits)
  let ?bytes = "value_bytes wr
    (case tk of OpenaiCompatible \<Rightarrow> openai_body mdl q | Ollama \<Rightarrow> ollama_body mdl q)"
  from assms gate u obtain st raw d where "pst u ?bytes secret = Answered st raw"
    and got: "receive wr tk d st raw = Inr r"
    by (auto simp: send_def Let_def split: if_splits HttpOutcome.splits)
  moreover from got have "200 \<le> st" "st < 300" "utf8_valid raw"
    by (auto simp: receive_def Let_def split: if_splits)
  moreover from got have "finished_text wr tk raw (ModelResponse.content r)"
    by (cases tk) (auto simp: receive_def Let_def openai_finished ollama_finished
        split: if_splits sum.splits prod.splits)
  ultimately show ?thesis using gate u by blast
qed

theorem transport_takes_finished_answers_witness:
  "\<exists>raw. finished_text seer_wire OpenaiCompatible raw ''ok''"
proof -
  from asked_prepared obtain q where "check_prepared q" by blast
  from seer_answers [OF this, of 0] obtain r where
    "send seer_wire (post seer 0) 1 (base_url asker) None ''ab'' OpenaiCompatible q = Inr r"
    "ModelResponse.content r = ''ok''" by blast
  with transport_takes_finished_answers [OF this(1)] show ?thesis by auto
qed

section \<open>Properties of the answers\<close>

text \<open>
  C20. A thought the adapter returns carries a trace for exactly its context, so that the engine
  does not reject it for another; it never asks for an action and never speaks for the user; it
  cites only events that the request showed, as its trace lists them, and changes only conflicts of
  the context or a new one; and an act that disputes names a position of the context or rests on
  evidence.
\<close>

theorem thought_within_its_prompt:
  assumes "think_with ex pm ctx used = (Inr cyc, used')"
  shows "context_sequence (ThoughtCycle.trace cyc) = ThoughtContext.event_sequence ctx \<and>
    CognitiveTrace.context_hash (ThoughtCycle.trace cyc) = ThoughtContext.snapshot_hash ctx \<and>
    final_act (ThoughtCycle.commitment cyc) \<in> speech_acts \<and>
    action (ThoughtCycle.commitment cyc) = None \<and>
    user_position (ThoughtCycle.commitment cyc) = None \<and>
    set (cited_events (ThoughtCycle.commitment cyc)) \<subseteq> set (referenced_event_ids (ThoughtCycle.trace cyc)) \<and>
    set (referenced_event_ids (ThoughtCycle.trace cyc)) \<subseteq> shown_events (in_prompt ex) ctx \<and>
    (\<forall>c. CommittedJudgment.conflict (ThoughtCycle.commitment cyc) = Some c \<longrightarrow>
      Conflict.id c \<in> fresh_conflict (in_answer ex) ` {0, 1} \<union> set (map Conflict.id (ThoughtContext.conflicts ctx))) \<and>
    (disputes (final_act (ThoughtCycle.commitment cyc)) \<longrightarrow>
      conflict_founded ctx (ThoughtCycle.commitment cyc))"
proof -
  let ?run = "attempts
      (\<lambda>n corr. send_if_prepared ex pm n (prepare_foreground ex pm ctx corr))
      (\<lambda>n r. parse_cycle_for_context (in_answer ex) n (RawResponse.content r)
        (scoped_context ctx (prepared r))) 0 None
      (new_trace ex pm ''thought-cycle.v1'' (ThoughtContext.event_sequence ctx)
        (ThoughtContext.snapshot_hash ctx)) used"
  obtain res u where run: "?run = (res, u)" by fastforce
  with assms obtain cyc0 t n where valid: "res = Valid cyc0 t n"
    by (cases res) (simp_all add: think_with_def)
  with assms run have cyc: "ThoughtCycle.commitment cyc = ThoughtCycle.commitment cyc0"
      "context_sequence (ThoughtCycle.trace cyc) = context_sequence t"
      "CognitiveTrace.context_hash (ThoughtCycle.trace cyc) = CognitiveTrace.context_hash t"
      "referenced_event_ids (ThoughtCycle.trace cyc) = referenced_event_ids t"
    by (auto simp: think_with_def)
  from attempts_Valid [OF run [unfolded valid]] obtain corr u1 u2 r where
    ask: "send_if_prepared ex pm n (prepare_foreground ex pm ctx corr) u1 = (Inr r, u2)"
    and judge: "parse_cycle_for_context (in_answer ex) n (RawResponse.content r)
      (scoped_context ctx (prepared r)) = Inr cyc0"
    and t: "referenced_event_ids t = PreparedModelRequest.evidence_ids (prepared r)"
      "context_sequence t = ThoughtContext.event_sequence ctx"
      "CognitiveTrace.context_hash t = ThoughtContext.snapshot_hash ctx"
    by (auto simp: new_trace_def)
  from ask have q: "prepare_foreground ex pm ctx corr = Inr (prepared r)"
    by (auto simp: send_if_prepared_def send_prepared_def split: sum.splits option.splits)
  note parsed = parse_cycle_for_context_Inr [OF judge]
  note cm = parse_cycle_Inr [OF parsed(1)]
  have "n \<le> 1" by (rule attempts_few [OF run [unfolded valid]]) simp
  then have fresh: "fresh_conflict (in_answer ex) n \<in> fresh_conflict (in_answer ex) ` {0, 1}"
    by (cases n) auto
  have known: "set (map Conflict.id (ThoughtContext.conflicts (scoped_context ctx (prepared r)))) \<subseteq>
      set (map Conflict.id (ThoughtContext.conflicts ctx))"
    by (auto simp: scoped_context_def)
  have "Conflict.id k \<in> fresh_conflict (in_answer ex) ` {0, 1} \<union> set (map Conflict.id (ThoughtContext.conflicts ctx))"
    if "CommittedJudgment.conflict (ThoughtCycle.commitment cyc) = Some k" for k
    using subsetD [OF insert_mono [OF known] cm(5) [OF that [unfolded cyc]]] fresh by (elim insertE) auto
  moreover have "disputes (final_act (ThoughtCycle.commitment cyc)) \<longrightarrow>
      conflict_founded ctx (ThoughtCycle.commitment cyc)"
    using parsed(3) conflict_founded_scoped unfolding cyc by blast
  ultimately show ?thesis
    using cm(1,3,4) parsed(2) prepare_foreground_sources(2) [OF q] by (simp add: cyc t)
qed

theorem thought_within_its_prompt_witness:
  "\<exists>cyc. think_with seer asker asked_context 0 = (Inr cyc, 1) \<and>
     conflict_founded asked_context (ThoughtCycle.commitment cyc) \<and>
     set (cited_events (ThoughtCycle.commitment cyc)) \<subseteq> shown_events seer_prompting asked_context"
proof -
  from asked_thinks obtain cyc where cyc: "think_with seer asker asked_context 0 = (Inr cyc, 1)"
    "final_act (ThoughtCycle.commitment cyc) = DecisionKind.CounterPropose" by blast
  then have "disputes (final_act (ThoughtCycle.commitment cyc))" by (simp add: disputes_def)
  with thought_within_its_prompt [OF cyc(1)] cyc(1) show ?thesis by auto
qed

text \<open>
  C21. A deliberation the adapter returns is within the bounds of the sleep service and each of its
  drafts passes the service's check against the context of the run. What the service can still
  refuse is the target of a Memory revision, which only the state can tell.
\<close>

theorem sleep_answer_acceptable:
  assumes "sleep_with ex pm c used = (Inr d, used')"
  shows "\<not> deliberation_out_of_bounds d \<and>
    (\<forall>k \<in> set (SleepDeliberation.candidates d). check_draft (context_event_ids c) k = Inr ()) \<and>
    (\<forall>t. SleepDeliberation.trace d = Some t \<longrightarrow> \<not> trace_mismatch c t) \<and>
    (\<forall>m. validate_deliberation x cid tm d c s = Inl m \<longrightarrow>
      (\<exists>k \<in> set (SleepDeliberation.candidates d).
        IntegrationCandidateDraft.kind k = IntegrationCandidateKind.MemoryRevision \<and>
        check_revision_draft x c s k (dedup_ids (IntegrationCandidateDraft.source_event_ids k))
          (dedup_ids (IntegrationCandidateDraft.counterevidence_event_ids k)) = Inl m))"
proof -
  let ?run = "attempts
      (\<lambda>n corr. send_if_prepared ex pm n (prepare_sleep ex pm c corr))
      (\<lambda>n r. parse_sleep_for_context (in_answer ex) (RawResponse.content r) (scoped_sleep c (prepared r)))
      0 None
      (new_trace ex pm ''sleep-deliberation.v1'' (SleepContext.high_water_revision c)
        (SleepContext.snapshot_hash c)) used"
  obtain res u where run: "?run = (res, u)" by fastforce
  with assms obtain d0 t n where valid: "res = Valid d0 t n"
    by (cases res) (simp_all add: sleep_with_def)
  with assms run have d: "SleepDeliberation.candidates d = SleepDeliberation.candidates d0"
      "deliberation_out_of_bounds d = deliberation_out_of_bounds d0"
      "SleepDeliberation.self_review d = SleepDeliberation.self_review d0"
      "\<exists>t'. SleepDeliberation.trace d = Some t' \<and> context_sequence t' = context_sequence t \<and>
        CognitiveTrace.context_hash t' = CognitiveTrace.context_hash t"
    by (auto simp: sleep_with_def deliberation_out_of_bounds_def)
  from attempts_Valid [OF run [unfolded valid]] obtain corr u1 u2 r where
    "send_if_prepared ex pm n (prepare_sleep ex pm c corr) u1 = (Inr r, u2)"
    and "parse_sleep_for_context (in_answer ex) (RawResponse.content r) (scoped_sleep c (prepared r)) = Inr d0"
    and t: "context_sequence t = SleepContext.high_water_revision c"
      "CognitiveTrace.context_hash t = SleepContext.snapshot_hash c"
    by (auto simp: new_trace_def)
  then have "parse_sleep (in_answer ex) (RawResponse.content r) (scoped_sleep c (prepared r)) = Inr d0"
    by (simp add: parse_sleep_for_context_def res_simps)
  note parsed = parse_sleep_Inr [OF this sleep_scoped]
  have "\<forall>m. validate_deliberation x cid tm d c s = Inl m \<longrightarrow>
      (\<exists>k \<in> set (SleepDeliberation.candidates d).
        IntegrationCandidateDraft.kind k = IntegrationCandidateKind.MemoryRevision \<and>
        check_revision_draft x c s k (dedup_ids (IntegrationCandidateDraft.source_event_ids k))
          (dedup_ids (IntegrationCandidateDraft.counterevidence_event_ids k)) = Inl m)"
    using parsed validate_drafts_Inl [OF parsed(3)]
    by (auto simp: validate_deliberation_def d split: if_splits)
  moreover have "\<forall>t'. SleepDeliberation.trace d = Some t' \<longrightarrow> \<not> trace_mismatch c t'"
    using d(4) t by (auto simp: trace_mismatch_def)
  ultimately show ?thesis
    using parsed by (simp add: d)
qed

theorem sleep_answer_acceptable_witness:
  "\<exists>d. sleep_with seer asker dreaming_context 1 = (Inr d, 2) \<and> \<not> deliberation_out_of_bounds d \<and>
     check_draft (context_event_ids dreaming_context) (hd (SleepDeliberation.candidates d)) = Inr ()"
proof -
  from dreamer_dreams obtain d where d: "sleep_with seer asker dreaming_context 1 = (Inr d, 2)"
    "length (SleepDeliberation.candidates d) = 1" by blast
  then have "hd (SleepDeliberation.candidates d) \<in> set (SleepDeliberation.candidates d)"
    by (cases "SleepDeliberation.candidates d") simp_all
  with sleep_answer_acceptable [OF d(1)] d(1) show ?thesis by auto
qed



end
