(* ===== verification/Spec2Isabelle.thy ===== *)
theory Spec2Isabelle
  imports StoreProperties ClaimProperties SleepProperties AgencyProperties IntegrationProperties InitiativeProperties SleepServiceProperties EngineProperties ContextProperties ModelProperties
begin

text \<open>
  HEKATE is an event-sourced agent runtime. Everything that happens is an event in an
  append-only ledger; the state is the projection of the ledger; every service computes a batch
  of events from a state it read and commits the batch on the condition that the ledger has
  not moved. This development models that core: the events, the projector with every handler,
  the SQLite store with its commit transaction, recovery, the foreground lease, the completion
  gate, the sleep service that has the model look back over the ledger, the service that
  integrates the candidates of a sleep run, the initiative service, the interaction with the user
  (the resolution of what a message is about, the context shown to the model, the decision and
  what it commits), the operations with their approvals and their execution, the validation of
  judgments, the budget of a model request and the local policy.

  How the parts interact. A service (\<open>Completion\<close>, \<open>IntegrationService\<close>) reads state and ledger from the store
  (\<open>Store\<close>), builds an event (\<open>State\<close>) and calls \<open>record_batch\<close>, which loads the
  snapshot, applies the events (\<open>Projector\<close>) and commits them with the new snapshot. On
  start-up \<open>recover\<close> (\<open>Recovery\<close>) replays the ledger and compares.

  The theories, and what they model (paths under src/src):
  \<^item> \<open>Prelude\<close>, \<open>RustStr\<close>, \<open>BTreeMap\<close>: results and their binding, checked and saturating
    arithmetic on words, \<open>dedup_by\<close>, \<open>find_map\<close>; Rust strings as UTF-8 byte strings with
    \<open>trim\<close> and \<open>split_whitespace\<close>; \<open>BTreeMap\<close> as an ordered association list, whose
    laws are the locale \<open>ordered_map\<close>.
  \<^item> \<open>Entities\<close>, \<open>Records\<close>, \<open>Thought\<close>: the structs and enums of core/model.rs,
    core/event.rs, core/evidence.rs, core/continuity.rs, core/initiative.rs, core/sleep.rs,
    core/integration.rs, core/recall.rs and core/model_io.rs, field by field; \<open>State\<close>: the
    current state, the constructor and integrity hash of events.
  \<^item> \<open>Evidence\<close>: core/evidence.rs and the fingerprints of core/sleep.rs and
    core/initiative.rs, and core/integration.rs; \<open>Transition\<close>:
    core/transition.rs, an instance of the locale \<open>lifecycle\<close>; \<open>Deliberation\<close>:
    runtime/deliberation.rs.
  \<^item> \<open>ProjectorOps\<close>, \<open>ProjectorIntegration\<close>, \<open>Projector\<close>: runtime/projector.rs, one
    definition per handler with the checks in the order of the code and its messages, the
    match over the event kinds, and replay. \<open>EventSourced\<close> is the locale of a projection
    with its laws (splitting, distinct identifiers, lifting of invariants and relations);
    \<open>Projector\<close> interprets it.
  \<^item> \<open>ClaimHistory\<close>, \<open>SleepHistory\<close>, \<open>CandidateHistory\<close>, \<open>MaterializationHistory\<close>,
    \<open>InitiativeHistory\<close>, \<open>PositionHistory\<close>: invariants of the projected state and
    relations between a state and its successors, per part of the state, each proved for one
    step and lifted to ledgers by the locale.
  \<^item> \<open>Store\<close>: adapters/sqlite/store.rs (rows, snapshot, commit) and \<open>record_batch\<close> of
    runtime/projector.rs; \<open>Recovery\<close>: runtime/recovery.rs; \<open>Lease\<close>: the lease operations,
    an instance of the locale \<open>exclusive_slot\<close>, and the step relation of processes sharing
    it.
  \<^item> \<open>Completion\<close>, \<open>CompletionHistory\<close>: runtime/completion.rs and its facts;
    \<open>LocalPolicy\<close>: adapters/local_policy.rs.
  \<^item> \<open>MemoryIntegration\<close> (errors, checks of evidence, plans) and \<open>IntegrationService\<close> (events and
    operations): runtime/memory_integration.rs; \<open>IntegrationServiceHistory\<close>,
    \<open>ServiceMaterialization\<close> and \<open>PositionService\<close> compare each operation with the handlers the
    projector runs on its batch; \<open>StoredLedger\<close> shows when a commit succeeds, and follows a database through commits and lease
    operations.
  \<^item> \<open>RustChars\<close>: characters of UTF-8 strings; \<open>Agenda\<close>: runtime/initiative/agenda.rs;
    \<open>InitiativeService\<close>: service.rs and worker.rs beside it; \<open>StateTyping\<close>: the
    typing of the projected maps; \<open>AgendaFacts\<close>: what the agenda selects passes the service's
    validation; \<open>InitiativeServiceFacts\<close>: what a run and a dismissal on an unchanged database
    come to.
  \<^item> \<open>PromptBudget\<close>: core/model_io.rs and runtime/prompt_budget.rs; \<open>SleepData\<close>: the data of
    core/sleep.rs, the window, the batch (runtime/sleep_batch.rs) and the checks of a
    deliberation; \<open>SleepContexts\<close>: recall and context of runtime/sleep.rs; \<open>SleepService\<close>: its
    coordinator; \<open>SleepWorker\<close>: runtime/sleep_worker.rs.
  \<^item> \<open>SleepAcceptance\<close>: what window, batch and context hold, and that the projector takes
    what a cycle commits; \<open>SleepCycle\<close>: a cycle among other processes, access by access, and
    one that nobody disturbs.
  \<^item> \<open>Access\<close>: programs of accesses to a database that others share, their errors and their
    faults; \<open>AccessFacts\<close>: a ledger followed from access to access while others append.
  \<^item> \<open>Payloads\<close>: the payloads of events, splitting and slicing of text, the total order on
    \<open>f32\<close>; \<open>ResponseProfiles\<close>: runtime/response_profile.rs and core/response_profile.rs; \<open>ContextSnapshots\<close>: runtime/context_builder.rs and
    core/context_snapshot.rs; \<open>ThoughtContexts\<close>: runtime/context.rs and runtime/contest.rs;
    \<open>Continuity\<close>: runtime/continuity and runtime/focus.rs.
  \<^item> \<open>Engine\<close> (errors, events, traces, memories), \<open>EngineOperations\<close> (approvals, operations,
    identity) and \<open>Interaction\<close> (\<open>handle\<close>): runtime/engine.rs. The state of the engine is the
    database together with the log of the capabilities invoked.
  \<^item> \<open>ModelRequests\<close>: runtime/prompt_renderer.rs and adapters/model_transport;
    \<open>ModelAnswers\<close>: adapters/primary_model.rs, from the wire formats to the two attempts of a
    call.
  \<^item> \<open>EngineFacts\<close>: how the engine's actions change database and log, and what remains of an
    operation once it was run; \<open>InteractionLedger\<close>: what an interaction leaves behind, and the ledger
    under it up to the commit of its decision.
  \<^item> \<open>SnapshotFacts\<close>: the budgets and the references of a context snapshot; \<open>FocusCommit\<close>: the
    projector takes whatever the resolution of an observation plans.
  \<^item> \<open>Scenario\<close>, \<open>SleepScenario\<close>, \<open>DbScenario\<close>, \<open>IntegrationScenario\<close>, \<open>InitiativeScenario\<close>,
    \<open>SleepRunScenario\<close>, \<open>EngineScenario\<close>, \<open>ConversationScenario\<close>: concrete runs that
    satisfy the hypotheses of the properties;
    \<open>StoreProperties\<close>, \<open>ClaimProperties\<close>, \<open>SleepProperties\<close>, \<open>AgencyProperties\<close>,
    \<open>IntegrationProperties\<close>, \<open>InitiativeProperties\<close>, \<open>SleepServiceProperties\<close>,
    \<open>EngineProperties\<close>, \<open>ContextProperties\<close>, \<open>ModelProperties\<close>: the properties.

  Conventions. Identifiers are 128-bit words tagged with their kind; \<open>u8\<close>, \<open>u32\<close>, \<open>u64\<close>,
  \<open>u128\<close>, \<open>i64\<close> are words, so that arithmetic wraps, saturates or is checked as in the code;
  text is a list of bytes. A fallible function returns \<open>error + value\<close>. Fresh identifiers and
  readings of the clock are arguments. A sleep cycle and an interaction number their accesses to
  the database, and before each of them other processes, among them the task that renews the
  lease and the background indexing, may change it (\<open>others\<close>). What another service reads from the database and what its
  commit later finds are separate arguments, so that other processes may commit in between.
  A transaction is atomic: it gives a new database or an error, and the argument \<open>flt\<close> says
  which of its SQL statements fails.

  Parameters. The record \<open>ext\<close> (SHA-256, UUID text, lower-casing, serde) and the record
  \<open>codec\<close> (text formats of the store) stand for third-party crates; the definitions take them
  as arguments and nothing is assumed of them but, where a property says so, that decoding
  inverts encoding (\<open>codec_reads_event\<close>, \<open>codec_reads_state\<close>, the serde hypotheses of the
  completion service, and \<open>payload_roundtrip\<close> for the values \<open>payload_values\<close> the integration
  service writes, \<open>talk_codec\<close> and \<open>operation_codec\<close> for the events of the engine), and that fresh
  identifiers are new (\<open>fresh_ids\<close>). The language model (\<open>think\<close>), semantic recall (\<open>recall\<close>), the
  capabilities (\<open>execute\<close>) and the serialisers of the context (\<open>printing\<close>) are arguments of the
  engine; a panic of the code is the error \<open>Panic\<close>, after which nothing more runs. The adapter
  that answers \<open>think\<close> and the calls of a sleep cycle is modelled apart (\<open>think_with\<close>,
  \<open>sleep_with\<close>), over the records \<open>wire\<close> (URLs and JSON texts), \<open>prompting\<close> (serde's values),
  \<open>answering\<close> (serde's decoders) and \<open>exchange\<close> (the HTTP exchanges of a call). SQLite row
  numbers are signed, so facts about the store are stated for ledgers of fewer than \<open>2 ^ 63\<close>
  events. All recursions of the model are structural or measured by the length of a string or
  list, the size of a number or the attempts left; no definition uses fuel.

  Not modelled: the derived tables that \<open>write_projection\<close> fills from the state (the model
  records which state they were written from), the methods of the engine that only pass a call on
  to a modelled service, recall by floating-point similarity and the index of embeddings (an
  argument of the services), the HTTP exchange itself, the adapters of capabilities, configuration
  and the command line; their effects are files, processes, network calls and terminal output.
\<close>

end
